(* ===== verification/Prelude.thy ===== *)
theory Prelude
  imports Complex_Main "HOL-Library.Word" "HOL-Library.AList" "HOL-Library.Product_Lexorder"
begin

text \<open>
  Shared vocabulary of the development: the machine integers and time of the Rust code, the
  result type, bounded histories (\<open>Vec\<close> and \<open>VecDeque\<close> with a maximum length), hash maps as
  association lists with distinct keys, \<open>Iterator::max_by\<close> and \<open>str::trim().is_empty()\<close>, and
  the interfaces several components share: wire codecs, keyed stores, single in-flight slots and
  transition systems. Each interface is a locale whose laws are discharged on the model of the
  code that provides it.
\<close>

section \<open>Collections of rewrite rules\<close>

named_theorems model_defs \<open>definitions of the operations of a component\<close>
named_theorems inv_defs \<open>definitions of the invariants\<close>
named_theorems wire_simps \<open>wire spellings of enumerations\<close>

section \<open>Machine integers, time and results\<close>

text \<open>
  \<open>i32\<close>, \<open>u32\<close> and \<open>u64\<close> keep their width; arithmetic on them wraps as in the release profile.
  Signed comparisons read the two's complement value (\<open>sint\<close>), never the unsigned order of
  \<open>word\<close>. \<open>DateTime<Utc>\<close> is the number of nanoseconds since the epoch.
\<close>

type_synonym i32 = "32 word"
type_synonym u32 = "32 word"
type_synonym u64 = "64 word"
type_synonym datetime = int

lemma sint_i32_range: "- (2 ^ 31) \<le> sint (a :: i32)" "sint (a :: i32) < 2 ^ 31"
  using sint_ge [of a] sint_lt [of a] by simp_all

lemma sint_i32_diff:
  "- (2 ^ 31) \<le> sint a - sint b \<Longrightarrow> sint a - sint b < 2 ^ 31 \<Longrightarrow>
   sint (a - b :: i32) = sint a - sint b"
  by (simp add: sint_word_diff signed_take_bit_int_eq_self)

lemma sint_i32_add:
  "- (2 ^ 31) \<le> sint a + sint b \<Longrightarrow> sint a + sint b < 2 ^ 31 \<Longrightarrow>
   sint (a + b :: i32) = sint a + sint b"
  by (simp add: sint_word_add signed_take_bit_int_eq_self)

text \<open>A \<open>Result<T, E>\<close>: \<open>Inl\<close> the error, \<open>Inr\<close> the value.\<close>

type_synonym ('e, 'a) result = "'e + 'a"

abbreviation Ok :: "'a \<Rightarrow> ('e, 'a) result" where
  "Ok \<equiv> Inr"

abbreviation Err :: "'e \<Rightarrow> ('e, 'a) result" where
  "Err \<equiv> Inl"

text \<open>\<open>chrono::Duration::num_seconds\<close> truncates towards zero.\<close>

definition num_seconds :: "int \<Rightarrow> int" where
  "num_seconds d = sgn d * (\<bar>d\<bar> div 1000000000)"

definition seconds :: "int \<Rightarrow> int" where
  "seconds n = n * 1000000000"

lemma num_seconds_seconds [simp]: "num_seconds (seconds n) = n"
  by (simp add: num_seconds_def seconds_def sgn_mult abs_mult sgn_if)

lemma seconds_diff: "seconds a - seconds b = seconds (a - b)"
  by (simp add: seconds_def algebra_simps)

lemma seconds_add: "seconds a + seconds b = seconds (a + b)"
  by (simp add: seconds_def algebra_simps)

lemma num_seconds_mono: "a \<le> b \<Longrightarrow> num_seconds a \<le> num_seconds b"
proof -
  assume ab: "a \<le> b"
  consider "0 \<le> a" | "a < 0" "0 \<le> b" | "a < 0" "b < 0" by linarith
  then show ?thesis
  proof cases
    case 1
    with ab show ?thesis by (auto simp: num_seconds_def sgn_if zdiv_mono1)
  next
    case 2
    then have "0 \<le> (- a) div 1000000000" "0 \<le> b div 1000000000"
      by (simp_all add: pos_imp_zdiv_nonneg_iff)
    with 2 show ?thesis by (auto simp: num_seconds_def sgn_if)
  next
    case 3
    with ab have "(- b) div 1000000000 \<le> (- a) div 1000000000"
      by (intro zdiv_mono1) auto
    with 3 show ?thesis by (simp add: num_seconds_def)
  qed
qed

section \<open>Bounded histories\<close>

text \<open>
  \<open>if v.len() >= max { v.remove(0) } v.push(x)\<close>, the shape of the transition history, of the
  meter values of a transaction and of the history of the transaction manager.
\<close>

definition push_bounded :: "nat \<Rightarrow> 'a list \<Rightarrow> 'a \<Rightarrow> 'a list" where
  "push_bounded mx xs x = (if mx \<le> length xs then tl xs else xs) @ [x]"

lemma push_bounded_not_Nil [simp]: "push_bounded mx xs x \<noteq> []"
  by (simp add: push_bounded_def)

lemma last_push_bounded [simp]: "last (push_bounded mx xs x) = x"
  by (simp add: push_bounded_def)

lemma length_push_bounded:
  "0 < mx \<Longrightarrow> length xs \<le> mx \<Longrightarrow> length (push_bounded mx xs x) \<le> mx"
  by (auto simp: push_bounded_def)

lemma length_push_bounded_full:
  "0 < mx \<Longrightarrow> length xs = mx \<Longrightarrow> length (push_bounded mx xs x) = mx"
  by (auto simp: push_bounded_def)

lemma set_push_bounded: "set (push_bounded mx xs x) \<subseteq> insert x (set xs)"
  by (cases xs) (auto simp: push_bounded_def)

lemma push_bounded_suffix:
  "length xs < mx \<Longrightarrow> push_bounded mx xs x = xs @ [x]"
  by (simp add: push_bounded_def)

lemma push_bounded_split:
  obtains ys where "push_bounded mx xs x = ys @ [x]" and "set ys \<subseteq> set xs"
    and "\<And>f. distinct (map f xs) \<Longrightarrow> distinct (map f ys)"
proof
  let ?ys = "if mx \<le> length xs then tl xs else xs"
  show "push_bounded mx xs x = ?ys @ [x]" by (simp add: push_bounded_def)
  show "set ?ys \<subseteq> set xs" by (cases xs) auto
  show "distinct (map f ?ys)" if "distinct (map f xs)" for f
    using that by (cases xs) auto
qed

text \<open>The history is always the most recent part of everything that was ever pushed.\<close>

lemma push_bounded_is_window:
  assumes "0 < mx"
  shows "push_bounded mx (drop (length ys - mx) ys) x
       = drop (length (ys @ [x]) - mx) (ys @ [x])"
proof (cases "mx \<le> length ys")
  case True
  then have "length (drop (length ys - mx) ys) = mx" by simp
  with True assms show ?thesis
    by (simp add: push_bounded_def tl_drop drop_Suc Suc_diff_le)
next
  case False
  then show ?thesis by (simp add: push_bounded_def)
qed

lemma foldl_push_bounded_window:
  assumes "0 < mx"
  shows "foldl (push_bounded mx) (drop (length ys - mx) ys) xs
       = drop (length (ys @ xs) - mx) (ys @ xs)"
proof (induction xs arbitrary: ys)
  case Nil
  then show ?case by simp
next
  case (Cons x xs)
  show ?case
    using Cons.IH [of "ys @ [x]"] by (simp add: push_bounded_is_window [OF assms])
qed

section \<open>Options\<close>

text \<open>The elements of an \<open>Option\<close> that is iterated over.\<close>

definition option_list :: "'a option \<Rightarrow> 'a list" where
  "option_list x = (case x of Some v \<Rightarrow> [v] | None \<Rightarrow> [])"

text \<open>\<open>Option::is_none_or\<close> and \<open>Option::is_some_and\<close>.\<close>

definition is_none_or :: "'a option \<Rightarrow> ('a \<Rightarrow> bool) \<Rightarrow> bool" where
  "is_none_or o1 p = (case o1 of None \<Rightarrow> True | Some v \<Rightarrow> p v)"

definition is_some_and :: "'a option \<Rightarrow> ('a \<Rightarrow> bool) \<Rightarrow> bool" where
  "is_some_and o1 p = (case o1 of None \<Rightarrow> False | Some v \<Rightarrow> p v)"

definition unwrap_or :: "'a option \<Rightarrow> 'a \<Rightarrow> 'a" where
  "unwrap_or o1 d = (case o1 of None \<Rightarrow> d | Some v \<Rightarrow> v)"

lemma is_none_or_simps [simp]:
  "is_none_or None p" "is_none_or (Some v) p = p v"
  by (simp_all add: is_none_or_def)

lemma is_some_and_simps [simp]:
  "\<not> is_some_and None p" "is_some_and (Some v) p = p v"
  by (simp_all add: is_some_and_def)

lemma unwrap_or_simps [simp]:
  "unwrap_or None d = d" "unwrap_or (Some v) d = v"
  by (simp_all add: unwrap_or_def)

section \<open>Blank strings\<close>

text \<open>
  \<open>s.trim().is_empty()\<close>: every character of \<open>s\<close> is Unicode white space. A Rust string is its
  UTF-8 bytes, so the test reads the encodings of the characters with the White\_Space property:
  tab to carriage return, space, U+0085, U+00A0, U+1680, U+2000 to U+200A, U+2028, U+2029,
  U+202F, U+205F and U+3000.
\<close>

definition ascii_ws :: "nat \<Rightarrow> bool" where
  "ascii_ws b \<longleftrightarrow> (9 \<le> b \<and> b \<le> 13) \<or> b = 32"

definition ws2 :: "nat \<Rightarrow> nat \<Rightarrow> bool" where
  "ws2 a b \<longleftrightarrow> a = 194 \<and> (b = 133 \<or> b = 160)"

definition ws3 :: "nat \<Rightarrow> nat \<Rightarrow> nat \<Rightarrow> bool" where
  "ws3 a b c \<longleftrightarrow> (a = 225 \<and> b = 154 \<and> c = 128)
     \<or> (a = 226 \<and> b = 128 \<and> ((128 \<le> c \<and> c \<le> 138) \<or> c = 168 \<or> c = 169 \<or> c = 175))
     \<or> (a = 226 \<and> b = 129 \<and> c = 159)
     \<or> (a = 227 \<and> b = 128 \<and> c = 128)"

fun blank_bytes :: "nat list \<Rightarrow> bool" where
  "blank_bytes [] = True"
| "blank_bytes [a] = ascii_ws a"
| "blank_bytes [a, b] = ((ascii_ws a \<and> blank_bytes [b]) \<or> ws2 a b)"
| "blank_bytes (a # b # c # r) =
     (if ascii_ws a then blank_bytes (b # c # r)
      else if ws2 a b then blank_bytes (c # r)
      else ws3 a b c \<and> blank_bytes r)"

definition is_blank :: "string \<Rightarrow> bool" where
  "is_blank s = blank_bytes (map of_char s)"

lemma is_blank_Nil [simp]: "is_blank []"
  by (simp add: is_blank_def)

text \<open>\<open>str::trim\<close> on the UTF-8 bytes.\<close>

fun trim_start :: "string \<Rightarrow> string" where
  "trim_start [] = []"
| "trim_start [a] = (if is_blank [a] then [] else [a])"
| "trim_start [a, b] = (if is_blank [a] then trim_start [b] else if is_blank [a, b] then [] else [a, b])"
| "trim_start (a # b # c # r) =
     (if is_blank [a] then trim_start (b # c # r)
      else if is_blank [a, b] then trim_start (c # r)
      else if is_blank [a, b, c] then trim_start r
      else a # b # c # r)"

fun trim_end :: "string \<Rightarrow> string" where
  "trim_end [] = []"
| "trim_end (c # cs) = (if is_blank (c # cs) then [] else c # trim_end cs)"

definition str_trim :: "string \<Rightarrow> string" where
  "str_trim s = trim_end (trim_start s)"

text \<open>Decimal digits.\<close>

definition is_digit :: "char \<Rightarrow> bool" where
  "is_digit c \<longleftrightarrow> 48 \<le> (of_char c :: nat) \<and> (of_char c :: nat) \<le> 57"

definition digits_value :: "string \<Rightarrow> nat" where
  "digits_value ds = foldl (\<lambda>n c. n * 10 + (of_char c - 48)) 0 ds"

text \<open>\<open>iter().map(|x| self.op(x)).collect()\<close> with an operation that changes \<open>self\<close>.\<close>

fun map_state :: "('a \<Rightarrow> 's \<Rightarrow> 'b \<times> 's) \<Rightarrow> 'a list \<Rightarrow> 's \<Rightarrow> 'b list \<times> 's" where
  "map_state f [] s = ([], s)"
| "map_state f (x # xs) s = (let (y, s1) = f x s; (ys, s2) = map_state f xs s1 in (y # ys, s2))"

lemma map_state_length: "length (fst (map_state f xs s)) = length xs"
  by (induction xs arbitrary: s) (simp_all add: case_prod_beta Let_def)

lemma map_state_snd: "snd (map_state f xs s) = fold (\<lambda>x s. snd (f x s)) xs s"
  by (induction xs arbitrary: s) (simp_all add: case_prod_beta Let_def)

text \<open>\<open>str::contains\<close>.\<close>

definition str_contains :: "string \<Rightarrow> string \<Rightarrow> bool" where
  "str_contains p s = list_ex (\<lambda>i. take (length p) (drop i s) = p) [0..<Suc (length s)]"

section \<open>\<open>Iterator::max_by\<close>\<close>

text \<open>
  \<open>max_by\<close> and \<open>max_by_key\<close> return the \<^emph>\<open>last\<close> of several maximal elements: the scan replaces
  its candidate by every element that is at least as great.
\<close>

fun max_by_from :: "('a \<Rightarrow> 'k::linorder) \<Rightarrow> 'a \<Rightarrow> 'a list \<Rightarrow> 'a" where
  "max_by_from key best [] = best"
| "max_by_from key best (x # xs) = max_by_from key (if key best \<le> key x then x else best) xs"

definition max_by_key :: "('a \<Rightarrow> 'k::linorder) \<Rightarrow> 'a list \<Rightarrow> 'a option" where
  "max_by_key key xs = (case xs of [] \<Rightarrow> None | x # r \<Rightarrow> Some (max_by_from key x r))"

lemma max_by_from_in: "max_by_from key b xs \<in> insert b (set xs)"
  by (induction xs arbitrary: b) fastforce+

lemma max_by_from_ge:
  "key b \<le> key (max_by_from key b xs) \<and> (\<forall>x\<in>set xs. key x \<le> key (max_by_from key b xs))"
proof (induction xs arbitrary: b)
  case Nil
  then show ?case by simp
next
  case (Cons x xs)
  show ?case using Cons.IH [of "if key b \<le> key x then x else b"]
    by (auto split: if_splits)
qed

lemma max_by_key_None [simp]: "max_by_key key xs = None \<longleftrightarrow> xs = []"
  by (simp add: max_by_key_def split: list.splits)

lemma max_by_key_Nil [simp]: "max_by_key key [] = None"
  by (simp add: max_by_key_def)

lemma max_by_key_in: "max_by_key key xs = Some m \<Longrightarrow> m \<in> set xs"
  using max_by_from_in by (fastforce simp: max_by_key_def split: list.splits)

lemma max_by_key_ge: "max_by_key key xs = Some m \<Longrightarrow> x \<in> set xs \<Longrightarrow> key x \<le> key m"
  using max_by_from_ge by (fastforce simp: max_by_key_def split: list.splits)

text \<open>Of equal maxima the last one wins.\<close>

lemma max_by_from_append:
  "max_by_from key b (xs @ ys) = max_by_from key (max_by_from key b xs) ys"
  by (induction xs arbitrary: b) auto

lemma max_by_key_snoc:
  "max_by_key key (xs @ [x]) = (case max_by_key key xs of None \<Rightarrow> Some x
     | Some m \<Rightarrow> Some (if key m \<le> key x then x else m))"
  by (cases xs) (auto simp: max_by_key_def max_by_from_append)

section \<open>Hash maps\<close>

text \<open>
  A \<open>HashMap\<close> is an association list with distinct keys: its order stands for the unspecified
  iteration order, which no theorem fixes. \<open>insert\<close> is \<open>AList.update\<close>, \<open>remove\<close> is
  \<open>AList.delete\<close>, \<open>get\<close> is \<open>map_of\<close>, and \<open>len\<close> is the length of the list.
\<close>

type_synonym ('k, 'v) hmap = "('k \<times> 'v) list"

definition hm_wf :: "('k, 'v) hmap \<Rightarrow> bool" where
  "hm_wf m = distinct (map fst m)"

definition hm_contains :: "('k, 'v) hmap \<Rightarrow> 'k \<Rightarrow> bool" where
  "hm_contains m k = (map_of m k \<noteq> None)"

lemma hm_wf_Nil [simp]: "hm_wf []"
  by (simp add: hm_wf_def)

lemma hm_wf_update [simp]: "hm_wf m \<Longrightarrow> hm_wf (AList.update k v m)"
  by (simp add: hm_wf_def distinct_update)

lemma hm_wf_delete [simp]: "hm_wf m \<Longrightarrow> hm_wf (AList.delete k m)"
  by (simp add: hm_wf_def distinct_delete)

lemma hm_get_update: "map_of (AList.update k v m) k' = (if k' = k then Some v else map_of m k')"
  by (simp add: update_conv')

lemma hm_get_delete: "map_of (AList.delete k m) k' = (if k' = k then None else map_of m k')"
  by (simp add: delete_conv')

lemma update_append_new: "map_of kvs i = None \<Longrightarrow> AList.update i v kvs = kvs @ [(i, v)]"
  by (induction kvs) (auto split: if_splits)

lemma hm_contains_iff: "hm_contains m k \<longleftrightarrow> k \<in> fst ` set m"
  by (simp add: hm_contains_def map_of_eq_None_iff)

lemma hm_wf_filter [simp]: "hm_wf m \<Longrightarrow> hm_wf (filter p m)"
  by (simp add: hm_wf_def distinct_map_filter)

lemma hm_length_card: "hm_wf m \<Longrightarrow> length m = card (dom (map_of m))"
  by (metis dom_map_of_conv_image_fst hm_wf_def length_map list.set_map distinct_card)

lemma hm_length_update:
  "hm_wf m \<Longrightarrow> length (AList.update k v m) = (if hm_contains m k then length m else Suc (length m))"
  by (induction m) (auto simp: hm_wf_def hm_contains_def)

lemma hm_length_delete:
  "hm_wf m \<Longrightarrow> length (AList.delete k m) = (if hm_contains m k then length m - 1 else length m)"
proof (induction m)
  case Nil
  then show ?case by (simp add: hm_contains_def)
next
  case (Cons p m)
  obtain k1 v1 where p: "p = (k1, v1)" by (cases p)
  from Cons.prems have wf: "hm_wf m" and fresh: "k1 \<notin> fst ` set m"
    by (simp_all add: hm_wf_def p)
  show ?case
  proof (cases "k = k1")
    case True
    with fresh have "\<not> hm_contains m k" by (simp add: hm_contains_iff)
    with True p Cons.IH [OF wf] show ?thesis
      by (simp add: hm_contains_def)
  next
    case False
    have "hm_contains m k \<Longrightarrow> 0 < length m"
      by (cases m) (auto simp: hm_contains_def)
    with False p Cons.IH [OF wf] show ?thesis
      by (auto simp: hm_contains_def)
  qed
qed

text \<open>Two well-formed maps with the same lookups have the same number of entries.\<close>

lemma hm_length_eq: "hm_wf m \<Longrightarrow> hm_wf n \<Longrightarrow> map_of m = map_of n \<Longrightarrow> length m = length n"
  by (simp add: hm_length_card)

section \<open>Decimal text\<close>

text \<open>\<open>Display\<close> of an integer: decimal digits with a leading minus sign.\<close>

definition digit_char :: "nat \<Rightarrow> char" where
  "digit_char d = char_of (48 + d)"

fun show_nat :: "nat \<Rightarrow> string" where
  "show_nat n = (if n < 10 then [digit_char n] else show_nat (n div 10) @ [digit_char (n mod 10)])"

declare show_nat.simps [simp del]

definition show_i32 :: "i32 \<Rightarrow> string" where
  "show_i32 i = (if sint i < 0 then ''-'' @ show_nat (nat (- sint i)) else show_nat (nat (sint i)))"

section \<open>Interfaces\<close>

subsection \<open>Wire codecs\<close>

text \<open>
  An enumeration with \<open>#[serde(rename ...)]\<close> spellings: the encoder writes one spelling per
  value, the decoder is total over the spellings and refuses every other string.
\<close>

locale wire_codec =
  fixes to_wire :: "'a \<Rightarrow> string"
    and of_wire :: "string \<Rightarrow> 'a option"
  assumes of_to: "of_wire (to_wire x) = Some x"
    and to_of: "of_wire s = Some x \<Longrightarrow> to_wire x = s"
begin

lemma to_wire_inj: "to_wire x = to_wire y \<Longrightarrow> x = y"
  by (metis of_to option.inject)

lemma of_wire_Some_iff: "of_wire s = Some x \<longleftrightarrow> s = to_wire x"
  using of_to to_of by auto

lemma of_wire_None_iff: "of_wire s = None \<longleftrightarrow> (\<forall>x. s \<noteq> to_wire x)"
  using of_wire_Some_iff by (metis not_Some_eq)

end

text \<open>Decoding by searching the list of all values is the derived \<open>Deserialize\<close>.\<close>

definition decode_by :: "'a list \<Rightarrow> ('a \<Rightarrow> string) \<Rightarrow> string \<Rightarrow> 'a option" where
  "decode_by vals enc s = List.find (\<lambda>x. enc x = s) vals"

lemma decode_by_of_to:
  assumes "\<And>x. x \<in> set vals" and "\<And>x y. enc x = enc y \<Longrightarrow> x = y"
  shows "decode_by vals enc (enc x) = Some x"
proof -
  obtain y where "List.find (\<lambda>y. enc y = enc x) vals = Some y"
    using assms(1) [of x] by (cases "List.find (\<lambda>y. enc y = enc x) vals") (auto simp: find_None_iff)
  then show ?thesis
    using assms(2) by (auto simp: decode_by_def find_Some_iff)
qed

lemma decode_by_to_of: "decode_by vals enc s = Some x \<Longrightarrow> enc x = s"
  by (auto simp: decode_by_def find_Some_iff)

lemma wire_codec_decode_by:
  assumes "\<And>x. x \<in> set vals" and "\<And>x y. enc x = enc y \<Longrightarrow> x = y"
  shows "wire_codec enc (decode_by vals enc)"
  using decode_by_of_to [OF assms] decode_by_to_of by unfold_locales

lemma wire_codec_distinct:
  assumes complete: "\<And>x. x \<in> set vals" and dist: "distinct (map enc vals)"
  shows "wire_codec enc (decode_by vals enc)"
proof (rule wire_codec_decode_by)
  show "x \<in> set vals" for x by (rule complete)
  from dist have "inj_on enc (set vals)" by (simp add: distinct_map)
  then show "x = y" if "enc x = enc y" for x y
    using that complete by (auto dest: inj_onD)
qed

subsection \<open>Keyed stores\<close>

text \<open>
  The stores of installed objects (certificates, display messages, network profiles, charging
  profiles per EVSE) share one contract: \<open>put\<close> is an upsert that returns the displaced value,
  \<open>del\<close> is an idempotent removal that returns the removed value, \<open>get\<close> reads.
\<close>

locale keyed_store =
  fixes empty :: 's
    and put :: "'k \<Rightarrow> 'v \<Rightarrow> 's \<Rightarrow> 'v option \<times> 's"
    and get :: "'s \<Rightarrow> 'k \<Rightarrow> 'v option"
    and del :: "'k \<Rightarrow> 's \<Rightarrow> 'v option \<times> 's"
    and size_of :: "'s \<Rightarrow> nat"
    and invar :: "'s \<Rightarrow> bool"
  assumes get_empty: "get empty k = None"
    and put_displaced: "invar s \<Longrightarrow> fst (put k v s) = get s k"
    and get_put: "invar s \<Longrightarrow> get (snd (put k v s)) k' = (if k' = k then Some v else get s k')"
    and del_removed: "invar s \<Longrightarrow> fst (del k s) = get s k"
    and get_del: "invar s \<Longrightarrow> get (snd (del k s)) k' = (if k' = k then None else get s k')"
    and invar_empty: "invar empty"
    and invar_put: "invar s \<Longrightarrow> invar (snd (put k v s))"
    and invar_del: "invar s \<Longrightarrow> invar (snd (del k s))"
    and size_card: "invar s \<Longrightarrow> size_of s = card (dom (get s))"
    and finite_keys: "invar s \<Longrightarrow> finite (dom (get s))"
begin

lemma get_put_same: "invar s \<Longrightarrow> get (snd (put k v s)) k = Some v"
  by (simp add: get_put)

lemma put_put: "invar s \<Longrightarrow> get (snd (put k w (snd (put k v s)))) = get (snd (put k w s))"
  by (rule ext) (simp add: get_put invar_put)

lemma del_put: "invar s \<Longrightarrow> get s k = None \<Longrightarrow> get (snd (del k (snd (put k v s)))) = get s"
  by (rule ext) (simp add: get_put get_del invar_put)

lemma del_idem: "invar s \<Longrightarrow> fst (del k (snd (del k s))) = None"
  by (simp add: del_removed get_del invar_del)

lemma size_put: "invar s \<Longrightarrow> size_of (snd (put k v s)) = (if get s k = None then Suc (size_of s) else size_of s)"
proof -
  assume inv: "invar s"
  have "dom (get (snd (put k v s))) = insert k (dom (get s))"
    using inv by (auto simp: get_put split: if_splits)
  then show ?thesis
    using inv by (simp add: size_card invar_put finite_keys card_insert_if domIff)
qed

lemma size_del: "invar s \<Longrightarrow> size_of (snd (del k s)) = (if get s k = None then size_of s else size_of s - 1)"
proof -
  assume inv: "invar s"
  have "dom (get (snd (del k s))) = dom (get s) - {k}"
    using inv by (auto simp: get_del split: if_splits)
  then show ?thesis
    using inv by (simp add: size_card invar_del finite_keys card_Diff_singleton_if domIff)
qed

lemma size_bound:
  assumes "invar s" and "finite U" and "dom (get s) \<subseteq> U"
  shows "size_of s \<le> card U"
  using assms by (simp add: size_card card_mono)

end

text \<open>The operations of a \<open>HashMap\<close> meet the contract.\<close>

definition hm_put :: "'k \<Rightarrow> 'v \<Rightarrow> ('k, 'v) hmap \<Rightarrow> 'v option \<times> ('k, 'v) hmap" where
  "hm_put k v m = (map_of m k, AList.update k v m)"

definition hm_del :: "'k \<Rightarrow> ('k, 'v) hmap \<Rightarrow> 'v option \<times> ('k, 'v) hmap" where
  "hm_del k m = (map_of m k, AList.delete k m)"

interpretation hm: keyed_store "[]" hm_put map_of hm_del length hm_wf
  by unfold_locales
    (simp_all add: hm_put_def hm_del_def hm_get_update hm_get_delete hm_length_card
      finite_dom_map_of)

subsection \<open>Single in-flight slots\<close>

text \<open>
  One request is served at a time. \<open>begin_slot\<close> installs a request and reports the one it
  displaced; \<open>complete_slot\<close> is the compare-and-clear that settles a request only while it still
  owns the slot, so the task of a superseded request cannot erase its successor.
\<close>

locale in_flight_slot =
  fixes slot :: "'s \<Rightarrow> 'r option"
    and begin_slot :: "'r \<Rightarrow> 's \<Rightarrow> 'r option \<times> 's"
    and complete_slot :: "'r \<Rightarrow> 's \<Rightarrow> bool \<times> 's"
    and clear_slot :: "'s \<Rightarrow> 'r option \<times> 's"
  assumes begin_result: "fst (begin_slot r s) = slot s"
    and begin_slot_eq: "slot (snd (begin_slot r s)) = Some r"
    and complete_result: "fst (complete_slot r s) \<longleftrightarrow> slot s = Some r"
    and complete_slot_eq:
      "slot (snd (complete_slot r s)) = (if slot s = Some r then None else slot s)"
    and clear_result: "fst (clear_slot s) = slot s"
    and clear_slot_eq: "slot (snd (clear_slot s)) = None"
begin

lemma complete_superseded:
  assumes "r' \<noteq> r"
  shows "\<not> fst (complete_slot r (snd (begin_slot r' s)))"
    and "slot (snd (complete_slot r (snd (begin_slot r' s)))) = Some r'"
  using assms by (simp_all add: complete_result complete_slot_eq begin_slot_eq)

lemma complete_owner:
  "fst (complete_slot r (snd (begin_slot r s)))
   \<and> slot (snd (complete_slot r (snd (begin_slot r s)))) = None"
  by (simp add: complete_result complete_slot_eq begin_slot_eq)

lemma complete_once:
  "\<not> fst (complete_slot r (snd (complete_slot r s)))"
  by (simp add: complete_result complete_slot_eq)

lemma clear_idem: "fst (clear_slot (snd (clear_slot s))) = None"
  by (simp add: clear_result clear_slot_eq)

end

subsection \<open>Transition systems\<close>

text \<open>
  A component driven by a list of commands. An invariant that every command keeps holds after
  every run, whatever the order of the commands.
\<close>

locale machine =
  fixes step :: "'c \<Rightarrow> 's \<Rightarrow> 's"
    and inv :: "'s \<Rightarrow> bool"
  assumes step_inv: "inv s \<Longrightarrow> inv (step c s)"
begin

lemma run_inv: "inv s \<Longrightarrow> inv (fold step cs s)"
  by (induction cs arbitrary: s) (simp_all add: step_inv)

lemma run_inv_prefix: "inv s \<Longrightarrow> inv (fold step (take n cs) s)"
  by (rule run_inv)

end

end
