(* ===== verification/F64.thy ===== *)
theory F64
  imports Prelude "HOL-Library.Log_Nat"
begin

text \<open>
  IEEE-754 binary64 as the Rust code uses it: limits, meter readings and monitor thresholds are
  \<open>f64\<close>. A value is a NaN, an infinity or a finite rational; the arithmetic rounds the exact
  result to nearest, ties to even, with gradual underflow and overflow to an infinity.
  The two zeroes are identified; the one place of the modelled code that tells them apart is the comparison of
  monitor thresholds by their bits (\<open>is_duplicate\<close> in \<open>Device_Model\<close>).
\<close>

section \<open>Values and rounding\<close>

datatype f64 = NaN | NegInf | PosInf | Finite rat

definition pow2 :: "int \<Rightarrow> rat" where
  "pow2 e = (if 0 \<le> e then 2 ^ nat e else 1 / 2 ^ nat (- e))"

text \<open>The exponent \<open>e\<close> with \<open>2\<^sup>e \<le> x < 2\<^sup>e\<^sup>+\<^sup>1\<close> of a positive rational.\<close>

definition binade :: "rat \<Rightarrow> int" where
  "binade x = (let (p, q) = quotient_of x; e = bitlen p - bitlen q
               in if pow2 e \<le> x then e else e - 1)"

text \<open>Round half to even on the integers.\<close>

definition round_even :: "rat \<Rightarrow> int" where
  "round_even x = (let f = \<lfloor>x\<rfloor>; d = x - of_int f
                   in if d < 1 / 2 then f
                      else if d > 1 / 2 then f + 1
                      else if even f then f else f + 1)"

text \<open>The spacing of the binary64 values around \<open>x\<close>.\<close>

definition ulp :: "rat \<Rightarrow> rat" where
  "ulp x = (if x = 0 then pow2 (- 1074) else pow2 (max (binade \<bar>x\<bar> - 52) (- 1074)))"

definition rnd :: "rat \<Rightarrow> f64" where
  "rnd x = (let r = of_int (round_even (x / ulp x)) * ulp x
            in if r \<ge> pow2 1024 then PosInf
               else if r \<le> - pow2 1024 then NegInf
               else Finite r)"

section \<open>Arithmetic\<close>

fun f64_neg :: "f64 \<Rightarrow> f64" where
  "f64_neg NaN = NaN"
| "f64_neg NegInf = PosInf"
| "f64_neg PosInf = NegInf"
| "f64_neg (Finite x) = Finite (- x)"

fun f64_abs :: "f64 \<Rightarrow> f64" where
  "f64_abs NaN = NaN"
| "f64_abs NegInf = PosInf"
| "f64_abs PosInf = PosInf"
| "f64_abs (Finite x) = Finite \<bar>x\<bar>"

fun f64_add :: "f64 \<Rightarrow> f64 \<Rightarrow> f64" where
  "f64_add (Finite x) (Finite y) = rnd (x + y)"
| "f64_add NaN y = NaN"
| "f64_add x NaN = NaN"
| "f64_add PosInf NegInf = NaN"
| "f64_add NegInf PosInf = NaN"
| "f64_add PosInf y = PosInf"
| "f64_add NegInf y = NegInf"
| "f64_add x PosInf = PosInf"
| "f64_add x NegInf = NegInf"

definition f64_sub :: "f64 \<Rightarrow> f64 \<Rightarrow> f64" where
  "f64_sub x y = f64_add x (f64_neg y)"

text \<open>Multiplication; an infinity times zero is a NaN.\<close>

definition signed_inf :: "rat \<Rightarrow> f64" where
  "signed_inf s = (if s > 0 then PosInf else if s < 0 then NegInf else NaN)"

fun f64_sgn :: "f64 \<Rightarrow> rat" where
  "f64_sgn NaN = 0"
| "f64_sgn NegInf = - 1"
| "f64_sgn PosInf = 1"
| "f64_sgn (Finite x) = sgn x"

definition f64_mul :: "f64 \<Rightarrow> f64 \<Rightarrow> f64" where
  "f64_mul x y = (case (x, y) of
      (Finite a, Finite b) \<Rightarrow> rnd (a * b)
    | (NaN, _) \<Rightarrow> NaN
    | (_, NaN) \<Rightarrow> NaN
    | _ \<Rightarrow> signed_inf (f64_sgn x * f64_sgn y))"

text \<open>
  Division. The modelled code divides by a positive product only, so the zero divisor, whose
  sign would matter, is a NaN here.
\<close>

definition f64_div :: "f64 \<Rightarrow> f64 \<Rightarrow> f64" where
  "f64_div x y = (case (x, y) of
      (Finite a, Finite b) \<Rightarrow> if b = 0 then NaN else rnd (a / b)
    | (NaN, _) \<Rightarrow> NaN
    | (_, NaN) \<Rightarrow> NaN
    | (Finite a, _) \<Rightarrow> Finite 0
    | (_, Finite b) \<Rightarrow> if b = 0 then NaN else signed_inf (f64_sgn x * f64_sgn y)
    | _ \<Rightarrow> NaN)"

section \<open>Comparison and conversion\<close>

text \<open>Every comparison with a NaN is false.\<close>

fun f64_le :: "f64 \<Rightarrow> f64 \<Rightarrow> bool" where
  "f64_le NaN y = False"
| "f64_le x NaN = False"
| "f64_le NegInf y = True"
| "f64_le x PosInf = True"
| "f64_le (Finite x) (Finite y) = (x \<le> y)"
| "f64_le x y = False"

definition f64_lt :: "f64 \<Rightarrow> f64 \<Rightarrow> bool" where
  "f64_lt x y = (f64_le x y \<and> \<not> f64_le y x)"

definition f64_eq :: "f64 \<Rightarrow> f64 \<Rightarrow> bool" where
  "f64_eq x y = (f64_le x y \<and> f64_le y x)"

text \<open>\<open>f64::EPSILON\<close>.\<close>

definition f64_epsilon :: f64 where
  "f64_epsilon = Finite (pow2 (- 52))"

text \<open>\<open>x as f64\<close> of a 32-bit integer is exact; \<open>x as i32\<close> truncates and saturates, a NaN gives 0.\<close>

definition f64_of_i32 :: "i32 \<Rightarrow> f64" where
  "f64_of_i32 n = Finite (of_int (sint n))"

definition rat_trunc :: "rat \<Rightarrow> int" where
  "rat_trunc x = (if 0 \<le> x then \<lfloor>x\<rfloor> else \<lceil>x\<rceil>)"

fun f64_as_i32 :: "f64 \<Rightarrow> i32" where
  "f64_as_i32 NaN = 0"
| "f64_as_i32 NegInf = word_of_int (- (2 ^ 31))"
| "f64_as_i32 PosInf = word_of_int (2 ^ 31 - 1)"
| "f64_as_i32 (Finite x) = word_of_int (max (- (2 ^ 31)) (min (2 ^ 31 - 1) (rat_trunc x)))"

section \<open>Order laws\<close>

definition not_nan :: "f64 \<Rightarrow> bool" where
  "not_nan x \<longleftrightarrow> x \<noteq> NaN"

lemma f64_le_refl: "not_nan x \<Longrightarrow> f64_le x x"
  by (cases x) (simp_all add: not_nan_def)

lemma f64_le_trans: "f64_le x y \<Longrightarrow> f64_le y z \<Longrightarrow> f64_le x z"
  by (cases x; cases y; cases z) simp_all

lemma f64_le_antisym: "f64_le x y \<Longrightarrow> f64_le y x \<Longrightarrow> x = y"
  by (cases x; cases y) simp_all

lemma f64_le_linear: "not_nan x \<Longrightarrow> not_nan y \<Longrightarrow> f64_le x y \<or> f64_le y x"
  by (cases x; cases y) (auto simp: not_nan_def)

lemma f64_le_not_nan: "f64_le x y \<Longrightarrow> not_nan x \<and> not_nan y"
  by (cases x; cases y) (simp_all add: not_nan_def)

lemma f64_not_le: "not_nan x \<Longrightarrow> not_nan y \<Longrightarrow> \<not> f64_le x y \<Longrightarrow> f64_le y x"
  using f64_le_linear by blast

lemma f64_lt_Finite [simp]: "f64_lt (Finite x) (Finite y) \<longleftrightarrow> x < y"
  by (auto simp: f64_lt_def)

lemma f64_eq_iff: "f64_eq x y \<longleftrightarrow> x = y \<and> not_nan x"
  using f64_le_antisym f64_le_refl f64_le_not_nan by (auto simp: f64_eq_def)

lemma not_nan_Finite [simp]: "not_nan (Finite x)" "not_nan PosInf" "not_nan NegInf" "\<not> not_nan NaN"
  by (simp_all add: not_nan_def)

lemma rnd_not_nan [simp]: "not_nan (rnd x)"
  by (simp add: rnd_def Let_def)

section \<open>Rounding laws\<close>

lemma pow2_pos [simp]: "0 < pow2 e"
  by (simp add: pow2_def)

lemma ulp_pos [simp]: "0 < ulp x"
  by (simp add: ulp_def)

lemma round_even_int [simp]: "round_even (of_int n) = n"
  by (simp add: round_even_def)

lemma round_even_0 [simp]: "round_even 0 = 0"
  using round_even_int [of 0] by simp

lemma rnd_0 [simp]: "rnd 0 = Finite 0"
  by (simp add: rnd_def Let_def not_le)

lemma round_even_nonneg: "0 \<le> x \<Longrightarrow> 0 \<le> round_even x"
  by (auto simp: round_even_def Let_def)

lemma round_even_nonpos: "x \<le> 0 \<Longrightarrow> round_even x \<le> 0"
proof -
  assume x: "x \<le> 0"
  show ?thesis
  proof (cases "x = 0")
    case True
    then show ?thesis by simp
  next
    case False
    with x have "\<lfloor>x\<rfloor> \<le> - 1" by (simp add: floor_le_iff)
    then show ?thesis by (auto simp: round_even_def Let_def)
  qed
qed

lemma rnd_nonneg: "0 \<le> x \<Longrightarrow> f64_le (Finite 0) (rnd x)"
proof -
  assume "0 \<le> x"
  then have "0 \<le> round_even (x / ulp x)"
    by (intro round_even_nonneg) (simp add: less_imp_le)
  then have "0 \<le> of_int (round_even (x / ulp x)) * ulp x"
    by (simp add: less_imp_le)
  moreover have "- pow2 1024 < 0" by simp
  ultimately show ?thesis by (auto simp: rnd_def Let_def)
qed

lemma f64_of_i32_not_nan [simp]: "not_nan (f64_of_i32 n)"
  by (simp add: f64_of_i32_def)

lemma f64_sub_self: "f64_sub (Finite x) (Finite x) = Finite 0"
  by (simp add: f64_sub_def)

text \<open>Converting a 32-bit integer to \<open>f64\<close> and back is the identity.\<close>

lemma f64_as_i32_of_i32: "f64_as_i32 (f64_of_i32 n) = n"
proof -
  have "- (2 ^ 31) \<le> sint n" "sint n \<le> 2 ^ 31 - 1"
    using sint_ge [of n] sint_lt [of n] by simp_all
  then have "max (- (2 ^ 31)) (min (2 ^ 31 - 1) (sint n)) = sint n" by linarith
  moreover have "rat_trunc (of_int (sint n)) = sint n"
    unfolding rat_trunc_def by (simp only: floor_of_int ceiling_of_int if_cancel)
  ultimately show ?thesis
    by (simp only: f64_of_i32_def f64_as_i32.simps) simp
qed

text \<open>The saturating cast never leaves the 32-bit range and is monotone on non-NaN values.\<close>

lemma rat_trunc_mono: "x \<le> y \<Longrightarrow> rat_trunc x \<le> rat_trunc y"
proof -
  assume xy: "x \<le> y"
  consider "0 \<le> x" | "x < 0" "0 \<le> y" | "y < 0" by linarith
  then show ?thesis
  proof cases
    case 1
    with xy show ?thesis by (simp add: rat_trunc_def floor_mono)
  next
    case 2
    then have "\<lceil>x\<rceil> \<le> 0" and "0 \<le> \<lfloor>y\<rfloor>" by (simp_all add: ceiling_le_iff)
    then have "\<lceil>x\<rceil> \<le> \<lfloor>y\<rfloor>" by linarith
    with 2 show ?thesis by (simp add: rat_trunc_def)
  next
    case 3
    with xy show ?thesis by (simp add: rat_trunc_def ceiling_mono)
  qed
qed

lemma sint_word_of_int_i32:
  "- (2 ^ 31) \<le> k \<Longrightarrow> k \<le> 2 ^ 31 - 1 \<Longrightarrow> sint (word_of_int k :: i32) = k"
  by (simp add: sint_sbintrunc' signed_take_bit_int_eq_self)

lemma sint_f64_as_i32_Finite:
  "sint (f64_as_i32 (Finite x)) = max (- (2 ^ 31)) (min (2 ^ 31 - 1) (rat_trunc x))"
  unfolding f64_as_i32.simps by (rule sint_word_of_int_i32) auto

section \<open>Whole numbers stay apart\<close>

lemma binade_of_int:
  assumes "0 < n"
  shows "binade (of_int n) = bitlen n - 1" and "pow2 (bitlen n - 1) \<le> of_int n" and "0 \<le> bitlen n - 1"
proof -
  have b: "2 ^ nat (bitlen n - 1) \<le> n" using bitlen_bounds [OF assms] by simp
  show nn: "0 \<le> bitlen n - 1" using assms bitlen_bounds [OF assms] by (cases "bitlen n \<le> 0") simp_all
  then show le: "pow2 (bitlen n - 1) \<le> of_int n"
    using b by (simp add: pow2_def)
  have "bitlen 1 = (1 :: int)" by (simp add: bitlen_def floorlog_def)
  moreover have "quotient_of (of_int n) = (n, 1)" by (simp add: of_int_rat quotient_of_Fract)
  ultimately show "binade (of_int n) = bitlen n - 1"
    using le by (simp add: binade_def Let_def)
qed

lemma pow2_mono: "a \<le> b \<Longrightarrow> pow2 a \<le> pow2 b"
proof -
  have nat_eq: "pow2 e = 2 powi e" for e
    by (simp add: pow2_def power_int_def inverse_eq_divide power_one_over)
  assume "a \<le> b"
  then show ?thesis unfolding nat_eq by (intro power_int_increasing) simp_all
qed

lemma round_even_ge_1: "1 \<le> x \<Longrightarrow> 1 \<le> round_even x"
  by (auto simp: round_even_def Let_def le_floor_iff)

lemma round_even_le_m1: "x \<le> - 1 \<Longrightarrow> round_even x \<le> - 1"
proof (cases "x = - 1")
  case True
  then show ?thesis using round_even_int [of "- 1"] by simp
next
  case False
  assume "x \<le> - 1"
  with False have "x < - 1" by simp
  then have "\<lfloor>x\<rfloor> < - 1" by (simp add: floor_less_iff)
  then show ?thesis by (auto simp: round_even_def Let_def)
qed

lemma rnd_int_apart:
  assumes "n \<noteq> 0"
  shows "\<not> f64_lt (f64_abs (rnd (of_int n))) f64_epsilon"
proof -
  let ?x = "of_int n :: rat" and ?u = "ulp (of_int n)"
  define e where "e = bitlen \<bar>n\<bar> - 1"
  have n: "0 < \<bar>n\<bar>" using assms by simp
  have e: "binade \<bar>?x\<bar> = e" "pow2 e \<le> \<bar>?x\<bar>" "0 \<le> e"
    using binade_of_int [OF n] by (simp_all add: e_def)
  have u: "?u = pow2 (e - 52)" using assms e by (simp add: ulp_def)
  have u_ge: "pow2 (- 52) \<le> ?u" unfolding u using e(3) by (intro pow2_mono) simp
  have u_le: "?u \<le> \<bar>?x\<bar>"
    unfolding u using pow2_mono [of "e - 52" e] e(2) by simp
  let ?r = "of_int (round_even (?x / ?u)) * ?u"
  have "1 \<le> \<bar>round_even (?x / ?u)\<bar>"
  proof (cases "0 < n")
    case True
    then have "1 \<le> ?x / ?u" using u_le by (simp add: le_divide_eq)
    then show ?thesis using round_even_ge_1 by fastforce
  next
    case False
    with assms have "n < 0" by simp
    then have "?x / ?u \<le> - 1" using u_le by (simp add: divide_le_eq)
    then show ?thesis using round_even_le_m1 by fastforce
  qed
  then have "(1 :: rat) \<le> of_int \<bar>round_even (?x / ?u)\<bar>" by (simp only: of_int_1_le_iff)
  then have "1 * ?u \<le> of_int \<bar>round_even (?x / ?u)\<bar> * ?u"
    by (intro mult_right_mono) (simp_all add: less_imp_le)
  then have "?u \<le> \<bar>?r\<bar>" by (simp only: abs_mult of_int_abs abs_of_pos [OF ulp_pos] mult_1)
  with u_ge have "pow2 (- 52) \<le> \<bar>?r\<bar>" by linarith
  then show ?thesis
    by (auto simp: rnd_def Let_def f64_epsilon_def f64_lt_def)
qed

end
