(* ===== verification/Types.thy ===== *)
theory Types
  imports F64
begin

text \<open>
  The protocol types of the crate \<open>ocpp-types\<close> that the charge point works with:
  \<open>ocpp-types/src/lib.rs\<close> (versions, message types, connector and transaction ids),
  \<open>common.rs\<close> and \<open>v16j.rs\<close>. Every enumeration is a datatype with the constructors of the
  source, its \<open>#[serde]\<close> spelling (\<open>_wire\<close>), the derived decoder (\<open>_of_wire\<close>) and the
  interpretation of the \<open>wire_codec\<close> interface, which makes encoding injective and decoding its
  exact inverse. The one-letter variants \<open>W\<close>, \<open>A\<close>, \<open>V\<close>, \<open>K\<close> and \<open>N\<close> carry the suffix
  \<open>_unit\<close>, as a one-letter constant would capture variables.
\<close>

section \<open>Enumerations of \<open>ocpp-types/src/common.rs\<close>\<close>

datatype ReadingContext =
    InterruptionBegin
  | InterruptionEnd
  | SampleClock
  | SamplePeriodic
  | TransactionBegin
  | TransactionEnd
  | Trigger
  | Other

primrec ReadingContext_wire :: "ReadingContext \<Rightarrow> string" where
  "ReadingContext_wire ReadingContext.InterruptionBegin = ''Interruption.Begin''"
| "ReadingContext_wire ReadingContext.InterruptionEnd = ''Interruption.End''"
| "ReadingContext_wire ReadingContext.SampleClock = ''Sample.Clock''"
| "ReadingContext_wire ReadingContext.SamplePeriodic = ''Sample.Periodic''"
| "ReadingContext_wire ReadingContext.TransactionBegin = ''Transaction.Begin''"
| "ReadingContext_wire ReadingContext.TransactionEnd = ''Transaction.End''"
| "ReadingContext_wire ReadingContext.Trigger = ''Trigger''"
| "ReadingContext_wire ReadingContext.Other = ''Other''"

definition ReadingContext_all :: "ReadingContext list" where
  "ReadingContext_all = [ReadingContext.InterruptionBegin, ReadingContext.InterruptionEnd,
     ReadingContext.SampleClock, ReadingContext.SamplePeriodic,
     ReadingContext.TransactionBegin, ReadingContext.TransactionEnd,
     ReadingContext.Trigger, ReadingContext.Other]"

definition ReadingContext_of_wire :: "string \<Rightarrow> ReadingContext option" where
  "ReadingContext_of_wire = decode_by ReadingContext_all ReadingContext_wire"

interpretation ReadingContext_codec: wire_codec ReadingContext_wire ReadingContext_of_wire
  unfolding ReadingContext_of_wire_def
proof (rule wire_codec_distinct)
  show "x \<in> set ReadingContext_all" for x by (cases x) (simp_all add: ReadingContext_all_def)
  show "distinct (map ReadingContext_wire ReadingContext_all)" by (simp add: ReadingContext_all_def)
qed

datatype ValueFormat =
    Raw
  | SignedData

primrec ValueFormat_wire :: "ValueFormat \<Rightarrow> string" where
  "ValueFormat_wire ValueFormat.Raw = ''Raw''"
| "ValueFormat_wire ValueFormat.SignedData = ''SignedData''"

definition ValueFormat_all :: "ValueFormat list" where
  "ValueFormat_all = [ValueFormat.Raw, ValueFormat.SignedData]"

definition ValueFormat_of_wire :: "string \<Rightarrow> ValueFormat option" where
  "ValueFormat_of_wire = decode_by ValueFormat_all ValueFormat_wire"

interpretation ValueFormat_codec: wire_codec ValueFormat_wire ValueFormat_of_wire
  unfolding ValueFormat_of_wire_def
proof (rule wire_codec_distinct)
  show "x \<in> set ValueFormat_all" for x by (cases x) (simp_all add: ValueFormat_all_def)
  show "distinct (map ValueFormat_wire ValueFormat_all)" by (simp add: ValueFormat_all_def)
qed

datatype Measurand =
    EnergyActiveImportRegister
  | EnergyActiveExportRegister
  | EnergyReactiveImportRegister
  | EnergyReactiveExportRegister
  | EnergyActiveImportInterval
  | EnergyActiveExportInterval
  | EnergyReactiveImportInterval
  | EnergyReactiveExportInterval
  | PowerActiveImport
  | PowerActiveExport
  | PowerReactiveImport
  | PowerReactiveExport
  | PowerFactor
  | PowerOffered
  | CurrentImport
  | CurrentExport
  | CurrentOffered
  | Voltage
  | Frequency
  | Temperature
  | SoC
  | RPM

primrec Measurand_wire :: "Measurand \<Rightarrow> string" where
  "Measurand_wire Measurand.EnergyActiveImportRegister = ''Energy.Active.Import.Register''"
| "Measurand_wire Measurand.EnergyActiveExportRegister = ''Energy.Active.Export.Register''"
| "Measurand_wire Measurand.EnergyReactiveImportRegister = ''Energy.Reactive.Import.Register''"
| "Measurand_wire Measurand.EnergyReactiveExportRegister = ''Energy.Reactive.Export.Register''"
| "Measurand_wire Measurand.EnergyActiveImportInterval = ''Energy.Active.Import.Interval''"
| "Measurand_wire Measurand.EnergyActiveExportInterval = ''Energy.Active.Export.Interval''"
| "Measurand_wire Measurand.EnergyReactiveImportInterval = ''Energy.Reactive.Import.Interval''"
| "Measurand_wire Measurand.EnergyReactiveExportInterval = ''Energy.Reactive.Export.Interval''"
| "Measurand_wire Measurand.PowerActiveImport = ''Power.Active.Import''"
| "Measurand_wire Measurand.PowerActiveExport = ''Power.Active.Export''"
| "Measurand_wire Measurand.PowerReactiveImport = ''Power.Reactive.Import''"
| "Measurand_wire Measurand.PowerReactiveExport = ''Power.Reactive.Export''"
| "Measurand_wire Measurand.PowerFactor = ''Power.Factor''"
| "Measurand_wire Measurand.PowerOffered = ''Power.Offered''"
| "Measurand_wire Measurand.CurrentImport = ''Current.Import''"
| "Measurand_wire Measurand.CurrentExport = ''Current.Export''"
| "Measurand_wire Measurand.CurrentOffered = ''Current.Offered''"
| "Measurand_wire Measurand.Voltage = ''Voltage''"
| "Measurand_wire Measurand.Frequency = ''Frequency''"
| "Measurand_wire Measurand.Temperature = ''Temperature''"
| "Measurand_wire Measurand.SoC = ''SoC''"
| "Measurand_wire Measurand.RPM = ''RPM''"

definition Measurand_all :: "Measurand list" where
  "Measurand_all = [Measurand.EnergyActiveImportRegister, Measurand.EnergyActiveExportRegister,
     Measurand.EnergyReactiveImportRegister, Measurand.EnergyReactiveExportRegister,
     Measurand.EnergyActiveImportInterval, Measurand.EnergyActiveExportInterval,
     Measurand.EnergyReactiveImportInterval, Measurand.EnergyReactiveExportInterval,
     Measurand.PowerActiveImport, Measurand.PowerActiveExport,
     Measurand.PowerReactiveImport, Measurand.PowerReactiveExport,
     Measurand.PowerFactor, Measurand.PowerOffered, Measurand.CurrentImport,
     Measurand.CurrentExport, Measurand.CurrentOffered, Measurand.Voltage,
     Measurand.Frequency, Measurand.Temperature, Measurand.SoC, Measurand.RPM]"

definition Measurand_of_wire :: "string \<Rightarrow> Measurand option" where
  "Measurand_of_wire = decode_by Measurand_all Measurand_wire"

interpretation Measurand_codec: wire_codec Measurand_wire Measurand_of_wire
  unfolding Measurand_of_wire_def
proof (rule wire_codec_distinct)
  show "x \<in> set Measurand_all" for x by (cases x) (simp_all add: Measurand_all_def)
  show "distinct (map Measurand_wire Measurand_all)" by (simp add: Measurand_all_def)
qed

datatype Phase =
    L1
  | L2
  | L3
  | N_unit
  | L1N
  | L2N
  | L3N
  | L1L2
  | L2L3
  | L3L1

primrec Phase_wire :: "Phase \<Rightarrow> string" where
  "Phase_wire Phase.L1 = ''L1''"
| "Phase_wire Phase.L2 = ''L2''"
| "Phase_wire Phase.L3 = ''L3''"
| "Phase_wire Phase.N_unit = ''N''"
| "Phase_wire Phase.L1N = ''L1-N''"
| "Phase_wire Phase.L2N = ''L2-N''"
| "Phase_wire Phase.L3N = ''L3-N''"
| "Phase_wire Phase.L1L2 = ''L1-L2''"
| "Phase_wire Phase.L2L3 = ''L2-L3''"
| "Phase_wire Phase.L3L1 = ''L3-L1''"

definition Phase_all :: "Phase list" where
  "Phase_all = [Phase.L1, Phase.L2, Phase.L3, Phase.N_unit, Phase.L1N, Phase.L2N, Phase.L3N,
     Phase.L1L2, Phase.L2L3, Phase.L3L1]"

definition Phase_of_wire :: "string \<Rightarrow> Phase option" where
  "Phase_of_wire = decode_by Phase_all Phase_wire"

interpretation Phase_codec: wire_codec Phase_wire Phase_of_wire
  unfolding Phase_of_wire_def
proof (rule wire_codec_distinct)
  show "x \<in> set Phase_all" for x by (cases x) (simp_all add: Phase_all_def)
  show "distinct (map Phase_wire Phase_all)" by (simp add: Phase_all_def)
qed

datatype Location =
    Cable
  | EV
  | Inlet
  | Outlet
  | Body

primrec Location_wire :: "Location \<Rightarrow> string" where
  "Location_wire Location.Cable = ''Cable''"
| "Location_wire Location.EV = ''EV''"
| "Location_wire Location.Inlet = ''Inlet''"
| "Location_wire Location.Outlet = ''Outlet''"
| "Location_wire Location.Body = ''Body''"

definition Location_all :: "Location list" where
  "Location_all = [Location.Cable, Location.EV, Location.Inlet, Location.Outlet, Location.Body]"

definition Location_of_wire :: "string \<Rightarrow> Location option" where
  "Location_of_wire = decode_by Location_all Location_wire"

interpretation Location_codec: wire_codec Location_wire Location_of_wire
  unfolding Location_of_wire_def
proof (rule wire_codec_distinct)
  show "x \<in> set Location_all" for x by (cases x) (simp_all add: Location_all_def)
  show "distinct (map Location_wire Location_all)" by (simp add: Location_all_def)
qed

datatype UnitOfMeasure =
    Wh
  | KWh
  | Varh
  | Kvarh
  | W_unit
  | KW
  | Var
  | Kvar
  | VA
  | KVA
  | A_unit
  | V_unit
  | Celsius
  | Fahrenheit
  | K_unit
  | Percent

primrec UnitOfMeasure_wire :: "UnitOfMeasure \<Rightarrow> string" where
  "UnitOfMeasure_wire UnitOfMeasure.Wh = ''Wh''"
| "UnitOfMeasure_wire UnitOfMeasure.KWh = ''kWh''"
| "UnitOfMeasure_wire UnitOfMeasure.Varh = ''varh''"
| "UnitOfMeasure_wire UnitOfMeasure.Kvarh = ''kvarh''"
| "UnitOfMeasure_wire UnitOfMeasure.W_unit = ''W''"
| "UnitOfMeasure_wire UnitOfMeasure.KW = ''kW''"
| "UnitOfMeasure_wire UnitOfMeasure.Var = ''var''"
| "UnitOfMeasure_wire UnitOfMeasure.Kvar = ''kvar''"
| "UnitOfMeasure_wire UnitOfMeasure.VA = ''VA''"
| "UnitOfMeasure_wire UnitOfMeasure.KVA = ''kVA''"
| "UnitOfMeasure_wire UnitOfMeasure.A_unit = ''A''"
| "UnitOfMeasure_wire UnitOfMeasure.V_unit = ''V''"
| "UnitOfMeasure_wire UnitOfMeasure.Celsius = ''Celsius''"
| "UnitOfMeasure_wire UnitOfMeasure.Fahrenheit = ''Fahrenheit''"
| "UnitOfMeasure_wire UnitOfMeasure.K_unit = ''K''"
| "UnitOfMeasure_wire UnitOfMeasure.Percent = ''Percent''"

definition UnitOfMeasure_all :: "UnitOfMeasure list" where
  "UnitOfMeasure_all = [UnitOfMeasure.Wh, UnitOfMeasure.KWh, UnitOfMeasure.Varh, UnitOfMeasure.Kvarh,
     UnitOfMeasure.W_unit, UnitOfMeasure.KW, UnitOfMeasure.Var, UnitOfMeasure.Kvar,
     UnitOfMeasure.VA, UnitOfMeasure.KVA, UnitOfMeasure.A_unit, UnitOfMeasure.V_unit,
     UnitOfMeasure.Celsius, UnitOfMeasure.Fahrenheit, UnitOfMeasure.K_unit,
     UnitOfMeasure.Percent]"

definition UnitOfMeasure_of_wire :: "string \<Rightarrow> UnitOfMeasure option" where
  "UnitOfMeasure_of_wire = decode_by UnitOfMeasure_all UnitOfMeasure_wire"

interpretation UnitOfMeasure_codec: wire_codec UnitOfMeasure_wire UnitOfMeasure_of_wire
  unfolding UnitOfMeasure_of_wire_def
proof (rule wire_codec_distinct)
  show "x \<in> set UnitOfMeasure_all" for x by (cases x) (simp_all add: UnitOfMeasure_all_def)
  show "distinct (map UnitOfMeasure_wire UnitOfMeasure_all)" by (simp add: UnitOfMeasure_all_def)
qed

datatype AuthorizationStatus =
    Accepted
  | Blocked
  | Expired
  | Invalid
  | ConcurrentTx

primrec AuthorizationStatus_wire :: "AuthorizationStatus \<Rightarrow> string" where
  "AuthorizationStatus_wire AuthorizationStatus.Accepted = ''Accepted''"
| "AuthorizationStatus_wire AuthorizationStatus.Blocked = ''Blocked''"
| "AuthorizationStatus_wire AuthorizationStatus.Expired = ''Expired''"
| "AuthorizationStatus_wire AuthorizationStatus.Invalid = ''Invalid''"
| "AuthorizationStatus_wire AuthorizationStatus.ConcurrentTx = ''ConcurrentTx''"

definition AuthorizationStatus_all :: "AuthorizationStatus list" where
  "AuthorizationStatus_all = [AuthorizationStatus.Accepted, AuthorizationStatus.Blocked,
     AuthorizationStatus.Expired, AuthorizationStatus.Invalid,
     AuthorizationStatus.ConcurrentTx]"

definition AuthorizationStatus_of_wire :: "string \<Rightarrow> AuthorizationStatus option" where
  "AuthorizationStatus_of_wire = decode_by AuthorizationStatus_all AuthorizationStatus_wire"

interpretation AuthorizationStatus_codec: wire_codec AuthorizationStatus_wire AuthorizationStatus_of_wire
  unfolding AuthorizationStatus_of_wire_def
proof (rule wire_codec_distinct)
  show "x \<in> set AuthorizationStatus_all" for x by (cases x) (simp_all add: AuthorizationStatus_all_def)
  show "distinct (map AuthorizationStatus_wire AuthorizationStatus_all)" by (simp add: AuthorizationStatus_all_def)
qed

datatype Reason =
    EmergencyStop
  | EVDisconnected
  | HardReset
  | Local
  | Other
  | PowerLoss
  | Reboot
  | Remote
  | SoftReset
  | UnlockCommand
  | DeAuthorized

primrec Reason_wire :: "Reason \<Rightarrow> string" where
  "Reason_wire Reason.EmergencyStop = ''EmergencyStop''"
| "Reason_wire Reason.EVDisconnected = ''EVDisconnected''"
| "Reason_wire Reason.HardReset = ''HardReset''"
| "Reason_wire Reason.Local = ''Local''"
| "Reason_wire Reason.Other = ''Other''"
| "Reason_wire Reason.PowerLoss = ''PowerLoss''"
| "Reason_wire Reason.Reboot = ''Reboot''"
| "Reason_wire Reason.Remote = ''Remote''"
| "Reason_wire Reason.SoftReset = ''SoftReset''"
| "Reason_wire Reason.UnlockCommand = ''UnlockCommand''"
| "Reason_wire Reason.DeAuthorized = ''DeAuthorized''"

definition Reason_all :: "Reason list" where
  "Reason_all = [Reason.EmergencyStop, Reason.EVDisconnected, Reason.HardReset, Reason.Local,
     Reason.Other, Reason.PowerLoss, Reason.Reboot, Reason.Remote, Reason.SoftReset,
     Reason.UnlockCommand, Reason.DeAuthorized]"

definition Reason_of_wire :: "string \<Rightarrow> Reason option" where
  "Reason_of_wire = decode_by Reason_all Reason_wire"

interpretation Reason_codec: wire_codec Reason_wire Reason_of_wire
  unfolding Reason_of_wire_def
proof (rule wire_codec_distinct)
  show "x \<in> set Reason_all" for x by (cases x) (simp_all add: Reason_all_def)
  show "distinct (map Reason_wire Reason_all)" by (simp add: Reason_all_def)
qed

datatype AvailabilityStatus =
    Accepted
  | Rejected
  | Scheduled

primrec AvailabilityStatus_wire :: "AvailabilityStatus \<Rightarrow> string" where
  "AvailabilityStatus_wire AvailabilityStatus.Accepted = ''Accepted''"
| "AvailabilityStatus_wire AvailabilityStatus.Rejected = ''Rejected''"
| "AvailabilityStatus_wire AvailabilityStatus.Scheduled = ''Scheduled''"

definition AvailabilityStatus_all :: "AvailabilityStatus list" where
  "AvailabilityStatus_all = [AvailabilityStatus.Accepted, AvailabilityStatus.Rejected, AvailabilityStatus.Scheduled]"

definition AvailabilityStatus_of_wire :: "string \<Rightarrow> AvailabilityStatus option" where
  "AvailabilityStatus_of_wire = decode_by AvailabilityStatus_all AvailabilityStatus_wire"

interpretation AvailabilityStatus_codec: wire_codec AvailabilityStatus_wire AvailabilityStatus_of_wire
  unfolding AvailabilityStatus_of_wire_def
proof (rule wire_codec_distinct)
  show "x \<in> set AvailabilityStatus_all" for x by (cases x) (simp_all add: AvailabilityStatus_all_def)
  show "distinct (map AvailabilityStatus_wire AvailabilityStatus_all)" by (simp add: AvailabilityStatus_all_def)
qed

datatype AvailabilityType =
    Operative
  | Inoperative

primrec AvailabilityType_wire :: "AvailabilityType \<Rightarrow> string" where
  "AvailabilityType_wire AvailabilityType.Operative = ''Operative''"
| "AvailabilityType_wire AvailabilityType.Inoperative = ''Inoperative''"

definition AvailabilityType_all :: "AvailabilityType list" where
  "AvailabilityType_all = [AvailabilityType.Operative, AvailabilityType.Inoperative]"

definition AvailabilityType_of_wire :: "string \<Rightarrow> AvailabilityType option" where
  "AvailabilityType_of_wire = decode_by AvailabilityType_all AvailabilityType_wire"

interpretation AvailabilityType_codec: wire_codec AvailabilityType_wire AvailabilityType_of_wire
  unfolding AvailabilityType_of_wire_def
proof (rule wire_codec_distinct)
  show "x \<in> set AvailabilityType_all" for x by (cases x) (simp_all add: AvailabilityType_all_def)
  show "distinct (map AvailabilityType_wire AvailabilityType_all)" by (simp add: AvailabilityType_all_def)
qed

section \<open>Enumerations of \<open>ocpp-types/src/v16j.rs\<close>\<close>

datatype ChargePointStatus =
    Available
  | Preparing
  | Charging
  | SuspendedEV
  | SuspendedEVSE
  | Finishing
  | Reserved
  | Faulted
  | Unavailable

primrec ChargePointStatus_wire :: "ChargePointStatus \<Rightarrow> string" where
  "ChargePointStatus_wire ChargePointStatus.Available = ''Available''"
| "ChargePointStatus_wire ChargePointStatus.Preparing = ''Preparing''"
| "ChargePointStatus_wire ChargePointStatus.Charging = ''Charging''"
| "ChargePointStatus_wire ChargePointStatus.SuspendedEV = ''SuspendedEV''"
| "ChargePointStatus_wire ChargePointStatus.SuspendedEVSE = ''SuspendedEVSE''"
| "ChargePointStatus_wire ChargePointStatus.Finishing = ''Finishing''"
| "ChargePointStatus_wire ChargePointStatus.Reserved = ''Reserved''"
| "ChargePointStatus_wire ChargePointStatus.Faulted = ''Faulted''"
| "ChargePointStatus_wire ChargePointStatus.Unavailable = ''Unavailable''"

definition ChargePointStatus_all :: "ChargePointStatus list" where
  "ChargePointStatus_all = [ChargePointStatus.Available, ChargePointStatus.Preparing, ChargePointStatus.Charging,
     ChargePointStatus.SuspendedEV, ChargePointStatus.SuspendedEVSE,
     ChargePointStatus.Finishing, ChargePointStatus.Reserved,
     ChargePointStatus.Faulted, ChargePointStatus.Unavailable]"

definition ChargePointStatus_of_wire :: "string \<Rightarrow> ChargePointStatus option" where
  "ChargePointStatus_of_wire = decode_by ChargePointStatus_all ChargePointStatus_wire"

interpretation ChargePointStatus_codec: wire_codec ChargePointStatus_wire ChargePointStatus_of_wire
  unfolding ChargePointStatus_of_wire_def
proof (rule wire_codec_distinct)
  show "x \<in> set ChargePointStatus_all" for x by (cases x) (simp_all add: ChargePointStatus_all_def)
  show "distinct (map ChargePointStatus_wire ChargePointStatus_all)" by (simp add: ChargePointStatus_all_def)
qed

datatype ChargePointErrorCode =
    ConnectorLockFailure
  | EVCommunicationError
  | GroundFailure
  | HighTemperature
  | InternalError
  | LocalListConflict
  | NoError
  | OtherError
  | OverCurrentFailure
  | OverVoltage
  | PowerMeterFailure
  | PowerSwitchFailure
  | ReaderFailure
  | ResetFailure
  | UnderVoltage
  | WeakSignal

primrec ChargePointErrorCode_wire :: "ChargePointErrorCode \<Rightarrow> string" where
  "ChargePointErrorCode_wire ChargePointErrorCode.ConnectorLockFailure = ''ConnectorLockFailure''"
| "ChargePointErrorCode_wire ChargePointErrorCode.EVCommunicationError = ''EVCommunicationError''"
| "ChargePointErrorCode_wire ChargePointErrorCode.GroundFailure = ''GroundFailure''"
| "ChargePointErrorCode_wire ChargePointErrorCode.HighTemperature = ''HighTemperature''"
| "ChargePointErrorCode_wire ChargePointErrorCode.InternalError = ''InternalError''"
| "ChargePointErrorCode_wire ChargePointErrorCode.LocalListConflict = ''LocalListConflict''"
| "ChargePointErrorCode_wire ChargePointErrorCode.NoError = ''NoError''"
| "ChargePointErrorCode_wire ChargePointErrorCode.OtherError = ''OtherError''"
| "ChargePointErrorCode_wire ChargePointErrorCode.OverCurrentFailure = ''OverCurrentFailure''"
| "ChargePointErrorCode_wire ChargePointErrorCode.OverVoltage = ''OverVoltage''"
| "ChargePointErrorCode_wire ChargePointErrorCode.PowerMeterFailure = ''PowerMeterFailure''"
| "ChargePointErrorCode_wire ChargePointErrorCode.PowerSwitchFailure = ''PowerSwitchFailure''"
| "ChargePointErrorCode_wire ChargePointErrorCode.ReaderFailure = ''ReaderFailure''"
| "ChargePointErrorCode_wire ChargePointErrorCode.ResetFailure = ''ResetFailure''"
| "ChargePointErrorCode_wire ChargePointErrorCode.UnderVoltage = ''UnderVoltage''"
| "ChargePointErrorCode_wire ChargePointErrorCode.WeakSignal = ''WeakSignal''"

definition ChargePointErrorCode_all :: "ChargePointErrorCode list" where
  "ChargePointErrorCode_all = [ChargePointErrorCode.ConnectorLockFailure, ChargePointErrorCode.EVCommunicationError,
     ChargePointErrorCode.GroundFailure, ChargePointErrorCode.HighTemperature,
     ChargePointErrorCode.InternalError, ChargePointErrorCode.LocalListConflict,
     ChargePointErrorCode.NoError, ChargePointErrorCode.OtherError,
     ChargePointErrorCode.OverCurrentFailure, ChargePointErrorCode.OverVoltage,
     ChargePointErrorCode.PowerMeterFailure, ChargePointErrorCode.PowerSwitchFailure,
     ChargePointErrorCode.ReaderFailure, ChargePointErrorCode.ResetFailure,
     ChargePointErrorCode.UnderVoltage, ChargePointErrorCode.WeakSignal]"

definition ChargePointErrorCode_of_wire :: "string \<Rightarrow> ChargePointErrorCode option" where
  "ChargePointErrorCode_of_wire = decode_by ChargePointErrorCode_all ChargePointErrorCode_wire"

interpretation ChargePointErrorCode_codec: wire_codec ChargePointErrorCode_wire ChargePointErrorCode_of_wire
  unfolding ChargePointErrorCode_of_wire_def
proof (rule wire_codec_distinct)
  show "x \<in> set ChargePointErrorCode_all" for x by (cases x) (simp_all add: ChargePointErrorCode_all_def)
  show "distinct (map ChargePointErrorCode_wire ChargePointErrorCode_all)" by (simp add: ChargePointErrorCode_all_def)
qed

datatype DiagnosticsStatus =
    Idle
  | Uploaded
  | UploadFailed
  | Uploading

primrec DiagnosticsStatus_wire :: "DiagnosticsStatus \<Rightarrow> string" where
  "DiagnosticsStatus_wire DiagnosticsStatus.Idle = ''Idle''"
| "DiagnosticsStatus_wire DiagnosticsStatus.Uploaded = ''Uploaded''"
| "DiagnosticsStatus_wire DiagnosticsStatus.UploadFailed = ''UploadFailed''"
| "DiagnosticsStatus_wire DiagnosticsStatus.Uploading = ''Uploading''"

definition DiagnosticsStatus_all :: "DiagnosticsStatus list" where
  "DiagnosticsStatus_all = [DiagnosticsStatus.Idle, DiagnosticsStatus.Uploaded, DiagnosticsStatus.UploadFailed,
     DiagnosticsStatus.Uploading]"

definition DiagnosticsStatus_of_wire :: "string \<Rightarrow> DiagnosticsStatus option" where
  "DiagnosticsStatus_of_wire = decode_by DiagnosticsStatus_all DiagnosticsStatus_wire"

interpretation DiagnosticsStatus_codec: wire_codec DiagnosticsStatus_wire DiagnosticsStatus_of_wire
  unfolding DiagnosticsStatus_of_wire_def
proof (rule wire_codec_distinct)
  show "x \<in> set DiagnosticsStatus_all" for x by (cases x) (simp_all add: DiagnosticsStatus_all_def)
  show "distinct (map DiagnosticsStatus_wire DiagnosticsStatus_all)" by (simp add: DiagnosticsStatus_all_def)
qed

datatype FirmwareStatus =
    Downloaded
  | DownloadFailed
  | Downloading
  | Idle
  | InstallationFailed
  | Installing
  | Installed
  | DownloadScheduled
  | DownloadPaused
  | InstallRebooting
  | InstallScheduled
  | InstallVerificationFailed
  | InvalidSignature
  | SignatureVerified

primrec FirmwareStatus_wire :: "FirmwareStatus \<Rightarrow> string" where
  "FirmwareStatus_wire FirmwareStatus.Downloaded = ''Downloaded''"
| "FirmwareStatus_wire FirmwareStatus.DownloadFailed = ''DownloadFailed''"
| "FirmwareStatus_wire FirmwareStatus.Downloading = ''Downloading''"
| "FirmwareStatus_wire FirmwareStatus.Idle = ''Idle''"
| "FirmwareStatus_wire FirmwareStatus.InstallationFailed = ''InstallationFailed''"
| "FirmwareStatus_wire FirmwareStatus.Installing = ''Installing''"
| "FirmwareStatus_wire FirmwareStatus.Installed = ''Installed''"
| "FirmwareStatus_wire FirmwareStatus.DownloadScheduled = ''DownloadScheduled''"
| "FirmwareStatus_wire FirmwareStatus.DownloadPaused = ''DownloadPaused''"
| "FirmwareStatus_wire FirmwareStatus.InstallRebooting = ''InstallRebooting''"
| "FirmwareStatus_wire FirmwareStatus.InstallScheduled = ''InstallScheduled''"
| "FirmwareStatus_wire FirmwareStatus.InstallVerificationFailed = ''InstallVerificationFailed''"
| "FirmwareStatus_wire FirmwareStatus.InvalidSignature = ''InvalidSignature''"
| "FirmwareStatus_wire FirmwareStatus.SignatureVerified = ''SignatureVerified''"

definition FirmwareStatus_all :: "FirmwareStatus list" where
  "FirmwareStatus_all = [FirmwareStatus.Downloaded, FirmwareStatus.DownloadFailed, FirmwareStatus.Downloading,
     FirmwareStatus.Idle, FirmwareStatus.InstallationFailed, FirmwareStatus.Installing,
     FirmwareStatus.Installed, FirmwareStatus.DownloadScheduled,
     FirmwareStatus.DownloadPaused, FirmwareStatus.InstallRebooting,
     FirmwareStatus.InstallScheduled, FirmwareStatus.InstallVerificationFailed,
     FirmwareStatus.InvalidSignature, FirmwareStatus.SignatureVerified]"

definition FirmwareStatus_of_wire :: "string \<Rightarrow> FirmwareStatus option" where
  "FirmwareStatus_of_wire = decode_by FirmwareStatus_all FirmwareStatus_wire"

interpretation FirmwareStatus_codec: wire_codec FirmwareStatus_wire FirmwareStatus_of_wire
  unfolding FirmwareStatus_of_wire_def
proof (rule wire_codec_distinct)
  show "x \<in> set FirmwareStatus_all" for x by (cases x) (simp_all add: FirmwareStatus_all_def)
  show "distinct (map FirmwareStatus_wire FirmwareStatus_all)" by (simp add: FirmwareStatus_all_def)
qed

datatype RemoteStartStopStatus =
    Accepted
  | Rejected

primrec RemoteStartStopStatus_wire :: "RemoteStartStopStatus \<Rightarrow> string" where
  "RemoteStartStopStatus_wire RemoteStartStopStatus.Accepted = ''Accepted''"
| "RemoteStartStopStatus_wire RemoteStartStopStatus.Rejected = ''Rejected''"

definition RemoteStartStopStatus_all :: "RemoteStartStopStatus list" where
  "RemoteStartStopStatus_all = [RemoteStartStopStatus.Accepted, RemoteStartStopStatus.Rejected]"

definition RemoteStartStopStatus_of_wire :: "string \<Rightarrow> RemoteStartStopStatus option" where
  "RemoteStartStopStatus_of_wire = decode_by RemoteStartStopStatus_all RemoteStartStopStatus_wire"

interpretation RemoteStartStopStatus_codec: wire_codec RemoteStartStopStatus_wire RemoteStartStopStatus_of_wire
  unfolding RemoteStartStopStatus_of_wire_def
proof (rule wire_codec_distinct)
  show "x \<in> set RemoteStartStopStatus_all" for x by (cases x) (simp_all add: RemoteStartStopStatus_all_def)
  show "distinct (map RemoteStartStopStatus_wire RemoteStartStopStatus_all)" by (simp add: RemoteStartStopStatus_all_def)
qed

datatype ReservationStatus =
    Accepted
  | Faulted
  | Occupied
  | Rejected
  | Unavailable

primrec ReservationStatus_wire :: "ReservationStatus \<Rightarrow> string" where
  "ReservationStatus_wire ReservationStatus.Accepted = ''Accepted''"
| "ReservationStatus_wire ReservationStatus.Faulted = ''Faulted''"
| "ReservationStatus_wire ReservationStatus.Occupied = ''Occupied''"
| "ReservationStatus_wire ReservationStatus.Rejected = ''Rejected''"
| "ReservationStatus_wire ReservationStatus.Unavailable = ''Unavailable''"

definition ReservationStatus_all :: "ReservationStatus list" where
  "ReservationStatus_all = [ReservationStatus.Accepted, ReservationStatus.Faulted, ReservationStatus.Occupied,
     ReservationStatus.Rejected, ReservationStatus.Unavailable]"

definition ReservationStatus_of_wire :: "string \<Rightarrow> ReservationStatus option" where
  "ReservationStatus_of_wire = decode_by ReservationStatus_all ReservationStatus_wire"

interpretation ReservationStatus_codec: wire_codec ReservationStatus_wire ReservationStatus_of_wire
  unfolding ReservationStatus_of_wire_def
proof (rule wire_codec_distinct)
  show "x \<in> set ReservationStatus_all" for x by (cases x) (simp_all add: ReservationStatus_all_def)
  show "distinct (map ReservationStatus_wire ReservationStatus_all)" by (simp add: ReservationStatus_all_def)
qed

datatype CancelReservationStatus =
    Accepted
  | Rejected

primrec CancelReservationStatus_wire :: "CancelReservationStatus \<Rightarrow> string" where
  "CancelReservationStatus_wire CancelReservationStatus.Accepted = ''Accepted''"
| "CancelReservationStatus_wire CancelReservationStatus.Rejected = ''Rejected''"

definition CancelReservationStatus_all :: "CancelReservationStatus list" where
  "CancelReservationStatus_all = [CancelReservationStatus.Accepted, CancelReservationStatus.Rejected]"

definition CancelReservationStatus_of_wire :: "string \<Rightarrow> CancelReservationStatus option" where
  "CancelReservationStatus_of_wire = decode_by CancelReservationStatus_all CancelReservationStatus_wire"

interpretation CancelReservationStatus_codec: wire_codec CancelReservationStatus_wire CancelReservationStatus_of_wire
  unfolding CancelReservationStatus_of_wire_def
proof (rule wire_codec_distinct)
  show "x \<in> set CancelReservationStatus_all" for x by (cases x) (simp_all add: CancelReservationStatus_all_def)
  show "distinct (map CancelReservationStatus_wire CancelReservationStatus_all)" by (simp add: CancelReservationStatus_all_def)
qed

datatype UnlockStatus =
    Unlocked
  | UnlockFailed
  | NotSupported

primrec UnlockStatus_wire :: "UnlockStatus \<Rightarrow> string" where
  "UnlockStatus_wire UnlockStatus.Unlocked = ''Unlocked''"
| "UnlockStatus_wire UnlockStatus.UnlockFailed = ''UnlockFailed''"
| "UnlockStatus_wire UnlockStatus.NotSupported = ''NotSupported''"

definition UnlockStatus_all :: "UnlockStatus list" where
  "UnlockStatus_all = [UnlockStatus.Unlocked, UnlockStatus.UnlockFailed, UnlockStatus.NotSupported]"

definition UnlockStatus_of_wire :: "string \<Rightarrow> UnlockStatus option" where
  "UnlockStatus_of_wire = decode_by UnlockStatus_all UnlockStatus_wire"

interpretation UnlockStatus_codec: wire_codec UnlockStatus_wire UnlockStatus_of_wire
  unfolding UnlockStatus_of_wire_def
proof (rule wire_codec_distinct)
  show "x \<in> set UnlockStatus_all" for x by (cases x) (simp_all add: UnlockStatus_all_def)
  show "distinct (map UnlockStatus_wire UnlockStatus_all)" by (simp add: UnlockStatus_all_def)
qed

datatype ConfigurationStatus =
    Accepted
  | Rejected
  | RebootRequired
  | NotSupported

primrec ConfigurationStatus_wire :: "ConfigurationStatus \<Rightarrow> string" where
  "ConfigurationStatus_wire ConfigurationStatus.Accepted = ''Accepted''"
| "ConfigurationStatus_wire ConfigurationStatus.Rejected = ''Rejected''"
| "ConfigurationStatus_wire ConfigurationStatus.RebootRequired = ''RebootRequired''"
| "ConfigurationStatus_wire ConfigurationStatus.NotSupported = ''NotSupported''"

definition ConfigurationStatus_all :: "ConfigurationStatus list" where
  "ConfigurationStatus_all = [ConfigurationStatus.Accepted, ConfigurationStatus.Rejected,
     ConfigurationStatus.RebootRequired, ConfigurationStatus.NotSupported]"

definition ConfigurationStatus_of_wire :: "string \<Rightarrow> ConfigurationStatus option" where
  "ConfigurationStatus_of_wire = decode_by ConfigurationStatus_all ConfigurationStatus_wire"

interpretation ConfigurationStatus_codec: wire_codec ConfigurationStatus_wire ConfigurationStatus_of_wire
  unfolding ConfigurationStatus_of_wire_def
proof (rule wire_codec_distinct)
  show "x \<in> set ConfigurationStatus_all" for x by (cases x) (simp_all add: ConfigurationStatus_all_def)
  show "distinct (map ConfigurationStatus_wire ConfigurationStatus_all)" by (simp add: ConfigurationStatus_all_def)
qed

datatype ConfigurationKey =
    AllowOfflineTxForUnknownId
  | AuthorizationCacheEnabled
  | AuthorizeRemoteTxRequests
  | BlinkRepeat
  | ClockAlignedDataInterval
  | ConnectionTimeOut
  | ConnectorPhaseRotation
  | ConnectorPhaseRotationMaxLength
  | GetConfigurationMaxKeys
  | HeartbeatInterval
  | LightIntensity
  | LocalAuthorizeOffline
  | LocalPreAuthorize
  | MaxEnergyOnInvalidId
  | MeterValuesAlignedData
  | MeterValuesAlignedDataMaxLength
  | MeterValuesSampledData
  | MeterValuesSampledDataMaxLength
  | MeterValueSampleInterval
  | MinimumStatusDuration
  | NumberOfConnectors
  | ResetRetries
  | StopTransactionOnEVSideDisconnect
  | StopTransactionOnInvalidId
  | StopTxnAlignedData
  | StopTxnAlignedDataMaxLength
  | StopTxnSampledData
  | StopTxnSampledDataMaxLength
  | SupportedFeatureProfiles
  | SupportedFeatureProfilesMaxLength
  | TransactionMessageAttempts
  | TransactionMessageRetryInterval
  | UnlockConnectorOnEVSideDisconnect
  | WebSocketPingInterval
  | LocalAuthListEnabled
  | LocalAuthListMaxLength
  | SendLocalListMaxLength
  | ReserveConnectorZeroSupported
  | ChargeProfileMaxStackLevel
  | ChargingScheduleAllowedChargingRateUnit
  | ChargingScheduleMaxPeriods
  | ConnectorSwitch3to1PhaseSupported
  | MaxChargingProfilesInstalled
  | CentralContractValidationAllowed
  | CertificateSignedMaxChainSize
  | CertSigningWaitMinimum
  | CertSigningRepeatTimes
  | CertificateStoreMaxLength
  | ContractValidationOffline
  | ISO15118PnCEnabled
  | AdditionalRootCertificateCheck
  | AuthorizationKey
  | CpoName
  | SecurityProfile

primrec ConfigurationKey_wire :: "ConfigurationKey \<Rightarrow> string" where
  "ConfigurationKey_wire ConfigurationKey.AllowOfflineTxForUnknownId = ''AllowOfflineTxForUnknownId''"
| "ConfigurationKey_wire ConfigurationKey.AuthorizationCacheEnabled = ''AuthorizationCacheEnabled''"
| "ConfigurationKey_wire ConfigurationKey.AuthorizeRemoteTxRequests = ''AuthorizeRemoteTxRequests''"
| "ConfigurationKey_wire ConfigurationKey.BlinkRepeat = ''BlinkRepeat''"
| "ConfigurationKey_wire ConfigurationKey.ClockAlignedDataInterval = ''ClockAlignedDataInterval''"
| "ConfigurationKey_wire ConfigurationKey.ConnectionTimeOut = ''ConnectionTimeOut''"
| "ConfigurationKey_wire ConfigurationKey.ConnectorPhaseRotation = ''ConnectorPhaseRotation''"
| "ConfigurationKey_wire ConfigurationKey.ConnectorPhaseRotationMaxLength = ''ConnectorPhaseRotationMaxLength''"
| "ConfigurationKey_wire ConfigurationKey.GetConfigurationMaxKeys = ''GetConfigurationMaxKeys''"
| "ConfigurationKey_wire ConfigurationKey.HeartbeatInterval = ''HeartbeatInterval''"
| "ConfigurationKey_wire ConfigurationKey.LightIntensity = ''LightIntensity''"
| "ConfigurationKey_wire ConfigurationKey.LocalAuthorizeOffline = ''LocalAuthorizeOffline''"
| "ConfigurationKey_wire ConfigurationKey.LocalPreAuthorize = ''LocalPreAuthorize''"
| "ConfigurationKey_wire ConfigurationKey.MaxEnergyOnInvalidId = ''MaxEnergyOnInvalidId''"
| "ConfigurationKey_wire ConfigurationKey.MeterValuesAlignedData = ''MeterValuesAlignedData''"
| "ConfigurationKey_wire ConfigurationKey.MeterValuesAlignedDataMaxLength = ''MeterValuesAlignedDataMaxLength''"
| "ConfigurationKey_wire ConfigurationKey.MeterValuesSampledData = ''MeterValuesSampledData''"
| "ConfigurationKey_wire ConfigurationKey.MeterValuesSampledDataMaxLength = ''MeterValuesSampledDataMaxLength''"
| "ConfigurationKey_wire ConfigurationKey.MeterValueSampleInterval = ''MeterValueSampleInterval''"
| "ConfigurationKey_wire ConfigurationKey.MinimumStatusDuration = ''MinimumStatusDuration''"
| "ConfigurationKey_wire ConfigurationKey.NumberOfConnectors = ''NumberOfConnectors''"
| "ConfigurationKey_wire ConfigurationKey.ResetRetries = ''ResetRetries''"
| "ConfigurationKey_wire ConfigurationKey.StopTransactionOnEVSideDisconnect = ''StopTransactionOnEVSideDisconnect''"
| "ConfigurationKey_wire ConfigurationKey.StopTransactionOnInvalidId = ''StopTransactionOnInvalidId''"
| "ConfigurationKey_wire ConfigurationKey.StopTxnAlignedData = ''StopTxnAlignedData''"
| "ConfigurationKey_wire ConfigurationKey.StopTxnAlignedDataMaxLength = ''StopTxnAlignedDataMaxLength''"
| "ConfigurationKey_wire ConfigurationKey.StopTxnSampledData = ''StopTxnSampledData''"
| "ConfigurationKey_wire ConfigurationKey.StopTxnSampledDataMaxLength = ''StopTxnSampledDataMaxLength''"
| "ConfigurationKey_wire ConfigurationKey.SupportedFeatureProfiles = ''SupportedFeatureProfiles''"
| "ConfigurationKey_wire ConfigurationKey.SupportedFeatureProfilesMaxLength = ''SupportedFeatureProfilesMaxLength''"
| "ConfigurationKey_wire ConfigurationKey.TransactionMessageAttempts = ''TransactionMessageAttempts''"
| "ConfigurationKey_wire ConfigurationKey.TransactionMessageRetryInterval = ''TransactionMessageRetryInterval''"
| "ConfigurationKey_wire ConfigurationKey.UnlockConnectorOnEVSideDisconnect = ''UnlockConnectorOnEVSideDisconnect''"
| "ConfigurationKey_wire ConfigurationKey.WebSocketPingInterval = ''WebSocketPingInterval''"
| "ConfigurationKey_wire ConfigurationKey.LocalAuthListEnabled = ''LocalAuthListEnabled''"
| "ConfigurationKey_wire ConfigurationKey.LocalAuthListMaxLength = ''LocalAuthListMaxLength''"
| "ConfigurationKey_wire ConfigurationKey.SendLocalListMaxLength = ''SendLocalListMaxLength''"
| "ConfigurationKey_wire ConfigurationKey.ReserveConnectorZeroSupported = ''ReserveConnectorZeroSupported''"
| "ConfigurationKey_wire ConfigurationKey.ChargeProfileMaxStackLevel = ''ChargeProfileMaxStackLevel''"
| "ConfigurationKey_wire ConfigurationKey.ChargingScheduleAllowedChargingRateUnit = ''ChargingScheduleAllowedChargingRateUnit''"
| "ConfigurationKey_wire ConfigurationKey.ChargingScheduleMaxPeriods = ''ChargingScheduleMaxPeriods''"
| "ConfigurationKey_wire ConfigurationKey.ConnectorSwitch3to1PhaseSupported = ''ConnectorSwitch3to1PhaseSupported''"
| "ConfigurationKey_wire ConfigurationKey.MaxChargingProfilesInstalled = ''MaxChargingProfilesInstalled''"
| "ConfigurationKey_wire ConfigurationKey.CentralContractValidationAllowed = ''CentralContractValidationAllowed''"
| "ConfigurationKey_wire ConfigurationKey.CertificateSignedMaxChainSize = ''CertificateSignedMaxChainSize''"
| "ConfigurationKey_wire ConfigurationKey.CertSigningWaitMinimum = ''CertSigningWaitMinimum''"
| "ConfigurationKey_wire ConfigurationKey.CertSigningRepeatTimes = ''CertSigningRepeatTimes''"
| "ConfigurationKey_wire ConfigurationKey.CertificateStoreMaxLength = ''CertificateStoreMaxLength''"
| "ConfigurationKey_wire ConfigurationKey.ContractValidationOffline = ''ContractValidationOffline''"
| "ConfigurationKey_wire ConfigurationKey.ISO15118PnCEnabled = ''ISO15118PnCEnabled''"
| "ConfigurationKey_wire ConfigurationKey.AdditionalRootCertificateCheck = ''AdditionalRootCertificateCheck''"
| "ConfigurationKey_wire ConfigurationKey.AuthorizationKey = ''AuthorizationKey''"
| "ConfigurationKey_wire ConfigurationKey.CpoName = ''CpoName''"
| "ConfigurationKey_wire ConfigurationKey.SecurityProfile = ''SecurityProfile''"

definition ConfigurationKey_all :: "ConfigurationKey list" where
  "ConfigurationKey_all = [ConfigurationKey.AllowOfflineTxForUnknownId,
     ConfigurationKey.AuthorizationCacheEnabled,
     ConfigurationKey.AuthorizeRemoteTxRequests, ConfigurationKey.BlinkRepeat,
     ConfigurationKey.ClockAlignedDataInterval, ConfigurationKey.ConnectionTimeOut,
     ConfigurationKey.ConnectorPhaseRotation,
     ConfigurationKey.ConnectorPhaseRotationMaxLength,
     ConfigurationKey.GetConfigurationMaxKeys, ConfigurationKey.HeartbeatInterval,
     ConfigurationKey.LightIntensity, ConfigurationKey.LocalAuthorizeOffline,
     ConfigurationKey.LocalPreAuthorize, ConfigurationKey.MaxEnergyOnInvalidId,
     ConfigurationKey.MeterValuesAlignedData,
     ConfigurationKey.MeterValuesAlignedDataMaxLength,
     ConfigurationKey.MeterValuesSampledData,
     ConfigurationKey.MeterValuesSampledDataMaxLength,
     ConfigurationKey.MeterValueSampleInterval, ConfigurationKey.MinimumStatusDuration,
     ConfigurationKey.NumberOfConnectors, ConfigurationKey.ResetRetries,
     ConfigurationKey.StopTransactionOnEVSideDisconnect,
     ConfigurationKey.StopTransactionOnInvalidId, ConfigurationKey.StopTxnAlignedData,
     ConfigurationKey.StopTxnAlignedDataMaxLength, ConfigurationKey.StopTxnSampledData,
     ConfigurationKey.StopTxnSampledDataMaxLength,
     ConfigurationKey.SupportedFeatureProfiles,
     ConfigurationKey.SupportedFeatureProfilesMaxLength,
     ConfigurationKey.TransactionMessageAttempts,
     ConfigurationKey.TransactionMessageRetryInterval,
     ConfigurationKey.UnlockConnectorOnEVSideDisconnect,
     ConfigurationKey.WebSocketPingInterval, ConfigurationKey.LocalAuthListEnabled,
     ConfigurationKey.LocalAuthListMaxLength, ConfigurationKey.SendLocalListMaxLength,
     ConfigurationKey.ReserveConnectorZeroSupported,
     ConfigurationKey.ChargeProfileMaxStackLevel,
     ConfigurationKey.ChargingScheduleAllowedChargingRateUnit,
     ConfigurationKey.ChargingScheduleMaxPeriods,
     ConfigurationKey.ConnectorSwitch3to1PhaseSupported,
     ConfigurationKey.MaxChargingProfilesInstalled,
     ConfigurationKey.CentralContractValidationAllowed,
     ConfigurationKey.CertificateSignedMaxChainSize,
     ConfigurationKey.CertSigningWaitMinimum, ConfigurationKey.CertSigningRepeatTimes,
     ConfigurationKey.CertificateStoreMaxLength,
     ConfigurationKey.ContractValidationOffline, ConfigurationKey.ISO15118PnCEnabled,
     ConfigurationKey.AdditionalRootCertificateCheck,
     ConfigurationKey.AuthorizationKey, ConfigurationKey.CpoName,
     ConfigurationKey.SecurityProfile]"

definition ConfigurationKey_of_wire :: "string \<Rightarrow> ConfigurationKey option" where
  "ConfigurationKey_of_wire = decode_by ConfigurationKey_all ConfigurationKey_wire"

interpretation ConfigurationKey_codec: wire_codec ConfigurationKey_wire ConfigurationKey_of_wire
  unfolding ConfigurationKey_of_wire_def
proof (rule wire_codec_distinct)
  show "x \<in> set ConfigurationKey_all" for x by (cases x) (simp_all add: ConfigurationKey_all_def)
  show "distinct (map ConfigurationKey_wire ConfigurationKey_all)" by (simp add: ConfigurationKey_all_def)
qed

datatype UpdateType =
    Differential
  | Full

primrec UpdateType_wire :: "UpdateType \<Rightarrow> string" where
  "UpdateType_wire UpdateType.Differential = ''Differential''"
| "UpdateType_wire UpdateType.Full = ''Full''"

definition UpdateType_all :: "UpdateType list" where
  "UpdateType_all = [UpdateType.Differential, UpdateType.Full]"

definition UpdateType_of_wire :: "string \<Rightarrow> UpdateType option" where
  "UpdateType_of_wire = decode_by UpdateType_all UpdateType_wire"

interpretation UpdateType_codec: wire_codec UpdateType_wire UpdateType_of_wire
  unfolding UpdateType_of_wire_def
proof (rule wire_codec_distinct)
  show "x \<in> set UpdateType_all" for x by (cases x) (simp_all add: UpdateType_all_def)
  show "distinct (map UpdateType_wire UpdateType_all)" by (simp add: UpdateType_all_def)
qed

datatype DataTransferStatus =
    Accepted
  | Rejected
  | UnknownMessageId
  | UnknownVendorId

primrec DataTransferStatus_wire :: "DataTransferStatus \<Rightarrow> string" where
  "DataTransferStatus_wire DataTransferStatus.Accepted = ''Accepted''"
| "DataTransferStatus_wire DataTransferStatus.Rejected = ''Rejected''"
| "DataTransferStatus_wire DataTransferStatus.UnknownMessageId = ''UnknownMessageId''"
| "DataTransferStatus_wire DataTransferStatus.UnknownVendorId = ''UnknownVendorId''"

definition DataTransferStatus_all :: "DataTransferStatus list" where
  "DataTransferStatus_all = [DataTransferStatus.Accepted, DataTransferStatus.Rejected,
     DataTransferStatus.UnknownMessageId, DataTransferStatus.UnknownVendorId]"

definition DataTransferStatus_of_wire :: "string \<Rightarrow> DataTransferStatus option" where
  "DataTransferStatus_of_wire = decode_by DataTransferStatus_all DataTransferStatus_wire"

interpretation DataTransferStatus_codec: wire_codec DataTransferStatus_wire DataTransferStatus_of_wire
  unfolding DataTransferStatus_of_wire_def
proof (rule wire_codec_distinct)
  show "x \<in> set DataTransferStatus_all" for x by (cases x) (simp_all add: DataTransferStatus_all_def)
  show "distinct (map DataTransferStatus_wire DataTransferStatus_all)" by (simp add: DataTransferStatus_all_def)
qed

datatype ResetType =
    Hard
  | Soft

primrec ResetType_wire :: "ResetType \<Rightarrow> string" where
  "ResetType_wire ResetType.Hard = ''Hard''"
| "ResetType_wire ResetType.Soft = ''Soft''"

definition ResetType_all :: "ResetType list" where
  "ResetType_all = [ResetType.Hard, ResetType.Soft]"

definition ResetType_of_wire :: "string \<Rightarrow> ResetType option" where
  "ResetType_of_wire = decode_by ResetType_all ResetType_wire"

interpretation ResetType_codec: wire_codec ResetType_wire ResetType_of_wire
  unfolding ResetType_of_wire_def
proof (rule wire_codec_distinct)
  show "x \<in> set ResetType_all" for x by (cases x) (simp_all add: ResetType_all_def)
  show "distinct (map ResetType_wire ResetType_all)" by (simp add: ResetType_all_def)
qed

datatype ResetStatus =
    Accepted
  | Rejected

primrec ResetStatus_wire :: "ResetStatus \<Rightarrow> string" where
  "ResetStatus_wire ResetStatus.Accepted = ''Accepted''"
| "ResetStatus_wire ResetStatus.Rejected = ''Rejected''"

definition ResetStatus_all :: "ResetStatus list" where
  "ResetStatus_all = [ResetStatus.Accepted, ResetStatus.Rejected]"

definition ResetStatus_of_wire :: "string \<Rightarrow> ResetStatus option" where
  "ResetStatus_of_wire = decode_by ResetStatus_all ResetStatus_wire"

interpretation ResetStatus_codec: wire_codec ResetStatus_wire ResetStatus_of_wire
  unfolding ResetStatus_of_wire_def
proof (rule wire_codec_distinct)
  show "x \<in> set ResetStatus_all" for x by (cases x) (simp_all add: ResetStatus_all_def)
  show "distinct (map ResetStatus_wire ResetStatus_all)" by (simp add: ResetStatus_all_def)
qed

datatype ClearCacheStatus =
    Accepted
  | Rejected

primrec ClearCacheStatus_wire :: "ClearCacheStatus \<Rightarrow> string" where
  "ClearCacheStatus_wire ClearCacheStatus.Accepted = ''Accepted''"
| "ClearCacheStatus_wire ClearCacheStatus.Rejected = ''Rejected''"

definition ClearCacheStatus_all :: "ClearCacheStatus list" where
  "ClearCacheStatus_all = [ClearCacheStatus.Accepted, ClearCacheStatus.Rejected]"

definition ClearCacheStatus_of_wire :: "string \<Rightarrow> ClearCacheStatus option" where
  "ClearCacheStatus_of_wire = decode_by ClearCacheStatus_all ClearCacheStatus_wire"

interpretation ClearCacheStatus_codec: wire_codec ClearCacheStatus_wire ClearCacheStatus_of_wire
  unfolding ClearCacheStatus_of_wire_def
proof (rule wire_codec_distinct)
  show "x \<in> set ClearCacheStatus_all" for x by (cases x) (simp_all add: ClearCacheStatus_all_def)
  show "distinct (map ClearCacheStatus_wire ClearCacheStatus_all)" by (simp add: ClearCacheStatus_all_def)
qed

datatype ChargingProfilePurposeType =
    ChargePointMaxProfile
  | TxDefaultProfile
  | TxProfile

primrec ChargingProfilePurposeType_wire :: "ChargingProfilePurposeType \<Rightarrow> string" where
  "ChargingProfilePurposeType_wire ChargingProfilePurposeType.ChargePointMaxProfile = ''ChargePointMaxProfile''"
| "ChargingProfilePurposeType_wire ChargingProfilePurposeType.TxDefaultProfile = ''TxDefaultProfile''"
| "ChargingProfilePurposeType_wire ChargingProfilePurposeType.TxProfile = ''TxProfile''"

definition ChargingProfilePurposeType_all :: "ChargingProfilePurposeType list" where
  "ChargingProfilePurposeType_all = [ChargingProfilePurposeType.ChargePointMaxProfile,
     ChargingProfilePurposeType.TxDefaultProfile, ChargingProfilePurposeType.TxProfile]"

definition ChargingProfilePurposeType_of_wire :: "string \<Rightarrow> ChargingProfilePurposeType option" where
  "ChargingProfilePurposeType_of_wire = decode_by ChargingProfilePurposeType_all ChargingProfilePurposeType_wire"

interpretation ChargingProfilePurposeType_codec: wire_codec ChargingProfilePurposeType_wire ChargingProfilePurposeType_of_wire
  unfolding ChargingProfilePurposeType_of_wire_def
proof (rule wire_codec_distinct)
  show "x \<in> set ChargingProfilePurposeType_all" for x by (cases x) (simp_all add: ChargingProfilePurposeType_all_def)
  show "distinct (map ChargingProfilePurposeType_wire ChargingProfilePurposeType_all)" by (simp add: ChargingProfilePurposeType_all_def)
qed

datatype ChargingProfileKindType =
    Absolute
  | Recurring
  | Relative

primrec ChargingProfileKindType_wire :: "ChargingProfileKindType \<Rightarrow> string" where
  "ChargingProfileKindType_wire ChargingProfileKindType.Absolute = ''Absolute''"
| "ChargingProfileKindType_wire ChargingProfileKindType.Recurring = ''Recurring''"
| "ChargingProfileKindType_wire ChargingProfileKindType.Relative = ''Relative''"

definition ChargingProfileKindType_all :: "ChargingProfileKindType list" where
  "ChargingProfileKindType_all = [ChargingProfileKindType.Absolute, ChargingProfileKindType.Recurring,
     ChargingProfileKindType.Relative]"

definition ChargingProfileKindType_of_wire :: "string \<Rightarrow> ChargingProfileKindType option" where
  "ChargingProfileKindType_of_wire = decode_by ChargingProfileKindType_all ChargingProfileKindType_wire"

interpretation ChargingProfileKindType_codec: wire_codec ChargingProfileKindType_wire ChargingProfileKindType_of_wire
  unfolding ChargingProfileKindType_of_wire_def
proof (rule wire_codec_distinct)
  show "x \<in> set ChargingProfileKindType_all" for x by (cases x) (simp_all add: ChargingProfileKindType_all_def)
  show "distinct (map ChargingProfileKindType_wire ChargingProfileKindType_all)" by (simp add: ChargingProfileKindType_all_def)
qed

datatype RecurrencyKindType =
    Daily
  | Weekly

primrec RecurrencyKindType_wire :: "RecurrencyKindType \<Rightarrow> string" where
  "RecurrencyKindType_wire RecurrencyKindType.Daily = ''Daily''"
| "RecurrencyKindType_wire RecurrencyKindType.Weekly = ''Weekly''"

definition RecurrencyKindType_all :: "RecurrencyKindType list" where
  "RecurrencyKindType_all = [RecurrencyKindType.Daily, RecurrencyKindType.Weekly]"

definition RecurrencyKindType_of_wire :: "string \<Rightarrow> RecurrencyKindType option" where
  "RecurrencyKindType_of_wire = decode_by RecurrencyKindType_all RecurrencyKindType_wire"

interpretation RecurrencyKindType_codec: wire_codec RecurrencyKindType_wire RecurrencyKindType_of_wire
  unfolding RecurrencyKindType_of_wire_def
proof (rule wire_codec_distinct)
  show "x \<in> set RecurrencyKindType_all" for x by (cases x) (simp_all add: RecurrencyKindType_all_def)
  show "distinct (map RecurrencyKindType_wire RecurrencyKindType_all)" by (simp add: RecurrencyKindType_all_def)
qed

datatype ChargingRateUnitType =
    W_unit
  | A_unit

primrec ChargingRateUnitType_wire :: "ChargingRateUnitType \<Rightarrow> string" where
  "ChargingRateUnitType_wire ChargingRateUnitType.W_unit = ''W''"
| "ChargingRateUnitType_wire ChargingRateUnitType.A_unit = ''A''"

definition ChargingRateUnitType_all :: "ChargingRateUnitType list" where
  "ChargingRateUnitType_all = [ChargingRateUnitType.W_unit, ChargingRateUnitType.A_unit]"

definition ChargingRateUnitType_of_wire :: "string \<Rightarrow> ChargingRateUnitType option" where
  "ChargingRateUnitType_of_wire = decode_by ChargingRateUnitType_all ChargingRateUnitType_wire"

interpretation ChargingRateUnitType_codec: wire_codec ChargingRateUnitType_wire ChargingRateUnitType_of_wire
  unfolding ChargingRateUnitType_of_wire_def
proof (rule wire_codec_distinct)
  show "x \<in> set ChargingRateUnitType_all" for x by (cases x) (simp_all add: ChargingRateUnitType_all_def)
  show "distinct (map ChargingRateUnitType_wire ChargingRateUnitType_all)" by (simp add: ChargingRateUnitType_all_def)
qed

datatype ChargingProfileStatus =
    Accepted
  | Rejected
  | NotSupported

primrec ChargingProfileStatus_wire :: "ChargingProfileStatus \<Rightarrow> string" where
  "ChargingProfileStatus_wire ChargingProfileStatus.Accepted = ''Accepted''"
| "ChargingProfileStatus_wire ChargingProfileStatus.Rejected = ''Rejected''"
| "ChargingProfileStatus_wire ChargingProfileStatus.NotSupported = ''NotSupported''"

definition ChargingProfileStatus_all :: "ChargingProfileStatus list" where
  "ChargingProfileStatus_all = [ChargingProfileStatus.Accepted, ChargingProfileStatus.Rejected,
     ChargingProfileStatus.NotSupported]"

definition ChargingProfileStatus_of_wire :: "string \<Rightarrow> ChargingProfileStatus option" where
  "ChargingProfileStatus_of_wire = decode_by ChargingProfileStatus_all ChargingProfileStatus_wire"

interpretation ChargingProfileStatus_codec: wire_codec ChargingProfileStatus_wire ChargingProfileStatus_of_wire
  unfolding ChargingProfileStatus_of_wire_def
proof (rule wire_codec_distinct)
  show "x \<in> set ChargingProfileStatus_all" for x by (cases x) (simp_all add: ChargingProfileStatus_all_def)
  show "distinct (map ChargingProfileStatus_wire ChargingProfileStatus_all)" by (simp add: ChargingProfileStatus_all_def)
qed

datatype ClearChargingProfileStatus =
    Accepted
  | Unknown

primrec ClearChargingProfileStatus_wire :: "ClearChargingProfileStatus \<Rightarrow> string" where
  "ClearChargingProfileStatus_wire ClearChargingProfileStatus.Accepted = ''Accepted''"
| "ClearChargingProfileStatus_wire ClearChargingProfileStatus.Unknown = ''Unknown''"

definition ClearChargingProfileStatus_all :: "ClearChargingProfileStatus list" where
  "ClearChargingProfileStatus_all = [ClearChargingProfileStatus.Accepted, ClearChargingProfileStatus.Unknown]"

definition ClearChargingProfileStatus_of_wire :: "string \<Rightarrow> ClearChargingProfileStatus option" where
  "ClearChargingProfileStatus_of_wire = decode_by ClearChargingProfileStatus_all ClearChargingProfileStatus_wire"

interpretation ClearChargingProfileStatus_codec: wire_codec ClearChargingProfileStatus_wire ClearChargingProfileStatus_of_wire
  unfolding ClearChargingProfileStatus_of_wire_def
proof (rule wire_codec_distinct)
  show "x \<in> set ClearChargingProfileStatus_all" for x by (cases x) (simp_all add: ClearChargingProfileStatus_all_def)
  show "distinct (map ClearChargingProfileStatus_wire ClearChargingProfileStatus_all)" by (simp add: ClearChargingProfileStatus_all_def)
qed

datatype GetCompositeScheduleStatus =
    Accepted
  | Rejected

primrec GetCompositeScheduleStatus_wire :: "GetCompositeScheduleStatus \<Rightarrow> string" where
  "GetCompositeScheduleStatus_wire GetCompositeScheduleStatus.Accepted = ''Accepted''"
| "GetCompositeScheduleStatus_wire GetCompositeScheduleStatus.Rejected = ''Rejected''"

definition GetCompositeScheduleStatus_all :: "GetCompositeScheduleStatus list" where
  "GetCompositeScheduleStatus_all = [GetCompositeScheduleStatus.Accepted, GetCompositeScheduleStatus.Rejected]"

definition GetCompositeScheduleStatus_of_wire :: "string \<Rightarrow> GetCompositeScheduleStatus option" where
  "GetCompositeScheduleStatus_of_wire = decode_by GetCompositeScheduleStatus_all GetCompositeScheduleStatus_wire"

interpretation GetCompositeScheduleStatus_codec: wire_codec GetCompositeScheduleStatus_wire GetCompositeScheduleStatus_of_wire
  unfolding GetCompositeScheduleStatus_of_wire_def
proof (rule wire_codec_distinct)
  show "x \<in> set GetCompositeScheduleStatus_all" for x by (cases x) (simp_all add: GetCompositeScheduleStatus_all_def)
  show "distinct (map GetCompositeScheduleStatus_wire GetCompositeScheduleStatus_all)" by (simp add: GetCompositeScheduleStatus_all_def)
qed

datatype MessageTrigger =
    BootNotification
  | DiagnosticsStatusNotification
  | FirmwareStatusNotification
  | Heartbeat
  | MeterValues
  | StatusNotification
  | LogStatusNotification
  | SignChargePointCertificate

primrec MessageTrigger_wire :: "MessageTrigger \<Rightarrow> string" where
  "MessageTrigger_wire MessageTrigger.BootNotification = ''BootNotification''"
| "MessageTrigger_wire MessageTrigger.DiagnosticsStatusNotification = ''DiagnosticsStatusNotification''"
| "MessageTrigger_wire MessageTrigger.FirmwareStatusNotification = ''FirmwareStatusNotification''"
| "MessageTrigger_wire MessageTrigger.Heartbeat = ''Heartbeat''"
| "MessageTrigger_wire MessageTrigger.MeterValues = ''MeterValues''"
| "MessageTrigger_wire MessageTrigger.StatusNotification = ''StatusNotification''"
| "MessageTrigger_wire MessageTrigger.LogStatusNotification = ''LogStatusNotification''"
| "MessageTrigger_wire MessageTrigger.SignChargePointCertificate = ''SignChargePointCertificate''"

definition MessageTrigger_all :: "MessageTrigger list" where
  "MessageTrigger_all = [MessageTrigger.BootNotification, MessageTrigger.DiagnosticsStatusNotification,
     MessageTrigger.FirmwareStatusNotification, MessageTrigger.Heartbeat,
     MessageTrigger.MeterValues, MessageTrigger.StatusNotification,
     MessageTrigger.LogStatusNotification, MessageTrigger.SignChargePointCertificate]"

definition MessageTrigger_of_wire :: "string \<Rightarrow> MessageTrigger option" where
  "MessageTrigger_of_wire = decode_by MessageTrigger_all MessageTrigger_wire"

interpretation MessageTrigger_codec: wire_codec MessageTrigger_wire MessageTrigger_of_wire
  unfolding MessageTrigger_of_wire_def
proof (rule wire_codec_distinct)
  show "x \<in> set MessageTrigger_all" for x by (cases x) (simp_all add: MessageTrigger_all_def)
  show "distinct (map MessageTrigger_wire MessageTrigger_all)" by (simp add: MessageTrigger_all_def)
qed

datatype TriggerMessageStatus =
    Accepted
  | Rejected
  | NotImplemented

primrec TriggerMessageStatus_wire :: "TriggerMessageStatus \<Rightarrow> string" where
  "TriggerMessageStatus_wire TriggerMessageStatus.Accepted = ''Accepted''"
| "TriggerMessageStatus_wire TriggerMessageStatus.Rejected = ''Rejected''"
| "TriggerMessageStatus_wire TriggerMessageStatus.NotImplemented = ''NotImplemented''"

definition TriggerMessageStatus_all :: "TriggerMessageStatus list" where
  "TriggerMessageStatus_all = [TriggerMessageStatus.Accepted, TriggerMessageStatus.Rejected,
     TriggerMessageStatus.NotImplemented]"

definition TriggerMessageStatus_of_wire :: "string \<Rightarrow> TriggerMessageStatus option" where
  "TriggerMessageStatus_of_wire = decode_by TriggerMessageStatus_all TriggerMessageStatus_wire"

interpretation TriggerMessageStatus_codec: wire_codec TriggerMessageStatus_wire TriggerMessageStatus_of_wire
  unfolding TriggerMessageStatus_of_wire_def
proof (rule wire_codec_distinct)
  show "x \<in> set TriggerMessageStatus_all" for x by (cases x) (simp_all add: TriggerMessageStatus_all_def)
  show "distinct (map TriggerMessageStatus_wire TriggerMessageStatus_all)" by (simp add: TriggerMessageStatus_all_def)
qed

datatype UpdateStatus =
    Accepted
  | Failed
  | NotSupported
  | VersionMismatch

primrec UpdateStatus_wire :: "UpdateStatus \<Rightarrow> string" where
  "UpdateStatus_wire UpdateStatus.Accepted = ''Accepted''"
| "UpdateStatus_wire UpdateStatus.Failed = ''Failed''"
| "UpdateStatus_wire UpdateStatus.NotSupported = ''NotSupported''"
| "UpdateStatus_wire UpdateStatus.VersionMismatch = ''VersionMismatch''"

definition UpdateStatus_all :: "UpdateStatus list" where
  "UpdateStatus_all = [UpdateStatus.Accepted, UpdateStatus.Failed, UpdateStatus.NotSupported,
     UpdateStatus.VersionMismatch]"

definition UpdateStatus_of_wire :: "string \<Rightarrow> UpdateStatus option" where
  "UpdateStatus_of_wire = decode_by UpdateStatus_all UpdateStatus_wire"

interpretation UpdateStatus_codec: wire_codec UpdateStatus_wire UpdateStatus_of_wire
  unfolding UpdateStatus_of_wire_def
proof (rule wire_codec_distinct)
  show "x \<in> set UpdateStatus_all" for x by (cases x) (simp_all add: UpdateStatus_all_def)
  show "distinct (map UpdateStatus_wire UpdateStatus_all)" by (simp add: UpdateStatus_all_def)
qed

datatype HashAlgorithmType =
    Sha256
  | Sha384
  | Sha512

primrec HashAlgorithmType_wire :: "HashAlgorithmType \<Rightarrow> string" where
  "HashAlgorithmType_wire HashAlgorithmType.Sha256 = ''SHA256''"
| "HashAlgorithmType_wire HashAlgorithmType.Sha384 = ''SHA384''"
| "HashAlgorithmType_wire HashAlgorithmType.Sha512 = ''SHA512''"

definition HashAlgorithmType_all :: "HashAlgorithmType list" where
  "HashAlgorithmType_all = [HashAlgorithmType.Sha256, HashAlgorithmType.Sha384, HashAlgorithmType.Sha512]"

definition HashAlgorithmType_of_wire :: "string \<Rightarrow> HashAlgorithmType option" where
  "HashAlgorithmType_of_wire = decode_by HashAlgorithmType_all HashAlgorithmType_wire"

interpretation HashAlgorithmType_codec: wire_codec HashAlgorithmType_wire HashAlgorithmType_of_wire
  unfolding HashAlgorithmType_of_wire_def
proof (rule wire_codec_distinct)
  show "x \<in> set HashAlgorithmType_all" for x by (cases x) (simp_all add: HashAlgorithmType_all_def)
  show "distinct (map HashAlgorithmType_wire HashAlgorithmType_all)" by (simp add: HashAlgorithmType_all_def)
qed

datatype CertificateUse =
    CentralSystemRootCertificate
  | ManufacturerRootCertificate

primrec CertificateUse_wire :: "CertificateUse \<Rightarrow> string" where
  "CertificateUse_wire CertificateUse.CentralSystemRootCertificate = ''CentralSystemRootCertificate''"
| "CertificateUse_wire CertificateUse.ManufacturerRootCertificate = ''ManufacturerRootCertificate''"

definition CertificateUse_all :: "CertificateUse list" where
  "CertificateUse_all = [CertificateUse.CentralSystemRootCertificate,
     CertificateUse.ManufacturerRootCertificate]"

definition CertificateUse_of_wire :: "string \<Rightarrow> CertificateUse option" where
  "CertificateUse_of_wire = decode_by CertificateUse_all CertificateUse_wire"

interpretation CertificateUse_codec: wire_codec CertificateUse_wire CertificateUse_of_wire
  unfolding CertificateUse_of_wire_def
proof (rule wire_codec_distinct)
  show "x \<in> set CertificateUse_all" for x by (cases x) (simp_all add: CertificateUse_all_def)
  show "distinct (map CertificateUse_wire CertificateUse_all)" by (simp add: CertificateUse_all_def)
qed

datatype CertificateSignedStatus =
    Accepted
  | Rejected

primrec CertificateSignedStatus_wire :: "CertificateSignedStatus \<Rightarrow> string" where
  "CertificateSignedStatus_wire CertificateSignedStatus.Accepted = ''Accepted''"
| "CertificateSignedStatus_wire CertificateSignedStatus.Rejected = ''Rejected''"

definition CertificateSignedStatus_all :: "CertificateSignedStatus list" where
  "CertificateSignedStatus_all = [CertificateSignedStatus.Accepted, CertificateSignedStatus.Rejected]"

definition CertificateSignedStatus_of_wire :: "string \<Rightarrow> CertificateSignedStatus option" where
  "CertificateSignedStatus_of_wire = decode_by CertificateSignedStatus_all CertificateSignedStatus_wire"

interpretation CertificateSignedStatus_codec: wire_codec CertificateSignedStatus_wire CertificateSignedStatus_of_wire
  unfolding CertificateSignedStatus_of_wire_def
proof (rule wire_codec_distinct)
  show "x \<in> set CertificateSignedStatus_all" for x by (cases x) (simp_all add: CertificateSignedStatus_all_def)
  show "distinct (map CertificateSignedStatus_wire CertificateSignedStatus_all)" by (simp add: CertificateSignedStatus_all_def)
qed

datatype DeleteCertificateStatus =
    Accepted
  | Failed
  | NotFound

primrec DeleteCertificateStatus_wire :: "DeleteCertificateStatus \<Rightarrow> string" where
  "DeleteCertificateStatus_wire DeleteCertificateStatus.Accepted = ''Accepted''"
| "DeleteCertificateStatus_wire DeleteCertificateStatus.Failed = ''Failed''"
| "DeleteCertificateStatus_wire DeleteCertificateStatus.NotFound = ''NotFound''"

definition DeleteCertificateStatus_all :: "DeleteCertificateStatus list" where
  "DeleteCertificateStatus_all = [DeleteCertificateStatus.Accepted, DeleteCertificateStatus.Failed,
     DeleteCertificateStatus.NotFound]"

definition DeleteCertificateStatus_of_wire :: "string \<Rightarrow> DeleteCertificateStatus option" where
  "DeleteCertificateStatus_of_wire = decode_by DeleteCertificateStatus_all DeleteCertificateStatus_wire"

interpretation DeleteCertificateStatus_codec: wire_codec DeleteCertificateStatus_wire DeleteCertificateStatus_of_wire
  unfolding DeleteCertificateStatus_of_wire_def
proof (rule wire_codec_distinct)
  show "x \<in> set DeleteCertificateStatus_all" for x by (cases x) (simp_all add: DeleteCertificateStatus_all_def)
  show "distinct (map DeleteCertificateStatus_wire DeleteCertificateStatus_all)" by (simp add: DeleteCertificateStatus_all_def)
qed

datatype GetInstalledCertificatesStatus =
    Accepted
  | NotFound

primrec GetInstalledCertificatesStatus_wire :: "GetInstalledCertificatesStatus \<Rightarrow> string" where
  "GetInstalledCertificatesStatus_wire GetInstalledCertificatesStatus.Accepted = ''Accepted''"
| "GetInstalledCertificatesStatus_wire GetInstalledCertificatesStatus.NotFound = ''NotFound''"

definition GetInstalledCertificatesStatus_all :: "GetInstalledCertificatesStatus list" where
  "GetInstalledCertificatesStatus_all = [GetInstalledCertificatesStatus.Accepted, GetInstalledCertificatesStatus.NotFound]"

definition GetInstalledCertificatesStatus_of_wire :: "string \<Rightarrow> GetInstalledCertificatesStatus option" where
  "GetInstalledCertificatesStatus_of_wire = decode_by GetInstalledCertificatesStatus_all GetInstalledCertificatesStatus_wire"

interpretation GetInstalledCertificatesStatus_codec: wire_codec GetInstalledCertificatesStatus_wire GetInstalledCertificatesStatus_of_wire
  unfolding GetInstalledCertificatesStatus_of_wire_def
proof (rule wire_codec_distinct)
  show "x \<in> set GetInstalledCertificatesStatus_all" for x by (cases x) (simp_all add: GetInstalledCertificatesStatus_all_def)
  show "distinct (map GetInstalledCertificatesStatus_wire GetInstalledCertificatesStatus_all)" by (simp add: GetInstalledCertificatesStatus_all_def)
qed

datatype InstallCertificateStatus =
    Accepted
  | Rejected
  | Failed

primrec InstallCertificateStatus_wire :: "InstallCertificateStatus \<Rightarrow> string" where
  "InstallCertificateStatus_wire InstallCertificateStatus.Accepted = ''Accepted''"
| "InstallCertificateStatus_wire InstallCertificateStatus.Rejected = ''Rejected''"
| "InstallCertificateStatus_wire InstallCertificateStatus.Failed = ''Failed''"

definition InstallCertificateStatus_all :: "InstallCertificateStatus list" where
  "InstallCertificateStatus_all = [InstallCertificateStatus.Accepted, InstallCertificateStatus.Rejected,
     InstallCertificateStatus.Failed]"

definition InstallCertificateStatus_of_wire :: "string \<Rightarrow> InstallCertificateStatus option" where
  "InstallCertificateStatus_of_wire = decode_by InstallCertificateStatus_all InstallCertificateStatus_wire"

interpretation InstallCertificateStatus_codec: wire_codec InstallCertificateStatus_wire InstallCertificateStatus_of_wire
  unfolding InstallCertificateStatus_of_wire_def
proof (rule wire_codec_distinct)
  show "x \<in> set InstallCertificateStatus_all" for x by (cases x) (simp_all add: InstallCertificateStatus_all_def)
  show "distinct (map InstallCertificateStatus_wire InstallCertificateStatus_all)" by (simp add: InstallCertificateStatus_all_def)
qed

datatype GenericStatus =
    Accepted
  | Rejected

primrec GenericStatus_wire :: "GenericStatus \<Rightarrow> string" where
  "GenericStatus_wire GenericStatus.Accepted = ''Accepted''"
| "GenericStatus_wire GenericStatus.Rejected = ''Rejected''"

definition GenericStatus_all :: "GenericStatus list" where
  "GenericStatus_all = [GenericStatus.Accepted, GenericStatus.Rejected]"

definition GenericStatus_of_wire :: "string \<Rightarrow> GenericStatus option" where
  "GenericStatus_of_wire = decode_by GenericStatus_all GenericStatus_wire"

interpretation GenericStatus_codec: wire_codec GenericStatus_wire GenericStatus_of_wire
  unfolding GenericStatus_of_wire_def
proof (rule wire_codec_distinct)
  show "x \<in> set GenericStatus_all" for x by (cases x) (simp_all add: GenericStatus_all_def)
  show "distinct (map GenericStatus_wire GenericStatus_all)" by (simp add: GenericStatus_all_def)
qed

datatype LogType =
    DiagnosticsLog
  | SecurityLog

primrec LogType_wire :: "LogType \<Rightarrow> string" where
  "LogType_wire LogType.DiagnosticsLog = ''DiagnosticsLog''"
| "LogType_wire LogType.SecurityLog = ''SecurityLog''"

definition LogType_all :: "LogType list" where
  "LogType_all = [LogType.DiagnosticsLog, LogType.SecurityLog]"

definition LogType_of_wire :: "string \<Rightarrow> LogType option" where
  "LogType_of_wire = decode_by LogType_all LogType_wire"

interpretation LogType_codec: wire_codec LogType_wire LogType_of_wire
  unfolding LogType_of_wire_def
proof (rule wire_codec_distinct)
  show "x \<in> set LogType_all" for x by (cases x) (simp_all add: LogType_all_def)
  show "distinct (map LogType_wire LogType_all)" by (simp add: LogType_all_def)
qed

datatype LogStatus =
    Accepted
  | Rejected
  | AcceptedCanceled

primrec LogStatus_wire :: "LogStatus \<Rightarrow> string" where
  "LogStatus_wire LogStatus.Accepted = ''Accepted''"
| "LogStatus_wire LogStatus.Rejected = ''Rejected''"
| "LogStatus_wire LogStatus.AcceptedCanceled = ''AcceptedCanceled''"

definition LogStatus_all :: "LogStatus list" where
  "LogStatus_all = [LogStatus.Accepted, LogStatus.Rejected, LogStatus.AcceptedCanceled]"

definition LogStatus_of_wire :: "string \<Rightarrow> LogStatus option" where
  "LogStatus_of_wire = decode_by LogStatus_all LogStatus_wire"

interpretation LogStatus_codec: wire_codec LogStatus_wire LogStatus_of_wire
  unfolding LogStatus_of_wire_def
proof (rule wire_codec_distinct)
  show "x \<in> set LogStatus_all" for x by (cases x) (simp_all add: LogStatus_all_def)
  show "distinct (map LogStatus_wire LogStatus_all)" by (simp add: LogStatus_all_def)
qed

datatype UploadLogStatus =
    BadMessage
  | Idle
  | NotSupportedOperation
  | PermissionDenied
  | Uploaded
  | UploadFailure
  | Uploading

primrec UploadLogStatus_wire :: "UploadLogStatus \<Rightarrow> string" where
  "UploadLogStatus_wire UploadLogStatus.BadMessage = ''BadMessage''"
| "UploadLogStatus_wire UploadLogStatus.Idle = ''Idle''"
| "UploadLogStatus_wire UploadLogStatus.NotSupportedOperation = ''NotSupportedOperation''"
| "UploadLogStatus_wire UploadLogStatus.PermissionDenied = ''PermissionDenied''"
| "UploadLogStatus_wire UploadLogStatus.Uploaded = ''Uploaded''"
| "UploadLogStatus_wire UploadLogStatus.UploadFailure = ''UploadFailure''"
| "UploadLogStatus_wire UploadLogStatus.Uploading = ''Uploading''"

definition UploadLogStatus_all :: "UploadLogStatus list" where
  "UploadLogStatus_all = [UploadLogStatus.BadMessage, UploadLogStatus.Idle,
     UploadLogStatus.NotSupportedOperation, UploadLogStatus.PermissionDenied,
     UploadLogStatus.Uploaded, UploadLogStatus.UploadFailure, UploadLogStatus.Uploading]"

definition UploadLogStatus_of_wire :: "string \<Rightarrow> UploadLogStatus option" where
  "UploadLogStatus_of_wire = decode_by UploadLogStatus_all UploadLogStatus_wire"

interpretation UploadLogStatus_codec: wire_codec UploadLogStatus_wire UploadLogStatus_of_wire
  unfolding UploadLogStatus_of_wire_def
proof (rule wire_codec_distinct)
  show "x \<in> set UploadLogStatus_all" for x by (cases x) (simp_all add: UploadLogStatus_all_def)
  show "distinct (map UploadLogStatus_wire UploadLogStatus_all)" by (simp add: UploadLogStatus_all_def)
qed

datatype UpdateFirmwareStatus =
    Accepted
  | Rejected
  | AcceptedCanceled
  | InvalidCertificate
  | RevokedCertificate

primrec UpdateFirmwareStatus_wire :: "UpdateFirmwareStatus \<Rightarrow> string" where
  "UpdateFirmwareStatus_wire UpdateFirmwareStatus.Accepted = ''Accepted''"
| "UpdateFirmwareStatus_wire UpdateFirmwareStatus.Rejected = ''Rejected''"
| "UpdateFirmwareStatus_wire UpdateFirmwareStatus.AcceptedCanceled = ''AcceptedCanceled''"
| "UpdateFirmwareStatus_wire UpdateFirmwareStatus.InvalidCertificate = ''InvalidCertificate''"
| "UpdateFirmwareStatus_wire UpdateFirmwareStatus.RevokedCertificate = ''RevokedCertificate''"

definition UpdateFirmwareStatus_all :: "UpdateFirmwareStatus list" where
  "UpdateFirmwareStatus_all = [UpdateFirmwareStatus.Accepted, UpdateFirmwareStatus.Rejected,
     UpdateFirmwareStatus.AcceptedCanceled, UpdateFirmwareStatus.InvalidCertificate,
     UpdateFirmwareStatus.RevokedCertificate]"

definition UpdateFirmwareStatus_of_wire :: "string \<Rightarrow> UpdateFirmwareStatus option" where
  "UpdateFirmwareStatus_of_wire = decode_by UpdateFirmwareStatus_all UpdateFirmwareStatus_wire"

interpretation UpdateFirmwareStatus_codec: wire_codec UpdateFirmwareStatus_wire UpdateFirmwareStatus_of_wire
  unfolding UpdateFirmwareStatus_of_wire_def
proof (rule wire_codec_distinct)
  show "x \<in> set UpdateFirmwareStatus_all" for x by (cases x) (simp_all add: UpdateFirmwareStatus_all_def)
  show "distinct (map UpdateFirmwareStatus_wire UpdateFirmwareStatus_all)" by (simp add: UpdateFirmwareStatus_all_def)
qed

section \<open>Versions, message types and identifiers (\<open>ocpp-types/src/lib.rs\<close>)\<close>

datatype OcppVersion = V16J | V201

primrec OcppVersion_wire :: "OcppVersion \<Rightarrow> string" where
  "OcppVersion_wire V16J = ''1.6''"
| "OcppVersion_wire V201 = ''2.0.1''"

datatype MessageType = Call | CallResult | CallError

text \<open>The errors of the identifier constructors (a part of \<open>OcppError\<close>).\<close>

datatype id_error = InvalidMessageType "8 word" | InvalidConnectorId u32

definition MessageType_try_from :: "8 word \<Rightarrow> (id_error, MessageType) result" where
  "MessageType_try_from v =
     (if v = 2 then Ok Call else if v = 3 then Ok CallResult else if v = 4 then Ok CallError
      else Err (InvalidMessageType v))"

primrec MessageType_into_u8 :: "MessageType \<Rightarrow> 8 word" where
  "MessageType_into_u8 Call = 2"
| "MessageType_into_u8 CallResult = 3"
| "MessageType_into_u8 CallError = 4"

lemma MessageType_try_from_into: "MessageType_try_from (MessageType_into_u8 t) = Ok t"
  by (cases t) (simp_all add: MessageType_try_from_def)

lemma MessageType_into_try_from: "MessageType_try_from v = Ok t \<Longrightarrow> MessageType_into_u8 t = v"
  by (auto simp: MessageType_try_from_def split: if_splits)

text \<open>Connector ids are 1-based: the constructor refuses 0.\<close>

datatype ConnectorId = ConnectorId (connector_value: u32)

definition ConnectorId_new :: "u32 \<Rightarrow> (id_error, ConnectorId) result" where
  "ConnectorId_new i = (if i = 0 then Err (InvalidConnectorId i) else Ok (ConnectorId i))"

lemma ConnectorId_new_Ok: "ConnectorId_new i = Ok c \<Longrightarrow> connector_value c = i \<and> i \<noteq> 0"
  by (auto simp: ConnectorId_new_def split: if_splits)

datatype TransactionId = TransactionId (transaction_value: i32)

section \<open>Structures of \<open>common.rs\<close> and \<open>v16j.rs\<close>\<close>

text \<open>
  Record selectors are global, so each field carries the initials of its structure: the field
  \<open>limit\<close> of \<open>ChargingSchedulePeriod\<close> is \<open>csp_limit\<close>.
\<close>

record IdTagInfo =
  iti_status :: AuthorizationStatus
  iti_parent_id_tag :: "string option"
  iti_expiry_date :: "datetime option"

record KeyValue =
  kv_key :: string
  kv_value :: "string option"
  kv_readonly :: "bool option"

record AuthorizationData =
  ad_id_tag :: string
  ad_id_tag_info :: "IdTagInfo option"

record ChargingSchedulePeriod =
  csp_start_period :: i32
  csp_limit :: f64
  csp_number_phases :: "i32 option"

record ChargingSchedule =
  cs_duration :: "i32 option"
  cs_start_schedule :: "datetime option"
  cs_charging_rate_unit :: ChargingRateUnitType
  cs_charging_schedule_period :: "ChargingSchedulePeriod list"
  cs_min_charging_rate :: "f64 option"

record ChargingProfile =
  cp_charging_profile_id :: i32
  cp_transaction_id :: "i32 option"
  cp_stack_level :: i32
  cp_charging_profile_purpose :: ChargingProfilePurposeType
  cp_charging_profile_kind :: ChargingProfileKindType
  cp_recurrency_kind :: "RecurrencyKindType option"
  cp_valid_from :: "datetime option"
  cp_valid_to :: "datetime option"
  cp_charging_schedule :: ChargingSchedule

end
