(* ===== verification/Types201.thy ===== *)
theory Types201
  imports Types
begin

text \<open>
  The enumerations of \<open>ocpp-types/src/v201/enums.rs\<close> that the charge point and the 2.0.1
  structures use. Each is a datatype with the variants of the source, the wire spelling serde
  writes (\<open>_wire\<close>), the decoder serde derives (\<open>_of_wire\<close>) and an interpretation of
  \<open>wire_codec\<close>, which discharges the round trip. The catalogues of device-model variable names are
  open vocabularies no code reads, and are left out.
\<close>

datatype BootReasonEnumType =
    ApplicationReset
  | FirmwareUpdate
  | LocalReset
  | PowerUp
  | RemoteReset
  | ScheduledReset
  | Triggered
  | Unknown
  | Watchdog

primrec BootReasonEnumType_wire :: "BootReasonEnumType \<Rightarrow> string" where
  "BootReasonEnumType_wire BootReasonEnumType.ApplicationReset = ''ApplicationReset''"
| "BootReasonEnumType_wire BootReasonEnumType.FirmwareUpdate = ''FirmwareUpdate''"
| "BootReasonEnumType_wire BootReasonEnumType.LocalReset = ''LocalReset''"
| "BootReasonEnumType_wire BootReasonEnumType.PowerUp = ''PowerUp''"
| "BootReasonEnumType_wire BootReasonEnumType.RemoteReset = ''RemoteReset''"
| "BootReasonEnumType_wire BootReasonEnumType.ScheduledReset = ''ScheduledReset''"
| "BootReasonEnumType_wire BootReasonEnumType.Triggered = ''Triggered''"
| "BootReasonEnumType_wire BootReasonEnumType.Unknown = ''Unknown''"
| "BootReasonEnumType_wire BootReasonEnumType.Watchdog = ''Watchdog''"

definition BootReasonEnumType_all :: "BootReasonEnumType list" where
  "BootReasonEnumType_all = [BootReasonEnumType.ApplicationReset, BootReasonEnumType.FirmwareUpdate,
     BootReasonEnumType.LocalReset, BootReasonEnumType.PowerUp,
     BootReasonEnumType.RemoteReset, BootReasonEnumType.ScheduledReset,
     BootReasonEnumType.Triggered, BootReasonEnumType.Unknown,
     BootReasonEnumType.Watchdog]"

definition BootReasonEnumType_of_wire :: "string \<Rightarrow> BootReasonEnumType option" where
  "BootReasonEnumType_of_wire = decode_by BootReasonEnumType_all BootReasonEnumType_wire"

interpretation BootReasonEnumType_codec: wire_codec BootReasonEnumType_wire BootReasonEnumType_of_wire
  unfolding BootReasonEnumType_of_wire_def
proof (rule wire_codec_distinct)
  show "x \<in> set BootReasonEnumType_all" for x by (cases x) (simp_all add: BootReasonEnumType_all_def)
  show "distinct (map BootReasonEnumType_wire BootReasonEnumType_all)" by (simp add: BootReasonEnumType_all_def)
qed

datatype RegistrationStatusEnumType =
    Accepted
  | Pending
  | Rejected

primrec RegistrationStatusEnumType_wire :: "RegistrationStatusEnumType \<Rightarrow> string" where
  "RegistrationStatusEnumType_wire RegistrationStatusEnumType.Accepted = ''Accepted''"
| "RegistrationStatusEnumType_wire RegistrationStatusEnumType.Pending = ''Pending''"
| "RegistrationStatusEnumType_wire RegistrationStatusEnumType.Rejected = ''Rejected''"

definition RegistrationStatusEnumType_all :: "RegistrationStatusEnumType list" where
  "RegistrationStatusEnumType_all = [RegistrationStatusEnumType.Accepted, RegistrationStatusEnumType.Pending,
     RegistrationStatusEnumType.Rejected]"

definition RegistrationStatusEnumType_of_wire :: "string \<Rightarrow> RegistrationStatusEnumType option" where
  "RegistrationStatusEnumType_of_wire = decode_by RegistrationStatusEnumType_all RegistrationStatusEnumType_wire"

interpretation RegistrationStatusEnumType_codec: wire_codec RegistrationStatusEnumType_wire RegistrationStatusEnumType_of_wire
  unfolding RegistrationStatusEnumType_of_wire_def
proof (rule wire_codec_distinct)
  show "x \<in> set RegistrationStatusEnumType_all" for x by (cases x) (simp_all add: RegistrationStatusEnumType_all_def)
  show "distinct (map RegistrationStatusEnumType_wire RegistrationStatusEnumType_all)" by (simp add: RegistrationStatusEnumType_all_def)
qed

datatype ConnectorStatusEnumType =
    Available
  | Occupied
  | Reserved
  | Unavailable
  | Faulted

primrec ConnectorStatusEnumType_wire :: "ConnectorStatusEnumType \<Rightarrow> string" where
  "ConnectorStatusEnumType_wire ConnectorStatusEnumType.Available = ''Available''"
| "ConnectorStatusEnumType_wire ConnectorStatusEnumType.Occupied = ''Occupied''"
| "ConnectorStatusEnumType_wire ConnectorStatusEnumType.Reserved = ''Reserved''"
| "ConnectorStatusEnumType_wire ConnectorStatusEnumType.Unavailable = ''Unavailable''"
| "ConnectorStatusEnumType_wire ConnectorStatusEnumType.Faulted = ''Faulted''"

definition ConnectorStatusEnumType_all :: "ConnectorStatusEnumType list" where
  "ConnectorStatusEnumType_all = [ConnectorStatusEnumType.Available, ConnectorStatusEnumType.Occupied,
     ConnectorStatusEnumType.Reserved, ConnectorStatusEnumType.Unavailable,
     ConnectorStatusEnumType.Faulted]"

definition ConnectorStatusEnumType_of_wire :: "string \<Rightarrow> ConnectorStatusEnumType option" where
  "ConnectorStatusEnumType_of_wire = decode_by ConnectorStatusEnumType_all ConnectorStatusEnumType_wire"

interpretation ConnectorStatusEnumType_codec: wire_codec ConnectorStatusEnumType_wire ConnectorStatusEnumType_of_wire
  unfolding ConnectorStatusEnumType_of_wire_def
proof (rule wire_codec_distinct)
  show "x \<in> set ConnectorStatusEnumType_all" for x by (cases x) (simp_all add: ConnectorStatusEnumType_all_def)
  show "distinct (map ConnectorStatusEnumType_wire ConnectorStatusEnumType_all)" by (simp add: ConnectorStatusEnumType_all_def)
qed

datatype IdTokenEnumType =
    Central
  | EMaid
  | Iso14443
  | Iso15693
  | KeyCode
  | Local
  | MacAddress
  | NoAuthorization

primrec IdTokenEnumType_wire :: "IdTokenEnumType \<Rightarrow> string" where
  "IdTokenEnumType_wire IdTokenEnumType.Central = ''Central''"
| "IdTokenEnumType_wire IdTokenEnumType.EMaid = ''eMAID''"
| "IdTokenEnumType_wire IdTokenEnumType.Iso14443 = ''ISO14443''"
| "IdTokenEnumType_wire IdTokenEnumType.Iso15693 = ''ISO15693''"
| "IdTokenEnumType_wire IdTokenEnumType.KeyCode = ''KeyCode''"
| "IdTokenEnumType_wire IdTokenEnumType.Local = ''Local''"
| "IdTokenEnumType_wire IdTokenEnumType.MacAddress = ''MacAddress''"
| "IdTokenEnumType_wire IdTokenEnumType.NoAuthorization = ''NoAuthorization''"

definition IdTokenEnumType_all :: "IdTokenEnumType list" where
  "IdTokenEnumType_all = [IdTokenEnumType.Central, IdTokenEnumType.EMaid, IdTokenEnumType.Iso14443,
     IdTokenEnumType.Iso15693, IdTokenEnumType.KeyCode, IdTokenEnumType.Local,
     IdTokenEnumType.MacAddress, IdTokenEnumType.NoAuthorization]"

definition IdTokenEnumType_of_wire :: "string \<Rightarrow> IdTokenEnumType option" where
  "IdTokenEnumType_of_wire = decode_by IdTokenEnumType_all IdTokenEnumType_wire"

interpretation IdTokenEnumType_codec: wire_codec IdTokenEnumType_wire IdTokenEnumType_of_wire
  unfolding IdTokenEnumType_of_wire_def
proof (rule wire_codec_distinct)
  show "x \<in> set IdTokenEnumType_all" for x by (cases x) (simp_all add: IdTokenEnumType_all_def)
  show "distinct (map IdTokenEnumType_wire IdTokenEnumType_all)" by (simp add: IdTokenEnumType_all_def)
qed

datatype AuthorizationStatusEnumType =
    Accepted
  | Blocked
  | ConcurrentTx
  | Expired
  | Invalid
  | NoCredit
  | NotAllowedTypeEvse
  | NotAtThisLocation
  | NotAtThisTime
  | Unknown

primrec AuthorizationStatusEnumType_wire :: "AuthorizationStatusEnumType \<Rightarrow> string" where
  "AuthorizationStatusEnumType_wire AuthorizationStatusEnumType.Accepted = ''Accepted''"
| "AuthorizationStatusEnumType_wire AuthorizationStatusEnumType.Blocked = ''Blocked''"
| "AuthorizationStatusEnumType_wire AuthorizationStatusEnumType.ConcurrentTx = ''ConcurrentTx''"
| "AuthorizationStatusEnumType_wire AuthorizationStatusEnumType.Expired = ''Expired''"
| "AuthorizationStatusEnumType_wire AuthorizationStatusEnumType.Invalid = ''Invalid''"
| "AuthorizationStatusEnumType_wire AuthorizationStatusEnumType.NoCredit = ''NoCredit''"
| "AuthorizationStatusEnumType_wire AuthorizationStatusEnumType.NotAllowedTypeEvse = ''NotAllowedTypeEVSE''"
| "AuthorizationStatusEnumType_wire AuthorizationStatusEnumType.NotAtThisLocation = ''NotAtThisLocation''"
| "AuthorizationStatusEnumType_wire AuthorizationStatusEnumType.NotAtThisTime = ''NotAtThisTime''"
| "AuthorizationStatusEnumType_wire AuthorizationStatusEnumType.Unknown = ''Unknown''"

definition AuthorizationStatusEnumType_all :: "AuthorizationStatusEnumType list" where
  "AuthorizationStatusEnumType_all = [AuthorizationStatusEnumType.Accepted, AuthorizationStatusEnumType.Blocked,
     AuthorizationStatusEnumType.ConcurrentTx, AuthorizationStatusEnumType.Expired,
     AuthorizationStatusEnumType.Invalid, AuthorizationStatusEnumType.NoCredit,
     AuthorizationStatusEnumType.NotAllowedTypeEvse,
     AuthorizationStatusEnumType.NotAtThisLocation,
     AuthorizationStatusEnumType.NotAtThisTime, AuthorizationStatusEnumType.Unknown]"

definition AuthorizationStatusEnumType_of_wire :: "string \<Rightarrow> AuthorizationStatusEnumType option" where
  "AuthorizationStatusEnumType_of_wire = decode_by AuthorizationStatusEnumType_all AuthorizationStatusEnumType_wire"

interpretation AuthorizationStatusEnumType_codec: wire_codec AuthorizationStatusEnumType_wire AuthorizationStatusEnumType_of_wire
  unfolding AuthorizationStatusEnumType_of_wire_def
proof (rule wire_codec_distinct)
  show "x \<in> set AuthorizationStatusEnumType_all" for x by (cases x) (simp_all add: AuthorizationStatusEnumType_all_def)
  show "distinct (map AuthorizationStatusEnumType_wire AuthorizationStatusEnumType_all)" by (simp add: AuthorizationStatusEnumType_all_def)
qed

datatype MessageFormatEnumType =
    Ascii
  | Html
  | Uri
  | Utf8

primrec MessageFormatEnumType_wire :: "MessageFormatEnumType \<Rightarrow> string" where
  "MessageFormatEnumType_wire MessageFormatEnumType.Ascii = ''ASCII''"
| "MessageFormatEnumType_wire MessageFormatEnumType.Html = ''HTML''"
| "MessageFormatEnumType_wire MessageFormatEnumType.Uri = ''URI''"
| "MessageFormatEnumType_wire MessageFormatEnumType.Utf8 = ''UTF8''"

definition MessageFormatEnumType_all :: "MessageFormatEnumType list" where
  "MessageFormatEnumType_all = [MessageFormatEnumType.Ascii, MessageFormatEnumType.Html, MessageFormatEnumType.Uri,
     MessageFormatEnumType.Utf8]"

definition MessageFormatEnumType_of_wire :: "string \<Rightarrow> MessageFormatEnumType option" where
  "MessageFormatEnumType_of_wire = decode_by MessageFormatEnumType_all MessageFormatEnumType_wire"

interpretation MessageFormatEnumType_codec: wire_codec MessageFormatEnumType_wire MessageFormatEnumType_of_wire
  unfolding MessageFormatEnumType_of_wire_def
proof (rule wire_codec_distinct)
  show "x \<in> set MessageFormatEnumType_all" for x by (cases x) (simp_all add: MessageFormatEnumType_all_def)
  show "distinct (map MessageFormatEnumType_wire MessageFormatEnumType_all)" by (simp add: MessageFormatEnumType_all_def)
qed

datatype AttributeEnumType =
    Actual
  | Target
  | MinSet
  | MaxSet

primrec AttributeEnumType_wire :: "AttributeEnumType \<Rightarrow> string" where
  "AttributeEnumType_wire AttributeEnumType.Actual = ''Actual''"
| "AttributeEnumType_wire AttributeEnumType.Target = ''Target''"
| "AttributeEnumType_wire AttributeEnumType.MinSet = ''MinSet''"
| "AttributeEnumType_wire AttributeEnumType.MaxSet = ''MaxSet''"

definition AttributeEnumType_all :: "AttributeEnumType list" where
  "AttributeEnumType_all = [AttributeEnumType.Actual, AttributeEnumType.Target, AttributeEnumType.MinSet,
     AttributeEnumType.MaxSet]"

definition AttributeEnumType_of_wire :: "string \<Rightarrow> AttributeEnumType option" where
  "AttributeEnumType_of_wire = decode_by AttributeEnumType_all AttributeEnumType_wire"

interpretation AttributeEnumType_codec: wire_codec AttributeEnumType_wire AttributeEnumType_of_wire
  unfolding AttributeEnumType_of_wire_def
proof (rule wire_codec_distinct)
  show "x \<in> set AttributeEnumType_all" for x by (cases x) (simp_all add: AttributeEnumType_all_def)
  show "distinct (map AttributeEnumType_wire AttributeEnumType_all)" by (simp add: AttributeEnumType_all_def)
qed

datatype MutabilityEnumType =
    ReadOnly
  | WriteOnly
  | ReadWrite

primrec MutabilityEnumType_wire :: "MutabilityEnumType \<Rightarrow> string" where
  "MutabilityEnumType_wire MutabilityEnumType.ReadOnly = ''ReadOnly''"
| "MutabilityEnumType_wire MutabilityEnumType.WriteOnly = ''WriteOnly''"
| "MutabilityEnumType_wire MutabilityEnumType.ReadWrite = ''ReadWrite''"

definition MutabilityEnumType_all :: "MutabilityEnumType list" where
  "MutabilityEnumType_all = [MutabilityEnumType.ReadOnly, MutabilityEnumType.WriteOnly,
     MutabilityEnumType.ReadWrite]"

definition MutabilityEnumType_of_wire :: "string \<Rightarrow> MutabilityEnumType option" where
  "MutabilityEnumType_of_wire = decode_by MutabilityEnumType_all MutabilityEnumType_wire"

interpretation MutabilityEnumType_codec: wire_codec MutabilityEnumType_wire MutabilityEnumType_of_wire
  unfolding MutabilityEnumType_of_wire_def
proof (rule wire_codec_distinct)
  show "x \<in> set MutabilityEnumType_all" for x by (cases x) (simp_all add: MutabilityEnumType_all_def)
  show "distinct (map MutabilityEnumType_wire MutabilityEnumType_all)" by (simp add: MutabilityEnumType_all_def)
qed

datatype DataEnumType =
    String
  | Decimal
  | Integer
  | DateTime
  | Boolean
  | OptionList
  | SequenceList
  | MemberList

primrec DataEnumType_wire :: "DataEnumType \<Rightarrow> string" where
  "DataEnumType_wire DataEnumType.String = ''string''"
| "DataEnumType_wire DataEnumType.Decimal = ''decimal''"
| "DataEnumType_wire DataEnumType.Integer = ''integer''"
| "DataEnumType_wire DataEnumType.DateTime = ''dateTime''"
| "DataEnumType_wire DataEnumType.Boolean = ''boolean''"
| "DataEnumType_wire DataEnumType.OptionList = ''OptionList''"
| "DataEnumType_wire DataEnumType.SequenceList = ''SequenceList''"
| "DataEnumType_wire DataEnumType.MemberList = ''MemberList''"

definition DataEnumType_all :: "DataEnumType list" where
  "DataEnumType_all = [DataEnumType.String, DataEnumType.Decimal, DataEnumType.Integer,
     DataEnumType.DateTime, DataEnumType.Boolean, DataEnumType.OptionList,
     DataEnumType.SequenceList, DataEnumType.MemberList]"

definition DataEnumType_of_wire :: "string \<Rightarrow> DataEnumType option" where
  "DataEnumType_of_wire = decode_by DataEnumType_all DataEnumType_wire"

interpretation DataEnumType_codec: wire_codec DataEnumType_wire DataEnumType_of_wire
  unfolding DataEnumType_of_wire_def
proof (rule wire_codec_distinct)
  show "x \<in> set DataEnumType_all" for x by (cases x) (simp_all add: DataEnumType_all_def)
  show "distinct (map DataEnumType_wire DataEnumType_all)" by (simp add: DataEnumType_all_def)
qed

datatype GetVariableStatusEnumType =
    Accepted
  | Rejected
  | UnknownComponent
  | UnknownVariable
  | NotSupportedAttributeType

primrec GetVariableStatusEnumType_wire :: "GetVariableStatusEnumType \<Rightarrow> string" where
  "GetVariableStatusEnumType_wire GetVariableStatusEnumType.Accepted = ''Accepted''"
| "GetVariableStatusEnumType_wire GetVariableStatusEnumType.Rejected = ''Rejected''"
| "GetVariableStatusEnumType_wire GetVariableStatusEnumType.UnknownComponent = ''UnknownComponent''"
| "GetVariableStatusEnumType_wire GetVariableStatusEnumType.UnknownVariable = ''UnknownVariable''"
| "GetVariableStatusEnumType_wire GetVariableStatusEnumType.NotSupportedAttributeType = ''NotSupportedAttributeType''"

definition GetVariableStatusEnumType_all :: "GetVariableStatusEnumType list" where
  "GetVariableStatusEnumType_all = [GetVariableStatusEnumType.Accepted, GetVariableStatusEnumType.Rejected,
     GetVariableStatusEnumType.UnknownComponent,
     GetVariableStatusEnumType.UnknownVariable,
     GetVariableStatusEnumType.NotSupportedAttributeType]"

definition GetVariableStatusEnumType_of_wire :: "string \<Rightarrow> GetVariableStatusEnumType option" where
  "GetVariableStatusEnumType_of_wire = decode_by GetVariableStatusEnumType_all GetVariableStatusEnumType_wire"

interpretation GetVariableStatusEnumType_codec: wire_codec GetVariableStatusEnumType_wire GetVariableStatusEnumType_of_wire
  unfolding GetVariableStatusEnumType_of_wire_def
proof (rule wire_codec_distinct)
  show "x \<in> set GetVariableStatusEnumType_all" for x by (cases x) (simp_all add: GetVariableStatusEnumType_all_def)
  show "distinct (map GetVariableStatusEnumType_wire GetVariableStatusEnumType_all)" by (simp add: GetVariableStatusEnumType_all_def)
qed

datatype SetVariableStatusEnumType =
    Accepted
  | Rejected
  | UnknownComponent
  | UnknownVariable
  | NotSupportedAttributeType
  | RebootRequired

primrec SetVariableStatusEnumType_wire :: "SetVariableStatusEnumType \<Rightarrow> string" where
  "SetVariableStatusEnumType_wire SetVariableStatusEnumType.Accepted = ''Accepted''"
| "SetVariableStatusEnumType_wire SetVariableStatusEnumType.Rejected = ''Rejected''"
| "SetVariableStatusEnumType_wire SetVariableStatusEnumType.UnknownComponent = ''UnknownComponent''"
| "SetVariableStatusEnumType_wire SetVariableStatusEnumType.UnknownVariable = ''UnknownVariable''"
| "SetVariableStatusEnumType_wire SetVariableStatusEnumType.NotSupportedAttributeType = ''NotSupportedAttributeType''"
| "SetVariableStatusEnumType_wire SetVariableStatusEnumType.RebootRequired = ''RebootRequired''"

definition SetVariableStatusEnumType_all :: "SetVariableStatusEnumType list" where
  "SetVariableStatusEnumType_all = [SetVariableStatusEnumType.Accepted, SetVariableStatusEnumType.Rejected,
     SetVariableStatusEnumType.UnknownComponent,
     SetVariableStatusEnumType.UnknownVariable,
     SetVariableStatusEnumType.NotSupportedAttributeType,
     SetVariableStatusEnumType.RebootRequired]"

definition SetVariableStatusEnumType_of_wire :: "string \<Rightarrow> SetVariableStatusEnumType option" where
  "SetVariableStatusEnumType_of_wire = decode_by SetVariableStatusEnumType_all SetVariableStatusEnumType_wire"

interpretation SetVariableStatusEnumType_codec: wire_codec SetVariableStatusEnumType_wire SetVariableStatusEnumType_of_wire
  unfolding SetVariableStatusEnumType_of_wire_def
proof (rule wire_codec_distinct)
  show "x \<in> set SetVariableStatusEnumType_all" for x by (cases x) (simp_all add: SetVariableStatusEnumType_all_def)
  show "distinct (map SetVariableStatusEnumType_wire SetVariableStatusEnumType_all)" by (simp add: SetVariableStatusEnumType_all_def)
qed

datatype TransactionEventEnumType =
    Ended
  | Started
  | Updated

primrec TransactionEventEnumType_wire :: "TransactionEventEnumType \<Rightarrow> string" where
  "TransactionEventEnumType_wire TransactionEventEnumType.Ended = ''Ended''"
| "TransactionEventEnumType_wire TransactionEventEnumType.Started = ''Started''"
| "TransactionEventEnumType_wire TransactionEventEnumType.Updated = ''Updated''"

definition TransactionEventEnumType_all :: "TransactionEventEnumType list" where
  "TransactionEventEnumType_all = [TransactionEventEnumType.Ended, TransactionEventEnumType.Started,
     TransactionEventEnumType.Updated]"

definition TransactionEventEnumType_of_wire :: "string \<Rightarrow> TransactionEventEnumType option" where
  "TransactionEventEnumType_of_wire = decode_by TransactionEventEnumType_all TransactionEventEnumType_wire"

interpretation TransactionEventEnumType_codec: wire_codec TransactionEventEnumType_wire TransactionEventEnumType_of_wire
  unfolding TransactionEventEnumType_of_wire_def
proof (rule wire_codec_distinct)
  show "x \<in> set TransactionEventEnumType_all" for x by (cases x) (simp_all add: TransactionEventEnumType_all_def)
  show "distinct (map TransactionEventEnumType_wire TransactionEventEnumType_all)" by (simp add: TransactionEventEnumType_all_def)
qed

datatype TriggerReasonEnumType =
    Authorized
  | CablePluggedIn
  | ChargingRateChanged
  | ChargingStateChanged
  | Deauthorized
  | EnergyLimitReached
  | EVCommunicationLost
  | EVConnectTimeout
  | MeterValueClock
  | MeterValuePeriodic
  | TimeLimitReached
  | Trigger
  | UnlockCommand
  | StopAuthorized
  | EVDeparted
  | EVDetected
  | RemoteStop
  | RemoteStart
  | AbnormalCondition
  | SignedDataReceived
  | ResetCommand

primrec TriggerReasonEnumType_wire :: "TriggerReasonEnumType \<Rightarrow> string" where
  "TriggerReasonEnumType_wire TriggerReasonEnumType.Authorized = ''Authorized''"
| "TriggerReasonEnumType_wire TriggerReasonEnumType.CablePluggedIn = ''CablePluggedIn''"
| "TriggerReasonEnumType_wire TriggerReasonEnumType.ChargingRateChanged = ''ChargingRateChanged''"
| "TriggerReasonEnumType_wire TriggerReasonEnumType.ChargingStateChanged = ''ChargingStateChanged''"
| "TriggerReasonEnumType_wire TriggerReasonEnumType.Deauthorized = ''Deauthorized''"
| "TriggerReasonEnumType_wire TriggerReasonEnumType.EnergyLimitReached = ''EnergyLimitReached''"
| "TriggerReasonEnumType_wire TriggerReasonEnumType.EVCommunicationLost = ''EVCommunicationLost''"
| "TriggerReasonEnumType_wire TriggerReasonEnumType.EVConnectTimeout = ''EVConnectTimeout''"
| "TriggerReasonEnumType_wire TriggerReasonEnumType.MeterValueClock = ''MeterValueClock''"
| "TriggerReasonEnumType_wire TriggerReasonEnumType.MeterValuePeriodic = ''MeterValuePeriodic''"
| "TriggerReasonEnumType_wire TriggerReasonEnumType.TimeLimitReached = ''TimeLimitReached''"
| "TriggerReasonEnumType_wire TriggerReasonEnumType.Trigger = ''Trigger''"
| "TriggerReasonEnumType_wire TriggerReasonEnumType.UnlockCommand = ''UnlockCommand''"
| "TriggerReasonEnumType_wire TriggerReasonEnumType.StopAuthorized = ''StopAuthorized''"
| "TriggerReasonEnumType_wire TriggerReasonEnumType.EVDeparted = ''EVDeparted''"
| "TriggerReasonEnumType_wire TriggerReasonEnumType.EVDetected = ''EVDetected''"
| "TriggerReasonEnumType_wire TriggerReasonEnumType.RemoteStop = ''RemoteStop''"
| "TriggerReasonEnumType_wire TriggerReasonEnumType.RemoteStart = ''RemoteStart''"
| "TriggerReasonEnumType_wire TriggerReasonEnumType.AbnormalCondition = ''AbnormalCondition''"
| "TriggerReasonEnumType_wire TriggerReasonEnumType.SignedDataReceived = ''SignedDataReceived''"
| "TriggerReasonEnumType_wire TriggerReasonEnumType.ResetCommand = ''ResetCommand''"

definition TriggerReasonEnumType_all :: "TriggerReasonEnumType list" where
  "TriggerReasonEnumType_all = [TriggerReasonEnumType.Authorized, TriggerReasonEnumType.CablePluggedIn,
     TriggerReasonEnumType.ChargingRateChanged,
     TriggerReasonEnumType.ChargingStateChanged, TriggerReasonEnumType.Deauthorized,
     TriggerReasonEnumType.EnergyLimitReached,
     TriggerReasonEnumType.EVCommunicationLost, TriggerReasonEnumType.EVConnectTimeout,
     TriggerReasonEnumType.MeterValueClock, TriggerReasonEnumType.MeterValuePeriodic,
     TriggerReasonEnumType.TimeLimitReached, TriggerReasonEnumType.Trigger,
     TriggerReasonEnumType.UnlockCommand, TriggerReasonEnumType.StopAuthorized,
     TriggerReasonEnumType.EVDeparted, TriggerReasonEnumType.EVDetected,
     TriggerReasonEnumType.RemoteStop, TriggerReasonEnumType.RemoteStart,
     TriggerReasonEnumType.AbnormalCondition, TriggerReasonEnumType.SignedDataReceived,
     TriggerReasonEnumType.ResetCommand]"

definition TriggerReasonEnumType_of_wire :: "string \<Rightarrow> TriggerReasonEnumType option" where
  "TriggerReasonEnumType_of_wire = decode_by TriggerReasonEnumType_all TriggerReasonEnumType_wire"

interpretation TriggerReasonEnumType_codec: wire_codec TriggerReasonEnumType_wire TriggerReasonEnumType_of_wire
  unfolding TriggerReasonEnumType_of_wire_def
proof (rule wire_codec_distinct)
  show "x \<in> set TriggerReasonEnumType_all" for x by (cases x) (simp_all add: TriggerReasonEnumType_all_def)
  show "distinct (map TriggerReasonEnumType_wire TriggerReasonEnumType_all)" by (simp add: TriggerReasonEnumType_all_def)
qed

datatype ChargingStateEnumType =
    Charging
  | EVConnected
  | SuspendedEV
  | SuspendedEVSE
  | Idle

primrec ChargingStateEnumType_wire :: "ChargingStateEnumType \<Rightarrow> string" where
  "ChargingStateEnumType_wire ChargingStateEnumType.Charging = ''Charging''"
| "ChargingStateEnumType_wire ChargingStateEnumType.EVConnected = ''EVConnected''"
| "ChargingStateEnumType_wire ChargingStateEnumType.SuspendedEV = ''SuspendedEV''"
| "ChargingStateEnumType_wire ChargingStateEnumType.SuspendedEVSE = ''SuspendedEVSE''"
| "ChargingStateEnumType_wire ChargingStateEnumType.Idle = ''Idle''"

definition ChargingStateEnumType_all :: "ChargingStateEnumType list" where
  "ChargingStateEnumType_all = [ChargingStateEnumType.Charging, ChargingStateEnumType.EVConnected,
     ChargingStateEnumType.SuspendedEV, ChargingStateEnumType.SuspendedEVSE,
     ChargingStateEnumType.Idle]"

definition ChargingStateEnumType_of_wire :: "string \<Rightarrow> ChargingStateEnumType option" where
  "ChargingStateEnumType_of_wire = decode_by ChargingStateEnumType_all ChargingStateEnumType_wire"

interpretation ChargingStateEnumType_codec: wire_codec ChargingStateEnumType_wire ChargingStateEnumType_of_wire
  unfolding ChargingStateEnumType_of_wire_def
proof (rule wire_codec_distinct)
  show "x \<in> set ChargingStateEnumType_all" for x by (cases x) (simp_all add: ChargingStateEnumType_all_def)
  show "distinct (map ChargingStateEnumType_wire ChargingStateEnumType_all)" by (simp add: ChargingStateEnumType_all_def)
qed

datatype TxStartStopPointEnumType =
    Authorized
  | DataSigned
  | EnergyTransfer
  | EVConnected
  | ParkingBayOccupancy
  | PowerPathClosed

primrec TxStartStopPointEnumType_wire :: "TxStartStopPointEnumType \<Rightarrow> string" where
  "TxStartStopPointEnumType_wire TxStartStopPointEnumType.Authorized = ''Authorized''"
| "TxStartStopPointEnumType_wire TxStartStopPointEnumType.DataSigned = ''DataSigned''"
| "TxStartStopPointEnumType_wire TxStartStopPointEnumType.EnergyTransfer = ''EnergyTransfer''"
| "TxStartStopPointEnumType_wire TxStartStopPointEnumType.EVConnected = ''EVConnected''"
| "TxStartStopPointEnumType_wire TxStartStopPointEnumType.ParkingBayOccupancy = ''ParkingBayOccupancy''"
| "TxStartStopPointEnumType_wire TxStartStopPointEnumType.PowerPathClosed = ''PowerPathClosed''"

definition TxStartStopPointEnumType_all :: "TxStartStopPointEnumType list" where
  "TxStartStopPointEnumType_all = [TxStartStopPointEnumType.Authorized, TxStartStopPointEnumType.DataSigned,
     TxStartStopPointEnumType.EnergyTransfer, TxStartStopPointEnumType.EVConnected,
     TxStartStopPointEnumType.ParkingBayOccupancy,
     TxStartStopPointEnumType.PowerPathClosed]"

definition TxStartStopPointEnumType_of_wire :: "string \<Rightarrow> TxStartStopPointEnumType option" where
  "TxStartStopPointEnumType_of_wire = decode_by TxStartStopPointEnumType_all TxStartStopPointEnumType_wire"

interpretation TxStartStopPointEnumType_codec: wire_codec TxStartStopPointEnumType_wire TxStartStopPointEnumType_of_wire
  unfolding TxStartStopPointEnumType_of_wire_def
proof (rule wire_codec_distinct)
  show "x \<in> set TxStartStopPointEnumType_all" for x by (cases x) (simp_all add: TxStartStopPointEnumType_all_def)
  show "distinct (map TxStartStopPointEnumType_wire TxStartStopPointEnumType_all)" by (simp add: TxStartStopPointEnumType_all_def)
qed

datatype ReasonEnumType =
    DeAuthorized
  | EmergencyStop
  | EnergyLimitReached
  | EVDisconnected
  | GroundFault
  | ImmediateReset
  | Local
  | LocalOutOfCredit
  | MasterPass
  | Other
  | OvercurrentFault
  | PowerLoss
  | PowerQuality
  | Reboot
  | Remote
  | SOCLimitReached
  | StoppedByEV
  | TimeLimitReached
  | Timeout

primrec ReasonEnumType_wire :: "ReasonEnumType \<Rightarrow> string" where
  "ReasonEnumType_wire ReasonEnumType.DeAuthorized = ''DeAuthorized''"
| "ReasonEnumType_wire ReasonEnumType.EmergencyStop = ''EmergencyStop''"
| "ReasonEnumType_wire ReasonEnumType.EnergyLimitReached = ''EnergyLimitReached''"
| "ReasonEnumType_wire ReasonEnumType.EVDisconnected = ''EVDisconnected''"
| "ReasonEnumType_wire ReasonEnumType.GroundFault = ''GroundFault''"
| "ReasonEnumType_wire ReasonEnumType.ImmediateReset = ''ImmediateReset''"
| "ReasonEnumType_wire ReasonEnumType.Local = ''Local''"
| "ReasonEnumType_wire ReasonEnumType.LocalOutOfCredit = ''LocalOutOfCredit''"
| "ReasonEnumType_wire ReasonEnumType.MasterPass = ''MasterPass''"
| "ReasonEnumType_wire ReasonEnumType.Other = ''Other''"
| "ReasonEnumType_wire ReasonEnumType.OvercurrentFault = ''OvercurrentFault''"
| "ReasonEnumType_wire ReasonEnumType.PowerLoss = ''PowerLoss''"
| "ReasonEnumType_wire ReasonEnumType.PowerQuality = ''PowerQuality''"
| "ReasonEnumType_wire ReasonEnumType.Reboot = ''Reboot''"
| "ReasonEnumType_wire ReasonEnumType.Remote = ''Remote''"
| "ReasonEnumType_wire ReasonEnumType.SOCLimitReached = ''SOCLimitReached''"
| "ReasonEnumType_wire ReasonEnumType.StoppedByEV = ''StoppedByEV''"
| "ReasonEnumType_wire ReasonEnumType.TimeLimitReached = ''TimeLimitReached''"
| "ReasonEnumType_wire ReasonEnumType.Timeout = ''Timeout''"

definition ReasonEnumType_all :: "ReasonEnumType list" where
  "ReasonEnumType_all = [ReasonEnumType.DeAuthorized, ReasonEnumType.EmergencyStop,
     ReasonEnumType.EnergyLimitReached, ReasonEnumType.EVDisconnected,
     ReasonEnumType.GroundFault, ReasonEnumType.ImmediateReset, ReasonEnumType.Local,
     ReasonEnumType.LocalOutOfCredit, ReasonEnumType.MasterPass, ReasonEnumType.Other,
     ReasonEnumType.OvercurrentFault, ReasonEnumType.PowerLoss,
     ReasonEnumType.PowerQuality, ReasonEnumType.Reboot, ReasonEnumType.Remote,
     ReasonEnumType.SOCLimitReached, ReasonEnumType.StoppedByEV,
     ReasonEnumType.TimeLimitReached, ReasonEnumType.Timeout]"

definition ReasonEnumType_of_wire :: "string \<Rightarrow> ReasonEnumType option" where
  "ReasonEnumType_of_wire = decode_by ReasonEnumType_all ReasonEnumType_wire"

interpretation ReasonEnumType_codec: wire_codec ReasonEnumType_wire ReasonEnumType_of_wire
  unfolding ReasonEnumType_of_wire_def
proof (rule wire_codec_distinct)
  show "x \<in> set ReasonEnumType_all" for x by (cases x) (simp_all add: ReasonEnumType_all_def)
  show "distinct (map ReasonEnumType_wire ReasonEnumType_all)" by (simp add: ReasonEnumType_all_def)
qed

datatype ResetEnumType =
    Immediate
  | OnIdle

primrec ResetEnumType_wire :: "ResetEnumType \<Rightarrow> string" where
  "ResetEnumType_wire ResetEnumType.Immediate = ''Immediate''"
| "ResetEnumType_wire ResetEnumType.OnIdle = ''OnIdle''"

definition ResetEnumType_all :: "ResetEnumType list" where
  "ResetEnumType_all = [ResetEnumType.Immediate, ResetEnumType.OnIdle]"

definition ResetEnumType_of_wire :: "string \<Rightarrow> ResetEnumType option" where
  "ResetEnumType_of_wire = decode_by ResetEnumType_all ResetEnumType_wire"

interpretation ResetEnumType_codec: wire_codec ResetEnumType_wire ResetEnumType_of_wire
  unfolding ResetEnumType_of_wire_def
proof (rule wire_codec_distinct)
  show "x \<in> set ResetEnumType_all" for x by (cases x) (simp_all add: ResetEnumType_all_def)
  show "distinct (map ResetEnumType_wire ResetEnumType_all)" by (simp add: ResetEnumType_all_def)
qed

datatype ResetStatusEnumType =
    Accepted
  | Rejected
  | Scheduled

primrec ResetStatusEnumType_wire :: "ResetStatusEnumType \<Rightarrow> string" where
  "ResetStatusEnumType_wire ResetStatusEnumType.Accepted = ''Accepted''"
| "ResetStatusEnumType_wire ResetStatusEnumType.Rejected = ''Rejected''"
| "ResetStatusEnumType_wire ResetStatusEnumType.Scheduled = ''Scheduled''"

definition ResetStatusEnumType_all :: "ResetStatusEnumType list" where
  "ResetStatusEnumType_all = [ResetStatusEnumType.Accepted, ResetStatusEnumType.Rejected,
     ResetStatusEnumType.Scheduled]"

definition ResetStatusEnumType_of_wire :: "string \<Rightarrow> ResetStatusEnumType option" where
  "ResetStatusEnumType_of_wire = decode_by ResetStatusEnumType_all ResetStatusEnumType_wire"

interpretation ResetStatusEnumType_codec: wire_codec ResetStatusEnumType_wire ResetStatusEnumType_of_wire
  unfolding ResetStatusEnumType_of_wire_def
proof (rule wire_codec_distinct)
  show "x \<in> set ResetStatusEnumType_all" for x by (cases x) (simp_all add: ResetStatusEnumType_all_def)
  show "distinct (map ResetStatusEnumType_wire ResetStatusEnumType_all)" by (simp add: ResetStatusEnumType_all_def)
qed

datatype ClearCacheStatusEnumType =
    Accepted
  | Rejected

primrec ClearCacheStatusEnumType_wire :: "ClearCacheStatusEnumType \<Rightarrow> string" where
  "ClearCacheStatusEnumType_wire ClearCacheStatusEnumType.Accepted = ''Accepted''"
| "ClearCacheStatusEnumType_wire ClearCacheStatusEnumType.Rejected = ''Rejected''"

definition ClearCacheStatusEnumType_all :: "ClearCacheStatusEnumType list" where
  "ClearCacheStatusEnumType_all = [ClearCacheStatusEnumType.Accepted, ClearCacheStatusEnumType.Rejected]"

definition ClearCacheStatusEnumType_of_wire :: "string \<Rightarrow> ClearCacheStatusEnumType option" where
  "ClearCacheStatusEnumType_of_wire = decode_by ClearCacheStatusEnumType_all ClearCacheStatusEnumType_wire"

interpretation ClearCacheStatusEnumType_codec: wire_codec ClearCacheStatusEnumType_wire ClearCacheStatusEnumType_of_wire
  unfolding ClearCacheStatusEnumType_of_wire_def
proof (rule wire_codec_distinct)
  show "x \<in> set ClearCacheStatusEnumType_all" for x by (cases x) (simp_all add: ClearCacheStatusEnumType_all_def)
  show "distinct (map ClearCacheStatusEnumType_wire ClearCacheStatusEnumType_all)" by (simp add: ClearCacheStatusEnumType_all_def)
qed

datatype OperationalStatusEnumType =
    Inoperative
  | Operative

primrec OperationalStatusEnumType_wire :: "OperationalStatusEnumType \<Rightarrow> string" where
  "OperationalStatusEnumType_wire OperationalStatusEnumType.Inoperative = ''Inoperative''"
| "OperationalStatusEnumType_wire OperationalStatusEnumType.Operative = ''Operative''"

definition OperationalStatusEnumType_all :: "OperationalStatusEnumType list" where
  "OperationalStatusEnumType_all = [OperationalStatusEnumType.Inoperative, OperationalStatusEnumType.Operative]"

definition OperationalStatusEnumType_of_wire :: "string \<Rightarrow> OperationalStatusEnumType option" where
  "OperationalStatusEnumType_of_wire = decode_by OperationalStatusEnumType_all OperationalStatusEnumType_wire"

interpretation OperationalStatusEnumType_codec: wire_codec OperationalStatusEnumType_wire OperationalStatusEnumType_of_wire
  unfolding OperationalStatusEnumType_of_wire_def
proof (rule wire_codec_distinct)
  show "x \<in> set OperationalStatusEnumType_all" for x by (cases x) (simp_all add: OperationalStatusEnumType_all_def)
  show "distinct (map OperationalStatusEnumType_wire OperationalStatusEnumType_all)" by (simp add: OperationalStatusEnumType_all_def)
qed

datatype ChangeAvailabilityStatusEnumType =
    Accepted
  | Rejected
  | Scheduled

primrec ChangeAvailabilityStatusEnumType_wire :: "ChangeAvailabilityStatusEnumType \<Rightarrow> string" where
  "ChangeAvailabilityStatusEnumType_wire ChangeAvailabilityStatusEnumType.Accepted = ''Accepted''"
| "ChangeAvailabilityStatusEnumType_wire ChangeAvailabilityStatusEnumType.Rejected = ''Rejected''"
| "ChangeAvailabilityStatusEnumType_wire ChangeAvailabilityStatusEnumType.Scheduled = ''Scheduled''"

definition ChangeAvailabilityStatusEnumType_all :: "ChangeAvailabilityStatusEnumType list" where
  "ChangeAvailabilityStatusEnumType_all = [ChangeAvailabilityStatusEnumType.Accepted, ChangeAvailabilityStatusEnumType.Rejected,
     ChangeAvailabilityStatusEnumType.Scheduled]"

definition ChangeAvailabilityStatusEnumType_of_wire :: "string \<Rightarrow> ChangeAvailabilityStatusEnumType option" where
  "ChangeAvailabilityStatusEnumType_of_wire = decode_by ChangeAvailabilityStatusEnumType_all ChangeAvailabilityStatusEnumType_wire"

interpretation ChangeAvailabilityStatusEnumType_codec: wire_codec ChangeAvailabilityStatusEnumType_wire ChangeAvailabilityStatusEnumType_of_wire
  unfolding ChangeAvailabilityStatusEnumType_of_wire_def
proof (rule wire_codec_distinct)
  show "x \<in> set ChangeAvailabilityStatusEnumType_all" for x by (cases x) (simp_all add: ChangeAvailabilityStatusEnumType_all_def)
  show "distinct (map ChangeAvailabilityStatusEnumType_wire ChangeAvailabilityStatusEnumType_all)" by (simp add: ChangeAvailabilityStatusEnumType_all_def)
qed

datatype RequestStartStopStatusEnumType =
    Accepted
  | Rejected

primrec RequestStartStopStatusEnumType_wire :: "RequestStartStopStatusEnumType \<Rightarrow> string" where
  "RequestStartStopStatusEnumType_wire RequestStartStopStatusEnumType.Accepted = ''Accepted''"
| "RequestStartStopStatusEnumType_wire RequestStartStopStatusEnumType.Rejected = ''Rejected''"

definition RequestStartStopStatusEnumType_all :: "RequestStartStopStatusEnumType list" where
  "RequestStartStopStatusEnumType_all = [RequestStartStopStatusEnumType.Accepted, RequestStartStopStatusEnumType.Rejected]"

definition RequestStartStopStatusEnumType_of_wire :: "string \<Rightarrow> RequestStartStopStatusEnumType option" where
  "RequestStartStopStatusEnumType_of_wire = decode_by RequestStartStopStatusEnumType_all RequestStartStopStatusEnumType_wire"

interpretation RequestStartStopStatusEnumType_codec: wire_codec RequestStartStopStatusEnumType_wire RequestStartStopStatusEnumType_of_wire
  unfolding RequestStartStopStatusEnumType_of_wire_def
proof (rule wire_codec_distinct)
  show "x \<in> set RequestStartStopStatusEnumType_all" for x by (cases x) (simp_all add: RequestStartStopStatusEnumType_all_def)
  show "distinct (map RequestStartStopStatusEnumType_wire RequestStartStopStatusEnumType_all)" by (simp add: RequestStartStopStatusEnumType_all_def)
qed

datatype UnlockStatusEnumType =
    Unlocked
  | UnlockFailed
  | OngoingAuthorizedTransaction
  | UnknownConnector

primrec UnlockStatusEnumType_wire :: "UnlockStatusEnumType \<Rightarrow> string" where
  "UnlockStatusEnumType_wire UnlockStatusEnumType.Unlocked = ''Unlocked''"
| "UnlockStatusEnumType_wire UnlockStatusEnumType.UnlockFailed = ''UnlockFailed''"
| "UnlockStatusEnumType_wire UnlockStatusEnumType.OngoingAuthorizedTransaction = ''OngoingAuthorizedTransaction''"
| "UnlockStatusEnumType_wire UnlockStatusEnumType.UnknownConnector = ''UnknownConnector''"

definition UnlockStatusEnumType_all :: "UnlockStatusEnumType list" where
  "UnlockStatusEnumType_all = [UnlockStatusEnumType.Unlocked, UnlockStatusEnumType.UnlockFailed,
     UnlockStatusEnumType.OngoingAuthorizedTransaction,
     UnlockStatusEnumType.UnknownConnector]"

definition UnlockStatusEnumType_of_wire :: "string \<Rightarrow> UnlockStatusEnumType option" where
  "UnlockStatusEnumType_of_wire = decode_by UnlockStatusEnumType_all UnlockStatusEnumType_wire"

interpretation UnlockStatusEnumType_codec: wire_codec UnlockStatusEnumType_wire UnlockStatusEnumType_of_wire
  unfolding UnlockStatusEnumType_of_wire_def
proof (rule wire_codec_distinct)
  show "x \<in> set UnlockStatusEnumType_all" for x by (cases x) (simp_all add: UnlockStatusEnumType_all_def)
  show "distinct (map UnlockStatusEnumType_wire UnlockStatusEnumType_all)" by (simp add: UnlockStatusEnumType_all_def)
qed

datatype MessageTriggerEnumType =
    BootNotification
  | LogStatusNotification
  | FirmwareStatusNotification
  | Heartbeat
  | MeterValues
  | SignChargingStationCertificate
  | SignV2GCertificate
  | StatusNotification
  | TransactionEvent
  | SignCombinedCertificate
  | PublishFirmwareStatusNotification

primrec MessageTriggerEnumType_wire :: "MessageTriggerEnumType \<Rightarrow> string" where
  "MessageTriggerEnumType_wire MessageTriggerEnumType.BootNotification = ''BootNotification''"
| "MessageTriggerEnumType_wire MessageTriggerEnumType.LogStatusNotification = ''LogStatusNotification''"
| "MessageTriggerEnumType_wire MessageTriggerEnumType.FirmwareStatusNotification = ''FirmwareStatusNotification''"
| "MessageTriggerEnumType_wire MessageTriggerEnumType.Heartbeat = ''Heartbeat''"
| "MessageTriggerEnumType_wire MessageTriggerEnumType.MeterValues = ''MeterValues''"
| "MessageTriggerEnumType_wire MessageTriggerEnumType.SignChargingStationCertificate = ''SignChargingStationCertificate''"
| "MessageTriggerEnumType_wire MessageTriggerEnumType.SignV2GCertificate = ''SignV2GCertificate''"
| "MessageTriggerEnumType_wire MessageTriggerEnumType.StatusNotification = ''StatusNotification''"
| "MessageTriggerEnumType_wire MessageTriggerEnumType.TransactionEvent = ''TransactionEvent''"
| "MessageTriggerEnumType_wire MessageTriggerEnumType.SignCombinedCertificate = ''SignCombinedCertificate''"
| "MessageTriggerEnumType_wire MessageTriggerEnumType.PublishFirmwareStatusNotification = ''PublishFirmwareStatusNotification''"

definition MessageTriggerEnumType_all :: "MessageTriggerEnumType list" where
  "MessageTriggerEnumType_all = [MessageTriggerEnumType.BootNotification, MessageTriggerEnumType.LogStatusNotification,
     MessageTriggerEnumType.FirmwareStatusNotification,
     MessageTriggerEnumType.Heartbeat, MessageTriggerEnumType.MeterValues,
     MessageTriggerEnumType.SignChargingStationCertificate,
     MessageTriggerEnumType.SignV2GCertificate,
     MessageTriggerEnumType.StatusNotification,
     MessageTriggerEnumType.TransactionEvent,
     MessageTriggerEnumType.SignCombinedCertificate,
     MessageTriggerEnumType.PublishFirmwareStatusNotification]"

definition MessageTriggerEnumType_of_wire :: "string \<Rightarrow> MessageTriggerEnumType option" where
  "MessageTriggerEnumType_of_wire = decode_by MessageTriggerEnumType_all MessageTriggerEnumType_wire"

interpretation MessageTriggerEnumType_codec: wire_codec MessageTriggerEnumType_wire MessageTriggerEnumType_of_wire
  unfolding MessageTriggerEnumType_of_wire_def
proof (rule wire_codec_distinct)
  show "x \<in> set MessageTriggerEnumType_all" for x by (cases x) (simp_all add: MessageTriggerEnumType_all_def)
  show "distinct (map MessageTriggerEnumType_wire MessageTriggerEnumType_all)" by (simp add: MessageTriggerEnumType_all_def)
qed

datatype TriggerMessageStatusEnumType =
    Accepted
  | Rejected
  | NotImplemented

primrec TriggerMessageStatusEnumType_wire :: "TriggerMessageStatusEnumType \<Rightarrow> string" where
  "TriggerMessageStatusEnumType_wire TriggerMessageStatusEnumType.Accepted = ''Accepted''"
| "TriggerMessageStatusEnumType_wire TriggerMessageStatusEnumType.Rejected = ''Rejected''"
| "TriggerMessageStatusEnumType_wire TriggerMessageStatusEnumType.NotImplemented = ''NotImplemented''"

definition TriggerMessageStatusEnumType_all :: "TriggerMessageStatusEnumType list" where
  "TriggerMessageStatusEnumType_all = [TriggerMessageStatusEnumType.Accepted, TriggerMessageStatusEnumType.Rejected,
     TriggerMessageStatusEnumType.NotImplemented]"

definition TriggerMessageStatusEnumType_of_wire :: "string \<Rightarrow> TriggerMessageStatusEnumType option" where
  "TriggerMessageStatusEnumType_of_wire = decode_by TriggerMessageStatusEnumType_all TriggerMessageStatusEnumType_wire"

interpretation TriggerMessageStatusEnumType_codec: wire_codec TriggerMessageStatusEnumType_wire TriggerMessageStatusEnumType_of_wire
  unfolding TriggerMessageStatusEnumType_of_wire_def
proof (rule wire_codec_distinct)
  show "x \<in> set TriggerMessageStatusEnumType_all" for x by (cases x) (simp_all add: TriggerMessageStatusEnumType_all_def)
  show "distinct (map TriggerMessageStatusEnumType_wire TriggerMessageStatusEnumType_all)" by (simp add: TriggerMessageStatusEnumType_all_def)
qed

datatype HashAlgorithmEnumType =
    Sha256
  | Sha384
  | Sha512

primrec HashAlgorithmEnumType_wire :: "HashAlgorithmEnumType \<Rightarrow> string" where
  "HashAlgorithmEnumType_wire HashAlgorithmEnumType.Sha256 = ''SHA256''"
| "HashAlgorithmEnumType_wire HashAlgorithmEnumType.Sha384 = ''SHA384''"
| "HashAlgorithmEnumType_wire HashAlgorithmEnumType.Sha512 = ''SHA512''"

definition HashAlgorithmEnumType_all :: "HashAlgorithmEnumType list" where
  "HashAlgorithmEnumType_all = [HashAlgorithmEnumType.Sha256, HashAlgorithmEnumType.Sha384,
     HashAlgorithmEnumType.Sha512]"

definition HashAlgorithmEnumType_of_wire :: "string \<Rightarrow> HashAlgorithmEnumType option" where
  "HashAlgorithmEnumType_of_wire = decode_by HashAlgorithmEnumType_all HashAlgorithmEnumType_wire"

interpretation HashAlgorithmEnumType_codec: wire_codec HashAlgorithmEnumType_wire HashAlgorithmEnumType_of_wire
  unfolding HashAlgorithmEnumType_of_wire_def
proof (rule wire_codec_distinct)
  show "x \<in> set HashAlgorithmEnumType_all" for x by (cases x) (simp_all add: HashAlgorithmEnumType_all_def)
  show "distinct (map HashAlgorithmEnumType_wire HashAlgorithmEnumType_all)" by (simp add: HashAlgorithmEnumType_all_def)
qed

datatype ReadingContextEnumType =
    InterruptionBegin
  | InterruptionEnd
  | Other
  | SampleClock
  | SamplePeriodic
  | TransactionBegin
  | TransactionEnd
  | Trigger

primrec ReadingContextEnumType_wire :: "ReadingContextEnumType \<Rightarrow> string" where
  "ReadingContextEnumType_wire ReadingContextEnumType.InterruptionBegin = ''Interruption.Begin''"
| "ReadingContextEnumType_wire ReadingContextEnumType.InterruptionEnd = ''Interruption.End''"
| "ReadingContextEnumType_wire ReadingContextEnumType.Other = ''Other''"
| "ReadingContextEnumType_wire ReadingContextEnumType.SampleClock = ''Sample.Clock''"
| "ReadingContextEnumType_wire ReadingContextEnumType.SamplePeriodic = ''Sample.Periodic''"
| "ReadingContextEnumType_wire ReadingContextEnumType.TransactionBegin = ''Transaction.Begin''"
| "ReadingContextEnumType_wire ReadingContextEnumType.TransactionEnd = ''Transaction.End''"
| "ReadingContextEnumType_wire ReadingContextEnumType.Trigger = ''Trigger''"

definition ReadingContextEnumType_all :: "ReadingContextEnumType list" where
  "ReadingContextEnumType_all = [ReadingContextEnumType.InterruptionBegin, ReadingContextEnumType.InterruptionEnd,
     ReadingContextEnumType.Other, ReadingContextEnumType.SampleClock,
     ReadingContextEnumType.SamplePeriodic, ReadingContextEnumType.TransactionBegin,
     ReadingContextEnumType.TransactionEnd, ReadingContextEnumType.Trigger]"

definition ReadingContextEnumType_of_wire :: "string \<Rightarrow> ReadingContextEnumType option" where
  "ReadingContextEnumType_of_wire = decode_by ReadingContextEnumType_all ReadingContextEnumType_wire"

interpretation ReadingContextEnumType_codec: wire_codec ReadingContextEnumType_wire ReadingContextEnumType_of_wire
  unfolding ReadingContextEnumType_of_wire_def
proof (rule wire_codec_distinct)
  show "x \<in> set ReadingContextEnumType_all" for x by (cases x) (simp_all add: ReadingContextEnumType_all_def)
  show "distinct (map ReadingContextEnumType_wire ReadingContextEnumType_all)" by (simp add: ReadingContextEnumType_all_def)
qed

datatype MeasurandEnumType =
    CurrentExport
  | CurrentImport
  | CurrentOffered
  | EnergyActiveExportRegister
  | EnergyActiveImportRegister
  | EnergyReactiveExportRegister
  | EnergyReactiveImportRegister
  | EnergyActiveExportInterval
  | EnergyActiveImportInterval
  | EnergyActiveNet
  | EnergyReactiveExportInterval
  | EnergyReactiveImportInterval
  | EnergyReactiveNet
  | EnergyApparentNet
  | EnergyApparentImport
  | EnergyApparentExport
  | Frequency
  | PowerActiveExport
  | PowerActiveImport
  | PowerFactor
  | PowerOffered
  | PowerReactiveExport
  | PowerReactiveImport
  | SoC
  | Voltage

primrec MeasurandEnumType_wire :: "MeasurandEnumType \<Rightarrow> string" where
  "MeasurandEnumType_wire MeasurandEnumType.CurrentExport = ''Current.Export''"
| "MeasurandEnumType_wire MeasurandEnumType.CurrentImport = ''Current.Import''"
| "MeasurandEnumType_wire MeasurandEnumType.CurrentOffered = ''Current.Offered''"
| "MeasurandEnumType_wire MeasurandEnumType.EnergyActiveExportRegister = ''Energy.Active.Export.Register''"
| "MeasurandEnumType_wire MeasurandEnumType.EnergyActiveImportRegister = ''Energy.Active.Import.Register''"
| "MeasurandEnumType_wire MeasurandEnumType.EnergyReactiveExportRegister = ''Energy.Reactive.Export.Register''"
| "MeasurandEnumType_wire MeasurandEnumType.EnergyReactiveImportRegister = ''Energy.Reactive.Import.Register''"
| "MeasurandEnumType_wire MeasurandEnumType.EnergyActiveExportInterval = ''Energy.Active.Export.Interval''"
| "MeasurandEnumType_wire MeasurandEnumType.EnergyActiveImportInterval = ''Energy.Active.Import.Interval''"
| "MeasurandEnumType_wire MeasurandEnumType.EnergyActiveNet = ''Energy.Active.Net''"
| "MeasurandEnumType_wire MeasurandEnumType.EnergyReactiveExportInterval = ''Energy.Reactive.Export.Interval''"
| "MeasurandEnumType_wire MeasurandEnumType.EnergyReactiveImportInterval = ''Energy.Reactive.Import.Interval''"
| "MeasurandEnumType_wire MeasurandEnumType.EnergyReactiveNet = ''Energy.Reactive.Net''"
| "MeasurandEnumType_wire MeasurandEnumType.EnergyApparentNet = ''Energy.Apparent.Net''"
| "MeasurandEnumType_wire MeasurandEnumType.EnergyApparentImport = ''Energy.Apparent.Import''"
| "MeasurandEnumType_wire MeasurandEnumType.EnergyApparentExport = ''Energy.Apparent.Export''"
| "MeasurandEnumType_wire MeasurandEnumType.Frequency = ''Frequency''"
| "MeasurandEnumType_wire MeasurandEnumType.PowerActiveExport = ''Power.Active.Export''"
| "MeasurandEnumType_wire MeasurandEnumType.PowerActiveImport = ''Power.Active.Import''"
| "MeasurandEnumType_wire MeasurandEnumType.PowerFactor = ''Power.Factor''"
| "MeasurandEnumType_wire MeasurandEnumType.PowerOffered = ''Power.Offered''"
| "MeasurandEnumType_wire MeasurandEnumType.PowerReactiveExport = ''Power.Reactive.Export''"
| "MeasurandEnumType_wire MeasurandEnumType.PowerReactiveImport = ''Power.Reactive.Import''"
| "MeasurandEnumType_wire MeasurandEnumType.SoC = ''SoC''"
| "MeasurandEnumType_wire MeasurandEnumType.Voltage = ''Voltage''"

definition MeasurandEnumType_all :: "MeasurandEnumType list" where
  "MeasurandEnumType_all = [MeasurandEnumType.CurrentExport, MeasurandEnumType.CurrentImport,
     MeasurandEnumType.CurrentOffered, MeasurandEnumType.EnergyActiveExportRegister,
     MeasurandEnumType.EnergyActiveImportRegister,
     MeasurandEnumType.EnergyReactiveExportRegister,
     MeasurandEnumType.EnergyReactiveImportRegister,
     MeasurandEnumType.EnergyActiveExportInterval,
     MeasurandEnumType.EnergyActiveImportInterval, MeasurandEnumType.EnergyActiveNet,
     MeasurandEnumType.EnergyReactiveExportInterval,
     MeasurandEnumType.EnergyReactiveImportInterval,
     MeasurandEnumType.EnergyReactiveNet, MeasurandEnumType.EnergyApparentNet,
     MeasurandEnumType.EnergyApparentImport, MeasurandEnumType.EnergyApparentExport,
     MeasurandEnumType.Frequency, MeasurandEnumType.PowerActiveExport,
     MeasurandEnumType.PowerActiveImport, MeasurandEnumType.PowerFactor,
     MeasurandEnumType.PowerOffered, MeasurandEnumType.PowerReactiveExport,
     MeasurandEnumType.PowerReactiveImport, MeasurandEnumType.SoC,
     MeasurandEnumType.Voltage]"

definition MeasurandEnumType_of_wire :: "string \<Rightarrow> MeasurandEnumType option" where
  "MeasurandEnumType_of_wire = decode_by MeasurandEnumType_all MeasurandEnumType_wire"

interpretation MeasurandEnumType_codec: wire_codec MeasurandEnumType_wire MeasurandEnumType_of_wire
  unfolding MeasurandEnumType_of_wire_def
proof (rule wire_codec_distinct)
  show "x \<in> set MeasurandEnumType_all" for x by (cases x) (simp_all add: MeasurandEnumType_all_def)
  show "distinct (map MeasurandEnumType_wire MeasurandEnumType_all)" by (simp add: MeasurandEnumType_all_def)
qed

datatype PhaseEnumType =
    L1
  | L2
  | L3
  | N_unit
  | L1N
  | L2N
  | L3N
  | L1L2
  | L2L3
  | L3L1

primrec PhaseEnumType_wire :: "PhaseEnumType \<Rightarrow> string" where
  "PhaseEnumType_wire PhaseEnumType.L1 = ''L1''"
| "PhaseEnumType_wire PhaseEnumType.L2 = ''L2''"
| "PhaseEnumType_wire PhaseEnumType.L3 = ''L3''"
| "PhaseEnumType_wire PhaseEnumType.N_unit = ''N''"
| "PhaseEnumType_wire PhaseEnumType.L1N = ''L1-N''"
| "PhaseEnumType_wire PhaseEnumType.L2N = ''L2-N''"
| "PhaseEnumType_wire PhaseEnumType.L3N = ''L3-N''"
| "PhaseEnumType_wire PhaseEnumType.L1L2 = ''L1-L2''"
| "PhaseEnumType_wire PhaseEnumType.L2L3 = ''L2-L3''"
| "PhaseEnumType_wire PhaseEnumType.L3L1 = ''L3-L1''"

definition PhaseEnumType_all :: "PhaseEnumType list" where
  "PhaseEnumType_all = [PhaseEnumType.L1, PhaseEnumType.L2, PhaseEnumType.L3, PhaseEnumType.N_unit,
     PhaseEnumType.L1N, PhaseEnumType.L2N, PhaseEnumType.L3N, PhaseEnumType.L1L2,
     PhaseEnumType.L2L3, PhaseEnumType.L3L1]"

definition PhaseEnumType_of_wire :: "string \<Rightarrow> PhaseEnumType option" where
  "PhaseEnumType_of_wire = decode_by PhaseEnumType_all PhaseEnumType_wire"

interpretation PhaseEnumType_codec: wire_codec PhaseEnumType_wire PhaseEnumType_of_wire
  unfolding PhaseEnumType_of_wire_def
proof (rule wire_codec_distinct)
  show "x \<in> set PhaseEnumType_all" for x by (cases x) (simp_all add: PhaseEnumType_all_def)
  show "distinct (map PhaseEnumType_wire PhaseEnumType_all)" by (simp add: PhaseEnumType_all_def)
qed

datatype LocationEnumType =
    Body
  | Cable
  | Ev
  | Inlet
  | Outlet

primrec LocationEnumType_wire :: "LocationEnumType \<Rightarrow> string" where
  "LocationEnumType_wire LocationEnumType.Body = ''Body''"
| "LocationEnumType_wire LocationEnumType.Cable = ''Cable''"
| "LocationEnumType_wire LocationEnumType.Ev = ''EV''"
| "LocationEnumType_wire LocationEnumType.Inlet = ''Inlet''"
| "LocationEnumType_wire LocationEnumType.Outlet = ''Outlet''"

definition LocationEnumType_all :: "LocationEnumType list" where
  "LocationEnumType_all = [LocationEnumType.Body, LocationEnumType.Cable, LocationEnumType.Ev,
     LocationEnumType.Inlet, LocationEnumType.Outlet]"

definition LocationEnumType_of_wire :: "string \<Rightarrow> LocationEnumType option" where
  "LocationEnumType_of_wire = decode_by LocationEnumType_all LocationEnumType_wire"

interpretation LocationEnumType_codec: wire_codec LocationEnumType_wire LocationEnumType_of_wire
  unfolding LocationEnumType_of_wire_def
proof (rule wire_codec_distinct)
  show "x \<in> set LocationEnumType_all" for x by (cases x) (simp_all add: LocationEnumType_all_def)
  show "distinct (map LocationEnumType_wire LocationEnumType_all)" by (simp add: LocationEnumType_all_def)
qed

datatype DataTransferStatusEnumType =
    Accepted
  | Rejected
  | UnknownMessageId
  | UnknownVendorId

primrec DataTransferStatusEnumType_wire :: "DataTransferStatusEnumType \<Rightarrow> string" where
  "DataTransferStatusEnumType_wire DataTransferStatusEnumType.Accepted = ''Accepted''"
| "DataTransferStatusEnumType_wire DataTransferStatusEnumType.Rejected = ''Rejected''"
| "DataTransferStatusEnumType_wire DataTransferStatusEnumType.UnknownMessageId = ''UnknownMessageId''"
| "DataTransferStatusEnumType_wire DataTransferStatusEnumType.UnknownVendorId = ''UnknownVendorId''"

definition DataTransferStatusEnumType_all :: "DataTransferStatusEnumType list" where
  "DataTransferStatusEnumType_all = [DataTransferStatusEnumType.Accepted, DataTransferStatusEnumType.Rejected,
     DataTransferStatusEnumType.UnknownMessageId,
     DataTransferStatusEnumType.UnknownVendorId]"

definition DataTransferStatusEnumType_of_wire :: "string \<Rightarrow> DataTransferStatusEnumType option" where
  "DataTransferStatusEnumType_of_wire = decode_by DataTransferStatusEnumType_all DataTransferStatusEnumType_wire"

interpretation DataTransferStatusEnumType_codec: wire_codec DataTransferStatusEnumType_wire DataTransferStatusEnumType_of_wire
  unfolding DataTransferStatusEnumType_of_wire_def
proof (rule wire_codec_distinct)
  show "x \<in> set DataTransferStatusEnumType_all" for x by (cases x) (simp_all add: DataTransferStatusEnumType_all_def)
  show "distinct (map DataTransferStatusEnumType_wire DataTransferStatusEnumType_all)" by (simp add: DataTransferStatusEnumType_all_def)
qed

datatype ChargingProfilePurposeEnumType =
    ChargingStationExternalConstraints
  | ChargingStationMaxProfile
  | TxDefaultProfile
  | TxProfile

primrec ChargingProfilePurposeEnumType_wire :: "ChargingProfilePurposeEnumType \<Rightarrow> string" where
  "ChargingProfilePurposeEnumType_wire ChargingProfilePurposeEnumType.ChargingStationExternalConstraints = ''ChargingStationExternalConstraints''"
| "ChargingProfilePurposeEnumType_wire ChargingProfilePurposeEnumType.ChargingStationMaxProfile = ''ChargingStationMaxProfile''"
| "ChargingProfilePurposeEnumType_wire ChargingProfilePurposeEnumType.TxDefaultProfile = ''TxDefaultProfile''"
| "ChargingProfilePurposeEnumType_wire ChargingProfilePurposeEnumType.TxProfile = ''TxProfile''"

definition ChargingProfilePurposeEnumType_all :: "ChargingProfilePurposeEnumType list" where
  "ChargingProfilePurposeEnumType_all = [ChargingProfilePurposeEnumType.ChargingStationExternalConstraints,
     ChargingProfilePurposeEnumType.ChargingStationMaxProfile,
     ChargingProfilePurposeEnumType.TxDefaultProfile,
     ChargingProfilePurposeEnumType.TxProfile]"

definition ChargingProfilePurposeEnumType_of_wire :: "string \<Rightarrow> ChargingProfilePurposeEnumType option" where
  "ChargingProfilePurposeEnumType_of_wire = decode_by ChargingProfilePurposeEnumType_all ChargingProfilePurposeEnumType_wire"

interpretation ChargingProfilePurposeEnumType_codec: wire_codec ChargingProfilePurposeEnumType_wire ChargingProfilePurposeEnumType_of_wire
  unfolding ChargingProfilePurposeEnumType_of_wire_def
proof (rule wire_codec_distinct)
  show "x \<in> set ChargingProfilePurposeEnumType_all" for x by (cases x) (simp_all add: ChargingProfilePurposeEnumType_all_def)
  show "distinct (map ChargingProfilePurposeEnumType_wire ChargingProfilePurposeEnumType_all)" by (simp add: ChargingProfilePurposeEnumType_all_def)
qed

datatype ChargingProfileKindEnumType =
    Absolute
  | Recurring
  | Relative

primrec ChargingProfileKindEnumType_wire :: "ChargingProfileKindEnumType \<Rightarrow> string" where
  "ChargingProfileKindEnumType_wire ChargingProfileKindEnumType.Absolute = ''Absolute''"
| "ChargingProfileKindEnumType_wire ChargingProfileKindEnumType.Recurring = ''Recurring''"
| "ChargingProfileKindEnumType_wire ChargingProfileKindEnumType.Relative = ''Relative''"

definition ChargingProfileKindEnumType_all :: "ChargingProfileKindEnumType list" where
  "ChargingProfileKindEnumType_all = [ChargingProfileKindEnumType.Absolute, ChargingProfileKindEnumType.Recurring,
     ChargingProfileKindEnumType.Relative]"

definition ChargingProfileKindEnumType_of_wire :: "string \<Rightarrow> ChargingProfileKindEnumType option" where
  "ChargingProfileKindEnumType_of_wire = decode_by ChargingProfileKindEnumType_all ChargingProfileKindEnumType_wire"

interpretation ChargingProfileKindEnumType_codec: wire_codec ChargingProfileKindEnumType_wire ChargingProfileKindEnumType_of_wire
  unfolding ChargingProfileKindEnumType_of_wire_def
proof (rule wire_codec_distinct)
  show "x \<in> set ChargingProfileKindEnumType_all" for x by (cases x) (simp_all add: ChargingProfileKindEnumType_all_def)
  show "distinct (map ChargingProfileKindEnumType_wire ChargingProfileKindEnumType_all)" by (simp add: ChargingProfileKindEnumType_all_def)
qed

datatype RecurrencyKindEnumType =
    Daily
  | Weekly

primrec RecurrencyKindEnumType_wire :: "RecurrencyKindEnumType \<Rightarrow> string" where
  "RecurrencyKindEnumType_wire RecurrencyKindEnumType.Daily = ''Daily''"
| "RecurrencyKindEnumType_wire RecurrencyKindEnumType.Weekly = ''Weekly''"

definition RecurrencyKindEnumType_all :: "RecurrencyKindEnumType list" where
  "RecurrencyKindEnumType_all = [RecurrencyKindEnumType.Daily, RecurrencyKindEnumType.Weekly]"

definition RecurrencyKindEnumType_of_wire :: "string \<Rightarrow> RecurrencyKindEnumType option" where
  "RecurrencyKindEnumType_of_wire = decode_by RecurrencyKindEnumType_all RecurrencyKindEnumType_wire"

interpretation RecurrencyKindEnumType_codec: wire_codec RecurrencyKindEnumType_wire RecurrencyKindEnumType_of_wire
  unfolding RecurrencyKindEnumType_of_wire_def
proof (rule wire_codec_distinct)
  show "x \<in> set RecurrencyKindEnumType_all" for x by (cases x) (simp_all add: RecurrencyKindEnumType_all_def)
  show "distinct (map RecurrencyKindEnumType_wire RecurrencyKindEnumType_all)" by (simp add: RecurrencyKindEnumType_all_def)
qed

datatype ChargingRateUnitEnumType =
    W_unit
  | A_unit

primrec ChargingRateUnitEnumType_wire :: "ChargingRateUnitEnumType \<Rightarrow> string" where
  "ChargingRateUnitEnumType_wire ChargingRateUnitEnumType.W_unit = ''W''"
| "ChargingRateUnitEnumType_wire ChargingRateUnitEnumType.A_unit = ''A''"

definition ChargingRateUnitEnumType_all :: "ChargingRateUnitEnumType list" where
  "ChargingRateUnitEnumType_all = [ChargingRateUnitEnumType.W_unit, ChargingRateUnitEnumType.A_unit]"

definition ChargingRateUnitEnumType_of_wire :: "string \<Rightarrow> ChargingRateUnitEnumType option" where
  "ChargingRateUnitEnumType_of_wire = decode_by ChargingRateUnitEnumType_all ChargingRateUnitEnumType_wire"

interpretation ChargingRateUnitEnumType_codec: wire_codec ChargingRateUnitEnumType_wire ChargingRateUnitEnumType_of_wire
  unfolding ChargingRateUnitEnumType_of_wire_def
proof (rule wire_codec_distinct)
  show "x \<in> set ChargingRateUnitEnumType_all" for x by (cases x) (simp_all add: ChargingRateUnitEnumType_all_def)
  show "distinct (map ChargingRateUnitEnumType_wire ChargingRateUnitEnumType_all)" by (simp add: ChargingRateUnitEnumType_all_def)
qed

datatype CostKindEnumType =
    CarbonDioxideEmission
  | RelativePricePercentage
  | RenewableGenerationPercentage

primrec CostKindEnumType_wire :: "CostKindEnumType \<Rightarrow> string" where
  "CostKindEnumType_wire CostKindEnumType.CarbonDioxideEmission = ''CarbonDioxideEmission''"
| "CostKindEnumType_wire CostKindEnumType.RelativePricePercentage = ''RelativePricePercentage''"
| "CostKindEnumType_wire CostKindEnumType.RenewableGenerationPercentage = ''RenewableGenerationPercentage''"

definition CostKindEnumType_all :: "CostKindEnumType list" where
  "CostKindEnumType_all = [CostKindEnumType.CarbonDioxideEmission, CostKindEnumType.RelativePricePercentage,
     CostKindEnumType.RenewableGenerationPercentage]"

definition CostKindEnumType_of_wire :: "string \<Rightarrow> CostKindEnumType option" where
  "CostKindEnumType_of_wire = decode_by CostKindEnumType_all CostKindEnumType_wire"

interpretation CostKindEnumType_codec: wire_codec CostKindEnumType_wire CostKindEnumType_of_wire
  unfolding CostKindEnumType_of_wire_def
proof (rule wire_codec_distinct)
  show "x \<in> set CostKindEnumType_all" for x by (cases x) (simp_all add: CostKindEnumType_all_def)
  show "distinct (map CostKindEnumType_wire CostKindEnumType_all)" by (simp add: CostKindEnumType_all_def)
qed

datatype ReserveNowStatusEnumType =
    Accepted
  | Faulted
  | Occupied
  | Rejected
  | Unavailable

primrec ReserveNowStatusEnumType_wire :: "ReserveNowStatusEnumType \<Rightarrow> string" where
  "ReserveNowStatusEnumType_wire ReserveNowStatusEnumType.Accepted = ''Accepted''"
| "ReserveNowStatusEnumType_wire ReserveNowStatusEnumType.Faulted = ''Faulted''"
| "ReserveNowStatusEnumType_wire ReserveNowStatusEnumType.Occupied = ''Occupied''"
| "ReserveNowStatusEnumType_wire ReserveNowStatusEnumType.Rejected = ''Rejected''"
| "ReserveNowStatusEnumType_wire ReserveNowStatusEnumType.Unavailable = ''Unavailable''"

definition ReserveNowStatusEnumType_all :: "ReserveNowStatusEnumType list" where
  "ReserveNowStatusEnumType_all = [ReserveNowStatusEnumType.Accepted, ReserveNowStatusEnumType.Faulted,
     ReserveNowStatusEnumType.Occupied, ReserveNowStatusEnumType.Rejected,
     ReserveNowStatusEnumType.Unavailable]"

definition ReserveNowStatusEnumType_of_wire :: "string \<Rightarrow> ReserveNowStatusEnumType option" where
  "ReserveNowStatusEnumType_of_wire = decode_by ReserveNowStatusEnumType_all ReserveNowStatusEnumType_wire"

interpretation ReserveNowStatusEnumType_codec: wire_codec ReserveNowStatusEnumType_wire ReserveNowStatusEnumType_of_wire
  unfolding ReserveNowStatusEnumType_of_wire_def
proof (rule wire_codec_distinct)
  show "x \<in> set ReserveNowStatusEnumType_all" for x by (cases x) (simp_all add: ReserveNowStatusEnumType_all_def)
  show "distinct (map ReserveNowStatusEnumType_wire ReserveNowStatusEnumType_all)" by (simp add: ReserveNowStatusEnumType_all_def)
qed

datatype CancelReservationStatusEnumType =
    Accepted
  | Rejected

primrec CancelReservationStatusEnumType_wire :: "CancelReservationStatusEnumType \<Rightarrow> string" where
  "CancelReservationStatusEnumType_wire CancelReservationStatusEnumType.Accepted = ''Accepted''"
| "CancelReservationStatusEnumType_wire CancelReservationStatusEnumType.Rejected = ''Rejected''"

definition CancelReservationStatusEnumType_all :: "CancelReservationStatusEnumType list" where
  "CancelReservationStatusEnumType_all = [CancelReservationStatusEnumType.Accepted, CancelReservationStatusEnumType.Rejected]"

definition CancelReservationStatusEnumType_of_wire :: "string \<Rightarrow> CancelReservationStatusEnumType option" where
  "CancelReservationStatusEnumType_of_wire = decode_by CancelReservationStatusEnumType_all CancelReservationStatusEnumType_wire"

interpretation CancelReservationStatusEnumType_codec: wire_codec CancelReservationStatusEnumType_wire CancelReservationStatusEnumType_of_wire
  unfolding CancelReservationStatusEnumType_of_wire_def
proof (rule wire_codec_distinct)
  show "x \<in> set CancelReservationStatusEnumType_all" for x by (cases x) (simp_all add: CancelReservationStatusEnumType_all_def)
  show "distinct (map CancelReservationStatusEnumType_wire CancelReservationStatusEnumType_all)" by (simp add: CancelReservationStatusEnumType_all_def)
qed

datatype UpdateEnumType =
    Differential
  | Full

primrec UpdateEnumType_wire :: "UpdateEnumType \<Rightarrow> string" where
  "UpdateEnumType_wire UpdateEnumType.Differential = ''Differential''"
| "UpdateEnumType_wire UpdateEnumType.Full = ''Full''"

definition UpdateEnumType_all :: "UpdateEnumType list" where
  "UpdateEnumType_all = [UpdateEnumType.Differential, UpdateEnumType.Full]"

definition UpdateEnumType_of_wire :: "string \<Rightarrow> UpdateEnumType option" where
  "UpdateEnumType_of_wire = decode_by UpdateEnumType_all UpdateEnumType_wire"

interpretation UpdateEnumType_codec: wire_codec UpdateEnumType_wire UpdateEnumType_of_wire
  unfolding UpdateEnumType_of_wire_def
proof (rule wire_codec_distinct)
  show "x \<in> set UpdateEnumType_all" for x by (cases x) (simp_all add: UpdateEnumType_all_def)
  show "distinct (map UpdateEnumType_wire UpdateEnumType_all)" by (simp add: UpdateEnumType_all_def)
qed

datatype SendLocalListStatusEnumType =
    Accepted
  | Failed
  | VersionMismatch

primrec SendLocalListStatusEnumType_wire :: "SendLocalListStatusEnumType \<Rightarrow> string" where
  "SendLocalListStatusEnumType_wire SendLocalListStatusEnumType.Accepted = ''Accepted''"
| "SendLocalListStatusEnumType_wire SendLocalListStatusEnumType.Failed = ''Failed''"
| "SendLocalListStatusEnumType_wire SendLocalListStatusEnumType.VersionMismatch = ''VersionMismatch''"

definition SendLocalListStatusEnumType_all :: "SendLocalListStatusEnumType list" where
  "SendLocalListStatusEnumType_all = [SendLocalListStatusEnumType.Accepted, SendLocalListStatusEnumType.Failed,
     SendLocalListStatusEnumType.VersionMismatch]"

definition SendLocalListStatusEnumType_of_wire :: "string \<Rightarrow> SendLocalListStatusEnumType option" where
  "SendLocalListStatusEnumType_of_wire = decode_by SendLocalListStatusEnumType_all SendLocalListStatusEnumType_wire"

interpretation SendLocalListStatusEnumType_codec: wire_codec SendLocalListStatusEnumType_wire SendLocalListStatusEnumType_of_wire
  unfolding SendLocalListStatusEnumType_of_wire_def
proof (rule wire_codec_distinct)
  show "x \<in> set SendLocalListStatusEnumType_all" for x by (cases x) (simp_all add: SendLocalListStatusEnumType_all_def)
  show "distinct (map SendLocalListStatusEnumType_wire SendLocalListStatusEnumType_all)" by (simp add: SendLocalListStatusEnumType_all_def)
qed

datatype FirmwareStatusEnumType =
    Downloaded
  | DownloadFailed
  | Downloading
  | DownloadScheduled
  | DownloadPaused
  | Idle
  | InstallationFailed
  | Installing
  | Installed
  | InstallRebooting
  | InstallScheduled
  | InstallVerificationFailed
  | InvalidSignature
  | SignatureVerified

primrec FirmwareStatusEnumType_wire :: "FirmwareStatusEnumType \<Rightarrow> string" where
  "FirmwareStatusEnumType_wire FirmwareStatusEnumType.Downloaded = ''Downloaded''"
| "FirmwareStatusEnumType_wire FirmwareStatusEnumType.DownloadFailed = ''DownloadFailed''"
| "FirmwareStatusEnumType_wire FirmwareStatusEnumType.Downloading = ''Downloading''"
| "FirmwareStatusEnumType_wire FirmwareStatusEnumType.DownloadScheduled = ''DownloadScheduled''"
| "FirmwareStatusEnumType_wire FirmwareStatusEnumType.DownloadPaused = ''DownloadPaused''"
| "FirmwareStatusEnumType_wire FirmwareStatusEnumType.Idle = ''Idle''"
| "FirmwareStatusEnumType_wire FirmwareStatusEnumType.InstallationFailed = ''InstallationFailed''"
| "FirmwareStatusEnumType_wire FirmwareStatusEnumType.Installing = ''Installing''"
| "FirmwareStatusEnumType_wire FirmwareStatusEnumType.Installed = ''Installed''"
| "FirmwareStatusEnumType_wire FirmwareStatusEnumType.InstallRebooting = ''InstallRebooting''"
| "FirmwareStatusEnumType_wire FirmwareStatusEnumType.InstallScheduled = ''InstallScheduled''"
| "FirmwareStatusEnumType_wire FirmwareStatusEnumType.InstallVerificationFailed = ''InstallVerificationFailed''"
| "FirmwareStatusEnumType_wire FirmwareStatusEnumType.InvalidSignature = ''InvalidSignature''"
| "FirmwareStatusEnumType_wire FirmwareStatusEnumType.SignatureVerified = ''SignatureVerified''"

definition FirmwareStatusEnumType_all :: "FirmwareStatusEnumType list" where
  "FirmwareStatusEnumType_all = [FirmwareStatusEnumType.Downloaded, FirmwareStatusEnumType.DownloadFailed,
     FirmwareStatusEnumType.Downloading, FirmwareStatusEnumType.DownloadScheduled,
     FirmwareStatusEnumType.DownloadPaused, FirmwareStatusEnumType.Idle,
     FirmwareStatusEnumType.InstallationFailed, FirmwareStatusEnumType.Installing,
     FirmwareStatusEnumType.Installed, FirmwareStatusEnumType.InstallRebooting,
     FirmwareStatusEnumType.InstallScheduled,
     FirmwareStatusEnumType.InstallVerificationFailed,
     FirmwareStatusEnumType.InvalidSignature, FirmwareStatusEnumType.SignatureVerified]"

definition FirmwareStatusEnumType_of_wire :: "string \<Rightarrow> FirmwareStatusEnumType option" where
  "FirmwareStatusEnumType_of_wire = decode_by FirmwareStatusEnumType_all FirmwareStatusEnumType_wire"

interpretation FirmwareStatusEnumType_codec: wire_codec FirmwareStatusEnumType_wire FirmwareStatusEnumType_of_wire
  unfolding FirmwareStatusEnumType_of_wire_def
proof (rule wire_codec_distinct)
  show "x \<in> set FirmwareStatusEnumType_all" for x by (cases x) (simp_all add: FirmwareStatusEnumType_all_def)
  show "distinct (map FirmwareStatusEnumType_wire FirmwareStatusEnumType_all)" by (simp add: FirmwareStatusEnumType_all_def)
qed

datatype ChargingProfileStatusEnumType =
    Accepted
  | Rejected

primrec ChargingProfileStatusEnumType_wire :: "ChargingProfileStatusEnumType \<Rightarrow> string" where
  "ChargingProfileStatusEnumType_wire ChargingProfileStatusEnumType.Accepted = ''Accepted''"
| "ChargingProfileStatusEnumType_wire ChargingProfileStatusEnumType.Rejected = ''Rejected''"

definition ChargingProfileStatusEnumType_all :: "ChargingProfileStatusEnumType list" where
  "ChargingProfileStatusEnumType_all = [ChargingProfileStatusEnumType.Accepted, ChargingProfileStatusEnumType.Rejected]"

definition ChargingProfileStatusEnumType_of_wire :: "string \<Rightarrow> ChargingProfileStatusEnumType option" where
  "ChargingProfileStatusEnumType_of_wire = decode_by ChargingProfileStatusEnumType_all ChargingProfileStatusEnumType_wire"

interpretation ChargingProfileStatusEnumType_codec: wire_codec ChargingProfileStatusEnumType_wire ChargingProfileStatusEnumType_of_wire
  unfolding ChargingProfileStatusEnumType_of_wire_def
proof (rule wire_codec_distinct)
  show "x \<in> set ChargingProfileStatusEnumType_all" for x by (cases x) (simp_all add: ChargingProfileStatusEnumType_all_def)
  show "distinct (map ChargingProfileStatusEnumType_wire ChargingProfileStatusEnumType_all)" by (simp add: ChargingProfileStatusEnumType_all_def)
qed

datatype UploadLogStatusEnumType =
    BadMessage
  | Idle
  | NotSupportedOperation
  | PermissionDenied
  | Uploaded
  | UploadFailure
  | Uploading
  | AcceptedCanceled

primrec UploadLogStatusEnumType_wire :: "UploadLogStatusEnumType \<Rightarrow> string" where
  "UploadLogStatusEnumType_wire UploadLogStatusEnumType.BadMessage = ''BadMessage''"
| "UploadLogStatusEnumType_wire UploadLogStatusEnumType.Idle = ''Idle''"
| "UploadLogStatusEnumType_wire UploadLogStatusEnumType.NotSupportedOperation = ''NotSupportedOperation''"
| "UploadLogStatusEnumType_wire UploadLogStatusEnumType.PermissionDenied = ''PermissionDenied''"
| "UploadLogStatusEnumType_wire UploadLogStatusEnumType.Uploaded = ''Uploaded''"
| "UploadLogStatusEnumType_wire UploadLogStatusEnumType.UploadFailure = ''UploadFailure''"
| "UploadLogStatusEnumType_wire UploadLogStatusEnumType.Uploading = ''Uploading''"
| "UploadLogStatusEnumType_wire UploadLogStatusEnumType.AcceptedCanceled = ''AcceptedCanceled''"

definition UploadLogStatusEnumType_all :: "UploadLogStatusEnumType list" where
  "UploadLogStatusEnumType_all = [UploadLogStatusEnumType.BadMessage, UploadLogStatusEnumType.Idle,
     UploadLogStatusEnumType.NotSupportedOperation,
     UploadLogStatusEnumType.PermissionDenied, UploadLogStatusEnumType.Uploaded,
     UploadLogStatusEnumType.UploadFailure, UploadLogStatusEnumType.Uploading,
     UploadLogStatusEnumType.AcceptedCanceled]"

definition UploadLogStatusEnumType_of_wire :: "string \<Rightarrow> UploadLogStatusEnumType option" where
  "UploadLogStatusEnumType_of_wire = decode_by UploadLogStatusEnumType_all UploadLogStatusEnumType_wire"

interpretation UploadLogStatusEnumType_codec: wire_codec UploadLogStatusEnumType_wire UploadLogStatusEnumType_of_wire
  unfolding UploadLogStatusEnumType_of_wire_def
proof (rule wire_codec_distinct)
  show "x \<in> set UploadLogStatusEnumType_all" for x by (cases x) (simp_all add: UploadLogStatusEnumType_all_def)
  show "distinct (map UploadLogStatusEnumType_wire UploadLogStatusEnumType_all)" by (simp add: UploadLogStatusEnumType_all_def)
qed

datatype ReservationUpdateStatusEnumType =
    Expired
  | Removed

primrec ReservationUpdateStatusEnumType_wire :: "ReservationUpdateStatusEnumType \<Rightarrow> string" where
  "ReservationUpdateStatusEnumType_wire ReservationUpdateStatusEnumType.Expired = ''Expired''"
| "ReservationUpdateStatusEnumType_wire ReservationUpdateStatusEnumType.Removed = ''Removed''"

definition ReservationUpdateStatusEnumType_all :: "ReservationUpdateStatusEnumType list" where
  "ReservationUpdateStatusEnumType_all = [ReservationUpdateStatusEnumType.Expired, ReservationUpdateStatusEnumType.Removed]"

definition ReservationUpdateStatusEnumType_of_wire :: "string \<Rightarrow> ReservationUpdateStatusEnumType option" where
  "ReservationUpdateStatusEnumType_of_wire = decode_by ReservationUpdateStatusEnumType_all ReservationUpdateStatusEnumType_wire"

interpretation ReservationUpdateStatusEnumType_codec: wire_codec ReservationUpdateStatusEnumType_wire ReservationUpdateStatusEnumType_of_wire
  unfolding ReservationUpdateStatusEnumType_of_wire_def
proof (rule wire_codec_distinct)
  show "x \<in> set ReservationUpdateStatusEnumType_all" for x by (cases x) (simp_all add: ReservationUpdateStatusEnumType_all_def)
  show "distinct (map ReservationUpdateStatusEnumType_wire ReservationUpdateStatusEnumType_all)" by (simp add: ReservationUpdateStatusEnumType_all_def)
qed

datatype ChargingLimitSourceEnumType =
    Ems
  | Other
  | So
  | Cso

primrec ChargingLimitSourceEnumType_wire :: "ChargingLimitSourceEnumType \<Rightarrow> string" where
  "ChargingLimitSourceEnumType_wire ChargingLimitSourceEnumType.Ems = ''EMS''"
| "ChargingLimitSourceEnumType_wire ChargingLimitSourceEnumType.Other = ''Other''"
| "ChargingLimitSourceEnumType_wire ChargingLimitSourceEnumType.So = ''SO''"
| "ChargingLimitSourceEnumType_wire ChargingLimitSourceEnumType.Cso = ''CSO''"

definition ChargingLimitSourceEnumType_all :: "ChargingLimitSourceEnumType list" where
  "ChargingLimitSourceEnumType_all = [ChargingLimitSourceEnumType.Ems, ChargingLimitSourceEnumType.Other,
     ChargingLimitSourceEnumType.So, ChargingLimitSourceEnumType.Cso]"

definition ChargingLimitSourceEnumType_of_wire :: "string \<Rightarrow> ChargingLimitSourceEnumType option" where
  "ChargingLimitSourceEnumType_of_wire = decode_by ChargingLimitSourceEnumType_all ChargingLimitSourceEnumType_wire"

interpretation ChargingLimitSourceEnumType_codec: wire_codec ChargingLimitSourceEnumType_wire ChargingLimitSourceEnumType_of_wire
  unfolding ChargingLimitSourceEnumType_of_wire_def
proof (rule wire_codec_distinct)
  show "x \<in> set ChargingLimitSourceEnumType_all" for x by (cases x) (simp_all add: ChargingLimitSourceEnumType_all_def)
  show "distinct (map ChargingLimitSourceEnumType_wire ChargingLimitSourceEnumType_all)" by (simp add: ChargingLimitSourceEnumType_all_def)
qed

datatype PublishFirmwareStatusEnumType =
    Idle
  | DownloadScheduled
  | Downloading
  | Downloaded
  | Published
  | DownloadFailed
  | DownloadPaused
  | InvalidChecksum
  | ChecksumVerified
  | PublishFailed

primrec PublishFirmwareStatusEnumType_wire :: "PublishFirmwareStatusEnumType \<Rightarrow> string" where
  "PublishFirmwareStatusEnumType_wire PublishFirmwareStatusEnumType.Idle = ''Idle''"
| "PublishFirmwareStatusEnumType_wire PublishFirmwareStatusEnumType.DownloadScheduled = ''DownloadScheduled''"
| "PublishFirmwareStatusEnumType_wire PublishFirmwareStatusEnumType.Downloading = ''Downloading''"
| "PublishFirmwareStatusEnumType_wire PublishFirmwareStatusEnumType.Downloaded = ''Downloaded''"
| "PublishFirmwareStatusEnumType_wire PublishFirmwareStatusEnumType.Published = ''Published''"
| "PublishFirmwareStatusEnumType_wire PublishFirmwareStatusEnumType.DownloadFailed = ''DownloadFailed''"
| "PublishFirmwareStatusEnumType_wire PublishFirmwareStatusEnumType.DownloadPaused = ''DownloadPaused''"
| "PublishFirmwareStatusEnumType_wire PublishFirmwareStatusEnumType.InvalidChecksum = ''InvalidChecksum''"
| "PublishFirmwareStatusEnumType_wire PublishFirmwareStatusEnumType.ChecksumVerified = ''ChecksumVerified''"
| "PublishFirmwareStatusEnumType_wire PublishFirmwareStatusEnumType.PublishFailed = ''PublishFailed''"

definition PublishFirmwareStatusEnumType_all :: "PublishFirmwareStatusEnumType list" where
  "PublishFirmwareStatusEnumType_all = [PublishFirmwareStatusEnumType.Idle, PublishFirmwareStatusEnumType.DownloadScheduled,
     PublishFirmwareStatusEnumType.Downloading,
     PublishFirmwareStatusEnumType.Downloaded, PublishFirmwareStatusEnumType.Published,
     PublishFirmwareStatusEnumType.DownloadFailed,
     PublishFirmwareStatusEnumType.DownloadPaused,
     PublishFirmwareStatusEnumType.InvalidChecksum,
     PublishFirmwareStatusEnumType.ChecksumVerified,
     PublishFirmwareStatusEnumType.PublishFailed]"

definition PublishFirmwareStatusEnumType_of_wire :: "string \<Rightarrow> PublishFirmwareStatusEnumType option" where
  "PublishFirmwareStatusEnumType_of_wire = decode_by PublishFirmwareStatusEnumType_all PublishFirmwareStatusEnumType_wire"

interpretation PublishFirmwareStatusEnumType_codec: wire_codec PublishFirmwareStatusEnumType_wire PublishFirmwareStatusEnumType_of_wire
  unfolding PublishFirmwareStatusEnumType_of_wire_def
proof (rule wire_codec_distinct)
  show "x \<in> set PublishFirmwareStatusEnumType_all" for x by (cases x) (simp_all add: PublishFirmwareStatusEnumType_all_def)
  show "distinct (map PublishFirmwareStatusEnumType_wire PublishFirmwareStatusEnumType_all)" by (simp add: PublishFirmwareStatusEnumType_all_def)
qed

datatype UnpublishFirmwareStatusEnumType =
    DownloadOngoing
  | NoFirmware
  | Unpublished

primrec UnpublishFirmwareStatusEnumType_wire :: "UnpublishFirmwareStatusEnumType \<Rightarrow> string" where
  "UnpublishFirmwareStatusEnumType_wire UnpublishFirmwareStatusEnumType.DownloadOngoing = ''DownloadOngoing''"
| "UnpublishFirmwareStatusEnumType_wire UnpublishFirmwareStatusEnumType.NoFirmware = ''NoFirmware''"
| "UnpublishFirmwareStatusEnumType_wire UnpublishFirmwareStatusEnumType.Unpublished = ''Unpublished''"

definition UnpublishFirmwareStatusEnumType_all :: "UnpublishFirmwareStatusEnumType list" where
  "UnpublishFirmwareStatusEnumType_all = [UnpublishFirmwareStatusEnumType.DownloadOngoing,
     UnpublishFirmwareStatusEnumType.NoFirmware,
     UnpublishFirmwareStatusEnumType.Unpublished]"

definition UnpublishFirmwareStatusEnumType_of_wire :: "string \<Rightarrow> UnpublishFirmwareStatusEnumType option" where
  "UnpublishFirmwareStatusEnumType_of_wire = decode_by UnpublishFirmwareStatusEnumType_all UnpublishFirmwareStatusEnumType_wire"

interpretation UnpublishFirmwareStatusEnumType_codec: wire_codec UnpublishFirmwareStatusEnumType_wire UnpublishFirmwareStatusEnumType_of_wire
  unfolding UnpublishFirmwareStatusEnumType_of_wire_def
proof (rule wire_codec_distinct)
  show "x \<in> set UnpublishFirmwareStatusEnumType_all" for x by (cases x) (simp_all add: UnpublishFirmwareStatusEnumType_all_def)
  show "distinct (map UnpublishFirmwareStatusEnumType_wire UnpublishFirmwareStatusEnumType_all)" by (simp add: UnpublishFirmwareStatusEnumType_all_def)
qed

datatype GenericStatusEnumType =
    Accepted
  | Rejected

primrec GenericStatusEnumType_wire :: "GenericStatusEnumType \<Rightarrow> string" where
  "GenericStatusEnumType_wire GenericStatusEnumType.Accepted = ''Accepted''"
| "GenericStatusEnumType_wire GenericStatusEnumType.Rejected = ''Rejected''"

definition GenericStatusEnumType_all :: "GenericStatusEnumType list" where
  "GenericStatusEnumType_all = [GenericStatusEnumType.Accepted, GenericStatusEnumType.Rejected]"

definition GenericStatusEnumType_of_wire :: "string \<Rightarrow> GenericStatusEnumType option" where
  "GenericStatusEnumType_of_wire = decode_by GenericStatusEnumType_all GenericStatusEnumType_wire"

interpretation GenericStatusEnumType_codec: wire_codec GenericStatusEnumType_wire GenericStatusEnumType_of_wire
  unfolding GenericStatusEnumType_of_wire_def
proof (rule wire_codec_distinct)
  show "x \<in> set GenericStatusEnumType_all" for x by (cases x) (simp_all add: GenericStatusEnumType_all_def)
  show "distinct (map GenericStatusEnumType_wire GenericStatusEnumType_all)" by (simp add: GenericStatusEnumType_all_def)
qed

datatype ReportBaseEnumType =
    ConfigurationInventory
  | FullInventory
  | SummaryInventory

primrec ReportBaseEnumType_wire :: "ReportBaseEnumType \<Rightarrow> string" where
  "ReportBaseEnumType_wire ReportBaseEnumType.ConfigurationInventory = ''ConfigurationInventory''"
| "ReportBaseEnumType_wire ReportBaseEnumType.FullInventory = ''FullInventory''"
| "ReportBaseEnumType_wire ReportBaseEnumType.SummaryInventory = ''SummaryInventory''"

definition ReportBaseEnumType_all :: "ReportBaseEnumType list" where
  "ReportBaseEnumType_all = [ReportBaseEnumType.ConfigurationInventory, ReportBaseEnumType.FullInventory,
     ReportBaseEnumType.SummaryInventory]"

definition ReportBaseEnumType_of_wire :: "string \<Rightarrow> ReportBaseEnumType option" where
  "ReportBaseEnumType_of_wire = decode_by ReportBaseEnumType_all ReportBaseEnumType_wire"

interpretation ReportBaseEnumType_codec: wire_codec ReportBaseEnumType_wire ReportBaseEnumType_of_wire
  unfolding ReportBaseEnumType_of_wire_def
proof (rule wire_codec_distinct)
  show "x \<in> set ReportBaseEnumType_all" for x by (cases x) (simp_all add: ReportBaseEnumType_all_def)
  show "distinct (map ReportBaseEnumType_wire ReportBaseEnumType_all)" by (simp add: ReportBaseEnumType_all_def)
qed

datatype GenericDeviceModelStatusEnumType =
    Accepted
  | Rejected
  | NotSupported
  | EmptyResultSet

primrec GenericDeviceModelStatusEnumType_wire :: "GenericDeviceModelStatusEnumType \<Rightarrow> string" where
  "GenericDeviceModelStatusEnumType_wire GenericDeviceModelStatusEnumType.Accepted = ''Accepted''"
| "GenericDeviceModelStatusEnumType_wire GenericDeviceModelStatusEnumType.Rejected = ''Rejected''"
| "GenericDeviceModelStatusEnumType_wire GenericDeviceModelStatusEnumType.NotSupported = ''NotSupported''"
| "GenericDeviceModelStatusEnumType_wire GenericDeviceModelStatusEnumType.EmptyResultSet = ''EmptyResultSet''"

definition GenericDeviceModelStatusEnumType_all :: "GenericDeviceModelStatusEnumType list" where
  "GenericDeviceModelStatusEnumType_all = [GenericDeviceModelStatusEnumType.Accepted, GenericDeviceModelStatusEnumType.Rejected,
     GenericDeviceModelStatusEnumType.NotSupported,
     GenericDeviceModelStatusEnumType.EmptyResultSet]"

definition GenericDeviceModelStatusEnumType_of_wire :: "string \<Rightarrow> GenericDeviceModelStatusEnumType option" where
  "GenericDeviceModelStatusEnumType_of_wire = decode_by GenericDeviceModelStatusEnumType_all GenericDeviceModelStatusEnumType_wire"

interpretation GenericDeviceModelStatusEnumType_codec: wire_codec GenericDeviceModelStatusEnumType_wire GenericDeviceModelStatusEnumType_of_wire
  unfolding GenericDeviceModelStatusEnumType_of_wire_def
proof (rule wire_codec_distinct)
  show "x \<in> set GenericDeviceModelStatusEnumType_all" for x by (cases x) (simp_all add: GenericDeviceModelStatusEnumType_all_def)
  show "distinct (map GenericDeviceModelStatusEnumType_wire GenericDeviceModelStatusEnumType_all)" by (simp add: GenericDeviceModelStatusEnumType_all_def)
qed

datatype ComponentCriterionEnumType =
    Active
  | Available
  | Enabled
  | Problem

primrec ComponentCriterionEnumType_wire :: "ComponentCriterionEnumType \<Rightarrow> string" where
  "ComponentCriterionEnumType_wire ComponentCriterionEnumType.Active = ''Active''"
| "ComponentCriterionEnumType_wire ComponentCriterionEnumType.Available = ''Available''"
| "ComponentCriterionEnumType_wire ComponentCriterionEnumType.Enabled = ''Enabled''"
| "ComponentCriterionEnumType_wire ComponentCriterionEnumType.Problem = ''Problem''"

definition ComponentCriterionEnumType_all :: "ComponentCriterionEnumType list" where
  "ComponentCriterionEnumType_all = [ComponentCriterionEnumType.Active, ComponentCriterionEnumType.Available,
     ComponentCriterionEnumType.Enabled, ComponentCriterionEnumType.Problem]"

definition ComponentCriterionEnumType_of_wire :: "string \<Rightarrow> ComponentCriterionEnumType option" where
  "ComponentCriterionEnumType_of_wire = decode_by ComponentCriterionEnumType_all ComponentCriterionEnumType_wire"

interpretation ComponentCriterionEnumType_codec: wire_codec ComponentCriterionEnumType_wire ComponentCriterionEnumType_of_wire
  unfolding ComponentCriterionEnumType_of_wire_def
proof (rule wire_codec_distinct)
  show "x \<in> set ComponentCriterionEnumType_all" for x by (cases x) (simp_all add: ComponentCriterionEnumType_all_def)
  show "distinct (map ComponentCriterionEnumType_wire ComponentCriterionEnumType_all)" by (simp add: ComponentCriterionEnumType_all_def)
qed

datatype MonitoringCriterionEnumType =
    ThresholdMonitoring
  | DeltaMonitoring
  | PeriodicMonitoring

primrec MonitoringCriterionEnumType_wire :: "MonitoringCriterionEnumType \<Rightarrow> string" where
  "MonitoringCriterionEnumType_wire MonitoringCriterionEnumType.ThresholdMonitoring = ''ThresholdMonitoring''"
| "MonitoringCriterionEnumType_wire MonitoringCriterionEnumType.DeltaMonitoring = ''DeltaMonitoring''"
| "MonitoringCriterionEnumType_wire MonitoringCriterionEnumType.PeriodicMonitoring = ''PeriodicMonitoring''"

definition MonitoringCriterionEnumType_all :: "MonitoringCriterionEnumType list" where
  "MonitoringCriterionEnumType_all = [MonitoringCriterionEnumType.ThresholdMonitoring,
     MonitoringCriterionEnumType.DeltaMonitoring,
     MonitoringCriterionEnumType.PeriodicMonitoring]"

definition MonitoringCriterionEnumType_of_wire :: "string \<Rightarrow> MonitoringCriterionEnumType option" where
  "MonitoringCriterionEnumType_of_wire = decode_by MonitoringCriterionEnumType_all MonitoringCriterionEnumType_wire"

interpretation MonitoringCriterionEnumType_codec: wire_codec MonitoringCriterionEnumType_wire MonitoringCriterionEnumType_of_wire
  unfolding MonitoringCriterionEnumType_of_wire_def
proof (rule wire_codec_distinct)
  show "x \<in> set MonitoringCriterionEnumType_all" for x by (cases x) (simp_all add: MonitoringCriterionEnumType_all_def)
  show "distinct (map MonitoringCriterionEnumType_wire MonitoringCriterionEnumType_all)" by (simp add: MonitoringCriterionEnumType_all_def)
qed

datatype MonitorEnumType =
    UpperThreshold
  | LowerThreshold
  | Delta
  | Periodic
  | PeriodicClockAligned

primrec MonitorEnumType_wire :: "MonitorEnumType \<Rightarrow> string" where
  "MonitorEnumType_wire MonitorEnumType.UpperThreshold = ''UpperThreshold''"
| "MonitorEnumType_wire MonitorEnumType.LowerThreshold = ''LowerThreshold''"
| "MonitorEnumType_wire MonitorEnumType.Delta = ''Delta''"
| "MonitorEnumType_wire MonitorEnumType.Periodic = ''Periodic''"
| "MonitorEnumType_wire MonitorEnumType.PeriodicClockAligned = ''PeriodicClockAligned''"

definition MonitorEnumType_all :: "MonitorEnumType list" where
  "MonitorEnumType_all = [MonitorEnumType.UpperThreshold, MonitorEnumType.LowerThreshold, MonitorEnumType.Delta,
     MonitorEnumType.Periodic, MonitorEnumType.PeriodicClockAligned]"

definition MonitorEnumType_of_wire :: "string \<Rightarrow> MonitorEnumType option" where
  "MonitorEnumType_of_wire = decode_by MonitorEnumType_all MonitorEnumType_wire"

interpretation MonitorEnumType_codec: wire_codec MonitorEnumType_wire MonitorEnumType_of_wire
  unfolding MonitorEnumType_of_wire_def
proof (rule wire_codec_distinct)
  show "x \<in> set MonitorEnumType_all" for x by (cases x) (simp_all add: MonitorEnumType_all_def)
  show "distinct (map MonitorEnumType_wire MonitorEnumType_all)" by (simp add: MonitorEnumType_all_def)
qed

datatype EventTriggerEnumType =
    Alerting
  | Delta
  | Periodic

primrec EventTriggerEnumType_wire :: "EventTriggerEnumType \<Rightarrow> string" where
  "EventTriggerEnumType_wire EventTriggerEnumType.Alerting = ''Alerting''"
| "EventTriggerEnumType_wire EventTriggerEnumType.Delta = ''Delta''"
| "EventTriggerEnumType_wire EventTriggerEnumType.Periodic = ''Periodic''"

definition EventTriggerEnumType_all :: "EventTriggerEnumType list" where
  "EventTriggerEnumType_all = [EventTriggerEnumType.Alerting, EventTriggerEnumType.Delta,
     EventTriggerEnumType.Periodic]"

definition EventTriggerEnumType_of_wire :: "string \<Rightarrow> EventTriggerEnumType option" where
  "EventTriggerEnumType_of_wire = decode_by EventTriggerEnumType_all EventTriggerEnumType_wire"

interpretation EventTriggerEnumType_codec: wire_codec EventTriggerEnumType_wire EventTriggerEnumType_of_wire
  unfolding EventTriggerEnumType_of_wire_def
proof (rule wire_codec_distinct)
  show "x \<in> set EventTriggerEnumType_all" for x by (cases x) (simp_all add: EventTriggerEnumType_all_def)
  show "distinct (map EventTriggerEnumType_wire EventTriggerEnumType_all)" by (simp add: EventTriggerEnumType_all_def)
qed

datatype EventNotificationEnumType =
    HardWiredNotification
  | HardWiredMonitor
  | PreconfiguredMonitor
  | CustomMonitor

primrec EventNotificationEnumType_wire :: "EventNotificationEnumType \<Rightarrow> string" where
  "EventNotificationEnumType_wire EventNotificationEnumType.HardWiredNotification = ''HardWiredNotification''"
| "EventNotificationEnumType_wire EventNotificationEnumType.HardWiredMonitor = ''HardWiredMonitor''"
| "EventNotificationEnumType_wire EventNotificationEnumType.PreconfiguredMonitor = ''PreconfiguredMonitor''"
| "EventNotificationEnumType_wire EventNotificationEnumType.CustomMonitor = ''CustomMonitor''"

definition EventNotificationEnumType_all :: "EventNotificationEnumType list" where
  "EventNotificationEnumType_all = [EventNotificationEnumType.HardWiredNotification,
     EventNotificationEnumType.HardWiredMonitor,
     EventNotificationEnumType.PreconfiguredMonitor,
     EventNotificationEnumType.CustomMonitor]"

definition EventNotificationEnumType_of_wire :: "string \<Rightarrow> EventNotificationEnumType option" where
  "EventNotificationEnumType_of_wire = decode_by EventNotificationEnumType_all EventNotificationEnumType_wire"

interpretation EventNotificationEnumType_codec: wire_codec EventNotificationEnumType_wire EventNotificationEnumType_of_wire
  unfolding EventNotificationEnumType_of_wire_def
proof (rule wire_codec_distinct)
  show "x \<in> set EventNotificationEnumType_all" for x by (cases x) (simp_all add: EventNotificationEnumType_all_def)
  show "distinct (map EventNotificationEnumType_wire EventNotificationEnumType_all)" by (simp add: EventNotificationEnumType_all_def)
qed

datatype MonitorBaseEnumType =
    All_variant
  | FactoryDefault
  | HardWiredOnly

primrec MonitorBaseEnumType_wire :: "MonitorBaseEnumType \<Rightarrow> string" where
  "MonitorBaseEnumType_wire MonitorBaseEnumType.All_variant = ''All''"
| "MonitorBaseEnumType_wire MonitorBaseEnumType.FactoryDefault = ''FactoryDefault''"
| "MonitorBaseEnumType_wire MonitorBaseEnumType.HardWiredOnly = ''HardWiredOnly''"

definition MonitorBaseEnumType_all :: "MonitorBaseEnumType list" where
  "MonitorBaseEnumType_all = [MonitorBaseEnumType.All_variant, MonitorBaseEnumType.FactoryDefault,
     MonitorBaseEnumType.HardWiredOnly]"

definition MonitorBaseEnumType_of_wire :: "string \<Rightarrow> MonitorBaseEnumType option" where
  "MonitorBaseEnumType_of_wire = decode_by MonitorBaseEnumType_all MonitorBaseEnumType_wire"

interpretation MonitorBaseEnumType_codec: wire_codec MonitorBaseEnumType_wire MonitorBaseEnumType_of_wire
  unfolding MonitorBaseEnumType_of_wire_def
proof (rule wire_codec_distinct)
  show "x \<in> set MonitorBaseEnumType_all" for x by (cases x) (simp_all add: MonitorBaseEnumType_all_def)
  show "distinct (map MonitorBaseEnumType_wire MonitorBaseEnumType_all)" by (simp add: MonitorBaseEnumType_all_def)
qed

datatype ClearMonitoringStatusEnumType =
    Accepted
  | Rejected
  | NotFound

primrec ClearMonitoringStatusEnumType_wire :: "ClearMonitoringStatusEnumType \<Rightarrow> string" where
  "ClearMonitoringStatusEnumType_wire ClearMonitoringStatusEnumType.Accepted = ''Accepted''"
| "ClearMonitoringStatusEnumType_wire ClearMonitoringStatusEnumType.Rejected = ''Rejected''"
| "ClearMonitoringStatusEnumType_wire ClearMonitoringStatusEnumType.NotFound = ''NotFound''"

definition ClearMonitoringStatusEnumType_all :: "ClearMonitoringStatusEnumType list" where
  "ClearMonitoringStatusEnumType_all = [ClearMonitoringStatusEnumType.Accepted, ClearMonitoringStatusEnumType.Rejected,
     ClearMonitoringStatusEnumType.NotFound]"

definition ClearMonitoringStatusEnumType_of_wire :: "string \<Rightarrow> ClearMonitoringStatusEnumType option" where
  "ClearMonitoringStatusEnumType_of_wire = decode_by ClearMonitoringStatusEnumType_all ClearMonitoringStatusEnumType_wire"

interpretation ClearMonitoringStatusEnumType_codec: wire_codec ClearMonitoringStatusEnumType_wire ClearMonitoringStatusEnumType_of_wire
  unfolding ClearMonitoringStatusEnumType_of_wire_def
proof (rule wire_codec_distinct)
  show "x \<in> set ClearMonitoringStatusEnumType_all" for x by (cases x) (simp_all add: ClearMonitoringStatusEnumType_all_def)
  show "distinct (map ClearMonitoringStatusEnumType_wire ClearMonitoringStatusEnumType_all)" by (simp add: ClearMonitoringStatusEnumType_all_def)
qed

datatype SetMonitoringStatusEnumType =
    Accepted
  | UnknownComponent
  | UnknownVariable
  | UnsupportedMonitorType
  | Rejected
  | Duplicate

primrec SetMonitoringStatusEnumType_wire :: "SetMonitoringStatusEnumType \<Rightarrow> string" where
  "SetMonitoringStatusEnumType_wire SetMonitoringStatusEnumType.Accepted = ''Accepted''"
| "SetMonitoringStatusEnumType_wire SetMonitoringStatusEnumType.UnknownComponent = ''UnknownComponent''"
| "SetMonitoringStatusEnumType_wire SetMonitoringStatusEnumType.UnknownVariable = ''UnknownVariable''"
| "SetMonitoringStatusEnumType_wire SetMonitoringStatusEnumType.UnsupportedMonitorType = ''UnsupportedMonitorType''"
| "SetMonitoringStatusEnumType_wire SetMonitoringStatusEnumType.Rejected = ''Rejected''"
| "SetMonitoringStatusEnumType_wire SetMonitoringStatusEnumType.Duplicate = ''Duplicate''"

definition SetMonitoringStatusEnumType_all :: "SetMonitoringStatusEnumType list" where
  "SetMonitoringStatusEnumType_all = [SetMonitoringStatusEnumType.Accepted, SetMonitoringStatusEnumType.UnknownComponent,
     SetMonitoringStatusEnumType.UnknownVariable,
     SetMonitoringStatusEnumType.UnsupportedMonitorType,
     SetMonitoringStatusEnumType.Rejected, SetMonitoringStatusEnumType.Duplicate]"

definition SetMonitoringStatusEnumType_of_wire :: "string \<Rightarrow> SetMonitoringStatusEnumType option" where
  "SetMonitoringStatusEnumType_of_wire = decode_by SetMonitoringStatusEnumType_all SetMonitoringStatusEnumType_wire"

interpretation SetMonitoringStatusEnumType_codec: wire_codec SetMonitoringStatusEnumType_wire SetMonitoringStatusEnumType_of_wire
  unfolding SetMonitoringStatusEnumType_of_wire_def
proof (rule wire_codec_distinct)
  show "x \<in> set SetMonitoringStatusEnumType_all" for x by (cases x) (simp_all add: SetMonitoringStatusEnumType_all_def)
  show "distinct (map SetMonitoringStatusEnumType_wire SetMonitoringStatusEnumType_all)" by (simp add: SetMonitoringStatusEnumType_all_def)
qed

datatype ClearChargingProfileStatusEnumType =
    Accepted
  | Unknown

primrec ClearChargingProfileStatusEnumType_wire :: "ClearChargingProfileStatusEnumType \<Rightarrow> string" where
  "ClearChargingProfileStatusEnumType_wire ClearChargingProfileStatusEnumType.Accepted = ''Accepted''"
| "ClearChargingProfileStatusEnumType_wire ClearChargingProfileStatusEnumType.Unknown = ''Unknown''"

definition ClearChargingProfileStatusEnumType_all :: "ClearChargingProfileStatusEnumType list" where
  "ClearChargingProfileStatusEnumType_all = [ClearChargingProfileStatusEnumType.Accepted,
     ClearChargingProfileStatusEnumType.Unknown]"

definition ClearChargingProfileStatusEnumType_of_wire :: "string \<Rightarrow> ClearChargingProfileStatusEnumType option" where
  "ClearChargingProfileStatusEnumType_of_wire = decode_by ClearChargingProfileStatusEnumType_all ClearChargingProfileStatusEnumType_wire"

interpretation ClearChargingProfileStatusEnumType_codec: wire_codec ClearChargingProfileStatusEnumType_wire ClearChargingProfileStatusEnumType_of_wire
  unfolding ClearChargingProfileStatusEnumType_of_wire_def
proof (rule wire_codec_distinct)
  show "x \<in> set ClearChargingProfileStatusEnumType_all" for x by (cases x) (simp_all add: ClearChargingProfileStatusEnumType_all_def)
  show "distinct (map ClearChargingProfileStatusEnumType_wire ClearChargingProfileStatusEnumType_all)" by (simp add: ClearChargingProfileStatusEnumType_all_def)
qed

datatype UpdateFirmwareStatusEnumType =
    Accepted
  | Rejected
  | AcceptedCanceled
  | InvalidCertificate
  | RevokedCertificate

primrec UpdateFirmwareStatusEnumType_wire :: "UpdateFirmwareStatusEnumType \<Rightarrow> string" where
  "UpdateFirmwareStatusEnumType_wire UpdateFirmwareStatusEnumType.Accepted = ''Accepted''"
| "UpdateFirmwareStatusEnumType_wire UpdateFirmwareStatusEnumType.Rejected = ''Rejected''"
| "UpdateFirmwareStatusEnumType_wire UpdateFirmwareStatusEnumType.AcceptedCanceled = ''AcceptedCanceled''"
| "UpdateFirmwareStatusEnumType_wire UpdateFirmwareStatusEnumType.InvalidCertificate = ''InvalidCertificate''"
| "UpdateFirmwareStatusEnumType_wire UpdateFirmwareStatusEnumType.RevokedCertificate = ''RevokedCertificate''"

definition UpdateFirmwareStatusEnumType_all :: "UpdateFirmwareStatusEnumType list" where
  "UpdateFirmwareStatusEnumType_all = [UpdateFirmwareStatusEnumType.Accepted, UpdateFirmwareStatusEnumType.Rejected,
     UpdateFirmwareStatusEnumType.AcceptedCanceled,
     UpdateFirmwareStatusEnumType.InvalidCertificate,
     UpdateFirmwareStatusEnumType.RevokedCertificate]"

definition UpdateFirmwareStatusEnumType_of_wire :: "string \<Rightarrow> UpdateFirmwareStatusEnumType option" where
  "UpdateFirmwareStatusEnumType_of_wire = decode_by UpdateFirmwareStatusEnumType_all UpdateFirmwareStatusEnumType_wire"

interpretation UpdateFirmwareStatusEnumType_codec: wire_codec UpdateFirmwareStatusEnumType_wire UpdateFirmwareStatusEnumType_of_wire
  unfolding UpdateFirmwareStatusEnumType_of_wire_def
proof (rule wire_codec_distinct)
  show "x \<in> set UpdateFirmwareStatusEnumType_all" for x by (cases x) (simp_all add: UpdateFirmwareStatusEnumType_all_def)
  show "distinct (map UpdateFirmwareStatusEnumType_wire UpdateFirmwareStatusEnumType_all)" by (simp add: UpdateFirmwareStatusEnumType_all_def)
qed

datatype CertificateSigningUseEnumType =
    ChargingStationCertificate
  | V2GCertificate

primrec CertificateSigningUseEnumType_wire :: "CertificateSigningUseEnumType \<Rightarrow> string" where
  "CertificateSigningUseEnumType_wire CertificateSigningUseEnumType.ChargingStationCertificate = ''ChargingStationCertificate''"
| "CertificateSigningUseEnumType_wire CertificateSigningUseEnumType.V2GCertificate = ''V2GCertificate''"

definition CertificateSigningUseEnumType_all :: "CertificateSigningUseEnumType list" where
  "CertificateSigningUseEnumType_all = [CertificateSigningUseEnumType.ChargingStationCertificate,
     CertificateSigningUseEnumType.V2GCertificate]"

definition CertificateSigningUseEnumType_of_wire :: "string \<Rightarrow> CertificateSigningUseEnumType option" where
  "CertificateSigningUseEnumType_of_wire = decode_by CertificateSigningUseEnumType_all CertificateSigningUseEnumType_wire"

interpretation CertificateSigningUseEnumType_codec: wire_codec CertificateSigningUseEnumType_wire CertificateSigningUseEnumType_of_wire
  unfolding CertificateSigningUseEnumType_of_wire_def
proof (rule wire_codec_distinct)
  show "x \<in> set CertificateSigningUseEnumType_all" for x by (cases x) (simp_all add: CertificateSigningUseEnumType_all_def)
  show "distinct (map CertificateSigningUseEnumType_wire CertificateSigningUseEnumType_all)" by (simp add: CertificateSigningUseEnumType_all_def)
qed

datatype ClearMessageStatusEnumType =
    Accepted
  | Unknown

primrec ClearMessageStatusEnumType_wire :: "ClearMessageStatusEnumType \<Rightarrow> string" where
  "ClearMessageStatusEnumType_wire ClearMessageStatusEnumType.Accepted = ''Accepted''"
| "ClearMessageStatusEnumType_wire ClearMessageStatusEnumType.Unknown = ''Unknown''"

definition ClearMessageStatusEnumType_all :: "ClearMessageStatusEnumType list" where
  "ClearMessageStatusEnumType_all = [ClearMessageStatusEnumType.Accepted, ClearMessageStatusEnumType.Unknown]"

definition ClearMessageStatusEnumType_of_wire :: "string \<Rightarrow> ClearMessageStatusEnumType option" where
  "ClearMessageStatusEnumType_of_wire = decode_by ClearMessageStatusEnumType_all ClearMessageStatusEnumType_wire"

interpretation ClearMessageStatusEnumType_codec: wire_codec ClearMessageStatusEnumType_wire ClearMessageStatusEnumType_of_wire
  unfolding ClearMessageStatusEnumType_of_wire_def
proof (rule wire_codec_distinct)
  show "x \<in> set ClearMessageStatusEnumType_all" for x by (cases x) (simp_all add: ClearMessageStatusEnumType_all_def)
  show "distinct (map ClearMessageStatusEnumType_wire ClearMessageStatusEnumType_all)" by (simp add: ClearMessageStatusEnumType_all_def)
qed

datatype MessagePriorityEnumType =
    AlwaysFront
  | InFront
  | NormalCycle

primrec MessagePriorityEnumType_wire :: "MessagePriorityEnumType \<Rightarrow> string" where
  "MessagePriorityEnumType_wire MessagePriorityEnumType.AlwaysFront = ''AlwaysFront''"
| "MessagePriorityEnumType_wire MessagePriorityEnumType.InFront = ''InFront''"
| "MessagePriorityEnumType_wire MessagePriorityEnumType.NormalCycle = ''NormalCycle''"

definition MessagePriorityEnumType_all :: "MessagePriorityEnumType list" where
  "MessagePriorityEnumType_all = [MessagePriorityEnumType.AlwaysFront, MessagePriorityEnumType.InFront,
     MessagePriorityEnumType.NormalCycle]"

definition MessagePriorityEnumType_of_wire :: "string \<Rightarrow> MessagePriorityEnumType option" where
  "MessagePriorityEnumType_of_wire = decode_by MessagePriorityEnumType_all MessagePriorityEnumType_wire"

interpretation MessagePriorityEnumType_codec: wire_codec MessagePriorityEnumType_wire MessagePriorityEnumType_of_wire
  unfolding MessagePriorityEnumType_of_wire_def
proof (rule wire_codec_distinct)
  show "x \<in> set MessagePriorityEnumType_all" for x by (cases x) (simp_all add: MessagePriorityEnumType_all_def)
  show "distinct (map MessagePriorityEnumType_wire MessagePriorityEnumType_all)" by (simp add: MessagePriorityEnumType_all_def)
qed

datatype MessageStateEnumType =
    Charging
  | Faulted
  | Idle
  | Unavailable

primrec MessageStateEnumType_wire :: "MessageStateEnumType \<Rightarrow> string" where
  "MessageStateEnumType_wire MessageStateEnumType.Charging = ''Charging''"
| "MessageStateEnumType_wire MessageStateEnumType.Faulted = ''Faulted''"
| "MessageStateEnumType_wire MessageStateEnumType.Idle = ''Idle''"
| "MessageStateEnumType_wire MessageStateEnumType.Unavailable = ''Unavailable''"

definition MessageStateEnumType_all :: "MessageStateEnumType list" where
  "MessageStateEnumType_all = [MessageStateEnumType.Charging, MessageStateEnumType.Faulted,
     MessageStateEnumType.Idle, MessageStateEnumType.Unavailable]"

definition MessageStateEnumType_of_wire :: "string \<Rightarrow> MessageStateEnumType option" where
  "MessageStateEnumType_of_wire = decode_by MessageStateEnumType_all MessageStateEnumType_wire"

interpretation MessageStateEnumType_codec: wire_codec MessageStateEnumType_wire MessageStateEnumType_of_wire
  unfolding MessageStateEnumType_of_wire_def
proof (rule wire_codec_distinct)
  show "x \<in> set MessageStateEnumType_all" for x by (cases x) (simp_all add: MessageStateEnumType_all_def)
  show "distinct (map MessageStateEnumType_wire MessageStateEnumType_all)" by (simp add: MessageStateEnumType_all_def)
qed

datatype DisplayMessageStatusEnumType =
    Accepted
  | NotSupportedMessageFormat
  | Rejected
  | NotSupportedPriority
  | NotSupportedState
  | UnknownTransaction

primrec DisplayMessageStatusEnumType_wire :: "DisplayMessageStatusEnumType \<Rightarrow> string" where
  "DisplayMessageStatusEnumType_wire DisplayMessageStatusEnumType.Accepted = ''Accepted''"
| "DisplayMessageStatusEnumType_wire DisplayMessageStatusEnumType.NotSupportedMessageFormat = ''NotSupportedMessageFormat''"
| "DisplayMessageStatusEnumType_wire DisplayMessageStatusEnumType.Rejected = ''Rejected''"
| "DisplayMessageStatusEnumType_wire DisplayMessageStatusEnumType.NotSupportedPriority = ''NotSupportedPriority''"
| "DisplayMessageStatusEnumType_wire DisplayMessageStatusEnumType.NotSupportedState = ''NotSupportedState''"
| "DisplayMessageStatusEnumType_wire DisplayMessageStatusEnumType.UnknownTransaction = ''UnknownTransaction''"

definition DisplayMessageStatusEnumType_all :: "DisplayMessageStatusEnumType list" where
  "DisplayMessageStatusEnumType_all = [DisplayMessageStatusEnumType.Accepted,
     DisplayMessageStatusEnumType.NotSupportedMessageFormat,
     DisplayMessageStatusEnumType.Rejected,
     DisplayMessageStatusEnumType.NotSupportedPriority,
     DisplayMessageStatusEnumType.NotSupportedState,
     DisplayMessageStatusEnumType.UnknownTransaction]"

definition DisplayMessageStatusEnumType_of_wire :: "string \<Rightarrow> DisplayMessageStatusEnumType option" where
  "DisplayMessageStatusEnumType_of_wire = decode_by DisplayMessageStatusEnumType_all DisplayMessageStatusEnumType_wire"

interpretation DisplayMessageStatusEnumType_codec: wire_codec DisplayMessageStatusEnumType_wire DisplayMessageStatusEnumType_of_wire
  unfolding DisplayMessageStatusEnumType_of_wire_def
proof (rule wire_codec_distinct)
  show "x \<in> set DisplayMessageStatusEnumType_all" for x by (cases x) (simp_all add: DisplayMessageStatusEnumType_all_def)
  show "distinct (map DisplayMessageStatusEnumType_wire DisplayMessageStatusEnumType_all)" by (simp add: DisplayMessageStatusEnumType_all_def)
qed

datatype GetDisplayMessagesStatusEnumType =
    Accepted
  | Unknown

primrec GetDisplayMessagesStatusEnumType_wire :: "GetDisplayMessagesStatusEnumType \<Rightarrow> string" where
  "GetDisplayMessagesStatusEnumType_wire GetDisplayMessagesStatusEnumType.Accepted = ''Accepted''"
| "GetDisplayMessagesStatusEnumType_wire GetDisplayMessagesStatusEnumType.Unknown = ''Unknown''"

definition GetDisplayMessagesStatusEnumType_all :: "GetDisplayMessagesStatusEnumType list" where
  "GetDisplayMessagesStatusEnumType_all = [GetDisplayMessagesStatusEnumType.Accepted, GetDisplayMessagesStatusEnumType.Unknown]"

definition GetDisplayMessagesStatusEnumType_of_wire :: "string \<Rightarrow> GetDisplayMessagesStatusEnumType option" where
  "GetDisplayMessagesStatusEnumType_of_wire = decode_by GetDisplayMessagesStatusEnumType_all GetDisplayMessagesStatusEnumType_wire"

interpretation GetDisplayMessagesStatusEnumType_codec: wire_codec GetDisplayMessagesStatusEnumType_wire GetDisplayMessagesStatusEnumType_of_wire
  unfolding GetDisplayMessagesStatusEnumType_of_wire_def
proof (rule wire_codec_distinct)
  show "x \<in> set GetDisplayMessagesStatusEnumType_all" for x by (cases x) (simp_all add: GetDisplayMessagesStatusEnumType_all_def)
  show "distinct (map GetDisplayMessagesStatusEnumType_wire GetDisplayMessagesStatusEnumType_all)" by (simp add: GetDisplayMessagesStatusEnumType_all_def)
qed

datatype CertificateSignedStatusEnumType =
    Accepted
  | Rejected

primrec CertificateSignedStatusEnumType_wire :: "CertificateSignedStatusEnumType \<Rightarrow> string" where
  "CertificateSignedStatusEnumType_wire CertificateSignedStatusEnumType.Accepted = ''Accepted''"
| "CertificateSignedStatusEnumType_wire CertificateSignedStatusEnumType.Rejected = ''Rejected''"

definition CertificateSignedStatusEnumType_all :: "CertificateSignedStatusEnumType list" where
  "CertificateSignedStatusEnumType_all = [CertificateSignedStatusEnumType.Accepted, CertificateSignedStatusEnumType.Rejected]"

definition CertificateSignedStatusEnumType_of_wire :: "string \<Rightarrow> CertificateSignedStatusEnumType option" where
  "CertificateSignedStatusEnumType_of_wire = decode_by CertificateSignedStatusEnumType_all CertificateSignedStatusEnumType_wire"

interpretation CertificateSignedStatusEnumType_codec: wire_codec CertificateSignedStatusEnumType_wire CertificateSignedStatusEnumType_of_wire
  unfolding CertificateSignedStatusEnumType_of_wire_def
proof (rule wire_codec_distinct)
  show "x \<in> set CertificateSignedStatusEnumType_all" for x by (cases x) (simp_all add: CertificateSignedStatusEnumType_all_def)
  show "distinct (map CertificateSignedStatusEnumType_wire CertificateSignedStatusEnumType_all)" by (simp add: CertificateSignedStatusEnumType_all_def)
qed

datatype InstallCertificateUseEnumType =
    V2GRootCertificate
  | MORootCertificate
  | CSMSRootCertificate
  | ManufacturerRootCertificate

primrec InstallCertificateUseEnumType_wire :: "InstallCertificateUseEnumType \<Rightarrow> string" where
  "InstallCertificateUseEnumType_wire InstallCertificateUseEnumType.V2GRootCertificate = ''V2GRootCertificate''"
| "InstallCertificateUseEnumType_wire InstallCertificateUseEnumType.MORootCertificate = ''MORootCertificate''"
| "InstallCertificateUseEnumType_wire InstallCertificateUseEnumType.CSMSRootCertificate = ''CSMSRootCertificate''"
| "InstallCertificateUseEnumType_wire InstallCertificateUseEnumType.ManufacturerRootCertificate = ''ManufacturerRootCertificate''"

definition InstallCertificateUseEnumType_all :: "InstallCertificateUseEnumType list" where
  "InstallCertificateUseEnumType_all = [InstallCertificateUseEnumType.V2GRootCertificate,
     InstallCertificateUseEnumType.MORootCertificate,
     InstallCertificateUseEnumType.CSMSRootCertificate,
     InstallCertificateUseEnumType.ManufacturerRootCertificate]"

definition InstallCertificateUseEnumType_of_wire :: "string \<Rightarrow> InstallCertificateUseEnumType option" where
  "InstallCertificateUseEnumType_of_wire = decode_by InstallCertificateUseEnumType_all InstallCertificateUseEnumType_wire"

interpretation InstallCertificateUseEnumType_codec: wire_codec InstallCertificateUseEnumType_wire InstallCertificateUseEnumType_of_wire
  unfolding InstallCertificateUseEnumType_of_wire_def
proof (rule wire_codec_distinct)
  show "x \<in> set InstallCertificateUseEnumType_all" for x by (cases x) (simp_all add: InstallCertificateUseEnumType_all_def)
  show "distinct (map InstallCertificateUseEnumType_wire InstallCertificateUseEnumType_all)" by (simp add: InstallCertificateUseEnumType_all_def)
qed

datatype InstallCertificateStatusEnumType =
    Accepted
  | Rejected
  | Failed

primrec InstallCertificateStatusEnumType_wire :: "InstallCertificateStatusEnumType \<Rightarrow> string" where
  "InstallCertificateStatusEnumType_wire InstallCertificateStatusEnumType.Accepted = ''Accepted''"
| "InstallCertificateStatusEnumType_wire InstallCertificateStatusEnumType.Rejected = ''Rejected''"
| "InstallCertificateStatusEnumType_wire InstallCertificateStatusEnumType.Failed = ''Failed''"

definition InstallCertificateStatusEnumType_all :: "InstallCertificateStatusEnumType list" where
  "InstallCertificateStatusEnumType_all = [InstallCertificateStatusEnumType.Accepted, InstallCertificateStatusEnumType.Rejected,
     InstallCertificateStatusEnumType.Failed]"

definition InstallCertificateStatusEnumType_of_wire :: "string \<Rightarrow> InstallCertificateStatusEnumType option" where
  "InstallCertificateStatusEnumType_of_wire = decode_by InstallCertificateStatusEnumType_all InstallCertificateStatusEnumType_wire"

interpretation InstallCertificateStatusEnumType_codec: wire_codec InstallCertificateStatusEnumType_wire InstallCertificateStatusEnumType_of_wire
  unfolding InstallCertificateStatusEnumType_of_wire_def
proof (rule wire_codec_distinct)
  show "x \<in> set InstallCertificateStatusEnumType_all" for x by (cases x) (simp_all add: InstallCertificateStatusEnumType_all_def)
  show "distinct (map InstallCertificateStatusEnumType_wire InstallCertificateStatusEnumType_all)" by (simp add: InstallCertificateStatusEnumType_all_def)
qed

datatype DeleteCertificateStatusEnumType =
    Accepted
  | Failed
  | NotFound

primrec DeleteCertificateStatusEnumType_wire :: "DeleteCertificateStatusEnumType \<Rightarrow> string" where
  "DeleteCertificateStatusEnumType_wire DeleteCertificateStatusEnumType.Accepted = ''Accepted''"
| "DeleteCertificateStatusEnumType_wire DeleteCertificateStatusEnumType.Failed = ''Failed''"
| "DeleteCertificateStatusEnumType_wire DeleteCertificateStatusEnumType.NotFound = ''NotFound''"

definition DeleteCertificateStatusEnumType_all :: "DeleteCertificateStatusEnumType list" where
  "DeleteCertificateStatusEnumType_all = [DeleteCertificateStatusEnumType.Accepted, DeleteCertificateStatusEnumType.Failed,
     DeleteCertificateStatusEnumType.NotFound]"

definition DeleteCertificateStatusEnumType_of_wire :: "string \<Rightarrow> DeleteCertificateStatusEnumType option" where
  "DeleteCertificateStatusEnumType_of_wire = decode_by DeleteCertificateStatusEnumType_all DeleteCertificateStatusEnumType_wire"

interpretation DeleteCertificateStatusEnumType_codec: wire_codec DeleteCertificateStatusEnumType_wire DeleteCertificateStatusEnumType_of_wire
  unfolding DeleteCertificateStatusEnumType_of_wire_def
proof (rule wire_codec_distinct)
  show "x \<in> set DeleteCertificateStatusEnumType_all" for x by (cases x) (simp_all add: DeleteCertificateStatusEnumType_all_def)
  show "distinct (map DeleteCertificateStatusEnumType_wire DeleteCertificateStatusEnumType_all)" by (simp add: DeleteCertificateStatusEnumType_all_def)
qed

datatype GetCertificateIdUseEnumType =
    V2GRootCertificate
  | MORootCertificate
  | CSMSRootCertificate
  | V2GCertificateChain
  | ManufacturerRootCertificate

primrec GetCertificateIdUseEnumType_wire :: "GetCertificateIdUseEnumType \<Rightarrow> string" where
  "GetCertificateIdUseEnumType_wire GetCertificateIdUseEnumType.V2GRootCertificate = ''V2GRootCertificate''"
| "GetCertificateIdUseEnumType_wire GetCertificateIdUseEnumType.MORootCertificate = ''MORootCertificate''"
| "GetCertificateIdUseEnumType_wire GetCertificateIdUseEnumType.CSMSRootCertificate = ''CSMSRootCertificate''"
| "GetCertificateIdUseEnumType_wire GetCertificateIdUseEnumType.V2GCertificateChain = ''V2GCertificateChain''"
| "GetCertificateIdUseEnumType_wire GetCertificateIdUseEnumType.ManufacturerRootCertificate = ''ManufacturerRootCertificate''"

definition GetCertificateIdUseEnumType_all :: "GetCertificateIdUseEnumType list" where
  "GetCertificateIdUseEnumType_all = [GetCertificateIdUseEnumType.V2GRootCertificate,
     GetCertificateIdUseEnumType.MORootCertificate,
     GetCertificateIdUseEnumType.CSMSRootCertificate,
     GetCertificateIdUseEnumType.V2GCertificateChain,
     GetCertificateIdUseEnumType.ManufacturerRootCertificate]"

definition GetCertificateIdUseEnumType_of_wire :: "string \<Rightarrow> GetCertificateIdUseEnumType option" where
  "GetCertificateIdUseEnumType_of_wire = decode_by GetCertificateIdUseEnumType_all GetCertificateIdUseEnumType_wire"

interpretation GetCertificateIdUseEnumType_codec: wire_codec GetCertificateIdUseEnumType_wire GetCertificateIdUseEnumType_of_wire
  unfolding GetCertificateIdUseEnumType_of_wire_def
proof (rule wire_codec_distinct)
  show "x \<in> set GetCertificateIdUseEnumType_all" for x by (cases x) (simp_all add: GetCertificateIdUseEnumType_all_def)
  show "distinct (map GetCertificateIdUseEnumType_wire GetCertificateIdUseEnumType_all)" by (simp add: GetCertificateIdUseEnumType_all_def)
qed

datatype GetInstalledCertificateStatusEnumType =
    Accepted
  | NotFound

primrec GetInstalledCertificateStatusEnumType_wire :: "GetInstalledCertificateStatusEnumType \<Rightarrow> string" where
  "GetInstalledCertificateStatusEnumType_wire GetInstalledCertificateStatusEnumType.Accepted = ''Accepted''"
| "GetInstalledCertificateStatusEnumType_wire GetInstalledCertificateStatusEnumType.NotFound = ''NotFound''"

definition GetInstalledCertificateStatusEnumType_all :: "GetInstalledCertificateStatusEnumType list" where
  "GetInstalledCertificateStatusEnumType_all = [GetInstalledCertificateStatusEnumType.Accepted,
     GetInstalledCertificateStatusEnumType.NotFound]"

definition GetInstalledCertificateStatusEnumType_of_wire :: "string \<Rightarrow> GetInstalledCertificateStatusEnumType option" where
  "GetInstalledCertificateStatusEnumType_of_wire = decode_by GetInstalledCertificateStatusEnumType_all GetInstalledCertificateStatusEnumType_wire"

interpretation GetInstalledCertificateStatusEnumType_codec: wire_codec GetInstalledCertificateStatusEnumType_wire GetInstalledCertificateStatusEnumType_of_wire
  unfolding GetInstalledCertificateStatusEnumType_of_wire_def
proof (rule wire_codec_distinct)
  show "x \<in> set GetInstalledCertificateStatusEnumType_all" for x by (cases x) (simp_all add: GetInstalledCertificateStatusEnumType_all_def)
  show "distinct (map GetInstalledCertificateStatusEnumType_wire GetInstalledCertificateStatusEnumType_all)" by (simp add: GetInstalledCertificateStatusEnumType_all_def)
qed

datatype GetCertificateStatusEnumType =
    Accepted
  | Failed

primrec GetCertificateStatusEnumType_wire :: "GetCertificateStatusEnumType \<Rightarrow> string" where
  "GetCertificateStatusEnumType_wire GetCertificateStatusEnumType.Accepted = ''Accepted''"
| "GetCertificateStatusEnumType_wire GetCertificateStatusEnumType.Failed = ''Failed''"

definition GetCertificateStatusEnumType_all :: "GetCertificateStatusEnumType list" where
  "GetCertificateStatusEnumType_all = [GetCertificateStatusEnumType.Accepted, GetCertificateStatusEnumType.Failed]"

definition GetCertificateStatusEnumType_of_wire :: "string \<Rightarrow> GetCertificateStatusEnumType option" where
  "GetCertificateStatusEnumType_of_wire = decode_by GetCertificateStatusEnumType_all GetCertificateStatusEnumType_wire"

interpretation GetCertificateStatusEnumType_codec: wire_codec GetCertificateStatusEnumType_wire GetCertificateStatusEnumType_of_wire
  unfolding GetCertificateStatusEnumType_of_wire_def
proof (rule wire_codec_distinct)
  show "x \<in> set GetCertificateStatusEnumType_all" for x by (cases x) (simp_all add: GetCertificateStatusEnumType_all_def)
  show "distinct (map GetCertificateStatusEnumType_wire GetCertificateStatusEnumType_all)" by (simp add: GetCertificateStatusEnumType_all_def)
qed

datatype CertificateActionEnumType =
    Install
  | Update

primrec CertificateActionEnumType_wire :: "CertificateActionEnumType \<Rightarrow> string" where
  "CertificateActionEnumType_wire CertificateActionEnumType.Install = ''Install''"
| "CertificateActionEnumType_wire CertificateActionEnumType.Update = ''Update''"

definition CertificateActionEnumType_all :: "CertificateActionEnumType list" where
  "CertificateActionEnumType_all = [CertificateActionEnumType.Install, CertificateActionEnumType.Update]"

definition CertificateActionEnumType_of_wire :: "string \<Rightarrow> CertificateActionEnumType option" where
  "CertificateActionEnumType_of_wire = decode_by CertificateActionEnumType_all CertificateActionEnumType_wire"

interpretation CertificateActionEnumType_codec: wire_codec CertificateActionEnumType_wire CertificateActionEnumType_of_wire
  unfolding CertificateActionEnumType_of_wire_def
proof (rule wire_codec_distinct)
  show "x \<in> set CertificateActionEnumType_all" for x by (cases x) (simp_all add: CertificateActionEnumType_all_def)
  show "distinct (map CertificateActionEnumType_wire CertificateActionEnumType_all)" by (simp add: CertificateActionEnumType_all_def)
qed

datatype Iso15118EVCertificateStatusEnumType =
    Accepted
  | Failed

primrec Iso15118EVCertificateStatusEnumType_wire :: "Iso15118EVCertificateStatusEnumType \<Rightarrow> string" where
  "Iso15118EVCertificateStatusEnumType_wire Iso15118EVCertificateStatusEnumType.Accepted = ''Accepted''"
| "Iso15118EVCertificateStatusEnumType_wire Iso15118EVCertificateStatusEnumType.Failed = ''Failed''"

definition Iso15118EVCertificateStatusEnumType_all :: "Iso15118EVCertificateStatusEnumType list" where
  "Iso15118EVCertificateStatusEnumType_all = [Iso15118EVCertificateStatusEnumType.Accepted,
     Iso15118EVCertificateStatusEnumType.Failed]"

definition Iso15118EVCertificateStatusEnumType_of_wire :: "string \<Rightarrow> Iso15118EVCertificateStatusEnumType option" where
  "Iso15118EVCertificateStatusEnumType_of_wire = decode_by Iso15118EVCertificateStatusEnumType_all Iso15118EVCertificateStatusEnumType_wire"

interpretation Iso15118EVCertificateStatusEnumType_codec: wire_codec Iso15118EVCertificateStatusEnumType_wire Iso15118EVCertificateStatusEnumType_of_wire
  unfolding Iso15118EVCertificateStatusEnumType_of_wire_def
proof (rule wire_codec_distinct)
  show "x \<in> set Iso15118EVCertificateStatusEnumType_all" for x by (cases x) (simp_all add: Iso15118EVCertificateStatusEnumType_all_def)
  show "distinct (map Iso15118EVCertificateStatusEnumType_wire Iso15118EVCertificateStatusEnumType_all)" by (simp add: Iso15118EVCertificateStatusEnumType_all_def)
qed

datatype LogEnumType =
    DiagnosticsLog
  | SecurityLog

primrec LogEnumType_wire :: "LogEnumType \<Rightarrow> string" where
  "LogEnumType_wire LogEnumType.DiagnosticsLog = ''DiagnosticsLog''"
| "LogEnumType_wire LogEnumType.SecurityLog = ''SecurityLog''"

definition LogEnumType_all :: "LogEnumType list" where
  "LogEnumType_all = [LogEnumType.DiagnosticsLog, LogEnumType.SecurityLog]"

definition LogEnumType_of_wire :: "string \<Rightarrow> LogEnumType option" where
  "LogEnumType_of_wire = decode_by LogEnumType_all LogEnumType_wire"

interpretation LogEnumType_codec: wire_codec LogEnumType_wire LogEnumType_of_wire
  unfolding LogEnumType_of_wire_def
proof (rule wire_codec_distinct)
  show "x \<in> set LogEnumType_all" for x by (cases x) (simp_all add: LogEnumType_all_def)
  show "distinct (map LogEnumType_wire LogEnumType_all)" by (simp add: LogEnumType_all_def)
qed

datatype LogStatusEnumType =
    Accepted
  | Rejected
  | AcceptedCanceled

primrec LogStatusEnumType_wire :: "LogStatusEnumType \<Rightarrow> string" where
  "LogStatusEnumType_wire LogStatusEnumType.Accepted = ''Accepted''"
| "LogStatusEnumType_wire LogStatusEnumType.Rejected = ''Rejected''"
| "LogStatusEnumType_wire LogStatusEnumType.AcceptedCanceled = ''AcceptedCanceled''"

definition LogStatusEnumType_all :: "LogStatusEnumType list" where
  "LogStatusEnumType_all = [LogStatusEnumType.Accepted, LogStatusEnumType.Rejected,
     LogStatusEnumType.AcceptedCanceled]"

definition LogStatusEnumType_of_wire :: "string \<Rightarrow> LogStatusEnumType option" where
  "LogStatusEnumType_of_wire = decode_by LogStatusEnumType_all LogStatusEnumType_wire"

interpretation LogStatusEnumType_codec: wire_codec LogStatusEnumType_wire LogStatusEnumType_of_wire
  unfolding LogStatusEnumType_of_wire_def
proof (rule wire_codec_distinct)
  show "x \<in> set LogStatusEnumType_all" for x by (cases x) (simp_all add: LogStatusEnumType_all_def)
  show "distinct (map LogStatusEnumType_wire LogStatusEnumType_all)" by (simp add: LogStatusEnumType_all_def)
qed

datatype GetChargingProfileStatusEnumType =
    Accepted
  | NoProfiles

primrec GetChargingProfileStatusEnumType_wire :: "GetChargingProfileStatusEnumType \<Rightarrow> string" where
  "GetChargingProfileStatusEnumType_wire GetChargingProfileStatusEnumType.Accepted = ''Accepted''"
| "GetChargingProfileStatusEnumType_wire GetChargingProfileStatusEnumType.NoProfiles = ''NoProfiles''"

definition GetChargingProfileStatusEnumType_all :: "GetChargingProfileStatusEnumType list" where
  "GetChargingProfileStatusEnumType_all = [GetChargingProfileStatusEnumType.Accepted, GetChargingProfileStatusEnumType.NoProfiles]"

definition GetChargingProfileStatusEnumType_of_wire :: "string \<Rightarrow> GetChargingProfileStatusEnumType option" where
  "GetChargingProfileStatusEnumType_of_wire = decode_by GetChargingProfileStatusEnumType_all GetChargingProfileStatusEnumType_wire"

interpretation GetChargingProfileStatusEnumType_codec: wire_codec GetChargingProfileStatusEnumType_wire GetChargingProfileStatusEnumType_of_wire
  unfolding GetChargingProfileStatusEnumType_of_wire_def
proof (rule wire_codec_distinct)
  show "x \<in> set GetChargingProfileStatusEnumType_all" for x by (cases x) (simp_all add: GetChargingProfileStatusEnumType_all_def)
  show "distinct (map GetChargingProfileStatusEnumType_wire GetChargingProfileStatusEnumType_all)" by (simp add: GetChargingProfileStatusEnumType_all_def)
qed

datatype CustomerInformationStatusEnumType =
    Accepted
  | Rejected
  | Invalid

primrec CustomerInformationStatusEnumType_wire :: "CustomerInformationStatusEnumType \<Rightarrow> string" where
  "CustomerInformationStatusEnumType_wire CustomerInformationStatusEnumType.Accepted = ''Accepted''"
| "CustomerInformationStatusEnumType_wire CustomerInformationStatusEnumType.Rejected = ''Rejected''"
| "CustomerInformationStatusEnumType_wire CustomerInformationStatusEnumType.Invalid = ''Invalid''"

definition CustomerInformationStatusEnumType_all :: "CustomerInformationStatusEnumType list" where
  "CustomerInformationStatusEnumType_all = [CustomerInformationStatusEnumType.Accepted,
     CustomerInformationStatusEnumType.Rejected,
     CustomerInformationStatusEnumType.Invalid]"

definition CustomerInformationStatusEnumType_of_wire :: "string \<Rightarrow> CustomerInformationStatusEnumType option" where
  "CustomerInformationStatusEnumType_of_wire = decode_by CustomerInformationStatusEnumType_all CustomerInformationStatusEnumType_wire"

interpretation CustomerInformationStatusEnumType_codec: wire_codec CustomerInformationStatusEnumType_wire CustomerInformationStatusEnumType_of_wire
  unfolding CustomerInformationStatusEnumType_of_wire_def
proof (rule wire_codec_distinct)
  show "x \<in> set CustomerInformationStatusEnumType_all" for x by (cases x) (simp_all add: CustomerInformationStatusEnumType_all_def)
  show "distinct (map CustomerInformationStatusEnumType_wire CustomerInformationStatusEnumType_all)" by (simp add: CustomerInformationStatusEnumType_all_def)
qed

datatype EnergyTransferModeEnumType =
    Dc
  | AcSinglePhase
  | AcTwoPhase
  | AcThreePhase

primrec EnergyTransferModeEnumType_wire :: "EnergyTransferModeEnumType \<Rightarrow> string" where
  "EnergyTransferModeEnumType_wire EnergyTransferModeEnumType.Dc = ''DC''"
| "EnergyTransferModeEnumType_wire EnergyTransferModeEnumType.AcSinglePhase = ''AC_single_phase''"
| "EnergyTransferModeEnumType_wire EnergyTransferModeEnumType.AcTwoPhase = ''AC_two_phase''"
| "EnergyTransferModeEnumType_wire EnergyTransferModeEnumType.AcThreePhase = ''AC_three_phase''"

definition EnergyTransferModeEnumType_all :: "EnergyTransferModeEnumType list" where
  "EnergyTransferModeEnumType_all = [EnergyTransferModeEnumType.Dc, EnergyTransferModeEnumType.AcSinglePhase,
     EnergyTransferModeEnumType.AcTwoPhase, EnergyTransferModeEnumType.AcThreePhase]"

definition EnergyTransferModeEnumType_of_wire :: "string \<Rightarrow> EnergyTransferModeEnumType option" where
  "EnergyTransferModeEnumType_of_wire = decode_by EnergyTransferModeEnumType_all EnergyTransferModeEnumType_wire"

interpretation EnergyTransferModeEnumType_codec: wire_codec EnergyTransferModeEnumType_wire EnergyTransferModeEnumType_of_wire
  unfolding EnergyTransferModeEnumType_of_wire_def
proof (rule wire_codec_distinct)
  show "x \<in> set EnergyTransferModeEnumType_all" for x by (cases x) (simp_all add: EnergyTransferModeEnumType_all_def)
  show "distinct (map EnergyTransferModeEnumType_wire EnergyTransferModeEnumType_all)" by (simp add: EnergyTransferModeEnumType_all_def)
qed

datatype NotifyEVChargingNeedsStatusEnumType =
    Accepted
  | Rejected
  | Processing

primrec NotifyEVChargingNeedsStatusEnumType_wire :: "NotifyEVChargingNeedsStatusEnumType \<Rightarrow> string" where
  "NotifyEVChargingNeedsStatusEnumType_wire NotifyEVChargingNeedsStatusEnumType.Accepted = ''Accepted''"
| "NotifyEVChargingNeedsStatusEnumType_wire NotifyEVChargingNeedsStatusEnumType.Rejected = ''Rejected''"
| "NotifyEVChargingNeedsStatusEnumType_wire NotifyEVChargingNeedsStatusEnumType.Processing = ''Processing''"

definition NotifyEVChargingNeedsStatusEnumType_all :: "NotifyEVChargingNeedsStatusEnumType list" where
  "NotifyEVChargingNeedsStatusEnumType_all = [NotifyEVChargingNeedsStatusEnumType.Accepted,
     NotifyEVChargingNeedsStatusEnumType.Rejected,
     NotifyEVChargingNeedsStatusEnumType.Processing]"

definition NotifyEVChargingNeedsStatusEnumType_of_wire :: "string \<Rightarrow> NotifyEVChargingNeedsStatusEnumType option" where
  "NotifyEVChargingNeedsStatusEnumType_of_wire = decode_by NotifyEVChargingNeedsStatusEnumType_all NotifyEVChargingNeedsStatusEnumType_wire"

interpretation NotifyEVChargingNeedsStatusEnumType_codec: wire_codec NotifyEVChargingNeedsStatusEnumType_wire NotifyEVChargingNeedsStatusEnumType_of_wire
  unfolding NotifyEVChargingNeedsStatusEnumType_of_wire_def
proof (rule wire_codec_distinct)
  show "x \<in> set NotifyEVChargingNeedsStatusEnumType_all" for x by (cases x) (simp_all add: NotifyEVChargingNeedsStatusEnumType_all_def)
  show "distinct (map NotifyEVChargingNeedsStatusEnumType_wire NotifyEVChargingNeedsStatusEnumType_all)" by (simp add: NotifyEVChargingNeedsStatusEnumType_all_def)
qed

datatype OCPPVersionEnumType =
    Ocpp12
  | Ocpp15
  | Ocpp16
  | Ocpp20

primrec OCPPVersionEnumType_wire :: "OCPPVersionEnumType \<Rightarrow> string" where
  "OCPPVersionEnumType_wire OCPPVersionEnumType.Ocpp12 = ''OCPP12''"
| "OCPPVersionEnumType_wire OCPPVersionEnumType.Ocpp15 = ''OCPP15''"
| "OCPPVersionEnumType_wire OCPPVersionEnumType.Ocpp16 = ''OCPP16''"
| "OCPPVersionEnumType_wire OCPPVersionEnumType.Ocpp20 = ''OCPP20''"

definition OCPPVersionEnumType_all :: "OCPPVersionEnumType list" where
  "OCPPVersionEnumType_all = [OCPPVersionEnumType.Ocpp12, OCPPVersionEnumType.Ocpp15, OCPPVersionEnumType.Ocpp16,
     OCPPVersionEnumType.Ocpp20]"

definition OCPPVersionEnumType_of_wire :: "string \<Rightarrow> OCPPVersionEnumType option" where
  "OCPPVersionEnumType_of_wire = decode_by OCPPVersionEnumType_all OCPPVersionEnumType_wire"

interpretation OCPPVersionEnumType_codec: wire_codec OCPPVersionEnumType_wire OCPPVersionEnumType_of_wire
  unfolding OCPPVersionEnumType_of_wire_def
proof (rule wire_codec_distinct)
  show "x \<in> set OCPPVersionEnumType_all" for x by (cases x) (simp_all add: OCPPVersionEnumType_all_def)
  show "distinct (map OCPPVersionEnumType_wire OCPPVersionEnumType_all)" by (simp add: OCPPVersionEnumType_all_def)
qed

datatype OCPPTransportEnumType =
    Json
  | Soap

primrec OCPPTransportEnumType_wire :: "OCPPTransportEnumType \<Rightarrow> string" where
  "OCPPTransportEnumType_wire OCPPTransportEnumType.Json = ''JSON''"
| "OCPPTransportEnumType_wire OCPPTransportEnumType.Soap = ''SOAP''"

definition OCPPTransportEnumType_all :: "OCPPTransportEnumType list" where
  "OCPPTransportEnumType_all = [OCPPTransportEnumType.Json, OCPPTransportEnumType.Soap]"

definition OCPPTransportEnumType_of_wire :: "string \<Rightarrow> OCPPTransportEnumType option" where
  "OCPPTransportEnumType_of_wire = decode_by OCPPTransportEnumType_all OCPPTransportEnumType_wire"

interpretation OCPPTransportEnumType_codec: wire_codec OCPPTransportEnumType_wire OCPPTransportEnumType_of_wire
  unfolding OCPPTransportEnumType_of_wire_def
proof (rule wire_codec_distinct)
  show "x \<in> set OCPPTransportEnumType_all" for x by (cases x) (simp_all add: OCPPTransportEnumType_all_def)
  show "distinct (map OCPPTransportEnumType_wire OCPPTransportEnumType_all)" by (simp add: OCPPTransportEnumType_all_def)
qed

datatype OCPPInterfaceEnumType =
    Wired0
  | Wired1
  | Wired2
  | Wired3
  | Wireless0
  | Wireless1
  | Wireless2
  | Wireless3

primrec OCPPInterfaceEnumType_wire :: "OCPPInterfaceEnumType \<Rightarrow> string" where
  "OCPPInterfaceEnumType_wire OCPPInterfaceEnumType.Wired0 = ''Wired0''"
| "OCPPInterfaceEnumType_wire OCPPInterfaceEnumType.Wired1 = ''Wired1''"
| "OCPPInterfaceEnumType_wire OCPPInterfaceEnumType.Wired2 = ''Wired2''"
| "OCPPInterfaceEnumType_wire OCPPInterfaceEnumType.Wired3 = ''Wired3''"
| "OCPPInterfaceEnumType_wire OCPPInterfaceEnumType.Wireless0 = ''Wireless0''"
| "OCPPInterfaceEnumType_wire OCPPInterfaceEnumType.Wireless1 = ''Wireless1''"
| "OCPPInterfaceEnumType_wire OCPPInterfaceEnumType.Wireless2 = ''Wireless2''"
| "OCPPInterfaceEnumType_wire OCPPInterfaceEnumType.Wireless3 = ''Wireless3''"

definition OCPPInterfaceEnumType_all :: "OCPPInterfaceEnumType list" where
  "OCPPInterfaceEnumType_all = [OCPPInterfaceEnumType.Wired0, OCPPInterfaceEnumType.Wired1,
     OCPPInterfaceEnumType.Wired2, OCPPInterfaceEnumType.Wired3,
     OCPPInterfaceEnumType.Wireless0, OCPPInterfaceEnumType.Wireless1,
     OCPPInterfaceEnumType.Wireless2, OCPPInterfaceEnumType.Wireless3]"

definition OCPPInterfaceEnumType_of_wire :: "string \<Rightarrow> OCPPInterfaceEnumType option" where
  "OCPPInterfaceEnumType_of_wire = decode_by OCPPInterfaceEnumType_all OCPPInterfaceEnumType_wire"

interpretation OCPPInterfaceEnumType_codec: wire_codec OCPPInterfaceEnumType_wire OCPPInterfaceEnumType_of_wire
  unfolding OCPPInterfaceEnumType_of_wire_def
proof (rule wire_codec_distinct)
  show "x \<in> set OCPPInterfaceEnumType_all" for x by (cases x) (simp_all add: OCPPInterfaceEnumType_all_def)
  show "distinct (map OCPPInterfaceEnumType_wire OCPPInterfaceEnumType_all)" by (simp add: OCPPInterfaceEnumType_all_def)
qed

datatype APNAuthenticationEnumType =
    Chap
  | None_variant
  | Pap
  | Auto

primrec APNAuthenticationEnumType_wire :: "APNAuthenticationEnumType \<Rightarrow> string" where
  "APNAuthenticationEnumType_wire APNAuthenticationEnumType.Chap = ''CHAP''"
| "APNAuthenticationEnumType_wire APNAuthenticationEnumType.None_variant = ''NONE''"
| "APNAuthenticationEnumType_wire APNAuthenticationEnumType.Pap = ''PAP''"
| "APNAuthenticationEnumType_wire APNAuthenticationEnumType.Auto = ''AUTO''"

definition APNAuthenticationEnumType_all :: "APNAuthenticationEnumType list" where
  "APNAuthenticationEnumType_all = [APNAuthenticationEnumType.Chap, APNAuthenticationEnumType.None_variant,
     APNAuthenticationEnumType.Pap, APNAuthenticationEnumType.Auto]"

definition APNAuthenticationEnumType_of_wire :: "string \<Rightarrow> APNAuthenticationEnumType option" where
  "APNAuthenticationEnumType_of_wire = decode_by APNAuthenticationEnumType_all APNAuthenticationEnumType_wire"

interpretation APNAuthenticationEnumType_codec: wire_codec APNAuthenticationEnumType_wire APNAuthenticationEnumType_of_wire
  unfolding APNAuthenticationEnumType_of_wire_def
proof (rule wire_codec_distinct)
  show "x \<in> set APNAuthenticationEnumType_all" for x by (cases x) (simp_all add: APNAuthenticationEnumType_all_def)
  show "distinct (map APNAuthenticationEnumType_wire APNAuthenticationEnumType_all)" by (simp add: APNAuthenticationEnumType_all_def)
qed

datatype VPNEnumType =
    Ikev2
  | Ipsec
  | L2tp
  | Pptp

primrec VPNEnumType_wire :: "VPNEnumType \<Rightarrow> string" where
  "VPNEnumType_wire VPNEnumType.Ikev2 = ''IKEv2''"
| "VPNEnumType_wire VPNEnumType.Ipsec = ''IPSec''"
| "VPNEnumType_wire VPNEnumType.L2tp = ''L2TP''"
| "VPNEnumType_wire VPNEnumType.Pptp = ''PPTP''"

definition VPNEnumType_all :: "VPNEnumType list" where
  "VPNEnumType_all = [VPNEnumType.Ikev2, VPNEnumType.Ipsec, VPNEnumType.L2tp, VPNEnumType.Pptp]"

definition VPNEnumType_of_wire :: "string \<Rightarrow> VPNEnumType option" where
  "VPNEnumType_of_wire = decode_by VPNEnumType_all VPNEnumType_wire"

interpretation VPNEnumType_codec: wire_codec VPNEnumType_wire VPNEnumType_of_wire
  unfolding VPNEnumType_of_wire_def
proof (rule wire_codec_distinct)
  show "x \<in> set VPNEnumType_all" for x by (cases x) (simp_all add: VPNEnumType_all_def)
  show "distinct (map VPNEnumType_wire VPNEnumType_all)" by (simp add: VPNEnumType_all_def)
qed

datatype SetNetworkProfileStatusEnumType =
    Accepted
  | Rejected
  | Failed

primrec SetNetworkProfileStatusEnumType_wire :: "SetNetworkProfileStatusEnumType \<Rightarrow> string" where
  "SetNetworkProfileStatusEnumType_wire SetNetworkProfileStatusEnumType.Accepted = ''Accepted''"
| "SetNetworkProfileStatusEnumType_wire SetNetworkProfileStatusEnumType.Rejected = ''Rejected''"
| "SetNetworkProfileStatusEnumType_wire SetNetworkProfileStatusEnumType.Failed = ''Failed''"

definition SetNetworkProfileStatusEnumType_all :: "SetNetworkProfileStatusEnumType list" where
  "SetNetworkProfileStatusEnumType_all = [SetNetworkProfileStatusEnumType.Accepted, SetNetworkProfileStatusEnumType.Rejected,
     SetNetworkProfileStatusEnumType.Failed]"

definition SetNetworkProfileStatusEnumType_of_wire :: "string \<Rightarrow> SetNetworkProfileStatusEnumType option" where
  "SetNetworkProfileStatusEnumType_of_wire = decode_by SetNetworkProfileStatusEnumType_all SetNetworkProfileStatusEnumType_wire"

interpretation SetNetworkProfileStatusEnumType_codec: wire_codec SetNetworkProfileStatusEnumType_wire SetNetworkProfileStatusEnumType_of_wire
  unfolding SetNetworkProfileStatusEnumType_of_wire_def
proof (rule wire_codec_distinct)
  show "x \<in> set SetNetworkProfileStatusEnumType_all" for x by (cases x) (simp_all add: SetNetworkProfileStatusEnumType_all_def)
  show "distinct (map SetNetworkProfileStatusEnumType_wire SetNetworkProfileStatusEnumType_all)" by (simp add: SetNetworkProfileStatusEnumType_all_def)
qed

datatype SecurityEventType =
    FirmwareUpdated
  | FailedToAuthenticateAtCsms
  | CsmsFailedToAuthenticate
  | SettingSystemTime
  | StartupOfTheDevice
  | ResetOrReboot
  | SecurityLogWasCleared
  | ReconfigurationOfSecurityParameters
  | MemoryExhaustion
  | InvalidMessages
  | AttemptedReplayAttacks
  | TamperDetectionActivated
  | InvalidFirmwareSignature
  | InvalidFirmwareSigningCertificate
  | InvalidCsmsCertificate
  | InvalidChargingStationCertificate
  | InvalidTLSVersion
  | InvalidTLSCipherSuite
  | MaintenanceLoginAccepted
  | MaintenanceLoginFailed

primrec SecurityEventType_wire :: "SecurityEventType \<Rightarrow> string" where
  "SecurityEventType_wire SecurityEventType.FirmwareUpdated = ''FirmwareUpdated''"
| "SecurityEventType_wire SecurityEventType.FailedToAuthenticateAtCsms = ''FailedToAuthenticateAtCsms''"
| "SecurityEventType_wire SecurityEventType.CsmsFailedToAuthenticate = ''CsmsFailedToAuthenticate''"
| "SecurityEventType_wire SecurityEventType.SettingSystemTime = ''SettingSystemTime''"
| "SecurityEventType_wire SecurityEventType.StartupOfTheDevice = ''StartupOfTheDevice''"
| "SecurityEventType_wire SecurityEventType.ResetOrReboot = ''ResetOrReboot''"
| "SecurityEventType_wire SecurityEventType.SecurityLogWasCleared = ''SecurityLogWasCleared''"
| "SecurityEventType_wire SecurityEventType.ReconfigurationOfSecurityParameters = ''ReconfigurationOfSecurityParameters''"
| "SecurityEventType_wire SecurityEventType.MemoryExhaustion = ''MemoryExhaustion''"
| "SecurityEventType_wire SecurityEventType.InvalidMessages = ''InvalidMessages''"
| "SecurityEventType_wire SecurityEventType.AttemptedReplayAttacks = ''AttemptedReplayAttacks''"
| "SecurityEventType_wire SecurityEventType.TamperDetectionActivated = ''TamperDetectionActivated''"
| "SecurityEventType_wire SecurityEventType.InvalidFirmwareSignature = ''InvalidFirmwareSignature''"
| "SecurityEventType_wire SecurityEventType.InvalidFirmwareSigningCertificate = ''InvalidFirmwareSigningCertificate''"
| "SecurityEventType_wire SecurityEventType.InvalidCsmsCertificate = ''InvalidCsmsCertificate''"
| "SecurityEventType_wire SecurityEventType.InvalidChargingStationCertificate = ''InvalidChargingStationCertificate''"
| "SecurityEventType_wire SecurityEventType.InvalidTLSVersion = ''InvalidTLSVersion''"
| "SecurityEventType_wire SecurityEventType.InvalidTLSCipherSuite = ''InvalidTLSCipherSuite''"
| "SecurityEventType_wire SecurityEventType.MaintenanceLoginAccepted = ''MaintenanceLoginAccepted''"
| "SecurityEventType_wire SecurityEventType.MaintenanceLoginFailed = ''MaintenanceLoginFailed''"

definition SecurityEventType_all :: "SecurityEventType list" where
  "SecurityEventType_all = [SecurityEventType.FirmwareUpdated, SecurityEventType.FailedToAuthenticateAtCsms,
     SecurityEventType.CsmsFailedToAuthenticate, SecurityEventType.SettingSystemTime,
     SecurityEventType.StartupOfTheDevice, SecurityEventType.ResetOrReboot,
     SecurityEventType.SecurityLogWasCleared,
     SecurityEventType.ReconfigurationOfSecurityParameters,
     SecurityEventType.MemoryExhaustion, SecurityEventType.InvalidMessages,
     SecurityEventType.AttemptedReplayAttacks,
     SecurityEventType.TamperDetectionActivated,
     SecurityEventType.InvalidFirmwareSignature,
     SecurityEventType.InvalidFirmwareSigningCertificate,
     SecurityEventType.InvalidCsmsCertificate,
     SecurityEventType.InvalidChargingStationCertificate,
     SecurityEventType.InvalidTLSVersion, SecurityEventType.InvalidTLSCipherSuite,
     SecurityEventType.MaintenanceLoginAccepted,
     SecurityEventType.MaintenanceLoginFailed]"

definition SecurityEventType_of_wire :: "string \<Rightarrow> SecurityEventType option" where
  "SecurityEventType_of_wire = decode_by SecurityEventType_all SecurityEventType_wire"

interpretation SecurityEventType_codec: wire_codec SecurityEventType_wire SecurityEventType_of_wire
  unfolding SecurityEventType_of_wire_def
proof (rule wire_codec_distinct)
  show "x \<in> set SecurityEventType_all" for x by (cases x) (simp_all add: SecurityEventType_all_def)
  show "distinct (map SecurityEventType_wire SecurityEventType_all)" by (simp add: SecurityEventType_all_def)
qed

datatype StandardizedUnitsOfMeasureType =
    Asu
  | B_unit
  | Db
  | Dbm
  | Deg
  | Hz
  | Lx
  | M_unit
  | Ms2
  | N_unit
  | Ohm
  | Kpa
  | Percent
  | Rh
  | Rpm
  | S_unit
  | Va
  | Kva
  | Vah
  | Kvah
  | Var
  | Kvar
  | Varh
  | Kvarh
  | Wh
  | Kwh
  | W_unit
  | Kw
  | A_unit
  | V_unit
  | Celsius
  | Fahrenheit
  | K_unit

primrec StandardizedUnitsOfMeasureType_wire :: "StandardizedUnitsOfMeasureType \<Rightarrow> string" where
  "StandardizedUnitsOfMeasureType_wire StandardizedUnitsOfMeasureType.Asu = ''ASU''"
| "StandardizedUnitsOfMeasureType_wire StandardizedUnitsOfMeasureType.B_unit = ''B''"
| "StandardizedUnitsOfMeasureType_wire StandardizedUnitsOfMeasureType.Db = ''dB''"
| "StandardizedUnitsOfMeasureType_wire StandardizedUnitsOfMeasureType.Dbm = ''dBm''"
| "StandardizedUnitsOfMeasureType_wire StandardizedUnitsOfMeasureType.Deg = ''Deg''"
| "StandardizedUnitsOfMeasureType_wire StandardizedUnitsOfMeasureType.Hz = ''Hz''"
| "StandardizedUnitsOfMeasureType_wire StandardizedUnitsOfMeasureType.Lx = ''lx''"
| "StandardizedUnitsOfMeasureType_wire StandardizedUnitsOfMeasureType.M_unit = ''m''"
| "StandardizedUnitsOfMeasureType_wire StandardizedUnitsOfMeasureType.Ms2 = ''ms2''"
| "StandardizedUnitsOfMeasureType_wire StandardizedUnitsOfMeasureType.N_unit = ''N''"
| "StandardizedUnitsOfMeasureType_wire StandardizedUnitsOfMeasureType.Ohm = ''Ohm''"
| "StandardizedUnitsOfMeasureType_wire StandardizedUnitsOfMeasureType.Kpa = ''kPa''"
| "StandardizedUnitsOfMeasureType_wire StandardizedUnitsOfMeasureType.Percent = ''Percent''"
| "StandardizedUnitsOfMeasureType_wire StandardizedUnitsOfMeasureType.Rh = ''RH''"
| "StandardizedUnitsOfMeasureType_wire StandardizedUnitsOfMeasureType.Rpm = ''RPM''"
| "StandardizedUnitsOfMeasureType_wire StandardizedUnitsOfMeasureType.S_unit = ''s''"
| "StandardizedUnitsOfMeasureType_wire StandardizedUnitsOfMeasureType.Va = ''VA''"
| "StandardizedUnitsOfMeasureType_wire StandardizedUnitsOfMeasureType.Kva = ''kVA''"
| "StandardizedUnitsOfMeasureType_wire StandardizedUnitsOfMeasureType.Vah = ''VAh''"
| "StandardizedUnitsOfMeasureType_wire StandardizedUnitsOfMeasureType.Kvah = ''kVAh''"
| "StandardizedUnitsOfMeasureType_wire StandardizedUnitsOfMeasureType.Var = ''var''"
| "StandardizedUnitsOfMeasureType_wire StandardizedUnitsOfMeasureType.Kvar = ''kvar''"
| "StandardizedUnitsOfMeasureType_wire StandardizedUnitsOfMeasureType.Varh = ''varh''"
| "StandardizedUnitsOfMeasureType_wire StandardizedUnitsOfMeasureType.Kvarh = ''kvarh''"
| "StandardizedUnitsOfMeasureType_wire StandardizedUnitsOfMeasureType.Wh = ''Wh''"
| "StandardizedUnitsOfMeasureType_wire StandardizedUnitsOfMeasureType.Kwh = ''kWh''"
| "StandardizedUnitsOfMeasureType_wire StandardizedUnitsOfMeasureType.W_unit = ''W''"
| "StandardizedUnitsOfMeasureType_wire StandardizedUnitsOfMeasureType.Kw = ''kW''"
| "StandardizedUnitsOfMeasureType_wire StandardizedUnitsOfMeasureType.A_unit = ''A''"
| "StandardizedUnitsOfMeasureType_wire StandardizedUnitsOfMeasureType.V_unit = ''V''"
| "StandardizedUnitsOfMeasureType_wire StandardizedUnitsOfMeasureType.Celsius = ''Celsius''"
| "StandardizedUnitsOfMeasureType_wire StandardizedUnitsOfMeasureType.Fahrenheit = ''Fahrenheit''"
| "StandardizedUnitsOfMeasureType_wire StandardizedUnitsOfMeasureType.K_unit = ''K''"

definition StandardizedUnitsOfMeasureType_all :: "StandardizedUnitsOfMeasureType list" where
  "StandardizedUnitsOfMeasureType_all = [StandardizedUnitsOfMeasureType.Asu, StandardizedUnitsOfMeasureType.B_unit,
     StandardizedUnitsOfMeasureType.Db, StandardizedUnitsOfMeasureType.Dbm,
     StandardizedUnitsOfMeasureType.Deg, StandardizedUnitsOfMeasureType.Hz,
     StandardizedUnitsOfMeasureType.Lx, StandardizedUnitsOfMeasureType.M_unit,
     StandardizedUnitsOfMeasureType.Ms2, StandardizedUnitsOfMeasureType.N_unit,
     StandardizedUnitsOfMeasureType.Ohm, StandardizedUnitsOfMeasureType.Kpa,
     StandardizedUnitsOfMeasureType.Percent, StandardizedUnitsOfMeasureType.Rh,
     StandardizedUnitsOfMeasureType.Rpm, StandardizedUnitsOfMeasureType.S_unit,
     StandardizedUnitsOfMeasureType.Va, StandardizedUnitsOfMeasureType.Kva,
     StandardizedUnitsOfMeasureType.Vah, StandardizedUnitsOfMeasureType.Kvah,
     StandardizedUnitsOfMeasureType.Var, StandardizedUnitsOfMeasureType.Kvar,
     StandardizedUnitsOfMeasureType.Varh, StandardizedUnitsOfMeasureType.Kvarh,
     StandardizedUnitsOfMeasureType.Wh, StandardizedUnitsOfMeasureType.Kwh,
     StandardizedUnitsOfMeasureType.W_unit, StandardizedUnitsOfMeasureType.Kw,
     StandardizedUnitsOfMeasureType.A_unit, StandardizedUnitsOfMeasureType.V_unit,
     StandardizedUnitsOfMeasureType.Celsius, StandardizedUnitsOfMeasureType.Fahrenheit,
     StandardizedUnitsOfMeasureType.K_unit]"

definition StandardizedUnitsOfMeasureType_of_wire :: "string \<Rightarrow> StandardizedUnitsOfMeasureType option" where
  "StandardizedUnitsOfMeasureType_of_wire = decode_by StandardizedUnitsOfMeasureType_all StandardizedUnitsOfMeasureType_wire"

interpretation StandardizedUnitsOfMeasureType_codec: wire_codec StandardizedUnitsOfMeasureType_wire StandardizedUnitsOfMeasureType_of_wire
  unfolding StandardizedUnitsOfMeasureType_of_wire_def
proof (rule wire_codec_distinct)
  show "x \<in> set StandardizedUnitsOfMeasureType_all" for x by (cases x) (simp_all add: StandardizedUnitsOfMeasureType_all_def)
  show "distinct (map StandardizedUnitsOfMeasureType_wire StandardizedUnitsOfMeasureType_all)" by (simp add: StandardizedUnitsOfMeasureType_all_def)
qed

section \<open>\<open>SecurityEventType::as_wire_str\<close>\<close>

primrec as_wire_str :: "SecurityEventType \<Rightarrow> string" where
  "as_wire_str SecurityEventType.FirmwareUpdated = ''FirmwareUpdated''"
| "as_wire_str SecurityEventType.FailedToAuthenticateAtCsms = ''FailedToAuthenticateAtCsms''"
| "as_wire_str SecurityEventType.CsmsFailedToAuthenticate = ''CsmsFailedToAuthenticate''"
| "as_wire_str SecurityEventType.SettingSystemTime = ''SettingSystemTime''"
| "as_wire_str SecurityEventType.StartupOfTheDevice = ''StartupOfTheDevice''"
| "as_wire_str SecurityEventType.ResetOrReboot = ''ResetOrReboot''"
| "as_wire_str SecurityEventType.SecurityLogWasCleared = ''SecurityLogWasCleared''"
| "as_wire_str SecurityEventType.ReconfigurationOfSecurityParameters = ''ReconfigurationOfSecurityParameters''"
| "as_wire_str SecurityEventType.MemoryExhaustion = ''MemoryExhaustion''"
| "as_wire_str SecurityEventType.InvalidMessages = ''InvalidMessages''"
| "as_wire_str SecurityEventType.AttemptedReplayAttacks = ''AttemptedReplayAttacks''"
| "as_wire_str SecurityEventType.TamperDetectionActivated = ''TamperDetectionActivated''"
| "as_wire_str SecurityEventType.InvalidFirmwareSignature = ''InvalidFirmwareSignature''"
| "as_wire_str SecurityEventType.InvalidFirmwareSigningCertificate = ''InvalidFirmwareSigningCertificate''"
| "as_wire_str SecurityEventType.InvalidCsmsCertificate = ''InvalidCsmsCertificate''"
| "as_wire_str SecurityEventType.InvalidChargingStationCertificate = ''InvalidChargingStationCertificate''"
| "as_wire_str SecurityEventType.InvalidTLSVersion = ''InvalidTLSVersion''"
| "as_wire_str SecurityEventType.InvalidTLSCipherSuite = ''InvalidTLSCipherSuite''"
| "as_wire_str SecurityEventType.MaintenanceLoginAccepted = ''MaintenanceLoginAccepted''"
| "as_wire_str SecurityEventType.MaintenanceLoginFailed = ''MaintenanceLoginFailed''"

text \<open>The constant table is the serde spelling, so the names it yields decode back.\<close>

lemma as_wire_str_decodes: "SecurityEventType_of_wire (as_wire_str x) = Some x"
proof -
  have "as_wire_str x = SecurityEventType_wire x" by (cases x) simp_all
  then show ?thesis by (simp add: SecurityEventType_codec.of_to)
qed

end
