(* ===== verification/Datatypes201.thy ===== *)
theory Datatypes201
  imports Types201
begin

text \<open>
  The structures of \<open>ocpp-types/src/v201/datatypes.rs\<close> the modelled components carry. As in
  \<open>Types\<close>, every field carries a prefix of its structure. \<open>serde_json::Value\<close> is the datatype
  \<open>json\<close>; an object keeps its members in order.
\<close>

datatype json =
    JNull
  | JBool bool
  | JInt int
  | JFloat f64
  | JString string
  | JArray "json list"
  | JObject "(string \<times> json) list"

record CustomDataType =
  custom_vendor_id :: string
  custom_extra :: "(string \<times> json) list"

record StatusInfoType =
  sit_reason_code :: string
  sit_additional_info :: "string option"
  sit_custom_data :: "CustomDataType option"

record EvseType =
  evse_id :: i32
  evse_connector_id :: "i32 option"
  evse_custom_data :: "CustomDataType option"

record AdditionalInfoType =
  ait_additional_id_token :: string
  ait_kind :: string
  ait_custom_data :: "CustomDataType option"

record ComponentType =
  comp_name :: string
  comp_instance :: "string option"
  comp_evse :: "EvseType option"
  comp_custom_data :: "CustomDataType option"

record IdTokenType =
  itt_id_token :: string
  itt_kind :: IdTokenEnumType
  itt_additional_info :: "AdditionalInfoType list option"
  itt_custom_data :: "CustomDataType option"

record CertificateHashDataType =
  chdt_hash_algorithm :: HashAlgorithmEnumType
  chdt_issuer_name_hash :: string
  chdt_issuer_key_hash :: string
  chdt_serial_number :: string
  chdt_custom_data :: "CustomDataType option"

record CertificateHashDataChainType =
  chdct_certificate_type :: GetCertificateIdUseEnumType
  chdct_certificate_hash_data :: CertificateHashDataType
  chdct_child_certificate_hash_data :: "CertificateHashDataType list option"
  chdct_custom_data :: "CustomDataType option"

record MessageContentType =
  mct_format :: MessageFormatEnumType
  mct_content :: string
  mct_language :: "string option"
  mct_custom_data :: "CustomDataType option"

record MessageInfoType =
  mit_id :: i32
  mit_priority :: MessagePriorityEnumType
  mit_message :: MessageContentType
  mit_state :: "MessageStateEnumType option"
  mit_start_date_time :: "string option"
  mit_end_date_time :: "string option"
  mit_transaction_id :: "string option"
  mit_display :: "ComponentType option"
  mit_custom_data :: "CustomDataType option"

record VariableType =
  vart_name :: string
  vart_instance :: "string option"
  vart_custom_data :: "CustomDataType option"

record GetVariableDataType =
  gvdt_component :: ComponentType
  gvdt_variable :: VariableType
  gvdt_attribute_type :: "AttributeEnumType option"
  gvdt_custom_data :: "CustomDataType option"

record GetVariableResultType =
  gvrt_attribute_status :: GetVariableStatusEnumType
  gvrt_component :: ComponentType
  gvrt_variable :: VariableType
  gvrt_attribute_type :: "AttributeEnumType option"
  gvrt_attribute_value :: "string option"
  gvrt_attribute_status_info :: "StatusInfoType option"
  gvrt_custom_data :: "CustomDataType option"

record SetVariableDataType =
  svdt_attribute_value :: string
  svdt_component :: ComponentType
  svdt_variable :: VariableType
  svdt_attribute_type :: "AttributeEnumType option"
  svdt_custom_data :: "CustomDataType option"

record SetVariableResultType =
  svrt_attribute_status :: SetVariableStatusEnumType
  svrt_component :: ComponentType
  svrt_variable :: VariableType
  svrt_attribute_type :: "AttributeEnumType option"
  svrt_attribute_status_info :: "StatusInfoType option"
  svrt_custom_data :: "CustomDataType option"

record IdTokenInfoType =
  itit_status :: AuthorizationStatusEnumType
  itit_cache_expiry_date_time :: "string option"
  itit_charging_priority :: "i32 option"
  itit_language1 :: "string option"
  itit_evse_id :: "i32 list option"
  itit_language2 :: "string option"
  itit_group_id_token :: "IdTokenType option"
  itit_personal_message :: "MessageContentType option"
  itit_custom_data :: "CustomDataType option"

record AuthorizationData201 =
  ad201_id_token :: IdTokenType
  ad201_id_token_info :: "IdTokenInfoType option"
  ad201_custom_data :: "CustomDataType option"

record TransactionType =
  txt_transaction_id :: string
  txt_charging_state :: "ChargingStateEnumType option"
  txt_time_spent_charging :: "i32 option"
  txt_stopped_reason :: "ReasonEnumType option"
  txt_remote_start_id :: "i32 option"
  txt_custom_data :: "CustomDataType option"

record SignedMeterValueType =
  smvt_signed_meter_data :: string
  smvt_signing_method :: string
  smvt_encoding_method :: string
  smvt_public_key :: string
  smvt_custom_data :: "CustomDataType option"

record UnitOfMeasureType =
  uomt_unit :: "string option"
  uomt_multiplier :: "i32 option"
  uomt_custom_data :: "CustomDataType option"

record SampledValueType =
  svt_value :: f64
  svt_context :: "ReadingContextEnumType option"
  svt_measurand :: "MeasurandEnumType option"
  svt_phase :: "PhaseEnumType option"
  svt_location :: "LocationEnumType option"
  svt_signed_meter_value :: "SignedMeterValueType option"
  svt_unit_of_measure :: "UnitOfMeasureType option"
  svt_custom_data :: "CustomDataType option"

record MeterValueType =
  mvt_timestamp :: string
  mvt_sampled_value :: "SampledValueType list"
  mvt_custom_data :: "CustomDataType option"

record CostType =
  cost_cost_kind :: CostKindEnumType
  cost_amount :: i32
  cost_amount_multiplier :: "i32 option"
  cost_custom_data :: "CustomDataType option"

record ConsumptionCostType =
  ccost_start_value :: f64
  ccost_cost :: "CostType list"
  ccost_custom_data :: "CustomDataType option"

record RelativeTimeIntervalType =
  rtit_start :: i32
  rtit_duration :: "i32 option"
  rtit_custom_data :: "CustomDataType option"

record SalesTariffEntryType =
  stet_relative_time_interval :: RelativeTimeIntervalType
  stet_e_price_level :: "i32 option"
  stet_consumption_cost :: "ConsumptionCostType list option"
  stet_custom_data :: "CustomDataType option"

record SalesTariffType =
  stt_id :: i32
  stt_sales_tariff_entry :: "SalesTariffEntryType list"
  stt_sales_tariff_description :: "string option"
  stt_num_e_price_levels :: "i32 option"
  stt_custom_data :: "CustomDataType option"

record ChargingSchedulePeriodType =
  cspt_start_period :: i32
  cspt_limit :: f64
  cspt_number_phases :: "i32 option"
  cspt_phase_to_use :: "i32 option"
  cspt_custom_data :: "CustomDataType option"

record ChargingScheduleType =
  cst_id :: i32
  cst_charging_rate_unit :: ChargingRateUnitEnumType
  cst_charging_schedule_period :: "ChargingSchedulePeriodType list"
  cst_start_schedule :: "string option"
  cst_duration :: "i32 option"
  cst_min_charging_rate :: "f64 option"
  cst_sales_tariff :: "SalesTariffType option"
  cst_custom_data :: "CustomDataType option"

record ChargingLimitType =
  clt_charging_limit_source :: ChargingLimitSourceEnumType
  clt_is_grid_critical :: "bool option"
  clt_custom_data :: "CustomDataType option"

record CompositeScheduleType =
  comps_evse_id :: i32
  comps_duration :: i32
  comps_schedule_start :: string
  comps_charging_rate_unit :: ChargingRateUnitEnumType
  comps_charging_schedule_period :: "ChargingSchedulePeriodType list"
  comps_custom_data :: "CustomDataType option"

record ChargingProfileType =
  cpt_id :: i32
  cpt_stack_level :: i32
  cpt_charging_profile_purpose :: ChargingProfilePurposeEnumType
  cpt_charging_profile_kind :: ChargingProfileKindEnumType
  cpt_charging_schedule :: "ChargingScheduleType list"
  cpt_recurrency_kind :: "RecurrencyKindEnumType option"
  cpt_valid_from :: "string option"
  cpt_valid_to :: "string option"
  cpt_transaction_id :: "string option"
  cpt_custom_data :: "CustomDataType option"

record ComponentVariableType =
  cvt_component :: ComponentType
  cvt_variable :: "VariableType option"
  cvt_custom_data :: "CustomDataType option"

record VariableMonitoringType =
  vmont_id :: i32
  vmont_transaction :: bool
  vmont_value :: f64
  vmont_kind :: MonitorEnumType
  vmont_severity :: i32
  vmont_custom_data :: "CustomDataType option"

record MonitoringDataType =
  mondt_component :: ComponentType
  mondt_variable :: VariableType
  mondt_variable_monitoring :: "VariableMonitoringType list"
  mondt_custom_data :: "CustomDataType option"

record VariableAttributeType =
  vat_kind :: "AttributeEnumType option"
  vat_value :: "string option"
  vat_mutability :: "MutabilityEnumType option"
  vat_persistent :: "bool option"
  vat_constant :: "bool option"
  vat_custom_data :: "CustomDataType option"

record VariableCharacteristicsType =
  varct_unit :: "string option"
  varct_data_type :: DataEnumType
  varct_min_limit :: "f64 option"
  varct_max_limit :: "f64 option"
  varct_values_list :: "string option"
  varct_supports_monitoring :: bool
  varct_custom_data :: "CustomDataType option"

record ReportDataType =
  rdt_component :: ComponentType
  rdt_variable :: VariableType
  rdt_variable_attribute :: "VariableAttributeType list"
  rdt_variable_characteristics :: "VariableCharacteristicsType option"
  rdt_custom_data :: "CustomDataType option"

record EventDataType =
  edt_event_id :: i32
  edt_timestamp :: string
  edt_trigger :: EventTriggerEnumType
  edt_actual_value :: string
  edt_event_notification_type :: EventNotificationEnumType
  edt_component :: ComponentType
  edt_variable :: VariableType
  edt_cause :: "i32 option"
  edt_tech_code :: "string option"
  edt_tech_info :: "string option"
  edt_cleared :: "bool option"
  edt_transaction_id :: "string option"
  edt_variable_monitoring_id :: "i32 option"
  edt_custom_data :: "CustomDataType option"

record ClearMonitoringResultType =
  cmonrt_status :: ClearMonitoringStatusEnumType
  cmonrt_id :: i32
  cmonrt_status_info :: "StatusInfoType option"
  cmonrt_custom_data :: "CustomDataType option"

record SetMonitoringDataType =
  smondt_id :: "i32 option"
  smondt_transaction :: "bool option"
  smondt_value :: f64
  smondt_kind :: MonitorEnumType
  smondt_severity :: i32
  smondt_component :: ComponentType
  smondt_variable :: VariableType
  smondt_custom_data :: "CustomDataType option"

record SetMonitoringResultType =
  smonrt_id :: "i32 option"
  smonrt_status :: SetMonitoringStatusEnumType
  smonrt_kind :: MonitorEnumType
  smonrt_component :: ComponentType
  smonrt_variable :: VariableType
  smonrt_severity :: i32
  smonrt_status_info :: "StatusInfoType option"
  smonrt_custom_data :: "CustomDataType option"

record ClearChargingProfileType =
  ccpt_evse_id :: "i32 option"
  ccpt_charging_profile_purpose :: "ChargingProfilePurposeEnumType option"
  ccpt_stack_level :: "i32 option"
  ccpt_custom_data :: "CustomDataType option"

record FirmwareType =
  ft_location :: string
  ft_retrieve_date_time :: string
  ft_install_date_time :: "string option"
  ft_signing_certificate :: "string option"
  ft_signature :: "string option"
  ft_custom_data :: "CustomDataType option"

record LogParametersType =
  lpt_remote_location :: string
  lpt_oldest_timestamp :: "string option"
  lpt_latest_timestamp :: "string option"
  lpt_custom_data :: "CustomDataType option"

record ChargingProfileCriterionType =
  cpct_charging_profile_purpose :: "ChargingProfilePurposeEnumType option"
  cpct_stack_level :: "i32 option"
  cpct_charging_profile_id :: "i32 list option"
  cpct_charging_limit_source :: "ChargingLimitSourceEnumType list option"
  cpct_custom_data :: "CustomDataType option"

record APNType =
  apn_apn :: string
  apn_apn_user_name :: "string option"
  apn_apn_password :: "string option"
  apn_sim_pin :: "i32 option"
  apn_preferred_network :: "string option"
  apn_use_only_preferred_network :: "bool option"
  apn_apn_authentication :: APNAuthenticationEnumType
  apn_custom_data :: "CustomDataType option"

record VPNType =
  vpn_server :: string
  vpn_user :: string
  vpn_group :: "string option"
  vpn_password :: string
  vpn_key :: string
  vpn_vpn_type :: VPNEnumType
  vpn_custom_data :: "CustomDataType option"

record NetworkConnectionProfileType =
  ncpt_ocpp_version :: OCPPVersionEnumType
  ncpt_ocpp_transport :: OCPPTransportEnumType
  ncpt_ocpp_csms_url :: string
  ncpt_message_timeout :: i32
  ncpt_security_profile :: i32
  ncpt_ocpp_interface :: OCPPInterfaceEnumType
  ncpt_apn :: "APNType option"
  ncpt_vpn :: "VPNType option"
  ncpt_custom_data :: "CustomDataType option"

end
