(* ===== verification/Errors.thy ===== *)
theory Errors
  imports Types
begin

text \<open>
  \<open>ocpp-cp/src/error.rs\<close>: the error type of the charge point, its classification (recoverable,
  severity, category, retry delay) and the error context. \<open>ErrorSeverity\<close> derives \<open>Ord\<close>, so it is
  an instance of \<open>linorder\<close>. The constructor functions of the source (\<open>ChargePointError::validation\<close>
  and its siblings) are the constructors of the datatype.
\<close>

section \<open>Charge point errors\<close>

datatype ChargePointError =
    ConnectionError string
  | TransportError string
  | ProtocolViolation string
  | SerializationError string
  | AuthorizationFailed string
  | InvalidOperation string
  | ConfigurationError string
  | ConnectorError u32 string
  | TransactionError i32 string
  | HardwareFault string string
  | Timeout string u64
  | ResourceUnavailable string
  | BootNotificationFailed string
  | CentralSystemError string
  | ValidationError string string
  | InternalError string
  | NotSupported string
  | RateLimitExceeded string u32 string

definition is_recoverable :: "ChargePointError \<Rightarrow> bool" where
  "is_recoverable e = (case e of
      ConnectionError _ \<Rightarrow> True
    | TransportError _ \<Rightarrow> True
    | Timeout _ _ \<Rightarrow> True
    | ResourceUnavailable _ \<Rightarrow> True
    | CentralSystemError _ \<Rightarrow> True
    | RateLimitExceeded _ _ _ \<Rightarrow> True
    | _ \<Rightarrow> False)"

datatype ErrorSeverity = Warning | Error | Critical

primrec severity_rank :: "ErrorSeverity \<Rightarrow> nat" where
  "severity_rank Warning = 0"
| "severity_rank Error = 1"
| "severity_rank Critical = 2"

lemma severity_rank_inj: "severity_rank a = severity_rank b \<Longrightarrow> a = b"
  by (cases a; cases b) simp_all

text \<open>The derived order compares the variants in declaration order.\<close>

instantiation ErrorSeverity :: linorder
begin

definition less_eq_ErrorSeverity :: "ErrorSeverity \<Rightarrow> ErrorSeverity \<Rightarrow> bool" where
  "less_eq_ErrorSeverity a b \<longleftrightarrow> severity_rank a \<le> severity_rank b"

definition less_ErrorSeverity :: "ErrorSeverity \<Rightarrow> ErrorSeverity \<Rightarrow> bool" where
  "less_ErrorSeverity a b \<longleftrightarrow> severity_rank a < severity_rank b"

instance
  by standard (auto simp: less_eq_ErrorSeverity_def less_ErrorSeverity_def severity_rank_inj)

end

definition severity :: "ChargePointError \<Rightarrow> ErrorSeverity" where
  "severity e = (case e of
      ValidationError _ _ \<Rightarrow> Warning
    | InvalidOperation _ \<Rightarrow> Warning
    | ConnectionError _ \<Rightarrow> Error
    | TransportError _ \<Rightarrow> Error
    | AuthorizationFailed _ \<Rightarrow> Error
    | Timeout _ _ \<Rightarrow> Error
    | ResourceUnavailable _ \<Rightarrow> Error
    | CentralSystemError _ \<Rightarrow> Error
    | RateLimitExceeded _ _ _ \<Rightarrow> Error
    | ProtocolViolation _ \<Rightarrow> Critical
    | SerializationError _ \<Rightarrow> Critical
    | ConfigurationError _ \<Rightarrow> Critical
    | HardwareFault _ _ \<Rightarrow> Critical
    | ConnectorError _ _ \<Rightarrow> Critical
    | TransactionError _ _ \<Rightarrow> Critical
    | BootNotificationFailed _ \<Rightarrow> Critical
    | InternalError _ \<Rightarrow> Critical
    | NotSupported _ \<Rightarrow> Critical)"

primrec ErrorSeverity_display :: "ErrorSeverity \<Rightarrow> string" where
  "ErrorSeverity_display Warning = ''WARNING''"
| "ErrorSeverity_display Error = ''ERROR''"
| "ErrorSeverity_display Critical = ''CRITICAL''"

datatype ErrorCategory =
    Network | Protocol | Authentication | Configuration | Hardware | CategoryTransaction
  | Performance | Resource | System | Logic

definition category :: "ChargePointError \<Rightarrow> ErrorCategory" where
  "category e = (case e of
      ConnectionError _ \<Rightarrow> Network
    | TransportError _ \<Rightarrow> Network
    | ProtocolViolation _ \<Rightarrow> Protocol
    | SerializationError _ \<Rightarrow> Protocol
    | AuthorizationFailed _ \<Rightarrow> Authentication
    | ConfigurationError _ \<Rightarrow> Configuration
    | ValidationError _ _ \<Rightarrow> Configuration
    | ConnectorError _ _ \<Rightarrow> Hardware
    | HardwareFault _ _ \<Rightarrow> Hardware
    | TransactionError _ _ \<Rightarrow> CategoryTransaction
    | Timeout _ _ \<Rightarrow> Performance
    | ResourceUnavailable _ \<Rightarrow> Resource
    | RateLimitExceeded _ _ _ \<Rightarrow> Resource
    | BootNotificationFailed _ \<Rightarrow> System
    | CentralSystemError _ \<Rightarrow> System
    | InvalidOperation _ \<Rightarrow> Logic
    | InternalError _ \<Rightarrow> Logic
    | NotSupported _ \<Rightarrow> Logic)"

definition suggested_retry_delay :: "ChargePointError \<Rightarrow> u64 option" where
  "suggested_retry_delay e = (case e of
      ConnectionError _ \<Rightarrow> Some 5000
    | TransportError _ \<Rightarrow> Some 3000
    | Timeout _ _ \<Rightarrow> Some 1000
    | ResourceUnavailable _ \<Rightarrow> Some 2000
    | CentralSystemError _ \<Rightarrow> Some 10000
    | RateLimitExceeded _ _ _ \<Rightarrow> Some 60000
    | _ \<Rightarrow> None)"

section \<open>Error context\<close>

record ErrorContext =
  ec_source :: "string option"
  ec_context :: "(string, string) hmap"
  ec_timestamp :: datetime

definition ErrorContext_new :: "datetime \<Rightarrow> ErrorContext" where
  "ErrorContext_new now = \<lparr>ec_source = None, ec_context = [], ec_timestamp = now\<rparr>"

definition ErrorContext_with_source :: "datetime \<Rightarrow> string \<Rightarrow> ErrorContext" where
  "ErrorContext_with_source now src =
     \<lparr>ec_source = Some src, ec_context = [], ec_timestamp = now\<rparr>"

definition add_context :: "string \<Rightarrow> string \<Rightarrow> ErrorContext \<Rightarrow> ErrorContext" where
  "add_context k v c = c\<lparr>ec_context := AList.update k v (ec_context c)\<rparr>"

definition get_context :: "ErrorContext \<Rightarrow> string \<Rightarrow> string option" where
  "get_context c k = map_of (ec_context c) k"

lemma get_add_context: "get_context (add_context k v c) k' = (if k' = k then Some v else get_context c k')"
  by (simp add: get_context_def add_context_def hm_get_update)

text \<open>
  The error classification is coherent: an error is recoverable exactly when it
  suggests a retry delay, a recoverable error has severity \<open>Error\<close> (never the mere \<open>Warning\<close> of a
  caller mistake nor \<open>Critical\<close>), and every delay lies between one second and one minute.
\<close>

theorem error_classification_coherent:
  "(is_recoverable e \<longleftrightarrow> (\<exists>d. suggested_retry_delay e = Some d \<and> 1000 \<le> unat d \<and> unat d \<le> 60000))
   \<and> (is_recoverable e \<longrightarrow> severity e = Error \<and> category e \<in> {Network, Performance, Resource, System})
   \<and> (severity e < Error \<longleftrightarrow> (\<exists>f m. e = ValidationError f m) \<or> (\<exists>m. e = InvalidOperation m))"
  by (cases e) (simp_all add: is_recoverable_def suggested_retry_delay_def severity_def category_def
      less_ErrorSeverity_def)

theorem error_classification_coherent_witness:
  "is_recoverable (Timeout ''BootNotification'' 30000)
   \<and> severity (Timeout ''BootNotification'' 30000) = Error
   \<and> category (Timeout ''BootNotification'' 30000) \<in> {Network, Performance, Resource, System}"
proof -
  have "is_recoverable (Timeout ''BootNotification'' 30000)" by (simp add: is_recoverable_def)
  then show ?thesis
    using error_classification_coherent [of "Timeout ''BootNotification'' 30000"] by blast
qed

end
