(* ===== verification/Connector_State_Machine.thy ===== *)
theory Connector_State_Machine
  imports Errors
begin

text \<open>
  \<open>ocpp-cp/src/state_machine.rs\<close>: the 1.6J connector state machine. The state is the record
  \<open>ConnectorStateMachine\<close>; \<open>process_event\<close>, \<open>force_state\<close> and \<open>clear_history\<close> are its operations.
  The text of an \<open>info\<close> message is kept as the data it is formatted from.
\<close>

section \<open>Data\<close>

datatype StateMachineEvent =
    CablePluggedIn
  | CableUnplugged
  | Authorized string
  | AuthorizationFailed string
  | ChargingStarted
  | ChargingStoppedByEV
  | ChargingStoppedByEVSE
  | ChargingResumed
  | TransactionFinished
  | FaultOccurred ChargePointErrorCode
  | FaultCleared
  | MakeAvailable
  | MakeUnavailable
  | Reserved string
  | ReservationCancelled
  | Reset
  | RemoteStartTransaction string
  | RemoteStopTransaction
  | EmergencyStop

datatype transition_info =
    InvalidTransition ChargePointStatus StateMachineEvent
  | ValidationFailed ChargePointError
  | Forced string

record StateTransition =
  st_from_state :: ChargePointStatus
  st_to_state :: ChargePointStatus
  st_event :: StateMachineEvent
  st_success :: bool
  st_info :: "transition_info option"

definition StateTransition_success ::
  "ChargePointStatus \<Rightarrow> ChargePointStatus \<Rightarrow> StateMachineEvent \<Rightarrow> StateTransition" where
  "StateTransition_success f t e =
     \<lparr>st_from_state = f, st_to_state = t, st_event = e, st_success = True, st_info = None\<rparr>"

definition StateTransition_success_with_info ::
  "ChargePointStatus \<Rightarrow> ChargePointStatus \<Rightarrow> StateMachineEvent \<Rightarrow> transition_info \<Rightarrow> StateTransition" where
  "StateTransition_success_with_info f t e i =
     \<lparr>st_from_state = f, st_to_state = t, st_event = e, st_success = True, st_info = Some i\<rparr>"

definition StateTransition_failed ::
  "ChargePointStatus \<Rightarrow> StateMachineEvent \<Rightarrow> transition_info \<Rightarrow> StateTransition" where
  "StateTransition_failed s e i =
     \<lparr>st_from_state = s, st_to_state = s, st_event = e, st_success = False, st_info = Some i\<rparr>"

record ConnectorStateMachine =
  sm_current_state :: ChargePointStatus
  sm_previous_state :: "ChargePointStatus option"
  sm_transition_history :: "StateTransition list"
  sm_max_history_size :: nat
  sm_valid_transitions :: "(ChargePointStatus \<times> StateMachineEvent, ChargePointStatus) hmap"

section \<open>Operations\<close>

text \<open>The table \<open>initialize_transitions\<close> inserts, row by row; events with data carry empty data.\<close>

definition transition_table :: "((ChargePointStatus \<times> StateMachineEvent) \<times> ChargePointStatus) list" where
  "transition_table = [
     ((ChargePointStatus.Available, CablePluggedIn), Preparing),
     ((ChargePointStatus.Available, StateMachineEvent.Reserved []), ChargePointStatus.Reserved),
     ((ChargePointStatus.Available, MakeUnavailable), ChargePointStatus.Unavailable),
     ((ChargePointStatus.Available, FaultOccurred NoError), ChargePointStatus.Faulted),
     ((ChargePointStatus.Available, Reset), ChargePointStatus.Available),
     ((Preparing, Authorized []), Charging),
     ((Preparing, AuthorizationFailed []), Preparing),
     ((Preparing, CableUnplugged), ChargePointStatus.Available),
     ((Preparing, FaultOccurred NoError), ChargePointStatus.Faulted),
     ((Preparing, MakeUnavailable), ChargePointStatus.Unavailable),
     ((Preparing, TransactionFinished), Finishing),
     ((Preparing, Reset), ChargePointStatus.Available),
     ((Charging, ChargingStoppedByEV), SuspendedEV),
     ((Charging, ChargingStoppedByEVSE), SuspendedEVSE),
     ((Charging, TransactionFinished), Finishing),
     ((Charging, FaultOccurred NoError), ChargePointStatus.Faulted),
     ((Charging, RemoteStopTransaction), Finishing),
     ((Charging, EmergencyStop), Finishing),
     ((Charging, CableUnplugged), ChargePointStatus.Available),
     ((Charging, Reset), ChargePointStatus.Available),
     ((SuspendedEV, ChargingResumed), Charging),
     ((SuspendedEV, TransactionFinished), Finishing),
     ((SuspendedEV, FaultOccurred NoError), ChargePointStatus.Faulted),
     ((SuspendedEV, RemoteStopTransaction), Finishing),
     ((SuspendedEV, CableUnplugged), ChargePointStatus.Available),
     ((SuspendedEV, Reset), ChargePointStatus.Available),
     ((SuspendedEVSE, ChargingResumed), Charging),
     ((SuspendedEVSE, TransactionFinished), Finishing),
     ((SuspendedEVSE, FaultOccurred NoError), ChargePointStatus.Faulted),
     ((SuspendedEVSE, RemoteStopTransaction), Finishing),
     ((SuspendedEVSE, CableUnplugged), ChargePointStatus.Available),
     ((SuspendedEVSE, Reset), ChargePointStatus.Available),
     ((Finishing, CableUnplugged), ChargePointStatus.Available),
     ((Finishing, FaultOccurred NoError), ChargePointStatus.Faulted),
     ((Finishing, MakeUnavailable), ChargePointStatus.Unavailable),
     ((Finishing, Reset), ChargePointStatus.Available),
     ((Finishing, TransactionFinished), ChargePointStatus.Available),
     ((ChargePointStatus.Reserved, CablePluggedIn), Preparing),
     ((ChargePointStatus.Reserved, ReservationCancelled), ChargePointStatus.Available),
     ((ChargePointStatus.Reserved, FaultOccurred NoError), ChargePointStatus.Faulted),
     ((ChargePointStatus.Reserved, MakeUnavailable), ChargePointStatus.Unavailable),
     ((ChargePointStatus.Reserved, RemoteStartTransaction []), Preparing),
     ((ChargePointStatus.Reserved, Reset), ChargePointStatus.Available),
     ((ChargePointStatus.Faulted, FaultCleared), ChargePointStatus.Available),
     ((ChargePointStatus.Faulted, Reset), ChargePointStatus.Available),
     ((ChargePointStatus.Faulted, MakeUnavailable), ChargePointStatus.Unavailable),
     ((ChargePointStatus.Unavailable, MakeAvailable), ChargePointStatus.Available),
     ((ChargePointStatus.Unavailable, FaultOccurred NoError), ChargePointStatus.Faulted),
     ((ChargePointStatus.Unavailable, Reset), ChargePointStatus.Available)]"

definition initialize_transitions :: "ConnectorStateMachine \<Rightarrow> ConnectorStateMachine" where
  "initialize_transitions m =
     m\<lparr>sm_valid_transitions :=
        fold (\<lambda>(k, v) t. AList.update k v t) transition_table (sm_valid_transitions m)\<rparr>"

definition ConnectorStateMachine_new :: "ChargePointStatus \<Rightarrow> ConnectorStateMachine" where
  "ConnectorStateMachine_new s = initialize_transitions
     \<lparr>sm_current_state = s, sm_previous_state = None, sm_transition_history = [],
      sm_max_history_size = 100, sm_valid_transitions = []\<rparr>"

text \<open>The match of \<open>get_next_state\<close>, in its order; the last row is the source's \<open>_ => None\<close>.\<close>

definition next_state :: "ChargePointStatus \<Rightarrow> StateMachineEvent \<Rightarrow> ChargePointStatus option" where
  "next_state s e = (case (s, e) of
      (ChargePointStatus.Available, CablePluggedIn) \<Rightarrow> Some Preparing
    | (ChargePointStatus.Reserved, CablePluggedIn) \<Rightarrow> Some Preparing
    | (ChargePointStatus.Faulted, CablePluggedIn) \<Rightarrow> None
    | (ChargePointStatus.Unavailable, CablePluggedIn) \<Rightarrow> None
    | (Preparing, CableUnplugged) \<Rightarrow> Some ChargePointStatus.Available
    | (Finishing, CableUnplugged) \<Rightarrow> Some ChargePointStatus.Available
    | (Charging, CableUnplugged) \<Rightarrow> Some ChargePointStatus.Available
    | (SuspendedEV, CableUnplugged) \<Rightarrow> Some ChargePointStatus.Available
    | (SuspendedEVSE, CableUnplugged) \<Rightarrow> Some ChargePointStatus.Available
    | (ChargePointStatus.Faulted, CableUnplugged) \<Rightarrow> Some ChargePointStatus.Available
    | (ChargePointStatus.Available, CableUnplugged) \<Rightarrow> None
    | (Preparing, Authorized _) \<Rightarrow> Some Charging
    | (ChargePointStatus.Reserved, Authorized _) \<Rightarrow> Some Charging
    | (Preparing, AuthorizationFailed _) \<Rightarrow> None
    | (Charging, ChargingStoppedByEV) \<Rightarrow> Some SuspendedEV
    | (Charging, ChargingStoppedByEVSE) \<Rightarrow> Some SuspendedEVSE
    | (SuspendedEV, ChargingResumed) \<Rightarrow> Some Charging
    | (SuspendedEVSE, ChargingResumed) \<Rightarrow> Some Charging
    | (Charging, TransactionFinished) \<Rightarrow> Some Finishing
    | (SuspendedEV, TransactionFinished) \<Rightarrow> Some Finishing
    | (SuspendedEVSE, TransactionFinished) \<Rightarrow> Some Finishing
    | (Preparing, TransactionFinished) \<Rightarrow> Some Finishing
    | (Finishing, TransactionFinished) \<Rightarrow> Some ChargePointStatus.Available
    | (Charging, RemoteStopTransaction) \<Rightarrow> Some Finishing
    | (SuspendedEV, RemoteStopTransaction) \<Rightarrow> Some Finishing
    | (SuspendedEVSE, RemoteStopTransaction) \<Rightarrow> Some Finishing
    | (ChargePointStatus.Available, RemoteStartTransaction _) \<Rightarrow> Some Preparing
    | (ChargePointStatus.Reserved, RemoteStartTransaction _) \<Rightarrow> Some Preparing
    | (_, FaultOccurred _) \<Rightarrow> Some ChargePointStatus.Faulted
    | (ChargePointStatus.Faulted, FaultCleared) \<Rightarrow> Some ChargePointStatus.Available
    | (ChargePointStatus.Available, MakeUnavailable) \<Rightarrow> Some ChargePointStatus.Unavailable
    | (Preparing, MakeUnavailable) \<Rightarrow> Some ChargePointStatus.Unavailable
    | (Finishing, MakeUnavailable) \<Rightarrow> Some ChargePointStatus.Unavailable
    | (ChargePointStatus.Reserved, MakeUnavailable) \<Rightarrow> Some ChargePointStatus.Unavailable
    | (ChargePointStatus.Faulted, MakeUnavailable) \<Rightarrow> Some ChargePointStatus.Unavailable
    | (ChargePointStatus.Unavailable, MakeAvailable) \<Rightarrow> Some ChargePointStatus.Available
    | (ChargePointStatus.Available, StateMachineEvent.Reserved _) \<Rightarrow> Some ChargePointStatus.Reserved
    | (ChargePointStatus.Reserved, ReservationCancelled) \<Rightarrow> Some ChargePointStatus.Available
    | (Charging, EmergencyStop) \<Rightarrow> Some Finishing
    | (SuspendedEV, EmergencyStop) \<Rightarrow> Some Finishing
    | (SuspendedEVSE, EmergencyStop) \<Rightarrow> Some Finishing
    | (_, Reset) \<Rightarrow> Some ChargePointStatus.Available
    | _ \<Rightarrow> None)"

definition get_next_state :: "ConnectorStateMachine \<Rightarrow> StateMachineEvent \<Rightarrow> ChargePointStatus option" where
  "get_next_state m e = next_state (sm_current_state m) e"

definition is_valid_transition :: "ConnectorStateMachine \<Rightarrow> StateMachineEvent \<Rightarrow> bool" where
  "is_valid_transition m e = (get_next_state m e \<noteq> None)"

definition validate_transition ::
  "ChargePointStatus \<Rightarrow> ChargePointStatus \<Rightarrow> StateMachineEvent \<Rightarrow> (ChargePointError, unit) result" where
  "validate_transition f t e = (case (f, t, e) of
      (Preparing, Charging, Authorized tag) \<Rightarrow>
        if is_blank tag then Err (ValidationError ''id_tag'' ''ID tag cannot be empty'') else Ok ()
    | (ChargePointStatus.Available, ChargePointStatus.Reserved, StateMachineEvent.Reserved tag) \<Rightarrow>
        if is_blank tag then Err (ValidationError ''id_tag'' ''Reservation ID tag cannot be empty'')
        else Ok ()
    | (_, Preparing, RemoteStartTransaction tag) \<Rightarrow>
        if is_blank tag then Err (ValidationError ''id_tag'' ''Remote start ID tag cannot be empty'')
        else Ok ()
    | (_, ChargePointStatus.Faulted, FaultOccurred c) \<Rightarrow>
        if c = NoError then Err (ValidationError ''error_code'' ''Cannot fault with NoError code'')
        else Ok ()
    | _ \<Rightarrow> Ok ())"

definition add_to_history :: "StateTransition \<Rightarrow> ConnectorStateMachine \<Rightarrow> ConnectorStateMachine" where
  "add_to_history t m = m\<lparr>sm_transition_history :=
     push_bounded (sm_max_history_size m) (sm_transition_history m) t\<rparr>"

text \<open>\<open>process_event\<close> always returns \<open>Ok\<close>: a refused event is a failed transition, not an error.\<close>

definition process_event ::
  "StateMachineEvent \<Rightarrow> ConnectorStateMachine \<Rightarrow> StateTransition \<times> ConnectorStateMachine" where
  "process_event e m = (let f = sm_current_state m in
     case get_next_state m e of
       Some t \<Rightarrow>
         (case validate_transition f t e of
            Inl err \<Rightarrow>
              (let tr = StateTransition_failed f e (ValidationFailed err)
               in (tr, add_to_history tr m))
          | Inr _ \<Rightarrow>
              (let m' = m\<lparr>sm_previous_state := Some (sm_current_state m), sm_current_state := t\<rparr>;
                   tr = StateTransition_success f t e
               in (tr, add_to_history tr m')))
     | None \<Rightarrow>
         (let tr = StateTransition_failed f e (InvalidTransition f e)
          in (tr, add_to_history tr m)))"

definition last_transition :: "ConnectorStateMachine \<Rightarrow> StateTransition option" where
  "last_transition m =
     (if sm_transition_history m = [] then None else Some (last (sm_transition_history m)))"

definition clear_history :: "ConnectorStateMachine \<Rightarrow> ConnectorStateMachine" where
  "clear_history m = m\<lparr>sm_transition_history := []\<rparr>"

definition force_state ::
  "ChargePointStatus \<Rightarrow> string \<Rightarrow> ConnectorStateMachine \<Rightarrow> StateTransition \<times> ConnectorStateMachine" where
  "force_state s reason m = (let f = sm_current_state m;
       m' = m\<lparr>sm_previous_state := Some f, sm_current_state := s\<rparr>;
       tr = StateTransition_success_with_info f s Reset (Forced reason)
     in (tr, add_to_history tr m'))"

definition is_operational :: "ConnectorStateMachine \<Rightarrow> bool" where
  "is_operational m =
     (sm_current_state m \<notin> {ChargePointStatus.Faulted, ChargePointStatus.Unavailable})"

definition is_available_for_transaction :: "ConnectorStateMachine \<Rightarrow> bool" where
  "is_available_for_transaction m =
     (sm_current_state m \<in> {ChargePointStatus.Available, ChargePointStatus.Reserved})"

definition sm_has_active_transaction :: "ConnectorStateMachine \<Rightarrow> bool" where
  "sm_has_active_transaction m =
     (sm_current_state m \<in> {Charging, SuspendedEV, SuspendedEVSE, Finishing})"

primrec valid_events :: "ChargePointStatus \<Rightarrow> StateMachineEvent list" where
  "valid_events ChargePointStatus.Available =
     [CablePluggedIn, StateMachineEvent.Reserved [], MakeUnavailable, FaultOccurred NoError,
      RemoteStartTransaction [], Reset]"
| "valid_events Preparing =
     [Authorized [], AuthorizationFailed [], CableUnplugged, TransactionFinished,
      FaultOccurred NoError, MakeUnavailable, Reset]"
| "valid_events Charging =
     [ChargingStoppedByEV, ChargingStoppedByEVSE, TransactionFinished, RemoteStopTransaction,
      EmergencyStop, FaultOccurred NoError, CableUnplugged, Reset]"
| "valid_events SuspendedEV =
     [ChargingResumed, TransactionFinished, RemoteStopTransaction, EmergencyStop,
      FaultOccurred NoError, CableUnplugged, Reset]"
| "valid_events SuspendedEVSE =
     [ChargingResumed, TransactionFinished, RemoteStopTransaction, EmergencyStop,
      FaultOccurred NoError, CableUnplugged, Reset]"
| "valid_events Finishing =
     [CableUnplugged, TransactionFinished, FaultOccurred NoError, MakeUnavailable, Reset]"
| "valid_events ChargePointStatus.Reserved =
     [CablePluggedIn, ReservationCancelled, RemoteStartTransaction [], FaultOccurred NoError,
      MakeUnavailable, Reset]"
| "valid_events ChargePointStatus.Faulted =
     [FaultCleared, MakeUnavailable, CableUnplugged, Reset]"
| "valid_events ChargePointStatus.Unavailable =
     [MakeAvailable, FaultOccurred NoError, Reset]"

definition get_valid_events :: "ConnectorStateMachine \<Rightarrow> StateMachineEvent list" where
  "get_valid_events m = valid_events (sm_current_state m)"

section \<open>Shape of a step\<close>

text \<open>The data of an event is ignored by the table and by \<open>get_next_state\<close>.\<close>

fun event_kind :: "StateMachineEvent \<Rightarrow> StateMachineEvent" where
  "event_kind (Authorized _) = Authorized []"
| "event_kind (AuthorizationFailed _) = AuthorizationFailed []"
| "event_kind (FaultOccurred _) = FaultOccurred NoError"
| "event_kind (StateMachineEvent.Reserved _) = StateMachineEvent.Reserved []"
| "event_kind (RemoteStartTransaction _) = RemoteStartTransaction []"
| "event_kind e = e"

lemma next_state_kind: "next_state s (event_kind e) = next_state s e"
  by (cases s; cases e) (simp_all add: next_state_def)

text \<open>The target of an event that is both possible and validated.\<close>

definition accepted_target :: "ChargePointStatus \<Rightarrow> StateMachineEvent \<Rightarrow> ChargePointStatus option" where
  "accepted_target s e = (case next_state s e of None \<Rightarrow> None
     | Some t \<Rightarrow> (case validate_transition s t e of Inl _ \<Rightarrow> None | Inr _ \<Rightarrow> Some t))"

lemma process_event_history:
  "process_event e m = (tr, m') \<Longrightarrow>
     sm_transition_history m' = push_bounded (sm_max_history_size m) (sm_transition_history m) tr
     \<and> sm_max_history_size m' = sm_max_history_size m
     \<and> sm_valid_transitions m' = sm_valid_transitions m"
  by (auto simp: process_event_def add_to_history_def Let_def split: option.splits sum.splits)

lemma process_event_states:
  "process_event e m = (tr, m') \<Longrightarrow>
     st_from_state tr = sm_current_state m \<and> st_to_state tr = sm_current_state m' \<and> st_event tr = e"
  by (auto simp: process_event_def add_to_history_def Let_def StateTransition_failed_def
      StateTransition_success_def split: option.splits sum.splits)

lemma process_event_target:
  "process_event e m = (tr, m') \<Longrightarrow>
     sm_current_state m' = unwrap_or (accepted_target (sm_current_state m) e) (sm_current_state m)
     \<and> (st_success tr \<longleftrightarrow> accepted_target (sm_current_state m) e \<noteq> None)
     \<and> sm_previous_state m' = (if st_success tr then Some (sm_current_state m) else sm_previous_state m)"
  by (auto simp: process_event_def add_to_history_def Let_def StateTransition_failed_def
      StateTransition_success_def accepted_target_def get_next_state_def
      split: option.splits sum.splits)

lemma force_state_step:
  "force_state s r m = (tr, m') \<Longrightarrow>
     sm_current_state m' = s \<and> st_from_state tr = sm_current_state m \<and> st_to_state tr = s
     \<and> st_success tr \<and> sm_previous_state m' = Some (sm_current_state m)
     \<and> sm_transition_history m' = push_bounded (sm_max_history_size m) (sm_transition_history m) tr
     \<and> sm_max_history_size m' = sm_max_history_size m"
  by (auto simp: force_state_def add_to_history_def Let_def StateTransition_success_with_info_def)

section \<open>Invariant\<close>

text \<open>
  The history is a chain: each recorded transition starts where the one before it ended, the last
  one ends in the current state, failed ones do not move, and at most 100 are kept.
\<close>

fun chained :: "StateTransition list \<Rightarrow> bool" where
  "chained (a # b # r) \<longleftrightarrow> st_to_state a = st_from_state b \<and> chained (b # r)"
| "chained _ \<longleftrightarrow> True"

lemma chained_tl: "chained xs \<Longrightarrow> chained (tl xs)"
  by (cases xs rule: chained.cases) auto

lemma chained_snoc: "chained (xs @ [t]) \<longleftrightarrow> chained xs \<and> (xs \<noteq> [] \<longrightarrow> st_to_state (last xs) = st_from_state t)"
  by (induction xs rule: chained.induct) auto

definition sm_inv :: "ConnectorStateMachine \<Rightarrow> bool" where
  "sm_inv m \<longleftrightarrow> sm_max_history_size m = 100
     \<and> length (sm_transition_history m) \<le> 100
     \<and> chained (sm_transition_history m)
     \<and> (sm_transition_history m \<noteq> [] \<longrightarrow>
          st_to_state (last (sm_transition_history m)) = sm_current_state m)
     \<and> (\<forall>t\<in>set (sm_transition_history m). \<not> st_success t \<longrightarrow> st_from_state t = st_to_state t)"

lemma sm_inv_push:
  assumes inv: "sm_inv m" and mx: "sm_max_history_size m' = sm_max_history_size m"
    and hist: "sm_transition_history m' = push_bounded (sm_max_history_size m) (sm_transition_history m) tr"
    and from_: "st_from_state tr = sm_current_state m" and to_: "st_to_state tr = sm_current_state m'"
    and failed: "\<not> st_success tr \<Longrightarrow> st_from_state tr = st_to_state tr"
  shows "sm_inv m'"
proof -
  let ?h = "sm_transition_history m"
  let ?k = "if 100 \<le> length ?h then tl ?h else ?h"
  have "chained ?k" using inv by (simp add: sm_inv_def chained_tl)
  moreover have "?k \<noteq> [] \<Longrightarrow> last ?k = last ?h" by (cases ?h) auto
  moreover have "?k \<noteq> [] \<Longrightarrow> ?h \<noteq> []" by (cases ?h) auto
  ultimately have chain: "chained (?k @ [tr])"
    using inv from_ by (auto simp: sm_inv_def chained_snoc simp del: if_split)
  have len: "length (?k @ [tr]) \<le> 100" using inv by (auto simp: sm_inv_def)
  have "set ?k \<subseteq> set ?h" by (cases ?h) auto
  with inv failed have "\<forall>t\<in>set (?k @ [tr]). \<not> st_success t \<longrightarrow> st_from_state t = st_to_state t"
    by (auto simp: sm_inv_def simp del: if_split)
  with chain len inv mx hist to_ show ?thesis
    by (simp add: sm_inv_def push_bounded_def)
qed

text \<open>The commands a machine can be driven with.\<close>

datatype sm_command = Process StateMachineEvent | Force ChargePointStatus string | ClearHistory

primrec sm_exec :: "sm_command \<Rightarrow> ConnectorStateMachine \<Rightarrow> ConnectorStateMachine" where
  "sm_exec (Process e) m = snd (process_event e m)"
| "sm_exec (Force s r) m = snd (force_state s r m)"
| "sm_exec ClearHistory m = clear_history m"

lemma sm_inv_process_event: "sm_inv m \<Longrightarrow> sm_inv (snd (process_event e m))"
proof -
  assume inv: "sm_inv m"
  obtain tr m' where p: "process_event e m = (tr, m')" by (cases "process_event e m")
  have "\<not> st_success tr \<Longrightarrow> st_from_state tr = st_to_state tr"
    using process_event_states [OF p] process_event_target [OF p] by auto
  then have "sm_inv m'"
    using sm_inv_push [OF inv, of m' tr] process_event_history [OF p] process_event_states [OF p]
    by simp
  with p show ?thesis by simp
qed

lemma sm_inv_force_state: "sm_inv m \<Longrightarrow> sm_inv (snd (force_state s r m))"
proof -
  assume inv: "sm_inv m"
  obtain tr m' where p: "force_state s r m = (tr, m')" by (cases "force_state s r m")
  then have "sm_inv m'"
    using sm_inv_push [OF inv, of m' tr] force_state_step [OF p] by simp
  with p show ?thesis by simp
qed

lemma sm_inv_clear_history: "sm_inv m \<Longrightarrow> sm_inv (clear_history m)"
  by (simp add: sm_inv_def clear_history_def)

interpretation sm: machine sm_exec sm_inv
proof
  show "sm_inv (sm_exec c m)" if "sm_inv m" for m c
    using that by (cases c) (simp_all add: sm_inv_process_event sm_inv_force_state sm_inv_clear_history)
qed

lemma sm_inv_new: "sm_inv (ConnectorStateMachine_new s)"
  by (simp add: sm_inv_def ConnectorStateMachine_new_def initialize_transitions_def)

section \<open>Properties\<close>

text \<open>
  \<open>process_event\<close> moves the machine to the target of \<open>get_next_state\<close> exactly when
  there is one and \<open>validate_transition\<close> accepts it, records the previous state then, and
  otherwise leaves the state alone; in every case it returns, and appends to the history, a
  transition from the old to the new state that names the event.
\<close>

theorem process_event_spec:
  assumes "process_event e m = (tr, m')"
  shows "sm_current_state m' =
           (case next_state (sm_current_state m) e of None \<Rightarrow> sm_current_state m
            | Some t \<Rightarrow> if validate_transition (sm_current_state m) t e = Ok () then t
                       else sm_current_state m)
    \<and> (st_success tr \<longleftrightarrow> (\<exists>t. next_state (sm_current_state m) e = Some t
           \<and> validate_transition (sm_current_state m) t e = Ok ()))
    \<and> sm_previous_state m' =
           (if st_success tr then Some (sm_current_state m) else sm_previous_state m)
    \<and> st_from_state tr = sm_current_state m \<and> st_to_state tr = sm_current_state m' \<and> st_event tr = e
    \<and> last_transition m' = Some tr"
  using process_event_target [OF assms] process_event_states [OF assms] process_event_history [OF assms]
  by (auto simp: accepted_target_def last_transition_def split: option.splits sum.splits)

theorem process_event_spec_witness:
  "sm_current_state (snd (process_event (Authorized ''TAG'') (ConnectorStateMachine_new Preparing))) = Charging
   \<and> st_success (fst (process_event (Authorized ''TAG'') (ConnectorStateMachine_new Preparing)))"
proof -
  let ?m = "ConnectorStateMachine_new Preparing"
  have p: "process_event (Authorized ''TAG'') ?m
      = (fst (process_event (Authorized ''TAG'') ?m), snd (process_event (Authorized ''TAG'') ?m))"
    by simp
  have s: "sm_current_state ?m = Preparing"
    by (simp add: ConnectorStateMachine_new_def initialize_transitions_def)
  have v: "next_state Preparing (Authorized ''TAG'') = Some Charging
      \<and> validate_transition Preparing Charging (Authorized ''TAG'') = Ok ()"
    by (simp add: next_state_def validate_transition_def is_blank_def ascii_ws_def ws2_def ws3_def)
  show ?thesis using process_event_spec [OF p] s v by simp
qed

text \<open>
  Under every sequence of events, forced states and history resets, the transition
  history of a new machine stays a chain of at most 100 transitions that ends in the current
  state, and a failed transition in it never moved the connector.
\<close>

theorem history_chain_invariant:
  "let m = fold sm_exec cs (ConnectorStateMachine_new s);
       h = sm_transition_history m
   in length h \<le> 100 \<and> chained h \<and> (h = [] \<or> st_to_state (last h) = sm_current_state m)
      \<and> {t \<in> set h. \<not> st_success t} \<subseteq> {t. st_from_state t = st_to_state t}"
  using sm.run_inv [OF sm_inv_new, of cs s] by (auto simp: sm_inv_def Let_def)

text \<open>
  Energy flows only after an authorization: an event that brings a connector into
  \<open>Charging\<close> is either an \<open>Authorized\<close> event, from \<open>Preparing\<close> with a tag that is not blank or
  from \<open>Reserved\<close>, or the resumption of a suspended session.
\<close>

theorem charging_needs_authorization:
  assumes "process_event e m = (tr, m')"
    and "sm_current_state m \<noteq> Charging" and "sm_current_state m' = Charging"
  shows "(\<exists>tag. e = Authorized tag \<and> (sm_current_state m = Preparing \<and> \<not> is_blank tag
            \<or> sm_current_state m = ChargePointStatus.Reserved))
         \<or> (e = ChargingResumed \<and> sm_current_state m \<in> {SuspendedEV, SuspendedEVSE})"
  using process_event_target [OF assms(1)] assms(2,3)
  by (cases "sm_current_state m"; cases e)
    (auto simp: accepted_target_def next_state_def validate_transition_def split: if_splits)

theorem charging_needs_authorization_witness:
  "\<exists>tr m'. process_event (Authorized ''TAG'') (ConnectorStateMachine_new Preparing) = (tr, m')
     \<and> sm_current_state m' = Charging \<and> \<not> is_blank ''TAG''"
proof -
  let ?m = "ConnectorStateMachine_new Preparing"
  obtain tr m' where p: "process_event (Authorized ''TAG'') ?m = (tr, m')"
    by (cases "process_event (Authorized ''TAG'') ?m")
  have s: "sm_current_state ?m = Preparing"
    by (simp add: ConnectorStateMachine_new_def initialize_transitions_def)
  have "sm_current_state m' = Charging"
    using process_event_target [OF p] s
    by (simp add: accepted_target_def next_state_def validate_transition_def is_blank_def
        ascii_ws_def ws2_def ws3_def)
  with p s charging_needs_authorization [OF p] show ?thesis by auto
qed

primrec path_to :: "ChargePointStatus \<Rightarrow> StateMachineEvent list" where
  "path_to ChargePointStatus.Available = [Reset]"
| "path_to Preparing = [Reset, CablePluggedIn]"
| "path_to Charging = [Reset, CablePluggedIn, Authorized ''TAG'']"
| "path_to SuspendedEV = [Reset, CablePluggedIn, Authorized ''TAG'', ChargingStoppedByEV]"
| "path_to SuspendedEVSE = [Reset, CablePluggedIn, Authorized ''TAG'', ChargingStoppedByEVSE]"
| "path_to Finishing = [Reset, CablePluggedIn, Authorized ''TAG'', TransactionFinished]"
| "path_to ChargePointStatus.Reserved = [Reset, StateMachineEvent.Reserved ''TAG'']"
| "path_to ChargePointStatus.Faulted = [Reset, FaultOccurred GroundFailure]"
| "path_to ChargePointStatus.Unavailable = [Reset, MakeUnavailable]"

lemma current_state_process_event:
  "sm_current_state (snd (process_event e m))
   = unwrap_or (accepted_target (sm_current_state m) e) (sm_current_state m)"
  using process_event_target [of e m "fst (process_event e m)"] by simp

lemma accepted_target_Reset [simp]: "accepted_target s Reset = Some ChargePointStatus.Available"
  by (cases s) (simp_all add: accepted_target_def next_state_def validate_transition_def)

lemma tag_not_blank: "\<not> is_blank ''TAG''"
  by (simp add: is_blank_def ascii_ws_def ws2_def ws3_def)

lemma accepted_target_path:
  "accepted_target ChargePointStatus.Available CablePluggedIn = Some Preparing"
  "accepted_target Preparing (Authorized ''TAG'') = Some Charging"
  "accepted_target Charging ChargingStoppedByEV = Some SuspendedEV"
  "accepted_target Charging ChargingStoppedByEVSE = Some SuspendedEVSE"
  "accepted_target Charging TransactionFinished = Some Finishing"
  "accepted_target ChargePointStatus.Available (StateMachineEvent.Reserved ''TAG'') = Some ChargePointStatus.Reserved"
  "accepted_target ChargePointStatus.Available (FaultOccurred GroundFailure) = Some ChargePointStatus.Faulted"
  "accepted_target ChargePointStatus.Available MakeUnavailable = Some ChargePointStatus.Unavailable"
  by (simp_all add: accepted_target_def next_state_def validate_transition_def tag_not_blank)

text \<open>
  No connector state is a dead end or an orphan: from any machine, whatever its
  state, some sequence of events leads to each of the nine states.
\<close>

theorem every_state_reachable:
  "\<exists>es. sm_current_state (fold (\<lambda>e m'. snd (process_event e m')) es m) = s"
proof
  show "sm_current_state (fold (\<lambda>e m'. snd (process_event e m')) (path_to s) m) = s"
    by (cases s) (simp_all add: current_state_process_event accepted_target_path)
qed

text \<open>
  \<open>get_valid_events\<close> lists an event kind exactly when \<open>is_valid_transition\<close> accepts
  it, with three exceptions: it lists \<open>AuthorizationFailed\<close> in \<open>Preparing\<close>, which is not a
  transition, and omits \<open>Authorized\<close> in \<open>Reserved\<close> and \<open>FaultOccurred\<close> in \<open>Faulted\<close>, which are.
\<close>

theorem get_valid_events_exact:
  "(event_kind e \<in> set (get_valid_events m) \<longleftrightarrow> is_valid_transition m e) \<longleftrightarrow>
   \<not> (sm_current_state m = Preparing \<and> event_kind e = AuthorizationFailed []
     \<or> sm_current_state m = ChargePointStatus.Reserved \<and> event_kind e = Authorized []
     \<or> sm_current_state m = ChargePointStatus.Faulted \<and> event_kind e = FaultOccurred NoError)"
  by (cases "sm_current_state m"; cases e)
    (simp_all add: get_valid_events_def is_valid_transition_def get_next_state_def next_state_def)

lemma table_lookup:
  "map_of (sm_valid_transitions (ConnectorStateMachine_new s0)) k = map_of transition_table k"
proof -
  have fold_upd: "map_of (fold (\<lambda>(k, v) t. AList.update k v t) xs acc) k
      = (case map_of (rev xs) k of None \<Rightarrow> map_of acc k | Some v \<Rightarrow> Some v)" for xs acc
    by (induction xs arbitrary: acc)
      (auto simp: hm_get_update map_add_def split: option.splits)
  have "distinct (map fst transition_table)" by (simp add: transition_table_def)
  then have "map_of (rev transition_table) = map_of transition_table"
    by (intro map_of_eqI) (auto simp: rev_map [symmetric])
  then show ?thesis
    using fold_upd [of transition_table "[]"]
    by (simp add: ConnectorStateMachine_new_def initialize_transitions_def split: option.splits)
qed

text \<open>
  The table built by \<open>initialize_transitions\<close> is not what drives the machine: it
  disagrees with \<open>get_next_state\<close> on exactly seven pairs of a state and an event kind.
\<close>

theorem transition_table_disagrees:
  "map_of (sm_valid_transitions (ConnectorStateMachine_new s0)) (s, event_kind e) \<noteq> next_state s e \<longleftrightarrow>
   (s, event_kind e) \<in> {(Preparing, AuthorizationFailed []),
     (ChargePointStatus.Available, RemoteStartTransaction []),
     (ChargePointStatus.Reserved, Authorized []),
     (ChargePointStatus.Faulted, CableUnplugged),
     (ChargePointStatus.Faulted, FaultOccurred NoError),
     (SuspendedEV, EmergencyStop), (SuspendedEVSE, EmergencyStop)}"
  unfolding table_lookup
  by (cases s; cases e) (simp_all add: transition_table_def next_state_def)

end
