(* ===== verification/Transactions.thy ===== *)
theory Transactions
  imports Errors
begin

text \<open>
  \<open>ocpp-cp/src/transaction.rs\<close>: the lifecycle of one transaction (\<open>Transaction\<close>), its recorded
  meter values, and the \<open>TransactionManager\<close> with its active transactions and bounded history.
  The clock (\<open>chrono::Utc::now()\<close>) is an argument of every operation that reads it.
\<close>

section \<open>Data\<close>

datatype TransactionState = Starting | Active | Suspended | Stopping | Stopped | Failed

datatype StopReason =
    EmergencyStop | EVDisconnected | HardReset | Local | Other | PowerLoss | Reboot | Remote
  | SoftReset | UnlockCommand | DeAuthorized

primrec StopReason_display :: "StopReason \<Rightarrow> string" where
  "StopReason_display EmergencyStop = ''EmergencyStop''"
| "StopReason_display EVDisconnected = ''EVDisconnected''"
| "StopReason_display HardReset = ''HardReset''"
| "StopReason_display Local = ''Local''"
| "StopReason_display Other = ''Other''"
| "StopReason_display PowerLoss = ''PowerLoss''"
| "StopReason_display Reboot = ''Reboot''"
| "StopReason_display Remote = ''Remote''"
| "StopReason_display SoftReset = ''SoftReset''"
| "StopReason_display UnlockCommand = ''UnlockCommand''"
| "StopReason_display DeAuthorized = ''DeAuthorized''"

definition StopReason_from :: "string \<Rightarrow> StopReason" where
  "StopReason_from s =
     (if s = ''EmergencyStop'' then EmergencyStop
      else if s = ''EVDisconnected'' then EVDisconnected
      else if s = ''HardReset'' then HardReset
      else if s = ''Local'' then Local
      else if s = ''PowerLoss'' then PowerLoss
      else if s = ''Reboot'' then Reboot
      else if s = ''Remote'' then Remote
      else if s = ''SoftReset'' then SoftReset
      else if s = ''UnlockCommand'' then UnlockCommand
      else if s = ''DeAuthorized'' then DeAuthorized
      else Other)"

text \<open>The \<open>f32\<close> samples are only stored, so they are values of the \<open>f64\<close> model.\<close>

type_synonym f32 = f64

record MeterValue =
  mv_timestamp :: datetime
  mv_energy_wh :: i32
  mv_power_w :: "f32 option"
  mv_voltage_v :: "f32 option"
  mv_current_a :: "f32 option"
  mv_temperature_c :: "f32 option"
  mv_soc_percent :: "f32 option"

definition MeterValue_new :: "datetime \<Rightarrow> i32 \<Rightarrow> MeterValue" where
  "MeterValue_new now energy =
     \<lparr>mv_timestamp = now, mv_energy_wh = energy, mv_power_w = None, mv_voltage_v = None,
      mv_current_a = None, mv_temperature_c = None, mv_soc_percent = None\<rparr>"

record TransactionData =
  td_transaction_id :: TransactionId
  td_connector_id :: ConnectorId
  td_id_tag :: string
  td_start_time :: datetime
  td_stop_time :: "datetime option"
  td_meter_start :: i32
  td_meter_stop :: "i32 option"
  td_state :: TransactionState
  td_stop_reason :: "StopReason option"
  td_reservation_id :: "i32 option"
  td_meter_values :: "MeterValue list"
  td_max_meter_values :: nat

section \<open>Transaction data\<close>

definition TransactionData_new ::
  "datetime \<Rightarrow> TransactionId \<Rightarrow> ConnectorId \<Rightarrow> string \<Rightarrow> i32 \<Rightarrow> TransactionData" where
  "TransactionData_new now tid cid tag meter =
     \<lparr>td_transaction_id = tid, td_connector_id = cid, td_id_tag = tag, td_start_time = now,
      td_stop_time = None, td_meter_start = meter, td_meter_stop = None, td_state = Starting,
      td_stop_reason = None, td_reservation_id = None, td_meter_values = [],
      td_max_meter_values = 1000\<rparr>"

definition add_meter_value :: "MeterValue \<Rightarrow> TransactionData \<Rightarrow> TransactionData" where
  "add_meter_value v d =
     d\<lparr>td_meter_values := push_bounded (td_max_meter_values d) (td_meter_values d) v\<rparr>"

definition latest_meter_value :: "TransactionData \<Rightarrow> MeterValue option" where
  "latest_meter_value d =
     (if td_meter_values d = [] then None else Some (last (td_meter_values d)))"

definition energy_consumed :: "TransactionData \<Rightarrow> i32" where
  "energy_consumed d = (case latest_meter_value d of
      Some latest \<Rightarrow> mv_energy_wh latest - td_meter_start d
    | None \<Rightarrow> 0)"

definition duration_of :: "datetime \<Rightarrow> TransactionData \<Rightarrow> int" where
  "duration_of now d = unwrap_or (td_stop_time d) now - td_start_time d"

definition is_active :: "TransactionData \<Rightarrow> bool" where
  "is_active d = (td_state d \<in> {Active, Suspended})"

definition is_finished :: "TransactionData \<Rightarrow> bool" where
  "is_finished d = (td_state d \<in> {Stopped, Failed})"

section \<open>Transactions\<close>

text \<open>
  \<open>Transaction\<close> wraps its data. The refusals are \<open>anyhow\<close> errors that name the state.
\<close>

type_synonym Transaction = TransactionData

datatype transaction_error =
    CannotStart TransactionState
  | CannotSuspend TransactionState
  | CannotResume TransactionState
  | AlreadyActive ConnectorId

text \<open>\<open>Transaction::new\<close> takes its id from the clock: the milliseconds truncated to 32 bits.\<close>

definition timestamp_millis :: "datetime \<Rightarrow> int" where
  "timestamp_millis now = now div 1000000"

definition Transaction_new :: "datetime \<Rightarrow> ConnectorId \<Rightarrow> string \<Rightarrow> i32 \<Rightarrow> Transaction" where
  "Transaction_new now cid tag meter =
     TransactionData_new now (TransactionId (word_of_int (timestamp_millis now))) cid tag meter"

definition Transaction_with_id ::
  "datetime \<Rightarrow> TransactionId \<Rightarrow> ConnectorId \<Rightarrow> string \<Rightarrow> i32 \<Rightarrow> Transaction" where
  "Transaction_with_id now tid cid tag meter = TransactionData_new now tid cid tag meter"

definition set_reservation_id :: "i32 option \<Rightarrow> Transaction \<Rightarrow> Transaction" where
  "set_reservation_id r t = t\<lparr>td_reservation_id := r\<rparr>"

definition start :: "Transaction \<Rightarrow> (transaction_error, Transaction) result" where
  "start t = (if td_state t \<noteq> Starting then Err (CannotStart (td_state t))
              else Ok (t\<lparr>td_state := Active\<rparr>))"

definition suspend :: "Transaction \<Rightarrow> (transaction_error, Transaction) result" where
  "suspend t = (if td_state t \<noteq> Active then Err (CannotSuspend (td_state t))
                else Ok (t\<lparr>td_state := Suspended\<rparr>))"

definition resume :: "Transaction \<Rightarrow> (transaction_error, Transaction) result" where
  "resume t = (if td_state t \<noteq> Suspended then Err (CannotResume (td_state t))
               else Ok (t\<lparr>td_state := Active\<rparr>))"

definition stop :: "datetime \<Rightarrow> string \<Rightarrow> Transaction \<Rightarrow> Transaction" where
  "stop now reason t =
     (if td_state t = Stopped \<or> td_state t = Failed then t
      else let t1 = t\<lparr>td_state := Stopping, td_stop_time := Some now,
                      td_stop_reason := Some (StopReason_from reason)\<rparr>;
               t2 = (case latest_meter_value t1 of
                       Some latest \<Rightarrow> t1\<lparr>td_meter_stop := Some (mv_energy_wh latest)\<rparr>
                     | None \<Rightarrow> t1\<lparr>td_meter_stop := Some (td_meter_start t1)\<rparr>)
           in t2\<lparr>td_state := Stopped\<rparr>)"

definition fail :: "datetime \<Rightarrow> string \<Rightarrow> Transaction \<Rightarrow> Transaction" where
  "fail now reason t =
     t\<lparr>td_state := Failed, td_stop_time := Some now,
       td_stop_reason := Some (StopReason_from reason)\<rparr>"

definition update_meter_reading :: "datetime \<Rightarrow> i32 \<Rightarrow> Transaction \<Rightarrow> Transaction" where
  "update_meter_reading now energy t = add_meter_value (MeterValue_new now energy) t"

definition meter_values_in_range :: "datetime \<Rightarrow> datetime \<Rightarrow> Transaction \<Rightarrow> MeterValue list" where
  "meter_values_in_range lo hi t =
     filter (\<lambda>v. lo \<le> mv_timestamp v \<and> mv_timestamp v \<le> hi) (td_meter_values t)"

lemmas transaction_defs = start_def suspend_def resume_def stop_def fail_def
  update_meter_reading_def add_meter_value_def set_reservation_id_def

section \<open>The transaction manager\<close>

record TransactionManager =
  tm_transactions :: "(ConnectorId, Transaction) hmap"
  tm_history :: "TransactionData list"
  tm_max_history_size :: nat
  tm_next_transaction_id :: i32

definition TransactionManager_new :: TransactionManager where
  "TransactionManager_new =
     \<lparr>tm_transactions = [], tm_history = [], tm_max_history_size = 1000,
      tm_next_transaction_id = 1\<rparr>"

definition create_transaction ::
  "datetime \<Rightarrow> ConnectorId \<Rightarrow> string \<Rightarrow> i32 \<Rightarrow> i32 option \<Rightarrow> TransactionManager \<Rightarrow>
   (transaction_error, TransactionId) result \<times> TransactionManager" where
  "create_transaction now cid tag meter resv m =
     (if hm_contains (tm_transactions m) cid then (Err (AlreadyActive cid), m)
      else let tid = TransactionId (tm_next_transaction_id m);
               m1 = m\<lparr>tm_next_transaction_id := tm_next_transaction_id m + 1\<rparr>;
               t = set_reservation_id resv (Transaction_with_id now tid cid tag meter)
           in (Ok tid, m1\<lparr>tm_transactions := AList.update cid t (tm_transactions m1)\<rparr>))"

definition get_transaction :: "TransactionManager \<Rightarrow> ConnectorId \<Rightarrow> Transaction option" where
  "get_transaction m cid = map_of (tm_transactions m) cid"

text \<open>An update through \<open>get_transaction_mut\<close>.\<close>

definition with_transaction_mut ::
  "ConnectorId \<Rightarrow> (Transaction \<Rightarrow> Transaction) \<Rightarrow> TransactionManager \<Rightarrow> TransactionManager" where
  "with_transaction_mut cid f m = (case map_of (tm_transactions m) cid of
      None \<Rightarrow> m
    | Some t \<Rightarrow> m\<lparr>tm_transactions := AList.update cid (f t) (tm_transactions m)\<rparr>)"

definition stop_transaction ::
  "datetime \<Rightarrow> ConnectorId \<Rightarrow> string \<Rightarrow> TransactionManager \<Rightarrow>
   TransactionData option \<times> TransactionManager" where
  "stop_transaction now cid reason m = (case map_of (tm_transactions m) cid of
      None \<Rightarrow> (None, m)
    | Some t \<Rightarrow>
        (let d = stop now reason t
         in (Some d, m\<lparr>tm_transactions := AList.delete cid (tm_transactions m),
                       tm_history := push_bounded (tm_max_history_size m) (tm_history m) d\<rparr>)))"

definition clear_old_history :: "datetime \<Rightarrow> TransactionManager \<Rightarrow> TransactionManager" where
  "clear_old_history older_than m =
     m\<lparr>tm_history := filter (\<lambda>d. older_than \<le> td_start_time d) (tm_history m)\<rparr>"

record TransactionStatistics =
  ts_active_transactions :: nat
  ts_total_transactions :: nat
  ts_completed_transactions :: nat
  ts_failed_transactions :: nat
  ts_total_energy_wh :: i32

definition statistics :: "TransactionManager \<Rightarrow> TransactionStatistics" where
  "statistics m =
     (let active_count = length (tm_transactions m)
      in \<lparr>ts_active_transactions = active_count,
          ts_total_transactions = length (tm_history m) + active_count,
          ts_completed_transactions = length (filter (\<lambda>d. td_state d = Stopped) (tm_history m)),
          ts_failed_transactions = length (filter (\<lambda>d. td_state d = Failed) (tm_history m)),
          ts_total_energy_wh = sum_list (map energy_consumed (tm_history m))\<rparr>)"

section \<open>Lifecycle of a transaction\<close>

datatype transaction_command =
    Start | Suspend | Resume | Stop datetime string | Fail datetime string
  | UpdateMeter datetime i32 | AddMeterValue MeterValue | SetReservation "i32 option"

primrec transaction_exec :: "transaction_command \<Rightarrow> Transaction \<Rightarrow> Transaction" where
  "transaction_exec Start t = (case start t of Inl _ \<Rightarrow> t | Inr t' \<Rightarrow> t')"
| "transaction_exec Suspend t = (case suspend t of Inl _ \<Rightarrow> t | Inr t' \<Rightarrow> t')"
| "transaction_exec Resume t = (case resume t of Inl _ \<Rightarrow> t | Inr t' \<Rightarrow> t')"
| "transaction_exec (Stop now r) t = stop now r t"
| "transaction_exec (Fail now r) t = fail now r t"
| "transaction_exec (UpdateMeter now e) t = update_meter_reading now e t"
| "transaction_exec (AddMeterValue v) t = add_meter_value v t"
| "transaction_exec (SetReservation r) t = set_reservation_id r t"

lemmas transaction_exec_defs = transaction_defs Let_def

text \<open>What no command of a transaction changes.\<close>

lemma transaction_exec_frame:
  "td_transaction_id (transaction_exec c t) = td_transaction_id t
   \<and> td_connector_id (transaction_exec c t) = td_connector_id t
   \<and> td_id_tag (transaction_exec c t) = td_id_tag t
   \<and> td_start_time (transaction_exec c t) = td_start_time t
   \<and> td_meter_start (transaction_exec c t) = td_meter_start t
   \<and> td_max_meter_values (transaction_exec c t) = td_max_meter_values t"
  by (cases c) (auto simp: transaction_exec_defs split: option.splits sum.splits)

lemma stop_state: "is_finished (stop now r t)"
  by (auto simp: stop_def is_finished_def Let_def split: option.splits)

lemma stop_id [simp]: "td_transaction_id (stop now r t) = td_transaction_id t"
  using transaction_exec_frame [of "Stop now r" t] by simp

text \<open>
  The invariant of one transaction: at most 1000 meter values; a stop time, a stop reason and a
  finished state come together, and a stopped transaction has its final meter value.
\<close>

definition transaction_inv :: "Transaction \<Rightarrow> bool" where
  "transaction_inv t \<longleftrightarrow> td_max_meter_values t = 1000
     \<and> length (td_meter_values t) \<le> 1000
     \<and> td_state t \<noteq> Stopping
     \<and> (td_stop_time t \<noteq> None \<longleftrightarrow> is_finished t)
     \<and> (td_stop_reason t \<noteq> None \<longleftrightarrow> is_finished t)
     \<and> (td_state t = Stopped \<longrightarrow> td_meter_stop t \<noteq> None)"

lemma transaction_inv_new: "transaction_inv (TransactionData_new now tid cid tag meter)"
  by (simp add: transaction_inv_def TransactionData_new_def is_finished_def)

interpretation tx: machine transaction_exec transaction_inv
proof
  show "transaction_inv (transaction_exec c t)" if "transaction_inv t" for t c
    using that length_push_bounded [of 1000 "td_meter_values t"]
    by (cases c) (auto simp: transaction_exec_defs transaction_inv_def is_finished_def
        split: option.splits sum.splits if_splits)
qed

text \<open>
  A transaction, however its operations are interleaved, keeps its identity (id,
  connector, tag, start time, start reading), never stays in \<open>Stopping\<close>, holds at most 1000 meter
  values, and carries a stop time and a stop reason exactly when it is finished; a stopped one
  has its final meter value.
\<close>

theorem transaction_lifecycle_invariant:
  "let t = fold transaction_exec cs (Transaction_with_id now tid cid tag meter)
   in td_transaction_id t = tid \<and> td_connector_id t = cid \<and> td_id_tag t = tag
    \<and> td_start_time t = now \<and> td_meter_start t = meter
    \<and> td_state t \<noteq> Stopping
    \<and> length (td_meter_values t) \<le> 1000
    \<and> (td_stop_time t \<noteq> None \<longleftrightarrow> is_finished t) \<and> (td_stop_reason t \<noteq> None \<longleftrightarrow> is_finished t)
    \<and> (td_state t = Stopped \<longrightarrow> td_meter_stop t \<noteq> None)"
proof -
  let ?init = "Transaction_with_id now tid cid tag meter"
  let ?t = "fold transaction_exec cs ?init"
  have "transaction_inv ?t"
    by (rule tx.run_inv) (simp add: Transaction_with_id_def transaction_inv_new)
  moreover have "td_transaction_id (fold transaction_exec cs u) = td_transaction_id u
      \<and> td_connector_id (fold transaction_exec cs u) = td_connector_id u
      \<and> td_id_tag (fold transaction_exec cs u) = td_id_tag u
      \<and> td_start_time (fold transaction_exec cs u) = td_start_time u
      \<and> td_meter_start (fold transaction_exec cs u) = td_meter_start u" for u
    by (induction cs arbitrary: u) (simp_all add: transaction_exec_frame)
  from this [of ?init] have "td_transaction_id ?t = tid \<and> td_connector_id ?t = cid
      \<and> td_id_tag ?t = tag \<and> td_start_time ?t = now \<and> td_meter_start ?t = meter"
    by (simp add: Transaction_with_id_def TransactionData_new_def)
  ultimately show ?thesis by (simp add: transaction_inv_def Let_def)
qed

theorem transaction_lifecycle_invariant_witness:
  "td_state (fold transaction_exec [Start, UpdateMeter 7 1500, Stop 9 ''Remote'']
      (Transaction_with_id 5 (TransactionId 1) (ConnectorId 1) ''TAG'' 1000)) = Stopped
   \<and> td_meter_stop (fold transaction_exec [Start, UpdateMeter 7 1500, Stop 9 ''Remote'']
      (Transaction_with_id 5 (TransactionId 1) (ConnectorId 1) ''TAG'' 1000)) \<noteq> None"
proof -
  let ?t = "fold transaction_exec [Start, UpdateMeter 7 1500, Stop 9 ''Remote'']
      (Transaction_with_id 5 (TransactionId 1) (ConnectorId 1) ''TAG'' 1000)"
  have "td_state ?t = Stopped"
    by (simp add: transaction_exec_defs Transaction_with_id_def TransactionData_new_def
        latest_meter_value_def split: option.splits)
  then show ?thesis
    using transaction_lifecycle_invariant
      [of "[Start, UpdateMeter 7 1500, Stop 9 ''Remote'']" 5 "TransactionId 1" "ConnectorId 1" "''TAG''" 1000]
    unfolding Let_def by blast
qed

text \<open>
  Stopping a running transaction records the time, the reason and the final meter
  value (the latest sample, or the start reading when there is none), and is final for the
  guarded operations: stopping again changes nothing and \<open>start\<close>, \<open>suspend\<close> and \<open>resume\<close> are refused.
\<close>

theorem stop_spec:
  assumes "\<not> is_finished t"
  shows "stop now reason t = t\<lparr>td_stop_time := Some now, td_stop_reason := Some (StopReason_from reason),
           td_meter_stop := Some (case latest_meter_value t of None \<Rightarrow> td_meter_start t
                                  | Some v \<Rightarrow> mv_energy_wh v),
           td_state := Stopped\<rparr>
    \<and> stop now' reason' (stop now reason t) = stop now reason t
    \<and> (\<exists>e1 e2 e3. start (stop now reason t) = Err e1 \<and> suspend (stop now reason t) = Err e2
         \<and> resume (stop now reason t) = Err e3)"
  using assms
  by (auto simp: transaction_exec_defs is_finished_def latest_meter_value_def split: option.splits)

theorem stop_spec_witness:
  "td_meter_stop (stop 9 ''Remote'' (update_meter_reading 7 1500
      (Transaction_with_id 5 (TransactionId 1) (ConnectorId 1) ''TAG'' 1000))) = Some 1500"
proof -
  let ?t = "update_meter_reading 7 1500 (Transaction_with_id 5 (TransactionId 1) (ConnectorId 1) ''TAG'' 1000)"
  have "\<not> is_finished ?t"
    by (simp add: is_finished_def update_meter_reading_def add_meter_value_def Transaction_with_id_def
        TransactionData_new_def)
  then have "td_meter_stop (stop 9 ''Remote'' ?t)
      = Some (case latest_meter_value ?t of None \<Rightarrow> td_meter_start ?t | Some v \<Rightarrow> mv_energy_wh v)"
    using stop_spec [of ?t 9 "''Remote''" 9 "''Remote''"] by simp
  then show ?thesis
    by (simp add: latest_meter_value_def update_meter_reading_def add_meter_value_def
        Transaction_with_id_def TransactionData_new_def MeterValue_new_def)
qed

text \<open>
  The energy of a stopped transaction is the difference of its two readings as long
  as the reading did not go backwards and stays within the 32-bit range.
\<close>

theorem energy_no_wrap:
  assumes "0 \<le> sint (td_meter_start t)"
    and "latest_meter_value t = Some v" and "sint (td_meter_start t) \<le> sint (mv_energy_wh v)"
  shows "sint (energy_consumed t) = sint (mv_energy_wh v) - sint (td_meter_start t)"
proof -
  have "sint (mv_energy_wh v - td_meter_start t) = sint (mv_energy_wh v) - sint (td_meter_start t)"
    using assms(1,3) sint_i32_range [of "mv_energy_wh v"] by (intro sint_i32_diff) linarith+
  with assms(2) show ?thesis by (simp add: energy_consumed_def)
qed

theorem energy_no_wrap_witness:
  "sint (energy_consumed (update_meter_reading 7 1500
      (Transaction_with_id 5 (TransactionId 1) (ConnectorId 1) ''TAG'' 1000))) = 500"
proof -
  let ?t = "update_meter_reading 7 1500 (Transaction_with_id 5 (TransactionId 1) (ConnectorId 1) ''TAG'' 1000)"
  have m: "td_meter_start ?t = 1000" and l: "latest_meter_value ?t = Some (MeterValue_new 7 1500)"
    by (simp_all add: latest_meter_value_def update_meter_reading_def add_meter_value_def
        Transaction_with_id_def TransactionData_new_def)
  have e: "mv_energy_wh (MeterValue_new 7 1500) = 1500" by (simp add: MeterValue_new_def)
  show ?thesis using energy_no_wrap [of ?t, OF _ l] by (simp add: m e)
qed

text \<open>
  The textual stop reasons round-trip, and every other text is \<open>Other\<close>.
\<close>

theorem StopReason_roundtrip:
  "StopReason_from (StopReason_display r) = r
   \<and> (StopReason_display (StopReason_from s) = s \<or> StopReason_from s = Other)"
  by (cases r) (simp_all add: StopReason_from_def)

section \<open>The manager: unique ids and a truthful history\<close>

datatype manager_command =
    Create datetime ConnectorId string i32 "i32 option"
  | Mutate ConnectorId transaction_command
  | StopTransaction datetime ConnectorId string
  | ClearOldHistory datetime

primrec manager_exec :: "manager_command \<Rightarrow> TransactionManager \<Rightarrow> TransactionManager" where
  "manager_exec (Create now c tag meter r) m = snd (create_transaction now c tag meter r m)"
| "manager_exec (Mutate c cmd) m = with_transaction_mut c (transaction_exec cmd) m"
| "manager_exec (StopTransaction now c r) m = snd (stop_transaction now c r m)"
| "manager_exec (ClearOldHistory d) m = clear_old_history d m"

fun is_create :: "manager_command \<Rightarrow> bool" where
  "is_create (Create _ _ _ _ _) = True"
| "is_create _ = False"

definition active_ids :: "TransactionManager \<Rightarrow> TransactionId list" where
  "active_ids m = map (td_transaction_id \<circ> snd) (tm_transactions m)"

definition history_ids :: "TransactionManager \<Rightarrow> TransactionId list" where
  "history_ids m = map td_transaction_id (tm_history m)"

definition manager_inv :: "TransactionManager \<Rightarrow> bool" where
  "manager_inv m \<longleftrightarrow> hm_wf (tm_transactions m)
     \<and> tm_max_history_size m = 1000 \<and> length (tm_history m) \<le> 1000
     \<and> 1 \<le> sint (tm_next_transaction_id m)
     \<and> distinct (active_ids m @ history_ids m)
     \<and> (\<forall>i\<in>set (active_ids m @ history_ids m).
          1 \<le> sint (transaction_value i) \<and> sint (transaction_value i) < sint (tm_next_transaction_id m))
     \<and> (\<forall>d\<in>set (tm_history m). is_finished d)
     \<and> (\<forall>(c, t)\<in>set (tm_transactions m). td_connector_id t = c)"

lemma manager_inv_new: "manager_inv TransactionManager_new"
  by (simp add: manager_inv_def TransactionManager_new_def active_ids_def history_ids_def)

text \<open>Three facts about association lists that the ids need.\<close>

lemma update_fresh: "map_of m k = None \<Longrightarrow> AList.update k v m = m @ [(k, v)]"
  by (induction m) auto

lemma map_update_same:
  "map_of m k = Some t \<Longrightarrow> g v = g t \<Longrightarrow> map (g \<circ> snd) (AList.update k v m) = map (g \<circ> snd) m"
  by (induction m) (auto split: if_splits)

lemma set_update_subset: "set (AList.update k v m) \<subseteq> insert (k, v) (set m)"
  by (induction m) auto

lemma delete_drops_value:
  assumes "hm_wf m" and "map_of m k = Some t" and "distinct (map (g \<circ> snd) m)"
  shows "g t \<notin> set (map (g \<circ> snd) (AList.delete k m))"
proof
  assume "g t \<in> set (map (g \<circ> snd) (AList.delete k m))"
  then obtain k' t' where kt: "(k', t') \<in> set m" "k' \<noteq> k" "g t' = g t"
    by (auto simp: AList.delete_eq)
  moreover have "(k, t) \<in> set m" using assms(2) by (rule map_of_SomeD)
  ultimately have "(k', t') = (k, t)"
    using assms(3) inj_onD [of "g \<circ> snd" "set m" "(k', t')" "(k, t)"] by (simp add: distinct_map)
  with kt show False by simp
qed

lemma manager_inv_create:
  assumes inv: "manager_inv m" and room: "sint (tm_next_transaction_id m) + 1 < 2 ^ 31"
  shows "manager_inv (snd (create_transaction now c tag meter r m))"
    and "sint (tm_next_transaction_id (snd (create_transaction now c tag meter r m)))
         \<le> sint (tm_next_transaction_id m) + 1"
proof -
  have next_id: "sint (tm_next_transaction_id m + 1) = sint (tm_next_transaction_id m) + 1"
    using room inv by (subst sint_i32_add) (simp_all add: manager_inv_def)
  then show "sint (tm_next_transaction_id (snd (create_transaction now c tag meter r m)))
      \<le> sint (tm_next_transaction_id m) + 1"
    by (simp add: create_transaction_def Let_def)
  show "manager_inv (snd (create_transaction now c tag meter r m))"
  proof (cases "hm_contains (tm_transactions m) c")
    case True
    with inv show ?thesis by (simp add: create_transaction_def)
  next
    case False
    then have fresh: "map_of (tm_transactions m) c = None" by (simp add: hm_contains_def)
    have new: "TransactionId (tm_next_transaction_id m) \<notin> set (active_ids m @ history_ids m)"
      using inv by (auto simp: manager_inv_def simp del: set_append)
    have old: "\<forall>i\<in>set (active_ids m @ history_ids m). sint (transaction_value i) \<le> sint (tm_next_transaction_id m)"
      using inv by (auto simp: manager_inv_def simp del: set_append)
    have wf: "hm_wf (AList.update c t (tm_transactions m))" for t
      using inv by (simp add: manager_inv_def)
    show ?thesis
      using False inv new next_id wf old
      by (auto simp: create_transaction_def Let_def manager_inv_def active_ids_def history_ids_def
          update_fresh [OF fresh] set_reservation_id_def Transaction_with_id_def TransactionData_new_def)
  qed
qed

lemma manager_inv_mutate: "manager_inv m \<Longrightarrow> manager_inv (with_transaction_mut c (transaction_exec cmd) m)"
proof (cases "map_of (tm_transactions m) c")
  case None
  then show "manager_inv m \<Longrightarrow> ?thesis" by (simp add: with_transaction_mut_def)
next
  case (Some t)
  assume inv: "manager_inv m"
  let ?v = "transaction_exec cmd t"
  have ids: "map (td_transaction_id \<circ> snd) (AList.update c ?v (tm_transactions m))
      = map (td_transaction_id \<circ> snd) (tm_transactions m)"
    using map_update_same [OF Some, of td_transaction_id ?v] transaction_exec_frame [of cmd t] by simp
  have "td_connector_id ?v = c"
    using inv map_of_SomeD [OF Some] transaction_exec_frame [of cmd t] by (auto simp: manager_inv_def)
  then have conn: "\<forall>(c', t')\<in>set (AList.update c ?v (tm_transactions m)). td_connector_id t' = c'"
    using inv set_update_subset [of c ?v "tm_transactions m"] by (auto simp: manager_inv_def)
  from inv Some ids conn show ?thesis
    by (simp add: with_transaction_mut_def manager_inv_def active_ids_def history_ids_def)
qed

lemma manager_inv_stop: "manager_inv m \<Longrightarrow> manager_inv (snd (stop_transaction now c r m))"
proof (cases "map_of (tm_transactions m) c")
  case None
  then show "manager_inv m \<Longrightarrow> ?thesis" by (simp add: stop_transaction_def)
next
  case (Some t)
  assume inv: "manager_inv m"
  let ?m = "snd (stop_transaction now c r m)"
  let ?rest = "AList.delete c (tm_transactions m)"
  obtain h where h: "push_bounded 1000 (tm_history m) (stop now r t) = h @ [stop now r t]"
      "set h \<subseteq> set (tm_history m)" "\<And>f :: TransactionData \<Rightarrow> TransactionId. distinct (map f (tm_history m)) \<Longrightarrow> distinct (map f h)"
    by (rule push_bounded_split [of 1000 "tm_history m" "stop now r t"]) (rule that)
  have m: "tm_transactions ?m = ?rest" "tm_next_transaction_id ?m = tm_next_transaction_id m"
      "tm_max_history_size ?m = 1000" "tm_history ?m = h @ [stop now r t]"
    using Some inv h(1) by (simp_all add: stop_transaction_def Let_def manager_inv_def)
  have gone: "td_transaction_id t \<notin> set (map (td_transaction_id \<circ> snd) ?rest)"
    using inv by (intro delete_drops_value [OF _ Some]) (simp_all add: manager_inv_def active_ids_def)
  have was: "td_transaction_id t \<in> set (active_ids m)"
    using map_of_SomeD [OF Some] by (force simp: active_ids_def)
  have sub: "set ?rest \<subseteq> set (tm_transactions m)" by (auto simp: AList.delete_eq)
  have old: "distinct (active_ids m)" "distinct (history_ids m)"
      "set (active_ids m) \<inter> set (history_ids m) = {}"
    using inv by (simp_all add: manager_inv_def)
  have "distinct (map (td_transaction_id \<circ> snd) ?rest)"
    using old(1) by (simp add: active_ids_def AList.delete_eq distinct_map_filter)
  moreover have "distinct (map td_transaction_id h)"
    using old(2) by (intro h(3)) (simp add: history_ids_def)
  moreover have "set (map (td_transaction_id \<circ> snd) ?rest) \<subseteq> set (active_ids m)"
    and "set (map td_transaction_id h) \<subseteq> set (history_ids m)"
    using sub h(2) by (auto simp: active_ids_def history_ids_def)
  ultimately have dist: "distinct (active_ids ?m @ history_ids ?m)"
    using gone was old(3) unfolding active_ids_def history_ids_def m map_append distinct_append
    by (simp del: set_map) blast
  have ids: "set (active_ids ?m @ history_ids ?m) \<subseteq> set (active_ids m @ history_ids m)"
    unfolding active_ids_def history_ids_def m using was sub h(2)
    by (auto simp: active_ids_def)
  have len: "length (tm_history ?m) \<le> 1000"
    using inv length_push_bounded [of 1000 "tm_history m" "stop now r t"] h(1)
    by (simp add: m manager_inv_def)
  have "\<forall>d\<in>set (tm_history ?m). is_finished d"
    using inv h(2) stop_state by (auto simp: m manager_inv_def)
  then show ?thesis
    using inv dist ids len sub unfolding manager_inv_def by (auto simp: m simp del: set_append)
qed

lemma manager_inv_clear: "manager_inv m \<Longrightarrow> manager_inv (clear_old_history d m)"
proof -
  assume inv: "manager_inv m"
  have "length (filter (\<lambda>h. d \<le> td_start_time h) (tm_history m)) \<le> length (tm_history m)"
    by simp
  with inv have "length (filter (\<lambda>h. d \<le> td_start_time h) (tm_history m)) \<le> 1000"
    unfolding manager_inv_def by linarith
  with inv show ?thesis
    by (auto simp: manager_inv_def clear_old_history_def active_ids_def history_ids_def
        distinct_map_filter)
qed

lemma manager_run_inv:
  assumes "manager_inv m"
    and "sint (tm_next_transaction_id m) + int (length (filter is_create cs)) < 2 ^ 31"
  shows "manager_inv (fold manager_exec cs m)"
  using assms
proof (induction cs arbitrary: m)
  case Nil
  then show ?case by simp
next
  case (Cons c cs)
  have "manager_inv (manager_exec c m)
      \<and> sint (tm_next_transaction_id (manager_exec c m)) \<le> sint (tm_next_transaction_id m) + (if is_create c then 1 else 0)"
  proof (cases c)
    case (Create now k tag meter r)
    with Cons.prems manager_inv_create [OF Cons.prems(1), of now k tag meter r]
    show ?thesis by simp
  next
    case (Mutate k cmd)
    with Cons.prems show ?thesis
      by (simp add: manager_inv_mutate) (simp add: with_transaction_mut_def split: option.splits)
  next
    case (StopTransaction now k r)
    with Cons.prems show ?thesis
      by (simp add: manager_inv_stop) (simp add: stop_transaction_def Let_def split: option.splits)
  next
    case (ClearOldHistory d)
    with Cons.prems show ?thesis
      by (simp add: manager_inv_clear) (simp add: clear_old_history_def)
  qed
  with Cons.prems(2) have "manager_inv (manager_exec c m)"
      "sint (tm_next_transaction_id (manager_exec c m)) + int (length (filter is_create cs)) < 2 ^ 31"
    by (auto split: if_splits)
  then show ?case using Cons.IH by simp
qed

text \<open>
  As long as fewer than \<open>2\<^sup>3\<^sup>1 - 1\<close> transactions were created, whatever the order of
  creations, updates, stops and history clean-ups, every transaction the manager knows, active or
  in the history, has an id of its own, the active ones are stored under their connector, the
  history holds finished transactions only and at most 1000 of them.
\<close>

theorem manager_ids_unique:
  assumes "length (filter is_create cs) < 2 ^ 31 - 1"
  shows "let m = fold manager_exec cs TransactionManager_new
    in distinct (active_ids m @ history_ids m)
       \<and> (\<forall>c t. get_transaction m c = Some t \<longrightarrow> td_connector_id t = c)
       \<and> (\<forall>d\<in>set (tm_history m). is_finished d) \<and> length (tm_history m) \<le> 1000"
proof -
  have "sint (tm_next_transaction_id TransactionManager_new) = 1"
    by (simp add: TransactionManager_new_def)
  then have "manager_inv (fold manager_exec cs TransactionManager_new)"
    using assms by (intro manager_run_inv manager_inv_new) simp
  then show ?thesis
    by (auto simp: manager_inv_def get_transaction_def Let_def dest: map_of_SomeD)
qed

theorem manager_ids_unique_witness:
  "let m = fold manager_exec
      [Create 0 (ConnectorId 1) ''A1'' 0 None, StopTransaction 5 (ConnectorId 1) ''Local'',
       Create 9 (ConnectorId 1) ''B2'' 10 None] TransactionManager_new
   in distinct (active_ids m @ history_ids m) \<and> length (tm_history m) \<le> 1000"
proof -
  let ?cs = "[Create 0 (ConnectorId 1) ''A1'' 0 None, StopTransaction 5 (ConnectorId 1) ''Local'',
       Create 9 (ConnectorId 1) ''B2'' 10 None]"
  have "length (filter is_create ?cs) < 2 ^ 31 - 1" by simp
  from manager_ids_unique [OF this] show ?thesis by (simp add: Let_def)
qed

text \<open>
  The statistics account for every transaction: the active, completed and failed
  ones add up to the total.
\<close>

theorem statistics_add_up:
  assumes "length (filter is_create cs) < 2 ^ 31 - 1"
  shows "let s = statistics (fold manager_exec cs TransactionManager_new)
    in ts_active_transactions s + ts_completed_transactions s + ts_failed_transactions s
       = ts_total_transactions s"
proof -
  let ?m = "fold manager_exec cs TransactionManager_new"
  have "manager_inv ?m"
    using assms by (intro manager_run_inv manager_inv_new) (simp add: TransactionManager_new_def)
  then have fin: "\<forall>d\<in>set (tm_history ?m). td_state d = Stopped \<or> td_state d = Failed"
    by (auto simp: manager_inv_def is_finished_def)
  have "\<forall>d\<in>set xs. td_state d = Stopped \<or> td_state d = Failed \<Longrightarrow>
      length (filter (\<lambda>d. td_state d = Stopped) xs) + length (filter (\<lambda>d. td_state d = Failed) xs)
      = length xs" for xs :: "TransactionData list"
    by (induction xs) auto
  from this [OF fin] show ?thesis by (simp add: statistics_def Let_def)
qed

theorem statistics_add_up_witness:
  "let s = statistics (fold manager_exec [Create 0 (ConnectorId 1) ''A1'' 0 None,
        Create 0 (ConnectorId 2) ''B2'' 0 None, StopTransaction 5 (ConnectorId 1) ''Local'']
        TransactionManager_new)
   in ts_active_transactions s + ts_completed_transactions s + ts_failed_transactions s
      = ts_total_transactions s"
proof -
  let ?cs = "[Create 0 (ConnectorId 1) ''A1'' 0 None,
        Create 0 (ConnectorId 2) ''B2'' 0 None, StopTransaction 5 (ConnectorId 1) ''Local'']"
  have "length (filter is_create ?cs) < 2 ^ 31 - 1" by simp
  from statistics_add_up [OF this] show ?thesis .
qed

end
