(* ===== verification/Connectors.thy ===== *)
theory Connectors
  imports Transactions Connector_State_Machine
begin

text \<open>
  \<open>ocpp-cp/src/connector.rs\<close>: one connector, its status, its cable, its fault, its reservation and
  its transaction. Every method takes the locks of its fields one after the other and is modelled
  as one step on the record \<open>Connector\<close>; the event channel is the list of events sent so far,
  \<open>None\<close> while no sender is set. The last section relates the connector to the state machine of
  \<open>state_machine.rs\<close>.
\<close>

section \<open>Data\<close>

record ConnectorConfig =
  cc_connector_id :: ConnectorId
  cc_connector_type :: string
  cc_max_amperage :: f64
  cc_max_voltage :: f64
  cc_max_power :: f64
  cc_phases :: "8 word"
  cc_energy_meter_serial :: "string option"

datatype ConnectorPhysicalState = PhysUnplugged | Plugged | PluggedAndLocked

datatype ConnectorEvent =
    PluggedIn
  | Unplugged
  | Authorized string
  | AuthorizationFailed string string
  | ChargingStarted
  | ChargingStoppedByEV
  | ChargingStoppedByEVSE
  | ChargingResumed
  | TransactionFinished
  | FaultOccurred ChargePointErrorCode "string option"
  | FaultCleared
  | MadeAvailable
  | MadeUnavailable
  | Reserved string
  | ReservationCancelled

record MeterReading =
  mr_timestamp :: datetime
  mr_energy_wh :: f64
  mr_power_w :: f64
  mr_voltage_v :: f64
  mr_current_a :: f64
  mr_temperature_c :: "f64 option"

definition MeterReading_new :: "datetime \<Rightarrow> f64 \<Rightarrow> f64 \<Rightarrow> f64 \<Rightarrow> f64 \<Rightarrow> MeterReading" where
  "MeterReading_new now e p v a =
     \<lparr>mr_timestamp = now, mr_energy_wh = e, mr_power_w = p, mr_voltage_v = v, mr_current_a = a,
      mr_temperature_c = None\<rparr>"

definition with_temperature :: "f64 \<Rightarrow> MeterReading \<Rightarrow> MeterReading" where
  "with_temperature t r = r\<lparr>mr_temperature_c := Some t\<rparr>"

record Connector =
  c_config :: ConnectorConfig
  c_status :: ChargePointStatus
  c_physical_state :: ConnectorPhysicalState
  c_error_code :: ChargePointErrorCode
  c_error_info :: "string option"
  c_current_transaction :: "Transaction option"
  c_reserved_for :: "string option"
  c_last_meter_reading :: MeterReading
  c_event_sender :: "ConnectorEvent list option"

type_synonym connector_result = "(ChargePointError, unit) result \<times> Connector"

section \<open>Operations\<close>

definition Connector_new :: "datetime \<Rightarrow> ConnectorConfig \<Rightarrow> Connector" where
  "Connector_new now cfg =
     \<lparr>c_config = cfg, c_status = ChargePointStatus.Available, c_physical_state = PhysUnplugged,
      c_error_code = NoError, c_error_info = None, c_current_transaction = None,
      c_reserved_for = None,
      c_last_meter_reading = MeterReading_new now (Finite 0) (Finite 0) (Finite 0) (Finite 0),
      c_event_sender = None\<rparr>"

definition set_event_sender :: "Connector \<Rightarrow> Connector" where
  "set_event_sender c = c\<lparr>c_event_sender := Some []\<rparr>"

definition send_event :: "ConnectorEvent \<Rightarrow> Connector \<Rightarrow> Connector" where
  "send_event e c = c\<lparr>c_event_sender := map_option (\<lambda>sent. sent @ [e]) (c_event_sender c)\<rparr>"

definition set_status :: "ChargePointStatus \<Rightarrow> Connector \<Rightarrow> Connector" where
  "set_status s c = c\<lparr>c_status := s\<rparr>"

definition c_is_available :: "Connector \<Rightarrow> bool" where
  "c_is_available c = (c_status c \<in> {ChargePointStatus.Available, ChargePointStatus.Reserved})"

definition c_is_charging :: "Connector \<Rightarrow> bool" where
  "c_is_charging c = (c_status c \<in> {Charging, SuspendedEV, SuspendedEVSE})"

definition c_has_active_transaction :: "Connector \<Rightarrow> bool" where
  "c_has_active_transaction c = (c_current_transaction c \<noteq> None)"

definition plug_in :: "Connector \<Rightarrow> Connector" where
  "plug_in c = (let st = c_status c; c1 = c\<lparr>c_physical_state := Plugged\<rparr> in
     case st of
       ChargePointStatus.Available \<Rightarrow> send_event PluggedIn (set_status Preparing c1)
     | ChargePointStatus.Reserved \<Rightarrow> send_event PluggedIn (set_status Preparing c1)
     | ChargePointStatus.Unavailable \<Rightarrow> send_event PluggedIn c1
     | ChargePointStatus.Faulted \<Rightarrow> send_event PluggedIn c1
     | _ \<Rightarrow> c1)"

text \<open>
  The emergency branch stops the transaction it takes out of the connector; the stopped record
  goes out of scope there.
\<close>

definition plug_out :: "Connector \<Rightarrow> Connector" where
  "plug_out c = (let st = c_status c; c1 = c\<lparr>c_physical_state := PhysUnplugged\<rparr> in
     if st = Preparing then
       send_event Unplugged (set_status ChargePointStatus.Available c1)
     else if st = Finishing then
       (send_event Unplugged (set_status ChargePointStatus.Available c1))\<lparr>c_current_transaction := None\<rparr>
     else if st \<in> {Charging, SuspendedEV, SuspendedEVSE} then
       send_event Unplugged
         (set_status ChargePointStatus.Available (c1\<lparr>c_current_transaction := None\<rparr>))
     else send_event Unplugged c1)"

definition c_start_transaction :: "datetime \<Rightarrow> string \<Rightarrow> Connector \<Rightarrow> connector_result" where
  "c_start_transaction now tag c =
     (if c_physical_state c = PhysUnplugged then
        (Err (InvalidOperation ''Cannot start transaction: cable not plugged''), c)
      else if c_has_active_transaction c then
        (Err (InvalidOperation ''Cannot start transaction: another transaction is active''), c)
      else if is_some_and (c_reserved_for c) (\<lambda>r. r \<noteq> tag) then
        (Err (ChargePointError.AuthorizationFailed ''Connector reserved for different user''),
         send_event (ConnectorEvent.AuthorizationFailed tag ''Reserved for different user'') c)
      else if c_status c = Preparing then
        (Ok (),
         (let t = Transaction_new now (cc_connector_id (c_config c)) tag
                    (f64_as_i32 (mr_energy_wh (c_last_meter_reading c)));
              c1 = c\<lparr>c_current_transaction := Some t, c_physical_state := PluggedAndLocked\<rparr>;
              c2 = set_status Charging c1;
              c3 = send_event ConnectorEvent.ChargingStarted (send_event (ConnectorEvent.Authorized tag) c2)
          in c3\<lparr>c_reserved_for := None\<rparr>))
      else
        (Err (InvalidOperation (''Cannot start transaction in status: '' @ ChargePointStatus_wire (c_status c))),
         send_event (ConnectorEvent.AuthorizationFailed tag
           (''Invalid status for starting transaction: '' @ ChargePointStatus_wire (c_status c))) c))"

definition c_stop_transaction :: "Connector \<Rightarrow> Connector" where
  "c_stop_transaction c = (case c_current_transaction c of
      None \<Rightarrow> c
    | Some t \<Rightarrow>
        (let c1 = c\<lparr>c_current_transaction := None\<rparr>;
             c2 = (case c_physical_state c1 of
                     PhysUnplugged \<Rightarrow> set_status ChargePointStatus.Available c1
                   | _ \<Rightarrow> (set_status Finishing c1)\<lparr>c_physical_state := Plugged\<rparr>)
         in send_event ConnectorEvent.TransactionFinished c2))"

definition suspend_by_ev :: "Connector \<Rightarrow> Connector" where
  "suspend_by_ev c = (if c_status c = Charging
     then send_event ConnectorEvent.ChargingStoppedByEV (set_status SuspendedEV c) else c)"

definition suspend_by_evse :: "Connector \<Rightarrow> Connector" where
  "suspend_by_evse c = (if c_status c = Charging
     then send_event ConnectorEvent.ChargingStoppedByEVSE (set_status SuspendedEVSE c) else c)"

definition resume_charging :: "Connector \<Rightarrow> Connector" where
  "resume_charging c = (if c_status c \<in> {SuspendedEV, SuspendedEVSE}
     then send_event ConnectorEvent.ChargingResumed (set_status Charging c) else c)"

definition set_fault :: "ChargePointErrorCode \<Rightarrow> string option \<Rightarrow> Connector \<Rightarrow> Connector" where
  "set_fault code info c = (let c1 = c\<lparr>c_error_code := code, c_error_info := info\<rparr> in
     if code \<noteq> NoError
     then (send_event (ConnectorEvent.FaultOccurred code info)
             (set_status ChargePointStatus.Faulted c1))\<lparr>c_current_transaction := None\<rparr>
     else c1)"

definition clear_fault :: "Connector \<Rightarrow> Connector" where
  "clear_fault c = (let c1 = c\<lparr>c_error_code := NoError, c_error_info := None\<rparr>;
       c2 = (case c_physical_state c1 of
               PhysUnplugged \<Rightarrow> set_status ChargePointStatus.Available c1
             | _ \<Rightarrow> set_status Preparing c1)
     in send_event ConnectorEvent.FaultCleared c2)"

definition reserve :: "string \<Rightarrow> Connector \<Rightarrow> connector_result" where
  "reserve tag c = (if c_status c = ChargePointStatus.Available
     then (Ok (), send_event (ConnectorEvent.Reserved tag)
             (set_status ChargePointStatus.Reserved (c\<lparr>c_reserved_for := Some tag\<rparr>)))
     else (Err (InvalidOperation (''Cannot reserve connector in status: '' @ ChargePointStatus_wire (c_status c))), c))"

definition cancel_reservation :: "Connector \<Rightarrow> Connector" where
  "cancel_reservation c = (let c1 = c\<lparr>c_reserved_for := None\<rparr>;
       c2 = (if c_status c1 = ChargePointStatus.Reserved then set_status ChargePointStatus.Available c1 else c1)
     in send_event ConnectorEvent.ReservationCancelled c2)"

definition c_update_meter_reading :: "datetime \<Rightarrow> MeterReading \<Rightarrow> Connector \<Rightarrow> Connector" where
  "c_update_meter_reading now r c = (let c1 = c\<lparr>c_last_meter_reading := r\<rparr> in
     c1\<lparr>c_current_transaction :=
        map_option (update_meter_reading now (f64_as_i32 (mr_energy_wh r))) (c_current_transaction c1)\<rparr>)"

lemmas connector_defs = plug_in_def plug_out_def c_start_transaction_def c_stop_transaction_def
  suspend_by_ev_def suspend_by_evse_def resume_charging_def set_fault_def clear_fault_def
  reserve_def cancel_reservation_def c_update_meter_reading_def send_event_def set_status_def Let_def

section \<open>Runs of a connector\<close>

datatype connector_command =
    PlugIn | PlugOut | StartTransaction datetime string | StopTransaction | SuspendByEV
  | SuspendByEVSE | ResumeCharging | SetFault ChargePointErrorCode "string option" | ClearFault
  | Reserve string | CancelReservation | UpdateMeterReading datetime MeterReading
  | SetStatus ChargePointStatus

primrec connector_exec :: "connector_command \<Rightarrow> Connector \<Rightarrow> Connector" where
  "connector_exec PlugIn c = plug_in c"
| "connector_exec PlugOut c = plug_out c"
| "connector_exec (StartTransaction now tag) c = snd (c_start_transaction now tag c)"
| "connector_exec StopTransaction c = c_stop_transaction c"
| "connector_exec SuspendByEV c = suspend_by_ev c"
| "connector_exec SuspendByEVSE c = suspend_by_evse c"
| "connector_exec ResumeCharging c = resume_charging c"
| "connector_exec (SetFault code info) c = set_fault code info c"
| "connector_exec ClearFault c = clear_fault c"
| "connector_exec (Reserve tag) c = snd (reserve tag c)"
| "connector_exec CancelReservation c = cancel_reservation c"
| "connector_exec (UpdateMeterReading now r) c = c_update_meter_reading now r c"
| "connector_exec (SetStatus s) c = set_status s c"

text \<open>
  A fault is cleared only on a faulted connector, and \<open>set_status\<close> is called only with a status that fits
  the transaction, the cable and the reservation of the connector. Neither method checks this itself,
  and the invariant below needs it.
\<close>

definition fitting_status :: "ChargePointStatus \<Rightarrow> Connector \<Rightarrow> bool" where
  "fitting_status s c \<longleftrightarrow> (s \<in> {Charging, SuspendedEV, SuspendedEVSE} \<longleftrightarrow> c_has_active_transaction c)
     \<and> (s \<in> {Preparing, Charging, SuspendedEV, SuspendedEVSE, Finishing} \<longrightarrow> c_physical_state c \<noteq> PhysUnplugged)
     \<and> (s = ChargePointStatus.Reserved \<longrightarrow> c_reserved_for c \<noteq> None)"

definition well_used :: "connector_command \<Rightarrow> Connector \<Rightarrow> bool" where
  "well_used cmd c = (case cmd of
     ClearFault \<Rightarrow> c_status c = ChargePointStatus.Faulted
   | SetStatus s \<Rightarrow> fitting_status s c
   | _ \<Rightarrow> True)"

fun connector_run :: "connector_command list \<Rightarrow> Connector \<Rightarrow> Connector" where
  "connector_run [] c = c"
| "connector_run (cmd # cmds) c = connector_run cmds (connector_exec cmd c)"

fun well_used_run :: "connector_command list \<Rightarrow> Connector \<Rightarrow> bool" where
  "well_used_run [] c = True"
| "well_used_run (cmd # cmds) c = (well_used cmd c \<and> well_used_run cmds (connector_exec cmd c))"

text \<open>
  A transaction is attached exactly while the status says so, a connector that prepares, charges
  or finishes has its cable plugged, and a reserved one knows for whom.
\<close>

definition connector_inv :: "Connector \<Rightarrow> bool" where
  "connector_inv c \<longleftrightarrow> (c_has_active_transaction c \<longleftrightarrow> c_is_charging c)
     \<and> (c_status c \<in> {Preparing, Charging, SuspendedEV, SuspendedEVSE, Finishing} \<longrightarrow>
          c_physical_state c \<noteq> PhysUnplugged)
     \<and> (c_status c = ChargePointStatus.Reserved \<longrightarrow> c_reserved_for c \<noteq> None)"

lemma connector_inv_new: "connector_inv (Connector_new now cfg)"
  by (simp add: connector_inv_def Connector_new_def c_has_active_transaction_def c_is_charging_def)

lemma connector_inv_exec: "connector_inv c \<Longrightarrow> well_used cmd c \<Longrightarrow> connector_inv (connector_exec cmd c)"
  by (cases cmd; cases "c_status c"; cases "c_physical_state c")
    (auto simp: connector_defs connector_inv_def c_has_active_transaction_def c_is_charging_def
      well_used_def fitting_status_def is_some_and_def split: option.splits)

lemma connector_inv_run: "connector_inv c \<Longrightarrow> well_used_run cmds c \<Longrightarrow> connector_inv (connector_run cmds c)"
  by (induction cmds arbitrary: c) (simp_all add: connector_inv_exec)


section \<open>Properties of the connector\<close>

text \<open>
  Property C25. Whatever sequence of operations a connector goes through, provided a fault is only
  cleared while the connector is faulted and \<open>set_status\<close> is only called with a status that fits the
  transaction, the cable and the reservation there are, a transaction is attached exactly while the connector is
  charging or suspended, the cable is in during preparation, charging and finishing, and a
  reserved connector knows its id tag.
\<close>

theorem connector_invariant:
  assumes "well_used_run cmds (Connector_new now cfg)"
  shows "connector_inv (connector_run cmds (Connector_new now cfg))"
  using assms by (rule connector_inv_run [OF connector_inv_new])

definition demo_config :: ConnectorConfig where
  "demo_config = \<lparr>cc_connector_id = ConnectorId 1, cc_connector_type = ''Type2'',
     cc_max_amperage = Finite 32, cc_max_voltage = Finite 230, cc_max_power = Finite 7360,
     cc_phases = 1, cc_energy_meter_serial = None\<rparr>"

lemmas demo_defs = demo_config_def Connector_new_def connector_defs c_has_active_transaction_def
  c_is_charging_def MeterReading_new_def

theorem connector_invariant_witness:
  "connector_inv (connector_run
     [Reserve ''A'', PlugIn, StartTransaction 5 ''A'', SuspendByEV, SetFault GroundFailure None, ClearFault,
      PlugOut, SetStatus ChargePointStatus.Unavailable]
     (Connector_new 0 demo_config))"
  by (rule connector_invariant) (simp add: demo_defs well_used_def fitting_status_def)

text \<open>The effect of a successful \<open>start_transaction\<close>, written as one update of the connector.\<close>

definition started :: "datetime \<Rightarrow> string \<Rightarrow> Connector \<Rightarrow> Connector" where
  "started now tag c = c\<lparr>c_status := Charging, c_physical_state := PluggedAndLocked,
     c_reserved_for := None,
     c_current_transaction := Some (Transaction_new now (cc_connector_id (c_config c)) tag
       (f64_as_i32 (mr_energy_wh (c_last_meter_reading c)))),
     c_event_sender := map_option
       (\<lambda>sent. sent @ [ConnectorEvent.Authorized tag, ConnectorEvent.ChargingStarted]) (c_event_sender c)\<rparr>"

text \<open>
  \<open>start_transaction\<close> succeeds exactly when the cable is plugged, no transaction is
  attached, the connector is not reserved for another tag and its status is \<open>Preparing\<close>. On
  success the connector charges with a locked cable, the transaction carries the connector, the
  tag and the meter reading, and the reservation is consumed; on failure nothing but the list of
  sent events can change.
\<close>

theorem start_transaction_spec:
  "if c_physical_state c \<noteq> PhysUnplugged \<and> c_current_transaction c = None
      \<and> c_reserved_for c \<in> {None, Some tag} \<and> c_status c = Preparing
   then c_start_transaction now tag c = (Ok (), started now tag c)
   else isl (fst (c_start_transaction now tag c))
        \<and> (\<exists>sent. snd (c_start_transaction now tag c) = c\<lparr>c_event_sender := sent\<rparr>)"
  by (cases "c_reserved_for c"; cases "c_event_sender c")
    (auto simp: connector_defs started_def c_has_active_transaction_def intro: exI [of _ "c_event_sender c"])















text \<open>
  What the machine is kept from: it makes a faulted connector available when its cable is pulled, and a
  preparing one finish when a transaction is stopped, where the connector stays as it is.
\<close>

lemma machine_goes_further:
  "next_state ChargePointStatus.Faulted CableUnplugged = Some ChargePointStatus.Available"
  "next_state Preparing StateMachineEvent.TransactionFinished = Some Finishing"
  "c_status c = ChargePointStatus.Faulted \<Longrightarrow> c_status (plug_out c) = ChargePointStatus.Faulted"
  "c_current_transaction c = None \<Longrightarrow> c_stop_transaction c = c"
  by (simp_all add: next_state_def connector_defs)

definition cable_only :: "connector_command \<Rightarrow> bool" where
  "cable_only cmd \<longleftrightarrow> cmd \<in> {PlugIn, PlugOut}"

lemma cable_keeps_reservation: "cable_only cmd \<Longrightarrow> c_reserved_for (connector_exec cmd c) = c_reserved_for c"
  by (cases "c_status c") (auto simp: cable_only_def connector_defs)

lemma cable_run_keeps_reservation:
  "list_all cable_only cmds \<Longrightarrow> c_reserved_for (connector_run cmds c) = c_reserved_for c"
  by (induction cmds arbitrary: c) (simp_all add: cable_keeps_reservation)

text \<open>
  A reservation is honoured: while a connector is reserved for one tag, another tag
  cannot start a transaction, whatever the two do with the cable in between.
\<close>


theorem reservation_honoured:
  assumes "c_reserved_for c = Some a" and "b \<noteq> a" and "list_all cable_only cmds"
  shows "isl (fst (c_start_transaction now b (connector_run cmds c)))"
  using assms cable_run_keeps_reservation [OF assms(3), of c]
  by (simp add: c_start_transaction_def)

theorem reservation_honoured_witness:
  "isl (fst (c_start_transaction 9 ''B'' (connector_run [PlugIn]
     (connector_run [Reserve ''A''] (Connector_new 0 demo_config)))))"
  by (rule reservation_honoured [of _ "''A''"]) (simp_all add: demo_defs cable_only_def)

text \<open>
  The reservation outlives the visit of its owner: after the cable of a reserved
  connector was plugged in and pulled again the connector is \<open>Available\<close> and may be reserved
  by somebody else, but until then it still refuses every other tag.
\<close>

theorem reservation_goes_stale:
  "let c = connector_run [Reserve a, PlugIn, PlugOut] (Connector_new now cfg) in
     c_status c = ChargePointStatus.Available \<and> c_reserved_for c = Some a
     \<and> (b = a \<or> isl (fst (c_start_transaction now' b (plug_in c))))
     \<and> c_reserved_for (snd (reserve b c)) = Some b"
  by (simp add: Connector_new_def connector_defs c_has_active_transaction_def)

text \<open>
  \<open>clear_fault\<close> is not guarded by the faulted status: on a charging connector it
  moves the status to \<open>Preparing\<close> while the transaction stays attached, and no further
  transaction can be started before that one is stopped.
\<close>

theorem clear_fault_unguarded:
  "let c = connector_run [PlugIn, StartTransaction now tag, ClearFault] (Connector_new t0 cfg) in
     c_status c = Preparing \<and> c_has_active_transaction c \<and> \<not> connector_inv c
     \<and> isl (fst (c_start_transaction now' tag' c))
     \<and> c_status (c_stop_transaction c) = Finishing"
  by (simp add: Connector_new_def connector_defs c_has_active_transaction_def connector_inv_def
      c_is_charging_def)

end
