(* ===== verification/Auth_Cache.thy ===== *)
theory Auth_Cache
  imports Types
begin

text \<open>
  \<open>ocpp-cp/src/auth_cache.rs\<close>: the authorization cache. Every method is one access to a
  \<open>DashMap\<close> and is modelled as one step. The clock is an argument, and so is \<open>max_utc\<close>, the last
  instant chrono represents (\<open>DateTime::MAX_UTC\<close>); \<open>delta_max\<close> is the longest
  \<open>chrono::Duration\<close>, beyond which \<open>Duration::from_std\<close> fails.
\<close>

section \<open>Data and operations\<close>

record CachedAuth =
  ca_id_tag_info :: IdTagInfo
  ca_expires_at :: datetime

definition is_expired_at :: "CachedAuth \<Rightarrow> datetime \<Rightarrow> bool" where
  "is_expired_at e now = (ca_expires_at e \<le> now)"

record AuthCache =
  ac_entries :: "(string, CachedAuth) hmap"
  ac_ttl :: nat

definition AuthCache_new :: "nat \<Rightarrow> AuthCache" where
  "AuthCache_new ttl = \<lparr>ac_entries = [], ac_ttl = ttl\<rparr>"

definition cache_get :: "datetime \<Rightarrow> string \<Rightarrow> AuthCache \<Rightarrow> IdTagInfo option" where
  "cache_get now tag c = (case map_of (ac_entries c) tag of
      None \<Rightarrow> None
    | Some e \<Rightarrow> if is_expired_at e now then None else Some (ca_id_tag_info e))"

definition get_stale :: "string \<Rightarrow> AuthCache \<Rightarrow> IdTagInfo option" where
  "get_stale tag c = map_option ca_id_tag_info (map_of (ac_entries c) tag)"

definition ttl_expiry :: "nat \<Rightarrow> datetime \<Rightarrow> nat \<Rightarrow> datetime \<Rightarrow> datetime" where
  "ttl_expiry delta_max max_utc ttl now =
     (if ttl \<le> delta_max \<and> now + int ttl \<le> max_utc then now + int ttl else max_utc)"

definition cache_insert ::
  "nat \<Rightarrow> datetime \<Rightarrow> datetime \<Rightarrow> string \<Rightarrow> IdTagInfo \<Rightarrow> AuthCache \<Rightarrow> AuthCache" where
  "cache_insert delta_max max_utc now tag info c =
     c\<lparr>ac_entries := AList.update tag
         \<lparr>ca_id_tag_info = info,
          ca_expires_at = (case iti_expiry_date info of Some t \<Rightarrow> t
                           | None \<Rightarrow> ttl_expiry delta_max max_utc (ac_ttl c) now)\<rparr>
         (ac_entries c)\<rparr>"

definition evict :: "string \<Rightarrow> AuthCache \<Rightarrow> AuthCache" where
  "evict tag c = c\<lparr>ac_entries := AList.delete tag (ac_entries c)\<rparr>"

definition cache_clear :: "AuthCache \<Rightarrow> AuthCache" where
  "cache_clear c = c\<lparr>ac_entries := []\<rparr>"

definition cache_len :: "AuthCache \<Rightarrow> nat" where
  "cache_len c = length (ac_entries c)"

definition cache_is_empty :: "AuthCache \<Rightarrow> bool" where
  "cache_is_empty c = (ac_entries c = [])"

lemmas cache_defs = cache_get_def get_stale_def cache_insert_def evict_def cache_clear_def
  cache_len_def cache_is_empty_def is_expired_at_def

section \<open>Runs\<close>

datatype cache_command =
    CacheInsert datetime string IdTagInfo
  | CacheEvict string
  | CacheClear

primrec cache_exec :: "nat \<Rightarrow> datetime \<Rightarrow> cache_command \<Rightarrow> AuthCache \<Rightarrow> AuthCache" where
  "cache_exec dm mu (CacheInsert now tag info) c = cache_insert dm mu now tag info c"
| "cache_exec dm mu (CacheEvict tag) c = evict tag c"
| "cache_exec dm mu CacheClear c = cache_clear c"

definition cache_inv :: "AuthCache \<Rightarrow> bool" where
  "cache_inv c = hm_wf (ac_entries c)"

interpretation cache: machine "cache_exec dm mu" cache_inv for dm mu
proof
  show "cache_inv s \<Longrightarrow> cache_inv (cache_exec dm mu cmd s)" for s cmd
    by (cases cmd) (simp_all add: cache_inv_def cache_defs)
qed

text \<open>
  The specification: what the cache holds for a tag is decided by the last command that concerns
  the tag, an insert of the tag, its eviction or a clear.
\<close>

fun last_write :: "string \<Rightarrow> cache_command list \<Rightarrow> (datetime \<times> IdTagInfo) option" where
  "last_write tag [] = None"
| "last_write tag (cmd # cmds) = (case cmd of
      CacheInsert now t info \<Rightarrow> if t = tag then Some (now, info) else last_write tag cmds
    | CacheEvict t \<Rightarrow> if t = tag then None else last_write tag cmds
    | CacheClear \<Rightarrow> None)"

lemma ttl_exec [simp]: "ac_ttl (cache_exec dm mu cmd c) = ac_ttl c"
  by (cases cmd) (simp_all add: cache_defs)

lemma ttl_run: "ac_ttl (fold (cache_exec dm mu) cmds c) = ac_ttl c"
  by (induction cmds arbitrary: c) simp_all

definition expiry_of :: "nat \<Rightarrow> datetime \<Rightarrow> nat \<Rightarrow> datetime \<times> IdTagInfo \<Rightarrow> datetime" where
  "expiry_of dm mu ttl w = (case iti_expiry_date (snd w) of Some t \<Rightarrow> t
     | None \<Rightarrow> ttl_expiry dm mu ttl (fst w))"

definition entry_of :: "nat \<Rightarrow> datetime \<Rightarrow> nat \<Rightarrow> datetime \<times> IdTagInfo \<Rightarrow> CachedAuth" where
  "entry_of dm mu ttl w = \<lparr>ca_id_tag_info = snd w, ca_expires_at = expiry_of dm mu ttl w\<rparr>"

lemma cache_run_lookup:
  "map_of (ac_entries (fold (cache_exec dm mu) cmds (AuthCache_new ttl))) tag
   = map_option (entry_of dm mu ttl) (last_write tag (rev cmds))"
proof (induction cmds rule: rev_induct)
  case Nil
  then show ?case by (simp add: AuthCache_new_def)
next
  case (snoc cmd cmds)
  let ?c = "fold (cache_exec dm mu) cmds (AuthCache_new ttl)"
  have "ac_ttl ?c = ttl" by (simp add: ttl_run AuthCache_new_def)
  with snoc show ?case
    by (cases cmd)
      (simp_all add: cache_defs hm_get_update hm_get_delete entry_of_def expiry_of_def
        split: option.splits)
qed

text \<open>
  Property C38. After any sequence of inserts, evictions and clears the cache answers a tag with
  the result last written for it, fresh exactly until the expiry date the CSMS gave or, failing
  one, until the time to live has passed (saturating at the last representable instant); the
  stale lookup ignores the expiry; and the number of entries is the number of tags with one.
\<close>

theorem cache_refines_last_write:
  "let c = fold (cache_exec dm mu) cmds (AuthCache_new ttl); w = last_write tag (rev cmds) in
     cache_get now tag c = (case w of None \<Rightarrow> None
       | Some p \<Rightarrow> if now < expiry_of dm mu ttl p then Some (snd p) else None)
     \<and> get_stale tag c = map_option snd w
     \<and> cache_len c = card {t. last_write t (rev cmds) \<noteq> None}"
proof -
  let ?c = "fold (cache_exec dm mu) cmds (AuthCache_new ttl)"
  have "cache_inv ?c"
    by (rule cache.run_inv) (simp add: cache_inv_def AuthCache_new_def)
  then have "cache_len ?c = card (dom (map_of (ac_entries ?c)))"
    by (simp add: cache_len_def cache_inv_def hm_length_card)
  also have "dom (map_of (ac_entries ?c)) = {t. last_write t (rev cmds) \<noteq> None}"
    by (auto simp: cache_run_lookup)
  finally show ?thesis
    by (auto simp: Let_def cache_get_def get_stale_def cache_run_lookup is_expired_at_def entry_of_def
        option.map_comp comp_def split: option.splits)
qed

section \<open>The contract the charge point relies on\<close>

text \<open>
  What \<open>ChargePoint::authorize\<close> needs of the cache: a fresh answer is also a stale one, storing a
  result makes it the stale answer of its tag and leaves the other tags alone.
\<close>

locale tag_cache =
  fixes fresh :: "datetime \<Rightarrow> string \<Rightarrow> 's \<Rightarrow> 'i option"
    and stale :: "string \<Rightarrow> 's \<Rightarrow> 'i option"
    and store :: "datetime \<Rightarrow> string \<Rightarrow> 'i \<Rightarrow> 's \<Rightarrow> 's"
  assumes fresh_stale: "fresh now tag s = Some i \<Longrightarrow> stale tag s = Some i"
    and fresh_antimono: "fresh t2 tag s = Some i \<Longrightarrow> t1 \<le> t2 \<Longrightarrow> fresh t1 tag s = Some i"
    and stale_store: "stale tag' (store now tag i s) = (if tag' = tag then Some i else stale tag' s)"
    and fresh_store_other: "tag' \<noteq> tag \<Longrightarrow> fresh t tag' (store now tag i s) = fresh t tag' s"
begin

lemma fresh_after_store: "fresh t tag (store now tag i s) \<in> {None, Some i}"
  using fresh_stale [of t tag "store now tag i s"] stale_store [of tag now tag i s]
  by (cases "fresh t tag (store now tag i s)") auto

lemma stale_None_fresh: "stale tag s = None \<Longrightarrow> fresh now tag s = None"
  using fresh_stale by (cases "fresh now tag s") force+

end

interpretation acache: tag_cache cache_get get_stale "cache_insert dm mu" for dm mu
  by unfold_locales
    (auto simp: cache_defs hm_get_update split: option.splits if_splits)

end
