(* ===== verification/Local_List.thy ===== *)
theory Local_List
  imports Datatypes201
begin

text \<open>
  \<open>ocpp-cp/src/local_list.rs\<close>: the Local Authorization List. The state behind the mutex and the
  capacity are the record \<open>LocalAuthList\<close>; \<open>apply_update\<close> is \<open>LocalAuthList::apply\<close>, performed under
  one lock and so one step. The 2.0.1 entry point translates its request and shares the decision.
\<close>

section \<open>Data\<close>

definition DEFAULT_LOCAL_AUTH_LIST_MAX_LENGTH :: nat where
  "DEFAULT_LOCAL_AUTH_LIST_MAX_LENGTH = 100"

record LocalAuthList =
  ll_version :: i32
  ll_entries :: "(string, IdTagInfo) hmap"
  ll_max_length :: "nat option"

record SendLocalListRequest =
  sll_list_version :: i32
  sll_update_type :: UpdateType
  sll_local_authorization_list :: "AuthorizationData list"

record SendLocalListRequest201 =
  sll201_version_number :: i32
  sll201_update_type :: UpdateEnumType
  sll201_local_authorization_list :: "AuthorizationData201 list option"
  sll201_custom_data :: "CustomDataType option"

section \<open>Operations\<close>

definition LocalAuthList_new :: LocalAuthList where
  "LocalAuthList_new = \<lparr>ll_version = 0, ll_entries = [], ll_max_length = None\<rparr>"

definition with_max_length :: "nat \<Rightarrow> LocalAuthList" where
  "with_max_length n = \<lparr>ll_version = 0, ll_entries = [], ll_max_length = Some n\<rparr>"

definition list_len :: "LocalAuthList \<Rightarrow> nat" where
  "list_len l = length (ll_entries l)"

definition list_is_empty :: "LocalAuthList \<Rightarrow> bool" where
  "list_is_empty l = (list_len l = 0)"

definition list_get :: "string \<Rightarrow> LocalAuthList \<Rightarrow> IdTagInfo option" where
  "list_get tag l = map_of (ll_entries l) tag"

text \<open>\<open>all(|e| seen.insert(e))\<close>: the scan stops at the first tag already seen.\<close>

fun all_fresh :: "string list \<Rightarrow> string list \<Rightarrow> bool" where
  "all_fresh seen [] = True"
| "all_fresh seen (t # ts) = (t \<notin> set seen \<and> all_fresh (t # seen) ts)"

definition has_duplicate_id_tags :: "SendLocalListRequest \<Rightarrow> bool" where
  "has_duplicate_id_tags r = (\<not> all_fresh [] (map ad_id_tag (sll_local_authorization_list r)))"

definition exceeds_capacity :: "LocalAuthList \<Rightarrow> nat \<Rightarrow> bool" where
  "exceeds_capacity l n = is_some_and (ll_max_length l) (\<lambda>mx. mx < n)"

text \<open>The replacement map of a full update, \<open>None\<close> at the first bare id tag.\<close>

fun build_replacement ::
  "AuthorizationData list \<Rightarrow> (string, IdTagInfo) hmap \<Rightarrow> (string, IdTagInfo) hmap option" where
  "build_replacement [] m = Some m"
| "build_replacement (e # es) m = (case ad_id_tag_info e of
      Some info \<Rightarrow> build_replacement es (AList.update (ad_id_tag e) info m)
    | None \<Rightarrow> None)"

text \<open>
  The counter \<open>projected\<close> of a differential update, a \<open>usize\<close>; \<open>projected_no_underflow\<close> below shows
  that the subtraction never wraps.
\<close>

fun projected_len :: "(string, IdTagInfo) hmap \<Rightarrow> AuthorizationData list \<Rightarrow> int \<Rightarrow> int" where
  "projected_len m [] n = n"
| "projected_len m (e # es) n = (case ad_id_tag_info e of
      Some _ \<Rightarrow> projected_len m es (if \<not> hm_contains m (ad_id_tag e) then n + 1 else n)
    | None \<Rightarrow> projected_len m es (if hm_contains m (ad_id_tag e) then n - 1 else n))"

definition apply_entry :: "AuthorizationData \<Rightarrow> (string, IdTagInfo) hmap \<Rightarrow> (string, IdTagInfo) hmap" where
  "apply_entry e m = (case ad_id_tag_info e of
      Some info \<Rightarrow> AList.update (ad_id_tag e) info m
    | None \<Rightarrow> AList.delete (ad_id_tag e) m)"

definition apply_update :: "SendLocalListRequest \<Rightarrow> LocalAuthList \<Rightarrow> UpdateStatus \<times> LocalAuthList" where
  "apply_update r l =
     (if has_duplicate_id_tags r then (UpdateStatus.Failed, l)
      else case sll_update_type r of
        UpdateType.Full \<Rightarrow>
          (case build_replacement (sll_local_authorization_list r) [] of
             None \<Rightarrow> (UpdateStatus.Failed, l)
           | Some repl \<Rightarrow>
               if exceeds_capacity l (length repl) then (UpdateStatus.Failed, l)
               else (UpdateStatus.Accepted, l\<lparr>ll_entries := repl, ll_version := sll_list_version r\<rparr>))
      | UpdateType.Differential \<Rightarrow>
          if sint (sll_list_version r) \<le> sint (ll_version l) then (UpdateStatus.VersionMismatch, l)
          else if is_some_and (ll_max_length l) (\<lambda>mx. int mx <
                    projected_len (ll_entries l) (sll_local_authorization_list r) (int (length (ll_entries l))))
          then (UpdateStatus.Failed, l)
          else (UpdateStatus.Accepted,
                l\<lparr>ll_entries := fold apply_entry (sll_local_authorization_list r) (ll_entries l),
                  ll_version := sll_list_version r\<rparr>))"

definition v201_status_to_v16j :: "AuthorizationStatusEnumType \<Rightarrow> AuthorizationStatus" where
  "v201_status_to_v16j s = (case s of
      AuthorizationStatusEnumType.Accepted \<Rightarrow> AuthorizationStatus.Accepted
    | AuthorizationStatusEnumType.Blocked \<Rightarrow> AuthorizationStatus.Blocked
    | AuthorizationStatusEnumType.Expired \<Rightarrow> AuthorizationStatus.Expired
    | AuthorizationStatusEnumType.ConcurrentTx \<Rightarrow> AuthorizationStatus.ConcurrentTx
    | AuthorizationStatusEnumType.Invalid \<Rightarrow> AuthorizationStatus.Invalid
    | AuthorizationStatusEnumType.NoCredit \<Rightarrow> AuthorizationStatus.Invalid
    | AuthorizationStatusEnumType.NotAllowedTypeEvse \<Rightarrow> AuthorizationStatus.Invalid
    | AuthorizationStatusEnumType.NotAtThisLocation \<Rightarrow> AuthorizationStatus.Invalid
    | AuthorizationStatusEnumType.NotAtThisTime \<Rightarrow> AuthorizationStatus.Invalid
    | AuthorizationStatusEnumType.Unknown \<Rightarrow> AuthorizationStatus.Invalid)"

definition entry_from_v201 :: "AuthorizationData201 \<Rightarrow> AuthorizationData" where
  "entry_from_v201 e =
     \<lparr>ad_id_tag = itt_id_token (ad201_id_token e),
      ad_id_tag_info = map_option (\<lambda>info.
        \<lparr>iti_status = v201_status_to_v16j (itit_status info),
         iti_parent_id_tag = map_option itt_id_token (itit_group_id_token info),
         iti_expiry_date = None\<rparr>) (ad201_id_token_info e)\<rparr>"

definition v16j_request_from_v201 :: "SendLocalListRequest201 \<Rightarrow> SendLocalListRequest" where
  "v16j_request_from_v201 r =
     \<lparr>sll_list_version = sll201_version_number r,
      sll_update_type = (case sll201_update_type r of
          UpdateEnumType.Full \<Rightarrow> UpdateType.Full
        | UpdateEnumType.Differential \<Rightarrow> UpdateType.Differential),
      sll_local_authorization_list =
        map entry_from_v201 (unwrap_or (sll201_local_authorization_list r) [])\<rparr>"

definition update_status_to_v201 :: "UpdateStatus \<Rightarrow> SendLocalListStatusEnumType" where
  "update_status_to_v201 s = (case s of
      UpdateStatus.Accepted \<Rightarrow> SendLocalListStatusEnumType.Accepted
    | UpdateStatus.VersionMismatch \<Rightarrow> SendLocalListStatusEnumType.VersionMismatch
    | UpdateStatus.Failed \<Rightarrow> SendLocalListStatusEnumType.Failed
    | UpdateStatus.NotSupported \<Rightarrow> SendLocalListStatusEnumType.Failed)"

definition apply_v201 ::
  "SendLocalListRequest201 \<Rightarrow> LocalAuthList \<Rightarrow> SendLocalListStatusEnumType \<times> LocalAuthList" where
  "apply_v201 r l = (let (st, l') = apply_update (v16j_request_from_v201 r) l
                     in (update_status_to_v201 st, l'))"

section \<open>The specification of an update\<close>

text \<open>
  What an update asks for, as a function from tags to entries: nothing for an unlisted tag,
  \<open>Some None\<close> for a removal and \<open>Some (Some info)\<close> for an entry.
\<close>

definition request_for :: "AuthorizationData list \<Rightarrow> string \<Rightarrow> IdTagInfo option option" where
  "request_for es tag = map_of (map (\<lambda>e. (ad_id_tag e, ad_id_tag_info e)) es) tag"

definition updated :: "AuthorizationData list \<Rightarrow> (string \<Rightarrow> IdTagInfo option) \<Rightarrow> string \<Rightarrow> IdTagInfo option" where
  "updated es look tag = (case request_for es tag of None \<Rightarrow> look tag | Some e \<Rightarrow> e)"

abbreviation tags_of :: "AuthorizationData list \<Rightarrow> string list" where
  "tags_of es \<equiv> map ad_id_tag es"

lemma all_fresh_distinct: "all_fresh seen ts \<longleftrightarrow> distinct ts \<and> set ts \<inter> set seen = {}"
  by (induction ts arbitrary: seen) auto

lemma has_duplicate_iff: "has_duplicate_id_tags r \<longleftrightarrow> \<not> distinct (tags_of (sll_local_authorization_list r))"
  by (simp add: has_duplicate_id_tags_def all_fresh_distinct)

lemma request_for_Cons:
  "request_for (e # es) tag = (if tag = ad_id_tag e then Some (ad_id_tag_info e) else request_for es tag)"
  by (simp add: request_for_def)

lemma request_for_None: "request_for es tag = None \<longleftrightarrow> tag \<notin> set (tags_of es)"
  by (induction es) (auto simp: request_for_def)

lemma hm_wf_apply_entry [simp]: "hm_wf m \<Longrightarrow> hm_wf (apply_entry e m)"
  by (simp add: apply_entry_def split: option.splits)

lemma hm_wf_fold_apply_entry [simp]: "hm_wf m \<Longrightarrow> hm_wf (fold apply_entry es m)"
  by (induction es arbitrary: m) simp_all

lemma apply_entry_lookup:
  "map_of (apply_entry e m) tag = (if tag = ad_id_tag e then ad_id_tag_info e else map_of m tag)"
  by (simp add: apply_entry_def hm_get_update hm_get_delete split: option.splits)

lemma fold_apply_entry_lookup:
  "distinct (tags_of es) \<Longrightarrow> map_of (fold apply_entry es m) tag = updated es (map_of m) tag"
proof (induction es arbitrary: m)
  case Nil
  then show ?case by (simp add: updated_def request_for_def)
next
  case (Cons e es)
  then have "ad_id_tag e \<notin> set (tags_of es)" by simp
  then have "request_for es (ad_id_tag e) = None" by (simp only: request_for_None simp_thms)
  with Cons show ?case
    by (simp add: updated_def request_for_Cons apply_entry_lookup split: option.splits)
qed

lemma build_replacement_Some_iff:
  "build_replacement es m = Some r \<longleftrightarrow>
     list_all (\<lambda>e. ad_id_tag_info e \<noteq> None) es \<and> r = fold apply_entry es m"
  by (induction es arbitrary: m) (auto simp: apply_entry_def split: option.splits)

lemma build_replacement_None_iff:
  "build_replacement es m = None \<longleftrightarrow> \<not> list_all (\<lambda>e. ad_id_tag_info e \<noteq> None) es"
  by (induction es arbitrary: m) (auto split: option.splits)

text \<open>
  Each tag occurs once, so looking every entry up in the \<^emph>\<open>old\<close> map predicts the length of the
  new one: the counter is exact.
\<close>

lemma projected_len_cong:
  "(\<And>t. t \<in> set (tags_of es) \<Longrightarrow> hm_contains m t = hm_contains m' t) \<Longrightarrow>
     projected_len m es n = projected_len m' es n"
  by (induction es arbitrary: n) (simp_all split: option.splits)

lemma length_apply_entry:
  assumes "hm_wf m"
  shows "int (length (apply_entry e m)) = projected_len m [e] (int (length m))"
proof -
  have "hm_contains m k \<Longrightarrow> Suc 0 \<le> length m" for k
    by (cases m) (auto simp: hm_contains_def)
  with assms show ?thesis
    by (auto simp: apply_entry_def hm_length_update hm_length_delete of_nat_diff split: option.splits)
qed

lemma projected_len_exact:
  "hm_wf m \<Longrightarrow> distinct (tags_of es) \<Longrightarrow>
     projected_len m es (int (length m)) = int (length (fold apply_entry es m))"
proof (induction es arbitrary: m)
  case Nil
  then show ?case by simp
next
  case (Cons e es)
  have "projected_len m (e # es) (int (length m))
      = projected_len m es (int (length (apply_entry e m)))"
    using Cons.prems(1) by (simp add: length_apply_entry split: option.splits)
  also have "\<dots> = projected_len (apply_entry e m) es (int (length (apply_entry e m)))"
    using Cons.prems(2)
    by (intro projected_len_cong) (auto simp: hm_contains_def apply_entry_lookup rev_image_eqI)
  also have "\<dots> = int (length (fold apply_entry es (apply_entry e m)))"
    using Cons by simp
  finally show ?case by simp
qed

lemma projected_no_underflow:
  "hm_wf m \<Longrightarrow> distinct (tags_of es) \<Longrightarrow> 0 \<le> projected_len m es (int (length m))"
  by (simp add: projected_len_exact)

section \<open>Properties\<close>

definition list_inv :: "LocalAuthList \<Rightarrow> bool" where
  "list_inv l \<longleftrightarrow> hm_wf (ll_entries l) \<and> is_none_or (ll_max_length l) (\<lambda>mx. list_len l \<le> mx)"

text \<open>The lookups an accepted update must lead to.\<close>

definition target :: "SendLocalListRequest \<Rightarrow> LocalAuthList \<Rightarrow> string \<Rightarrow> IdTagInfo option" where
  "target r l = updated (sll_local_authorization_list r)
     (case sll_update_type r of UpdateType.Full \<Rightarrow> Map.empty
      | UpdateType.Differential \<Rightarrow> map_of (ll_entries l))"

definition acceptable :: "SendLocalListRequest \<Rightarrow> LocalAuthList \<Rightarrow> bool" where
  "acceptable r l \<longleftrightarrow> distinct (tags_of (sll_local_authorization_list r))
     \<and> (case sll_update_type r of
          UpdateType.Full \<Rightarrow> list_all (\<lambda>e. ad_id_tag_info e \<noteq> None) (sll_local_authorization_list r)
        | UpdateType.Differential \<Rightarrow> sint (ll_version l) < sint (sll_list_version r))
     \<and> is_none_or (ll_max_length l) (\<lambda>mx. card (dom (target r l)) \<le> mx)"

definition new_entries :: "SendLocalListRequest \<Rightarrow> LocalAuthList \<Rightarrow> (string, IdTagInfo) hmap" where
  "new_entries r l = fold apply_entry (sll_local_authorization_list r)
     (case sll_update_type r of UpdateType.Full \<Rightarrow> [] | UpdateType.Differential \<Rightarrow> ll_entries l)"

lemma new_entries_target:
  assumes "list_inv l" and "distinct (tags_of (sll_local_authorization_list r))"
  shows "hm_wf (new_entries r l)" and "map_of (new_entries r l) = target r l"
    and "length (new_entries r l) = card (dom (target r l))"
proof -
  show wf: "hm_wf (new_entries r l)"
    using assms(1) by (simp add: new_entries_def list_inv_def split: UpdateType.split)
  show eq: "map_of (new_entries r l) = target r l"
    using assms(2)
    by (intro ext) (simp add: new_entries_def target_def fold_apply_entry_lookup updated_def
        split: UpdateType.split option.split)
  show "length (new_entries r l) = card (dom (target r l))"
    using hm_length_card [OF wf] eq by simp
qed

lemma apply_update_cases:
  assumes "list_inv l"
  shows "apply_update r l =
    (if acceptable r l
     then (UpdateStatus.Accepted, l\<lparr>ll_entries := new_entries r l, ll_version := sll_list_version r\<rparr>)
     else (if distinct (tags_of (sll_local_authorization_list r))
              \<and> sll_update_type r = UpdateType.Differential
              \<and> sint (sll_list_version r) \<le> sint (ll_version l)
           then UpdateStatus.VersionMismatch else UpdateStatus.Failed, l))"
proof (cases "distinct (tags_of (sll_local_authorization_list r))")
  case False
  then show ?thesis by (simp add: apply_update_def has_duplicate_iff acceptable_def)
next
  case True
  note len = new_entries_target(3) [OF assms True]
  have wf: "hm_wf (ll_entries l)" using assms by (simp add: list_inv_def)
  show ?thesis
  proof (cases "sll_update_type r")
    case Full
    with True len show ?thesis
      by (auto simp: apply_update_def has_duplicate_iff acceptable_def new_entries_def
          build_replacement_Some_iff build_replacement_None_iff exceeds_capacity_def is_none_or_def
          is_some_and_def split: option.split)
  next
    case Differential
    with True len projected_len_exact [OF wf True] show ?thesis
      by (auto simp: apply_update_def has_duplicate_iff acceptable_def new_entries_def
          is_none_or_def is_some_and_def split: option.split)
  qed
qed

lemma list_inv_apply: "list_inv l \<Longrightarrow> list_inv (snd (apply_update r l))"
  using new_entries_target [of l r]
  by (auto simp: apply_update_cases acceptable_def list_inv_def list_len_def is_none_or_def
      split: option.split)

lemma apply_v201_snd: "snd (apply_v201 r l) = snd (apply_update (v16j_request_from_v201 r) l)"
  by (simp add: apply_v201_def split: prod.split)

lemma list_inv_apply_v201: "list_inv l \<Longrightarrow> list_inv (snd (apply_v201 r l))"
  by (simp add: apply_v201_snd list_inv_apply)

text \<open>
  Property C24. \<open>SendLocalList\<close> is all or nothing: an update is accepted exactly when no tag occurs
  twice, a full update carries information for every tag, a differential one advances the
  version, and the list it leads to fits the capacity. An accepted update makes every lookup what
  the request asks for and sets the version; a refused one leaves the list untouched and says
  \<open>VersionMismatch\<close> exactly when the version of a differential update is not newer.
\<close>

theorem local_list_update_spec:
  assumes "list_inv l"
  shows "if acceptable r l
    then fst (apply_update r l) = UpdateStatus.Accepted
         \<and> (\<lambda>tag. list_get tag (snd (apply_update r l))) = target r l
         \<and> ll_version (snd (apply_update r l)) = sll_list_version r
         \<and> list_len (snd (apply_update r l)) = card (dom (target r l))
    else snd (apply_update r l) = l
         \<and> fst (apply_update r l) =
             (if \<not> has_duplicate_id_tags r \<and> sll_update_type r = UpdateType.Differential
                 \<and> sint (sll_list_version r) \<le> sint (ll_version l)
              then UpdateStatus.VersionMismatch else UpdateStatus.Failed)"
  using new_entries_target [OF assms, of r]
  by (simp add: apply_update_cases [OF assms] acceptable_def list_get_def list_len_def has_duplicate_iff)

definition demo_info :: IdTagInfo where
  "demo_info = \<lparr>iti_status = AuthorizationStatus.Accepted, iti_parent_id_tag = None, iti_expiry_date = None\<rparr>"

definition demo_update :: SendLocalListRequest where
  "demo_update = \<lparr>sll_list_version = 1, sll_update_type = UpdateType.Differential,
     sll_local_authorization_list = [\<lparr>ad_id_tag = ''A'', ad_id_tag_info = Some demo_info\<rparr>,
                                     \<lparr>ad_id_tag = ''B'', ad_id_tag_info = None\<rparr>]\<rparr>"

lemma demo_target: "dom (target demo_update (with_max_length 1)) = {''A''}"
  by (auto simp: target_def demo_update_def updated_def request_for_def with_max_length_def
      split: if_splits)

theorem local_list_update_spec_witness:
  "list_inv (with_max_length 1) \<and> acceptable demo_update (with_max_length 1)
   \<and> fst (apply_update demo_update (with_max_length 1)) = UpdateStatus.Accepted
   \<and> list_len (snd (apply_update demo_update (with_max_length 1))) = 1"
proof -
  have inv: "list_inv (with_max_length 1)"
    by (simp add: list_inv_def with_max_length_def list_len_def)
  have acc: "acceptable demo_update (with_max_length 1)"
    using demo_target
    by (simp add: acceptable_def) (simp add: demo_update_def with_max_length_def)
  show ?thesis
    using local_list_update_spec [OF inv, of demo_update] inv acc by (simp add: demo_target [simplified])
qed

text \<open>The requests of both dialects act on the one list.\<close>

datatype list_command = Update16 SendLocalListRequest | Update201 SendLocalListRequest201

primrec list_exec :: "list_command \<Rightarrow> LocalAuthList \<Rightarrow> LocalAuthList" where
  "list_exec (Update16 r) l = snd (apply_update r l)"
| "list_exec (Update201 r) l = snd (apply_v201 r l)"

interpretation llist: machine list_exec list_inv
proof
  show "list_inv s \<Longrightarrow> list_inv (list_exec c s)" for s c
    by (cases c) (simp_all add: list_inv_apply list_inv_apply_v201)
qed

lemma apply_update_max: "ll_max_length (snd (apply_update r l)) = ll_max_length l"
  by (auto simp: apply_update_def split: option.splits UpdateType.splits)

lemma list_exec_max: "ll_max_length (list_exec c l) = ll_max_length l"
  by (cases c) (simp_all add: apply_update_max apply_v201_snd)

lemma list_run_max: "ll_max_length (fold list_exec cmds l) = ll_max_length l"
  by (induction cmds arbitrary: l) (simp_all add: list_exec_max)

text \<open>
  The list never holds more entries than \<open>LocalAuthListMaxLength\<close>, nor two entries
  for one tag, whatever updates of either dialect it receives.
\<close>

theorem local_list_capacity:
  "list_len (fold list_exec cmds (with_max_length n)) \<le> n
   \<and> hm_wf (ll_entries (fold list_exec cmds (with_max_length n)))"
proof -
  have "list_inv (fold list_exec cmds (with_max_length n))"
    by (rule llist.run_inv) (simp add: list_inv_def with_max_length_def list_len_def)
  then show ?thesis
    by (simp add: list_inv_def list_run_max, simp add: with_max_length_def)
qed

text \<open>
  A retransmitted update does no harm: applying the same request a second time
  changes neither the version nor any lookup.
\<close>

theorem local_list_retransmission:
  assumes "list_inv l"
  shows "let l1 = snd (apply_update r l); l2 = snd (apply_update r l1) in
    ll_version l2 = ll_version l1 \<and> (\<lambda>tag. list_get tag l2) = (\<lambda>tag. list_get tag l1)"
proof (cases "acceptable r l")
  case False
  with assms show ?thesis by (simp add: apply_update_cases)
next
  case True
  let ?l1 = "snd (apply_update r l)"
  have inv: "list_inv ?l1" using assms by (rule list_inv_apply)
  have l1: "?l1 = l\<lparr>ll_entries := new_entries r l, ll_version := sll_list_version r\<rparr>"
    using assms True by (simp add: apply_update_cases)
  show ?thesis
  proof (cases "sll_update_type r")
    case Full
    then have "map_of (new_entries r ?l1) = map_of (new_entries r l)"
      by (simp add: new_entries_def)
    with l1 apply_update_cases [OF inv, of r] show ?thesis
      by (simp add: Let_def list_get_def)
  next
    case Differential
    then have "\<not> acceptable r ?l1" by (simp add: acceptable_def l1)
    with apply_update_cases [OF inv, of r] show ?thesis by (simp add: Let_def)
  qed
qed

theorem local_list_retransmission_witness:
  "let l1 = snd (apply_update demo_update (with_max_length 1)); l2 = snd (apply_update demo_update l1) in
    ll_version l2 = ll_version l1 \<and> (\<lambda>tag. list_get tag l2) = (\<lambda>tag. list_get tag l1)"
  by (rule local_list_retransmission) (simp add: list_inv_def with_max_length_def list_len_def)

text \<open>
  The 2.0.1 entry point agrees with the 1.6J one on the translated request: the
  stored list is the same, the answer is \<open>Accepted\<close> or \<open>VersionMismatch\<close> exactly when the shared
  decision says so, and a stored status grants access only if the 2.0.1 status did. A full
  update without a list is not refused but accepted, and clears the list.
\<close>

theorem apply_v201_refines:
  "snd (apply_v201 r l) = snd (apply_update (v16j_request_from_v201 r) l)
   \<and> (fst (apply_v201 r l) = SendLocalListStatusEnumType.Accepted
      \<longleftrightarrow> fst (apply_update (v16j_request_from_v201 r) l) = UpdateStatus.Accepted)
   \<and> (fst (apply_v201 r l) = SendLocalListStatusEnumType.VersionMismatch
      \<longleftrightarrow> fst (apply_update (v16j_request_from_v201 r) l) = UpdateStatus.VersionMismatch)
   \<and> (v201_status_to_v16j s = AuthorizationStatus.Accepted \<longleftrightarrow> s = AuthorizationStatusEnumType.Accepted)
   \<and> apply_v201 (r\<lparr>sll201_update_type := UpdateEnumType.Full, sll201_local_authorization_list := None\<rparr>) l
     = (SendLocalListStatusEnumType.Accepted, l\<lparr>ll_entries := [], ll_version := sll201_version_number r\<rparr>)"
proof -
  have status: "v201_status_to_v16j s = AuthorizationStatus.Accepted \<longleftrightarrow> s = AuthorizationStatusEnumType.Accepted"
    by (cases s) (simp_all add: v201_status_to_v16j_def)
  have clear: "apply_v201 (r\<lparr>sll201_update_type := UpdateEnumType.Full, sll201_local_authorization_list := None\<rparr>) l
     = (SendLocalListStatusEnumType.Accepted, l\<lparr>ll_entries := [], ll_version := sll201_version_number r\<rparr>)"
    by (simp add: apply_v201_def v16j_request_from_v201_def apply_update_def has_duplicate_id_tags_def
        exceeds_capacity_def update_status_to_v201_def is_some_and_def split: option.split)
  show ?thesis
    by (simp add: status clear)
      (simp add: apply_v201_def update_status_to_v201_def split: prod.split UpdateStatus.split)
qed

text \<open>
  The version of a full update is stored unchecked, so a full update with version
  -1 makes the charge point report the version that means that local lists are not supported.
\<close>

theorem full_update_version_unchecked:
  "\<exists>r l. fst (apply_update r l) = UpdateStatus.Accepted
     \<and> ll_version (snd (apply_update r l)) = - 1 \<and> list_inv l"
proof (intro exI conjI)
  let ?r = "\<lparr>sll_list_version = - 1, sll_update_type = UpdateType.Full, sll_local_authorization_list = []\<rparr>"
  show "fst (apply_update ?r (with_max_length 1)) = UpdateStatus.Accepted"
    and "ll_version (snd (apply_update ?r (with_max_length 1))) = - 1"
    and "list_inv (with_max_length 1)"
    by (simp_all add: apply_update_def has_duplicate_id_tags_def exceeds_capacity_def
        with_max_length_def list_inv_def list_len_def)
qed

end
