(* ===== verification/Authorization.thy ===== *)
theory Authorization
  imports Auth_Cache Local_List
begin

text \<open>
  \<open>ChargePoint::authorize\<close> of \<open>ocpp-cp/src/lib.rs\<close>: the decision that combines the Local
  Authorization List, the authorization cache and the CSMS. The reply of the CSMS is an argument;
  \<open>now\<close> is the time at which the local sources are read and \<open>later\<close> the time at which the reply is
  stored.
\<close>

record auth_config =
  local_auth_list_enabled :: bool
  offline_auth_stale_ok :: bool

text \<open>The outcome of \<open>ChargePoint::call\<close>; only a timeout is treated apart.\<close>

datatype call_error = CallTimeout | OtherCallError string

record authorizer =
  az_config :: auth_config
  az_local_list :: LocalAuthList
  az_auth_cache :: AuthCache

definition id_tag_info_expired :: "datetime \<Rightarrow> IdTagInfo \<Rightarrow> bool" where
  "id_tag_info_expired now info = (case iti_expiry_date info of Some t \<Rightarrow> t \<le> now | None \<Rightarrow> False)"

definition invalid_info :: IdTagInfo where
  "invalid_info = \<lparr>iti_status = AuthorizationStatus.Invalid, iti_parent_id_tag = None, iti_expiry_date = None\<rparr>"

definition authorize ::
  "nat \<Rightarrow> datetime \<Rightarrow> datetime \<Rightarrow> datetime \<Rightarrow> (call_error, IdTagInfo) result \<Rightarrow> string
     \<Rightarrow> authorizer \<Rightarrow> (call_error, IdTagInfo) result \<times> authorizer" where
  "authorize dm mu now later reply tag a =
     (let csms = (case reply of
            Inr info \<Rightarrow> (Ok info, a\<lparr>az_auth_cache := cache_insert dm mu later tag info (az_auth_cache a)\<rparr>)
          | Inl CallTimeout \<Rightarrow>
              (case (offline_auth_stale_ok (az_config a), get_stale tag (az_auth_cache a)) of
                 (True, Some stale) \<Rightarrow>
                   if iti_status stale = AuthorizationStatus.Accepted then (Ok stale, a)
                   else (Ok invalid_info, a)
               | _ \<Rightarrow> (Ok invalid_info, a))
          | Inl (OtherCallError e) \<Rightarrow> (Err (OtherCallError e), a));
          cached = (case cache_get now tag (az_auth_cache a) of
            Some c \<Rightarrow> if iti_status c = AuthorizationStatus.Accepted then (Ok c, a) else csms
          | None \<Rightarrow> csms)
      in case (local_auth_list_enabled (az_config a), list_get tag (az_local_list a)) of
           (True, Some info) \<Rightarrow> if \<not> id_tag_info_expired now info then (Ok info, a) else cached
         | _ \<Rightarrow> cached)"

section \<open>The decision as a specification\<close>

definition grants :: "IdTagInfo \<Rightarrow> bool" where
  "grants i = (iti_status i = AuthorizationStatus.Accepted)"

text \<open>
  The answers of the local sources: an enabled list with an unexpired entry, whatever its status;
  a fresh cache entry that grants access; and, offline, any granting cache entry if the
  configuration allows stale ones.
\<close>

definition list_decides :: "datetime \<Rightarrow> string \<Rightarrow> authorizer \<Rightarrow> IdTagInfo option" where
  "list_decides now tag a = (if local_auth_list_enabled (az_config a)
     then (case list_get tag (az_local_list a) of
             Some i \<Rightarrow> if id_tag_info_expired now i then None else Some i | None \<Rightarrow> None)
     else None)"

definition cache_decides :: "datetime \<Rightarrow> string \<Rightarrow> authorizer \<Rightarrow> IdTagInfo option" where
  "cache_decides now tag a = (case cache_get now tag (az_auth_cache a) of
      Some i \<Rightarrow> if grants i then Some i else None | None \<Rightarrow> None)"

definition stale_decides :: "string \<Rightarrow> authorizer \<Rightarrow> IdTagInfo option" where
  "stale_decides tag a = (if offline_auth_stale_ok (az_config a)
     then (case get_stale tag (az_auth_cache a) of
             Some i \<Rightarrow> if grants i then Some i else None | None \<Rightarrow> None)
     else None)"

datatype decision =
    ByList IdTagInfo
  | ByCache IdTagInfo
  | ByCsms IdTagInfo
  | ByStale IdTagInfo
  | FailSafe
  | CallFails call_error

definition decide :: "datetime \<Rightarrow> (call_error, IdTagInfo) result \<Rightarrow> string \<Rightarrow> authorizer \<Rightarrow> decision" where
  "decide now reply tag a =
     (case (list_decides now tag a, cache_decides now tag a, reply, stale_decides tag a) of
        (Some i, _, _, _) \<Rightarrow> ByList i
      | (None, Some i, _, _) \<Rightarrow> ByCache i
      | (None, None, Inr i, _) \<Rightarrow> ByCsms i
      | (None, None, Inl CallTimeout, Some i) \<Rightarrow> ByStale i
      | (None, None, Inl CallTimeout, None) \<Rightarrow> FailSafe
      | (None, None, Inl (OtherCallError e), _) \<Rightarrow> CallFails (OtherCallError e))"

primrec answer :: "decision \<Rightarrow> (call_error, IdTagInfo) result" where
  "answer (ByList i) = Ok i"
| "answer (ByCache i) = Ok i"
| "answer (ByCsms i) = Ok i"
| "answer (ByStale i) = Ok i"
| "answer FailSafe = Ok invalid_info"
| "answer (CallFails e) = Err e"

definition stored :: "decision \<Rightarrow> IdTagInfo option" where
  "stored d = (case d of ByCsms i \<Rightarrow> Some i | _ \<Rightarrow> None)"

lemma not_grants_invalid [simp]: "\<not> grants invalid_info"
  by (simp add: grants_def invalid_info_def)

section \<open>Properties\<close>

text \<open>
  Property C26. \<open>authorize\<close> decides by precedence: an unexpired entry of the enabled Local
  Authorization List is final whatever its status, then a fresh accepted cache entry, then the
  CSMS, and without the CSMS an accepted stale entry if that is allowed, else \<open>Invalid\<close>. The cache
  changes only by storing an answer of the CSMS, and nothing else changes.
\<close>

theorem authorize_decision:
  "authorize dm mu now later reply tag a =
     (answer (decide now reply tag a),
      case stored (decide now reply tag a) of None \<Rightarrow> a
      | Some i \<Rightarrow> a\<lparr>az_auth_cache := cache_insert dm mu later tag i (az_auth_cache a)\<rparr>)"
  by (auto simp: authorize_def decide_def list_decides_def cache_decides_def stale_decides_def
      grants_def stored_def Let_def split: option.splits sum.splits call_error.splits bool.splits)

text \<open>
  Access is granted only on a granting source: if \<open>authorize\<close> answers \<open>Accepted\<close>, then
  the list holds an unexpired accepted entry, or the cache a fresh accepted one, or the CSMS
  accepted the tag now, or the CSMS timed out, stale entries are allowed and the cache holds an
  accepted one. In particular a blocked tag on the list stays blocked whatever the other sources say.
\<close>

theorem authorize_safe:
  assumes "fst (authorize dm mu now later reply tag a) = Ok i" and "grants i"
  shows "list_decides now tag a = Some i
    \<or> list_decides now tag a = None \<and>
       (cache_get now tag (az_auth_cache a) = Some i
        \<or> reply = Inr i
        \<or> reply = Inl CallTimeout \<and> offline_auth_stale_ok (az_config a)
           \<and> get_stale tag (az_auth_cache a) = Some i)"
  using assms
  by (auto simp: authorize_def list_decides_def Let_def
      split: option.splits sum.splits call_error.splits bool.splits if_splits)

definition demo_authorizer :: authorizer where
  "demo_authorizer = \<lparr>az_config = \<lparr>local_auth_list_enabled = True, offline_auth_stale_ok = True\<rparr>,
     az_local_list = with_max_length 1,
     az_auth_cache = \<lparr>ac_entries = [(''TAG'', \<lparr>ca_id_tag_info = demo_info, ca_expires_at = 5\<rparr>)], ac_ttl = 10\<rparr>\<rparr>"

theorem authorize_safe_witness:
  "fst (authorize 100 1000 7 8 (Inl CallTimeout) ''TAG'' demo_authorizer) = Ok demo_info
   \<and> (list_decides 7 ''TAG'' demo_authorizer = Some demo_info
    \<or> list_decides 7 ''TAG'' demo_authorizer = None \<and>
       (cache_get 7 ''TAG'' (az_auth_cache demo_authorizer) = Some demo_info
        \<or> (Inl CallTimeout :: (call_error, IdTagInfo) result) = Inr demo_info
        \<or> (Inl CallTimeout :: (call_error, IdTagInfo) result) = Inl CallTimeout
           \<and> offline_auth_stale_ok (az_config demo_authorizer)
           \<and> get_stale ''TAG'' (az_auth_cache demo_authorizer) = Some demo_info))"
proof -
  have ok: "fst (authorize 100 1000 7 8 (Inl CallTimeout) ''TAG'' demo_authorizer) = Ok demo_info"
    by (simp add: authorize_def demo_authorizer_def list_get_def with_max_length_def cache_defs
        demo_info_def)
  have gr: "grants demo_info" by (simp add: grants_def demo_info_def)
  show ?thesis using authorize_safe [OF ok gr] ok by blast
qed

text \<open>
  An answer of the CSMS is remembered: after an authorization that the CSMS decided,
  the stale lookup of the tag gives its answer and every other tag is unaffected.
\<close>

theorem authorize_remembers:
  "decide now reply tag a = ByCsms i \<Longrightarrow>
     let a' = snd (authorize dm mu now later reply tag a) in
       get_stale tag (az_auth_cache a') = Some i
       \<and> cache_get t tag (az_auth_cache a') \<in> {None, Some i}
       \<and> (tag' = tag \<or> cache_get t tag' (az_auth_cache a') = cache_get t tag' (az_auth_cache a))
       \<and> az_local_list a' = az_local_list a"
  using acache.fresh_after_store [of t tag dm mu later i "az_auth_cache a"]
    acache.fresh_store_other [of tag' tag t dm mu later i "az_auth_cache a"]
  by (auto simp: authorize_def decide_def list_decides_def cache_decides_def grants_def Let_def
      acache.stale_store split: option.splits sum.splits call_error.splits bool.splits if_splits)

theorem authorize_remembers_witness:
  "let a' = snd (authorize 100 1000 7 8 (Inr demo_info) ''NEW'' demo_authorizer) in
       get_stale ''NEW'' (az_auth_cache a') = Some demo_info
       \<and> cache_get 9 ''NEW'' (az_auth_cache a') \<in> {None, Some demo_info}
       \<and> (''TAG'' = ''NEW'' \<or> cache_get 9 ''TAG'' (az_auth_cache a') = cache_get 9 ''TAG'' (az_auth_cache demo_authorizer))
       \<and> az_local_list a' = az_local_list demo_authorizer"
proof -
  have "decide 7 (Inr demo_info) ''NEW'' demo_authorizer = ByCsms demo_info"
    by (simp add: decide_def list_decides_def cache_decides_def demo_authorizer_def list_get_def
        with_max_length_def cache_defs)
  from authorize_remembers [OF this] show ?thesis .
qed

end
