(* ===== verification/Charging_Profiles.thy ===== *)
theory Charging_Profiles
  imports Types
begin

text \<open>
  \<open>ocpp-cp/src/charging_profiles.rs\<close>: the store of installed 1.6J charging profiles with its
  install and clear rules, and the \<open>SetChargingProfile\<close> and \<open>ClearChargingProfile\<close> handlers of
  \<open>lib.rs\<close> that drive it. Each method holds the mutex throughout and is one step.
\<close>

section \<open>Operations\<close>

definition set_profile_status ::
  "i32 \<Rightarrow> bool \<Rightarrow> bool \<Rightarrow> ChargingProfilePurposeType \<Rightarrow> ChargingProfileStatus" where
  "set_profile_status cid known active purpose =
     (if cid \<noteq> 0 \<and> \<not> known then ChargingProfileStatus.Rejected
      else case purpose of
        ChargingProfilePurposeType.ChargePointMaxProfile \<Rightarrow>
          if cid \<noteq> 0 then ChargingProfileStatus.Rejected else ChargingProfileStatus.Accepted
      | ChargingProfilePurposeType.TxProfile \<Rightarrow>
          if cid = 0 \<or> \<not> active then ChargingProfileStatus.Rejected else ChargingProfileStatus.Accepted
      | ChargingProfilePurposeType.TxDefaultProfile \<Rightarrow> ChargingProfileStatus.Accepted)"

type_synonym profile_store = "(i32, ChargingProfile list) hmap"

definition same_slot :: "ChargingProfile \<Rightarrow> ChargingProfile \<Rightarrow> bool" where
  "same_slot p q \<longleftrightarrow> cp_charging_profile_purpose q = cp_charging_profile_purpose p
     \<and> cp_stack_level q = cp_stack_level p"

definition set_profile :: "i32 \<Rightarrow> ChargingProfile \<Rightarrow> profile_store \<Rightarrow> profile_store" where
  "set_profile cid p m =
     (let m1 = map (\<lambda>(k, ps). (k, filter (\<lambda>q. cp_charging_profile_id q \<noteq> cp_charging_profile_id p) ps)) m;
          slot = filter (\<lambda>q. \<not> same_slot p q) (unwrap_or (map_of m1 cid) []) @ [p]
      in filter (\<lambda>(k, ps). ps \<noteq> []) (AList.update cid slot m1))"

definition clear_matches ::
  "i32 option \<Rightarrow> ChargingProfilePurposeType option \<Rightarrow> i32 option \<Rightarrow> ChargingProfile \<Rightarrow> bool" where
  "clear_matches i purpose stack p \<longleftrightarrow>
     is_none_or i (\<lambda>v. cp_charging_profile_id p = v)
     \<and> is_none_or purpose (\<lambda>v. cp_charging_profile_purpose p = v)
     \<and> is_none_or stack (\<lambda>v. cp_stack_level p = v)"

text \<open>One turn of the loop over the connectors: the kept profiles and the count of removed ones.\<close>

fun clear_loop ::
  "i32 option \<Rightarrow> (ChargingProfile \<Rightarrow> bool) \<Rightarrow> profile_store \<Rightarrow> nat \<times> profile_store" where
  "clear_loop conn pred [] = (0, [])"
| "clear_loop conn pred ((k, ps) # m) =
     (let (n, m') = clear_loop conn pred m;
          kept = (if is_none_or conn (\<lambda>want. k = want) then filter (\<lambda>p. \<not> pred p) ps else ps)
      in (length ps - length kept + n, (k, kept) # m'))"

definition clear_profiles ::
  "i32 option \<Rightarrow> i32 option \<Rightarrow> ChargingProfilePurposeType option \<Rightarrow> i32 option \<Rightarrow> profile_store
     \<Rightarrow> ClearChargingProfileStatus \<times> profile_store" where
  "clear_profiles i conn purpose stack m =
     (let (removed, m') = clear_loop conn (clear_matches i purpose stack) m
      in (if 0 < removed then ClearChargingProfileStatus.Accepted else ClearChargingProfileStatus.Unknown,
          filter (\<lambda>(k, ps). ps \<noteq> []) m'))"

definition profiles_for :: "i32 \<Rightarrow> profile_store \<Rightarrow> ChargingProfile list" where
  "profiles_for cid m = unwrap_or (map_of m cid) []"

definition store_len :: "profile_store \<Rightarrow> nat" where
  "store_len m = sum_list (map (length \<circ> snd) m)"

definition store_is_empty :: "profile_store \<Rightarrow> bool" where
  "store_is_empty m = list_all (\<lambda>(k, ps). ps = []) m"

section \<open>Handlers\<close>

text \<open>
  What the handler reads of the charge point: the connectors it exposes and the connectors with a
  live transaction. A connector id is read as \<open>u32\<close>; 0 names no connector.
\<close>

definition connector_known :: "ConnectorId list \<Rightarrow> i32 \<Rightarrow> bool" where
  "connector_known conns cid = (case ConnectorId_new cid of Inr c \<Rightarrow> c \<in> set conns | Inl _ \<Rightarrow> False)"

definition handle_set_charging_profile ::
  "ConnectorId list \<Rightarrow> ConnectorId list \<Rightarrow> i32 \<Rightarrow> ChargingProfile \<Rightarrow> profile_store
     \<Rightarrow> ChargingProfileStatus \<times> profile_store" where
  "handle_set_charging_profile conns busy cid p m =
     (let status = set_profile_status cid (connector_known conns cid) (connector_known busy cid)
            (cp_charging_profile_purpose p)
      in (status, if status = ChargingProfileStatus.Accepted then set_profile cid p m else m))"

section \<open>Lookup laws\<close>

lemma map_of_filter_nonempty:
  "distinct (map fst m) \<Longrightarrow>
     unwrap_or (map_of (filter (\<lambda>(k, ps). ps \<noteq> []) m) k) [] = unwrap_or (map_of m k) []"
proof (induction m)
  case Nil
  then show ?case by simp
next
  case (Cons e m)
  obtain k1 ps where e: "e = (k1, ps)" by (cases e)
  have "k1 = k \<Longrightarrow> map_of m k = None"
    using Cons.prems by (simp add: e map_of_eq_None_iff)
  moreover have "k1 = k \<Longrightarrow> map_of (filter (\<lambda>(k, ps). ps \<noteq> []) m) k = None"
    using Cons.prems by (auto simp: e map_of_eq_None_iff)
  ultimately show ?case using Cons by (auto simp: e)
qed

lemma map_of_map_values: "map_of (map (\<lambda>(k, ps). (k, f ps)) m) k = map_option f (map_of m k)"
  by (induction m) auto

lemma keys_map_values [simp]: "map fst (map (\<lambda>(k, ps). (k, f ps)) m) = map fst m"
  by (induction m) auto

lemma profiles_for_Nil [simp]: "profiles_for k [] = []"
  by (simp add: profiles_for_def)

lemma unwrap_map_filter: "unwrap_or (map_option (filter P) x) [] = filter P (unwrap_or x [])"
  by (cases x) simp_all

lemma profiles_for_set:
  assumes "hm_wf m"
  shows "profiles_for k (set_profile cid p m) =
    (let others = filter (\<lambda>q. cp_charging_profile_id q \<noteq> cp_charging_profile_id p) (profiles_for k m)
     in if k = cid then filter (\<lambda>q. \<not> same_slot p q) others @ [p] else others)"
proof -
  let ?m1 = "map (\<lambda>(k, ps). (k, filter (\<lambda>q. cp_charging_profile_id q \<noteq> cp_charging_profile_id p) ps)) m"
  have "distinct (map fst ?m1)" using assms by (simp only: keys_map_values hm_wf_def)
  then have "distinct (map fst (AList.update cid v ?m1))" for v by (rule distinct_update)
  then show ?thesis
    by (simp add: set_profile_def profiles_for_def Let_def map_of_filter_nonempty hm_get_update
        map_of_map_values unwrap_map_filter)
qed

lemma clear_loop_snd:
  "snd (clear_loop conn pred m) =
     map (\<lambda>(k, ps). (k, if is_none_or conn (\<lambda>want. k = want) then filter (\<lambda>p. \<not> pred p) ps else ps)) m"
  by (induction m) (auto simp: Let_def split: prod.splits)

lemma clear_loop_fst:
  "fst (clear_loop conn pred m) = 0 \<longleftrightarrow>
     list_all (\<lambda>(k, ps). is_none_or conn (\<lambda>want. k = want) \<longrightarrow> list_all (\<lambda>p. \<not> pred p) ps) m"
proof (induction m)
  case Nil
  then show ?case by simp
next
  case (Cons e m)
  obtain k ps where e: "e = (k, ps)" by (cases e)
  let ?kept = "filter (\<lambda>p. \<not> pred p) ps"
  have "length ?kept = length ps \<longleftrightarrow> list_all (\<lambda>p. \<not> pred p) ps"
    by (metis filter_id_conv length_filter_less list_all_iff nat_neq_iff)
  moreover have "length ps + n \<le> length ?kept \<longleftrightarrow> length ?kept = length ps \<and> n = 0" for n
    using length_filter_le [of "\<lambda>p. \<not> pred p" ps] by linarith
  ultimately show ?case using Cons by (simp add: e Let_def case_prod_beta)
qed

lemma profiles_for_clear:
  assumes "hm_wf m"
  shows "profiles_for k (snd (clear_profiles i conn purpose stack m)) =
    (if is_none_or conn (\<lambda>want. k = want)
     then filter (\<lambda>p. \<not> clear_matches i purpose stack p) (profiles_for k m) else profiles_for k m)"
proof -
  let ?f = "\<lambda>k ps. if is_none_or conn (\<lambda>want. k = want)
     then filter (\<lambda>p. \<not> clear_matches i purpose stack p) ps else ps"
  have look: "map_of (map (\<lambda>(k, ps). (k, ?f k ps)) n) k = map_option (?f k) (map_of n k)" for n k
    by (induction n) auto
  have "map fst (map (\<lambda>(k, ps). (k, ?f k ps)) m) = map fst m" by (induction m) auto
  then have "distinct (map fst (snd (clear_loop conn (clear_matches i purpose stack) m)))"
    using assms by (simp only: clear_loop_snd hm_wf_def)
  then show ?thesis
    by (simp add: clear_profiles_def profiles_for_def case_prod_beta Let_def map_of_filter_nonempty
        clear_loop_snd look del: map_map) (cases "map_of m k"; simp)
qed

section \<open>Invariant\<close>

text \<open>
  No connector occurs twice and none is listed without profiles; a profile id occurs once on the
  whole charge point; and a connector has one profile per purpose and stack level.
\<close>

abbreviation slot_key :: "ChargingProfile \<Rightarrow> ChargingProfilePurposeType \<times> i32" where
  "slot_key p \<equiv> (cp_charging_profile_purpose p, cp_stack_level p)"

definition ids_unique :: "profile_store \<Rightarrow> bool" where
  "ids_unique m \<longleftrightarrow> (\<forall>k. distinct (map cp_charging_profile_id (profiles_for k m)))
     \<and> (\<forall>k k' p q. p \<in> set (profiles_for k m) \<longrightarrow> q \<in> set (profiles_for k' m)
          \<longrightarrow> cp_charging_profile_id p = cp_charging_profile_id q \<longrightarrow> k = k')"

definition slots_unique :: "profile_store \<Rightarrow> bool" where
  "slots_unique m \<longleftrightarrow> (\<forall>k. distinct (map slot_key (profiles_for k m)))"

definition store_inv :: "profile_store \<Rightarrow> bool" where
  "store_inv m \<longleftrightarrow> hm_wf m \<and> list_all (\<lambda>(k, ps). ps \<noteq> []) m \<and> ids_unique m \<and> slots_unique m"

text \<open>
  Placement: a charge-point-wide cap is installed at connector 0 only, a transaction profile at a
  real connector only.
\<close>

definition placed :: "i32 \<Rightarrow> ChargingProfile \<Rightarrow> bool" where
  "placed k p \<longleftrightarrow> (case cp_charging_profile_purpose p of
      ChargingProfilePurposeType.ChargePointMaxProfile \<Rightarrow> k = 0
    | ChargingProfilePurposeType.TxProfile \<Rightarrow> k \<noteq> 0
    | ChargingProfilePurposeType.TxDefaultProfile \<Rightarrow> True)"

definition placement_inv :: "profile_store \<Rightarrow> bool" where
  "placement_inv m \<longleftrightarrow> (\<forall>k. list_all (placed k) (profiles_for k m))"

lemma hm_wf_set: "hm_wf m \<Longrightarrow> hm_wf (set_profile cid p m)"
proof -
  assume "hm_wf m"
  then have "hm_wf (map (\<lambda>(k, ps). (k, filter P ps)) m)" for P
    by (simp only: hm_wf_def keys_map_values)
  then show ?thesis by (simp add: set_profile_def Let_def)
qed

lemma hm_wf_clear: "hm_wf m \<Longrightarrow> hm_wf (snd (clear_profiles i conn purpose stack m))"
proof -
  assume "hm_wf m"
  moreover have "map fst (snd (clear_loop conn pred m)) = map fst m" for pred
    by (induction m) (auto simp: Let_def split: prod.splits)
  ultimately have "hm_wf (snd (clear_loop conn pred m))" for pred
    by (simp only: hm_wf_def)
  then show ?thesis by (simp add: clear_profiles_def case_prod_beta)
qed

lemma store_inv_set: "store_inv m \<Longrightarrow> store_inv (set_profile cid p m)"
proof -
  assume inv: "store_inv m"
  then have wf: "hm_wf m" by (simp add: store_inv_def)
  note look = profiles_for_set [OF wf, of _ cid p]
  have "list_all (\<lambda>(k, ps). ps \<noteq> []) (set_profile cid p m)"
    by (auto simp: set_profile_def Let_def list_all_iff)
  moreover have "ids_unique (set_profile cid p m)"
    using inv unfolding store_inv_def ids_unique_def
    by (auto simp: look Let_def distinct_map_filter split: if_splits)
  moreover have "slots_unique (set_profile cid p m)"
    using inv unfolding store_inv_def slots_unique_def
    by (auto simp: look Let_def distinct_map_filter same_slot_def)
  ultimately show ?thesis using wf by (simp add: store_inv_def hm_wf_set)
qed

lemma store_inv_clear: "store_inv m \<Longrightarrow> store_inv (snd (clear_profiles i conn purpose stack m))"
proof -
  assume inv: "store_inv m"
  then have wf: "hm_wf m" by (simp add: store_inv_def)
  note look = profiles_for_clear [OF wf, of _ i conn purpose stack]
  have "list_all (\<lambda>(k, ps). ps \<noteq> []) (snd (clear_profiles i conn purpose stack m))"
    by (auto simp: clear_profiles_def case_prod_beta list_all_iff)
  moreover have "ids_unique (snd (clear_profiles i conn purpose stack m))"
    using inv unfolding store_inv_def ids_unique_def
    by (auto simp: look distinct_map_filter split: if_splits)
  moreover have "slots_unique (snd (clear_profiles i conn purpose stack m))"
    using inv unfolding store_inv_def slots_unique_def
    by (auto simp: look distinct_map_filter)
  ultimately show ?thesis using wf by (simp add: store_inv_def hm_wf_clear)
qed

text \<open>The messages that reach the store, with the state of the connectors at their arrival.\<close>

datatype profile_command =
    SetProfile "ConnectorId list" "ConnectorId list" i32 ChargingProfile
  | ClearProfile "i32 option" "i32 option" "ChargingProfilePurposeType option" "i32 option"

primrec profile_exec :: "profile_command \<Rightarrow> profile_store \<Rightarrow> profile_store" where
  "profile_exec (SetProfile conns busy cid p) m = snd (handle_set_charging_profile conns busy cid p m)"
| "profile_exec (ClearProfile i conn purpose stack) m = snd (clear_profiles i conn purpose stack m)"

definition profile_inv :: "profile_store \<Rightarrow> bool" where
  "profile_inv m \<longleftrightarrow> store_inv m \<and> placement_inv m"

lemma set_profile_status_placed:
  "set_profile_status cid known active (cp_charging_profile_purpose p) = ChargingProfileStatus.Accepted
     \<Longrightarrow> placed cid p"
  by (auto simp: set_profile_status_def placed_def split: if_splits ChargingProfilePurposeType.splits)

lemma profile_inv_set:
  "profile_inv m \<Longrightarrow> profile_inv (snd (handle_set_charging_profile conns busy cid p m))"
  using set_profile_status_placed
  by (auto simp: handle_set_charging_profile_def Let_def profile_inv_def store_inv_set placement_inv_def
      profiles_for_set store_inv_def [THEN iffD1, THEN conjunct1] list_all_iff)

interpretation profiles: machine profile_exec profile_inv
proof
  show "profile_inv s \<Longrightarrow> profile_inv (profile_exec c s)" for s c
  proof (cases c)
    case (SetProfile conns busy cid p)
    then show "profile_inv s \<Longrightarrow> profile_inv (profile_exec c s)" by (simp add: profile_inv_set)
  next
    case (ClearProfile i conn purpose stack)
    then show "profile_inv s \<Longrightarrow> profile_inv (profile_exec c s)"
      by (auto simp: profile_inv_def store_inv_clear placement_inv_def profiles_for_clear
          store_inv_def [THEN iffD1, THEN conjunct1] list_all_iff)
  qed
qed

section \<open>Properties\<close>

text \<open>
  Property C37. Whatever profiles the CSMS installs and clears, and whatever connectors and
  transactions come and go, every profile id is installed at most once on the whole charge point,
  a connector holds at most one profile per purpose and stack level, a charge-point-wide cap sits
  at connector 0 only and a transaction profile never does.
\<close>

theorem profile_store_invariant:
  "store_inv (fold profile_exec cmds []) \<and> placement_inv (fold profile_exec cmds [])"
proof -
  have "profile_inv []"
    by (simp add: profile_inv_def store_inv_def placement_inv_def ids_unique_def slots_unique_def)
  from profiles.run_inv [OF this] show ?thesis by (simp add: profile_inv_def)
qed

text \<open>
  An accepted \<open>SetChargingProfile\<close> installs the profile on its connector after the
  ones it keeps; it removes exactly the profiles with the same id anywhere and the one in the
  same slot of the connector. A rejected one changes nothing, and it is rejected exactly for an
  unknown connector, a charge-point-wide cap away from connector 0, and a transaction profile
  without an ongoing transaction on the connector.
\<close>

theorem set_charging_profile_spec:
  assumes "store_inv m"
  shows "let r = handle_set_charging_profile conns busy cid p m;
             others = (\<lambda>k. filter (\<lambda>q. cp_charging_profile_id q \<noteq> cp_charging_profile_id p) (profiles_for k m));
             purpose = cp_charging_profile_purpose p
    in if (cid = 0 \<or> ConnectorId cid \<in> set conns)
          \<and> (purpose = ChargingProfilePurposeType.ChargePointMaxProfile \<longrightarrow> cid = 0)
          \<and> (purpose = ChargingProfilePurposeType.TxProfile \<longrightarrow> cid \<noteq> 0 \<and> ConnectorId cid \<in> set busy)
       then fst r = ChargingProfileStatus.Accepted
            \<and> profiles_for k (snd r)
              = (if k = cid then filter (\<lambda>q. \<not> same_slot p q) (others cid) @ [p] else others k)
       else r = (ChargingProfileStatus.Rejected, m)"
proof -
  have wf: "hm_wf m" using assms by (simp add: store_inv_def)
  show ?thesis
    by (cases "cp_charging_profile_purpose p")
      (auto simp: handle_set_charging_profile_def set_profile_status_def connector_known_def
        ConnectorId_new_def Let_def profiles_for_set [OF wf])
qed

definition demo_profile :: "i32 \<Rightarrow> ChargingProfilePurposeType \<Rightarrow> f64 \<Rightarrow> ChargingProfile" where
  "demo_profile i purpose amps =
     \<lparr>cp_charging_profile_id = i, cp_transaction_id = None, cp_stack_level = 0,
      cp_charging_profile_purpose = purpose, cp_charging_profile_kind = ChargingProfileKindType.Absolute,
      cp_recurrency_kind = None, cp_valid_from = None, cp_valid_to = None,
      cp_charging_schedule = \<lparr>cs_duration = None, cs_start_schedule = None,
        cs_charging_rate_unit = ChargingRateUnitType.A_unit,
        cs_charging_schedule_period =
          [\<lparr>csp_start_period = 0, csp_limit = amps, csp_number_phases = None\<rparr>],
        cs_min_charging_rate = None\<rparr>\<rparr>"

theorem set_charging_profile_spec_witness:
  "fst (handle_set_charging_profile [ConnectorId 1] [] 1
      (demo_profile 7 ChargingProfilePurposeType.TxDefaultProfile (Finite 16)) []) = ChargingProfileStatus.Accepted
   \<and> profiles_for 1 (snd (handle_set_charging_profile [ConnectorId 1] [] 1
      (demo_profile 7 ChargingProfilePurposeType.TxDefaultProfile (Finite 16)) []))
     = [demo_profile 7 ChargingProfilePurposeType.TxDefaultProfile (Finite 16)]"
  using set_charging_profile_spec [of "[]" "[ConnectorId 1]" "[]" 1
      "demo_profile 7 ChargingProfilePurposeType.TxDefaultProfile (Finite 16)" 1]
  by (simp add: Let_def store_inv_def ids_unique_def slots_unique_def demo_profile_def)

text \<open>
  \<open>ClearChargingProfile\<close> removes exactly the profiles that match every filter given
  (an absent filter matches all), on the connector given or on all of them, and answers
  \<open>Accepted\<close> exactly when there was such a profile.
\<close>

theorem clear_charging_profile_spec:
  assumes "store_inv m"
  shows "let r = clear_profiles i conn purpose stack m;
             hit = (\<lambda>k p. is_none_or conn (\<lambda>c. k = c) \<and> clear_matches i purpose stack p)
    in profiles_for k (snd r) = filter (\<lambda>p. \<not> hit k p) (profiles_for k m)
       \<and> fst r = (if \<exists>k. list_ex (hit k) (profiles_for k m) then ClearChargingProfileStatus.Accepted
                  else ClearChargingProfileStatus.Unknown)"
proof -
  have wf: "hm_wf m" using assms by (simp add: store_inv_def)
  have entry: "(k, ps) \<in> set m \<longleftrightarrow> map_of m k = Some ps" for k ps
    using wf by (auto simp: hm_wf_def map_of_is_SomeI dest: map_of_SomeD)
  have ex: "list_ex pred (profiles_for k m) \<longleftrightarrow> (\<exists>ps. map_of m k = Some ps \<and> list_ex pred ps)" for k pred
    by (cases "map_of m k") (simp_all add: profiles_for_def)
  have "fst (clear_loop conn pred m) = 0 \<longleftrightarrow>
      (\<forall>k ps. map_of m k = Some ps \<longrightarrow> is_none_or conn (\<lambda>c. k = c) \<longrightarrow> list_all (\<lambda>p. \<not> pred p) ps)" for pred
    by (simp add: clear_loop_fst list_all_iff entry [symmetric]) blast
  then have "0 < fst (clear_loop conn pred m) \<longleftrightarrow>
      (\<exists>k. list_ex (\<lambda>p. is_none_or conn (\<lambda>c. k = c) \<and> pred p) (profiles_for k m))" for pred
    by (simp only: ex neq0_conv [symmetric] not_not) (auto simp: list_all_iff list_ex_iff)
  then have "fst (clear_profiles i conn purpose stack m) =
      (if \<exists>k. list_ex (\<lambda>p. is_none_or conn (\<lambda>c. k = c) \<and> clear_matches i purpose stack p) (profiles_for k m)
       then ClearChargingProfileStatus.Accepted else ClearChargingProfileStatus.Unknown)"
    by (simp add: clear_profiles_def case_prod_beta)
  then show ?thesis by (simp add: Let_def profiles_for_clear [OF wf])
qed

theorem clear_charging_profile_spec_witness:
  "fst (clear_profiles (Some 7) None None None
      [(1, [demo_profile 7 ChargingProfilePurposeType.TxDefaultProfile (Finite 16)])])
    = ClearChargingProfileStatus.Accepted"
proof -
  let ?m = "[(1, [demo_profile 7 ChargingProfilePurposeType.TxDefaultProfile (Finite 16)])] :: profile_store"
  have inv: "store_inv ?m"
    by (auto simp: store_inv_def ids_unique_def slots_unique_def profiles_for_def hm_wf_def)
  have "list_ex (\<lambda>p. clear_matches (Some 7) None None p) (profiles_for 1 ?m)"
    by (simp add: profiles_for_def clear_matches_def demo_profile_def)
  then show ?thesis
    using clear_charging_profile_spec [OF inv, of "Some 7" None None None 1]
    by (auto simp: Let_def)
qed

end
