(* ===== verification/Composite.thy ===== *)
theory Composite
  imports Charging_Profiles
begin

text \<open>
  \<open>ocpp-cp/src/composite.rs\<close>: the composite charging schedule of 1.6J, and the
  \<open>GetCompositeSchedule\<close> handler of \<open>lib.rs\<close> that gathers its candidates. Times are nanoseconds; the
  \<open>i64\<close> offsets in seconds are integers, whose sums cannot leave 64 bits because chrono's instants
  span fewer than \<open>2\<^sup>4\<^sup>4\<close> seconds. The offsets \<open>boundary_offsets\<close> narrows to \<open>i32\<close> lie below an \<open>i32\<close>
  duration and are kept as integers until they become a \<open>startPeriod\<close>.
\<close>

section \<open>The instantaneous limit of one profile\<close>

definition NOMINAL_VOLTAGE :: f64 where
  "NOMINAL_VOLTAGE = Finite 230"

record ScopedProfile =
  sp_specific :: bool
  sp_profile :: ChargingProfile

record Contribution =
  con_limit :: f64
  con_unit :: ChargingRateUnitType
  con_phases :: "i32 option"

definition convert :: "f64 \<Rightarrow> ChargingRateUnitType \<Rightarrow> ChargingRateUnitType \<Rightarrow> i32 \<Rightarrow> f64" where
  "convert amount from to phases = (case (from, to) of
      (ChargingRateUnitType.A_unit, ChargingRateUnitType.A_unit) \<Rightarrow> amount
    | (ChargingRateUnitType.W_unit, ChargingRateUnitType.W_unit) \<Rightarrow> amount
    | (ChargingRateUnitType.A_unit, ChargingRateUnitType.W_unit) \<Rightarrow>
        f64_mul (f64_mul amount NOMINAL_VOLTAGE) (f64_of_i32 phases)
    | (ChargingRateUnitType.W_unit, ChargingRateUnitType.A_unit) \<Rightarrow>
        f64_div amount (f64_mul NOMINAL_VOLTAGE (f64_of_i32 phases)))"

definition anchor :: "ChargingProfile \<Rightarrow> datetime \<Rightarrow> datetime" where
  "anchor p window_start = (case cp_charging_profile_kind p of
      ChargingProfileKindType.Relative \<Rightarrow> window_start
    | ChargingProfileKindType.Absolute \<Rightarrow>
        unwrap_or (cs_start_schedule (cp_charging_schedule p)) window_start
    | ChargingProfileKindType.Recurring \<Rightarrow>
        unwrap_or (cs_start_schedule (cp_charging_schedule p)) window_start)"

definition recurrence_period :: "ChargingProfile \<Rightarrow> int option" where
  "recurrence_period p =
     (if cp_charging_profile_kind p \<noteq> ChargingProfileKindType.Recurring then None
      else case cp_recurrency_kind p of
        Some RecurrencyKindType.Daily \<Rightarrow> Some 86400
      | Some RecurrencyKindType.Weekly \<Rightarrow> Some 604800
      | None \<Rightarrow> None)"

text \<open>The scan for the applicable period: the latest start not after the offset, the last of equals.\<close>

definition better_period ::
  "int \<Rightarrow> ChargingSchedulePeriod \<Rightarrow> ChargingSchedulePeriod option \<Rightarrow> ChargingSchedulePeriod option" where
  "better_period offset p chosen =
     (if sint (csp_start_period p) \<le> offset
         \<and> is_none_or chosen (\<lambda>c. sint (csp_start_period c) \<le> sint (csp_start_period p))
      then Some p else chosen)"

definition chosen_period :: "int \<Rightarrow> ChargingSchedulePeriod list \<Rightarrow> ChargingSchedulePeriod option" where
  "chosen_period offset ps = fold (better_period offset) ps None"

definition profile_limit_at :: "ChargingProfile \<Rightarrow> datetime \<Rightarrow> datetime \<Rightarrow> Contribution option" where
  "profile_limit_at p at_time window_start =
     (if is_some_and (cp_valid_from p) (\<lambda>t. at_time < t) then None
      else if is_some_and (cp_valid_to p) (\<lambda>t. t < at_time) then None
      else
        (let sched = cp_charging_schedule p;
             raw_offset = num_seconds (at_time - anchor p window_start)
         in case (case recurrence_period p of
                    Some period \<Rightarrow> Some (raw_offset mod period)
                  | None \<Rightarrow> if raw_offset < 0 then None else Some raw_offset) of
              None \<Rightarrow> None
            | Some offset \<Rightarrow>
                if is_some_and (cs_duration sched) (\<lambda>d. sint d \<le> offset) then None
                else map_option (\<lambda>c. \<lparr>con_limit = csp_limit c, con_unit = cs_charging_rate_unit sched,
                                      con_phases = csp_number_phases c\<rparr>)
                       (chosen_period offset (cs_charging_schedule_period sched))))"

section \<open>Combining the profiles\<close>

definition override_rank :: "ChargingProfilePurposeType \<Rightarrow> nat option" where
  "override_rank purpose = (case purpose of
      ChargingProfilePurposeType.TxProfile \<Rightarrow> Some 2
    | ChargingProfilePurposeType.TxDefaultProfile \<Rightarrow> Some 1
    | ChargingProfilePurposeType.ChargePointMaxProfile \<Rightarrow> None)"

abbreviation sp_purpose :: "ScopedProfile \<Rightarrow> ChargingProfilePurposeType" where
  "sp_purpose c \<equiv> cp_charging_profile_purpose (sp_profile c)"

type_synonym override_entry = "(nat \<times> bool \<times> int) \<times> Contribution"

definition override_entries :: "ScopedProfile list \<Rightarrow> datetime \<Rightarrow> datetime \<Rightarrow> override_entry list" where
  "override_entries cs at_time start = List.map_filter (\<lambda>c.
     case (override_rank (sp_purpose c), profile_limit_at (sp_profile c) at_time start) of
       (Some rank, Some contrib) \<Rightarrow> Some ((rank, sp_specific c, sint (cp_stack_level (sp_profile c))), contrib)
     | _ \<Rightarrow> None) cs"

definition override_limit_at :: "ScopedProfile list \<Rightarrow> datetime \<Rightarrow> datetime \<Rightarrow> Contribution option" where
  "override_limit_at cs at_time start = map_option snd (max_by_key fst (override_entries cs at_time start))"

definition ceiling_entries :: "ScopedProfile list \<Rightarrow> datetime \<Rightarrow> datetime \<Rightarrow> (int \<times> Contribution) list" where
  "ceiling_entries cs at_time start = List.map_filter (\<lambda>c.
     map_option (\<lambda>contrib. (sint (cp_stack_level (sp_profile c)), contrib))
       (profile_limit_at (sp_profile c) at_time start))
     (filter (\<lambda>c. sp_purpose c = ChargingProfilePurposeType.ChargePointMaxProfile) cs)"

definition ceiling_limit_at :: "ScopedProfile list \<Rightarrow> datetime \<Rightarrow> datetime \<Rightarrow> Contribution option" where
  "ceiling_limit_at cs at_time start = map_option snd (max_by_key fst (ceiling_entries cs at_time start))"

definition output_unit :: "ScopedProfile list \<Rightarrow> ChargingRateUnitType option \<Rightarrow> ChargingRateUnitType" where
  "output_unit cs requested = (case requested of
      Some unit \<Rightarrow> unit
    | None \<Rightarrow>
        (let best = max_by_key (\<lambda>c. (unwrap_or (override_rank (sp_purpose c)) 0,
                                      sint (cp_stack_level (sp_profile c))))
               (filter (\<lambda>c. override_rank (sp_purpose c) \<noteq> None) cs);
             picked = (case best of Some c \<Rightarrow> Some c | None \<Rightarrow> (case cs of [] \<Rightarrow> None | c # _ \<Rightarrow> Some c))
         in unwrap_or (map_option (\<lambda>c. cs_charging_rate_unit (cp_charging_schedule (sp_profile c))) picked)
              ChargingRateUnitType.A_unit))"

text \<open>
  One turn of the loop of \<open>effective_limit_at\<close>: the contribution replaces the current minimum
  unless that is at most the converted limit.
\<close>

definition contribution_in :: "ChargingRateUnitType \<Rightarrow> Contribution \<Rightarrow> f64" where
  "contribution_in unit c =
     (let phase_count = (case con_phases c of Some p \<Rightarrow> if 0 < sint p then p else 1 | None \<Rightarrow> 1)
      in convert (con_limit c) (con_unit c) unit phase_count)"

definition tighten ::
  "ChargingRateUnitType \<Rightarrow> Contribution \<Rightarrow> (f64 \<times> i32 option) option \<Rightarrow> (f64 \<times> i32 option) option" where
  "tighten unit c cur = (case cur of
      Some (current, ph) \<Rightarrow>
        if f64_le current (contribution_in unit c) then cur else Some (contribution_in unit c, con_phases c)
    | None \<Rightarrow> Some (contribution_in unit c, con_phases c))"

definition effective_limit_at ::
  "ScopedProfile list \<Rightarrow> datetime \<Rightarrow> datetime \<Rightarrow> ChargingRateUnitType \<Rightarrow> (f64 \<times> i32 option) option" where
  "effective_limit_at cs at_time start unit =
     fold (tighten unit)
       (List.map_filter id [override_limit_at cs at_time start, ceiling_limit_at cs at_time start]) None"

section \<open>Boundaries\<close>

definition in_window :: "int \<Rightarrow> int \<Rightarrow> int list" where
  "in_window duration x = (if 0 < x \<and> x < duration then [x] else [])"

definition schedule_edges :: "int \<Rightarrow> ChargingSchedule \<Rightarrow> int \<Rightarrow> int list" where
  "schedule_edges duration sched s =
     concat (map (\<lambda>p. in_window duration (s + sint (csp_start_period p))) (cs_charging_schedule_period sched))
     @ (case cs_duration sched of Some d \<Rightarrow> in_window duration (s + sint d) | None \<Rightarrow> [])"

text \<open>
  The loop over the occurrences of a recurring profile; \<open>edges\<close> gives the boundaries of the schedule
  when it is anchored at an offset. It ends because the period is positive;
  \<open>recurrence_period_pos\<close> shows that the first test never fires in the code.
\<close>

function occurrence_edges :: "(int \<Rightarrow> int list) \<Rightarrow> int \<Rightarrow> int \<Rightarrow> int \<Rightarrow> int \<Rightarrow> int list" where
  "occurrence_edges edges duration base period k =
     (if period \<le> 0 then []
      else if duration \<le> base + k * period then []
      else edges (base + k * period) @ occurrence_edges edges duration base period (k + 1))"
  by pat_completeness auto
termination
  by (relation "measure (\<lambda>(edges, duration, base, period, k). nat (duration - (base + k * period)))")
    (auto simp: algebra_simps)

declare occurrence_edges.simps [simp del]

definition candidate_edges :: "datetime \<Rightarrow> int \<Rightarrow> ScopedProfile \<Rightarrow> int list" where
  "candidate_edges start duration c =
     (let p = sp_profile c; sched = cp_charging_schedule p;
          base = num_seconds (anchor p start - start)
      in (case recurrence_period p of
            Some period \<Rightarrow> occurrence_edges (schedule_edges duration sched) duration base period ((- base) div period)
          | None \<Rightarrow> schedule_edges duration sched base)
         @ (case cp_valid_from p of Some t \<Rightarrow> in_window duration (num_seconds (t - start)) | None \<Rightarrow> [])
         @ (case cp_valid_to p of Some t \<Rightarrow> in_window duration (num_seconds (t - start) + 1) | None \<Rightarrow> []))"

text \<open>\<open>sort_unstable\<close> and \<open>dedup\<close>: on integers the order of equals is invisible.\<close>

definition boundary_offsets :: "ScopedProfile list \<Rightarrow> datetime \<Rightarrow> int \<Rightarrow> int list" where
  "boundary_offsets cs start duration =
     remdups_adj (sort (0 # concat (map (candidate_edges start duration) cs)))"

section \<open>The composite schedule\<close>

definition unchanged :: "(f64 \<times> i32 option) option \<Rightarrow> f64 \<Rightarrow> i32 option \<Rightarrow> bool" where
  "unchanged prev amount phases = (case prev of
      Some (pl, pp) \<Rightarrow> f64_lt (f64_abs (f64_sub pl amount)) f64_epsilon \<and> pp = phases
    | None \<Rightarrow> False)"

fun composite_periods ::
  "(int \<Rightarrow> (f64 \<times> i32 option) option) \<Rightarrow> (f64 \<times> i32 option) option \<Rightarrow> int list
     \<Rightarrow> ChargingSchedulePeriod list" where
  "composite_periods eff prev [] = []"
| "composite_periods eff prev (x # xs) =
     (case eff x of
        Some (amount, phases) \<Rightarrow>
          if unchanged prev amount phases then []
          else [\<lparr>csp_start_period = word_of_int x, csp_limit = amount, csp_number_phases = phases\<rparr>]
      | None \<Rightarrow> []) @ composite_periods eff (eff x) xs"

definition compute_composite ::
  "ScopedProfile list \<Rightarrow> datetime \<Rightarrow> i32 \<Rightarrow> ChargingRateUnitType option \<Rightarrow> ChargingSchedule option" where
  "compute_composite cs start duration_secs requested =
     (if sint duration_secs \<le> 0 then None
      else
        (let unit = output_unit cs requested;
             periods = composite_periods (\<lambda>x. effective_limit_at cs (start + seconds x) start unit) None
               (boundary_offsets cs start (sint duration_secs))
         in if periods = [] then None
            else Some \<lparr>cs_duration = Some duration_secs, cs_start_schedule = Some start,
                       cs_charging_rate_unit = unit, cs_charging_schedule_period = periods,
                       cs_min_charging_rate = None\<rparr>))"

text \<open>The 1.6J handler: the profiles of the connector, then those of connector 0.\<close>

definition composite_candidates :: "i32 \<Rightarrow> profile_store \<Rightarrow> ScopedProfile list" where
  "composite_candidates cid m =
     map (\<lambda>p. \<lparr>sp_specific = True, sp_profile = p\<rparr>) (profiles_for cid m)
     @ (if cid \<noteq> 0 then map (\<lambda>p. \<lparr>sp_specific = False, sp_profile = p\<rparr>) (profiles_for 0 m) else [])"

definition handle_get_composite_schedule ::
  "ConnectorId list \<Rightarrow> datetime \<Rightarrow> i32 \<Rightarrow> i32 \<Rightarrow> ChargingRateUnitType option \<Rightarrow> profile_store
     \<Rightarrow> GetCompositeScheduleStatus \<times> ChargingSchedule option" where
  "handle_get_composite_schedule conns now cid duration requested m =
     (if cid \<noteq> 0 \<and> \<not> connector_known conns cid then (GetCompositeScheduleStatus.Rejected, None)
      else case compute_composite (composite_candidates cid m) now duration requested of
        Some s \<Rightarrow> (GetCompositeScheduleStatus.Accepted, Some s)
      | None \<Rightarrow> (GetCompositeScheduleStatus.Rejected, None))"

section \<open>Boundaries: order and range\<close>

lemma recurrence_period_pos: "recurrence_period p = Some period \<Longrightarrow> 0 < period"
  by (auto simp: recurrence_period_def split: if_splits option.splits RecurrencyKindType.splits)

lemma set_in_window: "y \<in> set (in_window duration x) \<longleftrightarrow> y = x \<and> 0 < x \<and> x < duration"
proof (cases "0 < x \<and> x < duration")
  case True
  then have "in_window duration x = [x]" by (simp add: in_window_def)
  with True show ?thesis by simp
next
  case False
  then have "in_window duration x = []" by (simp add: in_window_def)
  with False show ?thesis by auto
qed

lemma mem_schedule_edges:
  "y \<in> set (schedule_edges duration sched s) \<longleftrightarrow> 0 < y \<and> y < duration
     \<and> ((\<exists>q \<in> set (cs_charging_schedule_period sched). y = s + sint (csp_start_period q))
        \<or> (\<exists>d. cs_duration sched = Some d \<and> y = s + sint d))"
  by (cases "cs_duration sched") (auto simp: schedule_edges_def set_in_window)

lemma schedule_edges_range: "y \<in> set (schedule_edges duration sched s) \<Longrightarrow> 0 < y \<and> y < duration"
  by (auto simp: schedule_edges_def set_in_window split: option.splits)

lemma occurrence_edges_set:
  assumes "0 < period"
  shows "set (occurrence_edges edges duration base period k) =
    (\<Union>j \<in> {j. k \<le> j \<and> base + j * period < duration}. set (edges (base + j * period)))"
  using assms
proof (induction edges duration base period k rule: occurrence_edges.induct)
  case (1 edges duration base period k)
  let ?J = "\<lambda>k. {j. k \<le> j \<and> base + j * period < duration}"
  show ?case
  proof (cases "duration \<le> base + k * period")
    case True
    have "?J k = {}"
    proof -
      have "base + k * period \<le> base + j * period" if "k \<le> j" for j
        using that \<open>0 < period\<close> by (simp add: mult_right_mono)
      with True show ?thesis by fastforce
    qed
    with True \<open>0 < period\<close> show ?thesis by (subst occurrence_edges.simps) (simp only: UN_empty if_True if_False not_less list.set(1) not_le refl if_cancel)
  next
    case False
    then have "?J k = insert k (?J (k + 1))" by auto
    with False 1 show ?thesis
      by (simp add: occurrence_edges.simps [of edges duration base period k])
  qed
qed

lemma candidate_edges_range: "y \<in> set (candidate_edges start duration c) \<Longrightarrow> 0 < y \<and> y < duration"
  by (auto simp: candidate_edges_def Let_def set_in_window
      occurrence_edges_set [OF recurrence_period_pos]
      dest: schedule_edges_range split: option.splits)

lemma set_boundary_offsets:
  "set (boundary_offsets cs start duration) =
     insert 0 (\<Union>c \<in> set cs. set (candidate_edges start duration c))"
  by (simp add: boundary_offsets_def del: sort_key_simps)

lemma distinct_remdups_adj_sorted: "sorted xs \<Longrightarrow> distinct (remdups_adj xs)"
  by (induction xs rule: remdups_adj.induct) (auto simp: order.strict_iff_order)

lemma boundary_offsets_sorted:
  "sorted (boundary_offsets cs start duration) \<and> distinct (boundary_offsets cs start duration)"
  by (simp add: boundary_offsets_def distinct_remdups_adj_sorted sorted_remdups_adj del: sort_key_simps)

section \<open>The effective limit is the minimum of the contributions\<close>

lemma effective_limit_cases:
  "effective_limit_at cs at_time start unit =
     (case (override_limit_at cs at_time start, ceiling_limit_at cs at_time start) of
        (None, None) \<Rightarrow> None
      | (Some a, None) \<Rightarrow> Some (contribution_in unit a, con_phases a)
      | (None, Some b) \<Rightarrow> Some (contribution_in unit b, con_phases b)
      | (Some a, Some b) \<Rightarrow>
          if f64_le (contribution_in unit a) (contribution_in unit b)
          then Some (contribution_in unit a, con_phases a)
          else Some (contribution_in unit b, con_phases b))"
  by (auto simp: effective_limit_at_def List.map_filter_def tighten_def split: option.splits)

section \<open>The effective limit changes at boundaries only\<close>

text \<open>
  A profile is regular for a window if its times lie whole seconds from the start of the window,
  no period starts before its schedule, and a recurring schedule has a period that starts with it.
\<close>

definition whole_second :: "datetime \<Rightarrow> datetime \<Rightarrow> bool" where
  "whole_second start t = ((t - start) mod 1000000000 = 0)"

definition regular :: "datetime \<Rightarrow> ChargingProfile \<Rightarrow> bool" where
  "regular start p \<longleftrightarrow>
     (let ps = cs_charging_schedule_period (cp_charging_schedule p) in
       is_none_or (cs_start_schedule (cp_charging_schedule p)) (whole_second start)
       \<and> is_none_or (cp_valid_from p) (whole_second start)
       \<and> is_none_or (cp_valid_to p) (whole_second start)
       \<and> list_all (\<lambda>q. 0 \<le> sint (csp_start_period q)) ps
       \<and> (recurrence_period p = None \<or> list_ex (\<lambda>q. sint (csp_start_period q) = 0) ps))"

lemma whole_second_eq: "whole_second start t \<Longrightarrow> t = start + seconds (num_seconds (t - start))"
proof -
  assume "whole_second start t"
  then have "t - start = 1000000000 * ((t - start) div 1000000000)"
    using mult_div_mod_eq [of 1000000000 "t - start"] by (simp only: whole_second_def add_0_right)
  then have "t - start = seconds ((t - start) div 1000000000)"
    by (simp add: seconds_def)
  then have "t - start = seconds (num_seconds (t - start))"
    by (metis num_seconds_seconds)
  then show ?thesis by simp
qed

definition sched_value :: "ChargingSchedule \<Rightarrow> int \<Rightarrow> Contribution option" where
  "sched_value sched x =
     (if is_some_and (cs_duration sched) (\<lambda>d. sint d \<le> x) then None
      else map_option (\<lambda>c. \<lparr>con_limit = csp_limit c, con_unit = cs_charging_rate_unit sched,
                            con_phases = csp_number_phases c\<rparr>)
             (chosen_period x (cs_charging_schedule_period sched)))"

definition recurring_value :: "ChargingProfile \<Rightarrow> int \<Rightarrow> Contribution option" where
  "recurring_value p x = (case recurrence_period p of
      Some period \<Rightarrow> sched_value (cp_charging_schedule p) (x mod period)
    | None \<Rightarrow> if x < 0 then None else sched_value (cp_charging_schedule p) x)"

lemma seconds_less [simp]: "seconds a < seconds b \<longleftrightarrow> a < b"
  by (simp add: seconds_def)

abbreviation base_of :: "ChargingProfile \<Rightarrow> datetime \<Rightarrow> int" where
  "base_of p start \<equiv> num_seconds (anchor p start - start)"

lemma anchor_whole: "regular start p \<Longrightarrow> anchor p start = start + seconds (base_of p start)"
proof -
  assume reg: "regular start p"
  then have "is_none_or (cs_start_schedule (cp_charging_schedule p)) (whole_second start)"
    by (simp add: regular_def Let_def)
  then have "whole_second start (anchor p start)"
    by (auto simp: anchor_def whole_second_def is_none_or_def unwrap_or_def
        split: ChargingProfileKindType.splits option.splits)
  then show ?thesis by (rule whole_second_eq)
qed

lemma profile_limit_at_seconds:
  assumes "regular start p"
  shows "profile_limit_at p (start + seconds x) start =
    (if is_some_and (cp_valid_from p) (\<lambda>t. x < num_seconds (t - start)) then None
     else if is_some_and (cp_valid_to p) (\<lambda>t. num_seconds (t - start) < x) then None
     else recurring_value p (x - base_of p start))"
proof -
  have "start + seconds x - anchor p start = seconds (x - base_of p start)"
    using anchor_whole [OF assms] by (simp add: seconds_diff [symmetric])
  then have raw: "num_seconds (start + seconds x - anchor p start) = x - base_of p start"
    by simp
  have vf: "is_some_and (cp_valid_from p) (\<lambda>t. start + seconds x < t)
      = is_some_and (cp_valid_from p) (\<lambda>t. x < num_seconds (t - start))"
  proof (cases "cp_valid_from p")
    case (Some t)
    then have "t = start + seconds (num_seconds (t - start))"
      using assms by (intro whole_second_eq) (simp add: regular_def Let_def)
    then have "start + seconds x < t \<longleftrightarrow> x < num_seconds (t - start)"
      by (metis add_less_cancel_left seconds_less)
    with Some show ?thesis by simp
  qed simp
  have vt: "is_some_and (cp_valid_to p) (\<lambda>t. t < start + seconds x)
      = is_some_and (cp_valid_to p) (\<lambda>t. num_seconds (t - start) < x)"
  proof (cases "cp_valid_to p")
    case (Some t)
    then have "t = start + seconds (num_seconds (t - start))"
      using assms by (intro whole_second_eq) (simp add: regular_def Let_def)
    then have "t < start + seconds x \<longleftrightarrow> num_seconds (t - start) < x"
      by (metis add_less_cancel_left seconds_less)
    with Some show ?thesis by simp
  qed simp
  show ?thesis
    unfolding profile_limit_at_def raw vf vt
    by (simp add: recurring_value_def sched_value_def Let_def split: option.split)
qed

lemma chosen_period_step:
  assumes "\<And>q. q \<in> set ps \<Longrightarrow> sint (csp_start_period q) \<noteq> x"
  shows "chosen_period x ps = chosen_period (x - 1) ps"
proof -
  have "fold (better_period x) ps c = fold (better_period (x - 1)) ps c" for c
    using assms
  proof (induction ps arbitrary: c)
    case (Cons q ps)
    then have "better_period x q c = better_period (x - 1) q c" by (auto simp: better_period_def)
    with Cons show ?case by simp
  qed simp
  then show ?thesis by (simp add: chosen_period_def)
qed

lemma chosen_period_none:
  assumes "\<And>q. q \<in> set ps \<Longrightarrow> x < sint (csp_start_period q)"
  shows "chosen_period x ps = None"
  unfolding chosen_period_def using assms
proof (induction ps)
  case (Cons q ps)
  from Cons.prems [of q] have "better_period x q None = None" by (simp add: better_period_def)
  with Cons show ?case by simp
qed simp

lemma sched_value_step:
  assumes "x + s \<notin> set (schedule_edges duration sched s)" and "0 < x + s" and "x + s < duration"
  shows "sched_value sched x = sched_value sched (x - 1)"
proof -
  from assms have ne: "\<And>q. q \<in> set (cs_charging_schedule_period sched) \<Longrightarrow> sint (csp_start_period q) \<noteq> x"
    and d: "\<And>d. cs_duration sched = Some d \<Longrightarrow> sint d \<noteq> x"
    by (auto simp: schedule_edges_def set_in_window add.commute)
  have "is_some_and (cs_duration sched) (\<lambda>d. sint d \<le> x) = is_some_and (cs_duration sched) (\<lambda>d. sint d \<le> x - 1)"
    using d by (cases "cs_duration sched") force+
  with chosen_period_step [OF ne] show ?thesis by (simp add: sched_value_def)
qed

lemma recurring_value_step:
  assumes reg: "regular start p" and x: "0 < x" "x < duration"
    and ne: "x \<notin> set (candidate_edges start duration c)" and p: "p = sp_profile c"
  shows "recurring_value p (x - base_of p start) = recurring_value p (x - 1 - base_of p start)"
proof (cases "recurrence_period p")
  case None
  let ?b = "base_of p start" and ?sched = "cp_charging_schedule p"
  have ne': "x \<notin> set (schedule_edges duration ?sched ?b)"
    using ne None by (simp add: candidate_edges_def Let_def p)
  consider "x - ?b < 0" | "x = ?b" | "1 \<le> x - ?b" by linarith
  then show ?thesis
  proof cases
    case 1
    with None show ?thesis by (simp add: recurring_value_def)
  next
    case 2
    have "0 < sint (csp_start_period q)" if q: "q \<in> set (cs_charging_schedule_period ?sched)" for q
    proof -
      have "sint (csp_start_period q) \<noteq> 0"
        using ne' q 2 x by (auto simp: schedule_edges_def set_in_window)
      moreover have "0 \<le> sint (csp_start_period q)"
        using reg q by (simp add: regular_def Let_def list_all_iff)
      ultimately show ?thesis by simp
    qed
    then have "sched_value ?sched 0 = None" by (simp add: sched_value_def chosen_period_none)
    with None 2 show ?thesis by (simp add: recurring_value_def)
  next
    case 3
    then have "sched_value ?sched (x - ?b) = sched_value ?sched (x - ?b - 1)"
      using ne' x by (intro sched_value_step [of _ ?b duration]) simp_all
    with 3 None show ?thesis by (simp add: recurring_value_def algebra_simps)
  qed
next
  case (Some period)
  let ?b = "base_of p start" and ?sched = "cp_charging_schedule p"
  let ?k = "(x - ?b) div period" and ?y = "(x - ?b) mod period"
  have pos: "0 < period" using Some by (rule recurrence_period_pos)
  have split: "?b + ?k * period + ?y = x" by simp
  have y: "0 \<le> ?y" "?y < period" using pos by simp_all
  have "(- ?b) div period \<le> ?k" using pos x by (intro zdiv_mono1) simp_all
  moreover have "?b + ?k * period < duration" using split y x by linarith
  ultimately have ne': "x \<notin> set (schedule_edges duration ?sched (?b + ?k * period))"
    using ne pos Some by (auto simp: candidate_edges_def Let_def p occurrence_edges_set)
  have "?y \<noteq> 0"
  proof
    assume y0: "?y = 0"
    obtain q where "q \<in> set (cs_charging_schedule_period ?sched)" "sint (csp_start_period q) = 0"
      using reg Some by (auto simp: regular_def Let_def list_ex_iff)
    moreover have "x = ?b + ?k * period" using split y0 by linarith
    ultimately show False using ne' x unfolding mem_schedule_edges by auto
  qed
  then have "1 \<le> ?y" using y by linarith
  have "x - 1 - ?b = ?y - 1 + ?k * period" using split by linarith
  then have "(x - 1 - ?b) mod period = ?y - 1"
    using y \<open>1 \<le> ?y\<close> by (simp only: mod_mult_self1) simp
  moreover have "sched_value ?sched ?y = sched_value ?sched (?y - 1)"
    using ne' split x by (intro sched_value_step [of _ "?b + ?k * period" duration]) (simp_all add: add.commute)
  ultimately show ?thesis using Some by (simp add: recurring_value_def)
qed

lemma profile_limit_step:
  assumes reg: "regular start (sp_profile c)" and x: "0 < x" "x < duration"
    and ne: "x \<notin> set (candidate_edges start duration c)"
  shows "profile_limit_at (sp_profile c) (start + seconds x) start
       = profile_limit_at (sp_profile c) (start + seconds (x - 1)) start"
proof -
  let ?p = "sp_profile c"
  have "is_some_and (cp_valid_from ?p) (\<lambda>t. x < num_seconds (t - start))
      = is_some_and (cp_valid_from ?p) (\<lambda>t. x - 1 < num_seconds (t - start))"
    using ne x
    by (cases "cp_valid_from ?p") (auto simp: candidate_edges_def Let_def set_in_window)
  moreover have "is_some_and (cp_valid_to ?p) (\<lambda>t. num_seconds (t - start) < x)
      = is_some_and (cp_valid_to ?p) (\<lambda>t. num_seconds (t - start) < x - 1)"
    using ne x
    by (cases "cp_valid_to ?p") (auto simp: candidate_edges_def Let_def set_in_window)
  ultimately show ?thesis
    using recurring_value_step [OF reg x ne refl]
    by (simp add: profile_limit_at_seconds [OF reg])
qed

lemma map_filter_cong_set:
  "(\<And>x. x \<in> set xs \<Longrightarrow> f x = g x) \<Longrightarrow> List.map_filter f xs = List.map_filter g xs"
  by (induction xs) (simp_all add: List.map_filter_simps split: option.split)

lemma effective_limit_cong:
  assumes "\<And>c. c \<in> set cs \<Longrightarrow> profile_limit_at (sp_profile c) t1 start = profile_limit_at (sp_profile c) t2 start"
  shows "effective_limit_at cs t1 start unit = effective_limit_at cs t2 start unit"
proof -
  have "override_entries cs t1 start = override_entries cs t2 start"
    unfolding override_entries_def using assms by (intro map_filter_cong_set) simp
  moreover have "ceiling_entries cs t1 start = ceiling_entries cs t2 start"
    unfolding ceiling_entries_def using assms by (intro map_filter_cong_set) simp
  ultimately show ?thesis
    by (simp add: effective_limit_at_def override_limit_at_def ceiling_limit_at_def)
qed

definition all_regular :: "datetime \<Rightarrow> ScopedProfile list \<Rightarrow> bool" where
  "all_regular start cs = list_all (\<lambda>c. regular start (sp_profile c)) cs"

text \<open>
  A limit that changes at boundaries only is decided at an offset by the last boundary at or
  before it.
\<close>

lemma last_boundary_decides:
  assumes step: "\<And>x. 0 < x \<Longrightarrow> x < duration \<Longrightarrow> x \<notin> B \<Longrightarrow> f x = f (x - 1)" and "0 \<in> B"
    and "n < nat duration"
  shows "\<exists>b \<in> B. b \<le> int n \<and> (\<forall>b' \<in> B. b' \<le> int n \<longrightarrow> b' \<le> b) \<and> f (int n) = f b"
  using assms(3)
proof (induction n)
  case 0
  then show ?case using assms(2) by auto
next
  case (Suc n)
  let ?x = "int (Suc n)"
  show ?case
  proof (cases "?x \<in> B")
    case True
    then show ?thesis by (intro bexI [of _ ?x]) auto
  next
    case False
    have eq: "f ?x = f (int n)" using step [of ?x] False Suc.prems by simp
    from Suc obtain b where b: "b \<in> B" "b \<le> int n" "\<forall>b' \<in> B. b' \<le> int n \<longrightarrow> b' \<le> b" "f (int n) = f b"
      by auto
    have "b' \<le> b" if "b' \<in> B" "b' \<le> ?x" for b'
    proof -
      have "b' \<noteq> ?x" using that(1) False by auto
      with that(2) have "b' \<le> int n" by simp
      with b(3) that(1) show ?thesis by blast
    qed
    with b eq show ?thesis by (intro bexI [of _ b]) auto
  qed
qed

lemma effective_limit_step:
  assumes "all_regular start cs" and "0 < x" and "x < duration"
    and "x \<notin> set (boundary_offsets cs start duration)"
  shows "effective_limit_at cs (start + seconds x) start unit
    = effective_limit_at cs (start + seconds (x - 1)) start unit"
proof (rule effective_limit_cong)
  fix c assume c: "c \<in> set cs"
  then have "regular start (sp_profile c)" using assms(1) by (simp add: all_regular_def list_all_iff)
  moreover have "x \<notin> set (candidate_edges start duration c)" using assms(4) c by (auto simp: set_boundary_offsets)
  ultimately show "profile_limit_at (sp_profile c) (start + seconds x) start
      = profile_limit_at (sp_profile c) (start + seconds (x - 1)) start"
    using assms(2,3) by (intro profile_limit_step)
qed

section \<open>The reported schedule\<close>

text \<open>What a schedule says about an offset: its last period that has started.\<close>

definition reported_at :: "ChargingSchedulePeriod list \<Rightarrow> int \<Rightarrow> (f64 \<times> i32 option) option" where
  "reported_at ps x =
     (let qs = filter (\<lambda>p. sint (csp_start_period p) \<le> x) ps
      in if qs = [] then None else Some (csp_limit (last qs), csp_number_phases (last qs)))"

lemma reported_at_Nil [simp]: "reported_at [] x = None"
  by (simp add: reported_at_def)

lemma reported_at_append:
  "reported_at (ps @ qs) x = (case reported_at qs x of None \<Rightarrow> reported_at ps x | Some v \<Rightarrow> Some v)"
  by (simp add: reported_at_def Let_def)

text \<open>
  Two limits closer than \<open>f64::EPSILON\<close> are coalesced; the schedule is exact when the limits that
  occur are equal or further apart.
\<close>

definition separated :: "(int \<Rightarrow> (f64 \<times> i32 option) option) \<Rightarrow> int list \<Rightarrow> bool" where
  "separated eff xs = list_all (\<lambda>x. list_all (\<lambda>y. case (eff x, eff y) of
      (Some (a, _), Some (b, _)) \<Rightarrow> f64_lt (f64_abs (f64_sub a b)) f64_epsilon \<longrightarrow> a = b
    | _ \<Rightarrow> True) xs) xs"

lemma separatedD:
  assumes "separated eff xs" and "x \<in> set xs" "y \<in> set xs"
    and "eff x = Some (a, ph)" "eff y = Some (b, ph')" and "unchanged (Some (a, ph)) b ph'"
  shows "a = b \<and> ph = ph'"
proof -
  have "case (eff x, eff y) of
      (Some (a, _), Some (b, _)) \<Rightarrow> f64_lt (f64_abs (f64_sub a b)) f64_epsilon \<longrightarrow> a = b
    | _ \<Rightarrow> True"
    using assms(1-3) by (simp add: separated_def list_all_iff)
  with assms(4-6) show ?thesis by (simp add: unchanged_def)
qed

lemma composite_periods_starts:
  "q \<in> set (composite_periods eff prev xs) \<Longrightarrow> \<exists>x \<in> set xs. csp_start_period q = word_of_int x"
  by (induction xs arbitrary: prev) (auto split: option.splits if_splits)

lemma reported_before:
  assumes "\<And>y. y \<in> set xs \<Longrightarrow> x < y \<and> y < 2 ^ 31" and "0 \<le> x"
  shows "reported_at (composite_periods eff prev xs) x = None"
proof -
  have "\<not> sint (csp_start_period q) \<le> x" if q: "q \<in> set (composite_periods eff prev xs)" for q
  proof -
    obtain y where y: "y \<in> set xs" "csp_start_period q = word_of_int y"
      using composite_periods_starts [OF q] by blast
    then have "sint (csp_start_period q) = y"
      using assms(1) [OF y(1)] assms(2) by (simp only: y(2)) (rule sint_word_of_int_i32; linarith)
    with assms(1) [OF y(1)] show ?thesis by simp
  qed
  then have "filter (\<lambda>p. sint (csp_start_period p) \<le> x) (composite_periods eff prev xs) = []"
    by (simp add: filter_empty_conv)
  then show ?thesis by (simp add: reported_at_def)
qed

lemma composite_periods_reported:
  assumes "sorted_wrt (<) xs" and "\<And>y. y \<in> set xs \<Longrightarrow> 0 \<le> y \<and> y < 2 ^ 31"
    and "separated eff ys" and "set xs \<subseteq> set ys" and "prev = None \<or> (\<exists>y \<in> set ys. prev = eff y)"
    and "b \<in> set xs" and "eff b = Some v"
  shows "reported_at (composite_periods eff prev xs) b = Some v
    \<or> reported_at (composite_periods eff prev xs) b = None \<and> prev = Some v"
  using assms
proof (induction xs arbitrary: prev)
  case Nil
  then show ?case by simp
next
  case (Cons x xs)
  let ?tail = "composite_periods eff (eff x) xs"
  let ?period = "\<lambda>v. \<lparr>csp_start_period = word_of_int x, csp_limit = fst v, csp_number_phases = snd v\<rparr>"
  have x: "0 \<le> x" "x < 2 ^ 31" using Cons.prems(2) by simp_all
  have sx: "sint (word_of_int x :: i32) = x" using x by (intro sint_word_of_int_i32) simp_all
  have head: "composite_periods eff prev (x # xs) =
      (case eff x of Some v \<Rightarrow> if unchanged prev (fst v) (snd v) then [] else [?period v] | None \<Rightarrow> []) @ ?tail"
    by (auto split: option.split)
  have same: "prev = Some w" if w: "eff x = Some w" and u: "unchanged prev (fst w) (snd w)" for w
  proof -
    obtain a ph where prev: "prev = Some (a, ph)"
      using u by (auto simp: unchanged_def split: option.splits)
    then obtain y where "y \<in> set ys" "eff y = Some (a, ph)" using Cons.prems(5) by auto
    moreover have "x \<in> set ys" using Cons.prems(4) by simp
    ultimately have "a = fst w \<and> ph = snd w"
      using separatedD [OF Cons.prems(3), of y x a ph "fst w" "snd w"] w u prev by simp
    with prev show ?thesis by simp
  qed
  have at_x: "reported_at [?period w] y = Some w" if "x \<le> y" for w y
    using that by (simp add: reported_at_def sx)
  show ?case
  proof (cases "b = x")
    case True
    have "reported_at ?tail x = None"
      using Cons.prems(1,2) x(1) by (intro reported_before) auto
    with True Cons.prems(7) same [of v] at_x [of x v] show ?thesis
      unfolding head reported_at_append by (cases "unchanged prev (fst v) (snd v)") auto
  next
    case False
    with Cons.prems have b: "b \<in> set xs" "x < b" by auto
    have "reported_at ?tail b = Some v \<or> reported_at ?tail b = None \<and> eff x = Some v"
      using Cons.prems b by (intro Cons.IH) auto
    with same [of v] at_x [of b v] b(2) show ?thesis
      unfolding head reported_at_append by (cases "unchanged prev (fst v) (snd v)") auto
  qed
qed

section \<open>Properties\<close>

lemma strict_boundary_offsets: "sorted_wrt (<) (boundary_offsets cs start duration)"
  using boundary_offsets_sorted [of cs start duration] by (simp add: strict_sorted_iff)

lemma boundary_offsets_range:
  "0 < duration \<Longrightarrow> y \<in> set (boundary_offsets cs start duration) \<Longrightarrow> 0 \<le> y \<and> y < duration"
  by (auto simp: set_boundary_offsets dest: candidate_edges_range)

abbreviation effective :: "ScopedProfile list \<Rightarrow> datetime \<Rightarrow> ChargingRateUnitType option \<Rightarrow> int
    \<Rightarrow> (f64 \<times> i32 option) option" where
  "effective cs start requested x \<equiv>
     effective_limit_at cs (start + seconds x) start (output_unit cs requested)"

lemma reported_upto:
  assumes "\<And>y. y \<in> set xs \<Longrightarrow> 0 \<le> y \<and> y < 2 ^ 31" and "b \<le> x"
    and "\<And>y. y \<in> set xs \<Longrightarrow> y \<le> x \<Longrightarrow> y \<le> b"
  shows "reported_at (composite_periods eff prev xs) x = reported_at (composite_periods eff prev xs) b"
proof -
  have "sint (csp_start_period q) \<le> x \<longleftrightarrow> sint (csp_start_period q) \<le> b"
    if q: "q \<in> set (composite_periods eff prev xs)" for q
  proof -
    obtain y where y: "y \<in> set xs" "csp_start_period q = word_of_int y"
      using composite_periods_starts [OF q] by blast
    then have "sint (csp_start_period q) = y"
      using assms(1) [OF y(1)] by (simp only: y(2)) (rule sint_word_of_int_i32; linarith)
    with assms(2) assms(3) [OF y(1)] show ?thesis by auto
  qed
  then have "filter (\<lambda>p. sint (csp_start_period p) \<le> x) (composite_periods eff prev xs)
      = filter (\<lambda>p. sint (csp_start_period p) \<le> b) (composite_periods eff prev xs)"
    by (rule filter_cong [OF refl])
  then show ?thesis by (simp add: reported_at_def)
qed

text \<open>
  The schedule built from the limits at the boundaries shows the limit at every offset, if that
  changes at boundaries only.
\<close>

lemma composite_periods_correct:
  assumes step: "\<And>x. 0 < x \<Longrightarrow> x < duration \<Longrightarrow> x \<notin> set B \<Longrightarrow> eff x = eff (x - 1)"
    and B: "sorted_wrt (<) B" "0 \<in> set B" "\<And>y. y \<in> set B \<Longrightarrow> 0 \<le> y \<and> y < 2 ^ 31"
    and x: "0 \<le> x" "x < duration" and sep: "separated eff B" and v: "eff x = Some v"
  shows "reported_at (composite_periods eff None B) x = Some v"
proof -
  obtain b where b: "b \<in> set B" "b \<le> x" "\<forall>b' \<in> set B. b' \<le> x \<longrightarrow> b' \<le> b" "eff x = eff b"
    using last_boundary_decides [of duration "set B" eff "nat x"] step B(2) x by auto
  have "reported_at (composite_periods eff None B) b = Some v"
    using composite_periods_reported [OF B(1) B(3) sep subset_refl, of None b v] b v by simp
  moreover have "reported_at (composite_periods eff None B) x = reported_at (composite_periods eff None B) b"
    using B(3) b by (intro reported_upto) auto
  ultimately show ?thesis by simp
qed

lemma reported_at_not_Nil: "reported_at ps x = Some v \<Longrightarrow> ps \<noteq> []"
  by auto

text \<open>
  Property C22. The composite schedule tells the truth about every second of the window: when the
  times of the profiles are whole seconds from the start of the window, no period starts before
  its schedule, recurring schedules start with a period, and the limits that occur do not differ
  by less than \<open>f64::EPSILON\<close>, then wherever the stacking rules impose a limit the reported
  schedule shows exactly that limit and phase count, in the chosen unit.
\<close>

theorem composite_schedule_correct:
  assumes "all_regular start cs" and "0 \<le> x" and "x < sint duration"
    and "separated (effective cs start requested) (boundary_offsets cs start (sint duration))"
    and "effective cs start requested x = Some v"
  shows "\<exists>sched. compute_composite cs start duration requested = Some sched
    \<and> cs_charging_rate_unit sched = output_unit cs requested
    \<and> reported_at (cs_charging_schedule_period sched) x = Some v"
proof -
  let ?B = "boundary_offsets cs start (sint duration)"
  let ?eff = "effective cs start requested"
  have pos: "0 < sint duration" using assms(2,3) by linarith
  have range: "0 \<le> y \<and> y < 2 ^ 31" if "y \<in> set ?B" for y
    using boundary_offsets_range [OF pos that] sint_i32_range(2) [of duration] by linarith
  have "reported_at (composite_periods ?eff None ?B) x = Some v"
    by (rule composite_periods_correct [where duration = "sint duration"])
      (use assms range strict_boundary_offsets effective_limit_step [OF assms(1)] in
        \<open>auto simp: set_boundary_offsets\<close>)
  with reported_at_not_Nil [OF this] pos show ?thesis by (simp add: compute_composite_def Let_def)
qed

definition demo_two_step :: ScopedProfile where
  "demo_two_step = \<lparr>sp_specific = True, sp_profile =
     (demo_profile 1 ChargingProfilePurposeType.TxDefaultProfile (Finite 16))
       \<lparr>cp_charging_schedule := \<lparr>cs_duration = None, cs_start_schedule = None,
          cs_charging_rate_unit = ChargingRateUnitType.A_unit,
          cs_charging_schedule_period =
            [\<lparr>csp_start_period = 0, csp_limit = Finite (of_int 16), csp_number_phases = None\<rparr>,
             \<lparr>csp_start_period = 600, csp_limit = Finite (of_int 32), csp_number_phases = None\<rparr>],
          cs_min_charging_rate = None\<rparr>\<rparr>\<rparr>"

lemmas demo_two_step_defs = demo_two_step_def demo_profile_def anchor_def recurrence_period_def

lemmas limit_defs = effective_limit_at_def override_limit_at_def ceiling_limit_at_def
  override_entries_def ceiling_entries_def profile_limit_at_def override_rank_def List.map_filter_def
  max_by_key_def chosen_period_def better_period_def Let_def tighten_def contribution_in_def
  convert_def num_seconds_def seconds_def

lemma demo_boundaries: "boundary_offsets [demo_two_step] 0 1000 = [0, 600]"
  by (simp add: boundary_offsets_def candidate_edges_def Let_def schedule_edges_def in_window_def
      num_seconds_def demo_two_step_defs)

lemma demo_unit: "output_unit [demo_two_step] None = ChargingRateUnitType.A_unit"
  by (simp add: output_unit_def demo_two_step_defs max_by_key_def override_rank_def Let_def)

lemma demo_effective:
  "effective [demo_two_step] 0 None 0 = Some (Finite (of_int 16), None)"
  "effective [demo_two_step] 0 None 600 = Some (Finite (of_int 32), None)"
  "effective [demo_two_step] 0 None 700 = Some (Finite (of_int 32), None)"
  unfolding demo_unit by (auto simp: limit_defs demo_two_step_defs)

theorem composite_schedule_correct_witness:
  "\<exists>sched. compute_composite [demo_two_step] 0 1000 None = Some sched
    \<and> cs_charging_rate_unit sched = output_unit [demo_two_step] None
    \<and> reported_at (cs_charging_schedule_period sched) 700 = Some (Finite (of_int 32), None)"
proof (rule composite_schedule_correct)
  show "all_regular 0 [demo_two_step]"
    by (simp add: all_regular_def regular_def demo_two_step_defs Let_def)
  show "0 \<le> (700 :: int)" and "700 < sint (1000 :: i32)" by simp_all
  show "separated (effective [demo_two_step] 0 None) (boundary_offsets [demo_two_step] 0 (sint (1000 :: i32)))"
    using rnd_int_apart [of "- 16"] rnd_int_apart [of 16]
    by (simp add: demo_boundaries separated_def demo_effective [unfolded add_0] f64_sub_def)
  show "effective [demo_two_step] 0 None 700 = Some (Finite (of_int 32), None)"
    by (rule demo_effective)
qed

text \<open>The precedence of a candidate among the overrides, and the entries the maximum is taken of.\<close>

definition override_key :: "ScopedProfile \<Rightarrow> nat \<times> bool \<times> int" where
  "override_key c = (unwrap_or (override_rank (sp_purpose c)) 0, sp_specific c,
     sint (cp_stack_level (sp_profile c)))"

definition is_ceiling :: "ScopedProfile \<Rightarrow> bool" where
  "is_ceiling c = (sp_purpose c = ChargingProfilePurposeType.ChargePointMaxProfile)"

abbreviation limit_of :: "ScopedProfile \<Rightarrow> datetime \<Rightarrow> datetime \<Rightarrow> Contribution option" where
  "limit_of c at_time start \<equiv> profile_limit_at (sp_profile c) at_time start"

lemma override_rank_None: "override_rank (sp_purpose c) = None \<longleftrightarrow> is_ceiling c"
  by (auto simp: override_rank_def is_ceiling_def split: ChargingProfilePurposeType.splits)

lemma mem_override_entries:
  "e \<in> set (override_entries cs t start) \<longleftrightarrow>
     (\<exists>c \<in> set cs. \<not> is_ceiling c \<and> fst e = override_key c \<and> limit_of c t start = Some (snd e))"
proof -
  have "(\<exists>c \<in> set cs. (case (override_rank (sp_purpose c), limit_of c t start) of
         (Some rank, Some contrib) \<Rightarrow> Some ((rank, sp_specific c, sint (cp_stack_level (sp_profile c))), contrib)
       | _ \<Rightarrow> None) = Some e)
    \<longleftrightarrow> (\<exists>c \<in> set cs. \<not> is_ceiling c \<and> fst e = override_key c \<and> limit_of c t start = Some (snd e))"
    by (intro bex_cong refl, cases e)
      (auto simp: override_key_def override_rank_None [symmetric] split: option.splits)
  then show ?thesis
    by (force simp: override_entries_def List.map_filter_def split: option.splits)
qed

lemma mem_ceiling_entries:
  "e \<in> set (ceiling_entries cs t start) \<longleftrightarrow>
     (\<exists>c \<in> set cs. is_ceiling c \<and> fst e = sint (cp_stack_level (sp_profile c)) \<and> limit_of c t start = Some (snd e))"
  by (cases e) (force simp: ceiling_entries_def List.map_filter_def is_ceiling_def)

lemma override_limit_spec:
  assumes "override_limit_at cs t start = Some k"
  obtains c where "c \<in> set cs" "\<not> is_ceiling c" "limit_of c t start = Some k"
    "\<And>c'. c' \<in> set cs \<Longrightarrow> \<not> is_ceiling c' \<Longrightarrow> limit_of c' t start \<noteq> None \<Longrightarrow> override_key c' \<le> override_key c"
proof -
  obtain e where e: "max_by_key fst (override_entries cs t start) = Some e" "k = snd e"
    using assms by (auto simp: override_limit_at_def)
  obtain c where c: "c \<in> set cs" "\<not> is_ceiling c" "fst e = override_key c" "limit_of c t start = Some (snd e)"
    using max_by_key_in [OF e(1)] by (auto simp: mem_override_entries)
  have "override_key c' \<le> override_key c"
    if c': "c' \<in> set cs" "\<not> is_ceiling c'" "limit_of c' t start \<noteq> None" for c'
  proof -
    obtain k' where "limit_of c' t start = Some k'" using c'(3) by blast
    with c' have "(override_key c', k') \<in> set (override_entries cs t start)"
      by (auto simp: mem_override_entries)
    from max_by_key_ge [OF e(1) this] c(3) show ?thesis by simp
  qed
  with c e(2) that show thesis by blast
qed

lemma ceiling_limit_spec:
  assumes "ceiling_limit_at cs t start = Some k"
  obtains c where "c \<in> set cs" "is_ceiling c" "limit_of c t start = Some k"
    "\<And>c'. c' \<in> set cs \<Longrightarrow> is_ceiling c' \<Longrightarrow> limit_of c' t start \<noteq> None \<Longrightarrow>
       sint (cp_stack_level (sp_profile c')) \<le> sint (cp_stack_level (sp_profile c))"
proof -
  obtain e where e: "max_by_key fst (ceiling_entries cs t start) = Some e" "k = snd e"
    using assms by (auto simp: ceiling_limit_at_def)
  obtain c where c: "c \<in> set cs" "is_ceiling c" "fst e = sint (cp_stack_level (sp_profile c))"
    "limit_of c t start = Some (snd e)"
    using max_by_key_in [OF e(1)] by (auto simp: mem_ceiling_entries)
  have "sint (cp_stack_level (sp_profile c')) \<le> sint (cp_stack_level (sp_profile c))"
    if c': "c' \<in> set cs" "is_ceiling c'" "limit_of c' t start \<noteq> None" for c'
  proof -
    obtain k' where "limit_of c' t start = Some k'" using c'(3) by blast
    with c' have "(sint (cp_stack_level (sp_profile c')), k') \<in> set (ceiling_entries cs t start)"
      by (auto simp: mem_ceiling_entries)
    from max_by_key_ge [OF e(1) this] c(3) show ?thesis by simp
  qed
  with c e(2) that show thesis by blast
qed

lemma no_override: "override_limit_at cs t start = None \<longleftrightarrow>
    (\<forall>c \<in> set cs. is_ceiling c \<or> limit_of c t start = None)"
proof -
  have "override_entries cs t start = [] \<longleftrightarrow> (\<forall>e. e \<notin> set (override_entries cs t start))"
    by (metis all_not_in_conv empty_set set_empty)
  also have "\<dots> \<longleftrightarrow> (\<forall>c \<in> set cs. is_ceiling c \<or> limit_of c t start = None)"
    unfolding mem_override_entries by (metis fst_conv not_None_eq option.distinct(1) snd_conv)
  finally show ?thesis by (simp add: override_limit_at_def)
qed

lemma no_ceiling: "ceiling_limit_at cs t start = None \<longleftrightarrow>
    (\<forall>c \<in> set cs. \<not> is_ceiling c \<or> limit_of c t start = None)"
proof -
  have "ceiling_entries cs t start = [] \<longleftrightarrow> (\<forall>e. e \<notin> set (ceiling_entries cs t start))"
    by (metis all_not_in_conv empty_set set_empty)
  also have "\<dots> \<longleftrightarrow> (\<forall>c \<in> set cs. \<not> is_ceiling c \<or> limit_of c t start = None)"
    unfolding mem_ceiling_entries by (metis fst_conv not_None_eq option.distinct(1) snd_conv)
  finally show ?thesis by (simp add: ceiling_limit_at_def)
qed

lemma effective_min:
  assumes w: "effective_limit_at cs t start unit = Some w"
    and nn: "\<And>a. override_limit_at cs t start = Some a \<or> ceiling_limit_at cs t start = Some a \<Longrightarrow>
      not_nan (contribution_in unit a)"
  shows "\<exists>a. (override_limit_at cs t start = Some a \<or> ceiling_limit_at cs t start = Some a)
    \<and> w = (contribution_in unit a, con_phases a)
    \<and> (\<forall>b. override_limit_at cs t start = Some b \<or> ceiling_limit_at cs t start = Some b \<longrightarrow>
          f64_le (contribution_in unit a) (contribution_in unit b))"
proof (cases "override_limit_at cs t start")
  case None
  with w nn show ?thesis
    by (cases "ceiling_limit_at cs t start") (auto simp: effective_limit_cases f64_le_refl)
next
  case (Some a)
  show ?thesis
  proof (cases "ceiling_limit_at cs t start")
    case None
    with w nn Some show ?thesis by (auto simp: effective_limit_cases f64_le_refl)
  next
    case (Some b)
    have n: "not_nan (contribution_in unit a)" "not_nan (contribution_in unit b)"
      using nn \<open>override_limit_at cs t start = Some a\<close> Some by blast+
    show ?thesis
    proof (cases "f64_le (contribution_in unit a) (contribution_in unit b)")
      case True
      with w n \<open>override_limit_at cs t start = Some a\<close> Some show ?thesis
        by (intro exI [of _ a]) (auto simp: effective_limit_cases f64_le_refl)
    next
      case False
      with w n \<open>override_limit_at cs t start = Some a\<close> Some f64_not_le [OF n False] show ?thesis
        by (intro exI [of _ b]) (auto simp: effective_limit_cases f64_le_refl)
    qed
  qed
qed

text \<open>The limit that outranks a candidate: the one of an applicable candidate of its class that is at least as high.\<close>

definition outranks :: "ScopedProfile \<Rightarrow> ScopedProfile \<Rightarrow> bool" where
  "outranks c' c \<longleftrightarrow> (is_ceiling c' \<longleftrightarrow> is_ceiling c) \<and>
     (if is_ceiling c then sint (cp_stack_level (sp_profile c)) \<le> sint (cp_stack_level (sp_profile c'))
      else override_key c \<le> override_key c')"

text \<open>
  The stacking rules: at any instant there is a limit exactly when some profile
  applies. The limit is the contribution of an applicable profile, and for every applicable
  profile it does not exceed the contribution of an applicable profile that outranks it in its
  class: transaction profiles before defaults, the connector before connector 0, a higher stack
  level before a lower one, and the charge-point-wide caps among themselves by stack level.
\<close>

theorem stacking_rules:
  assumes nan: "\<forall>c \<in> set cs. \<forall>k. limit_of c t start = Some k \<longrightarrow> not_nan (contribution_in unit k)"
  shows "case effective_limit_at cs t start unit of
      None \<Rightarrow> \<forall>c \<in> set cs. limit_of c t start = None
    | Some (l, ph) \<Rightarrow>
        (\<exists>c k. c \<in> set cs \<and> limit_of c t start = Some k \<and> l = contribution_in unit k \<and> ph = con_phases k)
        \<and> (\<forall>c \<in> set cs. limit_of c t start \<noteq> None \<longrightarrow>
             (\<exists>c' k'. c' \<in> set cs \<and> outranks c' c \<and> limit_of c' t start = Some k'
                \<and> f64_le l (contribution_in unit k')))"
proof -
  let ?o = "override_limit_at cs t start" and ?c = "ceiling_limit_at cs t start"
  let ?v = "contribution_in unit"
  have source: "\<exists>c \<in> set cs. limit_of c t start = Some a" if "?o = Some a \<or> ?c = Some a" for a
    using that by (auto elim: override_limit_spec ceiling_limit_spec)
  then have nn: "not_nan (?v a)" if "?o = Some a \<or> ?c = Some a" for a using that nan by blast
  have dom: "\<exists>c' k'. c' \<in> set cs \<and> outranks c' c \<and> limit_of c' t start = Some k' \<and> f64_le l (?v k')"
    if le: "\<And>a. ?o = Some a \<or> ?c = Some a \<Longrightarrow> f64_le l (?v a)" and c: "c \<in> set cs" "limit_of c t start \<noteq> None" for l c
  proof (cases "is_ceiling c")
    case True
    with c obtain b where b: "?c = Some b" using no_ceiling [of cs t start] by (cases ?c) auto
    from ceiling_limit_spec [OF b] True c le [of b] b show ?thesis by (metis outranks_def)
  next
    case False
    with c obtain a where a: "?o = Some a" using no_override [of cs t start] by (cases ?o) auto
    from override_limit_spec [OF a] False c le [of a] a show ?thesis by (metis outranks_def)
  qed
  show ?thesis
  proof (cases "effective_limit_at cs t start unit")
    case None
    then have "?o = None" "?c = None" by (auto simp: effective_limit_cases split: option.splits if_splits)
    then show ?thesis using None no_override [of cs t start] no_ceiling [of cs t start] by auto
  next
    case (Some w)
    then obtain a where a: "?o = Some a \<or> ?c = Some a" "w = (?v a, con_phases a)"
      and le: "\<And>b. ?o = Some b \<or> ?c = Some b \<Longrightarrow> f64_le (?v a) (?v b)"
      using effective_min [OF Some] nn by metis
    from source [OF a(1)] dom [OF le] Some a(2) show ?thesis by (simp, blast)
  qed
qed


lemma demo_contribution:
  "limit_of demo_two_step 0 0
   = Some \<lparr>con_limit = Finite 16, con_unit = ChargingRateUnitType.A_unit, con_phases = None\<rparr>"
  by (auto simp: limit_defs demo_two_step_defs)

theorem stacking_rules_witness:
  "case effective_limit_at [demo_two_step] 0 0 ChargingRateUnitType.A_unit of
      None \<Rightarrow> \<forall>c \<in> set [demo_two_step]. limit_of c 0 0 = None
    | Some (l, ph) \<Rightarrow>
        (\<exists>c k. c \<in> set [demo_two_step] \<and> limit_of c 0 0 = Some k
           \<and> l = contribution_in ChargingRateUnitType.A_unit k \<and> ph = con_phases k)
        \<and> (\<forall>c \<in> set [demo_two_step]. limit_of c 0 0 \<noteq> None \<longrightarrow>
             (\<exists>c' k'. c' \<in> set [demo_two_step] \<and> outranks c' c \<and> limit_of c' 0 0 = Some k'
                \<and> f64_le l (contribution_in ChargingRateUnitType.A_unit k')))"
proof (rule stacking_rules)
  show "\<forall>c \<in> set [demo_two_step]. \<forall>k. limit_of c 0 0 = Some k \<longrightarrow>
      not_nan (contribution_in ChargingRateUnitType.A_unit k)"
    by (simp add: demo_contribution contribution_in_def convert_def)
qed

text \<open>
  The offsets at which the composite is evaluated start with 0, are strictly
  increasing and stay inside the window, so the reported \<open>startPeriod\<close>s do too and no offset is
  truncated when it is narrowed to \<open>i32\<close>; in particular the loop over the occurrences of a
  recurring profile ends for every window.
\<close>

theorem boundary_offsets_spec:
  assumes "0 < sint (duration :: i32)"
  shows "sorted_wrt (<) (boundary_offsets cs start (sint duration))
    \<and> hd (boundary_offsets cs start (sint duration)) = 0
    \<and> list_all (\<lambda>x. 0 \<le> x \<and> x < sint duration \<and> sint (word_of_int x :: i32) = x)
        (boundary_offsets cs start (sint duration))"
proof (intro conjI)
  let ?B = "boundary_offsets cs start (sint duration)"
  show sorted: "sorted_wrt (<) ?B" by (rule strict_boundary_offsets)
  have range: "0 \<le> x \<and> x < sint duration" if "x \<in> set ?B" for x
    using boundary_offsets_range [OF assms that] .
  have z: "0 \<in> set ?B" by (simp add: set_boundary_offsets)
  show "hd ?B = 0"
  proof (cases ?B)
    case Nil
    with z show ?thesis by simp
  next
    case (Cons y ys)
    with z sorted range [of y] show ?thesis by auto
  qed
  have "sint (word_of_int x :: i32) = x" if "x \<in> set ?B" for x
    using range [OF that] sint_i32_range(2) [of duration] by (intro sint_word_of_int_i32) linarith+
  with range show "list_all (\<lambda>x. 0 \<le> x \<and> x < sint duration \<and> sint (word_of_int x :: i32) = x) ?B"
    by (simp add: list_all_iff)
qed

theorem boundary_offsets_spec_witness:
  "sorted_wrt (<) (boundary_offsets [demo_two_step] 0 (sint (1000 :: i32)))
    \<and> hd (boundary_offsets [demo_two_step] 0 (sint (1000 :: i32))) = 0
    \<and> list_all (\<lambda>x. 0 \<le> x \<and> x < sint (1000 :: i32) \<and> sint (word_of_int x :: i32) = x)
        (boundary_offsets [demo_two_step] 0 (sint (1000 :: i32)))"
  by (rule boundary_offsets_spec) simp

section \<open>Where the reported schedule is wrong\<close>

definition demo_valid_from :: ScopedProfile where
  "demo_valid_from = \<lparr>sp_specific = True, sp_profile =
     (demo_profile 1 ChargingProfilePurposeType.TxDefaultProfile (Finite 16))
       \<lparr>cp_valid_from := Some 10500000000\<rparr>\<rparr>"

lemma seconds_num [simp]: "seconds 0 = 0"
  by (simp add: seconds_def)

text \<open>
  The whole-second hypothesis is needed: the offset of a \<open>validFrom\<close> that lies a
  fraction of a second after a whole offset is rounded down, the limit is evaluated just before it
  takes effect, and the change is lost. The window starts at the current time, which has such a
  fraction, so a profile that becomes valid 10.5 s into a window of 100 s is not reported at all.
\<close>

theorem composite_misses_valid_from:
  "compute_composite [demo_valid_from] 0 100 None = None
   \<and> effective_limit_at [demo_valid_from] (0 + seconds 11) 0 (output_unit [demo_valid_from] None)
     = Some (Finite 16, None)"
proof -
  have unit: "output_unit [demo_valid_from] None = ChargingRateUnitType.A_unit"
    by (simp add: output_unit_def demo_valid_from_def demo_profile_def max_by_key_def override_rank_def Let_def)
  have B: "boundary_offsets [demo_valid_from] 0 100 = [0, 10]"
    by (simp add: boundary_offsets_def candidate_edges_def Let_def schedule_edges_def in_window_def
        num_seconds_def demo_valid_from_def demo_profile_def anchor_def recurrence_period_def)
  have e: "effective_limit_at [demo_valid_from] 0 0 ChargingRateUnitType.A_unit = None"
    "effective_limit_at [demo_valid_from] (seconds 10) 0 ChargingRateUnitType.A_unit = None"
    by (simp_all add: limit_defs demo_valid_from_def demo_profile_def)
  have "effective_limit_at [demo_valid_from] (seconds 11) 0 ChargingRateUnitType.A_unit = Some (Finite 16, None)"
    by (auto simp: limit_defs demo_valid_from_def demo_profile_def anchor_def recurrence_period_def)
  with e show ?thesis by (simp add: compute_composite_def Let_def B unit)
qed

end
