(* ===== verification/Profiles201.thy ===== *)
theory Profiles201
  imports Datatypes201 "HOL-Library.Multiset"
begin

text \<open>
  The installed 2.0.1 charging profiles: the stores of \<open>v201_charging_profiles.rs\<close>
  (transaction profiles), \<open>v201_tx_default_profile.rs\<close> and \<open>v201_station_ceiling.rs\<close>, the decisions,
  selectors and report pages of \<open>v201_command.rs\<close>, and the \<open>SetChargingProfile\<close> and
  \<open>ClearChargingProfile\<close> handlers of \<open>lib.rs\<close>, which route a profile to a store by its purpose. The
  dispatcher handles one CALL at a time, so a handler is one step over the three stores.
\<close>

section \<open>The three stores\<close>

type_synonym evse_store = "(i32, ChargingProfileType) hmap"

definition tx_install :: "i32 \<Rightarrow> ChargingProfileType \<Rightarrow> evse_store \<Rightarrow> evse_store" where
  "tx_install evse p m = AList.update evse p m"

definition tx_get :: "evse_store \<Rightarrow> i32 \<Rightarrow> ChargingProfileType option" where
  "tx_get m evse = map_of m evse"

definition tx_clear :: "i32 \<Rightarrow> evse_store \<Rightarrow> ChargingProfileType option \<times> evse_store" where
  "tx_clear evse m = (map_of m evse, AList.delete evse m)"

definition tx_snapshot :: "evse_store \<Rightarrow> (i32 \<times> ChargingProfileType) list" where
  "tx_snapshot m = m"

definition default_install :: "i32 \<Rightarrow> ChargingProfileType \<Rightarrow> evse_store \<Rightarrow> ChargingProfileType option \<times> evse_store" where
  "default_install evse p m = (map_of m evse, AList.update evse p m)"

definition default_get :: "evse_store \<Rightarrow> i32 \<Rightarrow> ChargingProfileType option" where
  "default_get m evse = map_of m evse"

definition default_effective_for :: "evse_store \<Rightarrow> i32 \<Rightarrow> ChargingProfileType option" where
  "default_effective_for m evse = (case map_of m evse of Some p \<Rightarrow> Some p | None \<Rightarrow> map_of m 0)"

definition default_clear :: "i32 \<Rightarrow> evse_store \<Rightarrow> ChargingProfileType option \<times> evse_store" where
  "default_clear evse m = (map_of m evse, AList.delete evse m)"

definition default_snapshot :: "evse_store \<Rightarrow> (i32 \<times> ChargingProfileType) list" where
  "default_snapshot m = m"

definition default_len :: "evse_store \<Rightarrow> nat" where
  "default_len m = length m"

lemma default_get_map_of: "default_get = map_of"
  by (simp add: fun_eq_iff default_get_def)

interpretation tx_default: keyed_store "[]" default_install default_get default_clear default_len hm_wf
  by unfold_locales
    (simp_all add: default_install_def default_get_map_of default_clear_def default_len_def hm_get_update
      hm_get_delete hm_length_card finite_dom_map_of)

datatype CeilingKind = MaxCeiling | ExternalCeiling

definition from_purpose :: "ChargingProfilePurposeEnumType \<Rightarrow> CeilingKind option" where
  "from_purpose p = (case p of
      ChargingProfilePurposeEnumType.ChargingStationMaxProfile \<Rightarrow> Some MaxCeiling
    | ChargingProfilePurposeEnumType.ChargingStationExternalConstraints \<Rightarrow> Some ExternalCeiling
    | ChargingProfilePurposeEnumType.TxProfile \<Rightarrow> None
    | ChargingProfilePurposeEnumType.TxDefaultProfile \<Rightarrow> None)"

type_synonym ceiling_store = "(CeilingKind \<times> i32, ChargingProfileType) hmap"

definition ceiling_install ::
  "CeilingKind \<times> i32 \<Rightarrow> ChargingProfileType \<Rightarrow> ceiling_store \<Rightarrow> ChargingProfileType option \<times> ceiling_store" where
  "ceiling_install k p m = (map_of m k, AList.update k p m)"

definition ceiling_get :: "ceiling_store \<Rightarrow> CeilingKind \<times> i32 \<Rightarrow> ChargingProfileType option" where
  "ceiling_get m k = map_of m k"

definition ceiling_effective_for :: "ceiling_store \<Rightarrow> CeilingKind \<Rightarrow> i32 \<Rightarrow> ChargingProfileType option" where
  "ceiling_effective_for m kind evse =
     (case map_of m (kind, evse) of Some p \<Rightarrow> Some p | None \<Rightarrow> map_of m (kind, 0))"

definition ceiling_clear ::
  "CeilingKind \<times> i32 \<Rightarrow> ceiling_store \<Rightarrow> ChargingProfileType option \<times> ceiling_store" where
  "ceiling_clear k m = (map_of m k, AList.delete k m)"

definition ceiling_snapshot :: "ceiling_store \<Rightarrow> (CeilingKind \<times> i32 \<times> ChargingProfileType) list" where
  "ceiling_snapshot m = map (\<lambda>((kind, evse), p). (kind, evse, p)) m"

definition ceiling_len :: "ceiling_store \<Rightarrow> nat" where
  "ceiling_len m = length m"

lemma ceiling_get_map_of: "ceiling_get = map_of"
  by (simp add: fun_eq_iff ceiling_get_def)

interpretation ceiling: keyed_store "[]" ceiling_install ceiling_get ceiling_clear ceiling_len hm_wf
  by unfold_locales
    (simp_all add: ceiling_install_def ceiling_get_map_of ceiling_clear_def ceiling_len_def hm_get_update
      hm_get_delete hm_length_card finite_dom_map_of)

section \<open>Decisions and selectors\<close>

definition no_transaction_info :: StatusInfoType where
  "no_transaction_info = \<lparr>sit_reason_code = ''NoTransaction'',
     sit_additional_info = Some (''SetChargingProfile carrying a TxProfile requires an ongoing ''
       @ ''transaction on the targeted EVSE''),
     sit_custom_data = None\<rparr>"

definition v201_set_charging_profile_status ::
  "ChargingProfilePurposeEnumType \<Rightarrow> bool \<Rightarrow> ChargingProfileStatusEnumType \<times> StatusInfoType option" where
  "v201_set_charging_profile_status purpose active = (case purpose of
      ChargingProfilePurposeEnumType.TxProfile \<Rightarrow>
        if active then (ChargingProfileStatusEnumType.Accepted, None)
        else (ChargingProfileStatusEnumType.Rejected, Some no_transaction_info)
    | ChargingProfilePurposeEnumType.TxDefaultProfile \<Rightarrow> (ChargingProfileStatusEnumType.Accepted, None)
    | ChargingProfilePurposeEnumType.ChargingStationMaxProfile \<Rightarrow> (ChargingProfileStatusEnumType.Accepted, None)
    | ChargingProfilePurposeEnumType.ChargingStationExternalConstraints \<Rightarrow>
        (ChargingProfileStatusEnumType.Accepted, None))"

type_synonym installed_profile = "i32 \<times> ChargingProfileType"

definition clear_selects ::
  "i32 option \<Rightarrow> ClearChargingProfileType option \<Rightarrow> installed_profile \<Rightarrow> bool" where
  "clear_selects pid criteria x = (case (pid, criteria) of
      (Some i, _) \<Rightarrow> cpt_id (snd x) = i
    | (None, Some c) \<Rightarrow>
        is_none_or (ccpt_evse_id c) (\<lambda>e. e = fst x)
        \<and> is_none_or (ccpt_charging_profile_purpose c) (\<lambda>p. p = cpt_charging_profile_purpose (snd x))
        \<and> is_none_or (ccpt_stack_level c) (\<lambda>l. l = cpt_stack_level (snd x))
    | (None, None) \<Rightarrow> True)"

definition v201_clear_charging_profile_matches ::
  "i32 option \<Rightarrow> ClearChargingProfileType option \<Rightarrow> installed_profile list \<Rightarrow> installed_profile list" where
  "v201_clear_charging_profile_matches pid criteria xs = filter (clear_selects pid criteria) xs"

definition v201_clear_charging_profile_status :: "bool \<Rightarrow> ClearChargingProfileStatusEnumType" where
  "v201_clear_charging_profile_status matched =
     (if matched then ClearChargingProfileStatusEnumType.Accepted else ClearChargingProfileStatusEnumType.Unknown)"

definition v201_charging_limit_source :: "ChargingProfilePurposeEnumType \<Rightarrow> ChargingLimitSourceEnumType" where
  "v201_charging_limit_source purpose = (case purpose of
      ChargingProfilePurposeEnumType.ChargingStationExternalConstraints \<Rightarrow> ChargingLimitSourceEnumType.So
    | ChargingProfilePurposeEnumType.TxProfile \<Rightarrow> ChargingLimitSourceEnumType.Cso
    | ChargingProfilePurposeEnumType.TxDefaultProfile \<Rightarrow> ChargingLimitSourceEnumType.Cso
    | ChargingProfilePurposeEnumType.ChargingStationMaxProfile \<Rightarrow> ChargingLimitSourceEnumType.Cso)"

definition get_selects ::
  "i32 option \<Rightarrow> ChargingProfileCriterionType \<Rightarrow> installed_profile \<Rightarrow> bool" where
  "get_selects evse c x \<longleftrightarrow>
     is_none_or evse (\<lambda>e. e = fst x)
     \<and> is_none_or (cpct_charging_profile_purpose c) (\<lambda>p. p = cpt_charging_profile_purpose (snd x))
     \<and> is_none_or (cpct_stack_level c) (\<lambda>l. l = cpt_stack_level (snd x))
     \<and> is_none_or (cpct_charging_profile_id c) (\<lambda>ids. cpt_id (snd x) \<in> set ids)
     \<and> is_none_or (cpct_charging_limit_source c)
         (\<lambda>srcs. v201_charging_limit_source (cpt_charging_profile_purpose (snd x)) \<in> set srcs)"

definition v201_get_charging_profiles_matches ::
  "i32 option \<Rightarrow> ChargingProfileCriterionType \<Rightarrow> installed_profile list \<Rightarrow> installed_profile list" where
  "v201_get_charging_profiles_matches evse c xs = filter (get_selects evse c) xs"

definition v201_get_charging_profiles_status :: "bool \<Rightarrow> GetChargingProfileStatusEnumType" where
  "v201_get_charging_profiles_status matched =
     (if matched then GetChargingProfileStatusEnumType.Accepted else GetChargingProfileStatusEnumType.NoProfiles)"

section \<open>Handlers\<close>

record profile_stores =
  ps_tx :: evse_store
  ps_default :: evse_store
  ps_ceiling :: ceiling_store

definition profile_stores_new :: profile_stores where
  "profile_stores_new = \<lparr>ps_tx = [], ps_default = [], ps_ceiling = []\<rparr>"

definition evse_busy :: "ConnectorId list \<Rightarrow> i32 \<Rightarrow> bool" where
  "evse_busy busy evse \<longleftrightarrow> 1 \<le> sint evse \<and> list_ex (\<lambda>c. uint (connector_value c) = sint evse) busy"

definition route_install :: "i32 \<Rightarrow> ChargingProfileType \<Rightarrow> profile_stores \<Rightarrow> profile_stores" where
  "route_install evse p s = (case cpt_charging_profile_purpose p of
      ChargingProfilePurposeEnumType.TxProfile \<Rightarrow> s\<lparr>ps_tx := tx_install evse p (ps_tx s)\<rparr>
    | ChargingProfilePurposeEnumType.TxDefaultProfile \<Rightarrow>
        s\<lparr>ps_default := snd (default_install evse p (ps_default s))\<rparr>
    | _ \<Rightarrow>
        (case from_purpose (cpt_charging_profile_purpose p) of
           Some kind \<Rightarrow> s\<lparr>ps_ceiling := snd (ceiling_install (kind, evse) p (ps_ceiling s))\<rparr>
         | None \<Rightarrow> s))"

definition handle_set_charging_profile_v201 ::
  "ConnectorId list \<Rightarrow> i32 \<Rightarrow> ChargingProfileType \<Rightarrow> profile_stores
     \<Rightarrow> (ChargingProfileStatusEnumType \<times> StatusInfoType option) \<times> profile_stores" where
  "handle_set_charging_profile_v201 busy evse p s =
     (let answer = v201_set_charging_profile_status (cpt_charging_profile_purpose p) (evse_busy busy evse)
      in (answer, if fst answer = ChargingProfileStatusEnumType.Accepted then route_install evse p s else s))"

definition installed :: "profile_stores \<Rightarrow> installed_profile list" where
  "installed s = tx_snapshot (ps_tx s) @ default_snapshot (ps_default s)
     @ map (\<lambda>(kind, evse, p). (evse, p)) (ceiling_snapshot (ps_ceiling s))"

definition route_clear :: "installed_profile \<Rightarrow> profile_stores \<Rightarrow> profile_stores" where
  "route_clear x s = (case cpt_charging_profile_purpose (snd x) of
      ChargingProfilePurposeEnumType.TxProfile \<Rightarrow> s\<lparr>ps_tx := snd (tx_clear (fst x) (ps_tx s))\<rparr>
    | ChargingProfilePurposeEnumType.TxDefaultProfile \<Rightarrow>
        s\<lparr>ps_default := snd (default_clear (fst x) (ps_default s))\<rparr>
    | _ \<Rightarrow>
        (case from_purpose (cpt_charging_profile_purpose (snd x)) of
           Some kind \<Rightarrow> s\<lparr>ps_ceiling := snd (ceiling_clear (kind, fst x) (ps_ceiling s))\<rparr>
         | None \<Rightarrow> s))"

definition handle_clear_charging_profile_v201 ::
  "i32 option \<Rightarrow> ClearChargingProfileType option \<Rightarrow> profile_stores
     \<Rightarrow> ClearChargingProfileStatusEnumType \<times> profile_stores" where
  "handle_clear_charging_profile_v201 pid criteria s =
     (let ms = v201_clear_charging_profile_matches pid criteria (installed s)
      in (v201_clear_charging_profile_status (ms \<noteq> []), fold route_clear ms s))"

section \<open>Invariant: every profile sits in the store of its purpose\<close>

definition stores_inv :: "profile_stores \<Rightarrow> bool" where
  "stores_inv s \<longleftrightarrow> hm_wf (ps_tx s) \<and> hm_wf (ps_default s) \<and> hm_wf (ps_ceiling s)
     \<and> list_all (\<lambda>(k, p). cpt_charging_profile_purpose p = ChargingProfilePurposeEnumType.TxProfile) (ps_tx s)
     \<and> list_all (\<lambda>(k, p). cpt_charging_profile_purpose p = ChargingProfilePurposeEnumType.TxDefaultProfile) (ps_default s)
     \<and> list_all (\<lambda>((kind, k), p). from_purpose (cpt_charging_profile_purpose p) = Some kind) (ps_ceiling s)"

lemmas store_defs = tx_install_def tx_clear_def default_install_def default_clear_def ceiling_install_def
  ceiling_clear_def tx_snapshot_def default_snapshot_def ceiling_snapshot_def

lemma list_all_update: "list_all P m \<Longrightarrow> P (k, v) \<Longrightarrow> list_all P (AList.update k v m)"
  by (induction m) auto

lemma list_all_delete: "list_all P m \<Longrightarrow> list_all P (AList.delete k m)"
  by (induction m) auto

lemma stores_inv_install: "stores_inv s \<Longrightarrow> stores_inv (route_install evse p s)"
  by (auto simp: stores_inv_def route_install_def store_defs list_all_update from_purpose_def
      split: ChargingProfilePurposeEnumType.splits)

lemma stores_inv_clear: "stores_inv s \<Longrightarrow> stores_inv (route_clear x s)"
  by (auto simp: stores_inv_def route_clear_def store_defs list_all_delete
      split: ChargingProfilePurposeEnumType.splits option.splits)

lemma stores_inv_fold_clear: "stores_inv s \<Longrightarrow> stores_inv (fold route_clear xs s)"
  by (induction xs arbitrary: s) (simp_all add: stores_inv_clear)

text \<open>The profile installed under a purpose and an EVSE: the one view of the three stores.\<close>

definition profile_at :: "profile_stores \<Rightarrow> ChargingProfilePurposeEnumType \<times> i32 \<Rightarrow> ChargingProfileType option" where
  "profile_at s k = (case fst k of
      ChargingProfilePurposeEnumType.TxProfile \<Rightarrow> map_of (ps_tx s) (snd k)
    | ChargingProfilePurposeEnumType.TxDefaultProfile \<Rightarrow> map_of (ps_default s) (snd k)
    | ChargingProfilePurposeEnumType.ChargingStationMaxProfile \<Rightarrow> map_of (ps_ceiling s) (MaxCeiling, snd k)
    | ChargingProfilePurposeEnumType.ChargingStationExternalConstraints \<Rightarrow>
        map_of (ps_ceiling s) (ExternalCeiling, snd k))"

abbreviation key_of :: "installed_profile \<Rightarrow> ChargingProfilePurposeEnumType \<times> i32" where
  "key_of x \<equiv> (cpt_charging_profile_purpose (snd x), fst x)"

lemma profile_at_install:
  "profile_at (route_install evse p s) k = (if k = key_of (evse, p) then Some p else profile_at s k)"
  by (cases k)
    (auto simp: profile_at_def route_install_def store_defs hm_get_update from_purpose_def
      split: ChargingProfilePurposeEnumType.splits)

lemma profile_at_clear:
  "profile_at (route_clear x s) k = (if k = key_of x then None else profile_at s k)"
  by (cases k)
    (auto simp: profile_at_def route_clear_def store_defs hm_get_delete from_purpose_def
      split: ChargingProfilePurposeEnumType.splits)

lemma profile_at_fold_clear:
  "profile_at (fold route_clear xs s) k = (if k \<in> key_of ` set xs then None else profile_at s k)"
  by (induction xs arbitrary: s) (auto simp: profile_at_clear)

lemma ex_ceiling: "(\<exists>kind. P kind) \<longleftrightarrow> P MaxCeiling \<or> P ExternalCeiling"
  by (metis CeilingKind.exhaust)

lemma mem_installed:
  assumes "stores_inv s"
  shows "x \<in> set (installed s) \<longleftrightarrow> profile_at s (key_of x) = Some (snd x)"
proof -
  have wf: "(k, v) \<in> set m \<longleftrightarrow> map_of m k = Some v" if "hm_wf m" for k v and m :: "('k, 'v) hmap"
    using that by (auto simp: hm_wf_def map_of_is_SomeI dest: map_of_SomeD)
  obtain e p where x: "x = (e, p)" by (cases x)
  have tx: "map_of (ps_tx s) e = Some p \<Longrightarrow> cpt_charging_profile_purpose p = ChargingProfilePurposeEnumType.TxProfile"
    and df: "map_of (ps_default s) e = Some p \<Longrightarrow> cpt_charging_profile_purpose p = ChargingProfilePurposeEnumType.TxDefaultProfile"
    and ce: "map_of (ps_ceiling s) (kind, e) = Some p \<Longrightarrow> from_purpose (cpt_charging_profile_purpose p) = Some kind" for kind
    using assms by (auto simp: stores_inv_def list_all_iff dest!: map_of_SomeD)
  have "x \<in> set (installed s) \<longleftrightarrow> map_of (ps_tx s) e = Some p \<or> map_of (ps_default s) e = Some p
      \<or> (\<exists>kind. map_of (ps_ceiling s) (kind, e) = Some p)"
    using assms wf [of "ps_tx s" e p] wf [of "ps_default s" e p] wf [of "ps_ceiling s" _ p]
    by (force simp: installed_def store_defs stores_inv_def x)
  also have "\<dots> \<longleftrightarrow> profile_at s (key_of x) = Some (snd x)"
    using tx df ce [of MaxCeiling] ce [of ExternalCeiling]
    unfolding ex_ceiling
    by (cases "cpt_charging_profile_purpose p") (simp_all add: profile_at_def x from_purpose_def, argo+)
  finally show ?thesis .
qed

section \<open>Report pages\<close>

text \<open>\<open>#[derive(Ord)]\<close>: the order of declaration.\<close>

primrec source_index :: "ChargingLimitSourceEnumType \<Rightarrow> nat" where
  "source_index ChargingLimitSourceEnumType.Ems = 0"
| "source_index ChargingLimitSourceEnumType.Other = 1"
| "source_index ChargingLimitSourceEnumType.So = 2"
| "source_index ChargingLimitSourceEnumType.Cso = 3"

lemma source_index_inj: "source_index a = source_index b \<Longrightarrow> a = b"
  by (cases a; cases b) simp_all

instantiation ChargingLimitSourceEnumType :: linorder
begin

definition less_eq_ChargingLimitSourceEnumType ::
  "ChargingLimitSourceEnumType \<Rightarrow> ChargingLimitSourceEnumType \<Rightarrow> bool" where
  "less_eq_ChargingLimitSourceEnumType a b = (source_index a \<le> source_index b)"

definition less_ChargingLimitSourceEnumType ::
  "ChargingLimitSourceEnumType \<Rightarrow> ChargingLimitSourceEnumType \<Rightarrow> bool" where
  "less_ChargingLimitSourceEnumType a b = (source_index a < source_index b)"

instance
  by standard
    (auto simp: less_eq_ChargingLimitSourceEnumType_def less_ChargingLimitSourceEnumType_def
      intro: source_index_inj)

end

record ReportChargingProfilesRequest =
  rcp_request_id :: i32
  rcp_charging_limit_source :: ChargingLimitSourceEnumType
  rcp_charging_profile :: "ChargingProfileType list"
  rcp_evse_id :: i32
  rcp_tbc :: "bool option"
  rcp_custom_data :: "CustomDataType option"

text \<open>
  A \<open>BTreeMap\<close> is its list of entries in ascending key order; \<open>entry(k).or_default().push(v)\<close>
  appends to the group of the key. The signed \<open>i32\<close> order of the EVSE ids is the order of their
  values.
\<close>

fun bt_push :: "'k::linorder \<Rightarrow> 'v \<Rightarrow> ('k \<times> 'v list) list \<Rightarrow> ('k \<times> 'v list) list" where
  "bt_push k v [] = [(k, [v])]"
| "bt_push k v ((k', vs) # m) =
     (if k < k' then (k, [v]) # (k', vs) # m
      else if k = k' then (k', vs @ [v]) # m
      else (k', vs) # bt_push k v m)"

type_synonym page_key = "int \<times> ChargingLimitSourceEnumType"

definition page_key :: "installed_profile \<Rightarrow> page_key" where
  "page_key x = (sint (fst x), v201_charging_limit_source (cpt_charging_profile_purpose (snd x)))"

definition page_groups :: "installed_profile list \<Rightarrow> (page_key \<times> ChargingProfileType list) list" where
  "page_groups matched = map (\<lambda>(k, ps). (k, sort_key (\<lambda>p. sint (cpt_id p)) ps))
     (fold (\<lambda>x. bt_push (page_key x) (snd x)) matched [])"

fun report_pages :: "i32 \<Rightarrow> (page_key \<times> ChargingProfileType list) list \<Rightarrow> ReportChargingProfilesRequest list" where
  "report_pages rid [] = []"
| "report_pages rid ((k, ps) # m) =
     \<lparr>rcp_request_id = rid, rcp_charging_limit_source = snd k, rcp_charging_profile = ps,
      rcp_evse_id = word_of_int (fst k), rcp_tbc = (if m \<noteq> [] then Some True else None),
      rcp_custom_data = None\<rparr> # report_pages rid m"

definition v201_report_charging_profiles_pages ::
  "i32 \<Rightarrow> installed_profile list \<Rightarrow> ReportChargingProfilesRequest list" where
  "v201_report_charging_profiles_pages rid matched = report_pages rid (page_groups matched)"

subsection \<open>Laws of the grouping\<close>

lemma bt_push_keys: "fst ` set (bt_push k v m) = insert k (fst ` set m)"
  by (induction k v m rule: bt_push.induct) auto

lemma bt_push_sorted:
  "sorted_wrt (\<lambda>a b. fst a < fst b) m \<Longrightarrow> sorted_wrt (\<lambda>a b. fst a < fst b) (bt_push k v m)"
proof (induction k v m rule: bt_push.induct)
  case (2 k v k' vs m)
  have "fst b \<in> insert k (fst ` set m)" if "b \<in> set (bt_push k v m)" for b
    using that bt_push_keys [of k v m] by blast
  then have later: "k' < fst b" if "k' < k" "\<forall>c \<in> set m. k' < fst c" "b \<in> set (bt_push k v m)" for b
    using that by (metis imageE insertE)
  consider "k < k'" | "k = k'" | "k' < k" by (metis neqE)
  then show ?case
  proof cases
    case 3
    with 2 later show ?thesis by (auto simp: order.strict_iff_order)
  qed (use 2 in \<open>auto intro: less_trans\<close>)
qed simp

lemma bt_push_mset:
  "mset (concat (map (\<lambda>(k, vs). map (Pair k) vs) (bt_push k v m)))
   = add_mset (k, v) (mset (concat (map (\<lambda>(k, vs). map (Pair k) vs) m)))"
  by (induction k v m rule: bt_push.induct) auto

definition ungroup :: "('k \<times> 'v list) list \<Rightarrow> ('k \<times> 'v) list" where
  "ungroup m = concat (map (\<lambda>(k, vs). map (Pair k) vs) m)"

lemma mem_ungroup: "(k, v) \<in> set (ungroup m) \<longleftrightarrow> (\<exists>vs. (k, vs) \<in> set m \<and> v \<in> set vs)"
  by (auto simp: ungroup_def)

lemma fold_bt_push:
  fixes xs :: "installed_profile list"
  assumes "sorted_wrt (\<lambda>a b. fst a < fst b) m" and "\<forall>(k, vs) \<in> set m. vs \<noteq> []"
  shows "sorted_wrt (\<lambda>a b. fst a < fst b) (fold (\<lambda>x. bt_push (page_key x) (snd x)) xs m)
    \<and> (\<forall>(k, vs) \<in> set (fold (\<lambda>x. bt_push (page_key x) (snd x)) xs m). vs \<noteq> [])
    \<and> mset (ungroup (fold (\<lambda>x. bt_push (page_key x) (snd x)) xs m))
      = mset (map (\<lambda>x. (page_key x, snd x)) xs) + mset (ungroup m)"
  using assms
proof (induction xs arbitrary: m)
  case Nil
  then show ?case by simp
next
  case (Cons x xs)
  have "\<forall>(k, vs) \<in> set (bt_push (page_key x) (snd x) m). vs \<noteq> []"
    using Cons.prems(2)
    by (induction "page_key x" "snd x" m rule: bt_push.induct) auto
  with Cons.IH [OF bt_push_sorted [OF Cons.prems(1)]] show ?case
    by (simp add: ungroup_def bt_push_mset)
qed

lemma ungroup_sorted: "mset (ungroup (map (\<lambda>(k, ps). (k, sort_key f ps)) m)) = mset (ungroup m)"
  by (induction m) (auto simp: ungroup_def)

lemma sort_key_Nil_iff: "sort_key f xs = [] \<longleftrightarrow> xs = []"
  by (metis length_0_conv length_sort)

lemma page_groups_spec:
  "sorted_wrt (\<lambda>a b. fst a < fst b) (page_groups xs)
   \<and> (\<forall>(k, ps) \<in> set (page_groups xs). ps \<noteq> [] \<and> sorted (map (\<lambda>p. sint (cpt_id p)) ps))
   \<and> mset (ungroup (page_groups xs)) = mset (map (\<lambda>x. (page_key x, snd x)) xs)"
proof -
  let ?m = "fold (\<lambda>x. bt_push (page_key x) (snd x)) xs []"
  have fold: "sorted_wrt (\<lambda>a b. fst a < fst b) ?m" "\<forall>(k, vs) \<in> set ?m. vs \<noteq> []"
    "mset (ungroup ?m) = mset (map (\<lambda>x. (page_key x, snd x)) xs)"
    using fold_bt_push [of "[]" xs] by (simp_all add: ungroup_def)
  have "sorted_wrt (\<lambda>a b. fst a < fst b) (page_groups xs)"
    using fold(1) by (simp add: page_groups_def sorted_wrt_map case_prod_beta)
  moreover have "\<forall>(k, ps) \<in> set (page_groups xs). ps \<noteq> [] \<and> sorted (map (\<lambda>p. sint (cpt_id p)) ps)"
    using fold(2) by (auto simp: page_groups_def sort_key_Nil_iff)
  moreover have "mset (ungroup (page_groups xs)) = mset (map (\<lambda>x. (page_key x, snd x)) xs)"
    using fold(3) by (simp add: page_groups_def ungroup_sorted)
  ultimately show ?thesis by blast
qed

lemma report_pages_view:
  "map (\<lambda>r. ((sint (rcp_evse_id r), rcp_charging_limit_source r), rcp_charging_profile r)) (report_pages rid m)
   = map (\<lambda>(k, ps). ((sint (word_of_int (fst k) :: i32), snd k), ps)) m"
  by (induction rid m rule: report_pages.induct) auto

section \<open>Properties\<close>

datatype profile_message =
    SetChargingProfile "ConnectorId list" i32 ChargingProfileType
  | ClearChargingProfile "i32 option" "ClearChargingProfileType option"

primrec stores_exec :: "profile_message \<Rightarrow> profile_stores \<Rightarrow> profile_stores" where
  "stores_exec (SetChargingProfile busy evse p) s = snd (handle_set_charging_profile_v201 busy evse p s)"
| "stores_exec (ClearChargingProfile pid criteria) s = snd (handle_clear_charging_profile_v201 pid criteria s)"

interpretation stores: machine stores_exec stores_inv
proof
  show "stores_inv s \<Longrightarrow> stores_inv (stores_exec c s)" for s c
    by (cases c) (simp_all add: handle_set_charging_profile_v201_def handle_clear_charging_profile_v201_def
        Let_def stores_inv_install stores_inv_fold_clear)
qed

lemma stores_inv_new: "stores_inv profile_stores_new"
  by (simp add: stores_inv_def profile_stores_new_def)

text \<open>
  However the CSMS installs and clears profiles, each one sits in the store of its
  purpose, no store holds two profiles under one key, and an accepted \<open>SetChargingProfile\<close> replaces
  exactly the profile of the same purpose on the same EVSE; a transaction profile for an EVSE
  without a transaction is rejected and changes nothing.
\<close>

theorem set_charging_profile_v201_spec:
  "let s = fold stores_exec cmds profile_stores_new;
       r = handle_set_charging_profile_v201 busy evse p s;
       tx = (cpt_charging_profile_purpose p = ChargingProfilePurposeEnumType.TxProfile)
   in stores_inv s
    \<and> (if tx \<and> \<not> evse_busy busy evse
       then r = ((ChargingProfileStatusEnumType.Rejected, Some no_transaction_info), s)
       else fst r = (ChargingProfileStatusEnumType.Accepted, None)
            \<and> set (installed (snd r)) =
                insert (evse, p) (Set.filter (\<lambda>x. key_of x \<noteq> key_of (evse, p)) (set (installed s))))"
proof -
  let ?s = "fold stores_exec cmds profile_stores_new"
  have inv: "stores_inv ?s" by (rule stores.run_inv [OF stores_inv_new])
  have "x \<in> set (installed (route_install evse p ?s)) \<longleftrightarrow>
      x = (evse, p) \<or> x \<in> set (installed ?s) \<and> key_of x \<noteq> key_of (evse, p)" for x
    by (cases x) (auto simp: mem_installed inv stores_inv_install profile_at_install)
  then have "set (installed (route_install evse p ?s)) =
      insert (evse, p) (Set.filter (\<lambda>x. key_of x \<noteq> key_of (evse, p)) (set (installed ?s)))"
    by auto
  with inv show ?thesis
    by (cases "cpt_charging_profile_purpose p")
      (simp_all add: Let_def handle_set_charging_profile_v201_def v201_set_charging_profile_status_def)
qed

text \<open>
  \<open>ClearChargingProfile\<close> takes back exactly what it selects: after the handler the
  profiles installed in the three stores together are those the selector does not match, and the
  answer is \<open>Accepted\<close> exactly when it matched one. The clear is routed to the store that holds
  the profile, whatever messages came before.
\<close>

theorem clear_charging_profile_v201_spec:
  "let s = fold stores_exec cmds profile_stores_new;
       r = handle_clear_charging_profile_v201 pid criteria s
   in set (installed (snd r)) = Set.filter (\<lambda>x. \<not> clear_selects pid criteria x) (set (installed s))
      \<and> fst r = (if list_ex (clear_selects pid criteria) (installed s)
                 then ClearChargingProfileStatusEnumType.Accepted
                 else ClearChargingProfileStatusEnumType.Unknown)"
proof -
  let ?s = "fold stores_exec cmds profile_stores_new"
  let ?ms = "filter (clear_selects pid criteria) (installed ?s)"
  have inv: "stores_inv ?s" by (rule stores.run_inv [OF stores_inv_new])
  have "x \<in> set (installed (fold route_clear ?ms ?s)) \<longleftrightarrow>
      x \<in> set (installed ?s) \<and> \<not> clear_selects pid criteria x" for x
  proof -
    have same: "x = y" if "x \<in> set (installed ?s)" "y \<in> set (installed ?s)" "key_of x = key_of y" for y
      using that by (auto simp: mem_installed [OF inv] prod_eq_iff)
    have "x \<in> set (installed (fold route_clear ?ms ?s)) \<longleftrightarrow>
        x \<in> set (installed ?s) \<and> key_of x \<notin> key_of ` set ?ms"
      by (simp add: mem_installed inv stores_inv_fold_clear profile_at_fold_clear)
    also have "\<dots> \<longleftrightarrow> x \<in> set (installed ?s) \<and> \<not> clear_selects pid criteria x"
    proof (intro conj_cong refl arg_cong [of _ _ Not] iffI)
      assume x: "x \<in> set (installed ?s)"
      show "clear_selects pid criteria x" if k: "key_of x \<in> key_of ` set ?ms"
      proof -
        from k obtain y where y: "y \<in> set ?ms" "key_of x = key_of y" by (rule imageE)
        then have "x = y" using same [of y] x by auto
        with y(1) show ?thesis by simp
      qed
      show "key_of x \<in> key_of ` set ?ms" if "clear_selects pid criteria x"
        using x that by (intro imageI) simp
    qed
    finally show ?thesis .
  qed
  moreover have "?ms \<noteq> [] \<longleftrightarrow> list_ex (clear_selects pid criteria) (installed ?s)"
    by (simp add: filter_empty_conv list_ex_iff)
  ultimately show ?thesis
    by (auto simp: Let_def handle_clear_charging_profile_v201_def v201_clear_charging_profile_matches_def
        v201_clear_charging_profile_status_def)
qed

text \<open>
  A \<open>GetChargingProfiles\<close> report is complete and well paged: the pages carry every
  matched profile exactly as often as it was matched, under its own EVSE and limit source, no page
  is empty, the pages ascend strictly by EVSE and source, the profiles of a page by id, and every
  page but the last announces that more follow.
\<close>

theorem report_pages_complete:
  "let pages = v201_report_charging_profiles_pages rid xs;
       key = (\<lambda>r. (sint (rcp_evse_id r), rcp_charging_limit_source r))
   in mset (concat (map (\<lambda>r. map (Pair (key r)) (rcp_charging_profile r)) pages))
        = mset (map (\<lambda>x. (page_key x, snd x)) xs)
    \<and> sorted_wrt (\<lambda>a b. key a < key b) pages
    \<and> list_all (\<lambda>r. rcp_charging_profile r \<noteq> [] \<and> rcp_request_id r = rid
         \<and> sorted (map (\<lambda>p. sint (cpt_id p)) (rcp_charging_profile r))) pages
    \<and> map rcp_tbc pages = replicate (length pages - 1) (Some True) @ (if pages = [] then [] else [None])"
proof -
  let ?g = "page_groups xs" and ?pages = "v201_report_charging_profiles_pages rid xs"
  let ?key = "\<lambda>r. (sint (rcp_evse_id r), rcp_charging_limit_source r)"
  have in_range: "sint (word_of_int (fst k) :: i32) = fst k" if kp: "(k, ps) \<in> set ?g" for k ps
  proof -
    have ne: "ps \<noteq> []" using page_groups_spec [of xs] kp by auto
    then obtain p where p: "p \<in> set ps" by (cases ps) auto
    then have "(k, p) \<in> set (ungroup ?g)" using kp by (auto simp: mem_ungroup)
    moreover have "set (ungroup ?g) = set (map (\<lambda>x. (page_key x, snd x)) xs)"
      using page_groups_spec [of xs] by (intro mset_eq_setD) blast
    ultimately obtain x where "k = page_key x" by auto
    then show ?thesis by (simp add: page_key_def)
  qed
  have view: "map (\<lambda>r. (?key r, rcp_charging_profile r)) ?pages = ?g"
  proof -
    have "map (\<lambda>(k, ps). ((sint (word_of_int (fst k) :: i32), snd k), ps)) ?g = map id ?g"
      using in_range by (intro map_cong) auto
    then show ?thesis
      unfolding v201_report_charging_profiles_pages_def report_pages_view by simp
  qed
  have "map (\<lambda>r. map (Pair (?key r)) (rcp_charging_profile r)) ?pages
      = map (\<lambda>(k, ps). map (Pair k) ps) (map (\<lambda>r. (?key r, rcp_charging_profile r)) ?pages)"
    by simp
  then have all: "mset (concat (map (\<lambda>r. map (Pair (?key r)) (rcp_charging_profile r)) ?pages))
        = mset (map (\<lambda>x. (page_key x, snd x)) xs)"
    using page_groups_spec [of xs] unfolding view ungroup_def by simp
  have "sorted_wrt (\<lambda>a b. fst a < fst b) (map (\<lambda>r. (?key r, rcp_charging_profile r)) ?pages)"
    using page_groups_spec [of xs] unfolding view by simp
  then have asc: "sorted_wrt (\<lambda>a b. ?key a < ?key b) ?pages" by (simp add: sorted_wrt_map)
  have "rcp_charging_profile r \<noteq> [] \<and> sorted (map (\<lambda>p. sint (cpt_id p)) (rcp_charging_profile r))"
    if "r \<in> set ?pages" for r
  proof -
    have "(?key r, rcp_charging_profile r) \<in> set ?g"
      using that by (subst view [symmetric]) auto
    then show ?thesis using page_groups_spec [of xs] by auto
  qed
  moreover have "list_all (\<lambda>r. rcp_request_id r = rid) (report_pages rid m)" for m
    by (induction rid m rule: report_pages.induct) auto
  ultimately have each: "list_all (\<lambda>r. rcp_charging_profile r \<noteq> [] \<and> rcp_request_id r = rid
         \<and> sorted (map (\<lambda>p. sint (cpt_id p)) (rcp_charging_profile r))) ?pages"
    by (auto simp: list_all_iff v201_report_charging_profiles_pages_def)
  have "map rcp_tbc (report_pages rid m) = replicate (length (report_pages rid m) - 1) (Some True)
      @ (if report_pages rid m = [] then [] else [None])" for m
  proof (induction rid m rule: report_pages.induct)
    case (2 rid k ps m)
    then show ?case by (cases m) auto
  qed simp
  with all asc each show ?thesis
    by (simp add: Let_def v201_report_charging_profiles_pages_def)
qed

end
