(* ===== verification/Composite201.thy ===== *)
theory Composite201
  imports Composite Profiles201 Connectors "HOL-Library.Monad_Syntax"
begin

text \<open>
  The limits of the 2.0.1 charging profiles: the resolution of the active limit, the power a
  transaction is bound to, and the composite schedule of \<open>v201_charging_profiles.rs\<close>, with the
  \<open>GetCompositeSchedule\<close> handler and the bound the periodic sampler applies (\<open>lib.rs\<close>). The time
  stamps of a profile are strings: \<open>rfc\<close> stands for chrono's parser and \<open>fmt\<close> for its printer. A
  profile is related to the 1.6J profile \<open>to_v16j\<close>, so that the boundary lemmas of \<open>Composite\<close> apply.
\<close>

section \<open>The limit in force\<close>

definition parse_rfc3339 :: "(string \<Rightarrow> datetime option) \<Rightarrow> string option \<Rightarrow> datetime option" where
  "parse_rfc3339 rfc field = Option.bind field rfc"

definition anchor_v201 ::
  "(string \<Rightarrow> datetime option) \<Rightarrow> ChargingProfileType \<Rightarrow> ChargingScheduleType \<Rightarrow> datetime \<Rightarrow> datetime" where
  "anchor_v201 rfc p sched tx_start = (case cpt_charging_profile_kind p of
      ChargingProfileKindEnumType.Relative \<Rightarrow> tx_start
    | ChargingProfileKindEnumType.Absolute \<Rightarrow> unwrap_or (parse_rfc3339 rfc (cst_start_schedule sched)) tx_start
    | ChargingProfileKindEnumType.Recurring \<Rightarrow> unwrap_or (parse_rfc3339 rfc (cst_start_schedule sched)) tx_start)"

definition recurrence_period_v201 :: "ChargingProfileType \<Rightarrow> int option" where
  "recurrence_period_v201 p =
     (if cpt_charging_profile_kind p \<noteq> ChargingProfileKindEnumType.Recurring then None
      else case cpt_recurrency_kind p of
        Some RecurrencyKindEnumType.Daily \<Rightarrow> Some 86400
      | Some RecurrencyKindEnumType.Weekly \<Rightarrow> Some 604800
      | None \<Rightarrow> None)"

definition first_schedule :: "ChargingProfileType \<Rightarrow> ChargingScheduleType option" where
  "first_schedule p = (case cpt_charging_schedule p of [] \<Rightarrow> None | s # _ \<Rightarrow> Some s)"

definition resolve_active ::
  "(string \<Rightarrow> datetime option) \<Rightarrow> ChargingProfileType \<Rightarrow> int \<Rightarrow> datetime
     \<Rightarrow> (ChargingScheduleType \<times> ChargingSchedulePeriodType) option" where
  "resolve_active rfc p elapsed tx_start =
     (let now = tx_start + seconds elapsed
      in if is_some_and (parse_rfc3339 rfc (cpt_valid_from p)) (\<lambda>t. now < t) then None
         else if is_some_and (parse_rfc3339 rfc (cpt_valid_to p)) (\<lambda>t. t < now) then None
         else do {
           sched \<leftarrow> first_schedule p;
           let raw_offset = num_seconds (now - anchor_v201 rfc p sched tx_start);
           offset \<leftarrow> (case recurrence_period_v201 p of
               Some period \<Rightarrow> Some (raw_offset mod period)
             | None \<Rightarrow> if raw_offset < 0 then None else Some raw_offset);
           if is_some_and (cst_duration sched) (\<lambda>d. sint d \<le> offset) then None
           else do {
             period \<leftarrow> max_by_key (\<lambda>q. sint (cspt_start_period q))
               (filter (\<lambda>q. sint (cspt_start_period q) \<le> offset) (cst_charging_schedule_period sched));
             Some (sched, period) } })"

text \<open>\<open>f64::max\<close> and \<open>f64::min\<close> ignore a NaN operand.\<close>

definition f64_max :: "f64 \<Rightarrow> f64 \<Rightarrow> f64" where
  "f64_max x y = (if x = NaN then y else if y = NaN then x else if f64_le x y then y else x)"

definition f64_min :: "f64 \<Rightarrow> f64 \<Rightarrow> f64" where
  "f64_min x y = (if x = NaN then y else if y = NaN then x else if f64_le x y then x else y)"

definition floored_limit :: "ChargingScheduleType \<Rightarrow> ChargingSchedulePeriodType \<Rightarrow> f64" where
  "floored_limit sched q = (case cst_min_charging_rate sched of
      Some flr \<Rightarrow> f64_max (cspt_limit q) flr
    | None \<Rightarrow> cspt_limit q)"

definition effective_phases :: "ChargingSchedulePeriodType \<Rightarrow> i32" where
  "effective_phases q = (let n = unwrap_or (cspt_number_phases q) 3
     in if sint n < 1 then 1 else if 3 < sint n then 3 else n)"

definition active_limit ::
  "(string \<Rightarrow> datetime option) \<Rightarrow> ChargingProfileType \<Rightarrow> int \<Rightarrow> datetime
     \<Rightarrow> (f64 \<times> ChargingRateUnitEnumType) option" where
  "active_limit rfc p elapsed tx_start =
     map_option (\<lambda>(sched, q). (floored_limit sched q, cst_charging_rate_unit sched))
       (resolve_active rfc p elapsed tx_start)"

definition active_limit_w ::
  "(string \<Rightarrow> datetime option) \<Rightarrow> ChargingProfileType \<Rightarrow> int \<Rightarrow> datetime \<Rightarrow> f64 \<Rightarrow> f64 option" where
  "active_limit_w rfc p elapsed tx_start voltage =
     map_option (\<lambda>(sched, q). (case cst_charging_rate_unit sched of
         ChargingRateUnitEnumType.W_unit \<Rightarrow> floored_limit sched q
       | ChargingRateUnitEnumType.A_unit \<Rightarrow>
           f64_mul (f64_mul (floored_limit sched q) voltage) (f64_of_i32 (effective_phases q))))
       (resolve_active rfc p elapsed tx_start)"

definition bounded_power_w ::
  "(string \<Rightarrow> datetime option) \<Rightarrow> ChargingProfileType \<Rightarrow> int \<Rightarrow> datetime \<Rightarrow> f64 \<Rightarrow> f64 \<Rightarrow> f64 option" where
  "bounded_power_w rfc p elapsed tx_start natural voltage = do {
     w \<leftarrow> active_limit_w rfc p elapsed tx_start voltage;
     if f64_lt w natural then Some w else None }"

definition bounded_power_w_capped ::
  "(string \<Rightarrow> datetime option) \<Rightarrow> ChargingProfileType option \<Rightarrow> ChargingProfileType list \<Rightarrow> int \<Rightarrow> datetime
     \<Rightarrow> f64 \<Rightarrow> f64 \<Rightarrow> f64 option" where
  "bounded_power_w_capped rfc effective_profile ceilings elapsed tx_start natural voltage =
     (let w = fold (\<lambda>p acc. case active_limit_w rfc p elapsed tx_start voltage of
                  Some w \<Rightarrow> f64_min acc w | None \<Rightarrow> acc)
                (option_list effective_profile @ ceilings) natural
      in if f64_lt w natural then Some w else None)"

section \<open>The composite schedule\<close>

definition convert_rate ::
  "f64 \<Rightarrow> ChargingRateUnitEnumType \<Rightarrow> ChargingRateUnitEnumType \<Rightarrow> i32 \<Rightarrow> f64 \<Rightarrow> f64" where
  "convert_rate amount from to phases voltage = (case (from, to) of
      (ChargingRateUnitEnumType.A_unit, ChargingRateUnitEnumType.A_unit) \<Rightarrow> amount
    | (ChargingRateUnitEnumType.W_unit, ChargingRateUnitEnumType.W_unit) \<Rightarrow> amount
    | (ChargingRateUnitEnumType.A_unit, ChargingRateUnitEnumType.W_unit) \<Rightarrow>
        f64_mul (f64_mul amount voltage) (f64_of_i32 phases)
    | (ChargingRateUnitEnumType.W_unit, ChargingRateUnitEnumType.A_unit) \<Rightarrow>
        (let denom = f64_mul voltage (f64_of_i32 phases)
         in if f64_eq denom (Finite 0) then amount else f64_div amount denom))"

definition composite_contribution_at ::
  "(string \<Rightarrow> datetime option) \<Rightarrow> ChargingProfileType \<Rightarrow> int \<Rightarrow> datetime \<Rightarrow> ChargingRateUnitEnumType \<Rightarrow> f64
     \<Rightarrow> (f64 \<times> i32 option) option" where
  "composite_contribution_at rfc p offset t0 unit voltage =
     map_option (\<lambda>(sched, q). (convert_rate (floored_limit sched q) (cst_charging_rate_unit sched) unit
         (effective_phases q) voltage, cspt_number_phases q))
       (resolve_active rfc p offset t0)"

definition schedule_edges_v201 :: "int \<Rightarrow> ChargingScheduleType \<Rightarrow> int \<Rightarrow> int list" where
  "schedule_edges_v201 duration sched s =
     concat (map (\<lambda>q. in_window duration (s + sint (cspt_start_period q))) (cst_charging_schedule_period sched))
     @ (case cst_duration sched of Some d \<Rightarrow> in_window duration (s + sint d) | None \<Rightarrow> [])"

definition composite_boundary_offsets ::
  "(string \<Rightarrow> datetime option) \<Rightarrow> ChargingProfileType \<Rightarrow> datetime \<Rightarrow> int \<Rightarrow> int list" where
  "composite_boundary_offsets rfc p t0 duration =
     remdups_adj (sort (0 # (case first_schedule p of
           None \<Rightarrow> []
         | Some sched \<Rightarrow>
             (let base = num_seconds (anchor_v201 rfc p sched t0 - t0)
              in case recurrence_period_v201 p of
                   Some period \<Rightarrow>
                     occurrence_edges (schedule_edges_v201 duration sched) duration base period ((- base) div period)
                 | None \<Rightarrow> schedule_edges_v201 duration sched base))
       @ (case parse_rfc3339 rfc (cpt_valid_from p) of
            Some t \<Rightarrow> in_window duration (num_seconds (t - t0)) | None \<Rightarrow> [])
       @ (case parse_rfc3339 rfc (cpt_valid_to p) of
            Some t \<Rightarrow> in_window duration (num_seconds (t - t0) + 1) | None \<Rightarrow> [])))"

text \<open>The limit at an offset: the base profile capped by the ceilings; a gap of the base stays a gap.\<close>

definition capped_contribution ::
  "(string \<Rightarrow> datetime option) \<Rightarrow> ChargingProfileType \<Rightarrow> ChargingProfileType list \<Rightarrow> datetime
     \<Rightarrow> ChargingRateUnitEnumType \<Rightarrow> f64 \<Rightarrow> int \<Rightarrow> (f64 \<times> i32 option) option" where
  "capped_contribution rfc p ceilings t0 unit voltage offset =
     map_option (\<lambda>(base, phases).
         (fold (\<lambda>c acc. f64_min acc c)
            (List.map_filter (\<lambda>c. map_option fst (composite_contribution_at rfc c offset t0 unit voltage)) ceilings)
            base, phases))
       (composite_contribution_at rfc p offset t0 unit voltage)"

fun composite_periods_v201 ::
  "(int \<Rightarrow> (f64 \<times> i32 option) option) \<Rightarrow> (f64 \<times> i32 option) option \<Rightarrow> int list
     \<Rightarrow> ChargingSchedulePeriodType list" where
  "composite_periods_v201 eff prev [] = []"
| "composite_periods_v201 eff prev (x # xs) =
     (case eff x of
        Some (amount, phases) \<Rightarrow>
          if unchanged prev amount phases then []
          else [\<lparr>cspt_start_period = word_of_int x, cspt_limit = amount, cspt_number_phases = phases,
                 cspt_phase_to_use = None, cspt_custom_data = None\<rparr>]
      | None \<Rightarrow> []) @ composite_periods_v201 eff (eff x) xs"

definition out_unit :: "ChargingProfileType \<Rightarrow> ChargingRateUnitEnumType option \<Rightarrow> ChargingRateUnitEnumType" where
  "out_unit p requested = unwrap_or requested
     (case first_schedule p of Some s \<Rightarrow> cst_charging_rate_unit s | None \<Rightarrow> ChargingRateUnitEnumType.W_unit)"

definition all_boundaries ::
  "(string \<Rightarrow> datetime option) \<Rightarrow> ChargingProfileType list \<Rightarrow> datetime \<Rightarrow> int \<Rightarrow> int list" where
  "all_boundaries rfc ps t0 duration =
     remdups_adj (sort (concat (map (\<lambda>p. composite_boundary_offsets rfc p t0 duration) ps)))"

definition compose_composite_schedule_capped ::
  "(string \<Rightarrow> datetime option) \<Rightarrow> (datetime \<Rightarrow> string) \<Rightarrow> i32 \<Rightarrow> ChargingProfileType \<Rightarrow> ChargingProfileType list
     \<Rightarrow> datetime \<Rightarrow> i32 \<Rightarrow> ChargingRateUnitEnumType option \<Rightarrow> f64 \<Rightarrow> CompositeScheduleType option" where
  "compose_composite_schedule_capped rfc fmt evse p ceilings t0 duration requested voltage =
     (if sint duration \<le> 0 then None
      else
        (let unit = out_unit p requested;
             periods = composite_periods_v201 (capped_contribution rfc p ceilings t0 unit voltage) None
               (all_boundaries rfc (p # ceilings) t0 (sint duration))
         in if periods = [] then None
            else Some \<lparr>comps_evse_id = evse, comps_duration = duration, comps_schedule_start = fmt t0,
                       comps_charging_rate_unit = unit, comps_charging_schedule_period = periods,
                       comps_custom_data = None\<rparr>))"

definition compose_composite_schedule ::
  "(string \<Rightarrow> datetime option) \<Rightarrow> (datetime \<Rightarrow> string) \<Rightarrow> i32 \<Rightarrow> ChargingProfileType
     \<Rightarrow> datetime \<Rightarrow> i32 \<Rightarrow> ChargingRateUnitEnumType option \<Rightarrow> f64 \<Rightarrow> CompositeScheduleType option" where
  "compose_composite_schedule rfc fmt evse p t0 duration requested voltage =
     compose_composite_schedule_capped rfc fmt evse p [] t0 duration requested voltage"

section \<open>Profiles of an EVSE\<close>

definition profile_in_force :: "profile_stores \<Rightarrow> i32 \<Rightarrow> ChargingProfileType option" where
  "profile_in_force s evse = (case tx_get (ps_tx s) evse of
      Some p \<Rightarrow> Some p
    | None \<Rightarrow> default_effective_for (ps_default s) evse)"

definition ceilings_in_force :: "profile_stores \<Rightarrow> i32 \<Rightarrow> ChargingProfileType list" where
  "ceilings_in_force s evse = List.map_filter id
     [ceiling_effective_for (ps_ceiling s) MaxCeiling evse, ceiling_effective_for (ps_ceiling s) ExternalCeiling evse]"

text \<open>
  \<open>connectors\<close> are the configurations of the connectors. \<open>evse_id as u32\<close> keeps the bits.
\<close>

definition nominal_voltage :: "(ConnectorId, ConnectorConfig) hmap \<Rightarrow> i32 \<Rightarrow> f64" where
  "nominal_voltage connectors evse = (case ConnectorId_new evse of
      Inr cid \<Rightarrow> (case map_of connectors cid of Some c \<Rightarrow> cc_max_voltage c | None \<Rightarrow> Finite 230)
    | Inl _ \<Rightarrow> Finite 230)"

definition handle_get_composite_schedule_v201 ::
  "(string \<Rightarrow> datetime option) \<Rightarrow> (datetime \<Rightarrow> string) \<Rightarrow> (ConnectorId, ConnectorConfig) hmap \<Rightarrow> datetime
     \<Rightarrow> i32 \<Rightarrow> i32 \<Rightarrow> ChargingRateUnitEnumType option \<Rightarrow> profile_stores
     \<Rightarrow> GenericStatusEnumType \<times> CompositeScheduleType option" where
  "handle_get_composite_schedule_v201 rfc fmt connectors now evse duration requested s =
     (case profile_in_force s evse of
        None \<Rightarrow> (GenericStatusEnumType.Rejected, None)
      | Some p \<Rightarrow>
          (case compose_composite_schedule_capped rfc fmt evse p (ceilings_in_force s evse) now duration requested
                  (nominal_voltage connectors evse) of
             Some sched \<Rightarrow> (GenericStatusEnumType.Accepted, Some sched)
           | None \<Rightarrow> (GenericStatusEnumType.Rejected, None)))"

text \<open>The bound on a periodic sample of the transaction on an EVSE, \<open>elapsed\<close> seconds into it.\<close>

definition sampled_power_bound ::
  "(string \<Rightarrow> datetime option) \<Rightarrow> profile_stores \<Rightarrow> i32 \<Rightarrow> i32 \<Rightarrow> datetime \<Rightarrow> ConnectorConfig \<Rightarrow> f64 option" where
  "sampled_power_bound rfc s evse elapsed tx_start cfg =
     bounded_power_w_capped rfc (profile_in_force s evse) (ceilings_in_force s evse) (sint elapsed) tx_start
       (cc_max_power cfg) (cc_max_voltage cfg)"

section \<open>A 2.0.1 profile as a 1.6J profile\<close>

definition period_v16j :: "ChargingSchedulePeriodType \<Rightarrow> ChargingSchedulePeriod" where
  "period_v16j q = \<lparr>csp_start_period = cspt_start_period q, csp_limit = cspt_limit q,
     csp_number_phases = cspt_number_phases q\<rparr>"

definition unit_v16j :: "ChargingRateUnitEnumType \<Rightarrow> ChargingRateUnitType" where
  "unit_v16j u = (case u of ChargingRateUnitEnumType.W_unit \<Rightarrow> ChargingRateUnitType.W_unit
    | ChargingRateUnitEnumType.A_unit \<Rightarrow> ChargingRateUnitType.A_unit)"

definition schedule_v16j :: "(string \<Rightarrow> datetime option) \<Rightarrow> ChargingScheduleType \<Rightarrow> ChargingSchedule" where
  "schedule_v16j rfc s = \<lparr>cs_duration = cst_duration s,
     cs_start_schedule = parse_rfc3339 rfc (cst_start_schedule s),
     cs_charging_rate_unit = unit_v16j (cst_charging_rate_unit s),
     cs_charging_schedule_period = map period_v16j (cst_charging_schedule_period s),
     cs_min_charging_rate = cst_min_charging_rate s\<rparr>"

definition no_schedule :: ChargingSchedule where
  "no_schedule = \<lparr>cs_duration = None, cs_start_schedule = None,
     cs_charging_rate_unit = ChargingRateUnitType.W_unit, cs_charging_schedule_period = [],
     cs_min_charging_rate = None\<rparr>"

definition to_v16j :: "(string \<Rightarrow> datetime option) \<Rightarrow> ChargingProfileType \<Rightarrow> ChargingProfile" where
  "to_v16j rfc p = \<lparr>cp_charging_profile_id = cpt_id p, cp_transaction_id = None,
     cp_stack_level = cpt_stack_level p, cp_charging_profile_purpose = ChargingProfilePurposeType.TxProfile,
     cp_charging_profile_kind = (case cpt_charging_profile_kind p of
         ChargingProfileKindEnumType.Absolute \<Rightarrow> ChargingProfileKindType.Absolute
       | ChargingProfileKindEnumType.Recurring \<Rightarrow> ChargingProfileKindType.Recurring
       | ChargingProfileKindEnumType.Relative \<Rightarrow> ChargingProfileKindType.Relative),
     cp_recurrency_kind = map_option (\<lambda>r. case r of
         RecurrencyKindEnumType.Daily \<Rightarrow> RecurrencyKindType.Daily
       | RecurrencyKindEnumType.Weekly \<Rightarrow> RecurrencyKindType.Weekly) (cpt_recurrency_kind p),
     cp_valid_from = parse_rfc3339 rfc (cpt_valid_from p), cp_valid_to = parse_rfc3339 rfc (cpt_valid_to p),
     cp_charging_schedule = (case first_schedule p of Some s \<Rightarrow> schedule_v16j rfc s | None \<Rightarrow> no_schedule)\<rparr>"

lemma recurrence_to_v16j: "recurrence_period (to_v16j rfc p) = recurrence_period_v201 p"
  by (auto simp: recurrence_period_def recurrence_period_v201_def to_v16j_def
      split: ChargingProfileKindEnumType.splits option.splits RecurrencyKindEnumType.splits)

lemma anchor_to_v16j:
  "first_schedule p = Some s \<Longrightarrow> anchor (to_v16j rfc p) t0 = anchor_v201 rfc p s t0"
  by (simp add: anchor_def anchor_v201_def to_v16j_def schedule_v16j_def
      split: ChargingProfileKindEnumType.splits)

lemma chosen_period_max:
  "chosen_period x (map period_v16j qs) = map_option period_v16j
     (max_by_key (\<lambda>q. sint (cspt_start_period q)) (filter (\<lambda>q. sint (cspt_start_period q) \<le> x) qs))"
proof (induction qs rule: rev_induct)
  case (snoc q qs)
  then show ?case
    by (auto simp: chosen_period_def better_period_def max_by_key_snoc period_v16j_def is_none_or_def
        split: option.splits)
qed (simp add: chosen_period_def)

definition contribution_v16j :: "ChargingScheduleType \<times> ChargingSchedulePeriodType \<Rightarrow> Contribution" where
  "contribution_v16j x = \<lparr>con_limit = cspt_limit (snd x), con_unit = unit_v16j (cst_charging_rate_unit (fst x)),
     con_phases = cspt_number_phases (snd x)\<rparr>"

lemma resolve_active_refines:
  "profile_limit_at (to_v16j rfc p) (t0 + seconds x) t0
   = map_option contribution_v16j (resolve_active rfc p x t0)"
proof (cases "first_schedule p")
  case None
  then have "cs_charging_schedule_period (cp_charging_schedule (to_v16j rfc p)) = []"
    by (simp add: to_v16j_def no_schedule_def)
  with None show ?thesis
    by (auto simp: profile_limit_at_def resolve_active_def Let_def chosen_period_def split: option.splits)
next
  case (Some s)
  have sched: "cp_charging_schedule (to_v16j rfc p) = schedule_v16j rfc s" using Some by (simp add: to_v16j_def)
  have valid: "cp_valid_from (to_v16j rfc p) = parse_rfc3339 rfc (cpt_valid_from p)"
    "cp_valid_to (to_v16j rfc p) = parse_rfc3339 rfc (cpt_valid_to p)" by (simp_all add: to_v16j_def)
  have fields: "cs_duration (schedule_v16j rfc s) = cst_duration s"
    "cs_charging_schedule_period (schedule_v16j rfc s) = map period_v16j (cst_charging_schedule_period s)"
    "cs_charging_rate_unit (schedule_v16j rfc s) = unit_v16j (cst_charging_rate_unit s)"
    by (simp_all add: schedule_v16j_def)
  show ?thesis
    unfolding profile_limit_at_def resolve_active_def Let_def valid sched fields recurrence_to_v16j
      anchor_to_v16j [OF Some] Some chosen_period_max
    by (auto simp: contribution_v16j_def period_v16j_def bind_eq_None_conv option.map_comp comp_def
        split: option.splits Option.bind_splits)
qed

section \<open>Boundaries\<close>

lemma schedule_edges_v16j: "schedule_edges duration (schedule_v16j rfc s) = schedule_edges_v201 duration s"
  by (simp add: fun_eq_iff schedule_edges_def schedule_edges_v201_def schedule_v16j_def period_v16j_def comp_def)

abbreviation scoped :: "(string \<Rightarrow> datetime option) \<Rightarrow> ChargingProfileType \<Rightarrow> ScopedProfile" where
  "scoped rfc p \<equiv> \<lparr>sp_specific = True, sp_profile = to_v16j rfc p\<rparr>"

lemma occurrence_edges_none: "0 < period \<Longrightarrow> occurrence_edges (\<lambda>_. []) duration base period k = []"
  using occurrence_edges_set [of period "\<lambda>_. []" duration base k] by simp

lemma no_schedule_edges: "schedule_edges duration no_schedule = (\<lambda>_. [])"
  by (simp add: fun_eq_iff schedule_edges_def no_schedule_def)

lemma set_composite_boundaries:
  "set (composite_boundary_offsets rfc p t0 duration) = insert 0 (set (candidate_edges t0 duration (scoped rfc p)))"
proof -
  have valid: "cp_valid_from (to_v16j rfc p) = parse_rfc3339 rfc (cpt_valid_from p)"
    "cp_valid_to (to_v16j rfc p) = parse_rfc3339 rfc (cpt_valid_to p)" by (simp_all add: to_v16j_def)
  show ?thesis
  proof (cases "first_schedule p")
    case None
    then have sched: "cp_charging_schedule (to_v16j rfc p) = no_schedule" by (simp add: to_v16j_def)
    have "candidate_edges t0 duration (scoped rfc p) =
        (case parse_rfc3339 rfc (cpt_valid_from p) of
           Some t \<Rightarrow> in_window duration (num_seconds (t - t0)) | None \<Rightarrow> [])
        @ (case parse_rfc3339 rfc (cpt_valid_to p) of
           Some t \<Rightarrow> in_window duration (num_seconds (t - t0) + 1) | None \<Rightarrow> [])"
      using recurrence_period_pos [of "to_v16j rfc p"]
      by (simp add: candidate_edges_def Let_def sched valid no_schedule_edges occurrence_edges_none split: option.split)
    with None show ?thesis by (simp add: composite_boundary_offsets_def del: sort_key_simps)
  next
    case (Some s)
    then have sched: "cp_charging_schedule (to_v16j rfc p) = schedule_v16j rfc s" by (simp add: to_v16j_def)
    have "candidate_edges t0 duration (scoped rfc p) =
        (case recurrence_period_v201 p of
           Some period \<Rightarrow> occurrence_edges (schedule_edges_v201 duration s) duration
             (num_seconds (anchor_v201 rfc p s t0 - t0)) period (- num_seconds (anchor_v201 rfc p s t0 - t0) div period)
         | None \<Rightarrow> schedule_edges_v201 duration s (num_seconds (anchor_v201 rfc p s t0 - t0)))
        @ (case parse_rfc3339 rfc (cpt_valid_from p) of
           Some t \<Rightarrow> in_window duration (num_seconds (t - t0)) | None \<Rightarrow> [])
        @ (case parse_rfc3339 rfc (cpt_valid_to p) of
           Some t \<Rightarrow> in_window duration (num_seconds (t - t0) + 1) | None \<Rightarrow> [])"
      using Some by (simp add: candidate_edges_def Let_def sched valid schedule_edges_v16j recurrence_to_v16j
          anchor_to_v16j split: option.split)
    with Some show ?thesis by (simp add: composite_boundary_offsets_def Let_def del: sort_key_simps)
  qed
qed

lemma set_all_boundaries:
  "y \<in> set (all_boundaries rfc ps t0 duration) \<longleftrightarrow>
     (\<exists>p \<in> set ps. y = 0 \<or> y \<in> set (candidate_edges t0 duration (scoped rfc p)))"
  by (auto simp: all_boundaries_def set_composite_boundaries simp del: sort_key_simps) (meson hd_in_set)

lemma strict_all_boundaries: "sorted_wrt (<) (all_boundaries rfc ps t0 duration)"
  by (simp add: all_boundaries_def strict_sorted_iff distinct_remdups_adj_sorted sorted_remdups_adj del: sort_key_simps)

definition regular_v201 :: "(string \<Rightarrow> datetime option) \<Rightarrow> datetime \<Rightarrow> ChargingProfileType \<Rightarrow> bool" where
  "regular_v201 rfc t0 p = regular t0 (to_v16j rfc p)"

text \<open>What a contribution is worth in the reported unit, given its schedule.\<close>

definition worth :: "ChargingScheduleType \<Rightarrow> ChargingRateUnitEnumType \<Rightarrow> f64 \<Rightarrow> Contribution \<Rightarrow> f64 \<times> i32 option" where
  "worth s unit voltage c =
     (let q = \<lparr>cspt_start_period = 0, cspt_limit = con_limit c, cspt_number_phases = con_phases c,
               cspt_phase_to_use = None, cspt_custom_data = None\<rparr>
      in (convert_rate (floored_limit s q) (cst_charging_rate_unit s) unit (effective_phases q) voltage, con_phases c))"

lemma worth_contribution:
  "worth s unit voltage (contribution_v16j (s, q))
   = (convert_rate (floored_limit s q) (cst_charging_rate_unit s) unit (effective_phases q) voltage, cspt_number_phases q)"
  by (simp add: worth_def contribution_v16j_def floored_limit_def effective_phases_def Let_def split: option.split)

lemma resolve_first: "resolve_active rfc p x t0 = Some (s, q) \<Longrightarrow> first_schedule p = Some s"
  by (auto simp: resolve_active_def Let_def bind_eq_Some_conv split: if_splits)

lemma contribution_v201:
  "composite_contribution_at rfc p x t0 unit voltage
   = map_option (worth (the (first_schedule p)) unit voltage) (profile_limit_at (to_v16j rfc p) (t0 + seconds x) t0)"
proof (cases "resolve_active rfc p x t0")
  case None
  then show ?thesis by (simp add: composite_contribution_at_def resolve_active_refines)
next
  case (Some y)
  then obtain s q where y: "resolve_active rfc p x t0 = Some (s, q)" by (cases y) simp
  with resolve_first [OF y] show ?thesis
    by (simp add: composite_contribution_at_def resolve_active_refines worth_contribution)
qed

lemma contribution_step:
  assumes "regular_v201 rfc t0 p" and "0 < x" and "x < duration"
    and "x \<notin> set (candidate_edges t0 duration (scoped rfc p))"
  shows "composite_contribution_at rfc p x t0 unit voltage = composite_contribution_at rfc p (x - 1) t0 unit voltage"
  using profile_limit_step [of t0 "scoped rfc p" x duration] assms
  by (simp add: regular_v201_def contribution_v201)

lemma capped_step:
  assumes "list_all (regular_v201 rfc t0) (p # ceilings)" and "0 < x" and "x < duration"
    and "x \<notin> set (all_boundaries rfc (p # ceilings) t0 duration)"
  shows "capped_contribution rfc p ceilings t0 unit voltage x = capped_contribution rfc p ceilings t0 unit voltage (x - 1)"
proof -
  have step: "composite_contribution_at rfc c x t0 unit voltage = composite_contribution_at rfc c (x - 1) t0 unit voltage"
    if "c \<in> set (p # ceilings)" for c
    using assms that by (intro contribution_step [where duration = duration]) (auto simp: set_all_boundaries list_all_iff)
  then have "List.map_filter (\<lambda>c. map_option fst (composite_contribution_at rfc c x t0 unit voltage)) ceilings
      = List.map_filter (\<lambda>c. map_option fst (composite_contribution_at rfc c (x - 1) t0 unit voltage)) ceilings"
    by (intro map_filter_cong_set) simp
  with step [of p] show ?thesis by (simp add: capped_contribution_def)
qed

section \<open>The reported schedule\<close>

definition reported_v201 :: "CompositeScheduleType \<Rightarrow> int \<Rightarrow> (f64 \<times> i32 option) option" where
  "reported_v201 sched x = reported_at (map period_v16j (comps_charging_schedule_period sched)) x"

lemma composite_periods_v16j: "map period_v16j (composite_periods_v201 eff prev xs) = composite_periods eff prev xs"
  by (induction xs arbitrary: prev) (auto simp: period_v16j_def split: option.splits)

lemma all_boundaries_range:
  assumes "0 < duration" and "y \<in> set (all_boundaries rfc ps t0 duration)"
  shows "0 \<le> y \<and> y < duration"
  using assms by (auto simp: set_all_boundaries dest!: candidate_edges_range)

lemma compose_reports:
  assumes "list_all (regular_v201 rfc t0) (p # ceilings)" and "0 \<le> x" and "x < sint duration"
    and sep: "separated (capped_contribution rfc p ceilings t0 (out_unit p requested) voltage)
      (all_boundaries rfc (p # ceilings) t0 (sint duration))"
    and v: "capped_contribution rfc p ceilings t0 (out_unit p requested) voltage x = Some v"
  shows "\<exists>sched. compose_composite_schedule_capped rfc fmt evse p ceilings t0 duration requested voltage = Some sched
    \<and> comps_charging_rate_unit sched = out_unit p requested \<and> reported_v201 sched x = Some v"
proof -
  let ?B = "all_boundaries rfc (p # ceilings) t0 (sint duration)"
  let ?eff = "capped_contribution rfc p ceilings t0 (out_unit p requested) voltage"
  let ?ps = "composite_periods_v201 ?eff None ?B"
  have pos: "0 < sint duration" using assms(2,3) by linarith
  have range: "0 \<le> y \<and> y < 2 ^ 31" if "y \<in> set ?B" for y
    using all_boundaries_range [OF pos that] sint_i32_range(2) [of duration] by linarith
  have rep: "reported_at (composite_periods ?eff None ?B) x = Some v"
    by (rule composite_periods_correct [where duration = "sint duration"])
      (use assms range strict_all_boundaries capped_step [OF assms(1)] in \<open>auto simp: set_all_boundaries\<close>)
  then have "composite_periods ?eff None ?B \<noteq> []" by (rule reported_at_not_Nil)
  then have "?ps \<noteq> []" by (metis composite_periods_v16j list.map_disc_iff)
  with pos rep show ?thesis
    by (simp add: compose_composite_schedule_capped_def Let_def reported_v201_def composite_periods_v16j)
qed

section \<open>The power bound\<close>

lemma f64_min_assoc: "f64_min (f64_min x y) z = f64_min x (f64_min y z)"
  by (cases x; cases y; cases z) (auto simp: f64_min_def)

lemma fold_f64_min: "fold (\<lambda>c acc. f64_min acc c) ws (f64_min x y) = f64_min x (fold (\<lambda>c acc. f64_min acc c) ws y)"
  by (induction ws arbitrary: y) (simp_all add: f64_min_assoc)

lemma fold_limits:
  "fold (\<lambda>p acc. case g p of Some w \<Rightarrow> f64_min acc w | None \<Rightarrow> acc) ps acc
   = fold (\<lambda>c acc. f64_min acc c) (List.map_filter g ps) acc"
  by (induction ps arbitrary: acc) (simp_all add: List.map_filter_simps split: option.split)

lemma f64_min_le: "x \<noteq> NaN \<Longrightarrow> f64_le (f64_min x y) x" "y \<noteq> NaN \<Longrightarrow> f64_le (f64_min x y) y"
  by (cases x; cases y; auto simp: f64_min_def)+

lemma fold_f64_min_spec:
  assumes "acc \<noteq> NaN"
  shows "let r = fold (\<lambda>c acc. f64_min acc c) ws acc in
    r \<noteq> NaN \<and> (r = acc \<or> r \<in> set ws) \<and> f64_le r acc \<and> (\<forall>w \<in> set ws. w \<noteq> NaN \<longrightarrow> f64_le r w)"
  using assms
proof (induction ws arbitrary: acc)
  case Nil
  then show ?case by (simp add: f64_le_refl not_nan_def)
next
  case (Cons w ws)
  let ?m = "f64_min acc w"
  have m: "?m \<noteq> NaN" "?m = acc \<or> ?m = w" "f64_le ?m acc" "w \<noteq> NaN \<longrightarrow> f64_le ?m w"
    using Cons.prems by (cases acc; cases w; simp add: f64_min_def; fail)+
  from Cons.IH [OF m(1)] m(2-4) show ?case by (auto simp: Let_def intro: f64_le_trans)
qed

section \<open>Properties\<close>

abbreviation limits_in_force ::
  "(string \<Rightarrow> datetime option) \<Rightarrow> ChargingProfileType list \<Rightarrow> int \<Rightarrow> datetime \<Rightarrow> f64 \<Rightarrow> f64 list" where
  "limits_in_force rfc ps elapsed tx_start voltage \<equiv>
     List.map_filter (\<lambda>p. active_limit_w rfc p elapsed tx_start voltage) ps"

text \<open>
  The power a sample is bound to: it is the smallest limit of the profile in force and of the
  station ceilings, and below the natural rate of the connector; a sample is left unbounded
  exactly when no limit in force is below that rate. A limit that is not a number binds nothing.
\<close>

theorem bounded_power_is_tightest:
  assumes "natural \<noteq> NaN"
  shows "let ws = limits_in_force rfc (option_list eff @ ceilings) elapsed tx_start voltage in
    case bounded_power_w_capped rfc eff ceilings elapsed tx_start natural voltage of
      None \<Rightarrow> \<forall>w \<in> set ws. w \<noteq> NaN \<longrightarrow> f64_le natural w
    | Some l \<Rightarrow> l \<in> set ws \<and> f64_lt l natural \<and> (\<forall>w \<in> set ws. w \<noteq> NaN \<longrightarrow> f64_le l w)"
proof -
  define ws where "ws = limits_in_force rfc (option_list eff @ ceilings) elapsed tx_start voltage"
  define r where "r = fold (\<lambda>c acc. f64_min acc c) ws natural"
  have spec: "r = natural \<or> r \<in> set ws" "f64_le r natural" "\<forall>w \<in> set ws. w \<noteq> NaN \<longrightarrow> f64_le r w"
    using fold_f64_min_spec [OF assms, of ws] by (simp_all add: r_def Let_def)
  have "bounded_power_w_capped rfc eff ceilings elapsed tx_start natural voltage
      = (if f64_lt r natural then Some r else None)"
    by (simp add: bounded_power_w_capped_def fold_limits r_def ws_def Let_def option_list_def split: option.split)
  moreover have "f64_le natural w" if "\<not> f64_lt r natural" "w \<in> set ws" "w \<noteq> NaN" for w
    using that spec by (auto simp: f64_lt_def intro: f64_le_trans)
  moreover have "\<not> f64_lt natural natural" by (simp add: f64_lt_def)
  ultimately show ?thesis using spec by (auto simp: ws_def [symmetric] Let_def)
qed

definition demo_v201 :: "rat \<Rightarrow> ChargingProfileType" where
  "demo_v201 watts = \<lparr>cpt_id = 1, cpt_stack_level = 0,
     cpt_charging_profile_purpose = ChargingProfilePurposeEnumType.TxProfile,
     cpt_charging_profile_kind = ChargingProfileKindEnumType.Relative,
     cpt_charging_schedule = [\<lparr>cst_id = 1, cst_charging_rate_unit = ChargingRateUnitEnumType.W_unit,
        cst_charging_schedule_period = [\<lparr>cspt_start_period = 0, cspt_limit = Finite watts, cspt_number_phases = None,
          cspt_phase_to_use = None, cspt_custom_data = None\<rparr>],
        cst_start_schedule = None, cst_duration = None, cst_min_charging_rate = None, cst_sales_tariff = None,
        cst_custom_data = None\<rparr>],
     cpt_recurrency_kind = None, cpt_valid_from = None, cpt_valid_to = None, cpt_transaction_id = None,
     cpt_custom_data = None\<rparr>"

abbreviation no_times :: "string \<Rightarrow> datetime option" where
  "no_times \<equiv> \<lambda>_. None"

lemma demo_resolve:
  "0 \<le> x \<Longrightarrow> \<exists>q. resolve_active no_times (demo_v201 w) x t0 = Some (hd (cpt_charging_schedule (demo_v201 w)), q)
     \<and> cspt_limit q = Finite w \<and> cspt_number_phases q = None"
  by (simp add: resolve_active_def demo_v201_def first_schedule_def parse_rfc3339_def anchor_v201_def
      recurrence_period_v201_def max_by_key_def Let_def is_some_and_def)

lemma demo_limit: "0 \<le> x \<Longrightarrow> active_limit_w no_times (demo_v201 w) x t0 voltage = Some (Finite w)"
  using demo_resolve [of x w t0]
  by (auto simp: active_limit_w_def floored_limit_def) (simp_all add: demo_v201_def floored_limit_def)

theorem bounded_power_is_tightest_witness:
  "bounded_power_w_capped no_times (Some (demo_v201 5000)) [demo_v201 4000] 0 0 (Finite 7360) (Finite 230) = Some (Finite 4000)
   \<and> f64_le (Finite 4000) (Finite 5000)"
proof -
  have "bounded_power_w_capped no_times (Some (demo_v201 5000)) [demo_v201 4000] 0 0 (Finite 7360) (Finite 230) = Some (Finite 4000)"
    by (simp add: bounded_power_w_capped_def option_list_def demo_limit f64_min_def)
  with bounded_power_is_tightest [where natural = "Finite 7360" and rfc = no_times and eff = "Some (demo_v201 5000)"
      and ceilings = "[demo_v201 4000]" and elapsed = 0 and tx_start = 0 and voltage = "Finite 230"]
  show ?thesis by (simp add: option_list_def demo_limit List.map_filter_simps)
qed

lemma watts_agree:
  "map_option fst (composite_contribution_at rfc p x t0 ChargingRateUnitEnumType.W_unit voltage)
   = active_limit_w rfc p x t0 voltage"
  by (auto simp: composite_contribution_at_def active_limit_w_def convert_rate_def option.map_comp
      intro!: option.map_cong split: prod.splits ChargingRateUnitEnumType.splits)

lemma f64_lt_min: "(if f64_lt (f64_min n l) n then Some (f64_min n l) else None) = (if f64_lt l n then Some l else None)"
  by (cases n; cases l) (auto simp: f64_min_def f64_lt_def)

lemma capped_bound:
  assumes "capped_contribution rfc p ceilings t0 ChargingRateUnitEnumType.W_unit voltage x = Some (l, ph)"
  shows "bounded_power_w_capped rfc (Some p) ceilings x t0 natural voltage = (if f64_lt l natural then Some l else None)"
proof -
  obtain b where b: "composite_contribution_at rfc p x t0 ChargingRateUnitEnumType.W_unit voltage = Some (b, ph)"
    and l: "l = fold (\<lambda>c acc. f64_min acc c) (limits_in_force rfc ceilings x t0 voltage) b"
    using assms by (auto simp: capped_contribution_def watts_agree split: prod.splits)
  have "active_limit_w rfc p x t0 voltage = Some b"
    using b watts_agree [of rfc p x t0 voltage] by simp
  then have "fold (\<lambda>p acc. case active_limit_w rfc p x t0 voltage of Some w \<Rightarrow> f64_min acc w | None \<Rightarrow> acc)
      (p # ceilings) natural = f64_min natural l"
    by (simp add: fold_limits l fold_f64_min)
  then show ?thesis by (simp add: bounded_power_w_capped_def option_list_def f64_lt_min del: fold_simps)
qed

text \<open>
  Property C23. What the station reports is what it enforces: for a query in watts at the start of the
  transaction, over times in whole seconds, wherever the profile in force on the EVSE limits the
  power, \<open>GetCompositeSchedule\<close> is accepted, the schedule shows the limit of that second capped by
  the station ceilings, and the periodic sample of that second is bound to exactly that value if it is
  below the natural rate of the connector, and not bound otherwise.
\<close>

theorem composite_matches_metering:
  fixes s :: profile_stores
  assumes p: "profile_in_force s evse = Some p"
    and cfg: "ConnectorId_new evse = Ok cid" "map_of connectors cid = Some cfg"
    and reg: "list_all (regular_v201 rfc now) (p # ceilings_in_force s evse)"
    and x: "0 \<le> x" "x < sint duration"
    and sep: "separated (capped_contribution rfc p (ceilings_in_force s evse) now ChargingRateUnitEnumType.W_unit (cc_max_voltage cfg))
      (all_boundaries rfc (p # ceilings_in_force s evse) now (sint duration))"
    and v: "capped_contribution rfc p (ceilings_in_force s evse) now ChargingRateUnitEnumType.W_unit (cc_max_voltage cfg) x
      = Some (l, ph)"
  shows "\<exists>sched. handle_get_composite_schedule_v201 rfc fmt connectors now evse duration
        (Some ChargingRateUnitEnumType.W_unit) s = (GenericStatusEnumType.Accepted, Some sched)
    \<and> reported_v201 sched x = Some (l, ph)
    \<and> sampled_power_bound rfc s evse (word_of_int x) now cfg = (if f64_lt l (cc_max_power cfg) then Some l else None)"
proof -
  have volt: "nominal_voltage connectors evse = cc_max_voltage cfg" by (simp add: nominal_voltage_def cfg)
  have unit: "out_unit p (Some ChargingRateUnitEnumType.W_unit) = ChargingRateUnitEnumType.W_unit"
    by (simp add: out_unit_def)
  have "sint (word_of_int x :: i32) = x"
    using x sint_i32_range(2) [of duration] by (intro sint_word_of_int_i32) linarith+
  then have "sampled_power_bound rfc s evse (word_of_int x) now cfg = (if f64_lt l (cc_max_power cfg) then Some l else None)"
    by (simp add: sampled_power_bound_def p capped_bound [OF v])
  moreover obtain sched where "compose_composite_schedule_capped rfc fmt evse p (ceilings_in_force s evse) now duration
      (Some ChargingRateUnitEnumType.W_unit) (cc_max_voltage cfg) = Some sched" "reported_v201 sched x = Some (l, ph)"
    using compose_reports [OF reg x, of "Some ChargingRateUnitEnumType.W_unit" "cc_max_voltage cfg"] sep v
    unfolding unit by blast
  ultimately show ?thesis by (simp add: handle_get_composite_schedule_v201_def p volt)
qed

lemma demo_contribution_v201:
  "0 \<le> x \<Longrightarrow> composite_contribution_at no_times (demo_v201 w) x t0 ChargingRateUnitEnumType.W_unit voltage = Some (Finite w, None)"
  using demo_resolve [of x w t0]
  by (auto simp: composite_contribution_at_def) (simp_all add: demo_v201_def floored_limit_def convert_rate_def)

definition demo_stores :: profile_stores where
  "demo_stores = \<lparr>ps_tx = [(1, demo_v201 5000)], ps_default = [], ps_ceiling = [((MaxCeiling, 0), demo_v201 4000)]\<rparr>"

theorem composite_matches_metering_witness:
  "\<exists>sched. handle_get_composite_schedule_v201 no_times (\<lambda>_. []) [(ConnectorId 1, demo_config)] 0 1 100
        (Some ChargingRateUnitEnumType.W_unit) demo_stores = (GenericStatusEnumType.Accepted, Some sched)
    \<and> reported_v201 sched 50 = Some (Finite 4000, None)
    \<and> sampled_power_bound no_times demo_stores 1 (word_of_int 50) 0 demo_config = Some (Finite 4000)"
proof -
  have p: "profile_in_force demo_stores 1 = Some (demo_v201 5000)"
    by (simp add: profile_in_force_def demo_stores_def tx_get_def)
  have c: "ceilings_in_force demo_stores 1 = [demo_v201 4000]"
    by (simp add: ceilings_in_force_def demo_stores_def ceiling_effective_for_def List.map_filter_simps)
  have cid: "ConnectorId_new 1 = Ok (ConnectorId 1)" by (simp add: ConnectorId_new_def)
  have reg: "regular_v201 no_times 0 (demo_v201 w)" for w
    by (simp add: regular_v201_def regular_def to_v16j_def demo_v201_def first_schedule_def schedule_v16j_def
        parse_rfc3339_def recurrence_period_def period_v16j_def)
  have B: "all_boundaries no_times [demo_v201 5000, demo_v201 4000] 0 100 = [0]"
    by (simp add: all_boundaries_def composite_boundary_offsets_def demo_v201_def first_schedule_def parse_rfc3339_def
        recurrence_period_v201_def schedule_edges_v201_def anchor_v201_def in_window_def num_seconds_def Let_def)
  have eff: "capped_contribution no_times (demo_v201 5000) [demo_v201 4000] 0 ChargingRateUnitEnumType.W_unit voltage x
      = Some (Finite 4000, None)" if "0 \<le> x" for x voltage
    using that by (simp add: capped_contribution_def demo_contribution_v201 List.map_filter_simps f64_min_def)
  show ?thesis
    using composite_matches_metering [OF p cid, of "[(ConnectorId 1, demo_config)]" demo_config
        no_times 0 50 100 "Finite 4000" None "\<lambda>_. []"]
    by (simp add: c reg B eff separated_def demo_config_def)
qed

end
