(* ===== verification/Device_Model.thy ===== *)
theory Device_Model
  imports Datatypes201 "HOL-Library.Multiset" "HOL-Library.List_Lexorder" "HOL-Library.Option_ord"
begin

text \<open>
  \<open>ocpp-cp/src/v201_device_model.rs\<close>: the component-variable tree of the 2.0.1 device model and the
  monitors installed on it, with the handlers of \<open>lib.rs\<close> that read, write, monitor and report it,
  and the emission of \<open>NotifyEvent\<close>. Names are compared in lower case: \<open>lower\<close> stands for the Unicode
  table behind \<open>str::to_lowercase\<close>, and no theorem depends on it. \<open>f64::to_bits\<close> identifies
  values here, so the two zeros count as one value.
\<close>

section \<open>Identities\<close>

record ComponentKey =
  ck_name :: string
  ck_instance :: "string option"
  ck_evse_id :: "i32 option"
  ck_connector_id :: "i32 option"

record VariableKey =
  vk_component :: ComponentKey
  vk_name :: string
  vk_instance :: "string option"

definition ComponentKey_from_request :: "(string \<Rightarrow> string) \<Rightarrow> ComponentType \<Rightarrow> ComponentKey" where
  "ComponentKey_from_request lower c =
     \<lparr>ck_name = lower (comp_name c), ck_instance = map_option lower (comp_instance c),
      ck_evse_id = map_option evse_id (comp_evse c),
      ck_connector_id = Option.bind (comp_evse c) evse_connector_id\<rparr>"

definition VariableKey_from_request :: "(string \<Rightarrow> string) \<Rightarrow> ComponentType \<Rightarrow> VariableType \<Rightarrow> VariableKey" where
  "VariableKey_from_request lower c v =
     \<lparr>vk_component = ComponentKey_from_request lower c, vk_name = lower (vart_name v),
      vk_instance = map_option lower (vart_instance v)\<rparr>"

section \<open>State\<close>

record WritePolicy =
  wp_read_only :: bool
  wp_reboot_required :: bool

definition WritePolicy_default :: WritePolicy where
  "WritePolicy_default = \<lparr>wp_read_only = False, wp_reboot_required = False\<rparr>"

record VariableEntry =
  vent_attributes :: "(AttributeEnumType \<times> string) list"
  vent_policy :: WritePolicy
  vent_component :: ComponentType
  vent_variable :: VariableType

record MonitorEntry =
  ment_key :: VariableKey
  ment_component :: ComponentType
  ment_variable :: VariableType
  ment_monitor :: VariableMonitoringType

record TrippedMonitor =
  tm_id :: i32
  tm_kind :: MonitorEnumType
  tm_severity :: i32
  tm_component :: ComponentType
  tm_variable :: VariableType

definition to_tripped :: "MonitorEntry \<Rightarrow> TrippedMonitor" where
  "to_tripped e = \<lparr>tm_id = vmont_id (ment_monitor e), tm_kind = vmont_kind (ment_monitor e),
     tm_severity = vmont_severity (ment_monitor e), tm_component = ment_component e,
     tm_variable = ment_variable e\<rparr>"

record V201DeviceModel =
  dm_components :: "ComponentKey set"
  dm_variables :: "(VariableKey, VariableEntry) hmap"
  dm_monitors :: "(i32, MonitorEntry) hmap"
  dm_last_monitor_id :: i32
  dm_active_monitoring_level :: i32
  dm_active_monitoring_base :: MonitorBaseEnumType

definition DEFAULT_MONITORING_LEVEL :: i32 where
  "DEFAULT_MONITORING_LEVEL = 9"

definition DEFAULT_MONITORING_BASE :: MonitorBaseEnumType where
  "DEFAULT_MONITORING_BASE = MonitorBaseEnumType.All_variant"

definition V201DeviceModel_new :: V201DeviceModel where
  "V201DeviceModel_new = \<lparr>dm_components = {}, dm_variables = [], dm_monitors = [], dm_last_monitor_id = 0,
     dm_active_monitoring_level = DEFAULT_MONITORING_LEVEL, dm_active_monitoring_base = DEFAULT_MONITORING_BASE\<rparr>"

definition plain_component :: "string \<Rightarrow> ComponentType" where
  "plain_component c = \<lparr>comp_name = c, comp_instance = None, comp_evse = None, comp_custom_data = None\<rparr>"

definition plain_variable :: "string \<Rightarrow> VariableType" where
  "plain_variable v = \<lparr>vart_name = v, vart_instance = None, vart_custom_data = None\<rparr>"

definition seed_station_variable ::
  "(string \<Rightarrow> string) \<Rightarrow> string \<Rightarrow> string \<Rightarrow> AttributeEnumType \<Rightarrow> string \<Rightarrow> WritePolicy
     \<Rightarrow> V201DeviceModel \<Rightarrow> V201DeviceModel" where
  "seed_station_variable lower c v attr x policy m =
     (let ck = \<lparr>ck_name = lower c, ck_instance = None, ck_evse_id = None, ck_connector_id = None\<rparr>;
          vk = \<lparr>vk_component = ck, vk_name = lower v, vk_instance = None\<rparr>;
          entry = (case map_of (dm_variables m) vk of
             Some e \<Rightarrow> e
           | None \<Rightarrow> \<lparr>vent_attributes = [], vent_policy = policy, vent_component = plain_component c,
                      vent_variable = plain_variable v\<rparr>)
      in m\<lparr>dm_components := insert ck (dm_components m),
           dm_variables := AList.update vk
             (entry\<lparr>vent_policy := policy, vent_attributes := AList.update attr x (vent_attributes entry)\<rparr>)
             (dm_variables m)\<rparr>)"

definition set_station_variable ::
  "(string \<Rightarrow> string) \<Rightarrow> string \<Rightarrow> string \<Rightarrow> AttributeEnumType \<Rightarrow> string \<Rightarrow> V201DeviceModel \<Rightarrow> V201DeviceModel" where
  "set_station_variable lower c v attr x m = seed_station_variable lower c v attr x WritePolicy_default m"

definition standard_profile :: "(string \<times> string \<times> string \<times> WritePolicy) list" where
  "standard_profile =
     [(''OCPPCommCtrlr'', ''HeartbeatInterval'', ''300'', WritePolicy_default),
      (''OCPPCommCtrlr'', ''WebSocketPingInterval'', ''60'', WritePolicy_default),
      (''OCPPCommCtrlr'', ''MessageTimeout'', ''30'', WritePolicy_default),
      (''AlignedDataCtrlr'', ''Measurands'', ''Energy.Active.Import.Register'', WritePolicy_default),
      (''AlignedDataCtrlr'', ''Interval'', ''900'', WritePolicy_default),
      (''SampledDataCtrlr'', ''TxUpdatedInterval'', ''60'', WritePolicy_default),
      (''SampledDataCtrlr'', ''TxUpdatedMeasurands'', ''Energy.Active.Import.Register'', WritePolicy_default),
      (''SecurityCtrlr'', ''OrganizationName'', ''EVLinked'', WritePolicy_default),
      (''SecurityCtrlr'', ''MaxCertificateChainSize'', ''3'', \<lparr>wp_read_only = True, wp_reboot_required = False\<rparr>),
      (''OCPPCommCtrlr'', ''NetworkConfigurationPriority'', ''1'',
         \<lparr>wp_read_only = False, wp_reboot_required = True\<rparr>)]"

definition with_standard_profile :: "(string \<Rightarrow> string) \<Rightarrow> V201DeviceModel" where
  "with_standard_profile lower =
     fold (\<lambda>(c, v, x, policy). seed_station_variable lower c v AttributeEnumType.Actual x policy)
       standard_profile V201DeviceModel_new"

section \<open>Reading and writing variables\<close>

definition dm_get ::
  "(string \<Rightarrow> string) \<Rightarrow> V201DeviceModel \<Rightarrow> ComponentType \<Rightarrow> VariableType \<Rightarrow> AttributeEnumType
     \<Rightarrow> GetVariableStatusEnumType \<times> string option" where
  "dm_get lower m c v attr =
     (if ComponentKey_from_request lower c \<notin> dm_components m then (GetVariableStatusEnumType.UnknownComponent, None)
      else case map_of (dm_variables m) (VariableKey_from_request lower c v) of
        None \<Rightarrow> (GetVariableStatusEnumType.UnknownVariable, None)
      | Some e \<Rightarrow> (case map_of (vent_attributes e) attr of
          Some x \<Rightarrow> (GetVariableStatusEnumType.Accepted, Some x)
        | None \<Rightarrow> (GetVariableStatusEnumType.NotSupportedAttributeType, None)))"

definition dm_set ::
  "(string \<Rightarrow> string) \<Rightarrow> ComponentType \<Rightarrow> VariableType \<Rightarrow> AttributeEnumType \<Rightarrow> string \<Rightarrow> V201DeviceModel
     \<Rightarrow> SetVariableStatusEnumType \<times> V201DeviceModel" where
  "dm_set lower c v attr x m =
     (if ComponentKey_from_request lower c \<notin> dm_components m then (SetVariableStatusEnumType.UnknownComponent, m)
      else case map_of (dm_variables m) (VariableKey_from_request lower c v) of
        None \<Rightarrow> (SetVariableStatusEnumType.UnknownVariable, m)
      | Some e \<Rightarrow> (case map_of (vent_attributes e) attr of
          None \<Rightarrow> (SetVariableStatusEnumType.NotSupportedAttributeType, m)
        | Some _ \<Rightarrow>
            if wp_read_only (vent_policy e) then (SetVariableStatusEnumType.Rejected, m)
            else (if wp_reboot_required (vent_policy e) then SetVariableStatusEnumType.RebootRequired
                  else SetVariableStatusEnumType.Accepted,
                  m\<lparr>dm_variables := AList.update (VariableKey_from_request lower c v)
                      (e\<lparr>vent_attributes := AList.update attr x (vent_attributes e)\<rparr>) (dm_variables m)\<rparr>)))"

section \<open>Reports\<close>

definition entry_to_report_data :: "VariableEntry \<Rightarrow> ReportDataType" where
  "entry_to_report_data e =
     (let mutability = (if wp_read_only (vent_policy e) then MutabilityEnumType.ReadOnly else MutabilityEnumType.ReadWrite)
      in \<lparr>rdt_component = vent_component e, rdt_variable = vent_variable e,
          rdt_variable_attribute = map (\<lambda>(kind, x). \<lparr>vat_kind = Some kind, vat_value = Some x,
             vat_mutability = Some mutability, vat_persistent = None, vat_constant = None,
             vat_custom_data = None\<rparr>) (vent_attributes e),
          rdt_variable_characteristics = None, rdt_custom_data = None\<rparr>)"

text \<open>The sort key of a row: bytes compare as numbers, and \<open>None\<close> comes first.\<close>

type_synonym row_key = "nat list \<times> nat list option \<times> int option \<times> nat list \<times> nat list option"

definition bytes_of :: "string \<Rightarrow> nat list" where
  "bytes_of s = map of_char s"

definition row_key :: "ComponentType \<Rightarrow> VariableType \<Rightarrow> row_key" where
  "row_key c v = (bytes_of (comp_name c), map_option bytes_of (comp_instance c),
     map_option (\<lambda>e. sint (evse_id e)) (comp_evse c), bytes_of (vart_name v), map_option bytes_of (vart_instance v))"

definition sort_report :: "ReportDataType list \<Rightarrow> ReportDataType list" where
  "sort_report rs = sort_key (\<lambda>r. row_key (rdt_component r) (rdt_variable r)) rs"

definition report :: "V201DeviceModel \<Rightarrow> ReportBaseEnumType \<Rightarrow> ReportDataType list" where
  "report m base =
     (if base = ReportBaseEnumType.SummaryInventory then []
      else sort_report (map entry_to_report_data (filter (\<lambda>e. case base of
          ReportBaseEnumType.ConfigurationInventory \<Rightarrow> \<not> wp_read_only (vent_policy e)
        | ReportBaseEnumType.FullInventory \<Rightarrow> True
        | ReportBaseEnumType.SummaryInventory \<Rightarrow> False) (map snd (dm_variables m)))))"

definition variable_matches_filter ::
  "(string \<Rightarrow> string) \<Rightarrow> VariableKey \<Rightarrow> ComponentVariableType list \<Rightarrow> bool" where
  "variable_matches_filter lower key filters = list_ex (\<lambda>cv. case cvt_variable cv of
      None \<Rightarrow> vk_component key = ComponentKey_from_request lower (cvt_component cv)
    | Some v \<Rightarrow> key = VariableKey_from_request lower (cvt_component cv) v) filters"

definition healthy_state_matches_criteria :: "ComponentCriterionEnumType list \<Rightarrow> bool" where
  "healthy_state_matches_criteria cs = list_all (\<lambda>c. case c of
      ComponentCriterionEnumType.Active \<Rightarrow> True
    | ComponentCriterionEnumType.Available \<Rightarrow> True
    | ComponentCriterionEnumType.Enabled \<Rightarrow> True
    | ComponentCriterionEnumType.Problem \<Rightarrow> False) cs"

text \<open>An absent filter or an empty one does not narrow.\<close>

definition passes :: "'a list option \<Rightarrow> ('a list \<Rightarrow> bool) \<Rightarrow> bool" where
  "passes filters p = (case filters of Some xs \<Rightarrow> xs = [] \<or> p xs | None \<Rightarrow> True)"

definition report_filtered ::
  "(string \<Rightarrow> string) \<Rightarrow> V201DeviceModel \<Rightarrow> ComponentVariableType list option
     \<Rightarrow> ComponentCriterionEnumType list option \<Rightarrow> ReportDataType list" where
  "report_filtered lower m cvs criteria =
     (if \<not> passes criteria healthy_state_matches_criteria then []
      else sort_report (map (\<lambda>(k, e). entry_to_report_data e)
        (filter (\<lambda>(k, e). passes cvs (variable_matches_filter lower k)) (dm_variables m))))"

section \<open>Monitors\<close>

definition monitor_matches_criterion :: "MonitorEnumType \<Rightarrow> MonitoringCriterionEnumType \<Rightarrow> bool" where
  "monitor_matches_criterion kind criterion = (case criterion of
      MonitoringCriterionEnumType.ThresholdMonitoring \<Rightarrow>
        kind = MonitorEnumType.UpperThreshold \<or> kind = MonitorEnumType.LowerThreshold
    | MonitoringCriterionEnumType.DeltaMonitoring \<Rightarrow> kind = MonitorEnumType.Delta
    | MonitoringCriterionEnumType.PeriodicMonitoring \<Rightarrow>
        kind = MonitorEnumType.Periodic \<or> kind = MonitorEnumType.PeriodicClockAligned)"

type_synonym monitor_group = "ComponentType \<times> VariableType \<times> VariableMonitoringType list"

definition group_monitor :: "MonitorEntry \<Rightarrow> (VariableKey, monitor_group) hmap \<Rightarrow> (VariableKey, monitor_group) hmap" where
  "group_monitor e groups = (case map_of groups (ment_key e) of
      Some (c, v, ms) \<Rightarrow> AList.update (ment_key e) (c, v, ms @ [ment_monitor e]) groups
    | None \<Rightarrow> AList.update (ment_key e) (ment_component e, ment_variable e, [ment_monitor e]) groups)"

definition monitor_selected ::
  "(string \<Rightarrow> string) \<Rightarrow> ComponentVariableType list option \<Rightarrow> MonitoringCriterionEnumType list option
     \<Rightarrow> MonitorEntry \<Rightarrow> bool" where
  "monitor_selected lower cvs criteria e \<longleftrightarrow>
     passes cvs (variable_matches_filter lower (ment_key e))
     \<and> passes criteria (list_ex (monitor_matches_criterion (vmont_kind (ment_monitor e))))"

definition group_row :: "monitor_group \<Rightarrow> MonitoringDataType" where
  "group_row g = (case g of (c, v, ms) \<Rightarrow>
     \<lparr>mondt_component = c, mondt_variable = v,
      mondt_variable_monitoring = sort_key (\<lambda>x. sint (vmont_id x)) ms, mondt_custom_data = None\<rparr>)"

definition sort_monitoring :: "MonitoringDataType list \<Rightarrow> MonitoringDataType list" where
  "sort_monitoring rs = sort_key (\<lambda>r. row_key (mondt_component r) (mondt_variable r)) rs"

definition monitoring_snapshot ::
  "(string \<Rightarrow> string) \<Rightarrow> V201DeviceModel \<Rightarrow> ComponentVariableType list option
     \<Rightarrow> MonitoringCriterionEnumType list option \<Rightarrow> MonitoringDataType list" where
  "monitoring_snapshot lower m cvs criteria =
     sort_monitoring (map (\<lambda>(k, g). group_row g)
       (fold group_monitor (filter (monitor_selected lower cvs criteria) (map snd (dm_monitors m))) []))"

definition monitor_lookup_key :: "(string \<Rightarrow> string) \<Rightarrow> string \<Rightarrow> string \<Rightarrow> VariableKey" where
  "monitor_lookup_key lower c v = VariableKey_from_request lower (plain_component c) (plain_variable v)"

definition monitors_for_variable :: "(string \<Rightarrow> string) \<Rightarrow> V201DeviceModel \<Rightarrow> string \<Rightarrow> string \<Rightarrow> TrippedMonitor list" where
  "monitors_for_variable lower m c v =
     sort_key (\<lambda>t. sint (tm_id t)) (map to_tripped
       (filter (\<lambda>e. ment_key e = monitor_lookup_key lower c v) (map snd (dm_monitors m))))"

text \<open>
  \<open>str::parse::<f64>\<close>: an optional sign, then a decimal number with an optional exponent, or one of
  the words for infinity and not-a-number in any case; the value is the nearest \<open>f64\<close>.
\<close>

definition ascii_lower :: "string \<Rightarrow> string" where
  "ascii_lower s = map (\<lambda>c. if 65 \<le> (of_char c :: nat) \<and> (of_char c :: nat) \<le> 90 then char_of (of_char c + 32 :: nat) else c) s"

definition scaled :: "nat \<Rightarrow> int \<Rightarrow> rat" where
  "scaled n e = (if 0 \<le> e then of_nat n * 10 ^ nat e else of_nat n / 10 ^ nat (- e))"

definition parse_exponent :: "string \<Rightarrow> int option" where
  "parse_exponent s = (case s of
      c # cs \<Rightarrow> if c = CHR ''-'' then if cs \<noteq> [] \<and> list_all is_digit cs then Some (- int (digits_value cs)) else None
                else (let ds = if c = CHR ''+'' then cs else s
                      in if ds \<noteq> [] \<and> list_all is_digit ds then Some (int (digits_value ds)) else None)
    | [] \<Rightarrow> None)"

definition parse_decimal :: "string \<Rightarrow> rat option" where
  "parse_decimal s =
     (let ip = takeWhile is_digit s; r = dropWhile is_digit s;
          (fp, r2) = (case r of c # t \<Rightarrow> if c = CHR ''.'' then (takeWhile is_digit t, dropWhile is_digit t) else ([], r)
                      | [] \<Rightarrow> ([], []))
      in if ip = [] \<and> fp = [] then None
         else case r2 of
           [] \<Rightarrow> Some (scaled (digits_value (ip @ fp)) (- int (length fp)))
         | c # t \<Rightarrow> if c = CHR ''e'' \<or> c = CHR ''E''
                    then map_option (\<lambda>e. scaled (digits_value (ip @ fp)) (e - int (length fp))) (parse_exponent t)
                    else None)"

definition parse_unsigned_f64 :: "string \<Rightarrow> f64 option" where
  "parse_unsigned_f64 s =
     (if ascii_lower s = ''inf'' \<or> ascii_lower s = ''infinity'' then Some PosInf
      else if ascii_lower s = ''nan'' then Some NaN
      else map_option rnd (parse_decimal s))"

definition parse_f64 :: "string \<Rightarrow> f64 option" where
  "parse_f64 s = (case s of
      c # cs \<Rightarrow> if c = CHR ''-'' then map_option f64_neg (parse_unsigned_f64 cs)
                else if c = CHR ''+'' then parse_unsigned_f64 cs else parse_unsigned_f64 s
    | [] \<Rightarrow> None)"

definition parse_finite_f64 :: "string \<Rightarrow> f64 option" where
  "parse_finite_f64 s = Option.bind (parse_f64 (str_trim s)) (\<lambda>x. case x of Finite _ \<Rightarrow> Some x | _ \<Rightarrow> None)"

definition monitor_write_trips :: "MonitorEnumType \<Rightarrow> f64 \<Rightarrow> f64 \<Rightarrow> f64 \<Rightarrow> bool" where
  "monitor_write_trips kind x prev nxt = (case kind of
      MonitorEnumType.UpperThreshold \<Rightarrow> f64_lt x prev \<noteq> f64_lt x nxt
    | MonitorEnumType.LowerThreshold \<Rightarrow> f64_lt prev x \<noteq> f64_lt nxt x
    | MonitorEnumType.Delta \<Rightarrow> f64_le (f64_abs x) (f64_abs (f64_sub nxt prev))
    | MonitorEnumType.Periodic \<Rightarrow> False
    | MonitorEnumType.PeriodicClockAligned \<Rightarrow> False)"

definition monitors_tripped_by_write ::
  "(string \<Rightarrow> string) \<Rightarrow> V201DeviceModel \<Rightarrow> string \<Rightarrow> string \<Rightarrow> string \<Rightarrow> string \<Rightarrow> TrippedMonitor list" where
  "monitors_tripped_by_write lower m c v previous new = (case (parse_finite_f64 previous, parse_finite_f64 new) of
      (Some prev, Some nxt) \<Rightarrow>
        sort_key (\<lambda>t. sint (tm_id t)) (map to_tripped
          (filter (\<lambda>e. monitor_write_trips (vmont_kind (ment_monitor e)) (vmont_value (ment_monitor e)) prev nxt)
            (filter (\<lambda>e. ment_key e = monitor_lookup_key lower c v) (map snd (dm_monitors m)))))
    | _ \<Rightarrow> [])"

definition monitor_of :: "i32 \<Rightarrow> SetMonitoringDataType \<Rightarrow> VariableMonitoringType" where
  "monitor_of i d = \<lparr>vmont_id = i, vmont_transaction = unwrap_or (smondt_transaction d) False,
     vmont_value = smondt_value d, vmont_kind = smondt_kind d, vmont_severity = smondt_severity d,
     vmont_custom_data = None\<rparr>"

text \<open>The source compares the bits of the thresholds; \<open>f64\<close> has one zero, so a monitor at 0.0 and one at -0.0 count as identical here.\<close>

definition is_duplicate :: "VariableKey \<Rightarrow> SetMonitoringDataType \<Rightarrow> V201DeviceModel \<Rightarrow> bool" where
  "is_duplicate vk d m = list_ex (\<lambda>e. ment_key e = vk \<and> vmont_kind (ment_monitor e) = smondt_kind d
     \<and> vmont_severity (ment_monitor e) = smondt_severity d \<and> vmont_value (ment_monitor e) = smondt_value d)
     (map snd (dm_monitors m))"

definition monitoring_result ::
  "SetMonitoringDataType \<Rightarrow> SetMonitoringStatusEnumType \<Rightarrow> i32 option \<Rightarrow> SetMonitoringResultType" where
  "monitoring_result d status i = \<lparr>smonrt_id = i, smonrt_status = status, smonrt_kind = smondt_kind d,
     smonrt_component = smondt_component d, smonrt_variable = smondt_variable d,
     smonrt_severity = smondt_severity d, smonrt_status_info = None, smonrt_custom_data = None\<rparr>"

definition install_monitor ::
  "(string \<Rightarrow> string) \<Rightarrow> SetMonitoringDataType \<Rightarrow> V201DeviceModel \<Rightarrow> SetMonitoringResultType \<times> V201DeviceModel" where
  "install_monitor lower d m =
     (let vk = VariableKey_from_request lower (smondt_component d) (smondt_variable d)
      in if ComponentKey_from_request lower (smondt_component d) \<notin> dm_components m
         then (monitoring_result d SetMonitoringStatusEnumType.UnknownComponent None, m)
         else if map_of (dm_variables m) vk = None
         then (monitoring_result d SetMonitoringStatusEnumType.UnknownVariable None, m)
         else case smondt_id d of
           Some i \<Rightarrow> (case map_of (dm_monitors m) i of
               Some e \<Rightarrow>
                 if ment_key e = vk
                 then (monitoring_result d SetMonitoringStatusEnumType.Accepted (Some i),
                       m\<lparr>dm_monitors := AList.update i (e\<lparr>ment_monitor := monitor_of i d\<rparr>) (dm_monitors m)\<rparr>)
                 else (monitoring_result d SetMonitoringStatusEnumType.Rejected None, m)
             | None \<Rightarrow> (monitoring_result d SetMonitoringStatusEnumType.Rejected None, m))
         | None \<Rightarrow>
             if is_duplicate vk d m then (monitoring_result d SetMonitoringStatusEnumType.Duplicate None, m)
             else (let i = dm_last_monitor_id m + 1
                   in (monitoring_result d SetMonitoringStatusEnumType.Accepted (Some i),
                       m\<lparr>dm_last_monitor_id := i,
                         dm_monitors := AList.update i \<lparr>ment_key = vk, ment_component = smondt_component d,
                           ment_variable = smondt_variable d, ment_monitor = monitor_of i d\<rparr> (dm_monitors m)\<rparr>)))"

definition install_monitors ::
  "(string \<Rightarrow> string) \<Rightarrow> SetMonitoringDataType list \<Rightarrow> V201DeviceModel \<Rightarrow> SetMonitoringResultType list \<times> V201DeviceModel" where
  "install_monitors lower ds m = map_state (install_monitor lower) ds m"

definition clear_monitor :: "i32 \<Rightarrow> V201DeviceModel \<Rightarrow> ClearMonitoringResultType \<times> V201DeviceModel" where
  "clear_monitor i m =
     (\<lparr>cmonrt_status = (if hm_contains (dm_monitors m) i then ClearMonitoringStatusEnumType.Accepted
                         else ClearMonitoringStatusEnumType.NotFound),
       cmonrt_id = i, cmonrt_status_info = None, cmonrt_custom_data = None\<rparr>,
      m\<lparr>dm_monitors := AList.delete i (dm_monitors m)\<rparr>)"

definition clear_monitors :: "i32 list \<Rightarrow> V201DeviceModel \<Rightarrow> ClearMonitoringResultType list \<times> V201DeviceModel" where
  "clear_monitors ids m = map_state clear_monitor ids m"

definition set_monitoring_level :: "i32 \<Rightarrow> V201DeviceModel \<Rightarrow> bool \<times> V201DeviceModel" where
  "set_monitoring_level severity m =
     (if 0 \<le> sint severity \<and> sint severity \<le> 9 then (True, m\<lparr>dm_active_monitoring_level := severity\<rparr>)
      else (False, m))"

definition set_monitoring_base ::
  "MonitorBaseEnumType \<Rightarrow> V201DeviceModel \<Rightarrow> GenericDeviceModelStatusEnumType \<times> V201DeviceModel" where
  "set_monitoring_base base m = (case base of
      MonitorBaseEnumType.HardWiredOnly \<Rightarrow> (GenericDeviceModelStatusEnumType.NotSupported, m)
    | _ \<Rightarrow> (GenericDeviceModelStatusEnumType.Accepted, m\<lparr>dm_active_monitoring_base := base\<rparr>))"

section \<open>Handlers\<close>

text \<open>The bytes of the character \<open>U+2026\<close>.\<close>

definition ellipsis :: string where
  "ellipsis = [CHR 0xE2, CHR 0x80, CHR 0xA6]"

text \<open>
  The commands a handler queues for the consumer task; \<open>alive\<close> tells whether that still runs. A
  handler returns the fields of its response that vary, the model, and what it queued.
\<close>

datatype device_command =
    V201MonitorTrip "TrippedMonitor list" string
  | V201NotifyReport i32 "ReportDataType list"
  | V201NotifyMonitoringReport i32 "MonitoringDataType list"

definition get_variable :: "(string \<Rightarrow> string) \<Rightarrow> V201DeviceModel \<Rightarrow> GetVariableDataType \<Rightarrow> GetVariableResultType" where
  "get_variable lower m d =
     (let (status, x) = dm_get lower m (gvdt_component d) (gvdt_variable d)
            (unwrap_or (gvdt_attribute_type d) AttributeEnumType.Actual)
      in \<lparr>gvrt_attribute_status = status, gvrt_component = gvdt_component d, gvrt_variable = gvdt_variable d,
          gvrt_attribute_type = gvdt_attribute_type d, gvrt_attribute_value = x,
          gvrt_attribute_status_info = None, gvrt_custom_data = None\<rparr>)"

definition handle_get_variables ::
  "(string \<Rightarrow> string) \<Rightarrow> GetVariableDataType list \<Rightarrow> V201DeviceModel \<Rightarrow> GetVariableResultType list" where
  "handle_get_variables lower ds m = map (get_variable lower m) ds"

definition took_effect :: "SetVariableStatusEnumType \<Rightarrow> bool" where
  "took_effect st \<longleftrightarrow> st = SetVariableStatusEnumType.Accepted \<or> st = SetVariableStatusEnumType.RebootRequired"

definition set_variable ::
  "(string \<Rightarrow> string) \<Rightarrow> SetVariableDataType \<Rightarrow> V201DeviceModel \<times> (TrippedMonitor list \<times> string) list
     \<Rightarrow> SetVariableResultType \<times> V201DeviceModel \<times> (TrippedMonitor list \<times> string) list" where
  "set_variable lower d s =
     (let (m, trips) = s;
          attr = unwrap_or (svdt_attribute_type d) AttributeEnumType.Actual;
          previous = (if attr = AttributeEnumType.Actual
                      then snd (dm_get lower m (svdt_component d) (svdt_variable d) AttributeEnumType.Actual) else None);
          (status, m') = dm_set lower (svdt_component d) (svdt_variable d) attr (svdt_attribute_value d) m;
          crossed = (if took_effect status \<and> attr = AttributeEnumType.Actual then
              (case previous of
                 Some prev \<Rightarrow> if prev \<noteq> svdt_attribute_value d
                   then monitors_tripped_by_write lower m' (comp_name (svdt_component d)) (vart_name (svdt_variable d))
                          prev (svdt_attribute_value d)
                   else []
               | None \<Rightarrow> []) else [])
      in (\<lparr>svrt_attribute_status = status, svrt_component = svdt_component d, svrt_variable = svdt_variable d,
           svrt_attribute_type = svdt_attribute_type d, svrt_attribute_status_info = None,
           svrt_custom_data = None\<rparr>,
          m', if crossed \<noteq> [] then trips @ [(crossed, svdt_attribute_value d)] else trips))"

definition handle_set_variables ::
  "(string \<Rightarrow> string) \<Rightarrow> bool \<Rightarrow> SetVariableDataType list \<Rightarrow> V201DeviceModel
     \<Rightarrow> SetVariableResultType list \<times> V201DeviceModel \<times> device_command list" where
  "handle_set_variables lower alive ds m =
     (case map_state (set_variable lower) ds (m, []) of
        (results, m', trips) \<Rightarrow> (results, m', if alive then map (\<lambda>(ms, x). V201MonitorTrip ms x) trips else []))"

definition handle_set_monitoring_level ::
  "i32 \<Rightarrow> V201DeviceModel \<Rightarrow> (GenericStatusEnumType \<times> StatusInfoType option) \<times> V201DeviceModel" where
  "handle_set_monitoring_level severity m =
     (case set_monitoring_level severity m of (accepted, m') \<Rightarrow>
        (if accepted then (GenericStatusEnumType.Accepted, None)
         else (GenericStatusEnumType.Rejected, Some \<lparr>sit_reason_code = ''OutOfRange'',
           sit_additional_info = Some (''severity must be in 0..=9 (0 Danger '' @ ellipsis @ '' 9 Debug)''),
           sit_custom_data = None\<rparr>), m'))"

definition handle_set_monitoring_base ::
  "MonitorBaseEnumType \<Rightarrow> V201DeviceModel
     \<Rightarrow> (GenericDeviceModelStatusEnumType \<times> StatusInfoType option) \<times> V201DeviceModel" where
  "handle_set_monitoring_base base m =
     (case set_monitoring_base base m of (status, m') \<Rightarrow>
        ((status, if status = GenericDeviceModelStatusEnumType.Accepted then None
          else Some \<lparr>sit_reason_code = ''NotSupported'',
            sit_additional_info = Some ''HardWiredOnly base is not modeled: no hard-wired monitors exist'',
            sit_custom_data = None\<rparr>), m'))"

definition report_status ::
  "bool \<Rightarrow> 'r list \<Rightarrow> ('r list \<Rightarrow> device_command) \<Rightarrow> GenericDeviceModelStatusEnumType \<times> device_command list" where
  "report_status alive rows cmd =
     (if rows = [] then (GenericDeviceModelStatusEnumType.EmptyResultSet, [])
      else if alive then (GenericDeviceModelStatusEnumType.Accepted, [cmd rows])
      else (GenericDeviceModelStatusEnumType.Rejected, []))"

definition handle_get_base_report ::
  "bool \<Rightarrow> i32 \<Rightarrow> ReportBaseEnumType \<Rightarrow> V201DeviceModel \<Rightarrow> GenericDeviceModelStatusEnumType \<times> device_command list" where
  "handle_get_base_report alive request_id base m = report_status alive (report m base) (V201NotifyReport request_id)"

definition handle_get_report ::
  "(string \<Rightarrow> string) \<Rightarrow> bool \<Rightarrow> i32 \<Rightarrow> ComponentVariableType list option \<Rightarrow> ComponentCriterionEnumType list option
     \<Rightarrow> V201DeviceModel \<Rightarrow> GenericDeviceModelStatusEnumType \<times> device_command list" where
  "handle_get_report lower alive request_id cvs criteria m =
     report_status alive (report_filtered lower m cvs criteria) (V201NotifyReport request_id)"

definition v201_get_monitoring_report_status :: "bool \<Rightarrow> bool \<Rightarrow> GenericDeviceModelStatusEnumType" where
  "v201_get_monitoring_report_status has_monitors queued =
     (if \<not> has_monitors then GenericDeviceModelStatusEnumType.EmptyResultSet
      else if queued then GenericDeviceModelStatusEnumType.Accepted
      else GenericDeviceModelStatusEnumType.Rejected)"

definition handle_get_monitoring_report ::
  "(string \<Rightarrow> string) \<Rightarrow> bool \<Rightarrow> i32 \<Rightarrow> ComponentVariableType list option \<Rightarrow> MonitoringCriterionEnumType list option
     \<Rightarrow> V201DeviceModel \<Rightarrow> GenericDeviceModelStatusEnumType \<times> device_command list" where
  "handle_get_monitoring_report lower alive request_id cvs criteria m =
     (let rows = monitoring_snapshot lower m cvs criteria; queued = (rows \<noteq> [] \<and> alive)
      in (v201_get_monitoring_report_status (rows \<noteq> []) queued,
          if queued then [V201NotifyMonitoringReport request_id rows] else []))"

section \<open>Events\<close>

definition v201_event_trigger_for_monitor :: "MonitorEnumType \<Rightarrow> EventTriggerEnumType" where
  "v201_event_trigger_for_monitor kind = (case kind of
      MonitorEnumType.UpperThreshold \<Rightarrow> EventTriggerEnumType.Alerting
    | MonitorEnumType.LowerThreshold \<Rightarrow> EventTriggerEnumType.Alerting
    | MonitorEnumType.Delta \<Rightarrow> EventTriggerEnumType.Delta
    | MonitorEnumType.Periodic \<Rightarrow> EventTriggerEnumType.Periodic
    | MonitorEnumType.PeriodicClockAligned \<Rightarrow> EventTriggerEnumType.Periodic)"

definition v201_monitor_event_data ::
  "i32 \<Rightarrow> string \<Rightarrow> MonitorEnumType \<Rightarrow> string \<Rightarrow> ComponentType \<Rightarrow> VariableType \<Rightarrow> i32 \<Rightarrow> EventDataType" where
  "v201_monitor_event_data event_id timestamp kind actual c v mid =
     \<lparr>edt_event_id = event_id, edt_timestamp = timestamp, edt_trigger = v201_event_trigger_for_monitor kind,
      edt_actual_value = actual, edt_event_notification_type = EventNotificationEnumType.CustomMonitor,
      edt_component = c, edt_variable = v, edt_cause = None, edt_tech_code = None, edt_tech_info = None,
      edt_cleared = None, edt_transaction_id = None, edt_variable_monitoring_id = Some mid,
      edt_custom_data = None\<rparr>"

record notify_event =
  ne_generated_at :: string
  ne_seq_no :: i32
  ne_event_data :: "EventDataType list"

record event_counters =
  ec_next_seq_no :: i32
  ec_next_event_id :: i32

definition event_counters_new :: event_counters where
  "event_counters_new = \<lparr>ec_next_seq_no = 0, ec_next_event_id = 1\<rparr>"

text \<open>The request handed to \<open>call\<close>, if any; the counters advance whether or not that succeeds.\<close>

definition emit_monitor_notify_event ::
  "string \<Rightarrow> i32 \<Rightarrow> TrippedMonitor list \<Rightarrow> string \<Rightarrow> event_counters \<Rightarrow> notify_event option \<times> event_counters" where
  "emit_monitor_notify_event now level monitors actual ctr =
     (let reportable = filter (\<lambda>t. sint (tm_severity t) \<le> sint level) monitors
      in if reportable = [] then (None, ctr)
         else (let (events, next_id) = map_state (\<lambda>t i. (v201_monitor_event_data i now (tm_kind t) actual
                      (tm_component t) (tm_variable t) (tm_id t), i + 1)) reportable (ec_next_event_id ctr)
               in (Some \<lparr>ne_generated_at = now, ne_seq_no = ec_next_seq_no ctr, ne_event_data = events\<rparr>,
                   \<lparr>ec_next_seq_no = ec_next_seq_no ctr + 1, ec_next_event_id = next_id\<rparr>)))"

definition trip_variable_monitor ::
  "(string \<Rightarrow> string) \<Rightarrow> string \<Rightarrow> V201DeviceModel \<Rightarrow> string \<Rightarrow> string \<Rightarrow> string \<Rightarrow> event_counters
     \<Rightarrow> notify_event option \<times> event_counters" where
  "trip_variable_monitor lower now m c v actual ctr =
     (let matched = monitors_for_variable lower m c v
      in if matched = [] then (None, ctr)
         else emit_monitor_notify_event now (dm_active_monitoring_level m) matched actual ctr)"

section \<open>Writing and reading\<close>

text \<open>
  Property C39. \<open>SetVariables\<close> decides by component, variable, attribute and write policy in this order; a
  write that takes effect is what every later read of that attribute returns, under any casing of
  the names, and nothing else changes; a write that does not take effect changes nothing at all.
\<close>

theorem set_variable_spec:
  "let (status, m') = dm_set lower c v attr x m; known = map_of (dm_variables m) (VariableKey_from_request lower c v) in
     status = (if ComponentKey_from_request lower c \<notin> dm_components m then SetVariableStatusEnumType.UnknownComponent
       else case known of
         None \<Rightarrow> SetVariableStatusEnumType.UnknownVariable
       | Some e \<Rightarrow> if map_of (vent_attributes e) attr = None then SetVariableStatusEnumType.NotSupportedAttributeType
                  else if wp_read_only (vent_policy e) then SetVariableStatusEnumType.Rejected
                  else if wp_reboot_required (vent_policy e) then SetVariableStatusEnumType.RebootRequired
                  else SetVariableStatusEnumType.Accepted)
     \<and> (if took_effect status then
          \<forall>c' v' attr'. dm_get lower m' c' v' attr' =
            (if VariableKey_from_request lower c' v' = VariableKey_from_request lower c v \<and> attr' = attr
             then (GetVariableStatusEnumType.Accepted, Some x) else dm_get lower m c' v' attr')
        else m' = m)"
proof (cases "took_effect (fst (dm_set lower c v attr x m))")
  case False
  then show ?thesis
    by (simp add: dm_set_def took_effect_def split: option.splits if_splits)
next
  case True
  then obtain e y where e: "ComponentKey_from_request lower c \<in> dm_components m"
    "map_of (dm_variables m) (VariableKey_from_request lower c v) = Some e" "map_of (vent_attributes e) attr = Some y"
    "\<not> wp_read_only (vent_policy e)"
    by (auto simp: dm_set_def took_effect_def split: if_splits option.splits)
  have key: "VariableKey_from_request lower c' v' = VariableKey_from_request lower c v
      \<Longrightarrow> ComponentKey_from_request lower c' = ComponentKey_from_request lower c" for c' v'
    by (simp add: VariableKey_from_request_def)
  have "dm_get lower (snd (dm_set lower c v attr x m)) c' v' attr' =
      (if VariableKey_from_request lower c' v' = VariableKey_from_request lower c v \<and> attr' = attr
       then (GetVariableStatusEnumType.Accepted, Some x) else dm_get lower m c' v' attr')" for c' v' attr'
    using e key [of c' v'] by (simp add: dm_set_def dm_get_def hm_get_update)
  with e True show ?thesis by (simp add: dm_set_def case_prod_beta Let_def)
qed

section \<open>Reports\<close>

text \<open>
  The full inventory is complete and ordered: it holds one row per stored variable, sorted by
  names, it is what \<open>GetReport\<close> without filters returns, and the configuration inventory is the same
  without the read-only variables; asking for components with a problem returns nothing.
\<close>

theorem report_complete:
  "mset (report m ReportBaseEnumType.FullInventory) = image_mset entry_to_report_data (mset (map snd (dm_variables m)))
   \<and> sorted (map (\<lambda>r. row_key (rdt_component r) (rdt_variable r)) (report m ReportBaseEnumType.FullInventory))
   \<and> report_filtered lower m None None = report m ReportBaseEnumType.FullInventory
   \<and> mset (report m ReportBaseEnumType.ConfigurationInventory)
     = image_mset entry_to_report_data {#e \<in># mset (map snd (dm_variables m)). \<not> wp_read_only (vent_policy e)#}
   \<and> report_filtered lower m cvs (Some (ComponentCriterionEnumType.Problem # cs)) = []"
  by (simp add: report_def report_filtered_def sort_report_def passes_def healthy_state_matches_criteria_def
      case_prod_unfold comp_def flip: mset_map mset_filter)

section \<open>The monitor store\<close>

datatype device_step =
    InstallMonitor SetMonitoringDataType
  | ClearMonitor i32
  | WriteVariable ComponentType VariableType AttributeEnumType string
  | SetLevel i32
  | SetBase MonitorBaseEnumType

primrec device_exec :: "(string \<Rightarrow> string) \<Rightarrow> device_step \<Rightarrow> V201DeviceModel \<Rightarrow> V201DeviceModel" where
  "device_exec lower (InstallMonitor d) m = snd (install_monitor lower d m)"
| "device_exec lower (ClearMonitor i) m = snd (clear_monitor i m)"
| "device_exec lower (WriteVariable c v a x) m = snd (dm_set lower c v a x m)"
| "device_exec lower (SetLevel n) m = snd (set_monitoring_level n m)"
| "device_exec lower (SetBase b) m = snd (set_monitoring_base b m)"

definition monitors_inv :: "V201DeviceModel \<Rightarrow> bool" where
  "monitors_inv m \<longleftrightarrow> hm_wf (dm_monitors m)
     \<and> (\<forall>i e. map_of (dm_monitors m) i = Some e \<longrightarrow>
          vmont_id (ment_monitor e) = i \<and> map_of (dm_variables m) (ment_key e) \<noteq> None)
     \<and> 0 \<le> sint (dm_active_monitoring_level m) \<and> sint (dm_active_monitoring_level m) \<le> 9
     \<and> dm_active_monitoring_base m \<noteq> MonitorBaseEnumType.HardWiredOnly"

interpretation device: machine "device_exec lower" monitors_inv for lower
proof
  fix m c assume inv: "monitors_inv m"
  show "monitors_inv (device_exec lower c m)"
  proof (cases c)
    case (InstallMonitor d)
    with inv show ?thesis
      by (auto simp: monitors_inv_def install_monitor_def Let_def hm_get_update monitor_of_def simp del: map_of_eq_Some_iff
          split: option.splits if_splits)
  next
    case (ClearMonitor i)
    with inv show ?thesis by (auto simp: monitors_inv_def clear_monitor_def hm_get_delete split: if_splits)
  next
    case (WriteVariable co v a x)
    with inv show ?thesis
      by (auto simp: monitors_inv_def dm_set_def update_conv' split: option.splits)
  next
    case (SetLevel n)
    with inv show ?thesis by (auto simp: monitors_inv_def set_monitoring_level_def)
  next
    case (SetBase b)
    with inv show ?thesis by (cases b) (auto simp: monitors_inv_def set_monitoring_base_def)
  qed
qed

text \<open>The ids handed out stay below the number of steps, so they do not wrap within \<open>2\<^sup>3\<^sup>1 - 1\<close> steps.\<close>

definition ids_below :: "nat \<Rightarrow> V201DeviceModel \<Rightarrow> bool" where
  "ids_below n m \<longleftrightarrow> 0 \<le> sint (dm_last_monitor_id m) \<and> sint (dm_last_monitor_id m) \<le> int n
     \<and> (\<forall>i. map_of (dm_monitors m) i \<noteq> None \<longrightarrow> 1 \<le> sint i \<and> sint i \<le> sint (dm_last_monitor_id m))"

lemma sint_Suc_i32: "0 \<le> sint (i :: i32) \<Longrightarrow> sint i < 2 ^ 31 - 1 \<Longrightarrow> sint (i + 1) = sint i + 1"
proof -
  assume i: "0 \<le> sint i" "sint i < 2 ^ 31 - 1"
  have "i + 1 = word_of_int (sint i + 1)" by simp
  also have "sint \<dots> = sint i + 1" using i by (intro sint_word_of_int_i32) simp_all
  finally show ?thesis .
qed

lemma ids_below_step:
  assumes "ids_below n m" and "int n < 2 ^ 31 - 1"
  shows "ids_below (Suc n) (device_exec lower c m)"
proof (cases c)
  case (InstallMonitor d)
  have s: "sint (dm_last_monitor_id m + 1) = sint (dm_last_monitor_id m) + 1"
    using assms by (intro sint_Suc_i32) (simp_all add: ids_below_def)
  have keep: "ids_below (Suc n) m" using assms(1) by (auto simp: ids_below_def)
  from InstallMonitor keep s assms(1) show ?thesis
    by (auto simp: install_monitor_def Let_def ids_below_def hm_get_update simp del: map_of_eq_Some_iff split: option.splits)
next
  case (ClearMonitor i)
  with assms show ?thesis by (auto simp: ids_below_def clear_monitor_def hm_get_delete)
qed (use assms in \<open>auto simp: ids_below_def dm_set_def set_monitoring_level_def set_monitoring_base_def
      split: option.splits MonitorBaseEnumType.splits\<close>)

lemma ids_below_run:
  "ids_below n m \<Longrightarrow> int n + int (length cs) < 2 ^ 31 \<Longrightarrow> ids_below (n + length cs) (fold (device_exec lower) cs m)"
proof (induction cs arbitrary: n m)
  case (Cons c cs)
  from Cons.prems have "ids_below (Suc n) (device_exec lower c m)" by (intro ids_below_step) simp_all
  from Cons.IH [OF this] Cons.prems(2) show ?case by simp
qed simp

lemma seed_keeps:
  "dm_monitors (seed_station_variable lower c v a x p m) = dm_monitors m"
  "dm_last_monitor_id (seed_station_variable lower c v a x p m) = dm_last_monitor_id m"
  "dm_active_monitoring_level (seed_station_variable lower c v a x p m) = dm_active_monitoring_level m"
  "dm_active_monitoring_base (seed_station_variable lower c v a x p m) = dm_active_monitoring_base m"
  by (simp_all add: seed_station_variable_def Let_def)

lemma standard_profile_inv: "monitors_inv (with_standard_profile lower)" "ids_below 0 (with_standard_profile lower)"
  by (simp_all add: with_standard_profile_def standard_profile_def monitors_inv_def ids_below_def seed_keeps
      V201DeviceModel_new_def DEFAULT_MONITORING_LEVEL_def DEFAULT_MONITORING_BASE_def)

text \<open>The ids a run hands out to new monitors, in order. A request that carries an id replaces a monitor and gets none.\<close>

definition handed_out :: "(string \<Rightarrow> string) \<Rightarrow> device_step \<Rightarrow> V201DeviceModel \<Rightarrow> i32 list" where
  "handed_out lower c m = (case c of
     InstallMonitor d \<Rightarrow> (if smondt_id d = None then option_list (smonrt_id (fst (install_monitor lower d m))) else [])
   | _ \<Rightarrow> [])"

fun new_ids :: "(string \<Rightarrow> string) \<Rightarrow> device_step list \<Rightarrow> V201DeviceModel \<Rightarrow> i32 list" where
  "new_ids lower [] m = []"
| "new_ids lower (c # cs) m = handed_out lower c m @ new_ids lower cs (device_exec lower c m)"

lemma handed_out_step:
  "handed_out lower c m = [] \<and> dm_last_monitor_id (device_exec lower c m) = dm_last_monitor_id m
   \<or> handed_out lower c m = [dm_last_monitor_id m + 1] \<and> dm_last_monitor_id (device_exec lower c m) = dm_last_monitor_id m + 1"
proof (cases c)
  case (InstallMonitor d)
  then show ?thesis
    by (auto simp: handed_out_def install_monitor_def monitoring_result_def option_list_def Let_def split: option.split)
qed (auto simp: handed_out_def clear_monitor_def dm_set_def set_monitoring_level_def set_monitoring_base_def
      split: option.splits MonitorBaseEnumType.splits)

lemma new_ids_run:
  assumes "ids_below n m" and "int n + int (length cs) < 2 ^ 31"
  shows "map sint (new_ids lower cs m)
    = map (\<lambda>k. sint (dm_last_monitor_id m) + int k) [1..<Suc (length (new_ids lower cs m))]"
  using assms
proof (induction cs arbitrary: n m)
  case (Cons c cs)
  let ?m = "device_exec lower c m"
  have ids: "ids_below (Suc n) ?m" using Cons.prems by (intro ids_below_step) simp_all
  note IH = Cons.IH [OF ids] Cons.prems(2)
  have s: "sint (dm_last_monitor_id m + 1) = sint (dm_last_monitor_id m) + 1"
    using Cons.prems by (intro sint_Suc_i32) (auto simp: ids_below_def)
  from handed_out_step [of lower c m] show ?case
  proof
    assume "handed_out lower c m = [] \<and> dm_last_monitor_id ?m = dm_last_monitor_id m"
    with IH show ?thesis by simp
  next
    assume h: "handed_out lower c m = [dm_last_monitor_id m + 1] \<and> dm_last_monitor_id ?m = dm_last_monitor_id m + 1"
    have "[1..<Suc (Suc l)] = 1 # map Suc [1..<Suc l]" for l :: nat
      by (simp add: upt_conv_Cons map_Suc_upt del: upt_Suc)
    with h IH s show ?thesis by (simp add: comp_def ac_simps del: upt_Suc)
  qed
qed simp

text \<open>
  Property C40. The monitor store stays consistent under every sequence of fewer than $2^{31} - 1$ installations,
  replacements, clearings, writes and settings: a monitor is stored under its own id and watches an existing variable,
  and level and base keep to their ranges. The ids handed out to new monitors along the run are 1, 2, 3 and so on
  without gap or repetition, so that the id of a cleared monitor is never handed out again, and the next id is free.
\<close>

theorem monitor_store_invariant:
  assumes "length steps < 2 ^ 31 - 1"
  shows "let m = fold (device_exec lower) steps (with_standard_profile lower);
             ids = new_ids lower steps (with_standard_profile lower) in
    monitors_inv m \<and> ids_below (length steps) m
    \<and> map_of (dm_monitors m) (dm_last_monitor_id m + 1) = None
    \<and> map sint ids = map int [1..<Suc (length ids)]"
proof -
  let ?m = "fold (device_exec lower) steps (with_standard_profile lower)"
  have ids: "ids_below (length steps) ?m"
    using ids_below_run [OF standard_profile_inv(2), of steps lower] assms by simp
  have "sint (dm_last_monitor_id ?m + 1) = sint (dm_last_monitor_id ?m) + 1"
    using ids assms by (intro sint_Suc_i32) (auto simp: ids_below_def)
  then have "map_of (dm_monitors ?m) (dm_last_monitor_id ?m + 1) = None"
    using ids by (auto simp: ids_below_def)
  moreover have "sint (dm_last_monitor_id (with_standard_profile lower)) = 0"
    using standard_profile_inv(2) [of lower] by (auto simp: ids_below_def)
  ultimately show ?thesis
    using ids device.run_inv [OF standard_profile_inv(1)] assms
      new_ids_run [OF standard_profile_inv(2), of steps lower] by (simp add: Let_def del: upt_Suc)
qed

definition demo_monitor :: "string \<Rightarrow> SetMonitoringDataType" where
  "demo_monitor v = \<lparr>smondt_id = None, smondt_transaction = None, smondt_value = Finite 10, smondt_kind = MonitorEnumType.UpperThreshold,
     smondt_severity = 3, smondt_component = plain_component ''OCPPCommCtrlr'', smondt_variable = plain_variable v, smondt_custom_data = None\<rparr>"

definition demo_monitoring :: "device_step list" where
  "demo_monitoring = [InstallMonitor (demo_monitor ''HeartbeatInterval''), ClearMonitor 1,
     InstallMonitor (demo_monitor ''MessageTimeout''), SetLevel 3]"

theorem monitor_store_invariant_witness:
  "let m = fold (device_exec ascii_lower) demo_monitoring (with_standard_profile ascii_lower) in
     monitors_inv m \<and> ids_below 4 m
     \<and> map sint (new_ids ascii_lower demo_monitoring (with_standard_profile ascii_lower)) = [1, 2]"
proof -
  have "length demo_monitoring = 4" by (simp add: demo_monitoring_def)
  moreover have "length (new_ids ascii_lower demo_monitoring (with_standard_profile ascii_lower)) = 2" by code_simp
  moreover have "map int [1..<Suc 2] = [1, 2]" by (simp add: upt_rec)
  ultimately show ?thesis
    using monitor_store_invariant [of demo_monitoring ascii_lower] by (simp add: Let_def del: upt_Suc)
qed

lemma mset_concat_map: "mset (concat (map f xs)) = (\<Sum>x\<in>#mset xs. mset (f x))"
  by (induction xs) simp_all

lemma concat_update:
  "hm_wf kvs \<Longrightarrow> map_of kvs k = Some g \<Longrightarrow>
     mset (concat (map h (AList.update k g' kvs))) + mset (h (k, g)) = mset (concat (map h kvs)) + mset (h (k, g'))"
proof (induction kvs)
  case (Cons kv kvs)
  obtain k1 g1 where kv: "kv = (k1, g1)" by (cases kv)
  show ?case
  proof (cases "k1 = k")
    case True
    with Cons.prems kv show ?thesis by (simp add: ac_simps)
  next
    case False
    with Cons kv have "mset (concat (map h (AList.update k g' kvs))) + mset (h (k, g)) = mset (concat (map h kvs)) + mset (h (k, g'))"
      by (simp add: hm_wf_def)
    with False kv show ?thesis by (simp add: ac_simps)
  qed
qed simp

abbreviation group_monitors :: "VariableKey \<times> monitor_group \<Rightarrow> VariableMonitoringType list" where
  "group_monitors g \<equiv> snd (snd (snd g))"

lemma groups_spec:
  "let groups = fold group_monitor es [] in
     hm_wf groups \<and> fst ` set groups = ment_key ` set es
     \<and> mset (concat (map group_monitors groups)) = image_mset ment_monitor (mset es)
     \<and> list_all (\<lambda>g. group_monitors g \<noteq> []) groups"
proof (induction es rule: rev_induct)
  case (snoc e es)
  define groups where "groups = fold group_monitor es []"
  have IH: "hm_wf groups" "fst ` set groups = ment_key ` set es"
    "mset (concat (map group_monitors groups)) = image_mset ment_monitor (mset es)"
    "list_all (\<lambda>g. group_monitors g \<noteq> []) groups"
    using snoc by (simp_all add: groups_def Let_def)
  show ?case
  proof (cases "map_of groups (ment_key e)")
    case None
    then have "fold group_monitor (es @ [e]) [] = groups @ [(ment_key e, ment_component e, ment_variable e, [ment_monitor e])]"
      by (simp add: groups_def [symmetric]) (simp add: group_monitor_def update_append_new)
    with IH None show ?thesis by (simp add: Let_def hm_wf_def map_of_eq_None_iff)
  next
    case (Some g)
    obtain c v ms where g: "g = (c, v, ms)" by (cases g)
    have k: "ment_key e \<in> fst ` set groups" using Some by (force dest: map_of_SomeD)
    have "mset (concat (map group_monitors (AList.update (ment_key e) (c, v, ms @ [ment_monitor e]) groups))) + mset ms
        = mset (concat (map group_monitors groups)) + mset (ms @ [ment_monitor e])"
      using concat_update [OF IH(1) Some, of group_monitors "(c, v, ms @ [ment_monitor e])"] g by simp
    then have "mset (concat (map group_monitors (AList.update (ment_key e) (c, v, ms @ [ment_monitor e]) groups)))
        = image_mset ment_monitor (mset (es @ [e]))" using IH(3) by simp
    moreover have "fst ` set (AList.update (ment_key e) (c, v, ms @ [ment_monitor e]) groups) = ment_key ` set (es @ [e])"
      using IH(2) k by (simp add: dom_map_of_conv_image_fst [symmetric] update_conv' insert_absorb del: dom_map_of_conv_image_fst)
    moreover have "list_all (\<lambda>g. group_monitors g \<noteq> []) (AList.update (ment_key e) (c, v, ms @ [ment_monitor e]) groups)"
      using IH(4) by (induction groups) auto
    moreover have "fold group_monitor (es @ [e]) [] = AList.update (ment_key e) (c, v, ms @ [ment_monitor e]) groups"
      using Some g by (simp add: groups_def [symmetric]) (simp add: group_monitor_def)
    ultimately show ?thesis using IH(1) by (simp add: Let_def)
  qed
qed simp

text \<open>
  \<open>GetMonitoringReport\<close> reports every selected monitor exactly once: one row per monitored
  variable, no row empty, the rows ordered by names and each row by monitor id. The request is
  accepted exactly when some monitor is selected and the report can be sent.
\<close>

theorem monitoring_report_complete:
  "let rows = monitoring_snapshot lower m cvs criteria;
       sel = filter (monitor_selected lower cvs criteria) (map snd (dm_monitors m)) in
     mset (concat (map mondt_variable_monitoring rows)) = image_mset ment_monitor (mset sel)
     \<and> length rows = card (ment_key ` set sel)
     \<and> sorted (map (\<lambda>r. row_key (mondt_component r) (mondt_variable r)) rows)
     \<and> list_all (\<lambda>r. mondt_variable_monitoring r \<noteq> []
          \<and> sorted (map (\<lambda>x. sint (vmont_id x)) (mondt_variable_monitoring r))) rows
     \<and> handle_get_monitoring_report lower alive i cvs criteria m =
         (if sel = [] then (GenericDeviceModelStatusEnumType.EmptyResultSet, [])
          else if alive then (GenericDeviceModelStatusEnumType.Accepted, [V201NotifyMonitoringReport i rows])
          else (GenericDeviceModelStatusEnumType.Rejected, []))"
proof -
  define sel where "sel = filter (monitor_selected lower cvs criteria) (map snd (dm_monitors m))"
  define groups where "groups = fold group_monitor sel []"
  define rows where "rows = monitoring_snapshot lower m cvs criteria"
  have g: "hm_wf groups" "fst ` set groups = ment_key ` set sel"
    "mset (concat (map group_monitors groups)) = image_mset ment_monitor (mset sel)"
    "list_all (\<lambda>g. group_monitors g \<noteq> []) groups"
    using groups_spec [of sel] by (simp_all add: groups_def Let_def)
  have rows: "rows = sort_monitoring (map (\<lambda>(k, g). group_row g) groups)"
    by (simp add: rows_def monitoring_snapshot_def groups_def sel_def)
  have ms: "mset (mondt_variable_monitoring (group_row g)) = mset (snd (snd g))" for g
    by (cases g) (simp add: group_row_def)
  have "mset (concat (map mondt_variable_monitoring rows))
      = mset (concat (map (\<lambda>g. mondt_variable_monitoring (group_row (snd g))) groups))"
    by (simp add: rows sort_monitoring_def mset_concat_map case_prod_unfold image_mset.compositionality comp_def)
  also have "\<dots> = mset (concat (map group_monitors groups))"
    by (simp add: mset_concat_map ms)
  finally have A: "mset (concat (map mondt_variable_monitoring rows)) = image_mset ment_monitor (mset sel)"
    using g(3) by simp
  have B: "length rows = card (ment_key ` set sel)"
    using g(1) distinct_card [of "map fst groups"]
    by (simp add: rows sort_monitoring_def hm_wf_def g(2) [symmetric])
  have ne: "mondt_variable_monitoring (group_row (snd g)) \<noteq> []" if "g \<in> set groups" for g
    using g(4) that ms [of "snd g"] by (force simp: list_all_iff)
  have C: "list_all (\<lambda>r. mondt_variable_monitoring r \<noteq> []
          \<and> sorted (map (\<lambda>x. sint (vmont_id x)) (mondt_variable_monitoring r))) rows"
    using ne by (force simp: list_all_iff rows sort_monitoring_def group_row_def split: prod.splits)
  have D: "rows = [] \<longleftrightarrow> sel = []"
    using A ne by (metis B card_0_eq finite_imageI List.finite_set image_is_empty length_0_conv set_empty)
  have E: "sorted (map (\<lambda>r. row_key (mondt_component r) (mondt_variable r)) rows)"
    by (simp add: rows sort_monitoring_def)
  from A B C D E show ?thesis
    by (simp add: sel_def [symmetric] rows_def [symmetric] Let_def handle_get_monitoring_report_def
        v201_get_monitoring_report_status_def)
qed

section \<open>Trips\<close>

fun trips_in :: "MonitorEnumType \<Rightarrow> f64 \<Rightarrow> f64 list \<Rightarrow> nat" where
  "trips_in kind x (a # b # r) = (if monitor_write_trips kind x a b then 1 else 0) + trips_in kind x (b # r)"
| "trips_in kind x _ = 0"

text \<open>
  Threshold monitors alternate: over any sequence of values the number of trips is odd exactly
  when the first and the last value lie on different sides of the threshold, so entering and leaving
  the band take turns and writes that stay on one side raise nothing. Monitors driven by time are never tripped
  by a write.
\<close>

theorem threshold_trips_alternate:
  "(odd (trips_in MonitorEnumType.UpperThreshold x (a # xs)) \<longleftrightarrow> f64_lt x a \<noteq> f64_lt x (last (a # xs)))
   \<and> (odd (trips_in MonitorEnumType.LowerThreshold x (a # xs)) \<longleftrightarrow> f64_lt a x \<noteq> f64_lt (last (a # xs)) x)
   \<and> trips_in MonitorEnumType.Periodic x (a # xs) = 0
   \<and> trips_in MonitorEnumType.PeriodicClockAligned x (a # xs) = 0"
  by (induction xs arbitrary: a) (auto simp: monitor_write_trips_def)

lemma upt_shift_append:
  "map (\<lambda>n. (i::i32) + of_nat n) [0..<a] @ map (\<lambda>n. i + of_nat a + of_nat n) [0..<b] = map (\<lambda>n. i + of_nat n) [0..<a + b]"
  by (induction b) (simp_all add: add.assoc flip: append_assoc)

lemma map_state_numbered:
  assumes "\<And>i t. key (f i t) = (i :: i32)"
  shows "map key (fst (map_state (\<lambda>t i. (f i t, i + 1)) ts i)) = map (\<lambda>n. i + of_nat n) [0..<length ts]
    \<and> snd (map_state (\<lambda>t i. (f i t, i + 1)) ts i) = i + of_nat (length ts)"
proof (induction ts arbitrary: i)
  case (Cons t ts)
  have "map (\<lambda>n. i + of_nat n) [0..<Suc (length ts)] = i # map (\<lambda>n. i + 1 + of_nat n) [0..<length ts]"
    using upt_shift_append [of i 1 "length ts"] by simp
  with Cons assms show ?case by (simp add: case_prod_beta Let_def del: upt_Suc)
qed simp

lemma event_ids:
  "map edt_event_id (fst (map_state (\<lambda>t i. (v201_monitor_event_data i now (tm_kind t) x (tm_component t) (tm_variable t) (tm_id t), i + 1)) ts i))
     = map (\<lambda>n. i + of_nat n) [0..<length ts]"
  "snd (map_state (\<lambda>t i. (v201_monitor_event_data i now (tm_kind t) x (tm_component t) (tm_variable t) (tm_id t), i + 1)) ts i)
     = i + of_nat (length ts)"
  using map_state_numbered [where key = edt_event_id and i = i and ts = ts
      and f = "\<lambda>i t. v201_monitor_event_data i now (tm_kind t) x (tm_component t) (tm_variable t) (tm_id t)"]
  by (simp_all add: v201_monitor_event_data_def)

definition emit_all ::
  "(string \<times> i32 \<times> TrippedMonitor list \<times> string) list \<Rightarrow> event_counters \<Rightarrow> notify_event option list \<times> event_counters" where
  "emit_all trips ctr = map_state (\<lambda>(now, level, ms, x). emit_monitor_notify_event now level ms x) trips ctr"

text \<open>
  The \<open>NotifyEvent\<close> stream has no gaps: over any sequence of trips at any reporting levels, the
  messages sent carry consecutive sequence numbers and their events consecutive ids, since a trip
  that reports nothing claims neither.
\<close>

theorem notify_events_gapless:
  "let sent = List.map_filter id (fst (emit_all trips ctr)) in
     map ne_seq_no sent = map (\<lambda>n. ec_next_seq_no ctr + of_nat n) [0..<length sent]
     \<and> (let events = concat (map ne_event_data sent) in
          map edt_event_id events = map (\<lambda>n. ec_next_event_id ctr + of_nat n) [0..<length events])
     \<and> list_all (\<lambda>e. ne_event_data e \<noteq> []) sent"
proof (induction trips arbitrary: ctr)
  case Nil
  show ?case by (simp add: emit_all_def List.map_filter_simps)
next
  case (Cons t trips)
  obtain now level ms x where t: "t = (now, level, ms, x)" by (cases t)
  define r where "r = filter (\<lambda>t. sint (tm_severity t) \<le> sint level) ms"
  show ?case
  proof (cases "r = []")
    case True
    with Cons.IH [of ctr] show ?thesis
      by (simp add: emit_all_def t emit_monitor_notify_event_def r_def [symmetric] case_prod_beta Let_def
          List.map_filter_simps)
  next
    case False
    let ?es = "map_state (\<lambda>t i. (v201_monitor_event_data i now (tm_kind t) x (tm_component t) (tm_variable t) (tm_id t), i + 1)) r (ec_next_event_id ctr)"
    define ctr' where "ctr' = \<lparr>ec_next_seq_no = ec_next_seq_no ctr + 1, ec_next_event_id = snd ?es\<rparr>"
    define rest where "rest = List.map_filter id (fst (emit_all trips ctr'))"
    have sent: "List.map_filter id (fst (emit_all (t # trips) ctr))
        = \<lparr>ne_generated_at = now, ne_seq_no = ec_next_seq_no ctr, ne_event_data = fst ?es\<rparr> # rest"
      using False by (simp add: emit_all_def t emit_monitor_notify_event_def r_def [symmetric] case_prod_beta Let_def
          List.map_filter_simps rest_def ctr'_def)
    have len: "length (fst ?es) = length r" by (rule map_state_length)
    have IH: "map ne_seq_no rest = map (\<lambda>n. ec_next_seq_no ctr + 1 + of_nat n) [0..<length rest]"
      "map edt_event_id (concat (map ne_event_data rest))
         = map (\<lambda>n. ec_next_event_id ctr + of_nat (length r) + of_nat n) [0..<length (concat (map ne_event_data rest))]"
      "list_all (\<lambda>e. ne_event_data e \<noteq> []) rest"
      using Cons.IH [of ctr'] unfolding rest_def [symmetric] Let_def by (simp_all add: ctr'_def event_ids)
    have "fst ?es \<noteq> []" using False len by auto
    moreover have "map (\<lambda>n. ec_next_seq_no ctr + of_nat n) [0..<Suc (length rest)]
        = ec_next_seq_no ctr # map ne_seq_no rest"
      using upt_shift_append [of "ec_next_seq_no ctr" 1 "length rest"] IH(1) by simp
    moreover have "map edt_event_id (fst ?es) @ map edt_event_id (concat (map ne_event_data rest))
        = map (\<lambda>n. ec_next_event_id ctr + of_nat n) [0..<length r + length (concat (map ne_event_data rest))]"
      unfolding event_ids IH(2) by (rule upt_shift_append)
    ultimately show ?thesis
      unfolding sent Let_def using IH(3) len by (simp del: upt_Suc)
  qed
qed

end
