(* ===== verification/Log_Upload.thy ===== *)
theory Log_Upload
  imports Datatypes201
begin

text \<open>
  The 2.0.1 \<open>GetLog\<close> flow: the store of \<open>ocpp-cp/src/v201_log_upload.rs\<close>, the decisions of
  \<open>v201_command.rs\<close>, and the handler and upload task of \<open>lib.rs\<close>. The handler answers a CALL while
  the command consumer, a separate task that serves one command at a time, runs the uploads; the
  two share the in-flight slot. The system is an inductive step relation over the slot, the
  command queue, the running upload and the notifications sent so far: a step is a handled CALL,
  the start of an upload, its completion, which an upload reaches after its simulated transfer,
  with any number of CALLs in between, or the end of the consumer task. A handler reads the slot and then writes it; the value it
  read only decides the status in its answer, so the two accesses are one step here.
\<close>

section \<open>The store\<close>

record V201LogStatusReport =
  lsr_status :: UploadLogStatusEnumType
  lsr_request_id :: "i32 option"

definition V201LogStatusReport_default :: V201LogStatusReport where
  "V201LogStatusReport_default = \<lparr>lsr_status = UploadLogStatusEnumType.Idle, lsr_request_id = None\<rparr>"

record V201LogUploadStore =
  lu_in_flight :: "i32 option"
  lu_last_reported :: V201LogStatusReport

definition lu_new :: V201LogUploadStore where
  "lu_new = \<lparr>lu_in_flight = None, lu_last_reported = V201LogStatusReport_default\<rparr>"

definition lu_is_idle :: "V201LogUploadStore \<Rightarrow> bool" where
  "lu_is_idle s = (lu_in_flight s = None)"

definition lu_begin :: "i32 \<Rightarrow> V201LogUploadStore \<Rightarrow> i32 option \<times> V201LogUploadStore" where
  "lu_begin r s = (lu_in_flight s, s\<lparr>lu_in_flight := Some r\<rparr>)"

definition lu_clear :: "V201LogUploadStore \<Rightarrow> i32 option \<times> V201LogUploadStore" where
  "lu_clear s = (lu_in_flight s, s\<lparr>lu_in_flight := None\<rparr>)"

definition lu_complete :: "i32 \<Rightarrow> V201LogUploadStore \<Rightarrow> bool \<times> V201LogUploadStore" where
  "lu_complete r s = (if lu_in_flight s = Some r then (True, s\<lparr>lu_in_flight := None\<rparr>) else (False, s))"

definition lu_record_reported :: "UploadLogStatusEnumType \<Rightarrow> i32 \<Rightarrow> V201LogUploadStore \<Rightarrow> V201LogUploadStore" where
  "lu_record_reported st r s = s\<lparr>lu_last_reported := \<lparr>lsr_status = st, lsr_request_id = Some r\<rparr>\<rparr>"

interpretation log_slot: in_flight_slot lu_in_flight lu_begin lu_complete lu_clear
  by unfold_locales (simp_all add: lu_begin_def lu_complete_def lu_clear_def)

section \<open>Decisions\<close>

definition v201_log_filename :: "LogEnumType \<Rightarrow> i32 \<Rightarrow> string" where
  "v201_log_filename t r =
     (case t of LogEnumType.DiagnosticsLog \<Rightarrow> ''diagnostics'' | LogEnumType.SecurityLog \<Rightarrow> ''security'')
     @ ''_'' @ show_i32 r @ ''.log''"

definition v201_get_log_decision ::
  "LogEnumType \<Rightarrow> i32 \<Rightarrow> i32 option \<Rightarrow> LogStatusEnumType \<times> string option" where
  "v201_get_log_decision t r in_flight =
     ((case in_flight of
         None \<Rightarrow> LogStatusEnumType.Accepted
       | Some current \<Rightarrow> if current = r then LogStatusEnumType.Accepted else LogStatusEnumType.AcceptedCanceled),
      Some (v201_log_filename t r))"

definition v201_log_upload_terminal_status :: "bool \<Rightarrow> bool \<Rightarrow> UploadLogStatusEnumType" where
  "v201_log_upload_terminal_status superseded should_fail =
     (if superseded then UploadLogStatusEnumType.AcceptedCanceled
      else if should_fail then UploadLogStatusEnumType.UploadFailure
      else UploadLogStatusEnumType.Uploaded)"

section \<open>The handler and the upload task\<close>

record log_system =
  ls_store :: V201LogUploadStore
  ls_queue :: "i32 list"
  ls_worker :: "i32 option"
  ls_alive :: bool
  ls_sent :: "(i32 \<times> UploadLogStatusEnumType) list"

definition log_system_init :: log_system where
  "log_system_init = \<lparr>ls_store = lu_new, ls_queue = [], ls_worker = None, ls_alive = True, ls_sent = []\<rparr>"

text \<open>
  When the consumer is gone the send fails; the answer is the same, the slot is taken, and nothing is queued.
\<close>

definition handle_get_log ::
  "LogEnumType \<Rightarrow> i32 \<Rightarrow> log_system \<Rightarrow> (LogStatusEnumType \<times> string option) \<times> log_system" where
  "handle_get_log t r s =
     (let answer = v201_get_log_decision t r (lu_in_flight (ls_store s))
      in if fst answer \<in> {LogStatusEnumType.Accepted, LogStatusEnumType.AcceptedCanceled}
         then (let (displaced, store') = lu_begin r (ls_store s)
               in (answer, s\<lparr>ls_store := store',
                     ls_queue := (if displaced \<noteq> Some r \<and> ls_alive s then ls_queue s @ [r] else ls_queue s)\<rparr>))
         else (answer, s))"

definition send_v201_log_status :: "UploadLogStatusEnumType \<Rightarrow> i32 \<Rightarrow> log_system \<Rightarrow> log_system" where
  "send_v201_log_status st r s =
     s\<lparr>ls_store := lu_record_reported st r (ls_store s), ls_sent := ls_sent s @ [(r, st)]\<rparr>"

text \<open>\<open>run_v201_log_upload\<close> up to its sleep, and from there to its end.\<close>

definition upload_starts :: "i32 \<Rightarrow> log_system \<Rightarrow> log_system" where
  "upload_starts r s = send_v201_log_status UploadLogStatusEnumType.Uploading r (s\<lparr>ls_worker := Some r\<rparr>)"

definition upload_settles :: "bool \<Rightarrow> i32 \<Rightarrow> log_system \<Rightarrow> log_system" where
  "upload_settles should_fail r s =
     (let (still_owner, store') = lu_complete r (ls_store s)
      in send_v201_log_status (v201_log_upload_terminal_status (\<not> still_owner) should_fail) r
           (s\<lparr>ls_store := store', ls_worker := None\<rparr>))"

text \<open>The consumer task is aborted: the queue is lost, and a running upload breaks off.\<close>

definition log_consumer_stops :: "log_system \<Rightarrow> log_system" where
  "log_consumer_stops s = s\<lparr>ls_alive := False, ls_queue := [], ls_worker := None\<rparr>"

text \<open>The uploads not settled yet, in the order the consumer serves them.\<close>

definition pending :: "log_system \<Rightarrow> i32 list" where
  "pending s = (case ls_worker s of Some r \<Rightarrow> [r] | None \<Rightarrow> []) @ ls_queue s"

text \<open>
  The steps of a station whose CSMS does not reuse the request id of an upload that another
  request has displaced and that is still pending; repeating the id in flight is allowed.
\<close>

inductive log_step :: "bool \<Rightarrow> log_system \<Rightarrow> log_system \<Rightarrow> bool" for should_fail where
  get_log: "lu_in_flight (ls_store s) = Some r \<or> r \<notin> set (pending s) \<Longrightarrow>
    log_step should_fail s (snd (handle_get_log t r s))"
| starts: "ls_worker s = None \<Longrightarrow> ls_queue s = r # q \<Longrightarrow>
    log_step should_fail s (upload_starts r (s\<lparr>ls_queue := q\<rparr>))"
| settles: "ls_worker s = Some r \<Longrightarrow> log_step should_fail s (upload_settles should_fail r s)"
| stops: "log_step should_fail s (log_consumer_stops s)"

inductive_cases log_stepE: "log_step should_fail s s'"

lemmas log_defs = handle_get_log_def v201_get_log_decision_def upload_starts_def upload_settles_def
  send_v201_log_status_def lu_begin_def lu_complete_def lu_record_reported_def pending_def log_consumer_stops_def Let_def

section \<open>Invariant\<close>

text \<open>
  While the consumer runs, the slot names the last pending upload; it is empty exactly when nothing is pending.
  Afterwards nothing is pending. The last status reported is the last one sent.
\<close>

definition log_inv :: "log_system \<Rightarrow> bool" where
  "log_inv s \<longleftrightarrow> distinct (pending s)
     \<and> (if ls_alive s then lu_in_flight (ls_store s) = (if pending s = [] then None else Some (last (pending s)))
        else pending s = [])
     \<and> lu_last_reported (ls_store s) =
         (if ls_sent s = [] then V201LogStatusReport_default
          else \<lparr>lsr_status = snd (last (ls_sent s)), lsr_request_id = Some (fst (last (ls_sent s)))\<rparr>)"

lemma log_inv_init: "log_inv log_system_init"
  by (simp add: log_inv_def log_system_init_def pending_def lu_new_def)

lemma log_inv_step: "log_step should_fail s s' \<Longrightarrow> log_inv s \<Longrightarrow> log_inv s'"
proof (induction rule: log_step.induct)
  case (get_log s r t)
  then show ?case
    by (cases "lu_in_flight (ls_store s) = Some r")
      (auto simp: log_inv_def log_defs split: option.splits if_splits)
next
  case (starts s r q)
  then show ?case by (auto simp: log_inv_def log_defs split: if_splits)
next
  case (settles s r)
  then show ?case
    by (cases "ls_queue s") (auto simp: log_inv_def log_defs split: if_splits)
next
  case (stops s)
  then show ?case by (simp add: log_inv_def log_defs)
qed

lemma log_inv_steps: "(log_step should_fail)\<^sup>*\<^sup>* s s' \<Longrightarrow> log_inv s \<Longrightarrow> log_inv s'"
  by (induction rule: rtranclp_induct) (auto dest: log_inv_step)

section \<open>Draining the queue\<close>

text \<open>What the consumer does when it is left alone: it serves every pending upload in turn.\<close>

definition served :: "bool \<Rightarrow> i32 list \<Rightarrow> i32 \<Rightarrow> (i32 \<times> UploadLogStatusEnumType) list" where
  "served should_fail rs r =
     [(r, UploadLogStatusEnumType.Uploading),
      (r, v201_log_upload_terminal_status (r \<noteq> last rs) should_fail)]"

lemma serve_one:
  assumes "log_inv s" and "ls_worker s = None" and "ls_queue s = r # q"
  shows "\<exists>s'. (log_step should_fail)\<^sup>*\<^sup>* s s' \<and> ls_worker s' = None \<and> ls_queue s' = q \<and> ls_alive s' = ls_alive s
    \<and> ls_sent s' = ls_sent s @ served should_fail (r # q) r"
proof (intro exI conjI)
  let ?s1 = "upload_starts r (s\<lparr>ls_queue := q\<rparr>)"
  let ?s2 = "upload_settles should_fail r ?s1"
  have "log_step should_fail s ?s1" using assms(2,3) by (rule log_step.starts)
  moreover have "log_step should_fail ?s1 ?s2" by (rule log_step.settles) (simp add: log_defs)
  ultimately show "(log_step should_fail)\<^sup>*\<^sup>* s ?s2" by simp
  show "ls_worker ?s2 = None" "ls_queue ?s2 = q" "ls_alive ?s2 = ls_alive s" by (simp_all add: log_defs)
  have "lu_in_flight (ls_store s) = Some (last (r # q))"
    using assms by (simp add: log_inv_def pending_def split: if_splits)
  then show "ls_sent ?s2 = ls_sent s @ served should_fail (r # q) r"
    by (auto simp: log_defs served_def)
qed

lemma drain:
  assumes "log_inv s" and "ls_worker s = None"
  shows "\<exists>s'. (log_step should_fail)\<^sup>*\<^sup>* s s' \<and> pending s' = [] \<and> ls_alive s' = ls_alive s
    \<and> ls_sent s' = ls_sent s @ concat (map (served should_fail (ls_queue s)) (ls_queue s))"
  using assms
proof (induction "ls_queue s" arbitrary: s)
  case Nil
  then show ?case by (intro exI [of _ s]) (simp add: pending_def)
next
  case (Cons r q)
  obtain s1 where s1: "(log_step should_fail)\<^sup>*\<^sup>* s s1" "ls_worker s1 = None" "ls_queue s1 = q"
    "ls_alive s1 = ls_alive s" "ls_sent s1 = ls_sent s @ served should_fail (r # q) r"
    using serve_one [OF Cons.prems Cons.hyps(2) [symmetric]] by blast
  have inv: "log_inv s1" using log_inv_steps [OF s1(1) Cons.prems(1)] .
  obtain s2 where s2: "(log_step should_fail)\<^sup>*\<^sup>* s1 s2" "pending s2 = []" "ls_alive s2 = ls_alive s1"
    "ls_sent s2 = ls_sent s1 @ concat (map (served should_fail q) q)"
    using Cons.hyps(1) [OF s1(3) [symmetric] inv s1(2)] s1(3) by auto
  have "concat (map (served should_fail (r # q)) q) = concat (map (served should_fail q) q)"
  proof (cases "q = []")
    case False
    then have "served should_fail (r # q) = served should_fail q" by (simp add: fun_eq_iff served_def)
    then show ?thesis by simp
  qed simp
  with s1 s2 Cons.hyps(2) [symmetric] show ?case
    by (intro exI [of _ s2]) (auto intro: rtranclp_trans)
qed

section \<open>Properties\<close>

text \<open>
  The in-flight slot never dangles: in every state the station can reach, however
  CALLs and uploads interleave, as long as the consumer runs, the slot is empty exactly when no upload is pending and
  otherwise names the most recently accepted one, no upload is queued twice, and the status a
  \<open>TriggerMessage\<close> would repeat is the last one sent.
\<close>

theorem log_slot_invariant:
  assumes "(log_step should_fail)\<^sup>*\<^sup>* log_system_init s"
  shows "log_inv s"
  using log_inv_steps [OF assms log_inv_init] .

lemma demo_log_steps:
  "(log_step False)\<^sup>*\<^sup>* log_system_init
     (snd (handle_get_log LogEnumType.SecurityLog 2 (snd (handle_get_log LogEnumType.DiagnosticsLog 1 log_system_init))))"
proof -
  let ?s = "snd (handle_get_log LogEnumType.DiagnosticsLog 1 log_system_init)"
  have "log_step False log_system_init ?s"
    by (rule log_step.get_log) (simp add: log_system_init_def pending_def)
  moreover have "log_step False ?s (snd (handle_get_log LogEnumType.SecurityLog 2 ?s))"
    by (rule log_step.get_log) (simp add: log_system_init_def lu_new_def log_defs)
  ultimately show ?thesis by (rule converse_rtranclp_into_rtranclp [OF _ r_into_rtranclp])
qed

theorem log_slot_invariant_witness:
  "log_inv (snd (handle_get_log LogEnumType.SecurityLog 2 (snd (handle_get_log LogEnumType.DiagnosticsLog 1 log_system_init))))"
  using log_slot_invariant [OF demo_log_steps] .

text \<open>
  Property C36. While the consumer runs and the CSMS does not reuse the id of a displaced upload that is still pending, every
  accepted upload is reported to its end: from every such state with an
  idle consumer the consumer can serve all pending uploads, each one reports \<open>Uploading\<close> followed
  by its outcome, in the order of acceptance; every upload that was superseded reports
  \<open>AcceptedCanceled\<close>, the last one reports \<open>Uploaded\<close> (or \<open>UploadFailure\<close> when the fault is
  injected), and the station is idle again.
\<close>

theorem log_uploads_drain:
  assumes "(log_step should_fail)\<^sup>*\<^sup>* log_system_init s" and "ls_alive s" and "ls_worker s = None"
  shows "\<exists>s'. (log_step should_fail)\<^sup>*\<^sup>* s s' \<and> pending s' = [] \<and> lu_in_flight (ls_store s') = None
    \<and> ls_sent s' = ls_sent s @ concat (map (\<lambda>r.
        [(r, UploadLogStatusEnumType.Uploading),
         (r, if r = last (ls_queue s)
             then (if should_fail then UploadLogStatusEnumType.UploadFailure else UploadLogStatusEnumType.Uploaded)
             else UploadLogStatusEnumType.AcceptedCanceled)]) (ls_queue s))"
proof -
  have inv: "log_inv s" using log_inv_steps [OF assms(1) log_inv_init] .
  obtain s' where s': "(log_step should_fail)\<^sup>*\<^sup>* s s'" "pending s' = []" "ls_alive s' = ls_alive s"
    "ls_sent s' = ls_sent s @ concat (map (served should_fail (ls_queue s)) (ls_queue s))"
    using drain [OF inv assms(3)] by blast
  moreover have "lu_in_flight (ls_store s') = None"
    using log_inv_steps [OF s'(1) inv] s'(2,3) assms(2) by (simp add: log_inv_def)
  moreover have "served should_fail rs = (\<lambda>r. [(r, UploadLogStatusEnumType.Uploading),
      (r, if r = last rs
          then (if should_fail then UploadLogStatusEnumType.UploadFailure else UploadLogStatusEnumType.Uploaded)
          else UploadLogStatusEnumType.AcceptedCanceled)])" for rs
    by (auto simp: fun_eq_iff served_def v201_log_upload_terminal_status_def)
  ultimately show ?thesis by (intro exI [of _ s']) simp
qed

theorem log_uploads_drain_witness:
  "let s = snd (handle_get_log LogEnumType.SecurityLog 2 (snd (handle_get_log LogEnumType.DiagnosticsLog 1 log_system_init)))
   in \<exists>s'. (log_step False)\<^sup>*\<^sup>* s s' \<and> pending s' = [] \<and> lu_in_flight (ls_store s') = None
    \<and> ls_sent s' = [(1, UploadLogStatusEnumType.Uploading), (1, UploadLogStatusEnumType.AcceptedCanceled),
                    (2, UploadLogStatusEnumType.Uploading), (2, UploadLogStatusEnumType.Uploaded)]"
proof -
  let ?s = "snd (handle_get_log LogEnumType.SecurityLog 2 (snd (handle_get_log LogEnumType.DiagnosticsLog 1 log_system_init)))"
  have "ls_alive ?s" and "ls_worker ?s = None" and "ls_queue ?s = [1, 2]" and "ls_sent ?s = []"
    by (simp_all add: log_system_init_def lu_new_def log_defs)
  with log_uploads_drain [OF demo_log_steps] show ?thesis by (auto simp: Let_def)
qed

text \<open>
  Once the consumer is gone an upload is still accepted, its id stays in the slot, and it is never
  reported.
\<close>

lemma get_log_after_stop:
  assumes "lu_in_flight (ls_store s) = None"
  shows "let s' = snd (handle_get_log t r (log_consumer_stops s)) in
     fst (fst (handle_get_log t r (log_consumer_stops s))) = LogStatusEnumType.Accepted
     \<and> lu_in_flight (ls_store s') = Some r \<and> pending s' = [] \<and> ls_sent s' = ls_sent s"
  using assms by (simp add: log_defs)

text \<open>
  The ids do have to be fresh: if the CSMS asks for 1, then 2, then 1 again before
  the consumer got to work, the first upload takes the slot of the third, reports \<open>Uploaded\<close> and
  frees the slot; the third, which was never superseded, is reported as canceled.
\<close>

theorem log_upload_id_reuse:
  "let t = LogEnumType.DiagnosticsLog;
       s1 = snd (handle_get_log t 1 log_system_init); s2 = snd (handle_get_log t 2 s1);
       s3 = snd (handle_get_log t 1 s2);
       serve = (\<lambda>s. let s' = upload_starts (hd (ls_queue s)) (s\<lparr>ls_queue := tl (ls_queue s)\<rparr>)
                    in upload_settles False (hd (ls_queue s)) s')
   in lu_in_flight (ls_store s3) = Some 1
      \<and> map snd (ls_sent (serve (serve (serve s3)))) =
        [UploadLogStatusEnumType.Uploading, UploadLogStatusEnumType.Uploaded,
         UploadLogStatusEnumType.Uploading, UploadLogStatusEnumType.AcceptedCanceled,
         UploadLogStatusEnumType.Uploading, UploadLogStatusEnumType.AcceptedCanceled]"
  by code_simp

lemma length_show_nat: "n < 10 ^ Suc k \<Longrightarrow> length (show_nat n) \<le> Suc k"
proof (induction k arbitrary: n)
  case 0
  then show ?case by (simp add: show_nat.simps)
next
  case (Suc k)
  show ?case
  proof (cases "n < 10")
    case True
    then show ?thesis by (simp add: show_nat.simps)
  next
    case False
    from Suc.prems have "n div 10 < 10 ^ Suc k" by (simp add: less_mult_imp_div_less algebra_simps)
    from Suc.IH [OF this] False show ?thesis by (simp add: show_nat.simps [of n])
  qed
qed

text \<open>
  A retry is idempotent: while a \<open>GetLog\<close> is in flight, repeating it is answered
  \<open>Accepted\<close> with the same file name and starts no second upload; a request with another id is
  answered \<open>AcceptedCanceled\<close>. The file name never exceeds the 27 characters the schema leaves room for.
\<close>

theorem get_log_retry_idempotent:
  assumes "lu_in_flight (ls_store s) = Some r"
  shows "handle_get_log t r s = ((LogStatusEnumType.Accepted, Some (v201_log_filename t r)), s)
    \<and> (r' = r \<or> fst (fst (handle_get_log t r' s)) = LogStatusEnumType.AcceptedCanceled)
    \<and> length (v201_log_filename t r') \<le> 27"
proof -
  have "length (show_i32 i) \<le> 11" for i
  proof -
    have bound: "nat (sint i) < 10 ^ Suc 9" "nat (- sint i) < 10 ^ Suc 9"
      using sint_i32_range [of i] by simp_all
    show ?thesis
      using length_show_nat [OF bound(1)] length_show_nat [OF bound(2)] by (simp add: show_i32_def)
  qed
  from this [of r'] have "length (v201_log_filename t r') \<le> 27"
    by (cases t) (simp_all add: v201_log_filename_def)
  moreover have "handle_get_log t r s = ((LogStatusEnumType.Accepted, Some (v201_log_filename t r)), s)"
    using assms by (cases s; cases "ls_store s") (simp add: log_defs)
  moreover have "r' = r \<or> fst (fst (handle_get_log t r' s)) = LogStatusEnumType.AcceptedCanceled"
    using assms by (simp add: log_defs)
  ultimately show ?thesis by blast
qed

theorem get_log_retry_idempotent_witness:
  "let s = snd (handle_get_log LogEnumType.SecurityLog 5 log_system_init) in
   handle_get_log LogEnumType.SecurityLog 5 s
     = ((LogStatusEnumType.Accepted, Some (v201_log_filename LogEnumType.SecurityLog 5)), s)
    \<and> ((6 :: i32) = 5 \<or> fst (fst (handle_get_log LogEnumType.SecurityLog 6 s)) = LogStatusEnumType.AcceptedCanceled)
    \<and> length (v201_log_filename LogEnumType.SecurityLog 6) \<le> 27"
  unfolding Let_def by (rule get_log_retry_idempotent) (simp add: log_system_init_def lu_new_def log_defs)

end
