(* ===== verification/Stores201.thy ===== *)
theory Stores201
  imports Datatypes201
begin

text \<open>
  The small 2.0.1 stores of the charge point: certificates (\<open>v201_certificate_store.rs\<close>), display
  messages (\<open>v201_display_message.rs\<close>), network profiles (\<open>v201_network_profile.rs\<close>), running costs
  (\<open>v201_cost.rs\<close>), the outstanding certificate signing request (\<open>v201_pending_csr.rs\<close>), the report
  and publish streams in flight (\<open>v201_customer_information.rs\<close>, \<open>v201_publish_firmware.rs\<close>) and the
  firmware rollout (\<open>v201_firmware_update.rs\<close> with the update task of \<open>lib.rs\<close>). A method holds the
  lock of its field throughout and is one step.
\<close>

section \<open>Certificates\<close>

type_synonym certificate_store = "(InstallCertificateUseEnumType, string) hmap"

definition cert_install ::
  "InstallCertificateUseEnumType \<Rightarrow> string \<Rightarrow> certificate_store \<Rightarrow> string option \<times> certificate_store" where
  "cert_install u pem m = (map_of m u, AList.update u pem m)"

definition cert_installed :: "certificate_store \<Rightarrow> InstallCertificateUseEnumType \<Rightarrow> string option" where
  "cert_installed m u = map_of m u"

definition cert_remove ::
  "InstallCertificateUseEnumType \<Rightarrow> certificate_store \<Rightarrow> string option \<times> certificate_store" where
  "cert_remove u m = (map_of m u, AList.delete u m)"

definition cert_snapshot :: "certificate_store \<Rightarrow> (InstallCertificateUseEnumType \<times> string) list" where
  "cert_snapshot m = m"

definition cert_len :: "certificate_store \<Rightarrow> nat" where
  "cert_len m = length m"

lemma cert_installed_map_of: "cert_installed = map_of"
  by (simp add: fun_eq_iff cert_installed_def)

interpretation certs: keyed_store "[]" cert_install cert_installed cert_remove cert_len hm_wf
  by unfold_locales
    (simp_all add: cert_install_def cert_installed_map_of cert_remove_def cert_len_def hm_get_update
      hm_get_delete hm_length_card finite_dom_map_of)

section \<open>Display messages\<close>

type_synonym display_store = "(i32, MessageInfoType) hmap"

definition display_install :: "MessageInfoType \<Rightarrow> display_store \<Rightarrow> MessageInfoType option \<times> display_store" where
  "display_install msg m = (map_of m (mit_id msg), AList.update (mit_id msg) msg m)"

definition display_get :: "display_store \<Rightarrow> i32 \<Rightarrow> MessageInfoType option" where
  "display_get m i = map_of m i"

definition display_remove :: "i32 \<Rightarrow> display_store \<Rightarrow> MessageInfoType option \<times> display_store" where
  "display_remove i m = (map_of m i, AList.delete i m)"

definition display_snapshot :: "display_store \<Rightarrow> MessageInfoType list" where
  "display_snapshot m = map snd m"

definition display_len :: "display_store \<Rightarrow> nat" where
  "display_len m = length m"

definition v201_get_display_messages_matches ::
  "i32 list option \<Rightarrow> MessagePriorityEnumType option \<Rightarrow> MessageStateEnumType option
     \<Rightarrow> MessageInfoType list \<Rightarrow> MessageInfoType list" where
  "v201_get_display_messages_matches ids prio st ms = filter (\<lambda>m.
     is_none_or ids (\<lambda>is. mit_id m \<in> set is)
     \<and> is_none_or prio (\<lambda>p. p = mit_priority m)
     \<and> is_none_or st (\<lambda>s. is_none_or (mit_state m) (\<lambda>s'. s' = s))) ms"

section \<open>Network profiles and costs\<close>

type_synonym network_store = "(i32, NetworkConnectionProfileType) hmap"

definition network_upsert ::
  "i32 \<Rightarrow> NetworkConnectionProfileType \<Rightarrow> network_store \<Rightarrow> NetworkConnectionProfileType option \<times> network_store" where
  "network_upsert slot p m = (map_of m slot, AList.update slot p m)"

definition network_get :: "network_store \<Rightarrow> i32 \<Rightarrow> NetworkConnectionProfileType option" where
  "network_get m slot = map_of m slot"

definition network_slots :: "network_store \<Rightarrow> i32 list" where
  "network_slots m = sort_key sint (map fst m)"

definition network_len :: "network_store \<Rightarrow> nat" where
  "network_len m = length m"

type_synonym cost_store = "(string, f64) hmap"

definition cost_update :: "string \<Rightarrow> f64 \<Rightarrow> cost_store \<Rightarrow> f64 option \<times> cost_store" where
  "cost_update tid amount m = (map_of m tid, AList.update tid amount m)"

definition cost_get :: "cost_store \<Rightarrow> string \<Rightarrow> f64 option" where
  "cost_get m tid = map_of m tid"

definition cost_len :: "cost_store \<Rightarrow> nat" where
  "cost_len m = length m"

section \<open>The outstanding certificate signing request\<close>

record PendingCsr =
  csr_certificate_type :: "CertificateSigningUseEnumType option"
  csr_seq :: u64

datatype CsrCorrelation = Solicited PendingCsr | Unsolicited

record V201PendingCsrStore =
  pc_pending :: "PendingCsr option"
  pc_next_seq :: u64

definition csr_new :: V201PendingCsrStore where
  "csr_new = \<lparr>pc_pending = None, pc_next_seq = 0\<rparr>"

definition csr_record ::
  "CertificateSigningUseEnumType option \<Rightarrow> V201PendingCsrStore \<Rightarrow> PendingCsr \<times> V201PendingCsrStore" where
  "csr_record ty s =
     (let marker = \<lparr>csr_certificate_type = ty, csr_seq = pc_next_seq s\<rparr>
      in (marker, s\<lparr>pc_next_seq := pc_next_seq s + 1, pc_pending := Some marker\<rparr>))"

definition correlate_accepted :: "V201PendingCsrStore \<Rightarrow> CsrCorrelation \<times> V201PendingCsrStore" where
  "correlate_accepted s =
     ((case pc_pending s of Some m \<Rightarrow> Solicited m | None \<Rightarrow> Unsolicited), s\<lparr>pc_pending := None\<rparr>)"

definition csr_clear :: "V201PendingCsrStore \<Rightarrow> PendingCsr option \<times> V201PendingCsrStore" where
  "csr_clear s = (pc_pending s, s\<lparr>pc_pending := None\<rparr>)"

section \<open>Streams in flight\<close>

text \<open>
  A stream per request id: \<open>begin\<close> starts one unless it runs already, \<open>complete\<close> ends it. A
  \<open>HashSet\<close> is a list without duplicates.
\<close>

locale in_flight_set =
  fixes running :: "'s \<Rightarrow> 'r \<Rightarrow> bool"
    and begin_stream :: "'r \<Rightarrow> 's \<Rightarrow> bool \<times> 's"
    and complete_stream :: "'r \<Rightarrow> 's \<Rightarrow> bool \<times> 's"
    and invar :: "'s \<Rightarrow> bool"
  assumes begin_result: "invar s \<Longrightarrow> fst (begin_stream r s) \<longleftrightarrow> \<not> running s r"
    and begin_running: "invar s \<Longrightarrow> running (snd (begin_stream r s)) r' \<longleftrightarrow> r' = r \<or> running s r'"
    and complete_result: "invar s \<Longrightarrow> fst (complete_stream r s) \<longleftrightarrow> running s r"
    and complete_running: "invar s \<Longrightarrow> running (snd (complete_stream r s)) r' \<longleftrightarrow> r' \<noteq> r \<and> running s r'"
    and invar_begin: "invar s \<Longrightarrow> invar (snd (begin_stream r s))"
    and invar_complete: "invar s \<Longrightarrow> invar (snd (complete_stream r s))"
begin

text \<open>A retry starts no second stream; after completion the id can be served afresh.\<close>

lemma retry_refused: "invar s \<Longrightarrow> \<not> fst (begin_stream r (snd (begin_stream r s)))"
  by (simp add: begin_result begin_running invar_begin)

lemma restart_after_complete: "invar s \<Longrightarrow> fst (begin_stream r (snd (complete_stream r s)))"
  by (simp add: begin_result complete_running invar_complete)

lemma complete_idem: "invar s \<Longrightarrow> \<not> fst (complete_stream r (snd (complete_stream r s)))"
  by (simp add: complete_result complete_running invar_complete)

lemma others_untouched: "invar s \<Longrightarrow> r' \<noteq> r \<Longrightarrow>
    running (snd (complete_stream r s)) r' = running s r' \<and> running (snd (begin_stream r s)) r' = running s r'"
  by (simp add: begin_running complete_running)

end

type_synonym customer_store = "i32 list"

definition customer_begin :: "i32 \<Rightarrow> customer_store \<Rightarrow> bool \<times> customer_store" where
  "customer_begin r s = (if r \<in> set s then (False, s) else (True, r # s))"

definition is_reporting :: "customer_store \<Rightarrow> i32 \<Rightarrow> bool" where
  "is_reporting s r = (r \<in> set s)"

definition customer_in_flight_count :: "customer_store \<Rightarrow> nat" where
  "customer_in_flight_count s = length s"

definition customer_complete :: "i32 \<Rightarrow> customer_store \<Rightarrow> bool \<times> customer_store" where
  "customer_complete r s = (r \<in> set s, removeAll r s)"

interpretation customer: in_flight_set is_reporting customer_begin customer_complete distinct
  by unfold_locales
    (auto simp: is_reporting_def customer_begin_def customer_complete_def distinct_removeAll)

record V201PublishFirmwareStatusReport =
  pfr_status :: PublishFirmwareStatusEnumType
  pfr_location :: "string list option"
  pfr_request_id :: "i32 option"

record V201PublishFirmwareStore =
  pf_in_flight :: "i32 list"
  pf_last_reported :: V201PublishFirmwareStatusReport

definition publish_new :: V201PublishFirmwareStore where
  "publish_new = \<lparr>pf_in_flight = [],
     pf_last_reported = \<lparr>pfr_status = PublishFirmwareStatusEnumType.Idle, pfr_location = None, pfr_request_id = None\<rparr>\<rparr>"

definition publish_begin :: "i32 \<Rightarrow> V201PublishFirmwareStore \<Rightarrow> bool \<times> V201PublishFirmwareStore" where
  "publish_begin r s = (if r \<in> set (pf_in_flight s) then (False, s) else (True, s\<lparr>pf_in_flight := r # pf_in_flight s\<rparr>))"

definition is_publishing :: "V201PublishFirmwareStore \<Rightarrow> i32 \<Rightarrow> bool" where
  "is_publishing s r = (r \<in> set (pf_in_flight s))"

definition publish_in_flight_count :: "V201PublishFirmwareStore \<Rightarrow> nat" where
  "publish_in_flight_count s = length (pf_in_flight s)"

definition publish_complete :: "i32 \<Rightarrow> V201PublishFirmwareStore \<Rightarrow> bool \<times> V201PublishFirmwareStore" where
  "publish_complete r s = (r \<in> set (pf_in_flight s), s\<lparr>pf_in_flight := removeAll r (pf_in_flight s)\<rparr>)"

definition publish_record_reported ::
  "PublishFirmwareStatusEnumType \<Rightarrow> string list option \<Rightarrow> i32 \<Rightarrow> V201PublishFirmwareStore \<Rightarrow> V201PublishFirmwareStore" where
  "publish_record_reported st loc r s =
     s\<lparr>pf_last_reported := \<lparr>pfr_status = st, pfr_location = loc, pfr_request_id = Some r\<rparr>\<rparr>"

interpretation publish: in_flight_set is_publishing publish_begin publish_complete "\<lambda>s. distinct (pf_in_flight s)"
  by unfold_locales
    (auto simp: is_publishing_def publish_begin_def publish_complete_def distinct_removeAll)

section \<open>The firmware rollout\<close>

datatype FirmwareUpdateOutcome = Succeed | OutcomeDownloadFailed | OutcomeInstallationFailed

record V201FirmwareStatusReport =
  fsr_status :: FirmwareStatusEnumType
  fsr_request_id :: "i32 option"

record V201FirmwareUpdateStore =
  fu_in_flight :: "i32 option"
  fu_last_reported :: V201FirmwareStatusReport

definition fu_new :: V201FirmwareUpdateStore where
  "fu_new = \<lparr>fu_in_flight = None,
     fu_last_reported = \<lparr>fsr_status = FirmwareStatusEnumType.Idle, fsr_request_id = None\<rparr>\<rparr>"

definition fu_is_idle :: "V201FirmwareUpdateStore \<Rightarrow> bool" where
  "fu_is_idle s = (fu_in_flight s = None)"

definition fu_begin :: "i32 \<Rightarrow> V201FirmwareUpdateStore \<Rightarrow> i32 option \<times> V201FirmwareUpdateStore" where
  "fu_begin r s = (fu_in_flight s, s\<lparr>fu_in_flight := Some r\<rparr>)"

definition fu_clear :: "V201FirmwareUpdateStore \<Rightarrow> i32 option \<times> V201FirmwareUpdateStore" where
  "fu_clear s = (fu_in_flight s, s\<lparr>fu_in_flight := None\<rparr>)"

definition fu_complete :: "i32 \<Rightarrow> V201FirmwareUpdateStore \<Rightarrow> bool \<times> V201FirmwareUpdateStore" where
  "fu_complete r s = (if fu_in_flight s = Some r then (True, s\<lparr>fu_in_flight := None\<rparr>) else (False, s))"

definition fu_record_reported :: "FirmwareStatusEnumType \<Rightarrow> i32 \<Rightarrow> V201FirmwareUpdateStore \<Rightarrow> V201FirmwareUpdateStore" where
  "fu_record_reported st r s = s\<lparr>fu_last_reported := \<lparr>fsr_status = st, fsr_request_id = Some r\<rparr>\<rparr>"

interpretation firmware_slot: in_flight_slot fu_in_flight fu_begin fu_complete fu_clear
  by unfold_locales (simp_all add: fu_begin_def fu_complete_def fu_clear_def)

text \<open>
  \<open>run_v201_firmware_update\<close> as a function of the store, the statuses it sends, and the requests
  \<open>begun\<close> by handled CALLs while it sleeps. Those only write the slot and the slot is only read at
  the end, so they take effect before the settling.
\<close>

definition send_v201_firmware_status ::
  "FirmwareStatusEnumType \<Rightarrow> i32 \<Rightarrow> FirmwareStatusEnumType list \<times> V201FirmwareUpdateStore
     \<Rightarrow> FirmwareStatusEnumType list \<times> V201FirmwareUpdateStore" where
  "send_v201_firmware_status st r p = (fst p @ [st], fu_record_reported st r (snd p))"

definition settle_v201_firmware_update ::
  "FirmwareStatusEnumType \<Rightarrow> i32 \<Rightarrow> FirmwareStatusEnumType list \<times> V201FirmwareUpdateStore
     \<Rightarrow> FirmwareStatusEnumType list \<times> V201FirmwareUpdateStore" where
  "settle_v201_firmware_update terminal r p =
     (let (owner, s') = fu_complete r (snd p)
      in if owner then send_v201_firmware_status terminal r (fst p, s') else (fst p, s'))"

definition begin_all :: "i32 list \<Rightarrow> FirmwareStatusEnumType list \<times> V201FirmwareUpdateStore
     \<Rightarrow> FirmwareStatusEnumType list \<times> V201FirmwareUpdateStore" where
  "begin_all begun p = (fst p, fold (\<lambda>r. snd \<circ> fu_begin r) begun (snd p))"

definition run_v201_firmware_update ::
  "FirmwareUpdateOutcome \<Rightarrow> i32 list \<Rightarrow> i32 \<Rightarrow> V201FirmwareUpdateStore
     \<Rightarrow> FirmwareStatusEnumType list \<times> V201FirmwareUpdateStore" where
  "run_v201_firmware_update outcome begun r s =
     (let p1 = send_v201_firmware_status FirmwareStatusEnumType.Downloading r ([], s)
      in if outcome = OutcomeDownloadFailed
         then settle_v201_firmware_update FirmwareStatusEnumType.DownloadFailed r (begin_all begun p1)
         else
           (let p2 = send_v201_firmware_status FirmwareStatusEnumType.Downloaded r p1;
                p3 = send_v201_firmware_status FirmwareStatusEnumType.Installing r p2;
                terminal = (if outcome = OutcomeInstallationFailed then FirmwareStatusEnumType.InstallationFailed
                            else FirmwareStatusEnumType.Installed)
            in settle_v201_firmware_update terminal r (begin_all begun p3)))"

section \<open>Properties\<close>

datatype cert_command = CertInstall InstallCertificateUseEnumType string | CertRemove InstallCertificateUseEnumType

primrec cert_exec :: "cert_command \<Rightarrow> certificate_store \<Rightarrow> certificate_store" where
  "cert_exec (CertInstall u pem) m = snd (cert_install u pem m)"
| "cert_exec (CertRemove u) m = snd (cert_remove u m)"

interpretation cert_machine: machine cert_exec hm_wf
proof
  show "hm_wf s \<Longrightarrow> hm_wf (cert_exec c s)" for s c
    by (cases c) (simp_all add: certs.invar_put certs.invar_del)
qed

lemma card_uses: "finite (UNIV :: InstallCertificateUseEnumType set)"
  "card (UNIV :: InstallCertificateUseEnumType set) = 4"
proof -
  have "x \<in> set InstallCertificateUseEnumType_all" for x
    by (cases x) (simp_all add: InstallCertificateUseEnumType_all_def)
  then have U: "(UNIV :: InstallCertificateUseEnumType set) = set InstallCertificateUseEnumType_all" by blast
  show "finite (UNIV :: InstallCertificateUseEnumType set)" unfolding U by simp
  show "card (UNIV :: InstallCertificateUseEnumType set) = 4"
    unfolding U by (simp add: InstallCertificateUseEnumType_all_def)
qed

text \<open>
  The certificate store holds at most one certificate per use and so at most four,
  whatever is installed and removed; an installed certificate is the one read back until it is
  replaced or removed, and removing returns it.
\<close>

theorem certificate_store_bounded:
  "let m = fold cert_exec cmds [] in
     cert_len m \<le> 4
     \<and> cert_installed (snd (cert_install u pem m)) u' = (if u' = u then Some pem else cert_installed m u')
     \<and> fst (cert_remove u (snd (cert_install u pem m))) = Some pem
     \<and> fst (cert_install u pem m) = cert_installed m u"
proof -
  have wf: "hm_wf (fold cert_exec cmds [])" by (rule cert_machine.run_inv) simp
  have "cert_len (fold cert_exec cmds []) \<le> card (UNIV :: InstallCertificateUseEnumType set)"
    by (rule certs.size_bound [OF wf card_uses(1)]) simp
  with wf show ?thesis
    by (simp add: Let_def card_uses certs.get_put certs.del_removed certs.invar_put certs.put_displaced)
qed

fun record_all :: "CertificateSigningUseEnumType option list \<Rightarrow> V201PendingCsrStore
    \<Rightarrow> PendingCsr list \<times> V201PendingCsrStore" where
  "record_all [] s = ([], s)"
| "record_all (t # ts) s = (let (m, s1) = csr_record t s; (ms, s2) = record_all ts s1 in (m # ms, s2))"

lemma record_all_seq:
  "map csr_seq (fst (record_all ts s)) = map (\<lambda>i. pc_next_seq s + of_nat i) [0..<length ts]"
proof (induction ts arbitrary: s)
  case (Cons t ts)
  show ?case
    using Cons.IH [of "snd (csr_record t s)"]
    by (simp add: csr_record_def Let_def case_prod_beta map_upt_Suc add.assoc del: upt_Suc)
qed simp

lemma record_all_pending:
  "ts \<noteq> [] \<Longrightarrow> pc_pending (snd (record_all ts s)) = Some (last (fst (record_all ts s)))"
proof (induction ts arbitrary: s)
  case (Cons t ts)
  have "length (fst (record_all ts s')) = length ts" for s'
    by (metis length_map length_upt minus_nat.diff_0 record_all_seq)
  then have "fst (record_all ts s') = [] \<longleftrightarrow> ts = []" for s' by (metis length_0_conv)
  with Cons show ?case
    by (cases "ts = []") (auto simp: csr_record_def Let_def case_prod_beta)
qed simp

text \<open>
  A certificate delivery answers the last request: recording requests assigns the
  numbers 0, 1, 2 and so on, so the markers are distinct up to the \<open>u64\<close> range, the delivery that
  follows is correlated with the last of them and frees the slot, and a second delivery is
  unsolicited.
\<close>

theorem csr_correlation:
  assumes "ts \<noteq> []" and "length ts \<le> 2 ^ 64"
  shows "let (ms, s) = record_all ts csr_new; (c, s') = correlate_accepted s in
    map csr_seq ms = map of_nat [0..<length ts] \<and> distinct (map csr_seq ms)
    \<and> c = Solicited (last ms) \<and> pc_pending s' = None \<and> fst (correlate_accepted s') = Unsolicited"
proof -
  have seq: "map csr_seq (fst (record_all ts csr_new)) = map of_nat [0..<length ts]"
    by (simp add: record_all_seq csr_new_def)
  have "inj_on (of_nat :: nat \<Rightarrow> u64) {0..<2 ^ 64}"
    by (rule inj_on_inverseI [of _ unat]) (simp add: unat_of_nat take_bit_nat_eq_self)
  moreover have "{0..<length ts} \<subseteq> {0..<2 ^ 64}" using assms(2) by (intro ivl_subset [THEN iffD2]) simp
  ultimately have "inj_on (of_nat :: nat \<Rightarrow> u64) {0..<length ts}" by (rule inj_on_subset)
  then have "distinct (map (of_nat :: nat \<Rightarrow> u64) [0..<length ts])"
    by (simp only: distinct_map distinct_upt set_upt simp_thms)
  with seq record_all_pending [OF assms(1), of csr_new] show ?thesis
    by (simp add: case_prod_beta correlate_accepted_def)
qed

theorem csr_correlation_witness:
  "fst (correlate_accepted (snd (record_all [None, Some CertificateSigningUseEnumType.V2GCertificate] csr_new)))
   = Solicited (last (fst (record_all [None, Some CertificateSigningUseEnumType.V2GCertificate] csr_new)))"
  using csr_correlation [of "[None, Some CertificateSigningUseEnumType.V2GCertificate]"]
  by (simp add: case_prod_beta Let_def)

lemma fold_begin: "fu_in_flight (fold (\<lambda>r. snd \<circ> fu_begin r) rs s) = (if rs = [] then fu_in_flight s else Some (last rs))
    \<and> fu_last_reported (fold (\<lambda>r. snd \<circ> fu_begin r) rs s) = fu_last_reported s"
  by (induction rs arbitrary: s) (auto simp: fu_begin_def)

text \<open>
  A firmware rollout that owns the slot to its end reports its terminal status and
  frees the slot; one that was superseded while it ran reports no terminal status and leaves the
  slot to its successor. Either way the progress sent before the end is the same and the last
  reported status is the last one sent.
\<close>

theorem firmware_rollout_reports:
  assumes "fu_in_flight s = Some r"
  shows "let (sent, s') = run_v201_firmware_update outcome begun r s;
             progress = (if outcome = OutcomeDownloadFailed then [FirmwareStatusEnumType.Downloading]
               else [FirmwareStatusEnumType.Downloading, FirmwareStatusEnumType.Downloaded, FirmwareStatusEnumType.Installing]);
             terminal = (case outcome of Succeed \<Rightarrow> FirmwareStatusEnumType.Installed
               | OutcomeDownloadFailed \<Rightarrow> FirmwareStatusEnumType.DownloadFailed
               | OutcomeInstallationFailed \<Rightarrow> FirmwareStatusEnumType.InstallationFailed)
    in fu_last_reported s' = \<lparr>fsr_status = last sent, fsr_request_id = Some r\<rparr>
       \<and> (if begun = [] \<or> last begun = r then sent = progress @ [terminal] \<and> fu_in_flight s' = None
          else sent = progress \<and> fu_in_flight s' = Some (last begun))"
  using assms fold_begin [of begun]
  by (cases outcome)
    (auto simp: run_v201_firmware_update_def settle_v201_firmware_update_def begin_all_def
      send_v201_firmware_status_def fu_complete_def fu_record_reported_def Let_def)

theorem firmware_rollout_reports_witness:
  "fst (run_v201_firmware_update Succeed [8] 7 (fu_new\<lparr>fu_in_flight := Some 7\<rparr>))
     = [FirmwareStatusEnumType.Downloading, FirmwareStatusEnumType.Downloaded, FirmwareStatusEnumType.Installing]
   \<and> fu_in_flight (snd (run_v201_firmware_update Succeed [8] 7 (fu_new\<lparr>fu_in_flight := Some 7\<rparr>))) = Some 8"
  using firmware_rollout_reports [of "fu_new\<lparr>fu_in_flight := Some 7\<rparr>" 7 Succeed "[8]"]
  by (simp add: case_prod_beta Let_def)

end
