(* ===== verification/Commands201.thy ===== *)
theory Commands201
  imports Stores201 Datatypes201
begin

text \<open>
  The 2.0.1 commands on certificates, display messages, network profiles, customer information and firmware: the
  decisions of \<open>v201_command.rs\<close>, the handlers of \<open>lib.rs\<close> over the stores of \<open>Stores201\<close>, and the reports that the
  consumer task sends in pages.
\<close>

section \<open>Text\<close>

text \<open>\<open>str::lines\<close> and \<open>str::starts_with\<close>. A line ends with its newline, a carriage return before it belongs to the ending.\<close>

definition starts_with :: "string \<Rightarrow> string \<Rightarrow> bool" where
  "starts_with pat s = (take (length pat) s = pat)"

fun split_inclusive :: "string \<Rightarrow> string list" where
  "split_inclusive [] = []"
| "split_inclusive (c # cs) =
     (if c = CHR 0x0A then [c] # split_inclusive cs
      else case split_inclusive cs of [] \<Rightarrow> [[c]] | l # ls \<Rightarrow> (c # l) # ls)"

definition strip_ending :: "string \<Rightarrow> string" where
  "strip_ending l =
     (if l \<noteq> [] \<and> last l = CHR 0x0A
      then (let l' = butlast l in if l' \<noteq> [] \<and> last l' = CHR 0x0D then butlast l' else l')
      else l)"

definition str_lines :: "string \<Rightarrow> string list" where
  "str_lines s = map strip_ending (split_inclusive s)"

section \<open>Certificates\<close>

definition pem_armored :: "string \<Rightarrow> bool" where
  "pem_armored s = (let t = str_trim s in t \<noteq> [] \<and> str_contains ''-----BEGIN'' t \<and> str_contains ''-----END'' t)"

definition pem_has_body :: "string \<Rightarrow> bool" where
  "pem_has_body s = list_ex (\<lambda>l. l \<noteq> [])
     (filter (\<lambda>l. l \<noteq> [] \<and> \<not> starts_with ''-----'' l) (map str_trim (str_lines (str_trim s))))"

definition v201_install_certificate_status :: "string \<Rightarrow> InstallCertificateStatusEnumType" where
  "v201_install_certificate_status certificate =
     (if \<not> pem_armored certificate then InstallCertificateStatusEnumType.Rejected
      else if pem_has_body certificate then InstallCertificateStatusEnumType.Accepted
      else InstallCertificateStatusEnumType.Failed)"

definition v201_certificate_signed_status :: "string \<Rightarrow> CertificateSignedStatusEnumType" where
  "v201_certificate_signed_status chain =
     (if \<not> pem_armored chain then CertificateSignedStatusEnumType.Rejected
      else if pem_has_body chain then CertificateSignedStatusEnumType.Accepted
      else CertificateSignedStatusEnumType.Rejected)"

text \<open>The FNV-1a hash of the bytes, in hexadecimal.\<close>

definition fnv_step :: "u64 \<Rightarrow> char \<Rightarrow> u64" where
  "fnv_step h c = (xor h (of_nat (of_char c))) * 0x00000100000001b3"

definition hex_digit :: "nat \<Rightarrow> char" where
  "hex_digit d = (if d < 10 then char_of (48 + d) else char_of (87 + d))"

definition hex16 :: "u64 \<Rightarrow> string" where
  "hex16 h = map (\<lambda>i. hex_digit (unat h div 16 ^ (15 - i) mod 16)) [0..<16]"

definition stable_hash_hex :: "string \<Rightarrow> string" where
  "stable_hash_hex s = hex16 (foldl fnv_step 0xcbf29ce484222325 s)"

text \<open>\<open>Debug\<close> prints the name of the variant.\<close>

fun use_tag :: "InstallCertificateUseEnumType \<Rightarrow> string" where
  "use_tag InstallCertificateUseEnumType.V2GRootCertificate = ''V2GRootCertificate''"
| "use_tag InstallCertificateUseEnumType.MORootCertificate = ''MORootCertificate''"
| "use_tag InstallCertificateUseEnumType.CSMSRootCertificate = ''CSMSRootCertificate''"
| "use_tag InstallCertificateUseEnumType.ManufacturerRootCertificate = ''ManufacturerRootCertificate''"

definition v201_certificate_hash_data :: "InstallCertificateUseEnumType \<Rightarrow> string \<Rightarrow> CertificateHashDataType" where
  "v201_certificate_hash_data u pem =
     \<lparr>chdt_hash_algorithm = HashAlgorithmEnumType.Sha256,
      chdt_issuer_name_hash = stable_hash_hex (''issuer-name|'' @ use_tag u @ ''|'' @ pem),
      chdt_issuer_key_hash = stable_hash_hex (''issuer-key|'' @ use_tag u @ ''|'' @ pem),
      chdt_serial_number = stable_hash_hex (''serial|'' @ use_tag u @ ''|'' @ pem),
      chdt_custom_data = None\<rparr>"

fun get_use_of_install_use :: "InstallCertificateUseEnumType \<Rightarrow> GetCertificateIdUseEnumType" where
  "get_use_of_install_use InstallCertificateUseEnumType.V2GRootCertificate = GetCertificateIdUseEnumType.V2GRootCertificate"
| "get_use_of_install_use InstallCertificateUseEnumType.MORootCertificate = GetCertificateIdUseEnumType.MORootCertificate"
| "get_use_of_install_use InstallCertificateUseEnumType.CSMSRootCertificate = GetCertificateIdUseEnumType.CSMSRootCertificate"
| "get_use_of_install_use InstallCertificateUseEnumType.ManufacturerRootCertificate = GetCertificateIdUseEnumType.ManufacturerRootCertificate"

fun get_use_order :: "GetCertificateIdUseEnumType \<Rightarrow> nat" where
  "get_use_order GetCertificateIdUseEnumType.V2GRootCertificate = 0"
| "get_use_order GetCertificateIdUseEnumType.MORootCertificate = 1"
| "get_use_order GetCertificateIdUseEnumType.CSMSRootCertificate = 2"
| "get_use_order GetCertificateIdUseEnumType.V2GCertificateChain = 3"
| "get_use_order GetCertificateIdUseEnumType.ManufacturerRootCertificate = 4"

definition chain_entry :: "InstallCertificateUseEnumType \<times> string \<Rightarrow> CertificateHashDataChainType" where
  "chain_entry c = (let (u, pem) = c in
     \<lparr>chdct_certificate_type = get_use_of_install_use u, chdct_certificate_hash_data = v201_certificate_hash_data u pem,
      chdct_child_certificate_hash_data = None, chdct_custom_data = None\<rparr>)"

definition v201_get_installed_certificate_ids_matches ::
  "GetCertificateIdUseEnumType list option \<Rightarrow> (InstallCertificateUseEnumType \<times> string) list \<Rightarrow> CertificateHashDataChainType list" where
  "v201_get_installed_certificate_ids_matches types snapshot =
     sort_key (\<lambda>e. get_use_order (chdct_certificate_type e))
       (map chain_entry (filter (\<lambda>(u, _). is_none_or types (\<lambda>ts. get_use_of_install_use u \<in> set ts)) snapshot))"

definition v201_get_installed_certificate_ids_response ::
  "CertificateHashDataChainType list \<Rightarrow> GetInstalledCertificateStatusEnumType \<times> CertificateHashDataChainType list option" where
  "v201_get_installed_certificate_ids_response chain =
     (if chain = [] then (GetInstalledCertificateStatusEnumType.NotFound, None)
      else (GetInstalledCertificateStatusEnumType.Accepted, Some chain))"

definition v201_certificate_hash_matches :: "CertificateHashDataType \<Rightarrow> CertificateHashDataType \<Rightarrow> bool" where
  "v201_certificate_hash_matches a b \<longleftrightarrow> chdt_hash_algorithm a = chdt_hash_algorithm b
     \<and> chdt_issuer_name_hash a = chdt_issuer_name_hash b \<and> chdt_issuer_key_hash a = chdt_issuer_key_hash b
     \<and> chdt_serial_number a = chdt_serial_number b"

definition v201_delete_certificate_target ::
  "CertificateHashDataType \<Rightarrow> (InstallCertificateUseEnumType \<times> string) list \<Rightarrow> InstallCertificateUseEnumType option" where
  "v201_delete_certificate_target requested snapshot =
     map_option fst (List.find (\<lambda>(u, pem). v201_certificate_hash_matches requested (v201_certificate_hash_data u pem)) snapshot)"

section \<open>Other decisions\<close>

definition status_info :: "string \<Rightarrow> string \<Rightarrow> StatusInfoType option" where
  "status_info code detail = Some \<lparr>sit_reason_code = code, sit_additional_info = Some detail, sit_custom_data = None\<rparr>"

definition v201_clear_cache_status :: "bool \<Rightarrow> ClearCacheStatusEnumType" where
  "v201_clear_cache_status supported = (if supported then ClearCacheStatusEnumType.Accepted else ClearCacheStatusEnumType.Rejected)"

definition v201_set_display_message_status ::
  "MessageInfoType \<Rightarrow> string list \<Rightarrow> DisplayMessageStatusEnumType \<times> StatusInfoType option" where
  "v201_set_display_message_status m live =
     (if is_some_and (mit_transaction_id m) (\<lambda>t. t \<notin> set live)
      then (DisplayMessageStatusEnumType.UnknownTransaction, status_info ''NoTransaction''
        ''SetDisplayMessage.message.transactionId does not name a transaction the station is currently running'')
      else (DisplayMessageStatusEnumType.Accepted, None))"

definition v201_set_network_profile_decision :: "NetworkConnectionProfileType \<Rightarrow> SetNetworkProfileStatusEnumType" where
  "v201_set_network_profile_decision p =
     (if is_blank (ncpt_ocpp_csms_url p) then SetNetworkProfileStatusEnumType.Rejected else SetNetworkProfileStatusEnumType.Accepted)"

definition v201_update_firmware_decision :: "i32 \<Rightarrow> FirmwareType \<Rightarrow> i32 option \<Rightarrow> UpdateFirmwareStatusEnumType" where
  "v201_update_firmware_decision rid fw running =
     (if is_some_and (ft_signing_certificate fw)
           (\<lambda>c. v201_install_certificate_status c \<noteq> InstallCertificateStatusEnumType.Accepted)
      then UpdateFirmwareStatusEnumType.InvalidCertificate
      else case running of
        None \<Rightarrow> UpdateFirmwareStatusEnumType.Accepted
      | Some current \<Rightarrow> if current = rid then UpdateFirmwareStatusEnumType.Accepted else UpdateFirmwareStatusEnumType.AcceptedCanceled)"

record CustomerInformationRequest =
  cir_request_id :: i32
  cir_report :: bool
  cir_clear :: bool
  cir_customer_certificate :: "CertificateHashDataType option"
  cir_id_token :: "IdTokenType option"
  cir_customer_identifier :: "string option"

definition v201_customer_information_decision :: "CustomerInformationRequest \<Rightarrow> CustomerInformationStatusEnumType" where
  "v201_customer_information_decision r =
     (let names_a_customer = cir_customer_certificate r \<noteq> None \<or> cir_id_token r \<noteq> None \<or> cir_customer_identifier r \<noteq> None;
          requests_an_action = cir_report r \<or> cir_clear r
      in if names_a_customer \<and> requests_an_action then CustomerInformationStatusEnumType.Accepted
         else CustomerInformationStatusEnumType.Invalid)"

definition is_hex_digit :: "char \<Rightarrow> bool" where
  "is_hex_digit c = (let b = (of_char c :: nat) in
     (48 \<le> b \<and> b \<le> 57) \<or> (65 \<le> b \<and> b \<le> 70) \<or> (97 \<le> b \<and> b \<le> 102))"

definition well_shaped_checksum :: "string \<Rightarrow> bool" where
  "well_shaped_checksum c = (length c = 32 \<and> list_all is_hex_digit c)"

definition v201_publish_firmware_decision :: "string \<Rightarrow> string \<Rightarrow> GenericStatusEnumType" where
  "v201_publish_firmware_decision location checksum =
     (if \<not> is_blank location \<and> well_shaped_checksum checksum then GenericStatusEnumType.Accepted else GenericStatusEnumType.Rejected)"

definition v201_unpublish_firmware_decision :: "string \<Rightarrow> UnpublishFirmwareStatusEnumType" where
  "v201_unpublish_firmware_decision checksum =
     (if well_shaped_checksum checksum then UnpublishFirmwareStatusEnumType.Unpublished
      else UnpublishFirmwareStatusEnumType.NoFirmware)"

section \<open>Report pages\<close>

definition V201_REPORT_ENTRIES_PER_PAGE :: nat where
  "V201_REPORT_ENTRIES_PER_PAGE = 25"

definition i32_index :: "nat \<Rightarrow> i32" where
  "i32_index i = (if i < 2 ^ 31 then of_nat i else of_nat (2 ^ 31 - 1))"

definition more_pages :: "nat \<Rightarrow> nat \<Rightarrow> bool option" where
  "more_pages i last_page = (if i < last_page then Some True else None)"

text \<open>The pages are cut from one iterator, \<open>per_page\<close> entries at a time.\<close>

definition v201_report_pages :: "('a list option \<Rightarrow> bool option \<Rightarrow> i32 \<Rightarrow> 'r) \<Rightarrow> 'a list \<Rightarrow> 'r list" where
  "v201_report_pages build entries =
     (if entries = [] then [build None None 0]
      else (let per_page = max 1 V201_REPORT_ENTRIES_PER_PAGE;
                page_count = (length entries + per_page - 1) div per_page
            in fst (map_state (\<lambda>i rest. (build (Some (take per_page rest)) (more_pages i (page_count - 1)) (i32_index i), drop per_page rest))
                 [0..<page_count] entries)))"

record NotifyReportRequest =
  nrr_request_id :: i32
  nrr_generated_at :: string
  nrr_report_data :: "ReportDataType list option"
  nrr_tbc :: "bool option"
  nrr_seq_no :: i32

record NotifyMonitoringReportRequest =
  nmr_monitor :: "MonitoringDataType list option"
  nmr_request_id :: i32
  nmr_tbc :: "bool option"
  nmr_seq_no :: i32
  nmr_generated_at :: string

record NotifyDisplayMessagesRequest =
  ndm_request_id :: i32
  ndm_message_info :: "MessageInfoType list option"
  ndm_tbc :: "bool option"

record NotifyCustomerInformationRequest =
  nci_data :: string
  nci_tbc :: "bool option"
  nci_seq_no :: i32
  nci_generated_at :: string
  nci_request_id :: i32

definition v201_notify_report_pages :: "i32 \<Rightarrow> string \<Rightarrow> ReportDataType list \<Rightarrow> NotifyReportRequest list" where
  "v201_notify_report_pages rid ts data = v201_report_pages (\<lambda>page tbc seq.
     \<lparr>nrr_request_id = rid, nrr_generated_at = ts, nrr_report_data = page, nrr_tbc = tbc, nrr_seq_no = seq\<rparr>) data"

definition v201_notify_monitoring_report_pages :: "i32 \<Rightarrow> string \<Rightarrow> MonitoringDataType list \<Rightarrow> NotifyMonitoringReportRequest list" where
  "v201_notify_monitoring_report_pages rid ts data = v201_report_pages (\<lambda>page tbc seq.
     \<lparr>nmr_monitor = page, nmr_request_id = rid, nmr_tbc = tbc, nmr_seq_no = seq, nmr_generated_at = ts\<rparr>) data"

definition v201_notify_display_messages_pages :: "i32 \<Rightarrow> MessageInfoType list \<Rightarrow> NotifyDisplayMessagesRequest list" where
  "v201_notify_display_messages_pages rid matched =
     (let ordered = sort_key (\<lambda>m. sint (mit_id m)) matched in
      map (\<lambda>(i, m). \<lparr>ndm_request_id = rid, ndm_message_info = Some [m], ndm_tbc = more_pages i (length ordered - 1)\<rparr>)
        (enumerate 0 ordered))"

definition v201_notify_customer_information_pages :: "i32 \<Rightarrow> string \<Rightarrow> string list \<Rightarrow> NotifyCustomerInformationRequest list" where
  "v201_notify_customer_information_pages rid ts pages =
     map (\<lambda>(i, d). \<lparr>nci_data = d, nci_tbc = more_pages i (length pages - 1), nci_seq_no = i32_index i, nci_generated_at = ts, nci_request_id = rid\<rparr>)
       (enumerate 0 pages)"

definition V201_SIMULATED_CUSTOMER_INFORMATION_PAGES :: "string list" where
  "V201_SIMULATED_CUSTOMER_INFORMATION_PAGES =
     [''ocpp-rs charge point simulator: simulated CustomerInformation report. This station holds no real customer data store (no PII).'',
      ''customerData: <none on record>. Emitted deterministically to exercise the NotifyCustomerInformation report/clear flow.'']"

definition V201_SIMULATED_PUBLISH_FIRMWARE_LOCATIONS :: "string list" where
  "V201_SIMULATED_PUBLISH_FIRMWARE_LOCATIONS =
     [''http://local-controller.lan/firmware/published.bin'', ''ftp://local-controller.lan/firmware/published.bin'']"

section \<open>Handlers\<close>

datatype report_command =
    V201NotifyDisplayMessages i32 "MessageInfoType list"
  | V201FirmwareUpdate i32
  | V201CustomerInformationReport i32
  | V201PublishFirmwareStatus i32

datatype report_message =
    NotifyDisplayMessages NotifyDisplayMessagesRequest
  | NotifyCustomerInformation NotifyCustomerInformationRequest
  | PublishFirmwareStatusNotification PublishFirmwareStatusEnumType "string list option" "i32 option"
  | FirmwareStatusReport FirmwareStatusEnumType i32

record commands =
  cs_certificates :: certificate_store
  cs_display :: display_store
  cs_network :: network_store
  cs_csr :: V201PendingCsrStore
  cs_customer :: customer_store
  cs_publish :: V201PublishFirmwareStore
  cs_firmware :: V201FirmwareUpdateStore
  cs_queue :: "report_command list"
  cs_alive :: bool
  cs_current :: "report_command option"
  cs_reported :: "report_message list"

definition post_report :: "report_command \<Rightarrow> commands \<Rightarrow> commands" where
  "post_report c s = (if cs_alive s then s\<lparr>cs_queue := cs_queue s @ [c]\<rparr> else s)"

definition handle_set_display_message ::
  "string list \<Rightarrow> MessageInfoType \<Rightarrow> commands \<Rightarrow> (DisplayMessageStatusEnumType \<times> StatusInfoType option) \<times> commands" where
  "handle_set_display_message live m s =
     (let r = v201_set_display_message_status m live in
      (r, if fst r = DisplayMessageStatusEnumType.Accepted
          then s\<lparr>cs_display := snd (display_install m (cs_display s))\<rparr> else s))"

definition handle_get_display_messages ::
  "i32 \<Rightarrow> i32 list option \<Rightarrow> MessagePriorityEnumType option \<Rightarrow> MessageStateEnumType option \<Rightarrow> commands
     \<Rightarrow> GetDisplayMessagesStatusEnumType \<times> commands" where
  "handle_get_display_messages rid ids prio st s =
     (let matches = v201_get_display_messages_matches ids prio st (display_snapshot (cs_display s)) in
      if matches \<noteq> [] then (GetDisplayMessagesStatusEnumType.Accepted, post_report (V201NotifyDisplayMessages rid matches) s)
      else (GetDisplayMessagesStatusEnumType.Unknown, s))"

definition handle_clear_display_message :: "i32 \<Rightarrow> commands \<Rightarrow> ClearMessageStatusEnumType \<times> commands" where
  "handle_clear_display_message i s = (let (old, d) = display_remove i (cs_display s) in
     (if old \<noteq> None then ClearMessageStatusEnumType.Accepted else ClearMessageStatusEnumType.Unknown, s\<lparr>cs_display := d\<rparr>))"

definition handle_install_certificate ::
  "InstallCertificateUseEnumType \<Rightarrow> string \<Rightarrow> commands \<Rightarrow> (InstallCertificateStatusEnumType \<times> StatusInfoType option) \<times> commands" where
  "handle_install_certificate u pem s = (case v201_install_certificate_status pem of
      InstallCertificateStatusEnumType.Accepted \<Rightarrow>
        ((InstallCertificateStatusEnumType.Accepted, None), s\<lparr>cs_certificates := snd (cert_install u pem (cs_certificates s))\<rparr>)
    | InstallCertificateStatusEnumType.Rejected \<Rightarrow>
        ((InstallCertificateStatusEnumType.Rejected, status_info ''InvalidCertificate'' ''certificate is empty or not a PEM-encoded certificate''), s)
    | InstallCertificateStatusEnumType.Failed \<Rightarrow>
        ((InstallCertificateStatusEnumType.Failed, status_info ''InstallationFailed'' ''certificate is PEM-armored but carries no usable key material''), s))"

definition handle_get_installed_certificate_ids ::
  "GetCertificateIdUseEnumType list option \<Rightarrow> commands
     \<Rightarrow> GetInstalledCertificateStatusEnumType \<times> CertificateHashDataChainType list option" where
  "handle_get_installed_certificate_ids types s = v201_get_installed_certificate_ids_response
     (v201_get_installed_certificate_ids_matches types (cert_snapshot (cs_certificates s)))"

definition handle_delete_certificate ::
  "CertificateHashDataType \<Rightarrow> commands \<Rightarrow> (DeleteCertificateStatusEnumType \<times> StatusInfoType option) \<times> commands" where
  "handle_delete_certificate requested s =
     (case v201_delete_certificate_target requested (cert_snapshot (cs_certificates s)) of
        None \<Rightarrow> ((DeleteCertificateStatusEnumType.NotFound, status_info ''NotFound'' ''no installed certificate matches the requested hash''), s)
      | Some u \<Rightarrow> (let (old, m) = cert_remove u (cs_certificates s); s1 = s\<lparr>cs_certificates := m\<rparr> in
          if old \<noteq> None then ((DeleteCertificateStatusEnumType.Accepted, None), s1)
          else ((DeleteCertificateStatusEnumType.Failed, status_info ''RemovalFailed'' ''the matched certificate was already removed''), s1)))"

definition handle_certificate_signed :: "string \<Rightarrow> commands \<Rightarrow> (CertificateSignedStatusEnumType \<times> StatusInfoType option) \<times> commands" where
  "handle_certificate_signed chain s = (case v201_certificate_signed_status chain of
      CertificateSignedStatusEnumType.Accepted \<Rightarrow>
        ((CertificateSignedStatusEnumType.Accepted, None), s\<lparr>cs_csr := snd (correlate_accepted (cs_csr s))\<rparr>)
    | CertificateSignedStatusEnumType.Rejected \<Rightarrow>
        ((CertificateSignedStatusEnumType.Rejected, status_info ''InvalidChain'' ''certificate chain is empty or not a usable PEM-encoded certificate''), s))"

definition handle_set_network_profile ::
  "i32 \<Rightarrow> NetworkConnectionProfileType \<Rightarrow> commands \<Rightarrow> (SetNetworkProfileStatusEnumType \<times> StatusInfoType option) \<times> commands" where
  "handle_set_network_profile slot p s = (case v201_set_network_profile_decision p of
      SetNetworkProfileStatusEnumType.Accepted \<Rightarrow>
        ((SetNetworkProfileStatusEnumType.Accepted, None), s\<lparr>cs_network := snd (network_upsert slot p (cs_network s))\<rparr>)
    | SetNetworkProfileStatusEnumType.Rejected \<Rightarrow>
        ((SetNetworkProfileStatusEnumType.Rejected, status_info ''InvalidProfile''
           ''connectionData.ocppCsmsUrl is empty; the profile names no reachable CSMS''), s)
    | SetNetworkProfileStatusEnumType.Failed \<Rightarrow>
        ((SetNetworkProfileStatusEnumType.Failed, status_info ''ApplicationFailed'' ''profile accepted but the station could not apply it''), s))"

definition handle_customer_information ::
  "CustomerInformationRequest \<Rightarrow> commands \<Rightarrow> (CustomerInformationStatusEnumType \<times> StatusInfoType option) \<times> commands" where
  "handle_customer_information r s =
     (let status = v201_customer_information_decision r;
          detail = (if status = CustomerInformationStatusEnumType.Invalid
             then status_info ''InvalidRequest'' ''CustomerInformation named no usable customer selector, or requested neither report nor clear''
             else None);
          rid = cir_request_id r;
          (fresh, c) = customer_begin rid (cs_customer s)
      in ((status, detail),
          if status = CustomerInformationStatusEnumType.Accepted \<and> cir_report r
          then (if fresh
                then (if cs_alive s then post_report (V201CustomerInformationReport rid) (s\<lparr>cs_customer := c\<rparr>)
                      else s\<lparr>cs_customer := snd (customer_complete rid c)\<rparr>)
                else s\<lparr>cs_customer := c\<rparr>)
          else s))"

definition handle_publish_firmware ::
  "i32 \<Rightarrow> string \<Rightarrow> string \<Rightarrow> commands \<Rightarrow> (GenericStatusEnumType \<times> StatusInfoType option) \<times> commands" where
  "handle_publish_firmware rid location checksum s =
     (let status = v201_publish_firmware_decision location checksum;
          detail = (if status = GenericStatusEnumType.Accepted then None
             else status_info ''InvalidRequest'' ''PublishFirmware requires a non-empty location and a 32-char hex checksum'');
          (fresh, p) = publish_begin rid (cs_publish s)
      in ((status, detail),
          if status = GenericStatusEnumType.Accepted
          then (if fresh
                then (if cs_alive s then post_report (V201PublishFirmwareStatus rid) (s\<lparr>cs_publish := p\<rparr>)
                      else s\<lparr>cs_publish := snd (publish_complete rid p)\<rparr>)
                else s\<lparr>cs_publish := p\<rparr>)
          else s))"

definition handle_update_firmware ::
  "i32 \<Rightarrow> FirmwareType \<Rightarrow> commands \<Rightarrow> (UpdateFirmwareStatusEnumType \<times> StatusInfoType option) \<times> commands" where
  "handle_update_firmware rid fw s =
     (let status = v201_update_firmware_decision rid fw (fu_in_flight (cs_firmware s));
          detail = (if status = UpdateFirmwareStatusEnumType.InvalidCertificate
             then status_info ''InvalidCertificate'' ''the firmware signing certificate is empty or not a usable PEM-encoded certificate''
             else None);
          (displaced, f) = fu_begin rid (cs_firmware s)
      in ((status, detail),
          if status \<in> {UpdateFirmwareStatusEnumType.Accepted, UpdateFirmwareStatusEnumType.AcceptedCanceled}
          then (let s1 = s\<lparr>cs_firmware := f\<rparr> in if displaced \<noteq> Some rid then post_report (V201FirmwareUpdate rid) s1 else s1)
          else s))"

section \<open>Reports of the consumer\<close>

definition report_out :: "report_message list \<Rightarrow> commands \<Rightarrow> commands" where
  "report_out ms s = s\<lparr>cs_reported := cs_reported s @ ms\<rparr>"

definition send_v201_notify_display_messages :: "i32 \<Rightarrow> MessageInfoType list \<Rightarrow> commands \<Rightarrow> commands" where
  "send_v201_notify_display_messages rid ms s =
     report_out (map NotifyDisplayMessages (v201_notify_display_messages_pages rid ms)) s"

definition run_v201_customer_information_report :: "string \<Rightarrow> i32 \<Rightarrow> commands \<Rightarrow> commands" where
  "run_v201_customer_information_report ts rid s =
     report_out (map NotifyCustomerInformation
       (v201_notify_customer_information_pages rid ts V201_SIMULATED_CUSTOMER_INFORMATION_PAGES)) s"

definition publish_progression :: "PublishFirmwareStatusEnumType list" where
  "publish_progression = [PublishFirmwareStatusEnumType.Idle, PublishFirmwareStatusEnumType.DownloadScheduled,
     PublishFirmwareStatusEnumType.Downloading, PublishFirmwareStatusEnumType.Downloaded, PublishFirmwareStatusEnumType.Published]"

definition send_v201_publish_firmware_status ::
  "PublishFirmwareStatusEnumType \<Rightarrow> string list option \<Rightarrow> i32 \<Rightarrow> commands \<Rightarrow> commands" where
  "send_v201_publish_firmware_status status location rid s =
     report_out [PublishFirmwareStatusNotification status location (Some rid)]
       (s\<lparr>cs_publish := publish_record_reported status location rid (cs_publish s)\<rparr>)"

definition run_v201_publish_firmware_status :: "i32 \<Rightarrow> commands \<Rightarrow> commands" where
  "run_v201_publish_firmware_status rid s =
     fold (\<lambda>status. send_v201_publish_firmware_status status
         (if status = PublishFirmwareStatusEnumType.Published then Some V201_SIMULATED_PUBLISH_FIRMWARE_LOCATIONS else None) rid)
       publish_progression s"

text \<open>
  The consumer task runs one command at a time, and commands are handled while it sends and sleeps. A stream is two steps:
  it is taken from the queue and sends its messages, then it ends and leaves the store of the streams in flight. Nothing a
  handler does in between changes the messages. \<open>outcome\<close> is the simulated outcome of a rollout.
\<close>

definition firmware_out :: "i32 \<Rightarrow> FirmwareStatusEnumType list \<times> V201FirmwareUpdateStore \<Rightarrow> commands \<Rightarrow> commands" where
  "firmware_out rid p s = report_out (map (\<lambda>st. FirmwareStatusReport st rid) (fst p)) (s\<lparr>cs_firmware := snd p\<rparr>)"

definition firmware_progress ::
  "FirmwareUpdateOutcome \<Rightarrow> i32 \<Rightarrow> V201FirmwareUpdateStore \<Rightarrow> FirmwareStatusEnumType list \<times> V201FirmwareUpdateStore" where
  "firmware_progress outcome rid f = fold (\<lambda>st. send_v201_firmware_status st rid)
     (if outcome = OutcomeDownloadFailed then [FirmwareStatusEnumType.Downloading]
      else [FirmwareStatusEnumType.Downloading, FirmwareStatusEnumType.Downloaded, FirmwareStatusEnumType.Installing]) ([], f)"

fun firmware_terminal :: "FirmwareUpdateOutcome \<Rightarrow> FirmwareStatusEnumType" where
  "firmware_terminal Succeed = FirmwareStatusEnumType.Installed"
| "firmware_terminal OutcomeDownloadFailed = FirmwareStatusEnumType.DownloadFailed"
| "firmware_terminal OutcomeInstallationFailed = FirmwareStatusEnumType.InstallationFailed"

fun stream_starts :: "FirmwareUpdateOutcome \<Rightarrow> string \<Rightarrow> report_command \<Rightarrow> commands \<Rightarrow> commands" where
  "stream_starts outcome ts (V201NotifyDisplayMessages rid ms) s = send_v201_notify_display_messages rid ms s"
| "stream_starts outcome ts (V201FirmwareUpdate rid) s = firmware_out rid (firmware_progress outcome rid (cs_firmware s)) s"
| "stream_starts outcome ts (V201CustomerInformationReport rid) s = run_v201_customer_information_report ts rid s"
| "stream_starts outcome ts (V201PublishFirmwareStatus rid) s = run_v201_publish_firmware_status rid s"

fun stream_ends :: "FirmwareUpdateOutcome \<Rightarrow> report_command \<Rightarrow> commands \<Rightarrow> commands" where
  "stream_ends outcome (V201NotifyDisplayMessages rid ms) s = s"
| "stream_ends outcome (V201FirmwareUpdate rid) s =
     firmware_out rid (settle_v201_firmware_update (firmware_terminal outcome) rid ([], cs_firmware s)) s"
| "stream_ends outcome (V201CustomerInformationReport rid) s = s\<lparr>cs_customer := snd (customer_complete rid (cs_customer s))\<rparr>"
| "stream_ends outcome (V201PublishFirmwareStatus rid) s = s\<lparr>cs_publish := snd (publish_complete rid (cs_publish s))\<rparr>"

definition consumer_step :: "FirmwareUpdateOutcome \<Rightarrow> string \<Rightarrow> commands \<Rightarrow> commands" where
  "consumer_step outcome ts s = (case cs_current s of
      Some c \<Rightarrow> stream_ends outcome c (s\<lparr>cs_current := None\<rparr>)
    | None \<Rightarrow> (case cs_queue s of
        [] \<Rightarrow> s
      | c # cs \<Rightarrow> stream_starts outcome ts c (s\<lparr>cs_queue := cs, cs_current := Some c\<rparr>)))"

definition commands_new :: commands where
  "commands_new = \<lparr>cs_certificates = [], cs_display = [], cs_network = [], cs_csr = csr_new, cs_customer = [],
     cs_publish = publish_new, cs_firmware = fu_new, cs_queue = [], cs_alive = True, cs_current = None, cs_reported = []\<rparr>"

datatype command_step =
    SetDisplayMessage "string list" MessageInfoType
  | GetDisplayMessages i32 "i32 list option" "MessagePriorityEnumType option" "MessageStateEnumType option"
  | ClearDisplayMessage i32
  | InstallCertificate InstallCertificateUseEnumType string
  | DeleteCertificate CertificateHashDataType
  | CertificateSigned string
  | SetNetworkProfile i32 NetworkConnectionProfileType
  | CustomerInformation CustomerInformationRequest
  | PublishFirmware i32 string string
  | UpdateFirmware201 i32 FirmwareType
  | ConsumerStep FirmwareUpdateOutcome string
  | ConsumerStops

text \<open>
  When the consumer task is aborted (\<open>stop\<close>), the receiver of the queue goes with it: what is queued is lost, a
  running stream breaks off, and later sends fail.
\<close>

definition consumer_stops :: "commands \<Rightarrow> commands" where
  "consumer_stops s = s\<lparr>cs_alive := False, cs_queue := [], cs_current := None\<rparr>"

fun command_exec :: "command_step \<Rightarrow> commands \<Rightarrow> commands" where
  "command_exec (SetDisplayMessage live m) s = snd (handle_set_display_message live m s)"
| "command_exec (GetDisplayMessages rid ids prio st) s = snd (handle_get_display_messages rid ids prio st s)"
| "command_exec (ClearDisplayMessage i) s = snd (handle_clear_display_message i s)"
| "command_exec (InstallCertificate u pem) s = snd (handle_install_certificate u pem s)"
| "command_exec (DeleteCertificate h) s = snd (handle_delete_certificate h s)"
| "command_exec (CertificateSigned chain) s = snd (handle_certificate_signed chain s)"
| "command_exec (SetNetworkProfile slot p) s = snd (handle_set_network_profile slot p s)"
| "command_exec (CustomerInformation r) s = snd (handle_customer_information r s)"
| "command_exec (PublishFirmware rid location checksum) s = snd (handle_publish_firmware rid location checksum s)"
| "command_exec (UpdateFirmware201 rid fw) s = snd (handle_update_firmware rid fw s)"
| "command_exec (ConsumerStep outcome ts) s = consumer_step outcome ts s"
| "command_exec ConsumerStops s = consumer_stops s"

section \<open>Pages\<close>

text \<open>A report cut into pages, whatever record the page builder makes.\<close>

lemma cut_pages:
  "fst (map_state (\<lambda>i rest. (f i (take k rest), drop k rest)) [m..<m + n] xs)
     = map (\<lambda>i. f (m + i) (take k (drop (k * i) xs))) [0..<n]"
proof (induction n arbitrary: m xs)
  case (Suc n)
  have U: "[m..<m + Suc n] = m # [Suc m..<Suc m + n]" using upt_conv_Cons [of m "m + Suc n"] by simp
  have V: "[0..<Suc n] = 0 # map Suc [0..<n]" by (simp add: upt_conv_Cons map_Suc_upt del: upt_Suc)
  show ?case unfolding U V
    using Suc.IH [of "Suc m" "drop k xs"] by (simp add: case_prod_beta Let_def comp_def add.commute del: upt_Suc)
qed simp

lemma concat_cut: "0 < k \<Longrightarrow> length xs \<le> k * n \<Longrightarrow> concat (map (\<lambda>i. take k (drop (k * i) xs)) [0..<n]) = xs"
proof (induction n arbitrary: xs)
  case (Suc n)
  have V: "[0..<Suc n] = 0 # map Suc [0..<n]" by (simp add: upt_conv_Cons map_Suc_upt del: upt_Suc)
  have "concat (map (\<lambda>i. take k (drop (k * i) (drop k xs))) [0..<n]) = drop k xs"
    by (rule Suc.IH) (use Suc.prems in auto)
  then show ?case by (simp add: V comp_def add.commute del: upt_Suc)
qed simp

locale page_builder =
  fixes build :: "'a list option \<Rightarrow> bool option \<Rightarrow> i32 \<Rightarrow> 'r"
    and entries_of :: "'r \<Rightarrow> 'a list option"
    and tbc_of :: "'r \<Rightarrow> bool option"
    and seq_of :: "'r \<Rightarrow> i32"
  assumes entries_build [simp]: "entries_of (build p t i) = p"
    and tbc_build [simp]: "tbc_of (build p t i) = t"
    and seq_build [simp]: "seq_of (build p t i) = i"
begin

lemma pages_map:
  assumes "xs \<noteq> []" and n: "n = (length xs + 24) div 25"
  shows "v201_report_pages build xs
    = map (\<lambda>i. build (Some (take 25 (drop (25 * i) xs))) (more_pages i (n - 1)) (i32_index i)) [0..<n]"
  using assms cut_pages [where m = 0 and n = n and k = 25 and xs = xs and f = "\<lambda>i d. build (Some d) (more_pages i (n - 1)) (i32_index i)"]
  by (simp add: v201_report_pages_def V201_REPORT_ENTRIES_PER_PAGE_def Let_def add.commute)

lemma page_count: "length (v201_report_pages build xs) = max 1 ((length xs + 24) div 25)"
proof (cases xs)
  case Nil
  then show ?thesis by (simp add: v201_report_pages_def)
next
  case (Cons y ys)
  then show ?thesis using pages_map [of xs] by simp
qed

lemma pages_concat: "concat (map (\<lambda>p. case entries_of p of None \<Rightarrow> [] | Some d \<Rightarrow> d) (v201_report_pages build xs)) = xs"
proof (cases "xs = []")
  case False
  have "length xs \<le> 25 * ((length xs + 24) div 25)" by simp
  with pages_map [OF False refl] show ?thesis by (simp add: comp_def concat_cut)
qed (simp add: v201_report_pages_def)

lemma pages_full: "list_all (\<lambda>p. is_none_or (entries_of p) (\<lambda>d. d \<noteq> [] \<and> length d \<le> 25)) (v201_report_pages build xs)"
proof (cases "xs = []")
  case False
  have "25 * i < length xs" if "i < (length xs + 24) div 25" for i using that by linarith
  then have "\<forall>i\<in>{0..<(length xs + 24) div 25}. \<not> length xs \<le> 25 * i" by force
  with pages_map [OF False refl] show ?thesis by (simp add: list_all_iff)
qed (simp add: v201_report_pages_def)

lemma pages_tbc: "map tbc_of (v201_report_pages build xs) = replicate (length (v201_report_pages build xs) - 1) (Some True) @ [None]"
proof (cases "xs = []")
  case False
  then have n: "0 < (length xs + 24) div 25" by (cases xs) simp_all
  then have "map (\<lambda>i. more_pages i ((length xs + 24) div 25 - 1)) [0..<(length xs + 24) div 25]
      = replicate ((length xs + 24) div 25 - 1) (Some True) @ [None]"
    by (intro nth_equalityI) (auto simp: nth_append more_pages_def)
  with pages_map [OF False refl] show ?thesis by (simp add: comp_def)
qed (simp add: v201_report_pages_def)

lemma pages_seq: "map seq_of (v201_report_pages build xs) = map i32_index [0..<length (v201_report_pages build xs)]"
proof (cases "xs = []")
  case False
  with pages_map [OF False refl] show ?thesis by (simp add: comp_def)
qed (simp add: v201_report_pages_def i32_index_def)

end

interpretation report_pages: page_builder
  "\<lambda>page tbc seq. \<lparr>nrr_request_id = rid, nrr_generated_at = ts, nrr_report_data = page, nrr_tbc = tbc, nrr_seq_no = seq\<rparr>"
  nrr_report_data nrr_tbc nrr_seq_no for rid ts
  by unfold_locales simp_all

interpretation monitoring_pages: page_builder
  "\<lambda>page tbc seq. \<lparr>nmr_monitor = page, nmr_request_id = rid, nmr_tbc = tbc, nmr_seq_no = seq, nmr_generated_at = ts\<rparr>"
  nmr_monitor nmr_tbc nmr_seq_no for rid ts
  by unfold_locales simp_all

text \<open>
  Property C13. The pages of a device report and of a monitoring report are complete and in order: put together they are the
  entries, no page has more than 25 and only an empty report has an empty page, every page but the last announces another
  one, and the pages are numbered from zero.
\<close>

theorem device_report_pages_complete:
  "(let ps = v201_notify_report_pages rid ts rows in
      concat (map (\<lambda>p. case nrr_report_data p of None \<Rightarrow> [] | Some d \<Rightarrow> d) ps) = rows
      \<and> list_all (\<lambda>p. is_none_or (nrr_report_data p) (\<lambda>d. d \<noteq> [] \<and> length d \<le> 25)) ps
      \<and> map nrr_tbc ps = replicate (length ps - 1) (Some True) @ [None]
      \<and> map nrr_seq_no ps = map i32_index [0..<length ps]
      \<and> length ps = max 1 ((length rows + 24) div 25))
   \<and> (let ps = v201_notify_monitoring_report_pages rid ts monitors in
      concat (map (\<lambda>p. case nmr_monitor p of None \<Rightarrow> [] | Some d \<Rightarrow> d) ps) = monitors
      \<and> list_all (\<lambda>p. is_none_or (nmr_monitor p) (\<lambda>d. d \<noteq> [] \<and> length d \<le> 25)) ps
      \<and> map nmr_tbc ps = replicate (length ps - 1) (Some True) @ [None]
      \<and> map nmr_seq_no ps = map i32_index [0..<length ps]
      \<and> length ps = max 1 ((length monitors + 24) div 25))"
  unfolding Let_def v201_notify_report_pages_def v201_notify_monitoring_report_pages_def
  by (intro conjI report_pages.pages_concat report_pages.pages_full report_pages.pages_tbc report_pages.pages_seq
      report_pages.page_count monitoring_pages.pages_concat monitoring_pages.pages_full monitoring_pages.pages_tbc
      monitoring_pages.pages_seq monitoring_pages.page_count)

section \<open>Certificates\<close>

text \<open>The target of a deletion is an installed certificate whose data match.\<close>

lemma delete_target_Some:
  "v201_delete_certificate_target h m = Some u \<Longrightarrow>
     \<exists>pem. (u, pem) \<in> set m \<and> v201_certificate_hash_matches h (v201_certificate_hash_data u pem)"
  by (auto simp: v201_delete_certificate_target_def find_Some_iff) (metis nth_mem)

lemma delete_target_None:
  "v201_delete_certificate_target h m = None \<longleftrightarrow>
     \<not> list_ex (\<lambda>(u, pem). v201_certificate_hash_matches h (v201_certificate_hash_data u pem)) m"
  by (auto simp: v201_delete_certificate_target_def find_None_iff list_ex_iff)

lemma hash_matches_refl: "v201_certificate_hash_matches h h"
  by (simp add: v201_certificate_hash_matches_def)

section \<open>Streams in flight\<close>

definition pending_streams :: "commands \<Rightarrow> report_command list" where
  "pending_streams s = (case cs_current s of None \<Rightarrow> [] | Some c \<Rightarrow> [c]) @ cs_queue s"

fun customer_id :: "report_command \<Rightarrow> i32 option" where
  "customer_id (V201CustomerInformationReport r) = Some r"
| "customer_id _ = None"

fun publish_id :: "report_command \<Rightarrow> i32 option" where
  "publish_id (V201PublishFirmwareStatus r) = Some r"
| "publish_id _ = None"

fun firmware_id :: "report_command \<Rightarrow> i32 option" where
  "firmware_id (V201FirmwareUpdate r) = Some r"
| "firmware_id _ = None"

text \<open>The rollout that was queued last.\<close>

definition last_rollout :: "commands \<Rightarrow> i32 option" where
  "last_rollout s = (let ids = List.map_filter firmware_id (pending_streams s) in if ids = [] then None else Some (last ids))"

definition tracks :: "i32 list \<Rightarrow> i32 list \<Rightarrow> bool" where
  "tracks ids flight \<longleftrightarrow> distinct ids \<and> distinct flight \<and> set flight = set ids"

lemma tracks_post: "tracks ids flight \<Longrightarrow> r \<notin> set flight \<Longrightarrow> tracks (ids @ [r]) (r # flight)"
  by (auto simp: tracks_def)

lemma tracks_end: "tracks (r # ids) flight \<Longrightarrow> tracks ids (removeAll r flight)"
  by (auto simp: tracks_def distinct_removeAll)

lemma tracks_refused: "tracks ids flight \<Longrightarrow> r \<notin> set flight \<Longrightarrow> tracks ids (removeAll r (r # flight))"
  by (simp add: tracks_def)

text \<open>
  While the consumer runs, every request id in flight has exactly one stream, queued or running, and the rollout in the
  slot is the one queued last. Afterwards nothing is queued or running.
\<close>

definition streams_tracked :: "commands \<Rightarrow> bool" where
  "streams_tracked s \<longleftrightarrow> tracks (List.map_filter customer_id (pending_streams s)) (cs_customer s)
     \<and> tracks (List.map_filter publish_id (pending_streams s)) (pf_in_flight (cs_publish s))
     \<and> is_none_or (fu_in_flight (cs_firmware s)) (\<lambda>r. last_rollout s = Some r)"

definition streams_inv :: "commands \<Rightarrow> bool" where
  "streams_inv s \<longleftrightarrow> hm_wf (cs_certificates s) \<and> hm_wf (cs_display s) \<and> hm_wf (cs_network s)
     \<and> (if cs_alive s then streams_tracked s else pending_streams s = [])"

lemmas streams_defs = streams_inv_def streams_tracked_def last_rollout_def

named_theorems handler_defs

declare handle_set_display_message_def [handler_defs] handle_get_display_messages_def [handler_defs]
  handle_clear_display_message_def [handler_defs] handle_install_certificate_def [handler_defs]
  handle_delete_certificate_def [handler_defs] handle_certificate_signed_def [handler_defs]
  handle_set_network_profile_def [handler_defs]

lemma pending_post [simp]:
  "cs_alive s \<Longrightarrow> pending_streams (post_report c s) = pending_streams s @ [c]"
  "\<not> cs_alive s \<Longrightarrow> post_report c s = s"
  by (simp_all add: pending_streams_def post_report_def)

lemma post_frame [simp]:
  "cs_alive (post_report c s) = cs_alive s" "cs_certificates (post_report c s) = cs_certificates s" "cs_display (post_report c s) = cs_display s"
  "cs_network (post_report c s) = cs_network s" "cs_customer (post_report c s) = cs_customer s" "cs_publish (post_report c s) = cs_publish s"
  "cs_firmware (post_report c s) = cs_firmware s"
  by (simp_all add: post_report_def)

lemma pending_frame [simp]:
  "pending_streams (s\<lparr>cs_certificates := x1\<rparr>) = pending_streams s" "pending_streams (s\<lparr>cs_display := x2\<rparr>) = pending_streams s"
  "pending_streams (s\<lparr>cs_network := x3\<rparr>) = pending_streams s" "pending_streams (s\<lparr>cs_csr := x4\<rparr>) = pending_streams s"
  "pending_streams (s\<lparr>cs_customer := x5\<rparr>) = pending_streams s" "pending_streams (s\<lparr>cs_publish := x6\<rparr>) = pending_streams s"
  "pending_streams (s\<lparr>cs_firmware := x7\<rparr>) = pending_streams s" "pending_streams (s\<lparr>cs_reported := x8\<rparr>) = pending_streams s"
  by (simp_all add: pending_streams_def)

lemma map_filter_snoc [simp]: "List.map_filter f (xs @ [x]) = List.map_filter f xs @ (case f x of None \<Rightarrow> [] | Some y \<Rightarrow> [y])"
  by (induction xs) (simp_all add: List.map_filter_simps split: option.split)

lemma is_none_or_mono: "is_none_or x P \<Longrightarrow> (\<And>y. P y \<Longrightarrow> Q y) \<Longrightarrow> is_none_or x Q"
  by (cases x) simp_all

lemma store_handlers_inv:
  assumes "streams_inv s"
  shows "streams_inv (snd (handle_set_display_message live m s))" "streams_inv (snd (handle_clear_display_message i s))"
    "streams_inv (snd (handle_install_certificate u pem s))" "streams_inv (snd (handle_delete_certificate h s))"
    "streams_inv (snd (handle_certificate_signed chain s))" "streams_inv (snd (handle_set_network_profile slot p s))"
  using assms
  by (auto simp: handler_defs streams_defs Let_def case_prod_beta display_install_def display_remove_def cert_install_def
      cert_remove_def network_upsert_def split: InstallCertificateStatusEnumType.split CertificateSignedStatusEnumType.split
      SetNetworkProfileStatusEnumType.split option.split)

lemma get_display_inv: "streams_inv s \<Longrightarrow> streams_inv (snd (handle_get_display_messages rid ids prio st s))"
  by (auto simp: handler_defs streams_defs Let_def elim: is_none_or_mono)

lemma customer_inv: "streams_inv s \<Longrightarrow> streams_inv (snd (handle_customer_information r s))"
  by (auto simp: handle_customer_information_def streams_defs Let_def customer_begin_def customer_complete_def tracks_post
      elim: is_none_or_mono)

lemma publish_inv: "streams_inv s \<Longrightarrow> streams_inv (snd (handle_publish_firmware rid location checksum s))"
  by (auto simp: handle_publish_firmware_def streams_defs Let_def publish_begin_def publish_complete_def tracks_post
      elim: is_none_or_mono)

lemma update_firmware_inv: "streams_inv s \<Longrightarrow> streams_inv (snd (handle_update_firmware rid fw s))"
  by (auto simp: handle_update_firmware_def streams_defs Let_def fu_begin_def)

lemma report_out_frame [simp]:
  "cs_alive (report_out ms s) = cs_alive s" "cs_certificates (report_out ms s) = cs_certificates s"
  "cs_display (report_out ms s) = cs_display s" "cs_network (report_out ms s) = cs_network s"
  "cs_customer (report_out ms s) = cs_customer s" "cs_publish (report_out ms s) = cs_publish s"
  "cs_firmware (report_out ms s) = cs_firmware s" "pending_streams (report_out ms s) = pending_streams s"
  "cs_queue (report_out ms s) = cs_queue s" "cs_current (report_out ms s) = cs_current s"
  by (simp_all add: report_out_def)

lemma run_publish_frame [simp]:
  "streams_inv (run_v201_publish_firmware_status rid s) = streams_inv s"
  "cs_queue (run_v201_publish_firmware_status rid s) = cs_queue s"
  "cs_current (run_v201_publish_firmware_status rid s) = cs_current s"
  by (simp_all add: run_v201_publish_firmware_status_def publish_progression_def send_v201_publish_firmware_status_def
      publish_record_reported_def streams_defs)

lemma firmware_progress_slot [simp]: "fu_in_flight (snd (firmware_progress outcome rid f)) = fu_in_flight f"
  by (simp add: firmware_progress_def send_v201_firmware_status_def fu_record_reported_def)

lemma settle_slot [simp]:
  "fu_in_flight (snd (settle_v201_firmware_update t rid p)) = (if fu_in_flight (snd p) = Some rid then None else fu_in_flight (snd p))"
  by (simp add: settle_v201_firmware_update_def fu_complete_def send_v201_firmware_status_def fu_record_reported_def)

lemma streams_inv_report_out [simp]: "streams_inv (report_out ms s) = streams_inv s"
  by (simp add: streams_defs)

lemma streams_inv_slot: "streams_inv s \<Longrightarrow> fu_in_flight f = fu_in_flight (cs_firmware s) \<Longrightarrow> streams_inv (s\<lparr>cs_firmware := f\<rparr>)"
  by (cases "cs_alive s") (simp_all add: streams_defs)

text \<open>The two steps of a rollout are \<open>run_v201_firmware_update\<close>, with the requests begun in between.\<close>

lemma firmware_two_steps:
  "run_v201_firmware_update outcome begun r f
     = settle_v201_firmware_update (firmware_terminal outcome) r (begin_all begun (firmware_progress outcome r f))"
  by (cases outcome) (simp_all add: run_v201_firmware_update_def firmware_progress_def Let_def)

lemma stream_starts_inv: "streams_inv s \<Longrightarrow> streams_inv (stream_starts outcome ts c s)"
  by (cases c) (simp_all add: send_v201_notify_display_messages_def firmware_out_def streams_inv_slot
      run_v201_customer_information_report_def)

lemma stream_moves [simp]:
  "cs_queue (stream_starts outcome ts c s) = cs_queue s" "cs_current (stream_starts outcome ts c s) = cs_current s"
  "cs_queue (stream_ends outcome c s) = cs_queue s" "cs_current (stream_ends outcome c s) = cs_current s"
  by (cases c; simp add: send_v201_notify_display_messages_def firmware_out_def run_v201_customer_information_report_def)+

lemma streams_tracked_alive: "cs_current s = Some c \<or> cs_queue s = c # cs \<Longrightarrow> streams_inv s \<Longrightarrow> cs_alive s"
  by (auto simp: streams_inv_def pending_streams_def split: if_splits option.splits)

lemma stream_ends_inv:
  assumes "streams_inv s" and "cs_current s = Some c"
  shows "streams_inv (stream_ends outcome c (s\<lparr>cs_current := None\<rparr>))"
proof -
  have slot: "is_none_or x ((=) y) \<Longrightarrow> x \<noteq> Some y \<Longrightarrow> is_none_or x P" for x :: "i32 option" and y P
    by (cases x) auto
  have "cs_alive s" using streams_tracked_alive assms by blast
  with assms show ?thesis
    by (cases c) (auto simp: streams_defs Let_def pending_streams_def firmware_out_def customer_complete_def publish_complete_def
        List.map_filter_simps intro: tracks_end slot elim: is_none_or_mono split: option.splits)
qed

lemma consumer_step_inv: "streams_inv s \<Longrightarrow> streams_inv (consumer_step outcome ts s)"
proof -
  assume inv: "streams_inv s"
  have "streams_inv (s\<lparr>cs_queue := cs, cs_current := Some c\<rparr>)" if "cs_current s = None" "cs_queue s = c # cs" for c cs
  proof -
    have "pending_streams (s\<lparr>cs_queue := cs, cs_current := Some c\<rparr>) = pending_streams s" using that by (simp add: pending_streams_def)
    moreover have "cs_alive s" using inv that(2) streams_tracked_alive by blast
    ultimately show ?thesis using inv by (simp add: streams_defs)
  qed
  with inv show ?thesis
    by (auto simp: consumer_step_def stream_ends_inv stream_starts_inv split: option.split list.split)
qed

lemma consumer_stops_inv: "streams_inv s \<Longrightarrow> streams_inv (consumer_stops s)"
  by (simp add: streams_inv_def consumer_stops_def pending_streams_def)

interpretation command_machine: machine command_exec streams_inv
proof
  show "streams_inv s \<Longrightarrow> streams_inv (command_exec c s)" for s c
    by (cases c) (simp_all add: store_handlers_inv get_display_inv customer_inv publish_inv update_firmware_inv consumer_step_inv
        consumer_stops_inv)
qed

lemma streams_inv_new: "streams_inv commands_new"
  by (simp add: streams_defs commands_new_def tracks_def pending_streams_def List.map_filter_simps publish_new_def fu_new_def)

text \<open>The consumer empties the queue: a stream takes two of its steps.\<close>

definition work_left :: "commands \<Rightarrow> nat" where
  "work_left s = 2 * length (cs_queue s) + (if cs_current s = None then 0 else 1)"

lemma work_step: "work_left (consumer_step outcome ts s) = work_left s - 1"
  by (simp add: work_left_def consumer_step_def split: option.split list.split)

lemma drain_work: "work_left ((consumer_step outcome ts ^^ n) s) = work_left s - n"
  by (induction n) (simp_all add: work_step)

lemma drain_inv: "streams_inv s \<Longrightarrow> streams_inv ((consumer_step outcome ts ^^ n) s)"
  by (induction n) (simp_all add: consumer_step_inv)

lemma alive_step [simp]: "cs_alive (consumer_step outcome ts s) = cs_alive s"
proof -
  have "cs_alive (stream_starts outcome ts c s) = cs_alive s" "cs_alive (stream_ends outcome c s) = cs_alive s" for c s
    by (cases c; simp add: send_v201_notify_display_messages_def firmware_out_def run_v201_customer_information_report_def
        run_v201_publish_firmware_status_def publish_progression_def send_v201_publish_firmware_status_def)+
  then show ?thesis by (simp add: consumer_step_def split: option.split list.split)
qed

lemma alive_drain [simp]: "cs_alive ((consumer_step outcome ts ^^ n) s) = cs_alive s"
  by (induction n) simp_all

lemma idle_streams: "streams_inv s \<Longrightarrow> cs_alive s \<Longrightarrow> work_left s = 0 \<Longrightarrow>
    pending_streams s = [] \<and> cs_customer s = [] \<and> pf_in_flight (cs_publish s) = [] \<and> fu_in_flight (cs_firmware s) = None"
  by (cases "fu_in_flight (cs_firmware s)")
    (auto simp: streams_defs work_left_def pending_streams_def tracks_def List.map_filter_simps split: if_splits)

text \<open>
  Property C12. However commands and the consumer interleave, while the consumer task lives, every customer report and every
  firmware publication that is in flight has exactly one stream, queued or running, so that a retried request starts no
  second one, and the firmware rollout in the slot is the one that was queued last; and the streams end: once the consumer
  has taken the steps that are left, nothing is in flight and every request id can be served again. Once the
  consumer task was stopped nothing is queued or running any more, and nothing is sent.
\<close>

theorem streams_in_flight:
  "let s = fold command_exec steps commands_new; d = (consumer_step outcome ts ^^ (2 * length (pending_streams s))) s in
     if cs_alive s
     then tracks (List.map_filter customer_id (pending_streams s)) (cs_customer s)
       \<and> tracks (List.map_filter publish_id (pending_streams s)) (pf_in_flight (cs_publish s))
       \<and> is_none_or (fu_in_flight (cs_firmware s)) (\<lambda>r. last_rollout s = Some r)
       \<and> pending_streams d = [] \<and> cs_customer d = [] \<and> pf_in_flight (cs_publish d) = [] \<and> fu_in_flight (cs_firmware d) = None
     else pending_streams s = [] \<and> consumer_step outcome ts s = s"
proof -
  define s where "s = fold command_exec steps commands_new"
  define d where "d = (consumer_step outcome ts ^^ (2 * length (pending_streams s))) s"
  have inv: "streams_inv s" unfolding s_def by (rule command_machine.run_inv) (rule streams_inv_new)
  have "work_left s \<le> 2 * length (pending_streams s)" by (simp add: work_left_def pending_streams_def split: option.split)
  then have "work_left d = 0" by (simp add: d_def drain_work)
  moreover have "streams_inv d" unfolding d_def by (rule drain_inv) (rule inv)
  moreover have "cs_alive d = cs_alive s" by (simp add: d_def)
  ultimately have "pending_streams d = [] \<and> cs_customer d = [] \<and> pf_in_flight (cs_publish d) = [] \<and> fu_in_flight (cs_firmware d) = None"
    if "cs_alive s" using idle_streams [of d] that by simp
  moreover have "pending_streams s = [] \<Longrightarrow> consumer_step outcome ts s = s"
    by (simp add: consumer_step_def pending_streams_def split: option.splits)
  ultimately show ?thesis
    using inv unfolding Let_def s_def [symmetric] d_def [symmetric] by (cases "cs_alive s") (simp_all add: streams_inv_def streams_tracked_def)
qed

section \<open>Deleting certificates\<close>

lemma delete_matching:
  assumes wf: "hm_wf (cs_certificates s)" and some: "v201_delete_certificate_target h (cs_certificates s) = Some u"
  shows "\<exists>pem. map_of (cs_certificates s) u = Some pem \<and> v201_certificate_hash_matches h (v201_certificate_hash_data u pem)
    \<and> handle_delete_certificate h s
        = ((DeleteCertificateStatusEnumType.Accepted, None), s\<lparr>cs_certificates := AList.delete u (cs_certificates s)\<rparr>)
    \<and> length (cs_certificates s) = Suc (length (AList.delete u (cs_certificates s)))"
proof -
  from delete_target_Some [OF some] obtain pem where pem: "(u, pem) \<in> set (cs_certificates s)"
    and match: "v201_certificate_hash_matches h (v201_certificate_hash_data u pem)" by blast
  from pem wf have get: "map_of (cs_certificates s) u = Some pem" by (simp add: hm_wf_def)
  have len: "length (cs_certificates s) = Suc (length (AList.delete u (cs_certificates s)))"
    using get pem hm_length_delete [OF wf, of u] by (cases "cs_certificates s") (auto simp: hm_contains_def)
  from some match get len show ?thesis
    by (simp add: handle_delete_certificate_def cert_snapshot_def Let_def cert_remove_def)
qed

text \<open>
  Property C16. On every run of the commands, the data listed for any certificate name an installed one, and deleting by
  data is exact: data that match no installed certificate are answered NotFound and change nothing; otherwise the answer is
  Accepted, never that the removal failed, one certificate with matching data goes and every other one stays.
\<close>

theorem delete_listed_certificate:
  "let s = fold command_exec steps commands_new; m = cs_certificates s;
       matches = (\<lambda>h (u, pem). v201_certificate_hash_matches h (v201_certificate_hash_data u pem));
       (r, s') = handle_delete_certificate h s; m' = cs_certificates s'
   in list_all (\<lambda>e. list_ex (matches (chdct_certificate_hash_data e)) m)
        (v201_get_installed_certificate_ids_matches types (cert_snapshot m))
      \<and> (if list_ex (matches h) m
         then r = (DeleteCertificateStatusEnumType.Accepted, None)
           \<and> (\<exists>u pem. cert_installed m u = Some pem \<and> matches h (u, pem)
                 \<and> (\<forall>u'. cert_installed m' u' = (if u' = u then None else cert_installed m u')))
           \<and> cert_len m = Suc (cert_len m')
         else fst r = DeleteCertificateStatusEnumType.NotFound \<and> s' = s)"
proof -
  define s where "s = fold command_exec steps commands_new"
  have "streams_inv s" unfolding s_def by (rule command_machine.run_inv) (rule streams_inv_new)
  then have wf: "hm_wf (cs_certificates s)" by (simp add: streams_inv_def)
  have listed: "list_all (\<lambda>e. list_ex (\<lambda>(u, pem). v201_certificate_hash_matches (chdct_certificate_hash_data e)
        (v201_certificate_hash_data u pem)) m) (v201_get_installed_certificate_ids_matches types (cert_snapshot m))" for m
    by (force simp: v201_get_installed_certificate_ids_matches_def list_all_iff list_ex_iff cert_snapshot_def chain_entry_def
        intro: hash_matches_refl)
  show ?thesis
  proof (cases "v201_delete_certificate_target h (cs_certificates s)")
    case None
    with listed delete_target_None [of h "cs_certificates s"] show ?thesis
      unfolding s_def [symmetric] by (simp add: handle_delete_certificate_def cert_snapshot_def Let_def)
  next
    case (Some u)
    then have ex: "list_ex (\<lambda>(u, pem). v201_certificate_hash_matches h (v201_certificate_hash_data u pem)) (cs_certificates s)"
      using delete_target_None [of h "cs_certificates s"] by auto
    from delete_matching [OF wf Some] ex listed show ?thesis
      unfolding s_def [symmetric] by (auto simp: Let_def cert_installed_map_of cert_len_def hm_get_delete)
  qed
qed

end
