(* ===== verification/Data_Transfer.thy ===== *)
theory Data_Transfer
  imports Datatypes201
begin

text \<open>
  Vendor messages: \<open>data_transfer.rs\<close>, the table of handlers per vendor and message, and \<open>v201_data_transfer.rs\<close>, which
  serves the 2.0.1 message from the same table. A handler is a function from request to response; \<open>serde_json\<close>'s text of
  a value and its reading are parameters.
\<close>

section \<open>The registry\<close>

record DataTransferRequest =
  dtr_vendor_id :: string
  dtr_message_id :: "string option"
  dtr_data :: "string option"

record DataTransferResponse =
  dts_status :: DataTransferStatus
  dts_data :: "string option"

type_synonym DataTransferHandler = "DataTransferRequest \<Rightarrow> DataTransferResponse"

record VendorEntry =
  ve_by_message :: "(string, DataTransferHandler) hmap"
  ve_no_message :: "DataTransferHandler option"

definition VendorEntry_default :: VendorEntry where
  "VendorEntry_default = \<lparr>ve_by_message = [], ve_no_message = None\<rparr>"

definition ve_is_empty :: "VendorEntry \<Rightarrow> bool" where
  "ve_is_empty e \<longleftrightarrow> ve_by_message e = [] \<and> ve_no_message e = None"

type_synonym DataTransferRegistry = "(string, VendorEntry) hmap"

definition registry_new :: DataTransferRegistry where
  "registry_new = []"

definition dt_register :: "string \<Rightarrow> string option \<Rightarrow> DataTransferHandler \<Rightarrow> DataTransferRegistry \<Rightarrow> DataTransferRegistry" where
  "dt_register vendor msg h reg =
     (let entry = (case map_of reg vendor of None \<Rightarrow> VendorEntry_default | Some e \<Rightarrow> e) in
      AList.update vendor (case msg of
          Some i \<Rightarrow> entry\<lparr>ve_by_message := AList.update i h (ve_by_message entry)\<rparr>
        | None \<Rightarrow> entry\<lparr>ve_no_message := Some h\<rparr>) reg)"

definition unknown_response :: "DataTransferStatus \<Rightarrow> DataTransferResponse" where
  "unknown_response status = \<lparr>dts_status = status, dts_data = None\<rparr>"

text \<open>\<open>Option::filter\<close>.\<close>

definition opt_filter :: "('a \<Rightarrow> bool) \<Rightarrow> 'a option \<Rightarrow> 'a option" where
  "opt_filter P x = Option.bind x (\<lambda>e. if P e then Some e else None)"

definition dt_dispatch :: "DataTransferRegistry \<Rightarrow> DataTransferRequest \<Rightarrow> DataTransferResponse" where
  "dt_dispatch reg req =
     (case opt_filter (\<lambda>e. \<not> ve_is_empty e) (map_of reg (dtr_vendor_id req)) of
        None \<Rightarrow> unknown_response DataTransferStatus.UnknownVendorId
      | Some entry \<Rightarrow>
          (case (case dtr_message_id req of Some i \<Rightarrow> map_of (ve_by_message entry) i | None \<Rightarrow> ve_no_message entry) of
             Some h \<Rightarrow> h req
           | None \<Rightarrow> unknown_response DataTransferStatus.UnknownMessageId))"

section \<open>The 2.0.1 message\<close>

record V201DataTransferRequest =
  vdr_vendor_id :: string
  vdr_message_id :: "string option"
  vdr_data :: "json option"
  vdr_custom_data :: "CustomDataType option"

record V201DataTransferResponse =
  vds_status :: DataTransferStatusEnumType
  vds_status_info :: "StatusInfoType option"
  vds_data :: "json option"
  vds_custom_data :: "CustomDataType option"

fun v201_status :: "DataTransferStatus \<Rightarrow> DataTransferStatusEnumType" where
  "v201_status DataTransferStatus.Accepted = DataTransferStatusEnumType.Accepted"
| "v201_status DataTransferStatus.Rejected = DataTransferStatusEnumType.Rejected"
| "v201_status DataTransferStatus.UnknownMessageId = DataTransferStatusEnumType.UnknownMessageId"
| "v201_status DataTransferStatus.UnknownVendorId = DataTransferStatusEnumType.UnknownVendorId"

definition data_to_v16j :: "(json \<Rightarrow> string option) \<Rightarrow> json option \<Rightarrow> string option" where
  "data_to_v16j to_text d = Option.bind d to_text"

definition data_from_v16j :: "(string \<Rightarrow> json option) \<Rightarrow> string option \<Rightarrow> json option" where
  "data_from_v16j of_text d = map_option (\<lambda>s. case of_text s of Some v \<Rightarrow> v | None \<Rightarrow> JString s) d"

definition v201_dispatch ::
  "(json \<Rightarrow> string option) \<Rightarrow> (string \<Rightarrow> json option) \<Rightarrow> DataTransferRegistry \<Rightarrow> V201DataTransferRequest \<Rightarrow> V201DataTransferResponse" where
  "v201_dispatch to_text of_text reg req =
     (let r = dt_dispatch reg \<lparr>dtr_vendor_id = vdr_vendor_id req, dtr_message_id = vdr_message_id req,
                dtr_data = data_to_v16j to_text (vdr_data req)\<rparr>
      in \<lparr>vds_status = v201_status (dts_status r), vds_status_info = None,
          vds_data = data_from_v16j of_text (dts_data r), vds_custom_data = None\<rparr>)"

section \<open>Routing\<close>

text \<open>What the registry promises: the last handler registered for the vendor and message answers.\<close>

type_synonym registration = "(string \<times> string option) \<times> DataTransferHandler"

definition register_all :: "registration list \<Rightarrow> DataTransferRegistry" where
  "register_all regs = fold (\<lambda>((vendor, msg), h). dt_register vendor msg h) regs registry_new"

definition vendor_entry_of :: "registration list \<Rightarrow> string \<Rightarrow> VendorEntry \<Rightarrow> bool" where
  "vendor_entry_of regs vendor e \<longleftrightarrow> \<not> ve_is_empty e
     \<and> (\<forall>i. map_of (ve_by_message e) i = map_of (rev regs) (vendor, Some i))
     \<and> ve_no_message e = map_of (rev regs) (vendor, None)"

lemma map_of_update [simp]: "map_of (AList.update k v m) k' = (if k' = k then Some v else map_of m k')"
  by (rule hm_get_update)

lemma update_not_Nil [simp]: "AList.update k v m \<noteq> []"
  by (cases m) (auto split: if_splits)

lemma map_of_rev_snoc: "map_of (rev (regs @ [(k, h)])) k' = (if k' = k then Some h else map_of (rev regs) k')"
  by auto

lemma registered_entry:
  "(case map_of (register_all regs) vendor of
      None \<Rightarrow> vendor \<notin> (fst \<circ> fst) ` set regs
    | Some e \<Rightarrow> vendor \<in> (fst \<circ> fst) ` set regs \<and> vendor_entry_of regs vendor e)"
proof (induction regs rule: rev_induct)
  case Nil
  then show ?case by (simp add: register_all_def registry_new_def)
next
  case (snoc r regs)
  obtain v msg h where r: "r = ((v, msg), h)" by (cases r) auto
  have step: "register_all (regs @ [((v, msg), h)]) = dt_register v msg h (register_all regs)" by (simp add: register_all_def)
  have none: "map_of (rev regs) (v, i) = None" if "v \<notin> (fst \<circ> fst) ` set regs" for i
    using that by (auto simp: map_of_eq_None_iff image_iff)
  show ?case
  proof (cases "vendor = v")
    case False
    with snoc.IH show ?thesis
      by (auto simp: step r dt_register_def Let_def vendor_entry_of_def map_of_rev_snoc simp del: rev_append split: option.splits)
  next
    case True
    with snoc.IH none show ?thesis
      by (auto simp: step r dt_register_def Let_def vendor_entry_of_def map_of_rev_snoc VendorEntry_default_def ve_is_empty_def
          simp del: rev_append split: option.splits)
  qed
qed

definition route_spec :: "registration list \<Rightarrow> DataTransferRequest \<Rightarrow> DataTransferResponse" where
  "route_spec regs req =
     (case map_of (rev regs) (dtr_vendor_id req, dtr_message_id req) of
        Some h \<Rightarrow> h req
      | None \<Rightarrow> unknown_response (if dtr_vendor_id req \<in> set (map (fst \<circ> fst) regs)
                         then DataTransferStatus.UnknownMessageId else DataTransferStatus.UnknownVendorId))"

lemma dispatch_refines: "dt_dispatch (register_all regs) req = route_spec regs req"
proof (cases "map_of (register_all regs) (dtr_vendor_id req)")
  case None
  then have "dtr_vendor_id req \<notin> (fst \<circ> fst) ` set regs" using registered_entry [where regs = regs and vendor = "dtr_vendor_id req"] by simp
  moreover from this have "map_of (rev regs) (dtr_vendor_id req, i) = None" for i
    by (auto simp: map_of_eq_None_iff image_iff)
  ultimately show ?thesis using None by (simp add: dt_dispatch_def opt_filter_def route_spec_def)
next
  case (Some e)
  then show ?thesis using registered_entry [where regs = regs and vendor = "dtr_vendor_id req"]
    by (auto simp: dt_dispatch_def opt_filter_def route_spec_def vendor_entry_of_def split: option.split)
qed

text \<open>
  Property C15. A vendor message is routed by the last handler registered for its vendor and message; without one the answer
  says which of the two is unknown and carries no data. A 2.0.1 message gets the answer the same table gives the 1.6J
  message, and the data of an echoing handler come back as they were sent when \<open>serde_json\<close> reads back the text it wrote.
\<close>

theorem data_transfer_routes:
  assumes read_back: "Option.bind (to_text v) of_text = Some v"
  shows "dt_dispatch (register_all regs) req = route_spec regs req
    \<and> vds_status (v201_dispatch to_text of_text (register_all regs) r201)
        = v201_status (dts_status (route_spec regs \<lparr>dtr_vendor_id = vdr_vendor_id r201, dtr_message_id = vdr_message_id r201,
            dtr_data = data_to_v16j to_text (vdr_data r201)\<rparr>))
    \<and> vds_data (v201_dispatch to_text of_text
          (register_all (regs @ [((vendor, msg), \<lambda>q. \<lparr>dts_status = DataTransferStatus.Accepted, dts_data = dtr_data q\<rparr>)]))
          \<lparr>vdr_vendor_id = vendor, vdr_message_id = msg, vdr_data = Some v, vdr_custom_data = custom\<rparr>) = Some v"
  using read_back
  by (auto simp: dispatch_refines v201_dispatch_def Let_def route_spec_def data_to_v16j_def data_from_v16j_def bind_eq_Some_conv)

theorem data_transfer_routes_witness:
  "vds_data (v201_dispatch (\<lambda>_. Some ''[]'') (\<lambda>s. if s = ''[]'' then Some (JArray []) else None)
      (register_all [((''acme'', None), \<lambda>q. \<lparr>dts_status = DataTransferStatus.Accepted, dts_data = dtr_data q\<rparr>)])
      \<lparr>vdr_vendor_id = ''acme'', vdr_message_id = None, vdr_data = Some (JArray []), vdr_custom_data = None\<rparr>) = Some (JArray [])
   \<and> dts_status (dt_dispatch (register_all []) \<lparr>dtr_vendor_id = ''acme'', dtr_message_id = None, dtr_data = None\<rparr>)
       = DataTransferStatus.UnknownVendorId"
  using data_transfer_routes [where to_text = "\<lambda>_. Some ''[]''" and of_text = "\<lambda>s. if s = ''[]'' then Some (JArray []) else None"
      and v = "JArray []" and regs = "[]" and vendor = "''acme''" and msg = None and custom = None
      and req = "\<lparr>dtr_vendor_id = ''acme'', dtr_message_id = None, dtr_data = None\<rparr>"]
  by (simp add: route_spec_def unknown_response_def)

end
