(* ===== verification/Messages.thy ===== *)
theory Messages
  imports Datatypes201 "HOL-Library.Monad_Syntax"
begin

text \<open>
  The message envelope: \<open>ocpp-types/src/error.rs\<close> (\<open>OcppError\<close>, \<open>CallErrorCode\<close>), \<open>message.rs\<close> (the
  typed messages with their two JSON forms, and the recovery of CALLERROR frames) and
  \<open>ocpp-messages/src/serialization.rs\<close> (the size-checked serializer and the structural check).
  A frame is a value of type \<open>json\<close>; the text layer of \<open>serde_json\<close> (\<open>to_string\<close>, \<open>from_str\<close>) is an
  argument where it matters. A failed \<open>Deserialize\<close> is \<open>None\<close>; the wording of such an error is
  that of the JSON library and is not modelled.
\<close>

section \<open>Error codes and errors\<close>

datatype CallErrorCode =
    NotImplemented
  | NotSupported
  | InternalError
  | ProtocolError
  | SecurityError
  | FormationViolation
  | FormatViolation
  | PropertyConstraintViolation
  | OccurenceConstraintViolation
  | OccurrenceConstraintViolation
  | TypeConstraintViolation
  | GenericError

primrec CallErrorCode_as_str :: "CallErrorCode \<Rightarrow> string" where
  "CallErrorCode_as_str NotImplemented = ''NotImplemented''"
| "CallErrorCode_as_str NotSupported = ''NotSupported''"
| "CallErrorCode_as_str InternalError = ''InternalError''"
| "CallErrorCode_as_str ProtocolError = ''ProtocolError''"
| "CallErrorCode_as_str SecurityError = ''SecurityError''"
| "CallErrorCode_as_str FormationViolation = ''FormationViolation''"
| "CallErrorCode_as_str FormatViolation = ''FormatViolation''"
| "CallErrorCode_as_str PropertyConstraintViolation = ''PropertyConstraintViolation''"
| "CallErrorCode_as_str OccurenceConstraintViolation = ''OccurenceConstraintViolation''"
| "CallErrorCode_as_str OccurrenceConstraintViolation = ''OccurrenceConstraintViolation''"
| "CallErrorCode_as_str TypeConstraintViolation = ''TypeConstraintViolation''"
| "CallErrorCode_as_str GenericError = ''GenericError''"

definition CallErrorCode_all :: "CallErrorCode list" where
  "CallErrorCode_all = [NotImplemented, NotSupported, InternalError, ProtocolError, SecurityError,
     FormationViolation, FormatViolation, PropertyConstraintViolation, OccurenceConstraintViolation,
     OccurrenceConstraintViolation, TypeConstraintViolation, GenericError]"

definition CallErrorCode_of_str :: "string \<Rightarrow> CallErrorCode option" where
  "CallErrorCode_of_str = decode_by CallErrorCode_all CallErrorCode_as_str"

interpretation CallErrorCode_codec: wire_codec CallErrorCode_as_str CallErrorCode_of_str
  unfolding CallErrorCode_of_str_def
proof (rule wire_codec_distinct)
  show "x \<in> set CallErrorCode_all" for x by (cases x) (simp_all add: CallErrorCode_all_def)
  show "distinct (map CallErrorCode_as_str CallErrorCode_all)" by (simp add: CallErrorCode_all_def)
qed

primrec CallErrorCode_display :: "CallErrorCode \<Rightarrow> string" where
  "CallErrorCode_display NotImplemented = ''Not implemented''"
| "CallErrorCode_display NotSupported = ''Not supported''"
| "CallErrorCode_display InternalError = ''Internal error''"
| "CallErrorCode_display ProtocolError = ''Protocol error''"
| "CallErrorCode_display SecurityError = ''Security error''"
| "CallErrorCode_display FormationViolation = ''Formation violation''"
| "CallErrorCode_display FormatViolation = ''Format violation''"
| "CallErrorCode_display PropertyConstraintViolation = ''Property constraint violation''"
| "CallErrorCode_display OccurenceConstraintViolation = ''Occurence constraint violation''"
| "CallErrorCode_display OccurrenceConstraintViolation = ''Occurrence constraint violation''"
| "CallErrorCode_display TypeConstraintViolation = ''Type constraint violation''"
| "CallErrorCode_display GenericError = ''Generic error''"

text \<open>The curly quotes of the source are their UTF-8 bytes.\<close>

definition default_description :: "CallErrorCode \<Rightarrow> string" where
  "default_description c = (case c of
      NotImplemented \<Rightarrow> ''Request Action is recognized but not supported by the receiver''
    | NotSupported \<Rightarrow> ''Requested Action is not known by receiver''
    | InternalError \<Rightarrow>
        ''An internal error occurred and the receiver was not able to process the ''
        @ ''requested Action successfully''
    | ProtocolError \<Rightarrow> ''Payload for Action is incomplete''
    | SecurityError \<Rightarrow>
        ''During the processing of Action a security issue occurred preventing receiver ''
        @ ''from completing the Action successfully''
    | FormatViolation \<Rightarrow> ''Payload for Action is syntactically incorrect or structure for Action''
    | FormationViolation \<Rightarrow> ''Payload for Action is syntactically incorrect or structure for Action''
    | PropertyConstraintViolation \<Rightarrow>
        ''Payload is syntactically correct but at least one field contains an invalid value''
    | OccurenceConstraintViolation \<Rightarrow>
        ''Payload for Action is syntactically correct but at least one of the fields ''
        @ ''violates occurence constraints''
    | OccurrenceConstraintViolation \<Rightarrow>
        ''Payload for Action is syntactically correct but at least one of the fields ''
        @ ''violates occurence constraints''
    | TypeConstraintViolation \<Rightarrow>
        ''Payload for Action is syntactically correct but at least one of the fields ''
        @ ''violates data type constraints (e.g. '' @ [CHR 0xE2, CHR 0x80, CHR 0x9C]
        @ ''somestring'' @ [CHR 0xE2, CHR 0x80, CHR 0x9D] @ '': 12)''
    | GenericError \<Rightarrow> ''Any other error not all other OCPP defined errors'')"

datatype SchemaKeyword = KwType | KwMaxLength | KwAdditionalProperties | KwRequired | KwOther

definition keyword_call_error_code :: "SchemaKeyword \<Rightarrow> CallErrorCode" where
  "keyword_call_error_code k = (case k of
      KwType \<Rightarrow> TypeConstraintViolation
    | KwMaxLength \<Rightarrow> TypeConstraintViolation
    | KwRequired \<Rightarrow> ProtocolError
    | KwAdditionalProperties \<Rightarrow> FormationViolation
    | KwOther \<Rightarrow> FormationViolation)"

primrec SchemaKeyword_display :: "SchemaKeyword \<Rightarrow> string" where
  "SchemaKeyword_display KwType = ''type''"
| "SchemaKeyword_display KwMaxLength = ''maxLength''"
| "SchemaKeyword_display KwAdditionalProperties = ''additionalProperties''"
| "SchemaKeyword_display KwRequired = ''required''"
| "SchemaKeyword_display KwOther = ''other''"

datatype OcppError =
    InvalidMessageType "8 word"
  | InvalidConnectorId u32
  | Json string
  | ProtocolViolation string
  | ValidationError string
  | SchemaViolation SchemaKeyword string string
  | Transport string
  | Timeout string
  | Configuration string
  | Authentication string
  | Authorization string
  | Internal string
  | NotSupported string
  | NotImplemented string
  | NotFound string
  | AlreadyExists string
  | InvalidState string string
  | RateLimitExceeded string
  | Database string
  | CallError CallErrorCode string json
  | BootRejected u32
  | CpNotConnected string

definition OcppError_display :: "OcppError \<Rightarrow> string" where
  "OcppError_display e = (case e of
      OcppError.InvalidMessageType n \<Rightarrow> ''Invalid message type: '' @ show_nat (unat n)
    | OcppError.InvalidConnectorId n \<Rightarrow> ''Invalid connector ID: '' @ show_nat (unat n) @ '' (must be > 0)''
    | Json m \<Rightarrow> ''JSON error: '' @ m
    | ProtocolViolation m \<Rightarrow> ''Protocol violation: '' @ m
    | ValidationError m \<Rightarrow> ''Message validation error: '' @ m
    | SchemaViolation k m a \<Rightarrow> ''Schema validation error ('' @ SchemaKeyword_display k @ ''): '' @ m
    | Transport m \<Rightarrow> ''Transport error: '' @ m
    | Timeout operation \<Rightarrow> ''Operation timed out: '' @ operation
    | Configuration m \<Rightarrow> ''Configuration error: '' @ m
    | Authentication r \<Rightarrow> ''Authentication failed: '' @ r
    | Authorization r \<Rightarrow> ''Authorization failed: '' @ r
    | Internal m \<Rightarrow> ''Internal error: '' @ m
    | OcppError.NotSupported f \<Rightarrow> ''Feature not supported: '' @ f
    | OcppError.NotImplemented f \<Rightarrow> ''Feature not implemented: '' @ f
    | NotFound r \<Rightarrow> ''Resource not found: '' @ r
    | AlreadyExists r \<Rightarrow> ''Resource already exists: '' @ r
    | InvalidState operation st \<Rightarrow>
        ''Invalid state for operation: '' @ operation @ '', current state: '' @ st
    | RateLimitExceeded operation \<Rightarrow> ''Rate limit exceeded for '' @ operation
    | Database m \<Rightarrow> ''Database error: '' @ m
    | OcppError.CallError c d x \<Rightarrow> ''CALLERROR ['' @ CallErrorCode_display c @ '']: '' @ d
    | BootRejected n \<Rightarrow>
        ''Boot rejected by central system after '' @ show_nat (unat n) @ '' attempt(s)''
    | CpNotConnected i \<Rightarrow> ''Charge point not connected: '' @ i)"

section \<open>Values of the JSON library\<close>

text \<open>\<open>Value::get\<close> with a key, \<open>Value::as_str\<close>, and the derived decoder of an enumeration.\<close>

definition json_get :: "string \<Rightarrow> json \<Rightarrow> json option" where
  "json_get k v = (case v of JObject kvs \<Rightarrow> map_of kvs k | _ \<Rightarrow> None)"

definition json_as_str :: "json \<Rightarrow> string option" where
  "json_as_str v = (case v of JString s \<Rightarrow> Some s | _ \<Rightarrow> None)"

definition json_enum :: "(string \<Rightarrow> 'a option) \<Rightarrow> json \<Rightarrow> 'a option" where
  "json_enum dec v = (case v of
      JString s \<Rightarrow> dec s
    | JObject [(k, JNull)] \<Rightarrow> dec k
    | _ \<Rightarrow> None)"

definition json_is_object :: "json \<Rightarrow> bool" where
  "json_is_object v = (case v of JObject _ \<Rightarrow> True | _ \<Rightarrow> False)"

definition json_is_string :: "json \<Rightarrow> bool" where
  "json_is_string v = (case v of JString _ \<Rightarrow> True | _ \<Rightarrow> False)"

definition json_is_number :: "json \<Rightarrow> bool" where
  "json_is_number v = (case v of JInt _ \<Rightarrow> True | JFloat _ \<Rightarrow> True | _ \<Rightarrow> False)"

definition json_as_u64 :: "json \<Rightarrow> u64 option" where
  "json_as_u64 v = (case v of
      JInt n \<Rightarrow> if 0 \<le> n \<and> n < 2 ^ 64 then Some (word_of_int n) else None
    | _ \<Rightarrow> None)"

definition json_u8 :: "json \<Rightarrow> 8 word option" where
  "json_u8 v = (case v of
      JInt n \<Rightarrow> if 0 \<le> n \<and> n < 256 then Some (word_of_int n) else None
    | _ \<Rightarrow> None)"

lemmas json_defs = json_get_def json_as_str_def json_enum_def json_is_object_def json_is_string_def
  json_is_number_def json_as_u64_def json_u8_def

lemma json_get_JObject [simp]: "json_get k (JObject kvs) = map_of kvs k"
  by (simp add: json_get_def)

lemma json_get_JArray [simp]: "json_get k (JArray vs) = None"
  by (simp add: json_get_def)

lemma json_as_str_Some [simp]: "json_as_str v = Some s \<longleftrightarrow> v = JString s"
  by (cases v) (simp_all add: json_as_str_def)

lemma json_as_str_JString [simp]: "json_as_str (JString s) = Some s"
  by (simp add: json_as_str_def)

lemma json_enum_JString [simp]: "json_enum dec (JString s) = dec s"
  by (simp add: json_enum_def)

lemma json_u8_Some: "json_u8 v = Some n \<longleftrightarrow> v = JInt (uint n)"
proof -
  have "0 \<le> uint n \<and> uint n < 256" using uint_lt2p [of n] by simp
  moreover have "uint (word_of_int i :: 8 word) = i" if "0 \<le> i" "i < 256" for i
    using that by (simp add: uint_word_of_int)
  ultimately show ?thesis by (cases v) (auto simp: json_u8_def)
qed

section \<open>Messages in object form\<close>

primrec MessageType_wire :: "MessageType \<Rightarrow> string" where
  "MessageType_wire MessageType.Call = ''CALL''"
| "MessageType_wire MessageType.CallResult = ''CALLRESULT''"
| "MessageType_wire MessageType.CallError = ''CALLERROR''"

definition MessageType_all :: "MessageType list" where
  "MessageType_all = [MessageType.Call, MessageType.CallResult, MessageType.CallError]"

definition MessageType_of_wire :: "string \<Rightarrow> MessageType option" where
  "MessageType_of_wire = decode_by MessageType_all MessageType_wire"

interpretation MessageType_codec: wire_codec MessageType_wire MessageType_of_wire
  unfolding MessageType_of_wire_def
proof (rule wire_codec_distinct)
  show "x \<in> set MessageType_all" for x by (cases x) (simp_all add: MessageType_all_def)
  show "distinct (map MessageType_wire MessageType_all)" by (simp add: MessageType_all_def)
qed

record CallMessage =
  cm_message_type :: MessageType
  cm_unique_id :: string
  cm_action :: string
  cm_payload :: json

record CallResultMessage =
  crm_message_type :: MessageType
  crm_unique_id :: string
  crm_payload :: json

record CallErrorMessage =
  cem_message_type :: MessageType
  cem_unique_id :: string
  cem_error_code :: CallErrorCode
  cem_error_description :: string
  cem_error_details :: json

datatype Message = Call CallMessage | CallResult CallResultMessage | CallError CallErrorMessage

definition message_type :: "Message \<Rightarrow> MessageType" where
  "message_type m = (case m of
      Message.Call _ \<Rightarrow> MessageType.Call
    | Message.CallResult _ \<Rightarrow> MessageType.CallResult
    | Message.CallError _ \<Rightarrow> MessageType.CallError)"

definition unique_id :: "Message \<Rightarrow> string" where
  "unique_id m = (case m of
      Message.Call c \<Rightarrow> cm_unique_id c
    | Message.CallResult r \<Rightarrow> crm_unique_id r
    | Message.CallError e \<Rightarrow> cem_unique_id e)"

text \<open>The constructors; the generator of fresh ids is the caller's, \<open>with_id\<close> takes the id as given.\<close>

definition CallMessage_with_id :: "string \<Rightarrow> string \<Rightarrow> json \<Rightarrow> CallMessage" where
  "CallMessage_with_id i act p =
     \<lparr>cm_message_type = MessageType.Call, cm_unique_id = i, cm_action = act, cm_payload = p\<rparr>"

definition CallResultMessage_new :: "string \<Rightarrow> json \<Rightarrow> CallResultMessage" where
  "CallResultMessage_new i p =
     \<lparr>crm_message_type = MessageType.CallResult, crm_unique_id = i, crm_payload = p\<rparr>"

definition CallErrorMessage_new ::
  "string \<Rightarrow> CallErrorCode \<Rightarrow> string \<Rightarrow> json option \<Rightarrow> CallErrorMessage" where
  "CallErrorMessage_new i c d x =
     \<lparr>cem_message_type = MessageType.CallError, cem_unique_id = i, cem_error_code = c,
      cem_error_description = d, cem_error_details = unwrap_or x (JObject [])\<rparr>"

definition CallErrorMessage_from_code :: "string \<Rightarrow> CallErrorCode \<Rightarrow> json option \<Rightarrow> CallErrorMessage" where
  "CallErrorMessage_from_code i c x = CallErrorMessage_new i c (default_description c) x"

definition Message_call_result :: "string \<Rightarrow> json \<Rightarrow> Message" where
  "Message_call_result i p = Message.CallResult (CallResultMessage_new i p)"

definition Message_call_error :: "string \<Rightarrow> CallErrorCode \<Rightarrow> string \<Rightarrow> json option \<Rightarrow> Message" where
  "Message_call_error i c d x = Message.CallError (CallErrorMessage_new i c d x)"

text \<open>The derived \<open>Serialize\<close>: an object whose keys are the positions.\<close>

definition encode_message :: "Message \<Rightarrow> json" where
  "encode_message m = (case m of
      Message.Call c \<Rightarrow> JObject
        [(''0'', JString (MessageType_wire (cm_message_type c))), (''1'', JString (cm_unique_id c)),
         (''2'', JString (cm_action c)), (''3'', cm_payload c)]
    | Message.CallResult r \<Rightarrow> JObject
        [(''0'', JString (MessageType_wire (crm_message_type r))), (''1'', JString (crm_unique_id r)),
         (''2'', crm_payload r)]
    | Message.CallError e \<Rightarrow> JObject
        [(''0'', JString (MessageType_wire (cem_message_type e))), (''1'', JString (cem_unique_id e)),
         (''2'', JString (CallErrorCode_as_str (cem_error_code e))),
         (''3'', JString (cem_error_description e)), (''4'', cem_error_details e)])"

definition decode_call :: "json \<Rightarrow> CallMessage option" where
  "decode_call v = do {
     t \<leftarrow> Option.bind (json_get ''0'' v) (json_enum MessageType_of_wire);
     i \<leftarrow> Option.bind (json_get ''1'' v) json_as_str;
     a \<leftarrow> Option.bind (json_get ''2'' v) json_as_str;
     p \<leftarrow> json_get ''3'' v;
     Some \<lparr>cm_message_type = t, cm_unique_id = i, cm_action = a, cm_payload = p\<rparr> }"

definition decode_call_result :: "json \<Rightarrow> CallResultMessage option" where
  "decode_call_result v = do {
     t \<leftarrow> Option.bind (json_get ''0'' v) (json_enum MessageType_of_wire);
     i \<leftarrow> Option.bind (json_get ''1'' v) json_as_str;
     p \<leftarrow> json_get ''2'' v;
     Some \<lparr>crm_message_type = t, crm_unique_id = i, crm_payload = p\<rparr> }"

definition decode_call_error :: "json \<Rightarrow> CallErrorMessage option" where
  "decode_call_error v = do {
     t \<leftarrow> Option.bind (json_get ''0'' v) (json_enum MessageType_of_wire);
     i \<leftarrow> Option.bind (json_get ''1'' v) json_as_str;
     c \<leftarrow> Option.bind (json_get ''2'' v) (json_enum CallErrorCode_of_str);
     d \<leftarrow> Option.bind (json_get ''3'' v) json_as_str;
     x \<leftarrow> json_get ''4'' v;
     Some \<lparr>cem_message_type = t, cem_unique_id = i, cem_error_code = c,
           cem_error_description = d, cem_error_details = x\<rparr> }"

definition discriminator :: "json \<Rightarrow> string option" where
  "discriminator v = Option.bind (json_get ''0'' v) json_as_str"

text \<open>The hand-written \<open>Deserialize\<close> of \<open>Message\<close>, which dispatches on the discriminator.\<close>

definition decode_message :: "json \<Rightarrow> Message option" where
  "decode_message v =
     (if discriminator v = Some ''CALL'' then map_option Message.Call (decode_call v)
      else if discriminator v = Some ''CALLRESULT'' then map_option Message.CallResult (decode_call_result v)
      else if discriminator v = Some ''CALLERROR'' then map_option Message.CallError (decode_call_error v)
      else None)"

text \<open>A message whose tag field agrees with its variant, as every constructor makes it.\<close>

definition wf_message :: "Message \<Rightarrow> bool" where
  "wf_message m = (case m of
      Message.Call c \<Rightarrow> cm_message_type c = MessageType.Call
    | Message.CallResult r \<Rightarrow> crm_message_type r = MessageType.CallResult
    | Message.CallError e \<Rightarrow> cem_message_type e = MessageType.CallError)"

section \<open>Messages in array form\<close>

datatype RawMessage =
    RawCall "8 word" string string json
  | RawCallResult "8 word" string json
  | RawCallError "8 word" string string string json

definition raw_to_json :: "RawMessage \<Rightarrow> json" where
  "raw_to_json r = (case r of
      RawCall t i a p \<Rightarrow> JArray [JInt (uint t), JString i, JString a, p]
    | RawCallResult t i p \<Rightarrow> JArray [JInt (uint t), JString i, p]
    | RawCallError t i c d x \<Rightarrow> JArray [JInt (uint t), JString i, JString c, JString d, x])"

text \<open>The untagged \<open>Deserialize\<close>: the variants are tried in order, a tuple has its exact length.\<close>

definition raw_of_json :: "json \<Rightarrow> RawMessage option" where
  "raw_of_json v = (case v of
      JArray [vt, vi, va, p] \<Rightarrow> do {
        t \<leftarrow> json_u8 vt; i \<leftarrow> json_as_str vi; a \<leftarrow> json_as_str va; Some (RawCall t i a p) }
    | JArray [vt, vi, p] \<Rightarrow> do {
        t \<leftarrow> json_u8 vt; i \<leftarrow> json_as_str vi; Some (RawCallResult t i p) }
    | JArray [vt, vi, vc, vd, x] \<Rightarrow> do {
        t \<leftarrow> json_u8 vt; i \<leftarrow> json_as_str vi; c \<leftarrow> json_as_str vc; d \<leftarrow> json_as_str vd;
        Some (RawCallError t i c d x) }
    | _ \<Rightarrow> None)"

definition into_message :: "RawMessage \<Rightarrow> (OcppError, Message) result" where
  "into_message r = (case r of
      RawCall t i a p \<Rightarrow>
        if t \<noteq> 2 then Err (OcppError.InvalidMessageType t)
        else Ok (Message.Call \<lparr>cm_message_type = MessageType.Call, cm_unique_id = i,
                               cm_action = a, cm_payload = p\<rparr>)
    | RawCallResult t i p \<Rightarrow>
        if t \<noteq> 3 then Err (OcppError.InvalidMessageType t)
        else Ok (Message.CallResult \<lparr>crm_message_type = MessageType.CallResult, crm_unique_id = i,
                                     crm_payload = p\<rparr>)
    | RawCallError t i c d x \<Rightarrow>
        if t \<noteq> 4 then Err (OcppError.InvalidMessageType t)
        else (case CallErrorCode_of_str c of
                None \<Rightarrow> Err (ProtocolViolation (''Unknown error code: '' @ c))
              | Some code \<Rightarrow> Ok (Message.CallError
                  \<lparr>cem_message_type = MessageType.CallError, cem_unique_id = i, cem_error_code = code,
                   cem_error_description = d, cem_error_details = x\<rparr>)))"

definition raw_of_message :: "Message \<Rightarrow> RawMessage" where
  "raw_of_message m = (case m of
      Message.Call c \<Rightarrow> RawCall 2 (cm_unique_id c) (cm_action c) (cm_payload c)
    | Message.CallResult r \<Rightarrow> RawCallResult 3 (crm_unique_id r) (crm_payload r)
    | Message.CallError e \<Rightarrow> RawCallError 4 (cem_unique_id e)
        (CallErrorCode_as_str (cem_error_code e)) (cem_error_description e) (cem_error_details e))"

section \<open>Recovery of CALLERROR frames\<close>

definition OcppError_from :: "CallErrorMessage \<Rightarrow> OcppError" where
  "OcppError_from m = OcppError.CallError (cem_error_code m) (cem_error_description m) (cem_error_details m)"

text \<open>The argument is the parsed text, \<open>None\<close> when it is not JSON.\<close>

definition recover_inbound_call_error :: "json option \<Rightarrow> (string \<times> OcppError) option" where
  "recover_inbound_call_error parsed = do {
     v \<leftarrow> parsed;
     if discriminator v \<noteq> Some ''CALLERROR'' then None else do {
       i \<leftarrow> Option.bind (json_get ''1'' v) json_as_str;
       c \<leftarrow> Option.bind (json_get ''2'' v) json_as_str;
       let d = unwrap_or (Option.bind (json_get ''3'' v) json_as_str) [];
       let x = unwrap_or (json_get ''4'' v) (JObject []);
       case into_message (RawCallError 4 i c d x) of
         Inr (Message.CallError frame) \<Rightarrow> Some (i, OcppError_from frame)
       | Inr _ \<Rightarrow> None
       | Inl e \<Rightarrow> Some (i, e) } }"

section \<open>The serializer\<close>

datatype DateTimeFormat = Rfc3339 | Custom string

record SerializationRules =
  sr_include_null_fields :: bool
  sr_strict_field_ordering :: bool
  sr_max_message_size :: nat
  sr_datetime_format :: DateTimeFormat

definition SerializationRules_default :: SerializationRules where
  "SerializationRules_default = \<lparr>sr_include_null_fields = False, sr_strict_field_ordering = False,
     sr_max_message_size = 65536, sr_datetime_format = Rfc3339\<rparr>"

type_synonym MessageSerializer = "(string, SerializationRules) hmap"

definition MessageSerializer_new :: MessageSerializer where
  "MessageSerializer_new =
     AList.update ''2.0.1'' \<lparr>sr_include_null_fields = False, sr_strict_field_ordering = True,
        sr_max_message_size = 131072, sr_datetime_format = Rfc3339\<rparr>
     (AList.update ''1.6J'' \<lparr>sr_include_null_fields = False, sr_strict_field_ordering = False,
        sr_max_message_size = 65536, sr_datetime_format = Rfc3339\<rparr> [])"

definition add_version_rules ::
  "string \<Rightarrow> SerializationRules \<Rightarrow> MessageSerializer \<Rightarrow> MessageSerializer" where
  "add_version_rules v r s = AList.update v r s"

definition max_size_for :: "MessageSerializer \<Rightarrow> string \<Rightarrow> nat" where
  "max_size_for s v = sr_max_message_size (unwrap_or (map_of s v) SerializationRules_default)"

definition too_large :: "nat \<Rightarrow> nat \<Rightarrow> OcppError" where
  "too_large n mx = ValidationError
     (''Message size '' @ show_nat n @ '' exceeds maximum allowed size '' @ show_nat mx)"

text \<open>
  \<open>to_text\<close> and \<open>of_text\<close> are \<open>serde_json::to_string\<close> and \<open>from_str\<close>; \<open>of_text\<close> reports a syntax
  error as its text. A value that is no frame is reported with some text \<open>why\<close> of the library.
\<close>

definition serialize_message ::
  "(json \<Rightarrow> string) \<Rightarrow> MessageSerializer \<Rightarrow> string \<Rightarrow> Message \<Rightarrow> (OcppError, string) result" where
  "serialize_message to_text s v m =
     (let txt = to_text (raw_to_json (raw_of_message m))
      in if max_size_for s v < length txt then Err (too_large (length txt) (max_size_for s v))
         else Ok txt)"

definition deserialize_message ::
  "(string \<Rightarrow> (string, json) result) \<Rightarrow> string \<Rightarrow> MessageSerializer \<Rightarrow> string \<Rightarrow> string
     \<Rightarrow> (OcppError, Message) result" where
  "deserialize_message of_text why s v txt =
     (if max_size_for s v < length txt then Err (too_large (length txt) (max_size_for s v))
      else case of_text txt of
             Inl e \<Rightarrow> Err (Json e)
           | Inr j \<Rightarrow> (case raw_of_json j of None \<Rightarrow> Err (Json why) | Some r \<Rightarrow> into_message r))"

section \<open>The structural check\<close>

definition violation :: "string \<Rightarrow> (OcppError, unit) result" where
  "violation m = Err (ProtocolViolation m)"

definition validate_call_structure :: "json list \<Rightarrow> (OcppError, unit) result" where
  "validate_call_structure arr =
     (if length arr \<noteq> 4 then violation ''Call message must have exactly 4 elements''
      else if \<not> json_is_string (arr ! 2) then violation ''Third element must be action string''
      else if \<not> json_is_object (arr ! 3) then violation ''Fourth element must be payload object''
      else Ok ())"

definition validate_call_result_structure :: "json list \<Rightarrow> (OcppError, unit) result" where
  "validate_call_result_structure arr =
     (if length arr \<noteq> 3 then violation ''CallResult message must have exactly 3 elements''
      else if \<not> json_is_object (arr ! 2) then violation ''Third element must be payload object''
      else Ok ())"

definition validate_call_error_structure :: "json list \<Rightarrow> (OcppError, unit) result" where
  "validate_call_error_structure arr =
     (if length arr \<noteq> 5 then violation ''CallError message must have exactly 5 elements''
      else if \<not> json_is_string (arr ! 2) then violation ''Third element must be error code string''
      else if \<not> json_is_string (arr ! 3) then violation ''Fourth element must be error description string''
      else if \<not> json_is_object (arr ! 4) then violation ''Fifth element must be error details object''
      else Ok ())"

definition validate_json_structure :: "json \<Rightarrow> (OcppError, unit) result" where
  "validate_json_structure v = (case v of
      JArray arr \<Rightarrow>
        if length arr < 3 then violation ''OCPP message array must have at least 3 elements''
        else if \<not> json_is_number (arr ! 0) then violation ''First element must be message type number''
        else
          (let t = (ucast (unwrap_or (json_as_u64 (arr ! 0)) 0) :: 8 word)
           in if t \<notin> {2, 3, 4} then violation (''Invalid message type: '' @ show_nat (unat t))
              else if \<not> json_is_string (arr ! 1) then violation ''Second element must be unique ID string''
              else if t = 2 then validate_call_structure arr
              else if t = 3 then validate_call_result_structure arr
              else validate_call_error_structure arr)
    | _ \<Rightarrow> violation ''OCPP message must be a JSON array'')"

section \<open>Properties\<close>

lemmas decode_defs = decode_message_def decode_call_def decode_call_result_def decode_call_error_def
  discriminator_def

lemma message_cases:
  obtains (Call) i a p t where "m = Message.Call \<lparr>cm_message_type = t, cm_unique_id = i, cm_action = a, cm_payload = p\<rparr>"
  | (CallResult) t i p where "m = Message.CallResult \<lparr>crm_message_type = t, crm_unique_id = i, crm_payload = p\<rparr>"
  | (CallError) t i c d x where "m = Message.CallError \<lparr>cem_message_type = t, cem_unique_id = i,
      cem_error_code = c, cem_error_description = d, cem_error_details = x\<rparr>"
proof (cases m)
  case (Call c) with that(1) show ?thesis by (cases c) simp
next
  case (CallResult c) with that(2) show ?thesis by (cases c) simp
next
  case (CallError c) with that(3) show ?thesis by (cases c) simp
qed

lemma decode_encode_wf: "wf_message m \<Longrightarrow> decode_message (encode_message m) = Some m"
  by (cases m rule: message_cases)
    (simp_all add: wf_message_def encode_message_def decode_defs CallErrorCode_codec.of_to
      MessageType_codec.of_to [of MessageType.Call, simplified]
      MessageType_codec.of_to [of MessageType.CallResult, simplified]
      MessageType_codec.of_to [of MessageType.CallError, simplified])

lemma decode_message_wf: "decode_message v = Some m \<Longrightarrow> wf_message m"
  using MessageType_codec.of_to [of MessageType.Call] MessageType_codec.of_to [of MessageType.CallResult]
    MessageType_codec.of_to [of MessageType.CallError]
  by (auto simp: decode_defs wf_message_def bind_eq_Some_conv split: if_splits)

lemma into_message_iff: "into_message r = Ok m \<longleftrightarrow> wf_message m \<and> r = raw_of_message m"
proof
  assume "into_message r = Ok m"
  then show "wf_message m \<and> r = raw_of_message m"
    by (cases r) (auto simp: into_message_def raw_of_message_def wf_message_def
        CallErrorCode_codec.of_wire_Some_iff split: if_splits option.splits)
next
  assume "wf_message m \<and> r = raw_of_message m"
  then show "into_message r = Ok m"
    by (cases m rule: message_cases)
      (auto simp: into_message_def raw_of_message_def wf_message_def CallErrorCode_codec.of_to)
qed

lemma raw_of_json_iff: "raw_of_json v = Some r \<longleftrightarrow> v = raw_to_json r"
proof
  assume "raw_of_json v = Some r"
  then show "v = raw_to_json r"
    by (auto simp: raw_of_json_def raw_to_json_def json_u8_Some bind_eq_Some_conv
        split: json.splits list.splits)
next
  assume "v = raw_to_json r"
  moreover have "json_u8 (JInt (uint t)) = Some t" for t by (simp add: json_u8_Some)
  ultimately show "raw_of_json v = Some r"
    by (cases r) (simp_all add: raw_of_json_def raw_to_json_def)
qed

lemma raw_of_to_json [simp]: "raw_of_json (raw_to_json r) = Some r"
  by (simp add: raw_of_json_iff)

text \<open>
  Property C29. The object form round-trips: a message is read back from its frame exactly when its
  tag agrees with its variant, as it does for every message a constructor or the decoder makes;
  a frame is read as the kind its discriminator names and no other, so a CALLERROR is never taken
  for a CALL.
\<close>

theorem message_roundtrip:
  "(decode_message (encode_message m) = Some m \<longleftrightarrow> wf_message m)
   \<and> list_all wf_message [Message.Call (CallMessage_with_id i a p), Message_call_result i p,
        Message_call_error i c d x, Message.CallError (CallErrorMessage_from_code i c x)]
   \<and> (case decode_message v of None \<Rightarrow> True
      | Some m' \<Rightarrow> discriminator v = Some (MessageType_wire (message_type m'))
          \<and> json_get ''1'' v = Some (JString (unique_id m')))"
proof (intro conjI)
  show "decode_message (encode_message m) = Some m \<longleftrightarrow> wf_message m"
    using decode_encode_wf decode_message_wf by blast
  show "list_all wf_message [Message.Call (CallMessage_with_id i a p), Message_call_result i p,
        Message_call_error i c d x, Message.CallError (CallErrorMessage_from_code i c x)]"
    by (simp add: wf_message_def CallMessage_with_id_def Message_call_result_def
        CallResultMessage_new_def Message_call_error_def CallErrorMessage_new_def
        CallErrorMessage_from_code_def)
  show "case decode_message v of None \<Rightarrow> True
      | Some m' \<Rightarrow> discriminator v = Some (MessageType_wire (message_type m'))
          \<and> json_get ''1'' v = Some (JString (unique_id m'))"
    by (auto simp: decode_message_def decode_call_def decode_call_result_def decode_call_error_def
        message_type_def unique_id_def bind_eq_Some_conv split: option.splits if_splits)
qed

text \<open>
  The array form round-trips as well: a frame is accepted exactly when it is the array
  of a message, so the message type number is the one of its shape and the error code one of
  the twelve. The two forms exclude each other: an array frame, which is the form the documentation
  of \<open>RawMessage\<close> gives for the wire, is no frame for the receive loops, and conversely.
\<close>

theorem raw_message_roundtrip:
  "((\<exists>r'. raw_of_json v = Some r' \<and> into_message r' = Ok m)
      \<longleftrightarrow> wf_message m \<and> v = raw_to_json (raw_of_message m))
   \<and> decode_message (raw_to_json r) = None \<and> raw_of_json (encode_message m) = None"
proof (intro conjI)
  show "(\<exists>r'. raw_of_json v = Some r' \<and> into_message r' = Ok m)
      \<longleftrightarrow> wf_message m \<and> v = raw_to_json (raw_of_message m)"
    by (auto simp: raw_of_json_iff into_message_iff)
  show "decode_message (raw_to_json r) = None"
    by (cases r) (simp_all add: raw_to_json_def decode_message_def discriminator_def)
  show "raw_of_json (encode_message m) = None"
    by (cases m) (simp_all add: raw_of_json_def encode_message_def)
qed

text \<open>
  What the serializer writes it reads back: if the library reads back the text it wrote
  for the frame, then deserializing a successfully serialized message gives the message, whatever
  the version, and both directions refuse a text beyond the limit of the version.
\<close>

theorem serializer_roundtrip:
  assumes "of_text (to_text (raw_to_json (raw_of_message m))) = Ok (raw_to_json (raw_of_message m))"
    and "wf_message m" and "serialize_message to_text s v m = Ok txt"
  shows "deserialize_message of_text why s v txt = Ok m \<and> length txt \<le> max_size_for s v"
  using assms into_message_iff [of "raw_of_message m" m]
  by (auto simp: serialize_message_def deserialize_message_def Let_def split: if_splits)

theorem serializer_roundtrip_witness:
  "let m = Message.Call (CallMessage_with_id ''7'' ''Heartbeat'' (JObject []));
       f = raw_to_json (raw_of_message m); txt = ''[2,...]''
   in deserialize_message (\<lambda>_. Ok f) [] MessageSerializer_new ''1.6J'' txt = Ok m
      \<and> length txt \<le> max_size_for MessageSerializer_new ''1.6J''"
proof -
  define m where "m = Message.Call (CallMessage_with_id ''7'' ''Heartbeat'' (JObject []))"
  have "serialize_message (\<lambda>_. ''[2,...]'') MessageSerializer_new ''1.6J'' m = Ok ''[2,...]''"
    by (simp add: serialize_message_def max_size_for_def MessageSerializer_new_def)
  moreover have "wf_message m" by (simp add: m_def wf_message_def CallMessage_with_id_def)
  ultimately show ?thesis
    using serializer_roundtrip [of "\<lambda>_. Ok (raw_to_json (raw_of_message m))" "\<lambda>_. ''[2,...]''" m
        MessageSerializer_new "''1.6J''" "''[2,...]''" "[]"]
    by (simp add: m_def Let_def)
qed

text \<open>
  The structural check and the decoder agree on every array whose message type number fits a byte,
  but the check narrows the number first.
\<close>

definition raw_checked :: "RawMessage \<Rightarrow> bool" where
  "raw_checked r = (case r of
      RawCall t _ _ p \<Rightarrow> t = 2 \<and> json_is_object p
    | RawCallResult t _ p \<Rightarrow> t = 3 \<and> json_is_object p
    | RawCallError t _ _ _ x \<Rightarrow> t = 4 \<and> json_is_object x)"

lemma violation_not_Ok [simp]: "violation m \<noteq> Ok ()" "Ok () \<noteq> violation m"
  by (simp_all add: violation_def)

lemma json_is_string_iff: "json_is_string v \<longleftrightarrow> (\<exists>s. v = JString s)"
  by (cases v) (simp_all add: json_is_string_def)

lemma validate_call_structure_iff:
  "validate_call_structure (vt # vi # vs) = Ok () \<longleftrightarrow> (\<exists>a p. vs = [JString a, p] \<and> json_is_object p)"
  by (cases vs rule: list.exhaust; auto simp: validate_call_structure_def json_is_string_iff
      numeral_2_eq_2 numeral_3_eq_3 length_Suc_conv nth_Cons split: nat.splits)

lemma validate_call_result_structure_iff:
  "validate_call_result_structure (vt # vi # vs) = Ok () \<longleftrightarrow> (\<exists>p. vs = [p] \<and> json_is_object p)"
  by (auto simp: validate_call_result_structure_def numeral_2_eq_2 numeral_3_eq_3 length_Suc_conv)

lemma validate_call_error_structure_iff:
  "validate_call_error_structure (vt # vi # vs) = Ok ()
   \<longleftrightarrow> (\<exists>c d x. vs = [JString c, JString d, x] \<and> json_is_object x)"
  by (auto simp: validate_call_error_structure_def json_is_string_iff eval_nat_numeral length_Suc_conv)

lemma uint_eq_numeral: "uint (w :: 8 word) = numeral k \<Longrightarrow> w = numeral k"
proof -
  assume u: "uint w = numeral k"
  have "w = word_of_int (uint w)" by simp
  then show "w = numeral k" unfolding u by simp
qed

lemma ex_raw_checked:
  "(\<exists>r. raw_of_json (JArray (JInt (uint (w :: 8 word)) # vi # vs)) = Some r \<and> raw_checked r) \<longleftrightarrow>
   json_is_string vi \<and>
     (w = 2 \<and> (\<exists>a p. vs = [JString a, p] \<and> json_is_object p)
      \<or> w = 3 \<and> (\<exists>p. vs = [p] \<and> json_is_object p)
      \<or> w = 4 \<and> (\<exists>c d x. vs = [JString c, JString d, x] \<and> json_is_object x))" (is "?L \<longleftrightarrow> ?R")
proof
  assume ?L
  then obtain r where r: "JArray (JInt (uint w) # vi # vs) = raw_to_json r" "raw_checked r"
    by (auto simp: raw_of_json_iff)
  then show ?R by (cases r) (auto simp: raw_to_json_def raw_checked_def json_is_string_iff dest: uint_eq_numeral)
next
  assume R: ?R
  then obtain i where vi: "vi = JString i" by (auto simp: json_is_string_iff)
  from R consider (call) a p where "w = 2" "vs = [JString a, p]" "json_is_object p"
    | (res) p where "w = 3" "vs = [p]" "json_is_object p"
    | (err) c d x where "w = 4" "vs = [JString c, JString d, x]" "json_is_object x" by blast
  then show ?L
  proof cases
    case call with vi show ?thesis
      by (intro exI [of _ "RawCall 2 i a p"]) (simp add: raw_of_json_iff raw_to_json_def raw_checked_def)
  next
    case res with vi show ?thesis
      by (intro exI [of _ "RawCallResult 3 i p"]) (simp add: raw_of_json_iff raw_to_json_def raw_checked_def)
  next
    case err with vi show ?thesis
      by (intro exI [of _ "RawCallError 4 i c d x"]) (simp add: raw_of_json_iff raw_to_json_def raw_checked_def)
  qed
qed

lemma validate_array:
  assumes n: "0 \<le> n" "n < 2 ^ 64"
  shows "validate_json_structure (JArray (JInt n # vi # vs)) = Ok ()
   \<longleftrightarrow> (\<exists>r. raw_of_json (JArray (JInt (n mod 256) # vi # vs)) = Some r \<and> raw_checked r)"
proof -
  define w where "w = (word_of_int n :: 8 word)"
  have u: "n mod 256 = uint w" by (simp add: w_def uint_word_of_int)
  have t: "(ucast (unwrap_or (json_as_u64 (JInt n)) 0) :: 8 word) = w"
    using n by (simp add: json_as_u64_def w_def ucast_eq uint_word_of_int)
  have nonempty: "\<not> (\<exists>r. raw_of_json (JArray [JInt (uint w), vi]) = Some r \<and> raw_checked r)"
    using ex_raw_checked [of w vi "[]"] by simp
  show ?thesis
  proof (cases vs)
    case Nil with nonempty show ?thesis by (simp add: validate_json_structure_def u)
  next
    case (Cons v vs')
    then show ?thesis
      unfolding u ex_raw_checked
      by (auto simp: validate_json_structure_def Let_def t json_is_number_def
          validate_call_structure_iff validate_call_result_structure_iff validate_call_error_structure_iff)
  qed
qed

text \<open>
  The structural check accepts exactly the arrays that the decoder would accept with an
  object as payload, up to an unknown error code, once the message type number is reduced modulo
  256: a type number such as 258 passes the check although the decoder refuses it.
\<close>

theorem structure_check_exact:
  "validate_json_structure v = Ok () \<longleftrightarrow>
     (\<exists>n vs r. v = JArray (JInt n # vs) \<and> 0 \<le> n \<and> n < 2 ^ 64
        \<and> raw_of_json (JArray (JInt (n mod 256) # vs)) = Some r \<and> raw_checked r)"
  (is "_ \<longleftrightarrow> (\<exists>n vs r. ?P n vs r)")
proof
  assume ok: "validate_json_structure v = Ok ()"
  then obtain arr where v: "v = JArray arr" by (cases v) (auto simp: validate_json_structure_def)
  with ok have len: "3 \<le> length arr" by (auto simp: validate_json_structure_def split: if_splits)
  then obtain v0 vi vs where arr: "arr = v0 # vi # vs"
    by (auto simp: numeral_3_eq_3 Suc_le_length_iff)
  have "json_as_u64 v0 \<noteq> None"
  proof
    assume "json_as_u64 v0 = None"
    with ok v arr show False by (simp add: validate_json_structure_def split: if_splits)
  qed
  then obtain n where n: "v0 = JInt n" "0 \<le> n" "n < 2 ^ 64"
    by (cases v0) (auto simp: json_as_u64_def split: if_splits)
  with ok v arr validate_array [of n vi vs] show "\<exists>n vs r. ?P n vs r" by auto
next
  assume "\<exists>n vs r. ?P n vs r"
  then obtain n vs r where P: "?P n vs r" by blast
  then obtain vi vs' where "vs = vi # vs'"
    by (cases vs) (auto simp: raw_of_json_def)
  with P validate_array [of n vi vs'] show "validate_json_structure v = Ok ()" by auto
qed

end
