(* ===== verification/Configuration.thy ===== *)
theory Configuration
  imports Data_Transfer Local_List Messages
begin

text \<open>
  The configuration keys of a 1.6J station: \<open>ConfigurationStore\<close> of \<open>message_handler.rs\<close>, the ChangeConfiguration and
  GetConfiguration handlers of \<open>lib.rs\<close>, and the message handler of \<open>message_handler.rs\<close>, which answers nine actions
  from a store, a table of connector states and a table of transactions of its own. The reading of a payload, derived by
  \<open>serde\<close>, is a parameter.
\<close>

section \<open>The store\<close>

record ConfigurationStore =
  cfg_keys :: "(string, string) hmap"
  cfg_readonly_keys :: "string list"

definition default_keys :: "(string, string) hmap" where
  "default_keys = [
     (''AuthorizeRemoteTxRequests'', ''true''), (''ClockAlignedDataInterval'', ''0''), (''ConnectionTimeOut'', ''60''),
     (''GetConfigurationMaxKeys'', ''100''), (''HeartbeatInterval'', ''86400''), (''LocalAuthListEnabled'', ''false''),
     (''LocalAuthListMaxLength'', show_nat DEFAULT_LOCAL_AUTH_LIST_MAX_LENGTH), (''LocalAuthorizeOffline'', ''true''),
     (''LocalPreAuthorize'', ''false''), (''MeterValuesAlignedData'', ''''),
     (''MeterValuesSampledData'', ''Energy.Active.Import.Register''), (''MeterValueSampleInterval'', ''60''),
     (''NumberOfConnectors'', ''2''), (''ResetRetries'', ''3''), (''ConnectorPhaseRotation'', ''NotApplicable''),
     (''StopTransactionOnEVSideDisconnect'', ''true''), (''StopTransactionOnInvalidId'', ''true''),
     (''StopTxnAlignedData'', ''''), (''StopTxnSampledData'', ''''), (''SupportedFeatureProfiles'', ''Core''),
     (''TransactionMessageAttempts'', ''3''), (''TransactionMessageRetryInterval'', ''60''),
     (''UnlockConnectorOnEVSideDisconnect'', ''true'')]"

definition ConfigurationStore_new :: ConfigurationStore where
  "ConfigurationStore_new = \<lparr>cfg_keys = default_keys,
     cfg_readonly_keys = [''NumberOfConnectors'', ''SupportedFeatureProfiles'', ''LocalAuthListMaxLength'']\<rparr>"

definition config_get :: "ConfigurationStore \<Rightarrow> string \<Rightarrow> string option" where
  "config_get c k = map_of (cfg_keys c) k"

definition config_is_readonly :: "ConfigurationStore \<Rightarrow> string \<Rightarrow> bool" where
  "config_is_readonly c k = (k \<in> set (cfg_readonly_keys c))"

definition config_set :: "string \<Rightarrow> string \<Rightarrow> ConfigurationStore \<Rightarrow> (string, unit) result \<times> ConfigurationStore" where
  "config_set k v c =
     (if k \<in> set (cfg_readonly_keys c) then (Err (''Key '' @ [CHR 0x27] @ k @ [CHR 0x27] @ '' is read-only''), c)
      else (Ok (), c\<lparr>cfg_keys := AList.update k v (cfg_keys c)\<rparr>))"

definition config_set_readonly :: "string \<Rightarrow> string \<Rightarrow> ConfigurationStore \<Rightarrow> ConfigurationStore" where
  "config_set_readonly k v c =
     c\<lparr>cfg_keys := AList.update k v (cfg_keys c), cfg_readonly_keys := List.insert k (cfg_readonly_keys c)\<rparr>"

text \<open>The store \<open>ChargePoint::new\<close> makes: the capacity of the local list is that of the configuration.\<close>

definition station_config_store :: "nat \<Rightarrow> ConfigurationStore" where
  "station_config_store max_length = config_set_readonly ''LocalAuthListMaxLength'' (show_nat max_length) ConfigurationStore_new"

section \<open>ChangeConfiguration and GetConfiguration\<close>

definition handle_change_configuration :: "string \<Rightarrow> string \<Rightarrow> ConfigurationStore \<Rightarrow> ConfigurationStatus \<times> ConfigurationStore" where
  "handle_change_configuration k v c =
     (case config_set k v c of
        (Ok _, c') \<Rightarrow> (ConfigurationStatus.Accepted, c')
      | (Err e, c') \<Rightarrow> (if str_contains ''read-only'' e then ConfigurationStatus.Rejected else ConfigurationStatus.NotSupported, c'))"

definition key_value :: "ConfigurationStore \<Rightarrow> string \<Rightarrow> string \<Rightarrow> KeyValue" where
  "key_value c k v = \<lparr>kv_key = k, kv_value = Some v, kv_readonly = Some (config_is_readonly c k)\<rparr>"

fun lookup_keys :: "ConfigurationStore \<Rightarrow> string list \<Rightarrow> KeyValue list \<times> string list \<Rightarrow> KeyValue list \<times> string list" where
  "lookup_keys c [] acc = acc"
| "lookup_keys c (k # ks) (found, missing) =
     lookup_keys c ks (case config_get c k of
        Some v \<Rightarrow> (found @ [key_value c k v], missing)
      | None \<Rightarrow> (found, missing @ [k]))"

definition handle_get_configuration ::
  "string list option \<Rightarrow> ConfigurationStore \<Rightarrow> KeyValue list option \<times> string list option" where
  "handle_get_configuration keys c = (case keys of
      Some ks \<Rightarrow> (let (found, missing) = lookup_keys c ks ([], [])
                 in (Some found, if missing = [] then None else Some missing))
    | None \<Rightarrow> (Some (map (\<lambda>(k, v). key_value c k v) (cfg_keys c)), None))"

section \<open>The message handler\<close>

datatype handler_event = BootNotificationAccepted string u32 | ErrorEvent string

record MessageHandler =
  mh_events :: "handler_event list"
  mh_config :: ConfigurationStore
  mh_states :: "(ConnectorId, ChargePointStatus) hmap"
  mh_transactions :: "(ConnectorId, i32) hmap"

definition MessageHandler_new :: MessageHandler where
  "MessageHandler_new = \<lparr>mh_events = [], mh_config = ConfigurationStore_new, mh_states = [], mh_transactions = []\<rparr>"

definition handle_boot_notification_response :: "string \<Rightarrow> u32 \<Rightarrow> MessageHandler \<Rightarrow> MessageHandler" where
  "handle_boot_notification_response now interval h =
     h\<lparr>mh_events := mh_events h @ [BootNotificationAccepted now interval],
       mh_config := snd (config_set ''HeartbeatInterval'' (show_nat (unat interval)) (mh_config h))\<rparr>"

definition mh_change_availability :: "u32 \<Rightarrow> (id_error, AvailabilityStatus) result" where
  "mh_change_availability cid =
     (if cid = 0 then Ok AvailabilityStatus.Accepted
      else (case ConnectorId_new cid of Err e \<Rightarrow> Err e | Ok _ \<Rightarrow> Ok AvailabilityStatus.Accepted))"

definition mh_remote_start_transaction :: "u32 option \<Rightarrow> MessageHandler \<Rightarrow> (id_error, RemoteStartStopStatus) result" where
  "mh_remote_start_transaction cid h =
     (case ConnectorId_new (case cid of Some i \<Rightarrow> i | None \<Rightarrow> 1) of
        Err e \<Rightarrow> Err e
      | Ok c \<Rightarrow> Ok (case map_of (mh_states h) c of
            Some st \<Rightarrow> if st = ChargePointStatus.Available \<or> st = ChargePointStatus.Reserved
                       then RemoteStartStopStatus.Accepted else RemoteStartStopStatus.Rejected
          | None \<Rightarrow> RemoteStartStopStatus.Accepted))"

definition mh_remote_stop_transaction :: "i32 \<Rightarrow> MessageHandler \<Rightarrow> RemoteStartStopStatus" where
  "mh_remote_stop_transaction tid h =
     (if list_ex (\<lambda>(_, t). t = tid) (mh_transactions h) then RemoteStartStopStatus.Accepted else RemoteStartStopStatus.Rejected)"

definition mh_reset :: "ResetType \<Rightarrow> ResetStatus" where
  "mh_reset t = (case t of ResetType.Soft \<Rightarrow> ResetStatus.Accepted | ResetType.Hard \<Rightarrow> ResetStatus.Accepted)"

definition mh_unlock_connector :: "u32 \<Rightarrow> MessageHandler \<Rightarrow> (id_error, UnlockStatus) result" where
  "mh_unlock_connector cid h =
     (case ConnectorId_new cid of
        Err e \<Rightarrow> Err e
      | Ok c \<Rightarrow> Ok (case map_of (mh_states h) c of
            Some st \<Rightarrow> if st \<in> {ChargePointStatus.Charging, ChargePointStatus.SuspendedEV, ChargePointStatus.SuspendedEVSE,
                               ChargePointStatus.Finishing} then UnlockStatus.Unlocked
                       else if st = ChargePointStatus.Available then UnlockStatus.UnlockFailed
                       else UnlockStatus.NotSupported
          | None \<Rightarrow> UnlockStatus.UnlockFailed))"

definition mh_clear_cache :: ClearCacheStatus where
  "mh_clear_cache = ClearCacheStatus.Accepted"

definition mh_data_transfer :: "DataTransferRequest \<Rightarrow> DataTransferResponse" where
  "mh_data_transfer r = \<lparr>dts_status = DataTransferStatus.Accepted, dts_data = dtr_data r\<rparr>"

definition update_connector_state :: "ConnectorId \<Rightarrow> ChargePointStatus \<Rightarrow> MessageHandler \<Rightarrow> MessageHandler" where
  "update_connector_state c st h = h\<lparr>mh_states := AList.update c st (mh_states h)\<rparr>"

definition update_active_transaction :: "ConnectorId \<Rightarrow> i32 option \<Rightarrow> MessageHandler \<Rightarrow> MessageHandler" where
  "update_active_transaction c t h = h\<lparr>mh_transactions := (case t of
      Some i \<Rightarrow> AList.update c i (mh_transactions h) | None \<Rightarrow> AList.delete c (mh_transactions h))\<rparr>"

definition mh_set_config_value :: "string \<Rightarrow> string \<Rightarrow> MessageHandler \<Rightarrow> (string, unit) result \<times> MessageHandler" where
  "mh_set_config_value k v h = (let (r, c) = config_set k v (mh_config h) in
     (case r of Ok u \<Rightarrow> Ok u | Err e \<Rightarrow> Err (''Configuration error: '' @ e), h\<lparr>mh_config := c\<rparr>))"

text \<open>A request of one of the nine actions, read from its payload by \<open>decode\<close> (which gives the error text otherwise).\<close>

datatype handler_request =
    ChangeAvailability u32 AvailabilityType
  | ChangeConfiguration string string
  | GetConfiguration "string list option"
  | RemoteStartTransaction "u32 option" string
  | RemoteStopTransaction i32
  | Reset ResetType
  | UnlockConnector u32
  | ClearCache
  | DataTransfer DataTransferRequest

datatype handler_response =
    AvailabilityAnswer AvailabilityStatus
  | ConfigurationAnswer ConfigurationStatus
  | KeysAnswer "KeyValue list option" "string list option"
  | StartStopAnswer RemoteStartStopStatus
  | ResetAnswer ResetStatus
  | UnlockAnswer UnlockStatus
  | CacheAnswer ClearCacheStatus
  | TransferAnswer DataTransferResponse

definition supported_actions :: "string list" where
  "supported_actions = [''ChangeAvailability'', ''ChangeConfiguration'', ''GetConfiguration'', ''RemoteStartTransaction'',
     ''RemoteStopTransaction'', ''Reset'', ''UnlockConnector'', ''ClearCache'', ''DataTransfer'']"

fun mh_answer :: "handler_request \<Rightarrow> MessageHandler \<Rightarrow> (id_error, handler_response) result \<times> MessageHandler" where
  "mh_answer (ChangeAvailability cid t) h = (map_sum id AvailabilityAnswer (mh_change_availability cid), h)"
| "mh_answer (ChangeConfiguration k v) h = (let (st, c) = handle_change_configuration k v (mh_config h)
     in (Ok (ConfigurationAnswer st), h\<lparr>mh_config := c\<rparr>))"
| "mh_answer (GetConfiguration ks) h = (let (found, missing) = handle_get_configuration ks (mh_config h)
     in (Ok (KeysAnswer found missing), h))"
| "mh_answer (RemoteStartTransaction cid tag) h = (map_sum id StartStopAnswer (mh_remote_start_transaction cid h), h)"
| "mh_answer (RemoteStopTransaction tid) h = (Ok (StartStopAnswer (mh_remote_stop_transaction tid h)), h)"
| "mh_answer (Reset t) h = (Ok (ResetAnswer (mh_reset t)), h)"
| "mh_answer (UnlockConnector cid) h = (map_sum id UnlockAnswer (mh_unlock_connector cid h), h)"
| "mh_answer ClearCache h = (Ok (CacheAnswer mh_clear_cache), h)"
| "mh_answer (DataTransfer r) h = (Ok (TransferAnswer (mh_data_transfer r)), h)"

text \<open>An error of a handler passes through \<open>anyhow\<close> and becomes an internal error with its text.\<close>

fun id_error_display :: "id_error \<Rightarrow> string" where
  "id_error_display (id_error.InvalidConnectorId i) = OcppError_display (OcppError.InvalidConnectorId i)"
| "id_error_display (id_error.InvalidMessageType n) = OcppError_display (OcppError.InvalidMessageType n)"

definition mh_handle_message ::
  "(string \<Rightarrow> json \<Rightarrow> (string, handler_request) result) \<Rightarrow> (json \<Rightarrow> (string \<times> u32) option) \<Rightarrow> Message \<Rightarrow> MessageHandler
     \<Rightarrow> (OcppError, (string \<times> handler_response) option) result \<times> MessageHandler" where
  "mh_handle_message decode boot_response m h = (case m of
      Message.Call c \<Rightarrow>
        (if cm_action c \<notin> set supported_actions then (Err (OcppError.NotSupported (cm_action c)), h)
         else (case decode (cm_action c) (cm_payload c) of
           Err e \<Rightarrow> (Err (Internal (''Serialization error: Failed to deserialize payload: '' @ OcppError_display (Json e))), h)
         | Ok r \<Rightarrow> (case mh_answer r h of
             (Err e, h') \<Rightarrow> (Err (Internal (id_error_display e)), h')
           | (Ok a, h') \<Rightarrow> (Ok (Some (cm_unique_id c, a)), h'))))
    | Message.CallResult r \<Rightarrow>
        (Ok None, case boot_response (crm_payload r) of
            Some (now, interval) \<Rightarrow> handle_boot_notification_response now interval h
          | None \<Rightarrow> h)
    | Message.CallError e \<Rightarrow>
        (Ok None, h\<lparr>mh_events := mh_events h @
           [ErrorEvent (''Call error: '' @ CallErrorCode_display (cem_error_code e) @ '' - '' @ cem_error_description e)]\<rparr>))"

section \<open>Properties\<close>

lemma read_only_text: "str_contains ''read-only'' (''Key '' @ [q] @ k @ [q'] @ '' is read-only'')"
proof -
  define t where "t = ''Key '' @ [q] @ k @ [q'] @ '' is ''"
  have t: "''Key '' @ [q] @ k @ [q'] @ '' is read-only'' = t @ ''read-only''" by (simp add: t_def)
  have "length t \<in> set [0..<Suc (length (t @ ''read-only''))]" by simp
  then show ?thesis unfolding t str_contains_def list_ex_iff by (intro bexI [of _ "length t"]) simp_all
qed

lemma change_configuration_eq:
  "handle_change_configuration k v c =
     (if config_is_readonly c k then (ConfigurationStatus.Rejected, c)
      else (ConfigurationStatus.Accepted, c\<lparr>cfg_keys := AList.update k v (cfg_keys c)\<rparr>))"
  using read_only_text [of "CHR 0x27" k "CHR 0x27"]
  by (simp add: handle_change_configuration_def config_set_def config_is_readonly_def)

definition config_exec :: "string \<times> string \<Rightarrow> ConfigurationStore \<Rightarrow> ConfigurationStore" where
  "config_exec kv c = snd (handle_change_configuration (fst kv) (snd kv) c)"

text \<open>What the messages of the CSMS keep of the store a station starts with.\<close>

definition config_inv :: "ConfigurationStore \<Rightarrow> ConfigurationStore \<Rightarrow> bool" where
  "config_inv c0 c \<longleftrightarrow> hm_wf (cfg_keys c) \<and> cfg_readonly_keys c = cfg_readonly_keys c0
     \<and> (\<forall>k. config_is_readonly c0 k \<longrightarrow> config_get c k = config_get c0 k)
     \<and> (\<forall>k. config_get c0 k \<noteq> None \<longrightarrow> config_get c k \<noteq> None)"

interpretation config_machine: machine config_exec "config_inv c0" for c0
proof
  show "config_inv c0 c \<Longrightarrow> config_inv c0 (config_exec kv c)" for c kv
    by (auto simp: config_inv_def config_exec_def change_configuration_eq config_get_def config_is_readonly_def hm_get_update)
qed

lemma wf_default_keys: "hm_wf default_keys"
  by (simp add: hm_wf_def default_keys_def)

lemma config_inv_refl: "hm_wf (cfg_keys c) \<Longrightarrow> config_inv c c"
  by (simp add: config_inv_def)

lemma station_readonly:
  "config_is_readonly (station_config_store n) k \<longleftrightarrow> k \<in> {''NumberOfConnectors'', ''SupportedFeatureProfiles'', ''LocalAuthListMaxLength''}"
  by (auto simp: config_is_readonly_def station_config_store_def config_set_readonly_def ConfigurationStore_new_def)

lemma station_values:
  "config_get (station_config_store n) ''NumberOfConnectors'' = Some ''2''"
  "config_get (station_config_store n) ''SupportedFeatureProfiles'' = Some ''Core''"
  "config_get (station_config_store n) ''LocalAuthListMaxLength'' = Some (show_nat n)"
  by (simp_all add: config_get_def station_config_store_def config_set_readonly_def ConfigurationStore_new_def hm_get_update
      default_keys_def)

text \<open>
  Property C18. The configuration keys of a station, after any ChangeConfiguration messages: a change is rejected exactly for
  the three read-only keys and leaves everything as it was, otherwise it is accepted, for unknown keys too, and the value is
  the one read back while no other key changes. The read-only keys never change: the local list capacity is the configured
  one, and NumberOfConnectors is 2, however many connectors the station has.
\<close>

theorem configuration_spec:
  "let c = fold config_exec changes (station_config_store n);
       (st, c') = handle_change_configuration k v c;
       readonly = (k \<in> {''NumberOfConnectors'', ''SupportedFeatureProfiles'', ''LocalAuthListMaxLength''})
   in st = (if readonly then ConfigurationStatus.Rejected else ConfigurationStatus.Accepted)
      \<and> (\<forall>k'. config_get c' k' = (if k' = k \<and> \<not> readonly then Some v else config_get c k'))
      \<and> config_get c ''NumberOfConnectors'' = Some ''2'' \<and> config_get c ''SupportedFeatureProfiles'' = Some ''Core''
      \<and> config_get c ''LocalAuthListMaxLength'' = Some (show_nat n)
      \<and> config_get c ''HeartbeatInterval'' \<noteq> None"
proof -
  have inv: "config_inv (station_config_store n) (fold config_exec changes (station_config_store n))"
    by (rule config_machine.run_inv, rule config_inv_refl)
      (simp add: station_config_store_def config_set_readonly_def ConfigurationStore_new_def wf_default_keys)
  have hb: "config_get (station_config_store n) ''HeartbeatInterval'' \<noteq> None"
    by (simp add: config_get_def station_config_store_def config_set_readonly_def ConfigurationStore_new_def hm_get_update
        default_keys_def)
  have ro: "config_is_readonly (fold config_exec changes (station_config_store n)) k
      \<longleftrightarrow> k \<in> {''NumberOfConnectors'', ''SupportedFeatureProfiles'', ''LocalAuthListMaxLength''}" for k
    using inv station_readonly [of n k] by (simp add: config_inv_def config_is_readonly_def)
  have vals: "config_is_readonly (station_config_store n) k \<Longrightarrow>
      config_get (fold config_exec changes (station_config_store n)) k = config_get (station_config_store n) k" for k
    using inv by (simp add: config_inv_def)
  have "config_get (fold config_exec changes (station_config_store n)) ''HeartbeatInterval'' \<noteq> None"
    using inv hb unfolding config_inv_def by blast
  then show ?thesis
    using vals [of "''NumberOfConnectors''"] vals [of "''SupportedFeatureProfiles''"] vals [of "''LocalAuthListMaxLength''"]
    unfolding Let_def change_configuration_eq ro
    by (simp add: station_readonly station_values [unfolded config_get_def] config_get_def hm_get_update)
qed

text \<open>GetConfiguration answers the requested keys in order, the known ones with their values and the others as unknown.\<close>

lemma lookup_keys_eq:
  "lookup_keys c ks (found, missing) =
     (found @ map (\<lambda>k. key_value c k (the (config_get c k))) (filter (\<lambda>k. config_get c k \<noteq> None) ks),
      missing @ filter (\<lambda>k. config_get c k = None) ks)"
  by (induction ks arbitrary: found missing) (auto split: option.split)

text \<open>
  The message handler answers a CALL of one of its nine actions with the id of the CALL and every other action
  with NotSupported; only ChangeConfiguration changes its state, and only the value of one key. A GetConfiguration answer
  lists the requested keys the store has, in the order of the request with their values, and the others as unknown.
\<close>

theorem message_handler_spec:
  "(let (r, h') = mh_handle_message decode boot (Message.Call c) h in
      (r = Err (OcppError.NotSupported (cm_action c)) \<or> cm_action c \<in> set supported_actions)
      \<and> (case r of Inr (Some (i, _)) \<Rightarrow> i = cm_unique_id c | Inr None \<Rightarrow> False | Inl _ \<Rightarrow> h' = h)
      \<and> mh_states h' = mh_states h \<and> mh_transactions h' = mh_transactions h \<and> mh_events h' = mh_events h
      \<and> (mh_config h' = mh_config h \<or> (\<exists>k v. decode (cm_action c) (cm_payload c) = Ok (ChangeConfiguration k v)
            \<and> \<not> config_is_readonly (mh_config h) k
            \<and> mh_config h' = (mh_config h)\<lparr>cfg_keys := AList.update k v (cfg_keys (mh_config h))\<rparr>)))
   \<and> (let known = (\<lambda>k. config_get store k \<noteq> None); (found, missing) = handle_get_configuration (Some ks) store in
      map_option (map kv_key) found = Some (filter known ks)
      \<and> map_option (map kv_value) found = Some (map (config_get store) (filter known ks))
      \<and> missing = (if list_all known ks then None else Some (filter (\<lambda>k. \<not> known k) ks)))"
proof (rule conjI)
  have err: "fst (mh_answer r h) = Err e \<Longrightarrow> snd (mh_answer r h) = h" for r e
    by (cases r) (auto simp: Let_def case_prod_beta)
  have frame: "mh_states (snd (mh_answer r h)) = mh_states h \<and> mh_transactions (snd (mh_answer r h)) = mh_transactions h
      \<and> mh_events (snd (mh_answer r h)) = mh_events h
      \<and> (mh_config (snd (mh_answer r h)) = mh_config h \<or> (\<exists>k v. r = ChangeConfiguration k v \<and> \<not> config_is_readonly (mh_config h) k
           \<and> mh_config (snd (mh_answer r h)) = (mh_config h)\<lparr>cfg_keys := AList.update k v (cfg_keys (mh_config h))\<rparr>))" for r
    by (cases r) (auto simp: Let_def case_prod_beta change_configuration_eq)
  show "let (r, h') = mh_handle_message decode boot (Message.Call c) h in
      (r = Err (OcppError.NotSupported (cm_action c)) \<or> cm_action c \<in> set supported_actions)
      \<and> (case r of Inr (Some (i, _)) \<Rightarrow> i = cm_unique_id c | Inr None \<Rightarrow> False | Inl _ \<Rightarrow> h' = h)
      \<and> mh_states h' = mh_states h \<and> mh_transactions h' = mh_transactions h \<and> mh_events h' = mh_events h
      \<and> (mh_config h' = mh_config h \<or> (\<exists>k v. decode (cm_action c) (cm_payload c) = Ok (ChangeConfiguration k v)
            \<and> \<not> config_is_readonly (mh_config h) k
            \<and> mh_config h' = (mh_config h)\<lparr>cfg_keys := AList.update k v (cfg_keys (mh_config h))\<rparr>))"
  proof (cases "decode (cm_action c) (cm_payload c)")
    case (Inr r)
    with err [of r] frame [of r] show ?thesis
      by (cases "mh_answer r h") (auto simp: mh_handle_message_def split: sum.split)
  qed (simp add: mh_handle_message_def)
next
  have nil: "filter (\<lambda>k. config_get store k = None) ks = [] \<longleftrightarrow> list_all (\<lambda>k. config_get store k \<noteq> None) ks"
    by (simp add: filter_empty_conv list_all_iff)
  show "let known = (\<lambda>k. config_get store k \<noteq> None); (found, missing) = handle_get_configuration (Some ks) store in
      map_option (map kv_key) found = Some (filter known ks)
      \<and> map_option (map kv_value) found = Some (map (config_get store) (filter known ks))
      \<and> missing = (if list_all known ks then None else Some (filter (\<lambda>k. \<not> known k) ks))"
    by (simp add: Let_def handle_get_configuration_def lookup_keys_eq key_value_def comp_def nil)
qed

end
