(* ===== verification/Transaction_Events.thy ===== *)
theory Transaction_Events
  imports Datatypes201
begin

text \<open>
  \<open>ocpp-cp/src/v201_transaction.rs\<close>: the builders of the 2.0.1 \<open>TransactionEvent\<close> message, with the structure
  of the message from \<open>ocpp-messages/src/v201/transaction_event.rs\<close>.
\<close>

record TransactionEventRequest =
  te_event_type :: TransactionEventEnumType
  te_timestamp :: string
  te_trigger_reason :: TriggerReasonEnumType
  te_seq_no :: i32
  te_transaction_info :: TransactionType
  te_offline :: "bool option"
  te_number_of_phases_used :: "i32 option"
  te_cable_max_current :: "i32 option"
  te_reservation_id :: "i32 option"
  te_evse :: "EvseType option"
  te_meter_value :: "MeterValueType list option"
  te_id_token :: "IdTokenType option"
  te_custom_data :: "CustomDataType option"

record TransactionEventResponse =
  ter_total_cost :: "f64 option"
  ter_charging_priority :: "i32 option"
  ter_id_token_info :: "IdTokenInfoType option"
  ter_updated_personal_message :: "MessageContentType option"
  ter_custom_data :: "CustomDataType option"

record SessionRef =
  sr_transaction_id :: string
  sr_evse_id :: i32
  sr_connector_id :: i32

section \<open>Reasons\<close>

fun reason_to_v201 :: "Reason \<Rightarrow> ReasonEnumType" where
  "reason_to_v201 Reason.EmergencyStop = ReasonEnumType.EmergencyStop"
| "reason_to_v201 Reason.EVDisconnected = ReasonEnumType.EVDisconnected"
| "reason_to_v201 Reason.HardReset = ReasonEnumType.ImmediateReset"
| "reason_to_v201 Reason.Local = ReasonEnumType.Local"
| "reason_to_v201 Reason.Other = ReasonEnumType.Other"
| "reason_to_v201 Reason.PowerLoss = ReasonEnumType.PowerLoss"
| "reason_to_v201 Reason.Reboot = ReasonEnumType.Reboot"
| "reason_to_v201 Reason.Remote = ReasonEnumType.Remote"
| "reason_to_v201 Reason.SoftReset = ReasonEnumType.Reboot"
| "reason_to_v201 Reason.UnlockCommand = ReasonEnumType.Remote"
| "reason_to_v201 Reason.DeAuthorized = ReasonEnumType.DeAuthorized"

fun reason_to_v201_trigger :: "Reason \<Rightarrow> TriggerReasonEnumType" where
  "reason_to_v201_trigger Reason.EVDisconnected = TriggerReasonEnumType.EVDeparted"
| "reason_to_v201_trigger Reason.Remote = TriggerReasonEnumType.RemoteStop"
| "reason_to_v201_trigger Reason.UnlockCommand = TriggerReasonEnumType.UnlockCommand"
| "reason_to_v201_trigger Reason.HardReset = TriggerReasonEnumType.ResetCommand"
| "reason_to_v201_trigger Reason.SoftReset = TriggerReasonEnumType.ResetCommand"
| "reason_to_v201_trigger Reason.Reboot = TriggerReasonEnumType.ResetCommand"
| "reason_to_v201_trigger Reason.DeAuthorized = TriggerReasonEnumType.Deauthorized"
| "reason_to_v201_trigger Reason.EmergencyStop = TriggerReasonEnumType.AbnormalCondition"
| "reason_to_v201_trigger Reason.PowerLoss = TriggerReasonEnumType.AbnormalCondition"
| "reason_to_v201_trigger Reason.Local = TriggerReasonEnumType.StopAuthorized"
| "reason_to_v201_trigger Reason.Other = TriggerReasonEnumType.StopAuthorized"

section \<open>Parts\<close>

definition evse_of :: "SessionRef \<Rightarrow> EvseType" where
  "evse_of s = \<lparr>evse_id = sr_evse_id s, evse_connector_id = Some (sr_connector_id s), evse_custom_data = None\<rparr>"

definition id_token_of :: "string \<Rightarrow> IdTokenType" where
  "id_token_of tag = \<lparr>itt_id_token = tag, itt_kind = IdTokenEnumType.Iso14443, itt_additional_info = None,
     itt_custom_data = None\<rparr>"

definition sample :: "f64 \<Rightarrow> ReadingContextEnumType \<Rightarrow> MeasurandEnumType \<Rightarrow> SampledValueType" where
  "sample x ctxt measurand = \<lparr>svt_value = x, svt_context = Some ctxt, svt_measurand = Some measurand,
     svt_phase = None, svt_location = None, svt_signed_meter_value = None, svt_unit_of_measure = None,
     svt_custom_data = None\<rparr>"

definition energy_meter_value :: "f64 \<Rightarrow> ReadingContextEnumType \<Rightarrow> string \<Rightarrow> MeterValueType list" where
  "energy_meter_value energy ctxt ts =
     [\<lparr>mvt_timestamp = ts, mvt_sampled_value = [sample energy ctxt MeasurandEnumType.EnergyActiveImportRegister],
       mvt_custom_data = None\<rparr>]"

definition periodic_meter_value :: "f64 \<Rightarrow> f64 option \<Rightarrow> string \<Rightarrow> MeterValueType list" where
  "periodic_meter_value energy bounded ts =
     [\<lparr>mvt_timestamp = ts,
       mvt_sampled_value = sample energy ReadingContextEnumType.SamplePeriodic MeasurandEnumType.EnergyActiveImportRegister
         # (case bounded of Some w \<Rightarrow> [sample w ReadingContextEnumType.SamplePeriodic MeasurandEnumType.PowerActiveImport]
                          | None \<Rightarrow> []),
       mvt_custom_data = None\<rparr>]"

definition triggered_energy_meter_value :: "f64 \<Rightarrow> string \<Rightarrow> MeterValueType list" where
  "triggered_energy_meter_value energy ts = energy_meter_value energy ReadingContextEnumType.Trigger ts"

text \<open>What all events have in common: the optional members no builder sets are absent.\<close>

definition transaction_event ::
  "TransactionEventEnumType \<Rightarrow> TriggerReasonEnumType \<Rightarrow> ChargingStateEnumType \<Rightarrow> ReasonEnumType option \<Rightarrow> i32 option
     \<Rightarrow> SessionRef \<Rightarrow> i32 \<Rightarrow> string \<Rightarrow> MeterValueType list option \<Rightarrow> IdTokenType option \<Rightarrow> TransactionEventRequest" where
  "transaction_event event trigger state stopped remote s seq ts meter token =
     \<lparr>te_event_type = event, te_timestamp = ts, te_trigger_reason = trigger, te_seq_no = seq,
      te_transaction_info = \<lparr>txt_transaction_id = sr_transaction_id s, txt_charging_state = Some state,
        txt_time_spent_charging = None, txt_stopped_reason = stopped, txt_remote_start_id = remote,
        txt_custom_data = None\<rparr>,
      te_offline = None, te_number_of_phases_used = None, te_cable_max_current = None, te_reservation_id = None,
      te_evse = Some (evse_of s), te_meter_value = meter, te_id_token = token, te_custom_data = None\<rparr>"

section \<open>Events\<close>

definition transaction_event_started ::
  "SessionRef \<Rightarrow> string \<Rightarrow> f64 \<Rightarrow> string \<Rightarrow> i32 option \<Rightarrow> TransactionEventRequest" where
  "transaction_event_started s tag meter ts remote =
     transaction_event TransactionEventEnumType.Started TriggerReasonEnumType.Authorized ChargingStateEnumType.Charging
       None remote s 0 ts (Some (energy_meter_value meter ReadingContextEnumType.TransactionBegin ts)) (Some (id_token_of tag))"

definition transaction_event_started_on_cable_plug :: "SessionRef \<Rightarrow> string \<Rightarrow> TransactionEventRequest" where
  "transaction_event_started_on_cable_plug s ts =
     transaction_event TransactionEventEnumType.Started TriggerReasonEnumType.CablePluggedIn
       ChargingStateEnumType.EVConnected None None s 0 ts None None"

definition transaction_event_updated ::
  "SessionRef \<Rightarrow> i32 \<Rightarrow> f64 \<Rightarrow> f64 option \<Rightarrow> string \<Rightarrow> TransactionEventRequest" where
  "transaction_event_updated s seq meter bounded ts =
     transaction_event TransactionEventEnumType.Updated TriggerReasonEnumType.MeterValuePeriodic
       ChargingStateEnumType.Charging None None s seq ts (Some (periodic_meter_value meter bounded ts)) None"

definition transaction_event_ended ::
  "SessionRef \<Rightarrow> i32 \<Rightarrow> string \<Rightarrow> f64 \<Rightarrow> Reason \<Rightarrow> string \<Rightarrow> TransactionEventRequest" where
  "transaction_event_ended s seq tag meter reason ts =
     transaction_event TransactionEventEnumType.Ended (reason_to_v201_trigger reason) ChargingStateEnumType.Idle
       (Some (reason_to_v201 reason)) None s seq ts
       (Some (energy_meter_value meter ReadingContextEnumType.TransactionEnd ts)) (Some (id_token_of tag))"

definition transaction_event_state_transition ::
  "SessionRef \<Rightarrow> i32 \<Rightarrow> TriggerReasonEnumType \<Rightarrow> ChargingStateEnumType \<Rightarrow> string \<Rightarrow> TransactionEventRequest" where
  "transaction_event_state_transition s seq trigger state ts =
     transaction_event TransactionEventEnumType.Updated trigger state None None s seq ts None None"

definition transaction_event_charging_state_changed ::
  "SessionRef \<Rightarrow> i32 \<Rightarrow> ChargingStateEnumType \<Rightarrow> string \<Rightarrow> TransactionEventRequest" where
  "transaction_event_charging_state_changed s seq state ts =
     transaction_event_state_transition s seq TriggerReasonEnumType.ChargingStateChanged state ts"

definition transaction_event_cable_plugged_in :: "SessionRef \<Rightarrow> i32 \<Rightarrow> string \<Rightarrow> TransactionEventRequest" where
  "transaction_event_cable_plugged_in s seq ts =
     transaction_event_state_transition s seq TriggerReasonEnumType.CablePluggedIn ChargingStateEnumType.EVConnected ts"

definition transaction_event_triggered :: "SessionRef \<Rightarrow> i32 \<Rightarrow> f64 \<Rightarrow> string \<Rightarrow> TransactionEventRequest" where
  "transaction_event_triggered s seq meter ts =
     transaction_event TransactionEventEnumType.Updated TriggerReasonEnumType.Trigger ChargingStateEnumType.Charging
       None None s seq ts (Some (energy_meter_value meter ReadingContextEnumType.Trigger ts)) None"

lemmas transaction_event_defs = transaction_event_started_def transaction_event_started_on_cable_plug_def
  transaction_event_updated_def transaction_event_ended_def transaction_event_state_transition_def
  transaction_event_charging_state_changed_def transaction_event_cable_plugged_in_def
  transaction_event_triggered_def

lemma transaction_event_sel [simp]:
  "te_event_type (transaction_event event trigger state stopped remote s seq ts meter token) = event"
  "te_seq_no (transaction_event event trigger state stopped remote s seq ts meter token) = seq"
  "txt_transaction_id (te_transaction_info (transaction_event event trigger state stopped remote s seq ts meter token))
   = sr_transaction_id s"
  by (simp_all add: transaction_event_def)

end
