(* ===== verification/Meter_Sampler.thy ===== *)
theory Meter_Sampler
  imports Connectors
begin

text \<open>
  \<open>ocpp-cp/src/meter_sampler.rs\<close>: the 1.6J \<open>MeterValues\<close> request built from the latest reading of a
  connector, with the structures of \<open>ocpp-types/src/common.rs\<close>. How Rust prints an \<open>f64\<close> with a fraction is
  the argument \<open>display\<close>.
\<close>

record V16SampledValue =
  v16sv_value :: string
  v16sv_context :: "ReadingContext option"
  v16sv_format :: "ValueFormat option"
  v16sv_measurand :: "Measurand option"
  v16sv_phase :: "Phase option"
  v16sv_location :: "Location option"
  v16sv_unit :: "UnitOfMeasure option"

record V16MeterValue =
  v16mv_timestamp :: datetime
  v16mv_sampled_values :: "V16SampledValue list"

record MeterValuesRequest =
  mvr_connector_id :: u32
  mvr_transaction_id :: "i32 option"
  mvr_meter_values :: "V16MeterValue list"

text \<open>\<open>v.fract() == 0.0\<close>; the cast \<open>v as i64\<close> saturates.\<close>

definition saturate_i64 :: "int \<Rightarrow> int" where
  "saturate_i64 i = max (- (2 ^ 63)) (min (2 ^ 63 - 1) i)"

definition format_value :: "(f64 \<Rightarrow> string) \<Rightarrow> f64 \<Rightarrow> string" where
  "format_value display v = (case v of
      Finite q \<Rightarrow> if q = of_int \<lfloor>q\<rfloor>
        then (let i = saturate_i64 \<lfloor>q\<rfloor> in if i < 0 then ''-'' @ show_nat (nat (- i)) else show_nat (nat i))
        else display v
    | _ \<Rightarrow> display v)"

definition sampled_value_for ::
  "(f64 \<Rightarrow> string) \<Rightarrow> Measurand \<Rightarrow> MeterReading \<Rightarrow> ReadingContext \<Rightarrow> V16SampledValue option" where
  "sampled_value_for display measurand r ctxt =
     map_option (\<lambda>(v, unit).
       \<lparr>v16sv_value = format_value display v, v16sv_context = Some ctxt, v16sv_format = Some ValueFormat.Raw,
        v16sv_measurand = Some measurand, v16sv_phase = None, v16sv_location = None, v16sv_unit = Some unit\<rparr>)
     (case measurand of
        Measurand.EnergyActiveImportRegister \<Rightarrow> Some (mr_energy_wh r, UnitOfMeasure.Wh)
      | Measurand.PowerActiveImport \<Rightarrow> Some (mr_power_w r, UnitOfMeasure.W_unit)
      | Measurand.Voltage \<Rightarrow> Some (mr_voltage_v r, UnitOfMeasure.V_unit)
      | Measurand.CurrentImport \<Rightarrow> Some (mr_current_a r, UnitOfMeasure.A_unit)
      | Measurand.Temperature \<Rightarrow> map_option (\<lambda>t. (t, UnitOfMeasure.Celsius)) (mr_temperature_c r)
      | _ \<Rightarrow> None)"

definition build_meter_values_request ::
  "(f64 \<Rightarrow> string) \<Rightarrow> ConnectorId \<Rightarrow> i32 option \<Rightarrow> MeterReading \<Rightarrow> Measurand list \<Rightarrow> ReadingContext \<Rightarrow> MeterValuesRequest" where
  "build_meter_values_request display cid tx r measurands ctxt =
     \<lparr>mvr_connector_id = connector_value cid, mvr_transaction_id = tx,
      mvr_meter_values = [\<lparr>v16mv_timestamp = mr_timestamp r,
        v16mv_sampled_values = List.map_filter (\<lambda>m. sampled_value_for display m r ctxt) measurands\<rparr>]\<rparr>"

definition has_samples :: "MeterValuesRequest \<Rightarrow> bool" where
  "has_samples req = list_ex (\<lambda>mv. v16mv_sampled_values mv \<noteq> []) (mvr_meter_values req)"

text \<open>A request is worth sending exactly when the reading has a value for one of the measurands.\<close>

lemma has_samples_iff:
  "has_samples (build_meter_values_request display cid tx r measurands ctxt) \<longleftrightarrow>
   (\<exists>m \<in> set measurands. m \<in> {Measurand.EnergyActiveImportRegister, Measurand.PowerActiveImport, Measurand.Voltage,
      Measurand.CurrentImport} \<or> (m = Measurand.Temperature \<and> mr_temperature_c r \<noteq> None))"
proof -
  have "List.map_filter f xs = [] \<longleftrightarrow> (\<forall>x \<in> set xs. f x = None)" for f :: "Measurand \<Rightarrow> V16SampledValue option" and xs
    by (induction xs) (auto simp: List.map_filter_simps split: option.splits)
  moreover have "sampled_value_for display m r ctxt = None \<longleftrightarrow> \<not> (m \<in> {Measurand.EnergyActiveImportRegister,
      Measurand.PowerActiveImport, Measurand.Voltage, Measurand.CurrentImport}
      \<or> (m = Measurand.Temperature \<and> mr_temperature_c r \<noteq> None))" for m
    by (cases m) (auto simp: sampled_value_for_def)
  ultimately show ?thesis by (simp add: has_samples_def build_meter_values_request_def)
qed

end
