(* ===== verification/Runtime.thy ===== *)
theory Runtime
  imports Transaction_Events Meter_Sampler Composite201 Messages
begin

text \<open>
  The charge point at run time (\<open>ocpp-cp/src/lib.rs\<close>): transactions in both dialects, charging-state
  events, plugging in, boot and reset. A public method is one step on the record \<open>charge_point\<close>;
  meter samplers, expiry timers and the command queue are fields of it, and their progress is a step of
  its own. Every message the station tries to send is recorded in \<open>cp_sent\<close>. The CSMS and the network are
  functions in \<open>environment\<close>: what a call returns depends on the request and on all messages before
  it. Time stamps are read and printed by functions of \<open>environment\<close> too.
\<close>

section \<open>State\<close>

datatype UnlockConnectorOutcome = Unlock | UnlockFailed | NotSupported

text \<open>The settings the modelled operations read.\<close>

record ChargePointConfig =
  cfg_protocol_version :: OcppVersion
  cfg_connector_count :: u32
  cfg_meter_values_interval :: u64
  cfg_meter_value_measurands :: "Measurand list"
  cfg_max_boot_retries :: u32
  cfg_unlock_connector_outcome :: UnlockConnectorOutcome
  cfg_tx_start_points :: "TxStartStopPointEnumType list"

definition default_tx_start_points :: "TxStartStopPointEnumType list" where
  "default_tx_start_points = [TxStartStopPointEnumType.Authorized]"

definition ChargePointConfig_default :: ChargePointConfig where
  "ChargePointConfig_default = \<lparr>cfg_protocol_version = V16J, cfg_connector_count = 2, cfg_meter_values_interval = 60,
     cfg_meter_value_measurands = [Measurand.EnergyActiveImportRegister], cfg_max_boot_retries = 3,
     cfg_unlock_connector_outcome = Unlock, cfg_tx_start_points = default_tx_start_points\<rparr>"

definition for_version :: "OcppVersion \<Rightarrow> ChargePointConfig" where
  "for_version v = ChargePointConfig_default\<lparr>cfg_protocol_version := v\<rparr>"

definition tx_opens_on_cable_plug :: "ChargePointConfig \<Rightarrow> bool" where
  "tx_opens_on_cable_plug cfg = (TxStartStopPointEnumType.EVConnected \<in> set (cfg_tx_start_points cfg))"

datatype outgoing =
    OutTransactionEvent TransactionEventRequest
  | OutStartTransaction u32 string i32
  | OutStopTransaction i32 i32 Reason
  | OutStatusNotification u32 ChargePointStatus ChargePointErrorCode
  | OutStatusNotificationV201 i32 ConnectorStatusEnumType
  | OutMeterValues MeterValuesRequest
  | OutMeterValuesV201 i32 "MeterValueType list"
  | OutReservationStatusUpdate i32 ReservationUpdateStatusEnumType
  | OutBootNotification
  | OutHeartbeat

record BootOutcome =
  bo_status :: RegistrationStatusEnumType
  bo_interval :: i32
  bo_current_time :: datetime

record environment =
  env_event :: "outgoing list \<Rightarrow> TransactionEventRequest \<Rightarrow> (OcppError, TransactionEventResponse) result"
  env_start :: "outgoing list \<Rightarrow> outgoing \<Rightarrow> (OcppError, IdTagInfo \<times> i32) result"
  env_ack :: "outgoing list \<Rightarrow> outgoing \<Rightarrow> (OcppError, unit) result"
  env_boot :: "outgoing list \<Rightarrow> (OcppError, BootOutcome) result"
  env_connect :: "outgoing list \<Rightarrow> (OcppError, unit) result"
  env_parse_rfc3339 :: "string \<Rightarrow> datetime option"
  env_to_rfc3339 :: "datetime \<Rightarrow> string"
  env_display :: "f64 \<Rightarrow> string"

record V201Session =
  vs_id_tag :: string
  vs_next_seq_no :: i32
  vs_authorized :: bool
  vs_plug_initiated :: bool
  vs_group_id_token :: "IdTokenType option"
  vs_charging_state :: ChargingStateEnumType

text \<open>The local variables of a sampler task.\<close>

record sampler =
  smp_connector :: ConnectorId
  smp_tx_start :: datetime
  smp_elapsed :: i32
  smp_sent_begin :: bool

record PendingAvailability =
  pa_evse_id :: "i32 option"
  pa_target :: OperationalStatusEnumType

text \<open>The commands of the consumer task that touch this state.\<close>

datatype RemoteCommand =
    Reset ResetType
  | StartTransaction ConnectorId string "i32 option" "ChargingProfileType option" "IdTokenType option"
  | StopTransaction i32
  | TriggerMessage MessageTrigger "i32 option"
  | V201TriggerMessage MessageTriggerEnumType "i32 option"
  | V201ReservationStatusUpdate i32 ReservationUpdateStatusEnumType
  | EmitConnectorStatus ConnectorId ChargePointStatus
  | UnlockConnector ConnectorId i32
  | V201ApplyAvailability ConnectorId OperationalStatusEnumType

record charge_point =
  cp_config :: ChargePointConfig
  cp_connectors :: "(ConnectorId, Connector) hmap"
  cp_active_transactions :: "(i32, ConnectorId) hmap"
  cp_sessions :: "(i32, V201Session) hmap"
  cp_next_transaction_id :: i32
  cp_profiles :: profile_stores
  cp_reservations :: "(i32, ConnectorId) hmap"
  cp_expiry_timers :: "(i32, ConnectorId) hmap"
  cp_samplers :: "(i32, sampler) hmap"
  cp_pending_reset :: "ResetType option"
  cp_pending_availability :: "PendingAvailability option"
  cp_commands :: "RemoteCommand list"
  cp_consumer_alive :: bool
  cp_consumer_running :: bool
  cp_is_connected :: bool
  cp_registration :: RegistrationStatusEnumType
  cp_heartbeat :: "u64 option"
  cp_sent :: "outgoing list"

abbreviation cp_version :: "charge_point \<Rightarrow> OcppVersion" where
  "cp_version s \<equiv> cfg_protocol_version (cp_config s)"

section \<open>Calls\<close>

text \<open>Sequencing with \<open>?\<close>: an error ends the method, in the state reached so far.\<close>

definition and_then ::
  "('e, 'a) result \<times> 's \<Rightarrow> ('a \<Rightarrow> 's \<Rightarrow> ('e, 'b) result \<times> 's) \<Rightarrow> ('e, 'b) result \<times> 's" where
  "and_then r f = (case r of (Inl e, s) \<Rightarrow> (Inl e, s) | (Inr x, s) \<Rightarrow> f x s)"

lemma and_then_simps [simp]:
  "and_then (Inl e, s) f = (Inl e, s)"
  "and_then (Inr x, s) f = f x s"
  by (simp_all add: and_then_def)

definition send :: "outgoing \<Rightarrow> charge_point \<Rightarrow> charge_point" where
  "send m s = s\<lparr>cp_sent := cp_sent s @ [m]\<rparr>"

definition call_ack :: "environment \<Rightarrow> outgoing \<Rightarrow> charge_point \<Rightarrow> (OcppError, unit) result \<times> charge_point" where
  "call_ack env m s = (env_ack env (cp_sent s) m, send m s)"

definition call_event ::
  "environment \<Rightarrow> TransactionEventRequest \<Rightarrow> charge_point \<Rightarrow> (OcppError, TransactionEventResponse) result \<times> charge_point" where
  "call_event env e s = (env_event env (cp_sent s) e, send (OutTransactionEvent e) s)"

fun charge_point_status_to_v201 :: "ChargePointStatus \<Rightarrow> ConnectorStatusEnumType" where
  "charge_point_status_to_v201 ChargePointStatus.Available = ConnectorStatusEnumType.Available"
| "charge_point_status_to_v201 ChargePointStatus.Reserved = ConnectorStatusEnumType.Reserved"
| "charge_point_status_to_v201 ChargePointStatus.Faulted = ConnectorStatusEnumType.Faulted"
| "charge_point_status_to_v201 ChargePointStatus.Unavailable = ConnectorStatusEnumType.Unavailable"
| "charge_point_status_to_v201 _ = ConnectorStatusEnumType.Occupied"

fun operational_status_to_cp_status :: "OperationalStatusEnumType \<Rightarrow> ChargePointStatus" where
  "operational_status_to_cp_status OperationalStatusEnumType.Operative = ChargePointStatus.Available"
| "operational_status_to_cp_status OperationalStatusEnumType.Inoperative = ChargePointStatus.Unavailable"

definition send_status_notification ::
  "environment \<Rightarrow> u32 \<Rightarrow> ChargePointStatus \<Rightarrow> charge_point \<Rightarrow> (OcppError, unit) result \<times> charge_point" where
  "send_status_notification env cid status s = call_ack env
     (case cp_version s of
        V16J \<Rightarrow> OutStatusNotification cid status ChargePointErrorCode.NoError
      | V201 \<Rightarrow> OutStatusNotificationV201 cid (charge_point_status_to_v201 status)) s"

text \<open>\<open>u32::try_from(evse).ok().and_then(|v| ConnectorId::new(v).ok())\<close>\<close>

definition connector_of_evse :: "i32 \<Rightarrow> ConnectorId option" where
  "connector_of_evse evse = (if sint evse < 0 then None
     else case ConnectorId_new evse of Inr c \<Rightarrow> Some c | Inl _ \<Rightarrow> None)"

definition transaction_where :: "(ConnectorId \<Rightarrow> bool) \<Rightarrow> charge_point \<Rightarrow> i32 option" where
  "transaction_where P s = map_option fst (List.find (\<lambda>(_, c). P c) (cp_active_transactions s))"

definition set_connector_status :: "ConnectorId \<Rightarrow> ChargePointStatus \<Rightarrow> charge_point \<Rightarrow> charge_point" where
  "set_connector_status cid status s =
     s\<lparr>cp_connectors := AList.map_entry cid (set_status status) (cp_connectors s)\<rparr>"

definition session_ref :: "i32 \<Rightarrow> i32 \<Rightarrow> SessionRef" where
  "session_ref tid evse = \<lparr>sr_transaction_id = show_i32 tid, sr_evse_id = evse, sr_connector_id = 1\<rparr>"

definition update_session :: "i32 \<Rightarrow> (V201Session \<Rightarrow> V201Session) \<Rightarrow> charge_point \<Rightarrow> charge_point" where
  "update_session tid f s = s\<lparr>cp_sessions := AList.map_entry tid f (cp_sessions s)\<rparr>"

definition claim_seq :: "V201Session \<Rightarrow> V201Session" where
  "claim_seq v = v\<lparr>vs_next_seq_no := vs_next_seq_no v + 1\<rparr>"

section \<open>Meter samplers\<close>

definition start_meter_sampler :: "datetime \<Rightarrow> ConnectorId \<Rightarrow> i32 \<Rightarrow> charge_point \<Rightarrow> charge_point" where
  "start_meter_sampler now cid tid s = s\<lparr>cp_samplers := AList.update tid
     \<lparr>smp_connector = cid, smp_tx_start = now, smp_elapsed = 0, smp_sent_begin = False\<rparr> (cp_samplers s)\<rparr>"

definition stop_meter_sampler :: "i32 \<Rightarrow> charge_point \<Rightarrow> charge_point" where
  "stop_meter_sampler tid s = s\<lparr>cp_samplers := AList.delete tid (cp_samplers s)\<rparr>"

definition saturating_add :: "i32 \<Rightarrow> i32 \<Rightarrow> i32" where
  "saturating_add a b = word_of_int (max (- (2 ^ 31)) (min (2 ^ 31 - 1) (sint a + sint b)))"

text \<open>One tick of the 1.6J sampler of a transaction.\<close>

definition v16j_sampler_tick :: "environment \<Rightarrow> i32 \<Rightarrow> charge_point \<Rightarrow> charge_point" where
  "v16j_sampler_tick env tid s = (case map_of (cp_samplers s) tid of
      None \<Rightarrow> s
    | Some t \<Rightarrow>
        if \<not> cp_is_connected s then s
        else (case map_of (cp_connectors s) (smp_connector t) of
            None \<Rightarrow> s
          | Some c \<Rightarrow>
              (let req = build_meter_values_request (env_display env) (smp_connector t) (Some tid)
                     (c_last_meter_reading c) (cfg_meter_value_measurands (cp_config s))
                     (if smp_sent_begin t then ReadingContext.SamplePeriodic else ReadingContext.TransactionBegin)
               in if has_samples req
                  then (send (OutMeterValues req) s)
                    \<lparr>cp_samplers := AList.update tid (t\<lparr>smp_sent_begin := True\<rparr>) (cp_samplers s)\<rparr>
                  else s)))"

text \<open>
  One tick of the 2.0.1 sampler. \<open>interval\<close> is the configured interval, at least a second; the cast
  to \<open>i32\<close> keeps the low bits.
\<close>

definition v201_sampler_tick :: "environment \<Rightarrow> i32 \<Rightarrow> charge_point \<Rightarrow> charge_point" where
  "v201_sampler_tick env tid s = (case map_of (cp_samplers s) tid of
      None \<Rightarrow> s
    | Some t \<Rightarrow>
        (let interval = ucast (max 1 (cfg_meter_values_interval (cp_config s))) :: i32;
             s1 = s\<lparr>cp_samplers := AList.update tid
                    (t\<lparr>smp_elapsed := saturating_add (smp_elapsed t) interval\<rparr>) (cp_samplers s)\<rparr>
         in if \<not> cp_is_connected s then s1
            else (case map_of (cp_sessions s) tid of
                None \<Rightarrow> s1
              | Some v \<Rightarrow>
                  (let s2 = update_session tid claim_seq s1; evse = connector_value (smp_connector t)
                   in case map_of (cp_connectors s) (smp_connector t) of
                        None \<Rightarrow> s2
                      | Some c \<Rightarrow> send (OutTransactionEvent (transaction_event_updated (session_ref tid evse) (vs_next_seq_no v)
                            (mr_energy_wh (c_last_meter_reading c))
                            (sampled_power_bound (env_parse_rfc3339 env) (cp_profiles s) evse (smp_elapsed t)
                               (smp_tx_start t) (c_config c))
                            (env_to_rfc3339 env (mr_timestamp (c_last_meter_reading c))))) s2))))"

definition sampler_tick :: "environment \<Rightarrow> i32 \<Rightarrow> charge_point \<Rightarrow> charge_point" where
  "sampler_tick env tid s = (case cp_version s of V16J \<Rightarrow> v16j_sampler_tick env tid s | V201 \<Rightarrow> v201_sampler_tick env tid s)"

section \<open>Charging-state events\<close>

datatype ChargingStateChangeOutcome = NoTransaction | Redundant | Emitted i32 | Opened i32 i32

definition emit_transaction_state_change ::
  "environment \<Rightarrow> datetime \<Rightarrow> i32 \<Rightarrow> ChargingStateEnumType \<Rightarrow> TriggerReasonEnumType \<Rightarrow> charge_point
     \<Rightarrow> (OcppError, ChargingStateChangeOutcome) result \<times> charge_point" where
  "emit_transaction_state_change env now evse new_state trigger s =
     (case transaction_where (\<lambda>c. uint (connector_value c) = sint evse) s of
        None \<Rightarrow> (Ok NoTransaction, s)
      | Some tid \<Rightarrow> (case map_of (cp_sessions s) tid of
            None \<Rightarrow> (Ok NoTransaction, s)
          | Some v \<Rightarrow>
              if vs_charging_state v = new_state then (Ok Redundant, s)
              else and_then
                (call_event env (transaction_event_state_transition (session_ref tid evse) (vs_next_seq_no v) trigger
                    new_state (env_to_rfc3339 env now)) (update_session tid claim_seq s))
                (\<lambda>_ s1. (Ok (Emitted (vs_next_seq_no v)),
                   update_session tid (\<lambda>v. v\<lparr>vs_charging_state := new_state\<rparr>) s1))))"

definition transition_charging_state ::
  "environment \<Rightarrow> datetime \<Rightarrow> i32 \<Rightarrow> ChargingStateEnumType \<Rightarrow> charge_point
     \<Rightarrow> (OcppError, ChargingStateChangeOutcome) result \<times> charge_point" where
  "transition_charging_state env now evse new_state s =
     (if cp_version s \<noteq> V201 then (Err (OcppError.NotSupported []), s)
      else if new_state \<notin> {ChargingStateEnumType.Charging, ChargingStateEnumType.SuspendedEV, ChargingStateEnumType.SuspendedEVSE}
      then (Err (ValidationError []), s)
      else emit_transaction_state_change env now evse new_state TriggerReasonEnumType.ChargingStateChanged s)"

definition open_transaction_on_cable_plug ::
  "environment \<Rightarrow> datetime \<Rightarrow> i32 \<Rightarrow> charge_point \<Rightarrow> (OcppError, ChargingStateChangeOutcome) result \<times> charge_point" where
  "open_transaction_on_cable_plug env now evse s = (case connector_of_evse evse of
      Some cid \<Rightarrow> (if map_of (cp_connectors s) cid = None then (Ok NoTransaction, s)
        else (let tid = cp_next_transaction_id s in and_then
          (call_event env (transaction_event_started_on_cable_plug (session_ref tid evse) (env_to_rfc3339 env now))
             (s\<lparr>cp_next_transaction_id := tid + 1\<rparr>))
          (\<lambda>_ s1. (Ok (Opened tid 0),
             s1\<lparr>cp_sessions := AList.update tid \<lparr>vs_id_tag = [], vs_next_seq_no = 1, vs_authorized = False,
                  vs_plug_initiated = True, vs_group_id_token = None,
                  vs_charging_state = ChargingStateEnumType.EVConnected\<rparr> (cp_sessions s1),
                cp_active_transactions := AList.update tid cid (cp_active_transactions s1)\<rparr>))))
    | None \<Rightarrow> (Ok NoTransaction, s))"

definition plug_in_cable ::
  "environment \<Rightarrow> datetime \<Rightarrow> i32 \<Rightarrow> charge_point \<Rightarrow> (OcppError, ChargingStateChangeOutcome) result \<times> charge_point" where
  "plug_in_cable env now evse s =
     (if cp_version s \<noteq> V201 then (Err (OcppError.NotSupported []), s)
      else and_then
        (emit_transaction_state_change env now evse ChargingStateEnumType.EVConnected TriggerReasonEnumType.CablePluggedIn s)
        (\<lambda>r s1. if r = NoTransaction \<and> tx_opens_on_cable_plug (cp_config s1)
                then open_transaction_on_cable_plug env now evse s1 else (Ok r, s1)))"

definition deauthorize :: "string \<Rightarrow> charge_point \<Rightarrow> nat \<times> charge_point" where
  "deauthorize tag s = (length (filter (\<lambda>(_, v). vs_id_tag v = tag) (cp_sessions s)),
     s\<lparr>cp_sessions := map (\<lambda>(k, v). (k, if vs_id_tag v = tag then v\<lparr>vs_authorized := False\<rparr> else v)) (cp_sessions s)\<rparr>)"

section \<open>Starting a transaction\<close>

definition i32_to_f64 :: "i32 \<Rightarrow> f64" where
  "i32_to_f64 i = Finite (of_int (sint i))"

definition install_tx_profile :: "ConnectorId \<Rightarrow> ChargingProfileType option \<Rightarrow> charge_point \<Rightarrow> charge_point" where
  "install_tx_profile cid profile s = (case profile of
      None \<Rightarrow> s
    | Some p \<Rightarrow> s\<lparr>cp_profiles := (cp_profiles s)\<lparr>ps_tx := tx_install (connector_value cid) p (ps_tx (cp_profiles s))\<rparr>\<rparr>)"

definition open_transaction ::
  "environment \<Rightarrow> datetime \<Rightarrow> ConnectorId \<Rightarrow> string \<Rightarrow> i32 \<Rightarrow> i32 option \<Rightarrow> ChargingProfileType option \<Rightarrow> IdTokenType option
     \<Rightarrow> charge_point \<Rightarrow> (OcppError, i32) result \<times> charge_point" where
  "open_transaction env now cid tag meter_start remote_start_id profile grp s = (case cp_version s of
      V16J \<Rightarrow>
        (let m = OutStartTransaction (connector_value cid) tag meter_start; s1 = send m s in
         case env_start env (cp_sent s) m of
           Inl e \<Rightarrow> (Err e, s1)
         | Inr (info, tid) \<Rightarrow>
             if iti_status info \<noteq> AuthorizationStatus.Accepted
             then (Err (OcppError.Authorization []), s1) else (Ok tid, s1))
    | V201 \<Rightarrow>
        (let tid = cp_next_transaction_id s in and_then
          (call_event env (transaction_event_started (session_ref tid (connector_value cid)) tag (i32_to_f64 meter_start)
             (env_to_rfc3339 env now) remote_start_id) (s\<lparr>cp_next_transaction_id := tid + 1\<rparr>))
          (\<lambda>r s1. if is_some_and (ter_id_token_info r) (\<lambda>i. itit_status i \<noteq> AuthorizationStatusEnumType.Accepted)
             then (Err (OcppError.Authorization []), s1)
             else (Ok tid, install_tx_profile cid profile
               (s1\<lparr>cp_sessions := AList.update tid \<lparr>vs_id_tag = tag, vs_next_seq_no = 1, vs_authorized = True,
                    vs_plug_initiated = False, vs_group_id_token = grp,
                    vs_charging_state = ChargingStateEnumType.Charging\<rparr> (cp_sessions s1)\<rparr>)))))"

text \<open>
  The shared tail of a start waits for the answer of its \<open>StatusNotification\<close> before it starts the sampler.
  \<open>energize_begin\<close> is what it does up to that answer; other tasks can run before it goes on (theory
  \<open>Interleavings\<close>).
\<close>

definition energize_begin ::
  "environment \<Rightarrow> ConnectorId \<Rightarrow> charge_point \<Rightarrow> (OcppError, unit) result \<times> charge_point" where
  "energize_begin env cid s =
     (let consumed = map fst (filter (\<lambda>(_, c). c = cid) (cp_reservations s));
          s1 = s\<lparr>cp_reservations := filter (\<lambda>(_, c). c \<noteq> cid) (cp_reservations s),
                 cp_expiry_timers := filter (\<lambda>(i, _). i \<notin> set consumed) (cp_expiry_timers s)\<rparr>
      in send_status_notification env (connector_value cid) ChargePointStatus.Charging
           (set_connector_status cid ChargePointStatus.Charging s1))"

definition energize_connector ::
  "environment \<Rightarrow> datetime \<Rightarrow> ConnectorId \<Rightarrow> i32 \<Rightarrow> charge_point \<Rightarrow> (OcppError, unit) result \<times> charge_point" where
  "energize_connector env now cid tid s =
     and_then (energize_begin env cid s) (\<lambda>_ s1. (Ok (), start_meter_sampler now cid tid s1))"

text \<open>
  Folding an authorization onto a transaction the cable opened waits three times: for the answer of the
  \<open>Preparing\<close> notification, for that of the \<open>Updated\<close> event, and in its tail. The part up to the first
  answer is \<open>fold_authorization_begin\<close>; it finds the session and keeps a handle on it. \<open>fold_event\<close> draws the number \<open>seq\<close>
  from the counter of that handle, which outlives the session, and sends the event; \<open>fold_resume\<close> goes
  on from there to the end. The method is their composition, with no other task in between.
\<close>

datatype fold_progress = NoPlugOpenTransaction | AlreadyAdvanced i32 | PreparingSent i32 V201Session

definition fold_authorization_begin ::
  "environment \<Rightarrow> ConnectorId \<Rightarrow> charge_point \<Rightarrow> (OcppError, fold_progress) result \<times> charge_point" where
  "fold_authorization_begin env cid s =
     (case transaction_where (\<lambda>c. c = cid) s of
        None \<Rightarrow> (Ok NoPlugOpenTransaction, s)
      | Some tid \<Rightarrow> (case map_of (cp_sessions s) tid of
            None \<Rightarrow> (Ok NoPlugOpenTransaction, s)
          | Some v \<Rightarrow>
              if \<not> vs_plug_initiated v then (Ok NoPlugOpenTransaction, s)
              else if vs_charging_state v \<noteq> ChargingStateEnumType.EVConnected then (Ok (AlreadyAdvanced tid), s)
              else and_then (send_status_notification env (connector_value cid) ChargePointStatus.Preparing s)
                (\<lambda>_ s1. (Ok (PreparingSent tid v), s1))))"

definition fold_event ::
  "environment \<Rightarrow> datetime \<Rightarrow> ConnectorId \<Rightarrow> i32 \<Rightarrow> i32 \<Rightarrow> charge_point
     \<Rightarrow> (OcppError, TransactionEventResponse) result \<times> charge_point" where
  "fold_event env now cid tid seq s =
     call_event env (transaction_event_state_transition (session_ref tid (connector_value cid)) seq
         TriggerReasonEnumType.Authorized ChargingStateEnumType.Charging (env_to_rfc3339 env now))
       (update_session tid claim_seq s)"

definition fold_resume ::
  "environment \<Rightarrow> datetime \<Rightarrow> ConnectorId \<Rightarrow> i32 \<Rightarrow> i32 \<Rightarrow> string \<Rightarrow> ChargingProfileType option \<Rightarrow> IdTokenType option
     \<Rightarrow> charge_point \<Rightarrow> (OcppError, i32 option) result \<times> charge_point" where
  "fold_resume env now cid tid seq tag profile grp s =
     and_then (fold_event env now cid tid seq s)
       (\<lambda>_ s1. and_then
         (energize_connector env now cid tid (install_tx_profile cid profile
           (update_session tid (\<lambda>v. v\<lparr>vs_charging_state := ChargingStateEnumType.Charging, vs_authorized := True,
               vs_id_tag := tag, vs_group_id_token := grp\<rparr>) s1)))
         (\<lambda>_ s2. (Ok (Some tid), s2)))"

definition fold_authorization_onto_plug_open ::
  "environment \<Rightarrow> datetime \<Rightarrow> ConnectorId \<Rightarrow> string \<Rightarrow> ChargingProfileType option \<Rightarrow> IdTokenType option
     \<Rightarrow> charge_point \<Rightarrow> (OcppError, i32 option) result \<times> charge_point" where
  "fold_authorization_onto_plug_open env now cid tag profile grp s =
     and_then (fold_authorization_begin env cid s)
       (\<lambda>p s1. case p of
          NoPlugOpenTransaction \<Rightarrow> (Ok None, s1)
        | AlreadyAdvanced tid \<Rightarrow> (Ok (Some tid), s1)
        | PreparingSent tid v \<Rightarrow> fold_resume env now cid tid (vs_next_seq_no v) tag profile grp s1)"

text \<open>The method in one piece.\<close>

lemma and_then_assoc: "and_then (and_then r f) g = and_then r (\<lambda>x s. and_then (f x s) g)"
  by (simp add: and_then_def split: prod.split sum.split)

lemma fold_authorization_eq:
  "fold_authorization_onto_plug_open env now cid tag profile grp s =
     (case transaction_where (\<lambda>c. c = cid) s of
        None \<Rightarrow> (Ok None, s)
      | Some tid \<Rightarrow> (case map_of (cp_sessions s) tid of
            None \<Rightarrow> (Ok None, s)
          | Some v \<Rightarrow>
              if \<not> vs_plug_initiated v then (Ok None, s)
              else if vs_charging_state v \<noteq> ChargingStateEnumType.EVConnected then (Ok (Some tid), s)
              else and_then (send_status_notification env (connector_value cid) ChargePointStatus.Preparing s)
                (\<lambda>_ s1. and_then (fold_event env now cid tid (vs_next_seq_no v) s1)
                  (\<lambda>_ s2. and_then
                    (energize_connector env now cid tid (install_tx_profile cid profile
                      (update_session tid (\<lambda>v. v\<lparr>vs_charging_state := ChargingStateEnumType.Charging, vs_authorized := True,
                          vs_id_tag := tag, vs_group_id_token := grp\<rparr>) s2)))
                    (\<lambda>_ s3. (Ok (Some tid), s3))))))"
  by (cases "transaction_where (\<lambda>c. c = cid) s")
    (auto simp: fold_authorization_onto_plug_open_def fold_authorization_begin_def fold_resume_def and_then_assoc split: option.split)

definition start_transaction_with_remote_start_id ::
  "environment \<Rightarrow> datetime \<Rightarrow> ConnectorId \<Rightarrow> string \<Rightarrow> i32 \<Rightarrow> i32 option \<Rightarrow> ChargingProfileType option \<Rightarrow> IdTokenType option
     \<Rightarrow> charge_point \<Rightarrow> (OcppError, i32) result \<times> charge_point" where
  "start_transaction_with_remote_start_id env now cid tag meter_start remote_start_id profile grp s =
     and_then (fold_authorization_onto_plug_open env now cid tag profile grp s)
       (\<lambda>folded s1. case folded of
          Some tid \<Rightarrow> (Ok tid, s1)
        | None \<Rightarrow> and_then (send_status_notification env (connector_value cid) ChargePointStatus.Preparing s1)
            (\<lambda>_ s2. and_then (open_transaction env now cid tag meter_start remote_start_id profile grp s2)
              (\<lambda>tid s3. and_then
                (energize_connector env now cid tid
                  (s3\<lparr>cp_active_transactions := AList.update tid cid (cp_active_transactions s3)\<rparr>))
                (\<lambda>_ s4. (Ok tid, s4)))))"

definition start_transaction ::
  "environment \<Rightarrow> datetime \<Rightarrow> ConnectorId \<Rightarrow> string \<Rightarrow> i32 \<Rightarrow> charge_point \<Rightarrow> (OcppError, i32) result \<times> charge_point" where
  "start_transaction env now cid tag meter_start s =
     start_transaction_with_remote_start_id env now cid tag meter_start None None None s"

section \<open>Stopping a transaction\<close>

definition close_transaction ::
  "environment \<Rightarrow> datetime \<Rightarrow> ConnectorId \<Rightarrow> i32 \<Rightarrow> i32 \<Rightarrow> Reason \<Rightarrow> charge_point \<Rightarrow> (OcppError, unit) result \<times> charge_point" where
  "close_transaction env now cid tid meter_stop reason s = (case cp_version s of
      V16J \<Rightarrow> call_ack env (OutStopTransaction tid meter_stop reason) s
    | V201 \<Rightarrow>
        (let s1 = stop_meter_sampler tid s;
             s2 = s1\<lparr>cp_profiles := (cp_profiles s1)\<lparr>ps_tx := snd (tx_clear (connector_value cid) (ps_tx (cp_profiles s1)))\<rparr>\<rparr>;
             s3 = s2\<lparr>cp_sessions := AList.delete tid (cp_sessions s2)\<rparr>
         in case map_of (cp_sessions s2) tid of
              None \<Rightarrow> (Ok (), s3)
            | Some v \<Rightarrow> and_then
                (call_event env (transaction_event_ended (session_ref tid (connector_value cid)) (vs_next_seq_no v)
                   (vs_id_tag v) (i32_to_f64 meter_stop) reason (env_to_rfc3339 env now)) s3)
                (\<lambda>_ s4. (Ok (), s4))))"

definition enqueue :: "RemoteCommand list \<Rightarrow> charge_point \<Rightarrow> charge_point" where
  "enqueue cmds s = (if cp_consumer_alive s then s\<lparr>cp_commands := cp_commands s @ cmds\<rparr> else s)"

text \<open>The connectors a change of availability targets: one, or all of them by their number.\<close>

definition station_connectors :: "charge_point \<Rightarrow> ConnectorId list" where
  "station_connectors s = sort_key (\<lambda>c. unat (connector_value c)) (map fst (cp_connectors s))"

definition availability_targets :: "i32 option \<Rightarrow> charge_point \<Rightarrow> ConnectorId list" where
  "availability_targets evse s = (case evse of
      Some e \<Rightarrow> option_list (connector_of_evse e)
    | None \<Rightarrow> station_connectors s)"

text \<open>What was deferred until the station is idle.\<close>

definition fire_deferred :: "charge_point \<Rightarrow> charge_point" where
  "fire_deferred s =
     (if cp_active_transactions s \<noteq> [] then s
      else (let s1 = s\<lparr>cp_pending_reset := None, cp_pending_availability := None\<rparr>;
                s2 = (case cp_pending_availability s of
                        None \<Rightarrow> s1
                      | Some p \<Rightarrow> enqueue (map (\<lambda>c. V201ApplyAvailability c (pa_target p))
                                             (availability_targets (pa_evse_id p) s1)) s1)
            in case cp_pending_reset s of None \<Rightarrow> s2 | Some r \<Rightarrow> enqueue [Reset r] s2))"

definition cp_stop_transaction ::
  "environment \<Rightarrow> datetime \<Rightarrow> i32 \<Rightarrow> i32 \<Rightarrow> Reason \<Rightarrow> charge_point \<Rightarrow> (OcppError, unit) result \<times> charge_point" where
  "cp_stop_transaction env now tid meter_stop reason s = (case map_of (cp_active_transactions s) tid of
      None \<Rightarrow> (Err (OcppError.NotFound []), s)
    | Some cid \<Rightarrow>
        and_then (close_transaction env now cid tid meter_stop reason s)
          (\<lambda>_ s1. and_then (send_status_notification env (connector_value cid) ChargePointStatus.Finishing s1)
            (\<lambda>_ s2. and_then
              (let s3 = stop_meter_sampler tid s2;
                   s4 = s3\<lparr>cp_active_transactions := AList.delete tid (cp_active_transactions s3)\<rparr>
               in send_status_notification env (connector_value cid) ChargePointStatus.Available
                    (set_connector_status cid ChargePointStatus.Available s4))
              (\<lambda>_ s5. (Ok (), fire_deferred s5)))))"

section \<open>Boot and reset\<close>

text \<open>\<open>for id in first..=connector_count\<close>; an error ends the loop and the method.\<close>

fun announce :: "environment \<Rightarrow> nat list \<Rightarrow> charge_point \<Rightarrow> (OcppError, unit) result \<times> charge_point" where
  "announce env [] s = (Ok (), s)"
| "announce env (i # is) s =
     and_then (send_status_notification env (of_nat i) ChargePointStatus.Available s) (\<lambda>_ s1. announce env is s1)"

definition announce_connectors_available :: "environment \<Rightarrow> charge_point \<Rightarrow> (OcppError, unit) result \<times> charge_point" where
  "announce_connectors_available env s =
     announce env [(case cp_version s of V16J \<Rightarrow> 0 | V201 \<Rightarrow> 1) ..< unat (cfg_connector_count (cp_config s)) + 1] s"

definition start_heartbeat :: "u64 \<Rightarrow> charge_point \<Rightarrow> charge_point" where
  "start_heartbeat interval s = s\<lparr>cp_heartbeat := Some (max 1 interval)\<rparr>"

definition send_boot_notification :: "environment \<Rightarrow> charge_point \<Rightarrow> (OcppError, BootOutcome) result \<times> charge_point" where
  "send_boot_notification env s = (env_boot env (cp_sent s), send OutBootNotification s)"

text \<open>
  \<open>made\<close> counts the attempts so far. \<open>interval.max(1) as u64\<close> is never negative. Both dialects report the
  registration with the same three values.
\<close>

fun boot_attempts :: "environment \<Rightarrow> nat \<Rightarrow> nat \<Rightarrow> charge_point \<Rightarrow> (OcppError, unit) result \<times> charge_point" where
  "boot_attempts env made 0 s = (Err (BootRejected (of_nat made)), s)"
| "boot_attempts env made (Suc left) s =
     and_then (send_boot_notification env s)
       (\<lambda>r s1. (let s2 = s1\<lparr>cp_registration := bo_status r\<rparr>;
                     beat = start_heartbeat (word_of_int (max 1 (sint (bo_interval r)))) in
          case bo_status r of
            RegistrationStatusEnumType.Accepted \<Rightarrow> and_then (announce_connectors_available env s2) (\<lambda>_ s3. (Ok (), beat s3))
          | RegistrationStatusEnumType.Pending \<Rightarrow> (Ok (), beat s2)
          | RegistrationStatusEnumType.Rejected \<Rightarrow> boot_attempts env (Suc made) left s2))"

text \<open>
  \<open>max_boot_retries + 1\<close> is a sum of \<open>u32\<close>. For the largest value it overflows: a debug build panics there, a release build makes
  no attempt and panics at \<open>unreachable!()\<close>. A panic is \<open>None\<close>; nothing was sent before it. It ends the task it happens
  in; under the release profile of the workspace (\<open>panic = "abort"\<close>) it ends the process, and the run with it.
\<close>

definition boot_sequence :: "environment \<Rightarrow> charge_point \<Rightarrow> (OcppError, unit) result option \<times> charge_point" where
  "boot_sequence env s = (let max_attempts = cfg_max_boot_retries (cp_config s) + 1 in
     if max_attempts = 0 then (None, s)
     else (let (r, s') = boot_attempts env 0 (unat max_attempts) s in (Some r, s')))"

definition establish_session :: "environment \<Rightarrow> charge_point \<Rightarrow> (OcppError, unit) result option \<times> charge_point" where
  "establish_session env s = (case env_connect env (cp_sent s) of
      Inl e \<Rightarrow> (Some (Err e), s)
    | Inr _ \<Rightarrow> boot_sequence env (s\<lparr>cp_is_connected := True\<rparr>))"

text \<open>
  \<open>disconnect\<close> and \<open>stop\<close> propagate the errors of \<open>client.close()\<close> and \<open>set_status\<close> with \<open>?\<close>, but neither has any:
  \<open>WebSocketClient::disconnect\<close>, which \<open>close\<close> calls, and \<open>Connector::set_status\<close> return \<open>Ok(())\<close> on every path.
\<close>

definition disconnect :: "charge_point \<Rightarrow> charge_point" where
  "disconnect s = s\<lparr>cp_is_connected := False\<rparr>"

definition quiesce_background_tasks :: "charge_point \<Rightarrow> charge_point" where
  "quiesce_background_tasks s = s\<lparr>cp_heartbeat := None, cp_samplers := []\<rparr>"

text \<open>Errors of a stop during a reset are logged, and the next transaction is stopped.\<close>

definition stop_all :: "environment \<Rightarrow> datetime \<Rightarrow> Reason \<Rightarrow> i32 list \<Rightarrow> charge_point \<Rightarrow> charge_point" where
  "stop_all env now reason tids s = fold (\<lambda>tid s. snd (cp_stop_transaction env now tid 0 reason s)) tids s"

text \<open>
  When the consumer task ends, the receiver of the command queue goes with it, and so does what is queued. A reset
  runs in that task, so a panic of the boot sequence is the end of it.
\<close>

definition consumer_ends :: "charge_point \<Rightarrow> charge_point" where
  "consumer_ends s = s\<lparr>cp_consumer_alive := False, cp_consumer_running := False, cp_commands := []\<rparr>"

definition consumer_survives :: "(OcppError, unit) result option \<times> charge_point \<Rightarrow> charge_point" where
  "consumer_survives r = (case r of (None, s) \<Rightarrow> consumer_ends s | (Some _, s) \<Rightarrow> s)"

definition perform_reset :: "environment \<Rightarrow> datetime \<Rightarrow> ResetType \<Rightarrow> charge_point \<Rightarrow> charge_point" where
  "perform_reset env now kind s =
     (let s1 = s\<lparr>cp_pending_reset := None\<rparr>;
          s2 = stop_all env now (case kind of ResetType.Soft \<Rightarrow> Reason.SoftReset | ResetType.Hard \<Rightarrow> Reason.HardReset)
                 (map fst (cp_active_transactions s1)) s1;
          s3 = quiesce_background_tasks s2
      in case kind of
           ResetType.Soft \<Rightarrow> consumer_survives (boot_sequence env s3)
         | ResetType.Hard \<Rightarrow> consumer_survives (establish_session env (disconnect s3)))"

section \<open>Life cycle and connectors\<close>

text \<open>
  The receiver of the command queue exists from the start (\<open>cp_consumer_alive\<close>); the first \<open>connect\<close> hands it to
  the consumer task (\<open>cp_consumer_running\<close>), and \<open>stop\<close> aborts that task and drops it.
\<close>

definition connect :: "environment \<Rightarrow> charge_point \<Rightarrow> (OcppError, unit) result option \<times> charge_point" where
  "connect env s = establish_session env (if cp_consumer_alive s then s\<lparr>cp_consumer_running := True\<rparr> else s)"

definition set_all_status :: "ChargePointStatus \<Rightarrow> charge_point \<Rightarrow> charge_point" where
  "set_all_status status s = s\<lparr>cp_connectors := map (\<lambda>(i, c). (i, set_status status c)) (cp_connectors s)\<rparr>"

definition start_station :: "environment \<Rightarrow> charge_point \<Rightarrow> (OcppError, unit) result option \<times> charge_point" where
  "start_station env s = connect env (set_all_status ChargePointStatus.Available s)"

definition stop_station :: "charge_point \<Rightarrow> charge_point" where
  "stop_station s =
     (let s1 = quiesce_background_tasks s;
          s2 = (if cp_consumer_running s1 then consumer_ends s1 else s1)
      in set_all_status ChargePointStatus.Unavailable (disconnect (s2\<lparr>cp_expiry_timers := []\<rparr>)))"

definition update_connector :: "ConnectorId \<Rightarrow> (Connector \<Rightarrow> Connector) \<Rightarrow> charge_point \<Rightarrow> charge_point" where
  "update_connector cid f s = s\<lparr>cp_connectors := AList.map_entry cid f (cp_connectors s)\<rparr>"

definition cp_plug_in :: "ConnectorId \<Rightarrow> charge_point \<Rightarrow> charge_point" where
  "cp_plug_in cid s = update_connector cid plug_in s"

definition cp_plug_out :: "ConnectorId \<Rightarrow> charge_point \<Rightarrow> charge_point" where
  "cp_plug_out cid s = update_connector cid plug_out s"

definition cp_set_fault :: "ConnectorId \<Rightarrow> ChargePointErrorCode \<Rightarrow> string option \<Rightarrow> charge_point \<Rightarrow> charge_point" where
  "cp_set_fault cid code info s = update_connector cid (set_fault code info) s"

definition cp_clear_fault :: "ConnectorId \<Rightarrow> charge_point \<Rightarrow> charge_point" where
  "cp_clear_fault cid s = update_connector cid clear_fault s"

definition cp_set_availability :: "ConnectorId \<Rightarrow> bool \<Rightarrow> charge_point \<Rightarrow> charge_point" where
  "cp_set_availability cid available s =
     update_connector cid (set_status (if available then ChargePointStatus.Available else ChargePointStatus.Unavailable)) s"

section \<open>A new charge point\<close>

text \<open>\<open>format!("EM{:03}", i)\<close>\<close>

definition meter_serial :: "nat \<Rightarrow> string" where
  "meter_serial i = (let d = show_nat i in ''EM'' @ replicate (3 - length d) (CHR ''0'') @ d)"

definition new_connector_config :: "nat \<Rightarrow> ConnectorConfig" where
  "new_connector_config i = \<lparr>cc_connector_id = ConnectorId (of_nat i), cc_connector_type = ''Type2'',
     cc_max_amperage = Finite 32, cc_max_voltage = Finite 230, cc_max_power = Finite 7360, cc_phases = 1,
     cc_energy_meter_serial = Some (meter_serial i)\<rparr>"

text \<open>The connectors are numbered from 1, so that \<open>ConnectorId::new\<close> does not fail.\<close>

definition ChargePoint_new :: "datetime \<Rightarrow> ChargePointConfig \<Rightarrow> charge_point" where
  "ChargePoint_new now cfg = \<lparr>cp_config = cfg,
     cp_connectors = map (\<lambda>i. (ConnectorId (of_nat i), Connector_new now (new_connector_config i)))
       [1 ..< unat (cfg_connector_count cfg) + 1],
     cp_active_transactions = [], cp_sessions = [], cp_next_transaction_id = 1, cp_profiles = profile_stores_new,
     cp_reservations = [], cp_expiry_timers = [], cp_samplers = [], cp_pending_reset = None,
     cp_pending_availability = None, cp_commands = [], cp_consumer_alive = True,
     cp_consumer_running = False, cp_is_connected = False,
     cp_registration = RegistrationStatusEnumType.Rejected, cp_heartbeat = None, cp_sent = []\<rparr>"

end
