(* ===== verification/Remote_Commands.thy ===== *)
theory Remote_Commands
  imports Runtime
begin

text \<open>
  The CALLs of the CSMS that act on the running station (\<open>lib.rs\<close>, with the decisions of
  \<open>v201_command.rs\<close>): remote start and stop, reset, change of availability, unlock, reservations and
  triggers. A handler answers at once and queues what it decided; the consumer task takes one command
  from the queue at a time. The last section puts methods, handlers, samplers, timers and the consumer
  together as the steps of one machine.
\<close>

section \<open>Decisions of \<open>v201_command.rs\<close>\<close>

fun v201_reset_status :: "ResetEnumType \<Rightarrow> bool \<Rightarrow> ResetStatusEnumType" where
  "v201_reset_status ResetEnumType.Immediate in_progress = ResetStatusEnumType.Accepted"
| "v201_reset_status ResetEnumType.OnIdle in_progress =
     (if in_progress then ResetStatusEnumType.Scheduled else ResetStatusEnumType.Accepted)"

fun v201_reset_reason :: "ResetEnumType \<Rightarrow> Reason" where
  "v201_reset_reason ResetEnumType.Immediate = Reason.HardReset"
| "v201_reset_reason ResetEnumType.OnIdle = Reason.SoftReset"

fun v201_reset_reset_type :: "ResetEnumType \<Rightarrow> ResetType" where
  "v201_reset_reset_type ResetEnumType.Immediate = ResetType.Hard"
| "v201_reset_reset_type ResetEnumType.OnIdle = ResetType.Soft"

fun v201_trigger_message_status :: "MessageTriggerEnumType \<Rightarrow> TriggerMessageStatusEnumType" where
  "v201_trigger_message_status _ = TriggerMessageStatusEnumType.Accepted"

definition v201_change_availability_status :: "OperationalStatusEnumType \<Rightarrow> bool \<Rightarrow> ChangeAvailabilityStatusEnumType" where
  "v201_change_availability_status target in_progress =
     (if in_progress then ChangeAvailabilityStatusEnumType.Scheduled else ChangeAvailabilityStatusEnumType.Accepted)"

definition v201_request_start_status :: "i32 option \<Rightarrow> bool \<Rightarrow> RequestStartStopStatusEnumType" where
  "v201_request_start_status evse available =
     (if sint (unwrap_or evse 1) < 1 then RequestStartStopStatusEnumType.Rejected
      else if available then RequestStartStopStatusEnumType.Accepted else RequestStartStopStatusEnumType.Rejected)"

definition v201_request_stop_status :: "string \<Rightarrow> string list \<Rightarrow> RequestStartStopStatusEnumType" where
  "v201_request_stop_status requested live =
     (if requested \<in> set live then RequestStartStopStatusEnumType.Accepted else RequestStartStopStatusEnumType.Rejected)"

definition v201_unlock_status ::
  "i32 \<Rightarrow> i32 \<Rightarrow> bool \<Rightarrow> bool \<Rightarrow> bool \<Rightarrow> UnlockConnectorOutcome \<Rightarrow> UnlockStatusEnumType" where
  "v201_unlock_status evse connector known active authorized outcome =
     (if sint evse < 1 \<or> sint connector < 1 then UnlockStatusEnumType.UnknownConnector
      else if \<not> known then UnlockStatusEnumType.UnknownConnector
      else if active \<and> authorized then UnlockStatusEnumType.OngoingAuthorizedTransaction
      else case outcome of Unlock \<Rightarrow> UnlockStatusEnumType.Unlocked | _ \<Rightarrow> UnlockStatusEnumType.UnlockFailed)"

definition v201_get_transaction_status :: "string option \<Rightarrow> string list \<Rightarrow> bool \<Rightarrow> bool \<times> bool option" where
  "v201_get_transaction_status requested live in_queue = (in_queue, map_option (\<lambda>i. i \<in> set live) requested)"

datatype ConnectorReservState = Free | Busy | FaultedState | UnavailableState | Missing

definition reserve_now_status_info :: "string \<Rightarrow> string \<Rightarrow> StatusInfoType option" where
  "reserve_now_status_info code detail =
     Some \<lparr>sit_reason_code = code, sit_additional_info = Some detail, sit_custom_data = None\<rparr>"

fun v201_reserve_now_status ::
  "bool \<Rightarrow> i32 option \<Rightarrow> ConnectorReservState \<Rightarrow> ReserveNowStatusEnumType \<times> StatusInfoType option" where
  "v201_reserve_now_status True evse state = (ReserveNowStatusEnumType.Rejected, reserve_now_status_info ''ExpiredReservation''
     ''ReserveNow.expiryDateTime is at or before now; the reservation would auto-free instantly'')"
| "v201_reserve_now_status False None state = (ReserveNowStatusEnumType.Rejected, reserve_now_status_info ''StationLevel''
     ''ReserveNow without an evseId reserves the whole Charging Station; the simulator only reserves a specific EVSE'')"
| "v201_reserve_now_status False (Some evse) state =
     (if sint evse < 1
      then (ReserveNowStatusEnumType.Rejected, reserve_now_status_info ''UnknownEvse''
        ''ReserveNow.evseId must name an EVSE the station exposes (2.0.1 evse ids are 1-based)'')
      else case state of
        Free \<Rightarrow> (ReserveNowStatusEnumType.Accepted, None)
      | Busy \<Rightarrow> (ReserveNowStatusEnumType.Occupied, None)
      | FaultedState \<Rightarrow> (ReserveNowStatusEnumType.Faulted, None)
      | UnavailableState \<Rightarrow> (ReserveNowStatusEnumType.Unavailable, None)
      | Missing \<Rightarrow> (ReserveNowStatusEnumType.Rejected, reserve_now_status_info ''UnknownEvse''
          ''ReserveNow.evseId is structurally valid but names no EVSE on this station''))"

definition v201_cancel_reservation_status :: "i32 \<Rightarrow> i32 list \<Rightarrow> CancelReservationStatusEnumType" where
  "v201_cancel_reservation_status requested held =
     (if requested \<in> set held then CancelReservationStatusEnumType.Accepted else CancelReservationStatusEnumType.Rejected)"

section \<open>Remote start and stop\<close>

definition free_to_start :: "ConnectorId \<Rightarrow> charge_point \<Rightarrow> bool" where
  "free_to_start cid s = is_some_and (map_of (cp_connectors s) cid) c_is_available"

definition handle_remote_start :: "u32 option \<Rightarrow> string \<Rightarrow> charge_point \<Rightarrow> RemoteStartStopStatus \<times> charge_point" where
  "handle_remote_start connector tag s = (case ConnectorId_new (unwrap_or connector 1) of
      Inl _ \<Rightarrow> (RemoteStartStopStatus.Rejected, s)
    | Inr cid \<Rightarrow>
        if free_to_start cid s \<and> cp_consumer_alive s
        then (RemoteStartStopStatus.Accepted, enqueue [StartTransaction cid tag None None None] s)
        else (RemoteStartStopStatus.Rejected, s))"

definition invalid_profile_info :: StatusInfoType where
  "invalid_profile_info = \<lparr>sit_reason_code = ''InvalidProfile'', sit_additional_info =
     Some ''RequestStartTransaction.chargingProfile.chargingProfilePurpose must be TxProfile'', sit_custom_data = None\<rparr>"

definition handle_request_start_v201 ::
  "i32 option \<Rightarrow> IdTokenType \<Rightarrow> i32 \<Rightarrow> ChargingProfileType option \<Rightarrow> IdTokenType option \<Rightarrow> charge_point
     \<Rightarrow> (RequestStartStopStatusEnumType \<times> StatusInfoType option) \<times> charge_point" where
  "handle_request_start_v201 evse token remote_start_id profile grp s =
     (if is_some_and profile (\<lambda>p. cpt_charging_profile_purpose p \<noteq> ChargingProfilePurposeEnumType.TxProfile)
      then ((RequestStartStopStatusEnumType.Rejected, Some invalid_profile_info), s)
      else (let resolved = Option.bind (connector_of_evse (unwrap_or evse 1))
                   (\<lambda>cid. if map_of (cp_connectors s) cid = None then None else Some cid);
                status = v201_request_start_status evse (is_some_and resolved (\<lambda>cid. free_to_start cid s))
            in case (status, resolved) of
                 (RequestStartStopStatusEnumType.Accepted, Some cid) \<Rightarrow>
                   if cp_consumer_alive s
                   then ((RequestStartStopStatusEnumType.Accepted, None),
                         enqueue [StartTransaction cid (itt_id_token token) (Some remote_start_id) profile grp] s)
                   else ((RequestStartStopStatusEnumType.Rejected, None), s)
               | _ \<Rightarrow> ((RequestStartStopStatusEnumType.Rejected, None), s)))"

definition handle_remote_stop :: "i32 \<Rightarrow> charge_point \<Rightarrow> RemoteStartStopStatus \<times> charge_point" where
  "handle_remote_stop tid s =
     (if map_of (cp_active_transactions s) tid \<noteq> None \<and> cp_consumer_alive s
      then (RemoteStartStopStatus.Accepted, enqueue [StopTransaction tid] s)
      else (RemoteStartStopStatus.Rejected, s))"

definition live_ids :: "charge_point \<Rightarrow> string list" where
  "live_ids s = map (\<lambda>(i, _). show_i32 i) (cp_active_transactions s)"

definition handle_request_stop_v201 :: "string \<Rightarrow> charge_point \<Rightarrow> RequestStartStopStatusEnumType \<times> charge_point" where
  "handle_request_stop_v201 requested s =
     (let matched = map_option fst (List.find (\<lambda>(i, _). show_i32 i = requested) (cp_active_transactions s));
          status = v201_request_stop_status requested (live_ids s)
      in case (status, matched) of
           (RequestStartStopStatusEnumType.Accepted, Some tid) \<Rightarrow>
             if cp_consumer_alive s then (RequestStartStopStatusEnumType.Accepted, enqueue [StopTransaction tid] s)
             else (RequestStartStopStatusEnumType.Rejected, s)
         | _ \<Rightarrow> (RequestStartStopStatusEnumType.Rejected, s))"

definition handle_get_transaction_status :: "string option \<Rightarrow> charge_point \<Rightarrow> bool \<times> bool option" where
  "handle_get_transaction_status requested s = v201_get_transaction_status requested (live_ids s) False"

section \<open>Reset and availability\<close>

definition handle_reset :: "ResetType \<Rightarrow> charge_point \<Rightarrow> ResetStatus \<times> charge_point" where
  "handle_reset kind s = (if cp_consumer_alive s then (ResetStatus.Accepted, enqueue [Reset kind] s)
     else (ResetStatus.Rejected, s))"

definition handle_reset_v201 :: "ResetEnumType \<Rightarrow> charge_point \<Rightarrow> ResetStatusEnumType \<times> charge_point" where
  "handle_reset_v201 kind s =
     (let status = v201_reset_status kind (cp_active_transactions s \<noteq> []) in
      if status = ResetStatusEnumType.Accepted
      then if cp_consumer_alive s then (status, enqueue [Reset (v201_reset_reset_type kind)] s)
           else (ResetStatusEnumType.Rejected, s)
      else if status = ResetStatusEnumType.Scheduled
      then (status, s\<lparr>cp_pending_reset := Some (v201_reset_reset_type kind)\<rparr>)
      else (status, s))"

definition handle_change_availability_v201 ::
  "i32 option \<Rightarrow> OperationalStatusEnumType \<Rightarrow> charge_point \<Rightarrow> ChangeAvailabilityStatusEnumType \<times> charge_point" where
  "handle_change_availability_v201 evse target s =
     (let targets = filter (\<lambda>c. map_of (cp_connectors s) c \<noteq> None) (availability_targets evse s) in
      if targets = [] then (ChangeAvailabilityStatusEnumType.Rejected, s)
      else (let in_progress = (case evse of
                  None \<Rightarrow> cp_active_transactions s \<noteq> []
                | Some _ \<Rightarrow> list_ex (\<lambda>(_, c). c \<in> set targets) (cp_active_transactions s));
                status = v201_change_availability_status target in_progress
            in case status of
                 ChangeAvailabilityStatusEnumType.Accepted \<Rightarrow>
                   if cp_consumer_alive s
                   then (status, enqueue (map (\<lambda>c. V201ApplyAvailability c target) targets) s)
                   else (ChangeAvailabilityStatusEnumType.Rejected, s)
               | ChangeAvailabilityStatusEnumType.Scheduled \<Rightarrow>
                   (status, s\<lparr>cp_pending_availability := Some \<lparr>pa_evse_id = evse, pa_target = target\<rparr>\<rparr>)
               | ChangeAvailabilityStatusEnumType.Rejected \<Rightarrow> (status, s)))"

definition apply_v201_availability ::
  "environment \<Rightarrow> ConnectorId \<Rightarrow> OperationalStatusEnumType \<Rightarrow> charge_point \<Rightarrow> charge_point" where
  "apply_v201_availability env cid target s = (case map_of (cp_connectors s) cid of
      None \<Rightarrow> s
    | Some _ \<Rightarrow> (let status = operational_status_to_cp_status target in
        snd (send_status_notification env (connector_value cid) status (set_connector_status cid status s))))"

section \<open>Unlock\<close>

definition handle_unlock :: "u32 \<Rightarrow> charge_point \<Rightarrow> UnlockStatus \<times> charge_point" where
  "handle_unlock connector s = (case ConnectorId_new connector of
      Inl _ \<Rightarrow> (UnlockStatus.UnlockFailed, s)
    | Inr cid \<Rightarrow>
        if map_of (cp_connectors s) cid = None then (UnlockStatus.UnlockFailed, s)
        else (case cfg_unlock_connector_outcome (cp_config s) of
            NotSupported \<Rightarrow> (UnlockStatus.NotSupported, s)
          | UnlockFailed \<Rightarrow> (UnlockStatus.UnlockFailed, s)
          | Unlock \<Rightarrow> (case transaction_where (\<lambda>c. c = cid) s of
                Some tid \<Rightarrow> if cp_consumer_alive s then (UnlockStatus.Unlocked, enqueue [UnlockConnector cid tid] s)
                            else (UnlockStatus.UnlockFailed, s)
              | None \<Rightarrow> (UnlockStatus.Unlocked, s))))"

definition handle_unlock_v201 :: "i32 \<Rightarrow> i32 \<Rightarrow> charge_point \<Rightarrow> UnlockStatusEnumType \<times> charge_point" where
  "handle_unlock_v201 evse connector s =
     (let target = (if connector = 1 then connector_of_evse evse else None);
          known = is_some_and target (\<lambda>cid. map_of (cp_connectors s) cid \<noteq> None);
          live = (if known then Option.bind target (\<lambda>cid. transaction_where (\<lambda>c. c = cid) s) else None);
          authorized = is_some_and live (\<lambda>tid. is_none_or (map_of (cp_sessions s) tid) vs_authorized);
          status = v201_unlock_status evse connector known (live \<noteq> None) authorized
                     (cfg_unlock_connector_outcome (cp_config s))
      in case (status, target, live) of
           (UnlockStatusEnumType.Unlocked, Some cid, Some tid) \<Rightarrow>
             if cp_consumer_alive s then (status, enqueue [UnlockConnector cid tid] s)
             else (UnlockStatusEnumType.UnlockFailed, s)
         | _ \<Rightarrow> (status, s))"

section \<open>Reservations\<close>

text \<open>Only timers that still run are kept; arming one aborts the timer of the same id.\<close>

definition arm_reservation_expiry :: "i32 \<Rightarrow> ConnectorId \<Rightarrow> charge_point \<Rightarrow> charge_point" where
  "arm_reservation_expiry rid cid s = s\<lparr>cp_expiry_timers := AList.update rid cid (cp_expiry_timers s)\<rparr>"

text \<open>\<open>reserve\<close> on the connector, then the entry, the notification and the timer.\<close>

definition take_reservation :: "i32 \<Rightarrow> string \<Rightarrow> ConnectorId \<Rightarrow> bool \<Rightarrow> charge_point \<Rightarrow> charge_point" where
  "take_reservation rid tag cid timed s =
     (let s1 = (update_connector cid (\<lambda>c. snd (reserve tag c)) s)
                 \<lparr>cp_reservations := AList.update rid cid (cp_reservations s)\<rparr>;
          s2 = enqueue [EmitConnectorStatus cid ChargePointStatus.Reserved] s1
      in if timed then arm_reservation_expiry rid cid s2 else s2)"

definition handle_reserve_now ::
  "datetime \<Rightarrow> i32 \<Rightarrow> u32 \<Rightarrow> datetime \<Rightarrow> string \<Rightarrow> charge_point \<Rightarrow> ReservationStatus \<times> charge_point" where
  "handle_reserve_now now rid connector expiry tag s =
     (if expiry \<le> now then (ReservationStatus.Rejected, s)
      else (case ConnectorId_new connector of
          Inl _ \<Rightarrow> (ReservationStatus.Rejected, s)
        | Inr cid \<Rightarrow> (case map_of (cp_connectors s) cid of
              None \<Rightarrow> (ReservationStatus.Rejected, s)
            | Some c \<Rightarrow> (case c_status c of
                  ChargePointStatus.Available \<Rightarrow> (ReservationStatus.Accepted, take_reservation rid tag cid True s)
                | ChargePointStatus.Faulted \<Rightarrow> (ReservationStatus.Faulted, s)
                | ChargePointStatus.Unavailable \<Rightarrow> (ReservationStatus.Unavailable, s)
                | _ \<Rightarrow> (ReservationStatus.Occupied, s)))))"

definition reserv_state :: "ConnectorId option \<Rightarrow> charge_point \<Rightarrow> ConnectorReservState" where
  "reserv_state cid s = (case Option.bind cid (map_of (cp_connectors s)) of
      None \<Rightarrow> Missing
    | Some c \<Rightarrow> (case c_status c of
          ChargePointStatus.Available \<Rightarrow> Free
        | ChargePointStatus.Faulted \<Rightarrow> FaultedState
        | ChargePointStatus.Unavailable \<Rightarrow> UnavailableState
        | _ \<Rightarrow> Busy))"

text \<open>An expiry that cannot be read arms no timer. The decision and the reservation are one step.\<close>

definition handle_reserve_now_v201 ::
  "environment \<Rightarrow> datetime \<Rightarrow> i32 \<Rightarrow> i32 option \<Rightarrow> string \<Rightarrow> IdTokenType \<Rightarrow> charge_point
     \<Rightarrow> (ReserveNowStatusEnumType \<times> StatusInfoType option) \<times> charge_point" where
  "handle_reserve_now_v201 env now rid evse expiry_text token s =
     (let expiry = env_parse_rfc3339 env expiry_text;
          cid = Option.bind evse (\<lambda>e. if 1 \<le> sint e then case ConnectorId_new e of Inr c \<Rightarrow> Some c | Inl _ \<Rightarrow> None else None);
          answer = v201_reserve_now_status (is_some_and expiry (\<lambda>t. t \<le> now)) evse (reserv_state cid s)
      in case (fst answer, cid) of
           (ReserveNowStatusEnumType.Accepted, Some c) \<Rightarrow>
             (answer, take_reservation rid (itt_id_token token) c (expiry \<noteq> None) s)
         | _ \<Rightarrow> (answer, s))"

text \<open>A held reservation is given up: the connector is freed, and the CSMS is told.\<close>

definition free_reserved :: "ConnectorId \<Rightarrow> charge_point \<Rightarrow> charge_point" where
  "free_reserved cid s = (case map_of (cp_connectors s) cid of
      None \<Rightarrow> s
    | Some c \<Rightarrow> (let s1 = update_connector cid cancel_reservation s in
        if c_status c = ChargePointStatus.Reserved
        then enqueue [EmitConnectorStatus cid ChargePointStatus.Available] s1 else s1))"

definition drop_reservation :: "i32 \<Rightarrow> charge_point \<Rightarrow> charge_point" where
  "drop_reservation rid s = s\<lparr>cp_reservations := AList.delete rid (cp_reservations s),
     cp_expiry_timers := AList.delete rid (cp_expiry_timers s)\<rparr>"

definition handle_cancel_reservation :: "i32 \<Rightarrow> charge_point \<Rightarrow> CancelReservationStatus \<times> charge_point" where
  "handle_cancel_reservation rid s = (case map_of (cp_reservations s) rid of
      None \<Rightarrow> (CancelReservationStatus.Rejected, s)
    | Some cid \<Rightarrow> (CancelReservationStatus.Accepted, free_reserved cid (drop_reservation rid s)))"

definition handle_cancel_reservation_v201 :: "i32 \<Rightarrow> charge_point \<Rightarrow> CancelReservationStatusEnumType \<times> charge_point" where
  "handle_cancel_reservation_v201 rid s =
     (v201_cancel_reservation_status rid (map fst (cp_reservations s)),
      (case map_of (cp_reservations s) rid of
         None \<Rightarrow> s
       | Some cid \<Rightarrow> enqueue [V201ReservationStatusUpdate rid ReservationUpdateStatusEnumType.Removed]
                       (free_reserved cid (drop_reservation rid s))))"

text \<open>An expiry timer fires: it claims the entry only if it is still the one it was armed for.\<close>

definition expiry_fires :: "i32 \<Rightarrow> charge_point \<Rightarrow> charge_point" where
  "expiry_fires rid s = (case map_of (cp_expiry_timers s) rid of
      None \<Rightarrow> s
    | Some cid \<Rightarrow> (let s1 = s\<lparr>cp_expiry_timers := AList.delete rid (cp_expiry_timers s)\<rparr> in
        if map_of (cp_reservations s) rid = Some cid
        then (let s2 = free_reserved cid (s1\<lparr>cp_reservations := AList.delete rid (cp_reservations s1)\<rparr>) in
              if cp_version s = V201
              then enqueue [V201ReservationStatusUpdate rid ReservationUpdateStatusEnumType.Expired] s2 else s2)
        else s1))"

section \<open>Triggered messages\<close>

definition trigger_message_supported :: "MessageTrigger \<Rightarrow> bool" where
  "trigger_message_supported m = (m \<in> {MessageTrigger.BootNotification, MessageTrigger.Heartbeat,
     MessageTrigger.StatusNotification, MessageTrigger.MeterValues, MessageTrigger.DiagnosticsStatusNotification,
     MessageTrigger.FirmwareStatusNotification})"

definition handle_trigger_message :: "MessageTrigger \<Rightarrow> i32 option \<Rightarrow> charge_point \<Rightarrow> TriggerMessageStatus \<times> charge_point" where
  "handle_trigger_message m connector s =
     (if \<not> trigger_message_supported m then (TriggerMessageStatus.NotImplemented, s)
      else if cp_consumer_alive s then (TriggerMessageStatus.Accepted, enqueue [TriggerMessage m connector] s)
      else (TriggerMessageStatus.Rejected, s))"

definition handle_trigger_message_v201 ::
  "MessageTriggerEnumType \<Rightarrow> i32 option \<Rightarrow> charge_point \<Rightarrow> TriggerMessageStatusEnumType \<times> charge_point" where
  "handle_trigger_message_v201 m evse s =
     (let status = v201_trigger_message_status m in
      if status = TriggerMessageStatusEnumType.Accepted
      then if cp_consumer_alive s then (status, enqueue [V201TriggerMessage m evse] s)
           else (TriggerMessageStatusEnumType.Rejected, s)
      else (status, s))"

definition connector_report_status :: "nat \<Rightarrow> charge_point \<Rightarrow> ChargePointStatus" where
  "connector_report_status i s = (case ConnectorId_new (of_nat i) of
      Inl _ \<Rightarrow> ChargePointStatus.Available
    | Inr cid \<Rightarrow> (case map_of (cp_connectors s) cid of None \<Rightarrow> ChargePointStatus.Available | Some c \<Rightarrow> c_status c))"

text \<open>The ids a trigger targets. \<open>connector_count as i32\<close> keeps the bits.\<close>

definition trigger_ids :: "int \<Rightarrow> i32 option \<Rightarrow> charge_point \<Rightarrow> nat list" where
  "trigger_ids lowest requested s = (let count = cfg_connector_count (cp_config s) in
     case requested of
       Some i \<Rightarrow> if lowest \<le> sint i \<and> sint i \<le> sint count then [unat i] else []
     | None \<Rightarrow> [nat lowest ..< unat count + 1])"

definition trigger_status_notification :: "environment \<Rightarrow> int \<Rightarrow> i32 option \<Rightarrow> charge_point \<Rightarrow> charge_point" where
  "trigger_status_notification env lowest requested s =
     fold (\<lambda>i s. snd (send_status_notification env (of_nat i) (connector_report_status i s) s)) (trigger_ids lowest requested s) s"

definition trigger_meter_values :: "environment \<Rightarrow> i32 option \<Rightarrow> charge_point \<Rightarrow> charge_point" where
  "trigger_meter_values env requested s = fold (\<lambda>i s. case ConnectorId_new (of_nat i) of
      Inl _ \<Rightarrow> s
    | Inr cid \<Rightarrow> (case map_of (cp_connectors s) cid of
          None \<Rightarrow> s
        | Some c \<Rightarrow>
            (let req = build_meter_values_request (env_display env) cid (transaction_where (\<lambda>c. c = cid) s)
                   (c_last_meter_reading c) (cfg_meter_value_measurands (cp_config s)) ReadingContext.Trigger
             in if has_samples req \<and> cp_is_connected s then send (OutMeterValues req) s else s)))
    (trigger_ids 1 requested s) s"

definition trigger_v201_meter_values :: "environment \<Rightarrow> i32 option \<Rightarrow> charge_point \<Rightarrow> charge_point" where
  "trigger_v201_meter_values env requested s = fold (\<lambda>i s. case ConnectorId_new (of_nat i) of
      Inl _ \<Rightarrow> s
    | Inr cid \<Rightarrow> (case map_of (cp_connectors s) cid of
          None \<Rightarrow> s
        | Some c \<Rightarrow> snd (call_ack env (OutMeterValuesV201 (of_nat i) (triggered_energy_meter_value
            (mr_energy_wh (c_last_meter_reading c)) (env_to_rfc3339 env (mr_timestamp (c_last_meter_reading c))))) s)))
    (trigger_ids 1 requested s) s"

definition trigger_transaction_event :: "environment \<Rightarrow> i32 \<times> ConnectorId \<Rightarrow> charge_point \<Rightarrow> charge_point" where
  "trigger_transaction_event env target s = (let (tid, cid) = target in
     case map_of (cp_sessions s) tid of
       None \<Rightarrow> s
     | Some v \<Rightarrow> (let s1 = update_session tid claim_seq s in
         case map_of (cp_connectors s) cid of
           None \<Rightarrow> s1
         | Some c \<Rightarrow> snd (call_event env (transaction_event_triggered (session_ref tid (connector_value cid))
             (vs_next_seq_no v) (mr_energy_wh (c_last_meter_reading c))
             (env_to_rfc3339 env (mr_timestamp (c_last_meter_reading c)))) s1)))"

definition trigger_v201_transaction_event :: "environment \<Rightarrow> i32 option \<Rightarrow> charge_point \<Rightarrow> charge_point" where
  "trigger_v201_transaction_event env evse s =
     fold (trigger_transaction_event env)
       (filter (\<lambda>(_, cid). is_none_or evse (\<lambda>e. connector_value cid = e)) (cp_active_transactions s)) s"

text \<open>The triggers that report on other components are theirs; they leave this state alone.\<close>

fun send_triggered_message :: "environment \<Rightarrow> MessageTrigger \<Rightarrow> i32 option \<Rightarrow> charge_point \<Rightarrow> charge_point" where
  "send_triggered_message env MessageTrigger.BootNotification connector s = snd (call_ack env OutBootNotification s)"
| "send_triggered_message env MessageTrigger.Heartbeat connector s = snd (call_ack env OutHeartbeat s)"
| "send_triggered_message env MessageTrigger.StatusNotification connector s = trigger_status_notification env 0 connector s"
| "send_triggered_message env MessageTrigger.MeterValues connector s = trigger_meter_values env connector s"
| "send_triggered_message env _ connector s = s"

fun send_v201_triggered_message :: "environment \<Rightarrow> MessageTriggerEnumType \<Rightarrow> i32 option \<Rightarrow> charge_point \<Rightarrow> charge_point" where
  "send_v201_triggered_message env MessageTriggerEnumType.BootNotification evse s = snd (call_ack env OutBootNotification s)"
| "send_v201_triggered_message env MessageTriggerEnumType.Heartbeat evse s = snd (call_ack env OutHeartbeat s)"
| "send_v201_triggered_message env MessageTriggerEnumType.StatusNotification evse s = trigger_status_notification env 1 evse s"
| "send_v201_triggered_message env MessageTriggerEnumType.MeterValues evse s = trigger_v201_meter_values env evse s"
| "send_v201_triggered_message env MessageTriggerEnumType.TransactionEvent evse s = trigger_v201_transaction_event env evse s"
| "send_v201_triggered_message env _ evse s = s"

section \<open>The consumer\<close>

fun run_command :: "environment \<Rightarrow> datetime \<Rightarrow> RemoteCommand \<Rightarrow> charge_point \<Rightarrow> charge_point" where
  "run_command env now (Reset kind) s = perform_reset env now kind s"
| "run_command env now (StartTransaction cid tag remote profile grp) s =
     snd (start_transaction_with_remote_start_id env now cid tag 0 remote profile grp s)"
| "run_command env now (StopTransaction tid) s = snd (cp_stop_transaction env now tid 0 Reason.Remote s)"
| "run_command env now (TriggerMessage m connector) s = send_triggered_message env m connector s"
| "run_command env now (V201TriggerMessage m evse) s = send_v201_triggered_message env m evse s"
| "run_command env now (V201ReservationStatusUpdate rid status) s = snd (call_ack env (OutReservationStatusUpdate rid status) s)"
| "run_command env now (EmitConnectorStatus cid status) s = snd (send_status_notification env (connector_value cid) status s)"
| "run_command env now (UnlockConnector cid tid) s = snd (cp_stop_transaction env now tid 0 Reason.UnlockCommand s)"
| "run_command env now (V201ApplyAvailability cid target) s = apply_v201_availability env cid target s"

definition consume :: "environment \<Rightarrow> datetime \<Rightarrow> charge_point \<Rightarrow> charge_point" where
  "consume env now s = (if \<not> cp_consumer_running s then s
     else case cp_commands s of [] \<Rightarrow> s | c # cs \<Rightarrow> run_command env now c (s\<lparr>cp_commands := cs\<rparr>))"

section \<open>Steps\<close>

datatype cp_step =
    DoStart ConnectorId string i32
  | DoStop i32 i32 Reason
  | DoTransition i32 ChargingStateEnumType
  | DoPlugIn i32
  | DoDeauthorize string
  | DoTick i32
  | DoExpire i32
  | DoConsume
  | DoPowerUp
  | DoPowerDown
  | DoConnect
  | DoDisconnect
  | DoCableIn ConnectorId
  | DoCableOut ConnectorId
  | DoFault ConnectorId ChargePointErrorCode "string option"
  | DoClearFault ConnectorId
  | DoSetAvailability ConnectorId bool
  | OnRemoteStart "u32 option" string
  | OnRequestStart "i32 option" IdTokenType i32 "ChargingProfileType option" "IdTokenType option"
  | OnRemoteStop i32
  | OnRequestStop string
  | OnReset ResetType
  | OnResetV201 ResetEnumType
  | OnChangeAvailability "i32 option" OperationalStatusEnumType
  | OnUnlock u32
  | OnUnlockV201 i32 i32
  | OnReserve i32 u32 datetime string
  | OnReserveV201 i32 "i32 option" string IdTokenType
  | OnCancel i32
  | OnCancelV201 i32
  | OnTrigger MessageTrigger "i32 option"
  | OnTriggerV201 MessageTriggerEnumType "i32 option"

fun cp_exec :: "environment \<Rightarrow> datetime \<times> cp_step \<Rightarrow> charge_point \<Rightarrow> charge_point" where
  "cp_exec env (now, DoStart cid tag meter) s = snd (start_transaction env now cid tag meter s)"
| "cp_exec env (now, DoStop tid meter reason) s = snd (cp_stop_transaction env now tid meter reason s)"
| "cp_exec env (now, DoTransition evse state) s = snd (transition_charging_state env now evse state s)"
| "cp_exec env (now, DoPlugIn evse) s = snd (plug_in_cable env now evse s)"
| "cp_exec env (now, DoDeauthorize tag) s = snd (deauthorize tag s)"
| "cp_exec env (now, DoTick tid) s = sampler_tick env tid s"
| "cp_exec env (now, DoExpire rid) s = expiry_fires rid s"
| "cp_exec env (now, DoConsume) s = consume env now s"
| "cp_exec env (now, DoPowerUp) s = snd (start_station env s)"
| "cp_exec env (now, DoPowerDown) s = stop_station s"
| "cp_exec env (now, DoConnect) s = snd (connect env s)"
| "cp_exec env (now, DoDisconnect) s = disconnect s"
| "cp_exec env (now, DoCableIn cid) s = cp_plug_in cid s"
| "cp_exec env (now, DoCableOut cid) s = cp_plug_out cid s"
| "cp_exec env (now, DoFault cid code info) s = cp_set_fault cid code info s"
| "cp_exec env (now, DoClearFault cid) s = cp_clear_fault cid s"
| "cp_exec env (now, DoSetAvailability cid available) s = cp_set_availability cid available s"
| "cp_exec env (now, OnRemoteStart connector tag) s = snd (handle_remote_start connector tag s)"
| "cp_exec env (now, OnRequestStart evse token remote profile grp) s = snd (handle_request_start_v201 evse token remote profile grp s)"
| "cp_exec env (now, OnRemoteStop tid) s = snd (handle_remote_stop tid s)"
| "cp_exec env (now, OnRequestStop tid) s = snd (handle_request_stop_v201 tid s)"
| "cp_exec env (now, OnReset kind) s = snd (handle_reset kind s)"
| "cp_exec env (now, OnResetV201 kind) s = snd (handle_reset_v201 kind s)"
| "cp_exec env (now, OnChangeAvailability evse target) s = snd (handle_change_availability_v201 evse target s)"
| "cp_exec env (now, OnUnlock connector) s = snd (handle_unlock connector s)"
| "cp_exec env (now, OnUnlockV201 evse connector) s = snd (handle_unlock_v201 evse connector s)"
| "cp_exec env (now, OnReserve rid connector expiry tag) s = snd (handle_reserve_now now rid connector expiry tag s)"
| "cp_exec env (now, OnReserveV201 rid evse expiry token) s = snd (handle_reserve_now_v201 env now rid evse expiry token s)"
| "cp_exec env (now, OnCancel rid) s = snd (handle_cancel_reservation rid s)"
| "cp_exec env (now, OnCancelV201 rid) s = snd (handle_cancel_reservation_v201 rid s)"
| "cp_exec env (now, OnTrigger m connector) s = snd (handle_trigger_message m connector s)"
| "cp_exec env (now, OnTriggerV201 m evse) s = snd (handle_trigger_message_v201 m evse s)"

definition cp_run :: "environment \<Rightarrow> (datetime \<times> cp_step) list \<Rightarrow> charge_point \<Rightarrow> charge_point" where
  "cp_run env steps s = fold (cp_exec env) steps s"

end
