(* ===== verification/Event_Streams.thy ===== *)
theory Event_Streams
  imports Remote_Commands
begin

text \<open>
  What the CSMS can rely on in the stream of 2.0.1 \<open>TransactionEvent\<close> messages: the events of a
  transaction are numbered from 0 without gaps, begin with \<open>Started\<close>, and nothing follows \<open>Ended\<close>. Shown for every
  interleaving of methods, CALLs, samplers, timers and the consumer, whatever the CSMS answers.
\<close>

section \<open>Streams\<close>

definition event_of :: "outgoing \<Rightarrow> TransactionEventRequest option" where
  "event_of m = (case m of OutTransactionEvent e \<Rightarrow> Some e | _ \<Rightarrow> None)"

definition events_for :: "i32 \<Rightarrow> outgoing list \<Rightarrow> TransactionEventRequest list" where
  "events_for tid sent = filter (\<lambda>e. txt_transaction_id (te_transaction_info e) = show_i32 tid) (List.map_filter event_of sent)"

definition is_start :: "outgoing \<Rightarrow> bool" where
  "is_start m = (case event_of m of Some e \<Rightarrow> te_event_type e = TransactionEventEnumType.Started | None \<Rightarrow> False)"

definition started_count :: "outgoing list \<Rightarrow> nat" where
  "started_count sent = length (filter is_start sent)"

text \<open>A stream that may go on, with the number of its next event, and a stream in general.\<close>

definition open_stream :: "TransactionEventRequest list \<Rightarrow> i32 \<Rightarrow> bool" where
  "open_stream es n \<longleftrightarrow> es \<noteq> [] \<and> te_event_type (hd es) = TransactionEventEnumType.Started
     \<and> list_all (\<lambda>e. te_event_type e = TransactionEventEnumType.Updated) (tl es)
     \<and> map te_seq_no es = map of_nat [0..<length es] \<and> n = of_nat (length es)"

definition stream :: "TransactionEventRequest list \<Rightarrow> bool" where
  "stream es \<longleftrightarrow> es = [] \<or> (\<exists>n. open_stream es n)
     \<or> (\<exists>es' e. es = es' @ [e] \<and> open_stream es' (te_seq_no e) \<and> te_event_type e = TransactionEventEnumType.Ended)"

lemma events_for_simps [simp]:
  "events_for tid [] = []"
  "events_for tid (sent @ [OutTransactionEvent e]) =
     events_for tid sent @ (if txt_transaction_id (te_transaction_info e) = show_i32 tid then [e] else [])"
  by (simp_all add: events_for_def event_of_def List.map_filter_def)

lemma events_for_other [simp]: "event_of m = None \<Longrightarrow> events_for tid (sent @ [m]) = events_for tid sent"
  by (simp add: events_for_def List.map_filter_def)

lemma started_count_simps [simp]:
  "started_count [] = 0"
  "event_of m = None \<Longrightarrow> started_count (sent @ [m]) = started_count sent"
  "started_count (sent @ [OutTransactionEvent e]) =
     started_count sent + (if te_event_type e = TransactionEventEnumType.Started then 1 else 0)"
  by (simp_all add: started_count_def is_start_def event_of_def)

lemma event_of_simps [simp]:
  "event_of (OutTransactionEvent e) = Some e"
  "event_of (OutStartTransaction a tag b) = None"
  "event_of (OutStopTransaction tid b r) = None"
  "event_of (OutStatusNotification a st code) = None"
  "event_of (OutStatusNotificationV201 i st') = None"
  "event_of (OutMeterValues req) = None"
  "event_of (OutMeterValuesV201 i vs) = None"
  "event_of (OutReservationStatusUpdate i us) = None"
  "event_of OutBootNotification = None"
  "event_of OutHeartbeat = None"
  by (simp_all add: event_of_def)

lemma open_stream_started: "te_event_type e = TransactionEventEnumType.Started \<Longrightarrow> te_seq_no e = 0 \<Longrightarrow> open_stream [e] 1"
  by (simp add: open_stream_def)

lemma open_stream_updated:
  "open_stream es n \<Longrightarrow> te_event_type e = TransactionEventEnumType.Updated \<Longrightarrow> te_seq_no e = n \<Longrightarrow> open_stream (es @ [e]) (n + 1)"
  by (cases es) (auto simp: open_stream_def)

section \<open>Transaction ids as text\<close>

lemma digits_value_append: "digits_value (xs @ [c]) = digits_value xs * 10 + (of_char c - 48)"
  by (simp add: digits_value_def)

lemma digits_value_show_nat: "digits_value (show_nat n) = n"
proof (induction n rule: show_nat.induct)
  case (1 n)
  have d: "(of_char (digit_char k) :: nat) - 48 = k" if "k < 10" for k
    using that by (simp add: digit_char_def)
  show ?case
  proof (cases "n < 10")
    case True
    then show ?thesis by (subst show_nat.simps) (simp add: digits_value_def d)
  next
    case False
    with 1 have "digits_value (show_nat (n div 10)) = n div 10" by simp
    then show ?thesis using False by (subst show_nat.simps) (simp add: digits_value_append d)
  qed
qed

lemma show_nat_head: "\<exists>k r. show_nat n = digit_char k # r \<and> k < 10"
proof (induction n rule: show_nat.induct)
  case (1 n)
  then show ?case by (subst show_nat.simps) (auto simp: Cons_eq_append_conv, blast)
qed

lemma show_i32_inject [simp]: "show_i32 a = show_i32 b \<longleftrightarrow> a = b"
proof
  have nat: "show_nat m = show_nat n \<Longrightarrow> m = n" for m n
    using digits_value_show_nat [of m] digits_value_show_nat [of n] by metis
  have "(of_char (digit_char k) :: nat) = 48 + k" if "k < 10" for k
    using that by (simp add: digit_char_def)
  then have "digit_char k \<noteq> CHR ''-''" if "k < 10" for k
    using that by fastforce
  then have "CHR ''-'' \<noteq> digit_char k" if "k < 10" for k
    using that by metis
  then have minus: "show_nat m \<noteq> CHR ''-'' # r" "CHR ''-'' # r \<noteq> show_nat m" for m r
    using show_nat_head [of m] by auto
  assume "show_i32 a = show_i32 b"
  then have "sint a = sint b"
    by (auto simp: show_i32_def minus split: if_splits dest!: nat)
  then show "a = b" by (rule signed_word_eqI)
qed simp

section \<open>The streams of the charge point\<close>

text \<open>
  \<open>streams f s\<close>: ids are handed out from \<open>f\<close> on, one per \<open>Started\<close> event; a transaction with a session has an open stream
  whose next number is the one of the session. \<open>streams_below\<close> asks for this as long as the ids have
  not wrapped around.
\<close>

definition streams :: "i32 \<Rightarrow> charge_point \<Rightarrow> bool" where
  "streams f s \<longleftrightarrow> cp_next_transaction_id s = f + of_nat (started_count (cp_sent s))
     \<and> (\<forall>tid. events_for tid (cp_sent s) \<noteq> [] \<longrightarrow> tid \<in> (\<lambda>k. f + of_nat k) ` {..<started_count (cp_sent s)})
     \<and> (\<forall>tid v. map_of (cp_sessions s) tid = Some v \<longrightarrow> open_stream (events_for tid (cp_sent s)) (vs_next_seq_no v))
     \<and> (\<forall>tid. map_of (cp_sessions s) tid = None \<longrightarrow> stream (events_for tid (cp_sent s)))"

definition streams_below :: "i32 \<Rightarrow> charge_point \<Rightarrow> bool" where
  "streams_below f s \<longleftrightarrow> (started_count (cp_sent s) \<le> 2 ^ 32 \<longrightarrow> streams f s)"

lemma streams_fresh:
  assumes "streams f s" and "started_count (cp_sent s) < 2 ^ 32"
  shows "events_for (cp_next_transaction_id s) (cp_sent s) = []" and "map_of (cp_sessions s) (cp_next_transaction_id s) = None"
proof -
  let ?n = "started_count (cp_sent s)" and ?t = "cp_next_transaction_id s"
  have "?t \<noteq> f + of_nat k" if "k < ?n" for k
  proof
    assume "?t = f + of_nat k"
    with assms(1) have "(of_nat ?n :: i32) = of_nat k" by (simp add: streams_def)
    then have "unat (of_nat ?n :: i32) = unat (of_nat k :: i32)" by simp
    with that assms(2) show False by (simp add: unat_of_nat take_bit_nat_eq_self)
  qed
  with assms(1) show e: "events_for ?t (cp_sent s) = []" by (auto simp: streams_def)
  show "map_of (cp_sessions s) ?t = None"
    using assms(1) e by (cases "map_of (cp_sessions s) ?t") (auto simp: streams_def open_stream_def)
qed

text \<open>The moves that the operations are made of.\<close>

lemma streams_quiet:
  assumes "streams_below f s" and "cp_sent s' = cp_sent s" and "cp_next_transaction_id s' = cp_next_transaction_id s"
    and "\<And>tid. map_option vs_next_seq_no (map_of (cp_sessions s') tid) = map_option vs_next_seq_no (map_of (cp_sessions s) tid)"
  shows "streams_below f s'"
proof -
  have "map_of (cp_sessions s') tid = None \<longleftrightarrow> map_of (cp_sessions s) tid = None" for tid
    using assms(4) [of tid] by (cases "map_of (cp_sessions s) tid") auto
  moreover have "\<exists>w. map_of (cp_sessions s) tid = Some w \<and> vs_next_seq_no w = vs_next_seq_no v"
    if "map_of (cp_sessions s') tid = Some v" for tid v
    using assms(4) [of tid] that by (cases "map_of (cp_sessions s) tid") auto
  ultimately show ?thesis
    using assms(1-3) unfolding streams_below_def streams_def by metis
qed

lemma streams_send: "streams_below f s \<Longrightarrow> event_of m = None \<Longrightarrow> streams_below f (send m s)"
  by (simp add: streams_below_def streams_def send_def)

lemma streams_started:
  assumes "streams_below f s" and "te_event_type e = TransactionEventEnumType.Started" and "te_seq_no e = 0"
    and "txt_transaction_id (te_transaction_info e) = show_i32 (cp_next_transaction_id s)"
    and s': "s' = send (OutTransactionEvent e) (s\<lparr>cp_next_transaction_id := cp_next_transaction_id s + 1\<rparr>)"
  shows "streams_below f s'"
    and "started_count (cp_sent s') \<le> 2 ^ 32 \<Longrightarrow>
      events_for (cp_next_transaction_id s) (cp_sent s') = [e] \<and> map_of (cp_sessions s') (cp_next_transaction_id s) = None"
proof -
  have *: "streams f s' \<and> events_for (cp_next_transaction_id s) (cp_sent s') = [e]
      \<and> map_of (cp_sessions s') (cp_next_transaction_id s) = None" if b: "started_count (cp_sent s') \<le> 2 ^ 32"
  proof -
    have b': "started_count (cp_sent s) < 2 ^ 32" using b assms(2) by (simp add: s' send_def)
    with assms(1) have st: "streams f s" by (simp add: streams_below_def)
    note fresh = streams_fresh [OF st b']
    have ev: "events_for tid (cp_sent s') = (if tid = cp_next_transaction_id s then [e] else events_for tid (cp_sent s))" for tid
      using fresh assms(4) by (auto simp: s' send_def)
    from st fresh open_stream_started [OF assms(2,3)] assms(2) show ?thesis
      unfolding streams_def ev by (auto simp: s' send_def stream_def ac_simps lessThan_Suc split: if_splits)
  qed
  then show "streams_below f s'" by (simp add: streams_below_def)
  assume "started_count (cp_sent s') \<le> 2 ^ 32"
  from * [OF this] show "events_for (cp_next_transaction_id s) (cp_sent s') = [e] \<and> map_of (cp_sessions s') (cp_next_transaction_id s) = None"
    by simp
qed

lemma streams_recorded:
  assumes "streams_below f s" and "te_event_type e = TransactionEventEnumType.Started" and "te_seq_no e = 0"
    and "txt_transaction_id (te_transaction_info e) = show_i32 (cp_next_transaction_id s)"
    and "cp_sent s' = cp_sent s @ [OutTransactionEvent e]" and "cp_next_transaction_id s' = cp_next_transaction_id s + 1"
    and "cp_sessions s' = AList.update (cp_next_transaction_id s) v (cp_sessions s)" and "vs_next_seq_no v = 1"
  shows "streams_below f s'"
proof -
  define s1 where "s1 = send (OutTransactionEvent e) (s\<lparr>cp_next_transaction_id := cp_next_transaction_id s + 1\<rparr>)"
  note st = streams_started [OF assms(1-4) s1_def]
  have eq: "cp_sent s' = cp_sent s1" "cp_next_transaction_id s' = cp_next_transaction_id s1"
    "map_of (cp_sessions s') = (map_of (cp_sessions s1))(cp_next_transaction_id s \<mapsto> v)"
    using assms(5-7) by (simp_all add: s1_def send_def update_conv')
  show ?thesis
    unfolding streams_below_def
  proof
    assume "started_count (cp_sent s') \<le> 2 ^ 32"
    with eq st have "streams f s1" "events_for (cp_next_transaction_id s) (cp_sent s1) = [e]"
      by (simp_all add: streams_below_def)
    with open_stream_started [OF assms(2,3)] show "streams f s'"
      by (simp add: streams_def eq assms(8))
  qed
qed

lemma streams_updated:
  assumes "streams_below f s" and "map_of (cp_sessions s) tid = Some v"
    and "te_event_type e = TransactionEventEnumType.Updated" and "te_seq_no e = vs_next_seq_no v"
    and "txt_transaction_id (te_transaction_info e) = show_i32 tid"
    and "cp_sent s' = cp_sent s @ [OutTransactionEvent e]" and "cp_next_transaction_id s' = cp_next_transaction_id s"
    and "\<And>t. map_option vs_next_seq_no (map_of (cp_sessions s') t) =
      (if t = tid then Some (vs_next_seq_no v + 1) else map_option vs_next_seq_no (map_of (cp_sessions s) t))"
  shows "streams_below f s'"
  unfolding streams_below_def
proof
  assume "started_count (cp_sent s') \<le> 2 ^ 32"
  with assms(1,3,6) have st: "streams f s" by (simp add: streams_below_def)
  then have "open_stream (events_for tid (cp_sent s)) (vs_next_seq_no v)"
    using assms(2) by (simp add: streams_def)
  then have "open_stream (events_for tid (cp_sent s')) (vs_next_seq_no v + 1)"
    and ne: "events_for tid (cp_sent s) \<noteq> []"
    using open_stream_updated [OF _ assms(3,4)] assms(5,6) by (auto simp: open_stream_def)
  moreover have "events_for t (cp_sent s') = events_for t (cp_sent s)" if "t \<noteq> tid" for t
    using that assms(5,6) by simp
  moreover have "map_of (cp_sessions s') t = None \<longleftrightarrow> map_of (cp_sessions s) t = None" for t
    using assms(8) [of t] assms(2) by (cases "map_of (cp_sessions s) t") (auto split: if_splits)
  moreover have "if t = tid then vs_next_seq_no w = vs_next_seq_no v + 1
      else \<exists>x. map_of (cp_sessions s) t = Some x \<and> vs_next_seq_no x = vs_next_seq_no w"
    if "map_of (cp_sessions s') t = Some w" for t w
    using assms(8) [of t] that by (cases "map_of (cp_sessions s) t") (auto split: if_splits)
  moreover have "started_count (cp_sent s') = started_count (cp_sent s)" using assms(3,6) by simp
  ultimately show "streams f s'"
    using st assms(2,7) ne unfolding streams_def by (metis option.distinct(1))
qed

lemma streams_ended:
  assumes "streams_below f s" and "map_of (cp_sessions s) tid = Some v"
    and "te_event_type e = TransactionEventEnumType.Ended" and "te_seq_no e = vs_next_seq_no v"
    and "txt_transaction_id (te_transaction_info e) = show_i32 tid"
    and "cp_sent s' = cp_sent s @ [OutTransactionEvent e]" and "cp_next_transaction_id s' = cp_next_transaction_id s"
    and "cp_sessions s' = AList.delete tid (cp_sessions s)"
  shows "streams_below f s'"
  unfolding streams_below_def
proof
  assume "started_count (cp_sent s') \<le> 2 ^ 32"
  with assms(1,3,6) have st: "streams f s" by (simp add: streams_below_def)
  then have o: "open_stream (events_for tid (cp_sent s)) (vs_next_seq_no v)"
    using assms(2) by (simp add: streams_def)
  then have "stream (events_for tid (cp_sent s'))" and ne: "events_for tid (cp_sent s) \<noteq> []"
    using assms(3-6) by (auto simp: stream_def open_stream_def)
  with st assms(3,5,6,7,8) show "streams f s'"
    unfolding streams_def by (auto simp: delete_conv' split: if_splits)
qed

section \<open>What the station knows about\<close>

text \<open>
  The set of connectors never changes. Transactions, samplers and queued starts name connectors of the station; a
  sampler and a session belong to an active transaction, and only a 2.0.1 station has sessions.
\<close>

definition names_known :: "ConnectorId list \<Rightarrow> RemoteCommand \<Rightarrow> bool" where
  "names_known K c = (case c of StartTransaction cid _ _ _ _ \<Rightarrow> cid \<in> set K | _ \<Rightarrow> True)"

definition known :: "ConnectorId list \<Rightarrow> charge_point \<Rightarrow> bool" where
  "known K s \<longleftrightarrow> map fst (cp_connectors s) = K
     \<and> snd ` set (cp_active_transactions s) \<subseteq> set K
     \<and> smp_connector ` snd ` set (cp_samplers s) \<subseteq> set K
     \<and> list_all (names_known K) (cp_commands s)
     \<and> fst ` set (cp_samplers s) \<subseteq> fst ` set (cp_active_transactions s)
     \<and> fst ` set (cp_sessions s) \<subseteq> fst ` set (cp_active_transactions s)
     \<and> (cp_version s = V16J \<longrightarrow> cp_sessions s = [])"

definition orderly :: "i32 \<Rightarrow> ConnectorId list \<Rightarrow> charge_point \<Rightarrow> bool" where
  "orderly f K s \<longleftrightarrow> known K s \<and> streams_below f s"

lemma keys_map_entry [simp]: "map fst (AList.map_entry k g al) = map fst al"
  by (induction al) auto

lemma dom_map_entry' [simp]: "fst ` set (AList.map_entry k g al) = fst ` set al"
  using keys_map_entry [of k g al] by (metis list.set_map)

lemma snd_update_subset: "snd ` set (AList.update k v al) \<subseteq> insert v (snd ` set al)"
  by (induction al) auto

lemma snd_update_subsetI: "snd ` set al \<subseteq> A \<Longrightarrow> v \<in> A \<Longrightarrow> snd ` set (AList.update k v al) \<subseteq> A"
  using snd_update_subset [of k v al] by blast

lemma set_delete_subset: "set (AList.delete k al) \<subseteq> set al"
  by (auto simp: AList.delete_eq)

lemma map_of_configured: "map_of al k \<noteq> None \<Longrightarrow> map fst al = K \<Longrightarrow> k \<in> set K"
  by (metis domIff dom_map_of_conv_image_fst list.set_map)

lemma configured_map_of: "k \<in> set K \<Longrightarrow> map fst al = K \<Longrightarrow> map_of al k \<noteq> None"
  by (metis list.set_map map_of_eq_None_iff)

lemma dom_delete: "fst ` set (AList.delete k al) = fst ` set al - {k}"
  by (induction al) auto

text \<open>Fields that the invariant does not look at.\<close>

lemma streams_below_frame [simp]:
  "streams_below f (s\<lparr>cp_connectors := cs\<rparr>) = streams_below f s"
  "streams_below f (s\<lparr>cp_active_transactions := ts\<rparr>) = streams_below f s"
  "streams_below f (s\<lparr>cp_samplers := sm\<rparr>) = streams_below f s"
  "streams_below f (s\<lparr>cp_commands := cmds\<rparr>) = streams_below f s"
  by (simp_all add: streams_below_def streams_def)

lemma orderly_frame [simp]:
  "orderly f K (s\<lparr>cp_profiles := pf\<rparr>) = orderly f K s"
  "orderly f K (s\<lparr>cp_reservations := rs\<rparr>) = orderly f K s"
  "orderly f K (s\<lparr>cp_expiry_timers := tm\<rparr>) = orderly f K s"
  "orderly f K (s\<lparr>cp_pending_reset := pr\<rparr>) = orderly f K s"
  "orderly f K (s\<lparr>cp_pending_availability := pa\<rparr>) = orderly f K s"
  "orderly f K (s\<lparr>cp_is_connected := b\<rparr>) = orderly f K s"
  "orderly f K (s\<lparr>cp_registration := rg\<rparr>) = orderly f K s"
  "orderly f K (s\<lparr>cp_heartbeat := hb\<rparr>) = orderly f K s"
  by (simp_all add: orderly_def known_def streams_below_def streams_def)

lemma orderly_connectors [simp]: "orderly f K (s\<lparr>cp_connectors := AList.map_entry cid g (cp_connectors s)\<rparr>) = orderly f K s"
  by (simp add: orderly_def known_def)

lemma orderly_set_connector_status [simp]: "orderly f K (set_connector_status cid st s) = orderly f K s"
  by (simp add: set_connector_status_def)

lemma orderly_update_connector [simp]: "orderly f K (update_connector cid g s) = orderly f K s"
  by (simp add: update_connector_def)

lemma orderly_samplers: "orderly f K s \<Longrightarrow> smp_connector ` snd ` set sm \<subseteq> set K \<Longrightarrow>
    fst ` set sm \<subseteq> fst ` set (cp_active_transactions s) \<Longrightarrow> orderly f K (s\<lparr>cp_samplers := sm\<rparr>)"
  by (simp add: orderly_def known_def)

lemma orderly_samplers_known:
  assumes "orderly f K s"
  shows "smp_connector ` snd ` set (cp_samplers s) \<subseteq> set K" and "fst ` set (cp_samplers s) \<subseteq> fst ` set (cp_active_transactions s)"
  using assms by (simp_all add: orderly_def known_def)

lemma orderly_fewer_samplers: "orderly f K s \<Longrightarrow> set sm \<subseteq> set (cp_samplers s) \<Longrightarrow> orderly f K (s\<lparr>cp_samplers := sm\<rparr>)"
  using orderly_samplers_known [of f K s] by (intro orderly_samplers) blast+

lemma orderly_sampler_update:
  assumes "orderly f K s" and "smp_connector t \<in> set K" and "tid \<in> fst ` set (cp_active_transactions s)"
  shows "orderly f K (s\<lparr>cp_samplers := AList.update tid t (cp_samplers s)\<rparr>)"
proof (rule orderly_samplers [OF assms(1)])
  have "smp_connector ` snd ` set (AList.update tid t (cp_samplers s)) \<subseteq> smp_connector ` insert t (snd ` set (cp_samplers s))"
    by (intro image_mono snd_update_subset)
  also have "\<dots> \<subseteq> set K" using orderly_samplers_known(1) [OF assms(1)] assms(2) by simp
  finally show "smp_connector ` snd ` set (AList.update tid t (cp_samplers s)) \<subseteq> set K" .
  show "fst ` set (AList.update tid t (cp_samplers s)) \<subseteq> fst ` set (cp_active_transactions s)"
    using orderly_samplers_known [OF assms(1)] assms(3) by (simp add: dom_update)
qed

lemma orderly_stop_meter_sampler: "orderly f K s \<Longrightarrow> orderly f K (stop_meter_sampler tid s)"
  unfolding stop_meter_sampler_def by (intro orderly_fewer_samplers set_delete_subset)

lemma orderly_start_meter_sampler:
  "orderly f K s \<Longrightarrow> cid \<in> set K \<Longrightarrow> map_of (cp_active_transactions s) tid \<noteq> None \<Longrightarrow> orderly f K (start_meter_sampler now cid tid s)"
  unfolding start_meter_sampler_def by (intro orderly_sampler_update) (simp_all add: map_of_eq_None_iff)

lemma orderly_send: "orderly f K s \<Longrightarrow> event_of m = None \<Longrightarrow> orderly f K (send m s)"
  by (simp add: orderly_def streams_send) (simp add: known_def send_def)

lemma orderly_commands: "orderly f K s \<Longrightarrow> list_all (names_known K) cmds \<Longrightarrow> orderly f K (s\<lparr>cp_commands := cmds\<rparr>)"
  by (simp add: orderly_def known_def)

lemma orderly_enqueue: "orderly f K s \<Longrightarrow> list_all (names_known K) cmds \<Longrightarrow> orderly f K (enqueue cmds s)"
  by (simp add: enqueue_def orderly_def known_def)

lemma orderly_deleted:
  "orderly f K s \<Longrightarrow> tid \<notin> fst ` set (cp_samplers s) \<Longrightarrow> tid \<notin> fst ` set (cp_sessions s) \<Longrightarrow>
   orderly f K (s\<lparr>cp_active_transactions := AList.delete tid (cp_active_transactions s)\<rparr>)"
  using order_trans [OF image_mono [OF set_delete_subset, of snd tid "cp_active_transactions s"], of "set K"]
  by (simp add: orderly_def known_def dom_delete subset_Diff_insert)

lemma orderly_sessions:
  assumes "orderly f K s" and "map fst ss = map fst (cp_sessions s)"
    and "\<And>tid. map_option vs_next_seq_no (map_of ss tid) = map_option vs_next_seq_no (map_of (cp_sessions s) tid)"
  shows "orderly f K (s\<lparr>cp_sessions := ss\<rparr>)"
proof -
  from assms(2) have "fst ` set ss = fst ` set (cp_sessions s)" by (metis list.set_map)
  moreover from assms(2) have "cp_sessions s = [] \<Longrightarrow> ss = []" by simp
  ultimately show ?thesis
    using assms(1,3) streams_quiet [of f s "s\<lparr>cp_sessions := ss\<rparr>"] by (auto simp: orderly_def known_def)
qed

lemma map_of_map_entry_at: "map_of (AList.map_entry k g al) t = (if t = k then map_option g (map_of al t) else map_of al t)"
  by (induction al) auto

lemma orderly_update_session:
  "orderly f K s \<Longrightarrow> (\<And>v. vs_next_seq_no (g v) = vs_next_seq_no v) \<Longrightarrow> orderly f K (update_session tid g s)"
  unfolding update_session_def
  by (rule orderly_sessions) (auto simp: map_of_map_entry_at option.map_comp o_def)

section \<open>Messages\<close>

lemma orderly_and_then:
  "orderly f K (snd r) \<Longrightarrow> (\<And>x. fst r = Inr x \<Longrightarrow> orderly f K (snd (g x (snd r)))) \<Longrightarrow> orderly f K (snd (and_then r g))"
  by (auto simp: and_then_def split: prod.splits sum.splits)

lemma orderly_call_ack: "orderly f K s \<Longrightarrow> event_of m = None \<Longrightarrow> orderly f K (snd (call_ack env m s))"
  by (simp add: call_ack_def orderly_send)

lemma orderly_status: "orderly f K s \<Longrightarrow> orderly f K (snd (send_status_notification env cid st s))"
  by (simp add: send_status_notification_def orderly_call_ack split: OcppVersion.splits)

lemma active_status [simp]:
  "cp_active_transactions (snd (send_status_notification env cid st s)) = cp_active_transactions s"
  "cp_samplers (snd (send_status_notification env cid st s)) = cp_samplers s"
  "cp_sessions (snd (send_status_notification env cid st s)) = cp_sessions s"
  by (simp_all add: send_status_notification_def call_ack_def send_def)

lemma orderly_event_updated:
  assumes "orderly f K s" and "map_of (cp_sessions s) tid = Some v"
    and "te_event_type e = TransactionEventEnumType.Updated" and "te_seq_no e = vs_next_seq_no v"
    and "txt_transaction_id (te_transaction_info e) = show_i32 tid"
  shows "orderly f K (send (OutTransactionEvent e) (update_session tid claim_seq s))"
  using assms(1) streams_updated [OF _ assms(2-5), of f "send (OutTransactionEvent e) (update_session tid claim_seq s)"] assms(2)
  by (simp add: orderly_def known_def send_def update_session_def claim_seq_def map_of_map_entry_at)

lemma orderly_event_ended:
  assumes "orderly f K s" and "map_of (cp_sessions s) tid = Some v"
    and "te_event_type e = TransactionEventEnumType.Ended" and "te_seq_no e = vs_next_seq_no v"
    and "txt_transaction_id (te_transaction_info e) = show_i32 tid"
  shows "orderly f K (send (OutTransactionEvent e) (s\<lparr>cp_sessions := AList.delete tid (cp_sessions s)\<rparr>))"
  using assms(1) streams_ended [OF _ assms(2-5), of f "send (OutTransactionEvent e) (s\<lparr>cp_sessions := AList.delete tid (cp_sessions s)\<rparr>)"]
  by (auto simp: orderly_def known_def send_def dom_delete)

lemma orderly_event_started:
  assumes "orderly f K s" and "te_event_type e = TransactionEventEnumType.Started" and "te_seq_no e = 0"
    and "txt_transaction_id (te_transaction_info e) = show_i32 (cp_next_transaction_id s)"
  shows "orderly f K (send (OutTransactionEvent e) (s\<lparr>cp_next_transaction_id := cp_next_transaction_id s + 1\<rparr>))"
  using assms(1) streams_started(1) [OF _ assms(2-4) refl, of f]
  by (simp add: orderly_def known_def send_def)

lemma orderly_event_recorded:
  assumes "orderly f K s" and "te_event_type e = TransactionEventEnumType.Started" and "te_seq_no e = 0"
    and "txt_transaction_id (te_transaction_info e) = show_i32 (cp_next_transaction_id s)"
    and "vs_next_seq_no v = 1" and "cid \<in> set K" and "cp_version s = V201"
  shows "orderly f K ((send (OutTransactionEvent e) (s\<lparr>cp_next_transaction_id := cp_next_transaction_id s + 1\<rparr>))
     \<lparr>cp_sessions := AList.update (cp_next_transaction_id s) v (cp_sessions s),
      cp_active_transactions := AList.update (cp_next_transaction_id s) cid (cp_active_transactions s)\<rparr>)"
    (is "orderly f K ?s")
proof -
  have "streams_below f ?s"
    by (rule streams_recorded [OF _ assms(2-4), where v = v]) (use assms(1,5) in \<open>simp_all add: orderly_def send_def\<close>)
  moreover have "known K ?s"
    using assms(1,6,7) snd_update_subsetI [of "cp_active_transactions s" "set K" cid "cp_next_transaction_id s"]
    by (auto simp: orderly_def known_def send_def dom_update)
  ultimately show ?thesis by (simp add: orderly_def)
qed

lemma session_ref_sel [simp]: "sr_transaction_id (session_ref tid evse) = show_i32 tid"
  by (simp add: session_ref_def)

end
