(* ===== verification/Validation.thy ===== *)
theory Validation
  imports Configuration Device_Model Event_Streams
begin

text \<open>
  \<open>ocpp-messages/src/validation.rs\<close>: the constraints of the standard configuration keys and the checks of six 1.6J requests.
  An error of a key's value names the branch that raised it, an error of a request is its text. Reading a time stamp is \<open>chrono\<close>'s and a
  parameter.
\<close>

section \<open>Configuration keys\<close>

datatype ConfigDataType = StringType | IntegerType | DecimalType | BooleanType | DateTimeType | CSL

record KeyConstraints =
  kc_readonly :: bool
  kc_min_length :: "nat option"
  kc_max_length :: "nat option"
  kc_valid_values :: "string list option"
  kc_numeric_range :: "(f64 \<times> f64) option"
  kc_data_type :: ConfigDataType

type_synonym ConfigurationValidator = "(string, KeyConstraints) hmap"

definition boolean_key :: KeyConstraints where
  "boolean_key = \<lparr>kc_readonly = False, kc_min_length = None, kc_max_length = None,
     kc_valid_values = Some [''true'', ''false''], kc_numeric_range = None, kc_data_type = BooleanType\<rparr>"

definition integer_key :: "bool \<Rightarrow> int \<Rightarrow> int \<Rightarrow> KeyConstraints" where
  "integer_key ro lo hi = \<lparr>kc_readonly = ro, kc_min_length = None, kc_max_length = None, kc_valid_values = None,
     kc_numeric_range = Some (Finite (of_int lo), Finite (of_int hi)), kc_data_type = IntegerType\<rparr>"

definition list_key :: "bool \<Rightarrow> nat \<Rightarrow> KeyConstraints" where
  "list_key ro n = \<lparr>kc_readonly = ro, kc_min_length = None, kc_max_length = Some n, kc_valid_values = None,
     kc_numeric_range = None, kc_data_type = CSL\<rparr>"

definition add_key :: "string \<Rightarrow> KeyConstraints \<Rightarrow> ConfigurationValidator \<Rightarrow> ConfigurationValidator" where
  "add_key k c v = AList.update k c v"

definition standard_keys :: "(string \<times> KeyConstraints) list" where
  "standard_keys = [
     (''AllowOfflineTxForUnknownId'', boolean_key), (''AuthorizationCacheEnabled'', boolean_key),
     (''AuthorizeRemoteTxRequests'', boolean_key), (''BlinkRepeat'', integer_key False 1 100),
     (''ClockAlignedDataInterval'', integer_key False 0 900), (''ConnectionTimeOut'', integer_key False 1 600),
     (''HeartbeatInterval'', integer_key False 0 86400), (''LightIntensity'', integer_key False 0 100),
     (''LocalAuthorizeOffline'', boolean_key), (''LocalPreAuthorize'', boolean_key),
     (''MeterValuesAlignedData'', list_key False 500), (''MeterValuesSampledData'', list_key False 500),
     (''MeterValueSampleInterval'', integer_key False 0 86400), (''NumberOfConnectors'', integer_key True 0 100),
     (''ResetRetries'', integer_key False 0 10), (''ConnectorPhaseRotation'', list_key False 1000),
     (''StopTransactionOnEVSideDisconnect'', boolean_key), (''StopTransactionOnInvalidId'', boolean_key),
     (''StopTxnAlignedData'', list_key False 500), (''StopTxnSampledData'', list_key False 500),
     (''SupportedFeatureProfiles'', list_key True 1000), (''TransactionMessageAttempts'', integer_key False 1 10),
     (''TransactionMessageRetryInterval'', integer_key False 1 3600),
     (''UnlockConnectorOnEVSideDisconnect'', boolean_key), (''WebSocketPingInterval'', integer_key False 0 3600)]"

definition add_standard_keys :: "ConfigurationValidator \<Rightarrow> ConfigurationValidator" where
  "add_standard_keys v = fold (\<lambda>(k, c). add_key k c) standard_keys v"

definition ConfigurationValidator_new :: ConfigurationValidator where
  "ConfigurationValidator_new = add_standard_keys []"

datatype value_error =
    TooShort nat | TooLong nat | InvalidValue | NotAnInteger | NotADecimal | OutOfRange f64 f64 | NotABoolean | NotATimestamp

text \<open>\<open>str::parse::<i32>\<close>: an optional sign and digits, within the range of the type.\<close>

definition parse_i32 :: "string \<Rightarrow> i32 option" where
  "parse_i32 s = Option.bind (parse_exponent s)
     (\<lambda>n. if - (2 ^ 31) \<le> n \<and> n < 2 ^ 31 then Some (word_of_int n) else None)"

definition in_range :: "(f64 \<times> f64) option \<Rightarrow> f64 \<Rightarrow> (value_error, unit) result" where
  "in_range bounds x = (case bounds of
      Some (lo, hi) \<Rightarrow> if f64_lt x lo \<or> f64_lt hi x then Err (OutOfRange lo hi) else Ok ()
    | None \<Rightarrow> Ok ())"

definition validate_type :: "(string \<Rightarrow> bool) \<Rightarrow> KeyConstraints \<Rightarrow> string \<Rightarrow> (value_error, unit) result" where
  "validate_type rfc3339 c v = (case kc_data_type c of
      IntegerType \<Rightarrow> (case parse_i32 v of None \<Rightarrow> Err NotAnInteger | Some n \<Rightarrow> in_range (kc_numeric_range c) (f64_of_i32 n))
    | DecimalType \<Rightarrow> (case parse_f64 v of None \<Rightarrow> Err NotADecimal | Some x \<Rightarrow> in_range (kc_numeric_range c) x)
    | BooleanType \<Rightarrow> if v \<noteq> ''true'' \<and> v \<noteq> ''false'' then Err NotABoolean else Ok ()
    | DateTimeType \<Rightarrow> if rfc3339 v then Ok () else Err NotATimestamp
    | StringType \<Rightarrow> Ok ()
    | CSL \<Rightarrow> Ok ())"

definition validate_value :: "(string \<Rightarrow> bool) \<Rightarrow> KeyConstraints \<Rightarrow> string \<Rightarrow> (value_error, unit) result" where
  "validate_value rfc3339 c v =
     (if is_some_and (kc_min_length c) (\<lambda>m. length v < m) then Err (TooShort (the (kc_min_length c)))
      else if is_some_and (kc_max_length c) (\<lambda>m. m < length v) then Err (TooLong (the (kc_max_length c)))
      else if is_some_and (kc_valid_values c) (\<lambda>vs. v \<notin> set vs) then Err InvalidValue
      else validate_type rfc3339 c v)"

definition validate_key_value :: "(string \<Rightarrow> bool) \<Rightarrow> ConfigurationValidator \<Rightarrow> string \<Rightarrow> string \<Rightarrow> (value_error, unit) result" where
  "validate_key_value rfc3339 kv k v = (case map_of kv k of
      Some c \<Rightarrow> validate_value rfc3339 c v | None \<Rightarrow> Ok ())"

definition validator_is_readonly :: "ConfigurationValidator \<Rightarrow> string \<Rightarrow> bool" where
  "validator_is_readonly kv k = (case map_of kv k of Some c \<Rightarrow> kc_readonly c | None \<Rightarrow> False)"

section \<open>Requests\<close>

text \<open>\<open>first_error\<close> is a sequence of guards that return the text of the first that holds.\<close>

fun first_error :: "(bool \<times> string) list \<Rightarrow> (string, unit) result" where
  "first_error [] = Ok ()"
| "first_error ((bad, text) # gs) = (if bad then Err text else first_error gs)"

definition longer_than :: "nat \<Rightarrow> string option \<Rightarrow> bool" where
  "longer_than n s = is_some_and s (\<lambda>t. n < length t)"

definition not_1_to_20 :: "string \<Rightarrow> bool" where
  "not_1_to_20 s \<longleftrightarrow> s = [] \<or> 20 < length s"

definition validate_authorize :: "string \<Rightarrow> (string, unit) result" where
  "validate_authorize id_tag = first_error
     [(id_tag = [], ''idTag cannot be empty''), (20 < length id_tag, ''idTag cannot be longer than 20 characters'')]"

record BootNotificationRequest =
  bnr_charge_point_vendor :: string
  bnr_charge_point_model :: string
  bnr_charge_point_serial_number :: "string option"
  bnr_charge_box_serial_number :: "string option"
  bnr_firmware_version :: "string option"
  bnr_iccid :: "string option"
  bnr_imsi :: "string option"
  bnr_meter_type :: "string option"
  bnr_meter_serial_number :: "string option"

definition validate_boot_notification :: "BootNotificationRequest \<Rightarrow> (string, unit) result" where
  "validate_boot_notification r = first_error
     [(not_1_to_20 (bnr_charge_point_vendor r), ''chargePointVendor must be 1-20 characters''),
      (not_1_to_20 (bnr_charge_point_model r), ''chargePointModel must be 1-20 characters''),
      (longer_than 25 (bnr_charge_point_serial_number r), ''chargePointSerialNumber cannot be longer than 25 characters''),
      (longer_than 25 (bnr_charge_box_serial_number r), ''chargeBoxSerialNumber cannot be longer than 25 characters''),
      (longer_than 50 (bnr_firmware_version r), ''firmwareVersion cannot be longer than 50 characters'')]"

definition validate_start_transaction :: "u32 \<Rightarrow> string \<Rightarrow> i32 \<Rightarrow> (string, unit) result" where
  "validate_start_transaction cid id_tag meter_start = first_error
     [(cid = 0, ''connectorId must be greater than 0''), (not_1_to_20 id_tag, ''idTag must be 1-20 characters''),
      (sint meter_start < 0, ''meterStart cannot be negative'')]"

definition validate_stop_transaction :: "string option \<Rightarrow> i32 \<Rightarrow> i32 \<Rightarrow> (string, unit) result" where
  "validate_stop_transaction id_tag meter_stop tid = first_error
     [(is_some_and id_tag not_1_to_20, ''idTag must be 1-20 characters''),
      (sint meter_stop < 0, ''meterStop cannot be negative''), (sint tid < 0, ''transactionId cannot be negative'')]"

definition validate_status_notification :: "string option \<Rightarrow> string option \<Rightarrow> string option \<Rightarrow> (string, unit) result" where
  "validate_status_notification detail vendor_error_code vendor_id = first_error
     [(longer_than 50 detail, ''info cannot be longer than 50 characters''),
      (longer_than 50 vendor_error_code, ''vendorErrorCode cannot be longer than 50 characters''),
      (longer_than 255 vendor_id, ''vendorId cannot be longer than 255 characters'')]"

text \<open>The samples of a meter value, each given by its value string.\<close>

fun validate_samples :: "string list list \<Rightarrow> (string, unit) result" where
  "validate_samples [] = Ok ()"
| "validate_samples (vs # rest) =
     (if vs = [] then Err ''sampledValue array in meterValue cannot be empty''
      else if list_ex (\<lambda>v. v = []) vs then Err ''sampledValue value cannot be empty''
      else validate_samples rest)"

definition validate_meter_values :: "u32 \<Rightarrow> i32 option \<Rightarrow> string list list \<Rightarrow> (string, unit) result" where
  "validate_meter_values cid tid values =
     (case first_error [(cid = 0, ''connectorId must be greater than 0 for MeterValues''),
        (is_some_and tid (\<lambda>t. sint t < 0), ''transactionId cannot be negative''),
        (values = [], ''meterValue array cannot be empty'')] of
        Err e \<Rightarrow> Err e | Ok _ \<Rightarrow> validate_samples values)"

definition validate_string_field :: "string \<Rightarrow> string \<Rightarrow> nat option \<Rightarrow> nat option \<Rightarrow> (string, unit) result" where
  "validate_string_field field v min_length max_length = first_error
     [(is_some_and min_length (\<lambda>m. length v < m),
         field @ '' must be at least '' @ show_nat (unwrap_or min_length 0) @ '' characters long''),
      (is_some_and max_length (\<lambda>m. m < length v),
         field @ '' cannot be longer than '' @ show_nat (unwrap_or max_length 0) @ '' characters'')]"

definition validate_connector_id :: "u32 \<Rightarrow> bool \<Rightarrow> (string, unit) result" where
  "validate_connector_id cid allow_zero = first_error
     [(cid = 0 \<and> \<not> allow_zero, ''Connector ID must be greater than 0''),
      (100 < unat cid, ''Connector ID cannot be greater than 100'')]"

section \<open>Properties\<close>

lemma map_of_rev_distinct: "distinct (map fst xs) \<Longrightarrow> map_of (rev xs) = map_of xs"
proof
  fix k
  assume d: "distinct (map fst xs)"
  then have d': "distinct (map fst (rev xs))" by (simp flip: rev_map)
  show "map_of (rev xs) k = map_of xs k"
    using map_of_eq_Some_iff [OF d] map_of_eq_Some_iff [OF d'] by (metis not_None_eq set_rev)
qed

lemma validator_eq: "map_of ConfigurationValidator_new = map_of standard_keys"
proof -
  have "map_of (fold (\<lambda>(k, c). add_key k c) xs m) = map_of (rev xs @ m)" for xs m
    by (induction xs arbitrary: m) (auto simp: add_key_def fun_eq_iff hm_get_update map_add_def split: option.split)
  moreover have "distinct (map fst standard_keys)" by (simp add: standard_keys_def)
  ultimately show ?thesis
    by (simp add: ConfigurationValidator_new_def add_standard_keys_def map_of_rev_distinct)
qed

lemma show_nat_digits: "show_nat n \<noteq> [] \<and> list_all is_digit (show_nat n)"
proof (induction n rule: show_nat.induct)
  case (1 n)
  have "is_digit (digit_char k)" if "k < 10" for k using that by (simp add: is_digit_def digit_char_def)
  with 1 show ?case by (subst (1 2) show_nat.simps) auto
qed

lemma parse_i32_show: "parse_i32 (show_nat n) = (if n < 2 ^ 31 then Some (word_of_int (int n)) else None)"
proof -
  obtain c cs where c: "show_nat n = c # cs" using show_nat_digits [of n] by (cases "show_nat n") auto
  then have "is_digit c" using show_nat_digits [of n] by simp
  then have "c \<noteq> CHR ''-''" "c \<noteq> CHR ''+''" by (auto simp: is_digit_def)
  then have "parse_exponent (show_nat n) = Some (int n)"
    using show_nat_digits [of n] digits_value_show_nat [of n] by (simp add: parse_exponent_def c Let_def)
  then show ?thesis by (simp add: parse_i32_def)
qed

lemma standard_integer_bounds: "map_of standard_keys k = Some (integer_key ro lo hi) \<Longrightarrow> hi \<le> 86400"
  by (drule map_of_SomeD) (auto simp: standard_keys_def integer_key_def boolean_key_def list_key_def)

lemma f64_of_nat_word: "n < 2 ^ 31 \<Longrightarrow> f64_of_i32 (word_of_int (int n)) = Finite (of_int (int n))"
  unfolding f64_of_i32_def by (subst sint_word_of_int_i32) simp_all

lemma validate_integer:
  assumes "hi \<le> 86400"
  shows "validate_value rfc3339 (integer_key ro lo hi) (show_nat n) = Ok () \<longleftrightarrow> lo \<le> int n \<and> int n \<le> hi"
proof (cases "n < 2 ^ 31")
  case True
  have "(of_int (int n) :: rat) < of_int lo \<longleftrightarrow> int n < lo" "(of_int hi :: rat) < of_int (int n) \<longleftrightarrow> hi < int n"
    by (simp_all only: of_int_less_iff)
  with True f64_of_nat_word [OF True] show ?thesis
    by (simp add: validate_value_def integer_key_def validate_type_def parse_i32_show in_range_def not_less del: of_int_of_nat_eq)
next
  case False
  with assms show ?thesis
    by (simp add: validate_value_def integer_key_def validate_type_def parse_i32_show)
qed

lemma defaults_valid: "list_all (\<lambda>(k, v). validate_key_value rfc3339 ConfigurationValidator_new k v = Ok ()) default_keys"
proof -
  have num: "''0'' = show_nat 0" "''60'' = show_nat 60" "''86400'' = show_nat 86400" "''2'' = show_nat 2" "''3'' = show_nat 3"
    by (simp_all add: show_nat.simps digit_char_def char_of_def bit_iff_odd)
  have b: "validate_value rfc3339 boolean_key ''true'' = Ok ()" "validate_value rfc3339 boolean_key ''false'' = Ok ()"
    by (simp_all add: validate_value_def boolean_key_def validate_type_def)
  have l: "length v \<le> m \<Longrightarrow> validate_value rfc3339 (list_key ro m) v = Ok ()" for v m ro
    by (simp add: validate_value_def list_key_def validate_type_def)
  have i: "s = show_nat n \<Longrightarrow> hi \<le> 86400 \<Longrightarrow> lo \<le> int n \<Longrightarrow> int n \<le> hi \<Longrightarrow> validate_value rfc3339 (integer_key ro lo hi) s = Ok ()"
    for s n ro lo hi using validate_integer [of hi rfc3339 ro lo n] by simp
  note ints = num(1) [THEN i] num(2) [THEN i] num(3) [THEN i] num(4) [THEN i] num(5) [THEN i]
  show ?thesis
    by (simp add: default_keys_def validate_key_value_def validator_eq standard_keys_def b l ints)
qed

text \<open>
  Property C21. The validator and the configuration store: a number is a valid value of a standard integer key exactly within
  the range of the key, and every value a station starts with is valid. ChangeConfiguration does not ask the validator: it
  stores a text for an integer key, which the validator refuses. The two agree on which keys are read-only but for
  LocalAuthListMaxLength, which the validator does not know.
\<close>

theorem configuration_validation:
  "(map_of ConfigurationValidator_new k = Some (integer_key ro lo hi) \<longrightarrow>
      (validate_key_value rfc3339 ConfigurationValidator_new k (show_nat n) = Ok () \<longleftrightarrow> lo \<le> int n \<and> int n \<le> hi))
   \<and> list_all (\<lambda>(k, v). validate_key_value rfc3339 ConfigurationValidator_new k v = Ok ()) default_keys
   \<and> (let (st, c) = handle_change_configuration ''HeartbeatInterval'' ''soon'' (station_config_store m) in
        st = ConfigurationStatus.Accepted \<and> config_get c ''HeartbeatInterval'' = Some ''soon''
        \<and> validate_key_value rfc3339 ConfigurationValidator_new ''HeartbeatInterval'' ''soon'' = Err NotAnInteger)
   \<and> (config_is_readonly (station_config_store m) key \<longleftrightarrow>
        validator_is_readonly ConfigurationValidator_new key \<or> key = ''LocalAuthListMaxLength'')"
proof (intro conjI)
  show "map_of ConfigurationValidator_new k = Some (integer_key ro lo hi) \<longrightarrow>
      (validate_key_value rfc3339 ConfigurationValidator_new k (show_nat n) = Ok () \<longleftrightarrow> lo \<le> int n \<and> int n \<le> hi)"
    using standard_integer_bounds validate_integer by (auto simp: validate_key_value_def validator_eq)
  show "let (st, c) = handle_change_configuration ''HeartbeatInterval'' ''soon'' (station_config_store m) in
        st = ConfigurationStatus.Accepted \<and> config_get c ''HeartbeatInterval'' = Some ''soon''
        \<and> validate_key_value rfc3339 ConfigurationValidator_new ''HeartbeatInterval'' ''soon'' = Err NotAnInteger"
    by (simp add: change_configuration_eq station_readonly config_get_def hm_get_update validate_key_value_def validator_eq)
      (simp add: standard_keys_def integer_key_def validate_value_def validate_type_def parse_i32_def parse_exponent_def is_digit_def Let_def)
  have "validator_is_readonly ConfigurationValidator_new key \<longleftrightarrow> key \<in> {''NumberOfConnectors'', ''SupportedFeatureProfiles''}"
    by (simp add: validator_is_readonly_def validator_eq) (simp add: standard_keys_def integer_key_def boolean_key_def list_key_def)
  then show "config_is_readonly (station_config_store m) key \<longleftrightarrow>
        validator_is_readonly ConfigurationValidator_new key \<or> key = ''LocalAuthListMaxLength''"
    unfolding station_readonly by auto
qed (rule defaults_valid)

theorem configuration_validation_witness:
  "map_of ConfigurationValidator_new ''ConnectionTimeOut'' = Some (integer_key False 1 600)
   \<and> validate_key_value (\<lambda>_. False) ConfigurationValidator_new ''ConnectionTimeOut'' (show_nat 600) = Ok ()
   \<and> validate_key_value (\<lambda>_. False) ConfigurationValidator_new ''ConnectionTimeOut'' (show_nat 0) \<noteq> Ok ()"
proof -
  have k: "map_of ConfigurationValidator_new ''ConnectionTimeOut'' = Some (integer_key False 1 600)"
    by (simp add: validator_eq standard_keys_def)
  with configuration_validation [of "''ConnectionTimeOut''" False 1 600 "\<lambda>_. False" 600]
    configuration_validation [of "''ConnectionTimeOut''" False 1 600 "\<lambda>_. False" 0]
  show ?thesis by simp
qed

end
