(* ===== verification/Station_Requests.thy ===== *)
theory Station_Requests
  imports Commands201 Data_Transfer Messages
begin

text \<open>
  The 2.0.1 messages a station sends of its own accord: certificates, ISO 15118 relays, the negotiation of a charging
  schedule, security events, external charging limits and vendor data. The builders are those of \<open>v201_command.rs\<close>, the
  methods those of \<open>lib.rs\<close>. What the CSMS answers is the record \<open>csms\<close>: an arbitrary function, per message, of all the
  calls made so far.
\<close>

section \<open>Data\<close>

record ModemType =
  mt_iccid :: "string option"
  mt_imsi :: "string option"
  mt_custom_data :: "CustomDataType option"

record ChargingStationType =
  cst_vendor_name :: string
  cst_model :: string
  cst_serial_number :: "string option"
  cst_firmware_version :: "string option"
  cst_modem :: "ModemType option"
  cst_custom_data :: "CustomDataType option"

record OCSPRequestDataType =
  ocsp_hash_algorithm :: HashAlgorithmEnumType
  ocsp_issuer_name_hash :: string
  ocsp_issuer_key_hash :: string
  ocsp_serial_number :: string
  ocsp_responder_url :: string
  ocsp_custom_data :: "CustomDataType option"

record ACChargingParametersType =
  acp_energy_amount :: i32
  acp_ev_min_current :: i32
  acp_ev_max_current :: i32
  acp_ev_max_voltage :: i32
  acp_custom_data :: "CustomDataType option"

record DCChargingParametersType =
  dcp_ev_max_current :: i32
  dcp_ev_max_voltage :: i32
  dcp_energy_amount :: "i32 option"
  dcp_ev_max_power :: "i32 option"
  dcp_state_of_charge :: "i32 option"
  dcp_ev_energy_capacity :: "i32 option"
  dcp_full_soc :: "i32 option"
  dcp_bulk_soc :: "i32 option"
  dcp_custom_data :: "CustomDataType option"

record ChargingNeedsType =
  cnt_requested_energy_transfer :: EnergyTransferModeEnumType
  cnt_departure_time :: "string option"
  cnt_ac_charging_parameters :: "ACChargingParametersType option"
  cnt_dc_charging_parameters :: "DCChargingParametersType option"
  cnt_custom_data :: "CustomDataType option"

record SignCertificateRequest =
  scr_csr :: string
  scr_certificate_type :: "CertificateSigningUseEnumType option"
  scr_custom_data :: "CustomDataType option"

record GetCertificateStatusRequest =
  gcs_ocsp_request_data :: OCSPRequestDataType
  gcs_custom_data :: "CustomDataType option"

record GetCertificateStatusResponse =
  gcr_status :: GetCertificateStatusEnumType
  gcr_status_info :: "StatusInfoType option"
  gcr_ocsp_result :: "string option"
  gcr_custom_data :: "CustomDataType option"

record Get15118EVCertificateRequest =
  evc_iso15118_schema_version :: string
  evc_action :: CertificateActionEnumType
  evc_exi_request :: string
  evc_custom_data :: "CustomDataType option"

record Get15118EVCertificateResponse =
  evr_status :: Iso15118EVCertificateStatusEnumType
  evr_exi_response :: string
  evr_status_info :: "StatusInfoType option"
  evr_custom_data :: "CustomDataType option"

record NotifyEVChargingNeedsRequest =
  nen_charging_needs :: ChargingNeedsType
  nen_evse_id :: i32
  nen_max_schedule_tuples :: "i32 option"
  nen_custom_data :: "CustomDataType option"

record NotifyEVChargingScheduleRequest =
  nes_time_base :: string
  nes_charging_schedule :: ChargingScheduleType
  nes_evse_id :: i32
  nes_custom_data :: "CustomDataType option"

record SecurityEventNotificationRequest =
  sen_event_type :: string
  sen_timestamp :: string
  sen_tech_info :: "string option"
  sen_custom_data :: "CustomDataType option"

record NotifyChargingLimitRequest =
  ncl_charging_limit :: ChargingLimitType
  ncl_evse_id :: "i32 option"
  ncl_charging_schedule :: "ChargingScheduleType list option"
  ncl_custom_data :: "CustomDataType option"

record ClearedChargingLimitRequest =
  ccl_charging_limit_source :: ChargingLimitSourceEnumType
  ccl_evse_id :: "i32 option"
  ccl_custom_data :: "CustomDataType option"

datatype station_request =
    SignCertificate SignCertificateRequest
  | GetCertificateStatus GetCertificateStatusRequest
  | Get15118EVCertificate Get15118EVCertificateRequest
  | NotifyEVChargingNeeds NotifyEVChargingNeedsRequest
  | NotifyEVChargingSchedule NotifyEVChargingScheduleRequest
  | SecurityEventNotification SecurityEventNotificationRequest
  | NotifyChargingLimit NotifyChargingLimitRequest
  | ClearedChargingLimit ClearedChargingLimitRequest
  | VendorTransfer V201DataTransferRequest

section \<open>Builders\<close>

definition line_feed :: string where
  "line_feed = [CHR 0x0A]"

definition v201_placeholder_csr :: string where
  "v201_placeholder_csr =
     ''-----BEGIN CERTIFICATE REQUEST-----'' @ line_feed @
     ''MIIBVDCB+wIBADAVMRMwEQYDVQQDDApvY3BwLXJzLXNpbTBZMBMGByqGSM49AgEG'' @ line_feed @
     ''CCqGSM49AwEHA0IABE9vY3BwLXJzIHNpbXVsYXRvciBwbGFjZWhvbGRlciBDU1Ig'' @ line_feed @
     ''bm90IHJlYWwga2V5IG1hdGVyaWFsIG9wYXF1ZSBibG9ioAAwCgYIKoZIzj0EAwID'' @ line_feed @
     ''SQAwRgIhAJvc3BwLXJzLXNpbXVsYXRvci1wbGFjZWhvbGRlci1jc3ItYWIxYWIx'' @ line_feed @
     ''YWIxYWIxYWIxYWIxYWIxYWIxYWIxYWIxYWIx'' @ line_feed @
     ''-----END CERTIFICATE REQUEST-----''"

definition v201_sign_certificate_request :: "CertificateSigningUseEnumType option \<Rightarrow> SignCertificateRequest" where
  "v201_sign_certificate_request ty =
     \<lparr>scr_csr = v201_placeholder_csr, scr_certificate_type = ty, scr_custom_data = None\<rparr>"

definition v201_get_certificate_status_request :: "OCSPRequestDataType \<Rightarrow> GetCertificateStatusRequest" where
  "v201_get_certificate_status_request d = \<lparr>gcs_ocsp_request_data = d, gcs_custom_data = None\<rparr>"

definition v201_get_15118_ev_certificate_request ::
  "string \<Rightarrow> CertificateActionEnumType \<Rightarrow> string \<Rightarrow> Get15118EVCertificateRequest" where
  "v201_get_15118_ev_certificate_request version action exi =
     \<lparr>evc_iso15118_schema_version = version, evc_action = action, evc_exi_request = exi, evc_custom_data = None\<rparr>"

definition v201_notify_ev_charging_needs_request ::
  "ChargingNeedsType \<Rightarrow> i32 \<Rightarrow> i32 option \<Rightarrow> NotifyEVChargingNeedsRequest" where
  "v201_notify_ev_charging_needs_request needs evse tuples =
     \<lparr>nen_charging_needs = needs, nen_evse_id = evse, nen_max_schedule_tuples = tuples, nen_custom_data = None\<rparr>"

definition v201_notify_ev_charging_schedule_request ::
  "string \<Rightarrow> ChargingScheduleType \<Rightarrow> i32 \<Rightarrow> NotifyEVChargingScheduleRequest" where
  "v201_notify_ev_charging_schedule_request time_base schedule evse =
     \<lparr>nes_time_base = time_base, nes_charging_schedule = schedule, nes_evse_id = evse, nes_custom_data = None\<rparr>"

definition v201_security_event_notification_request ::
  "string \<Rightarrow> string \<Rightarrow> string option \<Rightarrow> SecurityEventNotificationRequest" where
  "v201_security_event_notification_request ty ts tech =
     \<lparr>sen_event_type = ty, sen_timestamp = ts, sen_tech_info = tech, sen_custom_data = None\<rparr>"

definition v201_notify_charging_limit_request ::
  "ChargingLimitType \<Rightarrow> i32 option \<Rightarrow> ChargingScheduleType list option \<Rightarrow> NotifyChargingLimitRequest" where
  "v201_notify_charging_limit_request l evse schedule =
     \<lparr>ncl_charging_limit = l, ncl_evse_id = evse, ncl_charging_schedule = schedule, ncl_custom_data = None\<rparr>"

definition v201_cleared_charging_limit_request :: "ChargingLimitSourceEnumType \<Rightarrow> i32 option \<Rightarrow> ClearedChargingLimitRequest" where
  "v201_cleared_charging_limit_request source evse =
     \<lparr>ccl_charging_limit_source = source, ccl_evse_id = evse, ccl_custom_data = None\<rparr>"

definition v201_data_transfer_request :: "string \<Rightarrow> string option \<Rightarrow> json option \<Rightarrow> V201DataTransferRequest" where
  "v201_data_transfer_request vendor msg d =
     \<lparr>vdr_vendor_id = vendor, vdr_message_id = msg, vdr_data = d, vdr_custom_data = None\<rparr>"

section \<open>Methods\<close>

record csms =
  csms_sign :: "station_request list \<Rightarrow> (OcppError, GenericStatusEnumType) result"
  csms_certificate_status :: "station_request list \<Rightarrow> (OcppError, GetCertificateStatusResponse) result"
  csms_ev_certificate :: "station_request list \<Rightarrow> (OcppError, Get15118EVCertificateResponse) result"
  csms_needs :: "station_request list \<Rightarrow> (OcppError, NotifyEVChargingNeedsStatusEnumType) result"
  csms_schedule :: "station_request list \<Rightarrow> (OcppError, GenericStatusEnumType) result"
  csms_ack :: "station_request list \<Rightarrow> (OcppError, unit) result"
  csms_transfer :: "station_request list \<Rightarrow> (OcppError, V201DataTransferResponse) result"

record requester =
  rq_version :: OcppVersion
  rq_calls :: "station_request list"
  rq_csr :: V201PendingCsrStore

definition rq_call ::
  "(station_request list \<Rightarrow> (OcppError, 'a) result) \<Rightarrow> station_request \<Rightarrow> requester \<Rightarrow> (OcppError, 'a) result \<times> requester" where
  "rq_call reply r s = (reply (rq_calls s @ [r]), s\<lparr>rq_calls := rq_calls s @ [r]\<rparr>)"

definition on_v201 ::
  "string \<Rightarrow> (requester \<Rightarrow> (OcppError, 'a) result \<times> requester) \<Rightarrow> requester \<Rightarrow> (OcppError, 'a) result \<times> requester" where
  "on_v201 text method s = (if rq_version s \<noteq> V201 then (Err (OcppError.NotSupported text), s) else method s)"

definition positive_evse ::
  "string \<Rightarrow> i32 \<Rightarrow> (requester \<Rightarrow> (OcppError, 'a) result \<times> requester) \<Rightarrow> requester \<Rightarrow> (OcppError, 'a) result \<times> requester" where
  "positive_evse text evse method s =
     (if sint evse \<le> 0 then (Err (OcppError.ValidationError (text @ '', got '' @ show_i32 evse)), s) else method s)"

text \<open>
  Signing is two steps: the call, and the marker that is recorded when the answer has come. CALLs of the CSMS are handled by
  another task and may come between the two.
\<close>

definition sign_call :: "csms \<Rightarrow> CertificateSigningUseEnumType option \<Rightarrow> requester \<Rightarrow> (OcppError, GenericStatusEnumType) result \<times> requester" where
  "sign_call env ty = on_v201 ''SignCertificate is an OCPP 2.0.1 message; not available on a 1.6J station''
     (rq_call (csms_sign env) (SignCertificate (v201_sign_certificate_request ty)))"

definition sign_record ::
  "CertificateSigningUseEnumType option \<Rightarrow> (OcppError, GenericStatusEnumType) result \<Rightarrow> requester \<Rightarrow> requester" where
  "sign_record ty r s = (if r = Ok GenericStatusEnumType.Accepted then s\<lparr>rq_csr := snd (csr_record ty (rq_csr s))\<rparr> else s)"

definition request_sign_certificate ::
  "csms \<Rightarrow> CertificateSigningUseEnumType option \<Rightarrow> requester \<Rightarrow> (OcppError, GenericStatusEnumType) result \<times> requester" where
  "request_sign_certificate env ty s = (let (r, s1) = sign_call env ty s in (r, sign_record ty r s1))"

definition request_get_certificate_status ::
  "csms \<Rightarrow> OCSPRequestDataType \<Rightarrow> requester \<Rightarrow> (OcppError, GetCertificateStatusResponse) result \<times> requester" where
  "request_get_certificate_status env d = on_v201 ''GetCertificateStatus is an OCPP 2.0.1 message; not available on a 1.6J station''
     (rq_call (csms_certificate_status env) (GetCertificateStatus (v201_get_certificate_status_request d)))"

definition request_get_15118_ev_certificate ::
  "csms \<Rightarrow> string \<Rightarrow> CertificateActionEnumType \<Rightarrow> string \<Rightarrow> requester \<Rightarrow> (OcppError, Get15118EVCertificateResponse) result \<times> requester" where
  "request_get_15118_ev_certificate env version action exi =
     on_v201 ''Get15118EVCertificate is an OCPP 2.0.1 message; not available on a 1.6J station''
       (rq_call (csms_ev_certificate env) (Get15118EVCertificate (v201_get_15118_ev_certificate_request version action exi)))"

definition request_notify_ev_charging_needs ::
  "csms \<Rightarrow> ChargingNeedsType \<Rightarrow> i32 \<Rightarrow> i32 option \<Rightarrow> requester
     \<Rightarrow> (OcppError, NotifyEVChargingNeedsStatusEnumType) result \<times> requester" where
  "request_notify_ev_charging_needs env needs evse tuples =
     on_v201 ''NotifyEVChargingNeeds is an OCPP 2.0.1 message; not available on a 1.6J station''
       (positive_evse ''NotifyEVChargingNeeds requires evseId > 0 (the EVSE the EV is connected to)'' evse
         (rq_call (csms_needs env) (NotifyEVChargingNeeds (v201_notify_ev_charging_needs_request needs evse tuples))))"

definition request_notify_ev_charging_schedule ::
  "csms \<Rightarrow> string \<Rightarrow> ChargingScheduleType \<Rightarrow> i32 \<Rightarrow> requester \<Rightarrow> (OcppError, GenericStatusEnumType) result \<times> requester" where
  "request_notify_ev_charging_schedule env time_base schedule evse =
     on_v201 ''NotifyEVChargingSchedule is an OCPP 2.0.1 message; not available on a 1.6J station''
       (positive_evse ''NotifyEVChargingSchedule requires evseId > 0 (the EVSE the schedule applies to)'' evse
         (rq_call (csms_schedule env) (NotifyEVChargingSchedule (v201_notify_ev_charging_schedule_request time_base schedule evse))))"

datatype EvChargingNegotiationOutcome =
  NeedsRejected | NeedsProcessing | NeedsAccepted (schedule_status: GenericStatusEnumType)

definition negotiate_ev_charging ::
  "csms \<Rightarrow> i32 \<Rightarrow> ChargingNeedsType \<Rightarrow> i32 option \<Rightarrow> string \<Rightarrow> ChargingScheduleType \<Rightarrow> requester
     \<Rightarrow> (OcppError, EvChargingNegotiationOutcome) result \<times> requester" where
  "negotiate_ev_charging env evse needs tuples time_base schedule s =
     (case request_notify_ev_charging_needs env needs evse tuples s of
        (Err e, s1) \<Rightarrow> (Err e, s1)
      | (Ok NotifyEVChargingNeedsStatusEnumType.Rejected, s1) \<Rightarrow> (Ok NeedsRejected, s1)
      | (Ok NotifyEVChargingNeedsStatusEnumType.Processing, s1) \<Rightarrow> (Ok NeedsProcessing, s1)
      | (Ok NotifyEVChargingNeedsStatusEnumType.Accepted, s1) \<Rightarrow>
          (case request_notify_ev_charging_schedule env time_base schedule evse s1 of
             (Err e, s2) \<Rightarrow> (Err e, s2)
           | (Ok st, s2) \<Rightarrow> (Ok (NeedsAccepted st), s2)))"

definition request_security_event_notification ::
  "csms \<Rightarrow> string \<Rightarrow> string \<Rightarrow> string option \<Rightarrow> requester \<Rightarrow> (OcppError, unit) result \<times> requester" where
  "request_security_event_notification env ty ts tech =
     on_v201 ''SecurityEventNotification is driven on the OCPP 2.0.1 path; not available on a 1.6J station''
       (rq_call (csms_ack env) (SecurityEventNotification (v201_security_event_notification_request ty ts tech)))"

definition request_notify_charging_limit ::
  "csms \<Rightarrow> ChargingLimitType \<Rightarrow> i32 option \<Rightarrow> ChargingScheduleType list option \<Rightarrow> requester \<Rightarrow> (OcppError, unit) result \<times> requester" where
  "request_notify_charging_limit env l evse schedule =
     on_v201 ''NotifyChargingLimit is driven on the OCPP 2.0.1 path; not available on a 1.6J station''
       (rq_call (csms_ack env) (NotifyChargingLimit (v201_notify_charging_limit_request l evse schedule)))"

definition request_cleared_charging_limit ::
  "csms \<Rightarrow> ChargingLimitSourceEnumType \<Rightarrow> i32 option \<Rightarrow> requester \<Rightarrow> (OcppError, unit) result \<times> requester" where
  "request_cleared_charging_limit env source evse =
     on_v201 ''ClearedChargingLimit is driven on the OCPP 2.0.1 path; not available on a 1.6J station''
       (rq_call (csms_ack env) (ClearedChargingLimit (v201_cleared_charging_limit_request source evse)))"

definition request_data_transfer ::
  "csms \<Rightarrow> string \<Rightarrow> string option \<Rightarrow> json option \<Rightarrow> requester \<Rightarrow> (OcppError, V201DataTransferResponse) result \<times> requester" where
  "request_data_transfer env vendor msg d =
     on_v201 ''DataTransfer is driven on the OCPP 2.0.1 path here; not available on a 1.6J station''
       (rq_call (csms_transfer env) (VendorTransfer (v201_data_transfer_request vendor msg d)))"

section \<open>Properties\<close>

lemmas request_defs = on_v201_def positive_evse_def rq_call_def

text \<open>
  The negotiation of a charging schedule: on a 1.6J station and for an EVSE id that is not positive nothing is
  called and the error says so; otherwise the needs are sent, and the schedule is sent after them exactly if the CSMS
  accepted the needs. An error of either call is the error of the negotiation, and the outcome is decided by the answers.
\<close>

theorem negotiation_spec:
  "let needs_call = NotifyEVChargingNeeds (v201_notify_ev_charging_needs_request needs evse tuples);
       schedule_call = NotifyEVChargingSchedule (v201_notify_ev_charging_schedule_request time_base schedule evse);
       first = csms_needs env (rq_calls s @ [needs_call]);
       second = csms_schedule env (rq_calls s @ [needs_call, schedule_call]);
       (r, s') = negotiate_ev_charging env evse needs tuples time_base schedule s;
       accepted = (first = Ok NotifyEVChargingNeedsStatusEnumType.Accepted)
   in if rq_version s \<noteq> V201 \<or> sint evse \<le> 0
      then s' = s \<and> (\<exists>text. r = Err (if rq_version s \<noteq> V201 then OcppError.NotSupported text else OcppError.ValidationError text))
      else s' = s\<lparr>rq_calls := rq_calls s @ (if accepted then [needs_call, schedule_call] else [needs_call])\<rparr>
        \<and> r = (if accepted then map_sum id NeedsAccepted second
               else map_sum id (\<lambda>st. if st = NotifyEVChargingNeedsStatusEnumType.Rejected then NeedsRejected else NeedsProcessing) first)"
proof (cases "csms_needs env (rq_calls s @ [NotifyEVChargingNeeds (v201_notify_ev_charging_needs_request needs evse tuples)])")
  case (Inl e)
  then show ?thesis
    by (auto simp: Let_def negotiate_ev_charging_def request_notify_ev_charging_needs_def request_defs)
next
  case (Inr st)
  then show ?thesis
    by (cases st) (auto simp: Let_def negotiate_ev_charging_def request_notify_ev_charging_needs_def
        request_notify_ev_charging_schedule_def request_defs split: sum.split)
qed

text \<open>
  Property C17. A certificate signing request and the delivery that answers it. After an accepted request the next accepted
  delivery is recognised as its answer, and the one after it is not. But the marker is recorded only when the answer of the
  CSMS has been processed: a delivery that is handled before that counts as unsolicited, and the marker stays for a later
  one. A refused or failed request leaves the marker as it was.
\<close>

theorem sign_certificate_correlation:
  "let (r, s1) = sign_call env ty s; s2 = sign_record ty r s1;
       marker = \<lparr>csr_certificate_type = ty, csr_seq = pc_next_seq (rq_csr s)\<rparr>
   in request_sign_certificate env ty s = (r, s2)
      \<and> (if r = Ok GenericStatusEnumType.Accepted
         then (let (first, c1) = correlate_accepted (rq_csr s2) in first = Solicited marker \<and> fst (correlate_accepted c1) = Unsolicited)
           \<and> (let (early, c1) = correlate_accepted (rq_csr s1); s3 = sign_record ty r (s1\<lparr>rq_csr := c1\<rparr>)
              in (pc_pending (rq_csr s) = None \<longleftrightarrow> early = Unsolicited) \<and> fst (correlate_accepted (rq_csr s3)) = Solicited marker)
         else rq_csr s2 = rq_csr s)"
  by (auto simp: Let_def case_prod_beta request_sign_certificate_def sign_call_def sign_record_def request_defs csr_record_def
      correlate_accepted_def split: option.split)

text \<open>On a 1.6J station no method calls anything.\<close>

lemma requests_refused:
  assumes "rq_version s \<noteq> V201"
  shows "\<exists>text. request_sign_certificate env ty s = (Err (OcppError.NotSupported text), s)"
    and "\<exists>text. request_get_certificate_status env d s = (Err (OcppError.NotSupported text), s)"
    and "\<exists>text. request_get_15118_ev_certificate env ver action exi s = (Err (OcppError.NotSupported text), s)"
    and "\<exists>text. request_security_event_notification env ev ts tech s = (Err (OcppError.NotSupported text), s)"
    and "\<exists>text. request_notify_charging_limit env l ev_id schedules s = (Err (OcppError.NotSupported text), s)"
    and "\<exists>text. request_cleared_charging_limit env source ev_id s = (Err (OcppError.NotSupported text), s)"
    and "\<exists>text. request_data_transfer env vendor msg payload s = (Err (OcppError.NotSupported text), s)"
  using assms
  by (simp_all add: request_sign_certificate_def sign_call_def sign_record_def request_get_certificate_status_def
      request_get_15118_ev_certificate_def request_security_event_notification_def request_notify_charging_limit_def
      request_cleared_charging_limit_def request_data_transfer_def on_v201_def)

end
