(* ===== verification/Maintenance.thy ===== *)
theory Maintenance
  imports Commands201 Device_Model Profiles201 Auth_Cache Log_Upload
begin

text \<open>
  Reports and maintenance of \<open>lib.rs\<close>: the consumer's part of the device, monitoring and charging profile reports, which
  completes their handlers; the diagnostics upload and the firmware update of 1.6J; the notifications a TriggerMessage asks
  for; and ClearCache. The consumer runs one command at a time and a trigger is one of its commands, so a task and a
  trigger do not interleave. A call that fails is only logged, so the model lists the calls that are made.
\<close>

section \<open>Reports\<close>

datatype page =
    NotifyReport NotifyReportRequest
  | NotifyMonitoringReport NotifyMonitoringReportRequest
  | ReportChargingProfiles ReportChargingProfilesRequest

definition send_v201_notify_report :: "string \<Rightarrow> i32 \<Rightarrow> ReportDataType list \<Rightarrow> page list" where
  "send_v201_notify_report now rid rows = map NotifyReport (v201_notify_report_pages rid now rows)"

definition send_v201_notify_monitoring_report :: "string \<Rightarrow> i32 \<Rightarrow> MonitoringDataType list \<Rightarrow> page list" where
  "send_v201_notify_monitoring_report now rid rows = map NotifyMonitoringReport (v201_notify_monitoring_report_pages rid now rows)"

definition send_v201_report_charging_profiles :: "i32 \<Rightarrow> installed_profile list \<Rightarrow> page list" where
  "send_v201_report_charging_profiles rid ps = map ReportChargingProfiles (v201_report_charging_profiles_pages rid ps)"

text \<open>What the consumer sends for the commands of the device model; a tripped monitor is in \<open>Device_Model\<close>.\<close>

fun run_report_command :: "string \<Rightarrow> device_command \<Rightarrow> page list" where
  "run_report_command now (V201NotifyReport rid rows) = send_v201_notify_report now rid rows"
| "run_report_command now (V201NotifyMonitoringReport rid rows) = send_v201_notify_monitoring_report now rid rows"
| "run_report_command now (V201MonitorTrip ms x) = []"

definition handle_get_charging_profiles_v201 ::
  "bool \<Rightarrow> i32 \<Rightarrow> i32 option \<Rightarrow> ChargingProfileCriterionType \<Rightarrow> profile_stores
     \<Rightarrow> GetChargingProfileStatusEnumType \<times> (i32 \<times> installed_profile list) list" where
  "handle_get_charging_profiles_v201 alive rid evse c s =
     (let found = v201_get_charging_profiles_matches evse c (installed s)
      in (v201_get_charging_profiles_status (found \<noteq> []), if found \<noteq> [] \<and> alive then [(rid, found)] else []))"

section \<open>Diagnostics and firmware of 1.6J\<close>

datatype maintenance_message =
    DiagnosticsStatusNotification DiagnosticsStatus
  | FirmwareStatusNotification FirmwareStatus

record maintenance =
  mn_diagnostics :: DiagnosticsStatus
  mn_firmware :: FirmwareStatus
  mn_sent :: "maintenance_message list"

definition maintenance_new :: maintenance where
  "maintenance_new = \<lparr>mn_diagnostics = DiagnosticsStatus.Idle, mn_firmware = FirmwareStatus.Idle, mn_sent = []\<rparr>"

definition send_diagnostics_status_notification :: "DiagnosticsStatus \<Rightarrow> maintenance \<Rightarrow> maintenance" where
  "send_diagnostics_status_notification st s = s\<lparr>mn_sent := mn_sent s @ [DiagnosticsStatusNotification st]\<rparr>"

definition set_diagnostics_status :: "DiagnosticsStatus \<Rightarrow> maintenance \<Rightarrow> maintenance" where
  "set_diagnostics_status st s = send_diagnostics_status_notification st (s\<lparr>mn_diagnostics := st\<rparr>)"

definition run_diagnostics_upload :: "bool \<Rightarrow> maintenance \<Rightarrow> maintenance" where
  "run_diagnostics_upload should_fail s =
     set_diagnostics_status (if should_fail then DiagnosticsStatus.UploadFailed else DiagnosticsStatus.Uploaded)
       (set_diagnostics_status DiagnosticsStatus.Uploading s)"

definition send_firmware_status_notification :: "FirmwareStatus \<Rightarrow> maintenance \<Rightarrow> maintenance" where
  "send_firmware_status_notification st s = s\<lparr>mn_sent := mn_sent s @ [FirmwareStatusNotification st]\<rparr>"

definition set_firmware_status :: "FirmwareStatus \<Rightarrow> maintenance \<Rightarrow> maintenance" where
  "set_firmware_status st s = send_firmware_status_notification st (s\<lparr>mn_firmware := st\<rparr>)"

definition run_firmware_update :: "FirmwareUpdateOutcome \<Rightarrow> maintenance \<Rightarrow> maintenance" where
  "run_firmware_update outcome s =
     (let s1 = set_firmware_status FirmwareStatus.Downloading s
      in if outcome = OutcomeDownloadFailed then set_firmware_status FirmwareStatus.DownloadFailed s1
         else set_firmware_status
           (if outcome = OutcomeInstallationFailed then FirmwareStatus.InstallationFailed else FirmwareStatus.Installed)
           (set_firmware_status FirmwareStatus.Installing (set_firmware_status FirmwareStatus.Downloaded s1)))"

datatype maintenance_command = GetDiagnostics | UpdateFirmware | TriggerDiagnosticsStatus | TriggerFirmwareStatus

fun maintenance_exec :: "bool \<Rightarrow> FirmwareUpdateOutcome \<Rightarrow> maintenance_command \<Rightarrow> maintenance \<Rightarrow> maintenance" where
  "maintenance_exec should_fail outcome GetDiagnostics s = run_diagnostics_upload should_fail s"
| "maintenance_exec should_fail outcome UpdateFirmware s = run_firmware_update outcome s"
| "maintenance_exec should_fail outcome TriggerDiagnosticsStatus s = send_diagnostics_status_notification (mn_diagnostics s) s"
| "maintenance_exec should_fail outcome TriggerFirmwareStatus s = send_firmware_status_notification (mn_firmware s) s"

text \<open>The handlers queue the task; the time stamp of the file name is an argument.\<close>

definition handle_get_diagnostics :: "bool \<Rightarrow> string \<Rightarrow> string option \<times> maintenance_command list" where
  "handle_get_diagnostics alive now =
     (if alive then (Some (''diagnostics-'' @ now @ ''.tar.gz''), [GetDiagnostics]) else (None, []))"

definition handle_update_firmware_v16j :: "bool \<Rightarrow> maintenance_command list" where
  "handle_update_firmware_v16j alive = (if alive then [UpdateFirmware] else [])"

section \<open>Triggered notifications of 2.0.1\<close>

record status_report =
  st_request_id :: "i32 option"
  st_custom_data :: "CustomDataType option"

record LogStatusNotificationRequest = status_report +
  lsn_status :: UploadLogStatusEnumType

record FirmwareStatusNotificationRequest = status_report +
  fsn_status :: FirmwareStatusEnumType

record PublishFirmwareStatusNotificationRequest = status_report +
  psn_status :: PublishFirmwareStatusEnumType
  psn_location :: "string list option"

definition v201_log_status_report :: "UploadLogStatusEnumType \<Rightarrow> i32 option \<Rightarrow> LogStatusNotificationRequest" where
  "v201_log_status_report st rid = \<lparr>st_request_id = rid, st_custom_data = None, lsn_status = st\<rparr>"

definition v201_firmware_status_report :: "FirmwareStatusEnumType \<Rightarrow> i32 option \<Rightarrow> FirmwareStatusNotificationRequest" where
  "v201_firmware_status_report st rid = \<lparr>st_request_id = rid, st_custom_data = None, fsn_status = st\<rparr>"

definition v201_publish_firmware_status_report ::
  "PublishFirmwareStatusEnumType \<Rightarrow> string list option \<Rightarrow> i32 option \<Rightarrow> PublishFirmwareStatusNotificationRequest" where
  "v201_publish_firmware_status_report st loc rid =
     \<lparr>st_request_id = rid, st_custom_data = None, psn_status = st, psn_location = loc\<rparr>"

definition trigger_v201_log_status_notification :: "V201LogUploadStore \<Rightarrow> LogStatusNotificationRequest" where
  "trigger_v201_log_status_notification s =
     v201_log_status_report (lsr_status (lu_last_reported s)) (lsr_request_id (lu_last_reported s))"

definition trigger_v201_firmware_status_notification :: "V201FirmwareUpdateStore \<Rightarrow> FirmwareStatusNotificationRequest" where
  "trigger_v201_firmware_status_notification s =
     v201_firmware_status_report (fsr_status (fu_last_reported s)) (fsr_request_id (fu_last_reported s))"

definition trigger_v201_publish_firmware_status_notification :: "V201PublishFirmwareStore \<Rightarrow> PublishFirmwareStatusNotificationRequest" where
  "trigger_v201_publish_firmware_status_notification s =
     v201_publish_firmware_status_report (pfr_status (pf_last_reported s)) (pfr_location (pf_last_reported s))
       (pfr_request_id (pf_last_reported s))"

section \<open>ClearCache\<close>

definition handle_clear_cache :: "AuthCache \<Rightarrow> ClearCacheStatus \<times> AuthCache" where
  "handle_clear_cache c = (ClearCacheStatus.Accepted, cache_clear c)"

definition handle_clear_cache_v201 :: "AuthCache \<Rightarrow> ClearCacheStatusEnumType \<times> AuthCache" where
  "handle_clear_cache_v201 c = (v201_clear_cache_status True, cache_clear c)"

section \<open>Reports reach the central system\<close>

definition report_rows :: "page list \<Rightarrow> ReportDataType list" where
  "report_rows ps = concat (map (\<lambda>p. case p of NotifyReport r \<Rightarrow> unwrap_or (nrr_report_data r) [] | _ \<Rightarrow> []) ps)"

definition monitor_rows :: "page list \<Rightarrow> MonitoringDataType list" where
  "monitor_rows ps = concat (map (\<lambda>p. case p of NotifyMonitoringReport r \<Rightarrow> unwrap_or (nmr_monitor r) [] | _ \<Rightarrow> []) ps)"

lemma unwrap_or_case: "unwrap_or x d = (case x of None \<Rightarrow> d | Some y \<Rightarrow> y)"
  by (cases x) simp_all

lemma report_rows_sent: "report_rows (send_v201_notify_report now rid rows) = rows"
  using report_pages.pages_concat [of rid now rows]
  by (simp add: report_rows_def send_v201_notify_report_def v201_notify_report_pages_def comp_def unwrap_or_case)

lemma monitor_rows_sent: "monitor_rows (send_v201_notify_monitoring_report now rid rows) = rows"
  using monitoring_pages.pages_concat [of rid now rows]
  by (simp add: monitor_rows_def send_v201_notify_monitoring_report_def v201_notify_monitoring_report_pages_def comp_def
      unwrap_or_case)

lemma rows_nothing [simp]: "report_rows [] = []" "monitor_rows [] = []"
  by (simp_all add: report_rows_def monitor_rows_def)

text \<open>
  Property C14. A report request and the consumer together deliver the report: \<open>GetBaseReport\<close>, \<open>GetReport\<close> and
  \<open>GetMonitoringReport\<close> are accepted exactly when the selection is not empty and the consumer runs; then the pages the
  consumer sends carry exactly the selected rows, in order, and otherwise no page is sent.
\<close>

theorem reports_delivered:
  "(let (st, cmds) = handle_get_base_report alive rid base m; sent = concat (map (run_report_command now) cmds)
    in (st = GenericDeviceModelStatusEnumType.Accepted \<longleftrightarrow> alive \<and> report m base \<noteq> [])
       \<and> report_rows sent = (if st = GenericDeviceModelStatusEnumType.Accepted then report m base else [])
       \<and> (sent = [] \<longleftrightarrow> st \<noteq> GenericDeviceModelStatusEnumType.Accepted))
   \<and> (let (st, cmds) = handle_get_report lower alive rid cvs criteria m; sent = concat (map (run_report_command now) cmds)
    in (st = GenericDeviceModelStatusEnumType.Accepted \<longleftrightarrow> alive \<and> report_filtered lower m cvs criteria \<noteq> [])
       \<and> report_rows sent = (if st = GenericDeviceModelStatusEnumType.Accepted then report_filtered lower m cvs criteria else [])
       \<and> (sent = [] \<longleftrightarrow> st \<noteq> GenericDeviceModelStatusEnumType.Accepted))
   \<and> (let (st, cmds) = handle_get_monitoring_report lower alive rid cvs mcriteria m;
          sent = concat (map (run_report_command now) cmds)
    in (st = GenericDeviceModelStatusEnumType.Accepted \<longleftrightarrow> alive \<and> monitoring_snapshot lower m cvs mcriteria \<noteq> [])
       \<and> monitor_rows sent
           = (if st = GenericDeviceModelStatusEnumType.Accepted then monitoring_snapshot lower m cvs mcriteria else [])
       \<and> (sent = [] \<longleftrightarrow> st \<noteq> GenericDeviceModelStatusEnumType.Accepted))"
proof -
  have ne: "send_v201_notify_report now rid rows \<noteq> []" if "rows \<noteq> []" for rows
    using report_rows_sent [of now rid rows] that by auto
  have ne': "send_v201_notify_monitoring_report now rid rows \<noteq> []" if "rows \<noteq> []" for rows
    using monitor_rows_sent [of now rid rows] that by auto
  show ?thesis
    by (simp add: handle_get_base_report_def handle_get_report_def handle_get_monitoring_report_def report_status_def
        v201_get_monitoring_report_status_def report_rows_sent monitor_rows_sent ne ne' Let_def)
qed

section \<open>Triggered statuses are settled\<close>

fun diagnostics_of :: "maintenance_message \<Rightarrow> DiagnosticsStatus option" where
  "diagnostics_of (DiagnosticsStatusNotification st) = Some st"
| "diagnostics_of _ = None"

fun firmware_of :: "maintenance_message \<Rightarrow> FirmwareStatus option" where
  "firmware_of (FirmwareStatusNotification st) = Some st"
| "firmware_of _ = None"

text \<open>Between two commands the stored statuses are the ones announced last, and no task is half done.\<close>

definition maintenance_inv :: "maintenance \<Rightarrow> bool" where
  "maintenance_inv s \<longleftrightarrow>
     mn_diagnostics s = last (DiagnosticsStatus.Idle # List.map_filter diagnostics_of (mn_sent s))
     \<and> mn_firmware s = last (FirmwareStatus.Idle # List.map_filter firmware_of (mn_sent s))
     \<and> mn_diagnostics s \<noteq> DiagnosticsStatus.Uploading
     \<and> mn_firmware s \<notin> {FirmwareStatus.Downloading, FirmwareStatus.Downloaded, FirmwareStatus.Installing}"

lemmas maintenance_defs = set_diagnostics_status_def send_diagnostics_status_notification_def run_diagnostics_upload_def
  set_firmware_status_def send_firmware_status_notification_def run_firmware_update_def

lemma map_filter_append: "List.map_filter f (xs @ ys) = List.map_filter f xs @ List.map_filter f ys"
  by (simp add: map_filter_def)

interpretation maintenance: machine "maintenance_exec should_fail outcome" maintenance_inv for should_fail outcome
proof
  show "maintenance_inv s \<Longrightarrow> maintenance_inv (maintenance_exec should_fail outcome c s)" for c s
    by (cases c) (auto simp: maintenance_inv_def maintenance_defs map_filter_append Let_def)
qed

text \<open>
  Whatever the consumer has run, the status a trigger reports is the status announced last, and it is never a
  step of a running task: a \<open>TriggerMessage\<close> for the diagnostics or the firmware adds one notification, neither
  \<open>Uploading\<close> nor \<open>Downloading\<close>, \<open>Downloaded\<close> or \<open>Installing\<close>, and leaves the state as it was.
\<close>

theorem triggered_status_settled:
  "let s = fold (maintenance_exec should_fail outcome) cs maintenance_new;
       d = last (DiagnosticsStatus.Idle # List.map_filter diagnostics_of (mn_sent s));
       f = last (FirmwareStatus.Idle # List.map_filter firmware_of (mn_sent s))
   in maintenance_exec should_fail outcome TriggerDiagnosticsStatus s
        = s\<lparr>mn_sent := mn_sent s @ [DiagnosticsStatusNotification d]\<rparr>
      \<and> maintenance_exec should_fail outcome TriggerFirmwareStatus s = s\<lparr>mn_sent := mn_sent s @ [FirmwareStatusNotification f]\<rparr>
      \<and> d \<noteq> DiagnosticsStatus.Uploading
      \<and> f \<notin> {FirmwareStatus.Downloading, FirmwareStatus.Downloaded, FirmwareStatus.Installing}"
proof -
  have "maintenance_inv maintenance_new" by (simp add: maintenance_inv_def maintenance_new_def map_filter_def)
  from maintenance.run_inv [OF this, of should_fail outcome cs] show ?thesis
    unfolding Let_def maintenance_inv_def by (auto simp: maintenance_defs simp del: last.simps)
qed

text \<open>The same of the log uploads of 2.0.1: while the consumer is free to run a trigger, the report is not \<open>Uploading\<close>.\<close>

lemma log_idle_step:
  "log_step should_fail s s' \<Longrightarrow>
     (ls_alive s \<and> ls_worker s = None \<longrightarrow> lsr_status (lu_last_reported (ls_store s)) \<noteq> UploadLogStatusEnumType.Uploading) \<Longrightarrow>
     (ls_alive s' \<and> ls_worker s' = None \<longrightarrow> lsr_status (lu_last_reported (ls_store s')) \<noteq> UploadLogStatusEnumType.Uploading)"
  by (induction rule: log_step.induct)
    (auto simp: log_defs v201_log_upload_terminal_status_def split: if_splits option.splits)

theorem triggered_log_status_settled:
  assumes "(log_step should_fail)\<^sup>*\<^sup>* log_system_init s" and "ls_alive s" and "ls_worker s = None"
  shows "lsn_status (trigger_v201_log_status_notification (ls_store s)) \<noteq> UploadLogStatusEnumType.Uploading"
proof -
  from assms(1) have "ls_alive s \<and> ls_worker s = None \<longrightarrow>
      lsr_status (lu_last_reported (ls_store s)) \<noteq> UploadLogStatusEnumType.Uploading"
  proof (induction rule: rtranclp_induct)
    case base
    then show ?case by (simp add: log_system_init_def lu_new_def V201LogStatusReport_default_def)
  next
    case (step y z)
    from step.hyps(2) step.IH show ?case by (rule log_idle_step)
  qed
  with assms(2,3) show ?thesis
    by (simp add: trigger_v201_log_status_notification_def v201_log_status_report_def)
qed

section \<open>Both dialects clear the whole cache\<close>

text \<open>After ClearCache no identifier is found, at any time, in either dialect.\<close>

lemma clear_cache_forgets:
  "cache_get now tag (snd (handle_clear_cache c)) = None \<and> snd (handle_clear_cache_v201 c) = snd (handle_clear_cache c)
   \<and> fst (handle_clear_cache_v201 c) = ClearCacheStatusEnumType.Accepted"
  by (simp add: handle_clear_cache_def handle_clear_cache_v201_def v201_clear_cache_status_def cache_defs)

end
