(* ===== verification/Payload_Shapes.thy ===== *)
theory Payload_Shapes
  imports Datatypes201
begin

text \<open>
  What serde writes for a structure, what its derived reader needs, and what a JSON schema admits,
  each as a description of objects: member names with their presence, the tokens of enumerations,
  and the type of every value; a schema has its lengths, ranges, item counts and formats too. Two
  decidable relations between a structure and a schema give the two directions of their agreement:
  up to the limits of the schema (\<open>within_limits\<close>) in writing, and up to the values that fit the fields
  (\<open>fits\<close>) in reading.
\<close>

named_theorems wire_agree \<open>agreement of a structure with its schema\<close>

text \<open>
  What the libraries decide: \<open>jf_format\<close> is \<open>jsonschema\<close>'s verdict on a string under a named format,
  \<open>jf_multiple\<close> its verdict on a number under \<open>multipleOf\<close> once \<open>run_validation\<close> has forgiven the artefacts
  of binary fractions, \<open>jf_time_text\<close> tells the texts chrono writes for a \<open>DateTime<Utc>\<close> and \<open>jf_time_reads\<close>
  those it reads.
\<close>

record json_formats =
  jf_format :: "string \<Rightarrow> string \<Rightarrow> bool"
  jf_multiple :: "rat \<Rightarrow> json \<Rightarrow> bool"
  jf_time_text :: "string \<Rightarrow> bool"
  jf_time_reads :: "string \<Rightarrow> bool"

section \<open>Structures as serde sees them\<close>

text \<open>
  A member is \<open>Required\<close> (a plain field), \<open>Defaulted\<close> (a plain field with \<open>serde(default)\<close>: always
  written, may be missing when read) or \<open>Optional\<close> (an \<open>Option\<close> that is skipped when it is \<open>None\<close>). A
  structure is open when a flattened map takes its further members.
\<close>

datatype presence = Required | Defaulted | Optional

datatype shape =
    SString
  | STime
  | SInt32
  | SUint32
  | SNumber
  | SBoolean
  | SAny
  | SEnum "string list"
  | SArray shape
  | SObject "(string \<times> presence \<times> shape) list" bool

text \<open>
  The values serde writes. Members follow the order of the fields; the further members of an open
  structure come last. A number that is not finite has no JSON form and is left out.
\<close>

definition in_i32 :: "int \<Rightarrow> bool" where
  "in_i32 i = (- 2147483648 \<le> i \<and> i < 2147483648)"

definition in_u32 :: "int \<Rightarrow> bool" where
  "in_u32 i = (0 \<le> i \<and> i < 4294967296)"

fun shape_writes :: "json_formats \<Rightarrow> shape \<Rightarrow> json \<Rightarrow> bool"
  and members_written :: "json_formats \<Rightarrow> (string \<times> presence \<times> shape) list \<Rightarrow> (string \<times> json) list
    \<Rightarrow> (string \<times> json) list option" where
  "shape_writes L SString j = (case j of JString _ \<Rightarrow> True | _ \<Rightarrow> False)"
| "shape_writes L STime j = (case j of JString s \<Rightarrow> jf_time_text L s | _ \<Rightarrow> False)"
| "shape_writes L SInt32 j = (case j of JInt i \<Rightarrow> in_i32 i | _ \<Rightarrow> False)"
| "shape_writes L SUint32 j = (case j of JInt i \<Rightarrow> in_u32 i | _ \<Rightarrow> False)"
| "shape_writes L SNumber j = (case j of JFloat (Finite _) \<Rightarrow> True | _ \<Rightarrow> False)"
| "shape_writes L SBoolean j = (case j of JBool _ \<Rightarrow> True | _ \<Rightarrow> False)"
| "shape_writes L SAny j = True"
| "shape_writes L (SEnum ts) j = (case j of JString s \<Rightarrow> s \<in> set ts | _ \<Rightarrow> False)"
| "shape_writes L (SArray sh) j = (case j of JArray js \<Rightarrow> list_all (shape_writes L sh) js | _ \<Rightarrow> False)"
| "shape_writes L (SObject fs flat) j = (case j of
     JObject ms \<Rightarrow> (case members_written L fs ms of
         None \<Rightarrow> False
       | Some rest \<Rightarrow> if flat then list_all (\<lambda>(n, _). n \<notin> fst ` set fs) rest else rest = [])
   | _ \<Rightarrow> False)"
| "members_written L [] ms = Some ms"
| "members_written L ((n, p, sh) # fs) ms =
     (case ms of
        (m, j) # r \<Rightarrow> if m = n then if shape_writes L sh j then members_written L fs r else None
                      else if p = Optional then members_written L fs ms else None
      | [] \<Rightarrow> if p = Optional then members_written L fs [] else None)"

text \<open>
  What the derived reader takes: every required member, known tokens, values of the right type. A field of
  type \<open>i32\<close> or \<open>u32\<close> takes integers in its range and no fraction, not even \<open>1.0\<close>; one of type \<open>f64\<close> takes both.
  The reader ignores members it does not know, and reads an \<open>Option\<close> from \<open>null\<close>.
\<close>

fun shape_reads :: "json_formats \<Rightarrow> shape \<Rightarrow> json \<Rightarrow> bool"
  and members_read :: "json_formats \<Rightarrow> (string \<times> presence \<times> shape) list \<Rightarrow> (string \<times> json) list \<Rightarrow> bool" where
  "shape_reads L SString j = (case j of JString _ \<Rightarrow> True | _ \<Rightarrow> False)"
| "shape_reads L STime j = (case j of JString s \<Rightarrow> jf_time_reads L s | _ \<Rightarrow> False)"
| "shape_reads L SInt32 j = (case j of JInt i \<Rightarrow> in_i32 i | _ \<Rightarrow> False)"
| "shape_reads L SUint32 j = (case j of JInt i \<Rightarrow> in_u32 i | _ \<Rightarrow> False)"
| "shape_reads L SNumber j = (case j of JInt _ \<Rightarrow> True | JFloat _ \<Rightarrow> True | _ \<Rightarrow> False)"
| "shape_reads L SBoolean j = (case j of JBool _ \<Rightarrow> True | _ \<Rightarrow> False)"
| "shape_reads L SAny j = True"
| "shape_reads L (SEnum ts) j = (case j of JString s \<Rightarrow> s \<in> set ts | _ \<Rightarrow> False)"
| "shape_reads L (SArray sh) j = (case j of JArray js \<Rightarrow> list_all (shape_reads L sh) js | _ \<Rightarrow> False)"
| "shape_reads L (SObject fs flat) j = (case j of JObject ms \<Rightarrow> members_read L fs ms | _ \<Rightarrow> False)"
| "members_read L [] ms = True"
| "members_read L ((n, p, sh) # fs) ms =
     ((case map_of ms n of
         None \<Rightarrow> p \<noteq> Required
       | Some j \<Rightarrow> (p = Optional \<and> j = JNull) \<or> shape_reads L sh j) \<and> members_read L fs ms)"

text \<open>
  The values that fit the fields of a structure: integers its words can hold, written without a
  fraction, and time stamps chrono understands. Where a value has another type nothing is asked.
\<close>

fun fits :: "json_formats \<Rightarrow> shape \<Rightarrow> json \<Rightarrow> bool"
  and members_fit :: "json_formats \<Rightarrow> (string \<times> presence \<times> shape) list \<Rightarrow> (string \<times> json) list \<Rightarrow> bool" where
  "fits L STime j = (case j of JString s \<Rightarrow> jf_time_reads L s | _ \<Rightarrow> True)"
| "fits L SInt32 j = (case j of JInt i \<Rightarrow> in_i32 i | JFloat _ \<Rightarrow> False | _ \<Rightarrow> True)"
| "fits L SUint32 j = (case j of JInt i \<Rightarrow> in_u32 i | JFloat _ \<Rightarrow> False | _ \<Rightarrow> True)"
| "fits L (SArray sh) j = (case j of JArray js \<Rightarrow> list_all (fits L sh) js | _ \<Rightarrow> True)"
| "fits L (SObject fs flat) j = (case j of JObject ms \<Rightarrow> members_fit L fs ms | _ \<Rightarrow> True)"
| "fits L SString j = True"
| "fits L SNumber j = True"
| "fits L SBoolean j = True"
| "fits L SAny j = True"
| "fits L (SEnum ts) j = True"
| "members_fit L [] ms = True"
| "members_fit L ((n, p, sh) # fs) ms =
     ((case map_of ms n of None \<Rightarrow> True | Some j \<Rightarrow> (p = Optional \<and> j = JNull) \<or> fits L sh j) \<and> members_fit L fs ms)"

section \<open>Schemas\<close>

text \<open>
  Every keyword of the bundled schemas that decides anything: \<open>type\<close>, \<open>enum\<close>, \<open>items\<close>, \<open>properties\<close>, \<open>required\<close>,
  \<open>additionalProperties\<close>, and the limits \<open>maxLength\<close>, \<open>format\<close>, \<open>minimum\<close>, \<open>maximum\<close>, \<open>multipleOf\<close>, \<open>minItems\<close>
  and \<open>maxItems\<close>. (\<open>additionalItems\<close> has no effect where \<open>items\<close> is one schema, \<open>default\<close> none at all.) The flag
  of an integer is the draft: a number with a zero fraction is one from draft 6 on, and not in draft 4.
\<close>

datatype schema =
    CString "nat option" "string option"
  | CInteger bool "int option" "int option"
  | CNumber "rat option"
  | CBoolean
  | CAny
  | CEnum "string list"
  | CArray schema nat "nat option"
  | CObject "(string \<times> bool \<times> schema) list" bool

definition text_ok :: "json_formats \<Rightarrow> nat option \<Rightarrow> string option \<Rightarrow> string \<Rightarrow> bool" where
  "text_ok L mx fmt s = ((case mx of None \<Rightarrow> True | Some n \<Rightarrow> length s \<le> n)
     \<and> (case fmt of None \<Rightarrow> True | Some f \<Rightarrow> jf_format L f s))"

definition range_ok :: "int option \<Rightarrow> int option \<Rightarrow> rat \<Rightarrow> bool" where
  "range_ok lo hi q = ((case lo of None \<Rightarrow> True | Some a \<Rightarrow> of_int a \<le> q)
     \<and> (case hi of None \<Rightarrow> True | Some b \<Rightarrow> q \<le> of_int b))"

definition multiple_ok :: "json_formats \<Rightarrow> rat option \<Rightarrow> json \<Rightarrow> bool" where
  "multiple_ok L m j = (case m of None \<Rightarrow> True | Some d \<Rightarrow> jf_multiple L d j)"

definition count_ok :: "nat \<Rightarrow> nat option \<Rightarrow> nat \<Rightarrow> bool" where
  "count_ok mn mx n = (mn \<le> n \<and> (case mx of None \<Rightarrow> True | Some k \<Rightarrow> n \<le> k))"

definition is_integral :: "rat \<Rightarrow> bool" where
  "is_integral q = (snd (quotient_of q) = 1)"

fun schema_accepts :: "json_formats \<Rightarrow> schema \<Rightarrow> json \<Rightarrow> bool"
  and members_accepted :: "json_formats \<Rightarrow> (string \<times> bool \<times> schema) list \<Rightarrow> (string \<times> json) list \<Rightarrow> bool" where
  "schema_accepts L (CString mx fmt) j = (case j of JString s \<Rightarrow> text_ok L mx fmt s | _ \<Rightarrow> False)"
| "schema_accepts L (CInteger whole lo hi) j = (case j of
     JInt i \<Rightarrow> range_ok lo hi (of_int i)
   | JFloat (Finite q) \<Rightarrow> whole \<and> is_integral q \<and> range_ok lo hi q
   | _ \<Rightarrow> False)"
| "schema_accepts L (CNumber m) j = (case j of JInt _ \<Rightarrow> multiple_ok L m j | JFloat _ \<Rightarrow> multiple_ok L m j | _ \<Rightarrow> False)"
| "schema_accepts L CBoolean j = (case j of JBool _ \<Rightarrow> True | _ \<Rightarrow> False)"
| "schema_accepts L CAny j = True"
| "schema_accepts L (CEnum ts) j = (case j of JString s \<Rightarrow> s \<in> set ts | _ \<Rightarrow> False)"
| "schema_accepts L (CArray sc mn mx) j = (case j of
     JArray js \<Rightarrow> count_ok mn mx (length js) \<and> list_all (schema_accepts L sc) js
   | _ \<Rightarrow> False)"
| "schema_accepts L (CObject ps extra) j = (case j of
     JObject ms \<Rightarrow> members_accepted L ps ms \<and> (extra \<or> list_all (\<lambda>(n, _). n \<in> fst ` set ps) ms)
   | _ \<Rightarrow> False)"
| "members_accepted L [] ms = True"
| "members_accepted L ((n, req, sc) # ps) ms =
     ((req \<longrightarrow> n \<in> fst ` set ms) \<and> list_all (\<lambda>(m, j). m = n \<longrightarrow> schema_accepts L sc j) ms
      \<and> members_accepted L ps ms)"

text \<open>
  The limits alone: what a schema asks of the lengths, formats, ranges and item counts of a value, wherever the
  value has the type the limit is about.
\<close>

fun within_limits :: "json_formats \<Rightarrow> schema \<Rightarrow> json \<Rightarrow> bool"
  and members_within :: "json_formats \<Rightarrow> (string \<times> bool \<times> schema) list \<Rightarrow> (string \<times> json) list \<Rightarrow> bool" where
  "within_limits L (CString mx fmt) j = (case j of JString s \<Rightarrow> text_ok L mx fmt s | _ \<Rightarrow> True)"
| "within_limits L (CInteger whole lo hi) j = (case j of
     JInt i \<Rightarrow> range_ok lo hi (of_int i) | JFloat (Finite q) \<Rightarrow> range_ok lo hi q | _ \<Rightarrow> True)"
| "within_limits L (CNumber m) j = (case j of JInt _ \<Rightarrow> multiple_ok L m j | JFloat _ \<Rightarrow> multiple_ok L m j | _ \<Rightarrow> True)"
| "within_limits L CBoolean j = True"
| "within_limits L CAny j = True"
| "within_limits L (CEnum ts) j = True"
| "within_limits L (CArray sc mn mx) j = (case j of
     JArray js \<Rightarrow> count_ok mn mx (length js) \<and> list_all (within_limits L sc) js
   | _ \<Rightarrow> True)"
| "within_limits L (CObject ps extra) j = (case j of JObject ms \<Rightarrow> members_within L ps ms | _ \<Rightarrow> True)"
| "members_within L [] ms = True"
| "members_within L ((n, req, sc) # ps) ms =
     (list_all (\<lambda>(m, j). m = n \<longrightarrow> within_limits L sc j) ms \<and> members_within L ps ms)"

section \<open>Agreement\<close>

text \<open>
  What the structure writes passes the schema but for its limits. Lists of tokens are compared as a whole first.
\<close>

fun conforms :: "shape \<Rightarrow> schema \<Rightarrow> bool"
  and members_conform :: "(string \<times> presence \<times> shape) list \<Rightarrow> (string \<times> bool \<times> schema) list \<Rightarrow> bool \<Rightarrow> bool" where
  "conforms SString sc = (case sc of CString _ _ \<Rightarrow> True | CAny \<Rightarrow> True | _ \<Rightarrow> False)"
| "conforms STime sc = (case sc of CString _ _ \<Rightarrow> True | CAny \<Rightarrow> True | _ \<Rightarrow> False)"
| "conforms SInt32 sc = (case sc of CInteger _ _ _ \<Rightarrow> True | CNumber _ \<Rightarrow> True | CAny \<Rightarrow> True | _ \<Rightarrow> False)"
| "conforms SUint32 sc = (case sc of CInteger _ _ _ \<Rightarrow> True | CNumber _ \<Rightarrow> True | CAny \<Rightarrow> True | _ \<Rightarrow> False)"
| "conforms SNumber sc = (case sc of CNumber _ \<Rightarrow> True | CAny \<Rightarrow> True | _ \<Rightarrow> False)"
| "conforms SBoolean sc = (case sc of CBoolean \<Rightarrow> True | CAny \<Rightarrow> True | _ \<Rightarrow> False)"
| "conforms SAny sc = (case sc of CAny \<Rightarrow> True | _ \<Rightarrow> False)"
| "conforms (SEnum ts) sc = (case sc of
     CEnum us \<Rightarrow> if us = ts then True else list_all (\<lambda>t. t \<in> set us) ts
   | CString _ _ \<Rightarrow> True | CAny \<Rightarrow> True | _ \<Rightarrow> False)"
| "conforms (SArray sh) sc = (case sc of CArray sc' _ _ \<Rightarrow> conforms sh sc' | CAny \<Rightarrow> True | _ \<Rightarrow> False)"
| "conforms (SObject fs flat) sc = (case sc of
     CObject ps extra \<Rightarrow> members_conform fs ps extra \<and> distinct (map fst ps)
       \<and> (flat \<longrightarrow> extra \<and> list_all (\<lambda>(n, _). n \<in> fst ` set fs) ps)
       \<and> list_all (\<lambda>(n, req, _). req \<longrightarrow> list_ex (\<lambda>(m, p, _). m = n \<and> p \<noteq> Optional) fs) ps
   | CAny \<Rightarrow> True | _ \<Rightarrow> False)"
| "members_conform [] ps extra = True"
| "members_conform ((n, p, sh) # fs) ps extra =
     ((case map_of ps n of None \<Rightarrow> extra | Some (_, sc) \<Rightarrow> conforms sh sc) \<and> members_conform fs ps extra)"

text \<open>What passes the schema has everything the reader of the structure needs, if its values fit.\<close>

fun covers :: "shape \<Rightarrow> schema \<Rightarrow> bool"
  and members_covered :: "(string \<times> presence \<times> shape) list \<Rightarrow> (string \<times> bool \<times> schema) list \<Rightarrow> bool \<Rightarrow> bool" where
  "covers SString sc = (case sc of CString _ _ \<Rightarrow> True | CEnum _ \<Rightarrow> True | _ \<Rightarrow> False)"
| "covers STime sc = (case sc of CString _ _ \<Rightarrow> True | CEnum _ \<Rightarrow> True | _ \<Rightarrow> False)"
| "covers SInt32 sc = (case sc of CInteger _ _ _ \<Rightarrow> True | CNumber _ \<Rightarrow> True | _ \<Rightarrow> False)"
| "covers SUint32 sc = (case sc of CInteger _ _ _ \<Rightarrow> True | CNumber _ \<Rightarrow> True | _ \<Rightarrow> False)"
| "covers SNumber sc = (case sc of CNumber _ \<Rightarrow> True | CInteger _ _ _ \<Rightarrow> True | _ \<Rightarrow> False)"
| "covers SBoolean sc = (case sc of CBoolean \<Rightarrow> True | _ \<Rightarrow> False)"
| "covers SAny sc = True"
| "covers (SEnum ts) sc = (case sc of CEnum us \<Rightarrow> if us = ts then True else list_all (\<lambda>u. u \<in> set ts) us | _ \<Rightarrow> False)"
| "covers (SArray sh) sc = (case sc of CArray sc' _ _ \<Rightarrow> covers sh sc' | _ \<Rightarrow> False)"
| "covers (SObject fs flat) sc = (case sc of CObject ps extra \<Rightarrow> members_covered fs ps extra | _ \<Rightarrow> False)"
| "members_covered [] ps extra = True"
| "members_covered ((n, p, sh) # fs) ps extra =
     ((case map_of ps n of
         None \<Rightarrow> p \<noteq> Required \<and> \<not> extra
       | Some (req, sc) \<Rightarrow> (p = Required \<longrightarrow> req) \<and> covers sh sc)
      \<and> members_covered fs ps extra)"

lemma members_written_split:
  assumes "members_written L fs ms = Some rest"
  obtains pre where "ms = pre @ rest"
    and "\<And>m j. (m, j) \<in> set pre \<Longrightarrow> \<exists>p sh. (m, p, sh) \<in> set fs \<and> shape_writes L sh j"
    and "\<And>n p sh. (n, p, sh) \<in> set fs \<Longrightarrow> p \<noteq> Optional \<Longrightarrow> n \<in> fst ` set pre"
  using assms
proof (induction fs arbitrary: ms thesis)
  case Nil
  show ?case by (rule Nil.prems(1) [of "[]"]) (use Nil.prems(2) in auto)
next
  case (Cons f fs)
  obtain n p sh where f: "f = (n, p, sh)" by (cases f)
  consider (taken) j r where "ms = (n, j) # r" "shape_writes L sh j" "members_written L fs r = Some rest"
    | (skipped) "p = Optional" "members_written L fs ms = Some rest"
    using Cons.prems(2) by (auto simp: f split: list.splits if_splits)
  then show ?case
  proof cases
    case taken
    obtain pre where pre: "r = pre @ rest"
      "\<And>m j. (m, j) \<in> set pre \<Longrightarrow> \<exists>p sh. (m, p, sh) \<in> set fs \<and> shape_writes L sh j"
      "\<And>n p sh. (n, p, sh) \<in> set fs \<Longrightarrow> p \<noteq> Optional \<Longrightarrow> n \<in> fst ` set pre"
      using Cons.IH [OF _ taken(3)] by metis
    show ?thesis
      by (rule Cons.prems(1) [of "(n, j) # pre"]) (use taken pre f in \<open>auto\<close>, fastforce+)
  next
    case skipped
    obtain pre where pre: "ms = pre @ rest"
      "\<And>m j. (m, j) \<in> set pre \<Longrightarrow> \<exists>p sh. (m, p, sh) \<in> set fs \<and> shape_writes L sh j"
      "\<And>n p sh. (n, p, sh) \<in> set fs \<Longrightarrow> p \<noteq> Optional \<Longrightarrow> n \<in> fst ` set pre"
      using Cons.IH [OF _ skipped(2)] by metis
    show ?thesis
      by (rule Cons.prems(1) [of pre]) (use skipped pre f in \<open>auto\<close>, fastforce)
  qed
qed

lemma members_conform_at:
  "members_conform fs ps extra \<Longrightarrow> (n, p, sh) \<in> set fs \<Longrightarrow>
   (case map_of ps n of None \<Rightarrow> extra | Some (_, sc) \<Rightarrow> conforms sh sc)"
  by (induction fs) auto

lemma members_covered_at:
  "members_covered fs ps extra \<Longrightarrow> (n, p, sh) \<in> set fs \<Longrightarrow>
   (case map_of ps n of None \<Rightarrow> p \<noteq> Required \<and> \<not> extra | Some (req, sc) \<Rightarrow> (p = Required \<longrightarrow> req) \<and> covers sh sc)"
  by (induction fs) auto

lemma members_accepted_iff:
  "members_accepted L ps ms \<longleftrightarrow> (\<forall>n req sc. (n, req, sc) \<in> set ps \<longrightarrow>
     (req \<longrightarrow> n \<in> fst ` set ms) \<and> (\<forall>j. (n, j) \<in> set ms \<longrightarrow> schema_accepts L sc j))"
proof (induction ps)
  case (Cons a ps)
  obtain n req sc where a: "a = (n, req, sc)" by (cases a)
  have "list_all (\<lambda>(m, j). m = n \<longrightarrow> schema_accepts L sc j) ms \<longleftrightarrow> (\<forall>j. (n, j) \<in> set ms \<longrightarrow> schema_accepts L sc j)"
    by (auto simp: list_all_iff)
  with Cons.IH show ?case by (simp add: a) blast
qed simp

lemma members_within_iff:
  "members_within L ps ms \<longleftrightarrow>
     (\<forall>n req sc j. (n, req, sc) \<in> set ps \<longrightarrow> (n, j) \<in> set ms \<longrightarrow> within_limits L sc j)"
proof (induction ps)
  case (Cons a ps)
  obtain n req sc where a: "a = (n, req, sc)" by (cases a)
  have "list_all (\<lambda>(m, j). m = n \<longrightarrow> within_limits L sc j) ms \<longleftrightarrow> (\<forall>j. (n, j) \<in> set ms \<longrightarrow> within_limits L sc j)"
    by (auto simp: list_all_iff)
  with Cons.IH show ?case by (simp add: a) blast
qed simp

lemma members_read_iff:
  "members_read L fs ms \<longleftrightarrow> (\<forall>(n, p, sh) \<in> set fs. case map_of ms n of
     None \<Rightarrow> p \<noteq> Required | Some j \<Rightarrow> (p = Optional \<and> j = JNull) \<or> shape_reads L sh j)"
  by (induction fs) auto

lemma members_fit_iff:
  "members_fit L fs ms \<longleftrightarrow> (\<forall>(n, p, sh) \<in> set fs. case map_of ms n of
     None \<Rightarrow> True | Some j \<Rightarrow> (p = Optional \<and> j = JNull) \<or> fits L sh j)"
  by (induction fs) auto

lemma conforms_sound:
  "conforms sh sc \<Longrightarrow> shape_writes L sh j \<Longrightarrow> schema_accepts L sc j \<longleftrightarrow> within_limits L sc j"
proof (induction sh arbitrary: sc j)
  case (SObject fs flat)
  show ?case
  proof (cases sc)
    case (CObject ps extra)
    from SObject.prems(2) obtain ms rest where j: "j = JObject ms" and w: "members_written L fs ms = Some rest"
      and rest: "if flat then list_all (\<lambda>(n, _). n \<notin> fst ` set fs) rest else rest = []"
      by (auto split: json.splits option.splits)
    obtain pre where ms: "ms = pre @ rest"
      and pre: "\<And>m j. (m, j) \<in> set pre \<Longrightarrow> \<exists>p sh. (m, p, sh) \<in> set fs \<and> shape_writes L sh j"
      and req: "\<And>n p sh. (n, p, sh) \<in> set fs \<Longrightarrow> p \<noteq> Optional \<Longrightarrow> n \<in> fst ` set pre"
      using members_written_split [OF w] by metis
    have mc: "members_conform fs ps extra" and dist: "distinct (map fst ps)"
      and fl: "flat \<Longrightarrow> extra \<and> (\<forall>(n, _) \<in> set ps. n \<in> fst ` set fs)"
      and rq: "\<And>n sc. (n, True, sc) \<in> set ps \<Longrightarrow> \<exists>p sh. (n, p, sh) \<in> set fs \<and> p \<noteq> Optional"
      using SObject.prems(1) by (fastforce simp: CObject list_all_iff list_ex_iff)+
    have member: "schema_accepts L sc' j' \<longleftrightarrow> within_limits L sc' j'"
      if "(n, r, sc') \<in> set ps" "(n, j') \<in> set pre" for n r sc' j'
    proof -
      from pre [OF that(2)] obtain p sh where f: "(n, p, sh) \<in> set fs" "shape_writes L sh j'" by blast
      from that(1) dist have "map_of ps n = Some (r, sc')" by simp
      with members_conform_at [OF mc f(1)] have "conforms sh sc'" by simp
      with SObject.IH [of "(n, p, sh)" "(p, sh)" sh] f show ?thesis by (simp add: snds.simps)
    qed
    have "n \<in> fst ` set ms" if "(n, r, sc') \<in> set ps" "r" for n r sc'
      using rq [of n sc'] that req by (force simp: ms)
    moreover have "schema_accepts L sc' j' \<longleftrightarrow> within_limits L sc' j'"
      if p: "(n, r, sc') \<in> set ps" and m: "(n, j') \<in> set ms" for n r sc' j'
    proof (cases "(n, j') \<in> set pre")
      case False
      with m have "(n, j') \<in> set rest" by (simp add: ms)
      with rest have "flat" "n \<notin> fst ` set fs" by (auto simp: list_all_iff split: if_splits)
      with fl p show ?thesis by fastforce
    qed (rule member [OF p])
    ultimately have "members_accepted L ps ms \<longleftrightarrow> members_within L ps ms"
      unfolding members_accepted_iff members_within_iff by blast
    moreover have "extra \<or> list_all (\<lambda>(n, _). n \<in> fst ` set ps) ms"
    proof (cases extra)
      case False
      then have "rest = []" using rest fl by (metis (full_types))
      moreover have "n \<in> fst ` set ps" if nj: "(n, j') \<in> set pre" for n j'
        using pre [OF nj] members_conform_at [OF mc] False
        by (force dest: map_of_SomeD split: option.splits)
      ultimately show ?thesis by (auto simp: ms list_all_iff)
    qed simp
    ultimately show ?thesis by (simp add: j CObject)
  qed (use SObject.prems in \<open>auto\<close>)
next
  case (SArray sh)
  then show ?case by (auto simp: list_all_iff split: json.splits schema.splits)
qed (auto split: json.splits schema.splits f64.splits if_splits simp: list_all_iff)

lemma covers_sound: "covers sh sc \<Longrightarrow> schema_accepts L sc j \<Longrightarrow> shape_reads L sh j \<longleftrightarrow> fits L sh j"
proof (induction sh arbitrary: sc j)
  case (SObject fs flat)
  from SObject.prems(1) obtain ps extra where sc: "sc = CObject ps extra" and mc: "members_covered fs ps extra"
    by (auto split: schema.splits)
  from SObject.prems(2) obtain ms where j: "j = JObject ms" and acc: "members_accepted L ps ms"
    and ex: "extra \<or> (\<forall>(n, _) \<in> set ms. n \<in> fst ` set ps)"
    by (auto simp: sc list_all_iff split: json.splits)
  have "case map_of ms n of
      None \<Rightarrow> p \<noteq> Required
    | Some j \<Rightarrow> ((p = Optional \<and> j = JNull) \<or> shape_reads L sh j) \<longleftrightarrow> ((p = Optional \<and> j = JNull) \<or> fits L sh j)"
    if f: "(n, p, sh) \<in> set fs" for n p sh
  proof (cases "map_of ps n")
    case None
    with members_covered_at [OF mc f] have "p \<noteq> Required" "\<not> extra" by simp_all
    moreover from this ex None have "map_of ms n = None" by (fastforce simp: map_of_eq_None_iff)
    ultimately show ?thesis by simp
  next
    case (Some x)
    then obtain req sc' where x: "map_of ps n = Some (req, sc')" by (cases x) simp
    with members_covered_at [OF mc f] have c: "p = Required \<longrightarrow> req" "covers sh sc'" by simp_all
    from acc map_of_SomeD [OF x]
    have "req \<longrightarrow> n \<in> fst ` set ms" and all: "\<And>j. (n, j) \<in> set ms \<Longrightarrow> schema_accepts L sc' j"
      by (auto simp: members_accepted_iff)
    with c show ?thesis
      using SObject.IH [of "(n, p, sh)" "(p, sh)" sh] f
      by (auto simp: snds.simps map_of_eq_None_iff split: option.splits dest!: map_of_SomeD)
  qed
  then have "members_read L fs ms \<longleftrightarrow> members_fit L fs ms"
    unfolding members_read_iff members_fit_iff by (intro ball_cong refl) (force split: option.splits)
  then show ?case by (simp add: j)
next
  case (SArray sh)
  then show ?case by (auto simp: list_all_iff split: json.splits schema.splits)
qed (auto split: json.splits schema.splits f64.splits if_splits simp: list_all_iff)

end
