(* ===== verification/Payloads16.thy ===== *)
theory Payloads16
  imports Payload_Shapes
begin

text \<open>
  \<open>ocpp-messages/src/v16j.rs\<close>: the 1.6J requests and responses. The \<open>_payload\<close> of a structure is the name
  of its schema (\<open>ACTION_NAME\<close>, with \<open>Response\<close> for a response) and its fields as serde writes and reads
  them. The schemas are those of \<open>schemas/v16j\<close>.
\<close>

section \<open>Structures\<close>

datatype RegistrationStatus =
    Accepted
  | Pending
  | Rejected

primrec RegistrationStatus_wire :: "RegistrationStatus \<Rightarrow> string" where
  "RegistrationStatus_wire RegistrationStatus.Accepted = ''Accepted''"
| "RegistrationStatus_wire RegistrationStatus.Pending = ''Pending''"
| "RegistrationStatus_wire RegistrationStatus.Rejected = ''Rejected''"

definition RegistrationStatus_all :: "RegistrationStatus list" where
  "RegistrationStatus_all = [RegistrationStatus.Accepted, RegistrationStatus.Pending, RegistrationStatus.Rejected]"

definition RegistrationStatus_of_wire :: "string \<Rightarrow> RegistrationStatus option" where
  "RegistrationStatus_of_wire = decode_by RegistrationStatus_all RegistrationStatus_wire"

interpretation RegistrationStatus_codec: wire_codec RegistrationStatus_wire RegistrationStatus_of_wire
  unfolding RegistrationStatus_of_wire_def
proof (rule wire_codec_distinct)
  show "x \<in> set RegistrationStatus_all" for x by (cases x) (simp_all add: RegistrationStatus_all_def)
  show "distinct (map RegistrationStatus_wire RegistrationStatus_all)" by (simp add: RegistrationStatus_all_def)
qed

section \<open>What serde makes of them\<close>

definition V16AuthorizationStatus_shape :: shape where
  "V16AuthorizationStatus_shape = SEnum (map AuthorizationStatus_wire AuthorizationStatus_all)"

definition V16IdTagInfo_shape :: shape where
  "V16IdTagInfo_shape = SObject
     [(''status'', Required, V16AuthorizationStatus_shape),
      (''parentIdTag'', Optional, SString),
      (''expiryDate'', Optional, STime)] False"

definition V16RegistrationStatus_shape :: shape where
  "V16RegistrationStatus_shape = SEnum (map RegistrationStatus_wire RegistrationStatus_all)"

definition V16ReadingContext_shape :: shape where
  "V16ReadingContext_shape = SEnum (map ReadingContext_wire ReadingContext_all)"

definition V16ValueFormat_shape :: shape where
  "V16ValueFormat_shape = SEnum (map ValueFormat_wire ValueFormat_all)"

definition V16Measurand_shape :: shape where
  "V16Measurand_shape = SEnum (map Measurand_wire Measurand_all)"

definition V16Phase_shape :: shape where
  "V16Phase_shape = SEnum (map Phase_wire Phase_all)"

definition V16Location_shape :: shape where
  "V16Location_shape = SEnum (map Location_wire Location_all)"

definition V16UnitOfMeasure_shape :: shape where
  "V16UnitOfMeasure_shape = SEnum (map UnitOfMeasure_wire UnitOfMeasure_all)"

definition V16SampledValue_shape :: shape where
  "V16SampledValue_shape = SObject
     [(''value'', Required, SString),
      (''context'', Optional, V16ReadingContext_shape),
      (''format'', Optional, V16ValueFormat_shape),
      (''measurand'', Optional, V16Measurand_shape),
      (''phase'', Optional, V16Phase_shape),
      (''location'', Optional, V16Location_shape),
      (''unit'', Optional, V16UnitOfMeasure_shape)] False"

definition V16MeterValue_shape :: shape where
  "V16MeterValue_shape = SObject
     [(''timestamp'', Required, STime),
      (''sampledValue'', Required, SArray V16SampledValue_shape)] False"

definition V16ChargePointErrorCode_shape :: shape where
  "V16ChargePointErrorCode_shape = SEnum (map ChargePointErrorCode_wire ChargePointErrorCode_all)"

definition V16ChargePointStatus_shape :: shape where
  "V16ChargePointStatus_shape = SEnum (map ChargePointStatus_wire ChargePointStatus_all)"

definition V16Reason_shape :: shape where
  "V16Reason_shape = SEnum (map Reason_wire Reason_all)"

definition V16AvailabilityType_shape :: shape where
  "V16AvailabilityType_shape = SEnum (map AvailabilityType_wire AvailabilityType_all)"

definition V16AvailabilityStatus_shape :: shape where
  "V16AvailabilityStatus_shape = SEnum (map AvailabilityStatus_wire AvailabilityStatus_all)"

definition V16ConfigurationStatus_shape :: shape where
  "V16ConfigurationStatus_shape = SEnum (map ConfigurationStatus_wire ConfigurationStatus_all)"

definition V16ClearCacheStatus_shape :: shape where
  "V16ClearCacheStatus_shape = SEnum (map ClearCacheStatus_wire ClearCacheStatus_all)"

definition V16DataTransferStatus_shape :: shape where
  "V16DataTransferStatus_shape = SEnum (map DataTransferStatus_wire DataTransferStatus_all)"

definition V16KeyValue_shape :: shape where
  "V16KeyValue_shape = SObject
     [(''key'', Required, SString),
      (''value'', Optional, SString),
      (''readonly'', Optional, SBoolean)] False"

definition V16ChargingProfilePurposeType_shape :: shape where
  "V16ChargingProfilePurposeType_shape = SEnum (map ChargingProfilePurposeType_wire ChargingProfilePurposeType_all)"

definition V16ChargingProfileKindType_shape :: shape where
  "V16ChargingProfileKindType_shape = SEnum (map ChargingProfileKindType_wire ChargingProfileKindType_all)"

definition V16RecurrencyKindType_shape :: shape where
  "V16RecurrencyKindType_shape = SEnum (map RecurrencyKindType_wire RecurrencyKindType_all)"

definition V16ChargingRateUnitType_shape :: shape where
  "V16ChargingRateUnitType_shape = SEnum (map ChargingRateUnitType_wire ChargingRateUnitType_all)"

definition V16ChargingSchedulePeriod_shape :: shape where
  "V16ChargingSchedulePeriod_shape = SObject
     [(''startPeriod'', Required, SInt32),
      (''limit'', Required, SNumber),
      (''numberPhases'', Optional, SInt32)] False"

definition V16ChargingSchedule_shape :: shape where
  "V16ChargingSchedule_shape = SObject
     [(''duration'', Optional, SInt32),
      (''startSchedule'', Optional, STime),
      (''chargingRateUnit'', Required, V16ChargingRateUnitType_shape),
      (''chargingSchedulePeriod'', Required, SArray V16ChargingSchedulePeriod_shape),
      (''minChargingRate'', Optional, SNumber)] False"

definition V16ChargingProfile_shape :: shape where
  "V16ChargingProfile_shape = SObject
     [(''chargingProfileId'', Required, SInt32),
      (''transactionId'', Optional, SInt32),
      (''stackLevel'', Required, SInt32),
      (''chargingProfilePurpose'', Required, V16ChargingProfilePurposeType_shape),
      (''chargingProfileKind'', Required, V16ChargingProfileKindType_shape),
      (''recurrencyKind'', Optional, V16RecurrencyKindType_shape),
      (''validFrom'', Optional, STime),
      (''validTo'', Optional, STime),
      (''chargingSchedule'', Required, V16ChargingSchedule_shape)] False"

definition V16RemoteStartStopStatus_shape :: shape where
  "V16RemoteStartStopStatus_shape = SEnum (map RemoteStartStopStatus_wire RemoteStartStopStatus_all)"

definition V16ResetType_shape :: shape where
  "V16ResetType_shape = SEnum (map ResetType_wire ResetType_all)"

definition V16ResetStatus_shape :: shape where
  "V16ResetStatus_shape = SEnum (map ResetStatus_wire ResetStatus_all)"

definition V16UnlockStatus_shape :: shape where
  "V16UnlockStatus_shape = SEnum (map UnlockStatus_wire UnlockStatus_all)"

definition V16DiagnosticsStatus_shape :: shape where
  "V16DiagnosticsStatus_shape = SEnum (map DiagnosticsStatus_wire DiagnosticsStatus_all)"

definition V16FirmwareStatus_shape :: shape where
  "V16FirmwareStatus_shape = SEnum (map FirmwareStatus_wire FirmwareStatus_all)"

definition V16ChargingProfileStatus_shape :: shape where
  "V16ChargingProfileStatus_shape = SEnum (map ChargingProfileStatus_wire ChargingProfileStatus_all)"

definition V16ClearChargingProfileStatus_shape :: shape where
  "V16ClearChargingProfileStatus_shape = SEnum (map ClearChargingProfileStatus_wire ClearChargingProfileStatus_all)"

definition V16GetCompositeScheduleStatus_shape :: shape where
  "V16GetCompositeScheduleStatus_shape = SEnum (map GetCompositeScheduleStatus_wire GetCompositeScheduleStatus_all)"

definition V16ReservationStatus_shape :: shape where
  "V16ReservationStatus_shape = SEnum (map ReservationStatus_wire ReservationStatus_all)"

definition V16CancelReservationStatus_shape :: shape where
  "V16CancelReservationStatus_shape = SEnum (map CancelReservationStatus_wire CancelReservationStatus_all)"

definition V16MessageTrigger_shape :: shape where
  "V16MessageTrigger_shape = SEnum (map MessageTrigger_wire MessageTrigger_all)"

definition V16TriggerMessageStatus_shape :: shape where
  "V16TriggerMessageStatus_shape = SEnum (map TriggerMessageStatus_wire TriggerMessageStatus_all)"

definition V16UpdateType_shape :: shape where
  "V16UpdateType_shape = SEnum (map UpdateType_wire UpdateType_all)"

definition V16AuthorizationData_shape :: shape where
  "V16AuthorizationData_shape = SObject
     [(''idTag'', Required, SString),
      (''idTagInfo'', Optional, V16IdTagInfo_shape)] False"

definition V16UpdateStatus_shape :: shape where
  "V16UpdateStatus_shape = SEnum (map UpdateStatus_wire UpdateStatus_all)"

definition V16CertificateSignedStatus_shape :: shape where
  "V16CertificateSignedStatus_shape = SEnum (map CertificateSignedStatus_wire CertificateSignedStatus_all)"

definition V16HashAlgorithmType_shape :: shape where
  "V16HashAlgorithmType_shape = SEnum (map HashAlgorithmType_wire HashAlgorithmType_all)"

definition V16CertificateHashData_shape :: shape where
  "V16CertificateHashData_shape = SObject
     [(''hashAlgorithm'', Required, V16HashAlgorithmType_shape),
      (''issuerNameHash'', Required, SString),
      (''issuerKeyHash'', Required, SString),
      (''serialNumber'', Required, SString)] False"

definition V16DeleteCertificateStatus_shape :: shape where
  "V16DeleteCertificateStatus_shape = SEnum (map DeleteCertificateStatus_wire DeleteCertificateStatus_all)"

definition V16CertificateUse_shape :: shape where
  "V16CertificateUse_shape = SEnum (map CertificateUse_wire CertificateUse_all)"

definition V16GetInstalledCertificatesStatus_shape :: shape where
  "V16GetInstalledCertificatesStatus_shape = SEnum (map GetInstalledCertificatesStatus_wire GetInstalledCertificatesStatus_all)"

definition V16LogType_shape :: shape where
  "V16LogType_shape = SEnum (map LogType_wire LogType_all)"

definition V16LogParameters_shape :: shape where
  "V16LogParameters_shape = SObject
     [(''remoteLocation'', Required, SString),
      (''oldestTimestamp'', Optional, STime),
      (''latestTimestamp'', Optional, STime)] False"

definition V16LogStatus_shape :: shape where
  "V16LogStatus_shape = SEnum (map LogStatus_wire LogStatus_all)"

definition V16InstallCertificateStatus_shape :: shape where
  "V16InstallCertificateStatus_shape = SEnum (map InstallCertificateStatus_wire InstallCertificateStatus_all)"

definition V16UploadLogStatus_shape :: shape where
  "V16UploadLogStatus_shape = SEnum (map UploadLogStatus_wire UploadLogStatus_all)"

definition V16GenericStatus_shape :: shape where
  "V16GenericStatus_shape = SEnum (map GenericStatus_wire GenericStatus_all)"

definition V16FirmwareType_shape :: shape where
  "V16FirmwareType_shape = SObject
     [(''location'', Required, SString),
      (''retrieveDateTime'', Required, STime),
      (''signingCertificate'', Required, SString),
      (''installDateTime'', Optional, STime),
      (''signature'', Optional, SString)] False"

definition V16UpdateFirmwareStatus_shape :: shape where
  "V16UpdateFirmwareStatus_shape = SEnum (map UpdateFirmwareStatus_wire UpdateFirmwareStatus_all)"

definition AuthorizeRequest_payload :: "string \<times> shape" where
  "AuthorizeRequest_payload = (''Authorize'', SObject
     [(''idTag'', Required, SString)] False)"

definition AuthorizeResponse_payload :: "string \<times> shape" where
  "AuthorizeResponse_payload = (''AuthorizeResponse'', SObject
     [(''idTagInfo'', Required, V16IdTagInfo_shape)] False)"

definition BootNotificationRequest_payload :: "string \<times> shape" where
  "BootNotificationRequest_payload = (''BootNotification'', SObject
     [(''chargePointVendor'', Required, SString),
      (''chargePointModel'', Required, SString),
      (''chargePointSerialNumber'', Optional, SString),
      (''chargeBoxSerialNumber'', Optional, SString),
      (''firmwareVersion'', Optional, SString),
      (''iccid'', Optional, SString),
      (''imsi'', Optional, SString),
      (''meterType'', Optional, SString),
      (''meterSerialNumber'', Optional, SString)] False)"

definition BootNotificationResponse_payload :: "string \<times> shape" where
  "BootNotificationResponse_payload = (''BootNotificationResponse'', SObject
     [(''currentTime'', Required, STime),
      (''interval'', Required, SInt32),
      (''status'', Required, V16RegistrationStatus_shape)] False)"

definition HeartbeatRequest_payload :: "string \<times> shape" where
  "HeartbeatRequest_payload = (''Heartbeat'', SObject
     [] False)"

definition HeartbeatResponse_payload :: "string \<times> shape" where
  "HeartbeatResponse_payload = (''HeartbeatResponse'', SObject
     [(''currentTime'', Required, STime)] False)"

definition MeterValuesRequest_payload :: "string \<times> shape" where
  "MeterValuesRequest_payload = (''MeterValues'', SObject
     [(''connectorId'', Required, SUint32),
      (''transactionId'', Optional, SInt32),
      (''meterValue'', Required, SArray V16MeterValue_shape)] False)"

definition MeterValuesResponse_payload :: "string \<times> shape" where
  "MeterValuesResponse_payload = (''MeterValuesResponse'', SObject
     [] False)"

definition StartTransactionRequest_payload :: "string \<times> shape" where
  "StartTransactionRequest_payload = (''StartTransaction'', SObject
     [(''connectorId'', Required, SUint32),
      (''idTag'', Required, SString),
      (''meterStart'', Required, SInt32),
      (''timestamp'', Required, STime),
      (''reservationId'', Optional, SInt32)] False)"

definition StartTransactionResponse_payload :: "string \<times> shape" where
  "StartTransactionResponse_payload = (''StartTransactionResponse'', SObject
     [(''idTagInfo'', Required, V16IdTagInfo_shape),
      (''transactionId'', Required, SInt32)] False)"

definition StatusNotificationRequest_payload :: "string \<times> shape" where
  "StatusNotificationRequest_payload = (''StatusNotification'', SObject
     [(''connectorId'', Required, SUint32),
      (''errorCode'', Required, V16ChargePointErrorCode_shape),
      (''info'', Optional, SString),
      (''status'', Required, V16ChargePointStatus_shape),
      (''timestamp'', Optional, STime),
      (''vendorErrorCode'', Optional, SString),
      (''vendorId'', Optional, SString)] False)"

definition StatusNotificationResponse_payload :: "string \<times> shape" where
  "StatusNotificationResponse_payload = (''StatusNotificationResponse'', SObject
     [] False)"

definition StopTransactionRequest_payload :: "string \<times> shape" where
  "StopTransactionRequest_payload = (''StopTransaction'', SObject
     [(''idTag'', Optional, SString),
      (''meterStop'', Required, SInt32),
      (''timestamp'', Required, STime),
      (''transactionId'', Required, SInt32),
      (''reason'', Optional, V16Reason_shape),
      (''transactionData'', Optional, SArray V16MeterValue_shape)] False)"

definition StopTransactionResponse_payload :: "string \<times> shape" where
  "StopTransactionResponse_payload = (''StopTransactionResponse'', SObject
     [(''idTagInfo'', Optional, V16IdTagInfo_shape)] False)"

definition ChangeAvailabilityRequest_payload :: "string \<times> shape" where
  "ChangeAvailabilityRequest_payload = (''ChangeAvailability'', SObject
     [(''connectorId'', Required, SUint32),
      (''type'', Required, V16AvailabilityType_shape)] False)"

definition ChangeAvailabilityResponse_payload :: "string \<times> shape" where
  "ChangeAvailabilityResponse_payload = (''ChangeAvailabilityResponse'', SObject
     [(''status'', Required, V16AvailabilityStatus_shape)] False)"

definition ChangeConfigurationRequest_payload :: "string \<times> shape" where
  "ChangeConfigurationRequest_payload = (''ChangeConfiguration'', SObject
     [(''key'', Required, SString),
      (''value'', Required, SString)] False)"

definition ChangeConfigurationResponse_payload :: "string \<times> shape" where
  "ChangeConfigurationResponse_payload = (''ChangeConfigurationResponse'', SObject
     [(''status'', Required, V16ConfigurationStatus_shape)] False)"

definition ClearCacheRequest_payload :: "string \<times> shape" where
  "ClearCacheRequest_payload = (''ClearCache'', SObject
     [] False)"

definition ClearCacheResponse_payload :: "string \<times> shape" where
  "ClearCacheResponse_payload = (''ClearCacheResponse'', SObject
     [(''status'', Required, V16ClearCacheStatus_shape)] False)"

definition DataTransferRequest_payload :: "string \<times> shape" where
  "DataTransferRequest_payload = (''DataTransfer'', SObject
     [(''vendorId'', Required, SString),
      (''messageId'', Optional, SString),
      (''data'', Optional, SString)] False)"

definition DataTransferResponse_payload :: "string \<times> shape" where
  "DataTransferResponse_payload = (''DataTransferResponse'', SObject
     [(''status'', Required, V16DataTransferStatus_shape),
      (''data'', Optional, SString)] False)"

definition GetConfigurationRequest_payload :: "string \<times> shape" where
  "GetConfigurationRequest_payload = (''GetConfiguration'', SObject
     [(''key'', Optional, SArray SString)] False)"

definition GetConfigurationResponse_payload :: "string \<times> shape" where
  "GetConfigurationResponse_payload = (''GetConfigurationResponse'', SObject
     [(''configurationKey'', Optional, SArray V16KeyValue_shape),
      (''unknownKey'', Optional, SArray SString)] False)"

definition RemoteStartTransactionRequest_payload :: "string \<times> shape" where
  "RemoteStartTransactionRequest_payload = (''RemoteStartTransaction'', SObject
     [(''connectorId'', Optional, SUint32),
      (''idTag'', Required, SString),
      (''chargingProfile'', Optional, V16ChargingProfile_shape)] False)"

definition RemoteStartTransactionResponse_payload :: "string \<times> shape" where
  "RemoteStartTransactionResponse_payload = (''RemoteStartTransactionResponse'', SObject
     [(''status'', Required, V16RemoteStartStopStatus_shape)] False)"

definition RemoteStopTransactionRequest_payload :: "string \<times> shape" where
  "RemoteStopTransactionRequest_payload = (''RemoteStopTransaction'', SObject
     [(''transactionId'', Required, SInt32)] False)"

definition RemoteStopTransactionResponse_payload :: "string \<times> shape" where
  "RemoteStopTransactionResponse_payload = (''RemoteStopTransactionResponse'', SObject
     [(''status'', Required, V16RemoteStartStopStatus_shape)] False)"

definition ResetRequest_payload :: "string \<times> shape" where
  "ResetRequest_payload = (''Reset'', SObject
     [(''type'', Required, V16ResetType_shape)] False)"

definition ResetResponse_payload :: "string \<times> shape" where
  "ResetResponse_payload = (''ResetResponse'', SObject
     [(''status'', Required, V16ResetStatus_shape)] False)"

definition UnlockConnectorRequest_payload :: "string \<times> shape" where
  "UnlockConnectorRequest_payload = (''UnlockConnector'', SObject
     [(''connectorId'', Required, SUint32)] False)"

definition UnlockConnectorResponse_payload :: "string \<times> shape" where
  "UnlockConnectorResponse_payload = (''UnlockConnectorResponse'', SObject
     [(''status'', Required, V16UnlockStatus_shape)] False)"

definition GetDiagnosticsRequest_payload :: "string \<times> shape" where
  "GetDiagnosticsRequest_payload = (''GetDiagnostics'', SObject
     [(''location'', Required, SString),
      (''retries'', Optional, SInt32),
      (''retryInterval'', Optional, SInt32),
      (''startTime'', Optional, STime),
      (''stopTime'', Optional, STime)] False)"

definition GetDiagnosticsResponse_payload :: "string \<times> shape" where
  "GetDiagnosticsResponse_payload = (''GetDiagnosticsResponse'', SObject
     [(''fileName'', Optional, SString)] False)"

definition DiagnosticsStatusNotificationRequest_payload :: "string \<times> shape" where
  "DiagnosticsStatusNotificationRequest_payload = (''DiagnosticsStatusNotification'', SObject
     [(''status'', Required, V16DiagnosticsStatus_shape)] False)"

definition DiagnosticsStatusNotificationResponse_payload :: "string \<times> shape" where
  "DiagnosticsStatusNotificationResponse_payload = (''DiagnosticsStatusNotificationResponse'', SObject
     [] False)"

definition UpdateFirmwareRequest_payload :: "string \<times> shape" where
  "UpdateFirmwareRequest_payload = (''UpdateFirmware'', SObject
     [(''location'', Required, SString),
      (''retries'', Optional, SInt32),
      (''retrieveDate'', Required, STime),
      (''retryInterval'', Optional, SInt32)] False)"

definition UpdateFirmwareResponse_payload :: "string \<times> shape" where
  "UpdateFirmwareResponse_payload = (''UpdateFirmwareResponse'', SObject
     [] False)"

definition FirmwareStatusNotificationRequest_payload :: "string \<times> shape" where
  "FirmwareStatusNotificationRequest_payload = (''FirmwareStatusNotification'', SObject
     [(''status'', Required, V16FirmwareStatus_shape)] False)"

definition FirmwareStatusNotificationResponse_payload :: "string \<times> shape" where
  "FirmwareStatusNotificationResponse_payload = (''FirmwareStatusNotificationResponse'', SObject
     [] False)"

definition SetChargingProfileRequest_payload :: "string \<times> shape" where
  "SetChargingProfileRequest_payload = (''SetChargingProfile'', SObject
     [(''connectorId'', Required, SInt32),
      (''csChargingProfiles'', Required, V16ChargingProfile_shape)] False)"

definition SetChargingProfileResponse_payload :: "string \<times> shape" where
  "SetChargingProfileResponse_payload = (''SetChargingProfileResponse'', SObject
     [(''status'', Required, V16ChargingProfileStatus_shape)] False)"

definition ClearChargingProfileRequest_payload :: "string \<times> shape" where
  "ClearChargingProfileRequest_payload = (''ClearChargingProfile'', SObject
     [(''id'', Optional, SInt32),
      (''connectorId'', Optional, SInt32),
      (''chargingProfilePurpose'', Optional, V16ChargingProfilePurposeType_shape),
      (''stackLevel'', Optional, SInt32)] False)"

definition ClearChargingProfileResponse_payload :: "string \<times> shape" where
  "ClearChargingProfileResponse_payload = (''ClearChargingProfileResponse'', SObject
     [(''status'', Required, V16ClearChargingProfileStatus_shape)] False)"

definition GetCompositeScheduleRequest_payload :: "string \<times> shape" where
  "GetCompositeScheduleRequest_payload = (''GetCompositeSchedule'', SObject
     [(''connectorId'', Required, SInt32),
      (''duration'', Required, SInt32),
      (''chargingRateUnit'', Optional, V16ChargingRateUnitType_shape)] False)"

definition GetCompositeScheduleResponse_payload :: "string \<times> shape" where
  "GetCompositeScheduleResponse_payload = (''GetCompositeScheduleResponse'', SObject
     [(''status'', Required, V16GetCompositeScheduleStatus_shape),
      (''connectorId'', Optional, SInt32),
      (''scheduleStart'', Optional, STime),
      (''chargingSchedule'', Optional, V16ChargingSchedule_shape)] False)"

definition ReserveNowRequest_payload :: "string \<times> shape" where
  "ReserveNowRequest_payload = (''ReserveNow'', SObject
     [(''connectorId'', Required, SInt32),
      (''expiryDate'', Required, STime),
      (''idTag'', Required, SString),
      (''reservationId'', Required, SInt32),
      (''parentIdTag'', Optional, SString)] False)"

definition ReserveNowResponse_payload :: "string \<times> shape" where
  "ReserveNowResponse_payload = (''ReserveNowResponse'', SObject
     [(''status'', Required, V16ReservationStatus_shape)] False)"

definition CancelReservationRequest_payload :: "string \<times> shape" where
  "CancelReservationRequest_payload = (''CancelReservation'', SObject
     [(''reservationId'', Required, SInt32)] False)"

definition CancelReservationResponse_payload :: "string \<times> shape" where
  "CancelReservationResponse_payload = (''CancelReservationResponse'', SObject
     [(''status'', Required, V16CancelReservationStatus_shape)] False)"

definition TriggerMessageRequest_payload :: "string \<times> shape" where
  "TriggerMessageRequest_payload = (''TriggerMessage'', SObject
     [(''requestedMessage'', Required, V16MessageTrigger_shape),
      (''connectorId'', Optional, SInt32)] False)"

definition TriggerMessageResponse_payload :: "string \<times> shape" where
  "TriggerMessageResponse_payload = (''TriggerMessageResponse'', SObject
     [(''status'', Required, V16TriggerMessageStatus_shape)] False)"

definition GetLocalListVersionRequest_payload :: "string \<times> shape" where
  "GetLocalListVersionRequest_payload = (''GetLocalListVersion'', SObject
     [] False)"

definition GetLocalListVersionResponse_payload :: "string \<times> shape" where
  "GetLocalListVersionResponse_payload = (''GetLocalListVersionResponse'', SObject
     [(''listVersion'', Required, SInt32)] False)"

definition SendLocalListRequest_payload :: "string \<times> shape" where
  "SendLocalListRequest_payload = (''SendLocalList'', SObject
     [(''listVersion'', Required, SInt32),
      (''updateType'', Required, V16UpdateType_shape),
      (''localAuthorizationList'', Defaulted, SArray V16AuthorizationData_shape)] False)"

definition SendLocalListResponse_payload :: "string \<times> shape" where
  "SendLocalListResponse_payload = (''SendLocalListResponse'', SObject
     [(''status'', Required, V16UpdateStatus_shape)] False)"

definition CertificateSignedRequest_payload :: "string \<times> shape" where
  "CertificateSignedRequest_payload = (''CertificateSigned'', SObject
     [(''certificateChain'', Required, SString)] False)"

definition CertificateSignedResponse_payload :: "string \<times> shape" where
  "CertificateSignedResponse_payload = (''CertificateSignedResponse'', SObject
     [(''status'', Required, V16CertificateSignedStatus_shape)] False)"

definition DeleteCertificateRequest_payload :: "string \<times> shape" where
  "DeleteCertificateRequest_payload = (''DeleteCertificate'', SObject
     [(''certificateHashData'', Required, V16CertificateHashData_shape)] False)"

definition DeleteCertificateResponse_payload :: "string \<times> shape" where
  "DeleteCertificateResponse_payload = (''DeleteCertificateResponse'', SObject
     [(''status'', Required, V16DeleteCertificateStatus_shape)] False)"

definition ExtendedTriggerMessageRequest_payload :: "string \<times> shape" where
  "ExtendedTriggerMessageRequest_payload = (''ExtendedTriggerMessage'', SObject
     [(''requestedMessage'', Required, V16MessageTrigger_shape),
      (''connectorId'', Optional, SInt32)] False)"

definition ExtendedTriggerMessageResponse_payload :: "string \<times> shape" where
  "ExtendedTriggerMessageResponse_payload = (''ExtendedTriggerMessageResponse'', SObject
     [(''status'', Required, V16TriggerMessageStatus_shape)] False)"

definition GetInstalledCertificateIdsRequest_payload :: "string \<times> shape" where
  "GetInstalledCertificateIdsRequest_payload = (''GetInstalledCertificateIds'', SObject
     [(''certificateType'', Required, V16CertificateUse_shape)] False)"

definition GetInstalledCertificateIdsResponse_payload :: "string \<times> shape" where
  "GetInstalledCertificateIdsResponse_payload = (''GetInstalledCertificateIdsResponse'', SObject
     [(''status'', Required, V16GetInstalledCertificatesStatus_shape),
      (''certificateHashDataChain'', Optional, SArray V16CertificateHashData_shape)] False)"

definition GetLogRequest_payload :: "string \<times> shape" where
  "GetLogRequest_payload = (''GetLog'', SObject
     [(''logType'', Required, V16LogType_shape),
      (''requestId'', Required, SInt32),
      (''log'', Required, V16LogParameters_shape),
      (''retries'', Optional, SInt32),
      (''retryInterval'', Optional, SInt32)] False)"

definition GetLogResponse_payload :: "string \<times> shape" where
  "GetLogResponse_payload = (''GetLogResponse'', SObject
     [(''status'', Required, V16LogStatus_shape),
      (''filename'', Optional, SString)] False)"

definition InstallCertificateRequest_payload :: "string \<times> shape" where
  "InstallCertificateRequest_payload = (''InstallCertificate'', SObject
     [(''certificateType'', Required, V16CertificateUse_shape),
      (''certificate'', Required, SString)] False)"

definition InstallCertificateResponse_payload :: "string \<times> shape" where
  "InstallCertificateResponse_payload = (''InstallCertificateResponse'', SObject
     [(''status'', Required, V16InstallCertificateStatus_shape)] False)"

definition LogStatusNotificationRequest_payload :: "string \<times> shape" where
  "LogStatusNotificationRequest_payload = (''LogStatusNotification'', SObject
     [(''status'', Required, V16UploadLogStatus_shape),
      (''requestId'', Required, SInt32)] False)"

definition LogStatusNotificationResponse_payload :: "string \<times> shape" where
  "LogStatusNotificationResponse_payload = (''LogStatusNotificationResponse'', SObject
     [] False)"

definition SecurityEventNotificationRequest_payload :: "string \<times> shape" where
  "SecurityEventNotificationRequest_payload = (''SecurityEventNotification'', SObject
     [(''type'', Required, SString),
      (''timestamp'', Required, STime),
      (''techInfo'', Optional, SString)] False)"

definition SecurityEventNotificationResponse_payload :: "string \<times> shape" where
  "SecurityEventNotificationResponse_payload = (''SecurityEventNotificationResponse'', SObject
     [] False)"

definition SignCertificateRequest_payload :: "string \<times> shape" where
  "SignCertificateRequest_payload = (''SignCertificate'', SObject
     [(''csr'', Required, SString)] False)"

definition SignCertificateResponse_payload :: "string \<times> shape" where
  "SignCertificateResponse_payload = (''SignCertificateResponse'', SObject
     [(''status'', Required, V16GenericStatus_shape)] False)"

definition SignedFirmwareStatusNotificationRequest_payload :: "string \<times> shape" where
  "SignedFirmwareStatusNotificationRequest_payload = (''SignedFirmwareStatusNotification'', SObject
     [(''status'', Required, V16FirmwareStatus_shape),
      (''requestId'', Required, SInt32)] False)"

definition SignedFirmwareStatusNotificationResponse_payload :: "string \<times> shape" where
  "SignedFirmwareStatusNotificationResponse_payload = (''SignedFirmwareStatusNotificationResponse'', SObject
     [] False)"

definition SignedUpdateFirmwareRequest_payload :: "string \<times> shape" where
  "SignedUpdateFirmwareRequest_payload = (''SignedUpdateFirmware'', SObject
     [(''requestId'', Required, SInt32),
      (''firmware'', Required, V16FirmwareType_shape),
      (''retries'', Optional, SInt32),
      (''retryInterval'', Optional, SInt32)] False)"

definition SignedUpdateFirmwareResponse_payload :: "string \<times> shape" where
  "SignedUpdateFirmwareResponse_payload = (''SignedUpdateFirmwareResponse'', SObject
     [(''status'', Required, V16UpdateFirmwareStatus_shape)] False)"

section \<open>Schemas\<close>

definition schema16_CertificateSignedStatusEnumType :: schema where
  "schema16_CertificateSignedStatusEnumType = CEnum [''Accepted'', ''Rejected'']"

definition schema16_HashAlgorithmEnumType :: schema where
  "schema16_HashAlgorithmEnumType = CEnum [''SHA256'', ''SHA384'', ''SHA512'']"

definition schema16_CertificateHashDataType :: schema where
  "schema16_CertificateHashDataType = CObject
     [(''hashAlgorithm'', True, schema16_HashAlgorithmEnumType),
      (''issuerNameHash'', True, CString (Some 128) None),
      (''issuerKeyHash'', True, CString (Some 128) None),
      (''serialNumber'', True, CString (Some 40) None)] False"

definition schema16_DeleteCertificateStatusEnumType :: schema where
  "schema16_DeleteCertificateStatusEnumType = CEnum [''Accepted'', ''Failed'', ''NotFound'']"

definition schema16_MessageTriggerEnumType :: schema where
  "schema16_MessageTriggerEnumType = CEnum [''BootNotification'', ''LogStatusNotification'',
        ''FirmwareStatusNotification'', ''Heartbeat'', ''MeterValues'', ''SignChargePointCertificate'',
        ''StatusNotification'']"

definition schema16_TriggerMessageStatusEnumType :: schema where
  "schema16_TriggerMessageStatusEnumType = CEnum [''Accepted'', ''Rejected'', ''NotImplemented'']"

definition schema16_CertificateUseEnumType :: schema where
  "schema16_CertificateUseEnumType = CEnum [''CentralSystemRootCertificate'',
        ''ManufacturerRootCertificate'']"

definition schema16_GetInstalledCertificateStatusEnumType :: schema where
  "schema16_GetInstalledCertificateStatusEnumType = CEnum [''Accepted'', ''NotFound'']"

definition schema16_LogParametersType :: schema where
  "schema16_LogParametersType = CObject
     [(''remoteLocation'', True, CString (Some 512) None),
      (''oldestTimestamp'', False, CString None (Some ''date-time'')),
      (''latestTimestamp'', False, CString None (Some ''date-time''))] False"

definition schema16_LogEnumType :: schema where
  "schema16_LogEnumType = CEnum [''DiagnosticsLog'', ''SecurityLog'']"

definition schema16_LogStatusEnumType :: schema where
  "schema16_LogStatusEnumType = CEnum [''Accepted'', ''Rejected'', ''AcceptedCanceled'']"

definition schema16_InstallCertificateStatusEnumType :: schema where
  "schema16_InstallCertificateStatusEnumType = CEnum [''Accepted'', ''Failed'', ''Rejected'']"

definition schema16_UploadLogStatusEnumType :: schema where
  "schema16_UploadLogStatusEnumType = CEnum [''BadMessage'', ''Idle'', ''NotSupportedOperation'',
        ''PermissionDenied'', ''Uploaded'', ''UploadFailure'', ''Uploading'']"

definition schema16_GenericStatusEnumType :: schema where
  "schema16_GenericStatusEnumType = CEnum [''Accepted'', ''Rejected'']"

definition schema16_FirmwareStatusEnumType :: schema where
  "schema16_FirmwareStatusEnumType = CEnum [''Downloaded'', ''DownloadFailed'', ''Downloading'',
        ''DownloadScheduled'', ''DownloadPaused'', ''Idle'', ''InstallationFailed'', ''Installing'',
        ''Installed'', ''InstallRebooting'', ''InstallScheduled'', ''InstallVerificationFailed'',
        ''InvalidSignature'', ''SignatureVerified'']"

definition schema16_FirmwareType :: schema where
  "schema16_FirmwareType = CObject
     [(''location'', True, CString (Some 512) None),
      (''retrieveDateTime'', True, CString None (Some ''date-time'')),
      (''installDateTime'', False, CString None (Some ''date-time'')),
      (''signingCertificate'', True, CString (Some 5500) None),
      (''signature'', True, CString (Some 800) None)] False"

definition schema16_UpdateFirmwareStatusEnumType :: schema where
  "schema16_UpdateFirmwareStatusEnumType = CEnum [''Accepted'', ''Rejected'', ''AcceptedCanceled'',
        ''InvalidCertificate'', ''RevokedCertificate'']"

definition schema16_AuthorizeRequest :: schema where
  "schema16_AuthorizeRequest = CObject
     [(''idTag'', True, CString (Some 20) None)] False"

definition schema16_AuthorizeResponse :: schema where
  "schema16_AuthorizeResponse = CObject
     [(''idTagInfo'', True, CObject
     [(''expiryDate'', False, CString None (Some ''date-time'')),
      (''parentIdTag'', False, CString (Some 20) None),
      (''status'', True, CEnum [''Accepted'', ''Blocked'', ''Expired'', ''Invalid'',
        ''ConcurrentTx''])] False)] False"

definition schema16_BootNotificationRequest :: schema where
  "schema16_BootNotificationRequest = CObject
     [(''chargePointVendor'', True, CString (Some 20) None),
      (''chargePointModel'', True, CString (Some 20) None),
      (''chargePointSerialNumber'', False, CString (Some 25) None),
      (''chargeBoxSerialNumber'', False, CString (Some 25) None),
      (''firmwareVersion'', False, CString (Some 50) None),
      (''iccid'', False, CString (Some 20) None),
      (''imsi'', False, CString (Some 20) None),
      (''meterType'', False, CString (Some 25) None),
      (''meterSerialNumber'', False, CString (Some 25) None)] False"

definition schema16_BootNotificationResponse :: schema where
  "schema16_BootNotificationResponse = CObject
     [(''status'', True, CEnum [''Accepted'', ''Pending'', ''Rejected'']),
      (''currentTime'', True, CString None (Some ''date-time'')),
      (''interval'', True, CInteger False None None)] False"

definition schema16_HeartbeatRequest :: schema where
  "schema16_HeartbeatRequest = CObject
     [] False"

definition schema16_HeartbeatResponse :: schema where
  "schema16_HeartbeatResponse = CObject
     [(''currentTime'', True, CString None (Some ''date-time''))] False"

definition schema16_MeterValuesRequest :: schema where
  "schema16_MeterValuesRequest = CObject
     [(''connectorId'', True, CInteger False None None),
      (''transactionId'', False, CInteger False None None),
      (''meterValue'', True, CArray (CObject
     [(''timestamp'', True, CString None (Some ''date-time'')),
      (''sampledValue'', True, CArray (CObject
     [(''value'', True, CString None None),
      (''context'', False, CEnum [''Interruption.Begin'', ''Interruption.End'', ''Sample.Clock'',
        ''Sample.Periodic'', ''Transaction.Begin'', ''Transaction.End'', ''Trigger'', ''Other'']),
      (''format'', False, CEnum [''Raw'', ''SignedData'']),
      (''measurand'', False, CEnum [''Energy.Active.Export.Register'', ''Energy.Active.Import.Register'',
        ''Energy.Reactive.Export.Register'', ''Energy.Reactive.Import.Register'',
        ''Energy.Active.Export.Interval'', ''Energy.Active.Import.Interval'',
        ''Energy.Reactive.Export.Interval'', ''Energy.Reactive.Import.Interval'', ''Power.Active.Export'',
        ''Power.Active.Import'', ''Power.Offered'', ''Power.Reactive.Export'', ''Power.Reactive.Import'',
        ''Power.Factor'', ''Current.Import'', ''Current.Export'', ''Current.Offered'', ''Voltage'',
        ''Frequency'', ''Temperature'', ''SoC'', ''RPM'']),
      (''phase'', False, CEnum [''L1'', ''L2'', ''L3'', ''N'', ''L1-N'', ''L2-N'', ''L3-N'', ''L1-L2'',
        ''L2-L3'', ''L3-L1'']),
      (''location'', False, CEnum [''Cable'', ''EV'', ''Inlet'', ''Outlet'', ''Body'']),
      (''unit'', False, CEnum [''Wh'', ''kWh'', ''varh'', ''kvarh'', ''W'', ''kW'', ''VA'', ''kVA'',
        ''var'', ''kvar'', ''A'', ''V'', ''K'', ''Celcius'', ''Celsius'', ''Fahrenheit'', ''Percent'',
        ''Hertz''])] False) 1 None)] False) 1 None)] False"

definition schema16_MeterValuesResponse :: schema where
  "schema16_MeterValuesResponse = CObject
     [] False"

definition schema16_StartTransactionRequest :: schema where
  "schema16_StartTransactionRequest = CObject
     [(''connectorId'', True, CInteger False None None),
      (''idTag'', True, CString (Some 20) None),
      (''meterStart'', True, CInteger False None None),
      (''reservationId'', False, CInteger False None None),
      (''timestamp'', True, CString None (Some ''date-time''))] False"

definition schema16_StartTransactionResponse :: schema where
  "schema16_StartTransactionResponse = CObject
     [(''idTagInfo'', True, CObject
     [(''expiryDate'', False, CString None (Some ''date-time'')),
      (''parentIdTag'', False, CString (Some 20) None),
      (''status'', True, CEnum [''Accepted'', ''Blocked'', ''Expired'', ''Invalid'',
        ''ConcurrentTx''])] False),
      (''transactionId'', True, CInteger False None None)] False"

definition schema16_StatusNotificationRequest :: schema where
  "schema16_StatusNotificationRequest = CObject
     [(''connectorId'', True, CInteger False None None),
      (''errorCode'', True, CEnum [''ConnectorLockFailure'', ''EVCommunicationError'', ''GroundFailure'',
        ''HighTemperature'', ''InternalError'', ''LocalListConflict'', ''NoError'', ''OtherError'',
        ''OverCurrentFailure'', ''PowerMeterFailure'', ''PowerSwitchFailure'', ''ReaderFailure'',
        ''ResetFailure'', ''UnderVoltage'', ''OverVoltage'', ''WeakSignal'']),
      (''info'', False, CString (Some 50) None),
      (''status'', True, CEnum [''Available'', ''Preparing'', ''Charging'', ''SuspendedEVSE'',
        ''SuspendedEV'', ''Finishing'', ''Reserved'', ''Unavailable'', ''Faulted'']),
      (''timestamp'', False, CString None (Some ''date-time'')),
      (''vendorId'', False, CString (Some 255) None),
      (''vendorErrorCode'', False, CString (Some 50) None)] False"

definition schema16_StatusNotificationResponse :: schema where
  "schema16_StatusNotificationResponse = CObject
     [] False"

definition schema16_StopTransactionRequest :: schema where
  "schema16_StopTransactionRequest = CObject
     [(''idTag'', False, CString (Some 20) None),
      (''meterStop'', True, CInteger False None None),
      (''timestamp'', True, CString None (Some ''date-time'')),
      (''transactionId'', True, CInteger False None None),
      (''reason'', False, CEnum [''EmergencyStop'', ''EVDisconnected'', ''HardReset'', ''Local'',
        ''Other'', ''PowerLoss'', ''Reboot'', ''Remote'', ''SoftReset'', ''UnlockCommand'',
        ''DeAuthorized'']),
      (''transactionData'', False, CArray (CObject
     [(''timestamp'', True, CString None (Some ''date-time'')),
      (''sampledValue'', True, CArray (CObject
     [(''value'', True, CString None None),
      (''context'', False, CEnum [''Interruption.Begin'', ''Interruption.End'', ''Sample.Clock'',
        ''Sample.Periodic'', ''Transaction.Begin'', ''Transaction.End'', ''Trigger'', ''Other'']),
      (''format'', False, CEnum [''Raw'', ''SignedData'']),
      (''measurand'', False, CEnum [''Energy.Active.Export.Register'', ''Energy.Active.Import.Register'',
        ''Energy.Reactive.Export.Register'', ''Energy.Reactive.Import.Register'',
        ''Energy.Active.Export.Interval'', ''Energy.Active.Import.Interval'',
        ''Energy.Reactive.Export.Interval'', ''Energy.Reactive.Import.Interval'', ''Power.Active.Export'',
        ''Power.Active.Import'', ''Power.Offered'', ''Power.Reactive.Export'', ''Power.Reactive.Import'',
        ''Power.Factor'', ''Current.Import'', ''Current.Export'', ''Current.Offered'', ''Voltage'',
        ''Frequency'', ''Temperature'', ''SoC'', ''RPM'']),
      (''phase'', False, CEnum [''L1'', ''L2'', ''L3'', ''N'', ''L1-N'', ''L2-N'', ''L3-N'', ''L1-L2'',
        ''L2-L3'', ''L3-L1'']),
      (''location'', False, CEnum [''Cable'', ''EV'', ''Inlet'', ''Outlet'', ''Body'']),
      (''unit'', False, CEnum [''Wh'', ''kWh'', ''varh'', ''kvarh'', ''W'', ''kW'', ''VA'', ''kVA'',
        ''var'', ''kvar'', ''A'', ''V'', ''K'', ''Celcius'', ''Celsius'', ''Fahrenheit'',
        ''Percent''])] False) 0 None)] False) 0 None)] False"

definition schema16_StopTransactionResponse :: schema where
  "schema16_StopTransactionResponse = CObject
     [(''idTagInfo'', False, CObject
     [(''expiryDate'', False, CString None (Some ''date-time'')),
      (''parentIdTag'', False, CString (Some 20) None),
      (''status'', True, CEnum [''Accepted'', ''Blocked'', ''Expired'', ''Invalid'',
        ''ConcurrentTx''])] False)] False"

definition schema16_ChangeAvailabilityRequest :: schema where
  "schema16_ChangeAvailabilityRequest = CObject
     [(''connectorId'', True, CInteger False None None),
      (''type'', True, CEnum [''Inoperative'', ''Operative''])] False"

definition schema16_ChangeAvailabilityResponse :: schema where
  "schema16_ChangeAvailabilityResponse = CObject
     [(''status'', True, CEnum [''Accepted'', ''Rejected'', ''Scheduled''])] False"

definition schema16_ChangeConfigurationRequest :: schema where
  "schema16_ChangeConfigurationRequest = CObject
     [(''key'', True, CString (Some 50) None),
      (''value'', True, CString (Some 500) None)] False"

definition schema16_ChangeConfigurationResponse :: schema where
  "schema16_ChangeConfigurationResponse = CObject
     [(''status'', True, CEnum [''Accepted'', ''Rejected'', ''RebootRequired'', ''NotSupported''])] False"

definition schema16_ClearCacheRequest :: schema where
  "schema16_ClearCacheRequest = CObject
     [] False"

definition schema16_ClearCacheResponse :: schema where
  "schema16_ClearCacheResponse = CObject
     [(''status'', True, CEnum [''Accepted'', ''Rejected''])] False"

definition schema16_DataTransferRequest :: schema where
  "schema16_DataTransferRequest = CObject
     [(''vendorId'', True, CString (Some 255) None),
      (''messageId'', False, CString (Some 50) None),
      (''data'', False, CString None None)] False"

definition schema16_DataTransferResponse :: schema where
  "schema16_DataTransferResponse = CObject
     [(''status'', True, CEnum [''Accepted'', ''Rejected'', ''UnknownMessageId'', ''UnknownVendorId'']),
      (''data'', False, CString None None)] False"

definition schema16_GetConfigurationRequest :: schema where
  "schema16_GetConfigurationRequest = CObject
     [(''key'', False, CArray (CString (Some 50) None) 0 None)] False"

definition schema16_GetConfigurationResponse :: schema where
  "schema16_GetConfigurationResponse = CObject
     [(''configurationKey'', False, CArray (CObject
     [(''key'', True, CString (Some 50) None),
      (''readonly'', True, CBoolean),
      (''value'', False, CString (Some 500) None)] False) 0 None),
      (''unknownKey'', False, CArray (CString (Some 50) None) 0 None)] False"

definition schema16_RemoteStartTransactionRequest :: schema where
  "schema16_RemoteStartTransactionRequest = CObject
     [(''connectorId'', False, CInteger False None None),
      (''idTag'', True, CString (Some 20) None),
      (''chargingProfile'', False, CObject
     [(''chargingProfileId'', True, CInteger False None None),
      (''transactionId'', False, CInteger False None None),
      (''stackLevel'', True, CInteger False None None),
      (''chargingProfilePurpose'', True, CEnum [''ChargePointMaxProfile'', ''TxDefaultProfile'',
        ''TxProfile'']),
      (''chargingProfileKind'', True, CEnum [''Absolute'', ''Recurring'', ''Relative'']),
      (''recurrencyKind'', False, CEnum [''Daily'', ''Weekly'']),
      (''validFrom'', False, CString None (Some ''date-time'')),
      (''validTo'', False, CString None (Some ''date-time'')),
      (''chargingSchedule'', True, CObject
     [(''duration'', False, CInteger False None None),
      (''startSchedule'', False, CString None (Some ''date-time'')),
      (''chargingRateUnit'', True, CEnum [''A'', ''W'']),
      (''chargingSchedulePeriod'', True, CArray (CObject
     [(''startPeriod'', True, CInteger False None None),
      (''limit'', True, CNumber (Some (1 / 10))),
      (''numberPhases'', False, CInteger False None None)] False) 0 None),
      (''minChargingRate'', False, CNumber (Some (1 / 10)))] False)] False)] False"

definition schema16_RemoteStartTransactionResponse :: schema where
  "schema16_RemoteStartTransactionResponse = CObject
     [(''status'', True, CEnum [''Accepted'', ''Rejected''])] False"

definition schema16_RemoteStopTransactionRequest :: schema where
  "schema16_RemoteStopTransactionRequest = CObject
     [(''transactionId'', True, CInteger False None None)] False"

definition schema16_RemoteStopTransactionResponse :: schema where
  "schema16_RemoteStopTransactionResponse = CObject
     [(''status'', True, CEnum [''Accepted'', ''Rejected''])] False"

definition schema16_ResetRequest :: schema where
  "schema16_ResetRequest = CObject
     [(''type'', True, CEnum [''Hard'', ''Soft''])] False"

definition schema16_ResetResponse :: schema where
  "schema16_ResetResponse = CObject
     [(''status'', True, CEnum [''Accepted'', ''Rejected''])] False"

definition schema16_UnlockConnectorRequest :: schema where
  "schema16_UnlockConnectorRequest = CObject
     [(''connectorId'', True, CInteger False None None)] False"

definition schema16_UnlockConnectorResponse :: schema where
  "schema16_UnlockConnectorResponse = CObject
     [(''status'', True, CEnum [''Unlocked'', ''UnlockFailed'', ''NotSupported''])] False"

definition schema16_GetDiagnosticsRequest :: schema where
  "schema16_GetDiagnosticsRequest = CObject
     [(''location'', True, CString None (Some ''uri'')),
      (''retries'', False, CInteger False None None),
      (''retryInterval'', False, CInteger False None None),
      (''startTime'', False, CString None (Some ''date-time'')),
      (''stopTime'', False, CString None (Some ''date-time''))] False"

definition schema16_GetDiagnosticsResponse :: schema where
  "schema16_GetDiagnosticsResponse = CObject
     [(''fileName'', False, CString (Some 255) None)] False"

definition schema16_DiagnosticsStatusNotificationRequest :: schema where
  "schema16_DiagnosticsStatusNotificationRequest = CObject
     [(''status'', True, CEnum [''Idle'', ''Uploaded'', ''UploadFailed'', ''Uploading''])] False"

definition schema16_DiagnosticsStatusNotificationResponse :: schema where
  "schema16_DiagnosticsStatusNotificationResponse = CObject
     [] False"

definition schema16_UpdateFirmwareRequest :: schema where
  "schema16_UpdateFirmwareRequest = CObject
     [(''location'', True, CString None (Some ''uri'')),
      (''retries'', False, CInteger False None None),
      (''retrieveDate'', True, CString None (Some ''date-time'')),
      (''retryInterval'', False, CInteger False None None)] False"

definition schema16_UpdateFirmwareResponse :: schema where
  "schema16_UpdateFirmwareResponse = CObject
     [] False"

definition schema16_FirmwareStatusNotificationRequest :: schema where
  "schema16_FirmwareStatusNotificationRequest = CObject
     [(''status'', True, CEnum [''Downloaded'', ''DownloadFailed'', ''Downloading'', ''Idle'',
        ''InstallationFailed'', ''Installing'', ''Installed''])] False"

definition schema16_FirmwareStatusNotificationResponse :: schema where
  "schema16_FirmwareStatusNotificationResponse = CObject
     [] False"

definition schema16_SetChargingProfileRequest :: schema where
  "schema16_SetChargingProfileRequest = CObject
     [(''connectorId'', True, CInteger False None None),
      (''csChargingProfiles'', True, CObject
     [(''chargingProfileId'', True, CInteger False None None),
      (''transactionId'', False, CInteger False None None),
      (''stackLevel'', True, CInteger False None None),
      (''chargingProfilePurpose'', True, CEnum [''ChargePointMaxProfile'', ''TxDefaultProfile'',
        ''TxProfile'']),
      (''chargingProfileKind'', True, CEnum [''Absolute'', ''Recurring'', ''Relative'']),
      (''recurrencyKind'', False, CEnum [''Daily'', ''Weekly'']),
      (''validFrom'', False, CString None (Some ''date-time'')),
      (''validTo'', False, CString None (Some ''date-time'')),
      (''chargingSchedule'', True, CObject
     [(''duration'', False, CInteger False None None),
      (''startSchedule'', False, CString None (Some ''date-time'')),
      (''chargingRateUnit'', True, CEnum [''A'', ''W'']),
      (''chargingSchedulePeriod'', True, CArray (CObject
     [(''startPeriod'', True, CInteger False None None),
      (''limit'', True, CNumber (Some (1 / 10))),
      (''numberPhases'', False, CInteger False None None)] False) 0 None),
      (''minChargingRate'', False, CNumber (Some (1 / 10)))] False)] False)] False"

definition schema16_SetChargingProfileResponse :: schema where
  "schema16_SetChargingProfileResponse = CObject
     [(''status'', True, CEnum [''Accepted'', ''Rejected'', ''NotSupported''])] False"

definition schema16_ClearChargingProfileRequest :: schema where
  "schema16_ClearChargingProfileRequest = CObject
     [(''id'', False, CInteger False None None),
      (''connectorId'', False, CInteger False None None),
      (''chargingProfilePurpose'', False, CEnum [''ChargePointMaxProfile'', ''TxDefaultProfile'',
        ''TxProfile'']),
      (''stackLevel'', False, CInteger False None None)] False"

definition schema16_ClearChargingProfileResponse :: schema where
  "schema16_ClearChargingProfileResponse = CObject
     [(''status'', True, CEnum [''Accepted'', ''Unknown''])] False"

definition schema16_GetCompositeScheduleRequest :: schema where
  "schema16_GetCompositeScheduleRequest = CObject
     [(''connectorId'', True, CInteger False None None),
      (''duration'', True, CInteger False None None),
      (''chargingRateUnit'', False, CEnum [''A'', ''W''])] False"

definition schema16_GetCompositeScheduleResponse :: schema where
  "schema16_GetCompositeScheduleResponse = CObject
     [(''status'', True, CEnum [''Accepted'', ''Rejected'']),
      (''connectorId'', False, CInteger False None None),
      (''scheduleStart'', False, CString None (Some ''date-time'')),
      (''chargingSchedule'', False, CObject
     [(''duration'', False, CInteger False None None),
      (''startSchedule'', False, CString None (Some ''date-time'')),
      (''chargingRateUnit'', True, CEnum [''A'', ''W'']),
      (''chargingSchedulePeriod'', True, CArray (CObject
     [(''startPeriod'', True, CInteger False None None),
      (''limit'', True, CNumber (Some (1 / 10))),
      (''numberPhases'', False, CInteger False None None)] False) 0 None),
      (''minChargingRate'', False, CNumber (Some (1 / 10)))] False)] False"

definition schema16_ReserveNowRequest :: schema where
  "schema16_ReserveNowRequest = CObject
     [(''connectorId'', True, CInteger False None None),
      (''expiryDate'', True, CString None (Some ''date-time'')),
      (''idTag'', True, CString (Some 20) None),
      (''parentIdTag'', False, CString (Some 20) None),
      (''reservationId'', True, CInteger False None None)] False"

definition schema16_ReserveNowResponse :: schema where
  "schema16_ReserveNowResponse = CObject
     [(''status'', True, CEnum [''Accepted'', ''Faulted'', ''Occupied'', ''Rejected'',
        ''Unavailable''])] False"

definition schema16_CancelReservationRequest :: schema where
  "schema16_CancelReservationRequest = CObject
     [(''reservationId'', True, CInteger False None None)] False"

definition schema16_CancelReservationResponse :: schema where
  "schema16_CancelReservationResponse = CObject
     [(''status'', True, CEnum [''Accepted'', ''Rejected''])] False"

definition schema16_TriggerMessageRequest :: schema where
  "schema16_TriggerMessageRequest = CObject
     [(''requestedMessage'', True, CEnum [''BootNotification'', ''DiagnosticsStatusNotification'',
        ''FirmwareStatusNotification'', ''Heartbeat'', ''MeterValues'', ''StatusNotification'']),
      (''connectorId'', False, CInteger False None None)] False"

definition schema16_TriggerMessageResponse :: schema where
  "schema16_TriggerMessageResponse = CObject
     [(''status'', True, CEnum [''Accepted'', ''Rejected'', ''NotImplemented''])] False"

definition schema16_GetLocalListVersionRequest :: schema where
  "schema16_GetLocalListVersionRequest = CObject
     [] False"

definition schema16_GetLocalListVersionResponse :: schema where
  "schema16_GetLocalListVersionResponse = CObject
     [(''listVersion'', True, CInteger False None None)] False"

definition schema16_SendLocalListRequest :: schema where
  "schema16_SendLocalListRequest = CObject
     [(''listVersion'', True, CInteger False None None),
      (''localAuthorizationList'', False, CArray (CObject
     [(''idTag'', True, CString (Some 20) None),
      (''idTagInfo'', False, CObject
     [(''expiryDate'', False, CString None (Some ''date-time'')),
      (''parentIdTag'', False, CString (Some 20) None),
      (''status'', True, CEnum [''Accepted'', ''Blocked'', ''Expired'', ''Invalid'',
        ''ConcurrentTx''])] False)] False) 0 None),
      (''updateType'', True, CEnum [''Differential'', ''Full''])] False"

definition schema16_SendLocalListResponse :: schema where
  "schema16_SendLocalListResponse = CObject
     [(''status'', True, CEnum [''Accepted'', ''Failed'', ''NotSupported'', ''VersionMismatch''])] False"

definition schema16_CertificateSignedRequest :: schema where
  "schema16_CertificateSignedRequest = CObject
     [(''certificateChain'', True, CString (Some 10000) None)] False"

definition schema16_CertificateSignedResponse :: schema where
  "schema16_CertificateSignedResponse = CObject
     [(''status'', True, schema16_CertificateSignedStatusEnumType)] False"

definition schema16_DeleteCertificateRequest :: schema where
  "schema16_DeleteCertificateRequest = CObject
     [(''certificateHashData'', True, schema16_CertificateHashDataType)] False"

definition schema16_DeleteCertificateResponse :: schema where
  "schema16_DeleteCertificateResponse = CObject
     [(''status'', True, schema16_DeleteCertificateStatusEnumType)] False"

definition schema16_ExtendedTriggerMessageRequest :: schema where
  "schema16_ExtendedTriggerMessageRequest = CObject
     [(''requestedMessage'', True, schema16_MessageTriggerEnumType),
      (''connectorId'', False, CInteger True None None)] False"

definition schema16_ExtendedTriggerMessageResponse :: schema where
  "schema16_ExtendedTriggerMessageResponse = CObject
     [(''status'', True, schema16_TriggerMessageStatusEnumType)] False"

definition schema16_GetInstalledCertificateIdsRequest :: schema where
  "schema16_GetInstalledCertificateIdsRequest = CObject
     [(''certificateType'', True, schema16_CertificateUseEnumType)] False"

definition schema16_GetInstalledCertificateIdsResponse :: schema where
  "schema16_GetInstalledCertificateIdsResponse = CObject
     [(''certificateHashData'', False, CArray schema16_CertificateHashDataType 1 None),
      (''status'', True, schema16_GetInstalledCertificateStatusEnumType)] False"

definition schema16_GetLogRequest :: schema where
  "schema16_GetLogRequest = CObject
     [(''log'', True, schema16_LogParametersType),
      (''logType'', True, schema16_LogEnumType),
      (''requestId'', True, CInteger True None None),
      (''retries'', False, CInteger True None None),
      (''retryInterval'', False, CInteger True None None)] False"

definition schema16_GetLogResponse :: schema where
  "schema16_GetLogResponse = CObject
     [(''status'', True, schema16_LogStatusEnumType),
      (''filename'', False, CString (Some 255) None)] False"

definition schema16_InstallCertificateRequest :: schema where
  "schema16_InstallCertificateRequest = CObject
     [(''certificateType'', True, schema16_CertificateUseEnumType),
      (''certificate'', True, CString (Some 5500) None)] False"

definition schema16_InstallCertificateResponse :: schema where
  "schema16_InstallCertificateResponse = CObject
     [(''status'', True, schema16_InstallCertificateStatusEnumType)] False"

definition schema16_LogStatusNotificationRequest :: schema where
  "schema16_LogStatusNotificationRequest = CObject
     [(''status'', True, schema16_UploadLogStatusEnumType),
      (''requestId'', False, CInteger True None None)] False"

definition schema16_LogStatusNotificationResponse :: schema where
  "schema16_LogStatusNotificationResponse = CObject
     [] False"

definition schema16_SecurityEventNotificationRequest :: schema where
  "schema16_SecurityEventNotificationRequest = CObject
     [(''type'', True, CString (Some 50) None),
      (''timestamp'', True, CString None (Some ''date-time'')),
      (''techInfo'', False, CString (Some 255) None)] False"

definition schema16_SecurityEventNotificationResponse :: schema where
  "schema16_SecurityEventNotificationResponse = CObject
     [] False"

definition schema16_SignCertificateRequest :: schema where
  "schema16_SignCertificateRequest = CObject
     [(''csr'', True, CString (Some 5500) None)] False"

definition schema16_SignCertificateResponse :: schema where
  "schema16_SignCertificateResponse = CObject
     [(''status'', True, schema16_GenericStatusEnumType)] False"

definition schema16_SignedFirmwareStatusNotificationRequest :: schema where
  "schema16_SignedFirmwareStatusNotificationRequest = CObject
     [(''status'', True, schema16_FirmwareStatusEnumType),
      (''requestId'', False, CInteger True None None)] False"

definition schema16_SignedFirmwareStatusNotificationResponse :: schema where
  "schema16_SignedFirmwareStatusNotificationResponse = CObject
     [] False"

definition schema16_SignedUpdateFirmwareRequest :: schema where
  "schema16_SignedUpdateFirmwareRequest = CObject
     [(''retries'', False, CInteger True None None),
      (''retryInterval'', False, CInteger True None None),
      (''requestId'', True, CInteger True None None),
      (''firmware'', True, schema16_FirmwareType)] False"

definition schema16_SignedUpdateFirmwareResponse :: schema where
  "schema16_SignedUpdateFirmwareResponse = CObject
     [(''status'', True, schema16_UpdateFirmwareStatusEnumType)] False"

definition payloads16 :: "((string \<times> shape) \<times> schema) list" where
  "payloads16 = [(AuthorizeRequest_payload, schema16_AuthorizeRequest),
     (AuthorizeResponse_payload, schema16_AuthorizeResponse),
     (BootNotificationRequest_payload, schema16_BootNotificationRequest),
     (BootNotificationResponse_payload, schema16_BootNotificationResponse),
     (HeartbeatRequest_payload, schema16_HeartbeatRequest),
     (HeartbeatResponse_payload, schema16_HeartbeatResponse),
     (MeterValuesRequest_payload, schema16_MeterValuesRequest),
     (MeterValuesResponse_payload, schema16_MeterValuesResponse),
     (StartTransactionRequest_payload, schema16_StartTransactionRequest),
     (StartTransactionResponse_payload, schema16_StartTransactionResponse),
     (StatusNotificationRequest_payload, schema16_StatusNotificationRequest),
     (StatusNotificationResponse_payload, schema16_StatusNotificationResponse),
     (StopTransactionRequest_payload, schema16_StopTransactionRequest),
     (StopTransactionResponse_payload, schema16_StopTransactionResponse),
     (ChangeAvailabilityRequest_payload, schema16_ChangeAvailabilityRequest),
     (ChangeAvailabilityResponse_payload, schema16_ChangeAvailabilityResponse),
     (ChangeConfigurationRequest_payload, schema16_ChangeConfigurationRequest),
     (ChangeConfigurationResponse_payload, schema16_ChangeConfigurationResponse),
     (ClearCacheRequest_payload, schema16_ClearCacheRequest),
     (ClearCacheResponse_payload, schema16_ClearCacheResponse),
     (DataTransferRequest_payload, schema16_DataTransferRequest),
     (DataTransferResponse_payload, schema16_DataTransferResponse),
     (GetConfigurationRequest_payload, schema16_GetConfigurationRequest),
     (GetConfigurationResponse_payload, schema16_GetConfigurationResponse),
     (RemoteStartTransactionRequest_payload, schema16_RemoteStartTransactionRequest),
     (RemoteStartTransactionResponse_payload, schema16_RemoteStartTransactionResponse),
     (RemoteStopTransactionRequest_payload, schema16_RemoteStopTransactionRequest),
     (RemoteStopTransactionResponse_payload, schema16_RemoteStopTransactionResponse),
     (ResetRequest_payload, schema16_ResetRequest),
     (ResetResponse_payload, schema16_ResetResponse),
     (UnlockConnectorRequest_payload, schema16_UnlockConnectorRequest),
     (UnlockConnectorResponse_payload, schema16_UnlockConnectorResponse),
     (GetDiagnosticsRequest_payload, schema16_GetDiagnosticsRequest),
     (GetDiagnosticsResponse_payload, schema16_GetDiagnosticsResponse),
     (DiagnosticsStatusNotificationRequest_payload, schema16_DiagnosticsStatusNotificationRequest),
     (DiagnosticsStatusNotificationResponse_payload, schema16_DiagnosticsStatusNotificationResponse),
     (UpdateFirmwareRequest_payload, schema16_UpdateFirmwareRequest),
     (UpdateFirmwareResponse_payload, schema16_UpdateFirmwareResponse),
     (FirmwareStatusNotificationRequest_payload, schema16_FirmwareStatusNotificationRequest),
     (FirmwareStatusNotificationResponse_payload, schema16_FirmwareStatusNotificationResponse),
     (SetChargingProfileRequest_payload, schema16_SetChargingProfileRequest),
     (SetChargingProfileResponse_payload, schema16_SetChargingProfileResponse),
     (ClearChargingProfileRequest_payload, schema16_ClearChargingProfileRequest),
     (ClearChargingProfileResponse_payload, schema16_ClearChargingProfileResponse),
     (GetCompositeScheduleRequest_payload, schema16_GetCompositeScheduleRequest),
     (GetCompositeScheduleResponse_payload, schema16_GetCompositeScheduleResponse),
     (ReserveNowRequest_payload, schema16_ReserveNowRequest),
     (ReserveNowResponse_payload, schema16_ReserveNowResponse),
     (CancelReservationRequest_payload, schema16_CancelReservationRequest),
     (CancelReservationResponse_payload, schema16_CancelReservationResponse),
     (TriggerMessageRequest_payload, schema16_TriggerMessageRequest),
     (TriggerMessageResponse_payload, schema16_TriggerMessageResponse),
     (GetLocalListVersionRequest_payload, schema16_GetLocalListVersionRequest),
     (GetLocalListVersionResponse_payload, schema16_GetLocalListVersionResponse),
     (SendLocalListRequest_payload, schema16_SendLocalListRequest),
     (SendLocalListResponse_payload, schema16_SendLocalListResponse),
     (CertificateSignedRequest_payload, schema16_CertificateSignedRequest),
     (CertificateSignedResponse_payload, schema16_CertificateSignedResponse),
     (DeleteCertificateRequest_payload, schema16_DeleteCertificateRequest),
     (DeleteCertificateResponse_payload, schema16_DeleteCertificateResponse),
     (ExtendedTriggerMessageRequest_payload, schema16_ExtendedTriggerMessageRequest),
     (ExtendedTriggerMessageResponse_payload, schema16_ExtendedTriggerMessageResponse),
     (GetInstalledCertificateIdsRequest_payload, schema16_GetInstalledCertificateIdsRequest),
     (GetInstalledCertificateIdsResponse_payload, schema16_GetInstalledCertificateIdsResponse),
     (GetLogRequest_payload, schema16_GetLogRequest),
     (GetLogResponse_payload, schema16_GetLogResponse),
     (InstallCertificateRequest_payload, schema16_InstallCertificateRequest),
     (InstallCertificateResponse_payload, schema16_InstallCertificateResponse),
     (LogStatusNotificationRequest_payload, schema16_LogStatusNotificationRequest),
     (LogStatusNotificationResponse_payload, schema16_LogStatusNotificationResponse),
     (SecurityEventNotificationRequest_payload, schema16_SecurityEventNotificationRequest),
     (SecurityEventNotificationResponse_payload, schema16_SecurityEventNotificationResponse),
     (SignCertificateRequest_payload, schema16_SignCertificateRequest),
     (SignCertificateResponse_payload, schema16_SignCertificateResponse),
     (SignedFirmwareStatusNotificationRequest_payload, schema16_SignedFirmwareStatusNotificationRequest),
     (SignedFirmwareStatusNotificationResponse_payload, schema16_SignedFirmwareStatusNotificationResponse),
     (SignedUpdateFirmwareRequest_payload, schema16_SignedUpdateFirmwareRequest),
     (SignedUpdateFirmwareResponse_payload, schema16_SignedUpdateFirmwareResponse)]"

lemma payload16_names:
  "fst AuthorizeRequest_payload = ''Authorize''"
  "fst AuthorizeResponse_payload = ''AuthorizeResponse''"
  "fst BootNotificationRequest_payload = ''BootNotification''"
  "fst BootNotificationResponse_payload = ''BootNotificationResponse''"
  "fst HeartbeatRequest_payload = ''Heartbeat''"
  "fst HeartbeatResponse_payload = ''HeartbeatResponse''"
  "fst MeterValuesRequest_payload = ''MeterValues''"
  "fst MeterValuesResponse_payload = ''MeterValuesResponse''"
  "fst StartTransactionRequest_payload = ''StartTransaction''"
  "fst StartTransactionResponse_payload = ''StartTransactionResponse''"
  "fst StatusNotificationRequest_payload = ''StatusNotification''"
  "fst StatusNotificationResponse_payload = ''StatusNotificationResponse''"
  "fst StopTransactionRequest_payload = ''StopTransaction''"
  "fst StopTransactionResponse_payload = ''StopTransactionResponse''"
  "fst ChangeAvailabilityRequest_payload = ''ChangeAvailability''"
  "fst ChangeAvailabilityResponse_payload = ''ChangeAvailabilityResponse''"
  "fst ChangeConfigurationRequest_payload = ''ChangeConfiguration''"
  "fst ChangeConfigurationResponse_payload = ''ChangeConfigurationResponse''"
  "fst ClearCacheRequest_payload = ''ClearCache''"
  "fst ClearCacheResponse_payload = ''ClearCacheResponse''"
  "fst DataTransferRequest_payload = ''DataTransfer''"
  "fst DataTransferResponse_payload = ''DataTransferResponse''"
  "fst GetConfigurationRequest_payload = ''GetConfiguration''"
  "fst GetConfigurationResponse_payload = ''GetConfigurationResponse''"
  "fst RemoteStartTransactionRequest_payload = ''RemoteStartTransaction''"
  "fst RemoteStartTransactionResponse_payload = ''RemoteStartTransactionResponse''"
  "fst RemoteStopTransactionRequest_payload = ''RemoteStopTransaction''"
  "fst RemoteStopTransactionResponse_payload = ''RemoteStopTransactionResponse''"
  "fst ResetRequest_payload = ''Reset''"
  "fst ResetResponse_payload = ''ResetResponse''"
  "fst UnlockConnectorRequest_payload = ''UnlockConnector''"
  "fst UnlockConnectorResponse_payload = ''UnlockConnectorResponse''"
  "fst GetDiagnosticsRequest_payload = ''GetDiagnostics''"
  "fst GetDiagnosticsResponse_payload = ''GetDiagnosticsResponse''"
  "fst DiagnosticsStatusNotificationRequest_payload = ''DiagnosticsStatusNotification''"
  "fst DiagnosticsStatusNotificationResponse_payload = ''DiagnosticsStatusNotificationResponse''"
  "fst UpdateFirmwareRequest_payload = ''UpdateFirmware''"
  "fst UpdateFirmwareResponse_payload = ''UpdateFirmwareResponse''"
  "fst FirmwareStatusNotificationRequest_payload = ''FirmwareStatusNotification''"
  "fst FirmwareStatusNotificationResponse_payload = ''FirmwareStatusNotificationResponse''"
  "fst SetChargingProfileRequest_payload = ''SetChargingProfile''"
  "fst SetChargingProfileResponse_payload = ''SetChargingProfileResponse''"
  "fst ClearChargingProfileRequest_payload = ''ClearChargingProfile''"
  "fst ClearChargingProfileResponse_payload = ''ClearChargingProfileResponse''"
  "fst GetCompositeScheduleRequest_payload = ''GetCompositeSchedule''"
  "fst GetCompositeScheduleResponse_payload = ''GetCompositeScheduleResponse''"
  "fst ReserveNowRequest_payload = ''ReserveNow''"
  "fst ReserveNowResponse_payload = ''ReserveNowResponse''"
  "fst CancelReservationRequest_payload = ''CancelReservation''"
  "fst CancelReservationResponse_payload = ''CancelReservationResponse''"
  "fst TriggerMessageRequest_payload = ''TriggerMessage''"
  "fst TriggerMessageResponse_payload = ''TriggerMessageResponse''"
  "fst GetLocalListVersionRequest_payload = ''GetLocalListVersion''"
  "fst GetLocalListVersionResponse_payload = ''GetLocalListVersionResponse''"
  "fst SendLocalListRequest_payload = ''SendLocalList''"
  "fst SendLocalListResponse_payload = ''SendLocalListResponse''"
  "fst CertificateSignedRequest_payload = ''CertificateSigned''"
  "fst CertificateSignedResponse_payload = ''CertificateSignedResponse''"
  "fst DeleteCertificateRequest_payload = ''DeleteCertificate''"
  "fst DeleteCertificateResponse_payload = ''DeleteCertificateResponse''"
  "fst ExtendedTriggerMessageRequest_payload = ''ExtendedTriggerMessage''"
  "fst ExtendedTriggerMessageResponse_payload = ''ExtendedTriggerMessageResponse''"
  "fst GetInstalledCertificateIdsRequest_payload = ''GetInstalledCertificateIds''"
  "fst GetInstalledCertificateIdsResponse_payload = ''GetInstalledCertificateIdsResponse''"
  "fst GetLogRequest_payload = ''GetLog''"
  "fst GetLogResponse_payload = ''GetLogResponse''"
  "fst InstallCertificateRequest_payload = ''InstallCertificate''"
  "fst InstallCertificateResponse_payload = ''InstallCertificateResponse''"
  "fst LogStatusNotificationRequest_payload = ''LogStatusNotification''"
  "fst LogStatusNotificationResponse_payload = ''LogStatusNotificationResponse''"
  "fst SecurityEventNotificationRequest_payload = ''SecurityEventNotification''"
  "fst SecurityEventNotificationResponse_payload = ''SecurityEventNotificationResponse''"
  "fst SignCertificateRequest_payload = ''SignCertificate''"
  "fst SignCertificateResponse_payload = ''SignCertificateResponse''"
  "fst SignedFirmwareStatusNotificationRequest_payload = ''SignedFirmwareStatusNotification''"
  "fst SignedFirmwareStatusNotificationResponse_payload = ''SignedFirmwareStatusNotificationResponse''"
  "fst SignedUpdateFirmwareRequest_payload = ''SignedUpdateFirmware''"
  "fst SignedUpdateFirmwareResponse_payload = ''SignedUpdateFirmwareResponse''"
  by (simp_all add: AuthorizeRequest_payload_def
      AuthorizeResponse_payload_def
      BootNotificationRequest_payload_def
      BootNotificationResponse_payload_def
      HeartbeatRequest_payload_def
      HeartbeatResponse_payload_def
      MeterValuesRequest_payload_def
      MeterValuesResponse_payload_def
      StartTransactionRequest_payload_def
      StartTransactionResponse_payload_def
      StatusNotificationRequest_payload_def
      StatusNotificationResponse_payload_def
      StopTransactionRequest_payload_def
      StopTransactionResponse_payload_def
      ChangeAvailabilityRequest_payload_def
      ChangeAvailabilityResponse_payload_def
      ChangeConfigurationRequest_payload_def
      ChangeConfigurationResponse_payload_def
      ClearCacheRequest_payload_def
      ClearCacheResponse_payload_def
      DataTransferRequest_payload_def
      DataTransferResponse_payload_def
      GetConfigurationRequest_payload_def
      GetConfigurationResponse_payload_def
      RemoteStartTransactionRequest_payload_def
      RemoteStartTransactionResponse_payload_def
      RemoteStopTransactionRequest_payload_def
      RemoteStopTransactionResponse_payload_def
      ResetRequest_payload_def
      ResetResponse_payload_def
      UnlockConnectorRequest_payload_def
      UnlockConnectorResponse_payload_def
      GetDiagnosticsRequest_payload_def
      GetDiagnosticsResponse_payload_def
      DiagnosticsStatusNotificationRequest_payload_def
      DiagnosticsStatusNotificationResponse_payload_def
      UpdateFirmwareRequest_payload_def
      UpdateFirmwareResponse_payload_def
      FirmwareStatusNotificationRequest_payload_def
      FirmwareStatusNotificationResponse_payload_def
      SetChargingProfileRequest_payload_def
      SetChargingProfileResponse_payload_def
      ClearChargingProfileRequest_payload_def
      ClearChargingProfileResponse_payload_def
      GetCompositeScheduleRequest_payload_def
      GetCompositeScheduleResponse_payload_def
      ReserveNowRequest_payload_def
      ReserveNowResponse_payload_def
      CancelReservationRequest_payload_def
      CancelReservationResponse_payload_def
      TriggerMessageRequest_payload_def
      TriggerMessageResponse_payload_def
      GetLocalListVersionRequest_payload_def
      GetLocalListVersionResponse_payload_def
      SendLocalListRequest_payload_def
      SendLocalListResponse_payload_def
      CertificateSignedRequest_payload_def
      CertificateSignedResponse_payload_def
      DeleteCertificateRequest_payload_def
      DeleteCertificateResponse_payload_def
      ExtendedTriggerMessageRequest_payload_def
      ExtendedTriggerMessageResponse_payload_def
      GetInstalledCertificateIdsRequest_payload_def
      GetInstalledCertificateIdsResponse_payload_def
      GetLogRequest_payload_def
      GetLogResponse_payload_def
      InstallCertificateRequest_payload_def
      InstallCertificateResponse_payload_def
      LogStatusNotificationRequest_payload_def
      LogStatusNotificationResponse_payload_def
      SecurityEventNotificationRequest_payload_def
      SecurityEventNotificationResponse_payload_def
      SignCertificateRequest_payload_def
      SignCertificateResponse_payload_def
      SignedFirmwareStatusNotificationRequest_payload_def
      SignedFirmwareStatusNotificationResponse_payload_def
      SignedUpdateFirmwareRequest_payload_def
      SignedUpdateFirmwareResponse_payload_def)

lemmas payload16_defs =
  AuthorizeRequest_payload_def schema16_AuthorizeRequest_def
  AuthorizeResponse_payload_def schema16_AuthorizeResponse_def
  BootNotificationRequest_payload_def schema16_BootNotificationRequest_def
  BootNotificationResponse_payload_def schema16_BootNotificationResponse_def
  HeartbeatRequest_payload_def schema16_HeartbeatRequest_def
  HeartbeatResponse_payload_def schema16_HeartbeatResponse_def
  MeterValuesRequest_payload_def schema16_MeterValuesRequest_def
  MeterValuesResponse_payload_def schema16_MeterValuesResponse_def
  StartTransactionRequest_payload_def schema16_StartTransactionRequest_def
  StartTransactionResponse_payload_def schema16_StartTransactionResponse_def
  StatusNotificationRequest_payload_def schema16_StatusNotificationRequest_def
  StatusNotificationResponse_payload_def schema16_StatusNotificationResponse_def
  StopTransactionRequest_payload_def schema16_StopTransactionRequest_def
  StopTransactionResponse_payload_def schema16_StopTransactionResponse_def
  ChangeAvailabilityRequest_payload_def schema16_ChangeAvailabilityRequest_def
  ChangeAvailabilityResponse_payload_def schema16_ChangeAvailabilityResponse_def
  ChangeConfigurationRequest_payload_def schema16_ChangeConfigurationRequest_def
  ChangeConfigurationResponse_payload_def schema16_ChangeConfigurationResponse_def
  ClearCacheRequest_payload_def schema16_ClearCacheRequest_def
  ClearCacheResponse_payload_def schema16_ClearCacheResponse_def
  DataTransferRequest_payload_def schema16_DataTransferRequest_def
  DataTransferResponse_payload_def schema16_DataTransferResponse_def
  GetConfigurationRequest_payload_def schema16_GetConfigurationRequest_def
  GetConfigurationResponse_payload_def schema16_GetConfigurationResponse_def
  RemoteStartTransactionRequest_payload_def schema16_RemoteStartTransactionRequest_def
  RemoteStartTransactionResponse_payload_def schema16_RemoteStartTransactionResponse_def
  RemoteStopTransactionRequest_payload_def schema16_RemoteStopTransactionRequest_def
  RemoteStopTransactionResponse_payload_def schema16_RemoteStopTransactionResponse_def
  ResetRequest_payload_def schema16_ResetRequest_def
  ResetResponse_payload_def schema16_ResetResponse_def
  UnlockConnectorRequest_payload_def schema16_UnlockConnectorRequest_def
  UnlockConnectorResponse_payload_def schema16_UnlockConnectorResponse_def
  GetDiagnosticsRequest_payload_def schema16_GetDiagnosticsRequest_def
  GetDiagnosticsResponse_payload_def schema16_GetDiagnosticsResponse_def
  DiagnosticsStatusNotificationRequest_payload_def schema16_DiagnosticsStatusNotificationRequest_def
  DiagnosticsStatusNotificationResponse_payload_def schema16_DiagnosticsStatusNotificationResponse_def
  UpdateFirmwareRequest_payload_def schema16_UpdateFirmwareRequest_def
  UpdateFirmwareResponse_payload_def schema16_UpdateFirmwareResponse_def
  FirmwareStatusNotificationRequest_payload_def schema16_FirmwareStatusNotificationRequest_def
  FirmwareStatusNotificationResponse_payload_def schema16_FirmwareStatusNotificationResponse_def
  SetChargingProfileRequest_payload_def schema16_SetChargingProfileRequest_def
  SetChargingProfileResponse_payload_def schema16_SetChargingProfileResponse_def
  ClearChargingProfileRequest_payload_def schema16_ClearChargingProfileRequest_def
  ClearChargingProfileResponse_payload_def schema16_ClearChargingProfileResponse_def
  GetCompositeScheduleRequest_payload_def schema16_GetCompositeScheduleRequest_def
  GetCompositeScheduleResponse_payload_def schema16_GetCompositeScheduleResponse_def
  ReserveNowRequest_payload_def schema16_ReserveNowRequest_def
  ReserveNowResponse_payload_def schema16_ReserveNowResponse_def
  CancelReservationRequest_payload_def schema16_CancelReservationRequest_def
  CancelReservationResponse_payload_def schema16_CancelReservationResponse_def
  TriggerMessageRequest_payload_def schema16_TriggerMessageRequest_def
  TriggerMessageResponse_payload_def schema16_TriggerMessageResponse_def
  GetLocalListVersionRequest_payload_def schema16_GetLocalListVersionRequest_def
  GetLocalListVersionResponse_payload_def schema16_GetLocalListVersionResponse_def
  SendLocalListRequest_payload_def schema16_SendLocalListRequest_def
  SendLocalListResponse_payload_def schema16_SendLocalListResponse_def
  CertificateSignedRequest_payload_def schema16_CertificateSignedRequest_def
  CertificateSignedResponse_payload_def schema16_CertificateSignedResponse_def
  DeleteCertificateRequest_payload_def schema16_DeleteCertificateRequest_def
  DeleteCertificateResponse_payload_def schema16_DeleteCertificateResponse_def
  ExtendedTriggerMessageRequest_payload_def schema16_ExtendedTriggerMessageRequest_def
  ExtendedTriggerMessageResponse_payload_def schema16_ExtendedTriggerMessageResponse_def
  GetInstalledCertificateIdsRequest_payload_def schema16_GetInstalledCertificateIdsRequest_def
  GetInstalledCertificateIdsResponse_payload_def schema16_GetInstalledCertificateIdsResponse_def
  GetLogRequest_payload_def schema16_GetLogRequest_def
  GetLogResponse_payload_def schema16_GetLogResponse_def
  InstallCertificateRequest_payload_def schema16_InstallCertificateRequest_def
  InstallCertificateResponse_payload_def schema16_InstallCertificateResponse_def
  LogStatusNotificationRequest_payload_def schema16_LogStatusNotificationRequest_def
  LogStatusNotificationResponse_payload_def schema16_LogStatusNotificationResponse_def
  SecurityEventNotificationRequest_payload_def schema16_SecurityEventNotificationRequest_def
  SecurityEventNotificationResponse_payload_def schema16_SecurityEventNotificationResponse_def
  SignCertificateRequest_payload_def schema16_SignCertificateRequest_def
  SignCertificateResponse_payload_def schema16_SignCertificateResponse_def
  SignedFirmwareStatusNotificationRequest_payload_def schema16_SignedFirmwareStatusNotificationRequest_def
  SignedFirmwareStatusNotificationResponse_payload_def schema16_SignedFirmwareStatusNotificationResponse_def
  SignedUpdateFirmwareRequest_payload_def schema16_SignedUpdateFirmwareRequest_def
  SignedUpdateFirmwareResponse_payload_def schema16_SignedUpdateFirmwareResponse_def

lemmas shape16_defs =
  V16AuthorizationStatus_shape_def AuthorizationStatus_all_def
  V16IdTagInfo_shape_def
  V16RegistrationStatus_shape_def RegistrationStatus_all_def
  V16ReadingContext_shape_def ReadingContext_all_def
  V16ValueFormat_shape_def ValueFormat_all_def
  V16Measurand_shape_def Measurand_all_def
  V16Phase_shape_def Phase_all_def
  V16Location_shape_def Location_all_def
  V16UnitOfMeasure_shape_def UnitOfMeasure_all_def
  V16SampledValue_shape_def
  V16MeterValue_shape_def
  V16ChargePointErrorCode_shape_def ChargePointErrorCode_all_def
  V16ChargePointStatus_shape_def ChargePointStatus_all_def
  V16Reason_shape_def Reason_all_def
  V16AvailabilityType_shape_def AvailabilityType_all_def
  V16AvailabilityStatus_shape_def AvailabilityStatus_all_def
  V16ConfigurationStatus_shape_def ConfigurationStatus_all_def
  V16ClearCacheStatus_shape_def ClearCacheStatus_all_def
  V16DataTransferStatus_shape_def DataTransferStatus_all_def
  V16KeyValue_shape_def
  V16ChargingProfilePurposeType_shape_def ChargingProfilePurposeType_all_def
  V16ChargingProfileKindType_shape_def ChargingProfileKindType_all_def
  V16RecurrencyKindType_shape_def RecurrencyKindType_all_def
  V16ChargingRateUnitType_shape_def ChargingRateUnitType_all_def
  V16ChargingSchedulePeriod_shape_def
  V16ChargingSchedule_shape_def
  V16ChargingProfile_shape_def
  V16RemoteStartStopStatus_shape_def RemoteStartStopStatus_all_def
  V16ResetType_shape_def ResetType_all_def
  V16ResetStatus_shape_def ResetStatus_all_def
  V16UnlockStatus_shape_def UnlockStatus_all_def
  V16DiagnosticsStatus_shape_def DiagnosticsStatus_all_def
  V16FirmwareStatus_shape_def FirmwareStatus_all_def
  V16ChargingProfileStatus_shape_def ChargingProfileStatus_all_def
  V16ClearChargingProfileStatus_shape_def ClearChargingProfileStatus_all_def
  V16GetCompositeScheduleStatus_shape_def GetCompositeScheduleStatus_all_def
  V16ReservationStatus_shape_def ReservationStatus_all_def
  V16CancelReservationStatus_shape_def CancelReservationStatus_all_def
  V16MessageTrigger_shape_def MessageTrigger_all_def
  V16TriggerMessageStatus_shape_def TriggerMessageStatus_all_def
  V16UpdateType_shape_def UpdateType_all_def
  V16AuthorizationData_shape_def
  V16UpdateStatus_shape_def UpdateStatus_all_def
  V16CertificateSignedStatus_shape_def CertificateSignedStatus_all_def
  V16HashAlgorithmType_shape_def HashAlgorithmType_all_def
  V16CertificateHashData_shape_def
  V16DeleteCertificateStatus_shape_def DeleteCertificateStatus_all_def
  V16CertificateUse_shape_def CertificateUse_all_def
  V16GetInstalledCertificatesStatus_shape_def GetInstalledCertificatesStatus_all_def
  V16LogType_shape_def LogType_all_def
  V16LogParameters_shape_def
  V16LogStatus_shape_def LogStatus_all_def
  V16InstallCertificateStatus_shape_def InstallCertificateStatus_all_def
  V16UploadLogStatus_shape_def UploadLogStatus_all_def
  V16GenericStatus_shape_def GenericStatus_all_def
  V16FirmwareType_shape_def
  V16UpdateFirmwareStatus_shape_def UpdateFirmwareStatus_all_def
  schema16_CertificateSignedStatusEnumType_def schema16_CertificateHashDataType_def schema16_HashAlgorithmEnumType_def schema16_DeleteCertificateStatusEnumType_def schema16_MessageTriggerEnumType_def schema16_TriggerMessageStatusEnumType_def schema16_CertificateUseEnumType_def schema16_GetInstalledCertificateStatusEnumType_def schema16_LogParametersType_def schema16_LogEnumType_def schema16_LogStatusEnumType_def schema16_InstallCertificateStatusEnumType_def schema16_UploadLogStatusEnumType_def schema16_GenericStatusEnumType_def schema16_FirmwareStatusEnumType_def schema16_FirmwareType_def schema16_UpdateFirmwareStatusEnumType_def

section \<open>Agreement\<close>

text \<open>
  Six structures can be written in a form their schema refuses for more than its limits, four cannot be read
  from something their schema admits: the enumerations of 1.6J are shared by messages that allow
  different tokens, some members are optional on one side only. Each comes with such a value,
  over a time stamp \<open>t\<close>.
\<close>

definition written_but_refused :: "string \<Rightarrow> (string \<times> json) list" where
  "written_but_refused t =
     [(''FirmwareStatusNotification'', JObject [(''status'', JString ''InvalidSignature'')]),
      (''GetConfigurationResponse'',
       JObject [(''configurationKey'', JArray [JObject [(''key'', JString ''HeartbeatInterval'')]])]),
      (''GetInstalledCertificateIdsResponse'',
       JObject [(''status'', JString ''Accepted''), (''certificateHashDataChain'', JArray [])]),
      (''ExtendedTriggerMessage'', JObject [(''requestedMessage'', JString ''DiagnosticsStatusNotification'')]),
      (''SignedUpdateFirmware'',
       JObject [(''requestId'', JInt 1), (''firmware'', JObject
         [(''location'', JString []), (''retrieveDateTime'', JString t), (''signingCertificate'', JString [])])]),
      (''TriggerMessage'', JObject [(''requestedMessage'', JString ''LogStatusNotification'')])]"

definition admitted_but_unreadable :: "string \<Rightarrow> (string \<times> json) list" where
  "admitted_but_unreadable t =
     [(''MeterValues'',
       JObject [(''connectorId'', JInt 1), (''meterValue'', JArray [JObject [(''timestamp'', JString t),
         (''sampledValue'', JArray [JObject [(''value'', JString []), (''unit'', JString ''Celcius'')]])]])]),
      (''StopTransaction'',
       JObject [(''meterStop'', JInt 0), (''timestamp'', JString t), (''transactionId'', JInt 1),
         (''transactionData'', JArray [JObject [(''timestamp'', JString t),
           (''sampledValue'', JArray [JObject [(''value'', JString []), (''unit'', JString ''Celcius'')]])]])]),
      (''LogStatusNotification'', JObject [(''status'', JString ''Uploaded'')]),
      (''SignedFirmwareStatusNotification'', JObject [(''status'', JString ''Installed'')])]"

definition written_too_much :: "string list" where
  "written_too_much = [''FirmwareStatusNotification'', ''GetConfigurationResponse'',
     ''GetInstalledCertificateIdsResponse'', ''ExtendedTriggerMessage'', ''SignedUpdateFirmware'', ''TriggerMessage'']"

definition read_too_little :: "string list" where
  "read_too_little = [''MeterValues'', ''StopTransaction'', ''LogStatusNotification'',
     ''SignedFirmwareStatusNotification'']"

lemma payloads16_conform:
  "list_all (\<lambda>((n, sh), sc). n \<in> set written_too_much \<or> conforms sh sc) payloads16"
  by (simp add: payloads16_def payload16_defs shape16_defs written_too_much_def)

lemma payloads16_cover:
  "list_all (\<lambda>((n, sh), sc). n \<in> set read_too_little \<or> covers sh sc) payloads16"
  by (simp add: payloads16_def payload16_defs shape16_defs read_too_little_def)

lemma payloads16_names: "map (fst \<circ> fst) payloads16 = remdups (map (fst \<circ> fst) payloads16)"
  by code_simp

lemma payloads16_determined:
  assumes "((n, sh), sc) \<in> set payloads16" and "((n, sh'), sc') \<in> set payloads16"
  shows "sh' = sh \<and> sc' = sc"
proof -
  have "distinct (map (fst \<circ> fst) payloads16)"
    using payloads16_names distinct_remdups by metis
  then have "inj_on (fst \<circ> fst) (set payloads16)"
    by (simp add: distinct_map)
  from inj_onD [OF this _ assms] show ?thesis by simp
qed

definition refused16 :: "json_formats \<Rightarrow> string \<Rightarrow> (string \<times> shape) \<times> schema \<Rightarrow> bool" where
  "refused16 L t p = (case map_of (written_but_refused t) (fst (fst p)) of
     None \<Rightarrow> False
   | Some j \<Rightarrow> shape_writes L (snd (fst p)) j \<and> within_limits L (snd p) j \<and> \<not> schema_accepts L (snd p) j)"

definition unreadable16 :: "json_formats \<Rightarrow> string \<Rightarrow> (string \<times> shape) \<times> schema \<Rightarrow> bool" where
  "unreadable16 L t p = (case map_of (admitted_but_unreadable t) (fst (fst p)) of
     None \<Rightarrow> False
   | Some j \<Rightarrow> schema_accepts L (snd p) j \<and> fits L (snd (fst p)) j \<and> \<not> shape_reads L (snd (fst p)) j)"

lemmas schema_limit_defs = text_ok_def range_ok_def count_ok_def multiple_ok_def in_i32_def in_u32_def

definition written_pairs :: "((string \<times> shape) \<times> schema) list" where
  "written_pairs =
     [(FirmwareStatusNotificationRequest_payload, schema16_FirmwareStatusNotificationRequest),
      (GetConfigurationResponse_payload, schema16_GetConfigurationResponse),
      (GetInstalledCertificateIdsResponse_payload, schema16_GetInstalledCertificateIdsResponse),
      (ExtendedTriggerMessageRequest_payload, schema16_ExtendedTriggerMessageRequest),
      (SignedUpdateFirmwareRequest_payload, schema16_SignedUpdateFirmwareRequest),
      (TriggerMessageRequest_payload, schema16_TriggerMessageRequest)]"

definition read_pairs :: "((string \<times> shape) \<times> schema) list" where
  "read_pairs =
     [(MeterValuesRequest_payload, schema16_MeterValuesRequest),
      (StopTransactionRequest_payload, schema16_StopTransactionRequest),
      (LogStatusNotificationRequest_payload, schema16_LogStatusNotificationRequest),
      (SignedFirmwareStatusNotificationRequest_payload, schema16_SignedFirmwareStatusNotificationRequest)]"

lemma exception_pairs:
  "map (fst \<circ> fst) written_pairs = written_too_much" "map (fst \<circ> fst) read_pairs = read_too_little"
  "set written_pairs \<subseteq> set payloads16" "set read_pairs \<subseteq> set payloads16"
  by (simp_all add: written_pairs_def written_too_much_def read_pairs_def read_too_little_def payload16_names payloads16_def)

lemma written_pairs_refused:
  assumes "jf_time_text L t" and "jf_format L ''date-time'' t"
  shows "list_all (refused16 L t) written_pairs"
  using assms
  by (simp add: written_pairs_def refused16_def written_but_refused_def payload16_defs shape16_defs schema_limit_defs)

lemma read_pairs_unreadable:
  assumes "jf_format L ''date-time'' t" and "jf_time_reads L t"
  shows "list_all (unreadable16 L t) read_pairs"
  using assms
  by (simp add: read_pairs_def unreadable16_def admitted_but_unreadable_def payload16_defs shape16_defs schema_limit_defs)

lemma payloads16_named:
  assumes "((n, sh), sc) \<in> set payloads16" and "set ps \<subseteq> set payloads16" and "n \<in> set (map (fst \<circ> fst) ps)"
  shows "((n, sh), sc) \<in> set ps"
proof -
  from assms(3) obtain sh' sc' where p: "((n, sh'), sc') \<in> set ps" by auto
  with payloads16_determined [OF assms(1), of sh' sc'] assms(2) show ?thesis by auto
qed

lemma exceptions16:
  assumes "jf_time_text L t" and "jf_format L ''date-time'' t" and "jf_time_reads L t"
    and m: "((n, sh), sc) \<in> set payloads16"
  shows "n \<in> set written_too_much \<Longrightarrow> refused16 L t ((n, sh), sc)"
    and "n \<in> set read_too_little \<Longrightarrow> unreadable16 L t ((n, sh), sc)"
  using payloads16_named [OF m, of written_pairs] payloads16_named [OF m, of read_pairs] exception_pairs
    written_pairs_refused [OF assms(1,2)] read_pairs_unreadable [OF assms(2,3)]
  unfolding list_all_iff by metis+

text \<open>
  Property C34. Among the 78 structures of 1.6J, provided the clock has a text that is a \<open>date-time\<close> and can be read
  back: a structure passes its schema whenever it is written within the schema's limits, and only then, exactly
  if it is not one of the six of \<open>written_too_much\<close>; and what passes the schema can be read whenever its
  integers and times fit the fields, and only then, exactly if the structure is not one of the four of
  \<open>read_too_little\<close>. Every other one of the 78 matches; each of the ten has a counterexample.
\<close>

theorem payloads16_match_schemas:
  assumes "((n, sh), sc) \<in> set payloads16"
    and "jf_time_text L t" and "jf_format L ''date-time'' t" and "jf_time_reads L t"
  shows "((\<forall>j. shape_writes L sh j \<longrightarrow> (schema_accepts L sc j \<longleftrightarrow> within_limits L sc j)) \<longleftrightarrow> n \<notin> set written_too_much)
    \<and> ((\<forall>j. schema_accepts L sc j \<longrightarrow> (shape_reads L sh j \<longleftrightarrow> fits L sh j)) \<longleftrightarrow> n \<notin> set read_too_little)"
proof -
  note ex = exceptions16 [OF assms(2,3,4,1)]
  have w: "\<exists>j. shape_writes L sh j \<and> within_limits L sc j \<and> \<not> schema_accepts L sc j" if "n \<in> set written_too_much"
    using ex(1) [OF that] by (auto simp: refused16_def split: option.splits)
  have r: "\<exists>j. schema_accepts L sc j \<and> fits L sh j \<and> \<not> shape_reads L sh j" if "n \<in> set read_too_little"
    using ex(2) [OF that] by (auto simp: unreadable16_def split: option.splits)
  have "n \<in> set written_too_much \<or> conforms sh sc" "n \<in> set read_too_little \<or> covers sh sc"
    using assms(1) payloads16_conform payloads16_cover by (auto simp: list_all_iff)
  with conforms_sound covers_sound w r show ?thesis by meson
qed

theorem payloads16_match_schemas_witness:
  "let L = \<lparr>jf_format = \<lambda>_ s. s = ''2024-01-01T00:00:00Z'', jf_multiple = \<lambda>_ _. True,
       jf_time_text = \<lambda>s. s = ''2024-01-01T00:00:00Z'', jf_time_reads = \<lambda>s. s = ''2024-01-01T00:00:00Z''\<rparr> in
   ((\<forall>j. shape_writes L (snd ResetRequest_payload) j \<longrightarrow>
       (schema_accepts L schema16_ResetRequest j \<longleftrightarrow> within_limits L schema16_ResetRequest j))
     \<and> (\<forall>j. schema_accepts L schema16_ResetRequest j \<longrightarrow>
         (shape_reads L (snd ResetRequest_payload) j \<longleftrightarrow> fits L (snd ResetRequest_payload) j)))
   \<and> \<not> (\<forall>j. shape_writes L (snd TriggerMessageRequest_payload) j \<longrightarrow>
       (schema_accepts L schema16_TriggerMessageRequest j \<longleftrightarrow> within_limits L schema16_TriggerMessageRequest j))"
proof -
  define L where "L = \<lparr>jf_format = \<lambda>_ s. s = ''2024-01-01T00:00:00Z'', jf_multiple = \<lambda>_ _. True,
       jf_time_text = \<lambda>s. s = ''2024-01-01T00:00:00Z'', jf_time_reads = \<lambda>s. s = ''2024-01-01T00:00:00Z''\<rparr>"
  have t: "jf_time_text L ''2024-01-01T00:00:00Z''" "jf_format L ''date-time'' ''2024-01-01T00:00:00Z''"
    "jf_time_reads L ''2024-01-01T00:00:00Z''"
    by (simp_all add: L_def)
  have n: "fst ResetRequest_payload = ''Reset''" "fst TriggerMessageRequest_payload = ''TriggerMessage''"
    by (simp_all add: ResetRequest_payload_def TriggerMessageRequest_payload_def)
  have "(ResetRequest_payload, schema16_ResetRequest) \<in> set payloads16"
    "(TriggerMessageRequest_payload, schema16_TriggerMessageRequest) \<in> set payloads16"
    by (simp_all add: payloads16_def)
  then have m: "((''Reset'', snd ResetRequest_payload), schema16_ResetRequest) \<in> set payloads16"
    "((''TriggerMessage'', snd TriggerMessageRequest_payload), schema16_TriggerMessageRequest) \<in> set payloads16"
    by (metis n prod.collapse)+
  show ?thesis
    using payloads16_match_schemas [OF m(1) t] payloads16_match_schemas [OF m(2) t]
    by (simp add: Let_def flip: L_def) (simp add: written_too_much_def read_too_little_def)
qed

end
