(* ===== verification/Payloads201.thy ===== *)
theory Payloads201
  imports Payload_Shapes
begin

text \<open>
  \<open>ocpp-messages/src/v201\<close>: the 2.0.1 requests and responses, as in \<open>Payloads16\<close>. The structures carry
  the prefix under which \<open>lib.rs\<close> imports them. The schemas are those of \<open>schemas/v201\<close>; the definitions they share are shared here too.
\<close>

section \<open>Structures\<close>

datatype AuthorizeCertificateStatusEnumType =
    Accepted
  | SignatureError
  | CertificateExpired
  | CertificateRevoked
  | NoCertificateAvailable
  | CertChainError
  | ContractCancelled

primrec AuthorizeCertificateStatusEnumType_wire :: "AuthorizeCertificateStatusEnumType \<Rightarrow> string" where
  "AuthorizeCertificateStatusEnumType_wire AuthorizeCertificateStatusEnumType.Accepted = ''Accepted''"
| "AuthorizeCertificateStatusEnumType_wire AuthorizeCertificateStatusEnumType.SignatureError = ''SignatureError''"
| "AuthorizeCertificateStatusEnumType_wire AuthorizeCertificateStatusEnumType.CertificateExpired = ''CertificateExpired''"
| "AuthorizeCertificateStatusEnumType_wire AuthorizeCertificateStatusEnumType.CertificateRevoked = ''CertificateRevoked''"
| "AuthorizeCertificateStatusEnumType_wire AuthorizeCertificateStatusEnumType.NoCertificateAvailable = ''NoCertificateAvailable''"
| "AuthorizeCertificateStatusEnumType_wire AuthorizeCertificateStatusEnumType.CertChainError = ''CertChainError''"
| "AuthorizeCertificateStatusEnumType_wire AuthorizeCertificateStatusEnumType.ContractCancelled = ''ContractCancelled''"

definition AuthorizeCertificateStatusEnumType_all :: "AuthorizeCertificateStatusEnumType list" where
  "AuthorizeCertificateStatusEnumType_all = [AuthorizeCertificateStatusEnumType.Accepted,
     AuthorizeCertificateStatusEnumType.SignatureError,
     AuthorizeCertificateStatusEnumType.CertificateExpired,
     AuthorizeCertificateStatusEnumType.CertificateRevoked,
     AuthorizeCertificateStatusEnumType.NoCertificateAvailable,
     AuthorizeCertificateStatusEnumType.CertChainError,
     AuthorizeCertificateStatusEnumType.ContractCancelled]"

definition AuthorizeCertificateStatusEnumType_of_wire :: "string \<Rightarrow> AuthorizeCertificateStatusEnumType option" where
  "AuthorizeCertificateStatusEnumType_of_wire = decode_by AuthorizeCertificateStatusEnumType_all AuthorizeCertificateStatusEnumType_wire"

interpretation AuthorizeCertificateStatusEnumType_codec: wire_codec AuthorizeCertificateStatusEnumType_wire AuthorizeCertificateStatusEnumType_of_wire
  unfolding AuthorizeCertificateStatusEnumType_of_wire_def
proof (rule wire_codec_distinct)
  show "x \<in> set AuthorizeCertificateStatusEnumType_all" for x by (cases x) (simp_all add: AuthorizeCertificateStatusEnumType_all_def)
  show "distinct (map AuthorizeCertificateStatusEnumType_wire AuthorizeCertificateStatusEnumType_all)" by (simp add: AuthorizeCertificateStatusEnumType_all_def)
qed

datatype ConnectorEnumType =
    Ccs1
  | Ccs2
  | Cg105
  | Ctesla
  | Ctype1
  | Ctype2
  | S3091P16A
  | S3091P32A
  | S3093P16A
  | S3093P32A
  | Sbs1361
  | Scee77
  | Stype2
  | Stype3
  | Other1PhMax16A
  | Other1PhOver16A
  | Other3Ph
  | Pan
  | Winductive
  | Wresonant
  | Undetermined
  | Unknown

primrec ConnectorEnumType_wire :: "ConnectorEnumType \<Rightarrow> string" where
  "ConnectorEnumType_wire ConnectorEnumType.Ccs1 = ''cCCS1''"
| "ConnectorEnumType_wire ConnectorEnumType.Ccs2 = ''cCCS2''"
| "ConnectorEnumType_wire ConnectorEnumType.Cg105 = ''cG105''"
| "ConnectorEnumType_wire ConnectorEnumType.Ctesla = ''cTesla''"
| "ConnectorEnumType_wire ConnectorEnumType.Ctype1 = ''cType1''"
| "ConnectorEnumType_wire ConnectorEnumType.Ctype2 = ''cType2''"
| "ConnectorEnumType_wire ConnectorEnumType.S3091P16A = ''s309-1P-16A''"
| "ConnectorEnumType_wire ConnectorEnumType.S3091P32A = ''s309-1P-32A''"
| "ConnectorEnumType_wire ConnectorEnumType.S3093P16A = ''s309-3P-16A''"
| "ConnectorEnumType_wire ConnectorEnumType.S3093P32A = ''s309-3P-32A''"
| "ConnectorEnumType_wire ConnectorEnumType.Sbs1361 = ''sBS1361''"
| "ConnectorEnumType_wire ConnectorEnumType.Scee77 = ''sCEE-7-7''"
| "ConnectorEnumType_wire ConnectorEnumType.Stype2 = ''sType2''"
| "ConnectorEnumType_wire ConnectorEnumType.Stype3 = ''sType3''"
| "ConnectorEnumType_wire ConnectorEnumType.Other1PhMax16A = ''Other1PhMax16A''"
| "ConnectorEnumType_wire ConnectorEnumType.Other1PhOver16A = ''Other1PhOver16A''"
| "ConnectorEnumType_wire ConnectorEnumType.Other3Ph = ''Other3Ph''"
| "ConnectorEnumType_wire ConnectorEnumType.Pan = ''Pan''"
| "ConnectorEnumType_wire ConnectorEnumType.Winductive = ''wInductive''"
| "ConnectorEnumType_wire ConnectorEnumType.Wresonant = ''wResonant''"
| "ConnectorEnumType_wire ConnectorEnumType.Undetermined = ''Undetermined''"
| "ConnectorEnumType_wire ConnectorEnumType.Unknown = ''Unknown''"

definition ConnectorEnumType_all :: "ConnectorEnumType list" where
  "ConnectorEnumType_all = [ConnectorEnumType.Ccs1, ConnectorEnumType.Ccs2, ConnectorEnumType.Cg105,
     ConnectorEnumType.Ctesla, ConnectorEnumType.Ctype1, ConnectorEnumType.Ctype2,
     ConnectorEnumType.S3091P16A, ConnectorEnumType.S3091P32A,
     ConnectorEnumType.S3093P16A, ConnectorEnumType.S3093P32A,
     ConnectorEnumType.Sbs1361, ConnectorEnumType.Scee77, ConnectorEnumType.Stype2,
     ConnectorEnumType.Stype3, ConnectorEnumType.Other1PhMax16A,
     ConnectorEnumType.Other1PhOver16A, ConnectorEnumType.Other3Ph,
     ConnectorEnumType.Pan, ConnectorEnumType.Winductive, ConnectorEnumType.Wresonant,
     ConnectorEnumType.Undetermined, ConnectorEnumType.Unknown]"

definition ConnectorEnumType_of_wire :: "string \<Rightarrow> ConnectorEnumType option" where
  "ConnectorEnumType_of_wire = decode_by ConnectorEnumType_all ConnectorEnumType_wire"

interpretation ConnectorEnumType_codec: wire_codec ConnectorEnumType_wire ConnectorEnumType_of_wire
  unfolding ConnectorEnumType_of_wire_def
proof (rule wire_codec_distinct)
  show "x \<in> set ConnectorEnumType_all" for x by (cases x) (simp_all add: ConnectorEnumType_all_def)
  show "distinct (map ConnectorEnumType_wire ConnectorEnumType_all)" by (simp add: ConnectorEnumType_all_def)
qed

section \<open>What serde makes of them\<close>

definition IdTokenEnumType_shape :: shape where
  "IdTokenEnumType_shape = SEnum (map IdTokenEnumType_wire IdTokenEnumType_all)"

definition CustomDataType_shape :: shape where
  "CustomDataType_shape = SObject
     [(''vendorId'', Required, SString)] True"

definition AdditionalInfoType_shape :: shape where
  "AdditionalInfoType_shape = SObject
     [(''additionalIdToken'', Required, SString),
      (''type'', Required, SString),
      (''customData'', Optional, CustomDataType_shape)] False"

definition IdTokenType_shape :: shape where
  "IdTokenType_shape = SObject
     [(''idToken'', Required, SString),
      (''type'', Required, IdTokenEnumType_shape),
      (''additionalInfo'', Optional, SArray AdditionalInfoType_shape),
      (''customData'', Optional, CustomDataType_shape)] False"

definition HashAlgorithmEnumType_shape :: shape where
  "HashAlgorithmEnumType_shape = SEnum (map HashAlgorithmEnumType_wire HashAlgorithmEnumType_all)"

definition OCSPRequestDataType_shape :: shape where
  "OCSPRequestDataType_shape = SObject
     [(''hashAlgorithm'', Required, HashAlgorithmEnumType_shape),
      (''issuerNameHash'', Required, SString),
      (''issuerKeyHash'', Required, SString),
      (''serialNumber'', Required, SString),
      (''responderURL'', Required, SString),
      (''customData'', Optional, CustomDataType_shape)] False"

definition AuthorizationStatusEnumType_shape :: shape where
  "AuthorizationStatusEnumType_shape = SEnum (map AuthorizationStatusEnumType_wire AuthorizationStatusEnumType_all)"

definition MessageFormatEnumType_shape :: shape where
  "MessageFormatEnumType_shape = SEnum (map MessageFormatEnumType_wire MessageFormatEnumType_all)"

definition MessageContentType_shape :: shape where
  "MessageContentType_shape = SObject
     [(''format'', Required, MessageFormatEnumType_shape),
      (''content'', Required, SString),
      (''language'', Optional, SString),
      (''customData'', Optional, CustomDataType_shape)] False"

definition IdTokenInfoType_shape :: shape where
  "IdTokenInfoType_shape = SObject
     [(''status'', Required, AuthorizationStatusEnumType_shape),
      (''cacheExpiryDateTime'', Optional, SString),
      (''chargingPriority'', Optional, SInt32),
      (''language1'', Optional, SString),
      (''evseId'', Optional, SArray SInt32),
      (''language2'', Optional, SString),
      (''groupIdToken'', Optional, IdTokenType_shape),
      (''personalMessage'', Optional, MessageContentType_shape),
      (''customData'', Optional, CustomDataType_shape)] False"

definition AuthorizeCertificateStatusEnumType_shape :: shape where
  "AuthorizeCertificateStatusEnumType_shape = SEnum (map AuthorizeCertificateStatusEnumType_wire AuthorizeCertificateStatusEnumType_all)"

definition ModemType_shape :: shape where
  "ModemType_shape = SObject
     [(''iccid'', Optional, SString),
      (''imsi'', Optional, SString),
      (''customData'', Optional, CustomDataType_shape)] False"

definition ChargingStationType_shape :: shape where
  "ChargingStationType_shape = SObject
     [(''vendorName'', Required, SString),
      (''model'', Required, SString),
      (''serialNumber'', Optional, SString),
      (''firmwareVersion'', Optional, SString),
      (''modem'', Optional, ModemType_shape),
      (''customData'', Optional, CustomDataType_shape)] False"

definition BootReasonEnumType_shape :: shape where
  "BootReasonEnumType_shape = SEnum (map BootReasonEnumType_wire BootReasonEnumType_all)"

definition RegistrationStatusEnumType_shape :: shape where
  "RegistrationStatusEnumType_shape = SEnum (map RegistrationStatusEnumType_wire RegistrationStatusEnumType_all)"

definition StatusInfoType_shape :: shape where
  "StatusInfoType_shape = SObject
     [(''reasonCode'', Required, SString),
      (''additionalInfo'', Optional, SString),
      (''customData'', Optional, CustomDataType_shape)] False"

definition CancelReservationStatusEnumType_shape :: shape where
  "CancelReservationStatusEnumType_shape = SEnum (map CancelReservationStatusEnumType_wire CancelReservationStatusEnumType_all)"

definition CertificateSigningUseEnumType_shape :: shape where
  "CertificateSigningUseEnumType_shape = SEnum (map CertificateSigningUseEnumType_wire CertificateSigningUseEnumType_all)"

definition CertificateSignedStatusEnumType_shape :: shape where
  "CertificateSignedStatusEnumType_shape = SEnum (map CertificateSignedStatusEnumType_wire CertificateSignedStatusEnumType_all)"

definition OperationalStatusEnumType_shape :: shape where
  "OperationalStatusEnumType_shape = SEnum (map OperationalStatusEnumType_wire OperationalStatusEnumType_all)"

definition EvseType_shape :: shape where
  "EvseType_shape = SObject
     [(''id'', Required, SInt32),
      (''connectorId'', Optional, SInt32),
      (''customData'', Optional, CustomDataType_shape)] False"

definition ChangeAvailabilityStatusEnumType_shape :: shape where
  "ChangeAvailabilityStatusEnumType_shape = SEnum (map ChangeAvailabilityStatusEnumType_wire ChangeAvailabilityStatusEnumType_all)"

definition ClearCacheStatusEnumType_shape :: shape where
  "ClearCacheStatusEnumType_shape = SEnum (map ClearCacheStatusEnumType_wire ClearCacheStatusEnumType_all)"

definition ChargingProfilePurposeEnumType_shape :: shape where
  "ChargingProfilePurposeEnumType_shape = SEnum (map ChargingProfilePurposeEnumType_wire ChargingProfilePurposeEnumType_all)"

definition ClearChargingProfileType_shape :: shape where
  "ClearChargingProfileType_shape = SObject
     [(''evseId'', Optional, SInt32),
      (''chargingProfilePurpose'', Optional, ChargingProfilePurposeEnumType_shape),
      (''stackLevel'', Optional, SInt32),
      (''customData'', Optional, CustomDataType_shape)] False"

definition ClearChargingProfileStatusEnumType_shape :: shape where
  "ClearChargingProfileStatusEnumType_shape = SEnum (map ClearChargingProfileStatusEnumType_wire ClearChargingProfileStatusEnumType_all)"

definition ClearMessageStatusEnumType_shape :: shape where
  "ClearMessageStatusEnumType_shape = SEnum (map ClearMessageStatusEnumType_wire ClearMessageStatusEnumType_all)"

definition ClearMonitoringStatusEnumType_shape :: shape where
  "ClearMonitoringStatusEnumType_shape = SEnum (map ClearMonitoringStatusEnumType_wire ClearMonitoringStatusEnumType_all)"

definition ClearMonitoringResultType_shape :: shape where
  "ClearMonitoringResultType_shape = SObject
     [(''status'', Required, ClearMonitoringStatusEnumType_shape),
      (''id'', Required, SInt32),
      (''statusInfo'', Optional, StatusInfoType_shape),
      (''customData'', Optional, CustomDataType_shape)] False"

definition ChargingLimitSourceEnumType_shape :: shape where
  "ChargingLimitSourceEnumType_shape = SEnum (map ChargingLimitSourceEnumType_wire ChargingLimitSourceEnumType_all)"

definition CertificateHashDataType_shape :: shape where
  "CertificateHashDataType_shape = SObject
     [(''hashAlgorithm'', Required, HashAlgorithmEnumType_shape),
      (''issuerNameHash'', Required, SString),
      (''issuerKeyHash'', Required, SString),
      (''serialNumber'', Required, SString),
      (''customData'', Optional, CustomDataType_shape)] False"

definition CustomerInformationStatusEnumType_shape :: shape where
  "CustomerInformationStatusEnumType_shape = SEnum (map CustomerInformationStatusEnumType_wire CustomerInformationStatusEnumType_all)"

definition DataTransferStatusEnumType_shape :: shape where
  "DataTransferStatusEnumType_shape = SEnum (map DataTransferStatusEnumType_wire DataTransferStatusEnumType_all)"

definition DeleteCertificateStatusEnumType_shape :: shape where
  "DeleteCertificateStatusEnumType_shape = SEnum (map DeleteCertificateStatusEnumType_wire DeleteCertificateStatusEnumType_all)"

definition FirmwareStatusEnumType_shape :: shape where
  "FirmwareStatusEnumType_shape = SEnum (map FirmwareStatusEnumType_wire FirmwareStatusEnumType_all)"

definition CertificateActionEnumType_shape :: shape where
  "CertificateActionEnumType_shape = SEnum (map CertificateActionEnumType_wire CertificateActionEnumType_all)"

definition Iso15118EVCertificateStatusEnumType_shape :: shape where
  "Iso15118EVCertificateStatusEnumType_shape = SEnum (map Iso15118EVCertificateStatusEnumType_wire Iso15118EVCertificateStatusEnumType_all)"

definition ReportBaseEnumType_shape :: shape where
  "ReportBaseEnumType_shape = SEnum (map ReportBaseEnumType_wire ReportBaseEnumType_all)"

definition GenericDeviceModelStatusEnumType_shape :: shape where
  "GenericDeviceModelStatusEnumType_shape = SEnum (map GenericDeviceModelStatusEnumType_wire GenericDeviceModelStatusEnumType_all)"

definition GetCertificateStatusEnumType_shape :: shape where
  "GetCertificateStatusEnumType_shape = SEnum (map GetCertificateStatusEnumType_wire GetCertificateStatusEnumType_all)"

definition ChargingProfileCriterionType_shape :: shape where
  "ChargingProfileCriterionType_shape = SObject
     [(''chargingProfilePurpose'', Optional, ChargingProfilePurposeEnumType_shape),
      (''stackLevel'', Optional, SInt32),
      (''chargingProfileId'', Optional, SArray SInt32),
      (''chargingLimitSource'', Optional, SArray ChargingLimitSourceEnumType_shape),
      (''customData'', Optional, CustomDataType_shape)] False"

definition GetChargingProfileStatusEnumType_shape :: shape where
  "GetChargingProfileStatusEnumType_shape = SEnum (map GetChargingProfileStatusEnumType_wire GetChargingProfileStatusEnumType_all)"

definition ChargingRateUnitEnumType_shape :: shape where
  "ChargingRateUnitEnumType_shape = SEnum (map ChargingRateUnitEnumType_wire ChargingRateUnitEnumType_all)"

definition GenericStatusEnumType_shape :: shape where
  "GenericStatusEnumType_shape = SEnum (map GenericStatusEnumType_wire GenericStatusEnumType_all)"

definition ChargingSchedulePeriodType_shape :: shape where
  "ChargingSchedulePeriodType_shape = SObject
     [(''startPeriod'', Required, SInt32),
      (''limit'', Required, SNumber),
      (''numberPhases'', Optional, SInt32),
      (''phaseToUse'', Optional, SInt32),
      (''customData'', Optional, CustomDataType_shape)] False"

definition CompositeScheduleType_shape :: shape where
  "CompositeScheduleType_shape = SObject
     [(''evseId'', Required, SInt32),
      (''duration'', Required, SInt32),
      (''scheduleStart'', Required, SString),
      (''chargingRateUnit'', Required, ChargingRateUnitEnumType_shape),
      (''chargingSchedulePeriod'', Required, SArray ChargingSchedulePeriodType_shape),
      (''customData'', Optional, CustomDataType_shape)] False"

definition MessagePriorityEnumType_shape :: shape where
  "MessagePriorityEnumType_shape = SEnum (map MessagePriorityEnumType_wire MessagePriorityEnumType_all)"

definition MessageStateEnumType_shape :: shape where
  "MessageStateEnumType_shape = SEnum (map MessageStateEnumType_wire MessageStateEnumType_all)"

definition GetDisplayMessagesStatusEnumType_shape :: shape where
  "GetDisplayMessagesStatusEnumType_shape = SEnum (map GetDisplayMessagesStatusEnumType_wire GetDisplayMessagesStatusEnumType_all)"

definition GetCertificateIdUseEnumType_shape :: shape where
  "GetCertificateIdUseEnumType_shape = SEnum (map GetCertificateIdUseEnumType_wire GetCertificateIdUseEnumType_all)"

definition GetInstalledCertificateStatusEnumType_shape :: shape where
  "GetInstalledCertificateStatusEnumType_shape = SEnum (map GetInstalledCertificateStatusEnumType_wire GetInstalledCertificateStatusEnumType_all)"

definition CertificateHashDataChainType_shape :: shape where
  "CertificateHashDataChainType_shape = SObject
     [(''certificateType'', Required, GetCertificateIdUseEnumType_shape),
      (''certificateHashData'', Required, CertificateHashDataType_shape),
      (''childCertificateHashData'', Optional, SArray CertificateHashDataType_shape),
      (''customData'', Optional, CustomDataType_shape)] False"

definition LogParametersType_shape :: shape where
  "LogParametersType_shape = SObject
     [(''remoteLocation'', Required, SString),
      (''oldestTimestamp'', Optional, SString),
      (''latestTimestamp'', Optional, SString),
      (''customData'', Optional, CustomDataType_shape)] False"

definition LogEnumType_shape :: shape where
  "LogEnumType_shape = SEnum (map LogEnumType_wire LogEnumType_all)"

definition LogStatusEnumType_shape :: shape where
  "LogStatusEnumType_shape = SEnum (map LogStatusEnumType_wire LogStatusEnumType_all)"

definition ComponentType_shape :: shape where
  "ComponentType_shape = SObject
     [(''name'', Required, SString),
      (''instance'', Optional, SString),
      (''evse'', Optional, EvseType_shape),
      (''customData'', Optional, CustomDataType_shape)] False"

definition VariableType_shape :: shape where
  "VariableType_shape = SObject
     [(''name'', Required, SString),
      (''instance'', Optional, SString),
      (''customData'', Optional, CustomDataType_shape)] False"

definition ComponentVariableType_shape :: shape where
  "ComponentVariableType_shape = SObject
     [(''component'', Required, ComponentType_shape),
      (''variable'', Optional, VariableType_shape),
      (''customData'', Optional, CustomDataType_shape)] False"

definition MonitoringCriterionEnumType_shape :: shape where
  "MonitoringCriterionEnumType_shape = SEnum (map MonitoringCriterionEnumType_wire MonitoringCriterionEnumType_all)"

definition ComponentCriterionEnumType_shape :: shape where
  "ComponentCriterionEnumType_shape = SEnum (map ComponentCriterionEnumType_wire ComponentCriterionEnumType_all)"

definition AttributeEnumType_shape :: shape where
  "AttributeEnumType_shape = SEnum (map AttributeEnumType_wire AttributeEnumType_all)"

definition GetVariableDataType_shape :: shape where
  "GetVariableDataType_shape = SObject
     [(''component'', Required, ComponentType_shape),
      (''variable'', Required, VariableType_shape),
      (''attributeType'', Optional, AttributeEnumType_shape),
      (''customData'', Optional, CustomDataType_shape)] False"

definition GetVariableStatusEnumType_shape :: shape where
  "GetVariableStatusEnumType_shape = SEnum (map GetVariableStatusEnumType_wire GetVariableStatusEnumType_all)"

definition GetVariableResultType_shape :: shape where
  "GetVariableResultType_shape = SObject
     [(''attributeStatus'', Required, GetVariableStatusEnumType_shape),
      (''component'', Required, ComponentType_shape),
      (''variable'', Required, VariableType_shape),
      (''attributeType'', Optional, AttributeEnumType_shape),
      (''attributeValue'', Optional, SString),
      (''attributeStatusInfo'', Optional, StatusInfoType_shape),
      (''customData'', Optional, CustomDataType_shape)] False"

definition InstallCertificateUseEnumType_shape :: shape where
  "InstallCertificateUseEnumType_shape = SEnum (map InstallCertificateUseEnumType_wire InstallCertificateUseEnumType_all)"

definition InstallCertificateStatusEnumType_shape :: shape where
  "InstallCertificateStatusEnumType_shape = SEnum (map InstallCertificateStatusEnumType_wire InstallCertificateStatusEnumType_all)"

definition UploadLogStatusEnumType_shape :: shape where
  "UploadLogStatusEnumType_shape = SEnum (map UploadLogStatusEnumType_wire UploadLogStatusEnumType_all)"

definition ReadingContextEnumType_shape :: shape where
  "ReadingContextEnumType_shape = SEnum (map ReadingContextEnumType_wire ReadingContextEnumType_all)"

definition MeasurandEnumType_shape :: shape where
  "MeasurandEnumType_shape = SEnum (map MeasurandEnumType_wire MeasurandEnumType_all)"

definition PhaseEnumType_shape :: shape where
  "PhaseEnumType_shape = SEnum (map PhaseEnumType_wire PhaseEnumType_all)"

definition LocationEnumType_shape :: shape where
  "LocationEnumType_shape = SEnum (map LocationEnumType_wire LocationEnumType_all)"

definition SignedMeterValueType_shape :: shape where
  "SignedMeterValueType_shape = SObject
     [(''signedMeterData'', Required, SString),
      (''signingMethod'', Required, SString),
      (''encodingMethod'', Required, SString),
      (''publicKey'', Required, SString),
      (''customData'', Optional, CustomDataType_shape)] False"

definition UnitOfMeasureType_shape :: shape where
  "UnitOfMeasureType_shape = SObject
     [(''unit'', Optional, SString),
      (''multiplier'', Optional, SInt32),
      (''customData'', Optional, CustomDataType_shape)] False"

definition SampledValueType_shape :: shape where
  "SampledValueType_shape = SObject
     [(''value'', Required, SNumber),
      (''context'', Optional, ReadingContextEnumType_shape),
      (''measurand'', Optional, MeasurandEnumType_shape),
      (''phase'', Optional, PhaseEnumType_shape),
      (''location'', Optional, LocationEnumType_shape),
      (''signedMeterValue'', Optional, SignedMeterValueType_shape),
      (''unitOfMeasure'', Optional, UnitOfMeasureType_shape),
      (''customData'', Optional, CustomDataType_shape)] False"

definition MeterValueType_shape :: shape where
  "MeterValueType_shape = SObject
     [(''timestamp'', Required, SString),
      (''sampledValue'', Required, SArray SampledValueType_shape),
      (''customData'', Optional, CustomDataType_shape)] False"

definition ChargingLimitType_shape :: shape where
  "ChargingLimitType_shape = SObject
     [(''chargingLimitSource'', Required, ChargingLimitSourceEnumType_shape),
      (''isGridCritical'', Optional, SBoolean),
      (''customData'', Optional, CustomDataType_shape)] False"

definition RelativeTimeIntervalType_shape :: shape where
  "RelativeTimeIntervalType_shape = SObject
     [(''start'', Required, SInt32),
      (''duration'', Optional, SInt32),
      (''customData'', Optional, CustomDataType_shape)] False"

definition CostKindEnumType_shape :: shape where
  "CostKindEnumType_shape = SEnum (map CostKindEnumType_wire CostKindEnumType_all)"

definition CostType_shape :: shape where
  "CostType_shape = SObject
     [(''costKind'', Required, CostKindEnumType_shape),
      (''amount'', Required, SInt32),
      (''amountMultiplier'', Optional, SInt32),
      (''customData'', Optional, CustomDataType_shape)] False"

definition ConsumptionCostType_shape :: shape where
  "ConsumptionCostType_shape = SObject
     [(''startValue'', Required, SNumber),
      (''cost'', Required, SArray CostType_shape),
      (''customData'', Optional, CustomDataType_shape)] False"

definition SalesTariffEntryType_shape :: shape where
  "SalesTariffEntryType_shape = SObject
     [(''relativeTimeInterval'', Required, RelativeTimeIntervalType_shape),
      (''ePriceLevel'', Optional, SInt32),
      (''consumptionCost'', Optional, SArray ConsumptionCostType_shape),
      (''customData'', Optional, CustomDataType_shape)] False"

definition SalesTariffType_shape :: shape where
  "SalesTariffType_shape = SObject
     [(''id'', Required, SInt32),
      (''salesTariffEntry'', Required, SArray SalesTariffEntryType_shape),
      (''salesTariffDescription'', Optional, SString),
      (''numEPriceLevels'', Optional, SInt32),
      (''customData'', Optional, CustomDataType_shape)] False"

definition ChargingScheduleType_shape :: shape where
  "ChargingScheduleType_shape = SObject
     [(''id'', Required, SInt32),
      (''chargingRateUnit'', Required, ChargingRateUnitEnumType_shape),
      (''chargingSchedulePeriod'', Required, SArray ChargingSchedulePeriodType_shape),
      (''startSchedule'', Optional, SString),
      (''duration'', Optional, SInt32),
      (''minChargingRate'', Optional, SNumber),
      (''salesTariff'', Optional, SalesTariffType_shape),
      (''customData'', Optional, CustomDataType_shape)] False"

definition MessageInfoType_shape :: shape where
  "MessageInfoType_shape = SObject
     [(''id'', Required, SInt32),
      (''priority'', Required, MessagePriorityEnumType_shape),
      (''message'', Required, MessageContentType_shape),
      (''state'', Optional, MessageStateEnumType_shape),
      (''startDateTime'', Optional, SString),
      (''endDateTime'', Optional, SString),
      (''transactionId'', Optional, SString),
      (''display'', Optional, ComponentType_shape),
      (''customData'', Optional, CustomDataType_shape)] False"

definition EnergyTransferModeEnumType_shape :: shape where
  "EnergyTransferModeEnumType_shape = SEnum (map EnergyTransferModeEnumType_wire EnergyTransferModeEnumType_all)"

definition ACChargingParametersType_shape :: shape where
  "ACChargingParametersType_shape = SObject
     [(''energyAmount'', Required, SInt32),
      (''evMinCurrent'', Required, SInt32),
      (''evMaxCurrent'', Required, SInt32),
      (''evMaxVoltage'', Required, SInt32),
      (''customData'', Optional, CustomDataType_shape)] False"

definition DCChargingParametersType_shape :: shape where
  "DCChargingParametersType_shape = SObject
     [(''evMaxCurrent'', Required, SInt32),
      (''evMaxVoltage'', Required, SInt32),
      (''energyAmount'', Optional, SInt32),
      (''evMaxPower'', Optional, SInt32),
      (''stateOfCharge'', Optional, SInt32),
      (''evEnergyCapacity'', Optional, SInt32),
      (''fullSoC'', Optional, SInt32),
      (''bulkSoC'', Optional, SInt32),
      (''customData'', Optional, CustomDataType_shape)] False"

definition ChargingNeedsType_shape :: shape where
  "ChargingNeedsType_shape = SObject
     [(''requestedEnergyTransfer'', Required, EnergyTransferModeEnumType_shape),
      (''departureTime'', Optional, SString),
      (''acChargingParameters'', Optional, ACChargingParametersType_shape),
      (''dcChargingParameters'', Optional, DCChargingParametersType_shape),
      (''customData'', Optional, CustomDataType_shape)] False"

definition NotifyEVChargingNeedsStatusEnumType_shape :: shape where
  "NotifyEVChargingNeedsStatusEnumType_shape = SEnum (map NotifyEVChargingNeedsStatusEnumType_wire NotifyEVChargingNeedsStatusEnumType_all)"

definition EventTriggerEnumType_shape :: shape where
  "EventTriggerEnumType_shape = SEnum (map EventTriggerEnumType_wire EventTriggerEnumType_all)"

definition EventNotificationEnumType_shape :: shape where
  "EventNotificationEnumType_shape = SEnum (map EventNotificationEnumType_wire EventNotificationEnumType_all)"

definition EventDataType_shape :: shape where
  "EventDataType_shape = SObject
     [(''eventId'', Required, SInt32),
      (''timestamp'', Required, SString),
      (''trigger'', Required, EventTriggerEnumType_shape),
      (''actualValue'', Required, SString),
      (''eventNotificationType'', Required, EventNotificationEnumType_shape),
      (''component'', Required, ComponentType_shape),
      (''variable'', Required, VariableType_shape),
      (''cause'', Optional, SInt32),
      (''techCode'', Optional, SString),
      (''techInfo'', Optional, SString),
      (''cleared'', Optional, SBoolean),
      (''transactionId'', Optional, SString),
      (''variableMonitoringId'', Optional, SInt32),
      (''customData'', Optional, CustomDataType_shape)] False"

definition MonitorEnumType_shape :: shape where
  "MonitorEnumType_shape = SEnum (map MonitorEnumType_wire MonitorEnumType_all)"

definition VariableMonitoringType_shape :: shape where
  "VariableMonitoringType_shape = SObject
     [(''id'', Required, SInt32),
      (''transaction'', Required, SBoolean),
      (''value'', Required, SNumber),
      (''type'', Required, MonitorEnumType_shape),
      (''severity'', Required, SInt32),
      (''customData'', Optional, CustomDataType_shape)] False"

definition MonitoringDataType_shape :: shape where
  "MonitoringDataType_shape = SObject
     [(''component'', Required, ComponentType_shape),
      (''variable'', Required, VariableType_shape),
      (''variableMonitoring'', Required, SArray VariableMonitoringType_shape),
      (''customData'', Optional, CustomDataType_shape)] False"

definition MutabilityEnumType_shape :: shape where
  "MutabilityEnumType_shape = SEnum (map MutabilityEnumType_wire MutabilityEnumType_all)"

definition VariableAttributeType_shape :: shape where
  "VariableAttributeType_shape = SObject
     [(''type'', Optional, AttributeEnumType_shape),
      (''value'', Optional, SString),
      (''mutability'', Optional, MutabilityEnumType_shape),
      (''persistent'', Optional, SBoolean),
      (''constant'', Optional, SBoolean),
      (''customData'', Optional, CustomDataType_shape)] False"

definition DataEnumType_shape :: shape where
  "DataEnumType_shape = SEnum (map DataEnumType_wire DataEnumType_all)"

definition VariableCharacteristicsType_shape :: shape where
  "VariableCharacteristicsType_shape = SObject
     [(''unit'', Optional, SString),
      (''dataType'', Required, DataEnumType_shape),
      (''minLimit'', Optional, SNumber),
      (''maxLimit'', Optional, SNumber),
      (''valuesList'', Optional, SString),
      (''supportsMonitoring'', Required, SBoolean),
      (''customData'', Optional, CustomDataType_shape)] False"

definition ReportDataType_shape :: shape where
  "ReportDataType_shape = SObject
     [(''component'', Required, ComponentType_shape),
      (''variable'', Required, VariableType_shape),
      (''variableAttribute'', Required, SArray VariableAttributeType_shape),
      (''variableCharacteristics'', Optional, VariableCharacteristicsType_shape),
      (''customData'', Optional, CustomDataType_shape)] False"

definition PublishFirmwareStatusEnumType_shape :: shape where
  "PublishFirmwareStatusEnumType_shape = SEnum (map PublishFirmwareStatusEnumType_wire PublishFirmwareStatusEnumType_all)"

definition ChargingProfileKindEnumType_shape :: shape where
  "ChargingProfileKindEnumType_shape = SEnum (map ChargingProfileKindEnumType_wire ChargingProfileKindEnumType_all)"

definition RecurrencyKindEnumType_shape :: shape where
  "RecurrencyKindEnumType_shape = SEnum (map RecurrencyKindEnumType_wire RecurrencyKindEnumType_all)"

definition ChargingProfileType_shape :: shape where
  "ChargingProfileType_shape = SObject
     [(''id'', Required, SInt32),
      (''stackLevel'', Required, SInt32),
      (''chargingProfilePurpose'', Required, ChargingProfilePurposeEnumType_shape),
      (''chargingProfileKind'', Required, ChargingProfileKindEnumType_shape),
      (''chargingSchedule'', Required, SArray ChargingScheduleType_shape),
      (''recurrencyKind'', Optional, RecurrencyKindEnumType_shape),
      (''validFrom'', Optional, SString),
      (''validTo'', Optional, SString),
      (''transactionId'', Optional, SString),
      (''customData'', Optional, CustomDataType_shape)] False"

definition RequestStartStopStatusEnumType_shape :: shape where
  "RequestStartStopStatusEnumType_shape = SEnum (map RequestStartStopStatusEnumType_wire RequestStartStopStatusEnumType_all)"

definition ReservationUpdateStatusEnumType_shape :: shape where
  "ReservationUpdateStatusEnumType_shape = SEnum (map ReservationUpdateStatusEnumType_wire ReservationUpdateStatusEnumType_all)"

definition ConnectorEnumType_shape :: shape where
  "ConnectorEnumType_shape = SEnum (map ConnectorEnumType_wire ConnectorEnumType_all)"

definition ReserveNowStatusEnumType_shape :: shape where
  "ReserveNowStatusEnumType_shape = SEnum (map ReserveNowStatusEnumType_wire ReserveNowStatusEnumType_all)"

definition ResetEnumType_shape :: shape where
  "ResetEnumType_shape = SEnum (map ResetEnumType_wire ResetEnumType_all)"

definition ResetStatusEnumType_shape :: shape where
  "ResetStatusEnumType_shape = SEnum (map ResetStatusEnumType_wire ResetStatusEnumType_all)"

definition UpdateEnumType_shape :: shape where
  "UpdateEnumType_shape = SEnum (map UpdateEnumType_wire UpdateEnumType_all)"

definition AuthorizationData_shape :: shape where
  "AuthorizationData_shape = SObject
     [(''idToken'', Required, IdTokenType_shape),
      (''idTokenInfo'', Optional, IdTokenInfoType_shape),
      (''customData'', Optional, CustomDataType_shape)] False"

definition SendLocalListStatusEnumType_shape :: shape where
  "SendLocalListStatusEnumType_shape = SEnum (map SendLocalListStatusEnumType_wire SendLocalListStatusEnumType_all)"

definition ChargingProfileStatusEnumType_shape :: shape where
  "ChargingProfileStatusEnumType_shape = SEnum (map ChargingProfileStatusEnumType_wire ChargingProfileStatusEnumType_all)"

definition DisplayMessageStatusEnumType_shape :: shape where
  "DisplayMessageStatusEnumType_shape = SEnum (map DisplayMessageStatusEnumType_wire DisplayMessageStatusEnumType_all)"

definition MonitorBaseEnumType_shape :: shape where
  "MonitorBaseEnumType_shape = SEnum (map MonitorBaseEnumType_wire MonitorBaseEnumType_all)"

definition OCPPVersionEnumType_shape :: shape where
  "OCPPVersionEnumType_shape = SEnum (map OCPPVersionEnumType_wire OCPPVersionEnumType_all)"

definition OCPPTransportEnumType_shape :: shape where
  "OCPPTransportEnumType_shape = SEnum (map OCPPTransportEnumType_wire OCPPTransportEnumType_all)"

definition OCPPInterfaceEnumType_shape :: shape where
  "OCPPInterfaceEnumType_shape = SEnum (map OCPPInterfaceEnumType_wire OCPPInterfaceEnumType_all)"

definition APNAuthenticationEnumType_shape :: shape where
  "APNAuthenticationEnumType_shape = SEnum (map APNAuthenticationEnumType_wire APNAuthenticationEnumType_all)"

definition APNType_shape :: shape where
  "APNType_shape = SObject
     [(''apn'', Required, SString),
      (''apnUserName'', Optional, SString),
      (''apnPassword'', Optional, SString),
      (''simPin'', Optional, SInt32),
      (''preferredNetwork'', Optional, SString),
      (''useOnlyPreferredNetwork'', Optional, SBoolean),
      (''apnAuthentication'', Required, APNAuthenticationEnumType_shape),
      (''customData'', Optional, CustomDataType_shape)] False"

definition VPNEnumType_shape :: shape where
  "VPNEnumType_shape = SEnum (map VPNEnumType_wire VPNEnumType_all)"

definition VPNType_shape :: shape where
  "VPNType_shape = SObject
     [(''server'', Required, SString),
      (''user'', Required, SString),
      (''group'', Optional, SString),
      (''password'', Required, SString),
      (''key'', Required, SString),
      (''type'', Required, VPNEnumType_shape),
      (''customData'', Optional, CustomDataType_shape)] False"

definition NetworkConnectionProfileType_shape :: shape where
  "NetworkConnectionProfileType_shape = SObject
     [(''ocppVersion'', Required, OCPPVersionEnumType_shape),
      (''ocppTransport'', Required, OCPPTransportEnumType_shape),
      (''ocppCsmsUrl'', Required, SString),
      (''messageTimeout'', Required, SInt32),
      (''securityProfile'', Required, SInt32),
      (''ocppInterface'', Required, OCPPInterfaceEnumType_shape),
      (''apn'', Optional, APNType_shape),
      (''vpn'', Optional, VPNType_shape),
      (''customData'', Optional, CustomDataType_shape)] False"

definition SetNetworkProfileStatusEnumType_shape :: shape where
  "SetNetworkProfileStatusEnumType_shape = SEnum (map SetNetworkProfileStatusEnumType_wire SetNetworkProfileStatusEnumType_all)"

definition SetMonitoringDataType_shape :: shape where
  "SetMonitoringDataType_shape = SObject
     [(''id'', Optional, SInt32),
      (''transaction'', Optional, SBoolean),
      (''value'', Required, SNumber),
      (''type'', Required, MonitorEnumType_shape),
      (''severity'', Required, SInt32),
      (''component'', Required, ComponentType_shape),
      (''variable'', Required, VariableType_shape),
      (''customData'', Optional, CustomDataType_shape)] False"

definition SetMonitoringStatusEnumType_shape :: shape where
  "SetMonitoringStatusEnumType_shape = SEnum (map SetMonitoringStatusEnumType_wire SetMonitoringStatusEnumType_all)"

definition SetMonitoringResultType_shape :: shape where
  "SetMonitoringResultType_shape = SObject
     [(''id'', Optional, SInt32),
      (''status'', Required, SetMonitoringStatusEnumType_shape),
      (''type'', Required, MonitorEnumType_shape),
      (''component'', Required, ComponentType_shape),
      (''variable'', Required, VariableType_shape),
      (''severity'', Required, SInt32),
      (''statusInfo'', Optional, StatusInfoType_shape),
      (''customData'', Optional, CustomDataType_shape)] False"

definition SetVariableDataType_shape :: shape where
  "SetVariableDataType_shape = SObject
     [(''attributeValue'', Required, SString),
      (''component'', Required, ComponentType_shape),
      (''variable'', Required, VariableType_shape),
      (''attributeType'', Optional, AttributeEnumType_shape),
      (''customData'', Optional, CustomDataType_shape)] False"

definition SetVariableStatusEnumType_shape :: shape where
  "SetVariableStatusEnumType_shape = SEnum (map SetVariableStatusEnumType_wire SetVariableStatusEnumType_all)"

definition SetVariableResultType_shape :: shape where
  "SetVariableResultType_shape = SObject
     [(''attributeStatus'', Required, SetVariableStatusEnumType_shape),
      (''component'', Required, ComponentType_shape),
      (''variable'', Required, VariableType_shape),
      (''attributeType'', Optional, AttributeEnumType_shape),
      (''attributeStatusInfo'', Optional, StatusInfoType_shape),
      (''customData'', Optional, CustomDataType_shape)] False"

definition ConnectorStatusEnumType_shape :: shape where
  "ConnectorStatusEnumType_shape = SEnum (map ConnectorStatusEnumType_wire ConnectorStatusEnumType_all)"

definition TransactionEventEnumType_shape :: shape where
  "TransactionEventEnumType_shape = SEnum (map TransactionEventEnumType_wire TransactionEventEnumType_all)"

definition TriggerReasonEnumType_shape :: shape where
  "TriggerReasonEnumType_shape = SEnum (map TriggerReasonEnumType_wire TriggerReasonEnumType_all)"

definition ChargingStateEnumType_shape :: shape where
  "ChargingStateEnumType_shape = SEnum (map ChargingStateEnumType_wire ChargingStateEnumType_all)"

definition ReasonEnumType_shape :: shape where
  "ReasonEnumType_shape = SEnum (map ReasonEnumType_wire ReasonEnumType_all)"

definition TransactionType_shape :: shape where
  "TransactionType_shape = SObject
     [(''transactionId'', Required, SString),
      (''chargingState'', Optional, ChargingStateEnumType_shape),
      (''timeSpentCharging'', Optional, SInt32),
      (''stoppedReason'', Optional, ReasonEnumType_shape),
      (''remoteStartId'', Optional, SInt32),
      (''customData'', Optional, CustomDataType_shape)] False"

definition MessageTriggerEnumType_shape :: shape where
  "MessageTriggerEnumType_shape = SEnum (map MessageTriggerEnumType_wire MessageTriggerEnumType_all)"

definition TriggerMessageStatusEnumType_shape :: shape where
  "TriggerMessageStatusEnumType_shape = SEnum (map TriggerMessageStatusEnumType_wire TriggerMessageStatusEnumType_all)"

definition UnlockStatusEnumType_shape :: shape where
  "UnlockStatusEnumType_shape = SEnum (map UnlockStatusEnumType_wire UnlockStatusEnumType_all)"

definition UnpublishFirmwareStatusEnumType_shape :: shape where
  "UnpublishFirmwareStatusEnumType_shape = SEnum (map UnpublishFirmwareStatusEnumType_wire UnpublishFirmwareStatusEnumType_all)"

definition FirmwareType_shape :: shape where
  "FirmwareType_shape = SObject
     [(''location'', Required, SString),
      (''retrieveDateTime'', Required, SString),
      (''installDateTime'', Optional, SString),
      (''signingCertificate'', Optional, SString),
      (''signature'', Optional, SString),
      (''customData'', Optional, CustomDataType_shape)] False"

definition UpdateFirmwareStatusEnumType_shape :: shape where
  "UpdateFirmwareStatusEnumType_shape = SEnum (map UpdateFirmwareStatusEnumType_wire UpdateFirmwareStatusEnumType_all)"

definition V201AuthorizeRequest_payload :: "string \<times> shape" where
  "V201AuthorizeRequest_payload = (''Authorize'', SObject
     [(''idToken'', Required, IdTokenType_shape),
      (''certificate'', Optional, SString),
      (''iso15118CertificateHashData'', Optional, SArray OCSPRequestDataType_shape),
      (''customData'', Optional, CustomDataType_shape)] False)"

definition V201AuthorizeResponse_payload :: "string \<times> shape" where
  "V201AuthorizeResponse_payload = (''AuthorizeResponse'', SObject
     [(''idTokenInfo'', Required, IdTokenInfoType_shape),
      (''certificateStatus'', Optional, AuthorizeCertificateStatusEnumType_shape),
      (''customData'', Optional, CustomDataType_shape)] False)"

definition V201BootNotificationRequest_payload :: "string \<times> shape" where
  "V201BootNotificationRequest_payload = (''BootNotification'', SObject
     [(''chargingStation'', Required, ChargingStationType_shape),
      (''reason'', Required, BootReasonEnumType_shape),
      (''customData'', Optional, CustomDataType_shape)] False)"

definition V201BootNotificationResponse_payload :: "string \<times> shape" where
  "V201BootNotificationResponse_payload = (''BootNotificationResponse'', SObject
     [(''currentTime'', Required, SString),
      (''interval'', Required, SInt32),
      (''status'', Required, RegistrationStatusEnumType_shape),
      (''statusInfo'', Optional, StatusInfoType_shape),
      (''customData'', Optional, CustomDataType_shape)] False)"

definition V201CancelReservationRequest_payload :: "string \<times> shape" where
  "V201CancelReservationRequest_payload = (''CancelReservation'', SObject
     [(''reservationId'', Required, SInt32),
      (''customData'', Optional, CustomDataType_shape)] False)"

definition V201CancelReservationResponse_payload :: "string \<times> shape" where
  "V201CancelReservationResponse_payload = (''CancelReservationResponse'', SObject
     [(''status'', Required, CancelReservationStatusEnumType_shape),
      (''statusInfo'', Optional, StatusInfoType_shape),
      (''customData'', Optional, CustomDataType_shape)] False)"

definition V201CertificateSignedRequest_payload :: "string \<times> shape" where
  "V201CertificateSignedRequest_payload = (''CertificateSigned'', SObject
     [(''certificateChain'', Required, SString),
      (''certificateType'', Optional, CertificateSigningUseEnumType_shape),
      (''customData'', Optional, CustomDataType_shape)] False)"

definition V201CertificateSignedResponse_payload :: "string \<times> shape" where
  "V201CertificateSignedResponse_payload = (''CertificateSignedResponse'', SObject
     [(''status'', Required, CertificateSignedStatusEnumType_shape),
      (''statusInfo'', Optional, StatusInfoType_shape),
      (''customData'', Optional, CustomDataType_shape)] False)"

definition V201ChangeAvailabilityRequest_payload :: "string \<times> shape" where
  "V201ChangeAvailabilityRequest_payload = (''ChangeAvailability'', SObject
     [(''operationalStatus'', Required, OperationalStatusEnumType_shape),
      (''evse'', Optional, EvseType_shape),
      (''customData'', Optional, CustomDataType_shape)] False)"

definition V201ChangeAvailabilityResponse_payload :: "string \<times> shape" where
  "V201ChangeAvailabilityResponse_payload = (''ChangeAvailabilityResponse'', SObject
     [(''status'', Required, ChangeAvailabilityStatusEnumType_shape),
      (''statusInfo'', Optional, StatusInfoType_shape),
      (''customData'', Optional, CustomDataType_shape)] False)"

definition V201ClearCacheRequest_payload :: "string \<times> shape" where
  "V201ClearCacheRequest_payload = (''ClearCache'', SObject
     [(''customData'', Optional, CustomDataType_shape)] False)"

definition V201ClearCacheResponse_payload :: "string \<times> shape" where
  "V201ClearCacheResponse_payload = (''ClearCacheResponse'', SObject
     [(''status'', Required, ClearCacheStatusEnumType_shape),
      (''statusInfo'', Optional, StatusInfoType_shape),
      (''customData'', Optional, CustomDataType_shape)] False)"

definition V201ClearChargingProfileRequest_payload :: "string \<times> shape" where
  "V201ClearChargingProfileRequest_payload = (''ClearChargingProfile'', SObject
     [(''chargingProfileId'', Optional, SInt32),
      (''chargingProfileCriteria'', Optional, ClearChargingProfileType_shape),
      (''customData'', Optional, CustomDataType_shape)] False)"

definition V201ClearChargingProfileResponse_payload :: "string \<times> shape" where
  "V201ClearChargingProfileResponse_payload = (''ClearChargingProfileResponse'', SObject
     [(''status'', Required, ClearChargingProfileStatusEnumType_shape),
      (''statusInfo'', Optional, StatusInfoType_shape),
      (''customData'', Optional, CustomDataType_shape)] False)"

definition V201ClearDisplayMessageRequest_payload :: "string \<times> shape" where
  "V201ClearDisplayMessageRequest_payload = (''ClearDisplayMessage'', SObject
     [(''id'', Required, SInt32),
      (''customData'', Optional, CustomDataType_shape)] False)"

definition V201ClearDisplayMessageResponse_payload :: "string \<times> shape" where
  "V201ClearDisplayMessageResponse_payload = (''ClearDisplayMessageResponse'', SObject
     [(''status'', Required, ClearMessageStatusEnumType_shape),
      (''statusInfo'', Optional, StatusInfoType_shape),
      (''customData'', Optional, CustomDataType_shape)] False)"

definition V201ClearVariableMonitoringRequest_payload :: "string \<times> shape" where
  "V201ClearVariableMonitoringRequest_payload = (''ClearVariableMonitoring'', SObject
     [(''id'', Required, SArray SInt32),
      (''customData'', Optional, CustomDataType_shape)] False)"

definition V201ClearVariableMonitoringResponse_payload :: "string \<times> shape" where
  "V201ClearVariableMonitoringResponse_payload = (''ClearVariableMonitoringResponse'', SObject
     [(''clearMonitoringResult'', Required, SArray ClearMonitoringResultType_shape),
      (''customData'', Optional, CustomDataType_shape)] False)"

definition V201ClearedChargingLimitRequest_payload :: "string \<times> shape" where
  "V201ClearedChargingLimitRequest_payload = (''ClearedChargingLimit'', SObject
     [(''chargingLimitSource'', Required, ChargingLimitSourceEnumType_shape),
      (''evseId'', Optional, SInt32),
      (''customData'', Optional, CustomDataType_shape)] False)"

definition V201ClearedChargingLimitResponse_payload :: "string \<times> shape" where
  "V201ClearedChargingLimitResponse_payload = (''ClearedChargingLimitResponse'', SObject
     [(''customData'', Optional, CustomDataType_shape)] False)"

definition V201CostUpdatedRequest_payload :: "string \<times> shape" where
  "V201CostUpdatedRequest_payload = (''CostUpdated'', SObject
     [(''totalCost'', Required, SNumber),
      (''transactionId'', Required, SString),
      (''customData'', Optional, CustomDataType_shape)] False)"

definition V201CostUpdatedResponse_payload :: "string \<times> shape" where
  "V201CostUpdatedResponse_payload = (''CostUpdatedResponse'', SObject
     [(''customData'', Optional, CustomDataType_shape)] False)"

definition V201CustomerInformationRequest_payload :: "string \<times> shape" where
  "V201CustomerInformationRequest_payload = (''CustomerInformation'', SObject
     [(''requestId'', Required, SInt32),
      (''report'', Required, SBoolean),
      (''clear'', Required, SBoolean),
      (''customerCertificate'', Optional, CertificateHashDataType_shape),
      (''idToken'', Optional, IdTokenType_shape),
      (''customerIdentifier'', Optional, SString),
      (''customData'', Optional, CustomDataType_shape)] False)"

definition V201CustomerInformationResponse_payload :: "string \<times> shape" where
  "V201CustomerInformationResponse_payload = (''CustomerInformationResponse'', SObject
     [(''status'', Required, CustomerInformationStatusEnumType_shape),
      (''statusInfo'', Optional, StatusInfoType_shape),
      (''customData'', Optional, CustomDataType_shape)] False)"

definition V201DataTransferRequest_payload :: "string \<times> shape" where
  "V201DataTransferRequest_payload = (''DataTransfer'', SObject
     [(''vendorId'', Required, SString),
      (''messageId'', Optional, SString),
      (''data'', Optional, SAny),
      (''customData'', Optional, CustomDataType_shape)] False)"

definition V201DataTransferResponse_payload :: "string \<times> shape" where
  "V201DataTransferResponse_payload = (''DataTransferResponse'', SObject
     [(''status'', Required, DataTransferStatusEnumType_shape),
      (''statusInfo'', Optional, StatusInfoType_shape),
      (''data'', Optional, SAny),
      (''customData'', Optional, CustomDataType_shape)] False)"

definition V201DeleteCertificateRequest_payload :: "string \<times> shape" where
  "V201DeleteCertificateRequest_payload = (''DeleteCertificate'', SObject
     [(''certificateHashData'', Required, CertificateHashDataType_shape),
      (''customData'', Optional, CustomDataType_shape)] False)"

definition V201DeleteCertificateResponse_payload :: "string \<times> shape" where
  "V201DeleteCertificateResponse_payload = (''DeleteCertificateResponse'', SObject
     [(''status'', Required, DeleteCertificateStatusEnumType_shape),
      (''statusInfo'', Optional, StatusInfoType_shape),
      (''customData'', Optional, CustomDataType_shape)] False)"

definition V201FirmwareStatusNotificationRequest_payload :: "string \<times> shape" where
  "V201FirmwareStatusNotificationRequest_payload = (''FirmwareStatusNotification'', SObject
     [(''status'', Required, FirmwareStatusEnumType_shape),
      (''requestId'', Optional, SInt32),
      (''customData'', Optional, CustomDataType_shape)] False)"

definition V201FirmwareStatusNotificationResponse_payload :: "string \<times> shape" where
  "V201FirmwareStatusNotificationResponse_payload = (''FirmwareStatusNotificationResponse'', SObject
     [(''customData'', Optional, CustomDataType_shape)] False)"

definition V201Get15118EVCertificateRequest_payload :: "string \<times> shape" where
  "V201Get15118EVCertificateRequest_payload = (''Get15118EVCertificate'', SObject
     [(''iso15118SchemaVersion'', Required, SString),
      (''action'', Required, CertificateActionEnumType_shape),
      (''exiRequest'', Required, SString),
      (''customData'', Optional, CustomDataType_shape)] False)"

definition V201Get15118EVCertificateResponse_payload :: "string \<times> shape" where
  "V201Get15118EVCertificateResponse_payload = (''Get15118EVCertificateResponse'', SObject
     [(''status'', Required, Iso15118EVCertificateStatusEnumType_shape),
      (''exiResponse'', Required, SString),
      (''statusInfo'', Optional, StatusInfoType_shape),
      (''customData'', Optional, CustomDataType_shape)] False)"

definition V201GetBaseReportRequest_payload :: "string \<times> shape" where
  "V201GetBaseReportRequest_payload = (''GetBaseReport'', SObject
     [(''requestId'', Required, SInt32),
      (''reportBase'', Required, ReportBaseEnumType_shape),
      (''customData'', Optional, CustomDataType_shape)] False)"

definition V201GetBaseReportResponse_payload :: "string \<times> shape" where
  "V201GetBaseReportResponse_payload = (''GetBaseReportResponse'', SObject
     [(''status'', Required, GenericDeviceModelStatusEnumType_shape),
      (''statusInfo'', Optional, StatusInfoType_shape),
      (''customData'', Optional, CustomDataType_shape)] False)"

definition V201GetCertificateStatusRequest_payload :: "string \<times> shape" where
  "V201GetCertificateStatusRequest_payload = (''GetCertificateStatus'', SObject
     [(''ocspRequestData'', Required, OCSPRequestDataType_shape),
      (''customData'', Optional, CustomDataType_shape)] False)"

definition V201GetCertificateStatusResponse_payload :: "string \<times> shape" where
  "V201GetCertificateStatusResponse_payload = (''GetCertificateStatusResponse'', SObject
     [(''status'', Required, GetCertificateStatusEnumType_shape),
      (''statusInfo'', Optional, StatusInfoType_shape),
      (''ocspResult'', Optional, SString),
      (''customData'', Optional, CustomDataType_shape)] False)"

definition V201GetChargingProfilesRequest_payload :: "string \<times> shape" where
  "V201GetChargingProfilesRequest_payload = (''GetChargingProfiles'', SObject
     [(''requestId'', Required, SInt32),
      (''evseId'', Optional, SInt32),
      (''chargingProfile'', Required, ChargingProfileCriterionType_shape),
      (''customData'', Optional, CustomDataType_shape)] False)"

definition V201GetChargingProfilesResponse_payload :: "string \<times> shape" where
  "V201GetChargingProfilesResponse_payload = (''GetChargingProfilesResponse'', SObject
     [(''status'', Required, GetChargingProfileStatusEnumType_shape),
      (''statusInfo'', Optional, StatusInfoType_shape),
      (''customData'', Optional, CustomDataType_shape)] False)"

definition V201GetCompositeScheduleRequest_payload :: "string \<times> shape" where
  "V201GetCompositeScheduleRequest_payload = (''GetCompositeSchedule'', SObject
     [(''duration'', Required, SInt32),
      (''chargingRateUnit'', Optional, ChargingRateUnitEnumType_shape),
      (''evseId'', Required, SInt32),
      (''customData'', Optional, CustomDataType_shape)] False)"

definition V201GetCompositeScheduleResponse_payload :: "string \<times> shape" where
  "V201GetCompositeScheduleResponse_payload = (''GetCompositeScheduleResponse'', SObject
     [(''status'', Required, GenericStatusEnumType_shape),
      (''schedule'', Optional, CompositeScheduleType_shape),
      (''statusInfo'', Optional, StatusInfoType_shape),
      (''customData'', Optional, CustomDataType_shape)] False)"

definition V201GetDisplayMessagesRequest_payload :: "string \<times> shape" where
  "V201GetDisplayMessagesRequest_payload = (''GetDisplayMessages'', SObject
     [(''requestId'', Required, SInt32),
      (''id'', Optional, SArray SInt32),
      (''priority'', Optional, MessagePriorityEnumType_shape),
      (''state'', Optional, MessageStateEnumType_shape),
      (''customData'', Optional, CustomDataType_shape)] False)"

definition V201GetDisplayMessagesResponse_payload :: "string \<times> shape" where
  "V201GetDisplayMessagesResponse_payload = (''GetDisplayMessagesResponse'', SObject
     [(''status'', Required, GetDisplayMessagesStatusEnumType_shape),
      (''statusInfo'', Optional, StatusInfoType_shape),
      (''customData'', Optional, CustomDataType_shape)] False)"

definition V201GetInstalledCertificateIdsRequest_payload :: "string \<times> shape" where
  "V201GetInstalledCertificateIdsRequest_payload = (''GetInstalledCertificateIds'', SObject
     [(''certificateType'', Optional, SArray GetCertificateIdUseEnumType_shape),
      (''customData'', Optional, CustomDataType_shape)] False)"

definition V201GetInstalledCertificateIdsResponse_payload :: "string \<times> shape" where
  "V201GetInstalledCertificateIdsResponse_payload = (''GetInstalledCertificateIdsResponse'', SObject
     [(''status'', Required, GetInstalledCertificateStatusEnumType_shape),
      (''statusInfo'', Optional, StatusInfoType_shape),
      (''certificateHashDataChain'', Optional, SArray CertificateHashDataChainType_shape),
      (''customData'', Optional, CustomDataType_shape)] False)"

definition V201GetLocalListVersionRequest_payload :: "string \<times> shape" where
  "V201GetLocalListVersionRequest_payload = (''GetLocalListVersion'', SObject
     [(''customData'', Optional, CustomDataType_shape)] False)"

definition V201GetLocalListVersionResponse_payload :: "string \<times> shape" where
  "V201GetLocalListVersionResponse_payload = (''GetLocalListVersionResponse'', SObject
     [(''versionNumber'', Required, SInt32),
      (''customData'', Optional, CustomDataType_shape)] False)"

definition V201GetLogRequest_payload :: "string \<times> shape" where
  "V201GetLogRequest_payload = (''GetLog'', SObject
     [(''log'', Required, LogParametersType_shape),
      (''logType'', Required, LogEnumType_shape),
      (''requestId'', Required, SInt32),
      (''retries'', Optional, SInt32),
      (''retryInterval'', Optional, SInt32),
      (''customData'', Optional, CustomDataType_shape)] False)"

definition V201GetLogResponse_payload :: "string \<times> shape" where
  "V201GetLogResponse_payload = (''GetLogResponse'', SObject
     [(''status'', Required, LogStatusEnumType_shape),
      (''statusInfo'', Optional, StatusInfoType_shape),
      (''filename'', Optional, SString),
      (''customData'', Optional, CustomDataType_shape)] False)"

definition V201GetMonitoringReportRequest_payload :: "string \<times> shape" where
  "V201GetMonitoringReportRequest_payload = (''GetMonitoringReport'', SObject
     [(''componentVariable'', Optional, SArray ComponentVariableType_shape),
      (''requestId'', Required, SInt32),
      (''monitoringCriteria'', Optional, SArray MonitoringCriterionEnumType_shape),
      (''customData'', Optional, CustomDataType_shape)] False)"

definition V201GetMonitoringReportResponse_payload :: "string \<times> shape" where
  "V201GetMonitoringReportResponse_payload = (''GetMonitoringReportResponse'', SObject
     [(''status'', Required, GenericDeviceModelStatusEnumType_shape),
      (''statusInfo'', Optional, StatusInfoType_shape),
      (''customData'', Optional, CustomDataType_shape)] False)"

definition V201GetReportRequest_payload :: "string \<times> shape" where
  "V201GetReportRequest_payload = (''GetReport'', SObject
     [(''componentVariable'', Optional, SArray ComponentVariableType_shape),
      (''requestId'', Required, SInt32),
      (''componentCriteria'', Optional, SArray ComponentCriterionEnumType_shape),
      (''customData'', Optional, CustomDataType_shape)] False)"

definition V201GetReportResponse_payload :: "string \<times> shape" where
  "V201GetReportResponse_payload = (''GetReportResponse'', SObject
     [(''status'', Required, GenericDeviceModelStatusEnumType_shape),
      (''statusInfo'', Optional, StatusInfoType_shape),
      (''customData'', Optional, CustomDataType_shape)] False)"

definition V201GetTransactionStatusRequest_payload :: "string \<times> shape" where
  "V201GetTransactionStatusRequest_payload = (''GetTransactionStatus'', SObject
     [(''transactionId'', Optional, SString),
      (''customData'', Optional, CustomDataType_shape)] False)"

definition V201GetTransactionStatusResponse_payload :: "string \<times> shape" where
  "V201GetTransactionStatusResponse_payload = (''GetTransactionStatusResponse'', SObject
     [(''messagesInQueue'', Required, SBoolean),
      (''ongoingIndicator'', Optional, SBoolean),
      (''customData'', Optional, CustomDataType_shape)] False)"

definition V201GetVariablesRequest_payload :: "string \<times> shape" where
  "V201GetVariablesRequest_payload = (''GetVariables'', SObject
     [(''getVariableData'', Required, SArray GetVariableDataType_shape),
      (''customData'', Optional, CustomDataType_shape)] False)"

definition V201GetVariablesResponse_payload :: "string \<times> shape" where
  "V201GetVariablesResponse_payload = (''GetVariablesResponse'', SObject
     [(''getVariableResult'', Required, SArray GetVariableResultType_shape),
      (''customData'', Optional, CustomDataType_shape)] False)"

definition V201HeartbeatRequest_payload :: "string \<times> shape" where
  "V201HeartbeatRequest_payload = (''Heartbeat'', SObject
     [(''customData'', Optional, CustomDataType_shape)] False)"

definition V201HeartbeatResponse_payload :: "string \<times> shape" where
  "V201HeartbeatResponse_payload = (''HeartbeatResponse'', SObject
     [(''currentTime'', Required, SString),
      (''customData'', Optional, CustomDataType_shape)] False)"

definition V201InstallCertificateRequest_payload :: "string \<times> shape" where
  "V201InstallCertificateRequest_payload = (''InstallCertificate'', SObject
     [(''certificateType'', Required, InstallCertificateUseEnumType_shape),
      (''certificate'', Required, SString),
      (''customData'', Optional, CustomDataType_shape)] False)"

definition V201InstallCertificateResponse_payload :: "string \<times> shape" where
  "V201InstallCertificateResponse_payload = (''InstallCertificateResponse'', SObject
     [(''status'', Required, InstallCertificateStatusEnumType_shape),
      (''statusInfo'', Optional, StatusInfoType_shape),
      (''customData'', Optional, CustomDataType_shape)] False)"

definition V201LogStatusNotificationRequest_payload :: "string \<times> shape" where
  "V201LogStatusNotificationRequest_payload = (''LogStatusNotification'', SObject
     [(''status'', Required, UploadLogStatusEnumType_shape),
      (''requestId'', Optional, SInt32),
      (''customData'', Optional, CustomDataType_shape)] False)"

definition V201LogStatusNotificationResponse_payload :: "string \<times> shape" where
  "V201LogStatusNotificationResponse_payload = (''LogStatusNotificationResponse'', SObject
     [(''customData'', Optional, CustomDataType_shape)] False)"

definition V201MeterValuesRequest_payload :: "string \<times> shape" where
  "V201MeterValuesRequest_payload = (''MeterValues'', SObject
     [(''evseId'', Required, SInt32),
      (''meterValue'', Required, SArray MeterValueType_shape),
      (''customData'', Optional, CustomDataType_shape)] False)"

definition V201MeterValuesResponse_payload :: "string \<times> shape" where
  "V201MeterValuesResponse_payload = (''MeterValuesResponse'', SObject
     [(''customData'', Optional, CustomDataType_shape)] False)"

definition V201NotifyChargingLimitRequest_payload :: "string \<times> shape" where
  "V201NotifyChargingLimitRequest_payload = (''NotifyChargingLimit'', SObject
     [(''chargingLimit'', Required, ChargingLimitType_shape),
      (''evseId'', Optional, SInt32),
      (''chargingSchedule'', Optional, SArray ChargingScheduleType_shape),
      (''customData'', Optional, CustomDataType_shape)] False)"

definition V201NotifyChargingLimitResponse_payload :: "string \<times> shape" where
  "V201NotifyChargingLimitResponse_payload = (''NotifyChargingLimitResponse'', SObject
     [(''customData'', Optional, CustomDataType_shape)] False)"

definition V201NotifyCustomerInformationRequest_payload :: "string \<times> shape" where
  "V201NotifyCustomerInformationRequest_payload = (''NotifyCustomerInformation'', SObject
     [(''data'', Required, SString),
      (''tbc'', Optional, SBoolean),
      (''seqNo'', Required, SInt32),
      (''generatedAt'', Required, SString),
      (''requestId'', Required, SInt32),
      (''customData'', Optional, CustomDataType_shape)] False)"

definition V201NotifyCustomerInformationResponse_payload :: "string \<times> shape" where
  "V201NotifyCustomerInformationResponse_payload = (''NotifyCustomerInformationResponse'', SObject
     [(''customData'', Optional, CustomDataType_shape)] False)"

definition V201NotifyDisplayMessagesRequest_payload :: "string \<times> shape" where
  "V201NotifyDisplayMessagesRequest_payload = (''NotifyDisplayMessages'', SObject
     [(''requestId'', Required, SInt32),
      (''messageInfo'', Optional, SArray MessageInfoType_shape),
      (''tbc'', Optional, SBoolean),
      (''customData'', Optional, CustomDataType_shape)] False)"

definition V201NotifyDisplayMessagesResponse_payload :: "string \<times> shape" where
  "V201NotifyDisplayMessagesResponse_payload = (''NotifyDisplayMessagesResponse'', SObject
     [(''customData'', Optional, CustomDataType_shape)] False)"

definition V201NotifyEVChargingNeedsRequest_payload :: "string \<times> shape" where
  "V201NotifyEVChargingNeedsRequest_payload = (''NotifyEVChargingNeeds'', SObject
     [(''chargingNeeds'', Required, ChargingNeedsType_shape),
      (''evseId'', Required, SInt32),
      (''maxScheduleTuples'', Optional, SInt32),
      (''customData'', Optional, CustomDataType_shape)] False)"

definition V201NotifyEVChargingNeedsResponse_payload :: "string \<times> shape" where
  "V201NotifyEVChargingNeedsResponse_payload = (''NotifyEVChargingNeedsResponse'', SObject
     [(''status'', Required, NotifyEVChargingNeedsStatusEnumType_shape),
      (''statusInfo'', Optional, StatusInfoType_shape),
      (''customData'', Optional, CustomDataType_shape)] False)"

definition V201NotifyEVChargingScheduleRequest_payload :: "string \<times> shape" where
  "V201NotifyEVChargingScheduleRequest_payload = (''NotifyEVChargingSchedule'', SObject
     [(''timeBase'', Required, SString),
      (''chargingSchedule'', Required, ChargingScheduleType_shape),
      (''evseId'', Required, SInt32),
      (''customData'', Optional, CustomDataType_shape)] False)"

definition V201NotifyEVChargingScheduleResponse_payload :: "string \<times> shape" where
  "V201NotifyEVChargingScheduleResponse_payload = (''NotifyEVChargingScheduleResponse'', SObject
     [(''status'', Required, GenericStatusEnumType_shape),
      (''statusInfo'', Optional, StatusInfoType_shape),
      (''customData'', Optional, CustomDataType_shape)] False)"

definition V201NotifyEventRequest_payload :: "string \<times> shape" where
  "V201NotifyEventRequest_payload = (''NotifyEvent'', SObject
     [(''generatedAt'', Required, SString),
      (''seqNo'', Required, SInt32),
      (''eventData'', Required, SArray EventDataType_shape),
      (''tbc'', Optional, SBoolean),
      (''customData'', Optional, CustomDataType_shape)] False)"

definition V201NotifyEventResponse_payload :: "string \<times> shape" where
  "V201NotifyEventResponse_payload = (''NotifyEventResponse'', SObject
     [(''customData'', Optional, CustomDataType_shape)] False)"

definition V201NotifyMonitoringReportRequest_payload :: "string \<times> shape" where
  "V201NotifyMonitoringReportRequest_payload = (''NotifyMonitoringReport'', SObject
     [(''monitor'', Optional, SArray MonitoringDataType_shape),
      (''requestId'', Required, SInt32),
      (''tbc'', Optional, SBoolean),
      (''seqNo'', Required, SInt32),
      (''generatedAt'', Required, SString),
      (''customData'', Optional, CustomDataType_shape)] False)"

definition V201NotifyMonitoringReportResponse_payload :: "string \<times> shape" where
  "V201NotifyMonitoringReportResponse_payload = (''NotifyMonitoringReportResponse'', SObject
     [(''customData'', Optional, CustomDataType_shape)] False)"

definition V201NotifyReportRequest_payload :: "string \<times> shape" where
  "V201NotifyReportRequest_payload = (''NotifyReport'', SObject
     [(''requestId'', Required, SInt32),
      (''generatedAt'', Required, SString),
      (''reportData'', Optional, SArray ReportDataType_shape),
      (''tbc'', Optional, SBoolean),
      (''seqNo'', Required, SInt32),
      (''customData'', Optional, CustomDataType_shape)] False)"

definition V201NotifyReportResponse_payload :: "string \<times> shape" where
  "V201NotifyReportResponse_payload = (''NotifyReportResponse'', SObject
     [(''customData'', Optional, CustomDataType_shape)] False)"

definition V201PublishFirmwareRequest_payload :: "string \<times> shape" where
  "V201PublishFirmwareRequest_payload = (''PublishFirmware'', SObject
     [(''location'', Required, SString),
      (''retries'', Optional, SInt32),
      (''checksum'', Required, SString),
      (''requestId'', Required, SInt32),
      (''retryInterval'', Optional, SInt32),
      (''customData'', Optional, CustomDataType_shape)] False)"

definition V201PublishFirmwareResponse_payload :: "string \<times> shape" where
  "V201PublishFirmwareResponse_payload = (''PublishFirmwareResponse'', SObject
     [(''status'', Required, GenericStatusEnumType_shape),
      (''statusInfo'', Optional, StatusInfoType_shape),
      (''customData'', Optional, CustomDataType_shape)] False)"

definition V201PublishFirmwareStatusNotificationRequest_payload :: "string \<times> shape" where
  "V201PublishFirmwareStatusNotificationRequest_payload = (''PublishFirmwareStatusNotification'', SObject
     [(''status'', Required, PublishFirmwareStatusEnumType_shape),
      (''location'', Optional, SArray SString),
      (''requestId'', Optional, SInt32),
      (''customData'', Optional, CustomDataType_shape)] False)"

definition V201PublishFirmwareStatusNotificationResponse_payload :: "string \<times> shape" where
  "V201PublishFirmwareStatusNotificationResponse_payload = (''PublishFirmwareStatusNotificationResponse'', SObject
     [(''customData'', Optional, CustomDataType_shape)] False)"

definition V201ReportChargingProfilesRequest_payload :: "string \<times> shape" where
  "V201ReportChargingProfilesRequest_payload = (''ReportChargingProfiles'', SObject
     [(''requestId'', Required, SInt32),
      (''chargingLimitSource'', Required, ChargingLimitSourceEnumType_shape),
      (''chargingProfile'', Required, SArray ChargingProfileType_shape),
      (''evseId'', Required, SInt32),
      (''tbc'', Optional, SBoolean),
      (''customData'', Optional, CustomDataType_shape)] False)"

definition V201ReportChargingProfilesResponse_payload :: "string \<times> shape" where
  "V201ReportChargingProfilesResponse_payload = (''ReportChargingProfilesResponse'', SObject
     [(''customData'', Optional, CustomDataType_shape)] False)"

definition V201RequestStartTransactionRequest_payload :: "string \<times> shape" where
  "V201RequestStartTransactionRequest_payload = (''RequestStartTransaction'', SObject
     [(''idToken'', Required, IdTokenType_shape),
      (''remoteStartId'', Required, SInt32),
      (''evseId'', Optional, SInt32),
      (''groupIdToken'', Optional, IdTokenType_shape),
      (''chargingProfile'', Optional, ChargingProfileType_shape),
      (''customData'', Optional, CustomDataType_shape)] False)"

definition V201RequestStartTransactionResponse_payload :: "string \<times> shape" where
  "V201RequestStartTransactionResponse_payload = (''RequestStartTransactionResponse'', SObject
     [(''status'', Required, RequestStartStopStatusEnumType_shape),
      (''statusInfo'', Optional, StatusInfoType_shape),
      (''transactionId'', Optional, SString),
      (''customData'', Optional, CustomDataType_shape)] False)"

definition V201RequestStopTransactionRequest_payload :: "string \<times> shape" where
  "V201RequestStopTransactionRequest_payload = (''RequestStopTransaction'', SObject
     [(''transactionId'', Required, SString),
      (''customData'', Optional, CustomDataType_shape)] False)"

definition V201RequestStopTransactionResponse_payload :: "string \<times> shape" where
  "V201RequestStopTransactionResponse_payload = (''RequestStopTransactionResponse'', SObject
     [(''status'', Required, RequestStartStopStatusEnumType_shape),
      (''statusInfo'', Optional, StatusInfoType_shape),
      (''customData'', Optional, CustomDataType_shape)] False)"

definition V201ReservationStatusUpdateRequest_payload :: "string \<times> shape" where
  "V201ReservationStatusUpdateRequest_payload = (''ReservationStatusUpdate'', SObject
     [(''reservationId'', Required, SInt32),
      (''reservationUpdateStatus'', Required, ReservationUpdateStatusEnumType_shape),
      (''customData'', Optional, CustomDataType_shape)] False)"

definition V201ReservationStatusUpdateResponse_payload :: "string \<times> shape" where
  "V201ReservationStatusUpdateResponse_payload = (''ReservationStatusUpdateResponse'', SObject
     [(''customData'', Optional, CustomDataType_shape)] False)"

definition V201ReserveNowRequest_payload :: "string \<times> shape" where
  "V201ReserveNowRequest_payload = (''ReserveNow'', SObject
     [(''id'', Required, SInt32),
      (''expiryDateTime'', Required, SString),
      (''idToken'', Required, IdTokenType_shape),
      (''connectorType'', Optional, ConnectorEnumType_shape),
      (''evseId'', Optional, SInt32),
      (''groupIdToken'', Optional, IdTokenType_shape),
      (''customData'', Optional, CustomDataType_shape)] False)"

definition V201ReserveNowResponse_payload :: "string \<times> shape" where
  "V201ReserveNowResponse_payload = (''ReserveNowResponse'', SObject
     [(''status'', Required, ReserveNowStatusEnumType_shape),
      (''statusInfo'', Optional, StatusInfoType_shape),
      (''customData'', Optional, CustomDataType_shape)] False)"

definition V201ResetRequest_payload :: "string \<times> shape" where
  "V201ResetRequest_payload = (''Reset'', SObject
     [(''type'', Required, ResetEnumType_shape),
      (''evseId'', Optional, SInt32),
      (''customData'', Optional, CustomDataType_shape)] False)"

definition V201ResetResponse_payload :: "string \<times> shape" where
  "V201ResetResponse_payload = (''ResetResponse'', SObject
     [(''status'', Required, ResetStatusEnumType_shape),
      (''statusInfo'', Optional, StatusInfoType_shape),
      (''customData'', Optional, CustomDataType_shape)] False)"

definition V201SecurityEventNotificationRequest_payload :: "string \<times> shape" where
  "V201SecurityEventNotificationRequest_payload = (''SecurityEventNotification'', SObject
     [(''type'', Required, SString),
      (''timestamp'', Required, SString),
      (''techInfo'', Optional, SString),
      (''customData'', Optional, CustomDataType_shape)] False)"

definition V201SecurityEventNotificationResponse_payload :: "string \<times> shape" where
  "V201SecurityEventNotificationResponse_payload = (''SecurityEventNotificationResponse'', SObject
     [(''customData'', Optional, CustomDataType_shape)] False)"

definition V201SendLocalListRequest_payload :: "string \<times> shape" where
  "V201SendLocalListRequest_payload = (''SendLocalList'', SObject
     [(''versionNumber'', Required, SInt32),
      (''updateType'', Required, UpdateEnumType_shape),
      (''localAuthorizationList'', Optional, SArray AuthorizationData_shape),
      (''customData'', Optional, CustomDataType_shape)] False)"

definition V201SendLocalListResponse_payload :: "string \<times> shape" where
  "V201SendLocalListResponse_payload = (''SendLocalListResponse'', SObject
     [(''status'', Required, SendLocalListStatusEnumType_shape),
      (''statusInfo'', Optional, StatusInfoType_shape),
      (''customData'', Optional, CustomDataType_shape)] False)"

definition V201SetChargingProfileRequest_payload :: "string \<times> shape" where
  "V201SetChargingProfileRequest_payload = (''SetChargingProfile'', SObject
     [(''evseId'', Required, SInt32),
      (''chargingProfile'', Required, ChargingProfileType_shape),
      (''customData'', Optional, CustomDataType_shape)] False)"

definition V201SetChargingProfileResponse_payload :: "string \<times> shape" where
  "V201SetChargingProfileResponse_payload = (''SetChargingProfileResponse'', SObject
     [(''status'', Required, ChargingProfileStatusEnumType_shape),
      (''statusInfo'', Optional, StatusInfoType_shape),
      (''customData'', Optional, CustomDataType_shape)] False)"

definition V201SetDisplayMessageRequest_payload :: "string \<times> shape" where
  "V201SetDisplayMessageRequest_payload = (''SetDisplayMessage'', SObject
     [(''message'', Required, MessageInfoType_shape),
      (''customData'', Optional, CustomDataType_shape)] False)"

definition V201SetDisplayMessageResponse_payload :: "string \<times> shape" where
  "V201SetDisplayMessageResponse_payload = (''SetDisplayMessageResponse'', SObject
     [(''status'', Required, DisplayMessageStatusEnumType_shape),
      (''statusInfo'', Optional, StatusInfoType_shape),
      (''customData'', Optional, CustomDataType_shape)] False)"

definition V201SetMonitoringBaseRequest_payload :: "string \<times> shape" where
  "V201SetMonitoringBaseRequest_payload = (''SetMonitoringBase'', SObject
     [(''monitoringBase'', Required, MonitorBaseEnumType_shape),
      (''customData'', Optional, CustomDataType_shape)] False)"

definition V201SetMonitoringBaseResponse_payload :: "string \<times> shape" where
  "V201SetMonitoringBaseResponse_payload = (''SetMonitoringBaseResponse'', SObject
     [(''status'', Required, GenericDeviceModelStatusEnumType_shape),
      (''statusInfo'', Optional, StatusInfoType_shape),
      (''customData'', Optional, CustomDataType_shape)] False)"

definition V201SetMonitoringLevelRequest_payload :: "string \<times> shape" where
  "V201SetMonitoringLevelRequest_payload = (''SetMonitoringLevel'', SObject
     [(''severity'', Required, SInt32),
      (''customData'', Optional, CustomDataType_shape)] False)"

definition V201SetMonitoringLevelResponse_payload :: "string \<times> shape" where
  "V201SetMonitoringLevelResponse_payload = (''SetMonitoringLevelResponse'', SObject
     [(''status'', Required, GenericStatusEnumType_shape),
      (''statusInfo'', Optional, StatusInfoType_shape),
      (''customData'', Optional, CustomDataType_shape)] False)"

definition V201SetNetworkProfileRequest_payload :: "string \<times> shape" where
  "V201SetNetworkProfileRequest_payload = (''SetNetworkProfile'', SObject
     [(''configurationSlot'', Required, SInt32),
      (''connectionData'', Required, NetworkConnectionProfileType_shape),
      (''customData'', Optional, CustomDataType_shape)] False)"

definition V201SetNetworkProfileResponse_payload :: "string \<times> shape" where
  "V201SetNetworkProfileResponse_payload = (''SetNetworkProfileResponse'', SObject
     [(''status'', Required, SetNetworkProfileStatusEnumType_shape),
      (''statusInfo'', Optional, StatusInfoType_shape),
      (''customData'', Optional, CustomDataType_shape)] False)"

definition V201SetVariableMonitoringRequest_payload :: "string \<times> shape" where
  "V201SetVariableMonitoringRequest_payload = (''SetVariableMonitoring'', SObject
     [(''setMonitoringData'', Required, SArray SetMonitoringDataType_shape),
      (''customData'', Optional, CustomDataType_shape)] False)"

definition V201SetVariableMonitoringResponse_payload :: "string \<times> shape" where
  "V201SetVariableMonitoringResponse_payload = (''SetVariableMonitoringResponse'', SObject
     [(''setMonitoringResult'', Required, SArray SetMonitoringResultType_shape),
      (''customData'', Optional, CustomDataType_shape)] False)"

definition V201SetVariablesRequest_payload :: "string \<times> shape" where
  "V201SetVariablesRequest_payload = (''SetVariables'', SObject
     [(''setVariableData'', Required, SArray SetVariableDataType_shape),
      (''customData'', Optional, CustomDataType_shape)] False)"

definition V201SetVariablesResponse_payload :: "string \<times> shape" where
  "V201SetVariablesResponse_payload = (''SetVariablesResponse'', SObject
     [(''setVariableResult'', Required, SArray SetVariableResultType_shape),
      (''customData'', Optional, CustomDataType_shape)] False)"

definition V201SignCertificateRequest_payload :: "string \<times> shape" where
  "V201SignCertificateRequest_payload = (''SignCertificate'', SObject
     [(''csr'', Required, SString),
      (''certificateType'', Optional, CertificateSigningUseEnumType_shape),
      (''customData'', Optional, CustomDataType_shape)] False)"

definition V201SignCertificateResponse_payload :: "string \<times> shape" where
  "V201SignCertificateResponse_payload = (''SignCertificateResponse'', SObject
     [(''status'', Required, GenericStatusEnumType_shape),
      (''statusInfo'', Optional, StatusInfoType_shape),
      (''customData'', Optional, CustomDataType_shape)] False)"

definition V201StatusNotificationRequest_payload :: "string \<times> shape" where
  "V201StatusNotificationRequest_payload = (''StatusNotification'', SObject
     [(''timestamp'', Required, SString),
      (''connectorStatus'', Required, ConnectorStatusEnumType_shape),
      (''evseId'', Required, SInt32),
      (''connectorId'', Required, SInt32),
      (''customData'', Optional, CustomDataType_shape)] False)"

definition V201StatusNotificationResponse_payload :: "string \<times> shape" where
  "V201StatusNotificationResponse_payload = (''StatusNotificationResponse'', SObject
     [(''customData'', Optional, CustomDataType_shape)] False)"

definition V201TransactionEventRequest_payload :: "string \<times> shape" where
  "V201TransactionEventRequest_payload = (''TransactionEvent'', SObject
     [(''eventType'', Required, TransactionEventEnumType_shape),
      (''timestamp'', Required, SString),
      (''triggerReason'', Required, TriggerReasonEnumType_shape),
      (''seqNo'', Required, SInt32),
      (''transactionInfo'', Required, TransactionType_shape),
      (''offline'', Optional, SBoolean),
      (''numberOfPhasesUsed'', Optional, SInt32),
      (''cableMaxCurrent'', Optional, SInt32),
      (''reservationId'', Optional, SInt32),
      (''evse'', Optional, EvseType_shape),
      (''meterValue'', Optional, SArray MeterValueType_shape),
      (''idToken'', Optional, IdTokenType_shape),
      (''customData'', Optional, CustomDataType_shape)] False)"

definition V201TransactionEventResponse_payload :: "string \<times> shape" where
  "V201TransactionEventResponse_payload = (''TransactionEventResponse'', SObject
     [(''totalCost'', Optional, SNumber),
      (''chargingPriority'', Optional, SInt32),
      (''idTokenInfo'', Optional, IdTokenInfoType_shape),
      (''updatedPersonalMessage'', Optional, MessageContentType_shape),
      (''customData'', Optional, CustomDataType_shape)] False)"

definition V201TriggerMessageRequest_payload :: "string \<times> shape" where
  "V201TriggerMessageRequest_payload = (''TriggerMessage'', SObject
     [(''requestedMessage'', Required, MessageTriggerEnumType_shape),
      (''evse'', Optional, EvseType_shape),
      (''customData'', Optional, CustomDataType_shape)] False)"

definition V201TriggerMessageResponse_payload :: "string \<times> shape" where
  "V201TriggerMessageResponse_payload = (''TriggerMessageResponse'', SObject
     [(''status'', Required, TriggerMessageStatusEnumType_shape),
      (''statusInfo'', Optional, StatusInfoType_shape),
      (''customData'', Optional, CustomDataType_shape)] False)"

definition V201UnlockConnectorRequest_payload :: "string \<times> shape" where
  "V201UnlockConnectorRequest_payload = (''UnlockConnector'', SObject
     [(''evseId'', Required, SInt32),
      (''connectorId'', Required, SInt32),
      (''customData'', Optional, CustomDataType_shape)] False)"

definition V201UnlockConnectorResponse_payload :: "string \<times> shape" where
  "V201UnlockConnectorResponse_payload = (''UnlockConnectorResponse'', SObject
     [(''status'', Required, UnlockStatusEnumType_shape),
      (''statusInfo'', Optional, StatusInfoType_shape),
      (''customData'', Optional, CustomDataType_shape)] False)"

definition V201UnpublishFirmwareRequest_payload :: "string \<times> shape" where
  "V201UnpublishFirmwareRequest_payload = (''UnpublishFirmware'', SObject
     [(''checksum'', Required, SString),
      (''customData'', Optional, CustomDataType_shape)] False)"

definition V201UnpublishFirmwareResponse_payload :: "string \<times> shape" where
  "V201UnpublishFirmwareResponse_payload = (''UnpublishFirmwareResponse'', SObject
     [(''status'', Required, UnpublishFirmwareStatusEnumType_shape),
      (''customData'', Optional, CustomDataType_shape)] False)"

definition V201UpdateFirmwareRequest_payload :: "string \<times> shape" where
  "V201UpdateFirmwareRequest_payload = (''UpdateFirmware'', SObject
     [(''retries'', Optional, SInt32),
      (''retryInterval'', Optional, SInt32),
      (''requestId'', Required, SInt32),
      (''firmware'', Required, FirmwareType_shape),
      (''customData'', Optional, CustomDataType_shape)] False)"

definition V201UpdateFirmwareResponse_payload :: "string \<times> shape" where
  "V201UpdateFirmwareResponse_payload = (''UpdateFirmwareResponse'', SObject
     [(''status'', Required, UpdateFirmwareStatusEnumType_shape),
      (''statusInfo'', Optional, StatusInfoType_shape),
      (''customData'', Optional, CustomDataType_shape)] False)"

section \<open>Schemas\<close>

definition schema_CustomDataType :: schema where
  "schema_CustomDataType = CObject
     [(''vendorId'', True, CString (Some 255) None)] True"

definition schema_AdditionalInfoType :: schema where
  "schema_AdditionalInfoType = CObject
     [(''customData'', False, schema_CustomDataType),
      (''additionalIdToken'', True, CString (Some 36) None),
      (''type'', True, CString (Some 50) None)] False"

definition schema_IdTokenEnumType :: schema where
  "schema_IdTokenEnumType = CEnum [''Central'', ''eMAID'', ''ISO14443'', ''ISO15693'', ''KeyCode'',
        ''Local'', ''MacAddress'', ''NoAuthorization'']"

definition schema_IdTokenType :: schema where
  "schema_IdTokenType = CObject
     [(''customData'', False, schema_CustomDataType),
      (''additionalInfo'', False, CArray schema_AdditionalInfoType 1 None),
      (''idToken'', True, CString (Some 36) None),
      (''type'', True, schema_IdTokenEnumType)] False"

definition schema_HashAlgorithmEnumType :: schema where
  "schema_HashAlgorithmEnumType = CEnum [''SHA256'', ''SHA384'', ''SHA512'']"

definition schema_OCSPRequestDataType :: schema where
  "schema_OCSPRequestDataType = CObject
     [(''customData'', False, schema_CustomDataType),
      (''hashAlgorithm'', True, schema_HashAlgorithmEnumType),
      (''issuerNameHash'', True, CString (Some 128) None),
      (''issuerKeyHash'', True, CString (Some 128) None),
      (''serialNumber'', True, CString (Some 40) None),
      (''responderURL'', True, CString (Some 512) None)] False"

definition schema_AuthorizationStatusEnumType :: schema where
  "schema_AuthorizationStatusEnumType = CEnum [''Accepted'', ''Blocked'', ''ConcurrentTx'', ''Expired'',
        ''Invalid'', ''NoCredit'', ''NotAllowedTypeEVSE'', ''NotAtThisLocation'', ''NotAtThisTime'',
        ''Unknown'']"

definition schema_MessageFormatEnumType :: schema where
  "schema_MessageFormatEnumType = CEnum [''ASCII'', ''HTML'', ''URI'', ''UTF8'']"

definition schema_MessageContentType :: schema where
  "schema_MessageContentType = CObject
     [(''customData'', False, schema_CustomDataType),
      (''format'', True, schema_MessageFormatEnumType),
      (''language'', False, CString (Some 8) None),
      (''content'', True, CString (Some 512) None)] False"

definition schema_IdTokenInfoType :: schema where
  "schema_IdTokenInfoType = CObject
     [(''customData'', False, schema_CustomDataType),
      (''status'', True, schema_AuthorizationStatusEnumType),
      (''cacheExpiryDateTime'', False, CString None (Some ''date-time'')),
      (''chargingPriority'', False, CInteger True None None),
      (''language1'', False, CString (Some 8) None),
      (''evseId'', False, CArray (CInteger True None None) 1 None),
      (''groupIdToken'', False, schema_IdTokenType),
      (''language2'', False, CString (Some 8) None),
      (''personalMessage'', False, schema_MessageContentType)] False"

definition schema_AuthorizeCertificateStatusEnumType :: schema where
  "schema_AuthorizeCertificateStatusEnumType = CEnum [''Accepted'', ''SignatureError'',
        ''CertificateExpired'', ''CertificateRevoked'', ''NoCertificateAvailable'', ''CertChainError'',
        ''ContractCancelled'']"

definition schema_ModemType :: schema where
  "schema_ModemType = CObject
     [(''customData'', False, schema_CustomDataType),
      (''iccid'', False, CString (Some 20) None),
      (''imsi'', False, CString (Some 20) None)] False"

definition schema_ChargingStationType :: schema where
  "schema_ChargingStationType = CObject
     [(''customData'', False, schema_CustomDataType),
      (''serialNumber'', False, CString (Some 25) None),
      (''model'', True, CString (Some 20) None),
      (''modem'', False, schema_ModemType),
      (''vendorName'', True, CString (Some 50) None),
      (''firmwareVersion'', False, CString (Some 50) None)] False"

definition schema_BootReasonEnumType :: schema where
  "schema_BootReasonEnumType = CEnum [''ApplicationReset'', ''FirmwareUpdate'', ''LocalReset'',
        ''PowerUp'', ''RemoteReset'', ''ScheduledReset'', ''Triggered'', ''Unknown'', ''Watchdog'']"

definition schema_RegistrationStatusEnumType :: schema where
  "schema_RegistrationStatusEnumType = CEnum [''Accepted'', ''Pending'', ''Rejected'']"

definition schema_StatusInfoType :: schema where
  "schema_StatusInfoType = CObject
     [(''customData'', False, schema_CustomDataType),
      (''reasonCode'', True, CString (Some 20) None),
      (''additionalInfo'', False, CString (Some 512) None)] False"

definition schema_CancelReservationStatusEnumType :: schema where
  "schema_CancelReservationStatusEnumType = CEnum [''Accepted'', ''Rejected'']"

definition schema_CertificateSigningUseEnumType :: schema where
  "schema_CertificateSigningUseEnumType = CEnum [''ChargingStationCertificate'', ''V2GCertificate'']"

definition schema_CertificateSignedStatusEnumType :: schema where
  "schema_CertificateSignedStatusEnumType = CEnum [''Accepted'', ''Rejected'']"

definition schema_EVSEType :: schema where
  "schema_EVSEType = CObject
     [(''customData'', False, schema_CustomDataType),
      (''id'', True, CInteger True None None),
      (''connectorId'', False, CInteger True None None)] False"

definition schema_OperationalStatusEnumType :: schema where
  "schema_OperationalStatusEnumType = CEnum [''Inoperative'', ''Operative'']"

definition schema_ChangeAvailabilityStatusEnumType :: schema where
  "schema_ChangeAvailabilityStatusEnumType = CEnum [''Accepted'', ''Rejected'', ''Scheduled'']"

definition schema_ClearCacheStatusEnumType :: schema where
  "schema_ClearCacheStatusEnumType = CEnum [''Accepted'', ''Rejected'']"

definition schema_ChargingProfilePurposeEnumType :: schema where
  "schema_ChargingProfilePurposeEnumType = CEnum [''ChargingStationExternalConstraints'',
        ''ChargingStationMaxProfile'', ''TxDefaultProfile'', ''TxProfile'']"

definition schema_ClearChargingProfileType :: schema where
  "schema_ClearChargingProfileType = CObject
     [(''customData'', False, schema_CustomDataType),
      (''evseId'', False, CInteger True None None),
      (''chargingProfilePurpose'', False, schema_ChargingProfilePurposeEnumType),
      (''stackLevel'', False, CInteger True None None)] False"

definition schema_ClearChargingProfileStatusEnumType :: schema where
  "schema_ClearChargingProfileStatusEnumType = CEnum [''Accepted'', ''Unknown'']"

definition schema_ClearMessageStatusEnumType :: schema where
  "schema_ClearMessageStatusEnumType = CEnum [''Accepted'', ''Unknown'']"

definition schema_ClearMonitoringStatusEnumType :: schema where
  "schema_ClearMonitoringStatusEnumType = CEnum [''Accepted'', ''Rejected'', ''NotFound'']"

definition schema_ClearMonitoringResultType :: schema where
  "schema_ClearMonitoringResultType = CObject
     [(''customData'', False, schema_CustomDataType),
      (''status'', True, schema_ClearMonitoringStatusEnumType),
      (''id'', True, CInteger True None None),
      (''statusInfo'', False, schema_StatusInfoType)] False"

definition schema_ChargingLimitSourceEnumType :: schema where
  "schema_ChargingLimitSourceEnumType = CEnum [''EMS'', ''Other'', ''SO'', ''CSO'']"

definition schema_CertificateHashDataType :: schema where
  "schema_CertificateHashDataType = CObject
     [(''customData'', False, schema_CustomDataType),
      (''hashAlgorithm'', True, schema_HashAlgorithmEnumType),
      (''issuerNameHash'', True, CString (Some 128) None),
      (''issuerKeyHash'', True, CString (Some 128) None),
      (''serialNumber'', True, CString (Some 40) None)] False"

definition schema_CustomerInformationStatusEnumType :: schema where
  "schema_CustomerInformationStatusEnumType = CEnum [''Accepted'', ''Rejected'', ''Invalid'']"

definition schema_DataTransferStatusEnumType :: schema where
  "schema_DataTransferStatusEnumType = CEnum [''Accepted'', ''Rejected'', ''UnknownMessageId'',
        ''UnknownVendorId'']"

definition schema_DeleteCertificateStatusEnumType :: schema where
  "schema_DeleteCertificateStatusEnumType = CEnum [''Accepted'', ''Failed'', ''NotFound'']"

definition schema_FirmwareStatusEnumType :: schema where
  "schema_FirmwareStatusEnumType = CEnum [''Downloaded'', ''DownloadFailed'', ''Downloading'',
        ''DownloadScheduled'', ''DownloadPaused'', ''Idle'', ''InstallationFailed'', ''Installing'',
        ''Installed'', ''InstallRebooting'', ''InstallScheduled'', ''InstallVerificationFailed'',
        ''InvalidSignature'', ''SignatureVerified'']"

definition schema_CertificateActionEnumType :: schema where
  "schema_CertificateActionEnumType = CEnum [''Install'', ''Update'']"

definition schema_Iso15118EVCertificateStatusEnumType :: schema where
  "schema_Iso15118EVCertificateStatusEnumType = CEnum [''Accepted'', ''Failed'']"

definition schema_ReportBaseEnumType :: schema where
  "schema_ReportBaseEnumType = CEnum [''ConfigurationInventory'', ''FullInventory'', ''SummaryInventory'']"

definition schema_GenericDeviceModelStatusEnumType :: schema where
  "schema_GenericDeviceModelStatusEnumType = CEnum [''Accepted'', ''Rejected'', ''NotSupported'',
        ''EmptyResultSet'']"

definition schema_GetCertificateStatusEnumType :: schema where
  "schema_GetCertificateStatusEnumType = CEnum [''Accepted'', ''Failed'']"

definition schema_ChargingProfileCriterionType :: schema where
  "schema_ChargingProfileCriterionType = CObject
     [(''customData'', False, schema_CustomDataType),
      (''chargingProfilePurpose'', False, schema_ChargingProfilePurposeEnumType),
      (''stackLevel'', False, CInteger True None None),
      (''chargingProfileId'', False, CArray (CInteger True None None) 1 None),
      (''chargingLimitSource'', False, CArray schema_ChargingLimitSourceEnumType 1 (Some 4))] False"

definition schema_GetChargingProfileStatusEnumType :: schema where
  "schema_GetChargingProfileStatusEnumType = CEnum [''Accepted'', ''NoProfiles'']"

definition schema_ChargingRateUnitEnumType :: schema where
  "schema_ChargingRateUnitEnumType = CEnum [''W'', ''A'']"

definition schema_GenericStatusEnumType :: schema where
  "schema_GenericStatusEnumType = CEnum [''Accepted'', ''Rejected'']"

definition schema_ChargingSchedulePeriodType :: schema where
  "schema_ChargingSchedulePeriodType = CObject
     [(''customData'', False, schema_CustomDataType),
      (''startPeriod'', True, CInteger True None None),
      (''limit'', True, CNumber None),
      (''numberPhases'', False, CInteger True None None),
      (''phaseToUse'', False, CInteger True None None)] False"

definition schema_CompositeScheduleType :: schema where
  "schema_CompositeScheduleType = CObject
     [(''customData'', False, schema_CustomDataType),
      (''chargingSchedulePeriod'', True, CArray schema_ChargingSchedulePeriodType 1 None),
      (''evseId'', True, CInteger True None None),
      (''duration'', True, CInteger True None None),
      (''scheduleStart'', True, CString None (Some ''date-time'')),
      (''chargingRateUnit'', True, schema_ChargingRateUnitEnumType)] False"

definition schema_MessagePriorityEnumType :: schema where
  "schema_MessagePriorityEnumType = CEnum [''AlwaysFront'', ''InFront'', ''NormalCycle'']"

definition schema_MessageStateEnumType :: schema where
  "schema_MessageStateEnumType = CEnum [''Charging'', ''Faulted'', ''Idle'', ''Unavailable'']"

definition schema_GetDisplayMessagesStatusEnumType :: schema where
  "schema_GetDisplayMessagesStatusEnumType = CEnum [''Accepted'', ''Unknown'']"

definition schema_GetCertificateIdUseEnumType :: schema where
  "schema_GetCertificateIdUseEnumType = CEnum [''V2GRootCertificate'', ''MORootCertificate'',
        ''CSMSRootCertificate'', ''V2GCertificateChain'', ''ManufacturerRootCertificate'']"

definition schema_GetInstalledCertificateStatusEnumType :: schema where
  "schema_GetInstalledCertificateStatusEnumType = CEnum [''Accepted'', ''NotFound'']"

definition schema_CertificateHashDataChainType :: schema where
  "schema_CertificateHashDataChainType = CObject
     [(''customData'', False, schema_CustomDataType),
      (''certificateHashData'', True, schema_CertificateHashDataType),
      (''certificateType'', True, schema_GetCertificateIdUseEnumType),
      (''childCertificateHashData'', False, CArray schema_CertificateHashDataType 1 (Some 4))] False"

definition schema_LogParametersType :: schema where
  "schema_LogParametersType = CObject
     [(''customData'', False, schema_CustomDataType),
      (''remoteLocation'', True, CString (Some 512) None),
      (''oldestTimestamp'', False, CString None (Some ''date-time'')),
      (''latestTimestamp'', False, CString None (Some ''date-time''))] False"

definition schema_LogEnumType :: schema where
  "schema_LogEnumType = CEnum [''DiagnosticsLog'', ''SecurityLog'']"

definition schema_LogStatusEnumType :: schema where
  "schema_LogStatusEnumType = CEnum [''Accepted'', ''Rejected'', ''AcceptedCanceled'']"

definition schema_ComponentType :: schema where
  "schema_ComponentType = CObject
     [(''customData'', False, schema_CustomDataType),
      (''evse'', False, schema_EVSEType),
      (''name'', True, CString (Some 50) None),
      (''instance'', False, CString (Some 50) None)] False"

definition schema_VariableType :: schema where
  "schema_VariableType = CObject
     [(''customData'', False, schema_CustomDataType),
      (''name'', True, CString (Some 50) None),
      (''instance'', False, CString (Some 50) None)] False"

definition schema_ComponentVariableType :: schema where
  "schema_ComponentVariableType = CObject
     [(''customData'', False, schema_CustomDataType),
      (''component'', True, schema_ComponentType),
      (''variable'', False, schema_VariableType)] False"

definition schema_MonitoringCriterionEnumType :: schema where
  "schema_MonitoringCriterionEnumType = CEnum [''ThresholdMonitoring'', ''DeltaMonitoring'',
        ''PeriodicMonitoring'']"

definition schema_ComponentCriterionEnumType :: schema where
  "schema_ComponentCriterionEnumType = CEnum [''Active'', ''Available'', ''Enabled'', ''Problem'']"

definition schema_AttributeEnumType :: schema where
  "schema_AttributeEnumType = CEnum [''Actual'', ''Target'', ''MinSet'', ''MaxSet'']"

definition schema_GetVariableDataType :: schema where
  "schema_GetVariableDataType = CObject
     [(''customData'', False, schema_CustomDataType),
      (''attributeType'', False, schema_AttributeEnumType),
      (''component'', True, schema_ComponentType),
      (''variable'', True, schema_VariableType)] False"

definition schema_GetVariableStatusEnumType :: schema where
  "schema_GetVariableStatusEnumType = CEnum [''Accepted'', ''Rejected'', ''UnknownComponent'',
        ''UnknownVariable'', ''NotSupportedAttributeType'']"

definition schema_GetVariableResultType :: schema where
  "schema_GetVariableResultType = CObject
     [(''customData'', False, schema_CustomDataType),
      (''attributeStatusInfo'', False, schema_StatusInfoType),
      (''attributeStatus'', True, schema_GetVariableStatusEnumType),
      (''attributeType'', False, schema_AttributeEnumType),
      (''attributeValue'', False, CString (Some 2500) None),
      (''component'', True, schema_ComponentType),
      (''variable'', True, schema_VariableType)] False"

definition schema_InstallCertificateUseEnumType :: schema where
  "schema_InstallCertificateUseEnumType = CEnum [''V2GRootCertificate'', ''MORootCertificate'',
        ''CSMSRootCertificate'', ''ManufacturerRootCertificate'']"

definition schema_InstallCertificateStatusEnumType :: schema where
  "schema_InstallCertificateStatusEnumType = CEnum [''Accepted'', ''Rejected'', ''Failed'']"

definition schema_UploadLogStatusEnumType :: schema where
  "schema_UploadLogStatusEnumType = CEnum [''BadMessage'', ''Idle'', ''NotSupportedOperation'',
        ''PermissionDenied'', ''Uploaded'', ''UploadFailure'', ''Uploading'', ''AcceptedCanceled'']"

definition schema_ReadingContextEnumType :: schema where
  "schema_ReadingContextEnumType = CEnum [''Interruption.Begin'', ''Interruption.End'', ''Other'',
        ''Sample.Clock'', ''Sample.Periodic'', ''Transaction.Begin'', ''Transaction.End'', ''Trigger'']"

definition schema_MeasurandEnumType :: schema where
  "schema_MeasurandEnumType = CEnum [''Current.Export'', ''Current.Import'', ''Current.Offered'',
        ''Energy.Active.Export.Register'', ''Energy.Active.Import.Register'',
        ''Energy.Reactive.Export.Register'', ''Energy.Reactive.Import.Register'',
        ''Energy.Active.Export.Interval'', ''Energy.Active.Import.Interval'', ''Energy.Active.Net'',
        ''Energy.Reactive.Export.Interval'', ''Energy.Reactive.Import.Interval'', ''Energy.Reactive.Net'',
        ''Energy.Apparent.Net'', ''Energy.Apparent.Import'', ''Energy.Apparent.Export'', ''Frequency'',
        ''Power.Active.Export'', ''Power.Active.Import'', ''Power.Factor'', ''Power.Offered'',
        ''Power.Reactive.Export'', ''Power.Reactive.Import'', ''SoC'', ''Voltage'']"

definition schema_PhaseEnumType :: schema where
  "schema_PhaseEnumType = CEnum [''L1'', ''L2'', ''L3'', ''N'', ''L1-N'', ''L2-N'', ''L3-N'', ''L1-L2'',
        ''L2-L3'', ''L3-L1'']"

definition schema_LocationEnumType :: schema where
  "schema_LocationEnumType = CEnum [''Body'', ''Cable'', ''EV'', ''Inlet'', ''Outlet'']"

definition schema_SignedMeterValueType :: schema where
  "schema_SignedMeterValueType = CObject
     [(''customData'', False, schema_CustomDataType),
      (''signedMeterData'', True, CString (Some 2500) None),
      (''signingMethod'', True, CString (Some 50) None),
      (''encodingMethod'', True, CString (Some 50) None),
      (''publicKey'', True, CString (Some 2500) None)] False"

definition schema_UnitOfMeasureType :: schema where
  "schema_UnitOfMeasureType = CObject
     [(''customData'', False, schema_CustomDataType),
      (''unit'', False, CString (Some 20) None),
      (''multiplier'', False, CInteger True None None)] False"

definition schema_SampledValueType :: schema where
  "schema_SampledValueType = CObject
     [(''customData'', False, schema_CustomDataType),
      (''value'', True, CNumber None),
      (''context'', False, schema_ReadingContextEnumType),
      (''measurand'', False, schema_MeasurandEnumType),
      (''phase'', False, schema_PhaseEnumType),
      (''location'', False, schema_LocationEnumType),
      (''signedMeterValue'', False, schema_SignedMeterValueType),
      (''unitOfMeasure'', False, schema_UnitOfMeasureType)] False"

definition schema_MeterValueType :: schema where
  "schema_MeterValueType = CObject
     [(''customData'', False, schema_CustomDataType),
      (''sampledValue'', True, CArray schema_SampledValueType 1 None),
      (''timestamp'', True, CString None (Some ''date-time''))] False"

definition schema_RelativeTimeIntervalType :: schema where
  "schema_RelativeTimeIntervalType = CObject
     [(''customData'', False, schema_CustomDataType),
      (''start'', True, CInteger True None None),
      (''duration'', False, CInteger True None None)] False"

definition schema_CostKindEnumType :: schema where
  "schema_CostKindEnumType = CEnum [''CarbonDioxideEmission'', ''RelativePricePercentage'',
        ''RenewableGenerationPercentage'']"

definition schema_CostType :: schema where
  "schema_CostType = CObject
     [(''customData'', False, schema_CustomDataType),
      (''costKind'', True, schema_CostKindEnumType),
      (''amount'', True, CInteger True None None),
      (''amountMultiplier'', False, CInteger True None None)] False"

definition schema_ConsumptionCostType :: schema where
  "schema_ConsumptionCostType = CObject
     [(''customData'', False, schema_CustomDataType),
      (''startValue'', True, CNumber None),
      (''cost'', True, CArray schema_CostType 1 (Some 3))] False"

definition schema_SalesTariffEntryType :: schema where
  "schema_SalesTariffEntryType = CObject
     [(''customData'', False, schema_CustomDataType),
      (''relativeTimeInterval'', True, schema_RelativeTimeIntervalType),
      (''ePriceLevel'', False, CInteger True (Some 0) None),
      (''consumptionCost'', False, CArray schema_ConsumptionCostType 1 (Some 3))] False"

definition schema_SalesTariffType :: schema where
  "schema_SalesTariffType = CObject
     [(''customData'', False, schema_CustomDataType),
      (''id'', True, CInteger True None None),
      (''salesTariffDescription'', False, CString (Some 32) None),
      (''numEPriceLevels'', False, CInteger True None None),
      (''salesTariffEntry'', True, CArray schema_SalesTariffEntryType 1 (Some 1024))] False"

definition schema_ChargingScheduleType :: schema where
  "schema_ChargingScheduleType = CObject
     [(''customData'', False, schema_CustomDataType),
      (''id'', True, CInteger True None None),
      (''startSchedule'', False, CString None (Some ''date-time'')),
      (''duration'', False, CInteger True None None),
      (''chargingRateUnit'', True, schema_ChargingRateUnitEnumType),
      (''chargingSchedulePeriod'', True, CArray schema_ChargingSchedulePeriodType 1 (Some 1024)),
      (''minChargingRate'', False, CNumber None),
      (''salesTariff'', False, schema_SalesTariffType)] False"

definition schema_ChargingLimitType :: schema where
  "schema_ChargingLimitType = CObject
     [(''customData'', False, schema_CustomDataType),
      (''chargingLimitSource'', True, schema_ChargingLimitSourceEnumType),
      (''isGridCritical'', False, CBoolean)] False"

definition schema_MessageInfoType :: schema where
  "schema_MessageInfoType = CObject
     [(''customData'', False, schema_CustomDataType),
      (''display'', False, schema_ComponentType),
      (''id'', True, CInteger True None None),
      (''priority'', True, schema_MessagePriorityEnumType),
      (''state'', False, schema_MessageStateEnumType),
      (''startDateTime'', False, CString None (Some ''date-time'')),
      (''endDateTime'', False, CString None (Some ''date-time'')),
      (''transactionId'', False, CString (Some 36) None),
      (''message'', True, schema_MessageContentType)] False"

definition schema_ACChargingParametersType :: schema where
  "schema_ACChargingParametersType = CObject
     [(''customData'', False, schema_CustomDataType),
      (''energyAmount'', True, CInteger True None None),
      (''evMinCurrent'', True, CInteger True None None),
      (''evMaxCurrent'', True, CInteger True None None),
      (''evMaxVoltage'', True, CInteger True None None)] False"

definition schema_DCChargingParametersType :: schema where
  "schema_DCChargingParametersType = CObject
     [(''customData'', False, schema_CustomDataType),
      (''evMaxCurrent'', True, CInteger True None None),
      (''evMaxVoltage'', True, CInteger True None None),
      (''energyAmount'', False, CInteger True None None),
      (''evMaxPower'', False, CInteger True None None),
      (''stateOfCharge'', False, CInteger True (Some 0) (Some 100)),
      (''evEnergyCapacity'', False, CInteger True None None),
      (''fullSoC'', False, CInteger True (Some 0) (Some 100)),
      (''bulkSoC'', False, CInteger True (Some 0) (Some 100))] False"

definition schema_EnergyTransferModeEnumType :: schema where
  "schema_EnergyTransferModeEnumType = CEnum [''DC'', ''AC_single_phase'', ''AC_two_phase'',
        ''AC_three_phase'']"

definition schema_ChargingNeedsType :: schema where
  "schema_ChargingNeedsType = CObject
     [(''customData'', False, schema_CustomDataType),
      (''acChargingParameters'', False, schema_ACChargingParametersType),
      (''dcChargingParameters'', False, schema_DCChargingParametersType),
      (''requestedEnergyTransfer'', True, schema_EnergyTransferModeEnumType),
      (''departureTime'', False, CString None (Some ''date-time''))] False"

definition schema_NotifyEVChargingNeedsStatusEnumType :: schema where
  "schema_NotifyEVChargingNeedsStatusEnumType = CEnum [''Accepted'', ''Rejected'', ''Processing'']"

definition schema_EventTriggerEnumType :: schema where
  "schema_EventTriggerEnumType = CEnum [''Alerting'', ''Delta'', ''Periodic'']"

definition schema_EventNotificationEnumType :: schema where
  "schema_EventNotificationEnumType = CEnum [''HardWiredNotification'', ''HardWiredMonitor'',
        ''PreconfiguredMonitor'', ''CustomMonitor'']"

definition schema_EventDataType :: schema where
  "schema_EventDataType = CObject
     [(''customData'', False, schema_CustomDataType),
      (''eventId'', True, CInteger True None None),
      (''timestamp'', True, CString None (Some ''date-time'')),
      (''trigger'', True, schema_EventTriggerEnumType),
      (''cause'', False, CInteger True None None),
      (''actualValue'', True, CString (Some 2500) None),
      (''techCode'', False, CString (Some 50) None),
      (''techInfo'', False, CString (Some 500) None),
      (''cleared'', False, CBoolean),
      (''transactionId'', False, CString (Some 36) None),
      (''component'', True, schema_ComponentType),
      (''variableMonitoringId'', False, CInteger True None None),
      (''eventNotificationType'', True, schema_EventNotificationEnumType),
      (''variable'', True, schema_VariableType)] False"

definition schema_MonitorEnumType :: schema where
  "schema_MonitorEnumType = CEnum [''UpperThreshold'', ''LowerThreshold'', ''Delta'', ''Periodic'',
        ''PeriodicClockAligned'']"

definition schema_VariableMonitoringType :: schema where
  "schema_VariableMonitoringType = CObject
     [(''customData'', False, schema_CustomDataType),
      (''id'', True, CInteger True None None),
      (''transaction'', True, CBoolean),
      (''value'', True, CNumber None),
      (''type'', True, schema_MonitorEnumType),
      (''severity'', True, CInteger True None None)] False"

definition schema_MonitoringDataType :: schema where
  "schema_MonitoringDataType = CObject
     [(''customData'', False, schema_CustomDataType),
      (''component'', True, schema_ComponentType),
      (''variable'', True, schema_VariableType),
      (''variableMonitoring'', True, CArray schema_VariableMonitoringType 1 None)] False"

definition schema_MutabilityEnumType :: schema where
  "schema_MutabilityEnumType = CEnum [''ReadOnly'', ''WriteOnly'', ''ReadWrite'']"

definition schema_VariableAttributeType :: schema where
  "schema_VariableAttributeType = CObject
     [(''customData'', False, schema_CustomDataType),
      (''type'', False, schema_AttributeEnumType),
      (''value'', False, CString (Some 2500) None),
      (''mutability'', False, schema_MutabilityEnumType),
      (''persistent'', False, CBoolean),
      (''constant'', False, CBoolean)] False"

definition schema_DataEnumType :: schema where
  "schema_DataEnumType = CEnum [''string'', ''decimal'', ''integer'', ''dateTime'', ''boolean'',
        ''OptionList'', ''SequenceList'', ''MemberList'']"

definition schema_VariableCharacteristicsType :: schema where
  "schema_VariableCharacteristicsType = CObject
     [(''customData'', False, schema_CustomDataType),
      (''unit'', False, CString (Some 16) None),
      (''dataType'', True, schema_DataEnumType),
      (''minLimit'', False, CNumber None),
      (''maxLimit'', False, CNumber None),
      (''valuesList'', False, CString (Some 1000) None),
      (''supportsMonitoring'', True, CBoolean)] False"

definition schema_ReportDataType :: schema where
  "schema_ReportDataType = CObject
     [(''customData'', False, schema_CustomDataType),
      (''component'', True, schema_ComponentType),
      (''variable'', True, schema_VariableType),
      (''variableAttribute'', True, CArray schema_VariableAttributeType 1 (Some 4)),
      (''variableCharacteristics'', False, schema_VariableCharacteristicsType)] False"

definition schema_PublishFirmwareStatusEnumType :: schema where
  "schema_PublishFirmwareStatusEnumType = CEnum [''Idle'', ''DownloadScheduled'', ''Downloading'',
        ''Downloaded'', ''Published'', ''DownloadFailed'', ''DownloadPaused'', ''InvalidChecksum'',
        ''ChecksumVerified'', ''PublishFailed'']"

definition schema_ChargingProfileKindEnumType :: schema where
  "schema_ChargingProfileKindEnumType = CEnum [''Absolute'', ''Recurring'', ''Relative'']"

definition schema_RecurrencyKindEnumType :: schema where
  "schema_RecurrencyKindEnumType = CEnum [''Daily'', ''Weekly'']"

definition schema_ChargingProfileType :: schema where
  "schema_ChargingProfileType = CObject
     [(''customData'', False, schema_CustomDataType),
      (''id'', True, CInteger True None None),
      (''stackLevel'', True, CInteger True None None),
      (''chargingProfilePurpose'', True, schema_ChargingProfilePurposeEnumType),
      (''chargingProfileKind'', True, schema_ChargingProfileKindEnumType),
      (''recurrencyKind'', False, schema_RecurrencyKindEnumType),
      (''validFrom'', False, CString None (Some ''date-time'')),
      (''validTo'', False, CString None (Some ''date-time'')),
      (''chargingSchedule'', True, CArray schema_ChargingScheduleType 1 (Some 3)),
      (''transactionId'', False, CString (Some 36) None)] False"

definition schema_RequestStartStopStatusEnumType :: schema where
  "schema_RequestStartStopStatusEnumType = CEnum [''Accepted'', ''Rejected'']"

definition schema_ReservationUpdateStatusEnumType :: schema where
  "schema_ReservationUpdateStatusEnumType = CEnum [''Expired'', ''Removed'']"

definition schema_ConnectorEnumType :: schema where
  "schema_ConnectorEnumType = CEnum [''cCCS1'', ''cCCS2'', ''cG105'', ''cTesla'', ''cType1'', ''cType2'',
        ''s309-1P-16A'', ''s309-1P-32A'', ''s309-3P-16A'', ''s309-3P-32A'', ''sBS1361'', ''sCEE-7-7'',
        ''sType2'', ''sType3'', ''Other1PhMax16A'', ''Other1PhOver16A'', ''Other3Ph'', ''Pan'',
        ''wInductive'', ''wResonant'', ''Undetermined'', ''Unknown'']"

definition schema_ReserveNowStatusEnumType :: schema where
  "schema_ReserveNowStatusEnumType = CEnum [''Accepted'', ''Faulted'', ''Occupied'', ''Rejected'',
        ''Unavailable'']"

definition schema_ResetEnumType :: schema where
  "schema_ResetEnumType = CEnum [''Immediate'', ''OnIdle'']"

definition schema_ResetStatusEnumType :: schema where
  "schema_ResetStatusEnumType = CEnum [''Accepted'', ''Rejected'', ''Scheduled'']"

definition schema_AuthorizationData :: schema where
  "schema_AuthorizationData = CObject
     [(''customData'', False, schema_CustomDataType),
      (''idToken'', True, schema_IdTokenType),
      (''idTokenInfo'', False, schema_IdTokenInfoType)] False"

definition schema_UpdateEnumType :: schema where
  "schema_UpdateEnumType = CEnum [''Differential'', ''Full'']"

definition schema_SendLocalListStatusEnumType :: schema where
  "schema_SendLocalListStatusEnumType = CEnum [''Accepted'', ''Failed'', ''VersionMismatch'']"

definition schema_ChargingProfileStatusEnumType :: schema where
  "schema_ChargingProfileStatusEnumType = CEnum [''Accepted'', ''Rejected'']"

definition schema_DisplayMessageStatusEnumType :: schema where
  "schema_DisplayMessageStatusEnumType = CEnum [''Accepted'', ''NotSupportedMessageFormat'', ''Rejected'',
        ''NotSupportedPriority'', ''NotSupportedState'', ''UnknownTransaction'']"

definition schema_MonitoringBaseEnumType :: schema where
  "schema_MonitoringBaseEnumType = CEnum [''All'', ''FactoryDefault'', ''HardWiredOnly'']"

definition schema_APNAuthenticationEnumType :: schema where
  "schema_APNAuthenticationEnumType = CEnum [''CHAP'', ''NONE'', ''PAP'', ''AUTO'']"

definition schema_APNType :: schema where
  "schema_APNType = CObject
     [(''customData'', False, schema_CustomDataType),
      (''apn'', True, CString (Some 512) None),
      (''apnUserName'', False, CString (Some 20) None),
      (''apnPassword'', False, CString (Some 20) None),
      (''simPin'', False, CInteger True None None),
      (''preferredNetwork'', False, CString (Some 6) None),
      (''useOnlyPreferredNetwork'', False, CBoolean),
      (''apnAuthentication'', True, schema_APNAuthenticationEnumType)] False"

definition schema_OCPPVersionEnumType :: schema where
  "schema_OCPPVersionEnumType = CEnum [''OCPP12'', ''OCPP15'', ''OCPP16'', ''OCPP20'']"

definition schema_OCPPTransportEnumType :: schema where
  "schema_OCPPTransportEnumType = CEnum [''JSON'', ''SOAP'']"

definition schema_OCPPInterfaceEnumType :: schema where
  "schema_OCPPInterfaceEnumType = CEnum [''Wired0'', ''Wired1'', ''Wired2'', ''Wired3'', ''Wireless0'',
        ''Wireless1'', ''Wireless2'', ''Wireless3'']"

definition schema_VPNEnumType :: schema where
  "schema_VPNEnumType = CEnum [''IKEv2'', ''IPSec'', ''L2TP'', ''PPTP'']"

definition schema_VPNType :: schema where
  "schema_VPNType = CObject
     [(''customData'', False, schema_CustomDataType),
      (''server'', True, CString (Some 512) None),
      (''user'', True, CString (Some 20) None),
      (''group'', False, CString (Some 20) None),
      (''password'', True, CString (Some 20) None),
      (''key'', True, CString (Some 255) None),
      (''type'', True, schema_VPNEnumType)] False"

definition schema_NetworkConnectionProfileType :: schema where
  "schema_NetworkConnectionProfileType = CObject
     [(''customData'', False, schema_CustomDataType),
      (''apn'', False, schema_APNType),
      (''ocppVersion'', True, schema_OCPPVersionEnumType),
      (''ocppTransport'', True, schema_OCPPTransportEnumType),
      (''ocppCsmsUrl'', True, CString (Some 512) None),
      (''messageTimeout'', True, CInteger True None None),
      (''securityProfile'', True, CInteger True None None),
      (''ocppInterface'', True, schema_OCPPInterfaceEnumType),
      (''vpn'', False, schema_VPNType)] False"

definition schema_SetNetworkProfileStatusEnumType :: schema where
  "schema_SetNetworkProfileStatusEnumType = CEnum [''Accepted'', ''Rejected'', ''Failed'']"

definition schema_SetMonitoringDataType :: schema where
  "schema_SetMonitoringDataType = CObject
     [(''customData'', False, schema_CustomDataType),
      (''id'', False, CInteger True None None),
      (''transaction'', False, CBoolean),
      (''value'', True, CNumber None),
      (''type'', True, schema_MonitorEnumType),
      (''severity'', True, CInteger True None None),
      (''component'', True, schema_ComponentType),
      (''variable'', True, schema_VariableType)] False"

definition schema_SetMonitoringStatusEnumType :: schema where
  "schema_SetMonitoringStatusEnumType = CEnum [''Accepted'', ''UnknownComponent'', ''UnknownVariable'',
        ''UnsupportedMonitorType'', ''Rejected'', ''Duplicate'']"

definition schema_SetMonitoringResultType :: schema where
  "schema_SetMonitoringResultType = CObject
     [(''customData'', False, schema_CustomDataType),
      (''id'', False, CInteger True None None),
      (''statusInfo'', False, schema_StatusInfoType),
      (''status'', True, schema_SetMonitoringStatusEnumType),
      (''type'', True, schema_MonitorEnumType),
      (''component'', True, schema_ComponentType),
      (''variable'', True, schema_VariableType),
      (''severity'', True, CInteger True None None)] False"

definition schema_SetVariableDataType :: schema where
  "schema_SetVariableDataType = CObject
     [(''customData'', False, schema_CustomDataType),
      (''attributeType'', False, schema_AttributeEnumType),
      (''attributeValue'', True, CString (Some 1000) None),
      (''component'', True, schema_ComponentType),
      (''variable'', True, schema_VariableType)] False"

definition schema_SetVariableStatusEnumType :: schema where
  "schema_SetVariableStatusEnumType = CEnum [''Accepted'', ''Rejected'', ''UnknownComponent'',
        ''UnknownVariable'', ''NotSupportedAttributeType'', ''RebootRequired'']"

definition schema_SetVariableResultType :: schema where
  "schema_SetVariableResultType = CObject
     [(''customData'', False, schema_CustomDataType),
      (''attributeType'', False, schema_AttributeEnumType),
      (''attributeStatus'', True, schema_SetVariableStatusEnumType),
      (''attributeStatusInfo'', False, schema_StatusInfoType),
      (''component'', True, schema_ComponentType),
      (''variable'', True, schema_VariableType)] False"

definition schema_ConnectorStatusEnumType :: schema where
  "schema_ConnectorStatusEnumType = CEnum [''Available'', ''Occupied'', ''Reserved'', ''Unavailable'',
        ''Faulted'']"

definition schema_TransactionEventEnumType :: schema where
  "schema_TransactionEventEnumType = CEnum [''Ended'', ''Started'', ''Updated'']"

definition schema_TriggerReasonEnumType :: schema where
  "schema_TriggerReasonEnumType = CEnum [''Authorized'', ''CablePluggedIn'', ''ChargingRateChanged'',
        ''ChargingStateChanged'', ''Deauthorized'', ''EnergyLimitReached'', ''EVCommunicationLost'',
        ''EVConnectTimeout'', ''MeterValueClock'', ''MeterValuePeriodic'', ''TimeLimitReached'',
        ''Trigger'', ''UnlockCommand'', ''StopAuthorized'', ''EVDeparted'', ''EVDetected'', ''RemoteStop'',
        ''RemoteStart'', ''AbnormalCondition'', ''SignedDataReceived'', ''ResetCommand'']"

definition schema_ChargingStateEnumType :: schema where
  "schema_ChargingStateEnumType = CEnum [''Charging'', ''EVConnected'', ''SuspendedEV'', ''SuspendedEVSE'',
        ''Idle'']"

definition schema_ReasonEnumType :: schema where
  "schema_ReasonEnumType = CEnum [''DeAuthorized'', ''EmergencyStop'', ''EnergyLimitReached'',
        ''EVDisconnected'', ''GroundFault'', ''ImmediateReset'', ''Local'', ''LocalOutOfCredit'',
        ''MasterPass'', ''Other'', ''OvercurrentFault'', ''PowerLoss'', ''PowerQuality'', ''Reboot'',
        ''Remote'', ''SOCLimitReached'', ''StoppedByEV'', ''TimeLimitReached'', ''Timeout'']"

definition schema_TransactionType :: schema where
  "schema_TransactionType = CObject
     [(''customData'', False, schema_CustomDataType),
      (''transactionId'', True, CString (Some 36) None),
      (''chargingState'', False, schema_ChargingStateEnumType),
      (''timeSpentCharging'', False, CInteger True None None),
      (''stoppedReason'', False, schema_ReasonEnumType),
      (''remoteStartId'', False, CInteger True None None)] False"

definition schema_MessageTriggerEnumType :: schema where
  "schema_MessageTriggerEnumType = CEnum [''BootNotification'', ''LogStatusNotification'',
        ''FirmwareStatusNotification'', ''Heartbeat'', ''MeterValues'', ''SignChargingStationCertificate'',
        ''SignV2GCertificate'', ''StatusNotification'', ''TransactionEvent'', ''SignCombinedCertificate'',
        ''PublishFirmwareStatusNotification'']"

definition schema_TriggerMessageStatusEnumType :: schema where
  "schema_TriggerMessageStatusEnumType = CEnum [''Accepted'', ''Rejected'', ''NotImplemented'']"

definition schema_UnlockStatusEnumType :: schema where
  "schema_UnlockStatusEnumType = CEnum [''Unlocked'', ''UnlockFailed'', ''OngoingAuthorizedTransaction'',
        ''UnknownConnector'']"

definition schema_UnpublishFirmwareStatusEnumType :: schema where
  "schema_UnpublishFirmwareStatusEnumType = CEnum [''DownloadOngoing'', ''NoFirmware'', ''Unpublished'']"

definition schema_FirmwareType :: schema where
  "schema_FirmwareType = CObject
     [(''customData'', False, schema_CustomDataType),
      (''location'', True, CString (Some 512) None),
      (''retrieveDateTime'', True, CString None (Some ''date-time'')),
      (''installDateTime'', False, CString None (Some ''date-time'')),
      (''signingCertificate'', False, CString (Some 5500) None),
      (''signature'', False, CString (Some 800) None)] False"

definition schema_UpdateFirmwareStatusEnumType :: schema where
  "schema_UpdateFirmwareStatusEnumType = CEnum [''Accepted'', ''Rejected'', ''AcceptedCanceled'',
        ''InvalidCertificate'', ''RevokedCertificate'']"

definition schema_AuthorizeRequest :: schema where
  "schema_AuthorizeRequest = CObject
     [(''customData'', False, schema_CustomDataType),
      (''idToken'', True, schema_IdTokenType),
      (''certificate'', False, CString (Some 5500) None),
      (''iso15118CertificateHashData'', False, CArray schema_OCSPRequestDataType 1 (Some 4))] False"

definition schema_AuthorizeResponse :: schema where
  "schema_AuthorizeResponse = CObject
     [(''customData'', False, schema_CustomDataType),
      (''idTokenInfo'', True, schema_IdTokenInfoType),
      (''certificateStatus'', False, schema_AuthorizeCertificateStatusEnumType)] False"

definition schema_BootNotificationRequest :: schema where
  "schema_BootNotificationRequest = CObject
     [(''customData'', False, schema_CustomDataType),
      (''chargingStation'', True, schema_ChargingStationType),
      (''reason'', True, schema_BootReasonEnumType)] False"

definition schema_BootNotificationResponse :: schema where
  "schema_BootNotificationResponse = CObject
     [(''customData'', False, schema_CustomDataType),
      (''currentTime'', True, CString None (Some ''date-time'')),
      (''interval'', True, CInteger True None None),
      (''status'', True, schema_RegistrationStatusEnumType),
      (''statusInfo'', False, schema_StatusInfoType)] False"

definition schema_CancelReservationRequest :: schema where
  "schema_CancelReservationRequest = CObject
     [(''customData'', False, schema_CustomDataType),
      (''reservationId'', True, CInteger True None None)] False"

definition schema_CancelReservationResponse :: schema where
  "schema_CancelReservationResponse = CObject
     [(''customData'', False, schema_CustomDataType),
      (''status'', True, schema_CancelReservationStatusEnumType),
      (''statusInfo'', False, schema_StatusInfoType)] False"

definition schema_CertificateSignedRequest :: schema where
  "schema_CertificateSignedRequest = CObject
     [(''customData'', False, schema_CustomDataType),
      (''certificateChain'', True, CString (Some 10000) None),
      (''certificateType'', False, schema_CertificateSigningUseEnumType)] False"

definition schema_CertificateSignedResponse :: schema where
  "schema_CertificateSignedResponse = CObject
     [(''customData'', False, schema_CustomDataType),
      (''status'', True, schema_CertificateSignedStatusEnumType),
      (''statusInfo'', False, schema_StatusInfoType)] False"

definition schema_ChangeAvailabilityRequest :: schema where
  "schema_ChangeAvailabilityRequest = CObject
     [(''customData'', False, schema_CustomDataType),
      (''evse'', False, schema_EVSEType),
      (''operationalStatus'', True, schema_OperationalStatusEnumType)] False"

definition schema_ChangeAvailabilityResponse :: schema where
  "schema_ChangeAvailabilityResponse = CObject
     [(''customData'', False, schema_CustomDataType),
      (''status'', True, schema_ChangeAvailabilityStatusEnumType),
      (''statusInfo'', False, schema_StatusInfoType)] False"

definition schema_ClearCacheRequest :: schema where
  "schema_ClearCacheRequest = CObject
     [(''customData'', False, schema_CustomDataType)] False"

definition schema_ClearCacheResponse :: schema where
  "schema_ClearCacheResponse = CObject
     [(''customData'', False, schema_CustomDataType),
      (''status'', True, schema_ClearCacheStatusEnumType),
      (''statusInfo'', False, schema_StatusInfoType)] False"

definition schema_ClearChargingProfileRequest :: schema where
  "schema_ClearChargingProfileRequest = CObject
     [(''customData'', False, schema_CustomDataType),
      (''chargingProfileId'', False, CInteger True None None),
      (''chargingProfileCriteria'', False, schema_ClearChargingProfileType)] False"

definition schema_ClearChargingProfileResponse :: schema where
  "schema_ClearChargingProfileResponse = CObject
     [(''customData'', False, schema_CustomDataType),
      (''status'', True, schema_ClearChargingProfileStatusEnumType),
      (''statusInfo'', False, schema_StatusInfoType)] False"

definition schema_ClearDisplayMessageRequest :: schema where
  "schema_ClearDisplayMessageRequest = CObject
     [(''customData'', False, schema_CustomDataType),
      (''id'', True, CInteger True None None)] False"

definition schema_ClearDisplayMessageResponse :: schema where
  "schema_ClearDisplayMessageResponse = CObject
     [(''customData'', False, schema_CustomDataType),
      (''status'', True, schema_ClearMessageStatusEnumType),
      (''statusInfo'', False, schema_StatusInfoType)] False"

definition schema_ClearVariableMonitoringRequest :: schema where
  "schema_ClearVariableMonitoringRequest = CObject
     [(''customData'', False, schema_CustomDataType),
      (''id'', True, CArray (CInteger True None None) 1 None)] False"

definition schema_ClearVariableMonitoringResponse :: schema where
  "schema_ClearVariableMonitoringResponse = CObject
     [(''customData'', False, schema_CustomDataType),
      (''clearMonitoringResult'', True, CArray schema_ClearMonitoringResultType 1 None)] False"

definition schema_ClearedChargingLimitRequest :: schema where
  "schema_ClearedChargingLimitRequest = CObject
     [(''customData'', False, schema_CustomDataType),
      (''chargingLimitSource'', True, schema_ChargingLimitSourceEnumType),
      (''evseId'', False, CInteger True None None)] False"

definition schema_ClearedChargingLimitResponse :: schema where
  "schema_ClearedChargingLimitResponse = CObject
     [(''customData'', False, schema_CustomDataType)] False"

definition schema_CostUpdatedRequest :: schema where
  "schema_CostUpdatedRequest = CObject
     [(''customData'', False, schema_CustomDataType),
      (''totalCost'', True, CNumber None),
      (''transactionId'', True, CString (Some 36) None)] False"

definition schema_CostUpdatedResponse :: schema where
  "schema_CostUpdatedResponse = CObject
     [(''customData'', False, schema_CustomDataType)] False"

definition schema_CustomerInformationRequest :: schema where
  "schema_CustomerInformationRequest = CObject
     [(''customData'', False, schema_CustomDataType),
      (''customerCertificate'', False, schema_CertificateHashDataType),
      (''idToken'', False, schema_IdTokenType),
      (''requestId'', True, CInteger True None None),
      (''report'', True, CBoolean),
      (''clear'', True, CBoolean),
      (''customerIdentifier'', False, CString (Some 64) None)] False"

definition schema_CustomerInformationResponse :: schema where
  "schema_CustomerInformationResponse = CObject
     [(''customData'', False, schema_CustomDataType),
      (''status'', True, schema_CustomerInformationStatusEnumType),
      (''statusInfo'', False, schema_StatusInfoType)] False"

definition schema_DataTransferRequest :: schema where
  "schema_DataTransferRequest = CObject
     [(''customData'', False, schema_CustomDataType),
      (''messageId'', False, CString (Some 50) None),
      (''data'', False, CAny),
      (''vendorId'', True, CString (Some 255) None)] False"

definition schema_DataTransferResponse :: schema where
  "schema_DataTransferResponse = CObject
     [(''customData'', False, schema_CustomDataType),
      (''status'', True, schema_DataTransferStatusEnumType),
      (''statusInfo'', False, schema_StatusInfoType),
      (''data'', False, CAny)] False"

definition schema_DeleteCertificateRequest :: schema where
  "schema_DeleteCertificateRequest = CObject
     [(''customData'', False, schema_CustomDataType),
      (''certificateHashData'', True, schema_CertificateHashDataType)] False"

definition schema_DeleteCertificateResponse :: schema where
  "schema_DeleteCertificateResponse = CObject
     [(''customData'', False, schema_CustomDataType),
      (''status'', True, schema_DeleteCertificateStatusEnumType),
      (''statusInfo'', False, schema_StatusInfoType)] False"

definition schema_FirmwareStatusNotificationRequest :: schema where
  "schema_FirmwareStatusNotificationRequest = CObject
     [(''customData'', False, schema_CustomDataType),
      (''status'', True, schema_FirmwareStatusEnumType),
      (''requestId'', False, CInteger True None None)] False"

definition schema_FirmwareStatusNotificationResponse :: schema where
  "schema_FirmwareStatusNotificationResponse = CObject
     [(''customData'', False, schema_CustomDataType)] False"

definition schema_Get15118EVCertificateRequest :: schema where
  "schema_Get15118EVCertificateRequest = CObject
     [(''customData'', False, schema_CustomDataType),
      (''iso15118SchemaVersion'', True, CString (Some 50) None),
      (''action'', True, schema_CertificateActionEnumType),
      (''exiRequest'', True, CString (Some 5600) None)] False"

definition schema_Get15118EVCertificateResponse :: schema where
  "schema_Get15118EVCertificateResponse = CObject
     [(''customData'', False, schema_CustomDataType),
      (''status'', True, schema_Iso15118EVCertificateStatusEnumType),
      (''statusInfo'', False, schema_StatusInfoType),
      (''exiResponse'', True, CString (Some 7500) None)] False"

definition schema_GetBaseReportRequest :: schema where
  "schema_GetBaseReportRequest = CObject
     [(''customData'', False, schema_CustomDataType),
      (''requestId'', True, CInteger True None None),
      (''reportBase'', True, schema_ReportBaseEnumType)] False"

definition schema_GetBaseReportResponse :: schema where
  "schema_GetBaseReportResponse = CObject
     [(''customData'', False, schema_CustomDataType),
      (''status'', True, schema_GenericDeviceModelStatusEnumType),
      (''statusInfo'', False, schema_StatusInfoType)] False"

definition schema_GetCertificateStatusRequest :: schema where
  "schema_GetCertificateStatusRequest = CObject
     [(''customData'', False, schema_CustomDataType),
      (''ocspRequestData'', True, schema_OCSPRequestDataType)] False"

definition schema_GetCertificateStatusResponse :: schema where
  "schema_GetCertificateStatusResponse = CObject
     [(''customData'', False, schema_CustomDataType),
      (''status'', True, schema_GetCertificateStatusEnumType),
      (''statusInfo'', False, schema_StatusInfoType),
      (''ocspResult'', False, CString (Some 5500) None)] False"

definition schema_GetChargingProfilesRequest :: schema where
  "schema_GetChargingProfilesRequest = CObject
     [(''customData'', False, schema_CustomDataType),
      (''requestId'', True, CInteger True None None),
      (''evseId'', False, CInteger True None None),
      (''chargingProfile'', True, schema_ChargingProfileCriterionType)] False"

definition schema_GetChargingProfilesResponse :: schema where
  "schema_GetChargingProfilesResponse = CObject
     [(''customData'', False, schema_CustomDataType),
      (''status'', True, schema_GetChargingProfileStatusEnumType),
      (''statusInfo'', False, schema_StatusInfoType)] False"

definition schema_GetCompositeScheduleRequest :: schema where
  "schema_GetCompositeScheduleRequest = CObject
     [(''customData'', False, schema_CustomDataType),
      (''duration'', True, CInteger True None None),
      (''chargingRateUnit'', False, schema_ChargingRateUnitEnumType),
      (''evseId'', True, CInteger True None None)] False"

definition schema_GetCompositeScheduleResponse :: schema where
  "schema_GetCompositeScheduleResponse = CObject
     [(''customData'', False, schema_CustomDataType),
      (''status'', True, schema_GenericStatusEnumType),
      (''statusInfo'', False, schema_StatusInfoType),
      (''schedule'', False, schema_CompositeScheduleType)] False"

definition schema_GetDisplayMessagesRequest :: schema where
  "schema_GetDisplayMessagesRequest = CObject
     [(''customData'', False, schema_CustomDataType),
      (''id'', False, CArray (CInteger True None None) 1 None),
      (''requestId'', True, CInteger True None None),
      (''priority'', False, schema_MessagePriorityEnumType),
      (''state'', False, schema_MessageStateEnumType)] False"

definition schema_GetDisplayMessagesResponse :: schema where
  "schema_GetDisplayMessagesResponse = CObject
     [(''customData'', False, schema_CustomDataType),
      (''status'', True, schema_GetDisplayMessagesStatusEnumType),
      (''statusInfo'', False, schema_StatusInfoType)] False"

definition schema_GetInstalledCertificateIdsRequest :: schema where
  "schema_GetInstalledCertificateIdsRequest = CObject
     [(''customData'', False, schema_CustomDataType),
      (''certificateType'', False, CArray schema_GetCertificateIdUseEnumType 1 None)] False"

definition schema_GetInstalledCertificateIdsResponse :: schema where
  "schema_GetInstalledCertificateIdsResponse = CObject
     [(''customData'', False, schema_CustomDataType),
      (''status'', True, schema_GetInstalledCertificateStatusEnumType),
      (''statusInfo'', False, schema_StatusInfoType),
      (''certificateHashDataChain'', False, CArray schema_CertificateHashDataChainType 1 None)] False"

definition schema_GetLocalListVersionRequest :: schema where
  "schema_GetLocalListVersionRequest = CObject
     [(''customData'', False, schema_CustomDataType)] False"

definition schema_GetLocalListVersionResponse :: schema where
  "schema_GetLocalListVersionResponse = CObject
     [(''customData'', False, schema_CustomDataType),
      (''versionNumber'', True, CInteger True None None)] False"

definition schema_GetLogRequest :: schema where
  "schema_GetLogRequest = CObject
     [(''customData'', False, schema_CustomDataType),
      (''log'', True, schema_LogParametersType),
      (''logType'', True, schema_LogEnumType),
      (''requestId'', True, CInteger True None None),
      (''retries'', False, CInteger True None None),
      (''retryInterval'', False, CInteger True None None)] False"

definition schema_GetLogResponse :: schema where
  "schema_GetLogResponse = CObject
     [(''customData'', False, schema_CustomDataType),
      (''status'', True, schema_LogStatusEnumType),
      (''statusInfo'', False, schema_StatusInfoType),
      (''filename'', False, CString (Some 255) None)] False"

definition schema_GetMonitoringReportRequest :: schema where
  "schema_GetMonitoringReportRequest = CObject
     [(''customData'', False, schema_CustomDataType),
      (''componentVariable'', False, CArray schema_ComponentVariableType 1 None),
      (''requestId'', True, CInteger True None None),
      (''monitoringCriteria'', False, CArray schema_MonitoringCriterionEnumType 1 (Some 3))] False"

definition schema_GetMonitoringReportResponse :: schema where
  "schema_GetMonitoringReportResponse = CObject
     [(''customData'', False, schema_CustomDataType),
      (''status'', True, schema_GenericDeviceModelStatusEnumType),
      (''statusInfo'', False, schema_StatusInfoType)] False"

definition schema_GetReportRequest :: schema where
  "schema_GetReportRequest = CObject
     [(''customData'', False, schema_CustomDataType),
      (''componentVariable'', False, CArray schema_ComponentVariableType 1 None),
      (''requestId'', True, CInteger True None None),
      (''componentCriteria'', False, CArray schema_ComponentCriterionEnumType 1 (Some 4))] False"

definition schema_GetReportResponse :: schema where
  "schema_GetReportResponse = CObject
     [(''customData'', False, schema_CustomDataType),
      (''status'', True, schema_GenericDeviceModelStatusEnumType),
      (''statusInfo'', False, schema_StatusInfoType)] False"

definition schema_GetTransactionStatusRequest :: schema where
  "schema_GetTransactionStatusRequest = CObject
     [(''customData'', False, schema_CustomDataType),
      (''transactionId'', False, CString (Some 36) None)] False"

definition schema_GetTransactionStatusResponse :: schema where
  "schema_GetTransactionStatusResponse = CObject
     [(''customData'', False, schema_CustomDataType),
      (''ongoingIndicator'', False, CBoolean),
      (''messagesInQueue'', True, CBoolean)] False"

definition schema_GetVariablesRequest :: schema where
  "schema_GetVariablesRequest = CObject
     [(''customData'', False, schema_CustomDataType),
      (''getVariableData'', True, CArray schema_GetVariableDataType 1 None)] False"

definition schema_GetVariablesResponse :: schema where
  "schema_GetVariablesResponse = CObject
     [(''customData'', False, schema_CustomDataType),
      (''getVariableResult'', True, CArray schema_GetVariableResultType 1 None)] False"

definition schema_HeartbeatRequest :: schema where
  "schema_HeartbeatRequest = CObject
     [(''customData'', False, schema_CustomDataType)] False"

definition schema_HeartbeatResponse :: schema where
  "schema_HeartbeatResponse = CObject
     [(''customData'', False, schema_CustomDataType),
      (''currentTime'', True, CString None (Some ''date-time''))] False"

definition schema_InstallCertificateRequest :: schema where
  "schema_InstallCertificateRequest = CObject
     [(''customData'', False, schema_CustomDataType),
      (''certificateType'', True, schema_InstallCertificateUseEnumType),
      (''certificate'', True, CString (Some 5500) None)] False"

definition schema_InstallCertificateResponse :: schema where
  "schema_InstallCertificateResponse = CObject
     [(''customData'', False, schema_CustomDataType),
      (''status'', True, schema_InstallCertificateStatusEnumType),
      (''statusInfo'', False, schema_StatusInfoType)] False"

definition schema_LogStatusNotificationRequest :: schema where
  "schema_LogStatusNotificationRequest = CObject
     [(''customData'', False, schema_CustomDataType),
      (''status'', True, schema_UploadLogStatusEnumType),
      (''requestId'', False, CInteger True None None)] False"

definition schema_LogStatusNotificationResponse :: schema where
  "schema_LogStatusNotificationResponse = CObject
     [(''customData'', False, schema_CustomDataType)] False"

definition schema_MeterValuesRequest :: schema where
  "schema_MeterValuesRequest = CObject
     [(''customData'', False, schema_CustomDataType),
      (''evseId'', True, CInteger True None None),
      (''meterValue'', True, CArray schema_MeterValueType 1 None)] False"

definition schema_MeterValuesResponse :: schema where
  "schema_MeterValuesResponse = CObject
     [(''customData'', False, schema_CustomDataType)] False"

definition schema_NotifyChargingLimitRequest :: schema where
  "schema_NotifyChargingLimitRequest = CObject
     [(''customData'', False, schema_CustomDataType),
      (''chargingSchedule'', False, CArray schema_ChargingScheduleType 1 None),
      (''evseId'', False, CInteger True None None),
      (''chargingLimit'', True, schema_ChargingLimitType)] False"

definition schema_NotifyChargingLimitResponse :: schema where
  "schema_NotifyChargingLimitResponse = CObject
     [(''customData'', False, schema_CustomDataType)] False"

definition schema_NotifyCustomerInformationRequest :: schema where
  "schema_NotifyCustomerInformationRequest = CObject
     [(''customData'', False, schema_CustomDataType),
      (''data'', True, CString (Some 512) None),
      (''tbc'', False, CBoolean),
      (''seqNo'', True, CInteger True None None),
      (''generatedAt'', True, CString None (Some ''date-time'')),
      (''requestId'', True, CInteger True None None)] False"

definition schema_NotifyCustomerInformationResponse :: schema where
  "schema_NotifyCustomerInformationResponse = CObject
     [(''customData'', False, schema_CustomDataType)] False"

definition schema_NotifyDisplayMessagesRequest :: schema where
  "schema_NotifyDisplayMessagesRequest = CObject
     [(''customData'', False, schema_CustomDataType),
      (''messageInfo'', False, CArray schema_MessageInfoType 1 None),
      (''requestId'', True, CInteger True None None),
      (''tbc'', False, CBoolean)] False"

definition schema_NotifyDisplayMessagesResponse :: schema where
  "schema_NotifyDisplayMessagesResponse = CObject
     [(''customData'', False, schema_CustomDataType)] False"

definition schema_NotifyEVChargingNeedsRequest :: schema where
  "schema_NotifyEVChargingNeedsRequest = CObject
     [(''customData'', False, schema_CustomDataType),
      (''maxScheduleTuples'', False, CInteger True None None),
      (''chargingNeeds'', True, schema_ChargingNeedsType),
      (''evseId'', True, CInteger True None None)] False"

definition schema_NotifyEVChargingNeedsResponse :: schema where
  "schema_NotifyEVChargingNeedsResponse = CObject
     [(''customData'', False, schema_CustomDataType),
      (''status'', True, schema_NotifyEVChargingNeedsStatusEnumType),
      (''statusInfo'', False, schema_StatusInfoType)] False"

definition schema_NotifyEVChargingScheduleRequest :: schema where
  "schema_NotifyEVChargingScheduleRequest = CObject
     [(''customData'', False, schema_CustomDataType),
      (''timeBase'', True, CString None (Some ''date-time'')),
      (''chargingSchedule'', True, schema_ChargingScheduleType),
      (''evseId'', True, CInteger True None None)] False"

definition schema_NotifyEVChargingScheduleResponse :: schema where
  "schema_NotifyEVChargingScheduleResponse = CObject
     [(''customData'', False, schema_CustomDataType),
      (''status'', True, schema_GenericStatusEnumType),
      (''statusInfo'', False, schema_StatusInfoType)] False"

definition schema_NotifyEventRequest :: schema where
  "schema_NotifyEventRequest = CObject
     [(''customData'', False, schema_CustomDataType),
      (''generatedAt'', True, CString None (Some ''date-time'')),
      (''tbc'', False, CBoolean),
      (''seqNo'', True, CInteger True None None),
      (''eventData'', True, CArray schema_EventDataType 1 None)] False"

definition schema_NotifyEventResponse :: schema where
  "schema_NotifyEventResponse = CObject
     [(''customData'', False, schema_CustomDataType)] False"

definition schema_NotifyMonitoringReportRequest :: schema where
  "schema_NotifyMonitoringReportRequest = CObject
     [(''customData'', False, schema_CustomDataType),
      (''monitor'', False, CArray schema_MonitoringDataType 1 None),
      (''requestId'', True, CInteger True None None),
      (''tbc'', False, CBoolean),
      (''seqNo'', True, CInteger True None None),
      (''generatedAt'', True, CString None (Some ''date-time''))] False"

definition schema_NotifyMonitoringReportResponse :: schema where
  "schema_NotifyMonitoringReportResponse = CObject
     [(''customData'', False, schema_CustomDataType)] False"

definition schema_NotifyReportRequest :: schema where
  "schema_NotifyReportRequest = CObject
     [(''customData'', False, schema_CustomDataType),
      (''requestId'', True, CInteger True None None),
      (''generatedAt'', True, CString None (Some ''date-time'')),
      (''reportData'', False, CArray schema_ReportDataType 1 None),
      (''tbc'', False, CBoolean),
      (''seqNo'', True, CInteger True None None)] False"

definition schema_NotifyReportResponse :: schema where
  "schema_NotifyReportResponse = CObject
     [(''customData'', False, schema_CustomDataType)] False"

definition schema_PublishFirmwareRequest :: schema where
  "schema_PublishFirmwareRequest = CObject
     [(''customData'', False, schema_CustomDataType),
      (''location'', True, CString (Some 512) None),
      (''retries'', False, CInteger True None None),
      (''checksum'', True, CString (Some 32) None),
      (''requestId'', True, CInteger True None None),
      (''retryInterval'', False, CInteger True None None)] False"

definition schema_PublishFirmwareResponse :: schema where
  "schema_PublishFirmwareResponse = CObject
     [(''customData'', False, schema_CustomDataType),
      (''status'', True, schema_GenericStatusEnumType),
      (''statusInfo'', False, schema_StatusInfoType)] False"

definition schema_PublishFirmwareStatusNotificationRequest :: schema where
  "schema_PublishFirmwareStatusNotificationRequest = CObject
     [(''customData'', False, schema_CustomDataType),
      (''status'', True, schema_PublishFirmwareStatusEnumType),
      (''location'', False, CArray (CString (Some 512) None) 1 None),
      (''requestId'', False, CInteger True None None)] False"

definition schema_PublishFirmwareStatusNotificationResponse :: schema where
  "schema_PublishFirmwareStatusNotificationResponse = CObject
     [(''customData'', False, schema_CustomDataType)] False"

definition schema_ReportChargingProfilesRequest :: schema where
  "schema_ReportChargingProfilesRequest = CObject
     [(''customData'', False, schema_CustomDataType),
      (''requestId'', True, CInteger True None None),
      (''chargingLimitSource'', True, schema_ChargingLimitSourceEnumType),
      (''chargingProfile'', True, CArray schema_ChargingProfileType 1 None),
      (''tbc'', False, CBoolean),
      (''evseId'', True, CInteger True None None)] False"

definition schema_ReportChargingProfilesResponse :: schema where
  "schema_ReportChargingProfilesResponse = CObject
     [(''customData'', False, schema_CustomDataType)] False"

definition schema_RequestStartTransactionRequest :: schema where
  "schema_RequestStartTransactionRequest = CObject
     [(''customData'', False, schema_CustomDataType),
      (''evseId'', False, CInteger True None None),
      (''groupIdToken'', False, schema_IdTokenType),
      (''idToken'', True, schema_IdTokenType),
      (''remoteStartId'', True, CInteger True None None),
      (''chargingProfile'', False, schema_ChargingProfileType)] False"

definition schema_RequestStartTransactionResponse :: schema where
  "schema_RequestStartTransactionResponse = CObject
     [(''customData'', False, schema_CustomDataType),
      (''status'', True, schema_RequestStartStopStatusEnumType),
      (''statusInfo'', False, schema_StatusInfoType),
      (''transactionId'', False, CString (Some 36) None)] False"

definition schema_RequestStopTransactionRequest :: schema where
  "schema_RequestStopTransactionRequest = CObject
     [(''customData'', False, schema_CustomDataType),
      (''transactionId'', True, CString (Some 36) None)] False"

definition schema_RequestStopTransactionResponse :: schema where
  "schema_RequestStopTransactionResponse = CObject
     [(''customData'', False, schema_CustomDataType),
      (''status'', True, schema_RequestStartStopStatusEnumType),
      (''statusInfo'', False, schema_StatusInfoType)] False"

definition schema_ReservationStatusUpdateRequest :: schema where
  "schema_ReservationStatusUpdateRequest = CObject
     [(''customData'', False, schema_CustomDataType),
      (''reservationId'', True, CInteger True None None),
      (''reservationUpdateStatus'', True, schema_ReservationUpdateStatusEnumType)] False"

definition schema_ReservationStatusUpdateResponse :: schema where
  "schema_ReservationStatusUpdateResponse = CObject
     [(''customData'', False, schema_CustomDataType)] False"

definition schema_ReserveNowRequest :: schema where
  "schema_ReserveNowRequest = CObject
     [(''customData'', False, schema_CustomDataType),
      (''id'', True, CInteger True None None),
      (''expiryDateTime'', True, CString None (Some ''date-time'')),
      (''connectorType'', False, schema_ConnectorEnumType),
      (''idToken'', True, schema_IdTokenType),
      (''evseId'', False, CInteger True None None),
      (''groupIdToken'', False, schema_IdTokenType)] False"

definition schema_ReserveNowResponse :: schema where
  "schema_ReserveNowResponse = CObject
     [(''customData'', False, schema_CustomDataType),
      (''status'', True, schema_ReserveNowStatusEnumType),
      (''statusInfo'', False, schema_StatusInfoType)] False"

definition schema_ResetRequest :: schema where
  "schema_ResetRequest = CObject
     [(''customData'', False, schema_CustomDataType),
      (''type'', True, schema_ResetEnumType),
      (''evseId'', False, CInteger True None None)] False"

definition schema_ResetResponse :: schema where
  "schema_ResetResponse = CObject
     [(''customData'', False, schema_CustomDataType),
      (''status'', True, schema_ResetStatusEnumType),
      (''statusInfo'', False, schema_StatusInfoType)] False"

definition schema_SecurityEventNotificationRequest :: schema where
  "schema_SecurityEventNotificationRequest = CObject
     [(''customData'', False, schema_CustomDataType),
      (''type'', True, CString (Some 50) None),
      (''timestamp'', True, CString None (Some ''date-time'')),
      (''techInfo'', False, CString (Some 255) None)] False"

definition schema_SecurityEventNotificationResponse :: schema where
  "schema_SecurityEventNotificationResponse = CObject
     [(''customData'', False, schema_CustomDataType)] False"

definition schema_SendLocalListRequest :: schema where
  "schema_SendLocalListRequest = CObject
     [(''customData'', False, schema_CustomDataType),
      (''localAuthorizationList'', False, CArray schema_AuthorizationData 1 None),
      (''versionNumber'', True, CInteger True None None),
      (''updateType'', True, schema_UpdateEnumType)] False"

definition schema_SendLocalListResponse :: schema where
  "schema_SendLocalListResponse = CObject
     [(''customData'', False, schema_CustomDataType),
      (''status'', True, schema_SendLocalListStatusEnumType),
      (''statusInfo'', False, schema_StatusInfoType)] False"

definition schema_SetChargingProfileRequest :: schema where
  "schema_SetChargingProfileRequest = CObject
     [(''customData'', False, schema_CustomDataType),
      (''evseId'', True, CInteger True None None),
      (''chargingProfile'', True, schema_ChargingProfileType)] False"

definition schema_SetChargingProfileResponse :: schema where
  "schema_SetChargingProfileResponse = CObject
     [(''customData'', False, schema_CustomDataType),
      (''status'', True, schema_ChargingProfileStatusEnumType),
      (''statusInfo'', False, schema_StatusInfoType)] False"

definition schema_SetDisplayMessageRequest :: schema where
  "schema_SetDisplayMessageRequest = CObject
     [(''customData'', False, schema_CustomDataType),
      (''message'', True, schema_MessageInfoType)] False"

definition schema_SetDisplayMessageResponse :: schema where
  "schema_SetDisplayMessageResponse = CObject
     [(''customData'', False, schema_CustomDataType),
      (''status'', True, schema_DisplayMessageStatusEnumType),
      (''statusInfo'', False, schema_StatusInfoType)] False"

definition schema_SetMonitoringBaseRequest :: schema where
  "schema_SetMonitoringBaseRequest = CObject
     [(''customData'', False, schema_CustomDataType),
      (''monitoringBase'', True, schema_MonitoringBaseEnumType)] False"

definition schema_SetMonitoringBaseResponse :: schema where
  "schema_SetMonitoringBaseResponse = CObject
     [(''customData'', False, schema_CustomDataType),
      (''status'', True, schema_GenericDeviceModelStatusEnumType),
      (''statusInfo'', False, schema_StatusInfoType)] False"

definition schema_SetMonitoringLevelRequest :: schema where
  "schema_SetMonitoringLevelRequest = CObject
     [(''customData'', False, schema_CustomDataType),
      (''severity'', True, CInteger True None None)] False"

definition schema_SetMonitoringLevelResponse :: schema where
  "schema_SetMonitoringLevelResponse = CObject
     [(''customData'', False, schema_CustomDataType),
      (''status'', True, schema_GenericStatusEnumType),
      (''statusInfo'', False, schema_StatusInfoType)] False"

definition schema_SetNetworkProfileRequest :: schema where
  "schema_SetNetworkProfileRequest = CObject
     [(''customData'', False, schema_CustomDataType),
      (''configurationSlot'', True, CInteger True None None),
      (''connectionData'', True, schema_NetworkConnectionProfileType)] False"

definition schema_SetNetworkProfileResponse :: schema where
  "schema_SetNetworkProfileResponse = CObject
     [(''customData'', False, schema_CustomDataType),
      (''status'', True, schema_SetNetworkProfileStatusEnumType),
      (''statusInfo'', False, schema_StatusInfoType)] False"

definition schema_SetVariableMonitoringRequest :: schema where
  "schema_SetVariableMonitoringRequest = CObject
     [(''customData'', False, schema_CustomDataType),
      (''setMonitoringData'', True, CArray schema_SetMonitoringDataType 1 None)] False"

definition schema_SetVariableMonitoringResponse :: schema where
  "schema_SetVariableMonitoringResponse = CObject
     [(''customData'', False, schema_CustomDataType),
      (''setMonitoringResult'', True, CArray schema_SetMonitoringResultType 1 None)] False"

definition schema_SetVariablesRequest :: schema where
  "schema_SetVariablesRequest = CObject
     [(''customData'', False, schema_CustomDataType),
      (''setVariableData'', True, CArray schema_SetVariableDataType 1 None)] False"

definition schema_SetVariablesResponse :: schema where
  "schema_SetVariablesResponse = CObject
     [(''customData'', False, schema_CustomDataType),
      (''setVariableResult'', True, CArray schema_SetVariableResultType 1 None)] False"

definition schema_SignCertificateRequest :: schema where
  "schema_SignCertificateRequest = CObject
     [(''customData'', False, schema_CustomDataType),
      (''csr'', True, CString (Some 5500) None),
      (''certificateType'', False, schema_CertificateSigningUseEnumType)] False"

definition schema_SignCertificateResponse :: schema where
  "schema_SignCertificateResponse = CObject
     [(''customData'', False, schema_CustomDataType),
      (''status'', True, schema_GenericStatusEnumType),
      (''statusInfo'', False, schema_StatusInfoType)] False"

definition schema_StatusNotificationRequest :: schema where
  "schema_StatusNotificationRequest = CObject
     [(''customData'', False, schema_CustomDataType),
      (''timestamp'', True, CString None (Some ''date-time'')),
      (''connectorStatus'', True, schema_ConnectorStatusEnumType),
      (''evseId'', True, CInteger True None None),
      (''connectorId'', True, CInteger True None None)] False"

definition schema_StatusNotificationResponse :: schema where
  "schema_StatusNotificationResponse = CObject
     [(''customData'', False, schema_CustomDataType)] False"

definition schema_TransactionEventRequest :: schema where
  "schema_TransactionEventRequest = CObject
     [(''customData'', False, schema_CustomDataType),
      (''eventType'', True, schema_TransactionEventEnumType),
      (''meterValue'', False, CArray schema_MeterValueType 1 None),
      (''timestamp'', True, CString None (Some ''date-time'')),
      (''triggerReason'', True, schema_TriggerReasonEnumType),
      (''seqNo'', True, CInteger True None None),
      (''offline'', False, CBoolean),
      (''numberOfPhasesUsed'', False, CInteger True None None),
      (''cableMaxCurrent'', False, CInteger True None None),
      (''reservationId'', False, CInteger True None None),
      (''transactionInfo'', True, schema_TransactionType),
      (''evse'', False, schema_EVSEType),
      (''idToken'', False, schema_IdTokenType)] False"

definition schema_TransactionEventResponse :: schema where
  "schema_TransactionEventResponse = CObject
     [(''customData'', False, schema_CustomDataType),
      (''totalCost'', False, CNumber None),
      (''chargingPriority'', False, CInteger True None None),
      (''idTokenInfo'', False, schema_IdTokenInfoType),
      (''updatedPersonalMessage'', False, schema_MessageContentType)] False"

definition schema_TriggerMessageRequest :: schema where
  "schema_TriggerMessageRequest = CObject
     [(''customData'', False, schema_CustomDataType),
      (''evse'', False, schema_EVSEType),
      (''requestedMessage'', True, schema_MessageTriggerEnumType)] False"

definition schema_TriggerMessageResponse :: schema where
  "schema_TriggerMessageResponse = CObject
     [(''customData'', False, schema_CustomDataType),
      (''status'', True, schema_TriggerMessageStatusEnumType),
      (''statusInfo'', False, schema_StatusInfoType)] False"

definition schema_UnlockConnectorRequest :: schema where
  "schema_UnlockConnectorRequest = CObject
     [(''customData'', False, schema_CustomDataType),
      (''evseId'', True, CInteger True None None),
      (''connectorId'', True, CInteger True None None)] False"

definition schema_UnlockConnectorResponse :: schema where
  "schema_UnlockConnectorResponse = CObject
     [(''customData'', False, schema_CustomDataType),
      (''status'', True, schema_UnlockStatusEnumType),
      (''statusInfo'', False, schema_StatusInfoType)] False"

definition schema_UnpublishFirmwareRequest :: schema where
  "schema_UnpublishFirmwareRequest = CObject
     [(''customData'', False, schema_CustomDataType),
      (''checksum'', True, CString (Some 32) None)] False"

definition schema_UnpublishFirmwareResponse :: schema where
  "schema_UnpublishFirmwareResponse = CObject
     [(''customData'', False, schema_CustomDataType),
      (''status'', True, schema_UnpublishFirmwareStatusEnumType)] False"

definition schema_UpdateFirmwareRequest :: schema where
  "schema_UpdateFirmwareRequest = CObject
     [(''customData'', False, schema_CustomDataType),
      (''retries'', False, CInteger True None None),
      (''retryInterval'', False, CInteger True None None),
      (''requestId'', True, CInteger True None None),
      (''firmware'', True, schema_FirmwareType)] False"

definition schema_UpdateFirmwareResponse :: schema where
  "schema_UpdateFirmwareResponse = CObject
     [(''customData'', False, schema_CustomDataType),
      (''status'', True, schema_UpdateFirmwareStatusEnumType),
      (''statusInfo'', False, schema_StatusInfoType)] False"

definition payloads201 :: "((string \<times> shape) \<times> schema) list" where
  "payloads201 = [(V201AuthorizeRequest_payload, schema_AuthorizeRequest),
     (V201AuthorizeResponse_payload, schema_AuthorizeResponse),
     (V201BootNotificationRequest_payload, schema_BootNotificationRequest),
     (V201BootNotificationResponse_payload, schema_BootNotificationResponse),
     (V201CancelReservationRequest_payload, schema_CancelReservationRequest),
     (V201CancelReservationResponse_payload, schema_CancelReservationResponse),
     (V201CertificateSignedRequest_payload, schema_CertificateSignedRequest),
     (V201CertificateSignedResponse_payload, schema_CertificateSignedResponse),
     (V201ChangeAvailabilityRequest_payload, schema_ChangeAvailabilityRequest),
     (V201ChangeAvailabilityResponse_payload, schema_ChangeAvailabilityResponse),
     (V201ClearCacheRequest_payload, schema_ClearCacheRequest),
     (V201ClearCacheResponse_payload, schema_ClearCacheResponse),
     (V201ClearChargingProfileRequest_payload, schema_ClearChargingProfileRequest),
     (V201ClearChargingProfileResponse_payload, schema_ClearChargingProfileResponse),
     (V201ClearDisplayMessageRequest_payload, schema_ClearDisplayMessageRequest),
     (V201ClearDisplayMessageResponse_payload, schema_ClearDisplayMessageResponse),
     (V201ClearVariableMonitoringRequest_payload, schema_ClearVariableMonitoringRequest),
     (V201ClearVariableMonitoringResponse_payload, schema_ClearVariableMonitoringResponse),
     (V201ClearedChargingLimitRequest_payload, schema_ClearedChargingLimitRequest),
     (V201ClearedChargingLimitResponse_payload, schema_ClearedChargingLimitResponse),
     (V201CostUpdatedRequest_payload, schema_CostUpdatedRequest),
     (V201CostUpdatedResponse_payload, schema_CostUpdatedResponse),
     (V201CustomerInformationRequest_payload, schema_CustomerInformationRequest),
     (V201CustomerInformationResponse_payload, schema_CustomerInformationResponse),
     (V201DataTransferRequest_payload, schema_DataTransferRequest),
     (V201DataTransferResponse_payload, schema_DataTransferResponse),
     (V201DeleteCertificateRequest_payload, schema_DeleteCertificateRequest),
     (V201DeleteCertificateResponse_payload, schema_DeleteCertificateResponse),
     (V201FirmwareStatusNotificationRequest_payload, schema_FirmwareStatusNotificationRequest),
     (V201FirmwareStatusNotificationResponse_payload, schema_FirmwareStatusNotificationResponse),
     (V201Get15118EVCertificateRequest_payload, schema_Get15118EVCertificateRequest),
     (V201Get15118EVCertificateResponse_payload, schema_Get15118EVCertificateResponse),
     (V201GetBaseReportRequest_payload, schema_GetBaseReportRequest),
     (V201GetBaseReportResponse_payload, schema_GetBaseReportResponse),
     (V201GetCertificateStatusRequest_payload, schema_GetCertificateStatusRequest),
     (V201GetCertificateStatusResponse_payload, schema_GetCertificateStatusResponse),
     (V201GetChargingProfilesRequest_payload, schema_GetChargingProfilesRequest),
     (V201GetChargingProfilesResponse_payload, schema_GetChargingProfilesResponse),
     (V201GetCompositeScheduleRequest_payload, schema_GetCompositeScheduleRequest),
     (V201GetCompositeScheduleResponse_payload, schema_GetCompositeScheduleResponse),
     (V201GetDisplayMessagesRequest_payload, schema_GetDisplayMessagesRequest),
     (V201GetDisplayMessagesResponse_payload, schema_GetDisplayMessagesResponse),
     (V201GetInstalledCertificateIdsRequest_payload, schema_GetInstalledCertificateIdsRequest),
     (V201GetInstalledCertificateIdsResponse_payload, schema_GetInstalledCertificateIdsResponse),
     (V201GetLocalListVersionRequest_payload, schema_GetLocalListVersionRequest),
     (V201GetLocalListVersionResponse_payload, schema_GetLocalListVersionResponse),
     (V201GetLogRequest_payload, schema_GetLogRequest),
     (V201GetLogResponse_payload, schema_GetLogResponse),
     (V201GetMonitoringReportRequest_payload, schema_GetMonitoringReportRequest),
     (V201GetMonitoringReportResponse_payload, schema_GetMonitoringReportResponse),
     (V201GetReportRequest_payload, schema_GetReportRequest),
     (V201GetReportResponse_payload, schema_GetReportResponse),
     (V201GetTransactionStatusRequest_payload, schema_GetTransactionStatusRequest),
     (V201GetTransactionStatusResponse_payload, schema_GetTransactionStatusResponse),
     (V201GetVariablesRequest_payload, schema_GetVariablesRequest),
     (V201GetVariablesResponse_payload, schema_GetVariablesResponse),
     (V201HeartbeatRequest_payload, schema_HeartbeatRequest),
     (V201HeartbeatResponse_payload, schema_HeartbeatResponse),
     (V201InstallCertificateRequest_payload, schema_InstallCertificateRequest),
     (V201InstallCertificateResponse_payload, schema_InstallCertificateResponse),
     (V201LogStatusNotificationRequest_payload, schema_LogStatusNotificationRequest),
     (V201LogStatusNotificationResponse_payload, schema_LogStatusNotificationResponse),
     (V201MeterValuesRequest_payload, schema_MeterValuesRequest),
     (V201MeterValuesResponse_payload, schema_MeterValuesResponse),
     (V201NotifyChargingLimitRequest_payload, schema_NotifyChargingLimitRequest),
     (V201NotifyChargingLimitResponse_payload, schema_NotifyChargingLimitResponse),
     (V201NotifyCustomerInformationRequest_payload, schema_NotifyCustomerInformationRequest),
     (V201NotifyCustomerInformationResponse_payload, schema_NotifyCustomerInformationResponse),
     (V201NotifyDisplayMessagesRequest_payload, schema_NotifyDisplayMessagesRequest),
     (V201NotifyDisplayMessagesResponse_payload, schema_NotifyDisplayMessagesResponse),
     (V201NotifyEVChargingNeedsRequest_payload, schema_NotifyEVChargingNeedsRequest),
     (V201NotifyEVChargingNeedsResponse_payload, schema_NotifyEVChargingNeedsResponse),
     (V201NotifyEVChargingScheduleRequest_payload, schema_NotifyEVChargingScheduleRequest),
     (V201NotifyEVChargingScheduleResponse_payload, schema_NotifyEVChargingScheduleResponse),
     (V201NotifyEventRequest_payload, schema_NotifyEventRequest),
     (V201NotifyEventResponse_payload, schema_NotifyEventResponse),
     (V201NotifyMonitoringReportRequest_payload, schema_NotifyMonitoringReportRequest),
     (V201NotifyMonitoringReportResponse_payload, schema_NotifyMonitoringReportResponse),
     (V201NotifyReportRequest_payload, schema_NotifyReportRequest),
     (V201NotifyReportResponse_payload, schema_NotifyReportResponse),
     (V201PublishFirmwareRequest_payload, schema_PublishFirmwareRequest),
     (V201PublishFirmwareResponse_payload, schema_PublishFirmwareResponse),
     (V201PublishFirmwareStatusNotificationRequest_payload, schema_PublishFirmwareStatusNotificationRequest),
     (V201PublishFirmwareStatusNotificationResponse_payload, schema_PublishFirmwareStatusNotificationResponse),
     (V201ReportChargingProfilesRequest_payload, schema_ReportChargingProfilesRequest),
     (V201ReportChargingProfilesResponse_payload, schema_ReportChargingProfilesResponse),
     (V201RequestStartTransactionRequest_payload, schema_RequestStartTransactionRequest),
     (V201RequestStartTransactionResponse_payload, schema_RequestStartTransactionResponse),
     (V201RequestStopTransactionRequest_payload, schema_RequestStopTransactionRequest),
     (V201RequestStopTransactionResponse_payload, schema_RequestStopTransactionResponse),
     (V201ReservationStatusUpdateRequest_payload, schema_ReservationStatusUpdateRequest),
     (V201ReservationStatusUpdateResponse_payload, schema_ReservationStatusUpdateResponse),
     (V201ReserveNowRequest_payload, schema_ReserveNowRequest),
     (V201ReserveNowResponse_payload, schema_ReserveNowResponse),
     (V201ResetRequest_payload, schema_ResetRequest),
     (V201ResetResponse_payload, schema_ResetResponse),
     (V201SecurityEventNotificationRequest_payload, schema_SecurityEventNotificationRequest),
     (V201SecurityEventNotificationResponse_payload, schema_SecurityEventNotificationResponse),
     (V201SendLocalListRequest_payload, schema_SendLocalListRequest),
     (V201SendLocalListResponse_payload, schema_SendLocalListResponse),
     (V201SetChargingProfileRequest_payload, schema_SetChargingProfileRequest),
     (V201SetChargingProfileResponse_payload, schema_SetChargingProfileResponse),
     (V201SetDisplayMessageRequest_payload, schema_SetDisplayMessageRequest),
     (V201SetDisplayMessageResponse_payload, schema_SetDisplayMessageResponse),
     (V201SetMonitoringBaseRequest_payload, schema_SetMonitoringBaseRequest),
     (V201SetMonitoringBaseResponse_payload, schema_SetMonitoringBaseResponse),
     (V201SetMonitoringLevelRequest_payload, schema_SetMonitoringLevelRequest),
     (V201SetMonitoringLevelResponse_payload, schema_SetMonitoringLevelResponse),
     (V201SetNetworkProfileRequest_payload, schema_SetNetworkProfileRequest),
     (V201SetNetworkProfileResponse_payload, schema_SetNetworkProfileResponse),
     (V201SetVariableMonitoringRequest_payload, schema_SetVariableMonitoringRequest),
     (V201SetVariableMonitoringResponse_payload, schema_SetVariableMonitoringResponse),
     (V201SetVariablesRequest_payload, schema_SetVariablesRequest),
     (V201SetVariablesResponse_payload, schema_SetVariablesResponse),
     (V201SignCertificateRequest_payload, schema_SignCertificateRequest),
     (V201SignCertificateResponse_payload, schema_SignCertificateResponse),
     (V201StatusNotificationRequest_payload, schema_StatusNotificationRequest),
     (V201StatusNotificationResponse_payload, schema_StatusNotificationResponse),
     (V201TransactionEventRequest_payload, schema_TransactionEventRequest),
     (V201TransactionEventResponse_payload, schema_TransactionEventResponse),
     (V201TriggerMessageRequest_payload, schema_TriggerMessageRequest),
     (V201TriggerMessageResponse_payload, schema_TriggerMessageResponse),
     (V201UnlockConnectorRequest_payload, schema_UnlockConnectorRequest),
     (V201UnlockConnectorResponse_payload, schema_UnlockConnectorResponse),
     (V201UnpublishFirmwareRequest_payload, schema_UnpublishFirmwareRequest),
     (V201UnpublishFirmwareResponse_payload, schema_UnpublishFirmwareResponse),
     (V201UpdateFirmwareRequest_payload, schema_UpdateFirmwareRequest),
     (V201UpdateFirmwareResponse_payload, schema_UpdateFirmwareResponse)]"

section \<open>Agreement of the parts\<close>

lemma IdTokenEnumType_agrees [wire_agree]:
  "conforms IdTokenEnumType_shape schema_IdTokenEnumType"
  "covers IdTokenEnumType_shape schema_IdTokenEnumType"
  by (simp_all add: IdTokenEnumType_shape_def IdTokenEnumType_all_def schema_IdTokenEnumType_def wire_agree)

lemma CustomDataType_agrees [wire_agree]:
  "conforms CustomDataType_shape schema_CustomDataType"
  "covers CustomDataType_shape schema_CustomDataType"
  by (simp_all add: CustomDataType_shape_def schema_CustomDataType_def wire_agree)

lemma AdditionalInfoType_agrees [wire_agree]:
  "conforms AdditionalInfoType_shape schema_AdditionalInfoType"
  "covers AdditionalInfoType_shape schema_AdditionalInfoType"
  by (simp_all add: AdditionalInfoType_shape_def schema_AdditionalInfoType_def wire_agree)

lemma IdTokenType_agrees [wire_agree]:
  "conforms IdTokenType_shape schema_IdTokenType"
  "covers IdTokenType_shape schema_IdTokenType"
  by (simp_all add: IdTokenType_shape_def schema_IdTokenType_def wire_agree)

lemma HashAlgorithmEnumType_agrees [wire_agree]:
  "conforms HashAlgorithmEnumType_shape schema_HashAlgorithmEnumType"
  "covers HashAlgorithmEnumType_shape schema_HashAlgorithmEnumType"
  by (simp_all add: HashAlgorithmEnumType_shape_def HashAlgorithmEnumType_all_def schema_HashAlgorithmEnumType_def wire_agree)

lemma OCSPRequestDataType_agrees [wire_agree]:
  "conforms OCSPRequestDataType_shape schema_OCSPRequestDataType"
  "covers OCSPRequestDataType_shape schema_OCSPRequestDataType"
  by (simp_all add: OCSPRequestDataType_shape_def schema_OCSPRequestDataType_def wire_agree)

lemma AuthorizationStatusEnumType_agrees [wire_agree]:
  "conforms AuthorizationStatusEnumType_shape schema_AuthorizationStatusEnumType"
  "covers AuthorizationStatusEnumType_shape schema_AuthorizationStatusEnumType"
  by (simp_all add: AuthorizationStatusEnumType_shape_def AuthorizationStatusEnumType_all_def schema_AuthorizationStatusEnumType_def wire_agree)

lemma MessageFormatEnumType_agrees [wire_agree]:
  "conforms MessageFormatEnumType_shape schema_MessageFormatEnumType"
  "covers MessageFormatEnumType_shape schema_MessageFormatEnumType"
  by (simp_all add: MessageFormatEnumType_shape_def MessageFormatEnumType_all_def schema_MessageFormatEnumType_def wire_agree)

lemma MessageContentType_agrees [wire_agree]:
  "conforms MessageContentType_shape schema_MessageContentType"
  "covers MessageContentType_shape schema_MessageContentType"
  by (simp_all add: MessageContentType_shape_def schema_MessageContentType_def wire_agree)

lemma IdTokenInfoType_agrees [wire_agree]:
  "conforms IdTokenInfoType_shape schema_IdTokenInfoType"
  "covers IdTokenInfoType_shape schema_IdTokenInfoType"
  by (simp_all add: IdTokenInfoType_shape_def schema_IdTokenInfoType_def wire_agree)

lemma AuthorizeCertificateStatusEnumType_agrees [wire_agree]:
  "conforms AuthorizeCertificateStatusEnumType_shape schema_AuthorizeCertificateStatusEnumType"
  "covers AuthorizeCertificateStatusEnumType_shape schema_AuthorizeCertificateStatusEnumType"
  by (simp_all add: AuthorizeCertificateStatusEnumType_shape_def AuthorizeCertificateStatusEnumType_all_def schema_AuthorizeCertificateStatusEnumType_def wire_agree)

lemma ModemType_agrees [wire_agree]:
  "conforms ModemType_shape schema_ModemType"
  "covers ModemType_shape schema_ModemType"
  by (simp_all add: ModemType_shape_def schema_ModemType_def wire_agree)

lemma ChargingStationType_agrees [wire_agree]:
  "conforms ChargingStationType_shape schema_ChargingStationType"
  "covers ChargingStationType_shape schema_ChargingStationType"
  by (simp_all add: ChargingStationType_shape_def schema_ChargingStationType_def wire_agree)

lemma BootReasonEnumType_agrees [wire_agree]:
  "conforms BootReasonEnumType_shape schema_BootReasonEnumType"
  "covers BootReasonEnumType_shape schema_BootReasonEnumType"
  by (simp_all add: BootReasonEnumType_shape_def BootReasonEnumType_all_def schema_BootReasonEnumType_def wire_agree)

lemma RegistrationStatusEnumType_agrees [wire_agree]:
  "conforms RegistrationStatusEnumType_shape schema_RegistrationStatusEnumType"
  "covers RegistrationStatusEnumType_shape schema_RegistrationStatusEnumType"
  by (simp_all add: RegistrationStatusEnumType_shape_def RegistrationStatusEnumType_all_def schema_RegistrationStatusEnumType_def wire_agree)

lemma StatusInfoType_agrees [wire_agree]:
  "conforms StatusInfoType_shape schema_StatusInfoType"
  "covers StatusInfoType_shape schema_StatusInfoType"
  by (simp_all add: StatusInfoType_shape_def schema_StatusInfoType_def wire_agree)

lemma CancelReservationStatusEnumType_agrees [wire_agree]:
  "conforms CancelReservationStatusEnumType_shape schema_CancelReservationStatusEnumType"
  "covers CancelReservationStatusEnumType_shape schema_CancelReservationStatusEnumType"
  by (simp_all add: CancelReservationStatusEnumType_shape_def CancelReservationStatusEnumType_all_def schema_CancelReservationStatusEnumType_def wire_agree)

lemma CertificateSigningUseEnumType_agrees [wire_agree]:
  "conforms CertificateSigningUseEnumType_shape schema_CertificateSigningUseEnumType"
  "covers CertificateSigningUseEnumType_shape schema_CertificateSigningUseEnumType"
  by (simp_all add: CertificateSigningUseEnumType_shape_def CertificateSigningUseEnumType_all_def schema_CertificateSigningUseEnumType_def wire_agree)

lemma CertificateSignedStatusEnumType_agrees [wire_agree]:
  "conforms CertificateSignedStatusEnumType_shape schema_CertificateSignedStatusEnumType"
  "covers CertificateSignedStatusEnumType_shape schema_CertificateSignedStatusEnumType"
  by (simp_all add: CertificateSignedStatusEnumType_shape_def CertificateSignedStatusEnumType_all_def schema_CertificateSignedStatusEnumType_def wire_agree)

lemma OperationalStatusEnumType_agrees [wire_agree]:
  "conforms OperationalStatusEnumType_shape schema_OperationalStatusEnumType"
  "covers OperationalStatusEnumType_shape schema_OperationalStatusEnumType"
  by (simp_all add: OperationalStatusEnumType_shape_def OperationalStatusEnumType_all_def schema_OperationalStatusEnumType_def wire_agree)

lemma EvseType_agrees [wire_agree]:
  "conforms EvseType_shape schema_EVSEType"
  "covers EvseType_shape schema_EVSEType"
  by (simp_all add: EvseType_shape_def schema_EVSEType_def wire_agree)

lemma ChangeAvailabilityStatusEnumType_agrees [wire_agree]:
  "conforms ChangeAvailabilityStatusEnumType_shape schema_ChangeAvailabilityStatusEnumType"
  "covers ChangeAvailabilityStatusEnumType_shape schema_ChangeAvailabilityStatusEnumType"
  by (simp_all add: ChangeAvailabilityStatusEnumType_shape_def ChangeAvailabilityStatusEnumType_all_def schema_ChangeAvailabilityStatusEnumType_def wire_agree)

lemma ClearCacheStatusEnumType_agrees [wire_agree]:
  "conforms ClearCacheStatusEnumType_shape schema_ClearCacheStatusEnumType"
  "covers ClearCacheStatusEnumType_shape schema_ClearCacheStatusEnumType"
  by (simp_all add: ClearCacheStatusEnumType_shape_def ClearCacheStatusEnumType_all_def schema_ClearCacheStatusEnumType_def wire_agree)

lemma ChargingProfilePurposeEnumType_agrees [wire_agree]:
  "conforms ChargingProfilePurposeEnumType_shape schema_ChargingProfilePurposeEnumType"
  "covers ChargingProfilePurposeEnumType_shape schema_ChargingProfilePurposeEnumType"
  by (simp_all add: ChargingProfilePurposeEnumType_shape_def ChargingProfilePurposeEnumType_all_def schema_ChargingProfilePurposeEnumType_def wire_agree)

lemma ClearChargingProfileType_agrees [wire_agree]:
  "conforms ClearChargingProfileType_shape schema_ClearChargingProfileType"
  "covers ClearChargingProfileType_shape schema_ClearChargingProfileType"
  by (simp_all add: ClearChargingProfileType_shape_def schema_ClearChargingProfileType_def wire_agree)

lemma ClearChargingProfileStatusEnumType_agrees [wire_agree]:
  "conforms ClearChargingProfileStatusEnumType_shape schema_ClearChargingProfileStatusEnumType"
  "covers ClearChargingProfileStatusEnumType_shape schema_ClearChargingProfileStatusEnumType"
  by (simp_all add: ClearChargingProfileStatusEnumType_shape_def ClearChargingProfileStatusEnumType_all_def schema_ClearChargingProfileStatusEnumType_def wire_agree)

lemma ClearMessageStatusEnumType_agrees [wire_agree]:
  "conforms ClearMessageStatusEnumType_shape schema_ClearMessageStatusEnumType"
  "covers ClearMessageStatusEnumType_shape schema_ClearMessageStatusEnumType"
  by (simp_all add: ClearMessageStatusEnumType_shape_def ClearMessageStatusEnumType_all_def schema_ClearMessageStatusEnumType_def wire_agree)

lemma ClearMonitoringStatusEnumType_agrees [wire_agree]:
  "conforms ClearMonitoringStatusEnumType_shape schema_ClearMonitoringStatusEnumType"
  "covers ClearMonitoringStatusEnumType_shape schema_ClearMonitoringStatusEnumType"
  by (simp_all add: ClearMonitoringStatusEnumType_shape_def ClearMonitoringStatusEnumType_all_def schema_ClearMonitoringStatusEnumType_def wire_agree)

lemma ClearMonitoringResultType_agrees [wire_agree]:
  "conforms ClearMonitoringResultType_shape schema_ClearMonitoringResultType"
  "covers ClearMonitoringResultType_shape schema_ClearMonitoringResultType"
  by (simp_all add: ClearMonitoringResultType_shape_def schema_ClearMonitoringResultType_def wire_agree)

lemma ChargingLimitSourceEnumType_agrees [wire_agree]:
  "conforms ChargingLimitSourceEnumType_shape schema_ChargingLimitSourceEnumType"
  "covers ChargingLimitSourceEnumType_shape schema_ChargingLimitSourceEnumType"
  by (simp_all add: ChargingLimitSourceEnumType_shape_def ChargingLimitSourceEnumType_all_def schema_ChargingLimitSourceEnumType_def wire_agree)

lemma CertificateHashDataType_agrees [wire_agree]:
  "conforms CertificateHashDataType_shape schema_CertificateHashDataType"
  "covers CertificateHashDataType_shape schema_CertificateHashDataType"
  by (simp_all add: CertificateHashDataType_shape_def schema_CertificateHashDataType_def wire_agree)

lemma CustomerInformationStatusEnumType_agrees [wire_agree]:
  "conforms CustomerInformationStatusEnumType_shape schema_CustomerInformationStatusEnumType"
  "covers CustomerInformationStatusEnumType_shape schema_CustomerInformationStatusEnumType"
  by (simp_all add: CustomerInformationStatusEnumType_shape_def CustomerInformationStatusEnumType_all_def schema_CustomerInformationStatusEnumType_def wire_agree)

lemma DataTransferStatusEnumType_agrees [wire_agree]:
  "conforms DataTransferStatusEnumType_shape schema_DataTransferStatusEnumType"
  "covers DataTransferStatusEnumType_shape schema_DataTransferStatusEnumType"
  by (simp_all add: DataTransferStatusEnumType_shape_def DataTransferStatusEnumType_all_def schema_DataTransferStatusEnumType_def wire_agree)

lemma DeleteCertificateStatusEnumType_agrees [wire_agree]:
  "conforms DeleteCertificateStatusEnumType_shape schema_DeleteCertificateStatusEnumType"
  "covers DeleteCertificateStatusEnumType_shape schema_DeleteCertificateStatusEnumType"
  by (simp_all add: DeleteCertificateStatusEnumType_shape_def DeleteCertificateStatusEnumType_all_def schema_DeleteCertificateStatusEnumType_def wire_agree)

lemma FirmwareStatusEnumType_agrees [wire_agree]:
  "conforms FirmwareStatusEnumType_shape schema_FirmwareStatusEnumType"
  "covers FirmwareStatusEnumType_shape schema_FirmwareStatusEnumType"
  by (simp_all add: FirmwareStatusEnumType_shape_def FirmwareStatusEnumType_all_def schema_FirmwareStatusEnumType_def wire_agree)

lemma CertificateActionEnumType_agrees [wire_agree]:
  "conforms CertificateActionEnumType_shape schema_CertificateActionEnumType"
  "covers CertificateActionEnumType_shape schema_CertificateActionEnumType"
  by (simp_all add: CertificateActionEnumType_shape_def CertificateActionEnumType_all_def schema_CertificateActionEnumType_def wire_agree)

lemma Iso15118EVCertificateStatusEnumType_agrees [wire_agree]:
  "conforms Iso15118EVCertificateStatusEnumType_shape schema_Iso15118EVCertificateStatusEnumType"
  "covers Iso15118EVCertificateStatusEnumType_shape schema_Iso15118EVCertificateStatusEnumType"
  by (simp_all add: Iso15118EVCertificateStatusEnumType_shape_def Iso15118EVCertificateStatusEnumType_all_def schema_Iso15118EVCertificateStatusEnumType_def wire_agree)

lemma ReportBaseEnumType_agrees [wire_agree]:
  "conforms ReportBaseEnumType_shape schema_ReportBaseEnumType"
  "covers ReportBaseEnumType_shape schema_ReportBaseEnumType"
  by (simp_all add: ReportBaseEnumType_shape_def ReportBaseEnumType_all_def schema_ReportBaseEnumType_def wire_agree)

lemma GenericDeviceModelStatusEnumType_agrees [wire_agree]:
  "conforms GenericDeviceModelStatusEnumType_shape schema_GenericDeviceModelStatusEnumType"
  "covers GenericDeviceModelStatusEnumType_shape schema_GenericDeviceModelStatusEnumType"
  by (simp_all add: GenericDeviceModelStatusEnumType_shape_def GenericDeviceModelStatusEnumType_all_def schema_GenericDeviceModelStatusEnumType_def wire_agree)

lemma GetCertificateStatusEnumType_agrees [wire_agree]:
  "conforms GetCertificateStatusEnumType_shape schema_GetCertificateStatusEnumType"
  "covers GetCertificateStatusEnumType_shape schema_GetCertificateStatusEnumType"
  by (simp_all add: GetCertificateStatusEnumType_shape_def GetCertificateStatusEnumType_all_def schema_GetCertificateStatusEnumType_def wire_agree)

lemma ChargingProfileCriterionType_agrees [wire_agree]:
  "conforms ChargingProfileCriterionType_shape schema_ChargingProfileCriterionType"
  "covers ChargingProfileCriterionType_shape schema_ChargingProfileCriterionType"
  by (simp_all add: ChargingProfileCriterionType_shape_def schema_ChargingProfileCriterionType_def wire_agree)

lemma GetChargingProfileStatusEnumType_agrees [wire_agree]:
  "conforms GetChargingProfileStatusEnumType_shape schema_GetChargingProfileStatusEnumType"
  "covers GetChargingProfileStatusEnumType_shape schema_GetChargingProfileStatusEnumType"
  by (simp_all add: GetChargingProfileStatusEnumType_shape_def GetChargingProfileStatusEnumType_all_def schema_GetChargingProfileStatusEnumType_def wire_agree)

lemma ChargingRateUnitEnumType_agrees [wire_agree]:
  "conforms ChargingRateUnitEnumType_shape schema_ChargingRateUnitEnumType"
  "covers ChargingRateUnitEnumType_shape schema_ChargingRateUnitEnumType"
  by (simp_all add: ChargingRateUnitEnumType_shape_def ChargingRateUnitEnumType_all_def schema_ChargingRateUnitEnumType_def wire_agree)

lemma GenericStatusEnumType_agrees [wire_agree]:
  "conforms GenericStatusEnumType_shape schema_GenericStatusEnumType"
  "covers GenericStatusEnumType_shape schema_GenericStatusEnumType"
  by (simp_all add: GenericStatusEnumType_shape_def GenericStatusEnumType_all_def schema_GenericStatusEnumType_def wire_agree)

lemma ChargingSchedulePeriodType_agrees [wire_agree]:
  "conforms ChargingSchedulePeriodType_shape schema_ChargingSchedulePeriodType"
  "covers ChargingSchedulePeriodType_shape schema_ChargingSchedulePeriodType"
  by (simp_all add: ChargingSchedulePeriodType_shape_def schema_ChargingSchedulePeriodType_def wire_agree)

lemma CompositeScheduleType_agrees [wire_agree]:
  "conforms CompositeScheduleType_shape schema_CompositeScheduleType"
  "covers CompositeScheduleType_shape schema_CompositeScheduleType"
  by (simp_all add: CompositeScheduleType_shape_def schema_CompositeScheduleType_def wire_agree)

lemma MessagePriorityEnumType_agrees [wire_agree]:
  "conforms MessagePriorityEnumType_shape schema_MessagePriorityEnumType"
  "covers MessagePriorityEnumType_shape schema_MessagePriorityEnumType"
  by (simp_all add: MessagePriorityEnumType_shape_def MessagePriorityEnumType_all_def schema_MessagePriorityEnumType_def wire_agree)

lemma MessageStateEnumType_agrees [wire_agree]:
  "conforms MessageStateEnumType_shape schema_MessageStateEnumType"
  "covers MessageStateEnumType_shape schema_MessageStateEnumType"
  by (simp_all add: MessageStateEnumType_shape_def MessageStateEnumType_all_def schema_MessageStateEnumType_def wire_agree)

lemma GetDisplayMessagesStatusEnumType_agrees [wire_agree]:
  "conforms GetDisplayMessagesStatusEnumType_shape schema_GetDisplayMessagesStatusEnumType"
  "covers GetDisplayMessagesStatusEnumType_shape schema_GetDisplayMessagesStatusEnumType"
  by (simp_all add: GetDisplayMessagesStatusEnumType_shape_def GetDisplayMessagesStatusEnumType_all_def schema_GetDisplayMessagesStatusEnumType_def wire_agree)

lemma GetCertificateIdUseEnumType_agrees [wire_agree]:
  "conforms GetCertificateIdUseEnumType_shape schema_GetCertificateIdUseEnumType"
  "covers GetCertificateIdUseEnumType_shape schema_GetCertificateIdUseEnumType"
  by (simp_all add: GetCertificateIdUseEnumType_shape_def GetCertificateIdUseEnumType_all_def schema_GetCertificateIdUseEnumType_def wire_agree)

lemma GetInstalledCertificateStatusEnumType_agrees [wire_agree]:
  "conforms GetInstalledCertificateStatusEnumType_shape schema_GetInstalledCertificateStatusEnumType"
  "covers GetInstalledCertificateStatusEnumType_shape schema_GetInstalledCertificateStatusEnumType"
  by (simp_all add: GetInstalledCertificateStatusEnumType_shape_def GetInstalledCertificateStatusEnumType_all_def schema_GetInstalledCertificateStatusEnumType_def wire_agree)

lemma CertificateHashDataChainType_agrees [wire_agree]:
  "conforms CertificateHashDataChainType_shape schema_CertificateHashDataChainType"
  "covers CertificateHashDataChainType_shape schema_CertificateHashDataChainType"
  by (simp_all add: CertificateHashDataChainType_shape_def schema_CertificateHashDataChainType_def wire_agree)

lemma LogParametersType_agrees [wire_agree]:
  "conforms LogParametersType_shape schema_LogParametersType"
  "covers LogParametersType_shape schema_LogParametersType"
  by (simp_all add: LogParametersType_shape_def schema_LogParametersType_def wire_agree)

lemma LogEnumType_agrees [wire_agree]:
  "conforms LogEnumType_shape schema_LogEnumType"
  "covers LogEnumType_shape schema_LogEnumType"
  by (simp_all add: LogEnumType_shape_def LogEnumType_all_def schema_LogEnumType_def wire_agree)

lemma LogStatusEnumType_agrees [wire_agree]:
  "conforms LogStatusEnumType_shape schema_LogStatusEnumType"
  "covers LogStatusEnumType_shape schema_LogStatusEnumType"
  by (simp_all add: LogStatusEnumType_shape_def LogStatusEnumType_all_def schema_LogStatusEnumType_def wire_agree)

lemma ComponentType_agrees [wire_agree]:
  "conforms ComponentType_shape schema_ComponentType"
  "covers ComponentType_shape schema_ComponentType"
  by (simp_all add: ComponentType_shape_def schema_ComponentType_def wire_agree)

lemma VariableType_agrees [wire_agree]:
  "conforms VariableType_shape schema_VariableType"
  "covers VariableType_shape schema_VariableType"
  by (simp_all add: VariableType_shape_def schema_VariableType_def wire_agree)

lemma ComponentVariableType_agrees [wire_agree]:
  "conforms ComponentVariableType_shape schema_ComponentVariableType"
  "covers ComponentVariableType_shape schema_ComponentVariableType"
  by (simp_all add: ComponentVariableType_shape_def schema_ComponentVariableType_def wire_agree)

lemma MonitoringCriterionEnumType_agrees [wire_agree]:
  "conforms MonitoringCriterionEnumType_shape schema_MonitoringCriterionEnumType"
  "covers MonitoringCriterionEnumType_shape schema_MonitoringCriterionEnumType"
  by (simp_all add: MonitoringCriterionEnumType_shape_def MonitoringCriterionEnumType_all_def schema_MonitoringCriterionEnumType_def wire_agree)

lemma ComponentCriterionEnumType_agrees [wire_agree]:
  "conforms ComponentCriterionEnumType_shape schema_ComponentCriterionEnumType"
  "covers ComponentCriterionEnumType_shape schema_ComponentCriterionEnumType"
  by (simp_all add: ComponentCriterionEnumType_shape_def ComponentCriterionEnumType_all_def schema_ComponentCriterionEnumType_def wire_agree)

lemma AttributeEnumType_agrees [wire_agree]:
  "conforms AttributeEnumType_shape schema_AttributeEnumType"
  "covers AttributeEnumType_shape schema_AttributeEnumType"
  by (simp_all add: AttributeEnumType_shape_def AttributeEnumType_all_def schema_AttributeEnumType_def wire_agree)

lemma GetVariableDataType_agrees [wire_agree]:
  "conforms GetVariableDataType_shape schema_GetVariableDataType"
  "covers GetVariableDataType_shape schema_GetVariableDataType"
  by (simp_all add: GetVariableDataType_shape_def schema_GetVariableDataType_def wire_agree)

lemma GetVariableStatusEnumType_agrees [wire_agree]:
  "conforms GetVariableStatusEnumType_shape schema_GetVariableStatusEnumType"
  "covers GetVariableStatusEnumType_shape schema_GetVariableStatusEnumType"
  by (simp_all add: GetVariableStatusEnumType_shape_def GetVariableStatusEnumType_all_def schema_GetVariableStatusEnumType_def wire_agree)

lemma GetVariableResultType_agrees [wire_agree]:
  "conforms GetVariableResultType_shape schema_GetVariableResultType"
  "covers GetVariableResultType_shape schema_GetVariableResultType"
  by (simp_all add: GetVariableResultType_shape_def schema_GetVariableResultType_def wire_agree)

lemma InstallCertificateUseEnumType_agrees [wire_agree]:
  "conforms InstallCertificateUseEnumType_shape schema_InstallCertificateUseEnumType"
  "covers InstallCertificateUseEnumType_shape schema_InstallCertificateUseEnumType"
  by (simp_all add: InstallCertificateUseEnumType_shape_def InstallCertificateUseEnumType_all_def schema_InstallCertificateUseEnumType_def wire_agree)

lemma InstallCertificateStatusEnumType_agrees [wire_agree]:
  "conforms InstallCertificateStatusEnumType_shape schema_InstallCertificateStatusEnumType"
  "covers InstallCertificateStatusEnumType_shape schema_InstallCertificateStatusEnumType"
  by (simp_all add: InstallCertificateStatusEnumType_shape_def InstallCertificateStatusEnumType_all_def schema_InstallCertificateStatusEnumType_def wire_agree)

lemma UploadLogStatusEnumType_agrees [wire_agree]:
  "conforms UploadLogStatusEnumType_shape schema_UploadLogStatusEnumType"
  "covers UploadLogStatusEnumType_shape schema_UploadLogStatusEnumType"
  by (simp_all add: UploadLogStatusEnumType_shape_def UploadLogStatusEnumType_all_def schema_UploadLogStatusEnumType_def wire_agree)

lemma ReadingContextEnumType_agrees [wire_agree]:
  "conforms ReadingContextEnumType_shape schema_ReadingContextEnumType"
  "covers ReadingContextEnumType_shape schema_ReadingContextEnumType"
  by (simp_all add: ReadingContextEnumType_shape_def ReadingContextEnumType_all_def schema_ReadingContextEnumType_def wire_agree)

lemma MeasurandEnumType_agrees [wire_agree]:
  "conforms MeasurandEnumType_shape schema_MeasurandEnumType"
  "covers MeasurandEnumType_shape schema_MeasurandEnumType"
  by (simp_all add: MeasurandEnumType_shape_def MeasurandEnumType_all_def schema_MeasurandEnumType_def wire_agree)

lemma PhaseEnumType_agrees [wire_agree]:
  "conforms PhaseEnumType_shape schema_PhaseEnumType"
  "covers PhaseEnumType_shape schema_PhaseEnumType"
  by (simp_all add: PhaseEnumType_shape_def PhaseEnumType_all_def schema_PhaseEnumType_def wire_agree)

lemma LocationEnumType_agrees [wire_agree]:
  "conforms LocationEnumType_shape schema_LocationEnumType"
  "covers LocationEnumType_shape schema_LocationEnumType"
  by (simp_all add: LocationEnumType_shape_def LocationEnumType_all_def schema_LocationEnumType_def wire_agree)

lemma SignedMeterValueType_agrees [wire_agree]:
  "conforms SignedMeterValueType_shape schema_SignedMeterValueType"
  "covers SignedMeterValueType_shape schema_SignedMeterValueType"
  by (simp_all add: SignedMeterValueType_shape_def schema_SignedMeterValueType_def wire_agree)

lemma UnitOfMeasureType_agrees [wire_agree]:
  "conforms UnitOfMeasureType_shape schema_UnitOfMeasureType"
  "covers UnitOfMeasureType_shape schema_UnitOfMeasureType"
  by (simp_all add: UnitOfMeasureType_shape_def schema_UnitOfMeasureType_def wire_agree)

lemma SampledValueType_agrees [wire_agree]:
  "conforms SampledValueType_shape schema_SampledValueType"
  "covers SampledValueType_shape schema_SampledValueType"
  by (simp_all add: SampledValueType_shape_def schema_SampledValueType_def wire_agree)

lemma MeterValueType_agrees [wire_agree]:
  "conforms MeterValueType_shape schema_MeterValueType"
  "covers MeterValueType_shape schema_MeterValueType"
  by (simp_all add: MeterValueType_shape_def schema_MeterValueType_def wire_agree)

lemma ChargingLimitType_agrees [wire_agree]:
  "conforms ChargingLimitType_shape schema_ChargingLimitType"
  "covers ChargingLimitType_shape schema_ChargingLimitType"
  by (simp_all add: ChargingLimitType_shape_def schema_ChargingLimitType_def wire_agree)

lemma RelativeTimeIntervalType_agrees [wire_agree]:
  "conforms RelativeTimeIntervalType_shape schema_RelativeTimeIntervalType"
  "covers RelativeTimeIntervalType_shape schema_RelativeTimeIntervalType"
  by (simp_all add: RelativeTimeIntervalType_shape_def schema_RelativeTimeIntervalType_def wire_agree)

lemma CostKindEnumType_agrees [wire_agree]:
  "conforms CostKindEnumType_shape schema_CostKindEnumType"
  "covers CostKindEnumType_shape schema_CostKindEnumType"
  by (simp_all add: CostKindEnumType_shape_def CostKindEnumType_all_def schema_CostKindEnumType_def wire_agree)

lemma CostType_agrees [wire_agree]:
  "conforms CostType_shape schema_CostType"
  "covers CostType_shape schema_CostType"
  by (simp_all add: CostType_shape_def schema_CostType_def wire_agree)

lemma ConsumptionCostType_agrees [wire_agree]:
  "conforms ConsumptionCostType_shape schema_ConsumptionCostType"
  "covers ConsumptionCostType_shape schema_ConsumptionCostType"
  by (simp_all add: ConsumptionCostType_shape_def schema_ConsumptionCostType_def wire_agree)

lemma SalesTariffEntryType_agrees [wire_agree]:
  "conforms SalesTariffEntryType_shape schema_SalesTariffEntryType"
  "covers SalesTariffEntryType_shape schema_SalesTariffEntryType"
  by (simp_all add: SalesTariffEntryType_shape_def schema_SalesTariffEntryType_def wire_agree)

lemma SalesTariffType_agrees [wire_agree]:
  "conforms SalesTariffType_shape schema_SalesTariffType"
  "covers SalesTariffType_shape schema_SalesTariffType"
  by (simp_all add: SalesTariffType_shape_def schema_SalesTariffType_def wire_agree)

lemma ChargingScheduleType_agrees [wire_agree]:
  "conforms ChargingScheduleType_shape schema_ChargingScheduleType"
  "covers ChargingScheduleType_shape schema_ChargingScheduleType"
  by (simp_all add: ChargingScheduleType_shape_def schema_ChargingScheduleType_def wire_agree)

lemma MessageInfoType_agrees [wire_agree]:
  "conforms MessageInfoType_shape schema_MessageInfoType"
  "covers MessageInfoType_shape schema_MessageInfoType"
  by (simp_all add: MessageInfoType_shape_def schema_MessageInfoType_def wire_agree)

lemma EnergyTransferModeEnumType_agrees [wire_agree]:
  "conforms EnergyTransferModeEnumType_shape schema_EnergyTransferModeEnumType"
  "covers EnergyTransferModeEnumType_shape schema_EnergyTransferModeEnumType"
  by (simp_all add: EnergyTransferModeEnumType_shape_def EnergyTransferModeEnumType_all_def schema_EnergyTransferModeEnumType_def wire_agree)

lemma ACChargingParametersType_agrees [wire_agree]:
  "conforms ACChargingParametersType_shape schema_ACChargingParametersType"
  "covers ACChargingParametersType_shape schema_ACChargingParametersType"
  by (simp_all add: ACChargingParametersType_shape_def schema_ACChargingParametersType_def wire_agree)

lemma DCChargingParametersType_agrees [wire_agree]:
  "conforms DCChargingParametersType_shape schema_DCChargingParametersType"
  "covers DCChargingParametersType_shape schema_DCChargingParametersType"
  by (simp_all add: DCChargingParametersType_shape_def schema_DCChargingParametersType_def wire_agree)

lemma ChargingNeedsType_agrees [wire_agree]:
  "conforms ChargingNeedsType_shape schema_ChargingNeedsType"
  "covers ChargingNeedsType_shape schema_ChargingNeedsType"
  by (simp_all add: ChargingNeedsType_shape_def schema_ChargingNeedsType_def wire_agree)

lemma NotifyEVChargingNeedsStatusEnumType_agrees [wire_agree]:
  "conforms NotifyEVChargingNeedsStatusEnumType_shape schema_NotifyEVChargingNeedsStatusEnumType"
  "covers NotifyEVChargingNeedsStatusEnumType_shape schema_NotifyEVChargingNeedsStatusEnumType"
  by (simp_all add: NotifyEVChargingNeedsStatusEnumType_shape_def NotifyEVChargingNeedsStatusEnumType_all_def schema_NotifyEVChargingNeedsStatusEnumType_def wire_agree)

lemma EventTriggerEnumType_agrees [wire_agree]:
  "conforms EventTriggerEnumType_shape schema_EventTriggerEnumType"
  "covers EventTriggerEnumType_shape schema_EventTriggerEnumType"
  by (simp_all add: EventTriggerEnumType_shape_def EventTriggerEnumType_all_def schema_EventTriggerEnumType_def wire_agree)

lemma EventNotificationEnumType_agrees [wire_agree]:
  "conforms EventNotificationEnumType_shape schema_EventNotificationEnumType"
  "covers EventNotificationEnumType_shape schema_EventNotificationEnumType"
  by (simp_all add: EventNotificationEnumType_shape_def EventNotificationEnumType_all_def schema_EventNotificationEnumType_def wire_agree)

lemma EventDataType_agrees [wire_agree]:
  "conforms EventDataType_shape schema_EventDataType"
  "covers EventDataType_shape schema_EventDataType"
  by (simp_all add: EventDataType_shape_def schema_EventDataType_def wire_agree)

lemma MonitorEnumType_agrees [wire_agree]:
  "conforms MonitorEnumType_shape schema_MonitorEnumType"
  "covers MonitorEnumType_shape schema_MonitorEnumType"
  by (simp_all add: MonitorEnumType_shape_def MonitorEnumType_all_def schema_MonitorEnumType_def wire_agree)

lemma VariableMonitoringType_agrees [wire_agree]:
  "conforms VariableMonitoringType_shape schema_VariableMonitoringType"
  "covers VariableMonitoringType_shape schema_VariableMonitoringType"
  by (simp_all add: VariableMonitoringType_shape_def schema_VariableMonitoringType_def wire_agree)

lemma MonitoringDataType_agrees [wire_agree]:
  "conforms MonitoringDataType_shape schema_MonitoringDataType"
  "covers MonitoringDataType_shape schema_MonitoringDataType"
  by (simp_all add: MonitoringDataType_shape_def schema_MonitoringDataType_def wire_agree)

lemma MutabilityEnumType_agrees [wire_agree]:
  "conforms MutabilityEnumType_shape schema_MutabilityEnumType"
  "covers MutabilityEnumType_shape schema_MutabilityEnumType"
  by (simp_all add: MutabilityEnumType_shape_def MutabilityEnumType_all_def schema_MutabilityEnumType_def wire_agree)

lemma VariableAttributeType_agrees [wire_agree]:
  "conforms VariableAttributeType_shape schema_VariableAttributeType"
  "covers VariableAttributeType_shape schema_VariableAttributeType"
  by (simp_all add: VariableAttributeType_shape_def schema_VariableAttributeType_def wire_agree)

lemma DataEnumType_agrees [wire_agree]:
  "conforms DataEnumType_shape schema_DataEnumType"
  "covers DataEnumType_shape schema_DataEnumType"
  by (simp_all add: DataEnumType_shape_def DataEnumType_all_def schema_DataEnumType_def wire_agree)

lemma VariableCharacteristicsType_agrees [wire_agree]:
  "conforms VariableCharacteristicsType_shape schema_VariableCharacteristicsType"
  "covers VariableCharacteristicsType_shape schema_VariableCharacteristicsType"
  by (simp_all add: VariableCharacteristicsType_shape_def schema_VariableCharacteristicsType_def wire_agree)

lemma ReportDataType_agrees [wire_agree]:
  "conforms ReportDataType_shape schema_ReportDataType"
  "covers ReportDataType_shape schema_ReportDataType"
  by (simp_all add: ReportDataType_shape_def schema_ReportDataType_def wire_agree)

lemma PublishFirmwareStatusEnumType_agrees [wire_agree]:
  "conforms PublishFirmwareStatusEnumType_shape schema_PublishFirmwareStatusEnumType"
  "covers PublishFirmwareStatusEnumType_shape schema_PublishFirmwareStatusEnumType"
  by (simp_all add: PublishFirmwareStatusEnumType_shape_def PublishFirmwareStatusEnumType_all_def schema_PublishFirmwareStatusEnumType_def wire_agree)

lemma ChargingProfileKindEnumType_agrees [wire_agree]:
  "conforms ChargingProfileKindEnumType_shape schema_ChargingProfileKindEnumType"
  "covers ChargingProfileKindEnumType_shape schema_ChargingProfileKindEnumType"
  by (simp_all add: ChargingProfileKindEnumType_shape_def ChargingProfileKindEnumType_all_def schema_ChargingProfileKindEnumType_def wire_agree)

lemma RecurrencyKindEnumType_agrees [wire_agree]:
  "conforms RecurrencyKindEnumType_shape schema_RecurrencyKindEnumType"
  "covers RecurrencyKindEnumType_shape schema_RecurrencyKindEnumType"
  by (simp_all add: RecurrencyKindEnumType_shape_def RecurrencyKindEnumType_all_def schema_RecurrencyKindEnumType_def wire_agree)

lemma ChargingProfileType_agrees [wire_agree]:
  "conforms ChargingProfileType_shape schema_ChargingProfileType"
  "covers ChargingProfileType_shape schema_ChargingProfileType"
  by (simp_all add: ChargingProfileType_shape_def schema_ChargingProfileType_def wire_agree)

lemma RequestStartStopStatusEnumType_agrees [wire_agree]:
  "conforms RequestStartStopStatusEnumType_shape schema_RequestStartStopStatusEnumType"
  "covers RequestStartStopStatusEnumType_shape schema_RequestStartStopStatusEnumType"
  by (simp_all add: RequestStartStopStatusEnumType_shape_def RequestStartStopStatusEnumType_all_def schema_RequestStartStopStatusEnumType_def wire_agree)

lemma ReservationUpdateStatusEnumType_agrees [wire_agree]:
  "conforms ReservationUpdateStatusEnumType_shape schema_ReservationUpdateStatusEnumType"
  "covers ReservationUpdateStatusEnumType_shape schema_ReservationUpdateStatusEnumType"
  by (simp_all add: ReservationUpdateStatusEnumType_shape_def ReservationUpdateStatusEnumType_all_def schema_ReservationUpdateStatusEnumType_def wire_agree)

lemma ConnectorEnumType_agrees [wire_agree]:
  "conforms ConnectorEnumType_shape schema_ConnectorEnumType"
  "covers ConnectorEnumType_shape schema_ConnectorEnumType"
  by (simp_all add: ConnectorEnumType_shape_def ConnectorEnumType_all_def schema_ConnectorEnumType_def wire_agree)

lemma ReserveNowStatusEnumType_agrees [wire_agree]:
  "conforms ReserveNowStatusEnumType_shape schema_ReserveNowStatusEnumType"
  "covers ReserveNowStatusEnumType_shape schema_ReserveNowStatusEnumType"
  by (simp_all add: ReserveNowStatusEnumType_shape_def ReserveNowStatusEnumType_all_def schema_ReserveNowStatusEnumType_def wire_agree)

lemma ResetEnumType_agrees [wire_agree]:
  "conforms ResetEnumType_shape schema_ResetEnumType"
  "covers ResetEnumType_shape schema_ResetEnumType"
  by (simp_all add: ResetEnumType_shape_def ResetEnumType_all_def schema_ResetEnumType_def wire_agree)

lemma ResetStatusEnumType_agrees [wire_agree]:
  "conforms ResetStatusEnumType_shape schema_ResetStatusEnumType"
  "covers ResetStatusEnumType_shape schema_ResetStatusEnumType"
  by (simp_all add: ResetStatusEnumType_shape_def ResetStatusEnumType_all_def schema_ResetStatusEnumType_def wire_agree)

lemma UpdateEnumType_agrees [wire_agree]:
  "conforms UpdateEnumType_shape schema_UpdateEnumType"
  "covers UpdateEnumType_shape schema_UpdateEnumType"
  by (simp_all add: UpdateEnumType_shape_def UpdateEnumType_all_def schema_UpdateEnumType_def wire_agree)

lemma AuthorizationData_agrees [wire_agree]:
  "conforms AuthorizationData_shape schema_AuthorizationData"
  "covers AuthorizationData_shape schema_AuthorizationData"
  by (simp_all add: AuthorizationData_shape_def schema_AuthorizationData_def wire_agree)

lemma SendLocalListStatusEnumType_agrees [wire_agree]:
  "conforms SendLocalListStatusEnumType_shape schema_SendLocalListStatusEnumType"
  "covers SendLocalListStatusEnumType_shape schema_SendLocalListStatusEnumType"
  by (simp_all add: SendLocalListStatusEnumType_shape_def SendLocalListStatusEnumType_all_def schema_SendLocalListStatusEnumType_def wire_agree)

lemma ChargingProfileStatusEnumType_agrees [wire_agree]:
  "conforms ChargingProfileStatusEnumType_shape schema_ChargingProfileStatusEnumType"
  "covers ChargingProfileStatusEnumType_shape schema_ChargingProfileStatusEnumType"
  by (simp_all add: ChargingProfileStatusEnumType_shape_def ChargingProfileStatusEnumType_all_def schema_ChargingProfileStatusEnumType_def wire_agree)

lemma DisplayMessageStatusEnumType_agrees [wire_agree]:
  "conforms DisplayMessageStatusEnumType_shape schema_DisplayMessageStatusEnumType"
  "covers DisplayMessageStatusEnumType_shape schema_DisplayMessageStatusEnumType"
  by (simp_all add: DisplayMessageStatusEnumType_shape_def DisplayMessageStatusEnumType_all_def schema_DisplayMessageStatusEnumType_def wire_agree)

lemma MonitorBaseEnumType_agrees [wire_agree]:
  "conforms MonitorBaseEnumType_shape schema_MonitoringBaseEnumType"
  "covers MonitorBaseEnumType_shape schema_MonitoringBaseEnumType"
  by (simp_all add: MonitorBaseEnumType_shape_def MonitorBaseEnumType_all_def schema_MonitoringBaseEnumType_def wire_agree)

lemma OCPPVersionEnumType_agrees [wire_agree]:
  "conforms OCPPVersionEnumType_shape schema_OCPPVersionEnumType"
  "covers OCPPVersionEnumType_shape schema_OCPPVersionEnumType"
  by (simp_all add: OCPPVersionEnumType_shape_def OCPPVersionEnumType_all_def schema_OCPPVersionEnumType_def wire_agree)

lemma OCPPTransportEnumType_agrees [wire_agree]:
  "conforms OCPPTransportEnumType_shape schema_OCPPTransportEnumType"
  "covers OCPPTransportEnumType_shape schema_OCPPTransportEnumType"
  by (simp_all add: OCPPTransportEnumType_shape_def OCPPTransportEnumType_all_def schema_OCPPTransportEnumType_def wire_agree)

lemma OCPPInterfaceEnumType_agrees [wire_agree]:
  "conforms OCPPInterfaceEnumType_shape schema_OCPPInterfaceEnumType"
  "covers OCPPInterfaceEnumType_shape schema_OCPPInterfaceEnumType"
  by (simp_all add: OCPPInterfaceEnumType_shape_def OCPPInterfaceEnumType_all_def schema_OCPPInterfaceEnumType_def wire_agree)

lemma APNAuthenticationEnumType_agrees [wire_agree]:
  "conforms APNAuthenticationEnumType_shape schema_APNAuthenticationEnumType"
  "covers APNAuthenticationEnumType_shape schema_APNAuthenticationEnumType"
  by (simp_all add: APNAuthenticationEnumType_shape_def APNAuthenticationEnumType_all_def schema_APNAuthenticationEnumType_def wire_agree)

lemma APNType_agrees [wire_agree]:
  "conforms APNType_shape schema_APNType"
  "covers APNType_shape schema_APNType"
  by (simp_all add: APNType_shape_def schema_APNType_def wire_agree)

lemma VPNEnumType_agrees [wire_agree]:
  "conforms VPNEnumType_shape schema_VPNEnumType"
  "covers VPNEnumType_shape schema_VPNEnumType"
  by (simp_all add: VPNEnumType_shape_def VPNEnumType_all_def schema_VPNEnumType_def wire_agree)

lemma VPNType_agrees [wire_agree]:
  "conforms VPNType_shape schema_VPNType"
  "covers VPNType_shape schema_VPNType"
  by (simp_all add: VPNType_shape_def schema_VPNType_def wire_agree)

lemma NetworkConnectionProfileType_agrees [wire_agree]:
  "conforms NetworkConnectionProfileType_shape schema_NetworkConnectionProfileType"
  "covers NetworkConnectionProfileType_shape schema_NetworkConnectionProfileType"
  by (simp_all add: NetworkConnectionProfileType_shape_def schema_NetworkConnectionProfileType_def wire_agree)

lemma SetNetworkProfileStatusEnumType_agrees [wire_agree]:
  "conforms SetNetworkProfileStatusEnumType_shape schema_SetNetworkProfileStatusEnumType"
  "covers SetNetworkProfileStatusEnumType_shape schema_SetNetworkProfileStatusEnumType"
  by (simp_all add: SetNetworkProfileStatusEnumType_shape_def SetNetworkProfileStatusEnumType_all_def schema_SetNetworkProfileStatusEnumType_def wire_agree)

lemma SetMonitoringDataType_agrees [wire_agree]:
  "conforms SetMonitoringDataType_shape schema_SetMonitoringDataType"
  "covers SetMonitoringDataType_shape schema_SetMonitoringDataType"
  by (simp_all add: SetMonitoringDataType_shape_def schema_SetMonitoringDataType_def wire_agree)

lemma SetMonitoringStatusEnumType_agrees [wire_agree]:
  "conforms SetMonitoringStatusEnumType_shape schema_SetMonitoringStatusEnumType"
  "covers SetMonitoringStatusEnumType_shape schema_SetMonitoringStatusEnumType"
  by (simp_all add: SetMonitoringStatusEnumType_shape_def SetMonitoringStatusEnumType_all_def schema_SetMonitoringStatusEnumType_def wire_agree)

lemma SetMonitoringResultType_agrees [wire_agree]:
  "conforms SetMonitoringResultType_shape schema_SetMonitoringResultType"
  "covers SetMonitoringResultType_shape schema_SetMonitoringResultType"
  by (simp_all add: SetMonitoringResultType_shape_def schema_SetMonitoringResultType_def wire_agree)

lemma SetVariableDataType_agrees [wire_agree]:
  "conforms SetVariableDataType_shape schema_SetVariableDataType"
  "covers SetVariableDataType_shape schema_SetVariableDataType"
  by (simp_all add: SetVariableDataType_shape_def schema_SetVariableDataType_def wire_agree)

lemma SetVariableStatusEnumType_agrees [wire_agree]:
  "conforms SetVariableStatusEnumType_shape schema_SetVariableStatusEnumType"
  "covers SetVariableStatusEnumType_shape schema_SetVariableStatusEnumType"
  by (simp_all add: SetVariableStatusEnumType_shape_def SetVariableStatusEnumType_all_def schema_SetVariableStatusEnumType_def wire_agree)

lemma SetVariableResultType_agrees [wire_agree]:
  "conforms SetVariableResultType_shape schema_SetVariableResultType"
  "covers SetVariableResultType_shape schema_SetVariableResultType"
  by (simp_all add: SetVariableResultType_shape_def schema_SetVariableResultType_def wire_agree)

lemma ConnectorStatusEnumType_agrees [wire_agree]:
  "conforms ConnectorStatusEnumType_shape schema_ConnectorStatusEnumType"
  "covers ConnectorStatusEnumType_shape schema_ConnectorStatusEnumType"
  by (simp_all add: ConnectorStatusEnumType_shape_def ConnectorStatusEnumType_all_def schema_ConnectorStatusEnumType_def wire_agree)

lemma TransactionEventEnumType_agrees [wire_agree]:
  "conforms TransactionEventEnumType_shape schema_TransactionEventEnumType"
  "covers TransactionEventEnumType_shape schema_TransactionEventEnumType"
  by (simp_all add: TransactionEventEnumType_shape_def TransactionEventEnumType_all_def schema_TransactionEventEnumType_def wire_agree)

lemma TriggerReasonEnumType_agrees [wire_agree]:
  "conforms TriggerReasonEnumType_shape schema_TriggerReasonEnumType"
  "covers TriggerReasonEnumType_shape schema_TriggerReasonEnumType"
  by (simp_all add: TriggerReasonEnumType_shape_def TriggerReasonEnumType_all_def schema_TriggerReasonEnumType_def wire_agree)

lemma ChargingStateEnumType_agrees [wire_agree]:
  "conforms ChargingStateEnumType_shape schema_ChargingStateEnumType"
  "covers ChargingStateEnumType_shape schema_ChargingStateEnumType"
  by (simp_all add: ChargingStateEnumType_shape_def ChargingStateEnumType_all_def schema_ChargingStateEnumType_def wire_agree)

lemma ReasonEnumType_agrees [wire_agree]:
  "conforms ReasonEnumType_shape schema_ReasonEnumType"
  "covers ReasonEnumType_shape schema_ReasonEnumType"
  by (simp_all add: ReasonEnumType_shape_def ReasonEnumType_all_def schema_ReasonEnumType_def wire_agree)

lemma TransactionType_agrees [wire_agree]:
  "conforms TransactionType_shape schema_TransactionType"
  "covers TransactionType_shape schema_TransactionType"
  by (simp_all add: TransactionType_shape_def schema_TransactionType_def wire_agree)

lemma MessageTriggerEnumType_agrees [wire_agree]:
  "conforms MessageTriggerEnumType_shape schema_MessageTriggerEnumType"
  "covers MessageTriggerEnumType_shape schema_MessageTriggerEnumType"
  by (simp_all add: MessageTriggerEnumType_shape_def MessageTriggerEnumType_all_def schema_MessageTriggerEnumType_def wire_agree)

lemma TriggerMessageStatusEnumType_agrees [wire_agree]:
  "conforms TriggerMessageStatusEnumType_shape schema_TriggerMessageStatusEnumType"
  "covers TriggerMessageStatusEnumType_shape schema_TriggerMessageStatusEnumType"
  by (simp_all add: TriggerMessageStatusEnumType_shape_def TriggerMessageStatusEnumType_all_def schema_TriggerMessageStatusEnumType_def wire_agree)

lemma UnlockStatusEnumType_agrees [wire_agree]:
  "conforms UnlockStatusEnumType_shape schema_UnlockStatusEnumType"
  "covers UnlockStatusEnumType_shape schema_UnlockStatusEnumType"
  by (simp_all add: UnlockStatusEnumType_shape_def UnlockStatusEnumType_all_def schema_UnlockStatusEnumType_def wire_agree)

lemma UnpublishFirmwareStatusEnumType_agrees [wire_agree]:
  "conforms UnpublishFirmwareStatusEnumType_shape schema_UnpublishFirmwareStatusEnumType"
  "covers UnpublishFirmwareStatusEnumType_shape schema_UnpublishFirmwareStatusEnumType"
  by (simp_all add: UnpublishFirmwareStatusEnumType_shape_def UnpublishFirmwareStatusEnumType_all_def schema_UnpublishFirmwareStatusEnumType_def wire_agree)

lemma FirmwareType_agrees [wire_agree]:
  "conforms FirmwareType_shape schema_FirmwareType"
  "covers FirmwareType_shape schema_FirmwareType"
  by (simp_all add: FirmwareType_shape_def schema_FirmwareType_def wire_agree)

lemma UpdateFirmwareStatusEnumType_agrees [wire_agree]:
  "conforms UpdateFirmwareStatusEnumType_shape schema_UpdateFirmwareStatusEnumType"
  "covers UpdateFirmwareStatusEnumType_shape schema_UpdateFirmwareStatusEnumType"
  by (simp_all add: UpdateFirmwareStatusEnumType_shape_def UpdateFirmwareStatusEnumType_all_def schema_UpdateFirmwareStatusEnumType_def wire_agree)

lemmas payload201_defs =
  V201AuthorizeRequest_payload_def schema_AuthorizeRequest_def
  V201AuthorizeResponse_payload_def schema_AuthorizeResponse_def
  V201BootNotificationRequest_payload_def schema_BootNotificationRequest_def
  V201BootNotificationResponse_payload_def schema_BootNotificationResponse_def
  V201CancelReservationRequest_payload_def schema_CancelReservationRequest_def
  V201CancelReservationResponse_payload_def schema_CancelReservationResponse_def
  V201CertificateSignedRequest_payload_def schema_CertificateSignedRequest_def
  V201CertificateSignedResponse_payload_def schema_CertificateSignedResponse_def
  V201ChangeAvailabilityRequest_payload_def schema_ChangeAvailabilityRequest_def
  V201ChangeAvailabilityResponse_payload_def schema_ChangeAvailabilityResponse_def
  V201ClearCacheRequest_payload_def schema_ClearCacheRequest_def
  V201ClearCacheResponse_payload_def schema_ClearCacheResponse_def
  V201ClearChargingProfileRequest_payload_def schema_ClearChargingProfileRequest_def
  V201ClearChargingProfileResponse_payload_def schema_ClearChargingProfileResponse_def
  V201ClearDisplayMessageRequest_payload_def schema_ClearDisplayMessageRequest_def
  V201ClearDisplayMessageResponse_payload_def schema_ClearDisplayMessageResponse_def
  V201ClearVariableMonitoringRequest_payload_def schema_ClearVariableMonitoringRequest_def
  V201ClearVariableMonitoringResponse_payload_def schema_ClearVariableMonitoringResponse_def
  V201ClearedChargingLimitRequest_payload_def schema_ClearedChargingLimitRequest_def
  V201ClearedChargingLimitResponse_payload_def schema_ClearedChargingLimitResponse_def
  V201CostUpdatedRequest_payload_def schema_CostUpdatedRequest_def
  V201CostUpdatedResponse_payload_def schema_CostUpdatedResponse_def
  V201CustomerInformationRequest_payload_def schema_CustomerInformationRequest_def
  V201CustomerInformationResponse_payload_def schema_CustomerInformationResponse_def
  V201DataTransferRequest_payload_def schema_DataTransferRequest_def
  V201DataTransferResponse_payload_def schema_DataTransferResponse_def
  V201DeleteCertificateRequest_payload_def schema_DeleteCertificateRequest_def
  V201DeleteCertificateResponse_payload_def schema_DeleteCertificateResponse_def
  V201FirmwareStatusNotificationRequest_payload_def schema_FirmwareStatusNotificationRequest_def
  V201FirmwareStatusNotificationResponse_payload_def schema_FirmwareStatusNotificationResponse_def
  V201Get15118EVCertificateRequest_payload_def schema_Get15118EVCertificateRequest_def
  V201Get15118EVCertificateResponse_payload_def schema_Get15118EVCertificateResponse_def
  V201GetBaseReportRequest_payload_def schema_GetBaseReportRequest_def
  V201GetBaseReportResponse_payload_def schema_GetBaseReportResponse_def
  V201GetCertificateStatusRequest_payload_def schema_GetCertificateStatusRequest_def
  V201GetCertificateStatusResponse_payload_def schema_GetCertificateStatusResponse_def
  V201GetChargingProfilesRequest_payload_def schema_GetChargingProfilesRequest_def
  V201GetChargingProfilesResponse_payload_def schema_GetChargingProfilesResponse_def
  V201GetCompositeScheduleRequest_payload_def schema_GetCompositeScheduleRequest_def
  V201GetCompositeScheduleResponse_payload_def schema_GetCompositeScheduleResponse_def
  V201GetDisplayMessagesRequest_payload_def schema_GetDisplayMessagesRequest_def
  V201GetDisplayMessagesResponse_payload_def schema_GetDisplayMessagesResponse_def
  V201GetInstalledCertificateIdsRequest_payload_def schema_GetInstalledCertificateIdsRequest_def
  V201GetInstalledCertificateIdsResponse_payload_def schema_GetInstalledCertificateIdsResponse_def
  V201GetLocalListVersionRequest_payload_def schema_GetLocalListVersionRequest_def
  V201GetLocalListVersionResponse_payload_def schema_GetLocalListVersionResponse_def
  V201GetLogRequest_payload_def schema_GetLogRequest_def
  V201GetLogResponse_payload_def schema_GetLogResponse_def
  V201GetMonitoringReportRequest_payload_def schema_GetMonitoringReportRequest_def
  V201GetMonitoringReportResponse_payload_def schema_GetMonitoringReportResponse_def
  V201GetReportRequest_payload_def schema_GetReportRequest_def
  V201GetReportResponse_payload_def schema_GetReportResponse_def
  V201GetTransactionStatusRequest_payload_def schema_GetTransactionStatusRequest_def
  V201GetTransactionStatusResponse_payload_def schema_GetTransactionStatusResponse_def
  V201GetVariablesRequest_payload_def schema_GetVariablesRequest_def
  V201GetVariablesResponse_payload_def schema_GetVariablesResponse_def
  V201HeartbeatRequest_payload_def schema_HeartbeatRequest_def
  V201HeartbeatResponse_payload_def schema_HeartbeatResponse_def
  V201InstallCertificateRequest_payload_def schema_InstallCertificateRequest_def
  V201InstallCertificateResponse_payload_def schema_InstallCertificateResponse_def
  V201LogStatusNotificationRequest_payload_def schema_LogStatusNotificationRequest_def
  V201LogStatusNotificationResponse_payload_def schema_LogStatusNotificationResponse_def
  V201MeterValuesRequest_payload_def schema_MeterValuesRequest_def
  V201MeterValuesResponse_payload_def schema_MeterValuesResponse_def
  V201NotifyChargingLimitRequest_payload_def schema_NotifyChargingLimitRequest_def
  V201NotifyChargingLimitResponse_payload_def schema_NotifyChargingLimitResponse_def
  V201NotifyCustomerInformationRequest_payload_def schema_NotifyCustomerInformationRequest_def
  V201NotifyCustomerInformationResponse_payload_def schema_NotifyCustomerInformationResponse_def
  V201NotifyDisplayMessagesRequest_payload_def schema_NotifyDisplayMessagesRequest_def
  V201NotifyDisplayMessagesResponse_payload_def schema_NotifyDisplayMessagesResponse_def
  V201NotifyEVChargingNeedsRequest_payload_def schema_NotifyEVChargingNeedsRequest_def
  V201NotifyEVChargingNeedsResponse_payload_def schema_NotifyEVChargingNeedsResponse_def
  V201NotifyEVChargingScheduleRequest_payload_def schema_NotifyEVChargingScheduleRequest_def
  V201NotifyEVChargingScheduleResponse_payload_def schema_NotifyEVChargingScheduleResponse_def
  V201NotifyEventRequest_payload_def schema_NotifyEventRequest_def
  V201NotifyEventResponse_payload_def schema_NotifyEventResponse_def
  V201NotifyMonitoringReportRequest_payload_def schema_NotifyMonitoringReportRequest_def
  V201NotifyMonitoringReportResponse_payload_def schema_NotifyMonitoringReportResponse_def
  V201NotifyReportRequest_payload_def schema_NotifyReportRequest_def
  V201NotifyReportResponse_payload_def schema_NotifyReportResponse_def
  V201PublishFirmwareRequest_payload_def schema_PublishFirmwareRequest_def
  V201PublishFirmwareResponse_payload_def schema_PublishFirmwareResponse_def
  V201PublishFirmwareStatusNotificationRequest_payload_def schema_PublishFirmwareStatusNotificationRequest_def
  V201PublishFirmwareStatusNotificationResponse_payload_def schema_PublishFirmwareStatusNotificationResponse_def
  V201ReportChargingProfilesRequest_payload_def schema_ReportChargingProfilesRequest_def
  V201ReportChargingProfilesResponse_payload_def schema_ReportChargingProfilesResponse_def
  V201RequestStartTransactionRequest_payload_def schema_RequestStartTransactionRequest_def
  V201RequestStartTransactionResponse_payload_def schema_RequestStartTransactionResponse_def
  V201RequestStopTransactionRequest_payload_def schema_RequestStopTransactionRequest_def
  V201RequestStopTransactionResponse_payload_def schema_RequestStopTransactionResponse_def
  V201ReservationStatusUpdateRequest_payload_def schema_ReservationStatusUpdateRequest_def
  V201ReservationStatusUpdateResponse_payload_def schema_ReservationStatusUpdateResponse_def
  V201ReserveNowRequest_payload_def schema_ReserveNowRequest_def
  V201ReserveNowResponse_payload_def schema_ReserveNowResponse_def
  V201ResetRequest_payload_def schema_ResetRequest_def
  V201ResetResponse_payload_def schema_ResetResponse_def
  V201SecurityEventNotificationRequest_payload_def schema_SecurityEventNotificationRequest_def
  V201SecurityEventNotificationResponse_payload_def schema_SecurityEventNotificationResponse_def
  V201SendLocalListRequest_payload_def schema_SendLocalListRequest_def
  V201SendLocalListResponse_payload_def schema_SendLocalListResponse_def
  V201SetChargingProfileRequest_payload_def schema_SetChargingProfileRequest_def
  V201SetChargingProfileResponse_payload_def schema_SetChargingProfileResponse_def
  V201SetDisplayMessageRequest_payload_def schema_SetDisplayMessageRequest_def
  V201SetDisplayMessageResponse_payload_def schema_SetDisplayMessageResponse_def
  V201SetMonitoringBaseRequest_payload_def schema_SetMonitoringBaseRequest_def
  V201SetMonitoringBaseResponse_payload_def schema_SetMonitoringBaseResponse_def
  V201SetMonitoringLevelRequest_payload_def schema_SetMonitoringLevelRequest_def
  V201SetMonitoringLevelResponse_payload_def schema_SetMonitoringLevelResponse_def
  V201SetNetworkProfileRequest_payload_def schema_SetNetworkProfileRequest_def
  V201SetNetworkProfileResponse_payload_def schema_SetNetworkProfileResponse_def
  V201SetVariableMonitoringRequest_payload_def schema_SetVariableMonitoringRequest_def
  V201SetVariableMonitoringResponse_payload_def schema_SetVariableMonitoringResponse_def
  V201SetVariablesRequest_payload_def schema_SetVariablesRequest_def
  V201SetVariablesResponse_payload_def schema_SetVariablesResponse_def
  V201SignCertificateRequest_payload_def schema_SignCertificateRequest_def
  V201SignCertificateResponse_payload_def schema_SignCertificateResponse_def
  V201StatusNotificationRequest_payload_def schema_StatusNotificationRequest_def
  V201StatusNotificationResponse_payload_def schema_StatusNotificationResponse_def
  V201TransactionEventRequest_payload_def schema_TransactionEventRequest_def
  V201TransactionEventResponse_payload_def schema_TransactionEventResponse_def
  V201TriggerMessageRequest_payload_def schema_TriggerMessageRequest_def
  V201TriggerMessageResponse_payload_def schema_TriggerMessageResponse_def
  V201UnlockConnectorRequest_payload_def schema_UnlockConnectorRequest_def
  V201UnlockConnectorResponse_payload_def schema_UnlockConnectorResponse_def
  V201UnpublishFirmwareRequest_payload_def schema_UnpublishFirmwareRequest_def
  V201UnpublishFirmwareResponse_payload_def schema_UnpublishFirmwareResponse_def
  V201UpdateFirmwareRequest_payload_def schema_UpdateFirmwareRequest_def
  V201UpdateFirmwareResponse_payload_def schema_UpdateFirmwareResponse_def

lemma payloads201_agree:
  "list_all (\<lambda>((_, sh), sc). conforms sh sc \<and> covers sh sc) payloads201"
  by (simp add: payloads201_def payload201_defs wire_agree)

text \<open>
  Property C33. Every one of the 128 structures of 2.0.1 agrees with its schema, down to its innermost part. What
  serde writes for it (with finite numbers) passes the schema exactly when it keeps to the schema's lengths,
  ranges, item counts and formats, which serde does not enforce; and what passes the schema is read
  exactly when its integers are in range and written without a fraction and its times are texts
  chrono reads.
\<close>

theorem payloads201_match_schemas:
  assumes "((n, sh), sc) \<in> set payloads201"
  shows "(shape_writes L sh j \<longrightarrow> (schema_accepts L sc j \<longleftrightarrow> within_limits L sc j))
    \<and> (schema_accepts L sc j \<longrightarrow> (shape_reads L sh j \<longleftrightarrow> fits L sh j))"
  using assms payloads201_agree conforms_sound covers_sound by (fastforce simp: list_all_iff)

theorem payloads201_match_schemas_witness:
  "let L = \<lparr>jf_format = \<lambda>_ _. True, jf_multiple = \<lambda>_ _. True, jf_time_text = \<lambda>_. True, jf_time_reads = \<lambda>_. True\<rparr>;
       j = JObject [(''type'', JString ''Immediate''), (''evseId'', JInt 1)];
       none = JObject [(''setVariableData'', JArray [])] in
     schema_accepts L schema_ResetRequest j \<and> shape_reads L (snd V201ResetRequest_payload) j
     \<and> shape_writes L (snd V201SetVariablesRequest_payload) none \<and> \<not> schema_accepts L schema_SetVariablesRequest none"
proof -
  define L where "L = \<lparr>jf_format = \<lambda>_ _. True, jf_multiple = \<lambda>_ _. True, jf_time_text = \<lambda>_. True, jf_time_reads = \<lambda>_. True\<rparr>"
  define j where "j = JObject [(''type'', JString ''Immediate''), (''evseId'', JInt 1)]"
  define none where "none = JObject [(''setVariableData'', JArray [])]"
  have m: "(V201ResetRequest_payload, schema_ResetRequest) \<in> set payloads201"
    "(V201SetVariablesRequest_payload, schema_SetVariablesRequest) \<in> set payloads201"
    by (simp_all add: payloads201_def)
  have w: "shape_writes L (snd V201ResetRequest_payload) j" "shape_writes L (snd V201SetVariablesRequest_payload) none"
    by (simp_all add: j_def none_def V201ResetRequest_payload_def V201SetVariablesRequest_payload_def
        ResetEnumType_shape_def ResetEnumType_all_def in_i32_def)
  have l: "within_limits L schema_ResetRequest j" "\<not> within_limits L schema_SetVariablesRequest none"
    by (simp_all add: j_def none_def schema_ResetRequest_def schema_SetVariablesRequest_def schema_ResetEnumType_def
        range_ok_def count_ok_def)
  have f: "fits L (snd V201ResetRequest_payload) j"
    by (simp add: j_def V201ResetRequest_payload_def ResetEnumType_shape_def in_i32_def)
  show ?thesis
    using payloads201_match_schemas [of "fst V201ResetRequest_payload" "snd V201ResetRequest_payload" schema_ResetRequest L j]
      payloads201_match_schemas [of "fst V201SetVariablesRequest_payload" "snd V201SetVariablesRequest_payload"
        schema_SetVariablesRequest L none] m w l f
    by (simp add: Let_def flip: L_def j_def none_def)
qed

end
