(* ===== verification/Schema_Validation.thy ===== *)
theory Schema_Validation
  imports Messages
begin

text \<open>
  \<open>ocpp-messages/src/schema_validation.rs\<close>: the registry of bundled schemas, the choice of the
  schema of a CALL and of a CALLRESULT, and the reduction of the errors of the JSON schema library
  to one OCPP keyword. The library itself (\<open>jsonschema\<close>: compile a schema under a draft and list the
  errors of a value) and the shortest decimal printing of an \<open>f64\<close> are fields of a record that every
  operation takes; the contents of the schema files are a function of their names.
\<close>

section \<open>The library\<close>

datatype ValidationErrorKind =
    KType
  | KMaxLength
  | KAdditionalProperties
  | KRequired
  | KMultipleOf f64
  | KOtherKind

record ValidationError =
  ve_kind :: ValidationErrorKind
  ve_instance :: json
  ve_text :: string

datatype Draft = Draft4 | Draft6 | Draft7

record json_library =
  jl_validate :: "Draft \<Rightarrow> json \<Rightarrow> json \<Rightarrow> (string, ValidationError list) result"
  jl_show_f64 :: "f64 \<Rightarrow> string"

section \<open>Artifacts of binary floating point\<close>

text \<open>\<open>str::parse::<i128>\<close>: an optional sign, then digits, within the range of \<open>i128\<close>.\<close>

definition in_i128 :: "int \<Rightarrow> bool" where
  "in_i128 n \<longleftrightarrow> - (2 ^ 127) \<le> n \<and> n < 2 ^ 127"

definition parse_digits :: "string \<Rightarrow> int option" where
  "parse_digits ds = (if ds \<noteq> [] \<and> list_all is_digit ds then Some (int (digits_value ds)) else None)"

definition parse_i128 :: "string \<Rightarrow> int option" where
  "parse_i128 s = Option.bind
     (case s of
        c # cs \<Rightarrow> if c = CHR ''-'' then map_option uminus (parse_digits cs)
                  else if c = CHR ''+'' then parse_digits cs
                  else parse_digits s
      | [] \<Rightarrow> None)
     (\<lambda>n. if in_i128 n then Some n else None)"

definition checked_i128 :: "int \<Rightarrow> int option" where
  "checked_i128 n = (if in_i128 n then Some n else None)"

fun split_once_dot :: "string \<Rightarrow> (string \<times> string) option" where
  "split_once_dot [] = None"
| "split_once_dot (c # cs) = (if c = CHR ''.'' then Some ([], cs)
     else map_option (\<lambda>(a, b). (c # a, b)) (split_once_dot cs))"

definition decimal_mantissa_scale :: "json_library \<Rightarrow> f64 \<Rightarrow> (int \<times> nat) option" where
  "decimal_mantissa_scale lib x = (case x of
      Finite _ \<Rightarrow>
        (let s = jl_show_f64 lib x
         in if list_ex (\<lambda>c. c = CHR ''e'' \<or> c = CHR ''E'') s then None
            else case split_once_dot s of
                   Some (ip, fp) \<Rightarrow> map_option (\<lambda>m. (m, length fp)) (parse_i128 (ip @ fp))
                 | None \<Rightarrow> map_option (\<lambda>m. (m, 0)) (parse_i128 s))
    | _ \<Rightarrow> None)"

text \<open>\<open>%\<close> of the source truncates; its result is 0 exactly when the divisor divides.\<close>

definition is_exact_decimal_multiple :: "json_library \<Rightarrow> f64 \<Rightarrow> f64 \<Rightarrow> bool" where
  "is_exact_decimal_multiple lib v d =
     (case (decimal_mantissa_scale lib v, decimal_mantissa_scale lib d) of
        (Some (vm, vs), Some (dm, ds)) \<Rightarrow>
          dm \<noteq> 0 \<and>
          (case (Option.bind (checked_i128 (10 ^ ds)) (\<lambda>p. checked_i128 (vm * p)),
                 Option.bind (checked_i128 (10 ^ vs)) (\<lambda>p. checked_i128 (dm * p))) of
             (Some num, Some den) \<Rightarrow> den \<noteq> 0 \<and> den dvd num
           | _ \<Rightarrow> False)
      | _ \<Rightarrow> False)"

text \<open>\<open>Value::as_f64\<close> of a number; an integer is converted to the nearest \<open>f64\<close>.\<close>

definition json_as_f64 :: "json \<Rightarrow> f64 option" where
  "json_as_f64 v = (case v of JInt n \<Rightarrow> Some (rnd (of_int n)) | JFloat x \<Rightarrow> Some x | _ \<Rightarrow> None)"

definition is_multiple_of_precision_artifact :: "json_library \<Rightarrow> ValidationError \<Rightarrow> bool" where
  "is_multiple_of_precision_artifact lib e = (case ve_kind e of
      KMultipleOf m \<Rightarrow> (case json_as_f64 (ve_instance e) of
        Some x \<Rightarrow> is_exact_decimal_multiple lib x m | None \<Rightarrow> False)
    | _ \<Rightarrow> False)"

section \<open>The dominant keyword\<close>

definition classify_keyword :: "ValidationError \<Rightarrow> SchemaKeyword" where
  "classify_keyword e = (case ve_kind e of
      KType \<Rightarrow> KwType
    | KMaxLength \<Rightarrow> KwMaxLength
    | KAdditionalProperties \<Rightarrow> KwAdditionalProperties
    | KRequired \<Rightarrow> KwRequired
    | _ \<Rightarrow> KwOther)"

primrec keyword_priority :: "SchemaKeyword \<Rightarrow> nat" where
  "keyword_priority KwType = 4"
| "keyword_priority KwMaxLength = 3"
| "keyword_priority KwAdditionalProperties = 2"
| "keyword_priority KwRequired = 1"
| "keyword_priority KwOther = 0"

definition draft_for :: "json \<Rightarrow> Draft" where
  "draft_for schema = (case Option.bind (json_get ''$schema'' schema) json_as_str of
      Some s \<Rightarrow> if str_contains ''draft-07'' s then Draft7
               else if str_contains ''draft-06'' s then Draft6 else Draft4
    | None \<Rightarrow> Draft4)"

fun join_semi :: "string list \<Rightarrow> string" where
  "join_semi [] = []"
| "join_semi [x] = x"
| "join_semi (x # y # ys) = x @ ''; '' @ join_semi (y # ys)"

text \<open>The loop over the errors: the keyword so far and the texts.\<close>

definition merge_keyword :: "SchemaKeyword option \<Rightarrow> SchemaKeyword \<Rightarrow> SchemaKeyword" where
  "merge_keyword cur cand = (case cur of
      Some k \<Rightarrow> if keyword_priority cand \<le> keyword_priority k then k else cand
    | None \<Rightarrow> cand)"

fun collect_errors :: "json_library \<Rightarrow> ValidationError list \<Rightarrow> SchemaKeyword option \<times> string list
    \<Rightarrow> SchemaKeyword option \<times> string list" where
  "collect_errors lib [] acc = acc"
| "collect_errors lib (e # es) acc =
     (if is_multiple_of_precision_artifact lib e then collect_errors lib es acc
      else collect_errors lib es (Some (merge_keyword (fst acc) (classify_keyword e)), snd acc @ [ve_text e]))"

definition run_validation :: "json_library \<Rightarrow> json \<Rightarrow> json \<Rightarrow> string \<Rightarrow> (OcppError, unit) result" where
  "run_validation lib schema payload act = (case jl_validate lib (draft_for schema) schema payload of
      Inl e \<Rightarrow> Err (Internal (''failed to compile bundled schema: '' @ e))
    | Inr errors \<Rightarrow> (case collect_errors lib errors (None, []) of
        (Some k, msgs) \<Rightarrow> Err (SchemaViolation k (join_semi msgs) act)
      | (None, _) \<Rightarrow> Ok ()))"

section \<open>The validator\<close>

record SchemaValidator =
  sv_schemas :: "(string, json) hmap"
  sv_ocpp_version :: string

definition load_schemas :: "(string \<Rightarrow> json) \<Rightarrow> string list \<Rightarrow> (string, json) hmap" where
  "load_schemas content names = fold (\<lambda>n m. AList.update n (content n) m) names []"

definition SCHEMA_TEXTS_V16J :: "string list" where
  "SCHEMA_TEXTS_V16J =
    [''Authorize'', ''AuthorizeResponse'', ''BootNotification'', ''BootNotificationResponse'',
     ''CancelReservation'', ''CancelReservationResponse'', ''CertificateSigned'',
     ''CertificateSignedResponse'', ''ChangeAvailability'', ''ChangeAvailabilityResponse'',
     ''ChangeConfiguration'', ''ChangeConfigurationResponse'', ''ClearCache'',
     ''ClearCacheResponse'', ''ClearChargingProfile'', ''ClearChargingProfileResponse'',
     ''DataTransfer'', ''DataTransferResponse'', ''DeleteCertificate'',
     ''DeleteCertificateResponse'', ''DiagnosticsStatusNotification'',
     ''DiagnosticsStatusNotificationResponse'', ''ExtendedTriggerMessage'',
     ''ExtendedTriggerMessageResponse'', ''FirmwareStatusNotification'',
     ''FirmwareStatusNotificationResponse'', ''GetCompositeSchedule'',
     ''GetCompositeScheduleResponse'', ''GetConfiguration'', ''GetConfigurationResponse'',
     ''GetDiagnostics'', ''GetDiagnosticsResponse'', ''GetInstalledCertificateIds'',
     ''GetInstalledCertificateIdsResponse'', ''GetLocalListVersion'',
     ''GetLocalListVersionResponse'', ''GetLog'', ''GetLogResponse'', ''Heartbeat'',
     ''HeartbeatResponse'', ''InstallCertificate'', ''InstallCertificateResponse'',
     ''LogStatusNotification'', ''LogStatusNotificationResponse'', ''MeterValues'',
     ''MeterValuesResponse'', ''RemoteStartTransaction'', ''RemoteStartTransactionResponse'',
     ''RemoteStopTransaction'', ''RemoteStopTransactionResponse'', ''ReserveNow'',
     ''ReserveNowResponse'', ''Reset'', ''ResetResponse'', ''SecurityEventNotification'',
     ''SecurityEventNotificationResponse'', ''SendLocalList'', ''SendLocalListResponse'',
     ''SetChargingProfile'', ''SetChargingProfileResponse'', ''SignCertificate'',
     ''SignCertificateResponse'', ''SignedFirmwareStatusNotification'',
     ''SignedFirmwareStatusNotificationResponse'', ''SignedUpdateFirmware'',
     ''SignedUpdateFirmwareResponse'', ''StartTransaction'', ''StartTransactionResponse'',
     ''StatusNotification'', ''StatusNotificationResponse'', ''StopTransaction'',
     ''StopTransactionResponse'', ''TriggerMessage'', ''TriggerMessageResponse'',
     ''UnlockConnector'', ''UnlockConnectorResponse'', ''UpdateFirmware'',
     ''UpdateFirmwareResponse'']"

definition SCHEMA_TEXTS_V201 :: "string list" where
  "SCHEMA_TEXTS_V201 =
    [''BootNotification'', ''BootNotificationResponse'', ''GetVariables'',
     ''GetVariablesResponse'', ''SetVariables'', ''SetVariablesResponse'', ''Heartbeat'',
     ''HeartbeatResponse'', ''StatusNotification'', ''StatusNotificationResponse'',
     ''Authorize'', ''AuthorizeResponse'', ''TransactionEvent'', ''TransactionEventResponse'',
     ''Reset'', ''ResetResponse'', ''RequestStartTransaction'',
     ''RequestStartTransactionResponse'', ''MeterValues'', ''MeterValuesResponse'',
     ''RequestStopTransaction'', ''RequestStopTransactionResponse'', ''ClearCache'',
     ''ClearCacheResponse'', ''GetLocalListVersion'', ''GetLocalListVersionResponse'',
     ''ChangeAvailability'', ''ChangeAvailabilityResponse'', ''UnlockConnector'',
     ''UnlockConnectorResponse'', ''TriggerMessage'', ''TriggerMessageResponse'',
     ''DataTransfer'', ''DataTransferResponse'', ''ReserveNow'', ''ReserveNowResponse'',
     ''CancelReservation'', ''CancelReservationResponse'', ''SendLocalList'',
     ''SendLocalListResponse'', ''FirmwareStatusNotification'',
     ''FirmwareStatusNotificationResponse'', ''LogStatusNotification'',
     ''LogStatusNotificationResponse'', ''SecurityEventNotification'',
     ''SecurityEventNotificationResponse'', ''SetChargingProfile'',
     ''SetChargingProfileResponse'', ''GetTransactionStatus'', ''GetTransactionStatusResponse'',
     ''ReservationStatusUpdate'', ''ReservationStatusUpdateResponse'', ''CostUpdated'',
     ''CostUpdatedResponse'', ''ClearedChargingLimit'', ''ClearedChargingLimitResponse'',
     ''PublishFirmwareStatusNotification'', ''PublishFirmwareStatusNotificationResponse'',
     ''PublishFirmware'', ''PublishFirmwareResponse'', ''GetBaseReport'',
     ''GetBaseReportResponse'', ''GetReport'', ''GetReportResponse'', ''UnpublishFirmware'',
     ''UnpublishFirmwareResponse'', ''GetMonitoringReport'', ''GetMonitoringReportResponse'',
     ''NotifyMonitoringReport'', ''NotifyMonitoringReportResponse'', ''SetMonitoringBase'',
     ''SetMonitoringBaseResponse'', ''ClearVariableMonitoring'',
     ''ClearVariableMonitoringResponse'', ''SetVariableMonitoring'',
     ''SetVariableMonitoringResponse'', ''ClearChargingProfile'',
     ''ClearChargingProfileResponse'', ''GetCompositeSchedule'',
     ''GetCompositeScheduleResponse'', ''UpdateFirmware'', ''UpdateFirmwareResponse'',
     ''SetMonitoringLevel'', ''SetMonitoringLevelResponse'', ''SignCertificate'',
     ''SignCertificateResponse'', ''ClearDisplayMessage'', ''ClearDisplayMessageResponse'',
     ''CertificateSigned'', ''CertificateSignedResponse'', ''InstallCertificate'',
     ''InstallCertificateResponse'', ''DeleteCertificate'', ''DeleteCertificateResponse'',
     ''GetInstalledCertificateIds'', ''GetInstalledCertificateIdsResponse'',
     ''SetDisplayMessage'', ''SetDisplayMessageResponse'', ''GetDisplayMessages'',
     ''GetDisplayMessagesResponse'', ''GetCertificateStatus'', ''GetCertificateStatusResponse'',
     ''GetLog'', ''GetLogResponse'', ''NotifyDisplayMessages'',
     ''NotifyDisplayMessagesResponse'', ''GetChargingProfiles'',
     ''GetChargingProfilesResponse'', ''ReportChargingProfiles'',
     ''ReportChargingProfilesResponse'', ''NotifyChargingLimit'',
     ''NotifyChargingLimitResponse'', ''NotifyEvent'', ''NotifyEventResponse'',
     ''NotifyReport'', ''NotifyReportResponse'', ''NotifyCustomerInformation'',
     ''NotifyCustomerInformationResponse'', ''CustomerInformation'',
     ''CustomerInformationResponse'', ''NotifyEVChargingSchedule'',
     ''NotifyEVChargingScheduleResponse'', ''Get15118EVCertificate'',
     ''Get15118EVCertificateResponse'', ''NotifyEVChargingNeeds'',
     ''NotifyEVChargingNeedsResponse'', ''SetNetworkProfile'', ''SetNetworkProfileResponse'']"

definition SchemaValidator_v16j :: "(string \<Rightarrow> json) \<Rightarrow> SchemaValidator" where
  "SchemaValidator_v16j content =
     \<lparr>sv_schemas = load_schemas content SCHEMA_TEXTS_V16J, sv_ocpp_version = ''1.6''\<rparr>"

definition SchemaValidator_v201 :: "(string \<Rightarrow> json) \<Rightarrow> SchemaValidator" where
  "SchemaValidator_v201 content =
     \<lparr>sv_schemas = load_schemas content SCHEMA_TEXTS_V201, sv_ocpp_version = ''2.0.1''\<rparr>"

definition has_schema :: "SchemaValidator \<Rightarrow> string \<Rightarrow> bool" where
  "has_schema v act = hm_contains (sv_schemas v) act"

definition schema_count :: "SchemaValidator \<Rightarrow> nat" where
  "schema_count v = length (sv_schemas v)"

definition get_schema :: "SchemaValidator \<Rightarrow> string \<Rightarrow> (OcppError, json) result" where
  "get_schema v key = (case map_of (sv_schemas v) key of
      Some s \<Rightarrow> Ok s
    | None \<Rightarrow> Err (OcppError.NotSupported (''JSON schema for '' @ [CHR 0x27] @ key @ [CHR 0x27])))"

definition validate_call :: "json_library \<Rightarrow> SchemaValidator \<Rightarrow> string \<Rightarrow> json \<Rightarrow> (OcppError, unit) result" where
  "validate_call lib v act payload = (case get_schema v act of
      Inl e \<Rightarrow> Err e | Inr s \<Rightarrow> run_validation lib s payload act)"

definition validate_call_result ::
  "json_library \<Rightarrow> SchemaValidator \<Rightarrow> string \<Rightarrow> json \<Rightarrow> (OcppError, unit) result" where
  "validate_call_result lib v act payload = (case get_schema v (act @ ''Response'') of
      Inl e \<Rightarrow> Err e | Inr s \<Rightarrow> run_validation lib s payload act)"

section \<open>Properties\<close>

lemma collect_errors_spec:
  "collect_errors lib es acc =
     (let kept = filter (\<lambda>e. \<not> is_multiple_of_precision_artifact lib e) es
      in (foldl (\<lambda>cur e. Some (merge_keyword cur (classify_keyword e))) (fst acc) kept,
          snd acc @ map ve_text kept))"
  by (induction lib es acc rule: collect_errors.induct) (simp_all add: Let_def)

text \<open>The fold keeps a keyword of greatest priority.\<close>

lemma foldl_merge:
  assumes "foldl (\<lambda>cur e. Some (merge_keyword cur (classify_keyword e))) (Some k0) es = Some k"
  shows "(k = k0 \<or> k \<in> classify_keyword ` set es)
    \<and> keyword_priority k0 \<le> keyword_priority k
    \<and> (\<forall>e \<in> set es. keyword_priority (classify_keyword e) \<le> keyword_priority k)"
  using assms
proof (induction es arbitrary: k0)
  case (Cons e es)
  let ?k1 = "merge_keyword (Some k0) (classify_keyword e)"
  have k1: "?k1 \<in> {k0, classify_keyword e}" "keyword_priority k0 \<le> keyword_priority ?k1"
    "keyword_priority (classify_keyword e) \<le> keyword_priority ?k1"
    by (simp_all add: merge_keyword_def)
  from Cons.prems have "foldl (\<lambda>cur e. Some (merge_keyword cur (classify_keyword e))) (Some ?k1) es = Some k"
    by simp
  from Cons.IH [OF this] k1 show ?case by force
qed simp

lemma map_of_load_schemas:
  "map_of (fold (\<lambda>n m. AList.update n (content n) m) names m) a
   = (if a \<in> set names then Some (content a) else map_of m a)"
  by (induction names arbitrary: m) (auto simp: update_conv')

lemma load_schemas_get: "map_of (load_schemas content names) a = (if a \<in> set names then Some (content a) else None)"
  by (simp add: load_schemas_def map_of_load_schemas)

lemma load_schemas_contains: "hm_contains (load_schemas content names) a \<longleftrightarrow> a \<in> set names"
  by (simp add: hm_contains_def load_schemas_get)

text \<open>The actions of the two versions.\<close>

definition actions_v16j :: "string list" where
  "actions_v16j =
    [''Authorize'', ''BootNotification'', ''CancelReservation'', ''CertificateSigned'',
     ''ChangeAvailability'', ''ChangeConfiguration'', ''ClearCache'', ''ClearChargingProfile'',
     ''DataTransfer'', ''DeleteCertificate'', ''DiagnosticsStatusNotification'',
     ''ExtendedTriggerMessage'', ''FirmwareStatusNotification'', ''GetCompositeSchedule'',
     ''GetConfiguration'', ''GetDiagnostics'', ''GetInstalledCertificateIds'',
     ''GetLocalListVersion'', ''GetLog'', ''Heartbeat'', ''InstallCertificate'',
     ''LogStatusNotification'', ''MeterValues'', ''RemoteStartTransaction'',
     ''RemoteStopTransaction'', ''ReserveNow'', ''Reset'', ''SecurityEventNotification'',
     ''SendLocalList'', ''SetChargingProfile'', ''SignCertificate'',
     ''SignedFirmwareStatusNotification'', ''SignedUpdateFirmware'', ''StartTransaction'',
     ''StatusNotification'', ''StopTransaction'', ''TriggerMessage'', ''UnlockConnector'',
     ''UpdateFirmware'']"

definition actions_v201 :: "string list" where
  "actions_v201 =
    [''BootNotification'', ''GetVariables'', ''SetVariables'', ''Heartbeat'',
     ''StatusNotification'', ''Authorize'', ''TransactionEvent'', ''Reset'',
     ''RequestStartTransaction'', ''MeterValues'', ''RequestStopTransaction'', ''ClearCache'',
     ''GetLocalListVersion'', ''ChangeAvailability'', ''UnlockConnector'', ''TriggerMessage'',
     ''DataTransfer'', ''ReserveNow'', ''CancelReservation'', ''SendLocalList'',
     ''FirmwareStatusNotification'', ''LogStatusNotification'', ''SecurityEventNotification'',
     ''SetChargingProfile'', ''GetTransactionStatus'', ''ReservationStatusUpdate'',
     ''CostUpdated'', ''ClearedChargingLimit'', ''PublishFirmwareStatusNotification'',
     ''PublishFirmware'', ''GetBaseReport'', ''GetReport'', ''UnpublishFirmware'',
     ''GetMonitoringReport'', ''NotifyMonitoringReport'', ''SetMonitoringBase'',
     ''ClearVariableMonitoring'', ''SetVariableMonitoring'', ''ClearChargingProfile'',
     ''GetCompositeSchedule'', ''UpdateFirmware'', ''SetMonitoringLevel'', ''SignCertificate'',
     ''ClearDisplayMessage'', ''CertificateSigned'', ''InstallCertificate'',
     ''DeleteCertificate'', ''GetInstalledCertificateIds'', ''SetDisplayMessage'',
     ''GetDisplayMessages'', ''GetCertificateStatus'', ''GetLog'', ''NotifyDisplayMessages'',
     ''GetChargingProfiles'', ''ReportChargingProfiles'', ''NotifyChargingLimit'',
     ''NotifyEvent'', ''NotifyReport'', ''NotifyCustomerInformation'', ''CustomerInformation'',
     ''NotifyEVChargingSchedule'', ''Get15118EVCertificate'', ''NotifyEVChargingNeeds'',
     ''SetNetworkProfile'']"

definition is_response :: "string \<Rightarrow> bool" where
  "is_response a \<longleftrightarrow> take 8 (rev a) = rev ''Response''"

lemma is_response_append: "is_response (a @ ''Response'')"
  by (simp add: is_response_def)

lemma texts_v16j: "SCHEMA_TEXTS_V16J = concat (map (\<lambda>a. [a, a @ ''Response'']) actions_v16j)"
  by (simp add: SCHEMA_TEXTS_V16J_def actions_v16j_def)

lemma texts_v201: "SCHEMA_TEXTS_V201 = concat (map (\<lambda>a. [a, a @ ''Response'']) actions_v201)"
  by (simp add: SCHEMA_TEXTS_V201_def actions_v201_def)

lemma actions_plain:
  "list_all (\<lambda>a. \<not> is_response a) actions_v16j" "list_all (\<lambda>a. \<not> is_response a) actions_v201"
  by (simp_all add: actions_v16j_def actions_v201_def is_response_def)

lemma paired_names:
  assumes "names = concat (map (\<lambda>a. [a, a @ ''Response'']) acts)" and "list_all (\<lambda>a. \<not> is_response a) acts"
  shows "a @ ''Response'' \<in> set names \<longleftrightarrow> a \<in> set names \<and> \<not> is_response a"
  using assms is_response_append by (auto simp: list_all_iff)

text \<open>
  The bundled schema sets pair requests and responses: for every action, there is a
  response schema exactly when there is a request schema under a name that is not itself a
  response. So a routed CALL whose request was validated is never refused for want of a
  response schema.
\<close>

theorem schemas_paired:
  "(has_schema (SchemaValidator_v16j content) (a @ ''Response'')
      \<longleftrightarrow> has_schema (SchemaValidator_v16j content) a \<and> \<not> is_response a)
   \<and> (has_schema (SchemaValidator_v201 content) (a @ ''Response'')
      \<longleftrightarrow> has_schema (SchemaValidator_v201 content) a \<and> \<not> is_response a)"
  using paired_names [OF texts_v16j actions_plain(1)] paired_names [OF texts_v201 actions_plain(2)]
  by (simp add: has_schema_def SchemaValidator_v16j_def SchemaValidator_v201_def load_schemas_contains)

text \<open>The keywords in the order in which one of them outranks the next.\<close>

definition keyword_ranking :: "SchemaKeyword list" where
  "keyword_ranking = [KwType, KwMaxLength, KwAdditionalProperties, KwRequired, KwOther]"

lemma find_ranking:
  assumes "k \<in> K" and "\<forall>k' \<in> K. keyword_priority k' \<le> keyword_priority k"
  shows "List.find (\<lambda>k. k \<in> K) keyword_ranking = Some k"
  using assms by (cases k) (auto simp: keyword_ranking_def)

text \<open>
  Property C35. What \<open>run_validation\<close> returns, on every outcome of the library. A schema that does not compile is an
  internal error with its text. Otherwise the errors that are artifacts of binary floating point are dropped; if none is
  left the payload passes, and else the violation names the action, joins the texts of the remaining errors in order,
  and carries the first keyword of type, maxLength, additionalProperties, required, other that occurs among them. (This is the
  order of \<open>keyword_priority\<close>; the comment inside \<open>run_validation\<close> puts required first.)
\<close>

theorem run_validation_spec:
  "run_validation lib schema payload act = (case jl_validate lib (draft_for schema) schema payload of
     Inl e \<Rightarrow> Err (Internal (''failed to compile bundled schema: '' @ e))
   | Inr errors \<Rightarrow>
       (let kept = filter (\<lambda>e. \<not> is_multiple_of_precision_artifact lib e) errors in
        case List.find (\<lambda>k. k \<in> classify_keyword ` set kept)
               [KwType, KwMaxLength, KwAdditionalProperties, KwRequired, KwOther] of
          None \<Rightarrow> Ok ()
        | Some k \<Rightarrow> Err (SchemaViolation k (join_semi (map ve_text kept)) act)))"
proof (cases "jl_validate lib (draft_for schema) schema payload")
  case (Inr errors)
  define kept where "kept = filter (\<lambda>e. \<not> is_multiple_of_precision_artifact lib e) errors"
  let ?f = "\<lambda>cur e. Some (merge_keyword cur (classify_keyword e))"
  have c: "collect_errors lib errors (None, []) = (foldl ?f None kept, map ve_text kept)"
    by (simp add: collect_errors_spec kept_def Let_def)
  have "foldl ?f None kept = List.find (\<lambda>k. k \<in> classify_keyword ` set kept) keyword_ranking"
  proof (cases kept)
    case Nil
    then show ?thesis by (simp add: keyword_ranking_def)
  next
    case (Cons e es)
    have "\<exists>k. foldl ?f (Some k0) xs = Some k" for k0 xs by (induction xs arbitrary: k0) auto
    then obtain k where k: "foldl ?f (Some (classify_keyword e)) es = Some k" by blast
    have "List.find (\<lambda>k. k \<in> classify_keyword ` set kept) keyword_ranking = Some k"
      using foldl_merge [OF k] Cons by (intro find_ranking) auto
    with k Cons show ?thesis by (simp add: merge_keyword_def)
  qed
  with Inr c show ?thesis
    by (simp add: run_validation_def kept_def [symmetric] keyword_ranking_def Let_def split: option.split)
qed (simp add: run_validation_def)

end
