(* ===== verification/Dispatcher.thy ===== *)
theory Dispatcher
  imports Schema_Validation
begin

text \<open>
  \<open>ocpp-messages/src/dispatcher.rs\<close>: routes, after hooks and \<open>dispatch\<close>; the two message handlers
  that answer a CALL through it, \<open>CpHandler\<close> of the charge point (\<open>ocpp-cp/src/lib.rs\<close>) and
  \<open>DispatchHandler\<close> of the central system (\<open>ocpp-transport/src/dispatch_handler.rs\<close>), with their
  mappings of errors to CALLERROR frames. A handler is a function of the payload, the id of the CALL
  and the state \<open>'s\<close> of the application; an after hook gives the task \<open>'e\<close> it would start, or none
  when it is skipped. The derived codecs of the request and response types are arguments of the
  builders.
\<close>

text \<open>A library that accepts every instance, for the concrete runs below.\<close>

definition accepting_library :: json_library where
  "accepting_library = \<lparr>jl_validate = (\<lambda>_ _ _. Ok []), jl_show_f64 = (\<lambda>_. [])\<rparr>"

section \<open>Routes\<close>

type_synonym 's handler = "json \<Rightarrow> string \<Rightarrow> 's \<Rightarrow> (OcppError, json) result \<times> 's"
type_synonym 'e after_hook = "json \<Rightarrow> json \<Rightarrow> string \<Rightarrow> 'e option"
type_synonym 'a decoder = "json \<Rightarrow> (string, 'a) result"
type_synonym 'a encoder = "'a \<Rightarrow> (string, json) result"

record 's Route =
  rt_handler :: "'s handler"
  rt_skip_validation :: bool

record ('s, 'e) ActionDispatcher =
  ad_handlers :: "(string, 's Route) hmap"
  ad_after_hooks :: "(string, 'e after_hook) hmap"
  ad_validator :: "SchemaValidator option"

definition ActionDispatcher_new :: "('s, 'e) ActionDispatcher" where
  "ActionDispatcher_new = \<lparr>ad_handlers = [], ad_after_hooks = [], ad_validator = None\<rparr>"

definition with_validator :: "SchemaValidator \<Rightarrow> ('s, 'e) ActionDispatcher \<Rightarrow> ('s, 'e) ActionDispatcher" where
  "with_validator v d = d\<lparr>ad_validator := Some v\<rparr>"

definition has_validator :: "('s, 'e) ActionDispatcher \<Rightarrow> bool" where
  "has_validator d = (ad_validator d \<noteq> None)"

definition dispatcher_version :: "('s, 'e) ActionDispatcher \<Rightarrow> string option" where
  "dispatcher_version d = map_option sv_ocpp_version (ad_validator d)"

text \<open>The type-erased handler: decode, run, encode; the first failure is the result.\<close>

definition erase_handler ::
  "'req decoder \<Rightarrow> 'resp encoder \<Rightarrow> ('req \<Rightarrow> string \<Rightarrow> 's \<Rightarrow> (OcppError, 'resp) result \<times> 's) \<Rightarrow> 's handler" where
  "erase_handler dec enc h raw i s = (case dec raw of
      Inl e \<Rightarrow> (Err (Json e), s)
    | Inr req \<Rightarrow> (case h req i s of
        (Inl e, s') \<Rightarrow> (Err e, s')
      | (Inr resp, s') \<Rightarrow> (case enc resp of
          Inl e \<Rightarrow> (Err (Json e), s')
        | Inr v \<Rightarrow> (Ok v, s'))))"

definition register ::
  "string \<Rightarrow> 'req decoder \<Rightarrow> 'resp encoder \<Rightarrow> ('req \<Rightarrow> 's \<Rightarrow> (OcppError, 'resp) result \<times> 's) \<Rightarrow> bool
     \<Rightarrow> ('s, 'e) ActionDispatcher \<Rightarrow> ('s, 'e) ActionDispatcher" where
  "register act dec enc h skip d = d\<lparr>ad_handlers := AList.update act
     \<lparr>rt_handler = erase_handler dec enc (\<lambda>req _. h req), rt_skip_validation = skip\<rparr> (ad_handlers d)\<rparr>"

definition on ::
  "string \<Rightarrow> 'req decoder \<Rightarrow> 'resp encoder \<Rightarrow> ('req \<Rightarrow> 's \<Rightarrow> (OcppError, 'resp) result \<times> 's)
     \<Rightarrow> ('s, 'e) ActionDispatcher \<Rightarrow> ('s, 'e) ActionDispatcher" where
  "on act dec enc h d = register act dec enc h False d"

definition on_skip_validation ::
  "string \<Rightarrow> 'req decoder \<Rightarrow> 'resp encoder \<Rightarrow> ('req \<Rightarrow> 's \<Rightarrow> (OcppError, 'resp) result \<times> 's)
     \<Rightarrow> ('s, 'e) ActionDispatcher \<Rightarrow> ('s, 'e) ActionDispatcher" where
  "on_skip_validation act dec enc h d = register act dec enc h True d"

definition on_with_id ::
  "string \<Rightarrow> 'req decoder \<Rightarrow> 'resp encoder \<Rightarrow> ('req \<Rightarrow> string \<Rightarrow> 's \<Rightarrow> (OcppError, 'resp) result \<times> 's)
     \<Rightarrow> ('s, 'e) ActionDispatcher \<Rightarrow> ('s, 'e) ActionDispatcher" where
  "on_with_id act dec enc h d = d\<lparr>ad_handlers := AList.update act
     \<lparr>rt_handler = erase_handler dec enc h, rt_skip_validation = False\<rparr> (ad_handlers d)\<rparr>"

definition set_after :: "string \<Rightarrow> 'e after_hook \<Rightarrow> ('s, 'e) ActionDispatcher \<Rightarrow> ('s, 'e) ActionDispatcher" where
  "set_after act f d = d\<lparr>ad_after_hooks := AList.update act f (ad_after_hooks d)\<rparr>"

definition after ::
  "string \<Rightarrow> 'req decoder \<Rightarrow> ('req \<Rightarrow> 'e) \<Rightarrow> ('s, 'e) ActionDispatcher \<Rightarrow> ('s, 'e) ActionDispatcher" where
  "after act dec h = set_after act (\<lambda>raw _ _. case dec raw of Inr req \<Rightarrow> Some (h req) | Inl _ \<Rightarrow> None)"

definition after_with_id ::
  "string \<Rightarrow> 'req decoder \<Rightarrow> ('req \<Rightarrow> string \<Rightarrow> 'e) \<Rightarrow> ('s, 'e) ActionDispatcher \<Rightarrow> ('s, 'e) ActionDispatcher" where
  "after_with_id act dec h =
     set_after act (\<lambda>raw _ i. case dec raw of Inr req \<Rightarrow> Some (h req i) | Inl _ \<Rightarrow> None)"

definition after_with_response ::
  "string \<Rightarrow> 'req decoder \<Rightarrow> 'resp decoder \<Rightarrow> ('req \<Rightarrow> 'resp \<Rightarrow> 'e)
     \<Rightarrow> ('s, 'e) ActionDispatcher \<Rightarrow> ('s, 'e) ActionDispatcher" where
  "after_with_response act dec rdec h = set_after act (\<lambda>raw res _. case (dec raw, rdec res) of
      (Inr req, Inr resp) \<Rightarrow> Some (h req resp) | _ \<Rightarrow> None)"

definition after_with_id_and_response ::
  "string \<Rightarrow> 'req decoder \<Rightarrow> 'resp decoder \<Rightarrow> ('req \<Rightarrow> 'resp \<Rightarrow> string \<Rightarrow> 'e)
     \<Rightarrow> ('s, 'e) ActionDispatcher \<Rightarrow> ('s, 'e) ActionDispatcher" where
  "after_with_id_and_response act dec rdec h = set_after act (\<lambda>raw res i. case (dec raw, rdec res) of
      (Inr req, Inr resp) \<Rightarrow> Some (h req resp i) | _ \<Rightarrow> None)"

definition has_handler :: "('s, 'e) ActionDispatcher \<Rightarrow> string \<Rightarrow> bool" where
  "has_handler d act = hm_contains (ad_handlers d) act"

definition skips_validation :: "('s, 'e) ActionDispatcher \<Rightarrow> string \<Rightarrow> bool" where
  "skips_validation d act = is_some_and (map_of (ad_handlers d) act) rt_skip_validation"

definition handler_count :: "('s, 'e) ActionDispatcher \<Rightarrow> nat" where
  "handler_count d = length (ad_handlers d)"

section \<open>Dispatch\<close>

definition unrouted_action_error :: "('s, 'e) ActionDispatcher \<Rightarrow> string \<Rightarrow> OcppError" where
  "unrouted_action_error d act =
     (if is_some_and (ad_validator d) (\<lambda>v. has_schema v act) then OcppError.NotImplemented act
      else OcppError.NotSupported act)"

text \<open>The result, the state after the handler, and the tasks started.\<close>

definition dispatch ::
  "json_library \<Rightarrow> ('s, 'e) ActionDispatcher \<Rightarrow> CallMessage \<Rightarrow> 's
     \<Rightarrow> (OcppError, json) result \<times> 's \<times> 'e list" where
  "dispatch lib d call s = (case map_of (ad_handlers d) (cm_action call) of
      None \<Rightarrow> (Err (unrouted_action_error d (cm_action call)), s, [])
    | Some route \<Rightarrow>
        (let request_check = (case ad_validator d of
               Some v \<Rightarrow> if rt_skip_validation route then Ok ()
                         else validate_call lib v (cm_action call) (cm_payload call)
             | None \<Rightarrow> Ok ())
         in case request_check of
              Inl e \<Rightarrow> (Err e, s, [])
            | Inr _ \<Rightarrow> (case rt_handler route (cm_payload call) (cm_unique_id call) s of
                (Inl e, s') \<Rightarrow> (Err e, s', [])
              | (Inr response, s') \<Rightarrow>
                  (let response_check = (case ad_validator d of
                     Some v \<Rightarrow> if rt_skip_validation route then Ok ()
                               else validate_call_result lib v (cm_action call) response
                   | None \<Rightarrow> Ok ())
                   in case response_check of
                        Inl e \<Rightarrow> (Err e, s', [])
                      | Inr _ \<Rightarrow> (Ok response, s',
                          (case map_of (ad_after_hooks d) (cm_action call) of
                             None \<Rightarrow> []
                           | Some hook \<Rightarrow> (case hook (cm_payload call) response (cm_unique_id call) of
                               Some task \<Rightarrow> [task] | None \<Rightarrow> [])))))))"

section \<open>Error frames\<close>

definition quoted :: "string \<Rightarrow> string" where
  "quoted s = [CHR 0x27] @ s @ [CHR 0x27]"

definition ocpp_error_to_callerror_code :: "OcppError \<Rightarrow> CallErrorCode \<times> string" where
  "ocpp_error_to_callerror_code e = (case e of
      OcppError.NotSupported f \<Rightarrow> (CallErrorCode.NotSupported, ''Action '' @ quoted f @ '' not supported'')
    | SchemaViolation k m _ \<Rightarrow> (keyword_call_error_code k, m)
    | OcppError.ValidationError m \<Rightarrow> (FormationViolation, m)
    | Json m \<Rightarrow> (FormationViolation, m)
    | ProtocolViolation m \<Rightarrow> (ProtocolError, m)
    | _ \<Rightarrow> (InternalError, OcppError_display e))"

definition build_call_error :: "string \<Rightarrow> OcppError \<Rightarrow> string option \<Rightarrow> Message" where
  "build_call_error i e ver =
     (case (case e of
        OcppError.NotImplemented f \<Rightarrow>
          (CallErrorCode.NotImplemented, default_description CallErrorCode.NotImplemented,
           Some (JObject [(''cause'', JString (''No handler for '' @ f @ '' registered.''))]))
      | OcppError.NotSupported f \<Rightarrow>
          (CallErrorCode.NotSupported, default_description CallErrorCode.NotSupported,
           Some (JObject [(''cause'', JString (case ver of
              Some v \<Rightarrow> f @ '' not supported by OCPP'' @ v @ ''.''
            | None \<Rightarrow> f @ '' not supported by receiver.''))]))
      | SchemaViolation k m act \<Rightarrow>
          (keyword_call_error_code k, OcppError_display e,
           Some (case k of
              KwRequired \<Rightarrow> JObject [(''cause'', JString m)]
            | _ \<Rightarrow> JObject [(''action'', JString act), (''cause'', JString m)]))
      | OcppError.ValidationError _ \<Rightarrow> (FormationViolation, OcppError_display e, None)
      | Json _ \<Rightarrow> (FormationViolation, OcppError_display e, None)
      | _ \<Rightarrow> (InternalError, OcppError_display e, None))
      of (c, desc, details) \<Rightarrow> Message_call_error i c desc details)"

section \<open>Message handlers\<close>

definition cp_handle_message ::
  "json_library \<Rightarrow> ('s, 'e) ActionDispatcher \<Rightarrow> Message \<Rightarrow> 's \<Rightarrow> Message option \<times> 's \<times> 'e list" where
  "cp_handle_message lib d m s = (case m of
      Message.Call call \<Rightarrow> (case dispatch lib d call s of
        (Inr payload, s', tasks) \<Rightarrow>
          (Some (Message.CallResult (CallResultMessage_new (cm_unique_id call) payload)), s', tasks)
      | (Inl e, s', tasks) \<Rightarrow>
          (case ocpp_error_to_callerror_code e of (code, description) \<Rightarrow>
             (Some (Message.CallError (CallErrorMessage_new (cm_unique_id call) code description None)),
              s', tasks)))
    | _ \<Rightarrow> (None, s, []))"

definition csms_handle_message ::
  "json_library \<Rightarrow> ('s, 'e) ActionDispatcher \<Rightarrow> Message \<Rightarrow> 's \<Rightarrow> Message option \<times> 's \<times> 'e list" where
  "csms_handle_message lib d m s = (case m of
      Message.Call call \<Rightarrow> (case dispatch lib d call s of
        (Inr payload, s', tasks) \<Rightarrow> (Some (Message_call_result (cm_unique_id call) payload), s', tasks)
      | (Inl e, s', tasks) \<Rightarrow> (Some (build_call_error (cm_unique_id call) e (dispatcher_version d)), s', tasks))
    | _ \<Rightarrow> (None, s, []))"

section \<open>The contract of a message handler\<close>

text \<open>
  The receive loops rely on a handler that answers every CALL with one well-formed response that
  carries the id of the CALL, and that leaves responses alone.
\<close>

locale replying_handler =
  fixes handle :: "Message \<Rightarrow> 's \<Rightarrow> Message option \<times> 's \<times> 'e list"
  assumes reply_call: "\<exists>r. fst (handle (Message.Call c) s) = Some r \<and> wf_message r
      \<and> unique_id r = cm_unique_id c \<and> message_type r \<noteq> MessageType.Call"
    and silent: "message_type m \<noteq> MessageType.Call \<Longrightarrow> handle m s = (None, s, [])"
begin

lemma reply_iff_call: "fst (handle m s) = None \<longleftrightarrow> message_type m \<noteq> MessageType.Call"
proof (cases m)
  case (Call c)
  with reply_call [of c s] show ?thesis by (auto simp: message_type_def)
qed (simp_all add: silent message_type_def)

text \<open>The reply survives the wire and is of use to the pending map of the caller only.\<close>

lemma reply_readable:
  assumes "fst (handle (Message.Call c) s) = Some r"
  shows "decode_message (encode_message r) = Some r \<and> unique_id r = cm_unique_id c
    \<and> fst (handle r s') = None"
  using assms reply_call [of c s] by (auto simp: decode_encode_wf reply_iff_call)

end

lemma wf_call_error [simp]:
  "wf_message (Message_call_error i c desc x)" "unique_id (Message_call_error i c desc x) = i"
  "message_type (Message_call_error i c desc x) = MessageType.CallError"
  by (simp_all add: Message_call_error_def CallErrorMessage_new_def wf_message_def unique_id_def message_type_def)

lemma wf_call_result [simp]:
  "wf_message (Message_call_result i p)" "unique_id (Message_call_result i p) = i"
  "message_type (Message_call_result i p) = MessageType.CallResult"
  by (simp_all add: Message_call_result_def CallResultMessage_new_def wf_message_def unique_id_def message_type_def)

lemma build_call_error_is_error: "\<exists>c desc x. build_call_error i e ver = Message_call_error i c desc x"
  by (cases e) (simp_all add: build_call_error_def, (blast | metis)+)

lemma wf_build_call_error [simp]:
  "wf_message (build_call_error i e ver)" "unique_id (build_call_error i e ver) = i"
  "message_type (build_call_error i e ver) = MessageType.CallError"
  using build_call_error_is_error [of i e ver] by auto

interpretation cp_handler: replying_handler "cp_handle_message lib d" for lib d
proof
  fix c s
  show "\<exists>r. fst (cp_handle_message lib d (Message.Call c) s) = Some r \<and> wf_message r
      \<and> unique_id r = cm_unique_id c \<and> message_type r \<noteq> MessageType.Call"
    by (auto simp: cp_handle_message_def wf_message_def unique_id_def message_type_def
        CallResultMessage_new_def CallErrorMessage_new_def split: prod.splits sum.splits)
next
  fix m s
  show "message_type m \<noteq> MessageType.Call \<Longrightarrow> cp_handle_message lib d m s = (None, s, [])"
    by (cases m) (simp_all add: cp_handle_message_def message_type_def)
qed

interpretation csms_handler: replying_handler "csms_handle_message lib d" for lib d
proof
  fix c s
  show "\<exists>r. fst (csms_handle_message lib d (Message.Call c) s) = Some r \<and> wf_message r
      \<and> unique_id r = cm_unique_id c \<and> message_type r \<noteq> MessageType.Call"
  proof (cases "dispatch lib d c s")
    case (fields res s' tasks)
    then show ?thesis by (cases res) (simp_all add: csms_handle_message_def)
  qed
next
  fix m s
  show "message_type m \<noteq> MessageType.Call \<Longrightarrow> csms_handle_message lib d m s = (None, s, [])"
    by (cases m) (simp_all add: csms_handle_message_def message_type_def)
qed

section \<open>Properties\<close>

definition request_valid :: "json_library \<Rightarrow> ('s, 'e) ActionDispatcher \<Rightarrow> 's Route \<Rightarrow> CallMessage \<Rightarrow> bool" where
  "request_valid lib d r c \<longleftrightarrow> rt_skip_validation r \<or>
     is_none_or (ad_validator d) (\<lambda>v. validate_call lib v (cm_action c) (cm_payload c) = Ok ())"

definition response_valid ::
  "json_library \<Rightarrow> ('s, 'e) ActionDispatcher \<Rightarrow> 's Route \<Rightarrow> CallMessage \<Rightarrow> json \<Rightarrow> bool" where
  "response_valid lib d r c p \<longleftrightarrow> rt_skip_validation r \<or>
     is_none_or (ad_validator d) (\<lambda>v. validate_call_result lib v (cm_action c) p = Ok ())"

text \<open>
  Property C28. Validation is a gate on both sides of a handler: \<open>dispatch\<close> succeeds with a response
  exactly when the action is routed, the request passes (unless the route opts out), the handler
  returned that response and it passes too. Only a handler whose request passed changes the
  state, and an after hook starts a task only on success.
\<close>

theorem dispatch_gate:
  "let (res, s', tasks) = dispatch lib d c s;
       run = (\<lambda>r. rt_handler r (cm_payload c) (cm_unique_id c) s) in
   (res = Ok p \<longleftrightarrow> (\<exists>r. map_of (ad_handlers d) (cm_action c) = Some r \<and> request_valid lib d r c
       \<and> fst (run r) = Ok p \<and> response_valid lib d r c p))
   \<and> (s' = s \<or> (\<exists>r. map_of (ad_handlers d) (cm_action c) = Some r \<and> request_valid lib d r c \<and> s' = snd (run r)))
   \<and> (tasks = [] \<or> (\<exists>hook task p'. map_of (ad_after_hooks d) (cm_action c) = Some hook \<and> res = Ok p'
       \<and> hook (cm_payload c) p' (cm_unique_id c) = Some task \<and> tasks = [task]))"
proof (cases "map_of (ad_handlers d) (cm_action c)")
  case None
  then show ?thesis by (simp add: dispatch_def)
next
  case (Some r)
  note route = this
  show ?thesis
  proof (cases "request_valid lib d r c")
    case False
    then obtain v e where "ad_validator d = Some v" "\<not> rt_skip_validation r"
      "validate_call lib v (cm_action c) (cm_payload c) = Err e"
      by (cases "ad_validator d"; cases "validate_call lib (the (ad_validator d)) (cm_action c) (cm_payload c)")
        (auto simp: request_valid_def is_none_or_def)
    with route False show ?thesis by (simp add: dispatch_def)
  next
    case True
    then have req: "(case ad_validator d of
               Some v \<Rightarrow> if rt_skip_validation r then Ok ()
                         else validate_call lib v (cm_action c) (cm_payload c)
             | None \<Rightarrow> Ok ()) = Ok ()"
      by (auto simp: request_valid_def is_none_or_def split: option.splits)
    show ?thesis
    proof (cases "rt_handler r (cm_payload c) (cm_unique_id c) s")
      case (Pair res s')
      with route True req show ?thesis
        by (cases res) (auto simp: dispatch_def response_valid_def is_none_or_def
            split: option.splits if_splits sum.splits)
    qed
  qed
qed

text \<open>
  Property C32. Every CALL gets exactly one answer, on either side: a CALLRESULT when dispatch
  succeeded and a CALLERROR otherwise, with the id of the CALL, and readable from its frame. A
  response gets no answer and changes nothing.
\<close>

theorem every_call_answered:
  "(\<exists>r. fst (cp_handle_message lib d (Message.Call c) s) = Some r
       \<and> decode_message (encode_message r) = Some r \<and> unique_id r = cm_unique_id c
       \<and> message_type r = (case fst (dispatch lib d c s) of Inr _ \<Rightarrow> MessageType.CallResult | Inl _ \<Rightarrow> MessageType.CallError))
   \<and> (\<exists>r. fst (csms_handle_message lib d (Message.Call c) s) = Some r
       \<and> decode_message (encode_message r) = Some r \<and> unique_id r = cm_unique_id c
       \<and> message_type r = (case fst (dispatch lib d c s) of Inr _ \<Rightarrow> MessageType.CallResult | Inl _ \<Rightarrow> MessageType.CallError))
   \<and> cp_handle_message lib d (Message.CallResult m1) s = (None, s, [])
   \<and> csms_handle_message lib d (Message.CallError m2) s = (None, s, [])"
proof (intro conjI)
  obtain r where r: "fst (cp_handle_message lib d (Message.Call c) s) = Some r"
    using cp_handler.reply_call [of lib d c s] by blast
  moreover from r have "message_type r = (case fst (dispatch lib d c s) of Inr _ \<Rightarrow> MessageType.CallResult | Inl _ \<Rightarrow> MessageType.CallError)"
    by (auto simp: cp_handle_message_def message_type_def split: prod.splits sum.splits)
  ultimately show "\<exists>r. fst (cp_handle_message lib d (Message.Call c) s) = Some r
       \<and> decode_message (encode_message r) = Some r \<and> unique_id r = cm_unique_id c
       \<and> message_type r = (case fst (dispatch lib d c s) of Inr _ \<Rightarrow> MessageType.CallResult | Inl _ \<Rightarrow> MessageType.CallError)"
    using cp_handler.reply_readable [OF r] by blast
next
  obtain r where r: "fst (csms_handle_message lib d (Message.Call c) s) = Some r"
    using csms_handler.reply_call [of lib d c s] by blast
  moreover from r have "message_type r = (case fst (dispatch lib d c s) of Inr _ \<Rightarrow> MessageType.CallResult | Inl _ \<Rightarrow> MessageType.CallError)"
    by (auto simp: csms_handle_message_def split: prod.splits sum.splits)
  ultimately show "\<exists>r. fst (csms_handle_message lib d (Message.Call c) s) = Some r
       \<and> decode_message (encode_message r) = Some r \<and> unique_id r = cm_unique_id c
       \<and> message_type r = (case fst (dispatch lib d c s) of Inr _ \<Rightarrow> MessageType.CallResult | Inl _ \<Rightarrow> MessageType.CallError)"
    using csms_handler.reply_readable [OF r] by blast
qed (simp_all add: cp_handler.silent csms_handler.silent message_type_def)

text \<open>
  A CALL for an action without a route is refused with the code that tells the peer why
  only by the central system: an action of the protocol version is answered \<open>NotImplemented\<close> and any
  other \<open>NotSupported\<close>. The charge point answers \<open>InternalError\<close> in the first case, since its
  mapping has no branch for that error.
\<close>

theorem unrouted_action_codes:
  assumes "map_of (ad_handlers d) (cm_action c) = None"
  shows "let known = is_some_and (ad_validator d) (\<lambda>v. has_schema v (cm_action c)) in
     (\<exists>e. fst (cp_handle_message lib d (Message.Call c) s) = Some (Message.CallError e)
        \<and> cem_error_code e = (if known then InternalError else CallErrorCode.NotSupported))
   \<and> (\<exists>e. fst (csms_handle_message lib d (Message.Call c) s) = Some (Message.CallError e)
        \<and> cem_error_code e = (if known then CallErrorCode.NotImplemented else CallErrorCode.NotSupported))"
  using assms
  by (simp add: cp_handle_message_def csms_handle_message_def dispatch_def unrouted_action_error_def
      ocpp_error_to_callerror_code_def build_call_error_def Message_call_error_def
      CallErrorMessage_new_def Let_def)

theorem unrouted_action_codes_witness:
  "let d = with_validator (SchemaValidator_v16j (\<lambda>_. JNull)) ActionDispatcher_new :: (unit, unit) ActionDispatcher;
       c = CallMessage_with_id ''1'' ''Reset'' JNull; lib = accepting_library in
   map_of (ad_handlers d) (cm_action c) = None \<and>
   (\<exists>e. fst (cp_handle_message lib d (Message.Call c) ()) = Some (Message.CallError e) \<and> cem_error_code e = InternalError)
   \<and> (\<exists>e. fst (csms_handle_message lib d (Message.Call c) ()) = Some (Message.CallError e)
        \<and> cem_error_code e = CallErrorCode.NotImplemented)"
proof -
  define d :: "(unit, unit) ActionDispatcher" where
    "d = with_validator (SchemaValidator_v16j (\<lambda>_. JNull)) ActionDispatcher_new"
  define c where "c = CallMessage_with_id ''1'' ''Reset'' JNull"
  have n: "map_of (ad_handlers d) (cm_action c) = None"
    by (simp add: d_def with_validator_def ActionDispatcher_new_def)
  have k: "is_some_and (ad_validator d) (\<lambda>v. has_schema v (cm_action c))"
    by (simp add: d_def c_def with_validator_def ActionDispatcher_new_def has_schema_def is_some_and_def
        SchemaValidator_v16j_def load_schemas_contains SCHEMA_TEXTS_V16J_def CallMessage_with_id_def)
  show ?thesis
    using unrouted_action_codes [OF n, of accepting_library "()"] n k
    by (simp add: d_def [symmetric] c_def [symmetric] Let_def)
qed

end
