(* ===== verification/Pending_Calls.thy ===== *)
theory Pending_Calls
  imports Messages
begin

text \<open>
  \<open>ocpp-transport/src/pending.rs\<close>: the map from the id of a CALL in flight to the channel its caller
  waits on. A one-shot channel is an entry of \<open>pm_channels\<close>, addressed by its position: it waits, or
  has a value delivered, or has lost its sender, which the caller sees as a closed connection.
  The map holds the senders; the receivers that were dropped (a cancelled caller) are listed apart.
\<close>

section \<open>State and operations\<close>

datatype channel = Waiting | Delivered "(OcppError, json) result" | SenderDropped

record PendingCallMap =
  pm_inner :: "(string, nat) hmap"
  pm_channels :: "channel list"
  pm_receiver_dropped :: "nat list"

definition PendingCallMap_new :: PendingCallMap where
  "PendingCallMap_new = \<lparr>pm_inner = [], pm_channels = [], pm_receiver_dropped = []\<rparr>"

text \<open>Taking the sender of an id out of the map, and what becomes of its channel.\<close>

definition settle :: "string \<Rightarrow> channel \<Rightarrow> PendingCallMap \<Rightarrow> PendingCallMap" where
  "settle i st m = (case map_of (pm_inner m) i of
      None \<Rightarrow> m
    | Some ch \<Rightarrow> m\<lparr>pm_inner := AList.delete i (pm_inner m), pm_channels := (pm_channels m)[ch := st]\<rparr>)"

text \<open>\<open>insert\<close> drops the sender a previous call with the same id had left.\<close>

definition pm_register :: "string \<Rightarrow> PendingCallMap \<Rightarrow> nat \<times> PendingCallMap" where
  "pm_register i m =
     (let m1 = settle i SenderDropped m; ch = length (pm_channels m1)
      in (ch, m1\<lparr>pm_inner := AList.update i ch (pm_inner m1), pm_channels := pm_channels m1 @ [Waiting]\<rparr>))"

definition pm_remove :: "string \<Rightarrow> PendingCallMap \<Rightarrow> bool \<times> PendingCallMap" where
  "pm_remove i m = (hm_contains (pm_inner m) i, settle i SenderDropped m)"

text \<open>Sending on a channel whose receiver is gone fails and delivers nothing.\<close>

definition pm_send :: "string \<Rightarrow> (OcppError, json) result \<Rightarrow> PendingCallMap \<Rightarrow> bool \<times> PendingCallMap" where
  "pm_send i res m = (case map_of (pm_inner m) i of
      None \<Rightarrow> (False, m)
    | Some ch \<Rightarrow> if ch \<in> set (pm_receiver_dropped m) then (False, settle i SenderDropped m)
                 else (True, settle i (Delivered res) m))"

definition pm_resolve :: "string \<Rightarrow> json \<Rightarrow> PendingCallMap \<Rightarrow> bool \<times> PendingCallMap" where
  "pm_resolve i payload m = pm_send i (Ok payload) m"

definition pm_reject :: "string \<Rightarrow> OcppError \<Rightarrow> PendingCallMap \<Rightarrow> bool \<times> PendingCallMap" where
  "pm_reject i e m = pm_send i (Err e) m"

definition pm_cancel_all :: "PendingCallMap \<Rightarrow> PendingCallMap" where
  "pm_cancel_all m = m\<lparr>pm_inner := [],
     pm_channels := fold (\<lambda>(i, ch) cs. cs[ch := SenderDropped]) (pm_inner m) (pm_channels m)\<rparr>"

definition pm_len :: "PendingCallMap \<Rightarrow> nat" where
  "pm_len m = length (pm_inner m)"

text \<open>A caller that gives up drops its receiver, and its guard prunes the entry.\<close>

definition drop_receiver :: "nat \<Rightarrow> PendingCallMap \<Rightarrow> PendingCallMap" where
  "drop_receiver ch m = m\<lparr>pm_receiver_dropped := ch # pm_receiver_dropped m\<rparr>"

definition guard_drop :: "string \<Rightarrow> PendingCallMap \<Rightarrow> PendingCallMap" where
  "guard_drop i m = snd (pm_remove i m)"

datatype pending_command =
    PRegister string
  | PResolve string json
  | PReject string OcppError
  | PRemove string
  | PCancelAll
  | PDropReceiver nat

primrec pending_exec :: "pending_command \<Rightarrow> PendingCallMap \<Rightarrow> PendingCallMap" where
  "pending_exec (PRegister i) m = snd (pm_register i m)"
| "pending_exec (PResolve i p) m = snd (pm_resolve i p m)"
| "pending_exec (PReject i e) m = snd (pm_reject i e m)"
| "pending_exec (PRemove i) m = snd (pm_remove i m)"
| "pending_exec PCancelAll m = pm_cancel_all m"
| "pending_exec (PDropReceiver ch) m = drop_receiver ch m"

section \<open>Invariant\<close>

text \<open>A channel waits exactly while the map holds its sender, and each sender is held once.\<close>

definition pending_inv :: "PendingCallMap \<Rightarrow> bool" where
  "pending_inv m \<longleftrightarrow> hm_wf (pm_inner m) \<and> distinct (map snd (pm_inner m))
     \<and> (\<forall>ch. ch \<in> snd ` set (pm_inner m) \<longleftrightarrow> ch < length (pm_channels m) \<and> pm_channels m ! ch = Waiting)"

lemma settle_None: "map_of (pm_inner m) i = None \<Longrightarrow> settle i st m = m"
  by (simp add: settle_def)

lemma snd_delete:
  assumes "hm_wf kvs" and "distinct (map snd kvs)" and "map_of kvs i = Some ch"
  shows "snd ` set (AList.delete i kvs) = snd ` set kvs - {ch}"
  using assms
proof (induction kvs)
  case (Cons kv kvs)
  obtain k c where kv: "kv = (k, c)" by (cases kv)
  show ?case
  proof (cases "k = i")
    case True
    with Cons.prems kv have "i \<notin> fst ` set kvs" "c = ch" "ch \<notin> snd ` set kvs"
      by (auto simp: hm_wf_def)
    with True kv show ?thesis by (simp add: AList.delete_eq filter_id_conv) force
  next
    case False
    with Cons.prems kv have mem: "(i, ch) \<in> set kvs" by (auto dest: map_of_SomeD)
    with Cons.prems kv have "c \<noteq> ch" by force
    moreover from False Cons.prems kv Cons.IH have "snd ` set (AList.delete i kvs) = snd ` set kvs - {ch}"
      by (simp add: hm_wf_def)
    ultimately
    show ?thesis using False kv by (auto simp: AList.delete_eq)
  qed
qed simp

lemma inner_waiting:
  "pending_inv m \<Longrightarrow> map_of (pm_inner m) i = Some ch
   \<Longrightarrow> ch < length (pm_channels m) \<and> pm_channels m ! ch = Waiting"
  by (auto simp: pending_inv_def dest!: map_of_SomeD) (metis image_eqI snd_conv)+

lemma settle_inv:
  assumes "pending_inv m" and "st \<noteq> Waiting"
  shows "pending_inv (settle i st m)"
proof (cases "map_of (pm_inner m) i")
  case None with assms show ?thesis by (simp add: settle_None)
next
  case (Some ch)
  have wf: "hm_wf (pm_inner m)" "distinct (map snd (pm_inner m))" using assms by (auto simp: pending_inv_def)
  have "distinct (map snd (AList.delete i (pm_inner m)))"
    using wf(2) by (simp add: AList.delete_eq distinct_map_filter)
  moreover have "hm_wf (AList.delete i (pm_inner m))" using wf(1) by (simp add: hm_wf_def distinct_delete)
  moreover have ch: "ch < length (pm_channels m)" "pm_channels m ! ch = Waiting"
    using assms inner_waiting [OF assms(1) Some] by simp_all
  have "c \<in> snd ` set (pm_inner m) - {ch} \<longleftrightarrow>
      c < length ((pm_channels m)[ch := st]) \<and> (pm_channels m)[ch := st] ! c = Waiting" for c
    using assms ch by (auto simp: pending_inv_def nth_list_update split: if_splits)
  ultimately show ?thesis
    using Some by (simp add: pending_inv_def settle_def snd_delete [OF wf Some])
qed

lemma settle_not_contained: "hm_wf (pm_inner m) \<Longrightarrow> map_of (pm_inner (settle i st m)) i = None"
  by (auto simp: settle_def delete_conv' split: option.splits)

lemma register_inv:
  assumes "pending_inv m" shows "pending_inv (snd (pm_register i m))"
proof -
  define m1 where "m1 = settle i SenderDropped m"
  have inv: "pending_inv m1" using settle_inv [OF assms] by (simp add: m1_def)
  have "map_of (pm_inner m1) i = None"
    using assms by (simp add: m1_def settle_not_contained pending_inv_def)
  then have new: "AList.update i ch (pm_inner m1) = pm_inner m1 @ [(i, ch)]" for ch
    by (simp add: update_append_new)
  have fresh: "length (pm_channels m1) \<notin> snd ` set (pm_inner m1)" using inv by (auto simp: pending_inv_def)
  have "i \<notin> fst ` set (pm_inner m1)" using \<open>map_of (pm_inner m1) i = None\<close> by (simp add: map_of_eq_None_iff)
  with inv fresh show ?thesis
    by (auto simp: pm_register_def Let_def m1_def [symmetric] pending_inv_def new hm_wf_def nth_append)
qed

lemma cancel_channels:
  "length (fold (\<lambda>(i, ch) cs. cs[ch := SenderDropped]) kvs cs) = length cs"
  "ch < length cs \<Longrightarrow> fold (\<lambda>(i, ch) cs. cs[ch := SenderDropped]) kvs cs ! ch
     = (if ch \<in> snd ` set kvs then SenderDropped else cs ! ch)"
  by (induction kvs arbitrary: cs) (force simp: nth_list_update)+

interpretation pending: machine pending_exec pending_inv
proof
  fix m c assume inv: "pending_inv m"
  show "pending_inv (pending_exec c m)"
  proof (cases c)
    case PCancelAll
    with inv show ?thesis by (auto simp: pending_inv_def pm_cancel_all_def cancel_channels hm_wf_def)
  next
    case (PDropReceiver ch)
    with inv show ?thesis by (simp add: pending_inv_def drop_receiver_def)
  qed (use inv in \<open>auto simp: register_inv settle_inv pm_resolve_def pm_reject_def pm_send_def
        pm_remove_def split: option.splits\<close>)
qed

lemma pending_inv_new: "pending_inv PendingCallMap_new"
  by (simp add: pending_inv_def PendingCallMap_new_def hm_wf_def)

section \<open>Channels only move forward\<close>

definition later :: "channel list \<Rightarrow> channel list \<Rightarrow> bool" where
  "later cs cs' \<longleftrightarrow> length cs \<le> length cs' \<and>
     (\<forall>ch < length cs. cs ! ch = Waiting \<or> cs' ! ch = cs ! ch)"

lemma later_refl [simp]: "later cs cs"
  by (simp add: later_def)

lemma later_trans:
  assumes ab: "later a b" and bc: "later b c"
  shows "later a c"
  unfolding later_def
proof (intro conjI allI impI)
  show "length a \<le> length c" using ab bc by (simp add: later_def)
  fix ch assume ch: "ch < length a"
  show "a ! ch = Waiting \<or> c ! ch = a ! ch"
  proof (cases "a ! ch = Waiting")
    case False
    with ab ch have "b ! ch = a ! ch" "ch < length b" by (auto simp: later_def)
    with bc False show ?thesis unfolding later_def by metis
  qed simp
qed

lemma settle_later: "pending_inv m \<Longrightarrow> later (pm_channels m) (pm_channels (settle i st m))"
  by (auto simp: settle_def later_def split: option.splits) (metis inner_waiting nth_list_update_neq)

lemma exec_later: "pending_inv m \<Longrightarrow> later (pm_channels m) (pm_channels (pending_exec c m))"
proof (cases c)
  case (PRegister i)
  assume inv: "pending_inv m"
  have "later (pm_channels (settle i SenderDropped m)) (pm_channels (settle i SenderDropped m) @ [Waiting])"
    by (simp add: later_def nth_append)
  from later_trans [OF settle_later [OF inv] this] PRegister show ?thesis
    by (simp add: pm_register_def Let_def)
next
  case PCancelAll
  assume "pending_inv m"
  with PCancelAll show ?thesis by (auto simp: later_def pm_cancel_all_def cancel_channels pending_inv_def)
qed (auto simp: pm_resolve_def pm_reject_def pm_send_def pm_remove_def drop_receiver_def settle_later
      split: option.splits)

lemma run_later: "pending_inv m \<Longrightarrow> later (pm_channels m) (pm_channels (fold pending_exec cs m))"
proof (induction cs arbitrary: m)
  case (Cons c cs)
  then show ?case using later_trans [OF exec_later Cons.IH] pending.step_inv by simp
qed simp

section \<open>Correlation\<close>

lemma register_lookup:
  "pending_inv m \<Longrightarrow> pm_register i m = (ch, m') \<Longrightarrow>
     map_of (pm_inner m') i = Some ch \<and> ch = length (pm_channels m) \<and> ch < length (pm_channels m')
     \<and> pm_receiver_dropped m' = pm_receiver_dropped m"
  by (auto simp: pm_register_def settle_def Let_def update_conv' split: option.splits)

text \<open>A response reaches the channel registered under its id and no other.\<close>

lemma send_delivers:
  assumes "pending_inv m" and "map_of (pm_inner m) i = Some ch" and "ch \<notin> set (pm_receiver_dropped m)"
  shows "fst (pm_send i res m) \<and> pm_channels (snd (pm_send i res m)) = (pm_channels m)[ch := Delivered res]
    \<and> pm_channels (snd (pm_send i res m)) ! ch = Delivered res"
  using assms inner_waiting [OF assms(1,2)] by (simp add: pm_send_def settle_def)

lemma waiting_count: "pending_inv m \<Longrightarrow> pm_len m = length (filter (\<lambda>c. c = Waiting) (pm_channels m))"
proof -
  assume inv: "pending_inv m"
  then have "pm_len m = card (snd ` set (pm_inner m))"
    by (metis pending_inv_def pm_len_def distinct_card length_map list.set_map)
  also have "snd ` set (pm_inner m) = {ch. ch < length (pm_channels m) \<and> pm_channels m ! ch = Waiting}"
    using inv by (auto simp: pending_inv_def)
  finally show ?thesis by (simp add: length_filter_conv_card)
qed

text \<open>
  Property C30. Every call is answered at most once and none leaks: after any sequence of
  registrations, responses, removals, cancellations and abandoned callers, a channel waits exactly
  while the map holds its sender, the size of the map is the number of waiting channels, and a
  channel that was answered or lost its sender stays as it is whatever happens later, a late
  or duplicate response included.
\<close>

theorem pending_answered_once:
  assumes "ch < length (pm_channels (fold pending_exec before PendingCallMap_new))"
  shows "let m = fold pending_exec before PendingCallMap_new; m' = fold pending_exec afterwards m in
     (pm_channels m ! ch = Waiting \<longleftrightarrow> ch \<in> snd ` set (pm_inner m))
     \<and> pm_len m = length (filter (\<lambda>c. c = Waiting) (pm_channels m))
     \<and> (pm_channels m ! ch = Waiting \<or> pm_channels m' ! ch = pm_channels m ! ch)"
proof -
  define m where "m = fold pending_exec before PendingCallMap_new"
  have inv: "pending_inv m" unfolding m_def by (rule pending.run_inv [OF pending_inv_new])
  with assms run_later [OF inv, of afterwards] waiting_count [OF inv] show ?thesis
    by (simp add: m_def [symmetric] Let_def later_def pending_inv_def)
qed

theorem pending_answered_once_witness:
  "let m = fold pending_exec [PRegister ''a'', PResolve ''a'' JNull] PendingCallMap_new in
     pm_channels m = [Delivered (Ok JNull)]
     \<and> pm_channels (fold pending_exec [PReject ''a'' (Timeout ''x''), PCancelAll] m) ! 0 = Delivered (Ok JNull)"
proof -
  define cs where "cs = [PRegister ''a'', PResolve ''a'' JNull]"
  have ch: "pm_channels (fold pending_exec cs PendingCallMap_new) = [Delivered (Ok JNull)]"
    by (simp add: cs_def PendingCallMap_new_def pm_register_def pm_resolve_def pm_send_def settle_def Let_def)
  then have "0 < length (pm_channels (fold pending_exec cs PendingCallMap_new))" by simp
  from pending_answered_once [OF this, of "[PReject ''a'' (Timeout ''x''), PCancelAll]"] ch show ?thesis
    by (simp add: Let_def cs_def)
qed

end
