(* ===== verification/Transport.thy ===== *)
theory Transport
  imports Dispatcher Pending_Calls
begin

text \<open>
  The request/response layer over one connection: \<open>ChargePoint::call\<close> (\<open>ocpp-cp/src/lib.rs\<close>), the
  receive loop of the charge point (\<open>ocpp-transport/src/client.rs\<close>), and of the central system
  (\<open>server.rs\<close>) the negotiation of a connection, the receive loop, and the table of sessions. A
  received text is given as the value the JSON library parses it to, if any. The WebSocket itself,
  the pumping of outbound frames and pings are not modelled.
\<close>

section \<open>Sending a CALL\<close>

text \<open>
  The first part of \<open>call\<close>, up to the frame handed to the transport: \<open>online\<close> tells whether there
  is a client when the call is registered, \<open>sent\<close> what handing over the frame results in.
\<close>

definition call_begin ::
  "json_library \<Rightarrow> SchemaValidator option \<Rightarrow> bool \<Rightarrow> (OcppError, unit) result \<Rightarrow> string \<Rightarrow> string \<Rightarrow> json
     \<Rightarrow> PendingCallMap \<Rightarrow> (OcppError, nat \<times> Message) result \<times> PendingCallMap" where
  "call_begin lib validator online sent i act payload pm =
     (case (case validator of Some v \<Rightarrow> validate_call lib v act payload | None \<Rightarrow> Ok ()) of
        Inl e \<Rightarrow> (Err e, pm)
      | Inr _ \<Rightarrow>
          if \<not> online then (Err (OcppError.Transport ''Not connected to central system''), pm)
          else (let (ch, pm1) = pm_register i pm
                in case sent of
                     Inl e \<Rightarrow> (Err e, guard_drop i (drop_receiver ch pm1))
                   | Inr _ \<Rightarrow> (Ok (ch, Message.Call (CallMessage_with_id i act payload)), pm1)))"

text \<open>
  The second part, when the channel was answered or the timeout expired (a channel that still waits):
  the response is validated and decoded, and the guard prunes the entry.
\<close>

definition call_finish ::
  "json_library \<Rightarrow> SchemaValidator option \<Rightarrow> 'a decoder \<Rightarrow> string \<Rightarrow> string \<Rightarrow> nat \<Rightarrow> PendingCallMap
     \<Rightarrow> (OcppError, 'a) result \<times> PendingCallMap" where
  "call_finish lib validator dec i act ch pm =
     (case pm_channels pm ! ch of
        Waiting \<Rightarrow> Err (Timeout (act @ '' call''))
      | SenderDropped \<Rightarrow> Err (OcppError.Transport ''Connection closed while waiting for CALLRESULT'')
      | Delivered (Inl e) \<Rightarrow> Err e
      | Delivered (Inr payload) \<Rightarrow>
          (case (case validator of Some v \<Rightarrow> validate_call_result lib v act payload | None \<Rightarrow> Ok ()) of
             Inl e \<Rightarrow> Err e
           | Inr _ \<Rightarrow> (case dec payload of Inl e \<Rightarrow> Err (Json e) | Inr x \<Rightarrow> Ok x)),
      guard_drop i (drop_receiver ch pm))"

section \<open>The receive loop of the charge point\<close>

record ('s, 'e) endpoint =
  ep_pending :: PendingCallMap
  ep_app :: 's
  ep_tasks :: "'e list"
  ep_sent :: "json list"
  ep_received :: "Message list"

text \<open>
  A message handler may fail. The two handlers of the previous theory never do; \<open>infallible\<close> turns
  them into what the receive loops expect.
\<close>

type_synonym ('s, 'e) message_handler =
  "Message \<Rightarrow> 's \<Rightarrow> (OcppError, Message option) result \<times> 's \<times> 'e list"

definition infallible ::
  "(Message \<Rightarrow> 's \<Rightarrow> Message option \<times> 's \<times> 'e list) \<Rightarrow> ('s, 'e) message_handler" where
  "infallible h m s = (case h m s of (reply, s', tasks) \<Rightarrow> (Ok reply, s', tasks))"

text \<open>One text frame; \<open>handle\<close> is the message handler.\<close>

definition client_receive ::
  "('s, 'e) message_handler \<Rightarrow> json option \<Rightarrow> ('s, 'e) endpoint \<Rightarrow> ('s, 'e) endpoint" where
  "client_receive handle parsed st = (case Option.bind parsed decode_message of
      Some m \<Rightarrow>
        (let st1 = (case m of
            Message.CallResult r \<Rightarrow>
              st\<lparr>ep_pending := snd (pm_resolve (crm_unique_id r) (crm_payload r) (ep_pending st))\<rparr>
          | Message.CallError e \<Rightarrow>
              st\<lparr>ep_pending := snd (pm_reject (cem_unique_id e) (OcppError_from e) (ep_pending st))\<rparr>
          | Message.Call c \<Rightarrow> (case handle m (ep_app st) of (reply, s', tasks) \<Rightarrow>
              st\<lparr>ep_app := s', ep_tasks := ep_tasks st @ tasks,
                 ep_sent := ep_sent st @ (case reply of Inr (Some r) \<Rightarrow> [encode_message r] | _ \<Rightarrow> [])\<rparr>))
         in st1\<lparr>ep_received := ep_received st1 @ [m]\<rparr>)
    | None \<Rightarrow> (case recover_inbound_call_error parsed of
        Some (i, err) \<Rightarrow> st\<lparr>ep_pending := snd (pm_reject i err (ep_pending st))\<rparr>
      | None \<Rightarrow> st))"

text \<open>The end of the session.\<close>

definition client_closed :: "('s, 'e) endpoint \<Rightarrow> ('s, 'e) endpoint" where
  "client_closed st = st\<lparr>ep_pending := pm_cancel_all (ep_pending st)\<rparr>"

section \<open>The central system\<close>

fun split_comma :: "string \<Rightarrow> string list" where
  "split_comma [] = [[]]"
| "split_comma (c # cs) = (if c = CHR '','' then [] # split_comma cs
     else (case split_comma cs of w # ws \<Rightarrow> (c # w) # ws | [] \<Rightarrow> [[c]]))"

definition negotiate_subprotocol :: "string option \<Rightarrow> string list \<Rightarrow> string option" where
  "negotiate_subprotocol header supported = do {
     h \<leftarrow> header;
     let offered = filter (\<lambda>t. t \<noteq> []) (map str_trim (split_comma h));
     List.find (\<lambda>p. p \<in> set offered) supported }"

text \<open>The upgrade request: the routing key and the protocol of the session, or \<open>BAD_REQUEST\<close>.\<close>

definition ws_handler :: "string \<Rightarrow> string option \<Rightarrow> string list \<Rightarrow> (string \<times> string) option" where
  "ws_handler path_id header supported =
     (let cp = str_trim path_id
      in if cp = [] \<or> 48 < length cp then None
         else map_option (Pair cp) (negotiate_subprotocol header supported))"

definition classify_frame :: "json option \<Rightarrow> Message option" where
  "classify_frame parsed = Option.bind parsed (\<lambda>v.
     if discriminator v = Some ''CALLERROR'' then map_option Message.CallError (decode_call_error v)
     else if discriminator v = Some ''CALLRESULT'' then map_option Message.CallResult (decode_call_result v)
     else if discriminator v = Some ''CALL'' then map_option Message.Call (decode_call v)
     else decode_message v)"

text \<open>
  The events a host of the central system observes. The request and response types of the five
  actions are decoded by \<open>derive\<close>d code; the decoders of the event data are arguments.
\<close>

record 'v event_decoders =
  ed_status :: "json \<Rightarrow> 'v option"
  ed_transaction :: "string \<Rightarrow> json \<Rightarrow> json \<Rightarrow> 'v option"
  ed_lifecycle :: "string \<Rightarrow> json \<Rightarrow> 'v option"

datatype 'v server_event =
    MessageReceived Message
  | StatusNotificationEvent string 'v
  | TransactionEvent string 'v
  | LifecycleEvent string 'v

definition no_events :: "unit event_decoders" where
  "no_events = \<lparr>ed_status = (\<lambda>_. None), ed_transaction = (\<lambda>_ _ _. None), ed_lifecycle = (\<lambda>_ _. None)\<rparr>"

definition server_events ::
  "'v event_decoders \<Rightarrow> string \<Rightarrow> CallMessage \<Rightarrow> (OcppError, Message option) result \<Rightarrow> 'v server_event list" where
  "server_events dec cp call outcome =
     MessageReceived (Message.Call call)
     # (case outcome of
          Inr _ \<Rightarrow> if cm_action call = ''StatusNotification''
                  then map (StatusNotificationEvent cp) (option_list (ed_status dec (cm_payload call))) else []
        | Inl _ \<Rightarrow> [])
     @ (case outcome of
          Inr (Some (Message.CallResult result)) \<Rightarrow>
            (if cm_action call = ''StartTransaction'' \<or> cm_action call = ''StopTransaction''
             then map (TransactionEvent cp)
               (option_list (ed_transaction dec (cm_action call) (cm_payload call) (crm_payload result))) else [])
            @ (if cm_action call = ''BootNotification'' \<or> cm_action call = ''MeterValues''
               then map (LifecycleEvent cp) (option_list (ed_lifecycle dec (cm_action call) (cm_payload call))) else [])
        | _ \<Rightarrow> [])"

record ('s, 'e, 'v) cp_session = "('s, 'e) endpoint" +
  cs_events :: "'v server_event list"

text \<open>One text frame from a charge point; \<open>None\<close> when the session ends because it is too long.\<close>

definition server_receive ::
  "('s, 'e) message_handler \<Rightarrow> 'v event_decoders \<Rightarrow> nat \<Rightarrow> string \<Rightarrow> nat \<Rightarrow> json option
     \<Rightarrow> ('s, 'e, 'v) cp_session \<Rightarrow> ('s, 'e, 'v) cp_session option" where
  "server_receive handle dec mx cp len parsed st =
     (if mx < len then None
      else Some (case classify_frame parsed of
        Some (Message.Call call) \<Rightarrow>
          (case handle (Message.Call call) (ep_app st) of (outcome, s', tasks) \<Rightarrow>
             st\<lparr>ep_app := s', ep_tasks := ep_tasks st @ tasks,
                ep_sent := ep_sent st @ (case outcome of
                    Inr (Some r) \<Rightarrow> [encode_message r]
                  | Inr None \<Rightarrow> []
                  | Inl e \<Rightarrow> [encode_message (build_call_error (cm_unique_id call) e None)]),
                cs_events := cs_events st @ server_events dec cp call outcome\<rparr>)
      | Some (Message.CallResult r) \<Rightarrow>
          (case pm_resolve (crm_unique_id r) (crm_payload r) (ep_pending st) of (found, pm) \<Rightarrow>
             st\<lparr>ep_pending := pm,
                cs_events := cs_events st @ (if found then [] else [MessageReceived (Message.CallResult r)])\<rparr>)
      | Some (Message.CallError e) \<Rightarrow>
          st\<lparr>ep_pending := snd (pm_reject (cem_unique_id e)
               (OcppError.CallError (cem_error_code e) (cem_error_description e) (cem_error_details e)) (ep_pending st))\<rparr>
      | None \<Rightarrow> (case recover_inbound_call_error parsed of
          Some (i, err) \<Rightarrow> st\<lparr>ep_pending := snd (pm_reject i err (ep_pending st))\<rparr>
        | None \<Rightarrow> st)))"

section \<open>Sessions\<close>

record server_sessions =
  ss_connections :: "(nat, string) hmap"
  ss_cp_handles :: "(string, nat) hmap"

definition sessions_new :: server_sessions where
  "sessions_new = \<lparr>ss_connections = [], ss_cp_handles = []\<rparr>"

definition session_opened :: "string \<Rightarrow> nat \<Rightarrow> server_sessions \<Rightarrow> server_sessions" where
  "session_opened cp conn s = s\<lparr>ss_connections := AList.update conn cp (ss_connections s),
     ss_cp_handles := AList.update cp conn (ss_cp_handles s)\<rparr>"

text \<open>The teardown of a session removes the handle only if it is its own.\<close>

definition session_closed :: "string \<Rightarrow> nat \<Rightarrow> server_sessions \<Rightarrow> server_sessions" where
  "session_closed cp conn s = s\<lparr>
     ss_cp_handles := (if map_of (ss_cp_handles s) cp = Some conn
                       then AList.delete cp (ss_cp_handles s) else ss_cp_handles s),
     ss_connections := AList.delete conn (ss_connections s)\<rparr>"

definition session_torn_down :: "('s, 'e, 'v) cp_session \<Rightarrow> ('s, 'e, 'v) cp_session" where
  "session_torn_down st = st\<lparr>ep_pending := pm_cancel_all (ep_pending st)\<rparr>"

definition is_cp_connected :: "server_sessions \<Rightarrow> string \<Rightarrow> bool" where
  "is_cp_connected s cp = hm_contains (ss_cp_handles s) cp"

definition connection_count :: "server_sessions \<Rightarrow> nat" where
  "connection_count s = length (ss_connections s)"

text \<open>
  \<open>OcppServer::call\<close> in the same two parts; \<open>delivered\<close> tells whether the outbound channel still has
  its session. There is no guard here: the error paths settle the entry themselves.
\<close>

definition server_call_begin ::
  "json_library \<Rightarrow> SchemaValidator option \<Rightarrow> server_sessions \<Rightarrow> bool \<Rightarrow> string \<Rightarrow> string \<Rightarrow> string \<Rightarrow> json
     \<Rightarrow> PendingCallMap \<Rightarrow> (OcppError, nat \<times> Message) result \<times> PendingCallMap" where
  "server_call_begin lib validator ss delivered cp i act payload pm =
     (case (case validator of Some v \<Rightarrow> validate_call lib v act payload | None \<Rightarrow> Ok ()) of
        Inl e \<Rightarrow> (Err e, pm)
      | Inr _ \<Rightarrow> (case map_of (ss_cp_handles ss) cp of
          None \<Rightarrow> (Err (CpNotConnected cp), pm)
        | Some _ \<Rightarrow>
            (let (ch, pm1) = pm_register i pm
             in if \<not> delivered
                then (Err (CpNotConnected cp), drop_receiver ch (snd (pm_reject i (CpNotConnected cp) pm1)))
                else (Ok (ch, Message.Call (CallMessage_with_id i act payload)), pm1))))"

definition server_call_finish ::
  "json_library \<Rightarrow> SchemaValidator option \<Rightarrow> 'a decoder \<Rightarrow> string \<Rightarrow> string \<Rightarrow> string \<Rightarrow> nat \<Rightarrow> PendingCallMap
     \<Rightarrow> (OcppError, 'a) result \<times> PendingCallMap" where
  "server_call_finish lib validator dec cp i act ch pm =
     (case pm_channels pm ! ch of
        Waiting \<Rightarrow> (Err (Timeout (act @ '' call to '' @ cp)), snd (pm_reject i (Timeout act) (drop_receiver ch pm)))
      | SenderDropped \<Rightarrow>
          (Err (OcppError.Transport (''connection to '' @ quoted cp @ '' closed while awaiting CALLRESULT'')),
           drop_receiver ch pm)
      | Delivered (Inl e) \<Rightarrow> (Err e, drop_receiver ch pm)
      | Delivered (Inr payload) \<Rightarrow>
          (case (case validator of Some v \<Rightarrow> validate_call_result lib v act payload | None \<Rightarrow> Ok ()) of
             Inl e \<Rightarrow> Err e
           | Inr _ \<Rightarrow> (case dec payload of Inl e \<Rightarrow> Err (Json e) | Inr x \<Rightarrow> Ok x),
           drop_receiver ch pm))"

datatype session_step = Opened string nat | Closed string nat

primrec session_exec :: "session_step \<Rightarrow> server_sessions \<Rightarrow> server_sessions" where
  "session_exec (Opened cp conn) s = session_opened cp conn s"
| "session_exec (Closed cp conn) s = session_closed cp conn s"

section \<open>Properties\<close>

lemma classify_frame_decode: "classify_frame parsed = Option.bind parsed decode_message"
  by (cases parsed) (auto simp: classify_frame_def decode_message_def)

text \<open>Sending takes the entry of the id out of the map, whatever becomes of the value.\<close>

lemma send_removes: "pending_inv pm \<Longrightarrow> map_of (pm_inner (snd (pm_send i res pm))) i = None"
  by (auto simp: pm_send_def settle_not_contained pending_inv_def split: option.splits)

lemma send_inv: "pending_inv pm \<Longrightarrow> pending_inv (snd (pm_send i res pm))"
  by (auto simp: pm_send_def settle_inv split: option.splits)

lemma drop_receiver_inv [simp]: "pending_inv (drop_receiver ch pm) = pending_inv pm"
  "pm_inner (drop_receiver ch pm) = pm_inner pm" "pm_channels (drop_receiver ch pm) = pm_channels pm"
  by (simp_all add: pending_inv_def drop_receiver_def)

lemma guard_drop_removes: "pending_inv pm \<Longrightarrow> map_of (pm_inner (guard_drop i pm)) i = None"
  by (simp add: guard_drop_def pm_remove_def settle_not_contained pending_inv_def)

lemma guard_drop_inv: "pending_inv pm \<Longrightarrow> pending_inv (guard_drop i pm)"
  by (simp add: guard_drop_def pm_remove_def settle_inv)

lemma answered_entry_gone:
  assumes "pending_inv pm" and "pm_channels pm ! ch \<noteq> Waiting" and "map_of (pm_inner pm) i \<in> {None, Some ch}"
  shows "map_of (pm_inner pm) i = None"
  using assms inner_waiting [OF assms(1)] by fastforce

text \<open>
  No call leaves an entry behind: when a call of the charge point or of the central system
  returns, with a result, an error, a timeout, a closed connection or because it could not be
  sent, its id is no longer in the pending map, so a late response to it is ignored; the map stays
  consistent.
\<close>

theorem calls_leave_no_entry:
  assumes "pending_inv pm" and "map_of (pm_inner pm) i \<in> {None, Some ch}" and "map_of (pm_inner pm0) i = None"
    and "pending_inv pm0"
  shows "let (r1, a) = call_begin lib v on_line sent i act payload pm0;
             (r2, b) = call_finish lib v dec i act ch pm;
             (r3, c) = server_call_begin lib v ss delivered cp i act payload pm0;
             (r4, d) = server_call_finish lib v dec cp i act ch pm
     in (\<forall>e. r1 = Err e \<longrightarrow> map_of (pm_inner a) i = None) \<and> map_of (pm_inner b) i = None
      \<and> (\<forall>e. r3 = Err e \<longrightarrow> map_of (pm_inner c) i = None) \<and> map_of (pm_inner d) i = None
      \<and> pending_inv a \<and> pending_inv b \<and> pending_inv c \<and> pending_inv d"
proof -
  define a where "a = call_begin lib v on_line sent i act payload pm0"
  define b where "b = call_finish lib v dec i act ch pm"
  define c where "c = server_call_begin lib v ss delivered cp i act payload pm0"
  define d where "d = server_call_finish lib v dec cp i act ch pm"
  note defs = send_removes send_inv guard_drop_removes guard_drop_inv pm_reject_def
  have reg: "pending_inv (snd (pm_register i pm0))" by (rule register_inv [OF assms(4)])
  have A: "(\<forall>e. fst a = Err e \<longrightarrow> map_of (pm_inner (snd a)) i = None) \<and> pending_inv (snd a)"
    using reg assms(3,4) by (auto simp: a_def call_begin_def case_prod_beta defs split: sum.splits)
  have B: "map_of (pm_inner (snd b)) i = None \<and> pending_inv (snd b)"
    using assms(1) by (simp add: b_def call_finish_def defs)
  have C: "(\<forall>e. fst c = Err e \<longrightarrow> map_of (pm_inner (snd c)) i = None) \<and> pending_inv (snd c)"
    using reg assms(3,4) by (auto simp: c_def server_call_begin_def case_prod_beta defs split: sum.splits option.splits)
  have D: "map_of (pm_inner (snd d)) i = None \<and> pending_inv (snd d)"
    using assms(1) answered_entry_gone [OF assms(1) _ assms(2)]
    by (cases "pm_channels pm ! ch") (auto simp: d_def server_call_finish_def defs split: sum.splits)
  from A B C D show ?thesis
    by (simp add: a_def [symmetric] b_def [symmetric] c_def [symmetric] d_def [symmetric] Let_def case_prod_beta)
qed

theorem calls_leave_no_entry_witness:
  "let pm0 = PendingCallMap_new; (ch, pm) = pm_register ''7'' pm0 in
     server_call_finish accepting_library None Ok ''CP'' ''7'' ''Reset'' ch pm
       = (Err (Timeout ''Reset call to CP'') :: (OcppError, json) result,
          \<lparr>pm_inner = [], pm_channels = [SenderDropped], pm_receiver_dropped = [0]\<rparr>)
     \<and> map_of (pm_inner (snd (call_finish accepting_library None (Ok :: json decoder) ''7'' ''Reset'' ch pm))) ''7'' = None"
proof -
  define pm where "pm = snd (pm_register ''7'' PendingCallMap_new)"
  have pm: "pm_register ''7'' PendingCallMap_new = (0, pm)" "pending_inv pm"
    using register_inv [OF pending_inv_new, of "''7''"]
    by (simp_all add: pm_def pm_register_def settle_def PendingCallMap_new_def)
  have h: "map_of (pm_inner pm) ''7'' \<in> {None, Some 0}" "map_of (pm_inner PendingCallMap_new) ''7'' = None"
    using register_lookup [OF pending_inv_new pm(1)] by (simp_all add: PendingCallMap_new_def)
  have "map_of (pm_inner (snd (call_finish accepting_library None (Ok :: json decoder) ''7'' ''Reset'' 0 pm))) ''7'' = None"
    using calls_leave_no_entry [OF pm(2) h pending_inv_new, of accepting_library None False "Ok ()" "''Reset''" JNull Ok
        sessions_new False "''CP''"]
    by (simp add: case_prod_beta Let_def)
  moreover have "server_call_finish accepting_library None Ok ''CP'' ''7'' ''Reset'' 0 pm
       = (Err (Timeout ''Reset call to CP'') :: (OcppError, json) result,
          \<lparr>pm_inner = [], pm_channels = [SenderDropped], pm_receiver_dropped = [0]\<rparr>)"
    by (simp add: server_call_finish_def pm_def pm_register_def settle_def PendingCallMap_new_def
        pm_reject_def pm_send_def drop_receiver_def)
  ultimately show ?thesis by (simp add: pm(1))
qed

text \<open>What a CALLERROR frame with an id and a textual code means, complete or not.\<close>

definition frame_error :: "json \<Rightarrow> string \<Rightarrow> OcppError" where
  "frame_error v c = (case CallErrorCode_of_str c of
      None \<Rightarrow> ProtocolViolation (''Unknown error code: '' @ c)
    | Some code \<Rightarrow> OcppError.CallError code (unwrap_or (Option.bind (json_get ''3'' v) json_as_str) [])
        (unwrap_or (json_get ''4'' v) (JObject [])))"

lemma call_error_frame:
  assumes "discriminator v = Some ''CALLERROR''" and "json_get ''1'' v = Some (JString i)"
    and "json_get ''2'' v = Some (JString c)"
  shows "recover_inbound_call_error (Some v) = Some (i, frame_error v c)"
    and "decode_message v = None \<or> (\<exists>e. decode_message v = Some (Message.CallError e)
           \<and> cem_unique_id e = i \<and> OcppError_from e = frame_error v c)"
proof -
  show "recover_inbound_call_error (Some v) = Some (i, frame_error v c)"
    using assms
    by (auto simp: recover_inbound_call_error_def frame_error_def into_message_def OcppError_from_def
        split: option.splits)
  show "decode_message v = None \<or> (\<exists>e. decode_message v = Some (Message.CallError e)
           \<and> cem_unique_id e = i \<and> OcppError_from e = frame_error v c)"
    using assms
    by (cases "decode_call_error v")
      (auto simp: decode_message_def decode_call_error_def frame_error_def OcppError_from_def
        bind_eq_Some_conv)
qed

text \<open>
  Property C31. No CALLERROR is lost: a frame that is marked as one and carries an id and a textual code
  settles the pending call with that id, on either side, at once and with the error of the frame,
  even when its code is unknown, its description or details are missing, or it is otherwise not
  decodable. No other call is affected.
\<close>

theorem call_error_settles:
  assumes "discriminator v = Some ''CALLERROR''" and "json_get ''1'' v = Some (JString i)"
    and "json_get ''2'' v = Some (JString c)"
    and "pending_inv (ep_pending st)" and "map_of (pm_inner (ep_pending st)) i = Some ch"
    and "ch \<notin> set (pm_receiver_dropped (ep_pending st))" and "len \<le> mx"
    and "ep_pending session = ep_pending st"
  shows "pm_channels (ep_pending (client_receive handle (Some v) st))
           = (pm_channels (ep_pending st))[ch := Delivered (Err (frame_error v c))]
    \<and> (\<exists>st'. server_receive handle dec mx cp len (Some v) session = Some st'
        \<and> pm_channels (ep_pending st') = (pm_channels (ep_pending st))[ch := Delivered (Err (frame_error v c))])"
proof -
  have d: "pm_channels (snd (pm_reject i (frame_error v c) (ep_pending st)))
      = (pm_channels (ep_pending st))[ch := Delivered (Err (frame_error v c))]"
    using send_delivers [OF assms(4-6)] by (simp add: pm_reject_def)
  note f = call_error_frame [OF assms(1-3)]
  have e: "OcppError_from e = OcppError.CallError (cem_error_code e) (cem_error_description e) (cem_error_details e)" for e
    by (simp add: OcppError_from_def)
  from f(2) show ?thesis
  proof (elim disjE exE conjE)
    assume "decode_message v = None"
    with f(1) d assms(7,8) show ?thesis
      by (simp add: client_receive_def server_receive_def classify_frame_decode)
  next
    fix fr assume "decode_message v = Some (Message.CallError fr)" "cem_unique_id fr = i"
      "OcppError_from fr = frame_error v c"
    with d assms(7,8) e [of fr] show ?thesis
      by (simp add: client_receive_def server_receive_def classify_frame_decode)
  qed
qed

theorem call_error_settles_witness:
  "let pm = snd (pm_register ''7'' PendingCallMap_new);
       st = \<lparr>ep_pending = pm, ep_app = (), ep_tasks = [], ep_sent = [], ep_received = []\<rparr> :: (unit, unit) endpoint;
       v = JObject [(''0'', JString ''CALLERROR''), (''1'', JString ''7''), (''2'', JString ''Vendor'')]
   in pm_channels (ep_pending (client_receive (\<lambda>m s. (Ok None, s, [])) (Some v) st))
      = [Delivered (Err (ProtocolViolation ''Unknown error code: Vendor''))]"
proof -
  define pm where "pm = snd (pm_register ''7'' PendingCallMap_new)"
  define st :: "(unit, unit) endpoint" where
    "st = \<lparr>ep_pending = pm, ep_app = (), ep_tasks = [], ep_sent = [], ep_received = []\<rparr>"
  define session :: "(unit, unit, unit) cp_session" where
    "session = \<lparr>ep_pending = pm, ep_app = (), ep_tasks = [], ep_sent = [], ep_received = [], cs_events = []\<rparr>"
  define v where "v = JObject [(''0'', JString ''CALLERROR''), (''1'', JString ''7''), (''2'', JString ''Vendor'')]"
  have v: "discriminator v = Some ''CALLERROR''" "json_get ''1'' v = Some (JString ''7'')"
    "json_get ''2'' v = Some (JString ''Vendor'')"
    by (simp_all add: v_def discriminator_def)
  have pm: "pending_inv pm" unfolding pm_def by (rule register_inv [OF pending_inv_new])
  have st: "pending_inv (ep_pending st)" "map_of (pm_inner (ep_pending st)) ''7'' = Some 0"
    "0 \<notin> set (pm_receiver_dropped (ep_pending st))" "pm_channels (ep_pending st) = [Waiting]"
    using pm by (simp_all add: st_def pm_def pm_register_def settle_def PendingCallMap_new_def)
  have "CallErrorCode_of_str ''Vendor'' = None"
    by (simp add: CallErrorCode_of_str_def decode_by_def CallErrorCode_all_def)
  then have "frame_error v ''Vendor'' = ProtocolViolation ''Unknown error code: Vendor''"
    by (simp add: frame_error_def)
  with call_error_settles [OF v st(1-3), of 0 0 session "\<lambda>m s. (Ok None, s, [])" no_events "[]"] st(4) show ?thesis
    by (simp add: st_def session_def pm_def v_def Let_def)
qed

text \<open>
  A reconnecting charge point stays reachable: the routing handle of an id is the session
  opened last for it, unless that very session was closed since; the teardown of an older
  session, however late, does not evict it.
\<close>

theorem session_routing:
  "map_of (ss_cp_handles (fold session_exec steps sessions_new)) cp = Some conn \<longleftrightarrow>
     (\<exists>xs ys. steps = xs @ Opened cp conn # ys \<and> Closed cp conn \<notin> set ys
        \<and> {c. Opened cp c \<in> set ys} = {})"
proof (induction steps rule: rev_induct)
  case Nil
  show ?case by (simp add: sessions_new_def)
next
  case (snoc x steps)
  let ?s = "fold session_exec steps sessions_new"
  let ?R = "\<lambda>steps c. \<exists>xs ys. steps = xs @ Opened cp c # ys \<and> Closed cp c \<notin> set ys \<and> {c. Opened cp c \<in> set ys} = {}"
  have keep: "?R (steps @ [x]) conn \<longleftrightarrow> ?R steps conn \<and> x \<noteq> Closed cp conn"
    if "\<And>c. x \<noteq> Opened cp c"
  proof
    assume "?R (steps @ [x]) conn"
    then obtain xs ys where r: "steps @ [x] = xs @ Opened cp conn # ys" "Closed cp conn \<notin> set ys"
      "{c. Opened cp c \<in> set ys} = {}" by blast
    from r(1) that [of conn] obtain zs where "ys = zs @ [x]" "steps = xs @ Opened cp conn # zs"
      by (cases ys rule: rev_cases) auto
    with r(2,3) show "?R steps conn \<and> x \<noteq> Closed cp conn" by auto
  next
    assume "?R steps conn \<and> x \<noteq> Closed cp conn"
    then obtain xs ys where r: "steps = xs @ Opened cp conn # ys" "Closed cp conn \<notin> set ys"
      "{c. Opened cp c \<in> set ys} = {}" "x \<noteq> Closed cp conn" by blast
    with that show "?R (steps @ [x]) conn"
      by (intro exI [of _ xs] exI [of _ "ys @ [x]"]) auto
  qed
  show ?case
  proof (cases x)
    case (Opened cp' c')
    show ?thesis
    proof (cases "cp' = cp")
      case True
      have "?R (steps @ [x]) conn \<longleftrightarrow> c' = conn"
      proof
        assume "?R (steps @ [x]) conn"
        then obtain xs ys where "steps @ [x] = xs @ Opened cp conn # ys" "{c. Opened cp c \<in> set ys} = {}"
          by blast
        then show "c' = conn" using Opened True by (cases ys rule: rev_cases) auto
      next
        assume "c' = conn"
        with Opened True show "?R (steps @ [x]) conn" by (intro exI [of _ steps] exI [of _ "[]"]) simp
      qed
      with Opened True show ?thesis by (simp add: session_opened_def update_conv')
    next
      case False
      with Opened keep snoc.IH show ?thesis by (simp add: session_opened_def update_conv')
    qed
  next
    case (Closed cp' c')
    then have "?R (steps @ [x]) conn \<longleftrightarrow> map_of (ss_cp_handles ?s) cp = Some conn \<and> x \<noteq> Closed cp conn"
      using keep snoc.IH by simp
    moreover have "map_of (ss_cp_handles (session_closed cp' c' ?s)) cp = Some conn
        \<longleftrightarrow> map_of (ss_cp_handles ?s) cp = Some conn \<and> x \<noteq> Closed cp conn"
      using Closed by (auto simp: session_closed_def delete_conv')
    ultimately show ?thesis using Closed by simp
  qed
qed

text \<open>
  The status event does not wait for acceptance: when the central system refuses a
  \<open>StatusNotification\<close> with a CALLERROR the observer is told of the new connector status all the
  same, whereas a refused transaction or boot message raises no event.
\<close>

theorem status_event_on_refusal:
  assumes "fst (dispatch lib d call s) = Err e" and "ed_status dec (cm_payload call) = Some x"
  shows "let evs = server_events dec cp call (Ok (fst (csms_handle_message lib d (Message.Call call) s))) in
     evs = MessageReceived (Message.Call call)
       # (if cm_action call = ''StatusNotification'' then [StatusNotificationEvent cp x] else [])"
proof -
  obtain s' tasks where "dispatch lib d call s = (Err e, s', tasks)"
    using assms(1) by (cases "dispatch lib d call s") auto
  moreover obtain c desc y where "build_call_error (cm_unique_id call) e (dispatcher_version d)
      = Message_call_error (cm_unique_id call) c desc y"
    using build_call_error_is_error by blast
  ultimately show ?thesis
    using assms(2) by (simp add: csms_handle_message_def server_events_def option_list_def Message_call_error_def)
qed

theorem status_event_on_refusal_witness:
  "let d = ActionDispatcher_new :: (unit, unit) ActionDispatcher;
       call = CallMessage_with_id ''1'' ''StatusNotification'' JNull;
       dec = \<lparr>ed_status = (\<lambda>_. Some ()), ed_transaction = (\<lambda>_ _ _. None), ed_lifecycle = (\<lambda>_ _. None)\<rparr>
   in server_events dec ''CP'' call (Ok (fst (csms_handle_message accepting_library d (Message.Call call) ())))
      = [MessageReceived (Message.Call call), StatusNotificationEvent ''CP'' ()]"
proof -
  define d where "d = (ActionDispatcher_new :: (unit, unit) ActionDispatcher)"
  define call where "call = CallMessage_with_id ''1'' ''StatusNotification'' JNull"
  define dec :: "unit event_decoders" where
    "dec = \<lparr>ed_status = (\<lambda>_. Some ()), ed_transaction = (\<lambda>_ _ _. None), ed_lifecycle = (\<lambda>_ _. None)\<rparr>"
  have "fst (dispatch accepting_library d call ()) = Err (OcppError.NotSupported ''StatusNotification'')"
    by (simp add: dispatch_def d_def call_def ActionDispatcher_new_def CallMessage_with_id_def
        unrouted_action_error_def is_some_and_def)
  moreover have "ed_status dec (cm_payload call) = Some ()" by (simp add: dec_def)
  ultimately show ?thesis
    using status_event_on_refusal [of accepting_library d call "()" _ dec "()" "''CP''"]
    by (simp add: d_def call_def dec_def CallMessage_with_id_def Let_def)
qed

end
