(* ===== verification/Connections.thy ===== *)
theory Connections
  imports Transport Transaction_Events Payloads16
begin

text \<open>
  The rest of \<open>ocpp-transport\<close>: its error type (\<open>error.rs\<close>), configuration, connection records, envelopes and counters
  (\<open>lib.rs\<close>), the framing rules and the handshake of \<open>websocket.rs\<close>, and the ready-made central systems of
  \<open>central_system.rs\<close> and \<open>central_system_v201.rs\<close>. The stream is the WebSocket library's: what it did is an argument. Times
  are integers, and \<open>as u64\<close> is the wrap-around of a word.
\<close>

section \<open>Errors\<close>

datatype ConnectionState = Connecting | Connected | Closing | ClosedState | FailedState

datatype TransportError =
    ConnectionError string
  | ProtocolError string
  | SerializationError string
  | MessageTooLarge nat nat
  | TimeoutError u64
  | ConnectionClosed string
  | AuthenticationFailed string
  | InvalidSubprotocol string
  | BufferOverflow string
  | IoError string
  | TlsError string
  | HandshakeError string
  | NotReady ConnectionState
  | InternalTransport string

definition TransportError_from :: "OcppError \<Rightarrow> TransportError" where
  "TransportError_from e = (case e of
      Json m \<Rightarrow> SerializationError m
    | OcppError.Timeout _ \<Rightarrow> TimeoutError 30
    | Transport m \<Rightarrow> InternalTransport m
    | _ \<Rightarrow> InternalTransport (OcppError_display e))"

section \<open>Connections and envelopes\<close>

record TransportConfig =
  tc_max_message_size :: nat
  tc_connection_timeout :: u64
  tc_call_timeout :: u64
  tc_keep_alive_interval :: u64
  tc_message_buffer_size :: nat
  tc_enable_compression :: bool
  tc_sub_protocols :: "string list"

definition TransportConfig_default :: TransportConfig where
  "TransportConfig_default = \<lparr>tc_max_message_size = 65536, tc_connection_timeout = 30, tc_call_timeout = 30,
     tc_keep_alive_interval = 60, tc_message_buffer_size = 1000, tc_enable_compression = False,
     tc_sub_protocols = [''ocpp1.6'', ''ocpp2.0.1'']\<rparr>"

record ConnectionInfo =
  ci_id :: nat
  ci_remote_addr :: string
  ci_local_addr :: string
  ci_connected_at :: datetime
  ci_last_activity :: datetime
  ci_sub_protocol :: "string option"

definition ConnectionInfo_new :: "nat \<Rightarrow> datetime \<Rightarrow> string \<Rightarrow> string \<Rightarrow> ConnectionInfo" where
  "ConnectionInfo_new i now remote local = \<lparr>ci_id = i, ci_remote_addr = remote, ci_local_addr = local, ci_connected_at = now,
     ci_last_activity = now, ci_sub_protocol = None\<rparr>"

definition update_activity :: "datetime \<Rightarrow> ConnectionInfo \<Rightarrow> ConnectionInfo" where
  "update_activity now c = c\<lparr>ci_last_activity := now\<rparr>"

definition seconds_as_u64 :: "int \<Rightarrow> u64" where
  "seconds_as_u64 d = word_of_int (num_seconds d)"

definition is_idle :: "u64 \<Rightarrow> datetime \<Rightarrow> ConnectionInfo \<Rightarrow> bool" where
  "is_idle timeout now c = (timeout < seconds_as_u64 (now - ci_last_activity c))"

record MessageEnvelope =
  me_message :: Message
  me_id :: string
  me_timestamp :: datetime
  me_priority :: "8 word"
  me_max_retries :: u32
  me_retry_count :: u32

definition MessageEnvelope_new :: "datetime \<Rightarrow> Message \<Rightarrow> MessageEnvelope" where
  "MessageEnvelope_new now m = \<lparr>me_message = m, me_id = unique_id m, me_timestamp = now, me_priority = 0, me_max_retries = 3,
     me_retry_count = 0\<rparr>"

definition with_priority :: "datetime \<Rightarrow> Message \<Rightarrow> 8 word \<Rightarrow> MessageEnvelope" where
  "with_priority now m p = (MessageEnvelope_new now m)\<lparr>me_priority := p\<rparr>"

definition retry :: "MessageEnvelope \<Rightarrow> bool \<times> MessageEnvelope" where
  "retry e = (if me_retry_count e < me_max_retries e then (True, e\<lparr>me_retry_count := me_retry_count e + 1\<rparr>) else (False, e))"

definition envelope_is_expired :: "u64 \<Rightarrow> datetime \<Rightarrow> MessageEnvelope \<Rightarrow> bool" where
  "envelope_is_expired timeout now e = (timeout < seconds_as_u64 (now - me_timestamp e))"

record TransportStats =
  ts_messages_sent :: u64
  ts_messages_received :: u64
  ts_bytes_sent :: u64
  ts_bytes_received :: u64
  ts_connections :: u64
  ts_errors :: u64
  ts_last_reset :: "datetime option"

definition stats_reset :: "datetime \<Rightarrow> TransportStats" where
  "stats_reset now = \<lparr>ts_messages_sent = 0, ts_messages_received = 0, ts_bytes_sent = 0, ts_bytes_received = 0,
     ts_connections = 0, ts_errors = 0, ts_last_reset = Some now\<rparr>"

definition record_sent :: "nat \<Rightarrow> TransportStats \<Rightarrow> TransportStats" where
  "record_sent bytes s = s\<lparr>ts_messages_sent := ts_messages_sent s + 1, ts_bytes_sent := ts_bytes_sent s + of_nat bytes\<rparr>"

definition record_received :: "nat \<Rightarrow> TransportStats \<Rightarrow> TransportStats" where
  "record_received bytes s =
     s\<lparr>ts_messages_received := ts_messages_received s + 1, ts_bytes_received := ts_bytes_received s + of_nat bytes\<rparr>"

definition record_connection :: "TransportStats \<Rightarrow> TransportStats" where
  "record_connection s = s\<lparr>ts_connections := ts_connections s + 1\<rparr>"

definition record_error :: "TransportStats \<Rightarrow> TransportStats" where
  "record_error s = s\<lparr>ts_errors := ts_errors s + 1\<rparr>"

definition validate_subprotocol :: "string \<Rightarrow> bool" where
  "validate_subprotocol p \<longleftrightarrow> p = ''ocpp1.6'' \<or> p = ''ocpp2.0'' \<or> p = ''ocpp2.0.1''"

definition trim_end_slashes :: "string \<Rightarrow> string" where
  "trim_end_slashes s = rev (dropWhile (\<lambda>c. c = CHR ''/'') (rev s))"

definition create_websocket_url :: "string \<Rightarrow> string \<Rightarrow> string" where
  "create_websocket_url base cp = trim_end_slashes base @ ''/ocpp/'' @ cp"

section \<open>WebSocket\<close>

datatype 'a io = TimedOut | IoFailed TransportError | Done 'a

definition ws_send_message :: "TransportConfig \<Rightarrow> unit io \<Rightarrow> string \<Rightarrow> (TransportError, unit) result" where
  "ws_send_message cfg outcome m =
     (if tc_max_message_size cfg < length m then Err (MessageTooLarge (length m) (tc_max_message_size cfg))
      else (case outcome of
          TimedOut \<Rightarrow> Err (TimeoutError (tc_connection_timeout cfg))
        | IoFailed e \<Rightarrow> Err e
        | Done _ \<Rightarrow> Ok ()))"

datatype ws_frame = TextFrame string | BinaryFrame string | PingFrame string | PongFrame string | CloseFrame "string option" | RawFrame

text \<open>\<open>None\<close> is the end of the stream. A ping is answered; the answer may fail.\<close>

definition ws_receive_message ::
  "TransportConfig \<Rightarrow> TransportError option \<Rightarrow> ws_frame option io \<Rightarrow> (TransportError, string option) result \<times> ws_frame list" where
  "ws_receive_message cfg pong_error incoming = (case incoming of
      TimedOut \<Rightarrow> (Err (TimeoutError (tc_connection_timeout cfg)), [])
    | IoFailed e \<Rightarrow> (Err e, [])
    | Done None \<Rightarrow> (Err (ConnectionClosed ''Stream ended''), [])
    | Done (Some f) \<Rightarrow> (case f of
        TextFrame t \<Rightarrow> (if tc_max_message_size cfg < length t then Err (MessageTooLarge (length t) (tc_max_message_size cfg))
                        else Ok (Some t), [])
      | BinaryFrame _ \<Rightarrow> (Ok None, [])
      | PingFrame d \<Rightarrow> (case pong_error of Some e \<Rightarrow> (Err e, []) | None \<Rightarrow> (Ok None, [PongFrame d]))
      | PongFrame _ \<Rightarrow> (Ok None, [])
      | CloseFrame r \<Rightarrow> (Err (ConnectionClosed (case r of Some t \<Rightarrow> t | None \<Rightarrow> ''Unknown'')), [])
      | RawFrame \<Rightarrow> (Ok None, [])))"

fun split_slash :: "string \<Rightarrow> string list" where
  "split_slash [] = [[]]"
| "split_slash (c # cs) = (if c = CHR ''/'' then [] # split_slash cs
     else (case split_slash cs of w # ws \<Rightarrow> (c # w) # ws | [] \<Rightarrow> [[c]]))"

definition extract_charge_point_id :: "string \<Rightarrow> string option" where
  "extract_charge_point_id path =
     (let clean = takeWhile (\<lambda>c. c \<noteq> CHR ''?'' \<and> c \<noteq> CHR ''#'') path
      in Option.bind (map_option str_trim (List.find (\<lambda>w. w \<noteq> []) (rev (split_slash clean))))
           (\<lambda>i. if i \<noteq> [] then Some i else None))"

definition strip_prefix :: "string \<Rightarrow> string \<Rightarrow> string option" where
  "strip_prefix p s = (if take (length p) s = p then Some (drop (length p) s) else None)"

definition validate_handshake_request :: "string \<Rightarrow> string option \<Rightarrow> string list \<Rightarrow> (string, string option) result" where
  "validate_handshake_request path header allowed =
     (case strip_prefix ''/ocpp/'' path of
        None \<Rightarrow> Err ''Invalid path: must start with /ocpp/''
      | Some remainder \<Rightarrow> (case extract_charge_point_id remainder of
          None \<Rightarrow> Err ''Invalid path: missing charge point ID''
        | Some cp \<Rightarrow>
            if 20 < length cp then Err ''Invalid charge point ID: too long''
            else (let requested = (case header of Some h \<Rightarrow> map str_trim (split_comma h) | None \<Rightarrow> []);
                      selected = List.find (\<lambda>p. p \<in> set allowed) requested
                  in if requested = [] \<or> selected = None then Err ''No supported subprotocol found'' else Ok selected)))"

datatype FrameType = FText | FBinary | FPing | FPong | FClose

record FrameStats =
  fs_text_frames :: u64
  fs_binary_frames :: u64
  fs_ping_frames :: u64
  fs_pong_frames :: u64
  fs_close_frames :: u64
  fs_total_bytes :: u64

definition FrameStats_default :: FrameStats where
  "FrameStats_default = \<lparr>fs_text_frames = 0, fs_binary_frames = 0, fs_ping_frames = 0, fs_pong_frames = 0, fs_close_frames = 0,
     fs_total_bytes = 0\<rparr>"

fun frames_update :: "FrameType \<times> nat \<Rightarrow> FrameStats \<Rightarrow> FrameStats" where
  "frames_update (t, bytes) s = (let s1 = s\<lparr>fs_total_bytes := fs_total_bytes s + of_nat bytes\<rparr> in
     case t of
       FText \<Rightarrow> s1\<lparr>fs_text_frames := fs_text_frames s1 + 1\<rparr>
     | FBinary \<Rightarrow> s1\<lparr>fs_binary_frames := fs_binary_frames s1 + 1\<rparr>
     | FPing \<Rightarrow> s1\<lparr>fs_ping_frames := fs_ping_frames s1 + 1\<rparr>
     | FPong \<Rightarrow> s1\<lparr>fs_pong_frames := fs_pong_frames s1 + 1\<rparr>
     | FClose \<Rightarrow> s1\<lparr>fs_close_frames := fs_close_frames s1 + 1\<rparr>)"

definition total_frames :: "FrameStats \<Rightarrow> u64" where
  "total_frames s = fs_text_frames s + fs_binary_frames s + fs_ping_frames s + fs_pong_frames s + fs_close_frames s"

section \<open>Central systems\<close>

record CentralSystemConfig =
  csc_boot_interval :: i32
  csc_registration_status :: RegistrationStatus

definition CentralSystemConfig_default :: CentralSystemConfig where
  "CentralSystemConfig_default = \<lparr>csc_boot_interval = 300, csc_registration_status = RegistrationStatus.Accepted\<rparr>"

record CentralSystemConfigV201 =
  cscv_boot_interval :: i32
  cscv_registration_status :: RegistrationStatusEnumType

definition CentralSystemConfigV201_default :: CentralSystemConfigV201 where
  "CentralSystemConfigV201_default = \<lparr>cscv_boot_interval = 300, cscv_registration_status = RegistrationStatusEnumType.Accepted\<rparr>"

text \<open>The derived readers of the requests and writers of the responses.\<close>

record ('b, 'h, 'n, 't) codecs =
  cd_boot :: "'b decoder"
  cd_heartbeat :: "'h decoder"
  cd_status :: "'n decoder"
  cd_transaction :: "'t decoder"
  ce_boot16 :: "(datetime \<times> i32 \<times> RegistrationStatus) encoder"
  ce_heartbeat16 :: "datetime encoder"
  ce_boot201 :: "(string \<times> i32 \<times> RegistrationStatusEnumType) encoder"
  ce_heartbeat201 :: "string encoder"
  ce_empty :: "unit encoder"
  ce_transaction :: "TransactionEventResponse encoder"

definition register_default_handlers ::
  "('b, 'h, 'n, 't) codecs \<Rightarrow> datetime \<Rightarrow> CentralSystemConfig \<Rightarrow> ('s, 'e) ActionDispatcher \<Rightarrow> ('s, 'e) ActionDispatcher" where
  "register_default_handlers cd now cfg d =
     on ''StatusNotification'' (cd_status cd) (ce_empty cd) (\<lambda>_ s. (Ok (), s))
       (on ''Heartbeat'' (cd_heartbeat cd) (ce_heartbeat16 cd) (\<lambda>_ s. (Ok now, s))
         (on ''BootNotification'' (cd_boot cd) (ce_boot16 cd)
           (\<lambda>_ s. (Ok (now, csc_boot_interval cfg, csc_registration_status cfg), s)) d))"

definition central_system_dispatcher_with ::
  "(string \<Rightarrow> json) \<Rightarrow> ('b, 'h, 'n, 't) codecs \<Rightarrow> datetime \<Rightarrow> CentralSystemConfig \<Rightarrow> ('s, 'e) ActionDispatcher" where
  "central_system_dispatcher_with content cd now cfg =
     register_default_handlers cd now cfg (with_validator (SchemaValidator_v16j content) ActionDispatcher_new)"

definition TransactionEventResponse_default :: TransactionEventResponse where
  "TransactionEventResponse_default = \<lparr>ter_total_cost = None, ter_charging_priority = None, ter_id_token_info = None,
     ter_updated_personal_message = None, ter_custom_data = None\<rparr>"

definition register_default_handlers_v201 ::
  "('b, 'h, 'n, 't) codecs \<Rightarrow> string \<Rightarrow> CentralSystemConfigV201 \<Rightarrow> ('s, 'e) ActionDispatcher \<Rightarrow> ('s, 'e) ActionDispatcher" where
  "register_default_handlers_v201 cd now cfg d =
     on ''TransactionEvent'' (cd_transaction cd) (ce_transaction cd) (\<lambda>_ s. (Ok TransactionEventResponse_default, s))
       (on ''StatusNotification'' (cd_status cd) (ce_empty cd) (\<lambda>_ s. (Ok (), s))
         (on ''Heartbeat'' (cd_heartbeat cd) (ce_heartbeat201 cd) (\<lambda>_ s. (Ok now, s))
           (on ''BootNotification'' (cd_boot cd) (ce_boot201 cd)
             (\<lambda>_ s. (Ok (now, cscv_boot_interval cfg, cscv_registration_status cfg), s)) d)))"

definition central_system_dispatcher_v201_with ::
  "(string \<Rightarrow> json) \<Rightarrow> ('b, 'h, 'n, 't) codecs \<Rightarrow> string \<Rightarrow> CentralSystemConfigV201 \<Rightarrow> ('s, 'e) ActionDispatcher" where
  "central_system_dispatcher_v201_with content cd now cfg =
     register_default_handlers_v201 cd now cfg (with_validator (SchemaValidator_v201 content) ActionDispatcher_new)"

section \<open>Properties\<close>

text \<open>Splitting a path at its slashes.\<close>

lemma split_slash_not_Nil: "split_slash s \<noteq> []"
  by (induction s) (auto split: list.split)

lemma split_slash_plain: "CHR ''/'' \<notin> set s \<Longrightarrow> split_slash s = [s]"
  by (induction s) auto

lemma split_slash_append: "split_slash (s @ CHR ''/'' # t) = split_slash s @ split_slash t"
  by (induction s) (auto simp: split_slash_not_Nil split: list.split)

definition plain_id :: "string \<Rightarrow> bool" where
  "plain_id cp \<longleftrightarrow> cp \<noteq> [] \<and> str_trim cp = cp \<and> list_all (\<lambda>c. c \<noteq> CHR ''/'' \<and> c \<noteq> CHR ''?'' \<and> c \<noteq> CHR ''#'') cp"

lemma extract_last:
  assumes "plain_id cp" and "list_all (\<lambda>c. c \<noteq> CHR ''?'' \<and> c \<noteq> CHR ''#'') prefix"
  shows "extract_charge_point_id (prefix @ CHR ''/'' # cp) = Some cp" and "extract_charge_point_id cp = Some cp"
proof -
  have all: "takeWhile (\<lambda>c. c \<noteq> CHR ''?'' \<and> c \<noteq> CHR ''#'') s = s" if "list_all (\<lambda>c. c \<noteq> CHR ''?'' \<and> c \<noteq> CHR ''#'') s" for s
    using that by (simp add: list_all_iff takeWhile_eq_all_conv)
  have cp: "list_all (\<lambda>c. c \<noteq> CHR ''?'' \<and> c \<noteq> CHR ''#'') cp" "CHR ''/'' \<notin> set cp" "cp \<noteq> []" "str_trim cp = cp"
    using assms(1) by (auto simp: plain_id_def list_all_iff)
  with assms(2) have "list_all (\<lambda>c. c \<noteq> CHR ''?'' \<and> c \<noteq> CHR ''#'') (prefix @ CHR ''/'' # cp)" by simp
  from all [OF this] show "extract_charge_point_id (prefix @ CHR ''/'' # cp) = Some cp"
    unfolding extract_charge_point_id_def Let_def using cp by (simp only: split_slash_append split_slash_plain) (simp add: split_slash_plain)
  from all [OF cp(1)] show "extract_charge_point_id cp = Some cp"
    unfolding extract_charge_point_id_def Let_def using cp by (simp only: split_slash_plain) (simp add: split_slash_plain)
qed

lemma split_comma_plain: "CHR '','' \<notin> set s \<Longrightarrow> split_comma s = [s]"
  by (induction s) auto

lemma trim_end_slashes_set: "set (trim_end_slashes s) \<subseteq> set s"
  by (auto simp: trim_end_slashes_def dest: set_dropWhileD)

text \<open>
  The address of a charge point: the id that \<open>create_websocket_url\<close> puts into the URL is the id read back from
  it, and the handshake check selects the protocol offered, for ids of at most 20 bytes. The upgrade handler of the server
  accepts the same request for ids of up to 48 bytes.
\<close>

theorem charge_point_url_roundtrip:
  assumes cp: "plain_id cp" and base: "list_all (\<lambda>c. c \<noteq> CHR ''?'' \<and> c \<noteq> CHR ''#'') base"
    and offer: "p \<in> set allowed" "p \<noteq> []" "CHR '','' \<notin> set p" "str_trim p = p"
  shows "extract_charge_point_id (create_websocket_url base cp) = Some cp
    \<and> validate_handshake_request (''/ocpp/'' @ cp) (Some p) allowed
        = (if 20 < length cp then Err ''Invalid charge point ID: too long'' else Ok (Some p))
    \<and> ws_handler cp (Some p) allowed = (if 48 < length cp then None else Some (cp, p))"
proof (intro conjI)
  have "list_all (\<lambda>c. c \<noteq> CHR ''?'' \<and> c \<noteq> CHR ''#'') (trim_end_slashes base @ ''/ocpp'')"
    using base trim_end_slashes_set [of base] by (auto simp: list_all_iff)
  from extract_last(1) [OF cp this] show "extract_charge_point_id (create_websocket_url base cp) = Some cp"
    by (simp add: create_websocket_url_def)
  show "validate_handshake_request (''/ocpp/'' @ cp) (Some p) allowed
        = (if 20 < length cp then Err ''Invalid charge point ID: too long'' else Ok (Some p))"
    using extract_last(2) [OF cp, of "[]"] offer
    by (simp add: validate_handshake_request_def strip_prefix_def split_comma_plain)
  have "List.find (\<lambda>q. q = p \<and> q \<noteq> []) allowed = Some p" using offer(1,2) by (induction allowed) auto
  then show "ws_handler cp (Some p) allowed = (if 48 < length cp then None else Some (cp, p))"
    using cp offer by (simp add: ws_handler_def plain_id_def Let_def negotiate_subprotocol_def split_comma_plain)
qed

theorem charge_point_url_roundtrip_witness:
  "extract_charge_point_id (create_websocket_url ''ws://host:9000/'' ''CP-1'') = Some ''CP-1''
   \<and> validate_handshake_request ''/ocpp/CP-1'' (Some ''ocpp1.6'') [''ocpp2.0.1'', ''ocpp1.6''] = Ok (Some ''ocpp1.6'')"
  using charge_point_url_roundtrip [of "''CP-1''" "''ws://host:9000/''" "''ocpp1.6''" "[''ocpp2.0.1'', ''ocpp1.6'']"]
  by (simp add: plain_id_def str_trim_def is_blank_def ascii_ws_def ws2_def ws3_def)

text \<open>The number of retries of an envelope.\<close>

fun retries :: "nat \<Rightarrow> MessageEnvelope \<Rightarrow> nat" where
  "retries 0 e = 0"
| "retries (Suc n) e = (let (again, e') = retry e in if again then Suc (retries n e') else 0)"

lemma retries_bound:
  "unat (me_max_retries e) - unat (me_retry_count e) \<le> n \<Longrightarrow>
     retries n e = unat (me_max_retries e) - unat (me_retry_count e)"
proof (induction n arbitrary: e)
  case (Suc n)
  show ?case
  proof (cases "me_retry_count e < me_max_retries e")
    case True
    then have lt: "unat (me_retry_count e) < unat (me_max_retries e)" by (simp add: word_less_nat_alt)
    have "unat (me_max_retries e) < 2 ^ 32" by (rule order_less_le_trans [OF unsigned_less]) simp
    with lt have suc: "unat (me_retry_count e + 1) = Suc (unat (me_retry_count e))"
      by (subst unat_word_ariths(1)) simp
    have "retries n (e\<lparr>me_retry_count := me_retry_count e + 1\<rparr>) = unat (me_max_retries e) - Suc (unat (me_retry_count e))"
      using Suc.IH [of "e\<lparr>me_retry_count := me_retry_count e + 1\<rparr>"] Suc.prems suc by simp
    with True lt show ?thesis by (simp add: retry_def)
  qed (simp add: retry_def word_less_nat_alt)
qed simp

text \<open>
  Property C19. When a connection counts as idle, a message as expired, and how often it is retried. Of the whole seconds since
  the last activity the code takes the value modulo \<open>2^64\<close>: with a clock that runs forward it is idle exactly after more than
  the time-out, but a clock that was set back by a second or more makes every connection idle and every message expired at
  once. An envelope is retried \<open>max_retries\<close> times and never again.
\<close>

theorem idle_and_retry:
  assumes "- (2 ^ 63) \<le> num_seconds (now - ci_last_activity c)" "num_seconds (now - ci_last_activity c) < 2 ^ 63"
    and "- (2 ^ 63) \<le> num_seconds (now - me_timestamp e)" "num_seconds (now - me_timestamp e) < 2 ^ 63"
    and "unat timeout < 2 ^ 63" and "unat (me_max_retries e) - unat (me_retry_count e) \<le> n"
  shows "(is_idle timeout now c \<longleftrightarrow> num_seconds (now - ci_last_activity c) < 0 \<or> int (unat timeout) < num_seconds (now - ci_last_activity c))
    \<and> (envelope_is_expired timeout now e \<longleftrightarrow> num_seconds (now - me_timestamp e) < 0 \<or> int (unat timeout) < num_seconds (now - me_timestamp e))
    \<and> \<not> is_idle timeout now (update_activity now c)
    \<and> retries n e = unat (me_max_retries e) - unat (me_retry_count e)"
proof -
  have late: "timeout < seconds_as_u64 d \<longleftrightarrow> num_seconds d < 0 \<or> int (unat timeout) < num_seconds d"
    if "- (2 ^ 63) \<le> num_seconds d" "num_seconds d < 2 ^ 63" for d
  proof -
    have m: "uint (seconds_as_u64 d) = num_seconds d mod 2 ^ 64" by (simp add: seconds_as_u64_def uint_word_of_int)
    have "num_seconds d mod 2 ^ 64 = (if num_seconds d < 0 then num_seconds d + 2 ^ 64 else num_seconds d)"
    proof (cases "num_seconds d < 0")
      case True
      then have "(num_seconds d + 2 ^ 64) mod 2 ^ 64 = num_seconds d + 2 ^ 64"
        by (intro mod_pos_pos_trivial) (use that in simp_all)
      with True show ?thesis by (simp only: mod_add_self2 if_True)
    qed (use that in simp)
    then have mod: "uint (seconds_as_u64 d) = (if num_seconds d < 0 then num_seconds d + 2 ^ 64 else num_seconds d)"
      unfolding m .
    have "int (unat timeout) < 2 ^ 63" using assms(5) by (metis of_nat_less_iff of_nat_numeral of_nat_power)
    have u: "uint timeout = int (unat timeout)" by simp
    show ?thesis
    proof (cases "num_seconds d < 0")
      case True
      with that(1) \<open>int (unat timeout) < 2 ^ 63\<close> have "int (unat timeout) < num_seconds d + (2 ^ 63 + 2 ^ 63)" by linarith
      then have "int (unat timeout) < num_seconds d + 2 ^ 64" by simp
      with True show ?thesis unfolding word_less_def mod u by (simp only: if_True simp_thms)
    next
      case False
      then show ?thesis unfolding word_less_def mod u by (simp only: if_False simp_thms)
    qed
  qed
  show ?thesis
    using late [OF assms(1,2)] late [OF assms(3,4)] late [of 0] retries_bound [OF assms(6)]
    by (simp add: is_idle_def envelope_is_expired_def update_activity_def num_seconds_def)
qed

theorem idle_and_retry_witness:
  "let c = ConnectionInfo_new 1 (seconds 100) ''peer'' ''here'' in
     is_idle 30 (seconds 131) c \<and> \<not> is_idle 30 (seconds 130) c \<and> is_idle 30 (seconds 99) c
     \<and> retries 9 (MessageEnvelope_new 0 (Message_call_result ''1'' JNull)) = 3"
proof -
  define c where "c = ConnectionInfo_new 1 (seconds 100) ''peer'' ''here''"
  define e where "e = MessageEnvelope_new 0 (Message_call_result ''1'' JNull)"
  have c: "ci_last_activity c = seconds 100" by (simp add: c_def ConnectionInfo_new_def)
  have e: "me_timestamp e = 0" "me_max_retries e = 3" "me_retry_count e = 0" by (simp_all add: e_def MessageEnvelope_new_def)
  have d: "seconds a - seconds b = seconds (a - b)" for a b by (simp add: seconds_def algebra_simps)
  show ?thesis
    using idle_and_retry [where c = c and e = e and n = 9 and timeout = 30 and now = "seconds 131"]
      idle_and_retry [where c = c and e = e and n = 9 and timeout = 30 and now = "seconds 130"]
      idle_and_retry [where c = c and e = e and n = 9 and timeout = 30 and now = "seconds 99"]
    unfolding Let_def c_def [symmetric] e_def [symmetric] by (simp add: c e d)
qed

text \<open>A route that answers every readable request with the same response.\<close>

definition answers_with :: "json_library \<Rightarrow> SchemaValidator \<Rightarrow> CallMessage \<Rightarrow> 'r decoder \<Rightarrow> (string, json) result \<Rightarrow> json \<Rightarrow> bool" where
  "answers_with lib v c dec out p \<longleftrightarrow> validate_call lib v (cm_action c) (cm_payload c) = Ok () \<and> (\<exists>r. dec (cm_payload c) = Ok r)
     \<and> out = Ok p \<and> validate_call_result lib v (cm_action c) p = Ok ()"

lemma constant_route:
  assumes "map_of (ad_handlers d) (cm_action c)
      = Some \<lparr>rt_handler = erase_handler dec enc (\<lambda>_ _ s. (Ok x, s)), rt_skip_validation = False\<rparr>"
    and "ad_validator d = Some v" and "ad_after_hooks d = []"
  shows "snd (dispatch lib d c s) = (s, [])" and "fst (dispatch lib d c s) = Ok p \<longleftrightarrow> answers_with lib v c dec (enc x) p"
  using assms by (auto simp: dispatch_def erase_handler_def answers_with_def split: sum.splits)

lemma default_routes:
  "map_of (ad_handlers (central_system_dispatcher_with content cd now cfg)) a =
     (if a = ''StatusNotification'' then Some \<lparr>rt_handler = erase_handler (cd_status cd) (ce_empty cd) (\<lambda>_ _ s. (Ok (), s)), rt_skip_validation = False\<rparr>
      else if a = ''Heartbeat'' then Some \<lparr>rt_handler = erase_handler (cd_heartbeat cd) (ce_heartbeat16 cd) (\<lambda>_ _ s. (Ok now, s)), rt_skip_validation = False\<rparr>
      else if a = ''BootNotification'' then Some \<lparr>rt_handler = erase_handler (cd_boot cd) (ce_boot16 cd)
        (\<lambda>_ _ s. (Ok (now, csc_boot_interval cfg, csc_registration_status cfg), s)), rt_skip_validation = False\<rparr>
      else None)"
  "ad_validator (central_system_dispatcher_with content cd now cfg) = Some (SchemaValidator_v16j content)"
  "ad_after_hooks (central_system_dispatcher_with content cd now cfg) = []"
  by (simp_all add: central_system_dispatcher_with_def register_default_handlers_def on_def register_def hm_get_update
      with_validator_def ActionDispatcher_new_def)

lemma default_routes_v201:
  "map_of (ad_handlers (central_system_dispatcher_v201_with content cd now cfg)) a =
     (if a = ''TransactionEvent'' then Some \<lparr>rt_handler = erase_handler (cd_transaction cd) (ce_transaction cd)
        (\<lambda>_ _ s. (Ok TransactionEventResponse_default, s)), rt_skip_validation = False\<rparr>
      else if a = ''StatusNotification'' then Some \<lparr>rt_handler = erase_handler (cd_status cd) (ce_empty cd) (\<lambda>_ _ s. (Ok (), s)), rt_skip_validation = False\<rparr>
      else if a = ''Heartbeat'' then Some \<lparr>rt_handler = erase_handler (cd_heartbeat cd) (ce_heartbeat201 cd) (\<lambda>_ _ s. (Ok now, s)), rt_skip_validation = False\<rparr>
      else if a = ''BootNotification'' then Some \<lparr>rt_handler = erase_handler (cd_boot cd) (ce_boot201 cd)
        (\<lambda>_ _ s. (Ok (now, cscv_boot_interval cfg, cscv_registration_status cfg), s)), rt_skip_validation = False\<rparr>
      else None)"
  "ad_validator (central_system_dispatcher_v201_with content cd now cfg) = Some (SchemaValidator_v201 content)"
  "ad_after_hooks (central_system_dispatcher_v201_with content cd now cfg) = []"
  by (simp_all add: central_system_dispatcher_v201_with_def register_default_handlers_v201_def on_def register_def hm_get_update
      with_validator_def ActionDispatcher_new_def)

lemma unrouted:
  "map_of (ad_handlers d) (cm_action c) = None \<Longrightarrow> ad_validator d = Some v \<Longrightarrow> dispatch lib d c s =
     (Err (if has_schema v (cm_action c) then OcppError.NotImplemented (cm_action c) else OcppError.NotSupported (cm_action c)), s, [])"
  by (simp add: dispatch_def unrouted_action_error_def)

text \<open>
  The ready-made 2.0.1 central system: a message of one of the four actions it serves that passes the schema
  and is readable is answered with the clock, the configured interval and registration status, or a plain confirmation, if
  that answer can be written and passes its schema. Every other action of the protocol is refused as not implemented, an
  action the protocol does not have as not supported. It keeps no state.
\<close>

theorem central_system_answers:
  "let d = central_system_dispatcher_v201_with content cd now cfg :: ('s, 'e) ActionDispatcher;
       v = SchemaValidator_v201 content; (res, s', tasks) = dispatch lib d c s
   in s' = s \<and> tasks = []
      \<and> (if cm_action c = ''BootNotification'' then
           (res = Ok p) = answers_with lib v c (cd_boot cd) (ce_boot201 cd (now, cscv_boot_interval cfg, cscv_registration_status cfg)) p
         else if cm_action c = ''Heartbeat'' then (res = Ok p) = answers_with lib v c (cd_heartbeat cd) (ce_heartbeat201 cd now) p
         else if cm_action c = ''StatusNotification'' then (res = Ok p) = answers_with lib v c (cd_status cd) (ce_empty cd ()) p
         else if cm_action c = ''TransactionEvent'' then
           (res = Ok p) = answers_with lib v c (cd_transaction cd) (ce_transaction cd TransactionEventResponse_default) p
         else res = Err (if has_schema v (cm_action c) then OcppError.NotImplemented (cm_action c) else OcppError.NotSupported (cm_action c)))"
proof -
  let ?d = "central_system_dispatcher_v201_with content cd now cfg :: ('s, 'e) ActionDispatcher"
  note route = constant_route [where d = ?d and c = c and lib = lib and s = s, OF _ default_routes_v201(2,3)]
  note miss = unrouted [where d = ?d and c = c and lib = lib and s = s, OF _ default_routes_v201(2)]
  consider "cm_action c = ''BootNotification''" | "cm_action c = ''Heartbeat''" | "cm_action c = ''StatusNotification''"
    | "cm_action c = ''TransactionEvent''" | "cm_action c \<notin> {''BootNotification'', ''Heartbeat'', ''StatusNotification'', ''TransactionEvent''}"
    by blast
  then show ?thesis
    unfolding Let_def case_prod_beta
    by cases (simp_all add: route default_routes_v201(1) miss)
qed

end
