(* ===== verification/Server_Sessions.thy ===== *)
theory Server_Sessions
  imports Connections Validation Meter_Sampler
begin

text \<open>
  The life of \<open>OcppServer\<close> (\<open>ocpp-transport/src/server.rs\<close>) around the receive loop of \<open>Transport\<close>: starting and stopping
  the server, the table of connections with the records a session leaves there, the eviction of idle connections, and
  the typed events a host receives for the messages of a charge point. Binding the socket is the network's: its outcome
  is an argument.
\<close>

section \<open>Events\<close>

datatype TransportEvent =
    Connected nat string
  | Disconnected nat string
  | MessageReceivedOn nat Message
  | MessageSent nat string
  | StatusNotification string u32 ChargePointStatus
  | TransactionStarted string u32 string i32 datetime i32
  | TransactionStopped string i32 i32 datetime "Reason option" "string option"
  | MeterValues string u32 "i32 option" "V16MeterValue list"
  | BootNotification string string string "string option" "string option"
  | ErrorOn "nat option" TransportError

record StatusNotificationRequest =
  snr_connector_id :: u32
  snr_error_code :: ChargePointErrorCode
  snr_info :: "string option"
  snr_status :: ChargePointStatus
  snr_timestamp :: "datetime option"
  snr_vendor_error_code :: "string option"
  snr_vendor_id :: "string option"

record StartTransactionRequest =
  str_connector_id :: u32
  str_id_tag :: string
  str_meter_start :: i32
  str_timestamp :: datetime
  str_reservation_id :: "i32 option"

record StartTransactionResponse =
  sts_id_tag_info :: IdTagInfo
  sts_transaction_id :: i32

record StopTransactionRequest =
  spr_id_tag :: "string option"
  spr_meter_stop :: i32
  spr_timestamp :: datetime
  spr_transaction_id :: i32
  spr_reason :: "Reason option"
  spr_transaction_data :: "V16MeterValue list option"

text \<open>The derived readers (\<open>serde_json::from_value\<close>) of the messages that raise events.\<close>

record event_readers =
  er_status :: "json \<Rightarrow> StatusNotificationRequest option"
  er_start :: "json \<Rightarrow> StartTransactionRequest option"
  er_started :: "json \<Rightarrow> StartTransactionResponse option"
  er_stop :: "json \<Rightarrow> StopTransactionRequest option"
  er_boot :: "json \<Rightarrow> BootNotificationRequest option"
  er_meter :: "json \<Rightarrow> MeterValuesRequest option"

definition emit_transaction_event :: "event_readers \<Rightarrow> string \<Rightarrow> string \<Rightarrow> json \<Rightarrow> json \<Rightarrow> TransportEvent option" where
  "emit_transaction_event er cp action request response =
     (if action = ''StartTransaction''
      then (case (er_start er request, er_started er response) of
          (Some req, Some resp) \<Rightarrow> Some (TransactionStarted cp (str_connector_id req) (str_id_tag req) (str_meter_start req)
            (str_timestamp req) (sts_transaction_id resp))
        | _ \<Rightarrow> None)
      else if action = ''StopTransaction''
      then map_option (\<lambda>req. TransactionStopped cp (spr_transaction_id req) (spr_meter_stop req) (spr_timestamp req)
          (spr_reason req) (spr_id_tag req)) (er_stop er request)
      else None)"

definition emit_lifecycle_event :: "event_readers \<Rightarrow> string \<Rightarrow> string \<Rightarrow> json \<Rightarrow> TransportEvent option" where
  "emit_lifecycle_event er cp action request =
     (if action = ''BootNotification''
      then map_option (\<lambda>req. BootNotification cp (bnr_charge_point_vendor req) (bnr_charge_point_model req)
          (bnr_charge_point_serial_number req) (bnr_firmware_version req)) (er_boot er request)
      else if action = ''MeterValues''
      then map_option (\<lambda>req. MeterValues cp (mvr_connector_id req) (mvr_transaction_id req) (mvr_meter_values req))
          (er_meter er request)
      else None)"

definition session_decoders :: "event_readers \<Rightarrow> string \<Rightarrow> TransportEvent event_decoders" where
  "session_decoders er cp = \<lparr>
     ed_status = (\<lambda>p. map_option (\<lambda>req. StatusNotification cp (snr_connector_id req) (snr_status req)) (er_status er p)),
     ed_transaction = emit_transaction_event er cp,
     ed_lifecycle = emit_lifecycle_event er cp\<rparr>"

section \<open>The server\<close>

record server =
  sv_connections :: "(nat, ConnectionInfo) hmap"
  sv_cp_handles :: "(string, nat) hmap"
  sv_pending :: "(nat, PendingCallMap) hmap"
  sv_events :: "TransportEvent list"
  sv_state :: ConnectionState
  sv_serving :: bool
  sv_local_addr :: "string option"

definition OcppServer_new :: server where
  "OcppServer_new = \<lparr>sv_connections = [], sv_cp_handles = [], sv_pending = [], sv_events = [],
     sv_state = ConnectionState.ClosedState, sv_serving = False, sv_local_addr = None\<rparr>"

definition server_start :: "(string, string) result \<Rightarrow> server \<Rightarrow> (TransportError, unit) result \<times> server" where
  "server_start bound s = (case bound of
      Inl e \<Rightarrow> (Err (IoError e), s)
    | Inr addr \<Rightarrow> (Ok (), s\<lparr>sv_local_addr := Some addr, sv_state := ConnectionState.Connected, sv_serving := True\<rparr>))"

text \<open>The beginning of \<open>handle_cp_socket\<close>: the session enters the tables; and its teardown.\<close>

definition socket_opened :: "datetime \<Rightarrow> string \<Rightarrow> string \<Rightarrow> nat \<Rightarrow> server \<Rightarrow> server" where
  "socket_opened now cp protocol conn s =
     (let info = (ConnectionInfo_new conn now cp ''csms'')\<lparr>ci_sub_protocol := Some protocol\<rparr>
      in s\<lparr>sv_connections := AList.update conn info (sv_connections s),
           sv_cp_handles := AList.update cp conn (sv_cp_handles s),
           sv_pending := AList.update conn PendingCallMap_new (sv_pending s),
           sv_events := sv_events s @ [TransportEvent.Connected conn cp]\<rparr>)"

definition socket_closed :: "string \<Rightarrow> nat \<Rightarrow> server \<Rightarrow> server" where
  "socket_closed cp conn s = s\<lparr>
     sv_cp_handles := (if map_of (sv_cp_handles s) cp = Some conn then AList.delete cp (sv_cp_handles s) else sv_cp_handles s),
     sv_pending := AList.map_entry conn pm_cancel_all (sv_pending s),
     sv_connections := AList.delete conn (sv_connections s),
     sv_events := sv_events s @ [Disconnected conn ''Connection closed'']\<rparr>"

definition server_stop :: "server \<Rightarrow> server" where
  "server_stop s = s\<lparr>sv_serving := False,
     sv_pending := map (\<lambda>(conn, pm). (conn, if conn \<in> snd ` set (sv_cp_handles s) then pm_cancel_all pm else pm)) (sv_pending s),
     sv_cp_handles := [], sv_connections := [], sv_local_addr := None, sv_state := ConnectionState.ClosedState\<rparr>"

text \<open>\<open>keep_alive_interval * 2\<close> panics on overflow: \<open>None\<close>.\<close>

definition cleanup_idle_connections :: "TransportConfig \<Rightarrow> datetime \<Rightarrow> server \<Rightarrow> (nat \<times> server) option" where
  "cleanup_idle_connections cfg now s =
     (if 2 ^ 64 \<le> unat (tc_keep_alive_interval cfg) * 2 then None
      else (let timeout = tc_keep_alive_interval cfg * 2;
                idle = map fst (filter (\<lambda>(_, c). is_idle timeout now c) (sv_connections s))
            in Some (length idle,
                 fold (\<lambda>i t. t\<lparr>sv_connections := AList.delete i (sv_connections t),
                              sv_events := sv_events t @ [Disconnected i ''Idle timeout'']\<rparr>) idle s)))"

definition get_stats :: "server \<Rightarrow> nat" where
  "get_stats s = length (sv_connections s)"

section \<open>The sessions of Transport\<close>

text \<open>Without the records, the events and the pending calls the tables are those of \<open>Transport\<close>.\<close>

definition server_view :: "server \<Rightarrow> server_sessions" where
  "server_view s = \<lparr>ss_connections = map (\<lambda>(i, c). (i, ci_remote_addr c)) (sv_connections s), ss_cp_handles = sv_cp_handles s\<rparr>"

lemma update_values: "map (\<lambda>(k, v). (k, f v)) (AList.update k v m) = AList.update k (f v) (map (\<lambda>(k, v). (k, f v)) m)"
  by (induction m) auto

lemma delete_values: "map (\<lambda>(k, v). (k, f v)) (AList.delete k m) = AList.delete k (map (\<lambda>(k, v). (k, f v)) m)"
  by (induction m) (auto simp: AList.delete_eq)

theorem server_refines_sessions:
  "server_view OcppServer_new = sessions_new"
  "server_view (socket_opened now cp protocol conn s) = session_opened cp conn (server_view s)"
  "server_view (socket_closed cp conn s) = session_closed cp conn (server_view s)"
  "get_stats s = connection_count (server_view s)"
  by (simp_all add: server_view_def OcppServer_new_def sessions_new_def socket_opened_def session_opened_def socket_closed_def
      session_closed_def get_stats_def connection_count_def update_values delete_values ConnectionInfo_new_def Let_def)

section \<open>Idle connections\<close>

text \<open>
  The operations that write the tables. The receive loop is not one of them: \<open>server_receive\<close> works on the session alone,
  and nothing in \<open>server.rs\<close> calls \<open>update_activity\<close>.
\<close>

datatype server_op = Open datetime string string nat | Close string nat | Cleanup datetime | Stop

fun server_exec :: "TransportConfig \<Rightarrow> server_op \<Rightarrow> server \<Rightarrow> server" where
  "server_exec cfg (Open now cp protocol conn) s = socket_opened now cp protocol conn s"
| "server_exec cfg (Close cp conn) s = socket_closed cp conn s"
| "server_exec cfg (Cleanup now) s = (case cleanup_idle_connections cfg now s of Some (_, s') \<Rightarrow> s' | None \<Rightarrow> s)"
| "server_exec cfg Stop s = server_stop s"

definition stamped_once :: "server \<Rightarrow> bool" where
  "stamped_once s \<longleftrightarrow> hm_wf (sv_connections s) \<and> list_all (\<lambda>(_, c). ci_last_activity c = ci_connected_at c) (sv_connections s)"

lemma delete_filter: "AList.delete i m = filter (\<lambda>x. fst x \<noteq> i) m"
  by (auto simp: AList.delete_eq case_prod_unfold intro: filter_cong)

lemma evicted_eq:
  "fold (\<lambda>i t. t\<lparr>sv_connections := AList.delete i (sv_connections t),
      sv_events := sv_events t @ [Disconnected i ''Idle timeout'']\<rparr>) is s
   = s\<lparr>sv_connections := filter (\<lambda>x. fst x \<notin> set is) (sv_connections s),
       sv_events := sv_events s @ map (\<lambda>i. Disconnected i ''Idle timeout'') is\<rparr>"
  by (induction "is" arbitrary: s) (simp_all add: delete_filter conj_commute)

lemma filter_keys:
  assumes "hm_wf m"
  shows "filter (\<lambda>x. fst x \<notin> fst ` {y \<in> set m. P y}) m = filter (\<lambda>x. \<not> P x) m"
proof (rule filter_cong [OF refl])
  fix x assume x: "x \<in> set m"
  have "P x" if "y \<in> set m" "P y" "fst x = fst y" for y
    using assms x that by (metis eq_key_imp_eq_value hm_wf_def prod.collapse)
  with x show "(fst x \<notin> fst ` {y \<in> set m. P y}) = (\<not> P x)" by auto
qed

lemma cleanup_eq:
  assumes "stamped_once s" and "cleanup_idle_connections cfg now s = Some (n, s')"
  defines "old \<equiv> filter (\<lambda>(_, c). is_idle (tc_keep_alive_interval cfg * 2) now (c\<lparr>ci_last_activity := ci_connected_at c\<rparr>))
    (sv_connections s)"
  shows "n = length old"
    and "s' = s\<lparr>sv_connections := filter (\<lambda>x. x \<notin> set old) (sv_connections s),
        sv_events := sv_events s @ map (\<lambda>(i, _). Disconnected i ''Idle timeout'') old\<rparr>"
proof -
  let ?P = "\<lambda>x. is_idle (tc_keep_alive_interval cfg * 2) now (snd x)"
  have wf: "hm_wf (sv_connections s)" using assms(1) by (simp add: stamped_once_def)
  have same: "c\<lparr>ci_last_activity := ci_connected_at c\<rparr> = c" if "(i, c) \<in> set (sv_connections s)" for i c
    using assms(1) that by (auto simp: stamped_once_def list_all_iff)
  have old: "old = filter ?P (sv_connections s)"
    unfolding old_def by (rule filter_cong [OF refl]) (auto simp: same)
  have keep: "filter (\<lambda>x. fst x \<notin> fst ` set old) (sv_connections s) = filter (\<lambda>x. x \<notin> set old) (sv_connections s)"
  proof -
    have "set old = {y \<in> set (sv_connections s). ?P y}" by (simp add: old)
    with filter_keys [OF wf, of ?P]
    have "filter (\<lambda>x. fst x \<notin> fst ` set old) (sv_connections s) = filter (\<lambda>x. \<not> ?P x) (sv_connections s)"
      by simp
    also have "\<dots> = filter (\<lambda>x. x \<notin> set old) (sv_connections s)"
      by (rule filter_cong [OF refl]) (simp add: old)
    finally show ?thesis .
  qed
  have o: "filter (\<lambda>(_, c). is_idle (tc_keep_alive_interval cfg * 2) now c) (sv_connections s) = old"
    by (simp add: old case_prod_unfold)
  from assms(2) show "n = length old" and "s' = s\<lparr>sv_connections := filter (\<lambda>x. x \<notin> set old) (sv_connections s),
        sv_events := sv_events s @ map (\<lambda>(i, _). Disconnected i ''Idle timeout'') old\<rparr>"
    unfolding cleanup_idle_connections_def o Let_def evicted_eq set_map keep
    by (simp_all add: case_prod_unfold comp_def split: if_splits)
qed

lemma stamped_update:
  "list_all P m \<Longrightarrow> P (k, v) \<Longrightarrow> list_all P (AList.update k v m)"
  by (induction m) auto

interpretation server: machine "server_exec cfg" stamped_once for cfg
proof
  fix s c assume inv: "stamped_once s"
  show "stamped_once (server_exec cfg c s)"
  proof (cases c)
    case (Cleanup now)
    show ?thesis
    proof (cases "cleanup_idle_connections cfg now s")
      case (Some r)
      then obtain n s' where r: "cleanup_idle_connections cfg now s = Some (n, s')" by (cases r) simp
      have "hm_wf (filter Q (sv_connections s)) \<and>
          list_all (\<lambda>(_, c). ci_last_activity c = ci_connected_at c) (filter Q (sv_connections s))" for Q
        using inv by (auto simp: stamped_once_def list_all_iff)
      with Cleanup r cleanup_eq(2) [OF inv r] show ?thesis by (simp add: stamped_once_def)
    qed (use Cleanup inv in simp)
  next
    case (Open now cp protocol conn)
    with inv show ?thesis
      by (auto simp: stamped_once_def socket_opened_def ConnectionInfo_new_def Let_def intro!: stamped_update)
  next
    case (Close cp conn)
    with inv show ?thesis by (auto simp: stamped_once_def socket_closed_def list_all_iff AList.delete_eq)
  qed (simp add: stamped_once_def server_stop_def)
qed

text \<open>
  Property C20. The eviction of idle connections goes by age: whatever the server has done and whatever the charge points have
  sent, it removes exactly the connections that were opened more than twice the keep-alive interval ago, reports each
  as disconnected once, and returns their number. The routing table stays as it was, so that an evicted charge
  point still counts as connected and is still called, while it is gone from the count of connections.
\<close>

theorem eviction_by_age:
  assumes "cleanup_idle_connections cfg now (fold (server_exec cfg) ops OcppServer_new) = Some (n, s')"
  shows "let s = fold (server_exec cfg) ops OcppServer_new;
      old = filter (\<lambda>(_, c). is_idle (tc_keep_alive_interval cfg * 2) now (c\<lparr>ci_last_activity := ci_connected_at c\<rparr>))
        (sv_connections s)
    in n = length old \<and> get_stats s' = get_stats s - n
      \<and> sv_connections s' = filter (\<lambda>x. x \<notin> set old) (sv_connections s)
      \<and> sv_events s' = sv_events s @ map (\<lambda>(i, _). Disconnected i ''Idle timeout'') old
      \<and> sv_cp_handles s' = sv_cp_handles s
      \<and> is_cp_connected (server_view s') cp = is_cp_connected (server_view s) cp"
proof -
  have "stamped_once OcppServer_new" by (simp add: stamped_once_def OcppServer_new_def)
  then have inv: "stamped_once (fold (server_exec cfg) ops OcppServer_new)" by (rule server.run_inv)
  have "length (filter (\<lambda>x. x \<notin> set (filter Q m)) m) = length m - length (filter Q m)" for Q and m :: "(nat, ConnectionInfo) hmap"
  proof -
    have "filter (\<lambda>x. x \<notin> set (filter Q m)) m = filter (\<lambda>x. \<not> Q x) m" by (rule filter_cong [OF refl]) simp
    then show ?thesis using sum_length_filter_compl [of Q m] by simp
  qed
  then show ?thesis
    using cleanup_eq [OF inv assms] by (simp add: Let_def get_stats_def is_cp_connected_def server_view_def)
qed

theorem eviction_by_age_witness:
  "let s = server_exec TransportConfig_default (Open 0 ''CP'' ''ocpp1.6'' 1) OcppServer_new
   in \<exists>s'. cleanup_idle_connections TransportConfig_default (seconds 121) s = Some (1, s')
        \<and> sv_connections s' = [] \<and> get_stats s' = 0 \<and> is_cp_connected (server_view s') ''CP''"
proof -
  define c where "c = (ConnectionInfo_new 1 0 ''CP'' ''csms'')\<lparr>ci_sub_protocol := Some ''ocpp1.6''\<rparr>"
  define s where "s = server_exec TransportConfig_default (Open 0 ''CP'' ''ocpp1.6'' 1) OcppServer_new"
  have s: "sv_connections s = [(1, c)]" "sv_cp_handles s = [(''CP'', 1)]"
    by (simp_all add: s_def c_def socket_opened_def OcppServer_new_def Let_def)
  have "ci_last_activity c = 0" by (simp add: c_def ConnectionInfo_new_def)
  then have idle: "is_idle 120 (seconds 121) c" by (simp add: is_idle_def seconds_as_u64_def num_seconds_def seconds_def)
  have t: "tc_keep_alive_interval TransportConfig_default = 60" by (simp add: TransportConfig_default_def)
  obtain s' where s': "cleanup_idle_connections TransportConfig_default (seconds 121) s = Some (1, s')" "sv_connections s' = []"
    by (simp add: cleanup_idle_connections_def t s idle Let_def)
  have f: "fold (server_exec TransportConfig_default) [Open 0 ''CP'' ''ocpp1.6'' 1] OcppServer_new = s" by (simp add: s_def)
  have "is_cp_connected (server_view s') ''CP'' = is_cp_connected (server_view s) ''CP''"
    using eviction_by_age [of TransportConfig_default "seconds 121" "[Open 0 ''CP'' ''ocpp1.6'' 1]" 1 s' "''CP''"] s'(1)
    unfolding f Let_def by blast
  moreover have "is_cp_connected (server_view s) ''CP''"
    using s(2) by (simp add: is_cp_connected_def hm_contains_def server_view_def)
  ultimately show ?thesis using s' unfolding s_def [symmetric] Let_def by (simp add: get_stats_def)
qed

section \<open>Events of a session\<close>

text \<open>
  The events a host sees for a \<open>StartTransaction\<close>: one with the id the central system assigned when it accepts, and none
  besides the frame itself when it answers with an error.
\<close>

lemma start_transaction_events:
  assumes "cm_action call = ''StartTransaction''"
  shows "server_events (session_decoders er cp) cp call (Ok (Some (Message.CallResult r)))
      = MessageReceived (Message.Call call) # (case (er_start er (cm_payload call), er_started er (crm_payload r)) of
          (Some req, Some resp) \<Rightarrow> [TransactionEvent cp (TransactionStarted cp (str_connector_id req) (str_id_tag req)
             (str_meter_start req) (str_timestamp req) (sts_transaction_id resp))]
        | _ \<Rightarrow> [])"
    and "server_events (session_decoders er cp) cp call (Ok (Some (Message.CallError e))) = [MessageReceived (Message.Call call)]"
    and "server_events (session_decoders er cp) cp call (Err x) = [MessageReceived (Message.Call call)]"
  using assms by (simp_all add: server_events_def session_decoders_def emit_transaction_event_def option_list_def split: option.split)

end
