(* ===== verification/Station_Runs.thy ===== *)
theory Station_Runs
  imports Event_Streams
begin

text \<open>
  Every step of the station keeps the streams of events in order.
\<close>

section \<open>Operations\<close>

lemma call_event_sel [simp]:
  "snd (call_event env e s) = send (OutTransactionEvent e) s"
  "fst (call_event env e s) = env_event env (cp_sent s) e"
  by (simp_all add: call_event_def)

lemma send_sel [simp]:
  "cp_sessions (send m s) = cp_sessions s" "cp_active_transactions (send m s) = cp_active_transactions s"
  "cp_samplers (send m s) = cp_samplers s" "cp_connectors (send m s) = cp_connectors s"
  "cp_next_transaction_id (send m s) = cp_next_transaction_id s" "cp_config (send m s) = cp_config s"
  by (simp_all add: send_def)

lemma update_session_sel [simp]:
  "cp_active_transactions (update_session tid g s) = cp_active_transactions s"
  "cp_active_transactions (set_connector_status cid st s) = cp_active_transactions s"
  by (simp_all add: update_session_def set_connector_status_def)

lemma orderly_emit:
  assumes "orderly f K s"
  shows "orderly f K (snd (emit_transaction_state_change env now evse st trig s))"
proof -
  have "orderly f K (send (OutTransactionEvent (transaction_event_state_transition (session_ref tid evse) (vs_next_seq_no v) trig st ts))
      (update_session tid claim_seq s))" if "map_of (cp_sessions s) tid = Some v" for tid v ts
    using assms that by (intro orderly_event_updated) (simp_all add: transaction_event_defs)
  with assms show ?thesis
    unfolding emit_transaction_state_change_def
    by (auto split: option.splits intro!: orderly_and_then orderly_update_session)
qed

lemma orderly_transition: "orderly f K s \<Longrightarrow> orderly f K (snd (transition_charging_state env now evse st s))"
  by (simp add: transition_charging_state_def orderly_emit)

lemma emit_config [simp]: "cp_config (snd (emit_transaction_state_change env now evse st trig s)) = cp_config s"
  by (simp add: emit_transaction_state_change_def and_then_def call_event_def update_session_def send_def
      split: option.splits sum.splits prod.splits)

lemma orderly_open_on_plug:
  assumes "orderly f K s" and "cp_version s = V201"
  shows "orderly f K (snd (open_transaction_on_cable_plug env now evse s))"
proof (cases "connector_of_evse evse")
  case (Some cid)
  show ?thesis
  proof (cases "map_of (cp_connectors s) cid")
    case (Some c)
    then have "cid \<in> set K"
      using assms map_of_configured [of "cp_connectors s" cid K] by (simp add: orderly_def known_def)
    with assms Some \<open>connector_of_evse evse = Some cid\<close> show ?thesis
      unfolding open_transaction_on_cable_plug_def Let_def
      by (auto intro!: orderly_and_then orderly_event_started orderly_event_recorded simp: transaction_event_defs)
  qed (use Some assms in \<open>simp add: open_transaction_on_cable_plug_def\<close>)
qed (use assms in \<open>simp add: open_transaction_on_cable_plug_def\<close>)

lemma OcppVersion_not [simp]: "v \<noteq> V201 \<longleftrightarrow> v = V16J"
  by (cases v) simp_all

lemma orderly_plug_in: "orderly f K s \<Longrightarrow> orderly f K (snd (plug_in_cable env now evse s))"
  unfolding plug_in_cable_def by (cases "cp_version s") (auto intro!: orderly_and_then orderly_emit orderly_open_on_plug)

lemma orderly_deauthorize: "orderly f K s \<Longrightarrow> orderly f K (snd (deauthorize tag s))"
proof -
  have "map_option vs_next_seq_no (map_of (map (\<lambda>(k, v). (k, if vs_id_tag v = tag then v\<lparr>vs_authorized := False\<rparr> else v)) ss) t)
      = map_option vs_next_seq_no (map_of ss t)" for ss t
    by (induction ss) auto
  moreover have "map fst (map (\<lambda>(k, v). (k, if vs_id_tag v = tag then v\<lparr>vs_authorized := False\<rparr> else v)) ss) = map fst ss" for ss
    by (induction ss) auto
  ultimately show "orderly f K s \<Longrightarrow> orderly f K (snd (deauthorize tag s))"
    unfolding deauthorize_def snd_conv by (intro orderly_sessions)
qed

section \<open>Samplers\<close>

lemma orderly_v16j_tick: "orderly f K s \<Longrightarrow> orderly f K (v16j_sampler_tick env tid s)"
proof -
  assume st: "orderly f K s"
  have "orderly f K (send m s\<lparr>cp_samplers := AList.update tid (t\<lparr>smp_sent_begin := True\<rparr>) (cp_samplers s)\<rparr>)"
    if "map_of (cp_samplers s) tid = Some t" and "event_of m = None" for t m
  proof -
    from map_of_SomeD [OF that(1)] orderly_samplers_known [OF st]
    have "smp_connector t \<in> set K" "tid \<in> fst ` set (cp_active_transactions s)" by force+
    with orderly_sampler_update [OF orderly_send [OF st that(2)], of "t\<lparr>smp_sent_begin := True\<rparr>" tid] show ?thesis by simp
  qed
  with st show ?thesis
    by (auto simp: v16j_sampler_tick_def Let_def split: option.splits)
qed

lemma orderly_v201_tick:
  assumes st: "orderly f K s"
  shows "orderly f K (v201_sampler_tick env tid s)"
proof (cases "map_of (cp_samplers s) tid")
  case (Some t)
  from map_of_SomeD [OF Some] orderly_samplers_known [OF st]
  have k: "smp_connector t \<in> set K" "tid \<in> fst ` set (cp_active_transactions s)" by force+
  let ?u = "\<lambda>x. s\<lparr>cp_samplers := AList.update tid (t\<lparr>smp_elapsed := x\<rparr>) (cp_samplers s)\<rparr>"
  have u: "orderly f K (?u x)" for x
    using k by (intro orderly_sampler_update [OF st]) simp_all
  have "map_of (cp_connectors s) (smp_connector t) \<noteq> None"
    using k(1) st by (intro configured_map_of [where K = K]) (simp_all add: orderly_def known_def)
  moreover have "orderly f K (send (OutTransactionEvent (transaction_event_updated (session_ref tid evse) (vs_next_seq_no v) a b ts))
      (update_session tid claim_seq (?u x)))" if "map_of (cp_sessions s) tid = Some v" for evse v a b ts x
    using that by (intro orderly_event_updated [OF u]) (simp_all add: transaction_event_defs)
  ultimately show ?thesis
    using u Some by (auto simp: v201_sampler_tick_def Let_def split: option.splits)
qed (use st in \<open>simp add: v201_sampler_tick_def\<close>)

lemma orderly_sampler_tick: "orderly f K s \<Longrightarrow> orderly f K (sampler_tick env tid s)"
  by (simp add: sampler_tick_def orderly_v16j_tick orderly_v201_tick split: OcppVersion.splits)

section \<open>Starting and stopping\<close>

lemma install_tx_profile_sel [simp]:
  "orderly f K (install_tx_profile cid p s) = orderly f K s"
  "cp_active_transactions (install_tx_profile cid p s) = cp_active_transactions s"
  "(install_tx_profile cid p s)\<lparr>cp_active_transactions := ts\<rparr> = install_tx_profile cid p (s\<lparr>cp_active_transactions := ts\<rparr>)"
  by (simp_all add: install_tx_profile_def split: option.splits)

lemma orderly_energize_begin: "orderly f K s \<Longrightarrow> orderly f K (snd (energize_begin env cid s))"
  unfolding energize_begin_def Let_def by (auto intro!: orderly_status)

lemma energize_begin_sel [simp]:
  "cp_active_transactions (snd (energize_begin env cid s)) = cp_active_transactions s"
  by (simp add: energize_begin_def Let_def send_status_notification_def call_ack_def)

lemma orderly_energize:
  assumes "orderly f K s" and "cid \<in> set K" and "map_of (cp_active_transactions s) tid \<noteq> None"
  shows "orderly f K (snd (energize_connector env now cid tid s))"
  using assms unfolding energize_connector_def
  by (auto intro!: orderly_and_then orderly_energize_begin orderly_start_meter_sampler)

lemma transaction_where_active: "transaction_where P s = Some tid \<Longrightarrow> map_of (cp_active_transactions s) tid \<noteq> None"
  by (auto simp: transaction_where_def find_Some_iff map_of_eq_None_iff image_iff) (metis fst_conv nth_mem)

lemma orderly_fold_authorization:
  assumes "orderly f K s" and "cid \<in> set K"
  shows "orderly f K (snd (fold_authorization_onto_plug_open env now cid tag profile grp s))"
proof (cases "transaction_where (\<lambda>c. c = cid) s")
  case (Some tid)
  note a = transaction_where_active [OF Some]
  show ?thesis
  proof (cases "map_of (cp_sessions s) tid")
    case (Some v)
    let ?p = "\<lambda>s. send (OutTransactionEvent (transaction_event_state_transition (session_ref tid (connector_value cid))
         (vs_next_seq_no v) TriggerReasonEnumType.Authorized ChargingStateEnumType.Charging (env_to_rfc3339 env now)))
         (update_session tid claim_seq s)"
    have "orderly f K (?p (snd (send_status_notification env n st s)))" for n st
      using Some by (intro orderly_event_updated orderly_status [OF assms(1)]) (simp_all add: transaction_event_defs)
    with a assms Some \<open>transaction_where _ s = _\<close> show ?thesis
      unfolding fold_authorization_eq fold_event_def
      by (auto intro!: orderly_and_then orderly_status orderly_energize orderly_update_session)
  qed (use Some assms in \<open>simp add: fold_authorization_eq\<close>)
qed (use assms in \<open>simp add: fold_authorization_eq\<close>)

text \<open>An opened transaction has its session; the caller makes it active.\<close>

lemma orderly_open_transaction:
  assumes "orderly f K s" and "cid \<in> set K"
  shows "fst (open_transaction env now cid tag meter remote profile grp s) = Inl e \<Longrightarrow>
      orderly f K (snd (open_transaction env now cid tag meter remote profile grp s))"
    and "fst (open_transaction env now cid tag meter remote profile grp s) = Inr tid \<Longrightarrow>
      s' = snd (open_transaction env now cid tag meter remote profile grp s) \<Longrightarrow>
      orderly f K (s'\<lparr>cp_active_transactions := AList.update tid cid (cp_active_transactions s')\<rparr>)"
proof -
  let ?e = "\<lambda>ts. transaction_event_started (session_ref (cp_next_transaction_id s) (connector_value cid)) tag (i32_to_f64 meter) ts remote"
  have "orderly f K (send (OutTransactionEvent (?e ts)) (s\<lparr>cp_next_transaction_id := cp_next_transaction_id s + 1\<rparr>))" for ts
    using assms by (intro orderly_event_started) (simp_all add: transaction_event_defs)
  with assms show "fst (open_transaction env now cid tag meter remote profile grp s) = Inl e \<Longrightarrow>
      orderly f K (snd (open_transaction env now cid tag meter remote profile grp s))"
    by (auto simp: open_transaction_def and_then_def call_event_def Let_def orderly_send
        split: OcppVersion.splits sum.splits prod.splits if_splits)
  have r: "orderly f K ((send (OutTransactionEvent (?e ts)) (s\<lparr>cp_next_transaction_id := cp_next_transaction_id s + 1\<rparr>))
     \<lparr>cp_sessions := AList.update (cp_next_transaction_id s) v (cp_sessions s),
      cp_active_transactions := AList.update (cp_next_transaction_id s) cid (cp_active_transactions s)\<rparr>)"
    if "vs_next_seq_no v = 1" and "cp_version s = V201" for ts v
    using assms that by (intro orderly_event_recorded) (simp_all add: transaction_event_defs)
  have a: "orderly f K ((send m s)\<lparr>cp_active_transactions := AList.update tid cid (cp_active_transactions s)\<rparr>)"
    if "event_of m = None" for m
    using assms(2) orderly_send [OF assms(1) that] snd_update_subsetI [of "cp_active_transactions s" "set K" cid tid]
    by (auto simp: orderly_def known_def dom_update)
  show "fst (open_transaction env now cid tag meter remote profile grp s) = Inr tid \<Longrightarrow>
      s' = snd (open_transaction env now cid tag meter remote profile grp s) \<Longrightarrow>
      orderly f K (s'\<lparr>cp_active_transactions := AList.update tid cid (cp_active_transactions s')\<rparr>)"
    by (cases "cp_version s") (auto simp: open_transaction_def and_then_def call_event_def Let_def a r
        split: sum.splits prod.splits if_splits)
qed

lemma orderly_start:
  assumes "orderly f K s" and "cid \<in> set K"
  shows "orderly f K (snd (start_transaction_with_remote_start_id env now cid tag meter remote profile grp s))"
proof -
  have o: "orderly f K (snd (and_then (open_transaction env now cid tag meter remote profile grp t)
      (\<lambda>tid s3. and_then (energize_connector env now cid tid
          (s3\<lparr>cp_active_transactions := AList.update tid cid (cp_active_transactions s3)\<rparr>)) (\<lambda>_ s4. (Ok tid, s4)))))"
    if t: "orderly f K t" for t
  proof (cases "fst (open_transaction env now cid tag meter remote profile grp t)")
    case (Inl e)
    with orderly_open_transaction(1) [OF t assms(2) Inl] show ?thesis by (auto simp: and_then_def split: prod.splits sum.splits)
  next
    case (Inr tid)
    with orderly_energize [OF orderly_open_transaction(2) [OF t assms(2) Inr refl] assms(2), where tid = tid and env = env and now = now]
    show ?thesis by (cases "open_transaction env now cid tag meter remote profile grp t") (auto simp: update_conv' intro!: orderly_and_then)
  qed
  show ?thesis
    unfolding start_transaction_with_remote_start_id_def using assms
    by (auto split: option.splits intro!: orderly_and_then [where r = "fold_authorization_onto_plug_open _ _ _ _ _ _ _"]
        orderly_and_then [where r = "send_status_notification _ _ _ _"] orderly_fold_authorization orderly_status o)
qed

lemma orderly_start_transaction:
  "orderly f K s \<Longrightarrow> cid \<in> set K \<Longrightarrow> orderly f K (snd (start_transaction env now cid tag meter s))"
  by (simp add: start_transaction_def orderly_start)

lemma orderly_fire_deferred: "orderly f K s \<Longrightarrow> orderly f K (fire_deferred s)"
  by (auto simp: fire_deferred_def Let_def names_known_def list_all_iff intro!: orderly_enqueue split: option.splits)

lemma orderly_close:
  assumes st: "orderly f K s"
  shows "orderly f K (snd (close_transaction env now cid tid meter reason s))"
proof (cases "cp_version s")
  case V201
  define s2 where "s2 = (stop_meter_sampler tid s)\<lparr>cp_profiles := (cp_profiles (stop_meter_sampler tid s))
      \<lparr>ps_tx := snd (tx_clear (connector_value cid) (ps_tx (cp_profiles (stop_meter_sampler tid s))))\<rparr>\<rparr>"
  have o: "orderly f K s2" unfolding s2_def using orderly_stop_meter_sampler [OF st] by simp
  define s3 where "s3 = s2\<lparr>cp_sessions := AList.delete tid (cp_sessions s2)\<rparr>"
  have close: "close_transaction env now cid tid meter reason s = (case map_of (cp_sessions s2) tid of
      None \<Rightarrow> (Ok (), s3)
    | Some v \<Rightarrow> and_then (call_event env (transaction_event_ended (session_ref tid (connector_value cid)) (vs_next_seq_no v)
          (vs_id_tag v) (i32_to_f64 meter) reason (env_to_rfc3339 env now)) s3) (\<lambda>_ s4. (Ok (), s4)))"
    by (simp only: close_transaction_def Let_def V201 OcppVersion.case s3_def s2_def)
  show ?thesis
  proof (cases "map_of (cp_sessions s2) tid")
    case None
    then have "orderly f K s3" unfolding s3_def by (intro orderly_sessions [OF o]) (simp_all add: map_of_eq_None_iff)
    with None show ?thesis by (simp add: close)
  next
    case (Some v)
    have "orderly f K (send (OutTransactionEvent (transaction_event_ended (session_ref tid (connector_value cid))
        (vs_next_seq_no v) (vs_id_tag v) (i32_to_f64 meter) reason ts)) s3)" for ts
      unfolding s3_def using Some by (intro orderly_event_ended [OF o]) (simp_all add: transaction_event_defs)
    with Some show ?thesis by (auto simp: close intro!: orderly_and_then)
  qed
qed (use st in \<open>simp add: close_transaction_def orderly_call_ack\<close>)

lemma close_sel [simp]:
  "cp_version s = V201 \<Longrightarrow> tid \<notin> fst ` set (cp_sessions (snd (close_transaction env now cid tid meter reason s)))"
  "cp_version s = V16J \<Longrightarrow> cp_sessions (snd (close_transaction env now cid tid meter reason s)) = cp_sessions s"
  "cp_config (snd (close_transaction env now cid tid meter reason s)) = cp_config s"
  by (auto simp: close_transaction_def Let_def and_then_def call_event_def call_ack_def stop_meter_sampler_def send_def dom_delete
      split: option.splits sum.splits prod.splits OcppVersion.splits)

lemma orderly_stop:
  assumes st: "orderly f K s"
  shows "orderly f K (snd (cp_stop_transaction env now tid meter reason s))"
proof (cases "map_of (cp_active_transactions s) tid")
  case (Some cid)
  let ?c = "snd (close_transaction env now cid tid meter reason s)"
  let ?n = "\<lambda>s. snd (send_status_notification env (connector_value cid) ChargePointStatus.Finishing s)"
  let ?d = "\<lambda>s. (stop_meter_sampler tid s)\<lparr>cp_active_transactions := AList.delete tid (cp_active_transactions (stop_meter_sampler tid s))\<rparr>"
  have c: "orderly f K ?c" by (rule orderly_close [OF st])
  have "tid \<notin> fst ` set (cp_sessions ?c)"
    using c by (cases "cp_version s") (simp_all add: orderly_def known_def)
  then have "orderly f K (?d (?n ?c))"
    by (intro orderly_deleted orderly_stop_meter_sampler orderly_status c) (simp_all add: stop_meter_sampler_def dom_delete)
  with c Some show ?thesis
    unfolding cp_stop_transaction_def Let_def
    by (auto intro!: orderly_and_then orderly_status orderly_fire_deferred)
qed (use st in \<open>simp add: cp_stop_transaction_def\<close>)

end
