(* ===== verification/Station_Properties.thy ===== *)
theory Station_Properties
  imports Station_Runs
begin

text \<open>
  Every step of the station keeps the streams of events in order, and what follows for every run.
\<close>

section \<open>Boot, reset and handlers\<close>

lemma orderly_announce: "orderly f K s \<Longrightarrow> orderly f K (snd (announce env is s))"
  by (induction "is" arbitrary: s) (auto intro!: orderly_and_then orderly_status)

lemma orderly_boot_attempts: "orderly f K s \<Longrightarrow> orderly f K (snd (boot_attempts env made left s))"
proof (induction left arbitrary: made s)
  case (Suc left)
  have "orderly f K (snd (send_boot_notification env s))"
    using Suc.prems by (simp add: send_boot_notification_def orderly_send)
  with Suc.IH show ?case
    by (auto simp: Let_def start_heartbeat_def announce_connectors_available_def
        intro!: orderly_and_then orderly_announce split: RegistrationStatusEnumType.splits)
qed simp

lemma orderly_boot: "orderly f K s \<Longrightarrow> orderly f K (snd (boot_sequence env s))"
  by (simp add: boot_sequence_def Let_def case_prod_beta orderly_boot_attempts del: boot_attempts.simps)

lemma orderly_establish: "orderly f K s \<Longrightarrow> orderly f K (snd (establish_session env s))"
  by (simp add: establish_session_def orderly_boot split: sum.splits)

lemma orderly_stop_all: "orderly f K s \<Longrightarrow> orderly f K (stop_all env now reason tids s)"
  unfolding stop_all_def by (induction tids arbitrary: s) (simp_all add: orderly_stop)

lemma orderly_quiesce: "orderly f K s \<Longrightarrow> orderly f K (quiesce_background_tasks s)"
  by (simp add: quiesce_background_tasks_def orderly_def known_def streams_below_def streams_def)

lemma orderly_consumer_ends: "orderly f K s \<Longrightarrow> orderly f K (consumer_ends s)"
  by (simp add: consumer_ends_def orderly_def known_def streams_below_def streams_def)

lemma orderly_consumer_survives: "orderly f K (snd r) \<Longrightarrow> orderly f K (consumer_survives r)"
  by (auto simp: consumer_survives_def orderly_consumer_ends split: prod.splits option.splits)

lemma orderly_reset: "orderly f K s \<Longrightarrow> orderly f K (perform_reset env now kind s)"
  by (cases kind) (auto simp: perform_reset_def Let_def disconnect_def
      intro!: orderly_consumer_survives orderly_boot orderly_establish orderly_quiesce orderly_stop_all)

lemma free_to_start_known: "orderly f K s \<Longrightarrow> map_of (cp_connectors s) cid \<noteq> None \<Longrightarrow> cid \<in> set K"
  by (rule map_of_configured [where al = "cp_connectors s"]) (auto simp: orderly_def known_def)

lemma orderly_remote_start: "orderly f K s \<Longrightarrow> orderly f K (snd (handle_remote_start connector tag s))"
  by (auto simp: handle_remote_start_def free_to_start_def names_known_def is_some_and_def
      intro!: orderly_enqueue free_to_start_known split: sum.splits option.splits)

lemma orderly_request_start: "orderly f K s \<Longrightarrow> orderly f K (snd (handle_request_start_v201 evse token remote profile grp s))"
  by (auto simp: handle_request_start_v201_def Let_def names_known_def
      intro!: orderly_enqueue free_to_start_known split: RequestStartStopStatusEnumType.splits option.splits bind_splits if_splits)

lemma orderly_remote_stop: "orderly f K s \<Longrightarrow> orderly f K (snd (handle_remote_stop tid s))"
  by (simp add: handle_remote_stop_def names_known_def orderly_enqueue)

lemma orderly_request_stop: "orderly f K s \<Longrightarrow> orderly f K (snd (handle_request_stop_v201 i s))"
  by (auto simp: handle_request_stop_v201_def Let_def names_known_def
      intro!: orderly_enqueue split: RequestStartStopStatusEnumType.splits option.splits)

lemma orderly_handle_reset: "orderly f K s \<Longrightarrow> orderly f K (snd (handle_reset kind s))"
  by (simp add: handle_reset_def names_known_def orderly_enqueue)

lemma orderly_handle_reset_v201: "orderly f K s \<Longrightarrow> orderly f K (snd (handle_reset_v201 kind' s))"
  by (simp add: handle_reset_v201_def Let_def names_known_def orderly_enqueue)

lemma orderly_change_availability: "orderly f K s \<Longrightarrow> orderly f K (snd (handle_change_availability_v201 evse target s))"
  by (auto simp: handle_change_availability_v201_def Let_def names_known_def list_all_iff
      intro!: orderly_enqueue split: ChangeAvailabilityStatusEnumType.splits)

lemma orderly_apply_availability: "orderly f K s \<Longrightarrow> orderly f K (apply_v201_availability env cid target s)"
  by (simp add: apply_v201_availability_def Let_def orderly_status split: option.splits)

lemma orderly_unlock: "orderly f K s \<Longrightarrow> orderly f K (snd (handle_unlock c s))"
  by (simp add: handle_unlock_def names_known_def orderly_enqueue split: sum.splits UnlockConnectorOutcome.splits option.splits)

lemma orderly_unlock_v201: "orderly f K s \<Longrightarrow> orderly f K (snd (handle_unlock_v201 evse c' s))"
  by (auto simp: handle_unlock_v201_def Let_def names_known_def
      intro!: orderly_enqueue split: UnlockStatusEnumType.splits option.splits)

lemma orderly_take_reservation: "orderly f K s \<Longrightarrow> orderly f K (take_reservation rid tag cid timed s)"
  by (simp add: take_reservation_def arm_reservation_expiry_def Let_def names_known_def orderly_enqueue)

lemma orderly_reserve: "orderly f K s \<Longrightarrow> orderly f K (snd (handle_reserve_now now rid c expiry tag s))"
  by (simp add: handle_reserve_now_def orderly_take_reservation split: sum.splits option.splits ChargePointStatus.splits)

lemma orderly_reserve_v201: "orderly f K s \<Longrightarrow> orderly f K (snd (handle_reserve_now_v201 env now rid evse expiry' token s))"
  by (auto simp: handle_reserve_now_v201_def Let_def intro!: orderly_take_reservation
      split: ReserveNowStatusEnumType.splits option.splits)

lemma orderly_free_reserved: "orderly f K s \<Longrightarrow> orderly f K (free_reserved cid s)"
  by (simp add: free_reserved_def Let_def names_known_def orderly_enqueue split: option.splits)

lemma orderly_drop_reservation [simp]: "orderly f K (drop_reservation rid s) = orderly f K s"
  by (simp add: drop_reservation_def)

lemma orderly_cancel: "orderly f K s \<Longrightarrow> orderly f K (snd (handle_cancel_reservation rid s))"
  by (simp add: handle_cancel_reservation_def orderly_free_reserved split: option.splits)

lemma orderly_cancel_v201: "orderly f K s \<Longrightarrow> orderly f K (snd (handle_cancel_reservation_v201 rid s))"
  by (simp add: handle_cancel_reservation_v201_def names_known_def orderly_free_reserved orderly_enqueue split: option.splits)

lemma orderly_expiry: "orderly f K s \<Longrightarrow> orderly f K (expiry_fires rid s)"
  by (simp add: expiry_fires_def Let_def names_known_def orderly_free_reserved orderly_enqueue split: option.splits)

lemma orderly_trigger: "orderly f K s \<Longrightarrow> orderly f K (snd (handle_trigger_message m connector s))"
  by (simp add: handle_trigger_message_def names_known_def orderly_enqueue)

lemma orderly_trigger_v201: "orderly f K s \<Longrightarrow> orderly f K (snd (handle_trigger_message_v201 m' evse s))"
  by (simp add: handle_trigger_message_v201_def names_known_def orderly_enqueue)

section \<open>Triggered messages\<close>

lemma orderly_fold: "orderly f K s \<Longrightarrow> (\<And>x s. x \<in> set xs \<Longrightarrow> orderly f K s \<Longrightarrow> orderly f K (g x s)) \<Longrightarrow> orderly f K (fold g xs s)"
  by (induction xs arbitrary: s) simp_all

lemma orderly_trigger_status: "orderly f K s \<Longrightarrow> orderly f K (trigger_status_notification env lowest requested s)"
  unfolding trigger_status_notification_def by (intro orderly_fold orderly_status)

lemma orderly_trigger_meter: "orderly f K s \<Longrightarrow> orderly f K (trigger_meter_values env requested s)"
  unfolding trigger_meter_values_def
  by (rule orderly_fold) (auto simp: Let_def intro!: orderly_send split: sum.splits option.splits)

lemma orderly_trigger_meter_v201: "orderly f K s \<Longrightarrow> orderly f K (trigger_v201_meter_values env requested s)"
  unfolding trigger_v201_meter_values_def
  by (rule orderly_fold) (auto intro!: orderly_call_ack split: sum.splits option.splits)

lemma orderly_trigger_event:
  assumes "orderly f K s" and "cid \<in> set K"
  shows "orderly f K (trigger_transaction_event env (tid, cid) s)"
proof (cases "map_of (cp_sessions s) tid")
  case (Some v)
  have "map_of (cp_connectors s) cid \<noteq> None"
    using assms by (intro configured_map_of [where K = K]) (simp_all add: orderly_def known_def)
  moreover have "orderly f K (send (OutTransactionEvent (transaction_event_triggered (session_ref tid evse) (vs_next_seq_no v) a ts))
      (update_session tid claim_seq s))" for evse a ts
    using Some by (intro orderly_event_updated [OF assms(1)]) (simp_all add: transaction_event_defs)
  ultimately show ?thesis
    using Some by (auto simp: trigger_transaction_event_def Let_def)
qed (use assms in \<open>simp add: trigger_transaction_event_def\<close>)

lemma orderly_trigger_events:
  assumes "orderly f K s"
  shows "orderly f K (trigger_v201_transaction_event env evse s)"
proof -
  have "snd ` set (cp_active_transactions s) \<subseteq> set K" using assms by (simp add: orderly_def known_def)
  then show ?thesis
    unfolding trigger_v201_transaction_event_def
    by (intro orderly_fold [OF assms]) (auto intro!: orderly_trigger_event)
qed

lemma orderly_triggered: "orderly f K s \<Longrightarrow> orderly f K (send_triggered_message env m connector s)"
  by (cases m) (simp_all add: orderly_call_ack orderly_trigger_status orderly_trigger_meter)

lemma orderly_triggered_v201: "orderly f K s \<Longrightarrow> orderly f K (send_v201_triggered_message env m evse s)"
  by (cases m) (simp_all add: orderly_call_ack orderly_trigger_status orderly_trigger_meter_v201 orderly_trigger_events)

lemma orderly_run_command: "orderly f K s \<Longrightarrow> names_known K c \<Longrightarrow> orderly f K (run_command env now c s)"
  by (cases c) (simp_all add: names_known_def orderly_reset orderly_start orderly_stop orderly_triggered orderly_triggered_v201
      orderly_call_ack orderly_status orderly_apply_availability)

lemma orderly_consume: "orderly f K s \<Longrightarrow> orderly f K (consume env now s)"
proof (cases "cp_commands s")
  case (Cons c cs)
  assume st: "orderly f K s"
  with Cons have "names_known K c" "list_all (names_known K) cs" by (simp_all add: orderly_def known_def)
  with st Cons show ?thesis by (simp add: consume_def orderly_run_command orderly_commands)
qed (simp add: consume_def)

lemma orderly_set_all_status [simp]: "orderly f K (set_all_status st s) = orderly f K s"
  by (simp add: set_all_status_def orderly_def known_def o_def case_prod_beta)

lemma orderly_consumer_flags [simp]:
  "orderly f K (s\<lparr>cp_consumer_alive := a\<rparr>) = orderly f K s"
  "orderly f K (s\<lparr>cp_consumer_running := b\<rparr>) = orderly f K s"
  by (simp_all add: orderly_def known_def streams_below_def streams_def)

lemma orderly_connect: "orderly f K s \<Longrightarrow> orderly f K (snd (connect env s))"
  by (simp add: connect_def orderly_establish)

lemma orderly_stop_station: "orderly f K s \<Longrightarrow> orderly f K (stop_station s)"
  using orderly_quiesce [of f K s] by (simp add: stop_station_def Let_def disconnect_def orderly_consumer_ends)

section \<open>Runs\<close>

text \<open>The program starts transactions on connectors the station has; any other step is free.\<close>

definition starts_known :: "ConnectorId list \<Rightarrow> datetime \<times> cp_step \<Rightarrow> bool" where
  "starts_known K st = (case snd st of DoStart cid _ _ \<Rightarrow> cid \<in> set K | _ \<Rightarrow> True)"

lemmas orderly_ops = orderly_start_transaction orderly_stop orderly_transition orderly_plug_in orderly_deauthorize
  orderly_sampler_tick orderly_expiry orderly_consume orderly_connect orderly_stop_station orderly_remote_start
  orderly_request_start orderly_remote_stop orderly_request_stop orderly_handle_reset orderly_handle_reset_v201
  orderly_change_availability orderly_unlock orderly_unlock_v201 orderly_reserve orderly_reserve_v201 orderly_cancel
  orderly_cancel_v201 orderly_trigger orderly_trigger_v201

lemma orderly_exec: "orderly f K s \<Longrightarrow> starts_known K st \<Longrightarrow> orderly f K (cp_exec env st s)"
  by (cases st; cases "snd st")
    (auto simp: starts_known_def start_station_def disconnect_def cp_plug_in_def cp_plug_out_def cp_set_fault_def
      cp_clear_fault_def cp_set_availability_def intro: orderly_ops)

interpretation station: machine "\<lambda>st s. if starts_known K st then cp_exec env st s else s" "orderly f K"
  by unfold_locales (simp add: orderly_exec)

definition station_ids :: "ChargePointConfig \<Rightarrow> ConnectorId list" where
  "station_ids cfg = map (\<lambda>i. ConnectorId (of_nat i)) [1 ..< unat (cfg_connector_count cfg) + 1]"

lemma orderly_new: "orderly 1 (station_ids cfg) (ChargePoint_new now cfg)"
  by (simp add: orderly_def known_def streams_below_def streams_def stream_def ChargePoint_new_def station_ids_def)

lemma cp_run_guarded:
  "list_all (starts_known K) steps \<Longrightarrow> cp_run env steps s = fold (\<lambda>st s. if starts_known K st then cp_exec env st s else s) steps s"
  unfolding cp_run_def by (rule fold_cong) (auto simp: list_all_iff)

lemma orderly_run:
  "list_all (starts_known (station_ids cfg)) steps \<Longrightarrow> orderly 1 (station_ids cfg) (cp_run env steps (ChargePoint_new now cfg))"
  by (simp add: cp_run_guarded station.run_inv orderly_new)

text \<open>
  Property C2. The stream of \<open>TransactionEvent\<close> messages a 2.0.1 station tries to send for a transaction id, in runs where each method,
  handler, sampler tick, timer and queued command ends before the next one begins, in whatever order they come and
  whatever the CSMS answers or fails to answer: it begins with \<open>Started\<close> numbered 0, goes on with \<open>Updated\<close> events numbered
  without gap or repetition, and ends with at most one \<open>Ended\<close>, after which nothing follows. While the
  transaction has a session the stream is open, and the next number is the one the session holds. Transactions are
  started on configured connectors, and at most $2^{32}$ of them, so that the ids do not wrap around. (What a stop
  does to a method that is waiting for an answer is in theory \<open>Interleavings\<close>.)
\<close>

theorem transaction_event_streams:
  assumes "list_all (starts_known (station_ids cfg)) steps"
    and "started_count (cp_sent (cp_run env steps (ChargePoint_new now cfg))) \<le> 2 ^ 32"
  shows "stream (events_for tid (cp_sent (cp_run env steps (ChargePoint_new now cfg))))
    \<and> (\<forall>v. map_of (cp_sessions (cp_run env steps (ChargePoint_new now cfg))) tid = Some v \<longrightarrow>
         open_stream (events_for tid (cp_sent (cp_run env steps (ChargePoint_new now cfg)))) (vs_next_seq_no v))"
proof -
  let ?s = "cp_run env steps (ChargePoint_new now cfg)"
  have "streams 1 ?s" using orderly_run [OF assms(1), of env now] assms(2) by (simp add: orderly_def streams_below_def)
  then show ?thesis
    by (cases "map_of (cp_sessions ?s) tid") (auto simp: streams_def stream_def)
qed

text \<open>A CSMS that accepts everything.\<close>

definition demo_env :: environment where
  "demo_env = \<lparr>env_event = \<lambda>_ _. Ok \<lparr>ter_total_cost = None, ter_charging_priority = None, ter_id_token_info = None,
       ter_updated_personal_message = None, ter_custom_data = None\<rparr>,
     env_start = \<lambda>sent _. Ok (\<lparr>iti_status = AuthorizationStatus.Accepted, iti_parent_id_tag = None, iti_expiry_date = None\<rparr>,
       of_nat (length sent)),
     env_ack = \<lambda>_ _. Ok (),
     env_boot = \<lambda>_. Ok \<lparr>bo_status = RegistrationStatusEnumType.Accepted, bo_interval = 60, bo_current_time = 0\<rparr>,
     env_connect = \<lambda>_. Ok (), env_parse_rfc3339 = \<lambda>_. None, env_to_rfc3339 = \<lambda>_. ''t'', env_display = \<lambda>_. ''x''\<rparr>"

definition demo_config201 :: ChargePointConfig where
  "demo_config201 = (for_version V201)\<lparr>cfg_connector_count := 1\<rparr>"

definition demo_steps :: "(datetime \<times> cp_step) list" where
  "demo_steps = [(0, DoPowerUp), (0, DoStart (ConnectorId 1) ''tag'' 0), (1, DoTick 1), (3, OnRequestStop ''1''), (4, DoConsume), (5, DoTick 1)]"

definition demo_run :: charge_point where
  "demo_run = cp_run demo_env demo_steps (ChargePoint_new 0 demo_config201)"

lemma demo_starts_known: "list_all (starts_known (station_ids demo_config201)) demo_steps"
  by (simp add: demo_steps_def starts_known_def station_ids_def demo_config201_def)

definition demo_events :: "outgoing list \<Rightarrow> nat \<times> i32 list" where
  "demo_events ms = (started_count ms, map te_seq_no (events_for 1 ms))"

theorem transaction_event_streams_witness:
  "started_count (cp_sent demo_run) = 1 \<and> map te_seq_no (events_for 1 (cp_sent demo_run)) = [0, 1, 2]
     \<and> stream (events_for 1 (cp_sent demo_run))"
proof -
  have "demo_events (cp_sent demo_run) = (1, [0, 1, 2])" by code_simp
  then have *: "started_count (cp_sent demo_run) = 1 \<and> map te_seq_no (events_for 1 (cp_sent demo_run)) = [0, 1, 2]"
    by (simp add: demo_events_def)
  with transaction_event_streams [OF demo_starts_known, where env = demo_env and now = 0 and tid = 1] show ?thesis
    by (simp add: demo_run_def)
qed

end
