(* ===== verification/Station_Behaviour.thy ===== *)
theory Station_Behaviour
  imports Station_Properties
begin

text \<open>
  What single operations of the running station achieve: stopping a transaction, authorizing after the cable is
  plugged in, booting, resetting.
\<close>

section \<open>Ownership\<close>

text \<open>
  Property C6. In every state a station reaches by runs in which each method, handler, sampler tick and timer ends before the next one
  begins, with transactions started on configured connectors only: a meter sampler and a 2.0.1 session belong to an active
  transaction, so that stopping the transaction reaches them; transactions and samplers run on configured connectors;
  a 1.6J station has no sessions; and the set of connectors is the configured one.
\<close>

theorem station_ownership:
  assumes "list_all (starts_known (station_ids cfg)) steps"
    and "s = cp_run env steps (ChargePoint_new now cfg)"
  shows "fst ` set (cp_samplers s) \<subseteq> fst ` set (cp_active_transactions s)
    \<and> fst ` set (cp_sessions s) \<subseteq> fst ` set (cp_active_transactions s)
    \<and> snd ` set (cp_active_transactions s) \<subseteq> set (station_ids cfg)
    \<and> smp_connector ` snd ` set (cp_samplers s) \<subseteq> set (station_ids cfg)
    \<and> (cp_version s = V16J \<longrightarrow> cp_sessions s = [])
    \<and> map fst (cp_connectors s) = station_ids cfg"
  using orderly_run [OF assms(1), of env now] assms(2) by (simp add: orderly_def known_def)

section \<open>Boot\<close>

definition status_message :: "OcppVersion \<Rightarrow> u32 \<Rightarrow> ChargePointStatus \<Rightarrow> outgoing" where
  "status_message v cid st = (case v of
      V16J \<Rightarrow> OutStatusNotification cid st ChargePointErrorCode.NoError
    | V201 \<Rightarrow> OutStatusNotificationV201 cid (charge_point_status_to_v201 st))"

lemma send_status_eq:
  "send_status_notification env cid st s =
     (env_ack env (cp_sent s) (status_message (cp_version s) cid st), send (status_message (cp_version s) cid st) s)"
  by (simp add: send_status_notification_def status_message_def call_ack_def)

definition announcements :: "charge_point \<Rightarrow> outgoing list" where
  "announcements s = map (\<lambda>i. status_message (cp_version s) (of_nat i) ChargePointStatus.Available)
     [(case cp_version s of V16J \<Rightarrow> 0 | V201 \<Rightarrow> 1) ..< unat (cfg_connector_count (cp_config s)) + 1]"

lemma send_send: "send m s = s\<lparr>cp_sent := cp_sent s @ [m]\<rparr>"
  by (rule send_def)

lemma announce_spec:
  "\<exists>k r. announce env is s = (r, s\<lparr>cp_sent := cp_sent s @ map (\<lambda>i. status_message (cp_version s) (of_nat i) ChargePointStatus.Available) (take k is)\<rparr>)
     \<and> (r = Ok () \<longrightarrow> length is \<le> k)"
proof (induction "is" arbitrary: s)
  case (Cons i "is")
  let ?m = "status_message (cp_version s) (of_nat i) ChargePointStatus.Available"
  show ?case
  proof (cases "env_ack env (cp_sent s) ?m")
    case (Inl e)
    then show ?thesis by (intro exI [of _ 1] exI [of _ "Inl e"]) (simp add: send_status_eq send_def)
  next
    case (Inr u)
    obtain k r where "announce env is (send ?m s) = (r, (send ?m s)\<lparr>cp_sent := cp_sent (send ?m s) @
        map (\<lambda>i. status_message (cp_version (send ?m s)) (of_nat i) ChargePointStatus.Available) (take k is)\<rparr>)"
      "r = Ok () \<longrightarrow> length is \<le> k" using Cons.IH by blast
    with Inr show ?thesis by (intro exI [of _ "Suc k"] exI [of _ r]) (simp add: send_status_eq send_def)
  qed
qed (simp add: exI [of _ 0])

lemma announce_available_spec:
  obtains k r where "announce_connectors_available env s = (r, s\<lparr>cp_sent := cp_sent s @ take k (announcements s)\<rparr>)"
    and "r = Ok () \<Longrightarrow> take k (announcements s) = announcements s"
  using announce_spec [of env "[(case cp_version s of V16J \<Rightarrow> 0 | V201 \<Rightarrow> 1) ..< unat (cfg_connector_count (cp_config s)) + 1]" s]
  by (auto simp: announce_connectors_available_def announcements_def take_map) (metis take_all)

text \<open>What \<open>boot_attempts\<close> does from a history \<open>h\<close>: the \<open>n\<close>-th answer decides.\<close>

definition heartbeat_of :: "BootOutcome \<Rightarrow> u64" where
  "heartbeat_of b = max 1 (word_of_int (max 1 (sint (bo_interval b))))"

definition boot_outcome :: "environment \<Rightarrow> charge_point \<Rightarrow> nat \<Rightarrow> nat \<Rightarrow> nat \<Rightarrow> (OcppError, unit) result \<Rightarrow> charge_point \<Rightarrow> bool" where
  "boot_outcome env s made avail n r s' \<longleftrightarrow> 1 \<le> n \<and> n \<le> avail
     \<and> (\<forall>k < n - 1. \<exists>b. env_boot env (cp_sent s @ replicate k OutBootNotification) = Inr b \<and> bo_status b = RegistrationStatusEnumType.Rejected)
     \<and> (\<forall>e. env_boot env (cp_sent s @ replicate (n - 1) OutBootNotification) = Inl e \<longrightarrow>
           r = Inl e \<and> cp_sent s' = cp_sent s @ replicate n OutBootNotification)
     \<and> (\<forall>b. env_boot env (cp_sent s @ replicate (n - 1) OutBootNotification) = Inr b \<longrightarrow> cp_registration s' = bo_status b
         \<and> (bo_status b = RegistrationStatusEnumType.Accepted \<longrightarrow>
              (\<exists>k. cp_sent s' = cp_sent s @ replicate n OutBootNotification @ take k (announcements s))
              \<and> (r = Ok () \<longrightarrow> cp_sent s' = cp_sent s @ replicate n OutBootNotification @ announcements s \<and> cp_heartbeat s' = Some (heartbeat_of b)))
         \<and> (bo_status b = RegistrationStatusEnumType.Pending \<longrightarrow>
              r = Ok () \<and> cp_sent s' = cp_sent s @ replicate n OutBootNotification \<and> cp_heartbeat s' = Some (heartbeat_of b))
         \<and> (bo_status b = RegistrationStatusEnumType.Rejected \<longrightarrow>
              n = avail \<and> r = Err (BootRejected (of_nat (made + n))) \<and> cp_sent s' = cp_sent s @ replicate n OutBootNotification))"

lemma announcements_cong [simp]:
  "announcements (s\<lparr>cp_registration := rg, cp_sent := h\<rparr>) = announcements s"
  "announcements (s\<lparr>cp_sent := h, cp_registration := rg\<rparr>) = announcements s"
  "announcements (s\<lparr>cp_sent := h\<rparr>) = announcements s"
  by (simp_all add: announcements_def)

lemma boot_first:
  assumes "boot_attempts env made (Suc left) s = (r, s')"
    and "\<And>b. env_boot env (cp_sent s) = Inr b \<Longrightarrow> bo_status b = RegistrationStatusEnumType.Rejected \<Longrightarrow> left = 0"
  shows "boot_outcome env s made (Suc left) 1 r s'"
proof (cases "env_boot env (cp_sent s)")
  case (Inl e)
  with assms(1) show ?thesis by (auto simp: boot_outcome_def send_boot_notification_def send_def)
next
  case (Inr b)
  let ?s = "s\<lparr>cp_sent := cp_sent s @ [OutBootNotification], cp_registration := bo_status b\<rparr>"
  obtain k q where "announce_connectors_available env ?s = (q, ?s\<lparr>cp_sent := cp_sent ?s @ take k (announcements ?s)\<rparr>)"
    "q = Ok () \<Longrightarrow> take k (announcements ?s) = announcements ?s"
    using announce_available_spec by blast
  moreover have "\<exists>k. announcements s = take k (announcements s)" by (metis order_refl take_all)
  ultimately show ?thesis using assms Inr
    by (cases "bo_status b") (auto simp: boot_outcome_def send_boot_notification_def send_def Let_def start_heartbeat_def heartbeat_of_def
        and_then_def split: prod.splits sum.splits)
qed

lemma boot_refused:
  "env_boot env (cp_sent s) = Inr b \<Longrightarrow> bo_status b = RegistrationStatusEnumType.Rejected \<Longrightarrow>
   boot_attempts env made (Suc left) s = boot_attempts env (Suc made) left
     (s\<lparr>cp_sent := cp_sent s @ [OutBootNotification], cp_registration := RegistrationStatusEnumType.Rejected\<rparr>)"
  by (simp add: send_boot_notification_def send_def Let_def)

lemma boot_later:
  assumes "env_boot env (cp_sent s) = Inr b" and "bo_status b = RegistrationStatusEnumType.Rejected"
    and "boot_outcome env (s\<lparr>cp_sent := cp_sent s @ [OutBootNotification], cp_registration := rg\<rparr>) (Suc made) avail n r s'"
  shows "boot_outcome env s made (Suc avail) (Suc n) r s'"
proof -
  have "\<exists>c. env_boot env (cp_sent s @ replicate k OutBootNotification) = Inr c \<and> bo_status c = RegistrationStatusEnumType.Rejected"
    if "k < n" for k
    using that assms by (cases k) (auto simp: boot_outcome_def)
  moreover have "cp_sent s @ OutBootNotification # replicate (n - 1) OutBootNotification = cp_sent s @ replicate n OutBootNotification"
    using assms(3) by (cases n) (simp_all add: boot_outcome_def)
  ultimately show ?thesis using assms(3) by (auto simp: boot_outcome_def)
qed

lemma boot_attempts_spec:
  "boot_attempts env made (Suc left) s = (r, s') \<Longrightarrow> \<exists>n. boot_outcome env s made (Suc left) n r s'"
proof (induction left arbitrary: made s)
  case 0
  then show ?case using boot_first by blast
next
  case (Suc left)
  show ?case
  proof (cases "\<exists>b. env_boot env (cp_sent s) = Inr b \<and> bo_status b = RegistrationStatusEnumType.Rejected")
    case True
    then obtain b where b: "env_boot env (cp_sent s) = Inr b" "bo_status b = RegistrationStatusEnumType.Rejected" by blast
    from Suc.IH [OF Suc.prems [unfolded boot_refused [OF b]]] boot_later [OF b] show ?thesis by blast
  next
    case False
    with boot_first [OF Suc.prems] show ?thesis by blast
  qed
qed

text \<open>
  Property C7. The boot sequence sends at most \<open>max_boot_retries + 1\<close> \<open>BootNotification\<close>s and stops at the first one that is not answered
  with \<open>Rejected\<close>. A failed call ends it with that error and nothing more is sent. After \<open>Accepted\<close> the
  status of every connector is announced in order and the heartbeat starts; after \<open>Pending\<close> the heartbeat starts and nothing is
  announced. When all are refused the error carries the number of attempts. The exception is the largest \<open>u32\<close>: with that
  setting, and no other, the sequence panics before it sends anything.
\<close>

theorem boot_sequence_spec:
  assumes "boot_sequence env s = (q, s')"
  shows "(q = None \<longleftrightarrow> unat (cfg_max_boot_retries (cp_config s)) = 2 ^ 32 - 1) \<and> (q = None \<longrightarrow> s' = s)
    \<and> (\<forall>r. q = Some r \<longrightarrow> (\<exists>n. boot_outcome env s 0 (unat (cfg_max_boot_retries (cp_config s)) + 1) n r s'))"
proof -
  let ?m = "cfg_max_boot_retries (cp_config s)"
  have wrap: "?m + 1 = 0 \<longleftrightarrow> unat ?m = 2 ^ 32 - 1"
  proof -
    have "?m + 1 = 0 \<longleftrightarrow> ?m = - 1" by (simp add: eq_neg_iff_add_eq_0)
    also have "\<dots> \<longleftrightarrow> unat ?m = unat (- 1 :: u32)" by (metis word_unat_eq_iff)
    also have "unat (- 1 :: u32) = 2 ^ 32 - 1" by (simp add: unsigned_minus_1_eq_mask mask_eq_exp_minus_1)
    finally show ?thesis .
  qed
  have "\<exists>n. boot_outcome env s 0 (unat ?m + 1) n r s'" if "q = Some r" for r
  proof -
    from that assms have nz: "?m + 1 \<noteq> 0" and b: "boot_attempts env 0 (unat (?m + 1)) s = (r, s')"
      by (auto simp: boot_sequence_def Let_def split: if_splits prod.splits)
    from nz have "unat (?m + 1) = unat ?m + 1" using unatSuc [of ?m] by (simp add: add.commute)
    with b boot_attempts_spec [of env 0 "unat ?m" s r s'] show ?thesis by simp
  qed
  with assms wrap show ?thesis
    by (auto simp: boot_sequence_def Let_def split: if_splits prod.splits)
qed

section \<open>Stopping a transaction\<close>

text \<open>The station after a 2.0.1 transaction was closed, and after it was stopped, before anything deferred fires.\<close>

definition closed_tx :: "ConnectorId \<Rightarrow> i32 \<Rightarrow> outgoing list \<Rightarrow> charge_point \<Rightarrow> charge_point" where
  "closed_tx cid tid ms s = s\<lparr>
     cp_samplers := AList.delete tid (cp_samplers s),
     cp_profiles := (cp_profiles s)\<lparr>ps_tx := AList.delete (connector_value cid) (ps_tx (cp_profiles s))\<rparr>,
     cp_sessions := AList.delete tid (cp_sessions s),
     cp_sent := cp_sent s @ ms\<rparr>"

definition stopped :: "ConnectorId \<Rightarrow> i32 \<Rightarrow> outgoing list \<Rightarrow> charge_point \<Rightarrow> charge_point" where
  "stopped cid tid ms s = (closed_tx cid tid ms s)\<lparr>
     cp_active_transactions := AList.delete tid (cp_active_transactions s),
     cp_connectors := AList.map_entry cid (set_status ChargePointStatus.Available) (cp_connectors s)\<rparr>"

definition ended_event :: "environment \<Rightarrow> datetime \<Rightarrow> ConnectorId \<Rightarrow> i32 \<Rightarrow> V201Session \<Rightarrow> i32 \<Rightarrow> Reason \<Rightarrow> outgoing" where
  "ended_event env now cid tid v meter reason = OutTransactionEvent (transaction_event_ended (session_ref tid (connector_value cid))
     (vs_next_seq_no v) (vs_id_tag v) (i32_to_f64 meter) reason (env_to_rfc3339 env now))"

text \<open>The messages of a stop, in order.\<close>

definition stop_messages :: "environment \<Rightarrow> datetime \<Rightarrow> ConnectorId \<Rightarrow> i32 \<Rightarrow> V201Session \<Rightarrow> i32 \<Rightarrow> Reason \<Rightarrow> outgoing list" where
  "stop_messages env now cid tid v meter reason = [ended_event env now cid tid v meter reason,
     OutStatusNotificationV201 (connector_value cid) ConnectorStatusEnumType.Occupied,
     OutStatusNotificationV201 (connector_value cid) ConnectorStatusEnumType.Available]"

lemma closed_tx_sel [simp]:
  "cp_config (closed_tx cid tid ms s) = cp_config s" "cp_sent (closed_tx cid tid ms s) = cp_sent s @ ms"
  "cp_active_transactions (closed_tx cid tid ms s) = cp_active_transactions s"
  "cp_connectors (closed_tx cid tid ms s) = cp_connectors s"
  "cp_sessions (closed_tx cid tid ms s) = AList.delete tid (cp_sessions s)"
  "cp_pending_reset (closed_tx cid tid ms s) = cp_pending_reset s"
  "cp_pending_availability (closed_tx cid tid ms s) = cp_pending_availability s"
  by (simp_all add: closed_tx_def)

lemma send_closed: "send m (closed_tx cid tid ms s) = closed_tx cid tid (ms @ [m]) s"
  by (simp add: closed_tx_def send_def)

lemma stop_sampler_closed: "stop_meter_sampler tid (closed_tx cid tid ms s) = closed_tx cid tid ms s"
  by (simp add: closed_tx_def stop_meter_sampler_def AList.delete_idem)

lemma close_session:
  assumes "cp_version s = V201" and "map_of (cp_sessions s) tid = Some v"
  shows "close_transaction env now cid tid meter reason s =
    (case env_event env (cp_sent s) (transaction_event_ended (session_ref tid (connector_value cid)) (vs_next_seq_no v)
         (vs_id_tag v) (i32_to_f64 meter) reason (env_to_rfc3339 env now)) of
       Inl e \<Rightarrow> (Inl e, closed_tx cid tid [ended_event env now cid tid v meter reason] s)
     | Inr _ \<Rightarrow> (Ok (), closed_tx cid tid [ended_event env now cid tid v meter reason] s))"
  using assms by (simp add: close_transaction_def Let_def stop_meter_sampler_def call_event_def and_then_def closed_tx_def
      ended_event_def send_def tx_clear_def split: sum.splits)

lemma stop_session:
  assumes "cp_version s = V201" and "map_of (cp_active_transactions s) tid = Some cid" and "map_of (cp_sessions s) tid = Some v"
    and ms: "stop_messages env now cid tid v meter reason = [m1, m2, m3]"
  shows "cp_stop_transaction env now tid meter reason s =
    (case fst (close_transaction env now cid tid meter reason s) of
       Inl e \<Rightarrow> (Inl e, closed_tx cid tid [m1] s)
     | Inr _ \<Rightarrow> (case env_ack env (cp_sent s @ [m1]) m2 of
         Inl e \<Rightarrow> (Inl e, closed_tx cid tid [m1, m2] s)
       | Inr _ \<Rightarrow> (case env_ack env (cp_sent s @ [m1, m2]) m3 of
           Inl e \<Rightarrow> (Inl e, stopped cid tid [m1, m2, m3] s)
         | Inr _ \<Rightarrow> (Ok (), fire_deferred (stopped cid tid [m1, m2, m3] s)))))"
proof -
  have m: "m1 = ended_event env now cid tid v meter reason" "m2 = status_message V201 (connector_value cid) ChargePointStatus.Finishing"
    "m3 = status_message V201 (connector_value cid) ChargePointStatus.Available"
    using ms by (simp_all add: stop_messages_def status_message_def)
  have st: "send x (set_connector_status cid ChargePointStatus.Available
      ((closed_tx cid tid ys s)\<lparr>cp_active_transactions := AList.delete tid (cp_active_transactions s)\<rparr>)) = stopped cid tid (ys @ [x]) s" for x ys
    by (simp add: stopped_def closed_tx_def send_def set_connector_status_def)
  have cf: "cp_config (set_connector_status cid x t) = cp_config t" "cp_sent (set_connector_status cid x t) = cp_sent t" for x t
    by (simp_all add: set_connector_status_def)
  show ?thesis
    using assms(1,2) by (simp add: cp_stop_transaction_def close_session [OF assms(1,3)] send_status_eq and_then_def Let_def send_closed
        stop_sampler_closed st cf m(2,3) [symmetric] m(1) [symmetric] split: sum.splits)
qed

text \<open>What waits for the station to be idle, as commands in the order they fire: the change of availability, then the reset.\<close>

definition deferred_commands :: "charge_point \<Rightarrow> RemoteCommand list" where
  "deferred_commands s =
     (case cp_pending_availability s of
        None \<Rightarrow> []
      | Some p \<Rightarrow> map (\<lambda>c. V201ApplyAvailability c (pa_target p))
          (case pa_evse_id p of Some e \<Rightarrow> option_list (connector_of_evse e) | None \<Rightarrow> station_connectors s))
     @ map Reset (option_list (cp_pending_reset s))"

lemma enqueue_eq: "enqueue cmds s = s\<lparr>cp_commands := cp_commands s @ (if cp_consumer_alive s then cmds else [])\<rparr>"
  by (simp add: enqueue_def)

lemma fire_deferred_eq:
  "fire_deferred s =
     (if cp_active_transactions s \<noteq> [] then s
      else s\<lparr>cp_pending_reset := None, cp_pending_availability := None,
        cp_commands := cp_commands s @ (if cp_consumer_alive s then deferred_commands s else [])\<rparr>)"
proof -
  let ?s = "s\<lparr>cp_pending_reset := None, cp_pending_availability := None\<rparr>"
  have t: "availability_targets e ?s
      = (case e of Some e' \<Rightarrow> option_list (connector_of_evse e') | None \<Rightarrow> station_connectors s)" for e
    by (cases e) (simp_all add: availability_targets_def station_connectors_def)
  have "fire_deferred s = (if cp_active_transactions s \<noteq> [] then s else enqueue (deferred_commands s) ?s)"
    unfolding fire_deferred_def deferred_commands_def Let_def t enqueue_eq option_list_def [of "cp_pending_reset s"]
    by (simp split: option.split)
  then show ?thesis by (simp add: enqueue_eq)
qed

text \<open>
  Property C3. Stopping a 2.0.1 transaction. When every call is answered, the station sends the \<open>Ended\<close> event with the next number of the
  session, then \<open>Finishing\<close> (reported as occupied) and \<open>Available\<close>, and the transaction, its session, its sampler and its
  transaction profile are gone while everything else stays; what was deferred until the station is idle fires then, if no
  transaction is left. When a call fails, its error is returned and nothing more is sent; the session is gone, so that
  a retry sends no second \<open>Ended\<close>, and the transaction stays active unless the last call failed. In that case it is gone,
  but what was deferred has not fired.
\<close>

theorem stop_transaction_spec:
  assumes "cp_version s = V201" and "map_of (cp_active_transactions s) tid = Some cid" and "map_of (cp_sessions s) tid = Some v"
    and "cp_stop_transaction env now tid meter reason s = (r, s')"
  shows "(r = Ok () \<longrightarrow> (let t = stopped cid tid (stop_messages env now cid tid v meter reason) s in
         s' = (if cp_active_transactions t \<noteq> [] then t
               else t\<lparr>cp_pending_reset := None, cp_pending_availability := None,
                 cp_commands := cp_commands t @ (if cp_consumer_alive t then deferred_commands t else [])\<rparr>)))
    \<and> (\<forall>e. r = Inl e \<longrightarrow> map_of (cp_sessions s') tid = None
         \<and> (\<exists>k \<in> {1, 2, 3}. cp_sent s' = cp_sent s @ take k (stop_messages env now cid tid v meter reason)
           \<and> map_of (cp_active_transactions s') tid = (if k = 3 then None else Some cid)
           \<and> cp_pending_reset s' = cp_pending_reset s \<and> cp_pending_availability s' = cp_pending_availability s))"
proof -
  obtain m1 m2 m3 where ms: "stop_messages env now cid tid v meter reason = [m1, m2, m3]" by (simp add: stop_messages_def)
  note eq = assms(4) [unfolded stop_session [OF assms(1-3) ms]]
  have gone: "map_of (cp_sessions (closed_tx cid tid ys s)) tid = None" "map_of (cp_sessions (stopped cid tid ys s)) tid = None"
    "map_of (cp_active_transactions (stopped cid tid ys s)) tid = None" "cp_sent (stopped cid tid ys s) = cp_sent s @ ys"
    "cp_pending_reset (stopped cid tid ys s) = cp_pending_reset s"
    "cp_pending_availability (stopped cid tid ys s) = cp_pending_availability s" for ys
    by (simp_all add: stopped_def delete_conv')
  show ?thesis
  proof (cases "fst (close_transaction env now cid tid meter reason s)")
    case (Inl e)
    with eq have "r = Inl e" "s' = closed_tx cid tid [m1] s" by simp_all
    then show ?thesis by (simp add: ms gone assms(2) del: closed_tx_sel(5))
  next
    case c: (Inr u)
    show ?thesis
    proof (cases "env_ack env (cp_sent s @ [m1]) m2")
      case (Inl e)
      with eq c have "r = Inl e" "s' = closed_tx cid tid [m1, m2] s" by simp_all
      then show ?thesis by (simp add: ms gone assms(2) del: closed_tx_sel(5))
    next
      case (Inr w)
      show ?thesis
      proof (cases "env_ack env (cp_sent s @ [m1, m2]) m3")
        case (Inl e)
        with eq c Inr have "r = Inl e" "s' = stopped cid tid [m1, m2, m3] s" by simp_all
        then show ?thesis by (simp add: ms gone)
      next
        case a: (Inr x)
        with eq c Inr have "r = Ok ()" "s' = fire_deferred (stopped cid tid [m1, m2, m3] s)" by simp_all
        then show ?thesis by (simp add: ms fire_deferred_eq)
      qed
    qed
  qed
qed

section \<open>Restart and reset\<close>

text \<open>What booting leaves alone: everything but the messages, the registration, the heartbeat and the connection.\<close>

definition unbooted :: "charge_point \<Rightarrow> charge_point" where
  "unbooted s = s\<lparr>cp_sent := [], cp_registration := RegistrationStatusEnumType.Rejected, cp_heartbeat := None, cp_is_connected := False\<rparr>"

lemma unbooted_simps [simp]:
  "unbooted (s\<lparr>cp_sent := h\<rparr>) = unbooted s" "unbooted (s\<lparr>cp_registration := rg\<rparr>) = unbooted s"
  "unbooted (s\<lparr>cp_heartbeat := hb\<rparr>) = unbooted s" "unbooted (s\<lparr>cp_is_connected := c\<rparr>) = unbooted s"
  by (simp_all add: unbooted_def)

lemma unbooted_eqD:
  assumes "unbooted s = unbooted t"
  shows "cp_active_transactions s = cp_active_transactions t" "cp_consumer_alive s = cp_consumer_alive t"
    "cp_sessions s = cp_sessions t" "cp_samplers s = cp_samplers t" "cp_pending_reset s = cp_pending_reset t"
  using arg_cong [OF assms, of cp_active_transactions] arg_cong [OF assms, of cp_consumer_alive] arg_cong [OF assms, of cp_sessions]
    arg_cong [OF assms, of cp_samplers] arg_cong [OF assms, of cp_pending_reset] by (simp_all add: unbooted_def)

lemma unbooted_announce [simp]: "unbooted (snd (announce_connectors_available env s)) = unbooted s"
  by (rule announce_available_spec [of env s]) simp

lemma unbooted_boot: "unbooted (snd (boot_attempts env made n s)) = unbooted s"
proof (induction n arbitrary: made s)
  case (Suc n)
  have "unbooted t' = unbooted t" if "announce_connectors_available env t = (q, t')" for q t t'
    using that unbooted_announce [of env t] by simp
  with Suc show ?case
    by (auto simp: send_boot_notification_def send_def Let_def start_heartbeat_def and_then_def
        split: sum.splits prod.splits RegistrationStatusEnumType.splits)
qed simp

lemma unbooted_boot_sequence: "unbooted (snd (boot_sequence env s)) = unbooted s"
  by (simp add: boot_sequence_def Let_def case_prod_beta unbooted_boot del: boot_attempts.simps)

lemma unbooted_establish: "unbooted (snd (establish_session env s)) = unbooted s"
  by (simp add: establish_session_def unbooted_boot_sequence split: sum.splits)

lemma consumer_survives_sel [simp]:
  "cp_active_transactions (consumer_survives r) = cp_active_transactions (snd r)"
  by (simp add: consumer_survives_def consumer_ends_def split: prod.splits option.splits)

text \<open>An environment in which every call is answered.\<close>

definition answering :: "environment \<Rightarrow> bool" where
  "answering env \<longleftrightarrow> (\<forall>h m. env_ack env h m = Ok ()) \<and> (\<forall>h e. \<exists>r. env_event env h e = Ok r \<and> ter_id_token_info r = None)"

lemma fire_deferred_sel [simp]:
  "cp_active_transactions (fire_deferred s) = cp_active_transactions s"
  "cp_sessions (fire_deferred s) = cp_sessions s" "cp_samplers (fire_deferred s) = cp_samplers s"
  by (simp_all add: fire_deferred_def Let_def enqueue_def split: option.splits)

lemma answeringD:
  assumes "answering env"
  shows "env_ack env h m = Ok ()" and "\<exists>r. env_event env h e = Ok r \<and> ter_id_token_info r = None"
  using assms by (simp_all add: answering_def)

lemma answered_close:
  assumes "answering env"
  shows "fst (close_transaction env now cid tid meter reason s) = Ok ()"
    and "cp_active_transactions (snd (close_transaction env now cid tid meter reason s)) = cp_active_transactions s"
proof -
  have e: "\<exists>r. env_event env h x = Ok r" for h x using answeringD(2) [OF assms] by blast
  have "env_event env h x \<noteq> Inl y" for h x y using e [of h x] by auto
  then show "fst (close_transaction env now cid tid meter reason s) = Ok ()"
    "cp_active_transactions (snd (close_transaction env now cid tid meter reason s)) = cp_active_transactions s"
    by (auto simp: close_transaction_def call_ack_def answeringD(1) [OF assms] call_event_def Let_def stop_meter_sampler_def and_then_def send_def
        split: OcppVersion.splits option.splits sum.splits)
qed

lemma answered_stop:
  assumes "answering env"
  shows "cp_active_transactions (snd (cp_stop_transaction env now tid meter reason s)) = AList.delete tid (cp_active_transactions s)"
proof (cases "map_of (cp_active_transactions s) tid")
  case None
  then have "tid \<notin> fst ` set (cp_active_transactions s)" by (simp add: map_of_eq_None_iff)
  with None show ?thesis by (simp add: cp_stop_transaction_def)
next
  case (Some cid)
  obtain t where "close_transaction env now cid tid meter reason s = (Ok (), t)" "cp_active_transactions t = cp_active_transactions s"
    using answered_close [OF assms, of now cid tid meter reason s] by (metis prod.collapse)
  with Some show ?thesis
    by (simp add: cp_stop_transaction_def send_status_eq answeringD(1) [OF assms] Let_def stop_meter_sampler_def set_connector_status_def send_def)
qed

lemma answered_stop_all:
  "answering env \<Longrightarrow> cp_active_transactions (stop_all env now reason tids s) = fold AList.delete tids (cp_active_transactions s)"
  unfolding stop_all_def by (induction tids arbitrary: s) (simp_all add: answered_stop)

lemma fold_delete_dom: "fst ` set (fold AList.delete ks al) = fst ` set al - set ks"
  by (induction ks arbitrary: al) (auto simp: dom_delete)

lemma fold_delete_all: "fold AList.delete (map fst al) al = []"
  using fold_delete_dom [of "map fst al" al] by simp

lemma orderly_idle: "orderly f K s \<Longrightarrow> cp_active_transactions s = [] \<Longrightarrow> cp_sessions s = [] \<and> cp_samplers s = []"
  by (simp add: orderly_def known_def)

text \<open>
  Property C5. A reset ends everything. In every reachable state, when the CSMS answers the calls, a soft or hard reset leaves the station with
  no active transaction, no session and no sampler, also when the boot that follows fails.
\<close>

theorem reset_ends_everything:
  assumes "list_all (starts_known (station_ids cfg)) steps" and "answering env"
    and "s = perform_reset env now kind (cp_run env steps (ChargePoint_new start_time cfg))"
  shows "cp_active_transactions s = [] \<and> cp_sessions s = [] \<and> cp_samplers s = []"
proof -
  let ?r = "cp_run env steps (ChargePoint_new start_time cfg)"
  have "cp_active_transactions s = []"
  proof (cases kind)
    case Soft
    show ?thesis
      unfolding assms(3) perform_reset_def Let_def Soft ResetType.case consumer_survives_sel
      by (subst unbooted_eqD(1) [OF unbooted_boot_sequence]) (simp add: quiesce_background_tasks_def answered_stop_all [OF assms(2)] fold_delete_all)
  next
    case Hard
    show ?thesis
      unfolding assms(3) perform_reset_def Let_def Hard ResetType.case consumer_survives_sel
      by (subst unbooted_eqD(1) [OF unbooted_establish])
        (simp add: disconnect_def quiesce_background_tasks_def answered_stop_all [OF assms(2)] fold_delete_all)
  qed
  moreover have "orderly 1 (station_ids cfg) s"
    unfolding assms(3) by (intro orderly_reset orderly_run assms(1))
  ultimately show ?thesis using orderly_idle by blast
qed

section \<open>Plugging in before authorizing\<close>

lemma find_update_new:
  "List.find (\<lambda>(_, c). P c) al = None \<Longrightarrow> P x \<Longrightarrow> List.find (\<lambda>(_, c). P c) (AList.update k x al) = Some (k, x)"
  by (induction al) (auto split: if_splits)

lemma connector_of_evse_eq: "connector_of_evse evse = Some cid \<longleftrightarrow> cid = ConnectorId evse \<and> 0 < sint evse"
proof -
  have "evse = 0 \<longleftrightarrow> sint evse = 0" by (metis signed_0 signed_word_eqI)
  then show ?thesis by (auto simp: connector_of_evse_def ConnectorId_new_def split: if_splits)
qed

lemma uint_eq_sint: "0 < sint (a :: i32) \<Longrightarrow> uint (b :: i32) = sint a \<longleftrightarrow> b = a"
proof -
  assume "0 < sint a"
  have "uint a = take_bit 32 (sint a)" using uint_bounded [of a] by (simp add: sint_uint take_bit_signed_take_bit take_bit_int_eq_self)
  also have "\<dots> = sint a" using \<open>0 < sint a\<close> sint_i32_range(2) [of a] by (simp add: take_bit_int_eq_self)
  finally show ?thesis by (metis word_uint_eqI)
qed

lemma answered_energize:
  assumes "answering env" and "energize_connector env now cid tid s = (r, t)"
  shows "r = Ok ()" and "cp_sent t = cp_sent s @ [status_message (cp_version s) (connector_value cid) ChargePointStatus.Charging]"
    and "cp_active_transactions t = cp_active_transactions s" and "cp_sessions t = cp_sessions s"
    and "cp_samplers t = AList.update tid \<lparr>smp_connector = cid, smp_tx_start = now, smp_elapsed = 0, smp_sent_begin = False\<rparr> (cp_samplers s)"
  using assms(2) by (auto simp: energize_connector_def energize_begin_def Let_def send_status_eq answeringD(1) [OF assms(1)] set_connector_status_def
      start_meter_sampler_def send_def)

text \<open>The messages of a session that begins with the cable.\<close>

definition plug_first_messages :: "environment \<Rightarrow> datetime \<Rightarrow> datetime \<Rightarrow> i32 \<Rightarrow> i32 \<Rightarrow> outgoing list" where
  "plug_first_messages env now later evse tid =
     [OutTransactionEvent (transaction_event_started_on_cable_plug (session_ref tid evse) (env_to_rfc3339 env now)),
      OutStatusNotificationV201 evse ConnectorStatusEnumType.Occupied,
      OutTransactionEvent (transaction_event_state_transition (session_ref tid evse) 1 TriggerReasonEnumType.Authorized
        ChargingStateEnumType.Charging (env_to_rfc3339 env later)),
      OutStatusNotificationV201 evse ConnectorStatusEnumType.Occupied]"

text \<open>
  Property C4. On a 2.0.1 station whose start points include \<open>EVConnected\<close>, plugging in a cable at a connector without a transaction opens one, and
  the authorization that follows is folded onto it: one transaction id, a \<open>Started\<close> event numbered 0 and an \<open>Updated\<close>
  event numbered 1 and no second \<open>Started\<close>, one active transaction more, a session authorized for the tag, and a running
  sampler on that connector.
\<close>

theorem plug_then_authorize:
  assumes "answering env" and "cp_version s = V201" and "tx_opens_on_cable_plug (cp_config s)"
    and "0 < sint evse" and "map_of (cp_connectors s) (ConnectorId evse) \<noteq> None"
    and "transaction_where (\<lambda>c. c = ConnectorId evse) s = None"
    and "tid = cp_next_transaction_id s"
    and "s1 = snd (plug_in_cable env now evse s)" and "s2 = snd (start_transaction env later (ConnectorId evse) tag meter s1)"
  shows "fst (plug_in_cable env now evse s) = Ok (Opened tid 0)
    \<and> fst (start_transaction env later (ConnectorId evse) tag meter s1) = Ok tid
    \<and> cp_sent s2 = cp_sent s @ plug_first_messages env now later evse tid
    \<and> cp_active_transactions s2 = AList.update tid (ConnectorId evse) (cp_active_transactions s)
    \<and> map_of (cp_sessions s2) tid = Some \<lparr>vs_id_tag = tag, vs_next_seq_no = 2, vs_authorized = True, vs_plug_initiated = True,
         vs_group_id_token = None, vs_charging_state = ChargingStateEnumType.Charging\<rparr>
    \<and> map_of (cp_samplers s2) tid = Some \<lparr>smp_connector = ConnectorId evse, smp_tx_start = later, smp_elapsed = 0, smp_sent_begin = False\<rparr>"
proof -
  have w: "uint (connector_value c) = sint evse \<longleftrightarrow> c = ConnectorId evse" for c
    by (cases c) (simp add: uint_eq_sint [OF assms(4)])
  have ev: "connector_of_evse evse = Some (ConnectorId evse)" using assms(4) by (simp add: connector_of_evse_eq)
  let ?e = "transaction_event_started_on_cable_plug (session_ref tid evse) (env_to_rfc3339 env now)"
  let ?v = "\<lparr>vs_id_tag = [], vs_next_seq_no = 1, vs_authorized = False, vs_plug_initiated = True, vs_group_id_token = None,
     vs_charging_state = ChargingStateEnumType.EVConnected\<rparr>"
  define p where "p = (send (OutTransactionEvent ?e) (s\<lparr>cp_next_transaction_id := tid + 1\<rparr>))
     \<lparr>cp_sessions := AList.update tid ?v (cp_sessions s),
      cp_active_transactions := AList.update tid (ConnectorId evse) (cp_active_transactions s)\<rparr>"
  obtain r1 where "env_event env (cp_sent s) ?e = Ok r1" using answeringD(2) [OF assms(1)] by blast
  then have plug: "plug_in_cable env now evse s = (Ok (Opened tid 0), p)"
    using assms(2,3,5,6,7) by (auto simp: plug_in_cable_def emit_transaction_state_change_def w ev open_transaction_on_cable_plug_def
        call_event_def Let_def p_def)
  have tw: "transaction_where (\<lambda>c. c = ConnectorId evse) p = Some tid"
    using assms(6) by (simp add: transaction_where_def p_def find_update_new)
  have pv: "map_of (cp_sessions p) tid = Some ?v" "cp_version p = V201" "cp_sent p = cp_sent s @ [OutTransactionEvent ?e]"
    using assms(2) by (simp_all add: p_def update_conv' send_def)
  define m where "m = OutStatusNotificationV201 evse ConnectorStatusEnumType.Occupied"
  let ?u = "transaction_event_state_transition (session_ref tid evse) 1 TriggerReasonEnumType.Authorized
        ChargingStateEnumType.Charging (env_to_rfc3339 env later)"
  define q where "q = send (OutTransactionEvent ?u) (update_session tid claim_seq (send m p))"
  obtain r2 where "call_event env ?u (update_session tid claim_seq (send m p)) = (Ok r2, q)"
    using answeringD(2) [OF assms(1)] by (fastforce simp: call_event_def q_def)
  then have start: "start_transaction env later (ConnectorId evse) tag meter p = and_then
      (energize_connector env later (ConnectorId evse) tid (update_session tid (\<lambda>v. v\<lparr>vs_charging_state := ChargingStateEnumType.Charging,
         vs_authorized := True, vs_id_tag := tag, vs_group_id_token := None\<rparr>) q)) (\<lambda>_ s3. (Ok tid, s3))"
    using tw pv by (simp add: start_transaction_def start_transaction_with_remote_start_id_def fold_authorization_eq fold_event_def
        send_status_eq status_message_def answeringD(1) [OF assms(1)] install_tx_profile_def and_then_def m_def split: sum.splits prod.splits)
  let ?t = "update_session tid (\<lambda>v. v\<lparr>vs_charging_state := ChargingStateEnumType.Charging,
         vs_authorized := True, vs_id_tag := tag, vs_group_id_token := None\<rparr>) q"
  obtain r t where en: "energize_connector env later (ConnectorId evse) tid ?t = (r, t)" by (cases "energize_connector env later (ConnectorId evse) tid ?t")
  note et = answered_energize [OF assms(1) en]
  have s2: "start_transaction env later (ConnectorId evse) tag meter p = (Ok tid, t)" by (simp add: start en et(1))
  have qs: "cp_sent ?t = cp_sent p @ [m, OutTransactionEvent ?u]" "cp_version ?t = V201" "cp_active_transactions ?t = cp_active_transactions p"
    "map_of (cp_sessions ?t) tid = Some \<lparr>vs_id_tag = tag, vs_next_seq_no = 2, vs_authorized = True, vs_plug_initiated = True,
         vs_group_id_token = None, vs_charging_state = ChargingStateEnumType.Charging\<rparr>"
    using pv by (simp_all add: q_def update_session_def send_def map_of_map_entry_at claim_seq_def)
  show ?thesis
    using plug s2 et(2-5) qs pv(3) assms(8,9)
    by (simp add: status_message_def m_def plug_first_messages_def update_conv') (simp add: p_def)
qed

section \<open>Unlocking and reservations\<close>

text \<open>
  Unlocking a 2.0.1 connector changes nothing but the command queue, and that only in one case: the connector carries a
  transaction whose session was deauthorized, and then exactly one stop of that transaction is queued. While the session is
  authorized the answer is \<open>OngoingAuthorizedTransaction\<close>; an unknown EVSE or connector is answered as such.
\<close>

theorem unlock_spares_authorized:
  assumes "handle_unlock_v201 evse connector s = (status, s')"
  shows "(s' \<noteq> s \<longrightarrow> status = UnlockStatusEnumType.Unlocked
      \<and> (\<exists>tid v. transaction_where (\<lambda>c. c = ConnectorId evse) s = Some tid \<and> map_of (cp_sessions s) tid = Some v \<and> \<not> vs_authorized v
          \<and> s' = s\<lparr>cp_commands := cp_commands s @ [UnlockConnector (ConnectorId evse) tid]\<rparr>))
    \<and> (\<forall>tid v. connector = 1 \<and> 0 < sint evse \<and> map_of (cp_connectors s) (ConnectorId evse) \<noteq> None
         \<and> transaction_where (\<lambda>c. c = ConnectorId evse) s = Some tid \<and> map_of (cp_sessions s) tid = Some v \<and> vs_authorized v
         \<longrightarrow> status = UnlockStatusEnumType.OngoingAuthorizedTransaction \<and> s' = s)
    \<and> (connector \<noteq> 1 \<or> map_of (cp_connectors s) (ConnectorId evse) = None \<longrightarrow> status = UnlockStatusEnumType.UnknownConnector \<and> s' = s)"
proof (cases "connector = 1 \<and> 0 < sint evse \<and> map_of (cp_connectors s) (ConnectorId evse) \<noteq> None")
  case False
  define target where "target = (if connector = 1 then connector_of_evse evse else None)"
  have "\<not> is_some_and target (\<lambda>cid. map_of (cp_connectors s) cid \<noteq> None)"
    using False by (cases target) (auto simp: target_def connector_of_evse_eq split: if_splits)
  then have "status = UnlockStatusEnumType.UnknownConnector \<and> s' = s"
    using assms unfolding handle_unlock_v201_def target_def [symmetric] Let_def v201_unlock_status_def by (simp split: if_splits)
  with False show ?thesis by auto
next
  case True
  then have ev: "connector_of_evse evse = Some (ConnectorId evse)" by (simp add: connector_of_evse_eq)
  show ?thesis
  proof (cases "transaction_where (\<lambda>c. c = ConnectorId evse) s")
    case None
    with True ev assms have "s' = s" by (auto simp: handle_unlock_v201_def Let_def split: UnlockStatusEnumType.splits)
    with None True show ?thesis by auto
  next
    case (Some tid)
    with True ev assms show ?thesis
      by (cases "map_of (cp_sessions s) tid") (auto simp: handle_unlock_v201_def Let_def v201_unlock_status_def enqueue_def
          split: UnlockConnectorOutcome.splits if_splits)
  qed
qed

text \<open>
  Property C8. A 2.0.1 reservation is released once. Cancelling a held reservation, or its timer firing, forgets the reservation, frees the
  connector and queues its status and one \<open>ReservationStatusUpdate\<close>; afterwards the timer does nothing and a cancellation is
  refused, so that no second release is reported.
\<close>

theorem reservation_released_once:
  assumes "cp_version s = V201" and "cp_consumer_alive s" and "map_of (cp_reservations s) rid = Some cid"
    and "map_of (cp_connectors s) cid = Some c" and "c_status c = ChargePointStatus.Reserved"
    and "s1 = snd (handle_cancel_reservation_v201 rid s)" and "s2 = expiry_fires rid s"
  shows "fst (handle_cancel_reservation_v201 rid s) = CancelReservationStatusEnumType.Accepted
    \<and> map_of (cp_connectors s1) cid = Some (cancel_reservation c)
    \<and> cp_commands s1 = cp_commands s @ [EmitConnectorStatus cid ChargePointStatus.Available,
         V201ReservationStatusUpdate rid ReservationUpdateStatusEnumType.Removed]
    \<and> handle_cancel_reservation_v201 rid s1 = (CancelReservationStatusEnumType.Rejected, s1) \<and> expiry_fires rid s1 = s1
    \<and> (map_of (cp_expiry_timers s) rid = Some cid \<longrightarrow>
         map_of (cp_connectors s2) cid = Some (cancel_reservation c)
         \<and> cp_commands s2 = cp_commands s @ [EmitConnectorStatus cid ChargePointStatus.Available,
              V201ReservationStatusUpdate rid ReservationUpdateStatusEnumType.Expired]
         \<and> handle_cancel_reservation_v201 rid s2 = (CancelReservationStatusEnumType.Rejected, s2) \<and> expiry_fires rid s2 = s2)"
proof -
  have rj: "handle_cancel_reservation_v201 rid t = (CancelReservationStatusEnumType.Rejected, t)" if "map_of (cp_reservations t) rid = None" for t
  proof -
    from that have "rid \<notin> fst ` set (cp_reservations t)" by (simp add: map_of_eq_None_iff)
    with that show ?thesis by (simp add: handle_cancel_reservation_v201_def v201_cancel_reservation_status_def)
  qed
  have nt: "expiry_fires rid t = t" if "map_of (cp_expiry_timers t) rid = None" for t
    using that by (simp add: expiry_fires_def)
  have "rid \<in> fst ` set (cp_reservations s)" using assms(3) by (metis map_of_eq_None_iff option.distinct(1))
  then have e1: "s1 = s\<lparr>cp_reservations := AList.delete rid (cp_reservations s), cp_expiry_timers := AList.delete rid (cp_expiry_timers s),
      cp_connectors := AList.map_entry cid cancel_reservation (cp_connectors s),
      cp_commands := cp_commands s @ [EmitConnectorStatus cid ChargePointStatus.Available,
         V201ReservationStatusUpdate rid ReservationUpdateStatusEnumType.Removed]\<rparr>"
    and ok: "fst (handle_cancel_reservation_v201 rid s) = CancelReservationStatusEnumType.Accepted"
    using assms(2-6) by (simp_all add: handle_cancel_reservation_v201_def v201_cancel_reservation_status_def free_reserved_def Let_def
        drop_reservation_def update_connector_def enqueue_def)
  have e2: "s2 = s\<lparr>cp_expiry_timers := AList.delete rid (cp_expiry_timers s), cp_reservations := AList.delete rid (cp_reservations s),
      cp_connectors := AList.map_entry cid cancel_reservation (cp_connectors s),
      cp_commands := cp_commands s @ [EmitConnectorStatus cid ChargePointStatus.Available,
         V201ReservationStatusUpdate rid ReservationUpdateStatusEnumType.Expired]\<rparr>"
    if "map_of (cp_expiry_timers s) rid = Some cid"
    using that assms(1-5,7) by (simp add: expiry_fires_def free_reserved_def Let_def update_connector_def enqueue_def)
  have "map_of (cp_reservations s1) rid = None" "map_of (cp_expiry_timers s1) rid = None" by (simp_all add: e1 delete_conv')
  moreover have "map_of (cp_reservations s2) rid = None \<and> map_of (cp_expiry_timers s2) rid = None
      \<and> map_of (cp_connectors s2) cid = Some (cancel_reservation c)
      \<and> cp_commands s2 = cp_commands s @ [EmitConnectorStatus cid ChargePointStatus.Available,
          V201ReservationStatusUpdate rid ReservationUpdateStatusEnumType.Expired]" if "map_of (cp_expiry_timers s) rid = Some cid"
    using assms(4) by (simp add: e2 [OF that] delete_conv' map_of_map_entry_at)
  moreover have "map_of (cp_connectors s1) cid = Some (cancel_reservation c)"
    "cp_commands s1 = cp_commands s @ [EmitConnectorStatus cid ChargePointStatus.Available,
       V201ReservationStatusUpdate rid ReservationUpdateStatusEnumType.Removed]"
    using assms(4) by (simp_all add: e1 map_of_map_entry_at)
  ultimately show ?thesis using ok rj nt by auto
qed

section \<open>Witnesses\<close>

theorem station_ownership_witness:
  "fst ` set (cp_samplers demo_run) \<subseteq> fst ` set (cp_active_transactions demo_run)
     \<and> map fst (cp_connectors demo_run) = station_ids demo_config201"
  using station_ownership [OF demo_starts_known refl, of demo_env 0] by (simp add: demo_run_def)

theorem boot_sequence_spec_witness:
  "(\<exists>n. boot_outcome demo_env (ChargePoint_new 0 demo_config201) 0 4 n (Ok ())
     (snd (boot_sequence demo_env (ChargePoint_new 0 demo_config201))))
   \<and> fst (boot_sequence demo_env (ChargePoint_new 0 (demo_config201\<lparr>cfg_max_boot_retries := 2 ^ 32 - 1\<rparr>))) = None"
proof -
  have "fst (boot_sequence demo_env (ChargePoint_new 0 demo_config201)) = Some (Ok ())" by code_simp
  then show ?thesis
    using boot_sequence_spec [of demo_env "ChargePoint_new 0 demo_config201" "Some (Ok ())" "snd (boot_sequence demo_env (ChargePoint_new 0 demo_config201))"]
      boot_sequence_spec [of demo_env "ChargePoint_new 0 (demo_config201\<lparr>cfg_max_boot_retries := 2 ^ 32 - 1\<rparr>)", OF prod.collapse [symmetric]]
    by (simp add: ChargePoint_new_def demo_config201_def for_version_def ChargePointConfig_default_def prod_eq_iff)
qed

definition demo_session :: V201Session where
  "demo_session = \<lparr>vs_id_tag = ''tag'', vs_next_seq_no = 3, vs_authorized = False, vs_plug_initiated = False, vs_group_id_token = None,
     vs_charging_state = ChargingStateEnumType.Charging\<rparr>"

definition demo_charging :: charge_point where
  "demo_charging = (ChargePoint_new 0 demo_config201)\<lparr>cp_active_transactions := [(7, ConnectorId 1)], cp_sessions := [(7, demo_session)],
     cp_consumer_running := True, cp_pending_reset := Some ResetType.Soft\<rparr>"

theorem stop_transaction_spec_witness:
  "let s' = snd (cp_stop_transaction demo_env 5 7 100 Reason.Local demo_charging)
   in cp_commands s' = [Reset ResetType.Soft] \<and> cp_pending_reset s' = None \<and> cp_active_transactions s' = []"
proof -
  have "fst (cp_stop_transaction demo_env 5 7 100 Reason.Local demo_charging) = Ok ()" by code_simp
  moreover obtain r s' where rs: "cp_stop_transaction demo_env 5 7 100 Reason.Local demo_charging = (r, s')" by fastforce
  ultimately show ?thesis
    using stop_transaction_spec [of demo_charging 7 "ConnectorId 1" demo_session demo_env 5 100 Reason.Local r s']
    by (simp add: demo_charging_def demo_config201_def for_version_def ChargePoint_new_def stopped_def closed_tx_def
        deferred_commands_def option_list_def Let_def)
qed

lemma demo_answering: "answering demo_env"
  by (simp add: answering_def demo_env_def)

theorem reset_ends_everything_witness:
  "cp_active_transactions (perform_reset demo_env 9 ResetType.Soft (cp_run demo_env demo_steps (ChargePoint_new 0 demo_config201))) = []"
  using reset_ends_everything [OF demo_starts_known demo_answering refl] by simp

theorem plug_then_authorize_witness:
  "fst (plug_in_cable demo_env 1 1 (ChargePoint_new 0 (demo_config201\<lparr>cfg_tx_start_points := [TxStartStopPointEnumType.EVConnected]\<rparr>)))
     = Ok (Opened 1 0)"
  using plug_then_authorize [of demo_env "ChargePoint_new 0 (demo_config201\<lparr>cfg_tx_start_points := [TxStartStopPointEnumType.EVConnected]\<rparr>)" 1 1,
      OF demo_answering _ _ _ _ _ _ refl refl]
  by (simp add: ChargePoint_new_def demo_config201_def for_version_def tx_opens_on_cable_plug_def transaction_where_def)

definition demo_reserved :: charge_point where
  "demo_reserved = (ChargePoint_new 0 demo_config201)\<lparr>cp_reservations := [(3, ConnectorId 1)], cp_expiry_timers := [(3, ConnectorId 1)],
     cp_connectors := [(ConnectorId 1, snd (reserve ''tag'' (Connector_new 0 (new_connector_config 1))))]\<rparr>"

theorem reservation_released_once_witness:
  "handle_cancel_reservation_v201 3 (expiry_fires 3 demo_reserved) = (CancelReservationStatusEnumType.Rejected, expiry_fires 3 demo_reserved)"
  using reservation_released_once [of demo_reserved 3 "ConnectorId 1", OF _ _ _ _ _ refl refl]
  by (simp add: demo_reserved_def ChargePoint_new_def demo_config201_def for_version_def reserve_def Connector_new_def set_status_def send_event_def)

end
