(* ===== verification/Restart.thy ===== *)
theory Restart
  imports Station_Behaviour
begin

text \<open>
  A station that is stopped and started again. \<open>stop\<close> aborts the consumer task, which owns the only receiver of
  the command queue, and \<open>connect\<close> starts a consumer only while there is a receiver to give it. The
  section shows that the queue stays gone in every run after that, and what the CALLs are answered then.
\<close>

section \<open>A queue that is gone\<close>

definition queue_gone :: "charge_point \<Rightarrow> bool" where
  "queue_gone s \<longleftrightarrow> \<not> cp_consumer_alive s \<and> \<not> cp_consumer_running s \<and> cp_commands s = []"

lemma queue_gone_update [simp]:
  "queue_gone (s\<lparr>cp_connectors := a\<rparr>) = queue_gone s" "queue_gone (s\<lparr>cp_active_transactions := b\<rparr>) = queue_gone s"
  "queue_gone (s\<lparr>cp_sessions := c\<rparr>) = queue_gone s" "queue_gone (s\<lparr>cp_next_transaction_id := d\<rparr>) = queue_gone s"
  "queue_gone (s\<lparr>cp_profiles := e\<rparr>) = queue_gone s" "queue_gone (s\<lparr>cp_reservations := f\<rparr>) = queue_gone s"
  "queue_gone (s\<lparr>cp_expiry_timers := g\<rparr>) = queue_gone s" "queue_gone (s\<lparr>cp_samplers := h\<rparr>) = queue_gone s"
  "queue_gone (s\<lparr>cp_pending_reset := i\<rparr>) = queue_gone s" "queue_gone (s\<lparr>cp_pending_availability := j\<rparr>) = queue_gone s"
  "queue_gone (s\<lparr>cp_is_connected := k\<rparr>) = queue_gone s" "queue_gone (s\<lparr>cp_registration := l\<rparr>) = queue_gone s"
  "queue_gone (s\<lparr>cp_heartbeat := m\<rparr>) = queue_gone s" "queue_gone (s\<lparr>cp_sent := n\<rparr>) = queue_gone s"
  by (simp_all add: queue_gone_def)

lemma queue_gone_calls [simp]:
  "queue_gone (send m s) = queue_gone s" "queue_gone (snd (call_ack env m s)) = queue_gone s"
  "queue_gone (snd (call_event env e s)) = queue_gone s"
  "queue_gone (snd (send_status_notification env cid st s)) = queue_gone s"
  "queue_gone (set_connector_status c st s) = queue_gone s" "queue_gone (update_session tid g s) = queue_gone s"
  "queue_gone (stop_meter_sampler tid s) = queue_gone s" "queue_gone (start_meter_sampler now c tid s) = queue_gone s"
  "queue_gone (install_tx_profile c p s) = queue_gone s" "queue_gone (update_connector c h s) = queue_gone s"
  by (simp_all add: send_def call_ack_def call_event_def send_status_notification_def set_connector_status_def
      update_session_def stop_meter_sampler_def start_meter_sampler_def install_tx_profile_def update_connector_def
      split: option.split)

lemma queue_gone_enqueue [simp]: "queue_gone s \<Longrightarrow> enqueue cmds s = s"
  by (simp add: queue_gone_def enqueue_def)

lemma queue_gone_alive [simp]: "queue_gone s \<Longrightarrow> \<not> cp_consumer_alive s"
  by (simp add: queue_gone_def)

lemma queue_gone_and_then:
  "queue_gone (snd r) \<Longrightarrow> (\<And>x s. queue_gone s \<Longrightarrow> queue_gone (snd (f x s))) \<Longrightarrow> queue_gone (snd (and_then r f))"
  by (cases r) (auto simp: and_then_def split: sum.split)

lemma queue_gone_fire [simp]: "queue_gone s \<Longrightarrow> queue_gone (fire_deferred s)"
  by (simp add: fire_deferred_def Let_def split: option.split)

lemma queue_gone_emit: "queue_gone s \<Longrightarrow> queue_gone (snd (emit_transaction_state_change env now evse st trig s))"
  by (auto simp: emit_transaction_state_change_def intro!: queue_gone_and_then split: option.split)

lemma queue_gone_transition: "queue_gone s \<Longrightarrow> queue_gone (snd (transition_charging_state env now evse st s))"
  by (simp add: transition_charging_state_def queue_gone_emit)

lemma queue_gone_plug: "queue_gone s \<Longrightarrow> queue_gone (snd (plug_in_cable env now evse s))"
  by (auto simp: plug_in_cable_def open_transaction_on_cable_plug_def Let_def
      intro!: queue_gone_and_then queue_gone_emit split: option.split)

lemma queue_gone_open:
  "queue_gone s \<Longrightarrow> queue_gone (snd (open_transaction env now cid tag meter remote profile grp s))"
  by (auto simp: open_transaction_def Let_def intro!: queue_gone_and_then
      split: OcppVersion.split sum.split)

lemma queue_gone_energize: "queue_gone s \<Longrightarrow> queue_gone (snd (energize_connector env now cid tid s))"
  by (auto simp: energize_connector_def energize_begin_def Let_def intro!: queue_gone_and_then)

lemma queue_gone_fold: "queue_gone s \<Longrightarrow> queue_gone (snd (fold_authorization_onto_plug_open env now cid tag profile grp s))"
  by (auto simp: fold_authorization_eq fold_event_def intro!: queue_gone_and_then queue_gone_energize split: option.split)

lemma queue_gone_start: "queue_gone s \<Longrightarrow> queue_gone (snd (start_transaction env now cid tag meter s))"
  unfolding start_transaction_def start_transaction_with_remote_start_id_def
  by (auto intro!: queue_gone_and_then queue_gone_fold queue_gone_open queue_gone_energize split: option.split)

lemma queue_gone_stop: "queue_gone s \<Longrightarrow> queue_gone (snd (cp_stop_transaction env now tid meter reason s))"
  by (auto simp: cp_stop_transaction_def close_transaction_def Let_def
      intro!: queue_gone_and_then split: option.split OcppVersion.split)

lemma queue_gone_tick: "queue_gone s \<Longrightarrow> queue_gone (sampler_tick env tid s)"
  by (simp add: sampler_tick_def v16j_sampler_tick_def v201_sampler_tick_def Let_def split: OcppVersion.split option.split)

lemma queue_gone_unbooted: "unbooted s = unbooted t \<Longrightarrow> queue_gone s = queue_gone t"
proof -
  assume *: "unbooted s = unbooted t"
  have "(cp_consumer_alive s, cp_consumer_running s, cp_commands s) = (cp_consumer_alive t, cp_consumer_running t, cp_commands t)"
    using arg_cong [OF *, of cp_consumer_alive] arg_cong [OF *, of cp_consumer_running] arg_cong [OF *, of cp_commands]
    by (simp add: unbooted_def)
  then show ?thesis by (simp add: queue_gone_def)
qed

lemma queue_gone_all_status [simp]: "queue_gone (set_all_status st s) = queue_gone s"
  by (simp add: set_all_status_def)

lemma queue_gone_connect: "queue_gone s \<Longrightarrow> queue_gone (snd (connect env s))"
  by (simp add: connect_def queue_gone_unbooted [OF unbooted_establish])

lemma queue_gone_power_up: "queue_gone s \<Longrightarrow> queue_gone (snd (start_station env s))"
  by (simp add: start_station_def queue_gone_connect)

lemma queue_gone_ends [simp]: "queue_gone (consumer_ends s)"
  by (simp add: consumer_ends_def queue_gone_def)

lemma queue_gone_power_down: "cp_consumer_running s \<or> queue_gone s \<Longrightarrow> queue_gone (stop_station s)"
  unfolding stop_station_def Let_def disconnect_def quiesce_background_tasks_def by auto

lemma queue_gone_starts:
  assumes "queue_gone s"
  shows "queue_gone (snd (handle_remote_start connector tag s))"
    "queue_gone (snd (handle_request_start_v201 evse token remote profile grp s))"
    "queue_gone (snd (handle_remote_stop tid s))" "queue_gone (snd (handle_request_stop_v201 txt s))"
  subgoal using assms by (simp add: handle_remote_start_def split: sum.split)
  subgoal using assms by (simp add: handle_request_start_v201_def Let_def split: option.split RequestStartStopStatusEnumType.split)
  subgoal using assms by (simp add: handle_remote_stop_def)
  subgoal using assms by (simp add: handle_request_stop_v201_def Let_def split: option.split RequestStartStopStatusEnumType.split)
  done

lemma queue_gone_handlers:
  assumes "queue_gone s"
  shows "queue_gone (snd (handle_reset kind s))" "queue_gone (snd (handle_reset_v201 kind' s))"
    "queue_gone (snd (handle_change_availability_v201 evse target s))"
    "queue_gone (snd (handle_unlock n s))" "queue_gone (snd (handle_unlock_v201 evse' n' s))"
    "queue_gone (snd (handle_trigger_message m i s))" "queue_gone (snd (handle_trigger_message_v201 m' i s))"
  subgoal using assms by (simp add: handle_reset_def)
  subgoal using assms by (simp add: handle_reset_v201_def Let_def)
  subgoal using assms by (simp add: handle_change_availability_v201_def Let_def split: ChangeAvailabilityStatusEnumType.split)
  subgoal using assms by (simp add: handle_unlock_def split: sum.split option.split UnlockConnectorOutcome.split)
  subgoal using assms by (simp add: handle_unlock_v201_def Let_def split: option.split UnlockStatusEnumType.split)
  subgoal using assms by (simp add: handle_trigger_message_def)
  subgoal using assms by (simp add: handle_trigger_message_v201_def Let_def)
  done

lemma queue_gone_reservations:
  assumes "queue_gone s"
  shows "queue_gone (snd (handle_reserve_now now rid n expiry tag s))"
    "queue_gone (snd (handle_reserve_now_v201 env now rid evse expiry' token s))"
    "queue_gone (snd (handle_cancel_reservation rid s))" "queue_gone (snd (handle_cancel_reservation_v201 rid s))"
    "queue_gone (expiry_fires rid s)"
  using assms
  by (auto simp: handle_reserve_now_def handle_reserve_now_v201_def take_reservation_def arm_reservation_expiry_def
      handle_cancel_reservation_def handle_cancel_reservation_v201_def expiry_fires_def free_reserved_def drop_reservation_def Let_def
      split: sum.split option.split ChargePointStatus.split ReserveNowStatusEnumType.split)

lemma queue_gone_consume [simp]: "queue_gone s \<Longrightarrow> consume env now s = s"
  by (simp add: consume_def queue_gone_def)

lemmas queue_gone_ops = queue_gone_start queue_gone_stop queue_gone_transition queue_gone_plug queue_gone_tick
  queue_gone_connect queue_gone_power_up queue_gone_power_down queue_gone_starts queue_gone_handlers queue_gone_reservations

lemma queue_gone_exec: "queue_gone s \<Longrightarrow> queue_gone (cp_exec env st s)"
  by (cases st; cases "snd st")
    (auto simp: disconnect_def cp_plug_in_def cp_plug_out_def cp_set_fault_def cp_clear_fault_def cp_set_availability_def
      deauthorize_def intro: queue_gone_ops)

lemma queue_gone_run: "queue_gone s \<Longrightarrow> queue_gone (cp_run env steps s)"
  unfolding cp_run_def by (induction steps arbitrary: s) (simp_all add: queue_gone_exec)

section \<open>After a restart\<close>

text \<open>
  Property C9. A station that ran, was stopped and is started again has lost its command queue for good. In every later
  state, whatever runs and whatever the CSMS answers, nothing is queued and the consumer carries nothing out.
  Remote start and stop, 1.6J and immediate 2.0.1 resets and triggers are refused; an idle reset is refused on an
  idle station and otherwise scheduled for ever; a change of availability is never accepted, only scheduled for ever; an
  unlock that would have to stop a transaction fails. (CALLs that need no queue, such as reservations, are still
  answered; the notifications they would queue are lost.)
\<close>

theorem restart_refuses_commands:
  assumes "cp_consumer_running s" and "s' = cp_run env steps (snd (start_station env (stop_station s)))"
  shows "cp_commands s' = [] \<and> consume env now s' = s'
    \<and> fst (handle_remote_start connector tag s') = RemoteStartStopStatus.Rejected
    \<and> fst (handle_remote_stop tid s') = RemoteStartStopStatus.Rejected
    \<and> fst (handle_reset kind s') = ResetStatus.Rejected
    \<and> fst (handle_trigger_message m i s') \<noteq> TriggerMessageStatus.Accepted
    \<and> fst (fst (handle_request_start_v201 evse token remote profile grp s')) = RequestStartStopStatusEnumType.Rejected
    \<and> fst (handle_request_stop_v201 txt s') = RequestStartStopStatusEnumType.Rejected
    \<and> fst (handle_reset_v201 ResetEnumType.Immediate s') = ResetStatusEnumType.Rejected
    \<and> fst (handle_reset_v201 ResetEnumType.OnIdle s') = (if cp_active_transactions s' = []
         then ResetStatusEnumType.Rejected else ResetStatusEnumType.Scheduled)
    \<and> fst (handle_change_availability_v201 evse target s') \<noteq> ChangeAvailabilityStatusEnumType.Accepted
    \<and> (transaction_where (\<lambda>c. c = ConnectorId e) s' \<noteq> None \<longrightarrow>
         fst (handle_unlock_v201 e n s') \<noteq> UnlockStatusEnumType.Unlocked)
    \<and> fst (handle_trigger_message_v201 m' i s') = TriggerMessageStatusEnumType.Rejected"
proof -
  have gone: "queue_gone s'"
    using assms queue_gone_run queue_gone_power_up queue_gone_power_down by blast
  have "fst (handle_unlock_v201 e n s') \<noteq> UnlockStatusEnumType.Unlocked"
    if "transaction_where (\<lambda>c. c = ConnectorId e) s' \<noteq> None"
  proof (cases "connector_of_evse e")
    case None
    then show ?thesis by (simp add: handle_unlock_v201_def Let_def v201_unlock_status_def)
  next
    case (Some cid)
    then have "cid = ConnectorId e" by (simp add: connector_of_evse_eq)
    with Some that gone show ?thesis
      by (auto simp: handle_unlock_v201_def Let_def v201_unlock_status_def
          split: UnlockStatusEnumType.split UnlockConnectorOutcome.splits if_splits)
  qed
  with gone show ?thesis
    by (auto simp: queue_gone_def handle_remote_start_def handle_remote_stop_def handle_reset_def handle_trigger_message_def
        handle_request_start_v201_def handle_request_stop_v201_def handle_reset_v201_def handle_trigger_message_v201_def
        handle_change_availability_v201_def v201_change_availability_status_def Let_def
        split: sum.splits option.splits RequestStartStopStatusEnumType.splits)
qed

theorem restart_refuses_commands_witness:
  "fst (handle_reset ResetType.Hard (cp_run demo_env [(1, OnTrigger MessageTrigger.Heartbeat None), (2, DoConsume)]
     (snd (start_station demo_env (stop_station demo_charging))))) = ResetStatus.Rejected
   \<and> fst (handle_reset ResetType.Hard demo_charging) = ResetStatus.Accepted"
  using restart_refuses_commands [of demo_charging, OF _ refl, where env = demo_env and kind = ResetType.Hard]
  by (simp add: demo_charging_def ChargePoint_new_def handle_reset_def)

end
