(* ===== verification/Interleavings.thy ===== *)
theory Interleavings
  imports Station_Behaviour
begin

text \<open>
  What can happen at the points where a method waits. The runs of the other theories let every method end before the next
  one begins. Here a stop of the same transaction, by another task, runs while \<open>fold_authorization_onto_plug_open\<close> or
  \<open>energize_connector\<close> waits for the answer of its \<open>StatusNotification\<close>. Neither looks at the transaction again
  when it goes on.
\<close>

lemma answered_begin:
  assumes "answering env"
  shows "energize_begin env cid s = (Ok (), snd (energize_begin env cid s))"
    and "cp_active_transactions (snd (energize_begin env cid s)) = cp_active_transactions s"
    and "cp_config (snd (energize_begin env cid s)) = cp_config s"
  by (simp_all add: energize_begin_def Let_def send_status_eq answeringD(1) [OF assms] set_connector_status_def send_def)

lemma answered_stop_ok:
  assumes "answering env" and "map_of (cp_active_transactions s) tid = Some cid"
  shows "fst (cp_stop_transaction env now tid meter reason s) = Ok ()"
proof -
  obtain t where "close_transaction env now cid tid meter reason s = (Ok (), t)"
    using answered_close(1) [OF assms(1)] by (metis prod.collapse)
  with assms(2) show ?thesis
    by (simp add: cp_stop_transaction_def send_status_eq answeringD(1) [OF assms(1)] Let_def)
qed

lemma not_active_after_stop:
  "answering env \<Longrightarrow> map_of (cp_active_transactions (snd (cp_stop_transaction env now tid meter reason s))) tid = None"
  by (simp add: answered_stop delete_conv')

lemma stop_not_active:
  "map_of (cp_active_transactions s) tid = None \<Longrightarrow> cp_stop_transaction env now tid meter reason s = (Err (OcppError.NotFound []), s)"
  by (simp add: cp_stop_transaction_def)

text \<open>
  Property C11. When a transaction is stopped while \<open>energize_connector\<close> waits for the answer of its \<open>Charging\<close>
  notification, in either dialect and with a CSMS that answers everything, the method goes on to start a meter sampler for
  the transaction that is gone. The sampler belongs to no active transaction, and no later stop reaches it: stopping
  the transaction again is an error and leaves it running.
\<close>

theorem stop_overtakes_energize:
  assumes "answering env" and "map_of (cp_active_transactions s) tid = Some cid"
    and "s1 = snd (energize_begin env cid s)" and "s2 = snd (cp_stop_transaction env t1 tid meter reason s1)"
    and "s3 = start_meter_sampler t2 cid tid s2"
  shows "fst (energize_begin env cid s) = Ok () \<and> fst (cp_stop_transaction env t1 tid meter reason s1) = Ok ()
    \<and> map_of (cp_active_transactions s3) tid = None \<and> map_of (cp_samplers s3) tid \<noteq> None
    \<and> cp_stop_transaction env t3 tid meter' reason' s3 = (Err (OcppError.NotFound []), s3)"
proof -
  have a1: "map_of (cp_active_transactions s1) tid = Some cid"
    using assms(2) by (simp add: assms(3) answered_begin(2) [OF assms(1)])
  have a3: "map_of (cp_active_transactions s3) tid = None"
    using not_active_after_stop [OF assms(1)] by (simp add: assms(4,5) start_meter_sampler_def)
  show ?thesis
    using arg_cong [OF answered_begin(1) [OF assms(1)], of fst] answered_stop_ok [OF assms(1) a1] a3 stop_not_active [OF a3]
    by (simp add: assms(5) start_meter_sampler_def update_conv')
qed

theorem stop_overtakes_energize_witness:
  "let s1 = snd (energize_begin demo_env (ConnectorId 1) demo_charging);
       s2 = snd (cp_stop_transaction demo_env 2 7 0 Reason.Local s1);
       s3 = start_meter_sampler 3 (ConnectorId 1) 7 s2
   in map_of (cp_active_transactions s3) 7 = None \<and> map_of (cp_samplers s3) 7 \<noteq> None"
  using stop_overtakes_energize [of demo_env demo_charging 7 "ConnectorId 1", OF demo_answering _ refl refl refl]
  by (simp add: demo_charging_def Let_def)

section \<open>Folding an authorization\<close>

lemma no_stream_after_ended:
  "te_event_type e = TransactionEventEnumType.Ended \<Longrightarrow> te_event_type u = TransactionEventEnumType.Updated \<Longrightarrow> \<not> stream (es @ [e, u])"
  by (cases es) (auto simp: stream_def open_stream_def append_eq_Cons_conv Cons_eq_append_conv)

lemma answered_fold_authorization_begin:
  assumes "answering env" and "cp_version s = V201" and "transaction_where (\<lambda>c. c = cid) s = Some tid"
    and "map_of (cp_sessions s) tid = Some v" and "vs_plug_initiated v" and "vs_charging_state v = ChargingStateEnumType.EVConnected"
  shows "fold_authorization_begin env cid s = (Ok (PreparingSent tid v), send (status_message V201 (connector_value cid) ChargePointStatus.Preparing) s)"
  using assms(2-) by (simp add: fold_authorization_begin_def send_status_eq answeringD(1) [OF assms(1)])

lemma fire_deferred_sent [simp]: "cp_sent (fire_deferred s) = cp_sent s" "cp_config (fire_deferred s) = cp_config s"
  by (simp_all add: fire_deferred_eq)

lemma answered_stop_session:
  assumes "answering env" and "cp_version s = V201" and "map_of (cp_active_transactions s) tid = Some cid"
    and "map_of (cp_sessions s) tid = Some v"
  shows "cp_sent (snd (cp_stop_transaction env now tid meter reason s)) = cp_sent s @ stop_messages env now cid tid v meter reason"
    and "cp_config (snd (cp_stop_transaction env now tid meter reason s)) = cp_config s"
proof -
  obtain m1 m2 m3 where ms: "stop_messages env now cid tid v meter reason = [m1, m2, m3]" by (simp add: stop_messages_def)
  have "cp_stop_transaction env now tid meter reason s = (Ok (), fire_deferred (stopped cid tid [m1, m2, m3] s))"
    by (simp add: stop_session [OF assms(2-4) ms] answered_close(1) [OF assms(1)] answeringD(1) [OF assms(1)])
  then show "cp_sent (snd (cp_stop_transaction env now tid meter reason s)) = cp_sent s @ stop_messages env now cid tid v meter reason"
    "cp_config (snd (cp_stop_transaction env now tid meter reason s)) = cp_config s"
    by (simp_all add: ms stopped_def)
qed

lemma answered_fold_resume:
  assumes "answering env"
  obtains t where "fold_resume env now cid tid seq tag profile grp s = (Ok (Some tid), t)"
    and "cp_sent t = cp_sent s @ [OutTransactionEvent (transaction_event_state_transition (session_ref tid (connector_value cid)) seq
           TriggerReasonEnumType.Authorized ChargingStateEnumType.Charging (env_to_rfc3339 env now)),
         status_message (cp_version s) (connector_value cid) ChargePointStatus.Charging]"
    and "cp_active_transactions t = cp_active_transactions s" and "map_of (cp_samplers t) tid \<noteq> None"
proof -
  let ?u = "transaction_event_state_transition (session_ref tid (connector_value cid)) seq
           TriggerReasonEnumType.Authorized ChargingStateEnumType.Charging (env_to_rfc3339 env now)"
  obtain r where r: "env_event env (cp_sent s) ?u = Ok r" using answeringD(2) [OF assms] by blast
  define q where "q = install_tx_profile cid profile (update_session tid (\<lambda>v. v\<lparr>vs_charging_state := ChargingStateEnumType.Charging,
      vs_authorized := True, vs_id_tag := tag, vs_group_id_token := grp\<rparr>)
      (send (OutTransactionEvent ?u) (update_session tid claim_seq s)))"
  obtain x t where en: "energize_connector env now cid tid q = (x, t)" by fastforce
  note e = answered_energize [OF assms en]
  have q: "cp_sent q = cp_sent s @ [OutTransactionEvent ?u]" "cp_config q = cp_config s" "cp_active_transactions q = cp_active_transactions s"
    by (simp_all add: q_def install_tx_profile_def update_session_def send_def split: option.split)
  show thesis
  proof (rule that [of t])
    show "fold_resume env now cid tid seq tag profile grp s = (Ok (Some tid), t)"
      using en e(1) r by (simp add: fold_resume_def fold_event_def call_event_def q_def update_session_def)
  qed (simp_all add: e q update_conv')
qed

text \<open>
  Property C10. When a transaction the cable opened is stopped while \<open>fold_authorization_onto_plug_open\<close> waits for the answer of its
  \<open>Preparing\<close> notification, with a CSMS that answers everything, the method goes on with the counter of the
  removed session, which the stop has advanced by one: it sends an \<open>Updated\<close> event after the \<open>Ended\<close> event, so that the
  events of the transaction are no stream any more, and leaves a sampler for a transaction that is not active. All
  three calls succeed.
\<close>

theorem stop_overtakes_authorization:
  assumes "answering env" and "cp_version s = V201" and "transaction_where (\<lambda>c. c = cid) s = Some tid"
    and "map_of (cp_active_transactions s) tid = Some cid" and "map_of (cp_sessions s) tid = Some v"
    and "vs_plug_initiated v" and "vs_charging_state v = ChargingStateEnumType.EVConnected"
    and "s1 = snd (fold_authorization_begin env cid s)" and "s2 = snd (cp_stop_transaction env t1 tid meter reason s1)"
    and "s3 = snd (fold_resume env t2 cid tid (vs_next_seq_no v + 1) tag profile grp s2)"
  shows "fst (fold_authorization_begin env cid s) = Ok (PreparingSent tid v) \<and> fst (cp_stop_transaction env t1 tid meter reason s1) = Ok ()
    \<and> fst (fold_resume env t2 cid tid (vs_next_seq_no v + 1) tag profile grp s2) = Ok (Some tid)
    \<and> (\<exists>e u. events_for tid (cp_sent s3) = events_for tid (cp_sent s) @ [e, u]
         \<and> te_event_type e = TransactionEventEnumType.Ended \<and> te_seq_no e = vs_next_seq_no v
         \<and> te_event_type u = TransactionEventEnumType.Updated \<and> te_seq_no u = vs_next_seq_no v + 1)
    \<and> \<not> stream (events_for tid (cp_sent s3))
    \<and> map_of (cp_active_transactions s3) tid = None \<and> map_of (cp_samplers s3) tid \<noteq> None"
proof -
  have b: "fold_authorization_begin env cid s = (Ok (PreparingSent tid v), send (status_message V201 (connector_value cid) ChargePointStatus.Preparing) s)"
    by (rule answered_fold_authorization_begin [OF assms(1-3,5-7)])
  then have s1: "cp_version s1 = V201" "map_of (cp_active_transactions s1) tid = Some cid" "map_of (cp_sessions s1) tid = Some v"
    using assms(2,4,5) by (simp_all add: assms(8))
  define e where "e = transaction_event_ended (session_ref tid (connector_value cid)) (vs_next_seq_no v)
     (vs_id_tag v) (i32_to_f64 meter) reason (env_to_rfc3339 env t1)"
  define u where "u = transaction_event_state_transition (session_ref tid (connector_value cid)) (vs_next_seq_no v + 1)
           TriggerReasonEnumType.Authorized ChargingStateEnumType.Charging (env_to_rfc3339 env t2)"
  have s2: "cp_version s2 = V201" "map_of (cp_active_transactions s2) tid = None"
    "events_for tid (cp_sent s2) = events_for tid (cp_sent s) @ [e]"
    using answered_stop_session [OF assms(1) s1] not_active_after_stop [OF assms(1), of t1 tid meter reason s1] s1(1)
    by (simp_all add: assms(9) stop_messages_def ended_event_def e_def [symmetric])
      (simp add: assms(8) b e_def transaction_event_defs session_ref_def status_message_def send_def events_for_def event_of_def List.map_filter_def)
  obtain t where r: "fold_resume env t2 cid tid (vs_next_seq_no v + 1) tag profile grp s2 = (Ok (Some tid), t)"
    "cp_sent t = cp_sent s2 @ [OutTransactionEvent u, status_message V201 (connector_value cid) ChargePointStatus.Charging]"
    "cp_active_transactions t = cp_active_transactions s2" "map_of (cp_samplers t) tid \<noteq> None"
    using answered_fold_resume [OF assms(1), of t2 cid tid "vs_next_seq_no v + 1" tag profile grp s2] s2(1) by (metis u_def)
  have "s3 = t" by (simp add: assms(10) r(1))
  have "events_for tid (cp_sent s3) = events_for tid (cp_sent s) @ [e, u]"
    using s2(3) unfolding \<open>s3 = t\<close> r(2)
    by (simp add: u_def transaction_event_defs session_ref_def status_message_def events_for_def event_of_def List.map_filter_def)
  moreover have "te_event_type e = TransactionEventEnumType.Ended \<and> te_seq_no e = vs_next_seq_no v
      \<and> te_event_type u = TransactionEventEnumType.Updated \<and> te_seq_no u = vs_next_seq_no v + 1"
    by (simp add: e_def u_def transaction_event_defs)
  ultimately show ?thesis
    using b answered_stop_ok [OF assms(1) s1(2)] r s2(2) no_stream_after_ended \<open>s3 = t\<close> by auto
qed

definition plugged_session :: V201Session where
  "plugged_session = demo_session\<lparr>vs_next_seq_no := 1, vs_plug_initiated := True, vs_charging_state := ChargingStateEnumType.EVConnected\<rparr>"

definition demo_plugged :: charge_point where
  "demo_plugged = (ChargePoint_new 0 demo_config201)\<lparr>cp_active_transactions := [(7, ConnectorId 1)],
     cp_sessions := [(7, plugged_session)]\<rparr>"

theorem stop_overtakes_authorization_witness:
  "let s1 = snd (fold_authorization_begin demo_env (ConnectorId 1) demo_plugged);
       s2 = snd (cp_stop_transaction demo_env 2 7 0 Reason.Local s1);
       s3 = snd (fold_resume demo_env 3 (ConnectorId 1) 7 2 ''tag'' None None s2)
   in \<not> stream (events_for 7 (cp_sent s3)) \<and> map_of (cp_active_transactions s3) 7 = None"
proof -
  have h: "cp_version demo_plugged = V201" "transaction_where (\<lambda>c. c = ConnectorId 1) demo_plugged = Some 7"
    "map_of (cp_active_transactions demo_plugged) 7 = Some (ConnectorId 1)" "map_of (cp_sessions demo_plugged) 7 = Some plugged_session"
    "vs_plug_initiated plugged_session" "vs_charging_state plugged_session = ChargingStateEnumType.EVConnected"
    "vs_next_seq_no plugged_session + 1 = 2"
    by (simp_all add: demo_plugged_def plugged_session_def demo_session_def transaction_where_def ChargePoint_new_def
        demo_config201_def for_version_def)
  show ?thesis
    using stop_overtakes_authorization [OF demo_answering h(1-6) refl refl refl, of 2 0 Reason.Local 3 "''tag''" None None]
    unfolding h(7) Let_def by blast
qed

end
