(* ===== verification/Spec2Isabelle.thy ===== *)
theory Spec2Isabelle
  imports
    Prelude F64 Types Types201 Datatypes201
    Errors Connector_State_Machine Transactions Connectors
    Auth_Cache Local_List Authorization
    Charging_Profiles Composite Profiles201 Composite201 Device_Model
    Log_Upload Stores201 Commands201 Data_Transfer Configuration Validation Station_Requests Maintenance
    Payload_Shapes Payloads16 Payloads201
    Messages Schema_Validation Dispatcher Pending_Calls Transport Connections Server_Sessions
    Transaction_Events Meter_Sampler Runtime Remote_Commands
    Event_Streams Station_Runs Station_Properties Station_Behaviour
    Restart Interleavings
begin

text \<open>
  Verification of \<open>ocpp-rs\<close>, a charge point for the Open Charge Point Protocol (versions 1.6J and
  2.0.1) written in Rust.

  \<^bold>\<open>The program.\<close> \<open>crates/ocpp-types\<close> holds the wire data, \<open>crates/ocpp-messages\<close> the messages and
  their dispatch, \<open>crates/ocpp-transport\<close> the WebSocket, and \<open>crates/ocpp-cp\<close> the charge point: one
  \<open>Connector\<close> per outlet with its status, its state machine and its current \<open>Transaction\<close>; the
  authorization of id tags from the Local Authorization List, the Authorization Cache and the
  CSMS; the charging profiles the CSMS installs and the composite schedule computed from them; and
  the stores and background tasks of the 2.0.1 commands. The CALLs of the CSMS are handled one at a
  time by closures registered in \<open>lib.rs\<close>; longer work is queued for one command consumer.

  \<^bold>\<open>Theories and sources\<close> (paths under \<open>src/crates\<close>).
  \<^item> \<open>Prelude\<close>: machine integers, results, clocks, hash maps as association lists with distinct
    keys, the locale \<open>keyed_store\<close> (insert, look up, delete, size), the locale \<open>machine\<close>
    (an invariant kept by every command holds after every run), the locale \<open>in_flight_slot\<close>
    (begin, compare-and-clear, clear).
  \<^item> \<open>F64\<close>: binary64 arithmetic: finite values are rationals, rounding is to nearest even, infinities
    and NaN are values of their own; the two zeros are identified.
  \<^item> \<open>Types\<close>, \<open>Types201\<close>, \<open>Datatypes201\<close>: \<open>ocpp-types\<close>: every enumeration with its wire spelling and
    decoder, ids, and the structures as records with the fields of the source.
  \<^item> \<open>Errors\<close>: \<open>ocpp-cp/src/error.rs\<close>. The classification is coherent.
  \<^item> \<open>Connector_State_Machine\<close>: \<open>state_machine.rs\<close>. What \<open>process_event\<close> does on every branch, the
    history as a bounded chain, that charging needs an authorization, reachability of every state,
    and how far \<open>get_valid_events\<close> and the unused transition table agree with the machine.
  \<^item> \<open>Transactions\<close>: \<open>transaction.rs\<close>. Life cycle of a transaction, uniqueness of the ids the manager
    hands out, statistics.
  \<^item> \<open>Connectors\<close>: \<open>connector.rs\<close>. The invariant between status, cable, transaction and reservation,
    the refinement of the state machine, reservations.
  \<^item> \<open>Auth_Cache\<close>, \<open>Local_List\<close>, \<open>Authorization\<close>: \<open>auth_cache.rs\<close>, \<open>local_list.rs\<close> and
    \<open>ChargePoint::authorize\<close>. The cache implements the last write; a list update is all or nothing;
    the decision follows the precedence of the sources and grants only what a source granted.
  \<^item> \<open>Charging_Profiles\<close>, \<open>Composite\<close>: \<open>charging_profiles.rs\<close>, \<open>composite.rs\<close> and their handlers in
    \<open>lib.rs\<close>. Uniqueness and placement of profiles, and that the composite schedule shows the limit
    of the stacking rules at every second of the window.
  \<^item> \<open>Profiles201\<close>: \<open>v201_charging_profiles.rs\<close> (the store), \<open>v201_tx_default_profile.rs\<close>,
    \<open>v201_station_ceiling.rs\<close> and the set, clear and report commands of \<open>v201_command.rs\<close>.
  \<^item> \<open>Composite201\<close>: the rest of \<open>v201_charging_profiles.rs\<close> with the \<open>GetCompositeSchedule\<close> handler and the
    bound of the meter samples. The schedule that is reported is the one that is enforced.
  \<^item> \<open>Device_Model\<close>: \<open>v201_device_model.rs\<close> with its handlers. Writes and reads of variables, the
    inventories, the store of monitors and the stream of \<open>NotifyEvent\<close> messages.
  \<^item> \<open>Log_Upload\<close>: \<open>v201_log_upload.rs\<close> with the \<open>GetLog\<close> handler and the upload task, as a step
    relation in which CALLs and the consumer interleave and the consumer may be stopped.
  \<^item> \<open>Stores201\<close>: certificates, display messages, network profiles, costs, pending certificate
    requests, customer reports, firmware publishing and the firmware rollout.
  \<^item> \<open>Commands201\<close>: the commands on those stores: the decisions of \<open>v201_command.rs\<close>, the handlers of \<open>lib.rs\<close>, the
    consumer that streams their reports, and the paging of reports. Streams run once per request and end while the consumer lives; pages are complete;
    certificates are deleted by the data listed for them.
  \<^item> \<open>Station_Requests\<close>: the 2.0.1 messages the station sends of its own accord. The negotiation of a charging schedule and
    the pairing of a certificate signing request with its delivery.
  \<^item> \<open>Maintenance\<close>: what the consumer of \<open>lib.rs\<close> sends for the device, monitoring and profile reports, the diagnostics upload and
    firmware update of 1.6J, the triggered status notifications, and ClearCache. An accepted report is delivered row by row; a
    triggered status is never the step of a running task.
  \<^item> \<open>Data_Transfer\<close>: \<open>data_transfer.rs\<close>, \<open>v201_data_transfer.rs\<close>. The registry implements "the last handler registered".
  \<^item> \<open>Configuration\<close>, \<open>Validation\<close>: \<open>message_handler.rs\<close> with the configuration handlers of \<open>lib.rs\<close>, and
    \<open>ocpp-messages/src/validation.rs\<close>. What changes of keys keep, and how far the store respects the validator.
  \<^item> \<open>Payload_Shapes\<close>, \<open>Payloads16\<close>, \<open>Payloads201\<close>: \<open>ocpp-messages/src/v16j.rs\<close> and \<open>v201\<close>: every request and
    response as serde writes and reads it, and its JSON schema with every keyword it uses. The verdicts on named formats,
    on multiples and on the text of times are the libraries' and come as the argument \<open>json_formats\<close>. The structures of 2.0.1 agree with
    their schemas up to the limits the types do not have (lengths, item counts, ranges, formats) and up to the values
    the types cannot hold; the ten exceptions of 1.6J are characterised, each with its counterexample.
  \<^item> \<open>Messages\<close>: \<open>ocpp-types/src/error.rs\<close>, \<open>message.rs\<close> and \<open>ocpp-messages/src/serialization.rs\<close>: error
    codes, the object and the array form of the three messages, the serializer and its structure
    check. Round trips of both forms.
  \<^item> \<open>Schema_Validation\<close>: \<open>schema_validation.rs\<close>: the tables of schemas and what the errors of the
    validator become. The validator is the field \<open>jl_validate\<close> of the argument \<open>json_library\<close>.
  \<^item> \<open>Dispatcher\<close>: \<open>dispatcher.rs\<close>, \<open>CpHandler\<close> of \<open>lib.rs\<close> and \<open>dispatch_handler.rs\<close>. The locale
    \<open>replying_handler\<close> is the contract of the receive loops: every CALL gets one readable reply.
  \<^item> \<open>Pending_Calls\<close>, \<open>Transport\<close>: \<open>pending.rs\<close>, the receive loops of \<open>client.rs\<close> and \<open>server.rs\<close> and the
    two \<open>call\<close> functions. Calls are settled once and leave nothing behind, error frames are never
    lost, a reconnecting charge point stays reachable. The last section of this theory composes them.
  \<^item> \<open>Connections\<close>: the rest of \<open>ocpp-transport\<close>: configuration, connection records, envelopes, the rules on frames and
    handshakes, and the ready-made central systems. The id in a URL is read back, retries are bounded, and the age of a
    connection is right as long as the clock runs forward.
  \<^item> \<open>Server_Sessions\<close>: the life of \<open>OcppServer\<close>: start, stop, the tables with the record of each connection, the eviction of
    idle connections and the typed events for a host. It refines the sessions of \<open>Transport\<close>; the eviction goes by the age
    of a connection, not by its traffic.
  \<^item> \<open>Transaction_Events\<close>, \<open>Meter_Sampler\<close>: \<open>v201_transaction.rs\<close> and \<open>meter_sampler.rs\<close>, the builders of the messages
    about a transaction.
  \<^item> \<open>Runtime\<close>, \<open>Remote_Commands\<close>: the running charge point of \<open>lib.rs\<close>: starting and stopping transactions in both dialects,
    samplers, plugging in, boot, reset, life cycle; the handlers of the commands that act on it with their decisions from
    \<open>v201_command.rs\<close>; the command queue and its consumer. The record \<open>environment\<close> is the CSMS and the network: what a call returns is an
    arbitrary function of all messages sent so far. \<open>cp_run\<close> runs a list of steps: methods, CALLs, ticks, timers, the consumer.
  \<^item> \<open>Event_Streams\<close>, \<open>Station_Runs\<close>, \<open>Station_Properties\<close>: the invariant of every run: the 2.0.1 transaction events of a transaction are
    numbered without gap and nothing follows the last one; samplers and sessions belong to active transactions.
  \<^item> \<open>Station_Behaviour\<close>: what stopping, plugging in, booting, resetting, unlocking and reserving achieve.
  \<^item> \<open>Restart\<close>: a station that was stopped and started again has no command queue in any later state, and what its CALLs
    are answered then.
  \<^item> \<open>Interleavings\<close>: a stop that runs while \<open>fold_authorization_onto_plug_open\<close> or \<open>energize_connector\<close> waits for an answer leaves a
    meter sampler behind and sends an event after the last one.

  \<^bold>\<open>Conventions.\<close> An operation is a function from the state to the result and the new state; an
  operation that fails returns the error and the state it leaves behind; where the source can panic (\<open>boot_sequence\<close>) the
  result is an option and a panic is \<open>None\<close>. A method of one store holds the lock of its field throughout, so it is one step. The longer methods of
  the running charge point await answers; in \<open>cp_run\<close> each of them ends before the next one begins, and the texts of the theorems on
  runs say so. For the two methods where a stop in between matters, the parts between the awaits are definitions of their own
  (\<open>energize_begin\<close>, \<open>fold_authorization_begin\<close>, \<open>fold_event\<close>, \<open>fold_resume\<close>) and \<open>Interleavings\<close> composes them with the stop. In
  \<open>Log_Upload\<close> and \<open>Commands201\<close> the CALLs, the consumer and its end interleave. The clock and the answers of the CSMS are
  arguments. \<open>i32\<close>, \<open>u32\<close> and \<open>u64\<close> are words of that width with the wrap-around of a release build;
  \<open>usize\<close> counts are natural numbers. Times are integers (nanoseconds). A \<open>HashMap\<close> is an association
  list with distinct keys, so its iteration order is arbitrary but fixed.

  \<^bold>\<open>Bounds and termination.\<close> No definition uses fuel. The loop over the occurrences of a recurring
  profile (\<open>boundary_offsets\<close>) is a recursive function with a termination proof; the rest is
  structural. Transaction ids are 32-bit and wrap around: the theorem on event streams is about runs with at most \<open>2^32\<close> starts. The bounds of the source are kept: 100 history entries of the state machine, 1000
  meter values and finished transactions, \<open>LocalAuthListMaxLength\<close>.

  \<^bold>\<open>Not modelled.\<close> The sockets themselves and reconnection (asynchronous I/O), the text of JSON and the schema
  validator (third-party libraries), logging, and the conformance harness. Interleavings inside a method of the running charge point other
  than those of \<open>Interleavings\<close> are not modelled. Zeros of \<open>f64\<close> carry no sign. The response builders of
  \<open>v201_command.rs\<close>, which wrap a status in a structure, and the read accessors of \<open>lib.rs\<close> are not definitions of their
  own; the texts of log messages are left out.
\<close>

section \<open>A CALL from end to end\<close>

text \<open>What the caller makes of a reply.\<close>

definition caller_result ::
  "json_library \<Rightarrow> SchemaValidator option \<Rightarrow> 'a decoder \<Rightarrow> string \<Rightarrow> Message \<Rightarrow> (OcppError, 'a) result" where
  "caller_result lib validator dec act reply = (case reply of
      Message.CallResult r \<Rightarrow>
        (case (case validator of Some v \<Rightarrow> validate_call_result lib v act (crm_payload r) | None \<Rightarrow> Ok ()) of
           Inl e \<Rightarrow> Err e
         | Inr _ \<Rightarrow> (case dec (crm_payload r) of Inl e \<Rightarrow> Err (Json e) | Inr x \<Rightarrow> Ok x))
    | Message.CallError e \<Rightarrow> Err (OcppError_from e)
    | Message.Call _ \<Rightarrow> Err (Internal []))"

lemma reply_delivered:
  assumes "pending_inv pm" and "map_of (pm_inner pm) i = Some ch" and "ch \<notin> set (pm_receiver_dropped pm)"
    and "wf_message reply" and "unique_id reply = i" and "message_type reply \<noteq> MessageType.Call"
  shows "fst (call_finish lib v dec i act ch
            (ep_pending (client_receive h (Some (encode_message reply)) (st\<lparr>ep_pending := pm\<rparr>))))
         = caller_result lib v dec act reply"
proof -
  have d: "pm_channels (snd (pm_send i r pm)) ! ch = Delivered r" for r
    using send_delivers [OF assms(1-3)] by blast
  show ?thesis
  proof (cases reply)
    case (Call c) with assms(6) show ?thesis by (simp add: message_type_def)
  next
    case (CallResult r)
    with assms(5) have "crm_unique_id r = i" by (simp add: unique_id_def)
    with CallResult assms(4) d [of "Ok (crm_payload r)"] show ?thesis
      by (simp add: client_receive_def decode_encode_wf call_finish_def pm_resolve_def caller_result_def)
  next
    case (CallError e)
    with assms(5) have "cem_unique_id e = i" by (simp add: unique_id_def)
    with CallError assms(4) d [of "Err (OcppError_from e)"] show ?thesis
      by (simp add: client_receive_def decode_encode_wf call_finish_def pm_reject_def caller_result_def)
  qed
qed

lemma call_begin_Ok:
  assumes "pending_inv pm" and "call_begin lib v True (Ok ()) i act payload pm = (Ok (ch, m), pm')"
  shows "m = Message.Call (CallMessage_with_id i act payload) \<and> pm_register i pm = (ch, pm')"
  using assms by (auto simp: call_begin_def split: sum.splits prod.splits)

text \<open>
  Property C27. A CALL round trip between the two programs: the frame of a CALL the charge point sends
  is read back by the central system, dispatched once, and answered with one frame; that frame
  settles the very call, and the caller gets what the handler of the central system returned (or
  the error it was refused with), validated and decoded.
\<close>

theorem rpc_roundtrip:
  assumes inv: "pending_inv (ep_pending st)" and len: "len \<le> mx"
    and beg: "call_begin lib v True (Ok ()) i act payload (ep_pending st) = (Ok (ch, m), pm)"
    and alive: "ch \<notin> set (pm_receiver_dropped (ep_pending st))"
  shows "let c = CallMessage_with_id i act payload; (res, s', tasks) = dispatch lib' d c (ep_app session) in
    \<exists>session' reply.
      server_receive (infallible (csms_handle_message lib' d)) dec mx cp len (Some (encode_message m)) session = Some session'
      \<and> ep_app session' = s' \<and> ep_sent session' = ep_sent session @ [encode_message reply]
      \<and> reply = (case res of Inr p \<Rightarrow> Message_call_result i p
                 | Inl e \<Rightarrow> build_call_error i e (dispatcher_version d))
      \<and> fst (call_finish lib v rdec i act ch
            (ep_pending (client_receive h (Some (encode_message reply)) (st\<lparr>ep_pending := pm\<rparr>))))
          = caller_result lib v rdec act reply"
proof -
  have m: "m = Message.Call (CallMessage_with_id i act payload)" and reg: "pm_register i (ep_pending st) = (ch, pm)"
    using call_begin_Ok [OF inv beg] by simp_all
  have wf: "wf_message m" by (simp add: m wf_message_def CallMessage_with_id_def)
  have pm: "pending_inv pm" using register_inv [OF inv, of i] reg by simp
  have look: "map_of (pm_inner pm) i = Some ch" "ch \<notin> set (pm_receiver_dropped pm)"
    using register_lookup [OF inv reg] alive by simp_all
  define reply where "reply = (case fst (dispatch lib' d (CallMessage_with_id i act payload) (ep_app session)) of
      Inr p \<Rightarrow> Message_call_result i p | Inl e \<Rightarrow> build_call_error i e (dispatcher_version d))"
  have reply: "wf_message reply" "unique_id reply = i" "message_type reply \<noteq> MessageType.Call"
    by (simp_all add: reply_def split: sum.splits)
  have serve: "csms_handle_message lib' d m (ep_app session)
      = (Some reply, snd (dispatch lib' d (CallMessage_with_id i act payload) (ep_app session)))"
    by (auto simp: csms_handle_message_def m reply_def CallMessage_with_id_def split: prod.splits sum.splits)
  have dec: "classify_frame (Some (encode_message m)) = Some m"
    by (simp add: classify_frame_decode decode_encode_wf [OF wf])
  note fin = reply_delivered [OF pm look reply]
  obtain session' where sr:
    "server_receive (infallible (csms_handle_message lib' d)) dec mx cp len (Some (encode_message m)) session = Some session'"
    "ep_app session' = fst (snd (dispatch lib' d (CallMessage_with_id i act payload) (ep_app session)))"
    "ep_sent session' = ep_sent session @ [encode_message reply]"
    using len serve dec m by (simp add: server_receive_def infallible_def case_prod_beta)
  show ?thesis
    unfolding Let_def case_prod_beta
    using sr fin by (intro exI [of _ session'] exI [of _ reply]) (simp add: reply_def [symmetric])
qed

theorem rpc_roundtrip_witness:
  "let d = on ''Heartbeat'' Ok Ok (\<lambda>p s. (Ok p, Suc s)) ActionDispatcher_new :: (nat, unit) ActionDispatcher;
       st = \<lparr>ep_pending = PendingCallMap_new, ep_app = (), ep_tasks = [], ep_sent = [], ep_received = []\<rparr> :: (unit, unit) endpoint;
       session = \<lparr>ep_pending = PendingCallMap_new, ep_app = 0, ep_tasks = [], ep_sent = [], ep_received = [], cs_events = []\<rparr>
         :: (nat, unit, unit) cp_session;
       (begun, pm) = call_begin accepting_library None True (Ok ()) ''1'' ''Heartbeat'' (JObject []) (ep_pending st)
   in \<exists>m session' frame. begun = Ok (0, m)
        \<and> server_receive (infallible (csms_handle_message accepting_library d)) no_events 100 ''CP'' 10 (Some (encode_message m)) session = Some session'
        \<and> ep_app session' = 1 \<and> ep_sent session' = [frame]
        \<and> fst (call_finish accepting_library None Ok ''1'' ''Heartbeat'' 0
              (ep_pending (client_receive (\<lambda>m s. (Ok None, s, [])) (Some frame) (st\<lparr>ep_pending := pm\<rparr>)))) = Ok (JObject [])"
proof -
  define d :: "(nat, unit) ActionDispatcher" where
    "d = on ''Heartbeat'' Ok Ok (\<lambda>p s. (Ok p, Suc s)) ActionDispatcher_new"
  define st :: "(unit, unit) endpoint" where
    "st = \<lparr>ep_pending = PendingCallMap_new, ep_app = (), ep_tasks = [], ep_sent = [], ep_received = []\<rparr>"
  define session :: "(nat, unit, unit) cp_session" where
    "session = \<lparr>ep_pending = PendingCallMap_new, ep_app = 0, ep_tasks = [], ep_sent = [], ep_received = [], cs_events = []\<rparr>"
  have inv: "pending_inv (ep_pending st)" by (simp add: st_def pending_inv_new)
  obtain pm where beg: "call_begin accepting_library None True (Ok ()) ''1'' ''Heartbeat'' (JObject []) (ep_pending st)
      = (Ok (0, Message.Call (CallMessage_with_id ''1'' ''Heartbeat'' (JObject []))), pm)"
    by (simp add: call_begin_def st_def pm_register_def PendingCallMap_new_def settle_def)
  have alive: "0 \<notin> set (pm_receiver_dropped (ep_pending st))" by (simp add: st_def PendingCallMap_new_def)
  have disp: "dispatch accepting_library d (CallMessage_with_id ''1'' ''Heartbeat'' (JObject [])) (ep_app session)
      = (Ok (JObject []), 1, [])"
    by (simp add: dispatch_def d_def on_def register_def ActionDispatcher_new_def session_def
        CallMessage_with_id_def erase_handler_def)
  note rt = rpc_roundtrip [OF inv _ beg alive, of 10 100 accepting_library d session no_events "''CP''" Ok "\<lambda>m s. (Ok None, s, [])"]
  have sent: "ep_sent session = []" by (simp add: session_def)
  obtain session' where s': "server_receive (infallible (csms_handle_message accepting_library d)) no_events 100 ''CP'' 10
        (Some (encode_message (Message.Call (CallMessage_with_id ''1'' ''Heartbeat'' (JObject []))))) session = Some session'"
    "ep_app session' = 1" "ep_sent session' = [encode_message (Message_call_result ''1'' (JObject []))]"
    "fst (call_finish accepting_library None Ok ''1'' ''Heartbeat'' 0
       (ep_pending (client_receive (\<lambda>m s. (Ok None, s, [])) (Some (encode_message (Message_call_result ''1'' (JObject []))))
         (st\<lparr>ep_pending := pm\<rparr>)))) = Ok (JObject [])"
    using rt by (auto simp: disp sent caller_result_def Message_call_result_def CallResultMessage_new_def)
  then show ?thesis
    unfolding d_def [symmetric] st_def [symmetric] session_def [symmetric] by (simp add: Let_def beg)
qed

end
